(* ===== verification/Voo_Prelude.thy ===== *)
theory Voo_Prelude
  imports Main "HOL-Library.AList"
begin

text \<open>
  Shared vocabulary of the development: Python exceptions as values of \<open>py_error\<close>, a
  computation that may raise as \<open>'a res\<close>, sequencing and guards over it, and the generic
  facts on association lists, tables and results that the component theories use.

  The argument of \<open>ValueError\<close> names the offending field or contract (the English text
  of a message is not modelled); the argument of \<open>PermissionError\<close> is the reason code a
  denial class carries; the argument of \<open>RuntimeError\<close> and \<open>LookupError\<close> is the
  message.  \<open>IntegrityError\<close> stands for \<open>DatabaseIntegrityError\<close>, raised by a
  violated constraint or an aborting trigger.
\<close>

named_theorems init_simps "inversion of field checks without quantifiers"
named_theorems res_simps \<open>inversion and evaluation rules for the result type\<close>

datatype py_error =
    ValueError string
  | PermissionError string
  | RuntimeError string
  | LookupError string
  | TypeError string
  | ContentConflict string
  | CompletionConflict string
  | IntegrityError
  | OverflowError
  | RateLimitExceeded int

type_synonym 'a res = "py_error + 'a"

definition bindE :: "'a res \<Rightarrow> ('a \<Rightarrow> 'b res) \<Rightarrow> 'b res" where
  "bindE m f = (case m of Inl e \<Rightarrow> Inl e | Inr x \<Rightarrow> f x)"

text \<open>\<open>thenE\<close> runs a check and then the rest of the function body.\<close>

definition thenE :: "unit res \<Rightarrow> 'b res \<Rightarrow> 'b res" where
  "thenE m k = (case m of Inl e \<Rightarrow> Inl e | Inr _ \<Rightarrow> k)"

definition guardE :: "bool \<Rightarrow> py_error \<Rightarrow> unit res" where
  "guardE b e = (if b then Inr () else Inl e)"

text \<open>\<open>orRaise\<close> turns a missing row or key into the exception raised for it.\<close>

definition orRaise :: "'a option \<Rightarrow> py_error \<Rightarrow> 'a res" where
  "orRaise v e = (case v of None \<Rightarrow> Inl e | Some x \<Rightarrow> Inr x)"

text \<open>\<open>catchE p m e\<close> is \<open>try: m except p: raise e\<close>.\<close>

definition catchE :: "(py_error \<Rightarrow> bool) \<Rightarrow> 'a res \<Rightarrow> py_error \<Rightarrow> 'a res" where
  "catchE p m e = (case m of Inl x \<Rightarrow> (if p x then Inl e else Inl x) | Inr y \<Rightarrow> Inr y)"

fun is_ValueError :: "py_error \<Rightarrow> bool" where
  "is_ValueError (ValueError _) = True"
| "is_ValueError _ = False"

fun is_IntegrityError :: "py_error \<Rightarrow> bool" where
  "is_IntegrityError IntegrityError = True"
| "is_IntegrityError _ = False"

text \<open>\<open>ContentConflict\<close> models \<open>DispatchInboxContentConflict\<close>, a subclass of
  \<open>PermissionError\<close>.\<close>

fun is_PermissionError :: "py_error \<Rightarrow> bool" where
  "is_PermissionError (PermissionError _) = True"
| "is_PermissionError (ContentConflict _) = True"
| "is_PermissionError _ = False"

text \<open>\<open>except (LookupError, PermissionError, RuntimeError, TypeError, ValueError)\<close>; the conflict
  classes are subclasses of \<open>PermissionError\<close> and \<open>RuntimeError\<close>.\<close>

fun is_authority_error :: "py_error \<Rightarrow> bool" where
  "is_authority_error IntegrityError = False"
| "is_authority_error OverflowError = False"
| "is_authority_error (RateLimitExceeded _) = False"
| "is_authority_error _ = True"

fun for_each :: "('a \<Rightarrow> unit res) \<Rightarrow> 'a list \<Rightarrow> unit res" where
  "for_each f [] = Inr ()"
| "for_each f (x # xs) = thenE (f x) (for_each f xs)"

subsection \<open>Inversion of results\<close>

lemma bindE_Inr [res_simps, simp]: "bindE (Inr x) f = f x"
  by (simp add: bindE_def)

lemma bindE_Inl [res_simps, simp]: "bindE (Inl e) f = Inl e"
  by (simp add: bindE_def)

lemma bindE_eq_Inr [res_simps]: "bindE m f = Inr y \<longleftrightarrow> (\<exists>x. m = Inr x \<and> f x = Inr y)"
  by (cases m) auto

lemma bindE_eq_Inl [res_simps]:
  "bindE m f = Inl e \<longleftrightarrow> m = Inl e \<or> (\<exists>x. m = Inr x \<and> f x = Inl e)"
  by (cases m) auto

lemma thenE_Inr [res_simps, simp]: "thenE (Inr x) k = k"
  by (simp add: thenE_def)

lemma thenE_Inl [res_simps, simp]: "thenE (Inl e) k = Inl e"
  by (simp add: thenE_def)

lemma thenE_eq_Inr [res_simps]: "thenE m k = Inr y \<longleftrightarrow> m = Inr () \<and> k = Inr y"
  by (cases m) auto

lemma thenE_eq_Inl [res_simps]: "thenE m k = Inl e \<longleftrightarrow> m = Inl e \<or> (m = Inr () \<and> k = Inl e)"
  by (cases m) auto

lemma thenE_assoc: "thenE (thenE a b) c = thenE a (thenE b c)"
  by (cases a) auto

lemma guardE_True [simp]: "guardE True e = Inr ()"
  by (simp add: guardE_def)

lemma guardE_False [simp]: "guardE False e = Inl e"
  by (simp add: guardE_def)

lemma guardE_eq_Inr [res_simps]: "guardE b e = Inr u \<longleftrightarrow> b"
  by (simp add: guardE_def)

lemma guardE_eq_Inl [res_simps]: "guardE b e = Inl e' \<longleftrightarrow> \<not> b \<and> e' = e"
  by (auto simp: guardE_def)

lemma orRaise_Some [simp]: "orRaise (Some x) e = Inr x"
  by (simp add: orRaise_def)

lemma orRaise_None [simp]: "orRaise None e = Inl e"
  by (simp add: orRaise_def)

lemma orRaise_eq_Inr [res_simps]: "orRaise v e = Inr x \<longleftrightarrow> v = Some x"
  by (cases v) auto

lemma orRaise_eq_Inl [res_simps]: "orRaise v e = Inl e' \<longleftrightarrow> v = None \<and> e' = e"
  by (cases v) auto

lemma catchE_Inr [simp]: "catchE p (Inr x) e = Inr x"
  by (simp add: catchE_def)

lemma catchE_eq_Inr [res_simps]: "catchE p m e = Inr x \<longleftrightarrow> m = Inr x"
  by (cases m) (auto simp: catchE_def)

lemma for_each_eq_Inr [res_simps]: "for_each f xs = Inr u \<longleftrightarrow> (\<forall>x \<in> set xs. f x = Inr ())"
  by (induction xs) (auto simp: thenE_eq_Inr)

lemma unit_res_cases: "(m :: unit res) = Inr () \<or> (\<exists>e. m = Inl e)"
  by (cases m) auto

subsection \<open>Tables\<close>

text \<open>
  A database table is the list of its rows, oldest first.  \<open>select\<close> is a query on a key
  column; a \<open>UNIQUE\<close> or \<open>PRIMARY KEY\<close> column is one on which the rows are distinct.
\<close>

definition select :: "('r \<Rightarrow> 'k) \<Rightarrow> 'k \<Rightarrow> 'r list \<Rightarrow> 'r option" where
  "select key k rows = List.find (\<lambda>r. key r = k) rows"

definition unique_on :: "('r \<Rightarrow> 'k) \<Rightarrow> 'r list \<Rightarrow> bool" where
  "unique_on key rows \<longleftrightarrow> distinct (map key rows)"

definition key_free :: "('r \<Rightarrow> 'k) \<Rightarrow> 'k \<Rightarrow> 'r list \<Rightarrow> bool" where
  "key_free key k rows \<longleftrightarrow> k \<notin> set (map key rows)"

definition update_where :: "('r \<Rightarrow> bool) \<Rightarrow> ('r \<Rightarrow> 'r) \<Rightarrow> 'r list \<Rightarrow> 'r list" where
  "update_where p f rows = map (\<lambda>r. if p r then f r else r) rows"

lemma select_Some_D: "select key k rows = Some r \<Longrightarrow> r \<in> set rows \<and> key r = k"
  by (auto simp: select_def find_Some_iff)

lemma select_None_iff: "select key k rows = None \<longleftrightarrow> key_free key k rows"
  by (auto simp: select_def find_None_iff key_free_def)

lemma select_unique:
  assumes "unique_on key rows" and "r \<in> set rows"
  shows "select key (key r) rows = Some r"
  using assms
  by (induction rows) (force simp: select_def unique_on_def)+

lemma unique_on_eqI:
  "unique_on key rows \<Longrightarrow> r \<in> set rows \<Longrightarrow> r' \<in> set rows \<Longrightarrow> key r = key r' \<Longrightarrow> r = r'"
  by (auto simp: unique_on_def distinct_map inj_on_def)

lemma select_append:
  "select key k (xs @ ys) = (case select key k xs of None \<Rightarrow> select key k ys | Some r \<Rightarrow> Some r)"
  by (induction xs) (auto simp: select_def)

lemma select_single [simp]: "select key k [r] = (if key r = k then Some r else None)"
  by (simp add: select_def)

lemma unique_filter: "unique_on key rows \<Longrightarrow> unique_on key (filter P rows)"
  by (simp add: unique_on_def distinct_map_filter)

lemma unique_on_snoc:
  "unique_on key (rows @ [r]) \<longleftrightarrow> unique_on key rows \<and> key_free key (key r) rows"
  by (auto simp: unique_on_def key_free_def)

lemma key_free_iff: "key_free key k rows \<longleftrightarrow> (\<forall>r \<in> set rows. key r \<noteq> k)"
  by (auto simp: key_free_def)

lemma set_update_where:
  "set (update_where p f rows) = f ` {r \<in> set rows. p r} \<union> {r \<in> set rows. \<not> p r}"
  by (auto simp: update_where_def)

lemma map_update_where:
  assumes "\<And>r. r \<in> set rows \<Longrightarrow> p r \<Longrightarrow> key (f r) = key r"
  shows "map key (update_where p f rows) = map key rows"
  using assms by (auto simp: update_where_def)

lemma unique_on_update_where:
  assumes "\<And>r. r \<in> set rows \<Longrightarrow> p r \<Longrightarrow> key (f r) = key r"
  shows "unique_on key (update_where p f rows) = unique_on key rows"
proof -
  have "map key (update_where p f rows) = map key rows"
    by (rule map_update_where) (rule assms)
  then show ?thesis by (simp add: unique_on_def)
qed

lemma select_update_where:
  assumes "\<And>r. r \<in> set rows \<Longrightarrow> p r \<Longrightarrow> key (f r) = key r"
  shows "select key k (update_where p f rows) =
           map_option (\<lambda>r. if p r then f r else r) (select key k rows)"
  using assms by (induction rows) (auto simp: select_def update_where_def)

end
