(* ===== verification/Py_Text.thy ===== *)
theory Py_Text
  imports Voo_Prelude "HOL-Library.Char_ord" "HOL-Library.List_Lexorder"
begin

text \<open>
  Python text.  A \<open>str\<close> is a \<open>string\<close>; a character is its code point, so the model
  covers the code points below 256.  The order on \<open>string\<close> (lexicographic on code points)
  is Python's order on \<open>str\<close>.  The theory holds \<open>str.strip\<close>, the stability test under
  \<open>str.casefold\<close>, decimal and hexadecimal digits, and UTF-8 encoding.
\<close>

abbreviation code :: "char \<Rightarrow> nat" where
  "code c \<equiv> of_char c"

definition is_space :: "char \<Rightarrow> bool" where
  "is_space c \<longleftrightarrow> (9 \<le> code c \<and> code c \<le> 13) \<or> (28 \<le> code c \<and> code c \<le> 32)
     \<or> code c = 133 \<or> code c = 160"

definition lstrip :: "string \<Rightarrow> string" where
  "lstrip s = dropWhile is_space s"

definition strip :: "string \<Rightarrow> string" where
  "strip s = rev (lstrip (rev (lstrip s)))"

text \<open>A code point below 256 that \<open>str.casefold\<close> leaves as it is.\<close>

definition casefold_fixed :: "char \<Rightarrow> bool" where
  "casefold_fixed c \<longleftrightarrow> \<not> (65 \<le> code c \<and> code c \<le> 90) \<and> code c \<noteq> 181
     \<and> \<not> (192 \<le> code c \<and> code c \<le> 223 \<and> code c \<noteq> 215)"

definition is_digit :: "char \<Rightarrow> bool" where
  "is_digit c \<longleftrightarrow> 48 \<le> code c \<and> code c \<le> 57"

definition is_hex :: "char \<Rightarrow> bool" where
  "is_hex c \<longleftrightarrow> is_digit c \<or> (97 \<le> code c \<and> code c \<le> 102)"

definition digit :: "nat \<Rightarrow> char" where
  "digit n = char_of (48 + n)"

definition digit_val :: "char \<Rightarrow> nat" where
  "digit_val c = code c - 48"

definition hex_digit :: "nat \<Rightarrow> char" where
  "hex_digit n = (if n < 10 then char_of (48 + n) else char_of (87 + n))"

text \<open>The value of a hexadecimal digit in either case.\<close>

definition hex_val :: "char \<Rightarrow> nat option" where
  "hex_val c =
     (if is_digit c then Some (code c - 48)
      else if 97 \<le> code c \<and> code c \<le> 102 then Some (code c - 87)
      else if 65 \<le> code c \<and> code c \<le> 70 then Some (code c - 55)
      else None)"

fun show_nat :: "nat \<Rightarrow> string" where
  "show_nat n = (if n < 10 then [digit n] else show_nat (n div 10) @ [digit (n mod 10)])"

declare show_nat.simps [simp del]

definition show_int :: "int \<Rightarrow> string" where
  "show_int i = (if i < 0 then CHR ''-'' # show_nat (nat (- i)) else show_nat (nat i))"

text \<open>\<open>read_nat acc s\<close> consumes the leading digits of \<open>s\<close>.\<close>

fun read_nat :: "nat \<Rightarrow> string \<Rightarrow> nat \<times> string" where
  "read_nat acc [] = (acc, [])"
| "read_nat acc (c # cs) =
     (if is_digit c then read_nat (10 * acc + digit_val c) cs else (acc, c # cs))"

text \<open>\<open>s.encode("utf-8")\<close>, as bytes.\<close>

definition utf8_char :: "char \<Rightarrow> nat list" where
  "utf8_char c =
     (if code c < 128 then [code c] else [192 + code c div 64, 128 + code c mod 64])"

definition utf8 :: "string \<Rightarrow> nat list" where
  "utf8 s = concat (map utf8_char s)"

subsection \<open>Characters\<close>

lemma code_less [simp]: "code c < 256"
  by (rule nat_of_char_less_256)

lemma code_char_of [simp]: "n < 256 \<Longrightarrow> code (char_of n) = n"
  by simp

lemma code_inject: "code c = code d \<longleftrightarrow> c = d"
  by simp

lemma is_digit_digit [simp]: "n < 10 \<Longrightarrow> is_digit (digit n)"
  by (simp add: is_digit_def digit_def)

lemma digit_val_digit [simp]: "n < 10 \<Longrightarrow> digit_val (digit n) = n"
  by (simp add: digit_val_def digit_def)

lemma digit_less: "m < 10 \<Longrightarrow> n < 10 \<Longrightarrow> digit m < digit n \<longleftrightarrow> m < n"
  by (simp add: less_char_def digit_def)

lemma digit_inject [simp]: "m < 10 \<Longrightarrow> n < 10 \<Longrightarrow> digit m = digit n \<longleftrightarrow> m = n"
  by (simp add: digit_def flip: code_inject)

lemma is_hex_hex_digit [simp]: "n < 16 \<Longrightarrow> is_hex (hex_digit n)"
  by (auto simp: is_hex_def is_digit_def hex_digit_def)

lemma hex_val_hex_digit [simp]: "n < 16 \<Longrightarrow> hex_val (hex_digit n) = Some n"
  by (auto simp: hex_val_def is_digit_def hex_digit_def)

lemma is_hex_casefold: "is_hex c \<Longrightarrow> casefold_fixed c"
  by (auto simp: is_hex_def is_digit_def casefold_fixed_def)

lemma is_hex_not_space: "is_hex c \<Longrightarrow> \<not> is_space c"
  by (auto simp: is_hex_def is_digit_def is_space_def)

lemma is_hex_not_nul: "is_hex c \<Longrightarrow> c \<noteq> CHR 0x00"
  by (auto simp: is_hex_def is_digit_def)

subsection \<open>Stripping\<close>

lemma lstrip_idem [simp]: "lstrip (lstrip s) = lstrip s"
  by (simp add: lstrip_def)

lemma lstrip_fixed: "s \<noteq> [] \<Longrightarrow> \<not> is_space (hd s) \<Longrightarrow> lstrip s = s"
  by (cases s) (auto simp: lstrip_def)

lemma strip_fixed:
  "s \<noteq> [] \<Longrightarrow> \<not> is_space (hd s) \<Longrightarrow> \<not> is_space (last s) \<Longrightarrow> strip s = s"
  by (simp add: strip_def lstrip_fixed hd_rev)

lemma strip_all_hex: "list_all is_hex s \<Longrightarrow> strip s = s"
proof (cases "s = []")
  case False
  assume "list_all is_hex s"
  then have "is_hex (hd s)" "is_hex (last s)"
    using False by (auto simp: list_all_iff)
  then show ?thesis using False by (simp add: strip_fixed is_hex_not_space)
qed (simp add: strip_def lstrip_def)

lemma lstrip_head: "lstrip s \<noteq> [] \<Longrightarrow> \<not> is_space (hd (lstrip s))"
  using hd_dropWhile by (force simp: lstrip_def)

lemma lstrip_rev_lstrip:
  "lstrip (rev (lstrip (rev (lstrip s)))) = rev (lstrip (rev (lstrip s)))"
proof (cases "lstrip (rev (lstrip s)) = []")
  case True
  then have "rev (lstrip (rev (lstrip s))) = []" by simp
  then show ?thesis by (metis dropWhile.simps(1) lstrip_def)
next
  case False
  define t where "t = lstrip s"
  obtain pre where pre: "rev t = pre @ lstrip (rev t)"
    by (metis lstrip_def takeWhile_dropWhile_id)
  have "t \<noteq> []"
  proof
    assume "t = []"
    then have "lstrip (rev t) = []" by (simp add: lstrip_def)
    with False show False by (simp add: t_def)
  qed
  then have "\<not> is_space (hd t)" by (simp add: t_def lstrip_head)
  moreover have "hd t = last (lstrip (rev t))"
    using pre False \<open>t \<noteq> []\<close> by (metis hd_rev last_appendR rev_rev_ident t_def)
  ultimately show ?thesis
    using False by (simp add: t_def hd_rev lstrip_fixed)
qed

text \<open>Stripping twice is stripping once.\<close>

lemma strip_idem [simp]: "strip (strip s) = strip s"
proof -
  have "lstrip (strip s) = strip s"
    by (simp add: strip_def lstrip_rev_lstrip)
  then show ?thesis by (simp add: strip_def)
qed

subsection \<open>Decimal numbers\<close>

lemma show_nat_not_Nil [simp]: "show_nat n \<noteq> []"
  by (subst show_nat.simps) simp

lemma show_nat_digits: "list_all is_digit (show_nat n)"
proof (induction n rule: show_nat.induct)
  case (1 n)
  then show ?case by (subst show_nat.simps) (simp add: list_all_iff)
qed

lemma hd_show_nat_digit: "is_digit (hd (show_nat n))"
  using show_nat_digits [of n] by (cases "show_nat n") auto

lemma read_nat_show_nat:
  assumes "\<And>c cs. rest = c # cs \<Longrightarrow> \<not> is_digit c"
  shows "read_nat acc (show_nat n @ rest) = (acc * 10 ^ length (show_nat n) + n, rest)"
proof -
  have stop: "read_nat a rest = (a, rest)" for a
    using assms by (cases rest) auto
  have step: "read_nat acc (show_nat n @ zs) = read_nat (acc * 10 ^ length (show_nat n) + n) zs"
    for acc zs
  proof (induction n arbitrary: acc zs rule: show_nat.induct)
    case (1 n)
    show ?case
    proof (cases "n < 10")
      case True
      then show ?thesis by (simp add: show_nat.simps [of n] mult.commute)
    next
      case False
      have "10 * (acc * 10 ^ length (show_nat (n div 10)) + n div 10) + n mod 10 =
          acc * (10 * 10 ^ length (show_nat (n div 10))) + n"
        by (simp add: algebra_simps)
      then show ?thesis
        using 1 False by (simp add: show_nat.simps [of n] algebra_simps)
    qed
  qed
  show ?thesis by (simp add: step stop)
qed

lemma show_nat_zero: "show_nat n = CHR ''0'' # cs \<Longrightarrow> cs = [] \<and> n = 0"
proof (induction n arbitrary: cs rule: show_nat.induct)
  case (1 n)
  show ?case
  proof (cases "n < 10")
    case True
    moreover have "CHR ''0'' = digit 0" by code_simp
    ultimately have "digit n = digit 0" using "1.prems" by (simp add: show_nat.simps [of n])
    then show ?thesis using True "1.prems" by (simp add: show_nat.simps)
  next
    case False
    obtain d ds where ds: "show_nat (n div 10) = d # ds"
      by (cases "show_nat (n div 10)") auto
    then have "d = CHR ''0''" using "1.prems" False by (simp add: show_nat.simps [of n])
    then have "n div 10 = 0" using "1.IH" [OF False] ds by simp
    then show ?thesis using False by simp
  qed
qed

subsection \<open>UTF-8\<close>

lemma utf8_char_not_Nil [simp]: "utf8_char c \<noteq> []"
  by (simp add: utf8_char_def)

lemma utf8_char_prefix:
  assumes "utf8_char c @ xs = utf8_char d @ ys"
  shows "c = d \<and> xs = ys"
proof -
  have split: "64 * (code e div 64) + code e mod 64 = code e" for e by simp
  have small: "192 + code e div 64 \<noteq> code e'" if "code e' < 128" for e e'
    using that by simp
  from assms small [of c d] small [of d c]
  have "code c = code d \<and> xs = ys \<or>
      (code c div 64 = code d div 64 \<and> code c mod 64 = code d mod 64 \<and> xs = ys)"
    by (auto simp: utf8_char_def split: if_splits)
  then have "code c = code d \<and> xs = ys"
    using split [of c] split [of d] by metis
  then show ?thesis by simp
qed

lemma utf8_inject: "utf8 s = utf8 t \<longleftrightarrow> s = t"
proof
  show "utf8 s = utf8 t \<Longrightarrow> s = t"
  proof (induction s arbitrary: t)
    case Nil
    then show ?case by (cases t) (auto simp: utf8_def)
  next
    case (Cons c s)
    then obtain d t' where t: "t = d # t'" by (cases t) (auto simp: utf8_def)
    with Cons.prems have "c = d \<and> utf8 s = utf8 t'"
      by (intro utf8_char_prefix) (simp add: utf8_def)
    with Cons.IH t show ?case by simp
  qed
qed simp

lemma utf8_bytes: "b \<in> set (utf8 s) \<Longrightarrow> b < 256"
proof -
  assume "b \<in> set (utf8 s)"
  then obtain c where c: "b \<in> set (utf8_char c)" by (auto simp: utf8_def)
  have "code c div 64 < 4" using code_less [of c] by linarith
  moreover have "code c mod 64 < 64" by simp
  ultimately show ?thesis using c by (auto simp: utf8_char_def split: if_splits)
qed

end
