(* ===== verification/Py_Json.thy ===== *)
theory Py_Json
  imports Py_Text
begin

text \<open>
  The JSON layer: the values that \<open>json.loads\<close> builds and \<open>json.dumps\<close> prints,
  \<open>canonical_json\<close> of \<open>src/voodoo_product/evidence_primitives.py\<close>, and the decoder
  the persistence services run on stored rows.  A dictionary is the association list of its
  items in insertion order.  Numbers are integers: a literal with a fraction or an exponent, an
  escape of a code point above 255 and the non-finite constants are outside the value domain, and
  the decoder refuses them.

  Main results: the decoder inverts the printer, and \<open>canonical_json\<close> determines the value
  up to the order of dictionary keys.
\<close>

datatype json =
    JNull
  | JBool bool
  | JInt int
  | JStr string
  | JArr "json list"
  | JObj "(string \<times> json) list"

subsection \<open>Printing\<close>

text \<open>The string escapes of \<open>json.dumps(..., ensure_ascii=False)\<close>.\<close>

definition json_escape :: "char \<Rightarrow> string" where
  "json_escape c =
     (if c = CHR 0x22 then [CHR 0x5C, CHR 0x22]
      else if c = CHR 0x5C then [CHR 0x5C, CHR 0x5C]
      else if c = CHR 0x0A then [CHR 0x5C, CHR ''n'']
      else if c = CHR 0x0D then [CHR 0x5C, CHR ''r'']
      else if c = CHR 0x09 then [CHR 0x5C, CHR ''t'']
      else if c = CHR 0x0C then [CHR 0x5C, CHR ''f'']
      else if c = CHR 0x08 then [CHR 0x5C, CHR ''b'']
      else if code c < 32
        then [CHR 0x5C, CHR ''u'', CHR ''0'', CHR ''0'',
              hex_digit (code c div 16), hex_digit (code c mod 16)]
      else [c])"

definition json_quote :: "string \<Rightarrow> string" where
  "json_quote s = CHR 0x22 # concat (map json_escape s) @ [CHR 0x22]"

fun join :: "string list \<Rightarrow> string" where
  "join [] = []"
| "join [x] = x"
| "join (x # xs) = x @ CHR '','' # join xs"

definition print_member :: "string \<times> string \<Rightarrow> string" where
  "print_member m = json_quote (fst m) @ CHR '':'' # snd m"

primrec json_print :: "json \<Rightarrow> string" where
  "json_print JNull = ''null''"
| "json_print (JBool b) = (if b then ''true'' else ''false'')"
| "json_print (JInt i) = show_int i"
| "json_print (JStr s) = json_quote s"
| "json_print (JArr vs) = CHR ''['' # join (map json_print vs) @ [CHR '']'']"
| "json_print (JObj kvs) =
     CHR ''{'' # join (map print_member (map (map_prod id json_print) kvs)) @ [CHR ''}'']"

primrec json_sort :: "json \<Rightarrow> json" where
  "json_sort JNull = JNull"
| "json_sort (JBool b) = JBool b"
| "json_sort (JInt i) = JInt i"
| "json_sort (JStr s) = JStr s"
| "json_sort (JArr vs) = JArr (map json_sort vs)"
| "json_sort (JObj kvs) = JObj (sort_key fst (map (map_prod id json_sort) kvs))"

text \<open>\<open>json.dumps(value, sort_keys=True, separators=(",", ":"), ensure_ascii=False)\<close>.\<close>

definition canonical_json :: "json \<Rightarrow> string" where
  "canonical_json v = json_print (json_sort v)"

text \<open>The keys of every dictionary in the value are distinct, as in a Python \<open>dict\<close>.\<close>

primrec json_wf :: "json \<Rightarrow> bool" where
  "json_wf JNull = True"
| "json_wf (JBool b) = True"
| "json_wf (JInt i) = True"
| "json_wf (JStr s) = True"
| "json_wf (JArr vs) = list_all id (map json_wf vs)"
| "json_wf (JObj kvs) =
     (distinct (map fst kvs) \<and> list_all snd (map (map_prod id json_wf) kvs))"

subsection \<open>Decoding\<close>

definition is_json_ws :: "char \<Rightarrow> bool" where
  "is_json_ws c \<longleftrightarrow> c = CHR '' '' \<or> c = CHR 0x09 \<or> c = CHR 0x0A \<or> c = CHR 0x0D"

definition skip_ws :: "string \<Rightarrow> string" where
  "skip_ws s = dropWhile is_json_ws s"

definition simple_escape :: "char \<Rightarrow> char option" where
  "simple_escape e =
     (if e = CHR 0x22 then Some (CHR 0x22)
      else if e = CHR 0x5C then Some (CHR 0x5C)
      else if e = CHR ''/'' then Some (CHR ''/'')
      else if e = CHR ''n'' then Some (CHR 0x0A)
      else if e = CHR ''r'' then Some (CHR 0x0D)
      else if e = CHR ''t'' then Some (CHR 0x09)
      else if e = CHR ''f'' then Some (CHR 0x0C)
      else if e = CHR ''b'' then Some (CHR 0x08)
      else None)"

definition hex4 :: "char \<Rightarrow> char \<Rightarrow> char \<Rightarrow> char \<Rightarrow> char option" where
  "hex4 a b c d =
     (case (hex_val a, hex_val b, hex_val c, hex_val d) of
        (Some w, Some x, Some y, Some z) \<Rightarrow>
          (let n = 4096 * w + 256 * x + 16 * y + z in if n < 256 then Some (char_of n) else None)
      | _ \<Rightarrow> None)"

definition add_char :: "char \<Rightarrow> (string \<times> string) option \<Rightarrow> (string \<times> string) option" where
  "add_char c r = map_option (map_prod (Cons c) id) r"

text \<open>The body of a string literal after its opening quote: the decoded text and the rest.\<close>

fun json_string :: "string \<Rightarrow> (string \<times> string) option" where
  "json_string [] = None"
| "json_string (c # cs) =
     (if c = CHR 0x22 then Some ([], cs)
      else if c = CHR 0x5C then
        (case cs of
           [] \<Rightarrow> None
         | e # es \<Rightarrow>
             (case simple_escape e of
                Some d \<Rightarrow> add_char d (json_string es)
              | None \<Rightarrow>
                  if e = CHR ''u'' then
                    (case es of
                       w # x # y # z # rest \<Rightarrow>
                         (case hex4 w x y z of
                            Some d \<Rightarrow> add_char d (json_string rest)
                          | None \<Rightarrow> None)
                     | _ \<Rightarrow> None)
                  else None))
      else if code c < 32 then None
      else add_char c (json_string cs))"

definition json_number :: "string \<Rightarrow> (json \<times> string) option" where
  "json_number s =
     (let (neg, ds) = (case s of c # cs \<Rightarrow> if c = CHR ''-'' then (True, cs) else (False, s)
                                | [] \<Rightarrow> (False, []))
      in case ds of
           [] \<Rightarrow> None
         | d # rest \<Rightarrow>
             if d = CHR ''0'' then Some (JInt 0, rest)
             else if is_digit d then
               (let (n, r) = read_nat 0 ds
                in Some (JInt (if neg then - int n else int n), r))
             else None)"

definition strip_prefix :: "string \<Rightarrow> string \<Rightarrow> string option" where
  "strip_prefix p s = (if take (length p) s = p then Some (drop (length p) s) else None)"

lemma length_skip_ws: "length (skip_ws s) \<le> length s"
  by (simp add: skip_ws_def length_dropWhile_le)

lemma length_le_skip_ws: "skip_ws s = d # ds \<Longrightarrow> length ds < length s"
  using length_skip_ws [of s] by simp

lemma json_string_shorter: "json_string s = Some (t, r) \<Longrightarrow> length r < length s"
  by (induction s arbitrary: t r rule: json_string.induct)
    (fastforce simp: add_char_def split: if_splits option.splits list.splits)+

text \<open>
  The recursive descent of the decoder.  \<open>json_elems\<close> reads the elements of a list and
  \<open>json_members\<close> the items of a dictionary, both up to and including the closing bracket.
  The length tests only help the termination proof: \<open>json_value_shorter\<close> shows that they
  always hold.
\<close>

function (sequential) json_value :: "string \<Rightarrow> (json \<times> string) option"
  and json_elems :: "string \<Rightarrow> (json list \<times> string) option"
  and json_members :: "string \<Rightarrow> ((string \<times> json) list \<times> string) option"
where
  "json_value [] = None"
| "json_value (c # cs) =
     (if c = CHR 0x22 then map_option (map_prod JStr id) (json_string cs)
      else if c = CHR ''['' then
        (case skip_ws cs of
           [] \<Rightarrow> None
         | d # ds \<Rightarrow> if d = CHR '']'' then Some (JArr [], ds)
                     else map_option (map_prod JArr id) (json_elems (skip_ws cs)))
      else if c = CHR ''{'' then
        (case skip_ws cs of
           [] \<Rightarrow> None
         | d # ds \<Rightarrow> if d = CHR ''}'' then Some (JObj [], ds)
                     else map_option (map_prod (\<lambda>kvs. JObj (fold (\<lambda>(k, v). AList.update k v) kvs [])) id)
                            (json_members (skip_ws cs)))
      else if c = CHR ''n'' then map_option (\<lambda>r. (JNull, r)) (strip_prefix ''ull'' cs)
      else if c = CHR ''t'' then map_option (\<lambda>r. (JBool True, r)) (strip_prefix ''rue'' cs)
      else if c = CHR ''f'' then map_option (\<lambda>r. (JBool False, r)) (strip_prefix ''alse'' cs)
      else json_number (c # cs))"
| "json_elems s =
     (case json_value s of
        None \<Rightarrow> None
      | Some (v, r) \<Rightarrow>
          (case skip_ws r of
             [] \<Rightarrow> None
           | d # ds \<Rightarrow>
               if d = CHR '']'' then Some ([v], ds)
               else if d = CHR '','' \<and> length ds < length s
                 then map_option (map_prod (Cons v) id) (json_elems (skip_ws ds))
               else None))"
| "json_members s =
     (case s of
        [] \<Rightarrow> None
      | q # qs \<Rightarrow>
          if q \<noteq> CHR 0x22 then None
          else
            (case json_string qs of
               None \<Rightarrow> None
             | Some (k, r) \<Rightarrow>
                 (case skip_ws r of
                    [] \<Rightarrow> None
                  | e # es \<Rightarrow>
                      if e \<noteq> CHR '':'' then None
                      else
                        (case json_value (skip_ws es) of
                           None \<Rightarrow> None
                         | Some (v, r') \<Rightarrow>
                             (case skip_ws r' of
                                [] \<Rightarrow> None
                              | d # ds \<Rightarrow>
                                  if d = CHR ''}'' then Some ([(k, v)], ds)
                                  else if d = CHR '','' \<and> length ds < length s
                                    then map_option (map_prod (Cons (k, v)) id)
                                           (json_members (skip_ws ds))
                                  else None)))))"
  by pat_completeness auto
termination
proof (relation "measure (\<lambda>x. case x of Inl s \<Rightarrow> 2 * length s
                             | Inr (Inl s) \<Rightarrow> 2 * length s + 1
                             | Inr (Inr s) \<Rightarrow> 2 * length s + 1)", goal_cases)
  case (6 s q qs x k r e es)
  then have "length r < length qs" by (metis json_string_shorter)
  moreover have "length es < length r"
    using 6 length_le_skip_ws [of r] by simp
  ultimately show ?case using 6 length_skip_ws [of es] by simp
qed (auto dest: length_le_skip_ws intro: le_less_trans [OF length_skip_ws]
      le_less_trans [OF mult_le_mono2 [OF length_skip_ws]])

declare json_value.simps(2) [simp del] json_elems.simps [simp del] json_members.simps [simp del]

text \<open>\<open>json.loads\<close>; \<open>None\<close> is a \<open>JSONDecodeError\<close>.\<close>

definition json_loads :: "string \<Rightarrow> json option" where
  "json_loads s =
     (case json_value (skip_ws s) of
        None \<Rightarrow> None
      | Some (v, r) \<Rightarrow> if skip_ws r = [] then Some v else None)"

subsection \<open>The decoder consumes input\<close>

lemma json_number_shorter:
  assumes "json_number s = Some (v, r)"
  shows "length r < length s"
proof -
  have rd: "read_nat a t = (n, r) \<Longrightarrow> length r \<le> length t" for a t n r
    by (induction a t rule: read_nat.induct) (auto split: if_splits)
  have "length r < length (d # ds)" if "read_nat 0 (d # ds) = (n, r)" "is_digit d" for d ds n r
    using that rd [of "digit_val d" ds n r] by simp
  then show ?thesis
    using assms
    by (fastforce simp: json_number_def Let_def split: if_splits list.splits prod.splits)
qed

lemma strip_prefix_length: "strip_prefix p s = Some r \<Longrightarrow> length r \<le> length s"
  by (auto simp: strip_prefix_def split: if_splits)

lemma json_elems_cases:
  assumes "json_elems s = Some (vs, r)"
  obtains v r1 d ds where "json_value s = Some (v, r1)" "skip_ws r1 = d # ds"
    "vs = [v] \<and> r = ds
     \<or> (\<exists>vs'. vs = v # vs' \<and> length ds < length s \<and> json_elems (skip_ws ds) = Some (vs', r))"
  using assms by (auto simp: json_elems.simps [of s] split: option.splits list.splits if_splits)

lemma json_members_cases:
  assumes "json_members s = Some (kvs, r)"
  obtains q qs k r1 e es v r2 d ds where "s = q # qs" "json_string qs = Some (k, r1)"
    "skip_ws r1 = e # es" "json_value (skip_ws es) = Some (v, r2)" "skip_ws r2 = d # ds"
    "kvs = [(k, v)] \<and> r = ds
     \<or> (\<exists>kvs'. kvs = (k, v) # kvs' \<and> length ds < length s \<and> json_members (skip_ws ds) = Some (kvs', r))"
  using assms by (auto simp: json_members.simps [of s] split: option.splits list.splits if_splits)

lemma json_value_cases:
  assumes "json_value (c # cs) = Some (v, r)"
  obtains t where "json_string cs = Some (t, r)" "v = JStr t"
  | d ds where "skip_ws cs = d # ds" "r = ds" "v = JArr [] \<or> v = JObj []"
  | d ds vs where "skip_ws cs = d # ds" "json_elems (d # ds) = Some (vs, r)" "v = JArr vs"
  | d ds kvs where "skip_ws cs = d # ds" "json_members (d # ds) = Some (kvs, r)"
      "v = JObj (fold (\<lambda>(k, v). AList.update k v) kvs [])"
  | p where "strip_prefix p cs = Some r" "v = JNull \<or> v = JBool True \<or> v = JBool False"
  | "json_number (c # cs) = Some (v, r)"
  using assms
  by (auto simp: json_value.simps(2) split: if_splits list.splits option.splits)

lemma json_parse_shorter:
  "(\<forall>v r. json_value s = Some (v, r) \<longrightarrow> length r < length s) \<and>
   (\<forall>vs r. json_elems s = Some (vs, r) \<longrightarrow> length r < length s) \<and>
   (\<forall>kvs r. json_members s = Some (kvs, r) \<longrightarrow> length r < length s)"
proof (induction s rule: length_induct)
  case (1 s)
  have IH: "json_value t = Some (v, r) \<Longrightarrow> length r < length t"
    "json_elems t = Some (vs, r) \<Longrightarrow> length r < length t"
    "json_members t = Some (kvs, r) \<Longrightarrow> length r < length t"
    if "length t < length s" for t v vs kvs r
    using 1 that by blast+
  have val: "length r < length s" if "json_value s = Some (v, r)" for v r
  proof (cases s)
    case Nil
    then show ?thesis using that by simp
  next
    case (Cons c cs)
    from that [unfolded Cons] show ?thesis
    proof (cases rule: json_value_cases)
      case (3 d ds vs)
      then show ?thesis
        using IH(2) [of "d # ds" vs r] length_le_skip_ws [of cs d ds] Cons by simp
    next
      case (4 d ds kvs)
      then show ?thesis
        using IH(3) [of "d # ds" kvs r] length_le_skip_ws [of cs d ds] Cons by simp
    qed (use Cons in \<open>auto dest: json_string_shorter length_le_skip_ws strip_prefix_length
        json_number_shorter\<close>)
  qed
  have el: "length r < length s" if "json_elems s = Some (vs, r)" for vs r
    using that
  proof (cases rule: json_elems_cases)
    case (1 v r1 d ds)
    have "length ds < length s" using val [OF 1(1)] length_le_skip_ws [OF 1(2)] by simp
    moreover have "length (skip_ws ds) < length s"
      using calculation length_skip_ws [of ds] by simp
    ultimately show ?thesis using 1(3) IH(2) by (metis order_less_trans)
  qed
  have mem: "length r < length s" if "json_members s = Some (kvs, r)" for kvs r
    using that
  proof (cases rule: json_members_cases)
    case (1 q qs k r1 e es v r2 d ds)
    have es: "length (skip_ws es) < length s"
      using 1 json_string_shorter [OF 1(2)] length_le_skip_ws [OF 1(3)] length_skip_ws [of es]
      by simp
    have "length ds < length s"
      using IH(1) [OF es 1(4)] es length_le_skip_ws [OF 1(5)] by simp
    moreover have "length (skip_ws ds) < length s"
      using calculation length_skip_ws [of ds] by simp
    ultimately show ?thesis using 1(6) IH(3) by (metis order_less_trans)
  qed
  show ?case using val el mem by blast
qed

lemmas json_value_shorter = json_parse_shorter [THEN conjunct1, rule_format]

text \<open>A decoded value has distinct keys in every dictionary: a repeated key overwrites.\<close>

lemma distinct_fold_update:
  "distinct (map fst xs) \<Longrightarrow> distinct (map fst (fold (\<lambda>(k, v). AList.update k v) kvs xs))"
  by (induction kvs arbitrary: xs) (auto simp: distinct_update)

lemma values_fold_update:
  "snd ` set (fold (\<lambda>(k, v). AList.update k v) kvs xs) \<subseteq> snd ` set kvs \<union> snd ` set xs"
proof (induction kvs arbitrary: xs)
  case (Cons kv kvs)
  have "snd ` set (AList.update k v xs) \<subseteq> insert v (snd ` set xs)" for k v
    by (induction xs) auto
  from this [of "fst kv" "snd kv"] show ?case
    using Cons.IH [of "AList.update (fst kv) (snd kv) xs"] by (cases kv) (simp, blast)
qed simp

lemma json_number_wf: "json_number s = Some (v, r) \<Longrightarrow> json_wf v"
  by (auto simp: json_number_def Let_def split: if_splits list.splits prod.splits)

lemma json_parse_wf:
  "(\<forall>v r. json_value s = Some (v, r) \<longrightarrow> json_wf v) \<and>
   (\<forall>vs r. json_elems s = Some (vs, r) \<longrightarrow> list_all json_wf vs) \<and>
   (\<forall>kvs r. json_members s = Some (kvs, r) \<longrightarrow> list_all (json_wf \<circ> snd) kvs)"
proof (induction s rule: length_induct)
  case (1 s)
  have IH: "json_value t = Some (v, r) \<Longrightarrow> json_wf v"
    "json_elems t = Some (vs, r) \<Longrightarrow> list_all json_wf vs"
    "json_members t = Some (kvs, r) \<Longrightarrow> list_all (json_wf \<circ> snd) kvs"
    if "length t < length s" for t v vs kvs r
    using 1 that by blast+
  have val: "json_wf v" if "json_value s = Some (v, r)" for v r
  proof (cases s)
    case Nil
    then show ?thesis using that by simp
  next
    case (Cons c cs)
    from that [unfolded Cons] show ?thesis
    proof (cases rule: json_value_cases)
      case (3 d ds vs)
      then show ?thesis
        using IH(2) [of "d # ds" vs r] length_le_skip_ws [of cs d ds] Cons
        by (simp add: list_all_iff)
    next
      case (4 d ds kvs)
      then have "list_all (json_wf \<circ> snd) kvs"
        using IH(3) [of "d # ds" kvs r] length_le_skip_ws [of cs d ds] Cons by simp
      then have "\<forall>w \<in> snd ` set (fold (\<lambda>(k, v). AList.update k v) kvs []). json_wf w"
        using values_fold_update [of kvs "[]"] by (fastforce simp: list_all_iff)
      then show ?thesis
        using distinct_fold_update [of "[]" kvs] by (fastforce simp: 4(3) list_all_iff)
    qed (auto dest: json_number_wf)
  qed
  have el: "list_all json_wf vs" if "json_elems s = Some (vs, r)" for vs r
    using that
  proof (cases rule: json_elems_cases)
    case (1 v r1 d ds)
    have "length ds < length s"
      using json_value_shorter [OF 1(1)] length_le_skip_ws [OF 1(2)] by simp
    then have "length (skip_ws ds) < length s" using length_skip_ws [of ds] by simp
    then show ?thesis using 1(3) val [OF 1(1)] IH(2) by auto
  qed
  have mem: "list_all (json_wf \<circ> snd) kvs" if "json_members s = Some (kvs, r)" for kvs r
    using that
  proof (cases rule: json_members_cases)
    case (1 q qs k r1 e es v r2 d ds)
    have es: "length (skip_ws es) < length s"
      using 1 json_string_shorter [OF 1(2)] length_le_skip_ws [OF 1(3)] length_skip_ws [of es]
      by simp
    have "length ds < length s"
      using json_value_shorter [OF 1(4)] es length_le_skip_ws [OF 1(5)] by simp
    then have ds: "length (skip_ws ds) < length s" using length_skip_ws [of ds] by simp
    have "json_wf v" using IH(1) [OF es 1(4)] .
    then show ?thesis using 1(6) IH(3) [OF ds] by auto
  qed
  show ?case using val el mem by blast
qed

lemma json_loads_wf: "json_loads s = Some v \<Longrightarrow> json_wf v"
  using json_parse_wf [of "skip_ws s"] by (auto simp: json_loads_def split: option.splits if_splits)

subsection \<open>Decoding what was printed\<close>

lemma json_string_escape: "json_string (json_escape c @ xs) = add_char c (json_string xs)"
proof -
  have zero: "hex_val (CHR ''0'') = Some 0" by (simp add: hex_val_def is_digit_def)
  have "code c div 16 < 16" using code_less [of c] by linarith
  then have "hex_val (hex_digit (code c div 16)) = Some (code c div 16)" by simp
  then have hex: "hex4 (CHR ''0'') (CHR ''0'') (hex_digit (code c div 16)) (hex_digit (code c mod 16)) = Some c"
    by (simp add: hex4_def zero)
  show ?thesis
    by (simp add: json_escape_def simple_escape_def hex)
qed

lemma json_string_quote: "json_string (concat (map json_escape s) @ CHR 0x22 # rest) = Some (s, rest)"
  by (induction s) (simp_all add: json_string_escape add_char_def)

definition delim :: "string \<Rightarrow> bool" where
  "delim rest \<longleftrightarrow> (case rest of [] \<Rightarrow> True | c # _ \<Rightarrow> \<not> is_digit c)"

lemma delim_simps [simp]:
  "delim []" "delim (CHR '','' # r)" "delim (CHR '']'' # r)" "delim (CHR ''}'' # r)"
  by (simp_all add: delim_def is_digit_def)

lemma json_number_show_nat:
  assumes "delim rest"
  shows "json_number (show_nat n @ rest) = Some (JInt (int n), rest)"
    and "0 < n \<Longrightarrow> json_number (CHR ''-'' # show_nat n @ rest) = Some (JInt (- int n), rest)"
proof -
  obtain d ds where d: "show_nat n = d # ds" by (cases "show_nat n") auto
  have dig: "is_digit d" using hd_show_nat_digit [of n] d by simp
  then have minus: "d \<noteq> CHR ''-''" by (auto simp: is_digit_def)
  have zero: "d = CHR ''0'' \<Longrightarrow> ds = [] \<and> n = 0" using d show_nat_zero by simp
  have "read_nat 0 (show_nat n @ rest) = (n, rest)"
    using assms by (subst read_nat_show_nat) (auto simp: delim_def)
  then have rd: "read_nat 0 (d # ds @ rest) = (n, rest)" by (simp add: d)
  show "json_number (show_nat n @ rest) = Some (JInt (int n), rest)"
    using zero minus dig rd by (auto simp: json_number_def d)
  show "0 < n \<Longrightarrow> json_number (CHR ''-'' # show_nat n @ rest) = Some (JInt (- int n), rest)"
    using zero dig rd by (auto simp: json_number_def d)
qed

lemma json_number_show_int:
  "delim rest \<Longrightarrow> json_number (show_int i @ rest) = Some (JInt i, rest)"
  by (simp add: show_int_def json_number_show_nat)

lemma show_int_hd: "\<exists>c cs. show_int i = c # cs \<and> (is_digit c \<or> c = CHR ''-'')"
proof (cases "i < 0")
  case False
  then show ?thesis
    using hd_show_nat_digit [of "nat i"] by (cases "show_nat (nat i)") (auto simp: show_int_def)
qed (simp add: show_int_def)

lemma json_value_number:
  assumes "is_digit c \<or> c = CHR ''-''"
  shows "json_value (c # cs) = json_number (c # cs)"
proof -
  have "c \<notin> {CHR 0x22, CHR ''['', CHR ''{'', CHR ''n'', CHR ''t'', CHR ''f''}"
    using assms by (auto simp: is_digit_def)
  then show ?thesis by (simp add: json_value.simps(2))
qed

lemma json_print_hd:
  "\<exists>c cs. json_print v = c # cs \<and> \<not> is_json_ws c \<and> c \<noteq> CHR '']'' \<and> c \<noteq> CHR ''}''"
proof (cases v)
  case (JInt i)
  then show ?thesis using show_int_hd [of i] by (auto simp: is_json_ws_def is_digit_def)
qed (auto simp: is_json_ws_def json_quote_def)

lemma skip_ws_print [simp]: "skip_ws (json_print v @ rest) = json_print v @ rest"
proof -
  obtain c cs where "json_print v = c # cs" "\<not> is_json_ws c"
    using json_print_hd [of v] by blast
  then show ?thesis by (simp add: skip_ws_def)
qed

lemma skip_ws_delim [simp]:
  "skip_ws (CHR '','' # r) = CHR '','' # r" "skip_ws (CHR '']'' # r) = CHR '']'' # r"
  "skip_ws (CHR ''}'' # r) = CHR ''}'' # r" "skip_ws (CHR '':'' # r) = CHR '':'' # r"
  "skip_ws (CHR 0x22 # r) = CHR 0x22 # r"
  by (simp_all add: skip_ws_def is_json_ws_def)

lemma json_elems_join:
  assumes "\<And>v rest. v \<in> set vs \<Longrightarrow> delim rest \<Longrightarrow> json_value (json_print v @ rest) = Some (v, rest)"
    and "vs \<noteq> []"
  shows "json_elems (join (map json_print vs) @ CHR '']'' # rest) = Some (vs, rest)"
  using assms
proof (induction vs)
  case (Cons v vs)
  show ?case
  proof (cases vs)
    case Nil
    then show ?thesis using Cons.prems by (simp add: json_elems.simps)
  next
    case (Cons w ws)
    let ?tail = "join (map json_print vs) @ CHR '']'' # rest"
    have tail: "json_elems ?tail = Some (vs, rest)"
      using Cons Cons.IH Cons.prems by simp
    have "\<exists>x. ?tail = json_print w @ x" using Cons by (cases ws) auto
    then have ws: "skip_ws ?tail = ?tail" by (metis skip_ws_print)
    have "json_value (json_print v @ CHR '','' # ?tail) = Some (v, CHR '','' # ?tail)"
      using Cons.prems by simp
    then have "json_elems (json_print v @ CHR '','' # ?tail) = Some (v # vs, rest)"
      using tail ws by (subst json_elems.simps) simp
    then show ?thesis using Cons by simp
  qed
qed simp

lemma json_members_join:
  assumes "\<And>k v rest. (k, v) \<in> set kvs \<Longrightarrow> delim rest \<Longrightarrow> json_value (json_print v @ rest) = Some (v, rest)"
    and "kvs \<noteq> []"
  shows "json_members (join (map print_member (map (map_prod id json_print) kvs)) @ CHR ''}'' # rest)
      = Some (kvs, rest)"
  using assms
proof (induction kvs)
  case (Cons kv kvs)
  obtain k v where kv: "kv = (k, v)" by (cases kv)
  let ?pm = "print_member (k, json_print v)"
  have pm: "json_members (?pm @ x) =
      (case skip_ws x of
         [] \<Rightarrow> None
       | d # ds \<Rightarrow>
           if d = CHR ''}'' then Some ([(k, v)], ds)
           else if d = CHR '','' \<and> length ds < length (?pm @ x)
             then map_option (map_prod (Cons (k, v)) id) (json_members (skip_ws ds))
           else None)" if "delim x" for x
    using Cons.prems(1) [of k v x] that
    by (subst json_members.simps) (simp add: kv print_member_def json_quote_def json_string_quote)
  show ?case
  proof (cases kvs)
    case Nil
    then show ?thesis using pm [of "CHR ''}'' # rest"] by (simp add: kv)
  next
    case (Cons kw ws)
    let ?tail = "join (map print_member (map (map_prod id json_print) kvs)) @ CHR ''}'' # rest"
    have tail: "json_members ?tail = Some (kvs, rest)"
    proof (rule Cons.IH)
      show "json_value (json_print v @ rest) = Some (v, rest)"
        if "(k, v) \<in> set kvs" "delim rest" for k v rest
        using Cons.prems(1) [of k v rest] that by simp
    qed (use Cons in simp)
    have "\<exists>x. ?tail = CHR 0x22 # x"
      using Cons by (cases ws) (auto simp: print_member_def json_quote_def)
    then have ws: "skip_ws ?tail = ?tail" by (metis skip_ws_delim(5))
    have "json_members (?pm @ CHR '','' # ?tail) = Some ((k, v) # kvs, rest)"
      using pm [of "CHR '','' # ?tail"] tail ws by simp
    then show ?thesis using Cons by (simp add: kv id_def)
  qed
qed simp

lemma fold_update_distinct:
  "distinct (map fst (xs @ kvs)) \<Longrightarrow> fold (\<lambda>(k, v). AList.update k v) kvs xs = xs @ kvs"
proof (induction kvs arbitrary: xs)
  case (Cons kv kvs)
  have "AList.update k v xs = xs @ [(k, v)]" if "k \<notin> fst ` set xs" for k :: 'a and v :: 'b
    using that by (induction xs) auto
  then show ?case using Cons by (cases kv) auto
qed simp

lemma json_value_print:
  "json_wf v \<Longrightarrow> delim rest \<Longrightarrow> json_value (json_print v @ rest) = Some (v, rest)"
proof (induction v arbitrary: rest)
  case (JInt i)
  obtain c cs where "show_int i = c # cs" "is_digit c \<or> c = CHR ''-''"
    using show_int_hd [of i] by blast
  then show ?case
    using JInt json_number_show_int [of rest i] json_value_number [of c "cs @ rest"] by simp
next
  case (JStr s)
  then show ?case
    by (simp add: json_value.simps(2) json_quote_def json_string_quote)
next
  case (JArr vs)
  show ?case
  proof (cases vs)
    case Nil
    then show ?thesis by (simp add: json_value.simps(2))
  next
    case (Cons w ws)
    let ?tail = "join (map json_print vs) @ CHR '']'' # rest"
    have els: "json_elems ?tail = Some (vs, rest)"
      using JArr Cons by (intro json_elems_join) (auto simp: list_all_iff)
    obtain x where x: "?tail = json_print w @ x" using Cons by (cases ws) auto
    obtain c cs where c: "json_print w = c # cs" "c \<noteq> CHR '']''"
      using json_print_hd [of w] by blast
    have "skip_ws ?tail = c # cs @ x" using x c by (metis append_Cons skip_ws_print)
    then show ?thesis using els x c by (simp add: json_value.simps(2))
  qed
next
  case (JObj kvs)
  show ?case
  proof (cases kvs)
    case Nil
    then show ?thesis by (simp add: json_value.simps(2))
  next
    case (Cons kw ws)
    let ?tail = "join (map print_member (map (map_prod id json_print) kvs)) @ CHR ''}'' # rest"
    have mems: "json_members ?tail = Some (kvs, rest)"
    proof (rule json_members_join)
      fix k v rest'
      assume "(k, v) \<in> set kvs" and "delim rest'"
      then show "json_value (json_print v @ rest') = Some (v, rest')"
        using JObj.IH [of "(k, v)" v rest'] JObj.prems by (force simp: list_all_iff)
    qed (simp add: Cons)
    obtain x where x: "?tail = CHR 0x22 # x"
      using Cons by (cases ws) (auto simp: print_member_def json_quote_def)
    have "fold (\<lambda>(k, v). AList.update k v) kvs [] = kvs"
      using fold_update_distinct [of "[]" kvs] JObj.prems by simp
    then show ?thesis using mems x by (simp add: json_value.simps(2))
  qed
qed (simp_all add: json_value.simps(2) strip_prefix_def)

text \<open>Decoding a printed value gives the value back, key order included.\<close>

lemma json_loads_print:
  assumes "json_wf v"
  shows "json_loads (json_print v) = Some v"
proof -
  have "json_value (json_print v @ []) = Some (v, [])"
    using assms by (intro json_value_print) simp_all
  moreover have "skip_ws (json_print v @ []) = json_print v @ []" by (rule skip_ws_print)
  ultimately show ?thesis by (simp add: json_loads_def skip_ws_def)
qed

lemma map_fst_map_prod_id [simp]: "map fst (map (map_prod id f) kvs) = map fst kvs"
  by simp

lemma distinct_fst_sort [simp]:
  "distinct (map fst (sort_key fst kvs)) = distinct (map fst kvs)"
  by (simp add: distinct_map)

lemma json_wf_sort: "json_wf v \<Longrightarrow> json_wf (json_sort v)"
proof (induction v)
  case (JObj kvs)
  have "distinct (map fst (sort_key fst (map (map_prod id json_sort) kvs)))"
    using JObj.prems by (subst distinct_fst_sort, subst map_fst_map_prod_id) simp
  moreover have "json_wf (json_sort w)" if "(k, w) \<in> set kvs" for k w
    using that JObj by (force simp: list_all_iff)
  ultimately show ?case by (auto simp: list_all_iff)
qed (auto simp: list_all_iff)

lemma json_loads_canonical: "json_wf v \<Longrightarrow> json_loads (canonical_json v) = Some (json_sort v)"
  by (simp add: canonical_json_def json_loads_print json_wf_sort)

lemma canonical_json_inj:
  "json_wf v \<Longrightarrow> json_wf w \<Longrightarrow> canonical_json v = canonical_json w \<longleftrightarrow> json_sort v = json_sort w"
  by (metis canonical_json_def json_loads_canonical option.inject)

subsection \<open>Flat dictionaries\<close>

text \<open>
  The claims that the contracts hash are flat: a dictionary whose values are atoms or lists of
  atoms.  Two flat dictionaries with the same keys have the same canonical text only if
  their items agree.
\<close>

fun is_atom :: "json \<Rightarrow> bool" where
  "is_atom (JArr _) = False"
| "is_atom (JObj _) = False"
| "is_atom _ = True"

fun is_plain :: "json \<Rightarrow> bool" where
  "is_plain (JArr vs) = list_all is_atom vs"
| "is_plain (JObj _) = False"
| "is_plain _ = True"

definition flat :: "(string \<times> json) list \<Rightarrow> bool" where
  "flat kvs \<longleftrightarrow> distinct (map fst kvs) \<and> (\<forall>kv \<in> set kvs. is_plain (snd kv))"

lemma atom_fixed: "is_atom v \<Longrightarrow> json_sort v = v \<and> json_wf v"
  by (cases v) auto

lemma json_sort_plain: "is_plain v \<Longrightarrow> json_sort v = v"
  by (cases v) (auto simp: list_all_iff atom_fixed intro: map_idI)

lemma json_wf_plain: "is_plain v \<Longrightarrow> json_wf v"
  by (cases v) (auto simp: list_all_iff atom_fixed)

lemma atoms_JStr [simp]: "list_all is_atom (map JStr xs)"
  by (simp add: list_all_iff)

lemma map_JStr_eq [simp]: "map JStr xs = map JStr ys \<longleftrightarrow> xs = ys"
  by (rule inj_map_eq_map) (simp add: inj_def)

lemma flat_wf: "flat kvs \<Longrightarrow> json_wf (JObj kvs)"
  by (auto simp: flat_def list_all_iff json_wf_plain)

lemma flat_sort: "flat kvs \<Longrightarrow> json_sort (JObj kvs) = JObj (sort_key fst kvs)"
proof -
  assume "flat kvs"
  then have "map (map_prod id json_sort) kvs = kvs"
    by (auto simp: flat_def json_sort_plain intro!: map_idI)
  then show ?thesis by simp
qed

lemma map_of_sort: "distinct (map fst kvs) \<Longrightarrow> map_of (sort_key fst kvs) = map_of kvs"
proof -
  assume d: "distinct (map fst kvs)"
  then have "map_of (sort_key fst kvs) k = Some v \<longleftrightarrow> map_of kvs k = Some v" for k v
    by (simp add: map_of_eq_Some_iff)
  then show ?thesis by (metis ext option.exhaust)
qed

lemma map_of_eq_same_keys:
  assumes "map fst xs = map fst ys" and "distinct (map fst xs)" and "map_of xs = map_of ys"
  shows "xs = ys"
proof (rule nth_equalityI)
  show len: "length xs = length ys" using assms(1) by (metis length_map)
  fix i assume i: "i < length xs"
  obtain k v where xi: "xs ! i = (k, v)" by (cases "xs ! i")
  obtain k' w where yi: "ys ! i = (k', w)" by (cases "ys ! i")
  have "k = k'" using assms(1) i len xi yi by (metis fst_conv nth_map)
  moreover have "map_of xs k = Some v"
    using assms(2) i xi by (metis map_of_eq_Some_iff nth_mem)
  moreover have "map_of ys k' = Some w"
    using assms(1,2) i len yi by (metis map_of_eq_Some_iff nth_mem)
  ultimately show "xs ! i = ys ! i" using assms(3) xi yi by simp
qed

lemma canonical_json_flat_inj:
  assumes "flat xs" and "flat ys" and "map fst xs = map fst ys"
    and "canonical_json (JObj xs) = canonical_json (JObj ys)"
  shows "xs = ys"
proof -
  have "sort_key fst xs = sort_key fst ys"
    using assms canonical_json_inj [of "JObj xs" "JObj ys"] flat_wf flat_sort by simp
  then have "map_of xs = map_of ys"
    using assms(1,2) map_of_sort by (metis flat_def)
  moreover have "distinct (map fst xs)" using assms(1) by (simp add: flat_def)
  ultimately show ?thesis using assms(3) by (intro map_of_eq_same_keys)
qed

lemma json_loads_flat:
  "flat kvs \<Longrightarrow> json_loads (canonical_json (JObj kvs)) = Some (JObj (sort_key fst kvs))"
  by (simp add: json_loads_canonical flat_wf flat_sort del: json_sort.simps json_wf.simps)

lemma canonical_json_flat_sorted:
  assumes "flat kvs"
  shows "canonical_json (JObj (sort_key fst kvs)) = canonical_json (JObj kvs)"
proof -
  have "flat (sort_key fst kvs)" using assms by (simp add: flat_def)
  then have "json_sort (JObj (sort_key fst kvs)) = JObj (sort_key fst (sort_key fst kvs))"
    by (rule flat_sort)
  also have "\<dots> = json_sort (JObj kvs)"
    using flat_sort [OF assms] by (simp add: sort_key_id_if_sorted del: json_sort.simps)
  finally show ?thesis by (simp add: canonical_json_def del: json_sort.simps)
qed

end
