(* ===== verification/Iso_Time.thy ===== *)
theory Iso_Time
  imports Py_Text
begin

text \<open>
  UTC instants and their canonical text.  Every timestamp of the trust plane is stored as
  \<open>datetime.isoformat(timespec="milliseconds")\<close> in UTC and is accepted only in exactly that
  form.  The theory models the part of \<open>datetime\<close> this uses: the calendar, the canonical
  text, its reader, addition of a number of seconds, and comparison of instants.  It proves that
  reading inverts printing and that comparing two canonical texts as strings, as the lease service
  and the database triggers do, is comparing the instants.
\<close>

record utc_time =
  year :: nat
  month :: nat
  day :: nat
  hour :: nat
  minute :: nat
  second :: nat
  microsecond :: nat

definition is_leap :: "nat \<Rightarrow> bool" where
  "is_leap y \<longleftrightarrow> 4 dvd y \<and> (\<not> 100 dvd y \<or> 400 dvd y)"

definition days_in_month :: "nat \<Rightarrow> nat \<Rightarrow> nat" where
  "days_in_month y m =
     (if m = 2 then (if is_leap y then 29 else 28)
      else if m = 4 \<or> m = 6 \<or> m = 9 \<or> m = 11 then 30
      else 31)"

definition valid_date :: "nat \<times> nat \<times> nat \<Rightarrow> bool" where
  "valid_date = (\<lambda>(y, m, d). 1 \<le> y \<and> 1 \<le> m \<and> m \<le> 12 \<and> 1 \<le> d \<and> d \<le> days_in_month y m)"

text \<open>The range checks of the \<open>datetime\<close> constructor.\<close>

definition valid_time :: "utc_time \<Rightarrow> bool" where
  "valid_time t \<longleftrightarrow> valid_date (year t, month t, day t) \<and> year t \<le> 9999
     \<and> hour t < 24 \<and> minute t < 60 \<and> second t < 60 \<and> microsecond t < 1000000"

fun pad :: "nat \<Rightarrow> nat \<Rightarrow> string" where
  "pad 0 n = []"
| "pad (Suc k) n = pad k (n div 10) @ [digit (n mod 10)]"

definition num :: "string \<Rightarrow> nat" where
  "num s = foldl (\<lambda>a c. 10 * a + digit_val c) 0 s"

text \<open>\<open>t.isoformat(timespec="milliseconds")\<close> for a UTC value.\<close>

definition iso_ms :: "utc_time \<Rightarrow> string" where
  "iso_ms t =
     pad 4 (year t) @ CHR ''-'' # pad 2 (month t) @ CHR ''-'' # pad 2 (day t) @ CHR ''T'' #
     pad 2 (hour t) @ CHR '':'' # pad 2 (minute t) @ CHR '':'' # pad 2 (second t) @ CHR ''.'' #
     pad 3 (microsecond t div 1000) @ ''+00:00''"

definition read_iso :: "string \<Rightarrow> utc_time" where
  "read_iso s =
     \<lparr>year = num (take 4 s), month = num (take 2 (drop 5 s)), day = num (take 2 (drop 8 s)),
      hour = num (take 2 (drop 11 s)), minute = num (take 2 (drop 14 s)),
      second = num (take 2 (drop 17 s)), microsecond = 1000 * num (take 3 (drop 20 s))\<rparr>"

text \<open>
  The instant of a text in canonical UTC millisecond form, \<open>None\<close> for every other text: the
  text is parsed, formatted again and compared, as \<open>_require_timestamp\<close> does.
\<close>

definition canonical_time :: "string \<Rightarrow> utc_time option" where
  "canonical_time s =
     (let t = read_iso s in if valid_time t \<and> iso_ms t = s then Some t else None)"

definition next_day :: "nat \<times> nat \<times> nat \<Rightarrow> nat \<times> nat \<times> nat" where
  "next_day = (\<lambda>(y, m, d).
     if d < days_in_month y m then (y, m, Suc d)
     else if m < 12 then (y, Suc m, 1)
     else (Suc y, 1, 1))"

text \<open>\<open>t + timedelta(seconds=n)\<close>; a result after year 9999 raises \<open>OverflowError\<close>.\<close>

definition add_seconds :: "utc_time \<Rightarrow> nat \<Rightarrow> utc_time res" where
  "add_seconds t n =
     (let total = hour t * 3600 + minute t * 60 + second t + n;
          sod = total mod 86400;
          (y, m, d) = (next_day ^^ (total div 86400)) (year t, month t, day t)
      in if y > 9999 then Inl OverflowError
         else Inr (t\<lparr>year := y, month := m, day := d, hour := sod div 3600,
                    minute := sod mod 3600 div 60, second := sod mod 60\<rparr>))"

text \<open>The ordinal of a date and the microseconds of an instant on the proleptic Gregorian scale.\<close>

definition days_before_year :: "nat \<Rightarrow> int" where
  "days_before_year y =
     int (365 * (y - 1)) + int ((y - 1) div 4) - int ((y - 1) div 100) + int ((y - 1) div 400)"

definition days_before_month :: "nat \<Rightarrow> nat \<Rightarrow> int" where
  "days_before_month y m = int (sum_list (map (days_in_month y) [1..<m]))"

definition ordinal :: "nat \<times> nat \<times> nat \<Rightarrow> int" where
  "ordinal = (\<lambda>(y, m, d). days_before_year y + days_before_month y m + int d)"

definition instant :: "utc_time \<Rightarrow> int" where
  "instant t = 1000000 * (86400 * ordinal (year t, month t, day t)
     + int (hour t * 3600 + minute t * 60 + second t)) + int (microsecond t)"

text \<open>Truncation to milliseconds, the precision the canonical text keeps.\<close>

definition trunc_ms :: "utc_time \<Rightarrow> utc_time" where
  "trunc_ms t = t\<lparr>microsecond := 1000 * (microsecond t div 1000)\<rparr>"

subsection \<open>Fixed-width decimals\<close>

lemma length_pad [simp]: "length (pad k n) = k"
  by (induction k arbitrary: n) auto

lemma num_snoc: "num (s @ [c]) = 10 * num s + digit_val c"
  by (simp add: num_def)

lemma num_pad: "n < 10 ^ k \<Longrightarrow> num (pad k n) = n"
proof (induction k arbitrary: n)
  case (Suc k)
  then have "n div 10 < 10 ^ k" by (simp add: less_mult_imp_div_less mult.commute)
  then show ?case using Suc.IH by (simp add: num_snoc)
qed (simp add: num_def)

lemma pad_inject: "m < 10 ^ k \<Longrightarrow> n < 10 ^ k \<Longrightarrow> pad k m = pad k n \<longleftrightarrow> m = n"
  by (metis num_pad)

lemma append_less_iff:
  fixes a b x y :: string
  assumes "length a = length b"
  shows "a @ x < b @ y \<longleftrightarrow> a < b \<or> a = b \<and> x < y"
  using assms by (induction a b rule: list_induct2) auto

lemma lex_digits:
  "(m::nat) = 10 * a + b \<Longrightarrow> n = 10 * c + d \<Longrightarrow> b < 10 \<Longrightarrow> d < 10 \<Longrightarrow>
     m < n \<longleftrightarrow> a < c \<or> a = c \<and> b < d"
  by linarith

lemma pad_less: "m < 10 ^ k \<Longrightarrow> n < 10 ^ k \<Longrightarrow> pad k m < pad k n \<longleftrightarrow> m < n"
proof (induction k arbitrary: m n)
  case (Suc k)
  then have b: "m div 10 < 10 ^ k" "n div 10 < 10 ^ k"
    by (simp_all add: less_mult_imp_div_less mult.commute)
  have "m < n \<longleftrightarrow> m div 10 < n div 10 \<or> m div 10 = n div 10 \<and> m mod 10 < n mod 10"
    by (rule lex_digits) simp_all
  then show ?case
    using b Suc.IH by (simp add: append_less_iff pad_inject digit_less)
qed simp

subsection \<open>Canonical text\<close>

lemma valid_time_bounds:
  assumes "valid_time t"
  shows "year t < 10 ^ 4" "month t < 10 ^ 2" "day t < 10 ^ 2" "hour t < 10 ^ 2"
    "minute t < 10 ^ 2" "second t < 10 ^ 2" "microsecond t div 1000 < 10 ^ 3"
  using assms
  by (auto simp: valid_time_def valid_date_def days_in_month_def split: if_splits)

lemma valid_trunc [simp]: "valid_time (trunc_ms t) = valid_time t"
proof -
  have "microsecond t div 1000 < 1000 \<longleftrightarrow> microsecond t < 1000 * 1000"
    by (rule div_less_iff_less_mult) simp
  then have "1000 * (microsecond t div 1000) < 1000000 \<longleftrightarrow> microsecond t < 1000000" by linarith
  then show ?thesis by (simp add: valid_time_def trunc_ms_def)
qed

lemma iso_ms_trunc [simp]: "iso_ms (trunc_ms t) = iso_ms t"
  by (simp add: iso_ms_def trunc_ms_def)

lemma read_iso_iso_ms:
  assumes "valid_time t"
  shows "read_iso (iso_ms t) = trunc_ms t"
proof -
  have [simp]: "take k (pad k n @ x) = pad k n" for k n x by simp
  show ?thesis
    using valid_time_bounds [OF assms]
    by (simp add: read_iso_def iso_ms_def trunc_ms_def num_pad)
qed

text \<open>The reader inverts the printer up to the truncation to milliseconds.\<close>

lemma canonical_time_iso_ms: "valid_time t \<Longrightarrow> canonical_time (iso_ms t) = Some (trunc_ms t)"
  by (simp add: canonical_time_def read_iso_iso_ms)

lemma canonical_time_Some:
  assumes "canonical_time s = Some t"
  shows "iso_ms t = s" "valid_time t" "trunc_ms t = t"
proof -
  from assms show iso: "iso_ms t = s" and "valid_time t"
    by (auto simp: canonical_time_def Let_def split: if_splits)
  then show "trunc_ms t = t"
    using assms read_iso_iso_ms [of t] by (auto simp: canonical_time_def Let_def split: if_splits)
qed

subsection \<open>The calendar\<close>

lemma days_in_month_pos: "1 \<le> days_in_month y m"
  by (simp add: days_in_month_def)

lemma div_pred:
  assumes "0 < k"
  shows "Suc y div k = y div k + (if k dvd Suc y then 1 else 0)"
  using assms by (simp add: div_Suc dvd_eq_mod_eq_0)

lemma leap_count:
  fixes i4 :: int
  assumes "i4 = j4 + (if A then 1 else 0)" "i100 = j100 + (if B then 1 else 0)"
    "i400 = j400 + (if C then 1 else 0)" "C \<Longrightarrow> B" "B \<Longrightarrow> A"
  shows "i4 - i100 + i400 = j4 - j100 + j400 + (if A \<and> (\<not> B \<or> C) then 1 else 0)"
  using assms by auto

lemma days_before_year_Suc:
  assumes "1 \<le> y"
  shows "days_before_year (Suc y) = days_before_year y + (if is_leap y then 366 else 365)"
proof -
  obtain z where y: "y = Suc z" using assms by (cases y) auto
  have q: "int (y div k) = int (z div k) + (if k dvd y then 1 else 0)" if "0 < k" for k
    unfolding y div_pred [OF that, of z] by (simp only: of_nat_add if_distrib [of int] of_nat_1 of_nat_0)
  have d: "100 dvd y" if "400 dvd y" by (rule dvd_trans [OF _ that]) simp
  have e: "4 dvd y" if "100 dvd y" by (rule dvd_trans [OF _ that]) simp
  have "int (y div 4) - int (y div 100) + int (y div 400) =
      int (z div 4) - int (z div 100) + int (z div 400) + (if is_leap y then 1 else 0)"
    unfolding is_leap_def by (rule leap_count) (use q d e in simp_all)
  moreover have "Suc y - 1 = y" "y - 1 = z" "int (365 * y) = int (365 * z) + 365"
    using y by simp_all
  ultimately show ?thesis
    unfolding days_before_year_def by (cases "is_leap y") simp_all
qed

lemma days_before_month_Suc:
  "1 \<le> m \<Longrightarrow> days_before_month y (Suc m) = days_before_month y m + int (days_in_month y m)"
  by (simp add: days_before_month_def)

lemma days_before_month_13:
  "days_before_month y 13 = (if is_leap y then 366 else 365)"
proof -
  have "[1..<13] = [1, 2, 3, 4, 5, 6, 7, 8, 9, 10, 11, 12::nat]" by (simp add: upt_rec)
  then show ?thesis by (simp add: days_before_month_def days_in_month_def)
qed

lemma days_before_month_1 [simp]: "days_before_month y (Suc 0) = 0"
  by (simp add: days_before_month_def)

lemma days_before_month_mono:
  assumes "1 \<le> m" and "m \<le> n"
  shows "days_before_month y m \<le> days_before_month y n"
  using assms(2)
proof (induction n rule: dec_induct)
  case (step n)
  then show ?case using assms(1) by (simp add: days_before_month_Suc)
qed simp

lemma days_before_year_mono:
  assumes "1 \<le> x" and "x \<le> y"
  shows "days_before_year x \<le> days_before_year y"
  using assms(2)
proof (induction y rule: dec_induct)
  case (step n)
  then show ?case using assms(1) by (simp add: days_before_year_Suc)
qed simp

lemma valid_next_day: "valid_date dt \<Longrightarrow> valid_date (next_day dt)"
  using days_in_month_pos
  by (cases dt) (auto simp: valid_date_def next_day_def)

lemma ordinal_next_day:
  assumes "valid_date dt"
  shows "ordinal (next_day dt) = ordinal dt + 1"
proof -
  obtain y m d where dt: "dt = (y, m, d)" by (cases dt) auto
  have v: "1 \<le> y" "1 \<le> m" "m \<le> 12" "d \<le> days_in_month y m"
    using assms by (auto simp: dt valid_date_def)
  consider "d < days_in_month y m" | "d = days_in_month y m" "m < 12" | "d = days_in_month y m" "m = 12"
    using v by linarith
  then show ?thesis
  proof cases
    case 3
    have "days_before_month y 12 + int d = days_before_month y 13"
      using days_before_month_Suc [of 12 y] 3 by simp
    then show ?thesis
      using 3 v by (simp add: dt next_day_def ordinal_def days_before_year_Suc days_before_month_13)
  qed (use v in \<open>simp_all add: dt next_day_def ordinal_def days_before_month_Suc\<close>)
qed

lemma next_day_pow:
  "valid_date dt \<Longrightarrow> valid_date ((next_day ^^ k) dt) \<and> ordinal ((next_day ^^ k) dt) = ordinal dt + int k"
  by (induction k) (auto simp: valid_next_day ordinal_next_day)

text \<open>An earlier date has a smaller ordinal.\<close>

lemma ordinal_less:
  assumes v: "valid_date (y, m, d)" "valid_date (y', m', d')"
    and lt: "y < y' \<or> y = y' \<and> (m < m' \<or> m = m' \<and> d < d')"
  shows "ordinal (y, m, d) < ordinal (y', m', d')"
proof -
  have b: "1 \<le> y" "1 \<le> m" "m \<le> 12" "d \<le> days_in_month y m" "1 \<le> m'" "1 \<le> d'" "1 \<le> y'"
    using v by (auto simp: valid_date_def)
  have in_month: "days_before_month y m + int d \<le> days_before_month y (Suc m)"
    using b by (simp add: days_before_month_Suc)
  have in_year: "days_before_year y + days_before_month y (Suc m) \<le> days_before_year (Suc y)"
    using b days_before_month_mono [of "Suc m" 13 y] days_before_month_13 [of y]
    by (simp add: days_before_year_Suc)
  have pos: "0 \<le> days_before_month y' m'" by (simp add: days_before_month_def)
  from lt consider "y < y'" | "y = y'" "m < m'" | "y = y'" "m = m'" "d < d'" by auto
  then show ?thesis
  proof cases
    case 1
    then have "days_before_year (Suc y) \<le> days_before_year y'"
      by (intro days_before_year_mono) auto
    then show ?thesis using in_month in_year pos b by (simp add: ordinal_def)
  next
    case 2
    then have "days_before_month y (Suc m) \<le> days_before_month y m'"
      by (intro days_before_month_mono) auto
    then show ?thesis using in_month b 2 by (simp add: ordinal_def)
  next
    case 3
    then show ?thesis by (simp add: ordinal_def)
  qed
qed

subsection \<open>Instants\<close>

lemma tod_less:
  "h < 24 \<Longrightarrow> mi < 60 \<Longrightarrow> s < 60 \<Longrightarrow> h * 3600 + mi * 60 + s < (86400::nat)"
  by linarith

lemma sod_parts:
  fixes sod :: nat
  assumes "sod < 86400"
  shows "sod div 3600 < 24" "sod mod 3600 div 60 < 60" "sod mod 60 < 60"
    "sod div 3600 * 3600 + sod mod 3600 div 60 * 60 + sod mod 60 = sod"
proof -
  show "sod div 3600 < 24" "sod mod 3600 div 60 < 60" "sod mod 60 < 60"
    using assms by (simp_all add: div_less_iff_less_mult)
  have "sod mod 3600 mod 60 = sod mod 60" by (rule mod_mod_cancel) simp
  then have "sod mod 3600 div 60 * 60 + sod mod 60 = sod mod 3600"
    by (metis div_mult_mod_eq)
  then show "sod div 3600 * 3600 + sod mod 3600 div 60 * 60 + sod mod 60 = sod"
    by (metis add.assoc div_mult_mod_eq)
qed

lemma add_seconds_spec:
  assumes v: "valid_time t" and r: "add_seconds t n = Inr u"
  shows "valid_time u" and "instant u = instant t + 1000000 * int n"
    and "microsecond u = microsecond t"
proof -
  define total where "total = hour t * 3600 + minute t * 60 + second t + n"
  define sod where "sod = total mod 86400"
  define carry where "carry = total div 86400"
  have total: "total = 86400 * carry + sod" by (simp add: carry_def sod_def)
  have sod: "sod < 86400" by (simp add: sod_def)
  obtain y m d where dt: "(next_day ^^ carry) (year t, month t, day t) = (y, m, d)"
    by (cases "(next_day ^^ carry) (year t, month t, day t)") auto
  have "valid_date (year t, month t, day t)" using v by (simp add: valid_time_def)
  from next_day_pow [OF this, of carry] have nd: "valid_date (y, m, d)"
    "ordinal (y, m, d) = ordinal (year t, month t, day t) + int carry"
    unfolding dt by blast+
  have "add_seconds t n = (if y > 9999 then Inl OverflowError
      else Inr (t\<lparr>year := y, month := m, day := d, hour := sod div 3600,
                  minute := sod mod 3600 div 60, second := sod mod 60\<rparr>))"
    unfolding add_seconds_def Let_def total_def [symmetric] sod_def [symmetric] carry_def [symmetric] dt
    by simp
  then have u: "u = t\<lparr>year := y, month := m, day := d, hour := sod div 3600,
      minute := sod mod 3600 div 60, second := sod mod 60\<rparr>" and y: "y \<le> 9999"
    using r by (auto split: if_splits)
  show "valid_time u" using nd(1) y sod_parts [OF sod] v by (simp add: u valid_time_def)
  have "instant u = 1000000 * (86400 * ordinal (y, m, d) + int sod) + int (microsecond t)"
    using sod_parts(4) [OF sod] by (simp add: instant_def u)
  also have "86400 * ordinal (y, m, d) + int sod =
      86400 * ordinal (year t, month t, day t) + int total"
    by (simp add: nd(2) total)
  finally show "instant u = instant t + 1000000 * int n"
    by (simp add: instant_def total_def)
  show "microsecond u = microsecond t" by (simp add: u)
qed

text \<open>The lexicographic order of the components.\<close>

definition lex_less :: "utc_time \<Rightarrow> utc_time \<Rightarrow> bool" where
  "lex_less t u \<longleftrightarrow>
     year t < year u \<or> year t = year u \<and> (month t < month u \<or> month t = month u \<and>
     (day t < day u \<or> day t = day u \<and> (hour t < hour u \<or> hour t = hour u \<and>
     (minute t < minute u \<or> minute t = minute u \<and> (second t < second u \<or> second t = second u \<and>
      microsecond t < microsecond u)))))"

lemma iso_ms_less_iff:
  assumes "valid_time t" and "valid_time u"
  shows "iso_ms t < iso_ms u \<longleftrightarrow> lex_less (trunc_ms t) (trunc_ms u)"
  using valid_time_bounds [OF assms(1)] valid_time_bounds [OF assms(2)]
  by (simp add: iso_ms_def append_less_iff pad_less pad_inject lex_less_def trunc_ms_def)

lemma lex_less_instant:
  assumes v: "valid_time t" "valid_time u" and lt: "lex_less t u"
  shows "instant t < instant u"
proof -
  let ?dt = "(year t, month t, day t)" and ?du = "(year u, month u, day u)"
  let ?st = "hour t * 3600 + minute t * 60 + second t"
  let ?su = "hour u * 3600 + minute u * 60 + second u"
  have bt: "?st < 86400" "microsecond t < 1000000"
    using v(1) tod_less by (auto simp: valid_time_def)
  have bounds: "hour t < 24" "minute t < 60" "second t < 60" "minute u < 60" "second u < 60"
    using v by (auto simp: valid_time_def)
  show ?thesis
  proof (cases "?dt = ?du")
    case True
    then have "?st < ?su \<or> ?st = ?su \<and> microsecond t < microsecond u"
      using lt bounds unfolding lex_less_def by auto
    then show ?thesis using True bt by (auto simp: instant_def)
  next
    case False
    then have "ordinal ?dt < ordinal ?du"
      using lt v by (intro ordinal_less) (auto simp: lex_less_def valid_time_def)
    then show ?thesis using bt by (simp add: instant_def)
  qed
qed

lemma lex_step:
  fixes a b :: nat
  shows "P \<or> Q \<or> R \<Longrightarrow> (a < b \<or> a = b \<and> P) \<or> (a = b \<and> Q) \<or> (b < a \<or> b = a \<and> R)"
  by auto

lemma lex_less_linear: "lex_less t u \<or> t = u \<or> lex_less u t"
proof -
  have eq: "t = u \<longleftrightarrow> year t = year u \<and> month t = month u \<and> day t = day u \<and> hour t = hour u
      \<and> minute t = minute u \<and> second t = second u \<and> microsecond t = microsecond u"
    by (cases t, cases u) simp
  show ?thesis unfolding lex_less_def eq
    by (intro lex_step) (rule linorder_less_linear)
qed

lemma lex_less_iff_instant:
  assumes "valid_time t" and "valid_time u"
  shows "lex_less t u \<longleftrightarrow> instant t < instant u"
  using assms lex_less_instant [of t u] lex_less_instant [of u t] lex_less_linear [of t u]
  by fastforce

text \<open>
  Comparing canonical texts as strings is comparing the instants they denote.
\<close>

lemma canonical_text_less:
  assumes "canonical_time s = Some t" and "canonical_time r = Some u"
  shows "s < r \<longleftrightarrow> instant t < instant u"
  using canonical_time_Some [OF assms(1)] canonical_time_Some [OF assms(2)]
    iso_ms_less_iff [of t u] lex_less_iff_instant [of t u] by simp

lemma instant_inject:
  "valid_time t \<Longrightarrow> valid_time u \<Longrightarrow> instant t = instant u \<Longrightarrow> t = u"
  using lex_less_linear [of t u] lex_less_iff_instant by fastforce

end
