(* ===== verification/Sha256.thy ===== *)
theory Sha256
  imports Py_Text "HOL-Library.Word"
begin

unbundle bit_operations_syntax

text \<open>
  \<open>hashlib.sha256(text.encode("utf-8")).hexdigest()\<close> as an executable function
  \<open>sha256_hex\<close>, on 32-bit words, with the interface \<open>hex_digest\<close> that the rest of the
  development relies on: a digest is 64 lowercase hexadecimal characters.  Definitions that hash
  take the digest function as their first argument \<open>H\<close>; \<open>sha256_hex\<close> is the instance
  the program runs.
\<close>

type_synonym u32 = "32 word"

definition rotr :: "nat \<Rightarrow> u32 \<Rightarrow> u32" where
  "rotr n x = drop_bit n x OR push_bit (32 - n) x"

definition ch :: "u32 \<Rightarrow> u32 \<Rightarrow> u32 \<Rightarrow> u32" where
  "ch x y z = (x AND y) XOR (NOT x AND z)"

definition maj :: "u32 \<Rightarrow> u32 \<Rightarrow> u32 \<Rightarrow> u32" where
  "maj x y z = (x AND y) XOR (x AND z) XOR (y AND z)"

definition big_sigma0 :: "u32 \<Rightarrow> u32" where
  "big_sigma0 x = rotr 2 x XOR rotr 13 x XOR rotr 22 x"

definition big_sigma1 :: "u32 \<Rightarrow> u32" where
  "big_sigma1 x = rotr 6 x XOR rotr 11 x XOR rotr 25 x"

definition small_sigma0 :: "u32 \<Rightarrow> u32" where
  "small_sigma0 x = rotr 7 x XOR rotr 18 x XOR drop_bit 3 x"

definition small_sigma1 :: "u32 \<Rightarrow> u32" where
  "small_sigma1 x = rotr 17 x XOR rotr 19 x XOR drop_bit 10 x"

definition round_constants :: "u32 list" where
  "round_constants =
     [1116352408, 1899447441, 3049323471, 3921009573, 961987163, 1508970993, 2453635748, 2870763221,
      3624381080, 310598401, 607225278, 1426881987, 1925078388, 2162078206, 2614888103, 3248222580,
      3835390401, 4022224774, 264347078, 604807628, 770255983, 1249150122, 1555081692, 1996064986,
      2554220882, 2821834349, 2952996808, 3210313671, 3336571891, 3584528711, 113926993, 338241895,
      666307205, 773529912, 1294757372, 1396182291, 1695183700, 1986661051, 2177026350, 2456956037,
      2730485921, 2820302411, 3259730800, 3345764771, 3516065817, 3600352804, 4094571909, 275423344,
      430227734, 506948616, 659060556, 883997877, 958139571, 1322822218, 1537002063, 1747873779,
      1955562222, 2024104815, 2227730452, 2361852424, 2428436474, 2756734187, 3204031479, 3329325298]"

record sha_state =
  sa :: u32  sb :: u32  sc :: u32  sd :: u32  se :: u32  sf :: u32  sg :: u32  sh :: u32

definition initial_state :: sha_state where
  "initial_state =
     \<lparr>sa = 1779033703, sb = 3144134277, sc = 1013904242, sd = 2773480762,
      se = 1359893119, sf = 2600822924, sg = 528734635, sh = 1541459225\<rparr>"

definition sha_round :: "u32 \<Rightarrow> u32 \<Rightarrow> sha_state \<Rightarrow> sha_state" where
  "sha_round k w s =
     (let t1 = sh s + big_sigma1 (se s) + ch (se s) (sf s) (sg s) + k + w;
          t2 = big_sigma0 (sa s) + maj (sa s) (sb s) (sc s)
      in \<lparr>sa = t1 + t2, sb = sa s, sc = sb s, sd = sc s,
          se = sd s + t1, sf = se s, sg = sf s, sh = sg s\<rparr>)"

text \<open>The message schedule slides over the last sixteen words.\<close>

fun sha_rounds :: "u32 list \<Rightarrow> u32 list \<Rightarrow> sha_state \<Rightarrow> sha_state" where
  "sha_rounds [] w s = s"
| "sha_rounds (k # ks) w s =
     sha_rounds ks
       (tl w @ [small_sigma1 (w ! 14) + w ! 9 + small_sigma0 (w ! 1) + w ! 0])
       (sha_round k (w ! 0) s)"

fun be_words :: "nat list \<Rightarrow> u32 list" where
  "be_words (a # b # c # d # rest) =
     (of_nat a * 2 ^ 24 + of_nat b * 2 ^ 16 + of_nat c * 2 ^ 8 + of_nat d) # be_words rest"
| "be_words _ = []"

definition sha_block :: "nat list \<Rightarrow> sha_state \<Rightarrow> sha_state" where
  "sha_block bytes s =
     (let r = sha_rounds round_constants (be_words bytes) s
      in \<lparr>sa = sa s + sa r, sb = sb s + sb r, sc = sc s + sc r, sd = sd s + sd r,
          se = se s + se r, sf = sf s + sf r, sg = sg s + sg r, sh = sh s + sh r\<rparr>)"

function sha_blocks :: "nat list \<Rightarrow> sha_state \<Rightarrow> sha_state" where
  "sha_blocks bytes s =
     (if length bytes < 64 then s else sha_blocks (drop 64 bytes) (sha_block (take 64 bytes) s))"
  by pat_completeness auto
termination
  by (relation "measure (\<lambda>(bytes, s). length bytes)") auto

declare sha_blocks.simps [simp del]

fun be_bytes :: "nat \<Rightarrow> nat \<Rightarrow> nat list" where
  "be_bytes 0 n = []"
| "be_bytes (Suc k) n = be_bytes k (n div 256) @ [n mod 256]"

definition sha_pad :: "nat list \<Rightarrow> nat list" where
  "sha_pad m =
     m @ [0x80] @ replicate ((119 - length m mod 64) mod 64) 0 @ be_bytes 8 (8 * length m)"

definition word_hex :: "u32 \<Rightarrow> string" where
  "word_hex w = map (\<lambda>i. hex_digit (unat w div 16 ^ i mod 16)) [7, 6, 5, 4, 3, 2, 1, 0]"

definition sha256 :: "nat list \<Rightarrow> sha_state" where
  "sha256 m = sha_blocks (sha_pad m) initial_state"

definition sha256_hex :: "string \<Rightarrow> string" where
  "sha256_hex s =
     (let r = sha256 (utf8 s)
      in concat (map word_hex [sa r, sb r, sc r, sd r, se r, sf r, sg r, sh r]))"

subsection \<open>The interface of a digest function\<close>

text \<open>\<open>is_digest\<close> is the test of \<open>_require_digest\<close> on a string.\<close>

definition is_digest :: "string \<Rightarrow> bool" where
  "is_digest s \<longleftrightarrow> length s = 64 \<and> list_all is_hex s"

locale hex_digest =
  fixes H :: "string \<Rightarrow> string"
  assumes is_digest_H [simp]: "is_digest (H s)"
begin

lemma H_length [simp]: "length (H s) = 64"
  using is_digest_H [of s] by (simp add: is_digest_def)

lemma H_nonempty [simp]: "H s \<noteq> []"
  using H_length [of s] by (metis length_0_conv zero_neq_numeral)

lemma H_strip [simp]: "strip (H s) = H s"
  using is_digest_H [of s] by (simp add: is_digest_def strip_all_hex)

lemma H_no_nul: "CHR 0x00 \<notin> set (H s)"
  using is_digest_H [of s] is_hex_not_nul by (auto simp: is_digest_def list_all_iff)

end

lemma word_hex_shape: "length (word_hex w) = 8" "list_all is_hex (word_hex w)"
  by (simp_all add: word_hex_def)

lemma sha256_hex_is_digest: "is_digest (sha256_hex s)"
  by (simp add: is_digest_def sha256_hex_def Let_def word_hex_shape)

interpretation sha256: hex_digest sha256_hex
  by unfold_locales (rule sha256_hex_is_digest)

text \<open>Length of the padded message: a whole number of blocks, so no byte is dropped.\<close>

lemma length_be_bytes [simp]: "length (be_bytes k n) = k"
  by (induction k arbitrary: n) auto

lemma sha_pad_blocks: "64 dvd length (sha_pad m)"
proof -
  define r where "r = length m mod 64"
  define q where "q = length m div 64"
  define z where "z = (119 - r) mod 64"
  have "length m = 64 * q + r" and "r < 64" by (simp_all add: r_def q_def)
  moreover have "r + 9 + z = 64 \<or> r + 9 + z = 128"
  proof (cases "r \<le> 55")
    case True
    then have "(119 - r) mod 64 = (55 - r + 1 * 64) mod 64" by simp
    also have "\<dots> = 55 - r" using True by (subst mod_mult_self1) simp
    finally show ?thesis using True by (simp add: z_def)
  next
    case False
    then show ?thesis unfolding z_def using \<open>r < 64\<close> by simp
  qed
  ultimately have "length m + 9 + z = 64 * (q + 1) \<or> length m + 9 + z = 64 * (q + 2)"
    by auto
  moreover have "length (sha_pad m) = length m + 9 + z"
    by (simp add: sha_pad_def r_def z_def)
  ultimately show ?thesis by (metis dvd_triv_left)
qed

end
