(* ===== verification/Contracts.thy ===== *)
theory Contracts
  imports Py_Json Iso_Time Sha256
begin

text \<open>
  What the immutable contracts of the trust plane (clock witness, outbox entry, envelope,
  admission, lease, grant, scope, ...) have in common: the \<open>_require_*\<close> checks each module
  defines for itself, construction from a dictionary of untyped values, and the content digest
  over the canonical JSON of the claims.  The locale \<open>content_bound\<close> states the laws a
  contract class promises; each contract theory interprets it on its own definitions and so
  obtains that a digest determines the contract and that stored JSON decodes to the contract.
\<close>

subsection \<open>Checks on untyped values\<close>

definition text_ok :: "string \<Rightarrow> bool" where
  "text_ok s \<longleftrightarrow> s \<noteq> [] \<and> s = strip s \<and> CHR 0x00 \<notin> set s"

definition require_text :: "string \<Rightarrow> json \<Rightarrow> string res" where
  "require_text field v =
     (case v of
        JStr s \<Rightarrow> if text_ok s then Inr s else Inl (ValueError field)
      | _ \<Rightarrow> Inl (ValueError field))"

definition require_digest :: "string \<Rightarrow> json \<Rightarrow> string res" where
  "require_digest field v =
     bindE (require_text field v) (\<lambda>s.
       if length s \<noteq> 64 \<or> \<not> list_all casefold_fixed s \<or> \<not> list_all is_hex s
       then Inl (ValueError field) else Inr s)"

definition require_natural :: "string \<Rightarrow> json \<Rightarrow> int res" where
  "require_natural field v =
     (case v of
        JInt i \<Rightarrow> if i < 0 then Inl (ValueError field) else Inr i
      | _ \<Rightarrow> Inl (ValueError field))"

text \<open>\<open>isinstance(value, bool)\<close> is excluded: \<open>JBool\<close> is not \<open>JInt\<close>.\<close>

definition require_epoch :: "string \<Rightarrow> json \<Rightarrow> int res" where
  "require_epoch field v =
     (case v of
        JInt i \<Rightarrow> if i < 1 then Inl (ValueError field) else Inr i
      | _ \<Rightarrow> Inl (ValueError field))"

definition require_timestamp :: "string \<Rightarrow> json \<Rightarrow> utc_time res" where
  "require_timestamp field v =
     bindE (require_text field v) (\<lambda>s. orRaise (canonical_time s) (ValueError field))"

text \<open>\<open>value[key]\<close> on a dictionary that is known to hold the key.\<close>

definition item :: "(string \<times> json) list \<Rightarrow> string \<Rightarrow> json" where
  "item kvs k = (case map_of kvs k of Some v \<Rightarrow> v | None \<Rightarrow> JNull)"

definition require_exact_fields ::
  "string list \<Rightarrow> string \<Rightarrow> json \<Rightarrow> (string \<Rightarrow> json) res" where
  "require_exact_fields expected contract v =
     (case v of
        JObj kvs \<Rightarrow>
          if set (map fst kvs) = set expected then Inr (item kvs) else Inl (ValueError contract)
      | _ \<Rightarrow> Inl (ValueError contract))"

text \<open>\<open>value == n\<close> for a decoded value: \<open>True == 1\<close> and \<open>False == 0\<close> hold in Python.\<close>

definition py_eq_int :: "json \<Rightarrow> int \<Rightarrow> bool" where
  "py_eq_int v n \<longleftrightarrow> v = JInt n \<or> n = 1 \<and> v = JBool True \<or> n = 0 \<and> v = JBool False"

text \<open>
  \<open>if value not in {...}: raise ValueError\<close> for a set of strings; a list or a dictionary is
  unhashable and raises \<open>TypeError\<close>.
\<close>

definition require_in :: "string \<Rightarrow> string list \<Rightarrow> json \<Rightarrow> string res" where
  "require_in field xs v =
     (case v of
        JStr s \<Rightarrow> if s \<in> set xs then Inr s else Inl (ValueError field)
      | JArr _ \<Rightarrow> Inl (TypeError field)
      | JObj _ \<Rightarrow> Inl (TypeError field)
      | _ \<Rightarrow> Inl (ValueError field))"

fun str_of :: "json \<Rightarrow> string" where
  "str_of (JStr s) = s"
| "str_of _ = []"

fun is_object :: "json \<Rightarrow> bool" where
  "is_object (JObj _) = True"
| "is_object _ = False"

fun intval :: "json \<Rightarrow> int" where
  "intval (JInt i) = i"
| "intval _ = 0"

text \<open>An optional text travels as a string or \<open>null\<close>.\<close>

fun opt_json :: "string option \<Rightarrow> json" where
  "opt_json None = JNull"
| "opt_json (Some s) = JStr s"

fun opt_of :: "json \<Rightarrow> string option" where
  "opt_of (JStr s) = Some s"
| "opt_of _ = None"

definition check_text :: "(string \<Rightarrow> json) \<Rightarrow> string \<Rightarrow> unit res" where
  "check_text d field = bindE (require_text field (d field)) (\<lambda>_. Inr ())"

definition check_digest :: "(string \<Rightarrow> json) \<Rightarrow> string \<Rightarrow> unit res" where
  "check_digest d field = bindE (require_digest field (d field)) (\<lambda>_. Inr ())"

text \<open>The same checks on the fields of a constructor whose arguments are typed.\<close>

definition check_texts :: "(string \<times> string) list \<Rightarrow> unit res" where
  "check_texts = for_each (\<lambda>(field, s). bindE (require_text field (JStr s)) (\<lambda>_. Inr ()))"

definition check_digests :: "(string \<times> string) list \<Rightarrow> unit res" where
  "check_digests = for_each (\<lambda>(field, s). bindE (require_digest field (JStr s)) (\<lambda>_. Inr ()))"

text \<open>\<open>tuple(sorted(set(xs)))\<close>; Python orders strings by code point.\<close>

definition sorted_unique :: "string list \<Rightarrow> string list" where
  "sorted_unique xs = sort (remdups xs)"

text \<open>\<open>_digest(value)\<close>: the digest of the canonical JSON text of a dictionary.\<close>

definition claims_text :: "(string \<times> json) list \<Rightarrow> string" where
  "claims_text kvs = canonical_json (JObj kvs)"

definition claims_digest :: "(string \<Rightarrow> string) \<Rightarrow> (string \<times> json) list \<Rightarrow> string" where
  "claims_digest H kvs = H (claims_text kvs)"

definition digest_ok :: "string \<Rightarrow> bool" where
  "digest_ok s \<longleftrightarrow> is_digest s"

text \<open>The instant a canonical timestamp denotes and the length of a duration, in microseconds.\<close>

definition instant_at :: "string \<Rightarrow> int" where
  "instant_at s = instant (the (canonical_time s))"

definition seconds :: "int \<Rightarrow> int" where
  "seconds n = n * 1000000"

definition time_ok :: "string \<Rightarrow> bool" where
  "time_ok s \<longleftrightarrow> canonical_time s \<noteq> None"

subsection \<open>Inversion of the checks\<close>

lemma digest_ok_text: "digest_ok s \<Longrightarrow> text_ok s"
proof -
  assume d: "digest_ok s"
  then have "s \<noteq> []" by (auto simp: digest_ok_def is_digest_def)
  moreover have "strip s = s" using d by (simp add: digest_ok_def is_digest_def strip_all_hex)
  moreover have "CHR 0x00 \<notin> set s"
    using d is_hex_not_nul by (auto simp: digest_ok_def is_digest_def list_all_iff)
  ultimately show ?thesis by (simp add: text_ok_def)
qed

lemma require_text_eq_Inr [res_simps]: "require_text f v = Inr s \<longleftrightarrow> v = JStr s \<and> text_ok s"
  by (cases v) (auto simp: require_text_def)

lemma require_text_eq_Inl: "require_text f v = Inl e \<Longrightarrow> e = ValueError f"
  by (cases v) (auto simp: require_text_def split: if_splits)

lemma require_digest_eq_Inr [res_simps]: "require_digest f v = Inr s \<longleftrightarrow> v = JStr s \<and> digest_ok s"
proof -
  have "list_all is_hex s \<Longrightarrow> list_all casefold_fixed s"
    by (auto simp: list_all_iff is_hex_casefold)
  then show ?thesis
    using digest_ok_text [of s]
    by (auto simp: require_digest_def bindE_eq_Inr require_text_eq_Inr digest_ok_def is_digest_def
        split: if_splits)
qed

lemma require_digest_eq_Inl: "require_digest f v = Inl e \<Longrightarrow> e = ValueError f"
  by (auto simp: require_digest_def bindE_eq_Inl dest: require_text_eq_Inl split: if_splits)

lemma require_epoch_eq_Inr [res_simps]: "require_epoch f v = Inr i \<longleftrightarrow> v = JInt i \<and> 1 \<le> i"
  by (cases v) (auto simp: require_epoch_def)

lemma require_natural_eq_Inr [res_simps]: "require_natural f v = Inr i \<longleftrightarrow> v = JInt i \<and> 0 \<le> i"
  by (cases v) (auto simp: require_natural_def)

lemma require_in_eq_Inr [res_simps]: "require_in f xs v = Inr s \<longleftrightarrow> v = JStr s \<and> s \<in> set xs"
  by (cases v) (auto simp: require_in_def)

lemma time_ok_text:
  assumes "canonical_time s = Some t"
  shows "text_ok s"
proof -
  have s: "s = iso_ms t" using canonical_time_Some [OF assms] by simp
  have v: "valid_time t" using canonical_time_Some [OF assms] by simp
  let ?plain = "\<lambda>c. \<not> is_space c \<and> c \<noteq> CHR 0x00"
  have "?plain (digit n)" if "n < 10" for n
    using is_hex_not_space [of "digit n"] is_hex_not_nul [of "digit n"] is_digit_digit [OF that]
    by (simp add: is_hex_def)
  then have dig: "list_all ?plain (pad k n)" for k n
    by (induction k arbitrary: n) auto
  have "list_all ?plain s"
    unfolding s iso_ms_def by (simp add: dig) (simp add: is_space_def)
  then have "\<forall>c \<in> set s. ?plain c" by (simp add: list_all_iff)
  moreover have "s \<noteq> []" by (simp add: s iso_ms_def)
  ultimately show ?thesis
    by (metis hd_in_set last_in_set strip_fixed text_ok_def)
qed

lemma require_timestamp_eq_Inr [res_simps]:
  "require_timestamp f v = Inr t \<longleftrightarrow> (\<exists>s. v = JStr s \<and> canonical_time s = Some t)"
  by (auto simp: require_timestamp_def bindE_eq_Inr require_text_eq_Inr orRaise_eq_Inr time_ok_text)

text \<open>Comparing canonical timestamps as text compares the instants.\<close>

lemma time_text_less:
  "time_ok s \<Longrightarrow> time_ok r \<Longrightarrow> s < r \<longleftrightarrow> instant_at s < instant_at r"
  using canonical_text_less by (auto simp: time_ok_def instant_at_def)

lemma time_text_le:
  "time_ok s \<Longrightarrow> time_ok r \<Longrightarrow> s \<le> r \<longleftrightarrow> instant_at s \<le> instant_at r"
  using time_text_less [of r s] by (simp add: linorder_not_less [symmetric])

lemma check_text_eq_Inr [res_simps]:
  "check_text d f = Inr u \<longleftrightarrow> (\<exists>s. d f = JStr s \<and> text_ok s)"
  by (auto simp: check_text_def bindE_eq_Inr require_text_eq_Inr)

lemma check_digest_eq_Inr [res_simps]:
  "check_digest d f = Inr u \<longleftrightarrow> (\<exists>s. d f = JStr s \<and> digest_ok s)"
  by (auto simp: check_digest_def bindE_eq_Inr require_digest_eq_Inr)

lemma check_texts_eq_Inr [res_simps]:
  "check_texts xs = Inr u \<longleftrightarrow> list_all text_ok (map snd xs)"
  by (auto simp: check_texts_def for_each_eq_Inr bindE_eq_Inr require_text_eq_Inr list_all_iff)

lemma check_digests_eq_Inr [res_simps]:
  "check_digests xs = Inr u \<longleftrightarrow> list_all digest_ok (map snd xs)"
  by (auto simp: check_digests_def for_each_eq_Inr bindE_eq_Inr require_digest_eq_Inr list_all_iff)

lemma sorted_unique_idem [simp]: "sorted_unique (sorted_unique xs) = sorted_unique xs"
  by (simp add: sorted_unique_def sort_key_id_if_sorted distinct_remdups_id)

lemma set_sorted_unique [simp]: "set (sorted_unique xs) = set xs"
  by (simp add: sorted_unique_def)

lemma sorted_unique_Nil [simp]: "sorted_unique xs = [] \<longleftrightarrow> xs = []"
  by (metis set_empty set_sorted_unique)

lemma opt_json_inject [simp]: "opt_json x = opt_json y \<longleftrightarrow> x = y"
  by (cases x; cases y) auto

lemma is_plain_opt [simp]: "is_plain (opt_json x)"
  by (cases x) auto

lemma opt_of_json [simp]: "opt_of (opt_json x) = x"
  by (cases x) auto

lemma require_exact_fields_eq_Inr [res_simps]:
  "require_exact_fields F c v = Inr d \<longleftrightarrow>
     (\<exists>kvs. v = JObj kvs \<and> fst ` set kvs = set F \<and> d = item kvs)"
  by (cases v) (auto simp: require_exact_fields_def)

lemma item_Cons [simp]: "item ((k, v) # kvs) k' = (if k' = k then v else item kvs k')"
  by (simp add: item_def)

lemma item_sort: "distinct (map fst kvs) \<Longrightarrow> item (sort_key fst kvs) = item kvs"
  by (rule ext) (simp add: item_def map_of_sort)

lemma require_exact_fields_sort:
  "distinct (map fst kvs) \<Longrightarrow>
     require_exact_fields F c (JObj (sort_key fst kvs)) = require_exact_fields F c (JObj kvs)"
  by (simp add: require_exact_fields_def item_sort)

lemma item_eq_JStr: "item kvs k = JStr s \<longleftrightarrow> map_of kvs k = Some (JStr s)"
  by (auto simp: item_def split: option.splits)

lemma claims_digest_inj:
  assumes "flat xs" and "flat ys" and "map fst xs = map fst ys"
    and "inj_on H {claims_text xs, claims_text ys}"
    and "claims_digest H xs = claims_digest H ys"
  shows "xs = ys"
proof -
  have "claims_text xs = claims_text ys"
    by (rule inj_onD [OF assms(4) assms(5) [unfolded claims_digest_def]]) simp_all
  then show ?thesis
    unfolding claims_text_def by (rule canonical_json_flat_inj [OF assms(1-3)])
qed

text \<open>
  The same inversions without existential quantifiers, for constructors that check many fields:
  a value that is a string is \<open>JStr (str_of v)\<close>.
\<close>

fun is_str :: "json \<Rightarrow> bool" where
  "is_str (JStr s) = True"
| "is_str _ = False"

fun is_int :: "json \<Rightarrow> bool" where
  "is_int (JInt i) = True"
| "is_int _ = False"

lemma is_str_iff [init_simps]: "v = JStr (str_of v) \<longleftrightarrow> is_str v"
  by (cases v) auto

fun is_opt :: "json \<Rightarrow> bool" where
  "is_opt (JStr s) = True"
| "is_opt JNull = True"
| "is_opt _ = False"

lemma is_opt_iff [init_simps]: "v = opt_json (opt_of v) \<longleftrightarrow> is_opt v"
  by (cases v) auto

lemma is_int_iff [init_simps]: "v = JInt (intval v) \<longleftrightarrow> is_int v"
  by (cases v) auto

lemma check_text_iff [init_simps]:
  "check_text d f = Inr u \<longleftrightarrow> is_str (d f) \<and> text_ok (str_of (d f))"
  by (cases "d f") (auto simp: res_simps)

lemma check_digest_iff [init_simps]:
  "check_digest d f = Inr u \<longleftrightarrow> is_str (d f) \<and> digest_ok (str_of (d f))"
  by (cases "d f") (auto simp: res_simps)

lemma require_timestamp_iff [init_simps]:
  "require_timestamp f v = Inr t \<longleftrightarrow>
     is_str v \<and> time_ok (str_of v) \<and> t = the (canonical_time (str_of v))"
  by (cases v) (auto simp: res_simps time_ok_def)

lemma require_natural_iff [init_simps]:
  "require_natural f v = Inr i \<longleftrightarrow> is_int v \<and> i = intval v \<and> 0 \<le> intval v"
  by (cases v) (auto simp: res_simps)

lemma require_epoch_iff [init_simps]:
  "require_epoch f v = Inr i \<longleftrightarrow> is_int v \<and> i = intval v \<and> 1 \<le> intval v"
  by (cases v) (auto simp: res_simps)

lemma require_in_iff [init_simps]:
  "require_in f xs v = Inr s \<longleftrightarrow> is_str v \<and> s = str_of v \<and> str_of v \<in> set xs"
  by (cases v) (auto simp: res_simps)

lemmas init_res_simps = bindE_eq_Inr thenE_eq_Inr guardE_eq_Inr for_each_eq_Inr init_simps

text \<open>
  Decoding a stored JSON column: \<open>json.loads\<close> and \<open>from_dict\<close> inside \<open>except (TypeError, ValueError)\<close>
  (\<open>JSONDecodeError\<close> is a \<open>ValueError\<close>).
\<close>

fun is_decode_error :: "py_error \<Rightarrow> bool" where
  "is_decode_error (ValueError _) = True"
| "is_decode_error (TypeError _) = True"
| "is_decode_error _ = False"

definition decode_column :: "(json \<Rightarrow> 'c res) \<Rightarrow> string \<Rightarrow> py_error \<Rightarrow> 'c res" where
  "decode_column from_dict s deny =
     catchE is_decode_error (bindE (orRaise (json_loads s) (ValueError ''json'')) from_dict) deny"

lemma decode_column_eq_Inr [res_simps]:
  "decode_column from_dict s deny = Inr c \<longleftrightarrow> (\<exists>v. json_loads s = Some v \<and> from_dict v = Inr c)"
  by (simp add: decode_column_def res_simps)

text \<open>
  The decoder \<open>from_dict\<close>, written out in the same way in every contract class: exact set of
  keys, schema version and type tag, then the constructor.
\<close>

definition contract_from_dict ::
  "int \<Rightarrow> string list \<Rightarrow> string \<Rightarrow> string \<Rightarrow> ((string \<Rightarrow> json) \<Rightarrow> 'c res) \<Rightarrow> json \<Rightarrow> 'c res" where
  "contract_from_dict version expected type_key type_value init v =
     bindE (require_exact_fields expected type_value v) (\<lambda>d.
       thenE (guardE (py_eq_int (d ''schema_version'') version \<and> d type_key = JStr type_value)
                (ValueError type_value))
         (init d))"

lemma contract_from_dict_eq_Inr:
  "contract_from_dict n F k t init v = Inr c \<longleftrightarrow>
     (\<exists>kvs. v = JObj kvs \<and> fst ` set kvs = set F \<and> py_eq_int (item kvs ''schema_version'') n
        \<and> item kvs k = JStr t \<and> init (item kvs) = Inr c)"
  by (auto simp: contract_from_dict_def res_simps)

lemma item_in: "distinct (map fst kvs) \<Longrightarrow> (k, v) \<in> set kvs \<Longrightarrow> item kvs k = v"
  by (simp add: item_def)

subsection \<open>The interface of a contract with a content digest\<close>

text \<open>
  A contract \<open>c\<close> has flat claims with a fixed list of keys and carries their digest.  Without a
  digest collision between the two texts, equal digests mean equal contracts.
\<close>

locale content_digest =
  fixes H :: "string \<Rightarrow> string"
    and claims :: "'c \<Rightarrow> (string \<times> json) list"
    and digest_of :: "'c \<Rightarrow> string"
    and ok :: "'c \<Rightarrow> bool"
  assumes flat_claims: "flat (claims c)"
    and claims_keys: "map fst (claims c) = map fst (claims c')"
    and claims_determine: "map snd (claims c) = map snd (claims c') \<Longrightarrow> digest_of c = digest_of c' \<Longrightarrow> c = c'"
    and ok_digest: "ok c \<Longrightarrow> digest_of c = claims_digest H (claims c)"
begin

lemma digest_binds:
  assumes "ok c" and "ok c'" and "digest_of c = digest_of c'"
    and "inj_on H {claims_text (claims c), claims_text (claims c')}"
  shows "c = c'"
proof -
  have "claims_digest H (claims c) = claims_digest H (claims c')"
    using assms(1-3) ok_digest by simp
  then have "claims c = claims c'"
    using claims_digest_inj [OF flat_claims flat_claims claims_keys assms(4)] by simp
  then show ?thesis using assms(3) claims_determine by simp
qed

end

text \<open>
  A contract that is also decoded from a dictionary: the claims start with the schema version and
  the type tag, the digest travels under a key of its own, and the constructor \<open>init\<close> accepts a
  dictionary exactly when its values are those of a valid contract.
\<close>

locale content_bound = content_digest +
  fixes version :: int
    and expected :: "string list"
    and type_key :: string
    and type_value :: string
    and dkey :: string
    and init :: "(string \<Rightarrow> json) \<Rightarrow> 'c res"
  assumes claims_header:
      "take 2 (claims c) = [(''schema_version'', JInt version), (type_key, JStr type_value)]"
    and fields_claims: "expected = map fst (claims c) @ [dkey]"
    and dkey_fresh: "dkey \<notin> fst ` set (claims c)"
    and init_iff: "init d = Inr c \<longleftrightarrow>
      ok c \<and> list_all (\<lambda>(f, v). d f = v) (drop 2 (claims c) @ [(dkey, JStr (digest_of c))])"
begin

definition dict :: "'c \<Rightarrow> (string \<times> json) list" where
  "dict c = claims c @ [(dkey, JStr (digest_of c))]"

definition stored :: "'c \<Rightarrow> string" where
  "stored c = canonical_json (JObj (dict c))"

lemma flat_dict: "flat (dict c)"
  using flat_claims [of c] dkey_fresh [of c] by (auto simp: flat_def dict_def)

lemma distinct_dict: "distinct (map fst (dict c))"
  using flat_dict [of c] by (simp add: flat_def)

lemma dict_split:
  "dict c = (''schema_version'', JInt version) # (type_key, JStr type_value)
     # (drop 2 (claims c) @ [(dkey, JStr (digest_of c))])"
  using claims_header [of c] append_take_drop_id [of 2 "claims c"] unfolding dict_def
  by (metis append_Cons append_Nil)

text \<open>Constructing a contract from the dictionary of a candidate \<open>c0\<close> yields \<open>c0\<close>, or fails.\<close>

lemma init_dict_iff: "init (item (dict c0)) = Inr c \<longleftrightarrow> c = c0 \<and> ok c0"
proof
  assume *: "init (item (dict c0)) = Inr c"
  let ?vals = "\<lambda>c. drop 2 (claims c) @ [(dkey, JStr (digest_of c))]"
  have keys: "map fst (?vals c) = map fst (?vals c0)"
    using claims_keys [of c c0] by (simp flip: drop_map)
  have in0: "item (dict c0) f = v" if "(f, v) \<in> set (?vals c0)" for f v
    using that by (intro item_in [OF distinct_dict]) (simp add: dict_split del: set_append)
  have "map (item (dict c0)) (map fst (?vals c)) = map snd (?vals c)"
    using * unfolding init_iff by (auto simp: list_all_iff)
  moreover have "map (item (dict c0)) (map fst (?vals c0)) = map snd (?vals c0)"
    using in0 by auto
  ultimately have "map snd (?vals c) = map snd (?vals c0)" using keys by metis
  then have vals: "map snd (drop 2 (claims c)) = map snd (drop 2 (claims c0))"
    and d: "digest_of c = digest_of c0" by simp_all
  have "map snd (claims c) = map snd (take 2 (claims c)) @ map snd (drop 2 (claims c))" for c
    by (metis append_take_drop_id map_append)
  then have "map snd (claims c) = map snd (claims c0)"
    using vals claims_header by metis
  then have "c = c0" using d by (rule claims_determine)
  then show "c = c0 \<and> ok c0" using * init_iff by blast
next
  assume "c = c0 \<and> ok c0"
  moreover have "item (dict c0) f = v"
    if "(f, v) \<in> set (drop 2 (claims c0) @ [(dkey, JStr (digest_of c0))])" for f v
    using that by (intro item_in [OF distinct_dict]) (simp add: dict_split del: set_append)
  ultimately show "init (item (dict c0)) = Inr c"
    unfolding init_iff by (fastforce simp: list_all_iff)
qed

text \<open>What was stored decodes to the contract it was made from, and to nothing else.\<close>

lemma from_dict_dict:
  assumes "ok c" and "set kvs = set (dict c)" and "distinct (map fst kvs)"
  shows "contract_from_dict version expected type_key type_value init (JObj kvs) = Inr c"
proof -
  have same: "item kvs f = v" if "(f, v) \<in> set (dict c)" for f v
    using that assms(2,3) by (intro item_in) simp_all
  have "fst ` set kvs = set expected" using assms(2) fields_claims [of c] by (simp add: dict_def)
  moreover have "item kvs ''schema_version'' = JInt version" "item kvs type_key = JStr type_value"
    by (rule same, simp add: dict_split)+
  moreover have "init (item kvs) = Inr c"
    unfolding init_iff using assms(1) same by (auto simp: list_all_iff dict_split)
  ultimately show ?thesis by (auto simp: contract_from_dict_eq_Inr py_eq_int_def)
qed

lemma from_dict_ok: "contract_from_dict version expected type_key type_value init v = Inr c \<Longrightarrow> ok c"
  by (auto simp: contract_from_dict_eq_Inr init_iff)

lemma decode_stored:
  assumes "ok c"
  shows "\<exists>v. json_loads (stored c) = Some v
     \<and> contract_from_dict version expected type_key type_value init v = Inr c"
proof -
  have "json_loads (stored c) = Some (JObj (sort_key fst (dict c)))"
    unfolding stored_def by (rule json_loads_flat [OF flat_dict])
  moreover have "distinct (map fst (sort_key fst (dict c)))"
    using distinct_dict [of c] distinct_map by fastforce
  ultimately show ?thesis
    using from_dict_dict [OF assms, of "sort_key fst (dict c)"] by simp
qed

lemma stored_inj:
  assumes "ok c" and "ok c'" and "stored c = stored c'"
  shows "c = c'"
  using decode_stored [OF assms(1)] decode_stored [OF assms(2)] assms(3) by auto

end

end
