(* ===== verification/Execution_Grant.thy ===== *)
theory Execution_Grant
  imports Contracts
begin

text \<open>
  The execution grant (\<open>authoritative_grant.py\<close>, class \<open>ExecutionGrantV2\<close>): the single-use token
  that binds an authorization snapshot to one execution, with its validity of at most five minutes
  and the digest over all its other fields.
\<close>

definition max_grant_ttl_seconds :: int where
  "max_grant_ttl_seconds = 300"

definition max_precondition_to_grant_seconds :: int where
  "max_precondition_to_grant_seconds = 30"

record execution_grant =
  gr_grant_id :: string
  gr_jti :: string
  gr_execution_id :: string
  gr_request_id :: string
  gr_authorization_snapshot_digest :: string
  gr_snapshot_authority_witness_set_digest :: string
  gr_snapshot_authority_event_hash :: string
  gr_parent_scope_digest :: string
  gr_authority_constraint_digest :: string
  gr_monotonic_authority_decision_digest :: string
  gr_actor_id :: string
  gr_workspace_id :: string
  gr_environment :: string
  gr_capability :: string
  gr_capability_definition_identity :: string
  gr_target_kind :: string
  gr_target_digest :: string
  gr_payload_digest :: string
  gr_policy_version :: string
  gr_policy_identity :: string
  gr_approval_set_digest :: string
  gr_required_permission :: string
  gr_precondition_requirement_digest :: string
  gr_precondition_expectation_digest :: string
  gr_precondition_observation_digest :: string
  gr_precondition_witness_digest :: string
  gr_precondition_enforcement_class :: string
  gr_precondition_checked_at :: string
  gr_execution_binding_digest :: string
  gr_execution_capsule_digest :: string
  gr_runner_class :: string
  gr_execution_binding_authority_revision :: string
  gr_issued_at :: string
  gr_expires_at :: string
  gr_revocation_epoch :: int
  gr_use_semantics :: string
  gr_issuer_identity :: string
  gr_issuer_revision :: string
  gr_grant_digest :: string

definition execution_grant_fields :: "string list" where
  "execution_grant_fields =
     [''schema_version'', ''grant_type'', ''grant_id'', ''jti'', ''execution_id'',
      ''request_id'', ''authorization_snapshot_digest'',
      ''snapshot_authority_witness_set_digest'', ''snapshot_authority_event_hash'',
      ''parent_scope_digest'', ''authority_constraint_digest'',
      ''monotonic_authority_decision_digest'', ''actor_id'', ''workspace_id'', ''environment'',
      ''capability'', ''capability_definition_identity'', ''target_kind'', ''target_digest'',
      ''payload_digest'', ''policy_version'', ''policy_identity'', ''approval_set_digest'',
      ''required_permission'', ''precondition_requirement_digest'',
      ''precondition_expectation_digest'', ''precondition_observation_digest'',
      ''precondition_witness_digest'', ''precondition_enforcement_class'',
      ''precondition_checked_at'', ''execution_binding_digest'', ''execution_capsule_digest'',
      ''runner_class'', ''execution_binding_authority_revision'', ''issued_at'', ''expires_at'',
      ''revocation_epoch'', ''use_semantics'', ''issuer_identity'', ''issuer_revision'',
      ''grant_digest'']"

definition execution_grant_claims :: "execution_grant \<Rightarrow> (string \<times> json) list" where
  "execution_grant_claims c =
     [(''schema_version'', JInt 2), (''grant_type'', JStr ''execution-grant/v2''),
      (''grant_id'', JStr (gr_grant_id c)), (''jti'', JStr (gr_jti c)),
      (''execution_id'', JStr (gr_execution_id c)), (''request_id'', JStr (gr_request_id c)),
      (''authorization_snapshot_digest'', JStr (gr_authorization_snapshot_digest c)),
      (''snapshot_authority_witness_set_digest'', JStr (gr_snapshot_authority_witness_set_digest c)),
      (''snapshot_authority_event_hash'', JStr (gr_snapshot_authority_event_hash c)),
      (''parent_scope_digest'', JStr (gr_parent_scope_digest c)),
      (''authority_constraint_digest'', JStr (gr_authority_constraint_digest c)),
      (''monotonic_authority_decision_digest'', JStr (gr_monotonic_authority_decision_digest c)),
      (''actor_id'', JStr (gr_actor_id c)), (''workspace_id'', JStr (gr_workspace_id c)),
      (''environment'', JStr (gr_environment c)), (''capability'', JStr (gr_capability c)),
      (''capability_definition_identity'', JStr (gr_capability_definition_identity c)),
      (''target_kind'', JStr (gr_target_kind c)), (''target_digest'', JStr (gr_target_digest c)),
      (''payload_digest'', JStr (gr_payload_digest c)),
      (''policy_version'', JStr (gr_policy_version c)),
      (''policy_identity'', JStr (gr_policy_identity c)),
      (''approval_set_digest'', JStr (gr_approval_set_digest c)),
      (''required_permission'', JStr (gr_required_permission c)),
      (''precondition_requirement_digest'', JStr (gr_precondition_requirement_digest c)),
      (''precondition_expectation_digest'', JStr (gr_precondition_expectation_digest c)),
      (''precondition_observation_digest'', JStr (gr_precondition_observation_digest c)),
      (''precondition_witness_digest'', JStr (gr_precondition_witness_digest c)),
      (''precondition_enforcement_class'', JStr (gr_precondition_enforcement_class c)),
      (''precondition_checked_at'', JStr (gr_precondition_checked_at c)),
      (''execution_binding_digest'', JStr (gr_execution_binding_digest c)),
      (''execution_capsule_digest'', JStr (gr_execution_capsule_digest c)),
      (''runner_class'', JStr (gr_runner_class c)),
      (''execution_binding_authority_revision'', JStr (gr_execution_binding_authority_revision c)),
      (''issued_at'', JStr (gr_issued_at c)), (''expires_at'', JStr (gr_expires_at c)),
      (''revocation_epoch'', JInt (gr_revocation_epoch c)),
      (''use_semantics'', JStr (gr_use_semantics c)),
      (''issuer_identity'', JStr (gr_issuer_identity c)),
      (''issuer_revision'', JStr (gr_issuer_revision c))]"

definition execution_grant_to_dict :: "execution_grant \<Rightarrow> (string \<times> json) list" where
  "execution_grant_to_dict c = execution_grant_claims c @ [(''grant_digest'', JStr (gr_grant_digest c))]"

definition execution_grant_of :: "(string \<Rightarrow> json) \<Rightarrow> execution_grant" where
  "execution_grant_of d =
     \<lparr>gr_grant_id = str_of (d ''grant_id''), gr_jti = str_of (d ''jti''),
      gr_execution_id = str_of (d ''execution_id''), gr_request_id = str_of (d ''request_id''),
      gr_authorization_snapshot_digest = str_of (d ''authorization_snapshot_digest''),
      gr_snapshot_authority_witness_set_digest = str_of (d ''snapshot_authority_witness_set_digest''),
      gr_snapshot_authority_event_hash = str_of (d ''snapshot_authority_event_hash''),
      gr_parent_scope_digest = str_of (d ''parent_scope_digest''),
      gr_authority_constraint_digest = str_of (d ''authority_constraint_digest''),
      gr_monotonic_authority_decision_digest = str_of (d ''monotonic_authority_decision_digest''),
      gr_actor_id = str_of (d ''actor_id''), gr_workspace_id = str_of (d ''workspace_id''),
      gr_environment = str_of (d ''environment''), gr_capability = str_of (d ''capability''),
      gr_capability_definition_identity = str_of (d ''capability_definition_identity''),
      gr_target_kind = str_of (d ''target_kind''),
      gr_target_digest = str_of (d ''target_digest''),
      gr_payload_digest = str_of (d ''payload_digest''),
      gr_policy_version = str_of (d ''policy_version''),
      gr_policy_identity = str_of (d ''policy_identity''),
      gr_approval_set_digest = str_of (d ''approval_set_digest''),
      gr_required_permission = str_of (d ''required_permission''),
      gr_precondition_requirement_digest = str_of (d ''precondition_requirement_digest''),
      gr_precondition_expectation_digest = str_of (d ''precondition_expectation_digest''),
      gr_precondition_observation_digest = str_of (d ''precondition_observation_digest''),
      gr_precondition_witness_digest = str_of (d ''precondition_witness_digest''),
      gr_precondition_enforcement_class = str_of (d ''precondition_enforcement_class''),
      gr_precondition_checked_at = str_of (d ''precondition_checked_at''),
      gr_execution_binding_digest = str_of (d ''execution_binding_digest''),
      gr_execution_capsule_digest = str_of (d ''execution_capsule_digest''),
      gr_runner_class = str_of (d ''runner_class''),
      gr_execution_binding_authority_revision = str_of (d ''execution_binding_authority_revision''),
      gr_issued_at = str_of (d ''issued_at''), gr_expires_at = str_of (d ''expires_at''),
      gr_revocation_epoch = intval (d ''revocation_epoch''),
      gr_use_semantics = str_of (d ''use_semantics''),
      gr_issuer_identity = str_of (d ''issuer_identity''),
      gr_issuer_revision = str_of (d ''issuer_revision''),
      gr_grant_digest = str_of (d ''grant_digest'')\<rparr>"

definition execution_grant_init :: "(string \<Rightarrow> string) \<Rightarrow> (string \<Rightarrow> json) \<Rightarrow> execution_grant res" where
  "execution_grant_init H d =
     thenE (for_each (check_text d)
       [''grant_id'', ''jti'', ''execution_id'', ''request_id'', ''actor_id'', ''workspace_id'',
        ''environment'', ''capability'', ''target_kind'', ''policy_version'', ''runner_class'',
        ''execution_binding_authority_revision'', ''issuer_identity'', ''issuer_revision''])
    (thenE (for_each (check_digest d)
       [''authorization_snapshot_digest'', ''snapshot_authority_witness_set_digest'',
        ''snapshot_authority_event_hash'', ''parent_scope_digest'',
        ''authority_constraint_digest'', ''monotonic_authority_decision_digest'',
        ''capability_definition_identity'', ''target_digest'', ''payload_digest'',
        ''policy_identity'', ''approval_set_digest'', ''precondition_requirement_digest'',
        ''precondition_expectation_digest'', ''precondition_observation_digest'',
        ''precondition_witness_digest'', ''execution_binding_digest'',
        ''execution_capsule_digest'', ''grant_digest''])
    (thenE (guardE (d ''required_permission'' = JStr ''execution.run'') (ValueError ''required_permission''))
    (bindE (require_in ''precondition_enforcement_class'' [''READ_THEN_COMPARE'', ''ATOMIC_PROVIDER_CONDITION'']
              (d ''precondition_enforcement_class'')) (\<lambda>_.
     thenE (guardE (d ''use_semantics'' = JStr ''ONE_TIME'') (ValueError ''use_semantics''))
    (bindE (require_natural ''revocation_epoch'' (d ''revocation_epoch'')) (\<lambda>_.
     bindE (require_timestamp ''precondition_checked_at'' (d ''precondition_checked_at'')) (\<lambda>checked.
     bindE (require_timestamp ''issued_at'' (d ''issued_at'')) (\<lambda>issued.
     bindE (require_timestamp ''expires_at'' (d ''expires_at'')) (\<lambda>expires.
     thenE (guardE (instant checked \<le> instant issued) (ValueError ''issued_at''))
    (thenE (guardE (instant issued < instant expires) (ValueError ''expires_at''))
    (thenE (guardE (instant expires - instant issued \<le> seconds max_grant_ttl_seconds) (ValueError ''expires_at''))
    (thenE (guardE (instant issued - instant checked \<le> seconds max_precondition_to_grant_seconds)
        (ValueError ''precondition_checked_at''))
    (let c = execution_grant_of d in
     thenE (guardE (gr_grant_digest c = claims_digest H (execution_grant_claims c)) (ValueError ''grant_digest''))
      (Inr c))))))))))))))"

definition execution_grant_ok :: "(string \<Rightarrow> string) \<Rightarrow> execution_grant \<Rightarrow> bool" where
  "execution_grant_ok H c \<longleftrightarrow>
     list_all text_ok
        [gr_grant_id c, gr_jti c, gr_execution_id c, gr_request_id c, gr_actor_id c,
         gr_workspace_id c, gr_environment c, gr_capability c, gr_target_kind c,
         gr_policy_version c, gr_runner_class c, gr_execution_binding_authority_revision c,
         gr_issuer_identity c, gr_issuer_revision c]
     \<and> list_all digest_ok
        [gr_authorization_snapshot_digest c, gr_snapshot_authority_witness_set_digest c,
         gr_snapshot_authority_event_hash c, gr_parent_scope_digest c,
         gr_authority_constraint_digest c, gr_monotonic_authority_decision_digest c,
         gr_capability_definition_identity c, gr_target_digest c, gr_payload_digest c,
         gr_policy_identity c, gr_approval_set_digest c, gr_precondition_requirement_digest c,
         gr_precondition_expectation_digest c, gr_precondition_observation_digest c,
         gr_precondition_witness_digest c, gr_execution_binding_digest c,
         gr_execution_capsule_digest c, gr_grant_digest c]
     \<and> gr_required_permission c = ''execution.run''
     \<and> gr_precondition_enforcement_class c \<in> {''READ_THEN_COMPARE'', ''ATOMIC_PROVIDER_CONDITION''}
     \<and> gr_use_semantics c = ''ONE_TIME''
     \<and> 0 \<le> gr_revocation_epoch c
     \<and> list_all time_ok [gr_precondition_checked_at c, gr_issued_at c, gr_expires_at c]
     \<and> instant_at (gr_precondition_checked_at c) \<le> instant_at (gr_issued_at c)
     \<and> instant_at (gr_issued_at c) < instant_at (gr_expires_at c)
     \<and> instant_at (gr_expires_at c) - instant_at (gr_issued_at c) \<le> seconds max_grant_ttl_seconds
     \<and> instant_at (gr_issued_at c) - instant_at (gr_precondition_checked_at c)
         \<le> seconds max_precondition_to_grant_seconds
     \<and> gr_grant_digest c = claims_digest H (execution_grant_claims c)"

definition execution_grant_from_dict :: "(string \<Rightarrow> string) \<Rightarrow> json \<Rightarrow> execution_grant res" where
  "execution_grant_from_dict H = contract_from_dict 2 execution_grant_fields ''grant_type'' ''execution-grant/v2'' (execution_grant_init H)"

lemma execution_grant_of_sel [simp]:
  "gr_grant_id (execution_grant_of d) = str_of (d ''grant_id'')"
  "gr_jti (execution_grant_of d) = str_of (d ''jti'')"
  "gr_execution_id (execution_grant_of d) = str_of (d ''execution_id'')"
  "gr_request_id (execution_grant_of d) = str_of (d ''request_id'')"
  "gr_authorization_snapshot_digest (execution_grant_of d) = str_of (d ''authorization_snapshot_digest'')"
  "gr_snapshot_authority_witness_set_digest (execution_grant_of d) = str_of (d ''snapshot_authority_witness_set_digest'')"
  "gr_snapshot_authority_event_hash (execution_grant_of d) = str_of (d ''snapshot_authority_event_hash'')"
  "gr_parent_scope_digest (execution_grant_of d) = str_of (d ''parent_scope_digest'')"
  "gr_authority_constraint_digest (execution_grant_of d) = str_of (d ''authority_constraint_digest'')"
  "gr_monotonic_authority_decision_digest (execution_grant_of d) = str_of (d ''monotonic_authority_decision_digest'')"
  "gr_actor_id (execution_grant_of d) = str_of (d ''actor_id'')"
  "gr_workspace_id (execution_grant_of d) = str_of (d ''workspace_id'')"
  "gr_environment (execution_grant_of d) = str_of (d ''environment'')"
  "gr_capability (execution_grant_of d) = str_of (d ''capability'')"
  "gr_capability_definition_identity (execution_grant_of d) = str_of (d ''capability_definition_identity'')"
  "gr_target_kind (execution_grant_of d) = str_of (d ''target_kind'')"
  "gr_target_digest (execution_grant_of d) = str_of (d ''target_digest'')"
  "gr_payload_digest (execution_grant_of d) = str_of (d ''payload_digest'')"
  "gr_policy_version (execution_grant_of d) = str_of (d ''policy_version'')"
  "gr_policy_identity (execution_grant_of d) = str_of (d ''policy_identity'')"
  "gr_approval_set_digest (execution_grant_of d) = str_of (d ''approval_set_digest'')"
  "gr_required_permission (execution_grant_of d) = str_of (d ''required_permission'')"
  "gr_precondition_requirement_digest (execution_grant_of d) = str_of (d ''precondition_requirement_digest'')"
  "gr_precondition_expectation_digest (execution_grant_of d) = str_of (d ''precondition_expectation_digest'')"
  "gr_precondition_observation_digest (execution_grant_of d) = str_of (d ''precondition_observation_digest'')"
  "gr_precondition_witness_digest (execution_grant_of d) = str_of (d ''precondition_witness_digest'')"
  "gr_precondition_enforcement_class (execution_grant_of d) = str_of (d ''precondition_enforcement_class'')"
  "gr_precondition_checked_at (execution_grant_of d) = str_of (d ''precondition_checked_at'')"
  "gr_execution_binding_digest (execution_grant_of d) = str_of (d ''execution_binding_digest'')"
  "gr_execution_capsule_digest (execution_grant_of d) = str_of (d ''execution_capsule_digest'')"
  "gr_runner_class (execution_grant_of d) = str_of (d ''runner_class'')"
  "gr_execution_binding_authority_revision (execution_grant_of d) = str_of (d ''execution_binding_authority_revision'')"
  "gr_issued_at (execution_grant_of d) = str_of (d ''issued_at'')"
  "gr_expires_at (execution_grant_of d) = str_of (d ''expires_at'')"
  "gr_revocation_epoch (execution_grant_of d) = intval (d ''revocation_epoch'')"
  "gr_use_semantics (execution_grant_of d) = str_of (d ''use_semantics'')"
  "gr_issuer_identity (execution_grant_of d) = str_of (d ''issuer_identity'')"
  "gr_issuer_revision (execution_grant_of d) = str_of (d ''issuer_revision'')"
  "gr_grant_digest (execution_grant_of d) = str_of (d ''grant_digest'')"
  by (simp_all add: execution_grant_of_def)

lemma execution_grant_claims_determine:
  "map snd (execution_grant_claims c) = map snd (execution_grant_claims c') \<Longrightarrow> gr_grant_digest c = gr_grant_digest c' \<Longrightarrow> c = c'"
  by (simp add: execution_grant_claims_def)

lemma execution_grant_init_iff:
  "execution_grant_init H d = Inr c \<longleftrightarrow> execution_grant_ok H c
     \<and> list_all (\<lambda>(f, v). d f = v) (drop 2 (execution_grant_claims c) @ [(''grant_digest'', JStr (gr_grant_digest c))])"
  (is "?L \<longleftrightarrow> _ \<and> ?D c")
proof
  assume L: ?L
  then have c: "c = execution_grant_of d"
    unfolding execution_grant_init_def Let_def init_res_simps by blast
  have "execution_grant_ok H c" using L unfolding c execution_grant_init_def execution_grant_ok_def Let_def init_res_simps
    by (clarsimp simp: instant_at_def)
  moreover have "?D c" unfolding c
    by (simp add: execution_grant_claims_def init_simps)
      (use L in \<open>clarsimp simp: execution_grant_init_def Let_def init_res_simps\<close>)
  ultimately show "execution_grant_ok H c \<and> ?D c" ..
next
  assume R: "execution_grant_ok H c \<and> ?D c"
  then have c: "execution_grant_of d = c" by (simp add: execution_grant_of_def execution_grant_claims_def)
  note d = R [THEN conjunct2, unfolded execution_grant_claims_def]
  show ?L using R [THEN conjunct1] d unfolding execution_grant_init_def c Let_def
    by (clarsimp simp: execution_grant_ok_def init_res_simps instant_at_def)
qed

interpretation grant: content_bound H execution_grant_claims gr_grant_digest "execution_grant_ok H" 2 execution_grant_fields
  "''grant_type''" "''execution-grant/v2''" "''grant_digest''" "execution_grant_init H" for H
proof
  show "flat (execution_grant_claims c)" for c by (simp add: flat_def execution_grant_claims_def)
  show "map fst (execution_grant_claims c) = map fst (execution_grant_claims c')" for c c' by (simp add: execution_grant_claims_def)
  show "execution_grant_fields = map fst (execution_grant_claims c) @ [''grant_digest'']" for c
    by (simp add: execution_grant_fields_def execution_grant_claims_def)
  show "''grant_digest'' \<notin> fst ` set (execution_grant_claims c)" for c by (simp add: execution_grant_claims_def)
  show "take 2 (execution_grant_claims c) = [(''schema_version'', JInt 2), (''grant_type'', JStr ''execution-grant/v2'')]" for c
    by (simp add: execution_grant_claims_def)
  show "execution_grant_ok H c \<Longrightarrow> gr_grant_digest c = claims_digest H (execution_grant_claims c)" for c
    by (simp add: execution_grant_ok_def)
qed (rule execution_grant_claims_determine execution_grant_init_iff; assumption?)+

end
