(* ===== verification/Trusted_Clock.thy ===== *)
theory Trusted_Clock
  imports Contracts
begin

text \<open>
  The trusted clock (\<open>trusted_clock.py\<close>): a witness binds one reading of a named clock source to
  an environment, in canonical UTC text with milliseconds.  What a source returns is an argument
  of the model: \<open>NotADatetime\<close> and \<open>NaiveTime\<close> are the readings the authority refuses, \<open>AwareTime\<close>
  is an aware reading, given as its UTC calendar time.
\<close>

definition valid_environments :: "string list" where
  "valid_environments = [''local'', ''development'', ''staging'', ''production'']"

datatype clock_reading = NotADatetime | NaiveTime | AwareTime utc_time

record clock_witness =
  ck_source_identity :: string
  ck_authority_revision :: string
  ck_environment :: string
  ck_observed_at :: string
  ck_witness_digest :: string

definition clock_witness_claims :: "clock_witness \<Rightarrow> (string \<times> json) list" where
  "clock_witness_claims w =
     [(''witness_type'', JStr ''clock-witness/v1''),
      (''source_identity'', JStr (ck_source_identity w)),
      (''authority_revision'', JStr (ck_authority_revision w)),
      (''environment'', JStr (ck_environment w)),
      (''observed_at'', JStr (ck_observed_at w))]"

definition clock_witness_to_dict :: "clock_witness \<Rightarrow> (string \<times> json) list" where
  "clock_witness_to_dict w = clock_witness_claims w @ [(''witness_digest'', JStr (ck_witness_digest w))]"

text \<open>\<open>ClockWitness.__post_init__\<close>\<close>

definition clock_witness_init :: "(string \<Rightarrow> string) \<Rightarrow> clock_witness \<Rightarrow> clock_witness res" where
  "clock_witness_init H w =
     bindE (require_text ''source_identity'' (JStr (ck_source_identity w))) (\<lambda>_.
     bindE (require_text ''authority_revision'' (JStr (ck_authority_revision w))) (\<lambda>_.
     thenE (guardE (ck_environment w \<in> set valid_environments) (ValueError ''environment''))
    (bindE (orRaise (canonical_time (ck_observed_at w)) (ValueError ''observed_at'')) (\<lambda>_.
     bindE (require_digest ''witness_digest'' (JStr (ck_witness_digest w))) (\<lambda>_.
     thenE (guardE (ck_witness_digest w = claims_digest H (clock_witness_claims w))
       (ValueError ''witness_digest''))
      (Inr w))))))"

definition clock_witness_create ::
  "(string \<Rightarrow> string) \<Rightarrow> string \<Rightarrow> string \<Rightarrow> string \<Rightarrow> utc_time option \<Rightarrow> clock_witness res" where
  "clock_witness_create H source_identity authority_revision environment observed_at =
     bindE (orRaise observed_at (ValueError ''observed_at'')) (\<lambda>t.
       let w = \<lparr>ck_source_identity = source_identity, ck_authority_revision = authority_revision,
                ck_environment = environment, ck_observed_at = iso_ms t, ck_witness_digest = []\<rparr>
       in clock_witness_init H
            (w\<lparr>ck_witness_digest := claims_digest H (clock_witness_claims w)\<rparr>))"

text \<open>\<open>TrustedClockAuthority\<close>: its configuration and the two operations.\<close>

record clock_authority =
  ca_source_identity :: string
  ca_authority_revision :: string
  ca_allowed_environments :: "string list"

definition clock_authority_init ::
  "string \<Rightarrow> string \<Rightarrow> string list \<Rightarrow> clock_authority res" where
  "clock_authority_init source_identity authority_revision allowed =
     bindE (require_text ''source_identity'' (JStr source_identity)) (\<lambda>_.
     bindE (require_text ''authority_revision'' (JStr authority_revision)) (\<lambda>_.
     thenE (guardE (allowed \<noteq> [] \<and> set allowed \<subseteq> set valid_environments)
       (ValueError ''allowed_environments''))
      (Inr \<lparr>ca_source_identity = source_identity, ca_authority_revision = authority_revision,
            ca_allowed_environments = allowed\<rparr>)))"

definition clock_authority_witness ::
  "(string \<Rightarrow> string) \<Rightarrow> clock_authority \<Rightarrow> clock_reading \<Rightarrow> string \<Rightarrow> clock_witness res" where
  "clock_authority_witness H clk reading environment =
     thenE (guardE (environment \<in> set valid_environments) (ValueError ''environment''))
    (thenE (guardE (environment \<in> set (ca_allowed_environments clk)) (PermissionError ''environment''))
    (case reading of
       NotADatetime \<Rightarrow> Inl (RuntimeError ''clock source returned invalid value'')
     | NaiveTime \<Rightarrow> clock_witness_create H (ca_source_identity clk) (ca_authority_revision clk) environment None
     | AwareTime t \<Rightarrow>
         clock_witness_create H (ca_source_identity clk) (ca_authority_revision clk) environment (Some t)))"

subsection \<open>What a witness guarantees\<close>

definition clock_witness_ok :: "(string \<Rightarrow> string) \<Rightarrow> clock_witness \<Rightarrow> bool" where
  "clock_witness_ok H w \<longleftrightarrow>
     text_ok (ck_source_identity w) \<and> text_ok (ck_authority_revision w)
     \<and> ck_environment w \<in> set valid_environments \<and> time_ok (ck_observed_at w)
     \<and> digest_ok (ck_witness_digest w) \<and> ck_witness_digest w = claims_digest H (clock_witness_claims w)"

lemma clock_witness_init_iff:
  "clock_witness_init H w = Inr w' \<longleftrightarrow> w' = w \<and> clock_witness_ok H w"
  by (auto simp: clock_witness_init_def clock_witness_ok_def res_simps time_ok_def)

interpretation clock: content_digest H clock_witness_claims ck_witness_digest "clock_witness_ok H" for H
  by unfold_locales (simp_all add: flat_def clock_witness_claims_def clock_witness_ok_def)

lemma clock_witness_create_eq_Inr:
  assumes "clock_witness_create H src rv env (Some t) = Inr w"
  shows "clock_witness_ok H w \<and> ck_observed_at w = iso_ms t \<and> ck_environment w = env
     \<and> ck_source_identity w = src \<and> ck_authority_revision w = rv"
  using assms unfolding clock_witness_create_def by (auto simp: res_simps clock_witness_init_iff Let_def)

text \<open>A witness is issued for the environment asked for, and only from an aware reading.\<close>

lemma clock_authority_witness_eq_Inr:
  assumes "clock_authority_witness H clk reading env = Inr w"
  shows "\<exists>t. reading = AwareTime t \<and> clock_witness_ok H w \<and> ck_environment w = env
     \<and> ck_observed_at w = iso_ms t \<and> ck_source_identity w = ca_source_identity clk
     \<and> env \<in> set (ca_allowed_environments clk)"
proof (cases reading)
  case (AwareTime t)
  then show ?thesis
    using assms clock_witness_create_eq_Inr unfolding clock_authority_witness_def
    by (force simp: res_simps)
next
  case NaiveTime
  then show ?thesis
    using assms by (auto simp: clock_authority_witness_def clock_witness_create_def res_simps)
next
  case NotADatetime
  then show ?thesis using assms by (auto simp: clock_authority_witness_def res_simps)
qed

end
