(* ===== verification/Consumption_Witness.thy ===== *)
theory Consumption_Witness
  imports Execution_Grant Trusted_Clock
begin

text \<open>
  The witness that a one-time grant was consumed (class \<open>GrantConsumptionWitness\<close> of
  \<open>grant_consumption.py\<close>): its fields, the checks of its constructor, its claims and digest, and
  its creation from a grant, a clock witness and the digest of a conformance witness.
\<close>

record consumption_witness =
  gc_consumption_id :: string
  gc_jti :: string
  gc_grant_id :: string
  gc_grant_digest :: string
  gc_execution_id :: string
  gc_authorization_snapshot_digest :: string
  gc_execution_capsule_digest :: string
  gc_runner_class :: string
  gc_conformance_witness_digest :: string
  gc_clock_witness_digest :: string
  gc_live_revocation_epoch :: int
  gc_consumed_at :: string
  gc_serialization_contract :: string
  gc_authority_revision :: string
  gc_witness_digest :: string

definition consumption_witness_fields :: "string list" where
  "consumption_witness_fields =
     [''schema_version'', ''witness_type'', ''consumption_id'', ''jti'', ''grant_id'',
      ''grant_digest'', ''execution_id'', ''authorization_snapshot_digest'',
      ''execution_capsule_digest'', ''runner_class'', ''conformance_witness_digest'',
      ''clock_witness_digest'', ''live_revocation_epoch'', ''consumed_at'',
      ''serialization_contract'', ''authority_revision'', ''witness_digest'']"

definition consumption_witness_claims :: "consumption_witness \<Rightarrow> (string \<times> json) list" where
  "consumption_witness_claims c =
     [(''schema_version'', JInt 1), (''witness_type'', JStr ''grant-consumption-witness/v1''),
      (''consumption_id'', JStr (gc_consumption_id c)), (''jti'', JStr (gc_jti c)),
      (''grant_id'', JStr (gc_grant_id c)), (''grant_digest'', JStr (gc_grant_digest c)),
      (''execution_id'', JStr (gc_execution_id c)),
      (''authorization_snapshot_digest'', JStr (gc_authorization_snapshot_digest c)),
      (''execution_capsule_digest'', JStr (gc_execution_capsule_digest c)),
      (''runner_class'', JStr (gc_runner_class c)),
      (''conformance_witness_digest'', JStr (gc_conformance_witness_digest c)),
      (''clock_witness_digest'', JStr (gc_clock_witness_digest c)),
      (''live_revocation_epoch'', JInt (gc_live_revocation_epoch c)),
      (''consumed_at'', JStr (gc_consumed_at c)),
      (''serialization_contract'', JStr (gc_serialization_contract c)),
      (''authority_revision'', JStr (gc_authority_revision c))]"

definition consumption_witness_to_dict :: "consumption_witness \<Rightarrow> (string \<times> json) list" where
  "consumption_witness_to_dict c = consumption_witness_claims c @ [(''witness_digest'', JStr (gc_witness_digest c))]"

definition consumption_witness_of :: "(string \<Rightarrow> json) \<Rightarrow> consumption_witness" where
  "consumption_witness_of d =
     \<lparr>gc_consumption_id = str_of (d ''consumption_id''), gc_jti = str_of (d ''jti''),
      gc_grant_id = str_of (d ''grant_id''), gc_grant_digest = str_of (d ''grant_digest''),
      gc_execution_id = str_of (d ''execution_id''),
      gc_authorization_snapshot_digest = str_of (d ''authorization_snapshot_digest''),
      gc_execution_capsule_digest = str_of (d ''execution_capsule_digest''),
      gc_runner_class = str_of (d ''runner_class''),
      gc_conformance_witness_digest = str_of (d ''conformance_witness_digest''),
      gc_clock_witness_digest = str_of (d ''clock_witness_digest''),
      gc_live_revocation_epoch = intval (d ''live_revocation_epoch''),
      gc_consumed_at = str_of (d ''consumed_at''),
      gc_serialization_contract = str_of (d ''serialization_contract''),
      gc_authority_revision = str_of (d ''authority_revision''),
      gc_witness_digest = str_of (d ''witness_digest'')\<rparr>"

definition consumption_witness_init :: "(string \<Rightarrow> string) \<Rightarrow> (string \<Rightarrow> json) \<Rightarrow> consumption_witness res" where
  "consumption_witness_init H d =
     thenE (for_each (check_text d)
       [''consumption_id'', ''jti'', ''grant_id'', ''execution_id'', ''runner_class'',
        ''serialization_contract'', ''authority_revision''])
    (thenE (for_each (check_digest d)
       [''grant_digest'', ''authorization_snapshot_digest'', ''execution_capsule_digest'',
        ''conformance_witness_digest'', ''clock_witness_digest'', ''witness_digest''])
    (bindE (require_natural ''live_revocation_epoch'' (d ''live_revocation_epoch'')) (\<lambda>_.
     bindE (require_timestamp ''consumed_at'' (d ''consumed_at'')) (\<lambda>_.
     thenE (guardE (d ''serialization_contract'' = JStr ''sqlite-begin-immediate/v1'') (ValueError ''serialization_contract''))
      ((let c = consumption_witness_of d in thenE (guardE (gc_witness_digest c = claims_digest H (consumption_witness_claims c))
        (ValueError ''witness_digest'')) (Inr c)))))))"

definition consumption_witness_ok :: "(string \<Rightarrow> string) \<Rightarrow> consumption_witness \<Rightarrow> bool" where
  "consumption_witness_ok H c \<longleftrightarrow>
     list_all text_ok
        [gc_consumption_id c, gc_jti c, gc_grant_id c, gc_execution_id c, gc_runner_class c,
         gc_serialization_contract c, gc_authority_revision c]
     \<and> list_all digest_ok
        [gc_grant_digest c, gc_authorization_snapshot_digest c, gc_execution_capsule_digest c,
         gc_conformance_witness_digest c, gc_clock_witness_digest c, gc_witness_digest c]
     \<and> 0 \<le> gc_live_revocation_epoch c
     \<and> time_ok (gc_consumed_at c)
     \<and> gc_serialization_contract c = ''sqlite-begin-immediate/v1''
     \<and> gc_witness_digest c = claims_digest H (consumption_witness_claims c)"

definition consumption_witness_from_dict :: "(string \<Rightarrow> string) \<Rightarrow> json \<Rightarrow> consumption_witness res" where
  "consumption_witness_from_dict H = contract_from_dict 1 consumption_witness_fields ''witness_type'' ''grant-consumption-witness/v1'' (consumption_witness_init H)"

lemma consumption_witness_of_sel [simp]:
  "gc_consumption_id (consumption_witness_of d) = str_of (d ''consumption_id'')"
  "gc_jti (consumption_witness_of d) = str_of (d ''jti'')"
  "gc_grant_id (consumption_witness_of d) = str_of (d ''grant_id'')"
  "gc_grant_digest (consumption_witness_of d) = str_of (d ''grant_digest'')"
  "gc_execution_id (consumption_witness_of d) = str_of (d ''execution_id'')"
  "gc_authorization_snapshot_digest (consumption_witness_of d) = str_of (d ''authorization_snapshot_digest'')"
  "gc_execution_capsule_digest (consumption_witness_of d) = str_of (d ''execution_capsule_digest'')"
  "gc_runner_class (consumption_witness_of d) = str_of (d ''runner_class'')"
  "gc_conformance_witness_digest (consumption_witness_of d) = str_of (d ''conformance_witness_digest'')"
  "gc_clock_witness_digest (consumption_witness_of d) = str_of (d ''clock_witness_digest'')"
  "gc_live_revocation_epoch (consumption_witness_of d) = intval (d ''live_revocation_epoch'')"
  "gc_consumed_at (consumption_witness_of d) = str_of (d ''consumed_at'')"
  "gc_serialization_contract (consumption_witness_of d) = str_of (d ''serialization_contract'')"
  "gc_authority_revision (consumption_witness_of d) = str_of (d ''authority_revision'')"
  "gc_witness_digest (consumption_witness_of d) = str_of (d ''witness_digest'')"
  by (simp_all add: consumption_witness_of_def)

lemma consumption_witness_claims_determine:
  "map snd (consumption_witness_claims c) = map snd (consumption_witness_claims c') \<Longrightarrow> gc_witness_digest c = gc_witness_digest c' \<Longrightarrow> c = c'"
  by (simp add: consumption_witness_claims_def)

lemma consumption_witness_init_iff:
  "consumption_witness_init H d = Inr c \<longleftrightarrow> consumption_witness_ok H c
     \<and> list_all (\<lambda>(f, v). d f = v) (drop 2 (consumption_witness_claims c) @ [(''witness_digest'', JStr (gc_witness_digest c))])"
  (is "?L \<longleftrightarrow> _ \<and> ?D c")
proof
  assume L: ?L
  then have c: "c = consumption_witness_of d"
    unfolding consumption_witness_init_def Let_def init_res_simps by blast
  have "consumption_witness_ok H c" using L unfolding c consumption_witness_init_def consumption_witness_ok_def Let_def init_res_simps
    by (clarsimp simp: instant_at_def)
  moreover have "?D c" unfolding c
    by (simp add: consumption_witness_claims_def init_simps)
      (use L in \<open>clarsimp simp: consumption_witness_init_def Let_def init_res_simps\<close>)
  ultimately show "consumption_witness_ok H c \<and> ?D c" ..
next
  assume R: "consumption_witness_ok H c \<and> ?D c"
  then have c: "consumption_witness_of d = c" by (simp add: consumption_witness_of_def consumption_witness_claims_def)
  note d = R [THEN conjunct2, unfolded consumption_witness_claims_def]
  show ?L using R [THEN conjunct1] d unfolding consumption_witness_init_def c Let_def
    by (clarsimp simp: consumption_witness_ok_def init_res_simps instant_at_def)
qed

interpretation consumption: content_bound H consumption_witness_claims gc_witness_digest "consumption_witness_ok H" 1 consumption_witness_fields
  "''witness_type''" "''grant-consumption-witness/v1''" "''witness_digest''" "consumption_witness_init H" for H
proof
  show "flat (consumption_witness_claims c)" for c by (simp add: flat_def consumption_witness_claims_def)
  show "map fst (consumption_witness_claims c) = map fst (consumption_witness_claims c')" for c c' by (simp add: consumption_witness_claims_def)
  show "consumption_witness_fields = map fst (consumption_witness_claims c) @ [''witness_digest'']" for c
    by (simp add: consumption_witness_fields_def consumption_witness_claims_def)
  show "''witness_digest'' \<notin> fst ` set (consumption_witness_claims c)" for c by (simp add: consumption_witness_claims_def)
  show "take 2 (consumption_witness_claims c) = [(''schema_version'', JInt 1), (''witness_type'', JStr ''grant-consumption-witness/v1'')]" for c
    by (simp add: consumption_witness_claims_def)
  show "consumption_witness_ok H c \<Longrightarrow> gc_witness_digest c = claims_digest H (consumption_witness_claims c)" for c
    by (simp add: consumption_witness_ok_def)
qed (rule consumption_witness_claims_determine consumption_witness_init_iff; assumption?)+

lemma consumption_witness_claims_seal [simp]: "consumption_witness_claims (c\<lparr>gc_witness_digest := x\<rparr>) = consumption_witness_claims c"
  by (simp add: consumption_witness_claims_def)

lemma consumption_witness_dict_eq: "consumption_witness_to_dict c = consumption.dict c"
  by (simp add: consumption_witness_to_dict_def consumption.dict_def)

definition consumption_witness_create ::
  "(string \<Rightarrow> string) \<Rightarrow> string \<Rightarrow> execution_grant \<Rightarrow> string \<Rightarrow> clock_witness \<Rightarrow> int \<Rightarrow> string \<Rightarrow> consumption_witness res" where
  "consumption_witness_create H consumption_id grant conformance_witness_digest clock live_revocation_epoch authority_revision =
     (let c = \<lparr>gc_consumption_id = consumption_id, gc_jti = gr_jti grant,
              gc_grant_id = gr_grant_id grant, gc_grant_digest = gr_grant_digest grant,
              gc_execution_id = gr_execution_id grant,
              gc_authorization_snapshot_digest = gr_authorization_snapshot_digest grant,
              gc_execution_capsule_digest = gr_execution_capsule_digest grant,
              gc_runner_class = gr_runner_class grant,
              gc_conformance_witness_digest = conformance_witness_digest,
              gc_clock_witness_digest = ck_witness_digest clock,
              gc_live_revocation_epoch = live_revocation_epoch,
              gc_consumed_at = ck_observed_at clock,
              gc_serialization_contract = ''sqlite-begin-immediate/v1'',
              gc_authority_revision = authority_revision, gc_witness_digest = []\<rparr>
      in consumption_witness_init H (item (consumption_witness_to_dict (c\<lparr>gc_witness_digest := claims_digest H (consumption_witness_claims c)\<rparr>))))"


end
