(* ===== verification/Dispatch_Outbox.thy ===== *)
theory Dispatch_Outbox
  imports Consumption_Witness
begin

text \<open>
  The dispatch intent (\<open>dispatch_outbox.py\<close>): a \<open>DispatchOutboxEntry\<close> freezes the routing claims
  of one consumed grant.
\<close>

record outbox_entry =
  ox_outbox_id :: string
  ox_consumption_id :: string
  ox_consumption_witness_digest :: string
  ox_jti :: string
  ox_grant_id :: string
  ox_grant_digest :: string
  ox_execution_id :: string
  ox_request_id :: string
  ox_actor_id :: string
  ox_workspace_id :: string
  ox_environment :: string
  ox_capability :: string
  ox_capability_definition_identity :: string
  ox_authorization_snapshot_digest :: string
  ox_target_kind :: string
  ox_target_digest :: string
  ox_payload_digest :: string
  ox_required_permission :: string
  ox_execution_binding_digest :: string
  ox_execution_capsule_digest :: string
  ox_runner_class :: string
  ox_precondition_enforcement_class :: string
  ox_use_semantics :: string
  ox_created_at :: string
  ox_outbox_revision :: string
  ox_entry_digest :: string

definition outbox_entry_fields :: "string list" where
  "outbox_entry_fields =
     [''schema_version'', ''entry_type'', ''outbox_id'', ''consumption_id'',
      ''consumption_witness_digest'', ''jti'', ''grant_id'', ''grant_digest'', ''execution_id'',
      ''request_id'', ''actor_id'', ''workspace_id'', ''environment'', ''capability'',
      ''capability_definition_identity'', ''authorization_snapshot_digest'', ''target_kind'',
      ''target_digest'', ''payload_digest'', ''required_permission'',
      ''execution_binding_digest'', ''execution_capsule_digest'', ''runner_class'',
      ''precondition_enforcement_class'', ''use_semantics'', ''created_at'', ''outbox_revision'',
      ''entry_digest'']"

definition outbox_entry_claims :: "outbox_entry \<Rightarrow> (string \<times> json) list" where
  "outbox_entry_claims c =
     [(''schema_version'', JInt 1), (''entry_type'', JStr ''dispatch-outbox-entry/v1''),
      (''outbox_id'', JStr (ox_outbox_id c)), (''consumption_id'', JStr (ox_consumption_id c)),
      (''consumption_witness_digest'', JStr (ox_consumption_witness_digest c)),
      (''jti'', JStr (ox_jti c)), (''grant_id'', JStr (ox_grant_id c)),
      (''grant_digest'', JStr (ox_grant_digest c)), (''execution_id'', JStr (ox_execution_id c)),
      (''request_id'', JStr (ox_request_id c)), (''actor_id'', JStr (ox_actor_id c)),
      (''workspace_id'', JStr (ox_workspace_id c)), (''environment'', JStr (ox_environment c)),
      (''capability'', JStr (ox_capability c)),
      (''capability_definition_identity'', JStr (ox_capability_definition_identity c)),
      (''authorization_snapshot_digest'', JStr (ox_authorization_snapshot_digest c)),
      (''target_kind'', JStr (ox_target_kind c)), (''target_digest'', JStr (ox_target_digest c)),
      (''payload_digest'', JStr (ox_payload_digest c)),
      (''required_permission'', JStr (ox_required_permission c)),
      (''execution_binding_digest'', JStr (ox_execution_binding_digest c)),
      (''execution_capsule_digest'', JStr (ox_execution_capsule_digest c)),
      (''runner_class'', JStr (ox_runner_class c)),
      (''precondition_enforcement_class'', JStr (ox_precondition_enforcement_class c)),
      (''use_semantics'', JStr (ox_use_semantics c)), (''created_at'', JStr (ox_created_at c)),
      (''outbox_revision'', JStr (ox_outbox_revision c))]"

definition outbox_entry_to_dict :: "outbox_entry \<Rightarrow> (string \<times> json) list" where
  "outbox_entry_to_dict c = outbox_entry_claims c @ [(''entry_digest'', JStr (ox_entry_digest c))]"

definition outbox_entry_of :: "(string \<Rightarrow> json) \<Rightarrow> outbox_entry" where
  "outbox_entry_of d =
     \<lparr>ox_outbox_id = str_of (d ''outbox_id''), ox_consumption_id = str_of (d ''consumption_id''),
      ox_consumption_witness_digest = str_of (d ''consumption_witness_digest''),
      ox_jti = str_of (d ''jti''), ox_grant_id = str_of (d ''grant_id''),
      ox_grant_digest = str_of (d ''grant_digest''),
      ox_execution_id = str_of (d ''execution_id''), ox_request_id = str_of (d ''request_id''),
      ox_actor_id = str_of (d ''actor_id''), ox_workspace_id = str_of (d ''workspace_id''),
      ox_environment = str_of (d ''environment''), ox_capability = str_of (d ''capability''),
      ox_capability_definition_identity = str_of (d ''capability_definition_identity''),
      ox_authorization_snapshot_digest = str_of (d ''authorization_snapshot_digest''),
      ox_target_kind = str_of (d ''target_kind''),
      ox_target_digest = str_of (d ''target_digest''),
      ox_payload_digest = str_of (d ''payload_digest''),
      ox_required_permission = str_of (d ''required_permission''),
      ox_execution_binding_digest = str_of (d ''execution_binding_digest''),
      ox_execution_capsule_digest = str_of (d ''execution_capsule_digest''),
      ox_runner_class = str_of (d ''runner_class''),
      ox_precondition_enforcement_class = str_of (d ''precondition_enforcement_class''),
      ox_use_semantics = str_of (d ''use_semantics''), ox_created_at = str_of (d ''created_at''),
      ox_outbox_revision = str_of (d ''outbox_revision''),
      ox_entry_digest = str_of (d ''entry_digest'')\<rparr>"

definition outbox_entry_init :: "(string \<Rightarrow> string) \<Rightarrow> (string \<Rightarrow> json) \<Rightarrow> outbox_entry res" where
  "outbox_entry_init H d =
     thenE (for_each (check_text d)
       [''outbox_id'', ''consumption_id'', ''jti'', ''grant_id'', ''execution_id'',
        ''request_id'', ''actor_id'', ''workspace_id'', ''environment'', ''capability'',
        ''target_kind'', ''required_permission'', ''runner_class'',
        ''precondition_enforcement_class'', ''use_semantics'', ''outbox_revision''])
    (thenE (for_each (check_digest d)
       [''consumption_witness_digest'', ''grant_digest'', ''capability_definition_identity'',
        ''authorization_snapshot_digest'', ''target_digest'', ''payload_digest'',
        ''execution_binding_digest'', ''execution_capsule_digest'', ''entry_digest''])
    (bindE (require_timestamp ''created_at'' (d ''created_at'')) (\<lambda>_.
     thenE (guardE (d ''required_permission'' = JStr ''execution.run'') (ValueError ''required_permission''))
    (thenE (guardE (d ''use_semantics'' = JStr ''ONE_TIME'') (ValueError ''use_semantics''))
    (bindE (require_in ''precondition_enforcement_class'' [''READ_THEN_COMPARE'', ''ATOMIC_PROVIDER_CONDITION'']
              (d ''precondition_enforcement_class'')) (\<lambda>_.
      (let c = outbox_entry_of d in thenE (guardE (ox_entry_digest c = claims_digest H (outbox_entry_claims c))
        (ValueError ''entry_digest'')) (Inr c))))))))"

definition outbox_entry_ok :: "(string \<Rightarrow> string) \<Rightarrow> outbox_entry \<Rightarrow> bool" where
  "outbox_entry_ok H c \<longleftrightarrow>
     list_all text_ok
        [ox_outbox_id c, ox_consumption_id c, ox_jti c, ox_grant_id c, ox_execution_id c,
         ox_request_id c, ox_actor_id c, ox_workspace_id c, ox_environment c, ox_capability c,
         ox_target_kind c, ox_required_permission c, ox_runner_class c,
         ox_precondition_enforcement_class c, ox_use_semantics c, ox_outbox_revision c]
     \<and> list_all digest_ok
        [ox_consumption_witness_digest c, ox_grant_digest c, ox_capability_definition_identity c,
         ox_authorization_snapshot_digest c, ox_target_digest c, ox_payload_digest c,
         ox_execution_binding_digest c, ox_execution_capsule_digest c, ox_entry_digest c]
     \<and> time_ok (ox_created_at c)
     \<and> ox_required_permission c = ''execution.run''
     \<and> ox_use_semantics c = ''ONE_TIME''
     \<and> ox_precondition_enforcement_class c \<in> {''READ_THEN_COMPARE'', ''ATOMIC_PROVIDER_CONDITION''}
     \<and> ox_entry_digest c = claims_digest H (outbox_entry_claims c)"

definition outbox_entry_from_dict :: "(string \<Rightarrow> string) \<Rightarrow> json \<Rightarrow> outbox_entry res" where
  "outbox_entry_from_dict H = contract_from_dict 1 outbox_entry_fields ''entry_type'' ''dispatch-outbox-entry/v1'' (outbox_entry_init H)"

lemma outbox_entry_of_sel [simp]:
  "ox_outbox_id (outbox_entry_of d) = str_of (d ''outbox_id'')"
  "ox_consumption_id (outbox_entry_of d) = str_of (d ''consumption_id'')"
  "ox_consumption_witness_digest (outbox_entry_of d) = str_of (d ''consumption_witness_digest'')"
  "ox_jti (outbox_entry_of d) = str_of (d ''jti'')"
  "ox_grant_id (outbox_entry_of d) = str_of (d ''grant_id'')"
  "ox_grant_digest (outbox_entry_of d) = str_of (d ''grant_digest'')"
  "ox_execution_id (outbox_entry_of d) = str_of (d ''execution_id'')"
  "ox_request_id (outbox_entry_of d) = str_of (d ''request_id'')"
  "ox_actor_id (outbox_entry_of d) = str_of (d ''actor_id'')"
  "ox_workspace_id (outbox_entry_of d) = str_of (d ''workspace_id'')"
  "ox_environment (outbox_entry_of d) = str_of (d ''environment'')"
  "ox_capability (outbox_entry_of d) = str_of (d ''capability'')"
  "ox_capability_definition_identity (outbox_entry_of d) = str_of (d ''capability_definition_identity'')"
  "ox_authorization_snapshot_digest (outbox_entry_of d) = str_of (d ''authorization_snapshot_digest'')"
  "ox_target_kind (outbox_entry_of d) = str_of (d ''target_kind'')"
  "ox_target_digest (outbox_entry_of d) = str_of (d ''target_digest'')"
  "ox_payload_digest (outbox_entry_of d) = str_of (d ''payload_digest'')"
  "ox_required_permission (outbox_entry_of d) = str_of (d ''required_permission'')"
  "ox_execution_binding_digest (outbox_entry_of d) = str_of (d ''execution_binding_digest'')"
  "ox_execution_capsule_digest (outbox_entry_of d) = str_of (d ''execution_capsule_digest'')"
  "ox_runner_class (outbox_entry_of d) = str_of (d ''runner_class'')"
  "ox_precondition_enforcement_class (outbox_entry_of d) = str_of (d ''precondition_enforcement_class'')"
  "ox_use_semantics (outbox_entry_of d) = str_of (d ''use_semantics'')"
  "ox_created_at (outbox_entry_of d) = str_of (d ''created_at'')"
  "ox_outbox_revision (outbox_entry_of d) = str_of (d ''outbox_revision'')"
  "ox_entry_digest (outbox_entry_of d) = str_of (d ''entry_digest'')"
  by (simp_all add: outbox_entry_of_def)

lemma outbox_entry_claims_determine:
  "map snd (outbox_entry_claims c) = map snd (outbox_entry_claims c') \<Longrightarrow> ox_entry_digest c = ox_entry_digest c' \<Longrightarrow> c = c'"
  by (simp add: outbox_entry_claims_def)

lemma outbox_entry_init_iff:
  "outbox_entry_init H d = Inr c \<longleftrightarrow> outbox_entry_ok H c
     \<and> list_all (\<lambda>(f, v). d f = v) (drop 2 (outbox_entry_claims c) @ [(''entry_digest'', JStr (ox_entry_digest c))])"
  (is "?L \<longleftrightarrow> _ \<and> ?D c")
proof
  assume L: ?L
  then have c: "c = outbox_entry_of d"
    unfolding outbox_entry_init_def Let_def init_res_simps by blast
  have "outbox_entry_ok H c" using L unfolding c outbox_entry_init_def outbox_entry_ok_def Let_def init_res_simps
    by (clarsimp simp: instant_at_def)
  moreover have "?D c" unfolding c
    by (simp add: outbox_entry_claims_def init_simps)
      (use L in \<open>clarsimp simp: outbox_entry_init_def Let_def init_res_simps\<close>)
  ultimately show "outbox_entry_ok H c \<and> ?D c" ..
next
  assume R: "outbox_entry_ok H c \<and> ?D c"
  then have c: "outbox_entry_of d = c" by (simp add: outbox_entry_of_def outbox_entry_claims_def)
  note d = R [THEN conjunct2, unfolded outbox_entry_claims_def]
  show ?L using R [THEN conjunct1] d unfolding outbox_entry_init_def c Let_def
    by (clarsimp simp: outbox_entry_ok_def init_res_simps instant_at_def)
qed

interpretation outbox: content_bound H outbox_entry_claims ox_entry_digest "outbox_entry_ok H" 1 outbox_entry_fields
  "''entry_type''" "''dispatch-outbox-entry/v1''" "''entry_digest''" "outbox_entry_init H" for H
proof
  show "flat (outbox_entry_claims c)" for c by (simp add: flat_def outbox_entry_claims_def)
  show "map fst (outbox_entry_claims c) = map fst (outbox_entry_claims c')" for c c' by (simp add: outbox_entry_claims_def)
  show "outbox_entry_fields = map fst (outbox_entry_claims c) @ [''entry_digest'']" for c
    by (simp add: outbox_entry_fields_def outbox_entry_claims_def)
  show "''entry_digest'' \<notin> fst ` set (outbox_entry_claims c)" for c by (simp add: outbox_entry_claims_def)
  show "take 2 (outbox_entry_claims c) = [(''schema_version'', JInt 1), (''entry_type'', JStr ''dispatch-outbox-entry/v1'')]" for c
    by (simp add: outbox_entry_claims_def)
  show "outbox_entry_ok H c \<Longrightarrow> ox_entry_digest c = claims_digest H (outbox_entry_claims c)" for c
    by (simp add: outbox_entry_ok_def)
qed (rule outbox_entry_claims_determine outbox_entry_init_iff; assumption?)+

lemma outbox_entry_claims_seal [simp]: "outbox_entry_claims (c\<lparr>ox_entry_digest := x\<rparr>) = outbox_entry_claims c"
  by (simp add: outbox_entry_claims_def)

lemma outbox_entry_dict_eq: "outbox_entry_to_dict c = outbox.dict c"
  by (simp add: outbox_entry_to_dict_def outbox.dict_def)

definition outbox_entry_create ::
  "(string \<Rightarrow> string) \<Rightarrow> string \<Rightarrow> execution_grant \<Rightarrow> consumption_witness \<Rightarrow> string \<Rightarrow> outbox_entry res" where
  "outbox_entry_create H outbox_id grant witness outbox_revision =
     thenE (guardE
       ((gc_jti witness, gc_grant_id witness, gc_grant_digest witness, gc_execution_id witness,
         gc_authorization_snapshot_digest witness, gc_execution_capsule_digest witness,
         gc_runner_class witness) =
        (gr_jti grant, gr_grant_id grant, gr_grant_digest grant, gr_execution_id grant,
         gr_authorization_snapshot_digest grant, gr_execution_capsule_digest grant,
         gr_runner_class grant)) (PermissionError ''grant consumption binding''))
     (let c = \<lparr>ox_outbox_id = outbox_id, ox_consumption_id = gc_consumption_id witness,
              ox_consumption_witness_digest = gc_witness_digest witness, ox_jti = gr_jti grant,
              ox_grant_id = gr_grant_id grant, ox_grant_digest = gr_grant_digest grant,
              ox_execution_id = gr_execution_id grant, ox_request_id = gr_request_id grant,
              ox_actor_id = gr_actor_id grant, ox_workspace_id = gr_workspace_id grant,
              ox_environment = gr_environment grant, ox_capability = gr_capability grant,
              ox_capability_definition_identity = gr_capability_definition_identity grant,
              ox_authorization_snapshot_digest = gr_authorization_snapshot_digest grant,
              ox_target_kind = gr_target_kind grant, ox_target_digest = gr_target_digest grant,
              ox_payload_digest = gr_payload_digest grant,
              ox_required_permission = gr_required_permission grant,
              ox_execution_binding_digest = gr_execution_binding_digest grant,
              ox_execution_capsule_digest = gr_execution_capsule_digest grant,
              ox_runner_class = gr_runner_class grant,
              ox_precondition_enforcement_class = gr_precondition_enforcement_class grant,
              ox_use_semantics = gr_use_semantics grant, ox_created_at = gc_consumed_at witness,
              ox_outbox_revision = outbox_revision, ox_entry_digest = []\<rparr>
      in outbox_entry_init H (item (outbox_entry_to_dict (c\<lparr>ox_entry_digest := claims_digest H (outbox_entry_claims c)\<rparr>))))"


end
