(* ===== verification/Dispatch_Envelope.thy ===== *)
theory Dispatch_Envelope
  imports Dispatch_Outbox
begin

text \<open>
  The transport envelope (\<open>dispatch_envelope.py\<close>): a \<open>DispatchEnvelope\<close> projects one outbox entry
  and names it by a deterministic \<open>dispatch_id\<close>, the identity redeliveries are recognised by.
\<close>

definition delivery_semantics :: string where
  "delivery_semantics = ''AT_LEAST_ONCE_REDELIVERY_DEDUP_REQUIRED''"

definition dispatch_id_of :: "(string \<Rightarrow> string) \<Rightarrow> string \<Rightarrow> string \<Rightarrow> string" where
  "dispatch_id_of H outbox_id outbox_entry_digest = claims_digest H
     [(''identity_type'', JStr ''dispatch-id/v1''), (''outbox_id'', JStr outbox_id),
      (''outbox_entry_digest'', JStr outbox_entry_digest)]"

record envelope =
  ev_dispatch_id :: string
  ev_outbox_id :: string
  ev_outbox_entry_digest :: string
  ev_consumption_id :: string
  ev_consumption_witness_digest :: string
  ev_jti :: string
  ev_grant_id :: string
  ev_grant_digest :: string
  ev_execution_id :: string
  ev_request_id :: string
  ev_actor_id :: string
  ev_workspace_id :: string
  ev_environment :: string
  ev_capability :: string
  ev_capability_definition_identity :: string
  ev_authorization_snapshot_digest :: string
  ev_target_kind :: string
  ev_target_digest :: string
  ev_payload_digest :: string
  ev_required_permission :: string
  ev_execution_binding_digest :: string
  ev_execution_capsule_digest :: string
  ev_runner_class :: string
  ev_precondition_enforcement_class :: string
  ev_use_semantics :: string
  ev_outbox_created_at :: string
  ev_outbox_revision :: string
  ev_delivery_semantics :: string
  ev_envelope_revision :: string
  ev_envelope_digest :: string

definition envelope_fields :: "string list" where
  "envelope_fields =
     [''schema_version'', ''envelope_type'', ''dispatch_id'', ''outbox_id'',
      ''outbox_entry_digest'', ''consumption_id'', ''consumption_witness_digest'', ''jti'',
      ''grant_id'', ''grant_digest'', ''execution_id'', ''request_id'', ''actor_id'',
      ''workspace_id'', ''environment'', ''capability'', ''capability_definition_identity'',
      ''authorization_snapshot_digest'', ''target_kind'', ''target_digest'', ''payload_digest'',
      ''required_permission'', ''execution_binding_digest'', ''execution_capsule_digest'',
      ''runner_class'', ''precondition_enforcement_class'', ''use_semantics'',
      ''outbox_created_at'', ''outbox_revision'', ''delivery_semantics'', ''envelope_revision'',
      ''envelope_digest'']"

definition envelope_claims :: "envelope \<Rightarrow> (string \<times> json) list" where
  "envelope_claims c =
     [(''schema_version'', JInt 1), (''envelope_type'', JStr ''dispatch-envelope/v1''),
      (''dispatch_id'', JStr (ev_dispatch_id c)), (''outbox_id'', JStr (ev_outbox_id c)),
      (''outbox_entry_digest'', JStr (ev_outbox_entry_digest c)),
      (''consumption_id'', JStr (ev_consumption_id c)),
      (''consumption_witness_digest'', JStr (ev_consumption_witness_digest c)),
      (''jti'', JStr (ev_jti c)), (''grant_id'', JStr (ev_grant_id c)),
      (''grant_digest'', JStr (ev_grant_digest c)), (''execution_id'', JStr (ev_execution_id c)),
      (''request_id'', JStr (ev_request_id c)), (''actor_id'', JStr (ev_actor_id c)),
      (''workspace_id'', JStr (ev_workspace_id c)), (''environment'', JStr (ev_environment c)),
      (''capability'', JStr (ev_capability c)),
      (''capability_definition_identity'', JStr (ev_capability_definition_identity c)),
      (''authorization_snapshot_digest'', JStr (ev_authorization_snapshot_digest c)),
      (''target_kind'', JStr (ev_target_kind c)), (''target_digest'', JStr (ev_target_digest c)),
      (''payload_digest'', JStr (ev_payload_digest c)),
      (''required_permission'', JStr (ev_required_permission c)),
      (''execution_binding_digest'', JStr (ev_execution_binding_digest c)),
      (''execution_capsule_digest'', JStr (ev_execution_capsule_digest c)),
      (''runner_class'', JStr (ev_runner_class c)),
      (''precondition_enforcement_class'', JStr (ev_precondition_enforcement_class c)),
      (''use_semantics'', JStr (ev_use_semantics c)),
      (''outbox_created_at'', JStr (ev_outbox_created_at c)),
      (''outbox_revision'', JStr (ev_outbox_revision c)),
      (''delivery_semantics'', JStr (ev_delivery_semantics c)),
      (''envelope_revision'', JStr (ev_envelope_revision c))]"

definition envelope_to_dict :: "envelope \<Rightarrow> (string \<times> json) list" where
  "envelope_to_dict c = envelope_claims c @ [(''envelope_digest'', JStr (ev_envelope_digest c))]"

definition envelope_of :: "(string \<Rightarrow> json) \<Rightarrow> envelope" where
  "envelope_of d =
     \<lparr>ev_dispatch_id = str_of (d ''dispatch_id''), ev_outbox_id = str_of (d ''outbox_id''),
      ev_outbox_entry_digest = str_of (d ''outbox_entry_digest''),
      ev_consumption_id = str_of (d ''consumption_id''),
      ev_consumption_witness_digest = str_of (d ''consumption_witness_digest''),
      ev_jti = str_of (d ''jti''), ev_grant_id = str_of (d ''grant_id''),
      ev_grant_digest = str_of (d ''grant_digest''),
      ev_execution_id = str_of (d ''execution_id''), ev_request_id = str_of (d ''request_id''),
      ev_actor_id = str_of (d ''actor_id''), ev_workspace_id = str_of (d ''workspace_id''),
      ev_environment = str_of (d ''environment''), ev_capability = str_of (d ''capability''),
      ev_capability_definition_identity = str_of (d ''capability_definition_identity''),
      ev_authorization_snapshot_digest = str_of (d ''authorization_snapshot_digest''),
      ev_target_kind = str_of (d ''target_kind''),
      ev_target_digest = str_of (d ''target_digest''),
      ev_payload_digest = str_of (d ''payload_digest''),
      ev_required_permission = str_of (d ''required_permission''),
      ev_execution_binding_digest = str_of (d ''execution_binding_digest''),
      ev_execution_capsule_digest = str_of (d ''execution_capsule_digest''),
      ev_runner_class = str_of (d ''runner_class''),
      ev_precondition_enforcement_class = str_of (d ''precondition_enforcement_class''),
      ev_use_semantics = str_of (d ''use_semantics''),
      ev_outbox_created_at = str_of (d ''outbox_created_at''),
      ev_outbox_revision = str_of (d ''outbox_revision''),
      ev_delivery_semantics = str_of (d ''delivery_semantics''),
      ev_envelope_revision = str_of (d ''envelope_revision''),
      ev_envelope_digest = str_of (d ''envelope_digest'')\<rparr>"

definition envelope_init :: "(string \<Rightarrow> string) \<Rightarrow> (string \<Rightarrow> json) \<Rightarrow> envelope res" where
  "envelope_init H d =
     thenE (for_each (check_text d)
       [''outbox_id'', ''consumption_id'', ''jti'', ''grant_id'', ''execution_id'',
        ''request_id'', ''actor_id'', ''workspace_id'', ''environment'', ''capability'',
        ''target_kind'', ''required_permission'', ''runner_class'',
        ''precondition_enforcement_class'', ''use_semantics'', ''outbox_revision'',
        ''delivery_semantics'', ''envelope_revision''])
    (thenE (for_each (check_digest d)
       [''dispatch_id'', ''outbox_entry_digest'', ''consumption_witness_digest'',
        ''grant_digest'', ''capability_definition_identity'', ''authorization_snapshot_digest'',
        ''target_digest'', ''payload_digest'', ''execution_binding_digest'',
        ''execution_capsule_digest'', ''envelope_digest''])
    (bindE (require_timestamp ''outbox_created_at'' (d ''outbox_created_at'')) (\<lambda>_.
     thenE (guardE (d ''required_permission'' = JStr ''execution.run'') (ValueError ''required_permission''))
    (thenE (guardE (d ''use_semantics'' = JStr ''ONE_TIME'') (ValueError ''use_semantics''))
    (bindE (require_in ''precondition_enforcement_class'' [''READ_THEN_COMPARE'', ''ATOMIC_PROVIDER_CONDITION'']
              (d ''precondition_enforcement_class'')) (\<lambda>_.
     thenE (guardE (d ''delivery_semantics'' = JStr delivery_semantics) (ValueError ''delivery_semantics''))
    (thenE (guardE (d ''dispatch_id'' = JStr (dispatch_id_of H (str_of (d ''outbox_id'')) (str_of (d ''outbox_entry_digest'')))) (ValueError ''dispatch_id''))
      ((let c = envelope_of d in thenE (guardE (ev_envelope_digest c = claims_digest H (envelope_claims c))
        (ValueError ''envelope_digest'')) (Inr c))))))))))"

definition envelope_ok :: "(string \<Rightarrow> string) \<Rightarrow> envelope \<Rightarrow> bool" where
  "envelope_ok H c \<longleftrightarrow>
     list_all text_ok
        [ev_outbox_id c, ev_consumption_id c, ev_jti c, ev_grant_id c, ev_execution_id c,
         ev_request_id c, ev_actor_id c, ev_workspace_id c, ev_environment c, ev_capability c,
         ev_target_kind c, ev_required_permission c, ev_runner_class c,
         ev_precondition_enforcement_class c, ev_use_semantics c, ev_outbox_revision c,
         ev_delivery_semantics c, ev_envelope_revision c]
     \<and> list_all digest_ok
        [ev_dispatch_id c, ev_outbox_entry_digest c, ev_consumption_witness_digest c,
         ev_grant_digest c, ev_capability_definition_identity c,
         ev_authorization_snapshot_digest c, ev_target_digest c, ev_payload_digest c,
         ev_execution_binding_digest c, ev_execution_capsule_digest c, ev_envelope_digest c]
     \<and> time_ok (ev_outbox_created_at c)
     \<and> ev_required_permission c = ''execution.run''
     \<and> ev_use_semantics c = ''ONE_TIME''
     \<and> ev_precondition_enforcement_class c \<in> {''READ_THEN_COMPARE'', ''ATOMIC_PROVIDER_CONDITION''}
     \<and> ev_delivery_semantics c = delivery_semantics
     \<and> ev_dispatch_id c = dispatch_id_of H (ev_outbox_id c) (ev_outbox_entry_digest c)
     \<and> ev_envelope_digest c = claims_digest H (envelope_claims c)"

definition envelope_from_dict :: "(string \<Rightarrow> string) \<Rightarrow> json \<Rightarrow> envelope res" where
  "envelope_from_dict H = contract_from_dict 1 envelope_fields ''envelope_type'' ''dispatch-envelope/v1'' (envelope_init H)"

lemma envelope_of_sel [simp]:
  "ev_dispatch_id (envelope_of d) = str_of (d ''dispatch_id'')"
  "ev_outbox_id (envelope_of d) = str_of (d ''outbox_id'')"
  "ev_outbox_entry_digest (envelope_of d) = str_of (d ''outbox_entry_digest'')"
  "ev_consumption_id (envelope_of d) = str_of (d ''consumption_id'')"
  "ev_consumption_witness_digest (envelope_of d) = str_of (d ''consumption_witness_digest'')"
  "ev_jti (envelope_of d) = str_of (d ''jti'')"
  "ev_grant_id (envelope_of d) = str_of (d ''grant_id'')"
  "ev_grant_digest (envelope_of d) = str_of (d ''grant_digest'')"
  "ev_execution_id (envelope_of d) = str_of (d ''execution_id'')"
  "ev_request_id (envelope_of d) = str_of (d ''request_id'')"
  "ev_actor_id (envelope_of d) = str_of (d ''actor_id'')"
  "ev_workspace_id (envelope_of d) = str_of (d ''workspace_id'')"
  "ev_environment (envelope_of d) = str_of (d ''environment'')"
  "ev_capability (envelope_of d) = str_of (d ''capability'')"
  "ev_capability_definition_identity (envelope_of d) = str_of (d ''capability_definition_identity'')"
  "ev_authorization_snapshot_digest (envelope_of d) = str_of (d ''authorization_snapshot_digest'')"
  "ev_target_kind (envelope_of d) = str_of (d ''target_kind'')"
  "ev_target_digest (envelope_of d) = str_of (d ''target_digest'')"
  "ev_payload_digest (envelope_of d) = str_of (d ''payload_digest'')"
  "ev_required_permission (envelope_of d) = str_of (d ''required_permission'')"
  "ev_execution_binding_digest (envelope_of d) = str_of (d ''execution_binding_digest'')"
  "ev_execution_capsule_digest (envelope_of d) = str_of (d ''execution_capsule_digest'')"
  "ev_runner_class (envelope_of d) = str_of (d ''runner_class'')"
  "ev_precondition_enforcement_class (envelope_of d) = str_of (d ''precondition_enforcement_class'')"
  "ev_use_semantics (envelope_of d) = str_of (d ''use_semantics'')"
  "ev_outbox_created_at (envelope_of d) = str_of (d ''outbox_created_at'')"
  "ev_outbox_revision (envelope_of d) = str_of (d ''outbox_revision'')"
  "ev_delivery_semantics (envelope_of d) = str_of (d ''delivery_semantics'')"
  "ev_envelope_revision (envelope_of d) = str_of (d ''envelope_revision'')"
  "ev_envelope_digest (envelope_of d) = str_of (d ''envelope_digest'')"
  by (simp_all add: envelope_of_def)

lemma envelope_claims_determine:
  "map snd (envelope_claims c) = map snd (envelope_claims c') \<Longrightarrow> ev_envelope_digest c = ev_envelope_digest c' \<Longrightarrow> c = c'"
  by (simp add: envelope_claims_def)

lemma envelope_init_iff:
  "envelope_init H d = Inr c \<longleftrightarrow> envelope_ok H c
     \<and> list_all (\<lambda>(f, v). d f = v) (drop 2 (envelope_claims c) @ [(''envelope_digest'', JStr (ev_envelope_digest c))])"
  (is "?L \<longleftrightarrow> _ \<and> ?D c")
proof
  assume L: ?L
  then have c: "c = envelope_of d"
    unfolding envelope_init_def Let_def init_res_simps by blast
  have "envelope_ok H c" using L unfolding c envelope_init_def envelope_ok_def Let_def init_res_simps
    by (clarsimp simp: instant_at_def)
  moreover have "?D c" unfolding c
    by (simp add: envelope_claims_def init_simps)
      (use L in \<open>clarsimp simp: envelope_init_def Let_def init_res_simps\<close>)
  ultimately show "envelope_ok H c \<and> ?D c" ..
next
  assume R: "envelope_ok H c \<and> ?D c"
  then have c: "envelope_of d = c" by (simp add: envelope_of_def envelope_claims_def)
  note d = R [THEN conjunct2, unfolded envelope_claims_def]
  show ?L using R [THEN conjunct1] d unfolding envelope_init_def c Let_def
    by (clarsimp simp: envelope_ok_def init_res_simps instant_at_def)
qed

interpretation envelope: content_bound H envelope_claims ev_envelope_digest "envelope_ok H" 1 envelope_fields
  "''envelope_type''" "''dispatch-envelope/v1''" "''envelope_digest''" "envelope_init H" for H
proof
  show "flat (envelope_claims c)" for c by (simp add: flat_def envelope_claims_def)
  show "map fst (envelope_claims c) = map fst (envelope_claims c')" for c c' by (simp add: envelope_claims_def)
  show "envelope_fields = map fst (envelope_claims c) @ [''envelope_digest'']" for c
    by (simp add: envelope_fields_def envelope_claims_def)
  show "''envelope_digest'' \<notin> fst ` set (envelope_claims c)" for c by (simp add: envelope_claims_def)
  show "take 2 (envelope_claims c) = [(''schema_version'', JInt 1), (''envelope_type'', JStr ''dispatch-envelope/v1'')]" for c
    by (simp add: envelope_claims_def)
  show "envelope_ok H c \<Longrightarrow> ev_envelope_digest c = claims_digest H (envelope_claims c)" for c
    by (simp add: envelope_ok_def)
qed (rule envelope_claims_determine envelope_init_iff; assumption?)+

lemma envelope_claims_seal [simp]: "envelope_claims (c\<lparr>ev_envelope_digest := x\<rparr>) = envelope_claims c"
  by (simp add: envelope_claims_def)

lemma envelope_dict_eq: "envelope_to_dict c = envelope.dict c"
  by (simp add: envelope_to_dict_def envelope.dict_def)

definition envelope_create ::
  "(string \<Rightarrow> string) \<Rightarrow> outbox_entry \<Rightarrow> string \<Rightarrow> envelope res" where
  "envelope_create H entry envelope_revision =
     bindE (require_text ''envelope_revision'' (JStr envelope_revision)) (\<lambda>_.
     (let c = \<lparr>ev_dispatch_id = dispatch_id_of H (ox_outbox_id entry) (ox_entry_digest entry),
              ev_outbox_id = ox_outbox_id entry, ev_outbox_entry_digest = ox_entry_digest entry,
              ev_consumption_id = ox_consumption_id entry,
              ev_consumption_witness_digest = ox_consumption_witness_digest entry,
              ev_jti = ox_jti entry, ev_grant_id = ox_grant_id entry,
              ev_grant_digest = ox_grant_digest entry, ev_execution_id = ox_execution_id entry,
              ev_request_id = ox_request_id entry, ev_actor_id = ox_actor_id entry,
              ev_workspace_id = ox_workspace_id entry, ev_environment = ox_environment entry,
              ev_capability = ox_capability entry,
              ev_capability_definition_identity = ox_capability_definition_identity entry,
              ev_authorization_snapshot_digest = ox_authorization_snapshot_digest entry,
              ev_target_kind = ox_target_kind entry, ev_target_digest = ox_target_digest entry,
              ev_payload_digest = ox_payload_digest entry,
              ev_required_permission = ox_required_permission entry,
              ev_execution_binding_digest = ox_execution_binding_digest entry,
              ev_execution_capsule_digest = ox_execution_capsule_digest entry,
              ev_runner_class = ox_runner_class entry,
              ev_precondition_enforcement_class = ox_precondition_enforcement_class entry,
              ev_use_semantics = ox_use_semantics entry,
              ev_outbox_created_at = ox_created_at entry,
              ev_outbox_revision = ox_outbox_revision entry,
              ev_delivery_semantics = delivery_semantics,
              ev_envelope_revision = envelope_revision, ev_envelope_digest = []\<rparr>
      in envelope_init H (item (envelope_to_dict (c\<lparr>ev_envelope_digest := claims_digest H (envelope_claims c)\<rparr>)))))"

text \<open>\<open>_projection\<close> and \<open>assert_bound_to\<close>\<close>

definition outbox_projection :: "outbox_entry \<Rightarrow> (string \<times> string) list" where
  "outbox_projection entry =
     [(''outbox_id'', ox_outbox_id entry), (''outbox_entry_digest'', ox_entry_digest entry),
      (''consumption_id'', ox_consumption_id entry),
      (''consumption_witness_digest'', ox_consumption_witness_digest entry),
      (''jti'', ox_jti entry), (''grant_id'', ox_grant_id entry),
      (''grant_digest'', ox_grant_digest entry), (''execution_id'', ox_execution_id entry),
      (''request_id'', ox_request_id entry), (''actor_id'', ox_actor_id entry),
      (''workspace_id'', ox_workspace_id entry), (''environment'', ox_environment entry),
      (''capability'', ox_capability entry),
      (''capability_definition_identity'', ox_capability_definition_identity entry),
      (''authorization_snapshot_digest'', ox_authorization_snapshot_digest entry),
      (''target_kind'', ox_target_kind entry), (''target_digest'', ox_target_digest entry),
      (''payload_digest'', ox_payload_digest entry),
      (''required_permission'', ox_required_permission entry),
      (''execution_binding_digest'', ox_execution_binding_digest entry),
      (''execution_capsule_digest'', ox_execution_capsule_digest entry),
      (''runner_class'', ox_runner_class entry),
      (''precondition_enforcement_class'', ox_precondition_enforcement_class entry),
      (''use_semantics'', ox_use_semantics entry), (''outbox_created_at'', ox_created_at entry),
      (''outbox_revision'', ox_outbox_revision entry)]"

definition envelope_bound_to :: "(string \<Rightarrow> string) \<Rightarrow> envelope \<Rightarrow> outbox_entry \<Rightarrow> unit res" where
  "envelope_bound_to H c entry =
     guardE
       ([(''dispatch_id'', ev_dispatch_id c), (''outbox_id'', ev_outbox_id c),
         (''outbox_entry_digest'', ev_outbox_entry_digest c),
         (''consumption_id'', ev_consumption_id c),
         (''consumption_witness_digest'', ev_consumption_witness_digest c), (''jti'', ev_jti c),
         (''grant_id'', ev_grant_id c), (''grant_digest'', ev_grant_digest c),
         (''execution_id'', ev_execution_id c), (''request_id'', ev_request_id c),
         (''actor_id'', ev_actor_id c), (''workspace_id'', ev_workspace_id c),
         (''environment'', ev_environment c), (''capability'', ev_capability c),
         (''capability_definition_identity'', ev_capability_definition_identity c),
         (''authorization_snapshot_digest'', ev_authorization_snapshot_digest c),
         (''target_kind'', ev_target_kind c), (''target_digest'', ev_target_digest c),
         (''payload_digest'', ev_payload_digest c),
         (''required_permission'', ev_required_permission c),
         (''execution_binding_digest'', ev_execution_binding_digest c),
         (''execution_capsule_digest'', ev_execution_capsule_digest c),
         (''runner_class'', ev_runner_class c),
         (''precondition_enforcement_class'', ev_precondition_enforcement_class c),
         (''use_semantics'', ev_use_semantics c),
         (''outbox_created_at'', ev_outbox_created_at c),
         (''outbox_revision'', ev_outbox_revision c)] =
        (''dispatch_id'', dispatch_id_of H (ox_outbox_id entry) (ox_entry_digest entry))
          # outbox_projection entry)
       (PermissionError ''dispatch envelope binding'')"


end
