(* ===== verification/Dispatch_Inbox.thy ===== *)
theory Dispatch_Inbox
  imports Dispatch_Envelope
begin

text \<open>
  The inbox admission (\<open>dispatch_inbox.py\<close>): a \<open>DispatchInboxAdmission\<close> records that one exact
  envelope was accepted; a redelivery is a duplicate when its content is the admitted content and
  a conflict otherwise.
\<close>

definition admission_id_of ::
  "(string \<Rightarrow> string) \<Rightarrow> string \<Rightarrow> string \<Rightarrow> string \<Rightarrow> string" where
  "admission_id_of H dispatch_id envelope_digest outbox_entry_digest = claims_digest H
     [(''identity_type'', JStr ''dispatch-inbox-admission-id/v1''), (''dispatch_id'', JStr dispatch_id),
      (''envelope_digest'', JStr envelope_digest),
      (''outbox_entry_digest'', JStr outbox_entry_digest)]"

record admission =
  ad_admission_id :: string
  ad_dispatch_id :: string
  ad_envelope_digest :: string
  ad_outbox_id :: string
  ad_outbox_entry_digest :: string
  ad_execution_id :: string
  ad_workspace_id :: string
  ad_environment :: string
  ad_execution_capsule_digest :: string
  ad_runner_class :: string
  ad_admission_revision :: string
  ad_admission_digest :: string

definition admission_fields :: "string list" where
  "admission_fields =
     [''schema_version'', ''admission_type'', ''admission_id'', ''dispatch_id'',
      ''envelope_digest'', ''outbox_id'', ''outbox_entry_digest'', ''execution_id'',
      ''workspace_id'', ''environment'', ''execution_capsule_digest'', ''runner_class'',
      ''admission_revision'', ''admission_digest'']"

definition admission_claims :: "admission \<Rightarrow> (string \<times> json) list" where
  "admission_claims c =
     [(''schema_version'', JInt 1), (''admission_type'', JStr ''dispatch-inbox-admission/v1''),
      (''admission_id'', JStr (ad_admission_id c)), (''dispatch_id'', JStr (ad_dispatch_id c)),
      (''envelope_digest'', JStr (ad_envelope_digest c)), (''outbox_id'', JStr (ad_outbox_id c)),
      (''outbox_entry_digest'', JStr (ad_outbox_entry_digest c)),
      (''execution_id'', JStr (ad_execution_id c)), (''workspace_id'', JStr (ad_workspace_id c)),
      (''environment'', JStr (ad_environment c)),
      (''execution_capsule_digest'', JStr (ad_execution_capsule_digest c)),
      (''runner_class'', JStr (ad_runner_class c)),
      (''admission_revision'', JStr (ad_admission_revision c))]"

definition admission_to_dict :: "admission \<Rightarrow> (string \<times> json) list" where
  "admission_to_dict c = admission_claims c @ [(''admission_digest'', JStr (ad_admission_digest c))]"

definition admission_of :: "(string \<Rightarrow> json) \<Rightarrow> admission" where
  "admission_of d =
     \<lparr>ad_admission_id = str_of (d ''admission_id''), ad_dispatch_id = str_of (d ''dispatch_id''),
      ad_envelope_digest = str_of (d ''envelope_digest''),
      ad_outbox_id = str_of (d ''outbox_id''),
      ad_outbox_entry_digest = str_of (d ''outbox_entry_digest''),
      ad_execution_id = str_of (d ''execution_id''),
      ad_workspace_id = str_of (d ''workspace_id''), ad_environment = str_of (d ''environment''),
      ad_execution_capsule_digest = str_of (d ''execution_capsule_digest''),
      ad_runner_class = str_of (d ''runner_class''),
      ad_admission_revision = str_of (d ''admission_revision''),
      ad_admission_digest = str_of (d ''admission_digest'')\<rparr>"

definition admission_init :: "(string \<Rightarrow> string) \<Rightarrow> (string \<Rightarrow> json) \<Rightarrow> admission res" where
  "admission_init H d =
     thenE (for_each (check_text d)
       [''outbox_id'', ''execution_id'', ''workspace_id'', ''environment'', ''runner_class'',
        ''admission_revision''])
    (thenE (for_each (check_digest d)
       [''admission_id'', ''dispatch_id'', ''envelope_digest'', ''outbox_entry_digest'',
        ''execution_capsule_digest'', ''admission_digest''])
    (thenE (guardE (d ''admission_id'' = JStr (admission_id_of H (str_of (d ''dispatch_id'')) (str_of (d ''envelope_digest''))
        (str_of (d ''outbox_entry_digest'')))) (ValueError ''admission_id''))
      ((let c = admission_of d in thenE (guardE (ad_admission_digest c = claims_digest H (admission_claims c))
        (ValueError ''admission_digest'')) (Inr c)))))"

definition admission_ok :: "(string \<Rightarrow> string) \<Rightarrow> admission \<Rightarrow> bool" where
  "admission_ok H c \<longleftrightarrow>
     list_all text_ok
        [ad_outbox_id c, ad_execution_id c, ad_workspace_id c, ad_environment c,
         ad_runner_class c, ad_admission_revision c]
     \<and> list_all digest_ok
        [ad_admission_id c, ad_dispatch_id c, ad_envelope_digest c, ad_outbox_entry_digest c,
         ad_execution_capsule_digest c, ad_admission_digest c]
     \<and> ad_admission_id c = admission_id_of H (ad_dispatch_id c) (ad_envelope_digest c) (ad_outbox_entry_digest c)
     \<and> ad_admission_digest c = claims_digest H (admission_claims c)"

definition admission_from_dict :: "(string \<Rightarrow> string) \<Rightarrow> json \<Rightarrow> admission res" where
  "admission_from_dict H = contract_from_dict 1 admission_fields ''admission_type'' ''dispatch-inbox-admission/v1'' (admission_init H)"

lemma admission_of_sel [simp]:
  "ad_admission_id (admission_of d) = str_of (d ''admission_id'')"
  "ad_dispatch_id (admission_of d) = str_of (d ''dispatch_id'')"
  "ad_envelope_digest (admission_of d) = str_of (d ''envelope_digest'')"
  "ad_outbox_id (admission_of d) = str_of (d ''outbox_id'')"
  "ad_outbox_entry_digest (admission_of d) = str_of (d ''outbox_entry_digest'')"
  "ad_execution_id (admission_of d) = str_of (d ''execution_id'')"
  "ad_workspace_id (admission_of d) = str_of (d ''workspace_id'')"
  "ad_environment (admission_of d) = str_of (d ''environment'')"
  "ad_execution_capsule_digest (admission_of d) = str_of (d ''execution_capsule_digest'')"
  "ad_runner_class (admission_of d) = str_of (d ''runner_class'')"
  "ad_admission_revision (admission_of d) = str_of (d ''admission_revision'')"
  "ad_admission_digest (admission_of d) = str_of (d ''admission_digest'')"
  by (simp_all add: admission_of_def)

lemma admission_claims_determine:
  "map snd (admission_claims c) = map snd (admission_claims c') \<Longrightarrow> ad_admission_digest c = ad_admission_digest c' \<Longrightarrow> c = c'"
  by (simp add: admission_claims_def)

lemma admission_init_iff:
  "admission_init H d = Inr c \<longleftrightarrow> admission_ok H c
     \<and> list_all (\<lambda>(f, v). d f = v) (drop 2 (admission_claims c) @ [(''admission_digest'', JStr (ad_admission_digest c))])"
  (is "?L \<longleftrightarrow> _ \<and> ?D c")
proof
  assume L: ?L
  then have c: "c = admission_of d"
    unfolding admission_init_def Let_def init_res_simps by blast
  have "admission_ok H c" using L unfolding c admission_init_def admission_ok_def Let_def init_res_simps
    by (clarsimp simp: instant_at_def)
  moreover have "?D c" unfolding c
    by (simp add: admission_claims_def init_simps)
      (use L in \<open>clarsimp simp: admission_init_def Let_def init_res_simps\<close>)
  ultimately show "admission_ok H c \<and> ?D c" ..
next
  assume R: "admission_ok H c \<and> ?D c"
  then have c: "admission_of d = c" by (simp add: admission_of_def admission_claims_def)
  note d = R [THEN conjunct2, unfolded admission_claims_def]
  show ?L using R [THEN conjunct1] d unfolding admission_init_def c Let_def
    by (clarsimp simp: admission_ok_def init_res_simps instant_at_def)
qed

interpretation admission: content_bound H admission_claims ad_admission_digest "admission_ok H" 1 admission_fields
  "''admission_type''" "''dispatch-inbox-admission/v1''" "''admission_digest''" "admission_init H" for H
proof
  show "flat (admission_claims c)" for c by (simp add: flat_def admission_claims_def)
  show "map fst (admission_claims c) = map fst (admission_claims c')" for c c' by (simp add: admission_claims_def)
  show "admission_fields = map fst (admission_claims c) @ [''admission_digest'']" for c
    by (simp add: admission_fields_def admission_claims_def)
  show "''admission_digest'' \<notin> fst ` set (admission_claims c)" for c by (simp add: admission_claims_def)
  show "take 2 (admission_claims c) = [(''schema_version'', JInt 1), (''admission_type'', JStr ''dispatch-inbox-admission/v1'')]" for c
    by (simp add: admission_claims_def)
  show "admission_ok H c \<Longrightarrow> ad_admission_digest c = claims_digest H (admission_claims c)" for c
    by (simp add: admission_ok_def)
qed (rule admission_claims_determine admission_init_iff; assumption?)+

lemma admission_claims_seal [simp]: "admission_claims (c\<lparr>ad_admission_digest := x\<rparr>) = admission_claims c"
  by (simp add: admission_claims_def)

lemma admission_dict_eq: "admission_to_dict c = admission.dict c"
  by (simp add: admission_to_dict_def admission.dict_def)

definition admission_create ::
  "(string \<Rightarrow> string) \<Rightarrow> envelope \<Rightarrow> outbox_entry \<Rightarrow> string \<Rightarrow> admission res" where
  "admission_create H env entry admission_revision =
     bindE (require_text ''admission_revision'' (JStr admission_revision)) (\<lambda>_.
     thenE (envelope_bound_to H env entry)
     (let c = \<lparr>ad_admission_id = admission_id_of H (ev_dispatch_id env) (ev_envelope_digest env) (ox_entry_digest entry),
              ad_dispatch_id = ev_dispatch_id env, ad_envelope_digest = ev_envelope_digest env,
              ad_outbox_id = ox_outbox_id entry, ad_outbox_entry_digest = ox_entry_digest entry,
              ad_execution_id = ox_execution_id entry, ad_workspace_id = ox_workspace_id entry,
              ad_environment = ox_environment entry,
              ad_execution_capsule_digest = ox_execution_capsule_digest entry,
              ad_runner_class = ox_runner_class entry,
              ad_admission_revision = admission_revision, ad_admission_digest = []\<rparr>
      in admission_init H (item (admission_to_dict (c\<lparr>ad_admission_digest := claims_digest H (admission_claims c)\<rparr>)))))"

definition admission_bound_to ::
  "(string \<Rightarrow> string) \<Rightarrow> admission \<Rightarrow> envelope \<Rightarrow> outbox_entry \<Rightarrow> unit res" where
  "admission_bound_to H c env entry =
     thenE (envelope_bound_to H env entry)
      (guardE
        ((ad_dispatch_id c, ad_envelope_digest c, ad_outbox_id c, ad_outbox_entry_digest c,
          ad_execution_id c, ad_workspace_id c, ad_environment c, ad_execution_capsule_digest c,
          ad_runner_class c) =
         (ev_dispatch_id env, ev_envelope_digest env, ox_outbox_id entry, ox_entry_digest entry,
          ox_execution_id entry, ox_workspace_id entry, ox_environment entry,
          ox_execution_capsule_digest entry, ox_runner_class entry))
        (PermissionError ''dispatch inbox admission binding''))"

text \<open>\<open>classify_redelivery\<close>; the value returned is \<open>DUPLICATE_REDELIVERY\<close>.\<close>

definition classify_redelivery ::
  "(string \<Rightarrow> string) \<Rightarrow> admission \<Rightarrow> envelope \<Rightarrow> outbox_entry \<Rightarrow> string res" where
  "classify_redelivery H c env entry =
     thenE (envelope_bound_to H env entry)
    (thenE (guardE (ev_dispatch_id env = ad_dispatch_id c) (ValueError ''dispatch_id''))
    (thenE (catchE is_PermissionError (admission_bound_to H c env entry)
        (ContentConflict ''DISPATCH_CONTENT_CONFLICT''))
      (Inr ''DUPLICATE'')))"


end
