(* ===== verification/Execution_Lease.thy ===== *)
theory Execution_Lease
  imports Dispatch_Inbox
begin

text \<open>
  The execution lease (\<open>execution_lease.py\<close>): an \<open>ExecutionLease\<close> gives one epoch of one admitted
  dispatch to a runner for at most an hour.  \<open>lease_completion_fence\<close> is the fence every completion
  has to pass.
\<close>

definition max_lease_seconds :: int where
  "max_lease_seconds = 3600"

definition lease_id_of :: "(string \<Rightarrow> string) \<Rightarrow> string \<Rightarrow> int \<Rightarrow> string" where
  "lease_id_of H admission_id execution_epoch = claims_digest H
     [(''identity_type'', JStr ''execution-lease-id/v1''), (''admission_id'', JStr admission_id),
      (''execution_epoch'', JInt execution_epoch)]"

definition assert_next_execution_epoch :: "int option \<Rightarrow> int \<Rightarrow> unit res" where
  "assert_next_execution_epoch previous_epoch candidate_epoch =
     bindE (require_epoch ''candidate_epoch'' (JInt candidate_epoch)) (\<lambda>candidate.
       case previous_epoch of
         None \<Rightarrow> guardE (candidate = 1) (PermissionError ''EXECUTION_EPOCH_TRANSITION_INVALID'')
       | Some p \<Rightarrow> bindE (require_epoch ''previous_epoch'' (JInt p)) (\<lambda>previous.
           guardE (candidate = previous + 1) (PermissionError ''EXECUTION_EPOCH_TRANSITION_INVALID'')))"

record lease =
  le_lease_id :: string
  le_dispatch_id :: string
  le_admission_id :: string
  le_admission_digest :: string
  le_execution_id :: string
  le_workspace_id :: string
  le_environment :: string
  le_execution_capsule_digest :: string
  le_runner_class :: string
  le_execution_epoch :: int
  le_acquired_at :: string
  le_expires_at :: string
  le_clock_witness_digest :: string
  le_lease_revision :: string
  le_lease_digest :: string

definition lease_fields :: "string list" where
  "lease_fields =
     [''schema_version'', ''lease_type'', ''lease_id'', ''dispatch_id'', ''admission_id'',
      ''admission_digest'', ''execution_id'', ''workspace_id'', ''environment'',
      ''execution_capsule_digest'', ''runner_class'', ''execution_epoch'', ''acquired_at'',
      ''expires_at'', ''clock_witness_digest'', ''lease_revision'', ''lease_digest'']"

definition lease_claims :: "lease \<Rightarrow> (string \<times> json) list" where
  "lease_claims c =
     [(''schema_version'', JInt 1), (''lease_type'', JStr ''execution-lease/v1''),
      (''lease_id'', JStr (le_lease_id c)), (''dispatch_id'', JStr (le_dispatch_id c)),
      (''admission_id'', JStr (le_admission_id c)),
      (''admission_digest'', JStr (le_admission_digest c)),
      (''execution_id'', JStr (le_execution_id c)), (''workspace_id'', JStr (le_workspace_id c)),
      (''environment'', JStr (le_environment c)),
      (''execution_capsule_digest'', JStr (le_execution_capsule_digest c)),
      (''runner_class'', JStr (le_runner_class c)),
      (''execution_epoch'', JInt (le_execution_epoch c)),
      (''acquired_at'', JStr (le_acquired_at c)), (''expires_at'', JStr (le_expires_at c)),
      (''clock_witness_digest'', JStr (le_clock_witness_digest c)),
      (''lease_revision'', JStr (le_lease_revision c))]"

definition lease_to_dict :: "lease \<Rightarrow> (string \<times> json) list" where
  "lease_to_dict c = lease_claims c @ [(''lease_digest'', JStr (le_lease_digest c))]"

definition lease_of :: "(string \<Rightarrow> json) \<Rightarrow> lease" where
  "lease_of d =
     \<lparr>le_lease_id = str_of (d ''lease_id''), le_dispatch_id = str_of (d ''dispatch_id''),
      le_admission_id = str_of (d ''admission_id''),
      le_admission_digest = str_of (d ''admission_digest''),
      le_execution_id = str_of (d ''execution_id''),
      le_workspace_id = str_of (d ''workspace_id''), le_environment = str_of (d ''environment''),
      le_execution_capsule_digest = str_of (d ''execution_capsule_digest''),
      le_runner_class = str_of (d ''runner_class''),
      le_execution_epoch = intval (d ''execution_epoch''),
      le_acquired_at = str_of (d ''acquired_at''), le_expires_at = str_of (d ''expires_at''),
      le_clock_witness_digest = str_of (d ''clock_witness_digest''),
      le_lease_revision = str_of (d ''lease_revision''),
      le_lease_digest = str_of (d ''lease_digest'')\<rparr>"

definition lease_init :: "(string \<Rightarrow> string) \<Rightarrow> (string \<Rightarrow> json) \<Rightarrow> lease res" where
  "lease_init H d =
     thenE (for_each (check_text d)
       [''execution_id'', ''workspace_id'', ''environment'', ''runner_class'', ''lease_revision''])
    (thenE (for_each (check_digest d)
       [''lease_id'', ''dispatch_id'', ''admission_id'', ''admission_digest'',
        ''execution_capsule_digest'', ''clock_witness_digest'', ''lease_digest''])
    (bindE (require_epoch ''execution_epoch'' (d ''execution_epoch'')) (\<lambda>_.
     bindE (require_timestamp ''acquired_at'' (d ''acquired_at'')) (\<lambda>acquired.
     bindE (require_timestamp ''expires_at'' (d ''expires_at'')) (\<lambda>expires.
     thenE (guardE (instant acquired < instant expires) (ValueError ''expires_at''))
    (thenE (guardE (instant expires - instant acquired \<le> seconds max_lease_seconds) (ValueError ''expires_at''))
    (thenE (guardE (d ''lease_id'' = JStr (lease_id_of H (str_of (d ''admission_id'')) (intval (d ''execution_epoch'')))) (ValueError ''lease_id''))
      ((let c = lease_of d in thenE (guardE (le_lease_digest c = claims_digest H (lease_claims c))
        (ValueError ''lease_digest'')) (Inr c))))))))))"

definition lease_ok :: "(string \<Rightarrow> string) \<Rightarrow> lease \<Rightarrow> bool" where
  "lease_ok H c \<longleftrightarrow>
     list_all text_ok
        [le_execution_id c, le_workspace_id c, le_environment c, le_runner_class c,
         le_lease_revision c]
     \<and> list_all digest_ok
        [le_lease_id c, le_dispatch_id c, le_admission_id c, le_admission_digest c,
         le_execution_capsule_digest c, le_clock_witness_digest c, le_lease_digest c]
     \<and> 1 \<le> le_execution_epoch c
     \<and> time_ok (le_acquired_at c)
     \<and> time_ok (le_expires_at c)
     \<and> instant_at (le_acquired_at c) < instant_at (le_expires_at c)
     \<and> instant_at (le_expires_at c) - instant_at (le_acquired_at c) \<le> seconds max_lease_seconds
     \<and> le_lease_id c = lease_id_of H (le_admission_id c) (le_execution_epoch c)
     \<and> le_lease_digest c = claims_digest H (lease_claims c)"

definition lease_from_dict :: "(string \<Rightarrow> string) \<Rightarrow> json \<Rightarrow> lease res" where
  "lease_from_dict H = contract_from_dict 1 lease_fields ''lease_type'' ''execution-lease/v1'' (lease_init H)"

lemma lease_of_sel [simp]:
  "le_lease_id (lease_of d) = str_of (d ''lease_id'')"
  "le_dispatch_id (lease_of d) = str_of (d ''dispatch_id'')"
  "le_admission_id (lease_of d) = str_of (d ''admission_id'')"
  "le_admission_digest (lease_of d) = str_of (d ''admission_digest'')"
  "le_execution_id (lease_of d) = str_of (d ''execution_id'')"
  "le_workspace_id (lease_of d) = str_of (d ''workspace_id'')"
  "le_environment (lease_of d) = str_of (d ''environment'')"
  "le_execution_capsule_digest (lease_of d) = str_of (d ''execution_capsule_digest'')"
  "le_runner_class (lease_of d) = str_of (d ''runner_class'')"
  "le_execution_epoch (lease_of d) = intval (d ''execution_epoch'')"
  "le_acquired_at (lease_of d) = str_of (d ''acquired_at'')"
  "le_expires_at (lease_of d) = str_of (d ''expires_at'')"
  "le_clock_witness_digest (lease_of d) = str_of (d ''clock_witness_digest'')"
  "le_lease_revision (lease_of d) = str_of (d ''lease_revision'')"
  "le_lease_digest (lease_of d) = str_of (d ''lease_digest'')"
  by (simp_all add: lease_of_def)

lemma lease_claims_determine:
  "map snd (lease_claims c) = map snd (lease_claims c') \<Longrightarrow> le_lease_digest c = le_lease_digest c' \<Longrightarrow> c = c'"
  by (simp add: lease_claims_def)

lemma lease_init_iff:
  "lease_init H d = Inr c \<longleftrightarrow> lease_ok H c
     \<and> list_all (\<lambda>(f, v). d f = v) (drop 2 (lease_claims c) @ [(''lease_digest'', JStr (le_lease_digest c))])"
  (is "?L \<longleftrightarrow> _ \<and> ?D c")
proof
  assume L: ?L
  then have c: "c = lease_of d"
    unfolding lease_init_def Let_def init_res_simps by blast
  have "lease_ok H c" using L unfolding c lease_init_def lease_ok_def Let_def init_res_simps
    by (clarsimp simp: instant_at_def)
  moreover have "?D c" unfolding c
    by (simp add: lease_claims_def init_simps)
      (use L in \<open>clarsimp simp: lease_init_def Let_def init_res_simps\<close>)
  ultimately show "lease_ok H c \<and> ?D c" ..
next
  assume R: "lease_ok H c \<and> ?D c"
  then have c: "lease_of d = c" by (simp add: lease_of_def lease_claims_def)
  note d = R [THEN conjunct2, unfolded lease_claims_def]
  show ?L using R [THEN conjunct1] d unfolding lease_init_def c Let_def
    by (clarsimp simp: lease_ok_def init_res_simps instant_at_def)
qed

interpretation lease: content_bound H lease_claims le_lease_digest "lease_ok H" 1 lease_fields
  "''lease_type''" "''execution-lease/v1''" "''lease_digest''" "lease_init H" for H
proof
  show "flat (lease_claims c)" for c by (simp add: flat_def lease_claims_def)
  show "map fst (lease_claims c) = map fst (lease_claims c')" for c c' by (simp add: lease_claims_def)
  show "lease_fields = map fst (lease_claims c) @ [''lease_digest'']" for c
    by (simp add: lease_fields_def lease_claims_def)
  show "''lease_digest'' \<notin> fst ` set (lease_claims c)" for c by (simp add: lease_claims_def)
  show "take 2 (lease_claims c) = [(''schema_version'', JInt 1), (''lease_type'', JStr ''execution-lease/v1'')]" for c
    by (simp add: lease_claims_def)
  show "lease_ok H c \<Longrightarrow> le_lease_digest c = claims_digest H (lease_claims c)" for c
    by (simp add: lease_ok_def)
qed (rule lease_claims_determine lease_init_iff; assumption?)+

lemma lease_claims_seal [simp]: "lease_claims (c\<lparr>le_lease_digest := x\<rparr>) = lease_claims c"
  by (simp add: lease_claims_def)

lemma lease_dict_eq: "lease_to_dict c = lease.dict c"
  by (simp add: lease_to_dict_def lease.dict_def)

definition lease_create_candidate ::
  "(string \<Rightarrow> string) \<Rightarrow> admission \<Rightarrow> int \<Rightarrow> clock_witness \<Rightarrow> int \<Rightarrow> string \<Rightarrow> lease res" where
  "lease_create_candidate H adm execution_epoch clock lease_seconds lease_revision =
     bindE (require_epoch ''execution_epoch'' (JInt execution_epoch)) (\<lambda>epoch.
     thenE (guardE (1 \<le> lease_seconds \<and> lease_seconds \<le> max_lease_seconds) (ValueError ''lease_seconds''))
    (bindE (require_text ''lease_revision'' (JStr lease_revision)) (\<lambda>_.
     thenE (guardE (ck_environment clock = ad_environment adm) (PermissionError ''CLOCK_ENVIRONMENT_MISMATCH''))
    (bindE (require_timestamp ''clock_witness.observed_at'' (JStr (ck_observed_at clock))) (\<lambda>acquired.
     bindE (add_seconds acquired (nat lease_seconds)) (\<lambda>expires.
     (let c = \<lparr>le_lease_id = lease_id_of H (ad_admission_id adm) epoch,
              le_dispatch_id = ad_dispatch_id adm, le_admission_id = ad_admission_id adm,
              le_admission_digest = ad_admission_digest adm,
              le_execution_id = ad_execution_id adm, le_workspace_id = ad_workspace_id adm,
              le_environment = ad_environment adm,
              le_execution_capsule_digest = ad_execution_capsule_digest adm,
              le_runner_class = ad_runner_class adm, le_execution_epoch = epoch,
              le_acquired_at = iso_ms acquired, le_expires_at = iso_ms expires,
              le_clock_witness_digest = ck_witness_digest clock,
              le_lease_revision = lease_revision, le_lease_digest = []\<rparr>
      in lease_init H (item (lease_to_dict (c\<lparr>le_lease_digest := claims_digest H (lease_claims c)\<rparr>))))))))))"

definition lease_bound_to :: "lease \<Rightarrow> admission \<Rightarrow> unit res" where
  "lease_bound_to c adm =
     guardE
       ((le_dispatch_id c, le_admission_id c, le_admission_digest c, le_execution_id c,
         le_workspace_id c, le_environment c, le_execution_capsule_digest c, le_runner_class c) =
        (ad_dispatch_id adm, ad_admission_id adm, ad_admission_digest adm, ad_execution_id adm,
         ad_workspace_id adm, ad_environment adm, ad_execution_capsule_digest adm, ad_runner_class adm))
       (PermissionError ''LEASE_ADMISSION_BINDING_MISMATCH'')"

text \<open>\<open>assert_completion_fence\<close>; the value returned is \<open>FENCE_CURRENT\<close>.\<close>

definition lease_completion_fence :: "lease \<Rightarrow> int \<Rightarrow> clock_witness \<Rightarrow> string res" where
  "lease_completion_fence c current_execution_epoch clock =
     bindE (require_epoch ''current_execution_epoch'' (JInt current_execution_epoch)) (\<lambda>current.
     thenE (guardE (ck_environment clock = le_environment c) (PermissionError ''CLOCK_ENVIRONMENT_MISMATCH''))
    (thenE (guardE (\<not> current < le_execution_epoch c) (PermissionError ''EXECUTION_EPOCH_REGRESSION''))
    (thenE (guardE (\<not> current > le_execution_epoch c) (PermissionError ''STALE_EXECUTION_EPOCH''))
    (bindE (require_timestamp ''acquired_at'' (JStr (le_acquired_at c))) (\<lambda>acquired.
     bindE (require_timestamp ''expires_at'' (JStr (le_expires_at c))) (\<lambda>expires.
     bindE (require_timestamp ''clock_witness.observed_at'' (JStr (ck_observed_at clock))) (\<lambda>observed.
     thenE (guardE (\<not> instant observed < instant acquired) (PermissionError ''CLOCK_BEFORE_LEASE''))
    (thenE (guardE (\<not> instant observed \<ge> instant expires) (PermissionError ''LEASE_EXPIRED''))
      (Inr ''FENCE_CURRENT'')))))))))"


subsection \<open>Epochs, candidates and the fence\<close>

lemma assert_next_execution_epoch_iff:
  "assert_next_execution_epoch previous candidate = Inr u \<longleftrightarrow>
     (case previous of None \<Rightarrow> candidate = 1 | Some p \<Rightarrow> 1 \<le> p \<and> candidate = p + 1)"
  by (auto simp: assert_next_execution_epoch_def res_simps split: option.splits)

lemma lease_bound_to_iff:
  "lease_bound_to c adm = Inr u \<longleftrightarrow>
     le_dispatch_id c = ad_dispatch_id adm \<and> le_admission_id c = ad_admission_id adm
     \<and> le_admission_digest c = ad_admission_digest adm \<and> le_execution_id c = ad_execution_id adm
     \<and> le_workspace_id c = ad_workspace_id adm \<and> le_environment c = ad_environment adm
     \<and> le_execution_capsule_digest c = ad_execution_capsule_digest adm
     \<and> le_runner_class c = ad_runner_class adm"
  by (auto simp: lease_bound_to_def res_simps)

text \<open>A candidate lease is valid, bound to its admission and to the clock witness, and runs for
  exactly the requested number of seconds.\<close>

lemma lease_create_candidate_eq_Inr:
  assumes "lease_create_candidate H adm epoch clock n rv = Inr c"
  shows "lease_ok H c \<and> lease_bound_to c adm = Inr () \<and> le_execution_epoch c = epoch \<and> 1 \<le> epoch
     \<and> le_acquired_at c = ck_observed_at clock \<and> le_clock_witness_digest c = ck_witness_digest clock
     \<and> instant_at (le_expires_at c) = instant_at (le_acquired_at c) + seconds n
     \<and> 1 \<le> n \<and> n \<le> max_lease_seconds \<and> ck_environment clock = ad_environment adm
     \<and> le_lease_revision c = rv"
proof -
  obtain acquired expires where
    e: "1 \<le> epoch" and n: "1 \<le> n" "n \<le> max_lease_seconds"
    and env: "ck_environment clock = ad_environment adm"
    and acq: "canonical_time (ck_observed_at clock) = Some acquired"
    and exp: "add_seconds acquired (nat n) = Inr expires"
    and c: "le_lease_revision c = rv" "lease_ok H c" "lease_bound_to c adm = Inr ()"
      "le_execution_epoch c = epoch" "le_acquired_at c = iso_ms acquired"
      "le_expires_at c = iso_ms expires" "le_clock_witness_digest c = ck_witness_digest clock"
    using assms unfolding lease_create_candidate_def
    by (auto simp: res_simps Let_def lease_dict_eq lease.init_dict_iff lease_bound_to_iff)
  have v: "valid_time acquired" "iso_ms acquired = ck_observed_at clock"
    and trunc: "trunc_ms acquired = acquired"
    using canonical_time_Some [OF acq] canonical_time_iso_ms acq by force+
  have "valid_time expires" "instant expires = instant acquired + 1000000 * int (nat n)"
    and us: "microsecond expires = microsecond acquired"
    using add_seconds_spec [OF v(1) exp] by auto
  moreover have "trunc_ms expires = expires"
    using trunc us by (cases acquired, cases expires) (simp add: trunc_ms_def)
  ultimately have "instant_at (le_expires_at c) = instant_at (le_acquired_at c) + seconds n"
    using c(5,6) v acq n by (simp add: instant_at_def canonical_time_iso_ms seconds_def)
  then show ?thesis using e n env c v by simp
qed

definition candidate_lease ::
  "(string \<Rightarrow> string) \<Rightarrow> admission \<Rightarrow> int \<Rightarrow> utc_time \<Rightarrow> utc_time \<Rightarrow> string \<Rightarrow> string \<Rightarrow> lease" where
  "candidate_lease H adm epoch acquired expires witness_digest rv =
     \<lparr>le_lease_id = lease_id_of H (ad_admission_id adm) epoch, le_dispatch_id = ad_dispatch_id adm,
      le_admission_id = ad_admission_id adm, le_admission_digest = ad_admission_digest adm,
      le_execution_id = ad_execution_id adm, le_workspace_id = ad_workspace_id adm,
      le_environment = ad_environment adm, le_execution_capsule_digest = ad_execution_capsule_digest adm,
      le_runner_class = ad_runner_class adm, le_execution_epoch = epoch, le_acquired_at = iso_ms acquired,
      le_expires_at = iso_ms expires, le_clock_witness_digest = witness_digest,
      le_lease_revision = rv, le_lease_digest = []\<rparr>"

lemma lease_create_candidate_eqI:
  fixes H adm epoch acquired expires clock rv
  defines "c \<equiv> candidate_lease H adm epoch acquired expires (ck_witness_digest clock) rv"
  assumes "1 \<le> epoch" "1 \<le> n" "n \<le> max_lease_seconds" "text_ok rv" "ck_environment clock = ad_environment adm"
    and "canonical_time (ck_observed_at clock) = Some acquired" "add_seconds acquired (nat n) = Inr expires"
    and "lease_ok H (c\<lparr>le_lease_digest := claims_digest H (lease_claims c)\<rparr>)"
  shows "lease_create_candidate H adm epoch clock n rv = Inr (c\<lparr>le_lease_digest := claims_digest H (lease_claims c)\<rparr>)"
proof -
  have "lease_init H (item (lease_to_dict (c\<lparr>le_lease_digest := claims_digest H (lease_claims c)\<rparr>)))
      = Inr (c\<lparr>le_lease_digest := claims_digest H (lease_claims c)\<rparr>)"
    using assms(9) by (simp add: lease_dict_eq lease.init_dict_iff)
  moreover have "require_epoch ''execution_epoch'' (JInt epoch) = Inr epoch"
    "require_text ''lease_revision'' (JStr rv) = Inr rv"
    "require_timestamp ''clock_witness.observed_at'' (JStr (ck_observed_at clock)) = Inr acquired"
    using assms by (auto simp: res_simps)
  ultimately show ?thesis
    unfolding lease_create_candidate_def
    using assms(3,4,6,8) by (simp add: guardE_def Let_def c_def candidate_lease_def)
qed

text \<open>Conversely, a candidate is created whenever the inputs are valid, the expiry is representable and
  the digest function yields digests.\<close>

lemma lease_create_candidate_returns:
  assumes adm: "admission_ok H adm" and ck: "clock_witness_ok H clock" "ck_environment clock = ad_environment adm"
    and n: "1 \<le> n" "n \<le> max_lease_seconds" and e: "1 \<le> epoch" and rv: "text_ok rv"
    and exp: "add_seconds (the (canonical_time (ck_observed_at clock))) (nat n) = Inr expires"
    and H: "\<And>s. digest_ok (H s)"
  shows "\<exists>l. lease_create_candidate H adm epoch clock n rv = Inr l"
proof -
  obtain acquired where acq: "canonical_time (ck_observed_at clock) = Some acquired"
    using ck by (auto simp: clock_witness_ok_def time_ok_def)
  have v: "valid_time acquired" "iso_ms acquired = ck_observed_at clock" "trunc_ms acquired = acquired"
    using canonical_time_Some [OF acq] canonical_time_iso_ms acq by force+
  have us: "microsecond expires = microsecond acquired"
    and x: "valid_time expires" "instant expires = instant acquired + seconds n"
    using add_seconds_spec [OF v(1), of "nat n" expires] exp acq n(1) by (auto simp: seconds_def)
  have tr: "trunc_ms expires = expires"
    using v(3) us by (cases acquired, cases expires) (simp add: trunc_ms_def)
  have t: "time_ok (iso_ms acquired)" "time_ok (iso_ms expires)"
    "instant_at (iso_ms acquired) = instant acquired" "instant_at (iso_ms expires) = instant expires"
    using v x tr acq by (simp_all add: time_ok_def instant_at_def canonical_time_iso_ms)
  have d: "digest_ok (lease_id_of H a e)" "digest_ok (claims_digest H kvs)" "digest_ok (admission_id_of H a b c)"
    for a b c e kvs by (simp_all add: lease_id_of_def admission_id_of_def claims_digest_def H)
  define l where "l = candidate_lease H adm epoch acquired expires (ck_witness_digest clock) rv"
  have "lease_ok H (l\<lparr>le_lease_digest := claims_digest H (lease_claims l)\<rparr>)"
    unfolding lease_ok_def lease_claims_seal
    using adm ck n e rv t x d by (simp add: l_def candidate_lease_def admission_ok_def clock_witness_ok_def seconds_def)
  then show ?thesis
    using lease_create_candidate_eqI [OF e n rv ck(2) acq] exp acq unfolding l_def by fastforce
qed

lemma lease_completion_fence_iff:
  assumes "lease_ok H c"
  shows "lease_completion_fence c current clock = Inr r \<longleftrightarrow>
     r = ''FENCE_CURRENT'' \<and> current = le_execution_epoch c \<and> ck_environment clock = le_environment c
     \<and> time_ok (ck_observed_at clock)
     \<and> instant_at (le_acquired_at c) \<le> instant_at (ck_observed_at clock)
     \<and> instant_at (ck_observed_at clock) < instant_at (le_expires_at c)"
  using assms
  by (auto simp: lease_completion_fence_def lease_ok_def bindE_eq_Inr thenE_eq_Inr guardE_eq_Inr
      init_simps instant_at_def)

lemma lease_window:
  assumes "lease_ok H c"
  shows "0 < instant_at (le_expires_at c) - instant_at (le_acquired_at c)"
    and "instant_at (le_expires_at c) - instant_at (le_acquired_at c) \<le> seconds max_lease_seconds"
  using assms by (auto simp: lease_ok_def)

text \<open>Equal lease identities mean the same admission and epoch, unless the digest collides.\<close>

lemma lease_id_of_inj:
  assumes "inj_on H {claims_text [(''identity_type'', JStr ''execution-lease-id/v1''),
      (''admission_id'', JStr a), (''execution_epoch'', JInt e)],
     claims_text [(''identity_type'', JStr ''execution-lease-id/v1''),
      (''admission_id'', JStr a'), (''execution_epoch'', JInt e')]}"
    and "lease_id_of H a e = lease_id_of H a' e'"
  shows "a = a' \<and> e = e'"
  using claims_digest_inj [OF _ _ _ assms(1) assms(2) [unfolded lease_id_of_def]]
  by (simp add: flat_def)

end
