(* ===== verification/Trust_Db.thy ===== *)
theory Trust_Db
  imports Execution_Lease
begin

text \<open>
  The part of the SQLite database that the trust plane writes: its tables and, for each statement
  that writes, the constraints SQLite enforces (migrations \<open>0010\<close> to \<open>0013\<close>: \<open>CHECK\<close>, \<open>UNIQUE\<close>,
  \<open>REFERENCES\<close> and the \<open>RAISE(ABORT)\<close> triggers).  A violated constraint raises
  \<open>DatabaseIntegrityError\<close> and the transaction is rolled back, so an operation of the model either
  returns the new tables or an error.  The immutability triggers have no counterpart: no
  definition updates or deletes a row of these tables, except \<open>update_epoch_state\<close>.
  Where a table has exactly the fields of a contract as columns, the row holds that contract and
  the JSON columns.
\<close>

subsection \<open>Tables\<close>

record grant_row =
  gw_jti :: string
  gw_grant_id :: string
  gw_execution_id :: string
  gw_request_id :: string
  gw_workspace_id :: string
  gw_environment :: string
  gw_authorization_snapshot_digest :: string
  gw_execution_capsule_digest :: string
  gw_grant_digest :: string
  gw_grant_json :: string
  gw_issuance_conformance_witness_digest :: string
  gw_issuance_conformance_witness_json :: string
  gw_store_clock_witness_digest :: string
  gw_store_clock_witness_json :: string
  gw_issued_at :: string
  gw_expires_at :: string
  gw_revocation_epoch :: int
  gw_stored_at :: string
  gw_store_revision :: string

record consumption_row =
  cr_consumption_id :: string
  cr_jti :: string
  cr_grant_digest :: string
  cr_execution_id :: string
  cr_authorization_snapshot_digest :: string
  cr_execution_capsule_digest :: string
  cr_runner_class :: string
  cr_conformance_witness_digest :: string
  cr_conformance_witness_json :: string
  cr_clock_witness_digest :: string
  cr_clock_witness_json :: string
  cr_live_revocation_epoch :: int
  cr_consumed_at :: string
  cr_serialization_contract :: string
  cr_authority_revision :: string
  cr_consumption_digest :: string
  cr_consumption_json :: string

record outbox_row =
  ob_cols :: outbox_entry
  ob_entry_json :: string

record inbox_row =
  ib_cols :: admission
  ib_admission_json :: string

record lease_row =
  lr_cols :: lease
  lr_clock_witness_json :: string
  lr_lease_json :: string

record epoch_state =
  es_admission_id :: string
  es_admission_digest :: string
  es_execution_id :: string
  es_workspace_id :: string
  es_environment :: string
  es_execution_capsule_digest :: string
  es_runner_class :: string
  es_current_epoch :: int
  es_current_lease_id :: string
  es_current_lease_digest :: string
  es_current_lease_acquired_at :: string
  es_current_lease_expires_at :: string
  es_status :: string
  es_completion_digest :: "string option"
  es_completed_at :: "string option"
  es_completion_clock_witness_digest :: "string option"
  es_completion_clock_witness_json :: "string option"
  es_authority_revision :: string
  es_updated_at :: string

text \<open>The columns of \<open>authorization_snapshots\<close> that other tables refer to.\<close>

record snapshot_ref =
  sr_snapshot_digest :: string
  sr_execution_id :: string
  sr_request_id :: string
  sr_workspace_id :: string
  sr_environment :: string

record trust_db =
  t_workspaces :: "string list"
  t_users :: "string list"
  t_requests :: "string list"
  t_snapshots :: "snapshot_ref list"
  t_grants :: "grant_row list"
  t_consumptions :: "consumption_row list"
  t_outbox :: "outbox_row list"
  t_inbox :: "inbox_row list"
  t_leases :: "lease_row list"
  t_epochs :: "epoch_state list"

abbreviation ob_outbox_id :: "outbox_row \<Rightarrow> string" where
  "ob_outbox_id r \<equiv> ox_outbox_id (ob_cols r)"

abbreviation ib_admission_id :: "inbox_row \<Rightarrow> string" where
  "ib_admission_id r \<equiv> ad_admission_id (ib_cols r)"

abbreviation ib_dispatch_id :: "inbox_row \<Rightarrow> string" where
  "ib_dispatch_id r \<equiv> ad_dispatch_id (ib_cols r)"

abbreviation lr_lease_id :: "lease_row \<Rightarrow> string" where
  "lr_lease_id r \<equiv> le_lease_id (lr_cols r)"

abbreviation lr_slot :: "lease_row \<Rightarrow> string \<times> int" where
  "lr_slot r \<equiv> (le_admission_id (lr_cols r), le_execution_epoch (lr_cols r))"

text \<open>\<open>CHECK(length(c) = 64 AND c NOT GLOB '*[^0-9a-f]*')\<close>\<close>

definition digest_check :: "string \<Rightarrow> bool" where
  "digest_check s \<longleftrightarrow> is_digest s"

definition nonempty_check :: "string \<Rightarrow> bool" where
  "nonempty_check s \<longleftrightarrow> s \<noteq> []"

definition json_check :: "string \<Rightarrow> bool" where
  "json_check s \<longleftrightarrow> 2 < length s"

definition environment_check :: "string \<Rightarrow> bool" where
  "environment_check s \<longleftrightarrow> s \<in> {''local'', ''development'', ''staging'', ''production''}"

subsection \<open>Insertion of grants, consumptions and dispatch intents\<close>

definition insert_stored_grant :: "trust_db \<Rightarrow> grant_row \<Rightarrow> trust_db res" where
  "insert_stored_grant db r =
     thenE (guardE
       (key_free gw_jti (gw_jti r) (t_grants db)
        \<and> key_free gw_grant_id (gw_grant_id r) (t_grants db)
        \<and> key_free gw_execution_id (gw_execution_id r) (t_grants db)
        \<and> key_free gw_authorization_snapshot_digest (gw_authorization_snapshot_digest r) (t_grants db)
        \<and> key_free gw_grant_digest (gw_grant_digest r) (t_grants db)
        \<and> gw_request_id r \<in> set (t_requests db) \<and> gw_workspace_id r \<in> set (t_workspaces db)
        \<and> environment_check (gw_environment r)
        \<and> gw_authorization_snapshot_digest r \<in> set (map sr_snapshot_digest (t_snapshots db))
        \<and> list_all digest_check [gw_execution_capsule_digest r, gw_grant_digest r,
             gw_issuance_conformance_witness_digest r, gw_store_clock_witness_digest r]
        \<and> list_all json_check [gw_grant_json r, gw_issuance_conformance_witness_json r,
             gw_store_clock_witness_json r]
        \<and> 0 \<le> gw_revocation_epoch r \<and> nonempty_check (gw_store_revision r)
        \<and> \<lparr>sr_snapshot_digest = gw_authorization_snapshot_digest r, sr_execution_id = gw_execution_id r,
            sr_request_id = gw_request_id r, sr_workspace_id = gw_workspace_id r,
            sr_environment = gw_environment r\<rparr> \<in> set (t_snapshots db))
       IntegrityError)
      (Inr (db\<lparr>t_grants := t_grants db @ [r]\<rparr>))"

definition insert_consumption :: "trust_db \<Rightarrow> consumption_row \<Rightarrow> trust_db res" where
  "insert_consumption db r =
     thenE (guardE
       (key_free cr_consumption_id (cr_consumption_id r) (t_consumptions db)
        \<and> key_free cr_jti (cr_jti r) (t_consumptions db)
        \<and> key_free cr_grant_digest (cr_grant_digest r) (t_consumptions db)
        \<and> key_free cr_execution_id (cr_execution_id r) (t_consumptions db)
        \<and> key_free cr_consumption_digest (cr_consumption_digest r) (t_consumptions db)
        \<and> cr_jti r \<in> set (map gw_jti (t_grants db))
        \<and> list_all digest_check [cr_grant_digest r, cr_authorization_snapshot_digest r,
             cr_execution_capsule_digest r, cr_conformance_witness_digest r,
             cr_clock_witness_digest r, cr_consumption_digest r]
        \<and> list_all json_check [cr_conformance_witness_json r, cr_clock_witness_json r, cr_consumption_json r]
        \<and> list_all nonempty_check [cr_runner_class r, cr_authority_revision r]
        \<and> 0 \<le> cr_live_revocation_epoch r
        \<and> cr_serialization_contract r = ''sqlite-begin-immediate/v1''
        \<and> list_ex (\<lambda>g. gw_jti g = cr_jti r \<and> gw_grant_digest g = cr_grant_digest r
             \<and> gw_execution_id g = cr_execution_id r
             \<and> gw_authorization_snapshot_digest g = cr_authorization_snapshot_digest r
             \<and> gw_execution_capsule_digest g = cr_execution_capsule_digest r) (t_grants db))
       IntegrityError)
      (Inr (db\<lparr>t_consumptions := t_consumptions db @ [r]\<rparr>))"

definition outbox_binding :: "trust_db \<Rightarrow> outbox_entry \<Rightarrow> bool" where
  "outbox_binding db e \<longleftrightarrow>
     list_ex (\<lambda>c. list_ex (\<lambda>g.
        gw_jti g = cr_jti c
        \<and> cr_consumption_id c = ox_consumption_id e
        \<and> cr_consumption_digest c = ox_consumption_witness_digest e
        \<and> cr_jti c = ox_jti e \<and> cr_grant_digest c = ox_grant_digest e
        \<and> cr_execution_id c = ox_execution_id e
        \<and> cr_authorization_snapshot_digest c = ox_authorization_snapshot_digest e
        \<and> cr_execution_capsule_digest c = ox_execution_capsule_digest e
        \<and> cr_runner_class c = ox_runner_class e \<and> cr_consumed_at c = ox_created_at e
        \<and> gw_jti g = ox_jti e \<and> gw_grant_id g = ox_grant_id e
        \<and> gw_grant_digest g = ox_grant_digest e \<and> gw_execution_id g = ox_execution_id e
        \<and> gw_request_id g = ox_request_id e \<and> gw_workspace_id g = ox_workspace_id e
        \<and> gw_environment g = ox_environment e
        \<and> gw_authorization_snapshot_digest g = ox_authorization_snapshot_digest e
        \<and> gw_execution_capsule_digest g = ox_execution_capsule_digest e)
       (t_grants db)) (t_consumptions db)"

definition insert_outbox :: "trust_db \<Rightarrow> outbox_row \<Rightarrow> trust_db res" where
  "insert_outbox db r =
     (let e = ob_cols r; old = map ob_cols (t_outbox db) in
     thenE (guardE
       (key_free ox_outbox_id (ox_outbox_id e) old
        \<and> key_free ox_consumption_id (ox_consumption_id e) old
        \<and> key_free ox_consumption_witness_digest (ox_consumption_witness_digest e) old
        \<and> key_free ox_jti (ox_jti e) old \<and> key_free ox_grant_id (ox_grant_id e) old
        \<and> key_free ox_grant_digest (ox_grant_digest e) old
        \<and> key_free ox_execution_id (ox_execution_id e) old
        \<and> key_free ox_entry_digest (ox_entry_digest e) old
        \<and> ox_consumption_id e \<in> set (map cr_consumption_id (t_consumptions db))
        \<and> ox_jti e \<in> set (map gw_jti (t_grants db))
        \<and> ox_request_id e \<in> set (t_requests db) \<and> ox_actor_id e \<in> set (t_users db)
        \<and> ox_workspace_id e \<in> set (t_workspaces db)
        \<and> ox_authorization_snapshot_digest e \<in> set (map sr_snapshot_digest (t_snapshots db))
        \<and> environment_check (ox_environment e)
        \<and> list_all nonempty_check [ox_capability e, ox_target_kind e, ox_runner_class e, ox_outbox_revision e]
        \<and> list_all digest_check [ox_consumption_witness_digest e, ox_grant_digest e,
             ox_capability_definition_identity e, ox_target_digest e, ox_payload_digest e,
             ox_execution_binding_digest e, ox_execution_capsule_digest e, ox_entry_digest e]
        \<and> ox_required_permission e = ''execution.run''
        \<and> ox_precondition_enforcement_class e \<in> {''READ_THEN_COMPARE'', ''ATOMIC_PROVIDER_CONDITION''}
        \<and> ox_use_semantics e = ''ONE_TIME'' \<and> json_check (ob_entry_json r)
        \<and> outbox_binding db e)
       IntegrityError)
      (Inr (db\<lparr>t_outbox := t_outbox db @ [r]\<rparr>)))"

subsection \<open>Insertion of admissions and leases\<close>

definition insert_inbox :: "trust_db \<Rightarrow> inbox_row \<Rightarrow> trust_db res" where
  "insert_inbox db r =
     (let a = ib_cols r; old = map ib_cols (t_inbox db); outbox = map ob_cols (t_outbox db) in
     thenE (guardE
       (key_free ad_admission_id (ad_admission_id a) old
        \<and> key_free ad_dispatch_id (ad_dispatch_id a) old
        \<and> key_free ad_outbox_id (ad_outbox_id a) old
        \<and> key_free ad_outbox_entry_digest (ad_outbox_entry_digest a) old
        \<and> key_free ad_admission_digest (ad_admission_digest a) old
        \<and> ad_outbox_id a \<in> set (map ox_outbox_id outbox)
        \<and> ad_outbox_entry_digest a \<in> set (map ox_entry_digest outbox)
        \<and> ad_workspace_id a \<in> set (t_workspaces db)
        \<and> environment_check (ad_environment a)
        \<and> list_all digest_check [ad_admission_id a, ad_dispatch_id a, ad_envelope_digest a,
             ad_execution_capsule_digest a, ad_admission_digest a]
        \<and> list_all nonempty_check [ad_runner_class a, ad_admission_revision a]
        \<and> json_check (ib_admission_json r)
        \<and> list_ex (\<lambda>e. ox_outbox_id e = ad_outbox_id a \<and> ox_entry_digest e = ad_outbox_entry_digest a
             \<and> ox_execution_id e = ad_execution_id a \<and> ox_workspace_id e = ad_workspace_id a
             \<and> ox_environment e = ad_environment a
             \<and> ox_execution_capsule_digest e = ad_execution_capsule_digest a
             \<and> ox_runner_class e = ad_runner_class a) outbox)
       IntegrityError)
      (Inr (db\<lparr>t_inbox := t_inbox db @ [r]\<rparr>)))"

definition lease_binding :: "trust_db \<Rightarrow> lease \<Rightarrow> bool" where
  "lease_binding db l \<longleftrightarrow>
     list_ex (\<lambda>r. let a = ib_cols r in
        ad_admission_id a = le_admission_id l \<and> ad_dispatch_id a = le_dispatch_id l
        \<and> ad_admission_digest a = le_admission_digest l \<and> ad_execution_id a = le_execution_id l
        \<and> ad_workspace_id a = le_workspace_id l \<and> ad_environment a = le_environment l
        \<and> ad_execution_capsule_digest a = le_execution_capsule_digest l
        \<and> ad_runner_class a = le_runner_class l) (t_inbox db)"

definition insert_lease :: "trust_db \<Rightarrow> lease_row \<Rightarrow> trust_db res" where
  "insert_lease db r =
     (let l = lr_cols r in
     thenE (guardE
       (key_free lr_lease_id (le_lease_id l) (t_leases db)
        \<and> key_free (le_lease_digest \<circ> lr_cols) (le_lease_digest l) (t_leases db)
        \<and> key_free lr_slot (lr_slot r) (t_leases db)
        \<and> le_admission_id l \<in> set (map ib_admission_id (t_inbox db))
        \<and> le_workspace_id l \<in> set (t_workspaces db) \<and> environment_check (le_environment l)
        \<and> list_all digest_check [le_lease_id l, le_dispatch_id l, le_admission_digest l,
             le_execution_capsule_digest l, le_clock_witness_digest l, le_lease_digest l]
        \<and> list_all nonempty_check [le_execution_id l, le_runner_class l, le_acquired_at l,
             le_expires_at l, le_lease_revision l]
        \<and> 1 \<le> le_execution_epoch l
        \<and> list_all json_check [lr_clock_witness_json r, lr_lease_json r]
        \<and> lease_binding db l)
       IntegrityError)
      (Inr (db\<lparr>t_leases := t_leases db @ [r]\<rparr>)))"

subsection \<open>The epoch state and its transitions\<close>

definition state_check :: "epoch_state \<Rightarrow> bool" where
  "state_check s \<longleftrightarrow>
     list_all digest_check [es_admission_digest s, es_execution_capsule_digest s, es_current_lease_digest s]
     \<and> list_all nonempty_check [es_execution_id s, es_runner_class s, es_current_lease_acquired_at s,
          es_current_lease_expires_at s, es_authority_revision s, es_updated_at s]
     \<and> environment_check (es_environment s) \<and> 1 \<le> es_current_epoch s
     \<and> pred_option digest_check (es_completion_digest s)
     \<and> pred_option digest_check (es_completion_clock_witness_digest s)
     \<and> (es_status s = ''ACTIVE'' \<and> es_completion_digest s = None \<and> es_completed_at s = None
          \<and> es_completion_clock_witness_digest s = None \<and> es_completion_clock_witness_json s = None
        \<or> es_status s = ''COMPLETED'' \<and> es_completion_digest s \<noteq> None \<and> es_completed_at s \<noteq> None
          \<and> es_completion_clock_witness_digest s \<noteq> None \<and> es_completion_clock_witness_json s \<noteq> None)"

definition state_refs :: "trust_db \<Rightarrow> epoch_state \<Rightarrow> bool" where
  "state_refs db s \<longleftrightarrow>
     es_admission_id s \<in> set (map ib_admission_id (t_inbox db))
     \<and> es_workspace_id s \<in> set (t_workspaces db)
     \<and> es_current_lease_id s \<in> set (map lr_lease_id (t_leases db))"

definition current_lease_exists :: "trust_db \<Rightarrow> epoch_state \<Rightarrow> bool" where
  "current_lease_exists db s \<longleftrightarrow>
     list_ex (\<lambda>r. let l = lr_cols r in
        le_lease_id l = es_current_lease_id s \<and> le_lease_digest l = es_current_lease_digest s
        \<and> le_admission_id l = es_admission_id s \<and> le_execution_epoch l = es_current_epoch s
        \<and> le_acquired_at l = es_current_lease_acquired_at s
        \<and> le_expires_at l = es_current_lease_expires_at s) (t_leases db)"

definition state_admission_binding :: "trust_db \<Rightarrow> epoch_state \<Rightarrow> bool" where
  "state_admission_binding db s \<longleftrightarrow>
     list_ex (\<lambda>r. let a = ib_cols r in
        ad_admission_id a = es_admission_id s \<and> ad_admission_digest a = es_admission_digest s
        \<and> ad_execution_id a = es_execution_id s \<and> ad_workspace_id a = es_workspace_id s
        \<and> ad_environment a = es_environment s
        \<and> ad_execution_capsule_digest a = es_execution_capsule_digest s
        \<and> ad_runner_class a = es_runner_class s) (t_inbox db)"

definition insert_epoch_state :: "trust_db \<Rightarrow> epoch_state \<Rightarrow> trust_db res" where
  "insert_epoch_state db s =
     thenE (guardE
       (key_free es_admission_id (es_admission_id s) (t_epochs db)
        \<and> key_free es_current_lease_id (es_current_lease_id s) (t_epochs db)
        \<and> key_free es_current_lease_digest (es_current_lease_digest s) (t_epochs db)
        \<and> state_refs db s \<and> state_check s
        \<and> es_current_epoch s = 1 \<and> es_status s = ''ACTIVE''
        \<and> state_admission_binding db s \<and> current_lease_exists db s)
       IntegrityError)
      (Inr (db\<lparr>t_epochs := t_epochs db @ [s]\<rparr>))"

text \<open>\<open>trg_execution_epoch_state_v1_update_guard\<close>; text is compared byte by byte.\<close>

definition reacquire_allowed :: "trust_db \<Rightarrow> epoch_state \<Rightarrow> epoch_state \<Rightarrow> bool" where
  "reacquire_allowed db old new \<longleftrightarrow>
     es_status new = ''ACTIVE'' \<and> es_current_epoch new = es_current_epoch old + 1
     \<and> es_current_lease_id new \<noteq> es_current_lease_id old
     \<and> es_current_lease_digest new \<noteq> es_current_lease_digest old
     \<and> es_current_lease_expires_at old \<le> es_updated_at new
     \<and> es_completion_digest new = None \<and> es_completed_at new = None
     \<and> es_completion_clock_witness_digest new = None \<and> es_completion_clock_witness_json new = None
     \<and> current_lease_exists db new"

definition completion_allowed :: "epoch_state \<Rightarrow> epoch_state \<Rightarrow> bool" where
  "completion_allowed old new \<longleftrightarrow>
     es_status new = ''COMPLETED'' \<and> es_current_epoch new = es_current_epoch old
     \<and> es_current_lease_id new = es_current_lease_id old
     \<and> es_current_lease_digest new = es_current_lease_digest old
     \<and> es_current_lease_acquired_at new = es_current_lease_acquired_at old
     \<and> es_current_lease_expires_at new = es_current_lease_expires_at old
     \<and> es_completion_digest new \<noteq> None
     \<and> (case es_completed_at new of None \<Rightarrow> False
        | Some t \<Rightarrow> es_current_lease_acquired_at old \<le> t
            \<and> t < es_current_lease_expires_at old)
     \<and> es_completion_clock_witness_digest new \<noteq> None \<and> es_completion_clock_witness_json new \<noteq> None"

definition update_guard :: "trust_db \<Rightarrow> epoch_state \<Rightarrow> epoch_state \<Rightarrow> bool" where
  "update_guard db old new \<longleftrightarrow>
     es_status old = ''ACTIVE''
     \<and> es_admission_id new = es_admission_id old \<and> es_admission_digest new = es_admission_digest old
     \<and> es_execution_id new = es_execution_id old \<and> es_workspace_id new = es_workspace_id old
     \<and> es_environment new = es_environment old
     \<and> es_execution_capsule_digest new = es_execution_capsule_digest old
     \<and> es_runner_class new = es_runner_class old
     \<and> es_authority_revision new = es_authority_revision old
     \<and> (reacquire_allowed db old new \<or> completion_allowed old new)"

text \<open>
  \<open>UPDATE ... WHERE admission_id = ? AND status = 'ACTIVE' AND current_epoch = ? AND
  current_lease_id = ? AND current_lease_digest = ? RETURNING admission_id\<close>: the result says
  whether a row was updated.  \<open>admission_id\<close> is the primary key, so at most one row is.
\<close>

definition state_selected :: "string \<Rightarrow> int \<Rightarrow> string \<Rightarrow> string \<Rightarrow> epoch_state \<Rightarrow> bool" where
  "state_selected admission_id epoch lease_id lease_digest s \<longleftrightarrow>
     es_admission_id s = admission_id \<and> es_status s = ''ACTIVE'' \<and> es_current_epoch s = epoch
     \<and> es_current_lease_id s = lease_id \<and> es_current_lease_digest s = lease_digest"

definition update_epoch_state ::
  "trust_db \<Rightarrow> (epoch_state \<Rightarrow> bool) \<Rightarrow> (epoch_state \<Rightarrow> epoch_state) \<Rightarrow> (bool \<times> trust_db) res" where
  "update_epoch_state db selected f =
     (case List.find selected (t_epochs db) of
        None \<Rightarrow> Inr (False, db)
      | Some old \<Rightarrow>
          let new = f old; others = filter (\<lambda>s. es_admission_id s \<noteq> es_admission_id old) (t_epochs db) in
          thenE (guardE
            (update_guard db old new \<and> state_check new \<and> state_refs db new
             \<and> key_free es_current_lease_id (es_current_lease_id new) others
             \<and> key_free es_current_lease_digest (es_current_lease_digest new) others)
            IntegrityError)
           (Inr (True, db\<lparr>t_epochs := update_where selected f (t_epochs db)\<rparr>)))"

end
