(* ===== verification/Capability_Registry.thy ===== *)
theory Capability_Registry
  imports Trusted_Clock
begin

text \<open>
  The capability registry (\<open>capability_registry.py\<close>): content-addressed capability definitions,
  their activations, and the immutable registry built from them.  Constructors take typed
  arguments; a dictionary of the source is a partial map.  The checks \<open>isinstance\<close> and
  \<open>type(x) is bool\<close> are the types of the model.
\<close>

definition required_execution_permission :: string where
  "required_execution_permission = ''execution.run''"

subsection \<open>The capability pattern\<close>

text \<open>
  \<open>[a-z][a-z0-9]*(?:[._-][a-z0-9]+)*/v[1-9][0-9]*\<close> with \<open>fullmatch\<close>, as the deterministic
  automaton of the expression: inside a segment, at the start of a segment, and the version.
\<close>

definition is_lower :: "char \<Rightarrow> bool" where
  "is_lower c \<longleftrightarrow> code CHR ''a'' \<le> code c \<and> code c \<le> code CHR ''z''"

definition is_segment_char :: "char \<Rightarrow> bool" where
  "is_segment_char c \<longleftrightarrow> is_lower c \<or> is_digit c"

definition is_separator :: "char \<Rightarrow> bool" where
  "is_separator c \<longleftrightarrow> c = CHR ''.'' \<or> c = CHR ''_'' \<or> c = CHR ''-''"

fun version_number :: "string \<Rightarrow> bool" where
  "version_number [] = False"
| "version_number (c # cs) \<longleftrightarrow> is_digit c \<and> c \<noteq> CHR ''0'' \<and> list_all is_digit cs"

fun in_segment :: "string \<Rightarrow> bool" and new_segment :: "string \<Rightarrow> bool" where
  "in_segment [] = False"
| "in_segment (c # cs) =
     (if is_segment_char c then in_segment cs
      else if is_separator c then new_segment cs
      else if c = CHR ''/'' then (case cs of [] \<Rightarrow> False | v # n \<Rightarrow> v = CHR ''v'' \<and> version_number n)
      else False)"
| "new_segment [] = False"
| "new_segment (c # cs) = (is_segment_char c \<and> in_segment cs)"

definition capability_pattern :: "string \<Rightarrow> bool" where
  "capability_pattern s = (case s of [] \<Rightarrow> False | c # cs \<Rightarrow> is_lower c \<and> in_segment cs)"

subsection \<open>Definitions of capabilities\<close>

record capability_definition =
  cd_capability :: string
  cd_target_kind :: string
  cd_binder_id :: string
  cd_handler_id :: string
  cd_effect_class :: string
  cd_verification_class :: string
  cd_supported_environments :: "string list"
  cd_required_permissions :: "string list"
  cd_production_eligible :: bool
  cd_definition_identity :: string

definition capability_definition_claims :: "capability_definition \<Rightarrow> (string \<times> json) list" where
  "capability_definition_claims c =
     [(''definition_type'', JStr ''capability-definition/v1''), (''capability'', JStr (cd_capability c)),
      (''target_kind'', JStr (cd_target_kind c)), (''binder_id'', JStr (cd_binder_id c)),
      (''handler_id'', JStr (cd_handler_id c)), (''effect_class'', JStr (cd_effect_class c)),
      (''verification_class'', JStr (cd_verification_class c)),
      (''supported_environments'', JArr (map JStr (cd_supported_environments c))),
      (''required_permissions'', JArr (map JStr (cd_required_permissions c))),
      (''production_eligible'', JBool (cd_production_eligible c))]"

text \<open>A nonempty, duplicate-free, sorted tuple of known environments.\<close>

definition environments_ok :: "string list \<Rightarrow> bool" where
  "environments_ok es \<longleftrightarrow> es \<noteq> [] \<and> es = sorted_unique es \<and> set es \<subseteq> set valid_environments"

definition capability_definition_init ::
  "(string \<Rightarrow> string) \<Rightarrow> capability_definition \<Rightarrow> capability_definition res" where
  "capability_definition_init H c =
     thenE (guardE (capability_pattern (cd_capability c)) (ValueError ''capability''))
    (thenE (check_texts
       [(''target_kind'', cd_target_kind c), (''binder_id'', cd_binder_id c),
        (''handler_id'', cd_handler_id c), (''effect_class'', cd_effect_class c),
        (''verification_class'', cd_verification_class c)])
    (thenE (guardE (environments_ok (cd_supported_environments c)) (ValueError ''supported_environments''))
    (thenE (guardE (cd_required_permissions c \<noteq> []
        \<and> cd_required_permissions c = sorted_unique (cd_required_permissions c))
       (ValueError ''required_permissions''))
    (thenE (check_texts (map (\<lambda>p. (''required_permission'', p)) (cd_required_permissions c)))
    (thenE (guardE (required_execution_permission \<in> set (cd_required_permissions c))
       (ValueError ''required_permissions''))
    (thenE (guardE (cd_production_eligible c \<longrightarrow> ''production'' \<in> set (cd_supported_environments c))
       (ValueError ''production_eligible''))
    (thenE (check_digests [(''definition_identity'', cd_definition_identity c)])
    (thenE (guardE (cd_definition_identity c = claims_digest H (capability_definition_claims c))
       (ValueError ''definition_identity''))
      (Inr c)))))))))"

text \<open>The arguments of \<open>create\<close> come as a record whose identity field is ignored.\<close>

definition capability_definition_create ::
  "(string \<Rightarrow> string) \<Rightarrow> capability_definition \<Rightarrow> capability_definition res" where
  "capability_definition_create H args =
     (let c = args\<lparr>cd_supported_environments := sorted_unique (cd_supported_environments args),
                   cd_required_permissions := sorted_unique (cd_required_permissions args)\<rparr>
      in capability_definition_init H
           (c\<lparr>cd_definition_identity := claims_digest H (capability_definition_claims c)\<rparr>))"

definition capability_definition_ok :: "(string \<Rightarrow> string) \<Rightarrow> capability_definition \<Rightarrow> bool" where
  "capability_definition_ok H c \<longleftrightarrow>
     capability_pattern (cd_capability c)
     \<and> list_all text_ok [cd_target_kind c, cd_binder_id c, cd_handler_id c, cd_effect_class c,
          cd_verification_class c]
     \<and> environments_ok (cd_supported_environments c)
     \<and> cd_required_permissions c = sorted_unique (cd_required_permissions c)
     \<and> list_all text_ok (cd_required_permissions c)
     \<and> required_execution_permission \<in> set (cd_required_permissions c)
     \<and> (cd_production_eligible c \<longrightarrow> ''production'' \<in> set (cd_supported_environments c))
     \<and> digest_ok (cd_definition_identity c)
     \<and> cd_definition_identity c = claims_digest H (capability_definition_claims c)"

subsection \<open>Activations\<close>

record capability_activation =
  cv_capability_definition_identity :: string
  cv_activation_generation :: int
  cv_enabled_environments :: "string list"
  cv_revoked :: bool
  cv_activation_digest :: string

definition capability_activation_claims :: "capability_activation \<Rightarrow> (string \<times> json) list" where
  "capability_activation_claims c =
     [(''activation_type'', JStr ''capability-activation/v1''),
      (''capability_definition_identity'', JStr (cv_capability_definition_identity c)),
      (''activation_generation'', JInt (cv_activation_generation c)),
      (''enabled_environments'', JArr (map JStr (cv_enabled_environments c))),
      (''revoked'', JBool (cv_revoked c))]"

definition capability_activation_init ::
  "(string \<Rightarrow> string) \<Rightarrow> capability_activation \<Rightarrow> capability_activation res" where
  "capability_activation_init H c =
     thenE (check_digests [(''capability_definition_identity'', cv_capability_definition_identity c)])
    (thenE (guardE (1 \<le> cv_activation_generation c) (ValueError ''activation_generation''))
    (thenE (guardE (environments_ok (cv_enabled_environments c)) (ValueError ''enabled_environments''))
    (thenE (check_digests [(''activation_digest'', cv_activation_digest c)])
    (thenE (guardE (cv_activation_digest c = claims_digest H (capability_activation_claims c))
       (ValueError ''activation_digest''))
      (Inr c)))))"

definition capability_activation_create ::
  "(string \<Rightarrow> string) \<Rightarrow> string \<Rightarrow> int \<Rightarrow> string list \<Rightarrow> bool \<Rightarrow> capability_activation res" where
  "capability_activation_create H definition_identity generation environments revoked =
     (let c = \<lparr>cv_capability_definition_identity = definition_identity,
               cv_activation_generation = generation,
               cv_enabled_environments = sorted_unique environments, cv_revoked = revoked,
               cv_activation_digest = []\<rparr>
      in capability_activation_init H
           (c\<lparr>cv_activation_digest := claims_digest H (capability_activation_claims c)\<rparr>))"

definition capability_activation_ok :: "(string \<Rightarrow> string) \<Rightarrow> capability_activation \<Rightarrow> bool" where
  "capability_activation_ok H c \<longleftrightarrow>
     digest_ok (cv_capability_definition_identity c) \<and> 1 \<le> cv_activation_generation c
     \<and> environments_ok (cv_enabled_environments c) \<and> digest_ok (cv_activation_digest c)
     \<and> cv_activation_digest c = claims_digest H (capability_activation_claims c)"

subsection \<open>The registry\<close>

record capability_registry =
  cy_by_capability :: "string \<rightharpoonup> capability_definition"
  cy_by_identity :: "string \<rightharpoonup> capability_definition"
  cy_activations :: "string \<rightharpoonup> capability_activation"

text \<open>The two loops of \<open>ImmutableCapabilityRegistry.__init__\<close>.\<close>

fun add_definitions ::
  "capability_definition list \<Rightarrow> capability_registry \<Rightarrow> capability_registry res" where
  "add_definitions [] reg = Inr reg"
| "add_definitions (d # ds) reg =
     thenE (guardE (cy_by_capability reg (cd_capability d) = None) (ValueError ''duplicate capability''))
    (thenE (guardE (cy_by_identity reg (cd_definition_identity d) = None)
       (ValueError ''duplicate capability definition identity''))
      (add_definitions ds
        (reg\<lparr>cy_by_capability := (cy_by_capability reg)(cd_capability d \<mapsto> d),
             cy_by_identity := (cy_by_identity reg)(cd_definition_identity d \<mapsto> d)\<rparr>)))"

fun add_activations ::
  "capability_activation list \<Rightarrow> capability_registry \<Rightarrow> capability_registry res" where
  "add_activations [] reg = Inr reg"
| "add_activations (a # as) reg =
     bindE (orRaise (cy_by_identity reg (cv_capability_definition_identity a))
       (ValueError ''activation references unknown capability definition'')) (\<lambda>d.
     thenE (guardE (cy_activations reg (cv_capability_definition_identity a) = None)
       (ValueError ''duplicate activation for capability definition''))
    (thenE (guardE (set (cv_enabled_environments a) \<subseteq> set (cd_supported_environments d))
       (ValueError ''activation enables unsupported environment''))
      (add_activations as
        (reg\<lparr>cy_activations := (cy_activations reg)(cv_capability_definition_identity a \<mapsto> a)\<rparr>))))"

definition capability_registry_init ::
  "capability_definition list \<Rightarrow> capability_activation list \<Rightarrow> capability_registry res" where
  "capability_registry_init definitions activations =
     bindE (add_definitions definitions
       \<lparr>cy_by_capability = Map.empty, cy_by_identity = Map.empty, cy_activations = Map.empty\<rparr>) (\<lambda>reg.
     bindE (add_activations activations reg) (\<lambda>reg'.
     thenE (guardE (definitions \<noteq> []) (ValueError ''capability registry requires at least one definition''))
      (Inr reg')))"

definition registry_definition :: "capability_registry \<Rightarrow> string \<Rightarrow> capability_definition res" where
  "registry_definition reg capability =
     thenE (check_texts [(''capability'', capability)])
      (orRaise (cy_by_capability reg capability) (LookupError ''capability definition not found''))"

definition definition_by_identity :: "capability_registry \<Rightarrow> string \<Rightarrow> capability_definition res" where
  "definition_by_identity reg identity =
     thenE (check_texts [(''definition_identity'', identity)])
      (orRaise (cy_by_identity reg identity) (LookupError ''capability definition identity not found''))"

definition registry_activation :: "capability_registry \<Rightarrow> string \<Rightarrow> capability_activation res" where
  "registry_activation reg identity =
     thenE (check_texts [(''definition_identity'', identity)])
      (orRaise (cy_activations reg identity) (PermissionError ''capability is not activated''))"

definition resolve_for_execution ::
  "capability_registry \<Rightarrow> string \<Rightarrow> string \<Rightarrow> (capability_definition \<times> capability_activation) res" where
  "resolve_for_execution reg capability environment =
     thenE (guardE (environment \<in> set valid_environments) (ValueError ''environment''))
    (bindE (registry_definition reg capability) (\<lambda>d.
     bindE (registry_activation reg (cd_definition_identity d)) (\<lambda>a.
     thenE (guardE (\<not> cv_revoked a) (PermissionError ''capability activation is revoked''))
    (thenE (guardE (environment \<in> set (cv_enabled_environments a))
       (PermissionError ''capability is not active in environment''))
    (thenE (guardE (environment \<in> set (cd_supported_environments d))
       (PermissionError ''capability does not support environment''))
    (thenE (guardE (\<not> (environment = ''production'' \<and> \<not> cd_production_eligible d))
       (PermissionError ''capability is not production eligible''))
      (Inr (d, a))))))))"

subsection \<open>Constructors accept exactly the valid values\<close>

lemma capability_definition_init_iff:
  "capability_definition_init H c = Inr c' \<longleftrightarrow> c' = c \<and> capability_definition_ok H c"
  by (auto simp: capability_definition_init_def capability_definition_ok_def res_simps comp_def)

lemma capability_activation_init_iff:
  "capability_activation_init H c = Inr c' \<longleftrightarrow> c' = c \<and> capability_activation_ok H c"
  by (auto simp: capability_activation_init_def capability_activation_ok_def res_simps)

interpretation capability: content_digest H capability_definition_claims cd_definition_identity
  "capability_definition_ok H" for H
  by unfold_locales (simp_all add: flat_def capability_definition_claims_def capability_definition_ok_def)

interpretation activation: content_digest H capability_activation_claims cv_activation_digest
  "capability_activation_ok H" for H
  by unfold_locales (simp_all add: flat_def capability_activation_claims_def capability_activation_ok_def)

subsection \<open>The invariant of a registry\<close>

text \<open>
  Every entry is filed under its own key, both definition maps hold the same definitions, and an
  activation belongs to a definition and enables only environments the definition supports.
\<close>

definition registry_ok :: "capability_registry \<Rightarrow> bool" where
  "registry_ok reg \<longleftrightarrow>
     (\<forall>k d. cy_by_capability reg k = Some d \<longrightarrow>
        cd_capability d = k \<and> cy_by_identity reg (cd_definition_identity d) = Some d)
     \<and> (\<forall>k d. cy_by_identity reg k = Some d \<longrightarrow>
        cd_definition_identity d = k \<and> cy_by_capability reg (cd_capability d) = Some d)
     \<and> (\<forall>k a. cy_activations reg k = Some a \<longrightarrow> cv_capability_definition_identity a = k
        \<and> (\<exists>d. cy_by_identity reg k = Some d
             \<and> set (cv_enabled_environments a) \<subseteq> set (cd_supported_environments d)))"

lemma add_definitions_ok:
  "add_definitions ds reg = Inr reg' \<Longrightarrow> registry_ok reg \<Longrightarrow> cy_activations reg = Map.empty \<Longrightarrow>
     registry_ok reg' \<and> cy_activations reg' = Map.empty"
proof (induction ds arbitrary: reg)
  case (Cons d ds)
  let ?reg = "reg\<lparr>cy_by_capability := (cy_by_capability reg)(cd_capability d \<mapsto> d),
                  cy_by_identity := (cy_by_identity reg)(cd_definition_identity d \<mapsto> d)\<rparr>"
  have free: "cy_by_capability reg (cd_capability d) = None" "cy_by_identity reg (cd_definition_identity d) = None"
    and rest: "add_definitions ds ?reg = Inr reg'"
    using Cons.prems(1) by (simp_all add: res_simps)
  have "registry_ok ?reg"
    using Cons.prems(2,3) free unfolding registry_ok_def by (simp split: if_splits) fastforce
  then show ?case using Cons.IH [OF rest] Cons.prems(3) by simp
qed simp

lemma add_activations_ok:
  "add_activations as reg = Inr reg' \<Longrightarrow> registry_ok reg \<Longrightarrow> registry_ok reg'"
proof (induction as arbitrary: reg)
  case (Cons a as)
  let ?reg = "reg\<lparr>cy_activations := (cy_activations reg)(cv_capability_definition_identity a \<mapsto> a)\<rparr>"
  obtain d where d: "cy_by_identity reg (cv_capability_definition_identity a) = Some d"
      "set (cv_enabled_environments a) \<subseteq> set (cd_supported_environments d)"
    and rest: "add_activations as ?reg = Inr reg'"
    using Cons.prems(1) by (auto simp: res_simps)
  have "registry_ok ?reg"
    using Cons.prems(2) d unfolding registry_ok_def by simp
  then show ?case using Cons.IH [OF rest] by blast
qed simp

lemma capability_registry_init_ok:
  assumes "capability_registry_init ds as = Inr reg"
  shows "registry_ok reg"
proof -
  obtain reg1 where "add_definitions ds
      \<lparr>cy_by_capability = Map.empty, cy_by_identity = Map.empty, cy_activations = Map.empty\<rparr> = Inr reg1"
    and "add_activations as reg1 = Inr reg"
    using assms by (auto simp: capability_registry_init_def res_simps)
  moreover have "registry_ok \<lparr>cy_by_capability = Map.empty, cy_by_identity = Map.empty, cy_activations = Map.empty\<rparr>"
    by (simp add: registry_ok_def)
  ultimately show ?thesis using add_definitions_ok add_activations_ok by fastforce
qed

text \<open>In a registry the test that the definition supports the environment never fails on its own.\<close>

lemma resolve_for_execution_eq_Inr:
  assumes "registry_ok reg"
  shows "resolve_for_execution reg capability environment = Inr (d, a) \<longleftrightarrow>
     environment \<in> set valid_environments \<and> text_ok capability
     \<and> cy_by_capability reg capability = Some d \<and> text_ok (cd_definition_identity d)
     \<and> cy_activations reg (cd_definition_identity d) = Some a \<and> \<not> cv_revoked a
     \<and> environment \<in> set (cv_enabled_environments a)
     \<and> (environment = ''production'' \<longrightarrow> cd_production_eligible d)"
proof -
  have supported: "environment \<in> set (cd_supported_environments d)"
    if d: "cy_by_capability reg capability = Some d"
      and a: "cy_activations reg (cd_definition_identity d) = Some a"
      and e: "environment \<in> set (cv_enabled_environments a)"
  proof -
    have "cy_by_identity reg (cd_definition_identity d) = Some d"
      using d assms unfolding registry_ok_def by blast
    moreover obtain d' where "cy_by_identity reg (cd_definition_identity d) = Some d'"
        "set (cv_enabled_environments a) \<subseteq> set (cd_supported_environments d')"
      using a assms unfolding registry_ok_def by blast
    ultimately show ?thesis using e by auto
  qed
  have "resolve_for_execution reg capability environment = Inr (d, a) \<longleftrightarrow>
     environment \<in> set valid_environments \<and> (text_ok capability
     \<and> cy_by_capability reg capability = Some d) \<and> (text_ok (cd_definition_identity d)
     \<and> cy_activations reg (cd_definition_identity d) = Some a) \<and> \<not> cv_revoked a
     \<and> environment \<in> set (cv_enabled_environments a) \<and> environment \<in> set (cd_supported_environments d)
     \<and> \<not> (environment = ''production'' \<and> \<not> cd_production_eligible d)"
    unfolding resolve_for_execution_def registry_definition_def registry_activation_def
    by (simp only: bindE_eq_Inr thenE_eq_Inr guardE_eq_Inr orRaise_eq_Inr check_texts_eq_Inr
        list.map snd_conv list.pred_inject sum.inject prod.inject) blast
  then show ?thesis using supported by blast
qed

end
