(* ===== verification/Execution_Capsule.thy ===== *)
theory Execution_Capsule
  imports Capability_Registry
begin

text \<open>
  Execution capsules (\<open>execution_capsule.py\<close>): the content-addressed description of what may run,
  its activation, the immutable registry that binds one capsule to a capability definition, and
  the authority that resolves an execution binding (class \<open>ExecutionBinding\<close> of
  \<open>authoritative_grant.py\<close>) from the active capsule.
\<close>

subsection \<open>Capsules\<close>

record execution_capsule =
  cp_capability_definition_identity :: string
  cp_target_kind :: string
  cp_handler_id :: string
  cp_handler_digest :: string
  cp_module_manifest_digest :: string
  cp_artifact_kind :: string
  cp_artifact_digest :: string
  cp_rootfs_digest :: string
  cp_dependency_lock_digest :: string
  cp_sbom_digest :: string
  cp_network_policy_digest :: string
  cp_resource_limit_profile_digest :: string
  cp_credential_class :: string
  cp_runner_class :: string
  cp_precondition_enforcement_class :: string
  cp_verification_class :: string
  cp_verification_contract_identity :: string
  cp_capsule_revision :: string
  cp_capsule_digest :: string

definition execution_capsule_fields :: "string list" where
  "execution_capsule_fields =
     [''schema_version'', ''capsule_type'', ''capability_definition_identity'', ''target_kind'',
      ''handler_id'', ''handler_digest'', ''module_manifest_digest'', ''artifact_kind'',
      ''artifact_digest'', ''rootfs_digest'', ''dependency_lock_digest'', ''sbom_digest'',
      ''network_policy_digest'', ''resource_limit_profile_digest'', ''credential_class'',
      ''runner_class'', ''precondition_enforcement_class'', ''verification_class'',
      ''verification_contract_identity'', ''capsule_revision'', ''capsule_digest'']"

definition execution_capsule_claims :: "execution_capsule \<Rightarrow> (string \<times> json) list" where
  "execution_capsule_claims c =
     [(''schema_version'', JInt 1), (''capsule_type'', JStr ''execution-capsule/v1''),
      (''capability_definition_identity'', JStr (cp_capability_definition_identity c)),
      (''target_kind'', JStr (cp_target_kind c)), (''handler_id'', JStr (cp_handler_id c)),
      (''handler_digest'', JStr (cp_handler_digest c)),
      (''module_manifest_digest'', JStr (cp_module_manifest_digest c)),
      (''artifact_kind'', JStr (cp_artifact_kind c)),
      (''artifact_digest'', JStr (cp_artifact_digest c)),
      (''rootfs_digest'', JStr (cp_rootfs_digest c)),
      (''dependency_lock_digest'', JStr (cp_dependency_lock_digest c)),
      (''sbom_digest'', JStr (cp_sbom_digest c)),
      (''network_policy_digest'', JStr (cp_network_policy_digest c)),
      (''resource_limit_profile_digest'', JStr (cp_resource_limit_profile_digest c)),
      (''credential_class'', JStr (cp_credential_class c)),
      (''runner_class'', JStr (cp_runner_class c)),
      (''precondition_enforcement_class'', JStr (cp_precondition_enforcement_class c)),
      (''verification_class'', JStr (cp_verification_class c)),
      (''verification_contract_identity'', JStr (cp_verification_contract_identity c)),
      (''capsule_revision'', JStr (cp_capsule_revision c))]"

definition execution_capsule_to_dict :: "execution_capsule \<Rightarrow> (string \<times> json) list" where
  "execution_capsule_to_dict c = execution_capsule_claims c @ [(''capsule_digest'', JStr (cp_capsule_digest c))]"

definition execution_capsule_of :: "(string \<Rightarrow> json) \<Rightarrow> execution_capsule" where
  "execution_capsule_of d =
     \<lparr>cp_capability_definition_identity = str_of (d ''capability_definition_identity''),
      cp_target_kind = str_of (d ''target_kind''), cp_handler_id = str_of (d ''handler_id''),
      cp_handler_digest = str_of (d ''handler_digest''),
      cp_module_manifest_digest = str_of (d ''module_manifest_digest''),
      cp_artifact_kind = str_of (d ''artifact_kind''),
      cp_artifact_digest = str_of (d ''artifact_digest''),
      cp_rootfs_digest = str_of (d ''rootfs_digest''),
      cp_dependency_lock_digest = str_of (d ''dependency_lock_digest''),
      cp_sbom_digest = str_of (d ''sbom_digest''),
      cp_network_policy_digest = str_of (d ''network_policy_digest''),
      cp_resource_limit_profile_digest = str_of (d ''resource_limit_profile_digest''),
      cp_credential_class = str_of (d ''credential_class''),
      cp_runner_class = str_of (d ''runner_class''),
      cp_precondition_enforcement_class = str_of (d ''precondition_enforcement_class''),
      cp_verification_class = str_of (d ''verification_class''),
      cp_verification_contract_identity = str_of (d ''verification_contract_identity''),
      cp_capsule_revision = str_of (d ''capsule_revision''),
      cp_capsule_digest = str_of (d ''capsule_digest'')\<rparr>"

definition execution_capsule_init :: "(string \<Rightarrow> string) \<Rightarrow> (string \<Rightarrow> json) \<Rightarrow> execution_capsule res" where
  "execution_capsule_init H d =
     thenE (for_each (check_digest d)
       [''capability_definition_identity'', ''handler_digest'', ''module_manifest_digest'',
        ''artifact_digest'', ''rootfs_digest'', ''dependency_lock_digest'', ''sbom_digest'',
        ''network_policy_digest'', ''resource_limit_profile_digest'',
        ''verification_contract_identity'', ''capsule_digest''])
    (thenE (for_each (check_text d)
       [''target_kind'', ''handler_id'', ''artifact_kind'', ''credential_class'',
        ''runner_class'', ''verification_class'', ''capsule_revision''])
    (bindE (require_in ''precondition_enforcement_class'' [''READ_THEN_COMPARE'', ''ATOMIC_PROVIDER_CONDITION'']
              (d ''precondition_enforcement_class'')) (\<lambda>_.
      (let c = execution_capsule_of d in thenE (guardE (cp_capsule_digest c = claims_digest H (execution_capsule_claims c))
        (ValueError ''capsule_digest'')) (Inr c)))))"

definition execution_capsule_ok :: "(string \<Rightarrow> string) \<Rightarrow> execution_capsule \<Rightarrow> bool" where
  "execution_capsule_ok H c \<longleftrightarrow>
     list_all text_ok
        [cp_target_kind c, cp_handler_id c, cp_artifact_kind c, cp_credential_class c,
         cp_runner_class c, cp_verification_class c, cp_capsule_revision c]
     \<and> list_all digest_ok
        [cp_capability_definition_identity c, cp_handler_digest c, cp_module_manifest_digest c,
         cp_artifact_digest c, cp_rootfs_digest c, cp_dependency_lock_digest c, cp_sbom_digest c,
         cp_network_policy_digest c, cp_resource_limit_profile_digest c,
         cp_verification_contract_identity c, cp_capsule_digest c]
     \<and> cp_precondition_enforcement_class c \<in> {''READ_THEN_COMPARE'', ''ATOMIC_PROVIDER_CONDITION''}
     \<and> cp_capsule_digest c = claims_digest H (execution_capsule_claims c)"

definition execution_capsule_from_dict :: "(string \<Rightarrow> string) \<Rightarrow> json \<Rightarrow> execution_capsule res" where
  "execution_capsule_from_dict H =
     contract_from_dict 1 execution_capsule_fields ''capsule_type'' ''execution-capsule/v1'' (execution_capsule_init H)"

lemma execution_capsule_of_sel [simp]:
  "cp_capability_definition_identity (execution_capsule_of d) = str_of (d ''capability_definition_identity'')"
  "cp_target_kind (execution_capsule_of d) = str_of (d ''target_kind'')"
  "cp_handler_id (execution_capsule_of d) = str_of (d ''handler_id'')"
  "cp_handler_digest (execution_capsule_of d) = str_of (d ''handler_digest'')"
  "cp_module_manifest_digest (execution_capsule_of d) = str_of (d ''module_manifest_digest'')"
  "cp_artifact_kind (execution_capsule_of d) = str_of (d ''artifact_kind'')"
  "cp_artifact_digest (execution_capsule_of d) = str_of (d ''artifact_digest'')"
  "cp_rootfs_digest (execution_capsule_of d) = str_of (d ''rootfs_digest'')"
  "cp_dependency_lock_digest (execution_capsule_of d) = str_of (d ''dependency_lock_digest'')"
  "cp_sbom_digest (execution_capsule_of d) = str_of (d ''sbom_digest'')"
  "cp_network_policy_digest (execution_capsule_of d) = str_of (d ''network_policy_digest'')"
  "cp_resource_limit_profile_digest (execution_capsule_of d) = str_of (d ''resource_limit_profile_digest'')"
  "cp_credential_class (execution_capsule_of d) = str_of (d ''credential_class'')"
  "cp_runner_class (execution_capsule_of d) = str_of (d ''runner_class'')"
  "cp_precondition_enforcement_class (execution_capsule_of d) = str_of (d ''precondition_enforcement_class'')"
  "cp_verification_class (execution_capsule_of d) = str_of (d ''verification_class'')"
  "cp_verification_contract_identity (execution_capsule_of d) = str_of (d ''verification_contract_identity'')"
  "cp_capsule_revision (execution_capsule_of d) = str_of (d ''capsule_revision'')"
  "cp_capsule_digest (execution_capsule_of d) = str_of (d ''capsule_digest'')"
  by (simp_all add: execution_capsule_of_def)

lemma execution_capsule_claims_determine:
  "map snd (execution_capsule_claims c) = map snd (execution_capsule_claims c') \<Longrightarrow> cp_capsule_digest c = cp_capsule_digest c' \<Longrightarrow> c = c'"
  by (simp add: execution_capsule_claims_def)

lemma execution_capsule_init_iff:
  "execution_capsule_init H d = Inr c \<longleftrightarrow> execution_capsule_ok H c
     \<and> list_all (\<lambda>(f, v). d f = v) (drop 2 (execution_capsule_claims c) @ [(''capsule_digest'', JStr (cp_capsule_digest c))])"
  (is "?L \<longleftrightarrow> _ \<and> ?D c")
proof
  assume L: ?L
  then have c: "c = execution_capsule_of d"
    unfolding execution_capsule_init_def Let_def init_res_simps by blast
  have "execution_capsule_ok H c" using L unfolding c execution_capsule_init_def execution_capsule_ok_def Let_def init_res_simps
    by (clarsimp simp: instant_at_def)
  moreover have "?D c" unfolding c
    by (simp add: execution_capsule_claims_def init_simps)
      (use L in \<open>clarsimp simp: execution_capsule_init_def Let_def init_res_simps\<close>)
  ultimately show "execution_capsule_ok H c \<and> ?D c" ..
next
  assume R: "execution_capsule_ok H c \<and> ?D c"
  then have c: "execution_capsule_of d = c" by (simp add: execution_capsule_of_def execution_capsule_claims_def)
  note d = R [THEN conjunct2, unfolded execution_capsule_claims_def]
  show ?L using R [THEN conjunct1] d unfolding execution_capsule_init_def c Let_def
    by (clarsimp simp: execution_capsule_ok_def init_res_simps instant_at_def)
qed

interpretation capsule: content_bound H execution_capsule_claims cp_capsule_digest "execution_capsule_ok H" 1 execution_capsule_fields
  "''capsule_type''" "''execution-capsule/v1''" "''capsule_digest''" "execution_capsule_init H" for H
proof
  show "flat (execution_capsule_claims c)" for c by (simp add: flat_def execution_capsule_claims_def)
  show "map fst (execution_capsule_claims c) = map fst (execution_capsule_claims c')" for c c' by (simp add: execution_capsule_claims_def)
  show "execution_capsule_fields = map fst (execution_capsule_claims c) @ [''capsule_digest'']" for c
    by (simp add: execution_capsule_fields_def execution_capsule_claims_def)
  show "''capsule_digest'' \<notin> fst ` set (execution_capsule_claims c)" for c by (simp add: execution_capsule_claims_def)
  show "take 2 (execution_capsule_claims c) = [(''schema_version'', JInt 1), (''capsule_type'', JStr ''execution-capsule/v1'')]" for c
    by (simp add: execution_capsule_claims_def)
  show "execution_capsule_ok H c \<Longrightarrow> cp_capsule_digest c = claims_digest H (execution_capsule_claims c)" for c
    by (simp add: execution_capsule_ok_def)
qed (rule execution_capsule_claims_determine execution_capsule_init_iff; assumption?)+

lemma execution_capsule_claims_seal [simp]: "execution_capsule_claims (c\<lparr>cp_capsule_digest := x\<rparr>) = execution_capsule_claims c"
  by (simp add: execution_capsule_claims_def)

lemma execution_capsule_dict_eq: "execution_capsule_to_dict c = capsule.dict c"
  by (simp add: execution_capsule_to_dict_def capsule.dict_def)

text \<open>The arguments of \<open>create\<close> come as a record whose digest field is ignored.\<close>

definition execution_capsule_create ::
  "(string \<Rightarrow> string) \<Rightarrow> execution_capsule \<Rightarrow> execution_capsule res" where
  "execution_capsule_create H c =
     execution_capsule_init H (item (execution_capsule_to_dict
       (c\<lparr>cp_capsule_digest := claims_digest H (execution_capsule_claims c)\<rparr>)))"

subsection \<open>Activations of capsules\<close>

record capsule_activation =
  cx_execution_capsule_digest :: string
  cx_activation_generation :: int
  cx_enabled_environments :: "string list"
  cx_revoked :: bool
  cx_production_eligible :: bool
  cx_activation_digest :: string

definition capsule_activation_claims :: "capsule_activation \<Rightarrow> (string \<times> json) list" where
  "capsule_activation_claims c =
     [(''activation_type'', JStr ''execution-capsule-activation/v1''),
      (''execution_capsule_digest'', JStr (cx_execution_capsule_digest c)),
      (''activation_generation'', JInt (cx_activation_generation c)),
      (''enabled_environments'', JArr (map JStr (cx_enabled_environments c))),
      (''revoked'', JBool (cx_revoked c)),
      (''production_eligible'', JBool (cx_production_eligible c))]"

definition capsule_activation_init :: "(string \<Rightarrow> string) \<Rightarrow> capsule_activation \<Rightarrow> capsule_activation res" where
  "capsule_activation_init H c =
     thenE (check_digests
       [(''execution_capsule_digest'', cx_execution_capsule_digest c)])
    (thenE (guardE (1 \<le> cx_activation_generation c) (ValueError ''activation_generation''))
    (thenE (guardE (environments_ok (cx_enabled_environments c)) (ValueError ''enabled_environments''))
    (thenE (guardE (cx_production_eligible c \<longrightarrow> ''production'' \<in> set (cx_enabled_environments c))
       (ValueError ''production_eligible''))
    (thenE (check_digests
       [(''activation_digest'', cx_activation_digest c)])
    (thenE (guardE (cx_activation_digest c = claims_digest H (capsule_activation_claims c)) (ValueError ''activation_digest''))
      (Inr c))))))"

definition capsule_activation_ok :: "(string \<Rightarrow> string) \<Rightarrow> capsule_activation \<Rightarrow> bool" where
  "capsule_activation_ok H c \<longleftrightarrow>
     list_all digest_ok
        [cx_execution_capsule_digest c, cx_activation_digest c]
     \<and> 1 \<le> cx_activation_generation c
     \<and> environments_ok (cx_enabled_environments c)
     \<and> (cx_production_eligible c \<longrightarrow> ''production'' \<in> set (cx_enabled_environments c))
     \<and> cx_activation_digest c = claims_digest H (capsule_activation_claims c)"

lemma capsule_activation_init_iff: "capsule_activation_init H c = Inr c' \<longleftrightarrow> c' = c \<and> capsule_activation_ok H c"
  by (auto simp: capsule_activation_init_def capsule_activation_ok_def res_simps)

interpretation capsule_activation: content_digest H capsule_activation_claims cx_activation_digest "capsule_activation_ok H" for H
  by unfold_locales (simp_all add: flat_def capsule_activation_claims_def capsule_activation_ok_def)

definition capsule_activation_create ::
  "(string \<Rightarrow> string) \<Rightarrow> string \<Rightarrow> int \<Rightarrow> string list \<Rightarrow> bool \<Rightarrow> bool \<Rightarrow> capsule_activation res" where
  "capsule_activation_create H capsule_digest generation environments revoked production_eligible =
     (let c = \<lparr>cx_execution_capsule_digest = capsule_digest, cx_activation_generation = generation,
               cx_enabled_environments = sorted_unique environments, cx_revoked = revoked,
               cx_production_eligible = production_eligible, cx_activation_digest = []\<rparr>
      in capsule_activation_init H
           (c\<lparr>cx_activation_digest := claims_digest H (capsule_activation_claims c)\<rparr>))"

subsection \<open>Execution bindings\<close>

record execution_binding =
  eb_capability_definition_identity :: string
  eb_environment :: string
  eb_target_kind :: string
  eb_execution_capsule_digest :: string
  eb_runner_class :: string
  eb_authority_revision :: string
  eb_binding_digest :: string

definition execution_binding_claims :: "execution_binding \<Rightarrow> (string \<times> json) list" where
  "execution_binding_claims c =
     [(''schema_version'', JInt 1), (''binding_type'', JStr ''execution-binding/v1''),
      (''capability_definition_identity'', JStr (eb_capability_definition_identity c)),
      (''environment'', JStr (eb_environment c)), (''target_kind'', JStr (eb_target_kind c)),
      (''execution_capsule_digest'', JStr (eb_execution_capsule_digest c)),
      (''runner_class'', JStr (eb_runner_class c)),
      (''authority_revision'', JStr (eb_authority_revision c))]"

definition execution_binding_init :: "(string \<Rightarrow> string) \<Rightarrow> execution_binding \<Rightarrow> execution_binding res" where
  "execution_binding_init H c =
     thenE (check_digests
       [(''capability_definition_identity'', eb_capability_definition_identity c)])
    (thenE (check_texts
       [(''environment'', eb_environment c), (''target_kind'', eb_target_kind c),
        (''runner_class'', eb_runner_class c), (''authority_revision'', eb_authority_revision c)])
    (thenE (check_digests
       [(''execution_capsule_digest'', eb_execution_capsule_digest c),
        (''binding_digest'', eb_binding_digest c)])
    (thenE (guardE (eb_binding_digest c = claims_digest H (execution_binding_claims c)) (ValueError ''binding_digest''))
      (Inr c))))"

definition execution_binding_ok :: "(string \<Rightarrow> string) \<Rightarrow> execution_binding \<Rightarrow> bool" where
  "execution_binding_ok H c \<longleftrightarrow>
     list_all text_ok
        [eb_environment c, eb_target_kind c, eb_runner_class c, eb_authority_revision c]
     \<and> list_all digest_ok
        [eb_capability_definition_identity c, eb_execution_capsule_digest c, eb_binding_digest c]
     \<and> eb_binding_digest c = claims_digest H (execution_binding_claims c)"

lemma execution_binding_init_iff: "execution_binding_init H c = Inr c' \<longleftrightarrow> c' = c \<and> execution_binding_ok H c"
  by (auto simp: execution_binding_init_def execution_binding_ok_def res_simps)

interpretation binding: content_digest H execution_binding_claims eb_binding_digest "execution_binding_ok H" for H
  by unfold_locales (simp_all add: flat_def execution_binding_claims_def execution_binding_ok_def)

definition execution_binding_create ::
  "(string \<Rightarrow> string) \<Rightarrow> string \<Rightarrow> string \<Rightarrow> string \<Rightarrow> string \<Rightarrow> string \<Rightarrow> string \<Rightarrow> execution_binding res" where
  "execution_binding_create H definition_identity environment target_kind capsule_digest runner_class revision =
     (let c = \<lparr>eb_capability_definition_identity = definition_identity, eb_environment = environment,
               eb_target_kind = target_kind, eb_execution_capsule_digest = capsule_digest,
               eb_runner_class = runner_class, eb_authority_revision = revision, eb_binding_digest = []\<rparr>
      in execution_binding_init H
           (c\<lparr>eb_binding_digest := claims_digest H (execution_binding_claims c)\<rparr>))"

subsection \<open>The registry of capsules\<close>

record capsule_registry =
  cg_capabilities :: capability_registry
  cg_by_definition :: "string \<rightharpoonup> execution_capsule"
  cg_by_digest :: "string \<rightharpoonup> execution_capsule"
  cg_activations :: "string \<rightharpoonup> capsule_activation"

fun is_LookupError :: "py_error \<Rightarrow> bool" where
  "is_LookupError (LookupError _) = True"
| "is_LookupError _ = False"

text \<open>The two loops of \<open>ImmutableExecutionCapsuleRegistry.__init__\<close>.\<close>

fun add_capsules :: "execution_capsule list \<Rightarrow> capsule_registry \<Rightarrow> capsule_registry res" where
  "add_capsules [] reg = Inr reg"
| "add_capsules (c # cs) reg =
     bindE (catchE is_LookupError
        (definition_by_identity (cg_capabilities reg) (cp_capability_definition_identity c))
        (ValueError ''capsule references unknown capability definition'')) (\<lambda>d.
     thenE (guardE (cp_handler_id c = cd_handler_id d) (ValueError ''handler_id''))
    (thenE (guardE (cp_target_kind c = cd_target_kind d) (ValueError ''target_kind''))
    (thenE (guardE (cp_verification_class c = cd_verification_class d) (ValueError ''verification_class''))
    (thenE (guardE (cg_by_definition reg (cp_capability_definition_identity c) = None)
       (ValueError ''duplicate capsule for capability definition''))
    (thenE (guardE (cg_by_digest reg (cp_capsule_digest c) = None)
       (ValueError ''duplicate execution capsule digest''))
      (add_capsules cs
        (reg\<lparr>cg_by_definition := (cg_by_definition reg)(cp_capability_definition_identity c \<mapsto> c),
             cg_by_digest := (cg_by_digest reg)(cp_capsule_digest c \<mapsto> c)\<rparr>)))))))"

fun add_capsule_activations :: "capsule_activation list \<Rightarrow> capsule_registry \<Rightarrow> capsule_registry res" where
  "add_capsule_activations [] reg = Inr reg"
| "add_capsule_activations (a # as) reg =
     bindE (orRaise (cg_by_digest reg (cx_execution_capsule_digest a))
        (ValueError ''activation references unknown execution capsule'')) (\<lambda>c.
     thenE (guardE (cg_activations reg (cx_execution_capsule_digest a) = None)
       (ValueError ''duplicate activation for execution capsule''))
    (bindE (definition_by_identity (cg_capabilities reg) (cp_capability_definition_identity c)) (\<lambda>d.
     thenE (guardE (set (cx_enabled_environments a) \<subseteq> set (cd_supported_environments d))
       (ValueError ''capsule activation enables unsupported environment''))
    (thenE (guardE (\<not> (cx_production_eligible a \<and> \<not> cd_production_eligible d))
       (ValueError ''capsule cannot exceed capability production eligibility''))
      (add_capsule_activations as
        (reg\<lparr>cg_activations := (cg_activations reg)(cx_execution_capsule_digest a \<mapsto> a)\<rparr>))))))"

definition capsule_registry_init ::
  "capability_registry \<Rightarrow> execution_capsule list \<Rightarrow> capsule_activation list \<Rightarrow> capsule_registry res" where
  "capsule_registry_init capabilities capsules activations =
     bindE (add_capsules capsules
       \<lparr>cg_capabilities = capabilities, cg_by_definition = Map.empty, cg_by_digest = Map.empty,
        cg_activations = Map.empty\<rparr>) (\<lambda>reg.
     bindE (add_capsule_activations activations reg) (\<lambda>reg'.
     thenE (guardE (capsules \<noteq> []) (ValueError ''execution capsule registry requires at least one capsule''))
      (Inr reg')))"

definition capsule_for_definition :: "capsule_registry \<Rightarrow> string \<Rightarrow> execution_capsule res" where
  "capsule_for_definition reg identity =
     thenE (check_digests [(''definition_identity'', identity)])
      (orRaise (cg_by_definition reg identity) (LookupError ''execution capsule not found''))"

definition capsule_registry_activation :: "capsule_registry \<Rightarrow> string \<Rightarrow> capsule_activation res" where
  "capsule_registry_activation reg digest =
     thenE (check_digests [(''capsule_digest'', digest)])
      (orRaise (cg_activations reg digest) (PermissionError ''execution capsule is not activated''))"

definition resolve_for_binding ::
  "capsule_registry \<Rightarrow> string \<Rightarrow> string \<Rightarrow> string \<Rightarrow> (execution_capsule \<times> capsule_activation) res" where
  "resolve_for_binding reg definition_identity environment target_kind =
     thenE (guardE (environment \<in> set valid_environments) (ValueError ''environment''))
    (bindE (definition_by_identity (cg_capabilities reg) definition_identity) (\<lambda>d.
     bindE (registry_activation (cg_capabilities reg) definition_identity) (\<lambda>v.
     thenE (guardE (\<not> cv_revoked v) (PermissionError ''capability activation is revoked''))
    (thenE (guardE (environment \<in> set (cv_enabled_environments v))
       (PermissionError ''capability is not active in environment''))
    (thenE (guardE (environment \<in> set (cd_supported_environments d))
       (PermissionError ''capability does not support environment''))
    (thenE (guardE (\<not> (environment = ''production'' \<and> \<not> cd_production_eligible d))
       (PermissionError ''capability is not production eligible''))
    (bindE (capsule_for_definition reg definition_identity) (\<lambda>c.
     bindE (capsule_registry_activation reg (cp_capsule_digest c)) (\<lambda>a.
     thenE (guardE (\<not> cx_revoked a) (PermissionError ''execution capsule activation is revoked''))
    (thenE (guardE (environment \<in> set (cx_enabled_environments a))
       (PermissionError ''execution capsule is not active in environment''))
    (thenE (guardE (\<not> (environment = ''production'' \<and> \<not> cx_production_eligible a))
       (PermissionError ''execution capsule is not production eligible''))
    (thenE (guardE (target_kind = cd_target_kind d \<and> target_kind = cp_target_kind c)
       (PermissionError ''execution capsule target kind mismatch''))
      (Inr (c, a))))))))))))))"

text \<open>\<open>AuthoritativeExecutionBindingAuthority.resolve\<close>\<close>

definition resolve_binding ::
  "(string \<Rightarrow> string) \<Rightarrow> capsule_registry \<Rightarrow> string \<Rightarrow> string \<Rightarrow> string \<Rightarrow> string \<Rightarrow> execution_binding res" where
  "resolve_binding H reg authority_revision definition_identity environment target_kind =
     bindE (resolve_for_binding reg definition_identity environment target_kind) (\<lambda>(c, _).
       execution_binding_create H definition_identity environment target_kind
         (cp_capsule_digest c) (cp_runner_class c) authority_revision)"

subsection \<open>The invariant of the registry\<close>

definition capsule_registry_ok :: "capsule_registry \<Rightarrow> bool" where
  "capsule_registry_ok reg \<longleftrightarrow> registry_ok (cg_capabilities reg)
     \<and> (\<forall>k c. cg_by_definition reg k = Some c \<longrightarrow>
          cp_capability_definition_identity c = k \<and> cg_by_digest reg (cp_capsule_digest c) = Some c
          \<and> (\<exists>d. cy_by_identity (cg_capabilities reg) k = Some d \<and> cp_handler_id c = cd_handler_id d
               \<and> cp_target_kind c = cd_target_kind d \<and> cp_verification_class c = cd_verification_class d))
     \<and> (\<forall>k c. cg_by_digest reg k = Some c \<longrightarrow>
          cp_capsule_digest c = k \<and> cg_by_definition reg (cp_capability_definition_identity c) = Some c)
     \<and> (\<forall>k a. cg_activations reg k = Some a \<longrightarrow> cx_execution_capsule_digest a = k
          \<and> (\<exists>c d. cg_by_digest reg k = Some c
               \<and> cy_by_identity (cg_capabilities reg) (cp_capability_definition_identity c) = Some d
               \<and> set (cx_enabled_environments a) \<subseteq> set (cd_supported_environments d)
               \<and> (cx_production_eligible a \<longrightarrow> cd_production_eligible d)))"

lemma definition_by_identity_eq_Inr [res_simps]:
  "definition_by_identity reg k = Inr d \<longleftrightarrow> text_ok k \<and> cy_by_identity reg k = Some d"
  by (simp add: definition_by_identity_def res_simps)

lemma registry_activation_eq_Inr [res_simps]:
  "registry_activation reg k = Inr a \<longleftrightarrow> text_ok k \<and> cy_activations reg k = Some a"
  by (simp add: registry_activation_def res_simps)

lemma capsule_for_definition_eq_Inr [res_simps]:
  "capsule_for_definition reg k = Inr c \<longleftrightarrow> digest_ok k \<and> cg_by_definition reg k = Some c"
  by (simp add: capsule_for_definition_def res_simps)

lemma capsule_registry_activation_eq_Inr [res_simps]:
  "capsule_registry_activation reg k = Inr a \<longleftrightarrow> digest_ok k \<and> cg_activations reg k = Some a"
  by (simp add: capsule_registry_activation_def res_simps)

lemma add_capsules_ok:
  "add_capsules cs reg = Inr reg' \<Longrightarrow> capsule_registry_ok reg \<Longrightarrow> cg_activations reg = Map.empty \<Longrightarrow>
     capsule_registry_ok reg' \<and> cg_activations reg' = Map.empty"
proof (induction cs arbitrary: reg)
  case (Cons c cs)
  let ?reg = "reg\<lparr>cg_by_definition := (cg_by_definition reg)(cp_capability_definition_identity c \<mapsto> c),
                  cg_by_digest := (cg_by_digest reg)(cp_capsule_digest c \<mapsto> c)\<rparr>"
  obtain d where d: "cy_by_identity (cg_capabilities reg) (cp_capability_definition_identity c) = Some d"
      "cp_handler_id c = cd_handler_id d" "cp_target_kind c = cd_target_kind d"
      "cp_verification_class c = cd_verification_class d"
    and free: "cg_by_definition reg (cp_capability_definition_identity c) = None"
      "cg_by_digest reg (cp_capsule_digest c) = None"
    and rest: "add_capsules cs ?reg = Inr reg'"
    using Cons.prems(1) by (auto simp: res_simps)
  have "capsule_registry_ok ?reg"
    using Cons.prems(2,3) d free unfolding capsule_registry_ok_def by (simp split: if_splits) fastforce
  then show ?case using Cons.IH [OF rest] Cons.prems(3) by simp
qed simp

lemma add_capsule_activations_ok:
  "add_capsule_activations as reg = Inr reg' \<Longrightarrow> capsule_registry_ok reg \<Longrightarrow> capsule_registry_ok reg'"
proof (induction as arbitrary: reg)
  case (Cons a as)
  let ?reg = "reg\<lparr>cg_activations := (cg_activations reg)(cx_execution_capsule_digest a \<mapsto> a)\<rparr>"
  obtain c d where c: "cg_by_digest reg (cx_execution_capsule_digest a) = Some c"
      "cy_by_identity (cg_capabilities reg) (cp_capability_definition_identity c) = Some d"
      "set (cx_enabled_environments a) \<subseteq> set (cd_supported_environments d)"
      "cx_production_eligible a \<longrightarrow> cd_production_eligible d"
    and rest: "add_capsule_activations as ?reg = Inr reg'"
    using Cons.prems(1) by (auto simp: res_simps)
  have "capsule_registry_ok ?reg"
    using Cons.prems(2) c unfolding capsule_registry_ok_def by simp
  then show ?case using Cons.IH [OF rest] by blast
qed simp

lemma capsule_registry_init_ok:
  assumes "capsule_registry_init caps cs as = Inr reg" and "registry_ok caps"
  shows "capsule_registry_ok reg"
proof -
  let ?start = "\<lparr>cg_capabilities = caps, cg_by_definition = Map.empty, cg_by_digest = Map.empty,
    cg_activations = Map.empty\<rparr>"
  obtain reg1 where "add_capsules cs ?start = Inr reg1" and "add_capsule_activations as reg1 = Inr reg"
    using assms(1) by (auto simp: capsule_registry_init_def res_simps)
  moreover have "capsule_registry_ok ?start"
    using assms(2) by (simp add: capsule_registry_ok_def)
  ultimately show ?thesis using add_capsules_ok add_capsule_activations_ok by fastforce
qed

text \<open>What a resolution establishes: the capsule registered for the capability definition, both
  activations live and enabling the environment, production only when both are eligible.\<close>

lemma resolve_for_binding_eq_Inr:
  "resolve_for_binding reg i env tk = Inr (c, a) \<longleftrightarrow>
     env \<in> set valid_environments \<and> digest_ok i \<and> digest_ok (cp_capsule_digest c)
     \<and> (\<exists>d v. cy_by_identity (cg_capabilities reg) i = Some d
          \<and> cy_activations (cg_capabilities reg) i = Some v
          \<and> \<not> cv_revoked v \<and> env \<in> set (cv_enabled_environments v) \<and> env \<in> set (cd_supported_environments d)
          \<and> (env = ''production'' \<longrightarrow> cd_production_eligible d) \<and> tk = cd_target_kind d)
     \<and> cg_by_definition reg i = Some c \<and> cg_activations reg (cp_capsule_digest c) = Some a
     \<and> \<not> cx_revoked a \<and> env \<in> set (cx_enabled_environments a)
     \<and> (env = ''production'' \<longrightarrow> cx_production_eligible a) \<and> tk = cp_target_kind c"
  unfolding resolve_for_binding_def
  by (simp only: bindE_eq_Inr thenE_eq_Inr guardE_eq_Inr definition_by_identity_eq_Inr
      registry_activation_eq_Inr capsule_for_definition_eq_Inr capsule_registry_activation_eq_Inr
      sum.inject prod.inject) (use digest_ok_text in blast)

end
