(* ===== verification/Execution_Conformance.thy ===== *)
theory Execution_Conformance
  imports Execution_Capsule Execution_Grant
begin

text \<open>
  Execution conformance (\<open>execution_conformance.py\<close>): the evidence that one handler satisfies one
  capsule, the registry of such evidence, the witness that a grant conforms to the active
  contracts, and the authority that evaluates a grant.
\<close>

subsection \<open>The optional contract of an atomic provider condition\<close>

definition atomic_contract_check :: "string \<Rightarrow> json \<Rightarrow> unit res" where
  "atomic_contract_check cls v =
     (if cls = ''ATOMIC_PROVIDER_CONDITION''
      then bindE (require_digest ''atomic_provider_condition_contract_identity'' v) (\<lambda>_. Inr ())
      else guardE (v = JNull) (ValueError ''atomic_provider_condition_contract_identity''))"

definition atomic_contract_ok :: "string \<Rightarrow> string option \<Rightarrow> bool" where
  "atomic_contract_ok cls x \<longleftrightarrow>
     (if cls = ''ATOMIC_PROVIDER_CONDITION'' then x \<noteq> None \<and> digest_ok (the x) else x = None)"

lemma atomic_contract_check_iff [init_simps]:
  "atomic_contract_check cls v = Inr u \<longleftrightarrow> is_opt v \<and> atomic_contract_ok cls (opt_of v)"
  by (cases v) (auto simp: atomic_contract_check_def atomic_contract_ok_def res_simps)

lemma is_opt_opt_json [simp]: "is_opt (opt_json x)"
  by (cases x) auto

lemmas conformance_init_simps = init_res_simps atomic_contract_check_iff

subsection \<open>Evidence of handlers\<close>

record handler_evidence =
  he_capability_definition_identity :: string
  he_execution_capsule_digest :: string
  he_handler_id :: string
  he_handler_digest :: string
  he_runner_class :: string
  he_credential_class :: string
  he_precondition_enforcement_class :: string
  he_verification_contract_identity :: string
  he_atomic_provider_condition_contract_identity :: "string option"
  he_evidence_revision :: string
  he_evidence_digest :: string

definition handler_evidence_fields :: "string list" where
  "handler_evidence_fields =
     [''schema_version'', ''evidence_type'', ''capability_definition_identity'',
      ''execution_capsule_digest'', ''handler_id'', ''handler_digest'', ''runner_class'',
      ''credential_class'', ''precondition_enforcement_class'',
      ''verification_contract_identity'', ''atomic_provider_condition_contract_identity'',
      ''evidence_revision'', ''evidence_digest'']"

definition handler_evidence_claims :: "handler_evidence \<Rightarrow> (string \<times> json) list" where
  "handler_evidence_claims c =
     [(''schema_version'', JInt 1),
      (''evidence_type'', JStr ''handler-conformance-evidence/v1''),
      (''capability_definition_identity'', JStr (he_capability_definition_identity c)),
      (''execution_capsule_digest'', JStr (he_execution_capsule_digest c)),
      (''handler_id'', JStr (he_handler_id c)), (''handler_digest'', JStr (he_handler_digest c)),
      (''runner_class'', JStr (he_runner_class c)),
      (''credential_class'', JStr (he_credential_class c)),
      (''precondition_enforcement_class'', JStr (he_precondition_enforcement_class c)),
      (''verification_contract_identity'', JStr (he_verification_contract_identity c)),
      (''atomic_provider_condition_contract_identity'', opt_json (he_atomic_provider_condition_contract_identity c)),
      (''evidence_revision'', JStr (he_evidence_revision c))]"

definition handler_evidence_to_dict :: "handler_evidence \<Rightarrow> (string \<times> json) list" where
  "handler_evidence_to_dict c = handler_evidence_claims c @ [(''evidence_digest'', JStr (he_evidence_digest c))]"

definition handler_evidence_of :: "(string \<Rightarrow> json) \<Rightarrow> handler_evidence" where
  "handler_evidence_of d =
     \<lparr>he_capability_definition_identity = str_of (d ''capability_definition_identity''),
      he_execution_capsule_digest = str_of (d ''execution_capsule_digest''),
      he_handler_id = str_of (d ''handler_id''),
      he_handler_digest = str_of (d ''handler_digest''),
      he_runner_class = str_of (d ''runner_class''),
      he_credential_class = str_of (d ''credential_class''),
      he_precondition_enforcement_class = str_of (d ''precondition_enforcement_class''),
      he_verification_contract_identity = str_of (d ''verification_contract_identity''),
      he_atomic_provider_condition_contract_identity = opt_of (d ''atomic_provider_condition_contract_identity''),
      he_evidence_revision = str_of (d ''evidence_revision''),
      he_evidence_digest = str_of (d ''evidence_digest'')\<rparr>"

definition handler_evidence_init :: "(string \<Rightarrow> string) \<Rightarrow> (string \<Rightarrow> json) \<Rightarrow> handler_evidence res" where
  "handler_evidence_init H d =
     thenE (for_each (check_digest d)
       [''capability_definition_identity'', ''execution_capsule_digest'', ''handler_digest'',
        ''verification_contract_identity'', ''evidence_digest''])
    (thenE (for_each (check_text d)
       [''handler_id'', ''runner_class'', ''credential_class'', ''evidence_revision''])
    (bindE (require_in ''precondition_enforcement_class'' [''READ_THEN_COMPARE'', ''ATOMIC_PROVIDER_CONDITION'']
              (d ''precondition_enforcement_class'')) (\<lambda>cls.
     thenE (atomic_contract_check cls (d ''atomic_provider_condition_contract_identity''))
      ((let c = handler_evidence_of d in thenE (guardE (he_evidence_digest c = claims_digest H (handler_evidence_claims c))
        (ValueError ''evidence_digest'')) (Inr c))))))"

definition handler_evidence_ok :: "(string \<Rightarrow> string) \<Rightarrow> handler_evidence \<Rightarrow> bool" where
  "handler_evidence_ok H c \<longleftrightarrow>
     list_all text_ok
        [he_handler_id c, he_runner_class c, he_credential_class c, he_evidence_revision c]
     \<and> list_all digest_ok
        [he_capability_definition_identity c, he_execution_capsule_digest c, he_handler_digest c,
         he_verification_contract_identity c, he_evidence_digest c]
     \<and> he_precondition_enforcement_class c \<in> {''READ_THEN_COMPARE'', ''ATOMIC_PROVIDER_CONDITION''}
     \<and> atomic_contract_ok (he_precondition_enforcement_class c)
        (he_atomic_provider_condition_contract_identity c)
     \<and> he_evidence_digest c = claims_digest H (handler_evidence_claims c)"

definition handler_evidence_from_dict :: "(string \<Rightarrow> string) \<Rightarrow> json \<Rightarrow> handler_evidence res" where
  "handler_evidence_from_dict H =
     contract_from_dict 1 handler_evidence_fields ''evidence_type'' ''handler-conformance-evidence/v1'' (handler_evidence_init H)"

lemma handler_evidence_of_sel [simp]:
  "he_capability_definition_identity (handler_evidence_of d) = str_of (d ''capability_definition_identity'')"
  "he_execution_capsule_digest (handler_evidence_of d) = str_of (d ''execution_capsule_digest'')"
  "he_handler_id (handler_evidence_of d) = str_of (d ''handler_id'')"
  "he_handler_digest (handler_evidence_of d) = str_of (d ''handler_digest'')"
  "he_runner_class (handler_evidence_of d) = str_of (d ''runner_class'')"
  "he_credential_class (handler_evidence_of d) = str_of (d ''credential_class'')"
  "he_precondition_enforcement_class (handler_evidence_of d) = str_of (d ''precondition_enforcement_class'')"
  "he_verification_contract_identity (handler_evidence_of d) = str_of (d ''verification_contract_identity'')"
  "he_atomic_provider_condition_contract_identity (handler_evidence_of d) = opt_of (d ''atomic_provider_condition_contract_identity'')"
  "he_evidence_revision (handler_evidence_of d) = str_of (d ''evidence_revision'')"
  "he_evidence_digest (handler_evidence_of d) = str_of (d ''evidence_digest'')"
  by (simp_all add: handler_evidence_of_def)

lemma handler_evidence_claims_determine:
  "map snd (handler_evidence_claims c) = map snd (handler_evidence_claims c') \<Longrightarrow> he_evidence_digest c = he_evidence_digest c' \<Longrightarrow> c = c'"
  by (simp add: handler_evidence_claims_def)

lemma handler_evidence_init_iff:
  "handler_evidence_init H d = Inr c \<longleftrightarrow> handler_evidence_ok H c
     \<and> list_all (\<lambda>(f, v). d f = v) (drop 2 (handler_evidence_claims c) @ [(''evidence_digest'', JStr (he_evidence_digest c))])"
  (is "?L \<longleftrightarrow> _ \<and> ?D c")
proof
  assume L: ?L
  then have c: "c = handler_evidence_of d"
    unfolding handler_evidence_init_def Let_def conformance_init_simps by blast
  have "handler_evidence_ok H c" using L unfolding c handler_evidence_init_def handler_evidence_ok_def Let_def conformance_init_simps
    by (clarsimp simp: instant_at_def)
  moreover have "?D c" unfolding c
    by (simp add: handler_evidence_claims_def init_simps)
      (use L in \<open>clarsimp simp: handler_evidence_init_def Let_def conformance_init_simps\<close>)
  ultimately show "handler_evidence_ok H c \<and> ?D c" ..
next
  assume R: "handler_evidence_ok H c \<and> ?D c"
  then have c: "handler_evidence_of d = c" by (simp add: handler_evidence_of_def handler_evidence_claims_def)
  note d = R [THEN conjunct2, unfolded handler_evidence_claims_def]
  show ?L using R [THEN conjunct1] d unfolding handler_evidence_init_def c Let_def
    by (clarsimp simp: handler_evidence_ok_def conformance_init_simps instant_at_def)
qed

interpretation evidence: content_bound H handler_evidence_claims he_evidence_digest "handler_evidence_ok H" 1 handler_evidence_fields
  "''evidence_type''" "''handler-conformance-evidence/v1''" "''evidence_digest''" "handler_evidence_init H" for H
proof
  show "flat (handler_evidence_claims c)" for c by (simp add: flat_def handler_evidence_claims_def)
  show "map fst (handler_evidence_claims c) = map fst (handler_evidence_claims c')" for c c' by (simp add: handler_evidence_claims_def)
  show "handler_evidence_fields = map fst (handler_evidence_claims c) @ [''evidence_digest'']" for c
    by (simp add: handler_evidence_fields_def handler_evidence_claims_def)
  show "''evidence_digest'' \<notin> fst ` set (handler_evidence_claims c)" for c by (simp add: handler_evidence_claims_def)
  show "take 2 (handler_evidence_claims c) = [(''schema_version'', JInt 1), (''evidence_type'', JStr ''handler-conformance-evidence/v1'')]" for c
    by (simp add: handler_evidence_claims_def)
  show "handler_evidence_ok H c \<Longrightarrow> he_evidence_digest c = claims_digest H (handler_evidence_claims c)" for c
    by (simp add: handler_evidence_ok_def)
qed (rule handler_evidence_claims_determine handler_evidence_init_iff; assumption?)+

lemma handler_evidence_claims_seal [simp]: "handler_evidence_claims (c\<lparr>he_evidence_digest := x\<rparr>) = handler_evidence_claims c"
  by (simp add: handler_evidence_claims_def)

lemma handler_evidence_dict_eq: "handler_evidence_to_dict c = evidence.dict c"
  by (simp add: handler_evidence_to_dict_def evidence.dict_def)

text \<open>The arguments of \<open>create\<close> come as a record whose digest field is ignored.\<close>

definition handler_evidence_create ::
  "(string \<Rightarrow> string) \<Rightarrow> handler_evidence \<Rightarrow> handler_evidence res" where
  "handler_evidence_create H c =
     handler_evidence_init H (item (handler_evidence_to_dict
       (c\<lparr>he_evidence_digest := claims_digest H (handler_evidence_claims c)\<rparr>)))"

subsection \<open>The registry of evidence\<close>

record handler_registry =
  hg_capsules :: capsule_registry
  hg_by_capsule :: "string \<rightharpoonup> handler_evidence"

definition exact_capsule_binding :: "handler_evidence \<Rightarrow> execution_capsule \<Rightarrow> unit res" where
  "exact_capsule_binding e c =
     thenE (guardE
       ((he_capability_definition_identity e, he_execution_capsule_digest e, he_handler_id e,
         he_handler_digest e, he_runner_class e, he_credential_class e,
         he_precondition_enforcement_class e, he_verification_contract_identity e) =
        (cp_capability_definition_identity c, cp_capsule_digest c, cp_handler_id c,
         cp_handler_digest c, cp_runner_class c, cp_credential_class c,
         cp_precondition_enforcement_class c, cp_verification_contract_identity c))
       (ValueError ''handler conformance evidence does not match capsule''))
    (thenE (guardE (\<not> (cp_precondition_enforcement_class c = ''ATOMIC_PROVIDER_CONDITION''
          \<and> he_atomic_provider_condition_contract_identity e = None))
       (ValueError ''atomic provider condition requires a handler contract''))
      (guardE (\<not> (cp_precondition_enforcement_class c = ''READ_THEN_COMPARE''
          \<and> he_atomic_provider_condition_contract_identity e \<noteq> None))
       (ValueError ''read-then-compare handler evidence cannot claim atomic enforcement'')))"

fun add_evidence :: "handler_evidence list \<Rightarrow> handler_registry \<Rightarrow> handler_registry res" where
  "add_evidence [] reg = Inr reg"
| "add_evidence (e # es) reg =
     bindE (catchE is_LookupError
        (capsule_for_definition (hg_capsules reg) (he_capability_definition_identity e))
        (ValueError ''handler evidence references unknown capability definition'')) (\<lambda>c.
     thenE (exact_capsule_binding e c)
    (thenE (guardE (hg_by_capsule reg (he_execution_capsule_digest e) = None)
       (ValueError ''duplicate handler conformance evidence for capsule''))
      (add_evidence es
        (reg\<lparr>hg_by_capsule := (hg_by_capsule reg)(he_execution_capsule_digest e \<mapsto> e)\<rparr>))))"

definition handler_registry_init :: "capsule_registry \<Rightarrow> handler_evidence list \<Rightarrow> handler_registry res" where
  "handler_registry_init capsules evidence =
     bindE (add_evidence evidence \<lparr>hg_capsules = capsules, hg_by_capsule = Map.empty\<rparr>) (\<lambda>reg.
     thenE (guardE (evidence \<noteq> []) (ValueError ''handler conformance registry requires at least one evidence''))
      (Inr reg))"

definition resolve_evidence :: "handler_registry \<Rightarrow> string \<Rightarrow> handler_evidence res" where
  "resolve_evidence reg capsule_digest =
     thenE (check_digests [(''capsule_digest'', capsule_digest)])
      (orRaise (hg_by_capsule reg capsule_digest)
        (PermissionError ''handler conformance evidence is not registered for capsule''))"

subsection \<open>Conformance witnesses\<close>

record conformance_witness =
  cw_grant_digest :: string
  cw_execution_binding_digest :: string
  cw_execution_capsule_digest :: string
  cw_capability_definition_identity :: string
  cw_capability_activation_digest :: string
  cw_capsule_activation_digest :: string
  cw_handler_conformance_evidence_digest :: string
  cw_target_kind :: string
  cw_runner_class :: string
  cw_handler_id :: string
  cw_handler_digest :: string
  cw_credential_class :: string
  cw_precondition_enforcement_class :: string
  cw_verification_contract_identity :: string
  cw_atomic_provider_condition_contract_identity :: "string option"
  cw_conformance_authority_revision :: string
  cw_witness_digest :: string

definition conformance_witness_fields :: "string list" where
  "conformance_witness_fields =
     [''schema_version'', ''witness_type'', ''grant_digest'', ''execution_binding_digest'',
      ''execution_capsule_digest'', ''capability_definition_identity'',
      ''capability_activation_digest'', ''capsule_activation_digest'',
      ''handler_conformance_evidence_digest'', ''target_kind'', ''runner_class'', ''handler_id'',
      ''handler_digest'', ''credential_class'', ''precondition_enforcement_class'',
      ''verification_contract_identity'', ''atomic_provider_condition_contract_identity'',
      ''conformance_authority_revision'', ''witness_digest'']"

definition conformance_witness_claims :: "conformance_witness \<Rightarrow> (string \<times> json) list" where
  "conformance_witness_claims c =
     [(''schema_version'', JInt 1),
      (''witness_type'', JStr ''execution-conformance-witness/v1''),
      (''grant_digest'', JStr (cw_grant_digest c)),
      (''execution_binding_digest'', JStr (cw_execution_binding_digest c)),
      (''execution_capsule_digest'', JStr (cw_execution_capsule_digest c)),
      (''capability_definition_identity'', JStr (cw_capability_definition_identity c)),
      (''capability_activation_digest'', JStr (cw_capability_activation_digest c)),
      (''capsule_activation_digest'', JStr (cw_capsule_activation_digest c)),
      (''handler_conformance_evidence_digest'', JStr (cw_handler_conformance_evidence_digest c)),
      (''target_kind'', JStr (cw_target_kind c)), (''runner_class'', JStr (cw_runner_class c)),
      (''handler_id'', JStr (cw_handler_id c)), (''handler_digest'', JStr (cw_handler_digest c)),
      (''credential_class'', JStr (cw_credential_class c)),
      (''precondition_enforcement_class'', JStr (cw_precondition_enforcement_class c)),
      (''verification_contract_identity'', JStr (cw_verification_contract_identity c)),
      (''atomic_provider_condition_contract_identity'', opt_json (cw_atomic_provider_condition_contract_identity c)),
      (''conformance_authority_revision'', JStr (cw_conformance_authority_revision c))]"

definition conformance_witness_to_dict :: "conformance_witness \<Rightarrow> (string \<times> json) list" where
  "conformance_witness_to_dict c = conformance_witness_claims c @ [(''witness_digest'', JStr (cw_witness_digest c))]"

definition conformance_witness_of :: "(string \<Rightarrow> json) \<Rightarrow> conformance_witness" where
  "conformance_witness_of d =
     \<lparr>cw_grant_digest = str_of (d ''grant_digest''),
      cw_execution_binding_digest = str_of (d ''execution_binding_digest''),
      cw_execution_capsule_digest = str_of (d ''execution_capsule_digest''),
      cw_capability_definition_identity = str_of (d ''capability_definition_identity''),
      cw_capability_activation_digest = str_of (d ''capability_activation_digest''),
      cw_capsule_activation_digest = str_of (d ''capsule_activation_digest''),
      cw_handler_conformance_evidence_digest = str_of (d ''handler_conformance_evidence_digest''),
      cw_target_kind = str_of (d ''target_kind''), cw_runner_class = str_of (d ''runner_class''),
      cw_handler_id = str_of (d ''handler_id''),
      cw_handler_digest = str_of (d ''handler_digest''),
      cw_credential_class = str_of (d ''credential_class''),
      cw_precondition_enforcement_class = str_of (d ''precondition_enforcement_class''),
      cw_verification_contract_identity = str_of (d ''verification_contract_identity''),
      cw_atomic_provider_condition_contract_identity = opt_of (d ''atomic_provider_condition_contract_identity''),
      cw_conformance_authority_revision = str_of (d ''conformance_authority_revision''),
      cw_witness_digest = str_of (d ''witness_digest'')\<rparr>"

definition conformance_witness_init :: "(string \<Rightarrow> string) \<Rightarrow> (string \<Rightarrow> json) \<Rightarrow> conformance_witness res" where
  "conformance_witness_init H d =
     thenE (for_each (check_digest d)
       [''grant_digest'', ''execution_binding_digest'', ''execution_capsule_digest'',
        ''capability_definition_identity'', ''capability_activation_digest'',
        ''capsule_activation_digest'', ''handler_conformance_evidence_digest'',
        ''handler_digest'', ''verification_contract_identity'', ''witness_digest''])
    (thenE (for_each (check_text d)
       [''target_kind'', ''runner_class'', ''handler_id'', ''credential_class'',
        ''conformance_authority_revision''])
    (bindE (require_in ''precondition_enforcement_class'' [''READ_THEN_COMPARE'', ''ATOMIC_PROVIDER_CONDITION'']
              (d ''precondition_enforcement_class'')) (\<lambda>cls.
     thenE (atomic_contract_check cls (d ''atomic_provider_condition_contract_identity''))
      ((let c = conformance_witness_of d in thenE (guardE (cw_witness_digest c = claims_digest H (conformance_witness_claims c))
        (ValueError ''witness_digest'')) (Inr c))))))"

definition conformance_witness_ok :: "(string \<Rightarrow> string) \<Rightarrow> conformance_witness \<Rightarrow> bool" where
  "conformance_witness_ok H c \<longleftrightarrow>
     list_all text_ok
        [cw_target_kind c, cw_runner_class c, cw_handler_id c, cw_credential_class c,
         cw_conformance_authority_revision c]
     \<and> list_all digest_ok
        [cw_grant_digest c, cw_execution_binding_digest c, cw_execution_capsule_digest c,
         cw_capability_definition_identity c, cw_capability_activation_digest c,
         cw_capsule_activation_digest c, cw_handler_conformance_evidence_digest c,
         cw_handler_digest c, cw_verification_contract_identity c, cw_witness_digest c]
     \<and> cw_precondition_enforcement_class c \<in> {''READ_THEN_COMPARE'', ''ATOMIC_PROVIDER_CONDITION''}
     \<and> atomic_contract_ok (cw_precondition_enforcement_class c)
        (cw_atomic_provider_condition_contract_identity c)
     \<and> cw_witness_digest c = claims_digest H (conformance_witness_claims c)"

definition conformance_witness_from_dict :: "(string \<Rightarrow> string) \<Rightarrow> json \<Rightarrow> conformance_witness res" where
  "conformance_witness_from_dict H =
     contract_from_dict 1 conformance_witness_fields ''witness_type'' ''execution-conformance-witness/v1'' (conformance_witness_init H)"

lemma conformance_witness_of_sel [simp]:
  "cw_grant_digest (conformance_witness_of d) = str_of (d ''grant_digest'')"
  "cw_execution_binding_digest (conformance_witness_of d) = str_of (d ''execution_binding_digest'')"
  "cw_execution_capsule_digest (conformance_witness_of d) = str_of (d ''execution_capsule_digest'')"
  "cw_capability_definition_identity (conformance_witness_of d) = str_of (d ''capability_definition_identity'')"
  "cw_capability_activation_digest (conformance_witness_of d) = str_of (d ''capability_activation_digest'')"
  "cw_capsule_activation_digest (conformance_witness_of d) = str_of (d ''capsule_activation_digest'')"
  "cw_handler_conformance_evidence_digest (conformance_witness_of d) = str_of (d ''handler_conformance_evidence_digest'')"
  "cw_target_kind (conformance_witness_of d) = str_of (d ''target_kind'')"
  "cw_runner_class (conformance_witness_of d) = str_of (d ''runner_class'')"
  "cw_handler_id (conformance_witness_of d) = str_of (d ''handler_id'')"
  "cw_handler_digest (conformance_witness_of d) = str_of (d ''handler_digest'')"
  "cw_credential_class (conformance_witness_of d) = str_of (d ''credential_class'')"
  "cw_precondition_enforcement_class (conformance_witness_of d) = str_of (d ''precondition_enforcement_class'')"
  "cw_verification_contract_identity (conformance_witness_of d) = str_of (d ''verification_contract_identity'')"
  "cw_atomic_provider_condition_contract_identity (conformance_witness_of d) = opt_of (d ''atomic_provider_condition_contract_identity'')"
  "cw_conformance_authority_revision (conformance_witness_of d) = str_of (d ''conformance_authority_revision'')"
  "cw_witness_digest (conformance_witness_of d) = str_of (d ''witness_digest'')"
  by (simp_all add: conformance_witness_of_def)

lemma conformance_witness_claims_determine:
  "map snd (conformance_witness_claims c) = map snd (conformance_witness_claims c') \<Longrightarrow> cw_witness_digest c = cw_witness_digest c' \<Longrightarrow> c = c'"
  by (simp add: conformance_witness_claims_def)

lemma conformance_witness_init_iff:
  "conformance_witness_init H d = Inr c \<longleftrightarrow> conformance_witness_ok H c
     \<and> list_all (\<lambda>(f, v). d f = v) (drop 2 (conformance_witness_claims c) @ [(''witness_digest'', JStr (cw_witness_digest c))])"
  (is "?L \<longleftrightarrow> _ \<and> ?D c")
proof
  assume L: ?L
  then have c: "c = conformance_witness_of d"
    unfolding conformance_witness_init_def Let_def conformance_init_simps by blast
  have "conformance_witness_ok H c" using L unfolding c conformance_witness_init_def conformance_witness_ok_def Let_def conformance_init_simps
    by (clarsimp simp: instant_at_def)
  moreover have "?D c" unfolding c
    by (simp add: conformance_witness_claims_def init_simps)
      (use L in \<open>clarsimp simp: conformance_witness_init_def Let_def conformance_init_simps\<close>)
  ultimately show "conformance_witness_ok H c \<and> ?D c" ..
next
  assume R: "conformance_witness_ok H c \<and> ?D c"
  then have c: "conformance_witness_of d = c" by (simp add: conformance_witness_of_def conformance_witness_claims_def)
  note d = R [THEN conjunct2, unfolded conformance_witness_claims_def]
  show ?L using R [THEN conjunct1] d unfolding conformance_witness_init_def c Let_def
    by (clarsimp simp: conformance_witness_ok_def conformance_init_simps instant_at_def)
qed

interpretation conformance: content_bound H conformance_witness_claims cw_witness_digest "conformance_witness_ok H" 1 conformance_witness_fields
  "''witness_type''" "''execution-conformance-witness/v1''" "''witness_digest''" "conformance_witness_init H" for H
proof
  show "flat (conformance_witness_claims c)" for c by (simp add: flat_def conformance_witness_claims_def)
  show "map fst (conformance_witness_claims c) = map fst (conformance_witness_claims c')" for c c' by (simp add: conformance_witness_claims_def)
  show "conformance_witness_fields = map fst (conformance_witness_claims c) @ [''witness_digest'']" for c
    by (simp add: conformance_witness_fields_def conformance_witness_claims_def)
  show "''witness_digest'' \<notin> fst ` set (conformance_witness_claims c)" for c by (simp add: conformance_witness_claims_def)
  show "take 2 (conformance_witness_claims c) = [(''schema_version'', JInt 1), (''witness_type'', JStr ''execution-conformance-witness/v1'')]" for c
    by (simp add: conformance_witness_claims_def)
  show "conformance_witness_ok H c \<Longrightarrow> cw_witness_digest c = claims_digest H (conformance_witness_claims c)" for c
    by (simp add: conformance_witness_ok_def)
qed (rule conformance_witness_claims_determine conformance_witness_init_iff; assumption?)+

lemma conformance_witness_claims_seal [simp]: "conformance_witness_claims (c\<lparr>cw_witness_digest := x\<rparr>) = conformance_witness_claims c"
  by (simp add: conformance_witness_claims_def)

lemma conformance_witness_dict_eq: "conformance_witness_to_dict c = conformance.dict c"
  by (simp add: conformance_witness_to_dict_def conformance.dict_def)

definition conformance_witness_create ::
  "(string \<Rightarrow> string) \<Rightarrow> execution_grant \<Rightarrow> string \<Rightarrow> string \<Rightarrow> execution_capsule \<Rightarrow> handler_evidence \<Rightarrow> string
     \<Rightarrow> conformance_witness res" where
  "conformance_witness_create H grant capability_activation_digest capsule_activation_digest c e revision =
     (let w = \<lparr>cw_grant_digest = gr_grant_digest grant,
               cw_execution_binding_digest = gr_execution_binding_digest grant,
               cw_execution_capsule_digest = cp_capsule_digest c,
               cw_capability_definition_identity = cp_capability_definition_identity c,
               cw_capability_activation_digest = capability_activation_digest,
               cw_capsule_activation_digest = capsule_activation_digest,
               cw_handler_conformance_evidence_digest = he_evidence_digest e,
               cw_target_kind = cp_target_kind c, cw_runner_class = cp_runner_class c,
               cw_handler_id = cp_handler_id c, cw_handler_digest = cp_handler_digest c,
               cw_credential_class = cp_credential_class c,
               cw_precondition_enforcement_class = cp_precondition_enforcement_class c,
               cw_verification_contract_identity = cp_verification_contract_identity c,
               cw_atomic_provider_condition_contract_identity = he_atomic_provider_condition_contract_identity e,
               cw_conformance_authority_revision = revision, cw_witness_digest = []\<rparr>
      in conformance_witness_init H (item (conformance_witness_to_dict
           (w\<lparr>cw_witness_digest := claims_digest H (conformance_witness_claims w)\<rparr>))))"

subsection \<open>Evaluation of a grant\<close>

text \<open>\<open>ExecutionConformanceAuthority\<close>; its two registries share the capsule registry.\<close>

record conformance_authority =
  cf_handlers :: handler_registry
  cf_authority_revision :: string

definition conformance_authority_init :: "handler_registry \<Rightarrow> string \<Rightarrow> conformance_authority res" where
  "conformance_authority_init handlers authority_revision =
     thenE (check_texts [(''authority_revision'', authority_revision)])
      (Inr \<lparr>cf_handlers = handlers, cf_authority_revision = authority_revision\<rparr>)"

text \<open>\<open>except (LookupError, PermissionError, ValueError)\<close>\<close>

fun is_resolution_error :: "py_error \<Rightarrow> bool" where
  "is_resolution_error (LookupError _) = True"
| "is_resolution_error (PermissionError _) = True"
| "is_resolution_error (ValueError _) = True"
| "is_resolution_error _ = False"

definition evaluate ::
  "(string \<Rightarrow> string) \<Rightarrow> conformance_authority \<Rightarrow> execution_grant \<Rightarrow> conformance_witness res" where
  "evaluate H auth grant =
     (let capsules = hg_capsules (cf_handlers auth) in
     bindE (catchE is_resolution_error
       (bindE (resolve_for_binding capsules (gr_capability_definition_identity grant)
                 (gr_environment grant) (gr_target_kind grant)) (\<lambda>(c, a).
        bindE (registry_activation (cg_capabilities capsules) (gr_capability_definition_identity grant)) (\<lambda>v.
        Inr (c, a, v))))
       (PermissionError ''CAPSULE_NOT_EXECUTION_ELIGIBLE'')) (\<lambda>(c, a, v).
     thenE (guardE
       ((gr_execution_capsule_digest grant, gr_capability_definition_identity grant, gr_target_kind grant,
         gr_runner_class grant, gr_precondition_enforcement_class grant) =
        (cp_capsule_digest c, cp_capability_definition_identity c, cp_target_kind c,
         cp_runner_class c, cp_precondition_enforcement_class c))
       (PermissionError ''GRANT_CAPSULE_BINDING_MISMATCH''))
    (bindE (catchE is_PermissionError (resolve_evidence (cf_handlers auth) (cp_capsule_digest c))
       (PermissionError ''HANDLER_CONFORMANCE_EVIDENCE_MISSING'')) (\<lambda>e.
     thenE (guardE (\<not> (cp_precondition_enforcement_class c = ''ATOMIC_PROVIDER_CONDITION''
          \<and> he_atomic_provider_condition_contract_identity e = None))
       (PermissionError ''ATOMIC_PROVIDER_CONDITION_CONTRACT_MISSING''))
      (conformance_witness_create H grant (cv_activation_digest v) (cx_activation_digest a) c e
         (cf_authority_revision auth))))))"

end
