(* ===== verification/Evidence_Chain.thy ===== *)
theory Evidence_Chain
  imports Contracts
begin

text \<open>
  The two hash-chained ledgers: \<open>chained_hash\<close> of
  \<open>src/voodoo_product/evidence_primitives.py\<close>, \<open>AuditLedger\<close> of
  \<open>src/voodoo_product/audit.py\<close> and \<open>ReceiptLedger\<close> of
  \<open>src/voodoo_product/receipt.py\<close>.  A ledger is the list of rows of its table; a query
  \<open>ORDER BY sequence\<close> sorts it.  The identifier and the time that \<open>append\<close> obtains
  from \<open>new_id\<close> and \<open>utc_now\<close> are arguments.

  The locale \<open>hash_chain\<close> states what one pass of a verification loop checks of a row and
  proves once that two chains of the same length with the same head have the same content, that
  a chain can be extended, and that every prefix of a chain is a chain; both ledgers interpret it.
\<close>

definition chained_hash :: "(string \<Rightarrow> string) \<Rightarrow> string \<Rightarrow> json \<Rightarrow> string" where
  "chained_hash H previous_hash payload = H (previous_hash @ CHR 0x0A # canonical_json payload)"

definition genesis :: string where
  "genesis = ''GENESIS''"

text \<open>\<open>{"valid": True, "count": ..., "head": ...}\<close> or the first broken row.  The audit
  ledger reports the sequence and id of the row; the receipt ledger also the row count and the
  expected sequence.\<close>

datatype verify_result =
    Valid nat string
  | Broken int string
  | BrokenReceipt nat nat int string

subsection \<open>Audit ledger\<close>

record audit_row =
  a_sequence :: int
  a_id :: string
  a_actor_id :: string
  a_action :: string
  a_target_type :: string
  a_target_id :: string
  a_payload_json :: string
  a_previous_hash :: string
  a_event_hash :: string
  a_created_at :: string

definition audit_event ::
  "string \<Rightarrow> string \<Rightarrow> string \<Rightarrow> string \<Rightarrow> string \<Rightarrow> json \<Rightarrow> string \<Rightarrow> json" where
  "audit_event id' actor action ttype tid payload created =
     JObj [(''id'', JStr id'), (''actor_id'', JStr actor), (''action'', JStr action),
           (''target_type'', JStr ttype), (''target_id'', JStr tid), (''payload'', payload),
           (''created_at'', JStr created)]"

definition last_hash :: "('r \<Rightarrow> int) \<Rightarrow> ('r \<Rightarrow> string) \<Rightarrow> 'r list \<Rightarrow> string" where
  "last_hash seq hash rows = (if rows = [] then genesis else hash (last (sort_key seq rows)))"

text \<open>\<open>INTEGER PRIMARY KEY AUTOINCREMENT\<close>; ledger rows are never deleted.\<close>

definition next_sequence :: "('r \<Rightarrow> int) \<Rightarrow> 'r list \<Rightarrow> int" where
  "next_sequence seq rows = 1 + fold max (map seq rows) 0"

definition audit_append ::
  "(string \<Rightarrow> string) \<Rightarrow> string \<Rightarrow> string \<Rightarrow> audit_row list \<Rightarrow> string \<Rightarrow> string \<Rightarrow> string \<Rightarrow> string
     \<Rightarrow> json \<Rightarrow> audit_row list res" where
  "audit_append H new_id utc_now rows actor action ttype tid payload =
     (let previous_hash = last_hash a_sequence a_event_hash rows;
          event = audit_event new_id actor action ttype tid payload utc_now;
          event_hash = chained_hash H previous_hash event;
          row = \<lparr>a_sequence = next_sequence a_sequence rows, a_id = new_id, a_actor_id = actor,
                 a_action = action, a_target_type = ttype, a_target_id = tid,
                 a_payload_json = canonical_json payload, a_previous_hash = previous_hash,
                 a_event_hash = event_hash, a_created_at = utc_now\<rparr>
      in if key_free a_id new_id rows \<and> key_free a_event_hash event_hash rows
         then Inr (rows @ [row]) else Inl IntegrityError)"

text \<open>One pass of the loop of \<open>AuditLedger.verify\<close> per row; \<open>n\<close> is \<open>len(rows)\<close>.\<close>

fun audit_verify_loop ::
  "(string \<Rightarrow> string) \<Rightarrow> nat \<Rightarrow> string \<Rightarrow> audit_row list \<Rightarrow> verify_result res" where
  "audit_verify_loop H n previous_hash [] = Inr (Valid n previous_hash)"
| "audit_verify_loop H n previous_hash (row # rows) =
     bindE (orRaise (json_loads (a_payload_json row)) (ValueError ''payload_json'')) (\<lambda>payload.
       let expected = chained_hash H previous_hash
             (audit_event (a_id row) (a_actor_id row) (a_action row) (a_target_type row)
                (a_target_id row) payload (a_created_at row))
       in if a_previous_hash row \<noteq> previous_hash \<or> a_event_hash row \<noteq> expected
          then Inr (Broken (a_sequence row) (a_id row))
          else audit_verify_loop H n (a_event_hash row) rows)"

definition audit_verify :: "(string \<Rightarrow> string) \<Rightarrow> audit_row list \<Rightarrow> verify_result res" where
  "audit_verify H rows =
     audit_verify_loop H (length rows) genesis (sort_key a_sequence rows)"

subsection \<open>Receipt ledger\<close>

record receipt_row =
  r_sequence :: int
  r_id :: string
  r_execution_id :: string
  r_payload_json :: string
  r_previous_hash :: string
  r_receipt_hash :: string
  r_created_at :: string

text \<open>The columns \<open>id\<close>, \<open>execution_id\<close> and \<open>receipt_hash\<close> are unique.\<close>

definition receipt_append ::
  "(string \<Rightarrow> string) \<Rightarrow> string \<Rightarrow> string \<Rightarrow> receipt_row list \<Rightarrow> string \<Rightarrow> json
     \<Rightarrow> receipt_row list res" where
  "receipt_append H new_id utc_now rows execution_id payload =
     (let previous_hash = last_hash r_sequence r_receipt_hash rows;
          receipt_hash = chained_hash H previous_hash payload;
          row = \<lparr>r_sequence = next_sequence r_sequence rows, r_id = new_id,
                 r_execution_id = execution_id, r_payload_json = canonical_json payload,
                 r_previous_hash = previous_hash, r_receipt_hash = receipt_hash,
                 r_created_at = utc_now\<rparr>
      in if key_free r_id new_id rows \<and> key_free r_execution_id execution_id rows
            \<and> key_free r_receipt_hash receipt_hash rows
         then Inr (rows @ [row]) else Inl IntegrityError)"

fun receipt_verify_loop ::
  "(string \<Rightarrow> string) \<Rightarrow> nat \<Rightarrow> nat \<Rightarrow> string \<Rightarrow> receipt_row list \<Rightarrow> verify_result res" where
  "receipt_verify_loop H n expected_sequence previous_hash [] = Inr (Valid n previous_hash)"
| "receipt_verify_loop H n expected_sequence previous_hash (row # rows) =
     bindE (orRaise (json_loads (r_payload_json row)) (ValueError ''payload_json'')) (\<lambda>payload.
       let expected = chained_hash H previous_hash payload
       in if r_sequence row \<noteq> int expected_sequence \<or> r_previous_hash row \<noteq> previous_hash
             \<or> r_receipt_hash row \<noteq> expected
          then Inr (BrokenReceipt n expected_sequence (r_sequence row) (r_id row))
          else receipt_verify_loop H n (Suc expected_sequence) (r_receipt_hash row) rows)"

definition receipt_verify :: "(string \<Rightarrow> string) \<Rightarrow> receipt_row list \<Rightarrow> verify_result res" where
  "receipt_verify H rows =
     receipt_verify_loop H (length rows) 1 genesis (sort_key r_sequence rows)"

subsection \<open>Canonical text has no line break\<close>

lemma no_newline_escape: "CHR 0x0A \<notin> set (json_escape c)"
proof -
  have "code (hex_digit n) \<noteq> code (CHR 0x0A)" if "n < 16" for n
    using that by (simp add: hex_digit_def)
  then have hex: "hex_digit n \<noteq> CHR 0x0A" if "n < 16" for n using that by metis
  have "code c div 16 < 16" using code_less [of c] by linarith
  from hex [OF this] hex [of "code c mod 16"] show ?thesis
    by (auto simp: json_escape_def)
qed

lemma no_newline_quote: "CHR 0x0A \<notin> set (json_quote s)"
  using no_newline_escape by (auto simp: json_quote_def)

lemma no_newline_join: "(\<And>x. x \<in> set xs \<Longrightarrow> CHR 0x0A \<notin> set x) \<Longrightarrow> CHR 0x0A \<notin> set (join xs)"
  by (induction xs rule: join.induct) auto

lemma no_newline_show_int: "CHR 0x0A \<notin> set (show_int i)"
proof -
  have "\<forall>c \<in> set (show_nat n). c \<noteq> CHR 0x0A" for n
    using show_nat_digits [of n] by (auto simp: list_all_iff is_digit_def)
  then show ?thesis by (auto simp: show_int_def)
qed

lemma no_newline_print: "CHR 0x0A \<notin> set (json_print v)"
proof (induction v)
  case (JArr vs)
  then show ?case using no_newline_join [of "map json_print vs"] by auto
next
  case (JObj kvs)
  have "CHR 0x0A \<notin> set (print_member (map_prod id json_print kv))" if "kv \<in> set kvs" for kv
  proof -
    obtain k w where kv: "kv = (k, w)" by (cases kv)
    then show ?thesis
      using that JObj [of "(k, w)" w] no_newline_quote by (simp add: print_member_def)
  qed
  then have "CHR 0x0A \<notin> set (join (map print_member (map (map_prod id json_print) kvs)))"
    by (intro no_newline_join) auto
  then show ?case by simp
qed (use no_newline_quote no_newline_show_int in auto)

lemma split_newline:
  assumes "a @ CHR 0x0A # x = b @ CHR 0x0A # y" and "CHR 0x0A \<notin> set x" and "CHR 0x0A \<notin> set y"
  shows "a = b \<and> x = y"
proof -
  from assms(1) obtain us where
    "a = b @ us \<and> us @ CHR 0x0A # x = CHR 0x0A # y \<or> a @ us = b \<and> CHR 0x0A # x = us @ CHR 0x0A # y"
    unfolding append_eq_append_conv2 by blast
  then show ?thesis using assms(2,3) by (cases us) auto
qed

lemma chain_input_inj:
  assumes "p @ CHR 0x0A # canonical_json v = q @ CHR 0x0A # canonical_json w"
  shows "p = q \<and> canonical_json v = canonical_json w"
  using split_newline [OF assms] no_newline_print by (simp add: canonical_json_def)

lemma map_insort_fst:
  "map (map_prod id f) (insort_key fst x xs) = insort_key fst (map_prod id f x) (map (map_prod id f) xs)"
  by (induction xs) auto

lemma map_sort_fst: "map (map_prod id f) (sort_key fst xs) = sort_key fst (map (map_prod id f) xs)"
  by (induction xs) (simp_all only: sort_key_simps list.map map_insort_fst)

text \<open>Sorting the keys twice is sorting them once.\<close>

lemma json_sort_idem [simp]: "json_sort (json_sort v) = json_sort v"
proof (induction v)
  case (JObj kvs)
  have "map (map_prod id json_sort) (map (map_prod id json_sort) kvs) = map (map_prod id json_sort) kvs"
  proof (rule map_idI)
    fix kv assume "kv \<in> set (map (map_prod id json_sort) kvs)"
    then obtain k w where "kv = (k, json_sort w)" "(k, w) \<in> set kvs" by auto
    then show "map_prod id json_sort kv = kv" using JObj [of "(k, w)" w] by simp
  qed
  then have "map (map_prod id json_sort) (sort_key fst (map (map_prod id json_sort) kvs)) =
      sort_key fst (map (map_prod id json_sort) kvs)"
    by (simp only: map_sort_fst)
  then show ?case
    by (simp only: json_sort.simps) (simp add: sort_key_id_if_sorted)
qed simp_all

lemma canonical_json_sort [simp]: "canonical_json (json_sort v) = canonical_json v"
  by (simp add: canonical_json_def)

subsection \<open>The interface of a verification loop\<close>

text \<open>
  \<open>content\<close> is the value a row contributes to the chain (\<open>None\<close> when its JSON does not
  decode), \<open>link prev r\<close> is the test that lets the loop go on past row \<open>r\<close>.
\<close>

locale hash_chain =
  fixes H :: "string \<Rightarrow> string"
    and content :: "'r \<Rightarrow> json option"
    and prev_of :: "'r \<Rightarrow> string"
    and hash_of :: "'r \<Rightarrow> string"
    and link :: "string \<Rightarrow> 'r \<Rightarrow> bool"
  assumes link_iff: "link prev r \<longleftrightarrow>
    (\<exists>v. content r = Some v \<and> prev_of r = prev \<and> hash_of r = chained_hash H prev v)"
begin

fun chain :: "string \<Rightarrow> 'r list \<Rightarrow> bool" where
  "chain prev [] = True"
| "chain prev (r # rs) = (link prev r \<and> chain (hash_of r) rs)"

definition head :: "string \<Rightarrow> 'r list \<Rightarrow> string" where
  "head prev rs = (if rs = [] then prev else hash_of (last rs))"

text \<open>The texts hashed along a chain.\<close>

definition inputs :: "'r list \<Rightarrow> string set" where
  "inputs rs = {prev_of r @ CHR 0x0A # canonical_json v | r v. r \<in> set rs \<and> content r = Some v}"

lemma head_simps [simp]:
  "head prev [] = prev" "head prev (r # rs) = head (hash_of r) rs" "head prev (rs @ [r]) = hash_of r"
  by (simp_all add: head_def)

lemma chain_snoc: "chain prev (rs @ [r]) \<longleftrightarrow> chain prev rs \<and> link (head prev rs) r"
  by (induction rs arbitrary: prev) auto

lemma chain_content: "chain p rs \<Longrightarrow> r \<in> set rs \<Longrightarrow> content r \<noteq> None"
proof (induction rs arbitrary: p)
  case (Cons x rs)
  then have "link p x" and "chain (hash_of x) rs" by simp_all
  then show ?case using Cons link_iff [of p x] by auto
qed simp

lemma chain_prefix: "chain prev (rs @ ss) \<Longrightarrow> chain prev rs"
  by (induction rs arbitrary: prev) auto

text \<open>
  Two chains of the same length with the same head carry the same content, row by row, unless two
  different hashed texts collide.
\<close>

lemma same_head_same_content:
  assumes "chain p rs" and "chain q ss" and "length rs = length ss" and "head p rs = head q ss"
    and "rs \<noteq> []" and "inj_on H (inputs rs \<union> inputs ss)"
  shows "p = q \<and> map (map_option canonical_json \<circ> content) rs = map (map_option canonical_json \<circ> content) ss
    \<and> map prev_of rs = map prev_of ss \<and> map hash_of rs = map hash_of ss"
  using assms
proof (induction rs arbitrary: ss rule: rev_induct)
  case (snoc r rs)
  obtain ss' s where ss: "ss = ss' @ [s]"
    using snoc.prems(3) by (metis Zero_neq_Suc length_append_singleton list.size(3) rev_exhaust)
  have "link (head p rs) r" and "link (head q ss') s"
    using snoc.prems(1,2) by (simp_all add: ss chain_snoc)
  then obtain v w where
    r: "content r = Some v" "prev_of r = head p rs" "hash_of r = chained_hash H (head p rs) v" and
    s: "content s = Some w" "prev_of s = head q ss'" "hash_of s = chained_hash H (head q ss') w"
    unfolding link_iff by blast
  have hash: "hash_of r = hash_of s" using snoc.prems(4) by (simp add: ss)
  have "head p rs @ CHR 0x0A # canonical_json v \<in> inputs (rs @ [r])"
    "head q ss' @ CHR 0x0A # canonical_json w \<in> inputs ss"
    using r s by (force simp: inputs_def ss)+
  then have "head p rs @ CHR 0x0A # canonical_json v = head q ss' @ CHR 0x0A # canonical_json w"
    using snoc.prems(6) hash r(3) s(3) by (auto simp: chained_hash_def dest: inj_onD)
  then have eq: "head p rs = head q ss'" "canonical_json v = canonical_json w"
    using chain_input_inj by blast+
  have inj: "inj_on H (inputs rs \<union> inputs ss')"
    by (rule inj_on_subset [OF snoc.prems(6)]) (auto simp: inputs_def ss)
  have len: "length rs = length ss'" using snoc.prems(3) by (simp add: ss)
  show ?case
  proof (cases "rs = []")
    case True
    then show ?thesis using len eq r s hash by (simp add: ss)
  next
    case False
    then show ?thesis
      using snoc.IH [of ss'] snoc.prems(1,2) len eq inj r s hash by (simp add: ss chain_snoc)
  qed
qed simp

end

subsection \<open>Both ledgers are hash chains\<close>

definition audit_content :: "audit_row \<Rightarrow> json option" where
  "audit_content r = map_option
     (\<lambda>p. audit_event (a_id r) (a_actor_id r) (a_action r) (a_target_type r) (a_target_id r) p (a_created_at r))
     (json_loads (a_payload_json r))"

definition audit_link :: "(string \<Rightarrow> string) \<Rightarrow> string \<Rightarrow> audit_row \<Rightarrow> bool" where
  "audit_link H prev r = (case audit_content r of
     None \<Rightarrow> False | Some v \<Rightarrow> a_previous_hash r = prev \<and> a_event_hash r = chained_hash H prev v)"

definition receipt_content :: "receipt_row \<Rightarrow> json option" where
  "receipt_content r = json_loads (r_payload_json r)"

definition receipt_link :: "(string \<Rightarrow> string) \<Rightarrow> string \<Rightarrow> receipt_row \<Rightarrow> bool" where
  "receipt_link H prev r = (case receipt_content r of
     None \<Rightarrow> False | Some v \<Rightarrow> r_previous_hash r = prev \<and> r_receipt_hash r = chained_hash H prev v)"

interpretation audit: hash_chain H audit_content a_previous_hash a_event_hash "audit_link H" for H
  by unfold_locales (auto simp: audit_link_def split: option.splits)

interpretation receipt: hash_chain H receipt_content r_previous_hash r_receipt_hash "receipt_link H" for H
  by unfold_locales (auto simp: receipt_link_def split: option.splits)

lemma audit_loop_valid:
  "audit_verify_loop H n prev rows = Inr (Valid m h) \<longleftrightarrow>
     m = n \<and> audit.chain H prev rows \<and> h = audit.head prev rows"
proof (induction rows arbitrary: prev)
  case (Cons r rows)
  show ?case
  proof (cases "json_loads (a_payload_json r)")
    case None
    then have "\<not> audit_link H prev r" by (simp add: audit_link_def audit_content_def)
    then show ?thesis using None by simp
  next
    case (Some p)
    then have "audit_link H prev r \<longleftrightarrow> a_previous_hash r = prev \<and> a_event_hash r = chained_hash H prev
        (audit_event (a_id r) (a_actor_id r) (a_action r) (a_target_type r) (a_target_id r) p (a_created_at r))"
      by (simp add: audit_link_def audit_content_def)
    then show ?thesis using Some by (simp add: Cons.IH Let_def) blast
  qed
qed auto

lemma audit_verify_valid:
  "audit_verify H rows = Inr (Valid m h) \<longleftrightarrow>
     m = length rows \<and> audit.chain H genesis (sort_key a_sequence rows)
     \<and> h = audit.head genesis (sort_key a_sequence rows)"
  by (simp add: audit_verify_def audit_loop_valid)

lemma receipt_loop_valid:
  "receipt_verify_loop H n k prev rows = Inr (Valid m h) \<longleftrightarrow>
     m = n \<and> receipt.chain H prev rows \<and> h = receipt.head prev rows
     \<and> map r_sequence rows = map int [k..<k + length rows]"
proof (induction rows arbitrary: prev k)
  case (Cons r rows)
  have "[k..<k + length (r # rows)] = k # [Suc k..<Suc k + length rows]"
    by (simp add: upt_rec)
  then have seqs: "map r_sequence (r # rows) = map int [k..<k + length (r # rows)] \<longleftrightarrow>
      r_sequence r = int k \<and> map r_sequence rows = map int [Suc k..<Suc k + length rows]"
    by simp
  show ?case
  proof (cases "json_loads (r_payload_json r)")
    case None
    then have "\<not> receipt_link H prev r" by (simp add: receipt_link_def receipt_content_def)
    then show ?thesis using None by simp
  next
    case (Some p)
    then have "receipt_link H prev r \<longleftrightarrow>
        r_previous_hash r = prev \<and> r_receipt_hash r = chained_hash H prev p"
      by (simp add: receipt_link_def receipt_content_def)
    then show ?thesis
      unfolding seqs using Some by (simp add: Cons.IH Let_def) blast
  qed
qed auto

lemma receipt_verify_valid:
  "receipt_verify H rows = Inr (Valid m h) \<longleftrightarrow>
     m = length rows \<and> receipt.chain H genesis (sort_key r_sequence rows)
     \<and> h = receipt.head genesis (sort_key r_sequence rows)
     \<and> map r_sequence (sort_key r_sequence rows) = map int [1..<Suc (length rows)]"
  by (simp add: receipt_verify_def receipt_loop_valid)

subsection \<open>Appending\<close>

lemma fold_max_ge:
  fixes a :: int
  shows "a \<le> fold max xs a" "x \<in> set xs \<Longrightarrow> x \<le> fold max xs a"
proof -
  have "a \<le> fold max xs a \<and> (\<forall>x \<in> set xs. x \<le> fold max xs a)" for xs
    by (induction xs arbitrary: a) force+
  then show "a \<le> fold max xs a" "x \<in> set xs \<Longrightarrow> x \<le> fold max xs a" by blast+
qed

lemma fold_max_cong: "set xs = set ys \<Longrightarrow> fold max xs (a::int) = fold max ys a"
proof -
  assume eq: "set xs = set ys"
  have "fold max xs a = Max (insert a (set xs))" for xs
    by (metis List.finite_set Max.set_eq_fold list.simps(15))
  then show ?thesis using eq by simp
qed

lemma next_sequence_greater: "r \<in> set rows \<Longrightarrow> seq r < next_sequence seq rows"
  using fold_max_ge(2) [of "seq r" "map seq rows" 0] by (simp add: next_sequence_def)

lemma sort_key_snoc_max:
  fixes seq :: "'r \<Rightarrow> int"
  assumes "\<And>x. x \<in> set xs \<Longrightarrow> seq x < seq r"
  shows "sort_key seq (xs @ [r]) = sort_key seq xs @ [r]"
  using assms
proof (induction xs)
  case (Cons x xs)
  have "insort_key seq x (ys @ [r]) = insort_key seq x ys @ [r]" for ys
    using Cons.prems [of x] by (induction ys) auto
  then show ?case using Cons by simp
qed simp

lemma sort_key_Nil_iff: "sort_key f xs = [] \<longleftrightarrow> xs = []"
  by (metis length_0_conv length_sort)

lemma last_hash_head:
  "last_hash a_sequence a_event_hash rows = audit.head genesis (sort_key a_sequence rows)"
  "last_hash r_sequence r_receipt_hash rs = receipt.head genesis (sort_key r_sequence rs)"
  by (simp_all add: last_hash_def audit.head_def receipt.head_def sort_key_Nil_iff)

lemma canonical_json_event_sort:
  "canonical_json (audit_event i a b c d (json_sort p) t) = canonical_json (audit_event i a b c d p t)"
  by (simp add: canonical_json_def audit_event_def)

lemma audit_append_chain:
  assumes app: "audit_append H i t rows actor action ttype tid payload = Inr rows'"
    and wf: "json_wf payload"
    and v: "audit_verify H rows = Inr (Valid n h)"
  shows "\<exists>h'. audit_verify H rows' = Inr (Valid (Suc n) h')"
proof -
  let ?prev = "last_hash a_sequence a_event_hash rows"
  let ?event = "audit_event i actor action ttype tid payload t"
  obtain row where rows': "rows' = rows @ [row]"
    and row: "a_sequence row = next_sequence a_sequence rows" "a_previous_hash row = ?prev"
      "a_event_hash row = chained_hash H ?prev ?event" "a_payload_json row = canonical_json payload"
      "audit_content row = Some (audit_event i actor action ttype tid (json_sort payload) t)"
    using app by (auto simp: audit_append_def audit_content_def Let_def json_loads_canonical [OF wf]
        split: if_splits)
  have "sort_key a_sequence rows' = sort_key a_sequence rows @ [row]"
    unfolding rows' by (rule sort_key_snoc_max) (simp add: row next_sequence_greater)
  moreover have "audit_link H ?prev row"
    using row by (simp add: audit_link_def chained_hash_def canonical_json_event_sort)
  ultimately show ?thesis
    using v by (simp add: audit_verify_valid audit.chain_snoc last_hash_head rows')
qed

lemma receipt_append_chain:
  assumes app: "receipt_append H i t rows eid payload = Inr rows'"
    and wf: "json_wf payload"
    and v: "receipt_verify H rows = Inr (Valid n h)"
  shows "\<exists>h'. receipt_verify H rows' = Inr (Valid (Suc n) h')"
proof -
  let ?prev = "last_hash r_sequence r_receipt_hash rows"
  obtain row where rows': "rows' = rows @ [row]"
    and row: "r_sequence row = next_sequence r_sequence rows" "r_previous_hash row = ?prev"
      "r_receipt_hash row = chained_hash H ?prev payload"
      "receipt_content row = Some (json_sort payload)"
    using app by (auto simp: receipt_append_def receipt_content_def Let_def json_loads_canonical [OF wf]
        split: if_splits)
  have sorted: "sort_key r_sequence rows' = sort_key r_sequence rows @ [row]"
    unfolding rows' by (rule sort_key_snoc_max) (simp add: row next_sequence_greater)
  have seqs: "map r_sequence (sort_key r_sequence rows) = map int [1..<Suc (length rows)]"
    using v by (simp add: receipt_verify_valid)
  then have "r_sequence ` set rows = int ` {1..<Suc (length rows)}"
    by (metis list.set_map set_sort set_upt)
  then have "fold max (map r_sequence rows) 0 = fold max (map int [1..<Suc (length rows)]) 0"
    by (intro fold_max_cong) (simp only: list.set_map set_upt)
  moreover have "fold max (map int [1..<Suc m]) 0 = int m" for m
    by (induction m) auto
  ultimately have "r_sequence row = int (Suc (length rows))"
    by (simp add: row next_sequence_def)
  moreover have "receipt_link H ?prev row"
    using row by (simp add: receipt_link_def chained_hash_def)
  ultimately show ?thesis
    using v seqs sorted
    by (simp add: receipt_verify_valid receipt.chain_snoc last_hash_head rows')
qed

subsection \<open>What a verified ledger proves\<close>

text \<open>The facts an audit row records; the payload as its canonical text.\<close>

definition audit_facts ::
  "audit_row \<Rightarrow> string \<times> string \<times> string \<times> string \<times> string \<times> string option \<times> string" where
  "audit_facts r = (a_id r, a_actor_id r, a_action r, a_target_type r, a_target_id r,
     map_option canonical_json (json_loads (a_payload_json r)), a_created_at r)"

definition audit_hashed :: "audit_row list \<Rightarrow> string list" where
  "audit_hashed rows = concat (map (\<lambda>r. case audit_content r of
     None \<Rightarrow> [] | Some v \<Rightarrow> [a_previous_hash r @ CHR 0x0A # canonical_json v]) rows)"

definition receipt_facts :: "receipt_row \<Rightarrow> int \<times> string option \<times> string \<times> string" where
  "receipt_facts r = (r_sequence r, map_option canonical_json (json_loads (r_payload_json r)),
     r_previous_hash r, r_receipt_hash r)"

definition receipt_hashed :: "receipt_row list \<Rightarrow> string list" where
  "receipt_hashed rows = concat (map (\<lambda>r. case receipt_content r of
     None \<Rightarrow> [] | Some v \<Rightarrow> [r_previous_hash r @ CHR 0x0A # canonical_json v]) rows)"

lemma audit_inputs_hashed: "audit.inputs rows = set (audit_hashed rows)"
  by (force simp: audit.inputs_def audit_hashed_def split: option.splits)

lemma receipt_inputs_hashed: "receipt.inputs rows = set (receipt_hashed rows)"
  by (force simp: receipt.inputs_def receipt_hashed_def split: option.splits)

lemma audit_event_wf: "json_wf p \<Longrightarrow> json_wf (audit_event i a b c d p t)"
  by (simp add: audit_event_def)

lemma audit_event_sort:
  "json_sort (audit_event i a b c d p t) =
     JObj [(''action'', JStr b), (''actor_id'', JStr a), (''created_at'', JStr t), (''id'', JStr i),
           (''payload'', json_sort p), (''target_id'', JStr d), (''target_type'', JStr c)]"
  by (simp add: audit_event_def)

lemma audit_event_canonical_inj:
  assumes "json_wf p" and "json_wf p'"
    and "canonical_json (audit_event i a b c d p t) = canonical_json (audit_event i' a' b' c' d' p' t')"
  shows "i = i' \<and> a = a' \<and> b = b' \<and> c = c' \<and> d = d' \<and> canonical_json p = canonical_json p' \<and> t = t'"
proof -
  have "json_sort (audit_event i a b c d p t) = json_sort (audit_event i' a' b' c' d' p' t')"
    using assms canonical_json_inj audit_event_wf by metis
  then show ?thesis unfolding audit_event_sort by (simp add: canonical_json_def)
qed

lemma audit_content_facts:
  assumes "map_option canonical_json (audit_content r) = map_option canonical_json (audit_content r')"
  shows "audit_content r = None \<or> audit_facts r = audit_facts r'"
proof (cases "json_loads (a_payload_json r)")
  case None
  then show ?thesis by (simp add: audit_content_def)
next
  case (Some p)
  have "json_loads (a_payload_json r') \<noteq> None"
  proof
    assume "json_loads (a_payload_json r') = None"
    with assms Some show False by (simp only: audit_content_def option.map option.distinct)
  qed
  then obtain p' where p': "json_loads (a_payload_json r') = Some p'" by blast
  have wf: "json_wf p" "json_wf p'" using Some p' json_loads_wf by auto
  have "canonical_json (audit_event (a_id r) (a_actor_id r) (a_action r) (a_target_type r)
          (a_target_id r) p (a_created_at r)) =
        canonical_json (audit_event (a_id r') (a_actor_id r') (a_action r') (a_target_type r')
          (a_target_id r') p' (a_created_at r'))"
    using assms Some p' by (simp only: audit_content_def option.map option.inject)
  from audit_event_canonical_inj [OF wf this] show ?thesis
    by (simp only: audit_facts_def Some p' option.map) simp
qed

text \<open>(C29) Tamper evidence of the audit ledger: if two audit tables with the same number of rows
  both pass \<open>AuditLedger.verify\<close> and report the same head, then, in sequence order, they record
  the same events (id, actor, action, target, payload, time), unless two of the texts hashed by the
  verification collide under the digest.\<close>

theorem audit_tamper_evident:
  assumes "audit_verify H rows = Inr (Valid n h)" and "audit_verify H rows' = Inr (Valid n h)"
    and "inj_on H (set (audit_hashed rows) \<union> set (audit_hashed rows'))"
  shows "map audit_facts (sort_key a_sequence rows) = map audit_facts (sort_key a_sequence rows')"
proof (cases "rows = []")
  case True
  then show ?thesis using assms(1,2) by (auto simp: audit_verify_valid)
next
  case False
  let ?s = "sort_key a_sequence rows" and ?s' = "sort_key a_sequence rows'"
  have chains: "audit.chain H genesis ?s" "audit.chain H genesis ?s'"
    and len: "length ?s = length ?s'" and "audit.head genesis ?s = audit.head genesis ?s'"
    using assms(1,2) by (auto simp: audit_verify_valid)
  moreover have "inj_on H (audit.inputs ?s \<union> audit.inputs ?s')"
    using assms(3) by (simp add: audit.inputs_def flip: audit_inputs_hashed)
  ultimately have "map (map_option canonical_json \<circ> audit_content) ?s =
      map (map_option canonical_json \<circ> audit_content) ?s'"
    using audit.same_head_same_content [of H genesis ?s genesis ?s'] False
    by (simp add: sort_key_Nil_iff)
  then have "audit_facts (?s ! i) = audit_facts (?s' ! i)" if "i < length ?s" for i
    using that len audit_content_facts [of "?s ! i" "?s' ! i"] audit.chain_content [OF chains(1), of "?s ! i"]
    by (auto simp: list_eq_iff_nth_eq simp del: set_sort length_sort)
  then show ?thesis using len by (simp add: list_eq_iff_nth_eq)
qed

definition wit_audit_rows :: "audit_row list" where
  "wit_audit_rows =
     (case audit_append (\<lambda>s. s) ''aud_1'' ''t1'' [] ''alice'' ''session.issue'' ''session'' ''s1''
        (JObj [(''provider'', JStr ''local''), (''expires_at'', JInt 7)])
      of Inr rows \<Rightarrow> rows | Inl _ \<Rightarrow> [])"

theorem audit_tamper_evident_witness:
  "audit_verify (\<lambda>s. s) wit_audit_rows = Inr (Valid 1 (a_event_hash (hd wit_audit_rows)))
     \<and> audit_verify (\<lambda>s. s) (map (a_sequence_update (\<lambda>_. 9)) wit_audit_rows) =
         Inr (Valid 1 (a_event_hash (hd wit_audit_rows)))
     \<and> map audit_facts (sort_key a_sequence wit_audit_rows) =
       map audit_facts (sort_key a_sequence (map (a_sequence_update (\<lambda>_. 9)) wit_audit_rows))"
proof -
  have v: "audit_verify (\<lambda>s. s) wit_audit_rows = Inr (Valid 1 (a_event_hash (hd wit_audit_rows)))"
    by code_simp
  have v': "audit_verify (\<lambda>s. s) (map (a_sequence_update (\<lambda>_. 9)) wit_audit_rows) =
      Inr (Valid 1 (a_event_hash (hd wit_audit_rows)))"
    by code_simp
  show ?thesis using v v' audit_tamper_evident [OF v v'] by (simp add: inj_on_def)
qed

text \<open>Tamper evidence of the receipt ledger: if two receipt tables both pass
  \<open>ReceiptLedger.verify\<close> with the same count and head, then, in sequence order, they have the
  same sequence numbers, payloads and hashes, unless two of the hashed texts collide.\<close>

lemma receipt_tamper_evident:
  assumes "receipt_verify H rows = Inr (Valid n h)" and "receipt_verify H rows' = Inr (Valid n h)"
    and "inj_on H (set (receipt_hashed rows) \<union> set (receipt_hashed rows'))"
  shows "map receipt_facts (sort_key r_sequence rows) = map receipt_facts (sort_key r_sequence rows')"
proof (cases "rows = []")
  case True
  then show ?thesis using assms(1,2) by (auto simp: receipt_verify_valid)
next
  case False
  let ?s = "sort_key r_sequence rows" and ?s' = "sort_key r_sequence rows'"
  have len: "length ?s = length ?s'" and seqs: "map r_sequence ?s = map r_sequence ?s'"
    and ch: "receipt.chain H genesis ?s" "receipt.chain H genesis ?s'"
      "receipt.head genesis ?s = receipt.head genesis ?s'"
    using assms(1,2) by (auto simp: receipt_verify_valid)
  have "inj_on H (receipt.inputs ?s \<union> receipt.inputs ?s')"
    using assms(3) by (simp add: receipt.inputs_def flip: receipt_inputs_hashed)
  then have "map (map_option canonical_json \<circ> receipt_content) ?s =
      map (map_option canonical_json \<circ> receipt_content) ?s'"
    "map r_previous_hash ?s = map r_previous_hash ?s'" "map r_receipt_hash ?s = map r_receipt_hash ?s'"
    using receipt.same_head_same_content [OF ch(1,2) len ch(3)] False
    by (simp_all add: sort_key_Nil_iff)
  then show ?thesis
    using len seqs
    by (simp add: list_eq_iff_nth_eq receipt_facts_def receipt_content_def del: length_sort)
qed

text \<open>A table that is filled by \<open>append\<close> only, starting empty.\<close>

inductive audit_built :: "(string \<Rightarrow> string) \<Rightarrow> audit_row list \<Rightarrow> bool" for H where
  audit_empty: "audit_built H []"
| audit_more: "audit_built H rows \<Longrightarrow> json_wf payload \<Longrightarrow>
     audit_append H new_id utc_now rows actor action ttype tid payload = Inr rows' \<Longrightarrow>
     audit_built H rows'"

inductive receipt_built :: "(string \<Rightarrow> string) \<Rightarrow> receipt_row list \<Rightarrow> bool" for H where
  receipt_empty: "receipt_built H []"
| receipt_more: "receipt_built H rows \<Longrightarrow> json_wf payload \<Longrightarrow>
     receipt_append H new_id utc_now rows execution_id payload = Inr rows' \<Longrightarrow>
     receipt_built H rows'"

lemma audit_built_verifies: "audit_built H rows \<Longrightarrow> \<exists>h. audit_verify H rows = Inr (Valid (length rows) h)"
proof (induction rule: audit_built.induct)
  case audit_empty
  then show ?case by (simp add: audit_verify_def)
next
  case (audit_more rows payload new_id utc_now actor action ttype tid rows')
  then obtain h where "audit_verify H rows = Inr (Valid (length rows) h)" by blast
  from audit_append_chain [OF audit_more.hyps(3) audit_more.hyps(2) this]
  obtain h' where h': "audit_verify H rows' = Inr (Valid (Suc (length rows)) h')" ..
  then have "length rows' = Suc (length rows)" by (simp only: audit_verify_valid)
  then show ?case using h' by simp
qed

lemma receipt_built_verifies:
  "receipt_built H rows \<Longrightarrow> \<exists>h. receipt_verify H rows = Inr (Valid (length rows) h)"
proof (induction rule: receipt_built.induct)
  case receipt_empty
  then show ?case by (simp add: receipt_verify_def)
next
  case (receipt_more rows payload new_id utc_now execution_id rows')
  then obtain h where "receipt_verify H rows = Inr (Valid (length rows) h)" by blast
  from receipt_append_chain [OF receipt_more.hyps(3) receipt_more.hyps(2) this]
  obtain h' where h': "receipt_verify H rows' = Inr (Valid (Suc (length rows)) h')" ..
  then have "length rows' = Suc (length rows)" by (simp only: receipt_verify_valid)
  then show ?case using h' by simp
qed

end
