(* ===== verification/Core_Db.thy ===== *)
theory Core_Db
  imports Evidence_Chain Trusted_Clock
begin

text \<open>
  The part of the SQLite database that the identity services write (migrations \<open>0001\<close>,
  \<open>0005\<close>, \<open>0007\<close> and \<open>0014\<close>): users, workspaces, memberships, sessions, the emergency-stop
  flag and the audit table.  As in the trust plane, a statement that violates a constraint raises
  \<open>DatabaseIntegrityError\<close> and an operation is one transaction: it returns the new tables or an
  error.  The fresh identifier and the time of an audit event are passed as a pair.
\<close>

record user_row =
  u_id :: string
  u_username :: string
  u_password_hash :: string
  u_role :: string
  u_active :: int
  u_created_at :: string

record workspace_row =
  w_id :: string
  w_name :: string
  w_environment :: string
  w_created_at :: string

record membership_row =
  m_workspace_id :: string
  m_user_id :: string
  m_membership_role :: string
  m_created_by :: string
  m_created_at :: string

record session_row =
  s_session_reference :: string
  s_user_id :: string
  s_issued_at :: int
  s_expires_at :: int

text \<open>The row of \<open>runtime_flags\<close> with key \<open>emergency_stop\<close>.\<close>

record flag_row =
  f_value :: string
  f_updated_by :: string
  f_updated_at :: string

record core_db =
  c_users :: "user_row list"
  c_workspaces :: "workspace_row list"
  c_memberships :: "membership_row list"
  c_sessions :: "session_row list"
  c_emergency_stop :: "flag_row option"
  c_audit :: "audit_row list"

abbreviation m_key :: "membership_row \<Rightarrow> string \<times> string" where
  "m_key m \<equiv> (m_workspace_id m, m_user_id m)"

subsection \<open>Statements\<close>

text \<open>\<open>INSERT INTO users(id, username, password_hash, role, created_at)\<close>; \<open>active\<close> defaults to 1.\<close>

definition insert_user :: "core_db \<Rightarrow> user_row \<Rightarrow> core_db res" where
  "insert_user db r =
     thenE (guardE (key_free u_id (u_id r) (c_users db) \<and> key_free u_username (u_username r) (c_users db))
       IntegrityError)
      (Inr (db\<lparr>c_users := c_users db @ [r]\<rparr>))"

definition insert_workspace :: "core_db \<Rightarrow> workspace_row \<Rightarrow> core_db res" where
  "insert_workspace db r =
     thenE (guardE (key_free w_id (w_id r) (c_workspaces db) \<and> key_free w_name (w_name r) (c_workspaces db)
        \<and> w_environment r \<in> set valid_environments)
       IntegrityError)
      (Inr (db\<lparr>c_workspaces := c_workspaces db @ [r]\<rparr>))"

definition insert_membership :: "core_db \<Rightarrow> membership_row \<Rightarrow> core_db res" where
  "insert_membership db r =
     thenE (guardE (key_free m_key (m_key r) (c_memberships db)
        \<and> m_workspace_id r \<in> set (map w_id (c_workspaces db))
        \<and> m_user_id r \<in> set (map u_id (c_users db)) \<and> m_created_by r \<in> set (map u_id (c_users db))
        \<and> m_membership_role r \<in> {''owner'', ''member''})
       IntegrityError)
      (Inr (db\<lparr>c_memberships := c_memberships db @ [r]\<rparr>))"

text \<open>\<open>SELECT ... FROM workspace_memberships WHERE workspace_id = ? AND user_id = ?\<close>\<close>

definition select_membership :: "core_db \<Rightarrow> string \<Rightarrow> string \<Rightarrow> membership_row option" where
  "select_membership db workspace_id user_id = select m_key (workspace_id, user_id) (c_memberships db)"

definition count_owners :: "core_db \<Rightarrow> string \<Rightarrow> nat" where
  "count_owners db workspace_id =
     length (filter (\<lambda>m. m_workspace_id m = workspace_id \<and> m_membership_role m = ''owner'') (c_memberships db))"

text \<open>\<open>DELETE ... RETURNING\<close>: whether a row was deleted, and the new table.\<close>

definition delete_membership :: "core_db \<Rightarrow> string \<Rightarrow> string \<Rightarrow> bool \<times> core_db" where
  "delete_membership db workspace_id user_id =
     (select_membership db workspace_id user_id \<noteq> None,
      db\<lparr>c_memberships := filter (\<lambda>m. m_key m \<noteq> (workspace_id, user_id)) (c_memberships db)\<rparr>)"

text \<open>\<open>AuditLedger.append\<close> on the audit table of the database.\<close>

definition audit ::
  "(string \<Rightarrow> string) \<Rightarrow> string \<times> string \<Rightarrow> core_db \<Rightarrow> string \<Rightarrow> string \<Rightarrow> string \<Rightarrow> string \<Rightarrow> json \<Rightarrow> core_db res" where
  "audit H idt db actor action ttype tid payload =
     bindE (audit_append H (fst idt) (snd idt) (c_audit db) actor action ttype tid payload) (\<lambda>rows.
       Inr (db\<lparr>c_audit := rows\<rparr>))"

lemma audit_eq_Inr:
  "audit H idt db actor action ttype tid payload = Inr db' \<longleftrightarrow>
     (\<exists>rows. audit_append H (fst idt) (snd idt) (c_audit db) actor action ttype tid payload = Inr rows
        \<and> db' = db\<lparr>c_audit := rows\<rparr>)"
  by (auto simp: audit_def res_simps)

subsection \<open>The audit table is only appended to\<close>

text \<open>
  Every service keeps the audit table one that \<open>verify\<close> accepts: a table written by \<open>append\<close>
  alone, whose payloads are well-formed JSON.
\<close>

lemma audit_built_audit:
  assumes "audit H idt db actor action ttype tid payload = Inr db'"
    and "audit_built H (c_audit db)" and "json_wf payload"
  shows "audit_built H (c_audit db')"
  using assms by (auto simp: audit_eq_Inr intro: audit_more)

lemma audit_keeps:
  assumes "audit H idt db actor action ttype tid payload = Inr db'"
  shows "c_users db' = c_users db \<and> c_workspaces db' = c_workspaces db
     \<and> c_memberships db' = c_memberships db \<and> c_sessions db' = c_sessions db
     \<and> c_emergency_stop db' = c_emergency_stop db"
  using assms by (auto simp: audit_eq_Inr)

subsection \<open>A small database for concrete runs\<close>

definition wit_core :: core_db where
  "wit_core = \<lparr>c_users = [\<lparr>u_id = ''usr_1'', u_username = ''ann'', u_password_hash = ''x'',
       u_role = ''developer'', u_active = 1, u_created_at = ''t0''\<rparr>],
     c_workspaces = [], c_memberships = [], c_sessions = [], c_emergency_stop = None, c_audit = []\<rparr>"

end
