(* ===== verification/Workspace.thy ===== *)
theory Workspace
  imports Core_Db
begin

text \<open>
  User accounts (\<open>user_account.py\<close>) and workspaces with their memberships (\<open>workspace.py\<close>).
  Fresh identifiers and clock readings are arguments; a result dictionary is a tuple.  The main
  result is that no sequence of operations leaves a workspace without an owner.
\<close>

subsection \<open>User accounts\<close>

definition valid_roles :: "string list" where
  "valid_roles = [''viewer'', ''developer'', ''operator'', ''security_reviewer'', ''auditor'', ''administrator'']"

definition is_active_user :: "user_row option \<Rightarrow> bool" where
  "is_active_user u \<longleftrightarrow> (case u of None \<Rightarrow> False | Some r \<Rightarrow> u_active r \<noteq> 0)"

definition get_active_user :: "core_db \<Rightarrow> string \<Rightarrow> (string \<times> string \<times> string) res" where
  "get_active_user db user_id =
     (case select u_id user_id (c_users db) of
        None \<Rightarrow> Inl (PermissionError ''account is inactive'')
      | Some r \<Rightarrow>
          thenE (guardE (u_active r \<noteq> 0) (PermissionError ''account is inactive''))
         (thenE (guardE (u_role r \<in> set valid_roles) (PermissionError ''account role is invalid''))
           (Inr (u_id r, u_username r, u_role r))))"

text \<open>\<open>hash_password\<close> is salted; its result for the password is an argument.\<close>

definition create_user ::
  "(string \<Rightarrow> string) \<Rightarrow> string res \<Rightarrow> string \<Rightarrow> string \<Rightarrow> string \<times> string \<Rightarrow> core_db \<Rightarrow>
   string \<Rightarrow> string \<Rightarrow> string \<Rightarrow> ((string \<times> string \<times> string \<times> bool) \<times> core_db) res" where
  "create_user H password_hash user_id now idt db actor_id username role =
     thenE (guardE (role \<in> set valid_roles) (ValueError ''unknown role''))
    (bindE password_hash (\<lambda>hashed.
     bindE (catchE is_IntegrityError
       (insert_user db \<lparr>u_id = user_id, u_username = strip username, u_password_hash = hashed,
          u_role = role, u_active = 1, u_created_at = now\<rparr>)
       (ValueError ''username already exists'')) (\<lambda>db1.
     bindE (audit H idt db1 actor_id ''user.create'' ''user'' user_id
       (JObj [(''username'', JStr username), (''role'', JStr role)])) (\<lambda>db2.
     Inr ((user_id, username, role, True), db2)))))"

subsection \<open>Workspaces and memberships\<close>

definition membership_target :: "string \<Rightarrow> string \<Rightarrow> string" where
  "membership_target workspace_id user_id = workspace_id @ CHR '':'' # user_id"

definition create_workspace ::
  "(string \<Rightarrow> string) \<Rightarrow> string \<Rightarrow> string \<Rightarrow> string \<times> string \<Rightarrow> string \<times> string \<Rightarrow> core_db \<Rightarrow>
   string \<Rightarrow> string \<Rightarrow> string \<Rightarrow> ((string \<times> string \<times> string \<times> string) \<times> core_db) res" where
  "create_workspace H workspace_id now idt1 idt2 db actor_id name environment =
     thenE (guardE (environment \<in> set valid_environments) (ValueError ''unknown environment''))
    (thenE (guardE (is_active_user (select u_id actor_id (c_users db)))
       (PermissionError ''workspace creator must be an active user''))
    (bindE (insert_workspace db \<lparr>w_id = workspace_id, w_name = strip name, w_environment = environment,
        w_created_at = now\<rparr>) (\<lambda>db1.
     bindE (insert_membership db1 \<lparr>m_workspace_id = workspace_id, m_user_id = actor_id,
        m_membership_role = ''owner'', m_created_by = actor_id, m_created_at = now\<rparr>) (\<lambda>db2.
     bindE (audit H idt1 db2 actor_id ''workspace.create'' ''workspace'' workspace_id
       (JObj [(''name'', JStr name), (''environment'', JStr environment)])) (\<lambda>db3.
     bindE (audit H idt2 db3 actor_id ''workspace.member.add'' ''workspace_membership''
       (membership_target workspace_id actor_id)
       (JObj [(''workspace_id'', JStr workspace_id), (''user_id'', JStr actor_id),
              (''membership_role'', JStr ''owner'')])) (\<lambda>db4.
     Inr ((workspace_id, name, environment, now), db4)))))))"

definition require_membership_manager :: "core_db \<Rightarrow> string \<Rightarrow> string \<Rightarrow> unit res" where
  "require_membership_manager db actor_id workspace_id =
     (case select u_id actor_id (c_users db) of
        None \<Rightarrow> Inl (PermissionError ''workspace membership actor must be active'')
      | Some actor \<Rightarrow>
          thenE (guardE (u_active actor \<noteq> 0) (PermissionError ''workspace membership actor must be active''))
           (if u_role actor = ''administrator'' then Inr ()
            else case select_membership db workspace_id actor_id of
                None \<Rightarrow> Inl (PermissionError ''workspace membership changes require owner or administrator'')
              | Some m \<Rightarrow> guardE (m_membership_role m = ''owner'')
                  (PermissionError ''workspace membership changes require owner or administrator'')))"

definition add_member ::
  "(string \<Rightarrow> string) \<Rightarrow> string \<Rightarrow> string \<times> string \<Rightarrow> core_db \<Rightarrow> string \<Rightarrow> string \<Rightarrow> string \<Rightarrow> string \<Rightarrow>
   (membership_row \<times> core_db) res" where
  "add_member H now idt db actor_id workspace_id user_id membership_role =
     thenE (guardE (membership_role \<in> {''owner'', ''member''}) (ValueError ''unknown workspace membership role''))
    (bindE (orRaise (select w_id workspace_id (c_workspaces db)) (LookupError ''workspace not found'')) (\<lambda>_.
     thenE (require_membership_manager db actor_id workspace_id)
    (thenE (guardE (is_active_user (select u_id user_id (c_users db)))
       (PermissionError ''workspace member must be an active user''))
    (thenE (guardE (select_membership db workspace_id user_id = None)
       (ValueError ''workspace membership already exists''))
    (let row = \<lparr>m_workspace_id = workspace_id, m_user_id = user_id, m_membership_role = membership_role,
                m_created_by = actor_id, m_created_at = now\<rparr> in
     bindE (insert_membership db row) (\<lambda>db1.
     bindE (audit H idt db1 actor_id ''workspace.member.add'' ''workspace_membership''
       (membership_target workspace_id user_id)
       (JObj [(''workspace_id'', JStr workspace_id), (''user_id'', JStr user_id),
              (''membership_role'', JStr membership_role)])) (\<lambda>db2.
     Inr (row, db2))))))))"

definition remove_member ::
  "(string \<Rightarrow> string) \<Rightarrow> string \<times> string \<Rightarrow> core_db \<Rightarrow> string \<Rightarrow> string \<Rightarrow> string \<Rightarrow> core_db res" where
  "remove_member H idt db actor_id workspace_id user_id =
     thenE (require_membership_manager db actor_id workspace_id)
    (bindE (orRaise (select_membership db workspace_id user_id) (LookupError ''workspace membership not found''))
      (\<lambda>m.
     thenE (guardE (\<not> (m_membership_role m = ''owner'' \<and> count_owners db workspace_id \<le> 1))
       (PermissionError ''cannot remove the last workspace owner''))
    (case delete_membership db workspace_id user_id of (deleted, db1) \<Rightarrow>
     thenE (guardE deleted (LookupError ''workspace membership not found''))
      (audit H idt db1 actor_id ''workspace.member.remove'' ''workspace_membership''
        (membership_target workspace_id user_id)
        (JObj [(''workspace_id'', JStr workspace_id), (''user_id'', JStr user_id)])))))"

subsection \<open>Every workspace keeps an owner\<close>

definition owned :: "core_db \<Rightarrow> string \<Rightarrow> bool" where
  "owned db workspace_id \<longleftrightarrow>
     (\<exists>m \<in> set (c_memberships db). m_workspace_id m = workspace_id \<and> m_membership_role m = ''owner'')"

definition membership_inv :: "core_db \<Rightarrow> bool" where
  "membership_inv db \<longleftrightarrow> unique_on m_key (c_memberships db)
     \<and> (\<forall>w \<in> set (c_workspaces db). owned db (w_id w))"

lemma insert_membership_eq_Inr:
  "insert_membership db r = Inr db' \<longleftrightarrow>
     key_free m_key (m_key r) (c_memberships db) \<and> m_workspace_id r \<in> set (map w_id (c_workspaces db))
     \<and> m_user_id r \<in> set (map u_id (c_users db)) \<and> m_created_by r \<in> set (map u_id (c_users db))
     \<and> m_membership_role r \<in> {''owner'', ''member''}
     \<and> db' = db\<lparr>c_memberships := c_memberships db @ [r]\<rparr>"
  by (auto simp: insert_membership_def res_simps)

lemma create_user_inv:
  assumes "create_user H hp uid now idt db actor name role = Inr (res, db')" and "membership_inv db"
  shows "membership_inv db'"
  using assms by (auto simp: create_user_def insert_user_def res_simps audit_eq_Inr membership_inv_def owned_def)

lemma create_workspace_inv:
  assumes "create_workspace H wid now i1 i2 db actor name env = Inr (res, db')" and "membership_inv db"
  shows "membership_inv db'"
  using assms
  by (auto simp: create_workspace_def insert_workspace_def insert_membership_eq_Inr res_simps audit_eq_Inr
      membership_inv_def owned_def unique_on_snoc)

lemma add_member_inv:
  assumes "add_member H now idt db actor wid uid role = Inr (res, db')" and "membership_inv db"
  shows "membership_inv db'"
  using assms
  by (auto simp: add_member_def insert_membership_eq_Inr res_simps audit_eq_Inr Let_def
      membership_inv_def owned_def unique_on_snoc)

lemma remaining_owner:
  assumes u: "unique_on m_key (c_memberships db)" and sel: "select_membership db wid uid = Some m"
    and owners: "m_membership_role m = ''owner'' \<Longrightarrow> 1 < count_owners db wid"
    and o: "owned db w"
  shows "owned (db\<lparr>c_memberships := filter (\<lambda>m. m_key m \<noteq> (wid, uid)) (c_memberships db)\<rparr>) w"
proof (cases "w = wid")
  case False
  then show ?thesis using o by (auto simp: owned_def)
next
  case True
  let ?own = "\<lambda>x. m_workspace_id x = wid \<and> m_membership_role x = ''owner''"
  have m: "m \<in> set (c_memberships db)" "m_key m = (wid, uid)"
    using sel by (auto simp: select_membership_def dest: select_Some_D)
  show ?thesis
  proof (cases "m_membership_role m = ''owner''")
    case False
    obtain x where x: "x \<in> set (c_memberships db)" "?own x" using o True by (auto simp: owned_def)
    then have "m_key x \<noteq> (wid, uid)" using False m unique_on_eqI [OF u] by metis
    then show ?thesis using x True by (auto simp: owned_def)
  next
    case owner: True
    have "distinct (filter ?own (c_memberships db))" using u by (simp add: unique_on_def distinct_map)
    then have "1 < card (set (filter ?own (c_memberships db)))"
      using owners [OF owner] by (simp only: count_owners_def distinct_card)
    then have "\<not> set (filter ?own (c_memberships db)) \<subseteq> {m}"
      using card_mono [of "{m}" "set (filter ?own (c_memberships db))"] by auto
    then obtain x where "x \<in> set (filter ?own (c_memberships db))" "x \<noteq> m" by blast
    then have x: "x \<in> set (c_memberships db)" "?own x" "x \<noteq> m" by auto
    then have "m_key x \<noteq> (wid, uid)" using m unique_on_eqI [OF u] by metis
    then show ?thesis using x True by (auto simp: owned_def)
  qed
qed

lemma remove_member_inv:
  assumes "remove_member H idt db actor wid uid = Inr db'" and inv: "membership_inv db"
  shows "membership_inv db'"
proof -
  let ?db = "db\<lparr>c_memberships := filter (\<lambda>m. m_key m \<noteq> (wid, uid)) (c_memberships db)\<rparr>"
  obtain m rows where sel: "select_membership db wid uid = Some m"
    and guard: "m_membership_role m = ''owner'' \<Longrightarrow> 1 < count_owners db wid"
    and db': "db' = ?db\<lparr>c_audit := rows\<rparr>"
    using assms(1) by (auto simp: remove_member_def delete_membership_def res_simps audit_eq_Inr)
  have "owned ?db (w_id w)" if "w \<in> set (c_workspaces db)" for w
    using remaining_owner [OF _ sel guard] inv that by (auto simp: membership_inv_def)
  then show ?thesis
    using inv by (auto simp: db' membership_inv_def unique_filter owned_def)
qed

text \<open>The operations as steps, in any order and with any arguments.\<close>

inductive workspace_step :: "(string \<Rightarrow> string) \<Rightarrow> core_db \<Rightarrow> core_db \<Rightarrow> bool" for H where
  step_user: "create_user H hp uid now idt db actor name role = Inr (res, db') \<Longrightarrow> workspace_step H db db'"
| step_workspace: "create_workspace H wid now i1 i2 db actor name env = Inr (res, db') \<Longrightarrow> workspace_step H db db'"
| step_add: "add_member H now idt db actor wid uid role = Inr (res, db') \<Longrightarrow> workspace_step H db db'"
| step_remove: "remove_member H idt db actor wid uid = Inr db' \<Longrightarrow> workspace_step H db db'"

lemma workspace_step_inv: "workspace_step H db db' \<Longrightarrow> membership_inv db \<Longrightarrow> membership_inv db'"
  by (erule workspace_step.cases)
    (auto dest: create_user_inv create_workspace_inv add_member_inv remove_member_inv)

lemma workspace_steps_inv: "(workspace_step H)\<^sup>*\<^sup>* db db' \<Longrightarrow> membership_inv db \<Longrightarrow> membership_inv db'"
  by (induction rule: rtranclp_induct) (auto dest: workspace_step_inv)

text \<open>(C39) No workspace is ever orphaned: from a database without workspaces and memberships, every
  sequence of user creations, workspace creations, member additions and member removals, by any
  actors, leaves each workspace with at least one owner.\<close>

theorem workspaces_keep_an_owner:
  assumes "(workspace_step H)\<^sup>*\<^sup>* db db'" and "c_workspaces db = []" and "c_memberships db = []"
    and "w \<in> set (c_workspaces db')"
  shows "1 \<le> count_owners db' (w_id w)"
proof -
  have "membership_inv db" using assms(2,3) by (simp add: membership_inv_def unique_on_def)
  then have "owned db' (w_id w)"
    using workspace_steps_inv [OF assms(1)] assms(4) by (auto simp: membership_inv_def)
  then have "filter (\<lambda>m. m_workspace_id m = w_id w \<and> m_membership_role m = ''owner'') (c_memberships db') \<noteq> []"
    by (auto simp: owned_def filter_empty_conv)
  then show ?thesis by (simp add: count_owners_def Suc_le_eq)
qed

definition wit_workspace_run :: "((string \<times> string \<times> string \<times> string) \<times> core_db) res" where
  "wit_workspace_run =
     create_workspace (\<lambda>s. s) ''wrk_1'' ''t1'' (''aud_1'', ''t1'') (''aud_2'', ''t1'') wit_core ''usr_1'' ''alpha'' ''local''"

lemma wit_workspace_run_ok:
  "case wit_workspace_run of Inl _ \<Rightarrow> False | Inr (_, db') \<Rightarrow> map w_id (c_workspaces db') = [''wrk_1'']"
  by code_simp

theorem workspaces_keep_an_owner_witness:
  "\<exists>db'. (workspace_step (\<lambda>s. s))\<^sup>*\<^sup>* wit_core db' \<and> map w_id (c_workspaces db') = [''wrk_1'']
     \<and> 1 \<le> count_owners db' ''wrk_1''"
proof -
  obtain r db' where run: "wit_workspace_run = Inr (r, db')" and ids: "map w_id (c_workspaces db') = [''wrk_1'']"
    using wit_workspace_run_ok by (auto split: sum.splits)
  have "workspace_step (\<lambda>s. s) wit_core db'"
    using run unfolding wit_workspace_run_def by (rule step_workspace)
  then have steps: "(workspace_step (\<lambda>s. s))\<^sup>*\<^sup>* wit_core db'" by (rule r_into_rtranclp)
  have "''wrk_1'' \<in> set (map w_id (c_workspaces db'))" unfolding ids by simp
  then obtain w where "w \<in> set (c_workspaces db')" "w_id w = ''wrk_1''" 
    unfolding set_map by (rule imageE) (erule that [OF _ sym])
  then have "1 \<le> count_owners db' ''wrk_1''"
    using workspaces_keep_an_owner [OF steps, of w] by (simp add: wit_core_def)
  then show ?thesis using steps ids by (intro exI [of _ db'] conjI)
qed

end
