(* ===== verification/Permission_Authority.thy ===== *)
theory Permission_Authority
  imports Workspace
begin

text \<open>
  Permissions (\<open>permission_authority.py\<close> and the role table of \<open>security.py\<close>): a decision is a
  content-addressed record, taken from the current rows of the database for the canonical
  authority and from an authenticated principal for the compatibility authority.
\<close>

text \<open>\<open>ROLE_PERMISSIONS.get(role)\<close>\<close>

definition role_permissions :: "string \<Rightarrow> string list option" where
  "role_permissions role = map_of
     [(''viewer'', [''read'']),
      (''developer'', [''read'', ''change.write'']),
      (''operator'', [''read'', ''approval.review'', ''execution.run'']),
      (''security_reviewer'', [''read'', ''approval.review'', ''evidence.read'', ''emergency.control'',
         ''execution.recover'']),
      (''auditor'', [''read'', ''evidence.read'']),
      (''administrator'', [''*''])] role"

definition permits :: "string list \<Rightarrow> string \<Rightarrow> bool" where
  "permits permissions permission \<longleftrightarrow> ''*'' \<in> set permissions \<or> permission \<in> set permissions"

record principal =
  pr_user_id :: string
  pr_username :: string
  pr_role :: string

definition principal_can :: "principal \<Rightarrow> string \<Rightarrow> bool" where
  "principal_can p permission \<longleftrightarrow>
     permits (case role_permissions (pr_role p) of None \<Rightarrow> [] | Some ps \<Rightarrow> ps) permission"

subsection \<open>Queries and decisions\<close>

record permission_query =
  pq_actor_id :: string
  pq_workspace_id :: string
  pq_environment :: string
  pq_permission :: string

definition permission_query_init :: "permission_query \<Rightarrow> permission_query res" where
  "permission_query_init q =
     thenE (check_texts [(''actor_id'', pq_actor_id q), (''workspace_id'', pq_workspace_id q),
        (''permission'', pq_permission q)])
    (thenE (guardE (pq_environment q \<in> set valid_environments) (ValueError ''environment''))
      (Inr q))"

record permission_decision =
  pd_actor_id :: string
  pd_workspace_id :: string
  pd_environment :: string
  pd_permission :: string
  pd_granted :: bool
  pd_reason :: string
  pd_authority_revision :: string
  pd_scope_model :: string
  pd_decision_digest :: string

definition permission_decision_claims :: "permission_decision \<Rightarrow> (string \<times> json) list" where
  "permission_decision_claims c =
     [(''decision_type'', JStr ''permission-decision/v1''), (''actor_id'', JStr (pd_actor_id c)),
      (''workspace_id'', JStr (pd_workspace_id c)), (''environment'', JStr (pd_environment c)),
      (''permission'', JStr (pd_permission c)), (''granted'', JBool (pd_granted c)),
      (''reason'', JStr (pd_reason c)), (''authority_revision'', JStr (pd_authority_revision c)),
      (''scope_model'', JStr (pd_scope_model c))]"

definition permission_decision_to_dict :: "permission_decision \<Rightarrow> (string \<times> json) list" where
  "permission_decision_to_dict c =
     permission_decision_claims c @ [(''decision_digest'', JStr (pd_decision_digest c))]"

definition permission_decision_init ::
  "(string \<Rightarrow> string) \<Rightarrow> permission_decision \<Rightarrow> permission_decision res" where
  "permission_decision_init H c =
     thenE (check_texts
       [(''actor_id'', pd_actor_id c), (''workspace_id'', pd_workspace_id c),
        (''permission'', pd_permission c), (''reason'', pd_reason c),
        (''authority_revision'', pd_authority_revision c), (''scope_model'', pd_scope_model c)])
    (thenE (guardE (pd_environment c \<in> set valid_environments) (ValueError ''environment''))
    (thenE (check_digests [(''decision_digest'', pd_decision_digest c)])
    (thenE (guardE (pd_decision_digest c = claims_digest H (permission_decision_claims c))
       (ValueError ''decision_digest''))
      (Inr c))))"

definition permission_decision_ok :: "(string \<Rightarrow> string) \<Rightarrow> permission_decision \<Rightarrow> bool" where
  "permission_decision_ok H c \<longleftrightarrow>
     list_all text_ok [pd_actor_id c, pd_workspace_id c, pd_permission c, pd_reason c,
        pd_authority_revision c, pd_scope_model c]
     \<and> pd_environment c \<in> set valid_environments \<and> digest_ok (pd_decision_digest c)
     \<and> pd_decision_digest c = claims_digest H (permission_decision_claims c)"

definition permission_decision_create ::
  "(string \<Rightarrow> string) \<Rightarrow> permission_query \<Rightarrow> bool \<Rightarrow> string \<Rightarrow> string \<Rightarrow> string \<Rightarrow> permission_decision res" where
  "permission_decision_create H q granted reason authority_revision scope_model =
     (let c = \<lparr>pd_actor_id = pq_actor_id q, pd_workspace_id = pq_workspace_id q,
               pd_environment = pq_environment q, pd_permission = pq_permission q,
               pd_granted = granted, pd_reason = reason, pd_authority_revision = authority_revision,
               pd_scope_model = scope_model, pd_decision_digest = []\<rparr>
      in permission_decision_init H
           (c\<lparr>pd_decision_digest := claims_digest H (permission_decision_claims c)\<rparr>))"

subsection \<open>The two authorities\<close>

text \<open>The verdict and its reason from the rows read in one transaction.\<close>

definition database_verdict :: "core_db \<Rightarrow> permission_query \<Rightarrow> bool \<times> string" where
  "database_verdict db q =
     (case select u_id (pq_actor_id q) (c_users db) of
        None \<Rightarrow> (False, ''ACTOR_NOT_FOUND'')
      | Some user \<Rightarrow>
          if u_active user = 0 then (False, ''ACTOR_INACTIVE'')
          else case role_permissions (u_role user) of
            None \<Rightarrow> (False, ''ACTOR_ROLE_INVALID'')
          | Some permissions \<Rightarrow>
              (case select w_id (pq_workspace_id q) (c_workspaces db) of
                 None \<Rightarrow> (False, ''WORKSPACE_NOT_FOUND'')
               | Some workspace \<Rightarrow>
                   if w_environment workspace \<noteq> pq_environment q then (False, ''WORKSPACE_ENVIRONMENT_MISMATCH'')
                   else case select_membership db (pq_workspace_id q) (pq_actor_id q) of
                     None \<Rightarrow> (False, ''WORKSPACE_MEMBERSHIP_REQUIRED'')
                   | Some _ \<Rightarrow>
                       if permits permissions (pq_permission q)
                       then (True, ''DATABASE_ROLE_PERMISSION_GRANTED'')
                       else (False, ''DATABASE_ROLE_PERMISSION_DENIED'')))"

definition decide_database_permission ::
  "(string \<Rightarrow> string) \<Rightarrow> core_db \<Rightarrow> permission_query \<Rightarrow> string \<Rightarrow> permission_decision res" where
  "decide_database_permission H db q authority_revision =
     thenE (check_texts [(''authority_revision'', authority_revision)])
      (case database_verdict db q of (granted, reason) \<Rightarrow>
        permission_decision_create H q granted reason authority_revision
          ''database-active-user-workspace-membership/v2'')"

text \<open>\<open>CurrentPrincipalPermissionAuthority.decide\<close>\<close>

definition decide_current_principal ::
  "(string \<Rightarrow> string) \<Rightarrow> principal \<Rightarrow> string \<Rightarrow> permission_query \<Rightarrow> permission_decision res" where
  "decide_current_principal H p authority_revision q =
     (if pq_actor_id q \<noteq> pr_user_id p
      then permission_decision_create H q False ''ACTOR_MISMATCH'' authority_revision ''current-global-role/v1''
      else let granted = principal_can p (pq_permission q) in
        permission_decision_create H q granted
          (if granted then ''CURRENT_ROLE_PERMISSION_GRANTED'' else ''CURRENT_ROLE_PERMISSION_DENIED'')
          authority_revision ''current-global-role/v1'')"

subsection \<open>What a decision means\<close>

lemma permission_decision_init_iff:
  "permission_decision_init H c = Inr c' \<longleftrightarrow> c' = c \<and> permission_decision_ok H c"
  by (auto simp: permission_decision_init_def permission_decision_ok_def res_simps)

interpretation permission: content_digest H permission_decision_claims pd_decision_digest
  "permission_decision_ok H" for H
  by unfold_locales (simp_all add: flat_def permission_decision_claims_def permission_decision_ok_def)

lemma permission_decision_create_eq_Inr:
  assumes "permission_decision_create H q granted reason rv sm = Inr p"
  shows "permission_decision_ok H p \<and> pd_granted p = granted \<and> pd_reason p = reason
     \<and> pd_actor_id p = pq_actor_id q \<and> pd_workspace_id p = pq_workspace_id q
     \<and> pd_environment p = pq_environment q \<and> pd_permission p = pq_permission q"
  using assms by (auto simp: permission_decision_create_def permission_decision_init_iff Let_def)

text \<open>A live permission: the reference reading of the rules, as one conjunction.\<close>

definition live_permission :: "core_db \<Rightarrow> permission_query \<Rightarrow> bool" where
  "live_permission db q \<longleftrightarrow>
     (\<exists>user ps w m. select u_id (pq_actor_id q) (c_users db) = Some user \<and> u_active user \<noteq> 0
        \<and> role_permissions (u_role user) = Some ps \<and> permits ps (pq_permission q)
        \<and> select w_id (pq_workspace_id q) (c_workspaces db) = Some w \<and> w_environment w = pq_environment q
        \<and> select_membership db (pq_workspace_id q) (pq_actor_id q) = Some m)"

lemma database_verdict_iff: "fst (database_verdict db q) \<longleftrightarrow> live_permission db q"
  unfolding database_verdict_def live_permission_def
  by (simp split: option.split)

lemma decide_database_permission_granted:
  assumes "decide_database_permission H db q rv = Inr p"
  shows "pd_granted p \<longleftrightarrow> live_permission db q"
proof -
  obtain g r where v: "database_verdict db q = (g, r)" by fastforce
  then have "permission_decision_create H q g r rv ''database-active-user-workspace-membership/v2'' = Inr p"
    using assms by (simp add: decide_database_permission_def res_simps)
  then show ?thesis
    using permission_decision_create_eq_Inr database_verdict_iff [of db q] v by fastforce
qed

end
