(* ===== verification/Operational_Safety.thy ===== *)
theory Operational_Safety
  imports Core_Db
begin

text \<open>
  The emergency stop (\<open>operational_safety.py\<close>): one flag row, read inside the transaction that
  depends on it, and written together with an audit event.
\<close>

text \<open>\<open>str.lower\<close> on code points below 256.\<close>

definition lower_char :: "char \<Rightarrow> char" where
  "lower_char c =
     (if 65 \<le> code c \<and> code c \<le> 90 \<or> 192 \<le> code c \<and> code c \<le> 222 \<and> code c \<noteq> 215
      then char_of (code c + 32) else c)"

definition is_stop_active :: "core_db \<Rightarrow> bool" where
  "is_stop_active db \<longleftrightarrow>
     (case c_emergency_stop db of None \<Rightarrow> False | Some r \<Rightarrow> map lower_char (f_value r) = ''true'')"

definition set_emergency_stop ::
  "(string \<Rightarrow> string) \<Rightarrow> string \<Rightarrow> string \<times> string \<Rightarrow> core_db \<Rightarrow> string \<Rightarrow> bool \<Rightarrow> string \<Rightarrow>
   ((bool \<times> string \<times> string) \<times> core_db) res" where
  "set_emergency_stop H now idt db actor_id active reason =
     bindE (audit H idt
       (db\<lparr>c_emergency_stop := Some \<lparr>f_value = (if active then ''true'' else ''false''),
          f_updated_by = actor_id, f_updated_at = now\<rparr>\<rparr>)
       actor_id (if active then ''system.emergency_stop.activate'' else ''system.emergency_stop.clear'')
       ''system'' ''runtime'' (JObj [(''reason'', JStr reason)])) (\<lambda>db'.
     Inr ((active, reason, now), db'))"

lemma set_emergency_stop_read:
  assumes "set_emergency_stop H now idt db actor active reason = Inr (r, db')"
  shows "is_stop_active db' = active"
proof -
  have "map lower_char ''true'' = ''true''" "map lower_char ''false'' \<noteq> ''true''" by code_simp+
  moreover have "c_emergency_stop db' = Some \<lparr>f_value = (if active then ''true'' else ''false''),
      f_updated_by = actor, f_updated_at = now\<rparr>"
    using assms by (auto simp: set_emergency_stop_def res_simps audit_eq_Inr)
  ultimately show ?thesis by (simp add: is_stop_active_def)
qed

end
