(* ===== verification/Grant_Store.thy ===== *)
theory Grant_Store
  imports Trust_Db Execution_Conformance Permission_Authority Operational_Safety
begin

text \<open>
  The durable grant service (\<open>grant_consumption.py\<close>, class \<open>DurableGrantService\<close>) and the outbox
  service that wraps it (\<open>dispatch_outbox_persistence.py\<close>, class
  \<open>DurableDispatchOutboxService\<close>).  An operation is one transaction: it reads the identity tables
  \<open>cdb\<close> and reads and writes the trust tables \<open>db\<close>, whose columns \<open>t_users\<close> and
  \<open>t_workspaces\<close> stand for the primary keys that foreign keys refer to.

  The revocation epoch authority is a protocol that deployments implement; it is the parameter
  \<open>current_epoch\<close>, a function of the workspace, the environment and the capability definition that
  may raise or return any value.  Clock readings and fresh identifiers are arguments.
\<close>

type_synonym epoch_authority = "string \<Rightarrow> string \<Rightarrow> string \<Rightarrow> json res"

record grant_service =
  gs_clock :: clock_authority
  gs_conformance :: conformance_authority
  gs_authority_revision :: string

subsection \<open>The checks of a live grant\<close>

definition trusted_clock_witness ::
  "(string \<Rightarrow> string) \<Rightarrow> grant_service \<Rightarrow> clock_reading \<Rightarrow> execution_grant \<Rightarrow> clock_witness res" where
  "trusted_clock_witness H svc reading grant =
     bindE (catchE is_authority_error (clock_authority_witness H (gs_clock svc) reading (gr_environment grant))
       (PermissionError ''TRUSTED_CLOCK_DENIED'')) (\<lambda>w.
     thenE (guardE (ck_source_identity w = ca_source_identity (gs_clock svc))
       (PermissionError ''TRUSTED_CLOCK_BINDING_MISMATCH''))
      (Inr w))"

definition grant_query :: "execution_grant \<Rightarrow> permission_query" where
  "grant_query grant =
     \<lparr>pq_actor_id = gr_actor_id grant, pq_workspace_id = gr_workspace_id grant,
      pq_environment = gr_environment grant, pq_permission = gr_required_permission grant\<rparr>"

definition assert_live_permission :: "(string \<Rightarrow> string) \<Rightarrow> core_db \<Rightarrow> execution_grant \<Rightarrow> unit res" where
  "assert_live_permission H cdb grant =
     thenE (guardE (gr_required_permission grant = required_execution_permission)
       (PermissionError ''GRANT_PERMISSION_INVALID''))
    (bindE (permission_query_init (grant_query grant)) (\<lambda>q.
     bindE (catchE is_authority_error (decide_database_permission H cdb q ''database-permission/durable-grant-live-r1'')
       (PermissionError ''EXECUTION_PERMISSION_DENIED'')) (\<lambda>decision.
     thenE (guardE
       ((pd_actor_id decision, pd_workspace_id decision, pd_environment decision, pd_permission decision) =
        (gr_actor_id grant, gr_workspace_id grant, gr_environment grant, gr_required_permission grant))
       (PermissionError ''EXECUTION_PERMISSION_BINDING_MISMATCH''))
      (guardE (pd_granted decision) (PermissionError ''EXECUTION_PERMISSION_DENIED'')))))"

definition natural_epoch :: "json \<Rightarrow> int res" where
  "natural_epoch v =
     (case v of
        JInt i \<Rightarrow> thenE (guardE (0 \<le> i) (PermissionError ''REVOCATION_EPOCH_INVALID'')) (Inr i)
      | _ \<Rightarrow> Inl (PermissionError ''REVOCATION_EPOCH_INVALID''))"

definition assert_live_authority ::
  "(string \<Rightarrow> string) \<Rightarrow> epoch_authority \<Rightarrow> core_db \<Rightarrow> execution_grant \<Rightarrow> clock_witness \<Rightarrow> int res" where
  "assert_live_authority H current_epoch cdb grant clock =
     bindE (require_timestamp ''consumed_at'' (JStr (ck_observed_at clock))) (\<lambda>now.
     bindE (require_timestamp ''grant.issued_at'' (JStr (gr_issued_at grant))) (\<lambda>issued.
     bindE (require_timestamp ''grant.expires_at'' (JStr (gr_expires_at grant))) (\<lambda>expires.
     thenE (guardE (\<not> instant now < instant issued) (PermissionError ''CLOCK_PRECEDES_GRANT''))
    (thenE (guardE (\<not> instant now \<ge> instant expires) (PermissionError ''GRANT_EXPIRED''))
    (thenE (guardE (\<not> is_stop_active cdb) (PermissionError ''EMERGENCY_STOP_ACTIVE''))
    (thenE (assert_live_permission H cdb grant)
    (bindE (catchE is_authority_error
        (current_epoch (gr_workspace_id grant) (gr_environment grant) (gr_capability_definition_identity grant))
        (PermissionError ''REVOCATION_AUTHORITY_DENIED'')) (\<lambda>v.
     bindE (natural_epoch v) (\<lambda>live.
     thenE (guardE (live = gr_revocation_epoch grant) (PermissionError ''REVOCATION_EPOCH_CHANGED''))
      (Inr live))))))))))"

definition fresh_conformance ::
  "(string \<Rightarrow> string) \<Rightarrow> grant_service \<Rightarrow> execution_grant \<Rightarrow> conformance_witness res" where
  "fresh_conformance H svc grant =
     bindE (catchE is_authority_error (evaluate H (gs_conformance svc) grant)
       (PermissionError ''EXECUTION_CONFORMANCE_DENIED'')) (\<lambda>w.
     thenE (guardE (cw_grant_digest w = gr_grant_digest grant)
       (PermissionError ''EXECUTION_CONFORMANCE_GRANT_MISMATCH''))
      (Inr w))"

subsection \<open>Storing a grant\<close>

definition grant_row_of ::
  "execution_grant \<Rightarrow> conformance_witness \<Rightarrow> clock_witness \<Rightarrow> int \<Rightarrow> string \<Rightarrow> grant_row" where
  "grant_row_of g conformance clock live authority_revision =
     \<lparr>gw_jti = gr_jti g, gw_grant_id = gr_grant_id g, gw_execution_id = gr_execution_id g,
      gw_request_id = gr_request_id g, gw_workspace_id = gr_workspace_id g, gw_environment = gr_environment g,
      gw_authorization_snapshot_digest = gr_authorization_snapshot_digest g,
      gw_execution_capsule_digest = gr_execution_capsule_digest g, gw_grant_digest = gr_grant_digest g,
      gw_grant_json = canonical_json (JObj (execution_grant_to_dict g)),
      gw_issuance_conformance_witness_digest = cw_witness_digest conformance,
      gw_issuance_conformance_witness_json = canonical_json (JObj (conformance_witness_to_dict conformance)),
      gw_store_clock_witness_digest = ck_witness_digest clock,
      gw_store_clock_witness_json = canonical_json (JObj (clock_witness_to_dict clock)),
      gw_issued_at = gr_issued_at g, gw_expires_at = gr_expires_at g, gw_revocation_epoch = live,
      gw_stored_at = ck_observed_at clock, gw_store_revision = authority_revision\<rparr>"

text \<open>The grant that \<open>grant_issuer.issue\<close> returns, or its exception, is the argument \<open>issued\<close>.\<close>

definition issue_and_store ::
  "(string \<Rightarrow> string) \<Rightarrow> grant_service \<Rightarrow> epoch_authority \<Rightarrow> core_db \<Rightarrow> trust_db \<Rightarrow> clock_reading \<Rightarrow>
   execution_grant res \<Rightarrow> (execution_grant \<times> trust_db) res" where
  "issue_and_store H svc current_epoch cdb db reading issued =
     bindE issued (\<lambda>g.
     bindE (trusted_clock_witness H svc reading g) (\<lambda>clock.
     bindE (assert_live_authority H current_epoch cdb g clock) (\<lambda>live.
     bindE (fresh_conformance H svc g) (\<lambda>conformance.
     bindE (catchE is_IntegrityError
        (insert_stored_grant db (grant_row_of g conformance clock live (gs_authority_revision svc)))
        (PermissionError ''GRANT_STORE_CONFLICT'')) (\<lambda>db'.
     Inr (g, db'))))))"

subsection \<open>Consuming a grant\<close>

definition decode_stored_grant :: "(string \<Rightarrow> string) \<Rightarrow> grant_row \<Rightarrow> execution_grant res" where
  "decode_stored_grant H row =
     bindE (decode_column (\<lambda>raw.
         thenE (guardE (is_object raw) (ValueError ''stored grant''))
        (thenE (guardE (canonical_json raw = gw_grant_json row) (ValueError ''stored grant''))
          (execution_grant_from_dict H raw)))
       (gw_grant_json row) (PermissionError ''STORED_GRANT_CORRUPT'')) (\<lambda>g.
     thenE (guardE
       ((gw_jti row, gw_grant_id row, gw_execution_id row, gw_request_id row, gw_workspace_id row,
         gw_environment row, gw_authorization_snapshot_digest row, gw_execution_capsule_digest row,
         gw_grant_digest row, gw_issued_at row, gw_expires_at row, gw_revocation_epoch row) =
        (gr_jti g, gr_grant_id g, gr_execution_id g, gr_request_id g, gr_workspace_id g,
         gr_environment g, gr_authorization_snapshot_digest g, gr_execution_capsule_digest g,
         gr_grant_digest g, gr_issued_at g, gr_expires_at g, gr_revocation_epoch g))
       (PermissionError ''STORED_GRANT_BINDING_MISMATCH''))
      (Inr g))"

text \<open>
  The body of \<open>consume\<close> from the token to the witness.  \<open>consume_and_enqueue\<close> has a body of its own for
  these steps, \<open>prepare_handoff\<close> below.
\<close>

definition prepare_consumption ::
  "(string \<Rightarrow> string) \<Rightarrow> grant_service \<Rightarrow> epoch_authority \<Rightarrow> core_db \<Rightarrow> trust_db \<Rightarrow> clock_reading \<Rightarrow>
   string \<Rightarrow> string \<Rightarrow> (execution_grant \<times> conformance_witness \<times> clock_witness \<times> consumption_witness) res" where
  "prepare_consumption H svc current_epoch cdb db reading consumption_id jti =
     thenE (check_texts [(''jti'', jti)])
    (thenE (guardE (select cr_jti jti (t_consumptions db) = None) (PermissionError ''GRANT_ALREADY_CONSUMED''))
    (bindE (orRaise (select gw_jti jti (t_grants db)) (PermissionError ''GRANT_NOT_FOUND'')) (\<lambda>row.
     bindE (decode_stored_grant H row) (\<lambda>g.
     bindE (trusted_clock_witness H svc reading g) (\<lambda>clock.
     bindE (assert_live_authority H current_epoch cdb g clock) (\<lambda>live.
     bindE (fresh_conformance H svc g) (\<lambda>conformance.
     bindE (consumption_witness_create H consumption_id g (cw_witness_digest conformance) clock live
        (gs_authority_revision svc)) (\<lambda>witness.
     Inr (g, conformance, clock, witness)))))))))"

definition consumption_row_of ::
  "execution_grant \<Rightarrow> conformance_witness \<Rightarrow> clock_witness \<Rightarrow> consumption_witness \<Rightarrow> consumption_row" where
  "consumption_row_of g conformance clock witness =
     \<lparr>cr_consumption_id = gc_consumption_id witness, cr_jti = gr_jti g, cr_grant_digest = gr_grant_digest g,
      cr_execution_id = gr_execution_id g,
      cr_authorization_snapshot_digest = gr_authorization_snapshot_digest g,
      cr_execution_capsule_digest = gr_execution_capsule_digest g, cr_runner_class = gr_runner_class g,
      cr_conformance_witness_digest = cw_witness_digest conformance,
      cr_conformance_witness_json = canonical_json (JObj (conformance_witness_to_dict conformance)),
      cr_clock_witness_digest = ck_witness_digest clock,
      cr_clock_witness_json = canonical_json (JObj (clock_witness_to_dict clock)),
      cr_live_revocation_epoch = gc_live_revocation_epoch witness, cr_consumed_at = gc_consumed_at witness,
      cr_serialization_contract = gc_serialization_contract witness,
      cr_authority_revision = gc_authority_revision witness, cr_consumption_digest = gc_witness_digest witness,
      cr_consumption_json = canonical_json (JObj (consumption_witness_to_dict witness))\<rparr>"

definition consume ::
  "(string \<Rightarrow> string) \<Rightarrow> grant_service \<Rightarrow> epoch_authority \<Rightarrow> core_db \<Rightarrow> trust_db \<Rightarrow> clock_reading \<Rightarrow>
   string \<Rightarrow> string \<Rightarrow> (consumption_witness \<times> trust_db) res" where
  "consume H svc current_epoch cdb db reading consumption_id jti =
     bindE (prepare_consumption H svc current_epoch cdb db reading consumption_id jti)
      (\<lambda>(g, conformance, clock, witness).
     bindE (catchE is_IntegrityError (insert_consumption db (consumption_row_of g conformance clock witness))
       (PermissionError ''GRANT_ALREADY_CONSUMED'')) (\<lambda>db'.
     Inr (witness, db')))"

subsection \<open>Consuming into the outbox\<close>

definition outbox_row_of :: "outbox_entry \<Rightarrow> outbox_row" where
  "outbox_row_of e = \<lparr>ob_cols = e, ob_entry_json = canonical_json (JObj (outbox_entry_to_dict e))\<rparr>"

text \<open>The body of \<open>consume_and_enqueue\<close> from the token to the witness.\<close>

definition prepare_handoff ::
  "(string \<Rightarrow> string) \<Rightarrow> grant_service \<Rightarrow> epoch_authority \<Rightarrow> core_db \<Rightarrow> trust_db \<Rightarrow> clock_reading \<Rightarrow>
   string \<Rightarrow> string \<Rightarrow> (execution_grant \<times> conformance_witness \<times> clock_witness \<times> consumption_witness) res" where
  "prepare_handoff H svc current_epoch cdb db reading consumption_id jti =
     thenE (check_texts [(''jti'', jti)])
    (thenE (guardE (select cr_jti jti (t_consumptions db) = None) (PermissionError ''GRANT_ALREADY_CONSUMED''))
    (bindE (orRaise (select gw_jti jti (t_grants db)) (PermissionError ''GRANT_NOT_FOUND'')) (\<lambda>row.
     bindE (decode_stored_grant H row) (\<lambda>g.
     bindE (trusted_clock_witness H svc reading g) (\<lambda>clock.
     bindE (assert_live_authority H current_epoch cdb g clock) (\<lambda>live.
     bindE (fresh_conformance H svc g) (\<lambda>conformance.
     bindE (consumption_witness_create H consumption_id g (cw_witness_digest conformance) clock live
        (gs_authority_revision svc)) (\<lambda>witness.
     Inr (g, conformance, clock, witness)))))))))"

definition consume_and_enqueue ::
  "(string \<Rightarrow> string) \<Rightarrow> grant_service \<Rightarrow> string \<Rightarrow> epoch_authority \<Rightarrow> core_db \<Rightarrow> trust_db \<Rightarrow> clock_reading \<Rightarrow>
   string \<Rightarrow> string \<Rightarrow> string \<Rightarrow> (outbox_entry \<times> trust_db) res" where
  "consume_and_enqueue H svc outbox_revision current_epoch cdb db reading consumption_id outbox_id jti =
     bindE (prepare_handoff H svc current_epoch cdb db reading consumption_id jti)
      (\<lambda>(g, conformance, clock, witness).
     bindE (outbox_entry_create H outbox_id g witness outbox_revision) (\<lambda>e.
     bindE (catchE is_IntegrityError (insert_consumption db (consumption_row_of g conformance clock witness))
       (PermissionError ''GRANT_ALREADY_CONSUMED'')) (\<lambda>db1.
     bindE (catchE is_IntegrityError (insert_outbox db1 (outbox_row_of e))
       (PermissionError ''OUTBOX_PERSISTENCE_CONFLICT'')) (\<lambda>db2.
     Inr (e, db2)))))"

text \<open>The start-up check of the outbox service: \<open>SELECT_ORPHAN_CONSUMPTION\<close> finds no row.\<close>

definition orphan_consumptions :: "trust_db \<Rightarrow> consumption_row list" where
  "orphan_consumptions db =
     filter (\<lambda>c. cr_consumption_id c \<notin> set (map (ox_consumption_id \<circ> ob_cols) (t_outbox db))) (t_consumptions db)"

definition assert_no_orphan_consumptions :: "trust_db \<Rightarrow> unit res" where
  "assert_no_orphan_consumptions db =
     guardE (orphan_consumptions db = [])
       (RuntimeError ''C1b refuses historical Grant consumption without a durable outbox intent'')"

end
