(* ===== verification/Inbox_Store.thy ===== *)
theory Inbox_Store
  imports Trust_Db
begin

text \<open>
  The durable inbox (\<open>dispatch_inbox_persistence.py\<close>): \<open>admit\<close> resolves the outbox row an envelope
  names, checks the envelope against it, and either records the first admission of its
  \<open>dispatch_id\<close>, recognises an exact redelivery, or refuses conflicting content.
\<close>

subsection \<open>Decoding of rows\<close>

definition inbox_decode_outbox :: "(string \<Rightarrow> string) \<Rightarrow> outbox_row \<Rightarrow> outbox_entry res" where
  "inbox_decode_outbox H row =
     bindE (decode_column (outbox_entry_from_dict H) (ob_entry_json row) (PermissionError ''OUTBOX_ROW_INVALID''))
       (\<lambda>outbox. thenE (guardE
          (ob_cols row = outbox
           \<and> ob_entry_json row = canonical_json (JObj (outbox_entry_to_dict outbox)))
          (PermissionError ''OUTBOX_ROW_INVALID'')) (Inr outbox))"

definition decode_admission :: "(string \<Rightarrow> string) \<Rightarrow> string \<Rightarrow> inbox_row \<Rightarrow> admission res" where
  "decode_admission H reason row =
     bindE (decode_column (admission_from_dict H) (ib_admission_json row) (PermissionError reason))
       (\<lambda>adm. thenE (guardE
          (ib_cols row = adm
           \<and> ib_admission_json row = canonical_json (JObj (admission_to_dict adm)))
          (PermissionError reason)) (Inr adm))"

subsection \<open>Admission\<close>

definition inbox_row_of :: "admission \<Rightarrow> inbox_row" where
  "inbox_row_of adm = \<lparr>ib_cols = adm, ib_admission_json = canonical_json (JObj (admission_to_dict adm))\<rparr>"

text \<open>\<open>except DispatchInboxContentConflict: raise\<close>, then \<open>except (PermissionError, ValueError)\<close>\<close>

fun is_classify_error :: "py_error \<Rightarrow> bool" where
  "is_classify_error (PermissionError _) = True"
| "is_classify_error (ValueError _) = True"
| "is_classify_error _ = False"

definition admit ::
  "(string \<Rightarrow> string) \<Rightarrow> string \<Rightarrow> trust_db \<Rightarrow> envelope \<Rightarrow> ((string \<times> admission) \<times> trust_db) res" where
  "admit H admission_revision db env =
     bindE (orRaise (select ob_outbox_id (ev_outbox_id env) (t_outbox db)) (PermissionError ''OUTBOX_NOT_FOUND''))
      (\<lambda>outbox_row.
     bindE (inbox_decode_outbox H outbox_row) (\<lambda>outbox.
     thenE (catchE is_PermissionError (envelope_bound_to H env outbox)
        (PermissionError ''OUTBOX_BINDING_MISMATCH''))
      (case select ib_dispatch_id (ev_dispatch_id env) (t_inbox db) of
         Some existing_row \<Rightarrow>
           bindE (decode_admission H ''INBOX_ROW_INVALID'' existing_row) (\<lambda>existing.
           bindE (catchE is_classify_error (classify_redelivery H existing env outbox)
              (PermissionError ''INBOX_ROW_INVALID'')) (\<lambda>outcome.
           Inr ((outcome, existing), db)))
       | None \<Rightarrow>
           bindE (admission_create H env outbox admission_revision) (\<lambda>adm.
           bindE (catchE is_IntegrityError (insert_inbox db (inbox_row_of adm))
              (PermissionError ''INBOX_PERSISTENCE_CONFLICT'')) (\<lambda>db'.
           Inr ((''ADMITTED'', adm), db'))))))"

subsection \<open>Rows that decode\<close>

definition outbox_row_ok :: "(string \<Rightarrow> string) \<Rightarrow> outbox_row \<Rightarrow> bool" where
  "outbox_row_ok H r \<longleftrightarrow> outbox_entry_ok H (ob_cols r)
     \<and> ob_entry_json r = canonical_json (JObj (outbox_entry_to_dict (ob_cols r)))"

definition inbox_row_ok :: "(string \<Rightarrow> string) \<Rightarrow> inbox_row \<Rightarrow> bool" where
  "inbox_row_ok H r \<longleftrightarrow> admission_ok H (ib_cols r) \<and> r = inbox_row_of (ib_cols r)"

lemma outbox_stored: "canonical_json (JObj (outbox_entry_to_dict c)) = outbox.stored c"
  by (simp add: outbox.stored_def outbox_entry_dict_eq)

lemma admission_stored: "canonical_json (JObj (admission_to_dict c)) = admission.stored c"
  by (simp add: admission.stored_def admission_dict_eq)

lemma inbox_decode_outbox_iff:
  "inbox_decode_outbox H r = Inr c \<longleftrightarrow> c = ob_cols r \<and> outbox_row_ok H r"
proof
  assume "inbox_decode_outbox H r = Inr c"
  then show "c = ob_cols r \<and> outbox_row_ok H r"
    by (auto simp: inbox_decode_outbox_def res_simps outbox_row_ok_def outbox_entry_from_dict_def
        dest: outbox.from_dict_ok)
next
  assume *: "c = ob_cols r \<and> outbox_row_ok H r"
  then show "inbox_decode_outbox H r = Inr c"
    using outbox.decode_stored [of H "ob_cols r"]
    by (auto simp: inbox_decode_outbox_def res_simps outbox_row_ok_def outbox_entry_from_dict_def
        outbox_stored)
qed

lemma decode_admission_iff:
  "decode_admission H reason r = Inr c \<longleftrightarrow> c = ib_cols r \<and> inbox_row_ok H r"
proof
  assume "decode_admission H reason r = Inr c"
  then show "c = ib_cols r \<and> inbox_row_ok H r"
    by (cases r) (auto simp: decode_admission_def res_simps inbox_row_ok_def inbox_row_of_def
        admission_from_dict_def dest: admission.from_dict_ok)
next
  assume *: "c = ib_cols r \<and> inbox_row_ok H r"
  then have "ib_admission_json r = admission.stored (ib_cols r)" "admission_ok H (ib_cols r)"
    unfolding inbox_row_ok_def inbox_row_of_def admission_stored by (metis inbox_row.select_convs(2))+
  with * show "decode_admission H reason r = Inr c"
    using admission.decode_stored [of H "ib_cols r"]
    by (auto simp: decode_admission_def res_simps admission_from_dict_def admission_stored)
qed

subsection \<open>What an admission establishes\<close>

lemma classify_redelivery_iff:
  "classify_redelivery H c env entry = Inr r \<longleftrightarrow>
     r = ''DUPLICATE'' \<and> envelope_bound_to H env entry = Inr () \<and> ev_dispatch_id env = ad_dispatch_id c
     \<and> admission_bound_to H c env entry = Inr ()"
  by (auto simp: classify_redelivery_def res_simps)

lemma admission_create_eq_Inr:
  assumes "admission_create H env entry rv = Inr adm"
  shows "admission_ok H adm \<and> admission_bound_to H adm env entry = Inr () \<and> ad_admission_revision adm = rv
     \<and> envelope_bound_to H env entry = Inr ()"
  using assms unfolding admission_create_def
  by (auto simp: res_simps Let_def admission_dict_eq admission.init_dict_iff admission_bound_to_def)

text \<open>The two ways \<open>admit\<close> returns.\<close>

lemma admit_cases:
  assumes "admit H rv db env = Inr ((outcome, adm), db')"
  obtains (first) row where "outcome = ''ADMITTED''" "select ib_dispatch_id (ev_dispatch_id env) (t_inbox db) = None"
      "select ob_outbox_id (ev_outbox_id env) (t_outbox db) = Some row" "outbox_row_ok H row"
      "admission_create H env (ob_cols row) rv = Inr adm" "insert_inbox db (inbox_row_of adm) = Inr db'"
  | (again) row erow where "outcome = ''DUPLICATE''" "db' = db"
      "select ib_dispatch_id (ev_dispatch_id env) (t_inbox db) = Some erow" "inbox_row_ok H erow" "adm = ib_cols erow"
      "select ob_outbox_id (ev_outbox_id env) (t_outbox db) = Some row" "outbox_row_ok H row"
      "admission_bound_to H adm env (ob_cols row) = Inr ()"
proof -
  obtain row where row: "select ob_outbox_id (ev_outbox_id env) (t_outbox db) = Some row" "outbox_row_ok H row"
    using assms by (auto simp: admit_def bindE_eq_Inr orRaise_eq_Inr inbox_decode_outbox_iff)
  have "inbox_decode_outbox H row = Inr (ob_cols row)" using row(2) by (simp add: inbox_decode_outbox_iff)
  note rest = assms [unfolded admit_def row(1), simplified this orRaise_Some bindE_Inr thenE_eq_Inr]
  show thesis
  proof (cases "select ib_dispatch_id (ev_dispatch_id env) (t_inbox db)")
    case None
    then have "admission_create H env (ob_cols row) rv = Inr adm" "insert_inbox db (inbox_row_of adm) = Inr db'"
      "outcome = ''ADMITTED''"
      using rest by (simp_all add: bindE_eq_Inr catchE_eq_Inr)
    then show thesis using None row first by blast
  next
    case (Some erow)
    then have "decode_admission H ''INBOX_ROW_INVALID'' erow = Inr adm"
      "classify_redelivery H adm env (ob_cols row) = Inr outcome" "db' = db"
      using rest by (auto simp: bindE_eq_Inr catchE_eq_Inr)
    then show thesis using Some row again by (simp add: decode_admission_iff classify_redelivery_iff)
  qed
qed

lemma insert_inbox_eq_Inr:
  "insert_inbox db r = Inr db' \<Longrightarrow> db' = db\<lparr>t_inbox := t_inbox db @ [r]\<rparr>"
  by (auto simp: insert_inbox_def Let_def res_simps)

lemma insert_inbox_unique:
  assumes "insert_inbox db r = Inr db'"
  shows "key_free ib_admission_id (ib_admission_id r) (t_inbox db)"
    and "key_free ib_dispatch_id (ib_dispatch_id r) (t_inbox db)"
    and "key_free (\<lambda>r. ad_outbox_id (ib_cols r)) (ad_outbox_id (ib_cols r)) (t_inbox db)"
  using assms by (auto simp: insert_inbox_def Let_def res_simps key_free_def)

lemma admission_bound_dispatch:
  "admission_bound_to H adm env entry = Inr () \<Longrightarrow>
     ad_dispatch_id adm = ev_dispatch_id env \<and> ad_envelope_digest adm = ev_envelope_digest env
     \<and> ad_outbox_id adm = ox_outbox_id entry \<and> ad_outbox_entry_digest adm = ox_entry_digest entry
     \<and> envelope_bound_to H env entry = Inr ()"
  by (auto simp: admission_bound_to_def res_simps)

text \<open>After a successful \<open>admit\<close> the inbox holds the admission under the dispatch identity, and the
  envelope is bound to the outbox entry it names.\<close>

lemma admit_recorded:
  assumes "admit H rv db env = Inr ((outcome, adm), db')"
  shows "\<exists>row. select ib_dispatch_id (ev_dispatch_id env) (t_inbox db') = Some (inbox_row_of adm)
     \<and> select ob_outbox_id (ev_outbox_id env) (t_outbox db') = Some row \<and> outbox_row_ok H row
     \<and> admission_ok H adm \<and> admission_bound_to H adm env (ob_cols row) = Inr ()"
  using assms
proof (cases rule: admit_cases)
  case (first row)
  then have db': "db' = db\<lparr>t_inbox := t_inbox db @ [inbox_row_of adm]\<rparr>" by (simp add: insert_inbox_eq_Inr)
  have a: "admission_ok H adm" "admission_bound_to H adm env (ob_cols row) = Inr ()"
    using admission_create_eq_Inr [OF first(5)] by auto
  have "ad_dispatch_id adm = ev_dispatch_id env" using admission_bound_dispatch [OF a(2)] by simp
  then show ?thesis using first a by (simp add: db' select_append inbox_row_of_def)
next
  case (again row erow)
  then show ?thesis by (auto simp: inbox_row_ok_def)
qed

end
