(* ===== verification/Lease_Store.thy ===== *)
theory Lease_Store
  imports Inbox_Store
begin

text \<open>
  The durable epoch allocator (\<open>execution_lease_persistence.py\<close>, class
  \<open>DurableExecutionLeaseService\<close>): \<open>acquire\<close> gives the next epoch of an admitted dispatch to a new
  lease once the previous lease has expired, \<open>complete\<close> records the completion of the current,
  unexpired lease.  The clock reading an operation takes is an argument.
\<close>

record lease_service =
  ls_clock :: clock_authority
  ls_lease_seconds :: int
  ls_lease_revision :: string
  ls_authority_revision :: string

definition lease_service_init ::
  "clock_authority \<Rightarrow> int \<Rightarrow> string \<Rightarrow> string \<Rightarrow> lease_service res" where
  "lease_service_init clk lease_seconds lease_revision authority_revision =
     thenE (guardE (1 \<le> lease_seconds \<and> lease_seconds \<le> 3600) (ValueError ''lease_seconds''))
    (bindE (require_text ''lease_revision'' (JStr lease_revision)) (\<lambda>_.
     bindE (require_text ''authority_revision'' (JStr authority_revision)) (\<lambda>_.
     Inr \<lparr>ls_clock = clk, ls_lease_seconds = lease_seconds, ls_lease_revision = lease_revision,
          ls_authority_revision = authority_revision\<rparr>)))"

subsection \<open>Decoding and binding checks\<close>

definition lease_row_of :: "lease \<Rightarrow> clock_witness \<Rightarrow> lease_row" where
  "lease_row_of l clock =
     \<lparr>lr_cols = l, lr_clock_witness_json = canonical_json (JObj (clock_witness_to_dict clock)),
      lr_lease_json = canonical_json (JObj (lease_to_dict l))\<rparr>"

definition witness_digest_is :: "json \<Rightarrow> string \<Rightarrow> bool" where
  "witness_digest_is v digest \<longleftrightarrow>
     (case v of JObj kvs \<Rightarrow> map_of kvs ''witness_digest'' = Some (JStr digest) | _ \<Rightarrow> False)"

definition decode_lease :: "(string \<Rightarrow> string) \<Rightarrow> lease_row \<Rightarrow> lease res" where
  "decode_lease H row =
     bindE (decode_column (lease_from_dict H) (lr_lease_json row) (PermissionError ''LEASE_ROW_INVALID''))
      (\<lambda>l.
     bindE (orRaise (json_loads (lr_clock_witness_json row)) (PermissionError ''LEASE_ROW_INVALID''))
      (\<lambda>clock_raw.
     thenE (guardE (witness_digest_is clock_raw (le_clock_witness_digest l)) (PermissionError ''LEASE_ROW_INVALID''))
    (thenE (guardE
       (lr_cols row = l \<and> lr_clock_witness_json row = canonical_json clock_raw
        \<and> lr_lease_json row = canonical_json (JObj (lease_to_dict l)))
       (PermissionError ''LEASE_ROW_INVALID''))
      (Inr l))))"

definition load_lease :: "(string \<Rightarrow> string) \<Rightarrow> trust_db \<Rightarrow> string \<Rightarrow> admission \<Rightarrow> lease res" where
  "load_lease H db lease_id adm =
     bindE (orRaise (select lr_lease_id lease_id (t_leases db)) (PermissionError ''CURRENT_LEASE_NOT_FOUND''))
      (\<lambda>row.
     bindE (decode_lease H row) (\<lambda>l.
     thenE (lease_bound_to l adm) (Inr l)))"

definition assert_state_bound :: "lease_service \<Rightarrow> epoch_state \<Rightarrow> admission \<Rightarrow> unit res" where
  "assert_state_bound svc s adm =
     thenE (guardE
       ((es_admission_id s, es_admission_digest s, es_execution_id s, es_workspace_id s, es_environment s,
         es_execution_capsule_digest s, es_runner_class s, es_authority_revision s) =
        (ad_admission_id adm, ad_admission_digest adm, ad_execution_id adm, ad_workspace_id adm,
         ad_environment adm, ad_execution_capsule_digest adm, ad_runner_class adm, ls_authority_revision svc))
       (PermissionError ''EPOCH_STATE_BINDING_INVALID''))
      (guardE (es_status s \<in> {''ACTIVE'', ''COMPLETED''}) (PermissionError ''EPOCH_STATE_INVALID''))"

definition assert_state_matches_lease :: "epoch_state \<Rightarrow> lease \<Rightarrow> unit res" where
  "assert_state_matches_lease s l =
     guardE
       ((es_current_epoch s, es_current_lease_id s, es_current_lease_digest s,
         es_current_lease_acquired_at s, es_current_lease_expires_at s) =
        (le_execution_epoch l, le_lease_id l, le_lease_digest l, le_acquired_at l, le_expires_at l))
       (PermissionError ''EPOCH_STATE_LEASE_BINDING_INVALID'')"

subsection \<open>Acquiring an epoch\<close>

definition first_epoch_state :: "admission \<Rightarrow> lease \<Rightarrow> string \<Rightarrow> string \<Rightarrow> epoch_state" where
  "first_epoch_state adm l authority_revision observed_at =
     \<lparr>es_admission_id = ad_admission_id adm, es_admission_digest = ad_admission_digest adm,
      es_execution_id = ad_execution_id adm, es_workspace_id = ad_workspace_id adm,
      es_environment = ad_environment adm,
      es_execution_capsule_digest = ad_execution_capsule_digest adm,
      es_runner_class = ad_runner_class adm, es_current_epoch = le_execution_epoch l,
      es_current_lease_id = le_lease_id l, es_current_lease_digest = le_lease_digest l,
      es_current_lease_acquired_at = le_acquired_at l, es_current_lease_expires_at = le_expires_at l,
      es_status = ''ACTIVE'', es_completion_digest = None, es_completed_at = None,
      es_completion_clock_witness_digest = None, es_completion_clock_witness_json = None,
      es_authority_revision = authority_revision, es_updated_at = observed_at\<rparr>"

definition reacquired :: "lease \<Rightarrow> string \<Rightarrow> epoch_state \<Rightarrow> epoch_state" where
  "reacquired l observed_at s =
     s\<lparr>es_current_epoch := le_execution_epoch l, es_current_lease_id := le_lease_id l,
       es_current_lease_digest := le_lease_digest l, es_current_lease_acquired_at := le_acquired_at l,
       es_current_lease_expires_at := le_expires_at l, es_updated_at := observed_at\<rparr>"

text \<open>The previous lease, when the admission has an epoch state: it must be expired.\<close>

definition previous_lease ::
  "(string \<Rightarrow> string) \<Rightarrow> lease_service \<Rightarrow> trust_db \<Rightarrow> admission \<Rightarrow> clock_witness \<Rightarrow>
   (int \<times> lease) option res" where
  "previous_lease H svc db adm clock =
     (case select es_admission_id (ad_admission_id adm) (t_epochs db) of
        None \<Rightarrow> Inr None
      | Some s \<Rightarrow>
          thenE (assert_state_bound svc s adm)
         (thenE (guardE (es_status s \<noteq> ''COMPLETED'') (PermissionError ''EXECUTION_ALREADY_COMPLETED''))
         (bindE (load_lease H db (es_current_lease_id s) adm) (\<lambda>l.
          thenE (assert_state_matches_lease s l)
         (thenE (guardE (\<not> ck_observed_at clock < le_expires_at l) (PermissionError ''LEASE_STILL_ACTIVE''))
           (Inr (Some (es_current_epoch s, l))))))))"

definition acquire ::
  "(string \<Rightarrow> string) \<Rightarrow> lease_service \<Rightarrow> trust_db \<Rightarrow> clock_reading \<Rightarrow> string \<Rightarrow>
   ((string \<times> lease) \<times> trust_db) res" where
  "acquire H svc db reading admission_id =
     bindE (require_digest ''admission_id'' (JStr admission_id)) (\<lambda>_.
     bindE (orRaise (select ib_admission_id admission_id (t_inbox db)) (PermissionError ''ADMISSION_NOT_FOUND''))
      (\<lambda>admission_row.
     bindE (decode_admission H ''ADMISSION_ROW_INVALID'' admission_row) (\<lambda>adm.
     bindE (clock_authority_witness H (ls_clock svc) reading (ad_environment adm)) (\<lambda>clock.
     bindE (previous_lease H svc db adm clock) (\<lambda>previous.
     let candidate_epoch = (case previous of None \<Rightarrow> 1 | Some (e, _) \<Rightarrow> e + 1) in
     thenE (assert_next_execution_epoch (map_option fst previous) candidate_epoch)
    (bindE (lease_create_candidate H adm candidate_epoch clock (ls_lease_seconds svc) (ls_lease_revision svc)) (\<lambda>l.
     bindE (catchE is_IntegrityError (insert_lease db (lease_row_of l clock))
        (PermissionError ''LEASE_PERSISTENCE_CONFLICT'')) (\<lambda>db1.
     case previous of
       None \<Rightarrow>
         bindE (catchE is_IntegrityError
            (insert_epoch_state db1 (first_epoch_state adm l (ls_authority_revision svc) (ck_observed_at clock)))
            (PermissionError ''EPOCH_STATE_PERSISTENCE_CONFLICT'')) (\<lambda>db2.
         Inr ((''LEASE_ACQUIRED'', l), db2))
     | Some (_, p) \<Rightarrow>
         bindE (update_epoch_state db1
            (state_selected (ad_admission_id adm) (le_execution_epoch p) (le_lease_id p) (le_lease_digest p))
            (reacquired l (ck_observed_at clock))) (\<lambda>(updated, db2).
         thenE (guardE updated (PermissionError ''EPOCH_STATE_CHANGED_DURING_REACQUIRE''))
           (Inr ((''LEASE_REACQUIRED'', l), db2)))))))))))"

subsection \<open>Completing an epoch\<close>

definition completed_with :: "string \<Rightarrow> clock_witness \<Rightarrow> epoch_state \<Rightarrow> epoch_state" where
  "completed_with completion clock s =
     s\<lparr>es_status := ''COMPLETED'', es_completion_digest := Some completion,
       es_completed_at := Some (ck_observed_at clock),
       es_completion_clock_witness_digest := Some (ck_witness_digest clock),
       es_completion_clock_witness_json := Some (canonical_json (JObj (clock_witness_to_dict clock))),
       es_updated_at := ck_observed_at clock\<rparr>"

text \<open>The lease, its admission and the epoch state that \<open>complete\<close> resolves before it decides.\<close>

definition completion_target ::
  "(string \<Rightarrow> string) \<Rightarrow> lease_service \<Rightarrow> trust_db \<Rightarrow> string \<Rightarrow> (lease \<times> epoch_state) res" where
  "completion_target H svc db lease_id =
     bindE (orRaise (select lr_lease_id lease_id (t_leases db)) (PermissionError ''LEASE_NOT_FOUND'')) (\<lambda>lease_row.
     bindE (decode_lease H lease_row) (\<lambda>l.
     bindE (orRaise (select ib_admission_id (le_admission_id l) (t_inbox db)) (PermissionError ''ADMISSION_NOT_FOUND''))
      (\<lambda>admission_row.
     bindE (decode_admission H ''ADMISSION_ROW_INVALID'' admission_row) (\<lambda>adm.
     thenE (lease_bound_to l adm)
    (bindE (orRaise (select es_admission_id (le_admission_id l) (t_epochs db)) (PermissionError ''EPOCH_STATE_NOT_FOUND''))
      (\<lambda>s.
     thenE (assert_state_bound svc s adm)
      (Inr (l, s))))))))"

definition complete ::
  "(string \<Rightarrow> string) \<Rightarrow> lease_service \<Rightarrow> trust_db \<Rightarrow> clock_reading \<Rightarrow> string \<Rightarrow> string \<Rightarrow>
   ((string \<times> lease \<times> string) \<times> trust_db) res" where
  "complete H svc db reading lease_id completion_digest =
     bindE (require_digest ''lease_id'' (JStr lease_id)) (\<lambda>_.
     bindE (require_digest ''completion_digest'' (JStr completion_digest)) (\<lambda>completion.
     bindE (completion_target H svc db lease_id) (\<lambda>(l, s).
     if es_current_epoch s \<noteq> le_execution_epoch l then
       bindE (clock_authority_witness H (ls_clock svc) reading (le_environment l)) (\<lambda>clock.
       bindE (lease_completion_fence l (es_current_epoch s) clock) (\<lambda>_.
       Inl (PermissionError ''CURRENT_LEASE_ID_MISMATCH'')))
     else
       thenE (guardE (es_current_lease_id s = le_lease_id l) (PermissionError ''CURRENT_LEASE_ID_MISMATCH''))
      (thenE (assert_state_matches_lease s l)
      (if es_status s = ''COMPLETED'' then
         thenE (guardE (es_completion_digest s = Some completion)
            (CompletionConflict ''COMPLETION_DIGEST_CONFLICT''))
          (Inr ((''DUPLICATE_COMPLETION'', l, completion), db))
       else
         bindE (clock_authority_witness H (ls_clock svc) reading (le_environment l)) (\<lambda>clock.
         bindE (lease_completion_fence l (es_current_epoch s) clock) (\<lambda>_.
         bindE (update_epoch_state db
            (state_selected (le_admission_id l) (le_execution_epoch l) (le_lease_id l) (le_lease_digest l))
            (completed_with completion clock)) (\<lambda>(updated, db').
         thenE (guardE updated (PermissionError ''EPOCH_STATE_CHANGED_DURING_COMPLETION''))
           (Inr ((''COMPLETED'', l, completion), db'))))))))))"

subsection \<open>Rows that decode\<close>

definition lease_row_ok :: "(string \<Rightarrow> string) \<Rightarrow> lease_row \<Rightarrow> bool" where
  "lease_row_ok H r \<longleftrightarrow> lease_ok H (lr_cols r)
     \<and> lr_lease_json r = canonical_json (JObj (lease_to_dict (lr_cols r)))
     \<and> (\<exists>v. json_loads (lr_clock_witness_json r) = Some v
          \<and> witness_digest_is v (le_clock_witness_digest (lr_cols r))
          \<and> lr_clock_witness_json r = canonical_json v)"

lemma lease_stored: "canonical_json (JObj (lease_to_dict c)) = lease.stored c"
  by (simp add: lease.stored_def lease_dict_eq)

lemma decode_lease_iff: "decode_lease H r = Inr l \<longleftrightarrow> l = lr_cols r \<and> lease_row_ok H r"
proof
  assume "decode_lease H r = Inr l"
  then show "l = lr_cols r \<and> lease_row_ok H r"
    by (auto simp: decode_lease_def res_simps lease_row_ok_def lease_from_dict_def dest: lease.from_dict_ok)
next
  assume "l = lr_cols r \<and> lease_row_ok H r"
  then show "decode_lease H r = Inr l"
    using lease.decode_stored [of H "lr_cols r"]
    by (auto simp: decode_lease_def res_simps lease_row_ok_def lease_from_dict_def lease_stored)
qed

lemma clock_dict_flat: "flat (clock_witness_to_dict w)"
  by (simp add: flat_def clock_witness_to_dict_def clock_witness_claims_def)

lemma lease_row_of_ok:
  assumes "lease_ok H l" and "le_clock_witness_digest l = ck_witness_digest clock"
  shows "lease_row_ok H (lease_row_of l clock)"
proof -
  let ?kvs = "clock_witness_to_dict clock"
  have "map_of (sort_key fst ?kvs) ''witness_digest'' = Some (JStr (ck_witness_digest clock))"
    using clock_dict_flat [of clock]
    by (simp add: map_of_sort flat_def) (simp add: clock_witness_to_dict_def clock_witness_claims_def)
  then show ?thesis
    using assms json_loads_flat [OF clock_dict_flat] canonical_json_flat_sorted [OF clock_dict_flat]
    by (simp add: lease_row_ok_def lease_row_of_def witness_digest_is_def)
qed

subsection \<open>Effects of the writes\<close>

lemma insert_lease_eq_Inr:
  assumes "insert_lease db r = Inr db'"
  shows "db' = db\<lparr>t_leases := t_leases db @ [r]\<rparr>" and "key_free lr_lease_id (lr_lease_id r) (t_leases db)"
    and "key_free lr_slot (lr_slot r) (t_leases db)"
  using assms by (auto simp: insert_lease_def Let_def res_simps)

lemma insert_epoch_state_eq_Inr:
  assumes "insert_epoch_state db s = Inr db'"
  shows "db' = db\<lparr>t_epochs := t_epochs db @ [s]\<rparr>" and "key_free es_admission_id (es_admission_id s) (t_epochs db)"
  using assms by (auto simp: insert_epoch_state_def res_simps)

lemma update_epoch_state_eq_True:
  assumes "update_epoch_state db sel f = Inr (True, db')"
  shows "\<exists>old. List.find sel (t_epochs db) = Some old \<and> update_guard db old (f old)
     \<and> db' = db\<lparr>t_epochs := update_where sel f (t_epochs db)\<rparr>"
  using assms by (auto simp: update_epoch_state_def Let_def res_simps split: option.splits)

subsection \<open>The ways the operations return\<close>

lemma previous_lease_None:
  "previous_lease H svc db adm clock = Inr None \<longleftrightarrow>
     select es_admission_id (ad_admission_id adm) (t_epochs db) = None"
  by (auto simp: previous_lease_def res_simps split: option.splits)

lemma previous_lease_Some:
  assumes "previous_lease H svc db adm clock = Inr (Some (e, p))"
  obtains s row where "select es_admission_id (ad_admission_id adm) (t_epochs db) = Some s"
    "es_status s = ''ACTIVE''" "es_current_epoch s = e" "assert_state_bound svc s adm = Inr ()"
    "select lr_lease_id (es_current_lease_id s) (t_leases db) = Some row" "lease_row_ok H row"
    "p = lr_cols row" "lease_bound_to p adm = Inr ()" "assert_state_matches_lease s p = Inr ()"
    "le_expires_at p \<le> ck_observed_at clock"
  using assms
  by (cases "select es_admission_id (ad_admission_id adm) (t_epochs db)")
    (auto simp: previous_lease_def load_lease_def assert_state_bound_def res_simps decode_lease_iff)

lemma acquire_cases:
  assumes "acquire H svc db reading aid = Inr ((outcome, l), db')"
  obtains (first) row clock db1 where "outcome = ''LEASE_ACQUIRED''"
      "select ib_admission_id aid (t_inbox db) = Some row" "inbox_row_ok H row"
      "clock_authority_witness H (ls_clock svc) reading (ad_environment (ib_cols row)) = Inr clock"
      "select es_admission_id aid (t_epochs db) = None"
      "lease_create_candidate H (ib_cols row) 1 clock (ls_lease_seconds svc) (ls_lease_revision svc) = Inr l"
      "insert_lease db (lease_row_of l clock) = Inr db1"
      "insert_epoch_state db1 (first_epoch_state (ib_cols row) l (ls_authority_revision svc) (ck_observed_at clock)) = Inr db'"
  | (again) row clock db1 s p where "outcome = ''LEASE_REACQUIRED''"
      "select ib_admission_id aid (t_inbox db) = Some row" "inbox_row_ok H row"
      "clock_authority_witness H (ls_clock svc) reading (ad_environment (ib_cols row)) = Inr clock"
      "select es_admission_id aid (t_epochs db) = Some s"
      "previous_lease H svc db (ib_cols row) clock = Inr (Some (es_current_epoch s, p))"
      "lease_create_candidate H (ib_cols row) (es_current_epoch s + 1) clock (ls_lease_seconds svc)
         (ls_lease_revision svc) = Inr l"
      "insert_lease db (lease_row_of l clock) = Inr db1"
      "update_epoch_state db1 (state_selected aid (le_execution_epoch p) (le_lease_id p) (le_lease_digest p))
         (reacquired l (ck_observed_at clock)) = Inr (True, db')"
proof -
  obtain row where row: "select ib_admission_id aid (t_inbox db) = Some row" "inbox_row_ok H row"
    using assms by (auto simp: acquire_def bindE_eq_Inr orRaise_eq_Inr decode_admission_iff)
  then have dec: "decode_admission H ''ADMISSION_ROW_INVALID'' row = Inr (ib_cols row)"
    and aid: "ad_admission_id (ib_cols row) = aid"
    using select_Some_D by (fastforce simp: decode_admission_iff)+
  obtain clock previous where clock:
      "clock_authority_witness H (ls_clock svc) reading (ad_environment (ib_cols row)) = Inr clock"
    and prev: "previous_lease H svc db (ib_cols row) clock = Inr previous"
    using assms by (auto simp: acquire_def bindE_eq_Inr orRaise_eq_Inr row(1) dec)
  have dig: "require_digest ''admission_id'' (JStr aid) = Inr aid"
    using assms by (auto simp: acquire_def bindE_eq_Inr require_digest_eq_Inr)
  have rest: "bindE (lease_create_candidate H (ib_cols row) (case previous of None \<Rightarrow> 1 | Some (e, _) \<Rightarrow> e + 1)
        clock (ls_lease_seconds svc) (ls_lease_revision svc)) (\<lambda>l.
      bindE (catchE is_IntegrityError (insert_lease db (lease_row_of l clock))
        (PermissionError ''LEASE_PERSISTENCE_CONFLICT'')) (\<lambda>db1.
      case previous of
       None \<Rightarrow>
         bindE (catchE is_IntegrityError
            (insert_epoch_state db1 (first_epoch_state (ib_cols row) l (ls_authority_revision svc) (ck_observed_at clock)))
            (PermissionError ''EPOCH_STATE_PERSISTENCE_CONFLICT'')) (\<lambda>db2.
         Inr ((''LEASE_ACQUIRED'', l), db2))
     | Some (_, p) \<Rightarrow>
         bindE (update_epoch_state db1
            (state_selected aid (le_execution_epoch p) (le_lease_id p) (le_lease_digest p))
            (reacquired l (ck_observed_at clock))) (\<lambda>(updated, db2).
         thenE (guardE updated (PermissionError ''EPOCH_STATE_CHANGED_DURING_REACQUIRE''))
           (Inr ((''LEASE_REACQUIRED'', l), db2))))) = Inr ((outcome, l), db')"
    using assms unfolding acquire_def dig row(1) bindE_Inr orRaise_Some dec clock prev Let_def aid
    by (simp only: thenE_eq_Inr)
  show thesis
  proof (cases previous)
    case None
    then have "select es_admission_id aid (t_epochs db) = None"
      using prev by (simp add: previous_lease_None aid)
    then show thesis using rest None row clock first
      by (auto simp: bindE_eq_Inr catchE_eq_Inr)
  next
    case (Some ep)
    then obtain s where s: "select es_admission_id aid (t_epochs db) = Some s" "es_current_epoch s = fst ep"
      using prev previous_lease_Some [of H svc db "ib_cols row" clock "fst ep" "snd ep"] aid by auto
    then show thesis using rest Some row clock prev again
      by (cases ep) (auto simp: bindE_eq_Inr catchE_eq_Inr thenE_eq_Inr guardE_eq_Inr)
  qed
qed

lemma completion_target_eq_Inr:
  assumes "completion_target H svc db lid = Inr (l, s)"
  obtains row arow where "select lr_lease_id lid (t_leases db) = Some row" "lease_row_ok H row" "l = lr_cols row"
    "le_lease_id l = lid" "select ib_admission_id (le_admission_id l) (t_inbox db) = Some arow" "inbox_row_ok H arow"
    "lease_bound_to l (ib_cols arow) = Inr ()" "select es_admission_id (le_admission_id l) (t_epochs db) = Some s"
    "assert_state_bound svc s (ib_cols arow) = Inr ()"
  using assms
  by (auto simp: completion_target_def bindE_eq_Inr orRaise_eq_Inr thenE_eq_Inr decode_lease_iff
      decode_admission_iff dest: select_Some_D)

lemma complete_cases:
  assumes "complete H svc db reading lid digest = Inr ((outcome, l, c), db')"
  obtains (duplicate) s where "outcome = ''DUPLICATE_COMPLETION''" "db' = db" "c = digest" "digest_ok digest"
      "completion_target H svc db lid = Inr (l, s)" "assert_state_matches_lease s l = Inr ()"
      "es_status s = ''COMPLETED''" "es_completion_digest s = Some digest"
  | (recorded) s clock where "outcome = ''COMPLETED''" "c = digest" "digest_ok digest"
      "completion_target H svc db lid = Inr (l, s)" "assert_state_matches_lease s l = Inr ()"
      "es_status s \<noteq> ''COMPLETED''"
      "clock_authority_witness H (ls_clock svc) reading (le_environment l) = Inr clock"
      "lease_completion_fence l (es_current_epoch s) clock = Inr ''FENCE_CURRENT''"
      "update_epoch_state db
         (state_selected (le_admission_id l) (le_execution_epoch l) (le_lease_id l) (le_lease_digest l))
         (completed_with digest clock) = Inr (True, db')"
proof -
  obtain l1 s where dig: "digest_ok lid" "digest_ok digest" and tgt: "completion_target H svc db lid = Inr (l1, s)"
    using assms by (auto simp: complete_def bindE_eq_Inr require_digest_eq_Inr)
  have d: "require_digest ''lease_id'' (JStr lid) = Inr lid"
      "require_digest ''completion_digest'' (JStr digest) = Inr digest"
    using dig by (simp_all add: require_digest_eq_Inr)
  note rest = assms [unfolded complete_def d tgt bindE_Inr prod.case]
  have e: "es_current_epoch s = le_execution_epoch l1"
    using rest by (auto simp: bindE_eq_Inr split: if_splits)
  then have m: "assert_state_matches_lease s l1 = Inr ()"
    using rest by (simp add: thenE_eq_Inr)
  show thesis
  proof (cases "es_status s = ''COMPLETED''")
    case True
    then show thesis using rest e m dig tgt duplicate by (auto simp: thenE_eq_Inr guardE_eq_Inr)
  next
    case False
    then obtain clock r where "clock_authority_witness H (ls_clock svc) reading (le_environment l1) = Inr clock"
        "lease_completion_fence l1 (es_current_epoch s) clock = Inr r"
        "update_epoch_state db
         (state_selected (le_admission_id l1) (le_execution_epoch l1) (le_lease_id l1) (le_lease_digest l1))
         (completed_with digest clock) = Inr (True, db')"
        "outcome = ''COMPLETED''" "l = l1" "c = digest"
      using rest e m by (auto simp: thenE_eq_Inr guardE_eq_Inr bindE_eq_Inr)
    moreover from this have "r = ''FENCE_CURRENT''"
      by (auto simp: lease_completion_fence_def res_simps)
    ultimately show thesis using False e m dig tgt recorded by blast
  qed
qed

end
