(* ===== verification/Lease_Invariant.thy ===== *)
theory Lease_Invariant
  imports Lease_Store
begin

text \<open>
  The invariant of the inbox, lease and epoch tables and its preservation by \<open>admit\<close>, \<open>acquire\<close> and
  \<open>complete\<close>, the only operations that write them.
\<close>

subsection \<open>The invariant of the delivery tables\<close>

text \<open>An epoch state names its current lease, no lease of the admission is newer, every epoch up to
  the current one was given out, and a completion happened inside the current lease.\<close>

definition epoch_ok :: "trust_db \<Rightarrow> epoch_state \<Rightarrow> bool" where
  "epoch_ok db s \<longleftrightarrow>
     (\<exists>r \<in> set (t_leases db). assert_state_matches_lease s (lr_cols r) = Inr ()
        \<and> le_admission_id (lr_cols r) = es_admission_id s)
     \<and> (\<forall>r \<in> set (t_leases db). le_admission_id (lr_cols r) = es_admission_id s \<longrightarrow>
          le_execution_epoch (lr_cols r) \<le> es_current_epoch s)
     \<and> (\<forall>e. 1 \<le> e \<and> e \<le> es_current_epoch s \<longrightarrow> (es_admission_id s, e) \<in> lr_slot ` set (t_leases db))
     \<and> (es_status s = ''ACTIVE'' \<and> es_completion_digest s = None \<and> es_completed_at s = None
        \<or> es_status s = ''COMPLETED'' \<and> es_completion_digest s \<noteq> None
          \<and> (\<exists>t. es_completed_at s = Some t \<and> time_ok t
               \<and> instant_at (es_current_lease_acquired_at s) \<le> instant_at t
               \<and> instant_at t < instant_at (es_current_lease_expires_at s)))"

definition inbox_inv :: "(string \<Rightarrow> string) \<Rightarrow> trust_db \<Rightarrow> bool" where
  "inbox_inv H db \<longleftrightarrow>
     unique_on ib_admission_id (t_inbox db) \<and> unique_on ib_dispatch_id (t_inbox db)
     \<and> unique_on (\<lambda>r. ad_outbox_id (ib_cols r)) (t_inbox db) \<and> list_all (inbox_row_ok H) (t_inbox db)"

definition lease_inv :: "(string \<Rightarrow> string) \<Rightarrow> trust_db \<Rightarrow> bool" where
  "lease_inv H db \<longleftrightarrow>
     unique_on lr_lease_id (t_leases db) \<and> unique_on lr_slot (t_leases db)
     \<and> list_all (lease_row_ok H) (t_leases db)
     \<and> (\<forall>r \<in> set (t_leases db). \<forall>r' \<in> set (t_leases db).
          le_admission_id (lr_cols r) = le_admission_id (lr_cols r')
          \<and> le_execution_epoch (lr_cols r) < le_execution_epoch (lr_cols r') \<longrightarrow>
          instant_at (le_expires_at (lr_cols r)) \<le> instant_at (le_acquired_at (lr_cols r')))"

definition epochs_inv :: "trust_db \<Rightarrow> bool" where
  "epochs_inv db \<longleftrightarrow>
     unique_on es_admission_id (t_epochs db) \<and> (\<forall>s \<in> set (t_epochs db). epoch_ok db s)
     \<and> (\<forall>r \<in> set (t_leases db). le_admission_id (lr_cols r) \<in> es_admission_id ` set (t_epochs db))"

definition delivery_inv :: "(string \<Rightarrow> string) \<Rightarrow> trust_db \<Rightarrow> bool" where
  "delivery_inv H db \<longleftrightarrow> inbox_inv H db \<and> lease_inv H db \<and> epochs_inv db"

lemma epoch_ok_cong:
  "t_leases db' = t_leases db \<Longrightarrow> epoch_ok db' s = epoch_ok db s"
  by (simp add: epoch_ok_def)

lemma epochs_inv_cong:
  "t_leases db' = t_leases db \<Longrightarrow> t_epochs db' = t_epochs db \<Longrightarrow> epochs_inv db' = epochs_inv db"
  by (simp add: epochs_inv_def epoch_ok_cong [of db' db])

lemma lease_inv_cong: "t_leases db' = t_leases db \<Longrightarrow> lease_inv H db' = lease_inv H db"
  by (simp add: lease_inv_def)

lemma inbox_inv_cong: "t_inbox db' = t_inbox db \<Longrightarrow> inbox_inv H db' = inbox_inv H db"
  by (simp add: inbox_inv_def)

lemma matches_lease_iff:
  "assert_state_matches_lease s l = Inr u \<longleftrightarrow>
     es_current_epoch s = le_execution_epoch l \<and> es_current_lease_id s = le_lease_id l
     \<and> es_current_lease_digest s = le_lease_digest l
     \<and> es_current_lease_acquired_at s = le_acquired_at l \<and> es_current_lease_expires_at s = le_expires_at l"
  by (auto simp: assert_state_matches_lease_def guardE_eq_Inr)

lemma admit_preserves_inv:
  assumes "delivery_inv H db" and "admit H rv db env = Inr (r, db')"
  shows "delivery_inv H db'"
proof -
  obtain outcome adm where r: "r = (outcome, adm)" by (cases r)
  from assms(2) [unfolded r] show ?thesis
  proof (cases rule: admit_cases)
    case (first row)
    have db': "db' = db\<lparr>t_inbox := t_inbox db @ [inbox_row_of adm]\<rparr>"
      using first(6) by (rule insert_inbox_eq_Inr)
    have "admission_ok H adm" using admission_create_eq_Inr [OF first(5)] by simp
    then have "inbox_row_ok H (inbox_row_of adm)" by (simp add: inbox_row_ok_def inbox_row_of_def)
    then have "inbox_inv H db'"
      using assms(1) insert_inbox_unique [OF first(6)]
      by (simp add: delivery_inv_def inbox_inv_def db' unique_on_snoc)
    then show ?thesis
      using assms(1) epochs_inv_cong [of db' db] lease_inv_cong [of db' db] by (simp add: delivery_inv_def db')
  next
    case (again row erow)
    then show ?thesis using assms(1) by simp
  qed
qed

lemma set_update_unique:
  assumes "unique_on key rows" and "List.find sel rows = Some old" and "\<And>r. sel r \<Longrightarrow> key r = key old"
  shows "set (update_where sel f rows) = insert (f old) (set rows - {old})"
proof -
  have old: "old \<in> set rows" "sel old" using assms(2) by (auto simp: find_Some_iff)
  have only: "r = old" if "r \<in> set rows" "sel r" for r
    using unique_on_eqI [OF assms(1) that(1) old(1) assms(3) [OF that(2)]] .
  have "{r \<in> set rows. sel r} = {old}" using only old by blast
  moreover have "{r \<in> set rows. \<not> sel r} = set rows - {old}" using only old by blast
  ultimately show ?thesis by (simp only: set_update_where image_insert image_empty) simp
qed

lemma epoch_ok_extend:
  assumes "epoch_ok db s" and "t_leases db' = t_leases db @ [r]" and "le_admission_id (lr_cols r) \<noteq> es_admission_id s"
  shows "epoch_ok db' s"
  using assms by (auto simp: epoch_ok_def)

lemma lease_inv_extend:
  assumes "lease_inv H db" and "t_leases db' = t_leases db @ [r]" and "lease_row_ok H r"
    and "key_free lr_lease_id (lr_lease_id r) (t_leases db)" and "key_free lr_slot (lr_slot r) (t_leases db)"
    and "\<And>q. q \<in> set (t_leases db) \<Longrightarrow> le_admission_id (lr_cols q) = le_admission_id (lr_cols r) \<Longrightarrow>
       le_execution_epoch (lr_cols q) < le_execution_epoch (lr_cols r)
       \<and> instant_at (le_expires_at (lr_cols q)) \<le> instant_at (le_acquired_at (lr_cols r))"
  shows "lease_inv H db'"
proof -
  have 1: "lease_inv H db" by (rule assms(1))
  show ?thesis unfolding lease_inv_def assms(2)
  proof (intro conjI ballI impI)
    show "unique_on lr_lease_id (t_leases db @ [r])" "unique_on lr_slot (t_leases db @ [r])"
      "list_all (lease_row_ok H) (t_leases db @ [r])"
      using 1 assms(3-5) by (simp_all add: lease_inv_def unique_on_snoc)
    fix q q'
    assume q: "q \<in> set (t_leases db @ [r])" "q' \<in> set (t_leases db @ [r])"
      and lt: "le_admission_id (lr_cols q) = le_admission_id (lr_cols q') \<and>
        le_execution_epoch (lr_cols q) < le_execution_epoch (lr_cols q')"
    show "instant_at (le_expires_at (lr_cols q)) \<le> instant_at (le_acquired_at (lr_cols q'))"
    proof (cases "q' \<in> set (t_leases db)")
      case True
      moreover have "q \<in> set (t_leases db)"
        using assms(6) [OF True] q(1) lt by auto
      ultimately show ?thesis using 1 lt by (simp add: lease_inv_def)
    next
      case False
      then have "q' = r" using q(2) by simp
      then show ?thesis using assms(6) [of q] q(1) lt by auto
    qed
  qed
qed

text \<open>What a new lease of an operation \<open>acquire\<close> looks like.\<close>

lemma acquired_row:
  assumes "lease_create_candidate H adm e clock n rv = Inr l" and "insert_lease db (lease_row_of l clock) = Inr db1"
  shows "t_leases db1 = t_leases db @ [lease_row_of l clock]" and "t_epochs db1 = t_epochs db"
    and "t_inbox db1 = t_inbox db" and "t_outbox db1 = t_outbox db"
    and "lease_row_ok H (lease_row_of l clock)" and "lr_cols (lease_row_of l clock) = l"
    and "le_admission_id l = ad_admission_id adm" and "le_execution_epoch l = e"
    and "le_acquired_at l = ck_observed_at clock"
    and "key_free lr_lease_id (le_lease_id l) (t_leases db)"
    and "key_free lr_slot (le_admission_id l, le_execution_epoch l) (t_leases db)"
proof -
  note c = lease_create_candidate_eq_Inr [OF assms(1)]
  show "lr_cols (lease_row_of l clock) = l" by (simp add: lease_row_of_def)
  then show "key_free lr_lease_id (le_lease_id l) (t_leases db)"
    "key_free lr_slot (le_admission_id l, le_execution_epoch l) (t_leases db)"
    using insert_lease_eq_Inr(2,3) [OF assms(2)] by simp_all
  show "t_leases db1 = t_leases db @ [lease_row_of l clock]" "t_epochs db1 = t_epochs db"
    "t_inbox db1 = t_inbox db" "t_outbox db1 = t_outbox db"
    using insert_lease_eq_Inr(1) [OF assms(2)] by simp_all
  show "lease_row_ok H (lease_row_of l clock)" using c by (intro lease_row_of_ok) simp_all
  show "le_admission_id l = ad_admission_id adm" "le_execution_epoch l = e" "le_acquired_at l = ck_observed_at clock"
    using c by (simp_all add: lease_bound_to_iff)
qed

lemma acquire_first_inv:
  assumes inv: "delivery_inv H db" and none: "select es_admission_id (ad_admission_id adm) (t_epochs db) = None"
    and l: "lease_create_candidate H adm 1 clock n rv = Inr l"
    and ins: "insert_lease db (lease_row_of l clock) = Inr db1"
    and es: "insert_epoch_state db1 (first_epoch_state adm l arev obs) = Inr db'"
  shows "delivery_inv H db'"
proof -
  note new = acquired_row [OF l ins]
  let ?s = "first_epoch_state adm l arev obs" and ?r = "lease_row_of l clock"
  have db': "db' = db1\<lparr>t_epochs := t_epochs db @ [?s]\<rparr>"
    using insert_epoch_state_eq_Inr(1) [OF es] new by simp
  have leases: "t_leases db' = t_leases db @ [?r]" and epochs: "t_epochs db' = t_epochs db @ [?s]"
    and inbox: "t_inbox db' = t_inbox db" using new by (simp_all add: db')
  have free: "\<forall>s \<in> set (t_epochs db). es_admission_id s \<noteq> ad_admission_id adm"
    using none by (simp add: select_None_iff key_free_iff)
  have nolease: "le_admission_id (lr_cols q) \<noteq> ad_admission_id adm" if "q \<in> set (t_leases db)" for q
    using inv that free by (fastforce simp: delivery_inv_def epochs_inv_def)
  have "lease_inv H db'"
  proof (rule lease_inv_extend [OF _ leases])
    show "lease_inv H db" using inv by (simp add: delivery_inv_def)
  qed (use new nolease in auto)
  moreover have "epochs_inv db'"
    unfolding epochs_inv_def leases epochs
  proof (intro conjI ballI)
    show "unique_on es_admission_id (t_epochs db @ [?s])"
      using inv free by (simp add: delivery_inv_def epochs_inv_def unique_on_snoc key_free_iff first_epoch_state_def)
    fix s
    assume "s \<in> set (t_epochs db @ [?s])"
    then consider "s \<in> set (t_epochs db)" | "s = ?s" by auto
    then show "epoch_ok db' s"
    proof cases
      case 1
      then show ?thesis
        using inv free new by (intro epoch_ok_extend [OF _ leases]) (auto simp: delivery_inv_def epochs_inv_def)
    next
      case 2
      then show ?thesis
        using new nolease by (auto simp: epoch_ok_def leases first_epoch_state_def matches_lease_iff image_iff)
    qed
  next
    fix q
    assume "q \<in> set (t_leases db @ [?r])"
    then show "le_admission_id (lr_cols q) \<in> es_admission_id ` set (t_epochs db @ [?s])"
      using inv new by (auto simp: delivery_inv_def epochs_inv_def first_epoch_state_def)
  qed
  ultimately show ?thesis using inv inbox_inv_cong [OF inbox] by (simp add: delivery_inv_def)
qed

text \<open>The lease that \<open>acquire\<close> supersedes, and the tables after it.\<close>

lemma previous_lease_current:
  assumes "previous_lease H svc db adm clock = Inr (Some (es_current_epoch s, p))"
    and s: "select es_admission_id (ad_admission_id adm) (t_epochs db) = Some s"
  shows "es_status s = ''ACTIVE'' \<and> assert_state_matches_lease s p = Inr () \<and> lease_ok H p
     \<and> le_admission_id p = ad_admission_id adm \<and> le_expires_at p \<le> ck_observed_at clock
     \<and> (\<exists>prow \<in> set (t_leases db). p = lr_cols prow)"
  using assms(1)
proof (rule previous_lease_Some)
  fix s1 row
  assume "select es_admission_id (ad_admission_id adm) (t_epochs db) = Some s1" "es_status s1 = ''ACTIVE''"
    "select lr_lease_id (es_current_lease_id s1) (t_leases db) = Some row" "lease_row_ok H row" "p = lr_cols row"
    "lease_bound_to p adm = Inr ()" "assert_state_matches_lease s1 p = Inr ()"
    "le_expires_at p \<le> ck_observed_at clock"
  then show ?thesis
    using s select_Some_D [of lr_lease_id _ "t_leases db" row]
    by (auto simp: lease_bound_to_iff lease_row_ok_def)
qed

lemma reacquired_epochs:
  assumes uniq: "unique_on es_admission_id (t_epochs db)"
    and s: "select es_admission_id (ad_admission_id adm) (t_epochs db) = Some s"
    and eq: "t_epochs db1 = t_epochs db"
    and upd: "update_epoch_state db1 (state_selected (ad_admission_id adm) e lid ld) (reacquired l obs) = Inr (True, db')"
  shows "set (t_epochs db') = insert (reacquired l obs s) (set (t_epochs db) - {s})"
    and "unique_on es_admission_id (t_epochs db')" and "t_leases db' = t_leases db1" and "t_inbox db' = t_inbox db1"
    and "s \<in> set (t_epochs db)" and "es_admission_id s = ad_admission_id adm"
proof -
  let ?sel = "state_selected (ad_admission_id adm) e lid ld" and ?f = "reacquired l obs"
  show sin: "s \<in> set (t_epochs db)" "es_admission_id s = ad_admission_id adm"
    using select_Some_D [OF s] by auto
  obtain old where old: "List.find ?sel (t_epochs db) = Some old"
    and db': "db' = db1\<lparr>t_epochs := update_where ?sel ?f (t_epochs db)\<rparr>"
    using update_epoch_state_eq_True [OF upd] eq by auto
  have "old = s"
    using old sin by (intro unique_on_eqI [OF uniq]) (auto simp: find_Some_iff state_selected_def)
  then show "set (t_epochs db') = insert (?f s) (set (t_epochs db) - {s})"
    using set_update_unique [OF uniq old] old by (simp add: db' state_selected_def find_Some_iff sin)
  show "unique_on es_admission_id (t_epochs db')"
    using uniq by (simp add: db' unique_on_update_where reacquired_def)
  show "t_leases db' = t_leases db1" "t_inbox db' = t_inbox db1" by (simp_all add: db')
qed

text \<open>All leases of the admission end before the new one starts.\<close>

lemma earlier_leases_end:
  assumes inv: "delivery_inv H db" and sin: "s \<in> set (t_epochs db)"
    and p: "assert_state_matches_lease s p = Inr ()" "lease_ok H p" "le_admission_id p = es_admission_id s"
      "prow \<in> set (t_leases db)" "p = lr_cols prow"
    and pexp: "instant_at (le_expires_at p) \<le> now"
    and q: "q \<in> set (t_leases db)" "le_admission_id (lr_cols q) = es_admission_id s"
  shows "le_execution_epoch (lr_cols q) < es_current_epoch s + 1
     \<and> instant_at (le_expires_at (lr_cols q)) \<le> now"
proof -
  have m: "le_execution_epoch p = es_current_epoch s" using p(1) by (simp add: matches_lease_iff)
  have le: "le_execution_epoch (lr_cols q) \<le> es_current_epoch s"
    using inv q sin by (auto simp: delivery_inv_def epochs_inv_def epoch_ok_def)
  show ?thesis
  proof (cases "le_execution_epoch (lr_cols q) = es_current_epoch s")
    case True
    then have "q = prow"
      using inv q p m
      by (intro unique_on_eqI [of lr_slot "t_leases db"]) (auto simp: delivery_inv_def lease_inv_def)
    then show ?thesis using pexp p m by simp
  next
    case False
    then have "instant_at (le_expires_at (lr_cols q)) \<le> instant_at (le_acquired_at p)"
      using inv q p m le by (auto simp: delivery_inv_def lease_inv_def)
    then show ?thesis using pexp lease_window(1) [OF p(2)] le by simp
  qed
qed

lemma acquire_again_inv:
  assumes inv: "delivery_inv H db" and s: "select es_admission_id (ad_admission_id adm) (t_epochs db) = Some s"
    and prev: "previous_lease H svc db adm clock = Inr (Some (es_current_epoch s, p))"
    and ck: "time_ok (ck_observed_at clock)"
    and l: "lease_create_candidate H adm (es_current_epoch s + 1) clock n rv = Inr l"
    and ins: "insert_lease db (lease_row_of l clock) = Inr db1"
    and upd: "update_epoch_state db1
       (state_selected (ad_admission_id adm) (le_execution_epoch p) (le_lease_id p) (le_lease_digest p))
       (reacquired l (ck_observed_at clock)) = Inr (True, db')"
  shows "delivery_inv H db'"
proof -
  note new = acquired_row [OF l ins]
  let ?r = "lease_row_of l clock" and ?f = "reacquired l (ck_observed_at clock)"
  have uniq: "unique_on es_admission_id (t_epochs db)" using inv by (simp add: delivery_inv_def epochs_inv_def)
  note set' = reacquired_epochs(1) [OF uniq s new(2) upd] and uniq' = reacquired_epochs(2) [OF uniq s new(2) upd]
    and sin = reacquired_epochs(5,6) [OF uniq s new(2) upd]
  obtain prow where st: "es_status s = ''ACTIVE''" and m: "assert_state_matches_lease s p = Inr ()"
    and pok: "lease_ok H p" "le_admission_id p = es_admission_id s" and prow: "prow \<in> set (t_leases db)" "p = lr_cols prow"
    and late: "le_expires_at p \<le> ck_observed_at clock"
    using previous_lease_current [OF prev s] sin by auto
  have leases: "t_leases db' = t_leases db @ [?r]" and inbox: "t_inbox db' = t_inbox db"
    using new reacquired_epochs(3,4) [OF uniq s new(2) upd] by simp_all
  have "instant_at (le_expires_at p) \<le> instant_at (le_acquired_at l)"
    using late pok ck new(9) by (simp add: lease_ok_def time_text_le)
  note earlier = earlier_leases_end [OF inv sin(1) m pok prow this, unfolded sin(2)]
  have "lease_inv H db'"
  proof (rule lease_inv_extend [OF _ leases])
    show "lease_inv H db" using inv by (simp add: delivery_inv_def)
  qed (use new earlier in auto)
  moreover have "epochs_inv db'"
    unfolding epochs_inv_def
  proof (intro conjI ballI)
    show "unique_on es_admission_id (t_epochs db')" by (rule uniq')
    fix s'
    assume "s' \<in> set (t_epochs db')"
    then consider "s' \<in> set (t_epochs db)" "s' \<noteq> s" | "s' = ?f s" unfolding set' by auto
    then show "epoch_ok db' s'"
    proof cases
      case 1
      then have "es_admission_id s' \<noteq> es_admission_id s" using uniq sin(1) unique_on_eqI by metis
      then show ?thesis
        using inv new sin 1 by (intro epoch_ok_extend [OF _ leases]) (auto simp: delivery_inv_def epochs_inv_def)
    next
      case 2
      have ok: "epoch_ok db s" using inv sin by (simp add: delivery_inv_def epochs_inv_def)
      have slots: "(ad_admission_id adm, e) \<in> lr_slot ` set (t_leases db')"
        if "1 \<le> e" "e \<le> es_current_epoch s + 1" for e
        using that ok sin new by (cases "e = es_current_epoch s + 1") (auto simp: epoch_ok_def leases image_iff)
      show ?thesis
        using 2 ok st sin new earlier slots
        by (auto simp: epoch_ok_def leases reacquired_def matches_lease_iff)
    qed
  next
    fix q
    assume "q \<in> set (t_leases db')"
    then have "le_admission_id (lr_cols q) \<in> es_admission_id ` set (t_epochs db)"
      using inv new(6,7) sin(1) sin(2) [symmetric]
      by (auto simp: leases delivery_inv_def epochs_inv_def)
    then show "le_admission_id (lr_cols q) \<in> es_admission_id ` set (t_epochs db')"
      unfolding set' by (auto simp: reacquired_def)
  qed
  ultimately show ?thesis using inv inbox_inv_cong [OF inbox] by (simp add: delivery_inv_def)
qed

lemma acquire_preserves_inv:
  assumes "delivery_inv H db" and "acquire H svc db reading aid = Inr (r, db')"
  shows "delivery_inv H db'"
proof -
  obtain outcome l where r: "r = (outcome, l)" by (cases r)
  from assms(2) [unfolded r] show ?thesis
  proof (cases rule: acquire_cases)
    case (first row clock db1)
    then have "ad_admission_id (ib_cols row) = aid" by (auto dest: select_Some_D)
    then show ?thesis using first acquire_first_inv [OF assms(1)] by blast
  next
    case (again row clock db1 s p)
    then have aid: "ad_admission_id (ib_cols row) = aid" by (auto dest: select_Some_D)
    have "time_ok (ck_observed_at clock)"
      using clock_authority_witness_eq_Inr [OF again(4)] by (auto simp: clock_witness_ok_def)
    then show ?thesis using again(5-9) acquire_again_inv [OF assms(1)] aid by blast
  qed
qed

text \<open>The state a successful completion writes.\<close>

lemma completed_state:
  assumes "delivery_inv H db"
    and tgt: "completion_target H svc db lid = Inr (l, s)" and m: "assert_state_matches_lease s l = Inr ()"
    and upd: "update_epoch_state db
         (state_selected (le_admission_id l) (le_execution_epoch l) (le_lease_id l) (le_lease_digest l))
         f = Inr (True, db')"
    and keep: "\<And>s. es_admission_id (f s) = es_admission_id s"
  shows "set (t_epochs db') = insert (f s) (set (t_epochs db) - {s})"
    and "unique_on es_admission_id (t_epochs db')" and "s \<in> set (t_epochs db)"
    and "es_admission_id s = le_admission_id l" and "t_leases db' = t_leases db" and "t_inbox db' = t_inbox db"
    and "es_status s = ''ACTIVE''"
proof -
  let ?sel = "state_selected (le_admission_id l) (le_execution_epoch l) (le_lease_id l) (le_lease_digest l)"
  show sin: "s \<in> set (t_epochs db)" "es_admission_id s = le_admission_id l"
    using tgt by (auto elim!: completion_target_eq_Inr dest!: select_Some_D)
  have uniq: "unique_on es_admission_id (t_epochs db)"
    using assms(1) by (simp add: delivery_inv_def epochs_inv_def)
  obtain old where old: "List.find ?sel (t_epochs db) = Some old"
    and db': "db' = db\<lparr>t_epochs := update_where ?sel f (t_epochs db)\<rparr>"
    using update_epoch_state_eq_True [OF upd] by auto
  have "old = s"
    using old sin by (intro unique_on_eqI [OF uniq]) (auto simp: find_Some_iff state_selected_def)
  then show "es_status s = ''ACTIVE''" using old by (auto simp: find_Some_iff state_selected_def)
  show "set (t_epochs db') = insert (f s) (set (t_epochs db) - {s})"
    using set_update_unique [OF uniq old] old sin \<open>old = s\<close> by (simp add: db' state_selected_def)
  show "unique_on es_admission_id (t_epochs db')"
    using uniq keep by (simp add: db' unique_on_update_where)
  show "t_leases db' = t_leases db" "t_inbox db' = t_inbox db" by (simp_all add: db')
qed

lemma complete_preserves_inv:
  assumes inv: "delivery_inv H db" and "complete H svc db reading lid digest = Inr (r, db')"
  shows "delivery_inv H db'"
proof -
  obtain outcome l c where r: "r = (outcome, l, c)" by (metis prod_cases3)
  from assms(2) [unfolded r] show ?thesis
  proof (cases rule: complete_cases)
    case (duplicate s)
    then show ?thesis using inv by simp
  next
    case (recorded s clock)
    let ?f = "completed_with digest clock"
    have "\<And>s. es_admission_id (?f s) = es_admission_id s" by (simp add: completed_with_def)
    note st = completed_state [OF inv recorded(4,5,9) this]
    have lok: "lease_ok H l" using recorded(4) by (auto elim!: completion_target_eq_Inr simp: lease_row_ok_def)
    have ok: "epoch_ok db s" using inv st(3) by (simp add: delivery_inv_def epochs_inv_def)
    have fence: "time_ok (ck_observed_at clock)"
      "instant_at (le_acquired_at l) \<le> instant_at (ck_observed_at clock)"
      "instant_at (ck_observed_at clock) < instant_at (le_expires_at l)"
      using recorded(8) by (simp_all add: lease_completion_fence_iff [OF lok])
    have "epoch_ok db (?f s)"
      using ok fence recorded(5) by (auto simp: epoch_ok_def completed_with_def matches_lease_iff)
    then have "\<forall>s' \<in> set (t_epochs db'). epoch_ok db' s'"
      using inv epoch_ok_cong [OF st(5)] unfolding st(1) by (auto simp: delivery_inv_def epochs_inv_def)
    moreover have "le_admission_id (lr_cols q) \<in> es_admission_id ` set (t_epochs db')"
      if "q \<in> set (t_leases db')" for q
    proof -
      have "le_admission_id (lr_cols q) \<in> es_admission_id ` set (t_epochs db)"
        using that inv unfolding st(5) by (simp add: delivery_inv_def epochs_inv_def)
      then show ?thesis unfolding st(1) by (auto simp: completed_with_def)
    qed
    ultimately have "epochs_inv db'" using st(2) by (simp add: epochs_inv_def)
    then show ?thesis
      using inv lease_inv_cong [OF st(5)] inbox_inv_cong [OF st(6)] by (simp add: delivery_inv_def)
  qed
qed

end
