(* ===== verification/Delivery.thy ===== *)
theory Delivery
  imports Lease_Invariant
begin

text \<open>
  Deliveries end to end: the step relation over the trust database (enqueue of an intent, admission,
  acquisition and completion of epochs, in any order and with any clock readings), the states it
  reaches from empty delivery tables, and what holds in all of them.
\<close>

subsection \<open>The step relation\<close>

text \<open>
  Every operation runs in one \<open>BEGIN IMMEDIATE\<close> transaction, so an interleaving of services is a
  sequence of such steps; an operation that raises leaves the database as it was.
\<close>

inductive delivery_step :: "(string \<Rightarrow> string) \<Rightarrow> trust_db \<Rightarrow> trust_db \<Rightarrow> bool" for H where
  enqueue_step: "insert_outbox db row = Inr db' \<Longrightarrow> delivery_step H db db'"
| admit_step: "admit H rv db env = Inr (r, db') \<Longrightarrow> delivery_step H db db'"
| acquire_step: "acquire H svc db reading aid = Inr (r', db') \<Longrightarrow> delivery_step H db db'"
| complete_step: "complete H svc db reading lid digest = Inr (r'', db') \<Longrightarrow> delivery_step H db db'"

inductive_cases delivery_step_elims: "delivery_step H db db'"

definition delivery_start :: "trust_db \<Rightarrow> bool" where
  "delivery_start db \<longleftrightarrow> t_inbox db = [] \<and> t_leases db = [] \<and> t_epochs db = []"

inductive delivery_reachable :: "(string \<Rightarrow> string) \<Rightarrow> trust_db \<Rightarrow> bool" for H where
  reach_start: "delivery_start db \<Longrightarrow> delivery_reachable H db"
| reach_step: "delivery_reachable H db \<Longrightarrow> delivery_step H db db' \<Longrightarrow> delivery_reachable H db'"

lemma insert_outbox_keeps:
  assumes "insert_outbox db row = Inr db'"
  shows "t_inbox db' = t_inbox db \<and> t_leases db' = t_leases db \<and> t_epochs db' = t_epochs db"
  using assms by (auto simp: insert_outbox_def Let_def res_simps)

lemma delivery_step_inv: "delivery_step H db db' \<Longrightarrow> delivery_inv H db \<Longrightarrow> delivery_inv H db'"
proof (induction rule: delivery_step.induct)
  case (enqueue_step db row db')
  then show ?case
    using insert_outbox_keeps [of db row db'] inbox_inv_cong [of db' db] lease_inv_cong [of db' db]
      epochs_inv_cong [of db' db] by (simp add: delivery_inv_def)
qed (blast intro: admit_preserves_inv acquire_preserves_inv complete_preserves_inv)+

lemma reachable_inv: "delivery_reachable H db \<Longrightarrow> delivery_inv H db"
proof (induction rule: delivery_reachable.induct)
  case (reach_start db)
  then show ?case
    by (simp add: delivery_start_def delivery_inv_def inbox_inv_def lease_inv_def epochs_inv_def unique_on_def)
qed (blast intro: delivery_step_inv)

subsection \<open>Exclusive epochs\<close>

text \<open>(C21) Mutual exclusion of runners: in every reachable database, two different leases of the same
  admission have disjoint validity windows, so at no instant are two runners inside a valid lease of
  one dispatch, whatever clock readings and interleavings led there.\<close>

theorem leases_never_overlap:
  assumes "delivery_reachable H db"
    and "r \<in> set (t_leases db)" and "r' \<in> set (t_leases db)" and "r \<noteq> r'"
    and "le_admission_id (lr_cols r) = le_admission_id (lr_cols r')"
  shows "{instant_at (le_acquired_at (lr_cols r)) ..< instant_at (le_expires_at (lr_cols r))}
       \<inter> {instant_at (le_acquired_at (lr_cols r')) ..< instant_at (le_expires_at (lr_cols r'))} = {}"
proof -
  have inv: "lease_inv H db" using reachable_inv [OF assms(1)] by (simp add: delivery_inv_def)
  have "lr_slot r \<noteq> lr_slot r'"
    using inv assms(2-4) unique_on_eqI [of lr_slot "t_leases db" r r'] by (auto simp: lease_inv_def)
  then consider "le_execution_epoch (lr_cols r) < le_execution_epoch (lr_cols r')"
    | "le_execution_epoch (lr_cols r') < le_execution_epoch (lr_cols r)"
    using assms(5) by fastforce
  then show ?thesis
  proof cases
    case 1
    then have "instant_at (le_expires_at (lr_cols r)) \<le> instant_at (le_acquired_at (lr_cols r'))"
      using inv assms by (simp add: lease_inv_def)
    then show ?thesis by auto
  next
    case 2
    then have "instant_at (le_expires_at (lr_cols r')) \<le> instant_at (le_acquired_at (lr_cols r))"
      using inv assms by (simp add: lease_inv_def)
    then show ?thesis by auto
  qed
qed

text \<open>(C26) Epochs are allocated without gaps or repetitions: in every reachable database the epochs of
  the leases of an admission are exactly \<open>1\<close> to the current epoch of its state, each given out
  once.\<close>

theorem epochs_consecutive:
  assumes "delivery_reachable H db" and "s \<in> set (t_epochs db)"
  shows "le_execution_epoch ` lr_cols ` {r \<in> set (t_leases db). le_admission_id (lr_cols r) = es_admission_id s}
         = {1..es_current_epoch s}
     \<and> inj_on (le_execution_epoch \<circ> lr_cols)
         {r \<in> set (t_leases db). le_admission_id (lr_cols r) = es_admission_id s}"
proof -
  have inv: "lease_inv H db" and ok: "epoch_ok db s"
    using reachable_inv [OF assms(1)] assms(2) by (auto simp: delivery_inv_def epochs_inv_def)
  have pos: "1 \<le> le_execution_epoch (lr_cols r)" if "r \<in> set (t_leases db)" for r
    using inv that by (auto simp: lease_inv_def list_all_iff lease_row_ok_def lease_ok_def)
  show ?thesis
  proof
    show "le_execution_epoch ` lr_cols ` {r \<in> set (t_leases db). le_admission_id (lr_cols r) = es_admission_id s}
         = {1..es_current_epoch s}" (is "?L = ?R")
    proof
      show "?L \<subseteq> ?R" using ok pos by (auto simp: epoch_ok_def)
      show "?R \<subseteq> ?L"
      proof
        fix e assume "e \<in> ?R"
        then have "(es_admission_id s, e) \<in> lr_slot ` set (t_leases db)" using ok by (simp add: epoch_ok_def)
        then show "e \<in> ?L" by force
      qed
    qed
    show "inj_on (le_execution_epoch \<circ> lr_cols)
        {r \<in> set (t_leases db). le_admission_id (lr_cols r) = es_admission_id s}"
      using inv unique_on_eqI [of lr_slot "t_leases db"] by (auto simp: inj_on_def lease_inv_def)
  qed
qed

subsection \<open>Completion\<close>

text \<open>(C22) The fence: a lease whose epoch is not the current one can never complete; \<open>complete\<close> raises
  for every clock reading and every completion digest, in particular for a runner that was
  superseded after its lease expired.\<close>

theorem stale_lease_cannot_complete:
  assumes "delivery_reachable H db" and "r \<in> set (t_leases db)" and "s \<in> set (t_epochs db)"
    and "es_admission_id s = le_admission_id (lr_cols r)"
    and "le_execution_epoch (lr_cols r) \<noteq> es_current_epoch s"
  shows "\<exists>e. complete H svc db reading (le_lease_id (lr_cols r)) digest = Inl e"
proof (rule ccontr)
  assume "\<nexists>e. complete H svc db reading (le_lease_id (lr_cols r)) digest = Inl e"
  then obtain outcome l c db' where
    "complete H svc db reading (le_lease_id (lr_cols r)) digest = Inr ((outcome, l, c), db')"
    by (cases "complete H svc db reading (le_lease_id (lr_cols r)) digest") auto
  then obtain s' where tgt: "completion_target H svc db (le_lease_id (lr_cols r)) = Inr (l, s')"
    and m: "assert_state_matches_lease s' l = Inr ()" by (cases rule: complete_cases) auto
  have inv: "lease_inv H db" "unique_on es_admission_id (t_epochs db)"
    using reachable_inv [OF assms(1)] by (auto simp: delivery_inv_def epochs_inv_def)
  have "l = lr_cols r"
    using tgt inv assms(2) select_unique [of lr_lease_id "t_leases db" r]
    by (auto simp: lease_inv_def elim!: completion_target_eq_Inr)
  moreover have "s' = s"
    using tgt \<open>l = lr_cols r\<close> assms(3,4) select_unique [OF inv(2) assms(3)]
    by (auto elim!: completion_target_eq_Inr)
  ultimately show False using m assms(5) by (simp add: matches_lease_iff)
qed

text \<open>A completion is recorded only inside the validity window of the current lease: in every
  reachable database a completed epoch state names a completion time that is not before the
  acquisition and before the expiry of the lease it belongs to.\<close>

lemma completion_inside_lease:
  assumes "delivery_reachable H db" and "s \<in> set (t_epochs db)" and "es_completion_digest s \<noteq> None"
  shows "\<exists>r \<in> set (t_leases db). \<exists>t. le_lease_id (lr_cols r) = es_current_lease_id s
     \<and> le_admission_id (lr_cols r) = es_admission_id s \<and> es_completed_at s = Some t
     \<and> instant_at (le_acquired_at (lr_cols r)) \<le> instant_at t
     \<and> instant_at t < instant_at (le_expires_at (lr_cols r))"
  using reachable_inv [OF assms(1)] assms(2,3)
  by (fastforce simp: delivery_inv_def epochs_inv_def epoch_ok_def matches_lease_iff)

lemma update_where_keeps: "s \<in> set rows \<Longrightarrow> \<not> sel s \<Longrightarrow> s \<in> set (update_where sel f rows)"
  by (auto simp: update_where_def image_iff)

lemma selected_active: "state_selected aid e lid ld s \<Longrightarrow> es_status s = ''ACTIVE''"
  by (simp add: state_selected_def)

lemma update_keeps_completed:
  assumes "update_epoch_state db (state_selected aid e lid ld) f = Inr (True, db')"
    and "s \<in> set (t_epochs db)" and "es_status s = ''COMPLETED''"
  shows "s \<in> set (t_epochs db')"
  using update_epoch_state_eq_True [OF assms(1)] update_where_keeps [OF assms(2)] assms(3)
  by (auto simp: state_selected_def)

lemma acquire_keeps_completed:
  assumes "acquire H svc db reading aid = Inr ((outcome, l), db')"
    and "s \<in> set (t_epochs db)" and "es_status s = ''COMPLETED''"
  shows "s \<in> set (t_epochs db')"
  using assms(1)
proof (cases rule: acquire_cases)
  case (first row clock db1)
  then show ?thesis
    using assms(2) insert_lease_eq_Inr(1) [OF first(7)] insert_epoch_state_eq_Inr(1) [OF first(8)] by simp
next
  case (again row clock db1 s1 p)
  then show ?thesis
    using assms(2) insert_lease_eq_Inr(1) [OF again(8)] update_keeps_completed [OF again(9) _ assms(3)] by simp
qed

lemma complete_keeps_completed:
  assumes "complete H svc db reading lid digest = Inr ((outcome, l, c), db')"
    and "s \<in> set (t_epochs db)" and "es_status s = ''COMPLETED''"
  shows "s \<in> set (t_epochs db')"
  using assms(1)
proof (cases rule: complete_cases)
  case (duplicate s1)
  then show ?thesis using assms(2) by simp
next
  case (recorded s1 clock)
  then show ?thesis using update_keeps_completed [OF recorded(9) assms(2,3)] by simp
qed

lemma admit_keeps_epochs: "admit H rv db env = Inr ((outcome, adm), db') \<Longrightarrow> t_epochs db' = t_epochs db"
  by (auto elim!: admit_cases dest: insert_inbox_eq_Inr)

lemma step_keeps_completed:
  assumes "delivery_step H db db'" and "s \<in> set (t_epochs db)" and "es_status s = ''COMPLETED''"
  shows "s \<in> set (t_epochs db')"
  using assms(1)
proof cases
  case (enqueue_step row)
  then show ?thesis using insert_outbox_keeps assms(2) by metis
next
  case (admit_step rv env r)
  then show ?thesis using assms(2) admit_keeps_epochs by (cases r) metis
next
  case (acquire_step svc reading aid r)
  then show ?thesis using acquire_keeps_completed [OF _ assms(2,3)] by (cases r) blast
next
  case (complete_step svc reading lid digest r)
  then show ?thesis using complete_keeps_completed [OF _ assms(2,3)] by (cases r) blast
qed

text \<open>(C25) Completion is final: once an epoch state is completed, no sequence of steps changes it
  (epoch, lease, completion digest and time stay), and it stays the only state of its admission.\<close>

theorem completion_final:
  assumes "delivery_reachable H db" and "s \<in> set (t_epochs db)" and "es_status s = ''COMPLETED''"
    and "(delivery_step H)\<^sup>*\<^sup>* db db'"
  shows "s \<in> set (t_epochs db')
     \<and> (\<forall>s' \<in> set (t_epochs db'). es_admission_id s' = es_admission_id s \<longrightarrow> s' = s)"
proof -
  have "s \<in> set (t_epochs db') \<and> delivery_reachable H db'"
    using assms(4)
  proof (induction rule: rtranclp_induct)
    case base
    then show ?case using assms by simp
  next
    case (step y z)
    then show ?case using step_keeps_completed assms(3) reach_step by blast
  qed
  moreover from this have "unique_on es_admission_id (t_epochs db')"
    using reachable_inv by (auto simp: delivery_inv_def epochs_inv_def)
  ultimately show ?thesis using unique_on_eqI by metis
qed

text \<open>After a completion was recorded, the same lease resolves to the completed state.\<close>

lemma completion_target_again:
  assumes inv: "delivery_inv H db"
    and "complete H svc db reading lid digest = Inr ((outcome, l, c), db')"
  shows "\<exists>s'. completion_target H svc db' lid = Inr (l, s') \<and> assert_state_matches_lease s' l = Inr ()
     \<and> es_status s' = ''COMPLETED'' \<and> es_completion_digest s' = Some digest
     \<and> digest_ok lid \<and> digest_ok digest \<and> c = digest"
proof -
  have lid: "digest_ok lid"
    using assms(2) by (auto simp: complete_def bindE_eq_Inr require_digest_eq_Inr)
  from assms(2) show ?thesis
  proof (cases rule: complete_cases)
    case (duplicate s)
    then show ?thesis using lid by blast
  next
    case (recorded s clock)
    let ?f = "completed_with digest clock"
    have "\<And>s. es_admission_id (?f s) = es_admission_id s" by (simp add: completed_with_def)
    note st = completed_state [OF inv recorded(4,5,9) this]
    have "?f s \<in> set (t_epochs db')" "es_admission_id (?f s) = le_admission_id l"
      using st(1,4) by (simp_all add: completed_with_def)
    then have sel: "select es_admission_id (le_admission_id l) (t_epochs db') = Some (?f s)"
      using select_unique [OF st(2), of "?f s"] by simp
    have "completion_target H svc db' lid = Inr (l, ?f s)"
      using recorded(4) sel st(5,6)
      by (auto elim!: completion_target_eq_Inr
          simp: completion_target_def decode_lease_iff decode_admission_iff assert_state_bound_def
            completed_with_def bindE_eq_Inr thenE_eq_Inr guardE_eq_Inr orRaise_eq_Inr)
    moreover have "assert_state_matches_lease (?f s) l = Inr ()"
      using recorded(5) by (simp add: matches_lease_iff completed_with_def)
    ultimately show ?thesis using lid recorded by (auto simp: completed_with_def)
  qed
qed

text \<open>(C23) Completing is idempotent and first-writer-wins: after a successful \<open>complete\<close>, repeating it
  with the same digest returns \<open>DUPLICATE_COMPLETION\<close> whatever the clock says (even after the lease
  expired), and any other well-formed digest raises \<open>DurableCompletionConflict\<close>; the database stays as
  it is in both cases.\<close>

theorem completion_idempotent:
  assumes "delivery_reachable H db"
    and "complete H svc db reading lid digest = Inr ((outcome, l, c), db')" and "digest_ok digest'"
  shows "complete H svc db' reading' lid digest' =
     (if digest' = digest then Inr ((''DUPLICATE_COMPLETION'', l, digest), db')
      else Inl (CompletionConflict ''COMPLETION_DIGEST_CONFLICT''))"
proof -
  obtain s' where s': "completion_target H svc db' lid = Inr (l, s')" "assert_state_matches_lease s' l = Inr ()"
      "es_status s' = ''COMPLETED''" "es_completion_digest s' = Some digest" and lid: "digest_ok lid"
    using completion_target_again [OF reachable_inv [OF assms(1)] assms(2)] by blast
  have d: "require_digest ''lease_id'' (JStr lid) = Inr lid"
      "require_digest ''completion_digest'' (JStr digest') = Inr digest'"
    using lid assms(3) by (simp_all add: require_digest_eq_Inr)
  have m: "es_current_epoch s' = le_execution_epoch l" "es_current_lease_id s' = le_lease_id l"
    using s'(2) by (simp_all add: matches_lease_iff)
  show ?thesis
    unfolding complete_def d s'(1) bindE_Inr prod.case using s'(2-4) m by (auto simp: guardE_def thenE_def)
qed

subsection \<open>Refinement of an abstract epoch allocator\<close>

text \<open>
  What the lease service promises, without tables, digests or texts: for each admission the current
  epoch, the instant its lease expires and the completion, if any.
\<close>

record abs_epoch =
  ae_epoch :: int
  ae_expires :: int
  ae_completion :: "string option"

definition abs_epochs :: "trust_db \<Rightarrow> string \<Rightarrow> abs_epoch option" where
  "abs_epochs db aid = map_option
     (\<lambda>s. \<lparr>ae_epoch = es_current_epoch s, ae_expires = instant_at (es_current_lease_expires_at s),
          ae_completion = es_completion_digest s\<rparr>) (select es_admission_id aid (t_epochs db))"

definition abs_acquire :: "string \<Rightarrow> int \<Rightarrow> int \<Rightarrow> (string \<Rightarrow> abs_epoch option) \<Rightarrow> (string \<Rightarrow> abs_epoch option) option"
  where
  "abs_acquire aid now duration m =
     (case m aid of
        None \<Rightarrow> Some (m(aid \<mapsto> \<lparr>ae_epoch = 1, ae_expires = now + duration, ae_completion = None\<rparr>))
      | Some a \<Rightarrow>
          if ae_completion a = None \<and> ae_expires a \<le> now
          then Some (m(aid \<mapsto> \<lparr>ae_epoch = ae_epoch a + 1, ae_expires = now + duration, ae_completion = None\<rparr>))
          else None)"

definition abs_complete ::
  "string \<Rightarrow> int \<Rightarrow> int \<Rightarrow> string \<Rightarrow> (string \<Rightarrow> abs_epoch option) \<Rightarrow> (string \<Rightarrow> abs_epoch option) option" where
  "abs_complete aid epoch now digest m =
     (case m aid of
        None \<Rightarrow> None
      | Some a \<Rightarrow>
          if ae_epoch a \<noteq> epoch then None
          else (case ae_completion a of
                  Some d \<Rightarrow> if d = digest then Some m else None
                | None \<Rightarrow> if now < ae_expires a then Some (m(aid \<mapsto> a\<lparr>ae_completion := Some digest\<rparr>)) else None))"

lemma select_replace:
  assumes "unique_on key rows" and "unique_on key rows'" and "set rows' = insert r' (set rows - {r})"
    and "r \<in> set rows" and "key r' = key r"
  shows "select key k rows' = (if k = key r then Some r' else select key k rows)"
proof (cases "k = key r")
  case True
  then show ?thesis using select_unique [OF assms(2), of r'] assms(3,5) by simp
next
  case False
  show ?thesis
  proof (cases "select key k rows")
    case None
    then have "select key k rows' = None" using False assms(3,5) by (auto simp: select_None_iff key_free_iff)
    then show ?thesis using None False by simp
  next
    case (Some q)
    then have "q \<in> set rows" "key q = k" by (auto dest: select_Some_D)
    then have "q \<in> set rows'" using False assms(3) by auto
    then show ?thesis using Some False select_unique [OF assms(2)] \<open>key q = k\<close> by fastforce
  qed
qed

lemma abs_epochs_snoc:
  assumes "t_epochs db' = t_epochs db @ [s]" and "select es_admission_id (es_admission_id s) (t_epochs db) = None"
  shows "abs_epochs db' = (abs_epochs db)(es_admission_id s \<mapsto>
     \<lparr>ae_epoch = es_current_epoch s, ae_expires = instant_at (es_current_lease_expires_at s),
      ae_completion = es_completion_digest s\<rparr>)"
  using assms by (auto simp: abs_epochs_def select_append fun_eq_iff split: option.splits)

lemma abs_epochs_replace:
  assumes "unique_on es_admission_id (t_epochs db)" and "unique_on es_admission_id (t_epochs db')"
    and "set (t_epochs db') = insert s' (set (t_epochs db) - {s})" and "s \<in> set (t_epochs db)"
    and "es_admission_id s' = es_admission_id s"
  shows "abs_epochs db' = (abs_epochs db)(es_admission_id s \<mapsto>
     \<lparr>ae_epoch = es_current_epoch s', ae_expires = instant_at (es_current_lease_expires_at s'),
      ae_completion = es_completion_digest s'\<rparr>)"
  using select_replace [OF assms(1-5)] by (auto simp: abs_epochs_def fun_eq_iff)

lemma reading_instant:
  assumes "clock_authority_witness H clk (AwareTime t) env = Inr w" and "valid_time t"
  shows "time_ok (ck_observed_at w) \<and> instant_at (ck_observed_at w) = instant (trunc_ms t)"
  using clock_authority_witness_eq_Inr [OF assms(1)] assms(2)
  by (auto simp: clock_witness_ok_def instant_at_def canonical_time_iso_ms)

text \<open>(C24) Refinement of acquisition: whenever \<open>acquire\<close> returns, the abstract allocator allows the
  acquisition at the instant of the clock reading (cut to milliseconds) and ends in the
  abstraction of the new database: epoch 1 or the next epoch, only after expiry, never after
  completion, and a validity of exactly the configured number of seconds.\<close>

theorem acquire_refines_abstract:
  assumes reach: "delivery_reachable H db" and t: "valid_time t"
    and acq: "acquire H svc db (AwareTime t) aid = Inr ((outcome, l), db')"
  shows "abs_acquire aid (instant (trunc_ms t)) (seconds (ls_lease_seconds svc)) (abs_epochs db)
     = Some (abs_epochs db')"
  using acq
proof (cases rule: acquire_cases)
  case (first row clock db1)
  have aid: "ad_admission_id (ib_cols row) = aid" using first(2) by (auto dest: select_Some_D)
  note ck = reading_instant [OF first(4) t] and c = lease_create_candidate_eq_Inr [OF first(6)]
  let ?s = "first_epoch_state (ib_cols row) l (ls_authority_revision svc) (ck_observed_at clock)"
  have "t_epochs db' = t_epochs db @ [?s]"
    using insert_epoch_state_eq_Inr(1) [OF first(8)] insert_lease_eq_Inr(1) [OF first(7)] by simp
  then have "abs_epochs db' = (abs_epochs db)(aid \<mapsto>
     \<lparr>ae_epoch = 1, ae_expires = instant (trunc_ms t) + seconds (ls_lease_seconds svc), ae_completion = None\<rparr>)"
    using abs_epochs_snoc [of db' db ?s] first(5) aid c ck by (simp add: first_epoch_state_def)
  moreover have "abs_epochs db aid = None" using first(5) by (simp add: abs_epochs_def)
  ultimately show ?thesis by (simp add: abs_acquire_def)
next
  case (again row clock db1 s p)
  have aid: "ad_admission_id (ib_cols row) = aid" using again(2) by (auto dest: select_Some_D)
  note ck = reading_instant [OF again(4) t] and c = lease_create_candidate_eq_Inr [OF again(7)]
  have uniq: "unique_on es_admission_id (t_epochs db)"
    and ok: "\<forall>s \<in> set (t_epochs db). epoch_ok db s"
    using reachable_inv [OF reach] by (auto simp: delivery_inv_def epochs_inv_def)
  have s: "select es_admission_id (ad_admission_id (ib_cols row)) (t_epochs db) = Some s"
    using again(5) aid by simp
  note re = reacquired_epochs [OF uniq s acquired_row(2) [OF again(7,8)] again(9) [folded aid]]
  have p: "es_status s = ''ACTIVE''" "assert_state_matches_lease s p = Inr ()" "lease_ok H p"
      "le_expires_at p \<le> ck_observed_at clock"
    using previous_lease_current [OF again(6) s] by auto
  have expired: "instant_at (es_current_lease_expires_at s) \<le> instant (trunc_ms t)"
    using p ck by (simp add: matches_lease_iff lease_ok_def time_text_le)
  have "es_completion_digest s = None" using ok re(5) p(1) by (auto simp: epoch_ok_def)
  then have "abs_epochs db aid = Some \<lparr>ae_epoch = es_current_epoch s,
      ae_expires = instant_at (es_current_lease_expires_at s), ae_completion = None\<rparr>"
    and "abs_epochs db' = (abs_epochs db)(aid \<mapsto> \<lparr>ae_epoch = es_current_epoch s + 1,
      ae_expires = instant (trunc_ms t) + seconds (ls_lease_seconds svc), ae_completion = None\<rparr>)"
    using again(5) abs_epochs_replace [OF uniq re(2,1,5)] re(6) aid c ck
    by (simp_all add: abs_epochs_def reacquired_def)
  then show ?thesis using expired by (simp add: abs_acquire_def)
qed

text \<open>Refinement of completion: whenever \<open>complete\<close> returns, the abstract allocator allows the
  completion of that epoch at the instant of the clock reading and ends in the abstraction of the
  new database.\<close>

lemma complete_refines_abstract:
  assumes reach: "delivery_reachable H db" and t: "valid_time t"
    and com: "complete H svc db (AwareTime t) lid digest = Inr ((outcome, l, c), db')"
  shows "abs_complete (le_admission_id l) (le_execution_epoch l) (instant (trunc_ms t)) digest (abs_epochs db)
     = Some (abs_epochs db')"
  using com
proof (cases rule: complete_cases)
  case (duplicate s)
  have "select es_admission_id (le_admission_id l) (t_epochs db) = Some s"
    using duplicate(5) by (auto elim!: completion_target_eq_Inr)
  then show ?thesis
    using duplicate by (simp add: abs_complete_def abs_epochs_def matches_lease_iff)
next
  case (recorded s clock)
  note inv = reachable_inv [OF reach] and ck = reading_instant [OF recorded(7) t]
  have uniq: "unique_on es_admission_id (t_epochs db)"
    and ok: "\<forall>s \<in> set (t_epochs db). epoch_ok db s"
    using inv by (auto simp: delivery_inv_def epochs_inv_def)
  let ?f = "completed_with digest clock"
  have "\<And>s. es_admission_id (?f s) = es_admission_id s" by (simp add: completed_with_def)
  note st = completed_state [OF inv recorded(4,5,9) this]
  have lok: "lease_ok H l" and sel: "select es_admission_id (le_admission_id l) (t_epochs db) = Some s"
    using recorded(4) by (auto elim!: completion_target_eq_Inr simp: lease_row_ok_def)
  have now: "instant (trunc_ms t) < instant_at (es_current_lease_expires_at s)"
    using recorded(5,8) ck by (simp add: lease_completion_fence_iff [OF lok] matches_lease_iff)
  have "es_completion_digest s = None" using ok st(3,7) by (auto simp: epoch_ok_def)
  then have "abs_epochs db (le_admission_id l) = Some \<lparr>ae_epoch = le_execution_epoch l,
      ae_expires = instant_at (es_current_lease_expires_at s), ae_completion = None\<rparr>"
    and "abs_epochs db' = (abs_epochs db)(le_admission_id l \<mapsto> \<lparr>ae_epoch = le_execution_epoch l,
      ae_expires = instant_at (es_current_lease_expires_at s), ae_completion = Some digest\<rparr>)"
    using sel recorded(5) abs_epochs_replace [OF uniq st(2,1,3)] st(4)
    by (simp_all add: abs_epochs_def completed_with_def matches_lease_iff)
  then show ?thesis using now by (simp add: abs_complete_def)
qed

text \<open>At-least-once delivery becomes one admission: once an envelope was admitted (for the
  first time or as a duplicate), every redelivery of it returns \<open>DUPLICATE\<close> with the same
  admission and leaves the database as it is, whatever revision the redelivering service runs.\<close>

lemma admit_redelivery_idempotent:
  assumes "admit H rv db env = Inr ((outcome, adm), db')"
  shows "admit H rv' db' env = Inr ((''DUPLICATE'', adm), db')"
proof -
  obtain row where r: "select ib_dispatch_id (ev_dispatch_id env) (t_inbox db') = Some (inbox_row_of adm)"
      "select ob_outbox_id (ev_outbox_id env) (t_outbox db') = Some row" "outbox_row_ok H row"
      "admission_ok H adm" and b: "admission_bound_to H adm env (ob_cols row) = Inr ()"
    using admit_recorded [OF assms] by blast
  have d: "inbox_decode_outbox H row = Inr (ob_cols row)" using r(3) by (simp add: inbox_decode_outbox_iff)
  have "decode_admission H ''INBOX_ROW_INVALID'' (inbox_row_of adm) = Inr adm"
    using r(4) by (simp add: decode_admission_iff inbox_row_ok_def inbox_row_of_def)
  moreover have "classify_redelivery H adm env (ob_cols row) = Inr ''DUPLICATE''"
    using b admission_bound_dispatch [OF b] by (simp add: classify_redelivery_iff)
  ultimately show ?thesis
    using r d admission_bound_dispatch [OF b] by (simp add: admit_def)
qed

text \<open>(C28) Conflicting content is refused: once an envelope was admitted, another envelope for the
  same outbox entry (hence with the same \<open>dispatch_id\<close>) whose digest differs is answered with
  \<open>DispatchInboxContentConflict\<close>, and nothing is written.\<close>

theorem admit_conflict_refused:
  assumes "admit H rv db env = Inr ((outcome, adm), db')"
    and "ev_outbox_id env' = ev_outbox_id env"
    and "envelope_bound_to H env' entry = Inr ()"
    and "select ob_outbox_id (ev_outbox_id env) (t_outbox db) = Some row" and "ob_cols row = entry"
    and "ev_envelope_digest env' \<noteq> ev_envelope_digest env"
  shows "admit H rv' db' env' = Inl (ContentConflict ''DISPATCH_CONTENT_CONFLICT'')"
proof -
  have ob: "t_outbox db' = t_outbox db"
    using assms(1) by (cases rule: admit_cases) (auto dest: insert_inbox_eq_Inr)
  obtain row' where r: "select ib_dispatch_id (ev_dispatch_id env) (t_inbox db') = Some (inbox_row_of adm)"
      "select ob_outbox_id (ev_outbox_id env) (t_outbox db') = Some row'" "outbox_row_ok H row'"
      "admission_ok H adm" and b: "admission_bound_to H adm env (ob_cols row') = Inr ()"
    using admit_recorded [OF assms(1)] by blast
  have row': "row' = row" using r(2) assms(4) by (simp add: ob)
  have d: "inbox_decode_outbox H row = Inr entry"
    using r(3) assms(5) by (simp add: inbox_decode_outbox_iff row')
  have e: "envelope_bound_to H env entry = Inr ()" using admission_bound_dispatch [OF b] assms(5) row' by simp
  then have id: "ev_dispatch_id env' = ev_dispatch_id env"
    using assms(3) by (simp add: envelope_bound_to_def guardE_eq_Inr)
  have "decode_admission H ''INBOX_ROW_INVALID'' (inbox_row_of adm) = Inr adm"
    using r(4) by (simp add: decode_admission_iff inbox_row_ok_def inbox_row_of_def)
  moreover have "classify_redelivery H adm env' entry = Inl (ContentConflict ''DISPATCH_CONTENT_CONFLICT'')"
    using assms(3,6) admission_bound_dispatch [OF b] id
    by (auto simp: classify_redelivery_def admission_bound_to_def guardE_def catchE_def)
  ultimately show ?thesis
    using r d assms(2,3,4) id by (simp add: admit_def ob row' catchE_def)
qed

end
