(* ===== verification/Grant_Lifecycle.thy ===== *)
theory Grant_Lifecycle
  imports Grant_Store Delivery
begin

text \<open>
  From a stored grant to a completed execution: the step relation that joins the grant services
  with the delivery services, the invariant of the grant, consumption and outbox tables, and the
  properties that span them: a grant is consumed at most once, only while it is live, always
  together with its outbox intent, and leads to at most one completed execution.
\<close>

abbreviation ob_jti :: "outbox_row \<Rightarrow> string" where
  "ob_jti r \<equiv> ox_jti (ob_cols r)"

abbreviation ob_consumption_id :: "outbox_row \<Rightarrow> string" where
  "ob_consumption_id r \<equiv> ox_consumption_id (ob_cols r)"

subsection \<open>Writing the tables\<close>

lemma insert_stored_grant_eq_Inr:
  assumes "insert_stored_grant db r = Inr db'"
  shows "db' = db\<lparr>t_grants := t_grants db @ [r]\<rparr>" and "key_free gw_jti (gw_jti r) (t_grants db)"
  using assms by (auto simp: insert_stored_grant_def res_simps)

lemma insert_consumption_eq_Inr:
  assumes "insert_consumption db r = Inr db'"
  shows "db' = db\<lparr>t_consumptions := t_consumptions db @ [r]\<rparr>"
    and "key_free cr_jti (cr_jti r) (t_consumptions db)"
    and "key_free cr_consumption_id (cr_consumption_id r) (t_consumptions db)"
    and "key_free cr_execution_id (cr_execution_id r) (t_consumptions db)"
  using assms by (auto simp: insert_consumption_def res_simps)

lemma insert_outbox_eq_Inr:
  assumes "insert_outbox db r = Inr db'"
  shows "db' = db\<lparr>t_outbox := t_outbox db @ [r]\<rparr>"
    and "key_free ob_jti (ob_jti r) (t_outbox db)"
    and "key_free ob_outbox_id (ob_outbox_id r) (t_outbox db)"
    and "outbox_binding db (ob_cols r)"
  using assms by (auto simp: insert_outbox_def Let_def res_simps key_free_def)

lemma issue_and_store_eq_Inr:
  assumes "issue_and_store H svc ce cdb db reading issued = Inr (g, db')"
  shows "issued = Inr g \<and> (\<exists>conformance clock live. trusted_clock_witness H svc reading g = Inr clock
     \<and> assert_live_authority H ce cdb g clock = Inr live \<and> fresh_conformance H svc g = Inr conformance
     \<and> insert_stored_grant db (grant_row_of g conformance clock live (gs_authority_revision svc)) = Inr db')"
  using assms by (auto simp: issue_and_store_def bindE_eq_Inr catchE_eq_Inr)

lemma prepare_consumption_eq_Inr:
  "prepare_consumption H svc ce cdb db reading cid jti = Inr (g, conformance, clock, w) \<longleftrightarrow>
     text_ok jti \<and> select cr_jti jti (t_consumptions db) = None
     \<and> (\<exists>row live. select gw_jti jti (t_grants db) = Some row \<and> decode_stored_grant H row = Inr g
          \<and> trusted_clock_witness H svc reading g = Inr clock
          \<and> assert_live_authority H ce cdb g clock = Inr live \<and> fresh_conformance H svc g = Inr conformance
          \<and> consumption_witness_create H cid g (cw_witness_digest conformance) clock live
              (gs_authority_revision svc) = Inr w)"
  by (auto simp: prepare_consumption_def bindE_eq_Inr thenE_eq_Inr guardE_eq_Inr orRaise_eq_Inr check_texts_eq_Inr)

text \<open>The two bodies of the code check the same in the same order.\<close>

lemma prepare_handoff_same: "prepare_handoff = prepare_consumption"
  by (intro ext) (simp add: prepare_handoff_def prepare_consumption_def)

lemma consume_eq_Inr:
  "consume H svc ce cdb db reading cid jti = Inr (w, db') \<longleftrightarrow>
     (\<exists>g conformance clock. prepare_consumption H svc ce cdb db reading cid jti = Inr (g, conformance, clock, w)
        \<and> insert_consumption db (consumption_row_of g conformance clock w) = Inr db')"
  by (auto simp: consume_def bindE_eq_Inr catchE_eq_Inr)

lemma consume_and_enqueue_eq_Inr:
  "consume_and_enqueue H svc orv ce cdb db reading cid oid jti = Inr (e, db') \<longleftrightarrow>
     (\<exists>g conformance clock w db1. prepare_consumption H svc ce cdb db reading cid jti = Inr (g, conformance, clock, w)
        \<and> outbox_entry_create H oid g w orv = Inr e
        \<and> insert_consumption db (consumption_row_of g conformance clock w) = Inr db1
        \<and> insert_outbox db1 (outbox_row_of e) = Inr db')"
  by (auto simp: consume_and_enqueue_def prepare_handoff_same bindE_eq_Inr catchE_eq_Inr)

text \<open>The decoded grant is the one the row names.\<close>

lemma decode_stored_grant_jti: "decode_stored_grant H row = Inr g \<Longrightarrow> gr_jti g = gw_jti row"
  by (auto simp: decode_stored_grant_def bindE_eq_Inr thenE_eq_Inr guardE_eq_Inr)

lemma decode_stored_grant_ok: "decode_stored_grant H row = Inr g \<Longrightarrow> execution_grant_ok H g"
  by (auto simp: decode_stored_grant_def bindE_eq_Inr thenE_eq_Inr decode_column_eq_Inr
      execution_grant_from_dict_def intro: grant.from_dict_ok)

text \<open>What was stored for a valid grant decodes to it.\<close>

lemma decode_grant_row:
  assumes "execution_grant_ok H g" and "live = gr_revocation_epoch g"
  shows "decode_stored_grant H (grant_row_of g conformance clock live authority_revision) = Inr g"
proof -
  let ?row = "grant_row_of g conformance clock live authority_revision"
  let ?kvs = "sort_key fst (grant.dict g)"
  have j: "gw_grant_json ?row = grant.stored g"
    by (simp add: grant_row_of_def grant.stored_def execution_grant_to_dict_def grant.dict_def)
  have loads: "json_loads (grant.stored g) = Some (JObj ?kvs)"
    unfolding grant.stored_def by (rule json_loads_flat [OF grant.flat_dict])
  have canon: "canonical_json (JObj ?kvs) = grant.stored g"
    unfolding grant.stored_def by (rule canonical_json_flat_sorted [OF grant.flat_dict])
  have "execution_grant_from_dict H (JObj ?kvs) = Inr g"
    using grant.decode_stored [OF assms(1)] loads by (auto simp: execution_grant_from_dict_def)
  then show ?thesis
    unfolding decode_stored_grant_def decode_column_def j loads
    by (simp add: canon) (simp add: grant_row_of_def assms(2))
qed

lemma prepared_jti:
  assumes "prepare_consumption H svc ce cdb db reading cid jti = Inr (g, conformance, clock, w)"
  shows "gr_jti g = jti"
  using assms by (auto simp: prepare_consumption_eq_Inr dest: decode_stored_grant_jti select_Some_D)

lemma outbox_entry_create_fields:
  assumes "outbox_entry_create H oid g w orv = Inr e"
  shows "ox_outbox_id e = oid \<and> ox_jti e = gr_jti g \<and> ox_consumption_id e = gc_consumption_id w"
proof -
  obtain c where "outbox_entry_init H (item (outbox.dict c)) = Inr e"
    and "ox_outbox_id c = oid \<and> ox_jti c = gr_jti g \<and> ox_consumption_id c = gc_consumption_id w"
    using assms unfolding outbox_entry_create_def Let_def thenE_eq_Inr outbox_entry_dict_eq by force
  then show ?thesis by (simp add: outbox.init_dict_iff)
qed

subsection \<open>The step relation\<close>

inductive pipeline_step :: "(string \<Rightarrow> string) \<Rightarrow> trust_db \<Rightarrow> trust_db \<Rightarrow> bool" for H where
  store_step: "issue_and_store H svc ce cdb db reading issued = Inr (g, db') \<Longrightarrow> pipeline_step H db db'"
| handoff_step: "consume_and_enqueue H svc orv ce cdb db reading cid oid jti = Inr (e, db') \<Longrightarrow> pipeline_step H db db'"
| deliver_step: "delivery_step H db db' \<Longrightarrow> pipeline_step H db db'"

text \<open>The identity tables \<open>cdb\<close> are any at each step: they change between transactions.  A deployment
  that consumes grants without the outbox service has the steps of \<open>trust_step\<close>.\<close>

inductive trust_step :: "(string \<Rightarrow> string) \<Rightarrow> trust_db \<Rightarrow> trust_db \<Rightarrow> bool" for H where
  service_step: "pipeline_step H db db' \<Longrightarrow> trust_step H db db'"
| consume_step: "consume H svc ce cdb db reading cid jti = Inr (w, db') \<Longrightarrow> trust_step H db db'"

lemma delivery_step_tables:
  "delivery_step H db db' \<Longrightarrow> t_grants db' = t_grants db \<and> t_consumptions db' = t_consumptions db
     \<and> (t_outbox db' = t_outbox db \<or>
        (\<exists>row. t_outbox db' = t_outbox db @ [row] \<and> key_free ob_jti (ob_jti row) (t_outbox db)
           \<and> key_free ob_outbox_id (ob_outbox_id row) (t_outbox db) \<and> outbox_binding db (ob_cols row)))"
proof (induction rule: delivery_step.induct)
  case (enqueue_step db row db')
  then show ?case using insert_outbox_eq_Inr [of db row db'] by simp
next
  case (admit_step rv db env r db')
  then show ?case
    by (cases r) (auto elim!: admit_cases dest: insert_inbox_eq_Inr)
next
  case (acquire_step svc db reading aid r db')
  obtain outcome l where "r = (outcome, l)" by fastforce
  then show ?case using acquire_step
    by (auto elim!: acquire_cases dest!: insert_lease_eq_Inr(1) insert_epoch_state_eq_Inr(1) update_epoch_state_eq_True)
next
  case (complete_step svc db reading lid digest r db')
  obtain outcome l c where "r = (outcome, l, c)" by (cases r) auto
  then show ?case using complete_step
    by (auto elim!: complete_cases dest!: update_epoch_state_eq_True)
qed

subsection \<open>Tables that only grow\<close>

locale growing_table =
  fixes step :: "'s \<Rightarrow> 's \<Rightarrow> bool" and rows :: "'s \<Rightarrow> 'r list"
  assumes step_grows: "step s s' \<Longrightarrow> \<exists>new. rows s' = rows s @ new"
begin

lemma steps_grow: "step\<^sup>*\<^sup>* s s' \<Longrightarrow> \<exists>new. rows s' = rows s @ new"
proof (induction rule: rtranclp_induct)
  case (step s1 s2)
  then show ?case using step_grows [of s1 s2] by auto
qed simp

lemma select_persists: "step\<^sup>*\<^sup>* s s' \<Longrightarrow> select key k (rows s) = Some r \<Longrightarrow> select key k (rows s') = Some r"
  using steps_grow by (fastforce simp: select_append)

lemma member_persists: "step\<^sup>*\<^sup>* s s' \<Longrightarrow> r \<in> set (rows s) \<Longrightarrow> r \<in> set (rows s')"
  using steps_grow by fastforce

end

lemma handoff_tables:
  assumes "consume_and_enqueue H svc orv ce cdb db reading cid oid jti = Inr (e, db')"
  shows "\<exists>c. db' = db\<lparr>t_consumptions := t_consumptions db @ [c], t_outbox := t_outbox db @ [outbox_row_of e]\<rparr>
     \<and> cr_jti c = jti \<and> ox_jti e = jti \<and> cr_consumption_id c = ox_consumption_id e
     \<and> insert_consumption db c = Inr (db\<lparr>t_consumptions := t_consumptions db @ [c]\<rparr>)
     \<and> insert_outbox (db\<lparr>t_consumptions := t_consumptions db @ [c]\<rparr>) (outbox_row_of e) = Inr db'"
proof -
  obtain g conformance clock w db1
    where prep: "prepare_consumption H svc ce cdb db reading cid jti = Inr (g, conformance, clock, w)"
      and e: "outbox_entry_create H oid g w orv = Inr e"
      and ins: "insert_consumption db (consumption_row_of g conformance clock w) = Inr db1"
      and out: "insert_outbox db1 (outbox_row_of e) = Inr db'"
    using assms unfolding consume_and_enqueue_eq_Inr by blast
  let ?c = "consumption_row_of g conformance clock w"
  have db1: "db1 = db\<lparr>t_consumptions := t_consumptions db @ [?c]\<rparr>" using insert_consumption_eq_Inr(1) [OF ins] .
  have "cr_jti ?c = jti" "ox_jti e = jti" "cr_consumption_id ?c = ox_consumption_id e"
    using prepared_jti [OF prep] outbox_entry_create_fields [OF e] by (simp_all add: consumption_row_of_def)
  moreover have "db' = db\<lparr>t_consumptions := t_consumptions db @ [?c], t_outbox := t_outbox db @ [outbox_row_of e]\<rparr>"
    using insert_outbox_eq_Inr(1) [OF out] by (simp add: db1)
  ultimately show ?thesis using ins out db1 by blast
qed

lemma store_tables:
  assumes "issue_and_store H svc ce cdb db reading issued = Inr (g, db')"
  shows "\<exists>r. db' = db\<lparr>t_grants := t_grants db @ [r]\<rparr>"
  using issue_and_store_eq_Inr [OF assms] insert_stored_grant_eq_Inr(1) by blast

lemma consume_tables:
  assumes "consume H svc ce cdb db reading cid jti = Inr (w, db')"
  shows "\<exists>c. db' = db\<lparr>t_consumptions := t_consumptions db @ [c]\<rparr>"
  using assms insert_consumption_eq_Inr(1) unfolding consume_eq_Inr by blast

lemmas step_tables = store_tables handoff_tables delivery_step_tables consume_tables

interpretation consumptions: growing_table "trust_step H" t_consumptions for H
  by unfold_locales (auto elim!: trust_step.cases pipeline_step.cases dest!: step_tables)

interpretation grants: growing_table "trust_step H" t_grants for H
  by unfold_locales (auto elim!: trust_step.cases pipeline_step.cases dest!: step_tables)

interpretation intents: growing_table "trust_step H" t_outbox for H
  by unfold_locales (auto elim!: trust_step.cases pipeline_step.cases dest!: step_tables)

subsection \<open>A grant is consumed at most once\<close>

lemma consumed_blocks:
  assumes "text_ok jti" and "select cr_jti jti (t_consumptions db) \<noteq> None"
  shows "consume H svc ce cdb db reading cid jti = Inl (PermissionError ''GRANT_ALREADY_CONSUMED'')"
    and "consume_and_enqueue H svc orv ce cdb db reading cid oid jti = Inl (PermissionError ''GRANT_ALREADY_CONSUMED'')"
proof -
  have "check_texts [(''jti'', jti)] = Inr ()" using assms(1) by (simp add: check_texts_eq_Inr)
  then have "prepare_consumption H svc ce cdb db reading cid jti = Inl (PermissionError ''GRANT_ALREADY_CONSUMED'')"
    using assms(2) by (auto simp: prepare_consumption_def)
  then show "consume H svc ce cdb db reading cid jti = Inl (PermissionError ''GRANT_ALREADY_CONSUMED'')"
    "consume_and_enqueue H svc orv ce cdb db reading cid oid jti = Inl (PermissionError ''GRANT_ALREADY_CONSUMED'')"
    by (simp_all add: consume_def consume_and_enqueue_def prepare_handoff_same)
qed

lemma consume_records:
  assumes "consume H svc ce cdb db reading cid jti = Inr (w, db')"
  shows "text_ok jti \<and> select cr_jti jti (t_consumptions db') \<noteq> None"
proof -
  obtain g conformance clock where prep: "prepare_consumption H svc ce cdb db reading cid jti = Inr (g, conformance, clock, w)"
    and ins: "insert_consumption db (consumption_row_of g conformance clock w) = Inr db'"
    using assms unfolding consume_eq_Inr by blast
  have "cr_jti (consumption_row_of g conformance clock w) = jti"
    using prepared_jti [OF prep] by (simp add: consumption_row_of_def)
  then show ?thesis
    using prep insert_consumption_eq_Inr(1) [OF ins]
    by (simp add: prepare_consumption_eq_Inr select_append split: option.split)
qed

lemma handoff_records:
  assumes "consume_and_enqueue H svc orv ce cdb db reading cid oid jti = Inr (e, db')"
  shows "text_ok jti \<and> select cr_jti jti (t_consumptions db') \<noteq> None"
proof -
  have "text_ok jti" using assms unfolding consume_and_enqueue_eq_Inr prepare_consumption_eq_Inr by blast
  then show ?thesis using handoff_tables [OF assms] by (auto simp: select_append split: option.split)
qed

text \<open>(C1) One-time use: once a grant has been consumed, by \<open>consume\<close> or by \<open>consume_and_enqueue\<close>, then
  in every database that the grant and delivery services reach afterwards both operations on the same
  token are denied with \<open>GRANT_ALREADY_CONSUMED\<close>, for every service configuration, state of the
  identity tables, epoch authority, clock reading and identifier.\<close>

theorem grant_consumed_at_most_once:
  assumes "consume H svc ce cdb db reading cid jti = Inr (w, db1)
      \<or> consume_and_enqueue H svc orv ce cdb db reading cid oid jti = Inr (e, db1)"
    and "(trust_step H)\<^sup>*\<^sup>* db1 db2"
  shows "consume H svc' ce' cdb' db2 reading' cid' jti = Inl (PermissionError ''GRANT_ALREADY_CONSUMED'')
     \<and> consume_and_enqueue H svc' orv' ce' cdb' db2 reading' cid' oid' jti
         = Inl (PermissionError ''GRANT_ALREADY_CONSUMED'')"
proof -
  have "text_ok jti \<and> select cr_jti jti (t_consumptions db1) \<noteq> None"
    by (rule disjE [OF assms(1)]) (rule consume_records handoff_records, assumption)+
  then obtain r where "text_ok jti" and r: "select cr_jti jti (t_consumptions db1) = Some r" by blast
  moreover have "select cr_jti jti (t_consumptions db2) = Some r"
    by (rule consumptions.select_persists [OF assms(2) r])
  ultimately show ?thesis using consumed_blocks by auto
qed

subsection \<open>Consumption requires a live grant\<close>

lemma natural_epoch_eq_Inr: "natural_epoch v = Inr i \<longleftrightarrow> v = JInt i \<and> 0 \<le> i"
  by (cases v) (auto simp: natural_epoch_def res_simps)

lemma assert_live_permission_eq_Inr:
  assumes "assert_live_permission H cdb g = Inr u"
  shows "gr_required_permission g = required_execution_permission \<and> live_permission cdb (grant_query g)"
  using assms
  by (auto simp: assert_live_permission_def permission_query_init_def bindE_eq_Inr thenE_eq_Inr
      guardE_eq_Inr catchE_eq_Inr dest: decide_database_permission_granted)

lemma assert_live_authority_eq_Inr:
  assumes "assert_live_authority H ce cdb g clock = Inr live"
  shows "instant_at (gr_issued_at g) \<le> instant_at (ck_observed_at clock)
     \<and> instant_at (ck_observed_at clock) < instant_at (gr_expires_at g)
     \<and> \<not> is_stop_active cdb \<and> live_permission cdb (grant_query g)
     \<and> ce (gr_workspace_id g) (gr_environment g) (gr_capability_definition_identity g) = Inr (JInt (gr_revocation_epoch g))
     \<and> live = gr_revocation_epoch g"
  using assms
  by (auto simp: assert_live_authority_def bindE_eq_Inr thenE_eq_Inr guardE_eq_Inr catchE_eq_Inr
      require_timestamp_eq_Inr natural_epoch_eq_Inr instant_at_def dest: assert_live_permission_eq_Inr)

lemma trusted_clock_witness_eq_Inr:
  assumes "trusted_clock_witness H svc reading g = Inr clock"
  shows "\<exists>t. reading = AwareTime t \<and> ck_observed_at clock = iso_ms t \<and> ck_environment clock = gr_environment g"
  using assms
  by (auto simp: trusted_clock_witness_def bindE_eq_Inr thenE_eq_Inr catchE_eq_Inr
      dest: clock_authority_witness_eq_Inr)

lemma prepared_live:
  assumes "prepare_consumption H svc ce cdb db reading cid jti = Inr (g, conformance, clock, w)"
  shows "\<exists>row t. select gw_jti jti (t_grants db) = Some row \<and> decode_stored_grant H row = Inr g
     \<and> execution_grant_ok H g \<and> gr_jti g = jti \<and> reading = AwareTime t
     \<and> instant_at (gr_issued_at g) \<le> instant_at (iso_ms t) \<and> instant_at (iso_ms t) < instant_at (gr_expires_at g)
     \<and> \<not> is_stop_active cdb \<and> live_permission cdb (grant_query g)
     \<and> gr_required_permission g = required_execution_permission
     \<and> ce (gr_workspace_id g) (gr_environment g) (gr_capability_definition_identity g) = Inr (JInt (gr_revocation_epoch g))
     \<and> evaluate H (gs_conformance svc) g = Inr conformance \<and> cw_grant_digest conformance = gr_grant_digest g"
proof -
  obtain row live
    where row: "select gw_jti jti (t_grants db) = Some row" "decode_stored_grant H row = Inr g"
      and clock: "trusted_clock_witness H svc reading g = Inr clock"
      and live: "assert_live_authority H ce cdb g clock = Inr live"
      and conf: "fresh_conformance H svc g = Inr conformance"
    using assms unfolding prepare_consumption_eq_Inr by blast
  have "evaluate H (gs_conformance svc) g = Inr conformance \<and> cw_grant_digest conformance = gr_grant_digest g"
    using conf by (auto simp: fresh_conformance_def bindE_eq_Inr thenE_eq_Inr guardE_eq_Inr catchE_eq_Inr)
  moreover have "gr_jti g = jti" "execution_grant_ok H g"
    using row decode_stored_grant_jti decode_stored_grant_ok select_Some_D by fastforce+
  moreover have "gr_required_permission g = required_execution_permission"
    using \<open>execution_grant_ok H g\<close> by (simp add: execution_grant_ok_def required_execution_permission_def)
  ultimately show ?thesis
    using row trusted_clock_witness_eq_Inr [OF clock] assert_live_authority_eq_Inr [OF live] by metis
qed

lemma consumption_prepared:
  assumes "consume H svc ce cdb db reading cid jti = Inr (w, db')
      \<or> consume_and_enqueue H svc orv ce cdb db reading cid oid jti = Inr (e, db')"
  obtains g conformance clock w' where "prepare_consumption H svc ce cdb db reading cid jti = Inr (g, conformance, clock, w')"
  using assms unfolding consume_eq_Inr consume_and_enqueue_eq_Inr by blast

text \<open>(C3) Authority at the moment of use: a grant is consumed, by \<open>consume\<close> or by \<open>consume_and_enqueue\<close>, only
  if it is stored and valid, the clock reading lies inside its validity window, the emergency stop is off, the
  acting user is active, a member of the workspace in that environment and holds \<open>execution.run\<close>, the revocation
  epoch is still the one the grant was issued under, and the conformance authority accepts the grant.\<close>

theorem consumption_requires_live_grant:
  assumes "consume H svc ce cdb db reading cid jti = Inr (w, db')
      \<or> consume_and_enqueue H svc orv ce cdb db reading cid oid jti = Inr (e, db')"
  shows "\<exists>row g t cw. select gw_jti jti (t_grants db) = Some row \<and> decode_stored_grant H row = Inr g
     \<and> execution_grant_ok H g \<and> gr_jti g = jti \<and> reading = AwareTime t
     \<and> instant_at (gr_issued_at g) \<le> instant_at (iso_ms t) \<and> instant_at (iso_ms t) < instant_at (gr_expires_at g)
     \<and> \<not> is_stop_active cdb \<and> live_permission cdb (grant_query g)
     \<and> gr_required_permission g = required_execution_permission
     \<and> ce (gr_workspace_id g) (gr_environment g) (gr_capability_definition_identity g) = Inr (JInt (gr_revocation_epoch g))
     \<and> evaluate H (gs_conformance svc) g = Inr cw \<and> cw_grant_digest cw = gr_grant_digest g"
  using assms by (rule consumption_prepared) (use prepared_live in blast)

subsection \<open>The invariant of the hand-off\<close>

text \<open>
  A consumption and its outbox intent are written in one transaction: no consumption is without an
  intent, each intent is bound to a consumption and a grant, and tokens are unique in both tables.
\<close>

definition handoff_inv :: "trust_db \<Rightarrow> bool" where
  "handoff_inv db \<longleftrightarrow>
     unique_on cr_jti (t_consumptions db) \<and> unique_on ob_jti (t_outbox db) \<and> unique_on ob_outbox_id (t_outbox db)
     \<and> (\<forall>c \<in> set (t_consumptions db). cr_consumption_id c \<in> set (map ob_consumption_id (t_outbox db)))
     \<and> (\<forall>r \<in> set (t_outbox db). outbox_binding db (ob_cols r))"

lemma outbox_binding_mono:
  assumes "outbox_binding db e" and "set (t_consumptions db) \<subseteq> set (t_consumptions db')"
    and "set (t_grants db) \<subseteq> set (t_grants db')"
  shows "outbox_binding db' e"
  using assms unfolding outbox_binding_def list_ex_iff by (meson subsetD)

lemma handoff_inv_store:
  assumes "handoff_inv db" and "db' = db\<lparr>t_grants := t_grants db @ [r]\<rparr>"
  shows "handoff_inv db'"
  using assms outbox_binding_mono [of db _ db'] by (auto simp: handoff_inv_def)

lemma handoff_inv_consume:
  assumes inv: "handoff_inv db"
    and step: "consume_and_enqueue H svc orv ce cdb db reading cid oid jti = Inr (e, db')"
  shows "handoff_inv db'"
proof -
  obtain c where db': "db' = db\<lparr>t_consumptions := t_consumptions db @ [c], t_outbox := t_outbox db @ [outbox_row_of e]\<rparr>"
    and same: "cr_consumption_id c = ox_consumption_id e"
    and ins: "insert_consumption db c = Inr (db\<lparr>t_consumptions := t_consumptions db @ [c]\<rparr>)"
    and out: "insert_outbox (db\<lparr>t_consumptions := t_consumptions db @ [c]\<rparr>) (outbox_row_of e) = Inr db'"
    using handoff_tables [OF step] by blast
  let ?db1 = "db\<lparr>t_consumptions := t_consumptions db @ [c]\<rparr>"
  have "outbox_binding db' (ob_cols r)" if "r \<in> set (t_outbox db')" for r
  proof -
    have "outbox_binding db (ob_cols r) \<or> outbox_binding ?db1 (ob_cols r)"
      using that inv insert_outbox_eq_Inr(4) [OF out] by (auto simp: db' handoff_inv_def)
    then show ?thesis
      using outbox_binding_mono [of db "ob_cols r" db'] outbox_binding_mono [of ?db1 "ob_cols r" db']
      by (auto simp: db')
  qed
  then show ?thesis
    using inv insert_consumption_eq_Inr(2) [OF ins] insert_outbox_eq_Inr(2,3) [OF out] same
    by (auto simp: handoff_inv_def db' unique_on_snoc outbox_row_of_def)
qed

lemma handoff_inv_deliver:
  assumes inv: "handoff_inv db" and step: "delivery_step H db db'"
  shows "handoff_inv db'"
proof -
  note tables = delivery_step_tables [OF step]
  have mono: "outbox_binding db e \<Longrightarrow> outbox_binding db' e" for e
    using outbox_binding_mono [of db e db'] tables by simp
  show ?thesis using inv tables mono by (auto simp: handoff_inv_def unique_on_snoc)
qed

lemma pipeline_step_handoff: "pipeline_step H db db' \<Longrightarrow> handoff_inv db \<Longrightarrow> handoff_inv db'"
  by (erule pipeline_step.cases)
    (auto dest: store_tables intro: handoff_inv_store handoff_inv_consume handoff_inv_deliver)

lemma pipeline_step_delivery: "pipeline_step H db db' \<Longrightarrow> delivery_inv H db \<Longrightarrow> delivery_inv H db'"
proof (induction rule: pipeline_step.induct)
  case (store_step svc ce cdb db reading issued g db')
  then show ?case
    using store_tables [OF store_step(1)] inbox_inv_cong [of db' db] lease_inv_cong [of db' db]
      epochs_inv_cong [of db' db] by (auto simp: delivery_inv_def)
next
  case (handoff_step svc orv ce cdb db reading cid oid jti e db')
  then show ?case
    using handoff_tables [OF handoff_step(1)] inbox_inv_cong [of db' db] lease_inv_cong [of db' db]
      epochs_inv_cong [of db' db] by (auto simp: delivery_inv_def)
next
  case (deliver_step db db')
  then show ?case by (blast intro: delivery_step_inv)
qed

definition pipeline_start :: "trust_db \<Rightarrow> bool" where
  "pipeline_start db \<longleftrightarrow> t_consumptions db = [] \<and> t_outbox db = [] \<and> delivery_start db"

lemma pipeline_inv:
  assumes "pipeline_start db0" and "(pipeline_step H)\<^sup>*\<^sup>* db0 db"
  shows "handoff_inv db \<and> delivery_inv H db"
  using assms(2)
proof (induction rule: rtranclp_induct)
  case base
  then show ?case
    using assms(1) by (simp add: pipeline_start_def handoff_inv_def unique_on_def delivery_start_def
        delivery_inv_def inbox_inv_def lease_inv_def epochs_inv_def)
next
  case (step db1 db2)
  then show ?case using pipeline_step_handoff pipeline_step_delivery by blast
qed

text \<open>(C6) Consumption and intent are atomic: in every database that the services reach from empty
  tables, the start-up check \<open>_assert_no_orphan_consumptions\<close> of the outbox service passes, and every
  outbox intent is bound to a recorded consumption and a stored grant with the same token.\<close>

theorem no_orphan_consumptions:
  assumes "pipeline_start db0" and "(pipeline_step H)\<^sup>*\<^sup>* db0 db"
  shows "assert_no_orphan_consumptions db = Inr ()
     \<and> list_all (\<lambda>r. outbox_binding db (ob_cols r)) (t_outbox db)"
  using pipeline_inv [OF assms]
  by (auto simp: handoff_inv_def assert_no_orphan_consumptions_def orphan_consumptions_def guardE_eq_Inr
      filter_empty_conv list_all_iff comp_def)

text \<open>(C5) Exactly-once effect, end to end: in every reachable database, two epoch states whose
  admissions came from intents of the same grant are one and the same state, and that grant has a
  recorded consumption.  An epoch state records at most one completion, so one grant yields at most
  one completed execution, however often envelopes are redelivered and leases re-acquired.\<close>

theorem one_execution_per_grant:
  assumes "pipeline_start db0" and "(pipeline_step H)\<^sup>*\<^sup>* db0 db"
    and "s \<in> set (t_epochs db)" and "a \<in> set (t_inbox db)" and "ib_admission_id a = es_admission_id s"
    and "r \<in> set (t_outbox db)" and "ob_outbox_id r = ad_outbox_id (ib_cols a)"
    and "s' \<in> set (t_epochs db)" and "a' \<in> set (t_inbox db)" and "ib_admission_id a' = es_admission_id s'"
    and "r' \<in> set (t_outbox db)" and "ob_outbox_id r' = ad_outbox_id (ib_cols a')"
    and "ob_jti r = ob_jti r'"
  shows "s = s' \<and> ob_jti r \<in> set (map cr_jti (t_consumptions db))"
proof -
  have h: "handoff_inv db" and d: "delivery_inv H db" using pipeline_inv [OF assms(1,2)] by auto
  have "r = r'" using unique_on_eqI [of ob_jti "t_outbox db" r r'] h assms(6,11,13) by (simp add: handoff_inv_def)
  then have "a = a'"
    using unique_on_eqI [of "\<lambda>r. ad_outbox_id (ib_cols r)" "t_inbox db" a a'] d assms(4,7,9,12)
    by (simp add: delivery_inv_def inbox_inv_def)
  then have "s = s'"
    using unique_on_eqI [of es_admission_id "t_epochs db" s s'] d assms(3,5,8,10)
    by (simp add: delivery_inv_def epochs_inv_def)
  moreover have "outbox_binding db (ob_cols r)" using h assms(6) by (simp add: handoff_inv_def)
  then obtain c where "c \<in> set (t_consumptions db)" "ob_jti r = cr_jti c"
    unfolding outbox_binding_def list_ex_iff by metis
  then have "ob_jti r \<in> set (map cr_jti (t_consumptions db))" by simp
  ultimately show ?thesis by simp
qed

text \<open>(C4) The emergency stop stops: while it is active, no grant can be stored, consumed or handed to
  the outbox, whatever the rest of the configuration is.\<close>

theorem emergency_stop_blocks:
  assumes "is_stop_active cdb"
  shows "(\<exists>e. issue_and_store H svc ce cdb db reading issued = Inl e)
     \<and> (\<exists>e. consume H svc ce cdb db reading cid jti = Inl e)
     \<and> (\<exists>e. consume_and_enqueue H svc orv ce cdb db reading cid oid jti = Inl e)"
proof -
  have no: "assert_live_authority H ce cdb g clock \<noteq> Inr live" for g clock live
    using assert_live_authority_eq_Inr assms by blast
  have "issue_and_store H svc ce cdb db reading issued \<noteq> Inr x" for x
    using issue_and_store_eq_Inr no by (cases x) blast
  moreover have prep: "prepare_consumption H svc ce cdb db reading cid jti \<noteq> Inr x" for x
    using no prepare_consumption_eq_Inr by (cases x) blast
  moreover have "consume H svc ce cdb db reading cid jti \<noteq> Inr x" for x
    using prep by (cases x) (auto simp: consume_eq_Inr)
  moreover have "consume_and_enqueue H svc orv ce cdb db reading cid oid jti \<noteq> Inr x" for x
    using prep by (cases x) (auto simp: consume_and_enqueue_eq_Inr)
  ultimately show ?thesis by (meson sum.exhaust)
qed

end
