(* ===== verification/Execution_Contract.thy ===== *)
theory Execution_Contract
  imports Capability_Registry "HOL-Library.Product_Lexorder"
begin

text \<open>
  The contracts of \<open>execution_contract.py\<close> that authorization snapshots are built from: the target of an
  execution (a kind and a JSON object of claims, kept as its canonical text) and the set of approvals
  of a request.  Both carry a digest; both decode from a dictionary by creating the contract anew and
  comparing digests.  Arguments of the constructors have their annotated types.
\<close>

subsection \<open>Patterns and nesting\<close>

definition is_letter :: "char \<Rightarrow> bool" where
  "is_letter c \<longleftrightarrow> is_lower c \<or> (code CHR ''A'' \<le> code c \<and> code c \<le> code CHR ''Z'')"

text \<open>\<open>[A-Za-z][A-Za-z0-9._:-]{0,255}\<close>, and the same with \<open>/\<close> for policy versions.\<close>

definition is_identifier_char :: "char \<Rightarrow> bool" where
  "is_identifier_char c \<longleftrightarrow> is_letter c \<or> is_digit c \<or> c \<in> {CHR ''.'', CHR ''_'', CHR '':'', CHR ''-''}"

definition identifier_pattern :: "string \<Rightarrow> bool" where
  "identifier_pattern s =
     (case s of [] \<Rightarrow> False | c # cs \<Rightarrow> is_letter c \<and> length cs \<le> 255 \<and> list_all is_identifier_char cs)"

definition policy_version_pattern :: "string \<Rightarrow> bool" where
  "policy_version_pattern s =
     (case s of [] \<Rightarrow> False
      | c # cs \<Rightarrow> is_letter c \<and> length cs \<le> 255 \<and> list_all (\<lambda>x. is_identifier_char x \<or> x = CHR ''/'') cs)"

definition require_identifier :: "string \<Rightarrow> json \<Rightarrow> string res" where
  "require_identifier field v =
     bindE (require_text field v) (\<lambda>s. if identifier_pattern s then Inr s else Inl (ValueError field))"

definition require_capability :: "json \<Rightarrow> string res" where
  "require_capability v =
     bindE (require_text ''capability'' v) (\<lambda>s. if capability_pattern s then Inr s else Inl (ValueError ''capability''))"

definition require_policy_version :: "json \<Rightarrow> string res" where
  "require_policy_version v =
     bindE (require_text ''policy_version'' v) (\<lambda>s.
       if policy_version_pattern s then Inr s else Inl (ValueError ''policy_version''))"

text \<open>
  \<open>_require_json_value\<close>: in a decoded JSON value only the nesting is restricted.  The value at depth
  \<open>d\<close> is refused when \<open>d\<close> exceeds 32, so a value is accepted when its own depth is at most 32.
\<close>

primrec json_depth :: "json \<Rightarrow> int" where
  "json_depth JNull = 0"
| "json_depth (JBool b) = 0"
| "json_depth (JInt i) = 0"
| "json_depth (JStr s) = 0"
| "json_depth (JArr vs) = fold max (map ((+) 1) (map json_depth vs)) 0"
| "json_depth (JObj kvs) = fold max (map ((+) 1 \<circ> snd) (map (map_prod id json_depth) kvs)) 0"

definition require_json_value :: "string \<Rightarrow> json \<Rightarrow> unit res" where
  "require_json_value field v = guardE (json_depth v \<le> 32) (ValueError field)"

lemma require_identifier_eq_Inr [res_simps]:
  "require_identifier f v = Inr s \<longleftrightarrow> v = JStr s \<and> text_ok s \<and> identifier_pattern s"
  by (auto simp: require_identifier_def res_simps split: if_splits)

lemma require_capability_eq_Inr [res_simps]:
  "require_capability v = Inr s \<longleftrightarrow> v = JStr s \<and> text_ok s \<and> capability_pattern s"
  by (auto simp: require_capability_def res_simps split: if_splits)

lemma require_policy_version_eq_Inr [res_simps]:
  "require_policy_version v = Inr s \<longleftrightarrow> v = JStr s \<and> text_ok s \<and> policy_version_pattern s"
  by (auto simp: require_policy_version_def res_simps split: if_splits)

lemma require_json_value_eq_Inr [res_simps]: "require_json_value f v = Inr u \<longleftrightarrow> json_depth v \<le> 32"
  by (simp add: require_json_value_def res_simps)

text \<open>\<open>_require_schema_and_type\<close>: the version must be the integer itself, \<open>True\<close> is refused.\<close>

definition require_schema_and_type :: "(string \<Rightarrow> json) \<Rightarrow> string \<Rightarrow> string \<Rightarrow> unit res" where
  "require_schema_and_type d type_field expected_type =
     thenE (guardE (d ''schema_version'' = JInt 1) (ValueError ''schema_version''))
      (guardE (d type_field = JStr expected_type) (ValueError type_field))"

subsection \<open>Execution targets\<close>

record execution_target =
  et_target_kind :: string
  et_target_claims_json :: string
  et_target_digest :: string

definition execution_target_claims :: "string \<Rightarrow> json \<Rightarrow> (string \<times> json) list" where
  "execution_target_claims kind claims =
     [(''schema_version'', JInt 1), (''target_type'', JStr ''execution-target/v1''), (''target_kind'', JStr kind),
      (''target_claims'', claims)]"

text \<open>The checks on a stored JSON object, shared with the states of \<open>precondition_witness.py\<close>.\<close>

definition stored_object :: "string \<Rightarrow> string \<Rightarrow> json res" where
  "stored_object field text_json =
     bindE (orRaise (json_loads text_json) (ValueError field)) (\<lambda>v.
     thenE (guardE (is_object v) (ValueError field))
    (thenE (require_json_value field v)
    (thenE (guardE (text_json = canonical_json v) (ValueError field))
      (Inr v))))"

definition execution_target_init :: "(string \<Rightarrow> string) \<Rightarrow> execution_target \<Rightarrow> execution_target res" where
  "execution_target_init H t =
     bindE (require_identifier ''target_kind'' (JStr (et_target_kind t))) (\<lambda>_.
     bindE (stored_object ''target_claims'' (et_target_claims_json t)) (\<lambda>claims.
     bindE (require_digest ''target_digest'' (JStr (et_target_digest t))) (\<lambda>_.
     thenE (guardE (et_target_digest t = claims_digest H (execution_target_claims (et_target_kind t) claims))
        (ValueError ''target_digest''))
      (Inr t))))"

definition execution_target_create :: "(string \<Rightarrow> string) \<Rightarrow> string \<Rightarrow> json \<Rightarrow> execution_target res" where
  "execution_target_create H kind claims =
     bindE (require_identifier ''target_kind'' (JStr kind)) (\<lambda>_.
     thenE (guardE (is_object claims) (ValueError ''target_claims''))
    (thenE (require_json_value ''target_claims'' claims)
      (let claims_json = canonical_json claims in
       bindE (orRaise (json_loads claims_json) (ValueError ''json'')) (\<lambda>loaded.
       execution_target_init H \<lparr>et_target_kind = kind, et_target_claims_json = claims_json,
         et_target_digest = claims_digest H (execution_target_claims kind loaded)\<rparr>))))"

text \<open>\<open>target_claims\<close> reparses the stored text, which the constructor has parsed already.\<close>

definition target_claims :: "execution_target \<Rightarrow> json" where
  "target_claims t = (case json_loads (et_target_claims_json t) of Some v \<Rightarrow> v | None \<Rightarrow> JNull)"

definition execution_target_to_dict :: "execution_target \<Rightarrow> (string \<times> json) list" where
  "execution_target_to_dict t =
     execution_target_claims (et_target_kind t) (target_claims t) @ [(''target_digest'', JStr (et_target_digest t))]"

definition execution_target_from_dict :: "(string \<Rightarrow> string) \<Rightarrow> json \<Rightarrow> execution_target res" where
  "execution_target_from_dict H v =
     bindE (require_exact_fields [''schema_version'', ''target_type'', ''target_kind'', ''target_claims'', ''target_digest'']
        ''execution-target/v1'' v) (\<lambda>d.
     thenE (require_schema_and_type d ''target_type'' ''execution-target/v1'')
      (bindE (require_identifier ''target_kind'' (d ''target_kind'')) (\<lambda>kind.
       bindE (execution_target_create H kind (d ''target_claims'')) (\<lambda>t.
       bindE (require_digest ''target_digest'' (d ''target_digest'')) (\<lambda>supplied.
       thenE (guardE (supplied = et_target_digest t) (ValueError ''target_digest''))
        (Inr t))))))"

definition execution_target_ok :: "(string \<Rightarrow> string) \<Rightarrow> execution_target \<Rightarrow> bool" where
  "execution_target_ok H t \<longleftrightarrow> execution_target_init H t = Inr t"

lemma execution_target_init_ok: "execution_target_init H t = Inr t' \<Longrightarrow> t' = t \<and> execution_target_ok H t'"
  by (auto simp: execution_target_init_def execution_target_ok_def res_simps)

lemma execution_target_create_ok:
  "execution_target_create H kind claims = Inr t \<Longrightarrow> execution_target_ok H t \<and> et_target_kind t = kind"
  by (auto simp: execution_target_create_def Let_def res_simps dest!: execution_target_init_ok)

lemma execution_target_ok_iff:
  "execution_target_ok H t \<longleftrightarrow>
     text_ok (et_target_kind t) \<and> identifier_pattern (et_target_kind t) \<and> digest_ok (et_target_digest t)
     \<and> json_loads (et_target_claims_json t) = Some (target_claims t) \<and> is_object (target_claims t)
     \<and> json_depth (target_claims t) \<le> 32 \<and> et_target_claims_json t = canonical_json (target_claims t)
     \<and> et_target_digest t = claims_digest H (execution_target_claims (et_target_kind t) (target_claims t))"
  by (auto simp: execution_target_ok_def execution_target_init_def stored_object_def target_claims_def res_simps
      split: option.splits)

subsection \<open>Approvals\<close>

record approval_record =
  ar_approval_id :: string
  ar_approver_id :: string
  ar_decision :: string
  ar_approved_at :: string

definition approval_record_init :: "(string \<Rightarrow> json) \<Rightarrow> approval_record res" where
  "approval_record_init d =
     bindE (require_identifier ''approval_id'' (d ''approval_id'')) (\<lambda>aid.
     bindE (require_identifier ''approver_id'' (d ''approver_id'')) (\<lambda>approver.
     thenE (guardE (d ''decision'' = JStr ''APPROVED'') (ValueError ''decision''))
      (bindE (require_timestamp ''approved_at'' (d ''approved_at'')) (\<lambda>_.
       Inr \<lparr>ar_approval_id = aid, ar_approver_id = approver, ar_decision = ''APPROVED'',
         ar_approved_at = str_of (d ''approved_at'')\<rparr>))))"

definition approval_record_to_dict :: "approval_record \<Rightarrow> (string \<times> json) list" where
  "approval_record_to_dict a =
     [(''approval_id'', JStr (ar_approval_id a)), (''approver_id'', JStr (ar_approver_id a)),
      (''decision'', JStr (ar_decision a)), (''approved_at'', JStr (ar_approved_at a))]"

definition approval_record_from_dict :: "json \<Rightarrow> approval_record res" where
  "approval_record_from_dict v =
     bindE (require_exact_fields [''approval_id'', ''approver_id'', ''decision'', ''approved_at''] ''approval-record/v1'' v)
       approval_record_init"

definition approval_record_ok :: "approval_record \<Rightarrow> bool" where
  "approval_record_ok a \<longleftrightarrow> text_ok (ar_approval_id a) \<and> identifier_pattern (ar_approval_id a)
     \<and> text_ok (ar_approver_id a) \<and> identifier_pattern (ar_approver_id a)
     \<and> ar_decision a = ''APPROVED'' \<and> time_ok (ar_approved_at a)"

record approval_set =
  as_request_id :: string
  as_payload_digest :: string
  as_target_digest :: string
  as_capability :: string
  as_policy_version :: string
  as_approvals :: "approval_record list"
  as_approval_valid_until :: string
  as_approval_set_digest :: string

definition approval_set_claims :: "approval_set \<Rightarrow> (string \<times> json) list" where
  "approval_set_claims s =
     [(''schema_version'', JInt 1), (''approval_set_type'', JStr ''approval-evidence-set/v1''),
      (''request_id'', JStr (as_request_id s)), (''payload_digest'', JStr (as_payload_digest s)),
      (''target_digest'', JStr (as_target_digest s)), (''capability'', JStr (as_capability s)),
      (''policy_version'', JStr (as_policy_version s)),
      (''approvals'', JArr (map (JObj \<circ> approval_record_to_dict) (as_approvals s))),
      (''approval_valid_until'', JStr (as_approval_valid_until s))]"

definition approval_order :: "approval_record \<Rightarrow> string \<times> string \<times> string" where
  "approval_order a = (ar_approval_id a, ar_approver_id a, ar_approved_at a)"

text \<open>An approval lies not after an instant.\<close>

definition approved_by :: "string \<Rightarrow> utc_time \<Rightarrow> approval_record \<Rightarrow> unit res" where
  "approved_by message limit a =
     bindE (require_timestamp ''approved_at'' (JStr (ar_approved_at a))) (\<lambda>approved_at.
     guardE (\<not> instant approved_at > instant limit) (ValueError message))"

lemma approved_by_eq_Inr [res_simps]:
  "approved_by message limit a = Inr u \<longleftrightarrow>
     time_ok (ar_approved_at a) \<and> instant_at (ar_approved_at a) \<le> instant limit"
  by (auto simp: approved_by_def res_simps instant_at_def time_ok_def)

text \<open>The checks on ordered approvals that the constructor and \<open>create\<close> share.\<close>

definition approvals_checked :: "approval_record list \<Rightarrow> utc_time \<Rightarrow> unit res" where
  "approvals_checked approvals valid_until =
     thenE (guardE (distinct (map ar_approval_id approvals)) (ValueError ''approval IDs''))
    (thenE (guardE (distinct (map ar_approver_id approvals)) (ValueError ''approver identities''))
      (for_each (approved_by ''approval validity'' valid_until) approvals))"

definition approval_set_init :: "(string \<Rightarrow> string) \<Rightarrow> approval_set \<Rightarrow> approval_set res" where
  "approval_set_init H s =
     bindE (require_identifier ''request_id'' (JStr (as_request_id s))) (\<lambda>_.
     bindE (require_digest ''payload_digest'' (JStr (as_payload_digest s))) (\<lambda>_.
     bindE (require_digest ''target_digest'' (JStr (as_target_digest s))) (\<lambda>_.
     bindE (require_capability (JStr (as_capability s))) (\<lambda>_.
     bindE (require_policy_version (JStr (as_policy_version s))) (\<lambda>_.
     bindE (require_timestamp ''approval_valid_until'' (JStr (as_approval_valid_until s))) (\<lambda>valid_until.
     thenE (guardE (as_approvals s \<noteq> []) (ValueError ''approvals''))
    (thenE (guardE (as_approvals s = sort_key approval_order (as_approvals s)) (ValueError ''approvals order''))
    (thenE (approvals_checked (as_approvals s) valid_until)
      (bindE (require_digest ''approval_set_digest'' (JStr (as_approval_set_digest s))) (\<lambda>_.
       thenE (guardE (as_approval_set_digest s = claims_digest H (approval_set_claims s)) (ValueError ''approval_set_digest''))
        (Inr s)))))))))))"

text \<open>\<open>approvals\<close> is an iterable: consuming it, after the checks before, yields the records or raises.\<close>

definition approval_set_create ::
  "(string \<Rightarrow> string) \<Rightarrow> json \<Rightarrow> json \<Rightarrow> json \<Rightarrow> json \<Rightarrow> json \<Rightarrow> approval_record list res \<Rightarrow> json \<Rightarrow> approval_set res" where
  "approval_set_create H request_id payload_digest target_digest capability policy_version supplied approval_valid_until =
     bindE (require_identifier ''request_id'' request_id) (\<lambda>rid.
     bindE (require_digest ''payload_digest'' payload_digest) (\<lambda>payload.
     bindE (require_digest ''target_digest'' target_digest) (\<lambda>target.
     bindE (require_capability capability) (\<lambda>cap.
     bindE (require_policy_version policy_version) (\<lambda>version.
     bindE (require_timestamp ''approval_valid_until'' approval_valid_until) (\<lambda>valid_until.
     bindE supplied (\<lambda>approvals.
     thenE (guardE (approvals \<noteq> []) (ValueError ''approvals''))
      (let ordered = sort_key approval_order approvals;
           s = \<lparr>as_request_id = rid, as_payload_digest = payload, as_target_digest = target, as_capability = cap,
                as_policy_version = version, as_approvals = ordered,
                as_approval_valid_until = str_of approval_valid_until, as_approval_set_digest = []\<rparr> in
       thenE (approvals_checked ordered valid_until)
        (approval_set_init H (s\<lparr>as_approval_set_digest := claims_digest H (approval_set_claims s)\<rparr>))))))))))"

fun map_res :: "('a \<Rightarrow> 'b res) \<Rightarrow> 'a list \<Rightarrow> 'b list res" where
  "map_res f [] = Inr []"
| "map_res f (x # xs) = bindE (f x) (\<lambda>y. bindE (map_res f xs) (\<lambda>ys. Inr (y # ys)))"

definition approval_set_from_dict :: "(string \<Rightarrow> string) \<Rightarrow> json \<Rightarrow> approval_set res" where
  "approval_set_from_dict H v =
     bindE (require_exact_fields [''schema_version'', ''approval_set_type'', ''request_id'', ''payload_digest'',
        ''target_digest'', ''capability'', ''policy_version'', ''approvals'', ''approval_valid_until'',
        ''approval_set_digest''] ''approval-evidence-set/v1'' v) (\<lambda>d.
     thenE (require_schema_and_type d ''approval_set_type'' ''approval-evidence-set/v1'')
      (case d ''approvals'' of
         JArr raw \<Rightarrow>
           bindE (approval_set_create H (d ''request_id'') (d ''payload_digest'') (d ''target_digest'')
              (d ''capability'') (d ''policy_version'') (map_res approval_record_from_dict raw) (d ''approval_valid_until'')) (\<lambda>s.
           bindE (require_digest ''approval_set_digest'' (d ''approval_set_digest'')) (\<lambda>supplied.
           thenE (guardE (supplied = as_approval_set_digest s) (ValueError ''approval_set_digest''))
            (Inr s)))
       | _ \<Rightarrow> Inl (ValueError ''approvals'')))"

definition approval_set_to_dict :: "approval_set \<Rightarrow> (string \<times> json) list" where
  "approval_set_to_dict s = approval_set_claims s @ [(''approval_set_digest'', JStr (as_approval_set_digest s))]"

definition approval_set_ok :: "(string \<Rightarrow> string) \<Rightarrow> approval_set \<Rightarrow> bool" where
  "approval_set_ok H s \<longleftrightarrow> approval_set_init H s = Inr s"

lemma approval_set_init_ok: "approval_set_init H s = Inr s' \<Longrightarrow> s' = s \<and> approval_set_ok H s'"
  by (auto simp: approval_set_init_def approval_set_ok_def res_simps)

lemma approvals_checked_eq_Inr [res_simps]:
  "approvals_checked approvals valid_until = Inr u \<longleftrightarrow>
     distinct (map ar_approval_id approvals) \<and> distinct (map ar_approver_id approvals)
     \<and> (\<forall>a \<in> set approvals. time_ok (ar_approved_at a) \<and> instant_at (ar_approved_at a) \<le> instant valid_until)"
  by (simp add: approvals_checked_def res_simps)

lemma approval_set_ok_iff:
  "approval_set_ok H s \<longleftrightarrow>
     text_ok (as_request_id s) \<and> identifier_pattern (as_request_id s)
     \<and> digest_ok (as_payload_digest s) \<and> digest_ok (as_target_digest s)
     \<and> text_ok (as_capability s) \<and> capability_pattern (as_capability s)
     \<and> text_ok (as_policy_version s) \<and> policy_version_pattern (as_policy_version s)
     \<and> time_ok (as_approval_valid_until s) \<and> as_approvals s \<noteq> []
     \<and> as_approvals s = sort_key approval_order (as_approvals s)
     \<and> distinct (map ar_approval_id (as_approvals s)) \<and> distinct (map ar_approver_id (as_approvals s))
     \<and> (\<forall>a \<in> set (as_approvals s). time_ok (ar_approved_at a)
          \<and> instant_at (ar_approved_at a) \<le> instant_at (as_approval_valid_until s))
     \<and> digest_ok (as_approval_set_digest s) \<and> as_approval_set_digest s = claims_digest H (approval_set_claims s)"
  unfolding approval_set_ok_def approval_set_init_def
  by (auto simp: res_simps time_ok_def instant_at_def)

end
