(* ===== verification/Authorization_Snapshot.thy ===== *)
theory Authorization_Snapshot
  imports Execution_Contract
begin

text \<open>
  Authorization snapshots (\<open>authorization_snapshot.py\<close>): the record of one authorized execution, which
  embeds the target and the approvals, checks that they belong to the same request, payload, target,
  capability and policy version and that the authorization lies after every approval and inside their
  validity, and carries the digest of its claims.
\<close>

record authorization_snapshot =
  sn_snapshot_id :: string
  sn_execution_id :: string
  sn_request_id :: string
  sn_review_content_sha256 :: string
  sn_actor_id :: string
  sn_workspace_id :: string
  sn_environment :: string
  sn_capability :: string
  sn_capability_definition_identity :: string
  sn_payload_digest :: string
  sn_payload_digest_scheme :: string
  sn_execution_target_identity :: string
  sn_policy_version :: string
  sn_policy_identity :: string
  sn_approval_evidence_identity :: string
  sn_issuance_timestamp_source_identity :: string
  sn_authorized_at :: string
  sn_authorization_source_revision :: string
  sn_execution_target :: execution_target
  sn_approval_evidence :: approval_set
  sn_snapshot_digest :: string

definition authorization_snapshot_claims :: "authorization_snapshot \<Rightarrow> (string \<times> json) list" where
  "authorization_snapshot_claims c =
     [(''schema_version'', JInt 1), (''snapshot_type'', JStr ''authorization-snapshot/v1''),
      (''snapshot_id'', JStr (sn_snapshot_id c)), (''execution_id'', JStr (sn_execution_id c)),
      (''request_id'', JStr (sn_request_id c)),
      (''review_content_sha256'', JStr (sn_review_content_sha256 c)),
      (''actor_id'', JStr (sn_actor_id c)), (''workspace_id'', JStr (sn_workspace_id c)),
      (''environment'', JStr (sn_environment c)), (''capability'', JStr (sn_capability c)),
      (''capability_definition_identity'', JStr (sn_capability_definition_identity c)),
      (''payload_digest'', JStr (sn_payload_digest c)),
      (''payload_digest_scheme'', JStr (sn_payload_digest_scheme c)),
      (''target_kind'', JStr (et_target_kind (sn_execution_target c))),
      (''target_digest'', JStr (et_target_digest (sn_execution_target c))),
      (''execution_target_identity'', JStr (sn_execution_target_identity c)),
      (''policy_version'', JStr (sn_policy_version c)),
      (''policy_identity'', JStr (sn_policy_identity c)),
      (''approval_set_digest'', JStr (as_approval_set_digest (sn_approval_evidence c))),
      (''approval_evidence_identity'', JStr (sn_approval_evidence_identity c)),
      (''approval_valid_until'', JStr (as_approval_valid_until (sn_approval_evidence c))),
      (''required_permission'', JStr required_execution_permission),
      (''issuance_timestamp_source_identity'', JStr (sn_issuance_timestamp_source_identity c)),
      (''authorized_at'', JStr (sn_authorized_at c)),
      (''authorization_source_revision'', JStr (sn_authorization_source_revision c))]"

definition authorization_snapshot_fields :: "string list" where
  "authorization_snapshot_fields =
     [''schema_version'', ''snapshot_type'', ''snapshot_id'', ''execution_id'', ''request_id'',
      ''review_content_sha256'', ''actor_id'', ''workspace_id'', ''environment'', ''capability'',
      ''capability_definition_identity'', ''payload_digest'', ''payload_digest_scheme'',
      ''target_kind'', ''target_digest'', ''execution_target_identity'', ''policy_version'',
      ''policy_identity'', ''approval_set_digest'', ''approval_evidence_identity'',
      ''approval_valid_until'', ''required_permission'', ''issuance_timestamp_source_identity'',
      ''authorized_at'', ''authorization_source_revision'', ''snapshot_digest'']"

definition authorization_snapshot_to_dict :: "authorization_snapshot \<Rightarrow> (string \<times> json) list" where
  "authorization_snapshot_to_dict c =
     authorization_snapshot_claims c @ [(''snapshot_digest'', JStr (sn_snapshot_digest c))]"

text \<open>The claims of the snapshot against those of its parts.\<close>

definition snapshot_bindings :: "authorization_snapshot \<Rightarrow> (string \<times> string) list" where
  "snapshot_bindings c =
     [(as_request_id (sn_approval_evidence c), sn_request_id c),
      (as_payload_digest (sn_approval_evidence c), sn_payload_digest c),
      (as_target_digest (sn_approval_evidence c), et_target_digest (sn_execution_target c)),
      (as_capability (sn_approval_evidence c), sn_capability c),
      (as_policy_version (sn_approval_evidence c), sn_policy_version c)]"

definition authorization_snapshot_init ::
  "(string \<Rightarrow> string) \<Rightarrow> authorization_snapshot \<Rightarrow> authorization_snapshot res" where
  "authorization_snapshot_init H c =
     thenE (check_texts
       [(''snapshot_id'', sn_snapshot_id c), (''execution_id'', sn_execution_id c),
        (''request_id'', sn_request_id c), (''actor_id'', sn_actor_id c),
        (''workspace_id'', sn_workspace_id c),
        (''capability_definition_identity'', sn_capability_definition_identity c),
        (''execution_target_identity'', sn_execution_target_identity c),
        (''policy_identity'', sn_policy_identity c),
        (''approval_evidence_identity'', sn_approval_evidence_identity c),
        (''issuance_timestamp_source_identity'', sn_issuance_timestamp_source_identity c),
        (''authorization_source_revision'', sn_authorization_source_revision c)])
    (thenE (check_digests
       [(''review_content_sha256'', sn_review_content_sha256 c), (''payload_digest'', sn_payload_digest c)])
    (thenE (guardE (sn_environment c \<in> set valid_environments) (ValueError ''environment''))
    (thenE (guardE (sn_payload_digest_scheme c = ''request-payload/v1'') (ValueError ''payload_digest_scheme''))
      (bindE (require_timestamp ''authorized_at'' (JStr (sn_authorized_at c))) (\<lambda>authorized_at.
       bindE (require_timestamp ''approval_valid_until'' (JStr (as_approval_valid_until (sn_approval_evidence c))))
        (\<lambda>approval_valid_until.
       thenE (guardE (\<not> instant authorized_at > instant approval_valid_until) (ValueError ''approval validity''))
      (thenE (for_each (approved_by ''approval causality'' authorized_at) (as_approvals (sn_approval_evidence c)))
      (thenE (guardE (list_all (\<lambda>(actual, expected). actual = expected) (snapshot_bindings c))
          (ValueError ''cross-contract bindings''))
        (bindE (require_digest ''snapshot_digest'' (JStr (sn_snapshot_digest c))) (\<lambda>_.
         thenE (guardE (sn_snapshot_digest c = claims_digest H (authorization_snapshot_claims c))
           (ValueError ''snapshot_digest''))
          (Inr c)))))))))))"

text \<open>\<open>create\<close> seals the claims and runs the constructor.\<close>

definition authorization_snapshot_create ::
  "(string \<Rightarrow> string) \<Rightarrow> authorization_snapshot \<Rightarrow> authorization_snapshot res" where
  "authorization_snapshot_create H c =
     authorization_snapshot_init H
       (c\<lparr>sn_snapshot_digest := claims_digest H (authorization_snapshot_claims c)\<rparr>)"

text \<open>
  \<open>from_dict\<close> with the target and the approvals at hand: it creates the snapshot again and compares
  every supplied value with it (\<open>True\<close> equals the schema version 1).  The supplied values are strings
  where \<open>create\<close> would accept them; a value of another type is refused by \<open>create\<close> or by the comparison.
\<close>

definition authorization_snapshot_from_dict ::
  "(string \<Rightarrow> string) \<Rightarrow> json \<Rightarrow> execution_target \<Rightarrow> approval_set \<Rightarrow> authorization_snapshot res" where
  "authorization_snapshot_from_dict H v target approvals =
     bindE (require_exact_fields authorization_snapshot_fields ''authorization-snapshot/v1'' v) (\<lambda>d.
     thenE (guardE (py_eq_int (d ''schema_version'') 1) (ValueError ''schema_version''))
    (thenE (guardE (d ''snapshot_type'' = JStr ''authorization-snapshot/v1'') (ValueError ''snapshot_type''))
    (thenE (guardE (d ''required_permission'' = JStr required_execution_permission) (ValueError ''required_permission''))
      (bindE (authorization_snapshot_create H
         \<lparr>sn_snapshot_id = str_of (d ''snapshot_id''),
          sn_execution_id = str_of (d ''execution_id''),
          sn_request_id = str_of (d ''request_id''),
          sn_review_content_sha256 = str_of (d ''review_content_sha256''),
          sn_actor_id = str_of (d ''actor_id''), sn_workspace_id = str_of (d ''workspace_id''),
          sn_environment = str_of (d ''environment''), sn_capability = str_of (d ''capability''),
          sn_capability_definition_identity = str_of (d ''capability_definition_identity''),
          sn_payload_digest = str_of (d ''payload_digest''),
          sn_payload_digest_scheme = str_of (d ''payload_digest_scheme''),
          sn_execution_target_identity = str_of (d ''execution_target_identity''),
          sn_policy_version = str_of (d ''policy_version''),
          sn_policy_identity = str_of (d ''policy_identity''),
          sn_approval_evidence_identity = str_of (d ''approval_evidence_identity''),
          sn_issuance_timestamp_source_identity = str_of (d ''issuance_timestamp_source_identity''),
          sn_authorized_at = str_of (d ''authorized_at''),
          sn_authorization_source_revision = str_of (d ''authorization_source_revision''),
          sn_execution_target = target, sn_approval_evidence = approvals, sn_snapshot_digest = []\<rparr>) (\<lambda>created.
       thenE (for_each (\<lambda>(field, expected).
           guardE (d field = expected \<or> field = ''schema_version'') (ValueError field))
           (authorization_snapshot_to_dict created))
        (Inr created))))))"

definition idempotency_binding_digest :: "(string \<Rightarrow> string) \<Rightarrow> authorization_snapshot \<Rightarrow> string" where
  "idempotency_binding_digest H c =
     claims_digest H (filter (\<lambda>(field, v). field \<notin> {''snapshot_id'', ''execution_id'', ''authorized_at''})
       (authorization_snapshot_claims c))"

subsection \<open>Valid snapshots\<close>

definition authorization_snapshot_ok :: "(string \<Rightarrow> string) \<Rightarrow> authorization_snapshot \<Rightarrow> bool" where
  "authorization_snapshot_ok H c \<longleftrightarrow>
     list_all text_ok
        [sn_snapshot_id c, sn_execution_id c, sn_request_id c, sn_actor_id c, sn_workspace_id c,
         sn_capability_definition_identity c, sn_execution_target_identity c,
         sn_policy_identity c, sn_approval_evidence_identity c,
         sn_issuance_timestamp_source_identity c, sn_authorization_source_revision c]
     \<and> list_all digest_ok [sn_review_content_sha256 c, sn_payload_digest c, sn_snapshot_digest c]
     \<and> sn_environment c \<in> set valid_environments
     \<and> sn_payload_digest_scheme c = ''request-payload/v1''
     \<and> time_ok (sn_authorized_at c) \<and> time_ok (as_approval_valid_until (sn_approval_evidence c))
     \<and> instant_at (sn_authorized_at c) \<le> instant_at (as_approval_valid_until (sn_approval_evidence c))
     \<and> (\<forall>a \<in> set (as_approvals (sn_approval_evidence c)).
          time_ok (ar_approved_at a) \<and> instant_at (ar_approved_at a) \<le> instant_at (sn_authorized_at c))
     \<and> as_request_id (sn_approval_evidence c) = sn_request_id c
     \<and> as_payload_digest (sn_approval_evidence c) = sn_payload_digest c
     \<and> as_target_digest (sn_approval_evidence c) = et_target_digest (sn_execution_target c)
     \<and> as_capability (sn_approval_evidence c) = sn_capability c
     \<and> as_policy_version (sn_approval_evidence c) = sn_policy_version c
     \<and> sn_snapshot_digest c = claims_digest H (authorization_snapshot_claims c)"

lemma authorization_snapshot_init_iff:
  "authorization_snapshot_init H c = Inr c' \<longleftrightarrow> c' = c \<and> authorization_snapshot_ok H c"
  unfolding authorization_snapshot_init_def authorization_snapshot_ok_def snapshot_bindings_def
  by (auto simp: res_simps time_ok_def instant_at_def)

lemma authorization_snapshot_seal [simp]:
  "authorization_snapshot_claims (c\<lparr>sn_snapshot_digest := x\<rparr>) = authorization_snapshot_claims c"
  by (simp add: authorization_snapshot_claims_def)

lemma authorization_snapshot_from_dict_ok:
  "authorization_snapshot_from_dict H v target approvals = Inr c \<Longrightarrow>
     authorization_snapshot_ok H c \<and> sn_execution_target c = target \<and> sn_approval_evidence c = approvals"
  unfolding authorization_snapshot_from_dict_def authorization_snapshot_create_def
  by (auto simp: bindE_eq_Inr thenE_eq_Inr authorization_snapshot_init_iff)

end
