(* ===== verification/Monotonic_Authority.thy ===== *)
theory Monotonic_Authority
  imports Authorization_Snapshot
begin

text \<open>
  Monotonic authority (\<open>monotonic_authority.py\<close>): the scope that a snapshot authorizes, a constraint
  derived from it for one use, and the checker that refuses every constraint wider than its scope.
\<close>

subsection \<open>Validity intervals\<close>

definition require_interval :: "json \<Rightarrow> json \<Rightarrow> unit res" where
  "require_interval valid_from valid_until =
     bindE (require_timestamp ''valid_from'' valid_from) (\<lambda>start.
     bindE (require_timestamp ''valid_until'' valid_until) (\<lambda>end.
     guardE (\<not> instant end \<le> instant start) (ValueError ''authority validity interval'')))"

definition interval_ok :: "string \<Rightarrow> string \<Rightarrow> bool" where
  "interval_ok valid_from valid_until \<longleftrightarrow>
     time_ok valid_from \<and> time_ok valid_until \<and> instant_at valid_from < instant_at valid_until"

lemma require_interval_iff [init_simps, simp]:
  "require_interval a b = Inr u \<longleftrightarrow> is_str a \<and> is_str b \<and> interval_ok (str_of a) (str_of b)"
  by (cases a; cases b) (auto simp: require_interval_def interval_ok_def init_res_simps instant_at_def)

subsection \<open>Scopes\<close>

record authority_scope =
  sp_authorization_snapshot_digest :: string
  sp_actor_id :: string
  sp_workspace_id :: string
  sp_environment :: string
  sp_capability :: string
  sp_capability_definition_identity :: string
  sp_target_kind :: string
  sp_target_digest :: string
  sp_payload_digest :: string
  sp_policy_version :: string
  sp_policy_identity :: string
  sp_approval_set_digest :: string
  sp_required_permission :: string
  sp_valid_from :: string
  sp_valid_until :: string
  sp_scope_digest :: string

definition authority_scope_fields :: "string list" where
  "authority_scope_fields =
     [''schema_version'', ''scope_type'', ''authorization_snapshot_digest'', ''actor_id'',
      ''workspace_id'', ''environment'', ''capability'', ''capability_definition_identity'',
      ''target_kind'', ''target_digest'', ''payload_digest'', ''policy_version'',
      ''policy_identity'', ''approval_set_digest'', ''required_permission'', ''valid_from'',
      ''valid_until'', ''scope_digest'']"

definition authority_scope_claims :: "authority_scope \<Rightarrow> (string \<times> json) list" where
  "authority_scope_claims c =
     [(''schema_version'', JInt 1), (''scope_type'', JStr ''authority-scope/v1''),
      (''authorization_snapshot_digest'', JStr (sp_authorization_snapshot_digest c)),
      (''actor_id'', JStr (sp_actor_id c)), (''workspace_id'', JStr (sp_workspace_id c)),
      (''environment'', JStr (sp_environment c)), (''capability'', JStr (sp_capability c)),
      (''capability_definition_identity'', JStr (sp_capability_definition_identity c)),
      (''target_kind'', JStr (sp_target_kind c)), (''target_digest'', JStr (sp_target_digest c)),
      (''payload_digest'', JStr (sp_payload_digest c)),
      (''policy_version'', JStr (sp_policy_version c)),
      (''policy_identity'', JStr (sp_policy_identity c)),
      (''approval_set_digest'', JStr (sp_approval_set_digest c)),
      (''required_permission'', JStr (sp_required_permission c)),
      (''valid_from'', JStr (sp_valid_from c)), (''valid_until'', JStr (sp_valid_until c))]"

definition authority_scope_to_dict :: "authority_scope \<Rightarrow> (string \<times> json) list" where
  "authority_scope_to_dict c = authority_scope_claims c @ [(''scope_digest'', JStr (sp_scope_digest c))]"

definition authority_scope_of :: "(string \<Rightarrow> json) \<Rightarrow> authority_scope" where
  "authority_scope_of d =
     \<lparr>sp_authorization_snapshot_digest = str_of (d ''authorization_snapshot_digest''),
      sp_actor_id = str_of (d ''actor_id''), sp_workspace_id = str_of (d ''workspace_id''),
      sp_environment = str_of (d ''environment''), sp_capability = str_of (d ''capability''),
      sp_capability_definition_identity = str_of (d ''capability_definition_identity''),
      sp_target_kind = str_of (d ''target_kind''),
      sp_target_digest = str_of (d ''target_digest''),
      sp_payload_digest = str_of (d ''payload_digest''),
      sp_policy_version = str_of (d ''policy_version''),
      sp_policy_identity = str_of (d ''policy_identity''),
      sp_approval_set_digest = str_of (d ''approval_set_digest''),
      sp_required_permission = str_of (d ''required_permission''),
      sp_valid_from = str_of (d ''valid_from''), sp_valid_until = str_of (d ''valid_until''),
      sp_scope_digest = str_of (d ''scope_digest'')\<rparr>"

definition authority_scope_init :: "(string \<Rightarrow> string) \<Rightarrow> (string \<Rightarrow> json) \<Rightarrow> authority_scope res" where
  "authority_scope_init H d =
     thenE (for_each (check_digest d)
       [''authorization_snapshot_digest''])
    (thenE (for_each (check_text d)
       [''actor_id'', ''workspace_id'', ''environment'', ''capability'',
        ''capability_definition_identity'', ''target_kind'', ''policy_version'',
        ''required_permission''])
    (thenE (for_each (check_digest d)
       [''target_digest'', ''payload_digest'', ''policy_identity'', ''approval_set_digest'',
        ''scope_digest''])
    (thenE (guardE (d ''required_permission'' = JStr required_execution_permission) (ValueError ''required_permission''))
    (bindE (require_interval (d ''valid_from'') (d ''valid_until'')) (\<lambda>_.
      (let c = authority_scope_of d in thenE (guardE (sp_scope_digest c = claims_digest H (authority_scope_claims c))
        (ValueError ''scope_digest'')) (Inr c)))))))"

definition authority_scope_ok :: "(string \<Rightarrow> string) \<Rightarrow> authority_scope \<Rightarrow> bool" where
  "authority_scope_ok H c \<longleftrightarrow>
     list_all text_ok
        [sp_actor_id c, sp_workspace_id c, sp_environment c, sp_capability c,
         sp_capability_definition_identity c, sp_target_kind c, sp_policy_version c,
         sp_required_permission c]
     \<and> list_all digest_ok
        [sp_authorization_snapshot_digest c, sp_target_digest c, sp_payload_digest c,
         sp_policy_identity c, sp_approval_set_digest c, sp_scope_digest c]
     \<and> sp_required_permission c = required_execution_permission
     \<and> interval_ok (sp_valid_from c) (sp_valid_until c)
     \<and> sp_scope_digest c = claims_digest H (authority_scope_claims c)"

definition authority_scope_from_dict :: "(string \<Rightarrow> string) \<Rightarrow> json \<Rightarrow> authority_scope res" where
  "authority_scope_from_dict H =
     contract_from_dict 1 authority_scope_fields ''scope_type'' ''authority-scope/v1'' (authority_scope_init H)"

lemma authority_scope_of_sel [simp]:
  "sp_authorization_snapshot_digest (authority_scope_of d) = str_of (d ''authorization_snapshot_digest'')"
  "sp_actor_id (authority_scope_of d) = str_of (d ''actor_id'')"
  "sp_workspace_id (authority_scope_of d) = str_of (d ''workspace_id'')"
  "sp_environment (authority_scope_of d) = str_of (d ''environment'')"
  "sp_capability (authority_scope_of d) = str_of (d ''capability'')"
  "sp_capability_definition_identity (authority_scope_of d) = str_of (d ''capability_definition_identity'')"
  "sp_target_kind (authority_scope_of d) = str_of (d ''target_kind'')"
  "sp_target_digest (authority_scope_of d) = str_of (d ''target_digest'')"
  "sp_payload_digest (authority_scope_of d) = str_of (d ''payload_digest'')"
  "sp_policy_version (authority_scope_of d) = str_of (d ''policy_version'')"
  "sp_policy_identity (authority_scope_of d) = str_of (d ''policy_identity'')"
  "sp_approval_set_digest (authority_scope_of d) = str_of (d ''approval_set_digest'')"
  "sp_required_permission (authority_scope_of d) = str_of (d ''required_permission'')"
  "sp_valid_from (authority_scope_of d) = str_of (d ''valid_from'')"
  "sp_valid_until (authority_scope_of d) = str_of (d ''valid_until'')"
  "sp_scope_digest (authority_scope_of d) = str_of (d ''scope_digest'')"
  by (simp_all add: authority_scope_of_def)

lemma authority_scope_claims_determine:
  "map snd (authority_scope_claims c) = map snd (authority_scope_claims c') \<Longrightarrow> sp_scope_digest c = sp_scope_digest c' \<Longrightarrow> c = c'"
  by (simp add: authority_scope_claims_def)

lemma authority_scope_init_iff:
  "authority_scope_init H d = Inr c \<longleftrightarrow> authority_scope_ok H c
     \<and> list_all (\<lambda>(f, v). d f = v) (drop 2 (authority_scope_claims c) @ [(''scope_digest'', JStr (sp_scope_digest c))])"
  (is "?L \<longleftrightarrow> _ \<and> ?D c")
proof
  assume L: ?L
  then have c: "c = authority_scope_of d"
    unfolding authority_scope_init_def Let_def init_res_simps by blast
  have "authority_scope_ok H c" using L unfolding c authority_scope_init_def authority_scope_ok_def Let_def init_res_simps
    by (clarsimp simp: instant_at_def)
  moreover have "?D c" unfolding c
    by (simp add: authority_scope_claims_def init_simps)
      (use L in \<open>clarsimp simp: authority_scope_init_def Let_def init_res_simps\<close>)
  ultimately show "authority_scope_ok H c \<and> ?D c" ..
next
  assume R: "authority_scope_ok H c \<and> ?D c"
  then have c: "authority_scope_of d = c" by (simp add: authority_scope_of_def authority_scope_claims_def)
  note d = R [THEN conjunct2, unfolded authority_scope_claims_def]
  show ?L using R [THEN conjunct1] d unfolding authority_scope_init_def c Let_def
    by (clarsimp simp: authority_scope_ok_def init_res_simps instant_at_def)
qed

interpretation scope: content_bound H authority_scope_claims sp_scope_digest "authority_scope_ok H" 1 authority_scope_fields
  "''scope_type''" "''authority-scope/v1''" "''scope_digest''" "authority_scope_init H" for H
proof
  show "flat (authority_scope_claims c)" for c by (simp add: flat_def authority_scope_claims_def)
  show "map fst (authority_scope_claims c) = map fst (authority_scope_claims c')" for c c' by (simp add: authority_scope_claims_def)
  show "authority_scope_fields = map fst (authority_scope_claims c) @ [''scope_digest'']" for c
    by (simp add: authority_scope_fields_def authority_scope_claims_def)
  show "''scope_digest'' \<notin> fst ` set (authority_scope_claims c)" for c by (simp add: authority_scope_claims_def)
  show "take 2 (authority_scope_claims c) = [(''schema_version'', JInt 1), (''scope_type'', JStr ''authority-scope/v1'')]" for c
    by (simp add: authority_scope_claims_def)
  show "authority_scope_ok H c \<Longrightarrow> sp_scope_digest c = claims_digest H (authority_scope_claims c)" for c
    by (simp add: authority_scope_ok_def)
qed (rule authority_scope_claims_determine authority_scope_init_iff; assumption?)+

lemma authority_scope_claims_seal [simp]: "authority_scope_claims (c\<lparr>sp_scope_digest := x\<rparr>) = authority_scope_claims c"
  by (simp add: authority_scope_claims_def)

lemma authority_scope_dict_eq: "authority_scope_to_dict c = scope.dict c"
  by (simp add: authority_scope_to_dict_def scope.dict_def)

subsection \<open>Constraints\<close>

record authority_constraint =
  ac_parent_scope_digest :: string
  ac_actor_id :: string
  ac_workspace_id :: string
  ac_environment :: string
  ac_capability :: string
  ac_capability_definition_identity :: string
  ac_target_kind :: string
  ac_target_digest :: string
  ac_payload_digest :: string
  ac_policy_version :: string
  ac_policy_identity :: string
  ac_approval_set_digest :: string
  ac_required_permission :: string
  ac_valid_from :: string
  ac_valid_until :: string
  ac_use_semantics :: string
  ac_constraint_digest :: string

definition authority_constraint_fields :: "string list" where
  "authority_constraint_fields =
     [''schema_version'', ''constraint_type'', ''parent_scope_digest'', ''actor_id'',
      ''workspace_id'', ''environment'', ''capability'', ''capability_definition_identity'',
      ''target_kind'', ''target_digest'', ''payload_digest'', ''policy_version'',
      ''policy_identity'', ''approval_set_digest'', ''required_permission'', ''valid_from'',
      ''valid_until'', ''use_semantics'', ''constraint_digest'']"

definition authority_constraint_claims :: "authority_constraint \<Rightarrow> (string \<times> json) list" where
  "authority_constraint_claims c =
     [(''schema_version'', JInt 1), (''constraint_type'', JStr ''authority-constraint/v1''),
      (''parent_scope_digest'', JStr (ac_parent_scope_digest c)),
      (''actor_id'', JStr (ac_actor_id c)), (''workspace_id'', JStr (ac_workspace_id c)),
      (''environment'', JStr (ac_environment c)), (''capability'', JStr (ac_capability c)),
      (''capability_definition_identity'', JStr (ac_capability_definition_identity c)),
      (''target_kind'', JStr (ac_target_kind c)), (''target_digest'', JStr (ac_target_digest c)),
      (''payload_digest'', JStr (ac_payload_digest c)),
      (''policy_version'', JStr (ac_policy_version c)),
      (''policy_identity'', JStr (ac_policy_identity c)),
      (''approval_set_digest'', JStr (ac_approval_set_digest c)),
      (''required_permission'', JStr (ac_required_permission c)),
      (''valid_from'', JStr (ac_valid_from c)), (''valid_until'', JStr (ac_valid_until c)),
      (''use_semantics'', JStr (ac_use_semantics c))]"

definition authority_constraint_to_dict :: "authority_constraint \<Rightarrow> (string \<times> json) list" where
  "authority_constraint_to_dict c = authority_constraint_claims c @ [(''constraint_digest'', JStr (ac_constraint_digest c))]"

definition authority_constraint_of :: "(string \<Rightarrow> json) \<Rightarrow> authority_constraint" where
  "authority_constraint_of d =
     \<lparr>ac_parent_scope_digest = str_of (d ''parent_scope_digest''),
      ac_actor_id = str_of (d ''actor_id''), ac_workspace_id = str_of (d ''workspace_id''),
      ac_environment = str_of (d ''environment''), ac_capability = str_of (d ''capability''),
      ac_capability_definition_identity = str_of (d ''capability_definition_identity''),
      ac_target_kind = str_of (d ''target_kind''),
      ac_target_digest = str_of (d ''target_digest''),
      ac_payload_digest = str_of (d ''payload_digest''),
      ac_policy_version = str_of (d ''policy_version''),
      ac_policy_identity = str_of (d ''policy_identity''),
      ac_approval_set_digest = str_of (d ''approval_set_digest''),
      ac_required_permission = str_of (d ''required_permission''),
      ac_valid_from = str_of (d ''valid_from''), ac_valid_until = str_of (d ''valid_until''),
      ac_use_semantics = str_of (d ''use_semantics''),
      ac_constraint_digest = str_of (d ''constraint_digest'')\<rparr>"

definition authority_constraint_init :: "(string \<Rightarrow> string) \<Rightarrow> (string \<Rightarrow> json) \<Rightarrow> authority_constraint res" where
  "authority_constraint_init H d =
     thenE (for_each (check_digest d)
       [''parent_scope_digest''])
    (thenE (for_each (check_text d)
       [''actor_id'', ''workspace_id'', ''environment'', ''capability'',
        ''capability_definition_identity'', ''target_kind'', ''policy_version'',
        ''required_permission''])
    (thenE (for_each (check_digest d)
       [''target_digest'', ''payload_digest'', ''policy_identity'', ''approval_set_digest'',
        ''constraint_digest''])
    (thenE (guardE (d ''required_permission'' = JStr required_execution_permission) (ValueError ''required_permission''))
    (thenE (guardE (d ''use_semantics'' = JStr ''ONE_TIME'') (ValueError ''use_semantics''))
    (bindE (require_interval (d ''valid_from'') (d ''valid_until'')) (\<lambda>_.
      (let c = authority_constraint_of d in thenE (guardE (ac_constraint_digest c = claims_digest H (authority_constraint_claims c))
        (ValueError ''constraint_digest'')) (Inr c))))))))"

definition authority_constraint_ok :: "(string \<Rightarrow> string) \<Rightarrow> authority_constraint \<Rightarrow> bool" where
  "authority_constraint_ok H c \<longleftrightarrow>
     list_all text_ok
        [ac_actor_id c, ac_workspace_id c, ac_environment c, ac_capability c,
         ac_capability_definition_identity c, ac_target_kind c, ac_policy_version c,
         ac_required_permission c]
     \<and> list_all digest_ok
        [ac_parent_scope_digest c, ac_target_digest c, ac_payload_digest c, ac_policy_identity c,
         ac_approval_set_digest c, ac_constraint_digest c]
     \<and> ac_required_permission c = required_execution_permission
     \<and> ac_use_semantics c = ''ONE_TIME''
     \<and> interval_ok (ac_valid_from c) (ac_valid_until c)
     \<and> ac_constraint_digest c = claims_digest H (authority_constraint_claims c)"

definition authority_constraint_from_dict :: "(string \<Rightarrow> string) \<Rightarrow> json \<Rightarrow> authority_constraint res" where
  "authority_constraint_from_dict H =
     contract_from_dict 1 authority_constraint_fields ''constraint_type'' ''authority-constraint/v1'' (authority_constraint_init H)"

lemma authority_constraint_of_sel [simp]:
  "ac_parent_scope_digest (authority_constraint_of d) = str_of (d ''parent_scope_digest'')"
  "ac_actor_id (authority_constraint_of d) = str_of (d ''actor_id'')"
  "ac_workspace_id (authority_constraint_of d) = str_of (d ''workspace_id'')"
  "ac_environment (authority_constraint_of d) = str_of (d ''environment'')"
  "ac_capability (authority_constraint_of d) = str_of (d ''capability'')"
  "ac_capability_definition_identity (authority_constraint_of d) = str_of (d ''capability_definition_identity'')"
  "ac_target_kind (authority_constraint_of d) = str_of (d ''target_kind'')"
  "ac_target_digest (authority_constraint_of d) = str_of (d ''target_digest'')"
  "ac_payload_digest (authority_constraint_of d) = str_of (d ''payload_digest'')"
  "ac_policy_version (authority_constraint_of d) = str_of (d ''policy_version'')"
  "ac_policy_identity (authority_constraint_of d) = str_of (d ''policy_identity'')"
  "ac_approval_set_digest (authority_constraint_of d) = str_of (d ''approval_set_digest'')"
  "ac_required_permission (authority_constraint_of d) = str_of (d ''required_permission'')"
  "ac_valid_from (authority_constraint_of d) = str_of (d ''valid_from'')"
  "ac_valid_until (authority_constraint_of d) = str_of (d ''valid_until'')"
  "ac_use_semantics (authority_constraint_of d) = str_of (d ''use_semantics'')"
  "ac_constraint_digest (authority_constraint_of d) = str_of (d ''constraint_digest'')"
  by (simp_all add: authority_constraint_of_def)

lemma authority_constraint_claims_determine:
  "map snd (authority_constraint_claims c) = map snd (authority_constraint_claims c') \<Longrightarrow> ac_constraint_digest c = ac_constraint_digest c' \<Longrightarrow> c = c'"
  by (simp add: authority_constraint_claims_def)

lemma authority_constraint_init_iff:
  "authority_constraint_init H d = Inr c \<longleftrightarrow> authority_constraint_ok H c
     \<and> list_all (\<lambda>(f, v). d f = v) (drop 2 (authority_constraint_claims c) @ [(''constraint_digest'', JStr (ac_constraint_digest c))])"
  (is "?L \<longleftrightarrow> _ \<and> ?D c")
proof
  assume L: ?L
  then have c: "c = authority_constraint_of d"
    unfolding authority_constraint_init_def Let_def init_res_simps by blast
  have "authority_constraint_ok H c" using L unfolding c authority_constraint_init_def authority_constraint_ok_def Let_def init_res_simps
    by (clarsimp simp: instant_at_def)
  moreover have "?D c" unfolding c
    by (simp add: authority_constraint_claims_def init_simps)
      (use L in \<open>clarsimp simp: authority_constraint_init_def Let_def init_res_simps\<close>)
  ultimately show "authority_constraint_ok H c \<and> ?D c" ..
next
  assume R: "authority_constraint_ok H c \<and> ?D c"
  then have c: "authority_constraint_of d = c" by (simp add: authority_constraint_of_def authority_constraint_claims_def)
  note d = R [THEN conjunct2, unfolded authority_constraint_claims_def]
  show ?L using R [THEN conjunct1] d unfolding authority_constraint_init_def c Let_def
    by (clarsimp simp: authority_constraint_ok_def init_res_simps instant_at_def)
qed

interpretation constraint: content_bound H authority_constraint_claims ac_constraint_digest "authority_constraint_ok H" 1 authority_constraint_fields
  "''constraint_type''" "''authority-constraint/v1''" "''constraint_digest''" "authority_constraint_init H" for H
proof
  show "flat (authority_constraint_claims c)" for c by (simp add: flat_def authority_constraint_claims_def)
  show "map fst (authority_constraint_claims c) = map fst (authority_constraint_claims c')" for c c' by (simp add: authority_constraint_claims_def)
  show "authority_constraint_fields = map fst (authority_constraint_claims c) @ [''constraint_digest'']" for c
    by (simp add: authority_constraint_fields_def authority_constraint_claims_def)
  show "''constraint_digest'' \<notin> fst ` set (authority_constraint_claims c)" for c by (simp add: authority_constraint_claims_def)
  show "take 2 (authority_constraint_claims c) = [(''schema_version'', JInt 1), (''constraint_type'', JStr ''authority-constraint/v1'')]" for c
    by (simp add: authority_constraint_claims_def)
  show "authority_constraint_ok H c \<Longrightarrow> ac_constraint_digest c = claims_digest H (authority_constraint_claims c)" for c
    by (simp add: authority_constraint_ok_def)
qed (rule authority_constraint_claims_determine authority_constraint_init_iff; assumption?)+

lemma authority_constraint_claims_seal [simp]: "authority_constraint_claims (c\<lparr>ac_constraint_digest := x\<rparr>) = authority_constraint_claims c"
  by (simp add: authority_constraint_claims_def)

lemma authority_constraint_dict_eq: "authority_constraint_to_dict c = constraint.dict c"
  by (simp add: authority_constraint_to_dict_def constraint.dict_def)

subsection \<open>Decisions\<close>

text \<open>The digest of a decision is only compared with the computed one, which a value other than a string never equals.\<close>

record monotonic_decision =
  md_parent_scope_digest :: string
  md_child_constraint_digest :: string
  md_relation :: string
  md_decision_digest :: string

definition monotonic_decision_fields :: "string list" where
  "monotonic_decision_fields =
     [''schema_version'', ''decision_type'', ''parent_scope_digest'',
      ''child_constraint_digest'', ''relation'', ''decision_digest'']"

definition monotonic_decision_claims :: "monotonic_decision \<Rightarrow> (string \<times> json) list" where
  "monotonic_decision_claims c =
     [(''schema_version'', JInt 1),
      (''decision_type'', JStr ''monotonic-authority-decision/v1''),
      (''parent_scope_digest'', JStr (md_parent_scope_digest c)),
      (''child_constraint_digest'', JStr (md_child_constraint_digest c)),
      (''relation'', JStr (md_relation c))]"

definition monotonic_decision_to_dict :: "monotonic_decision \<Rightarrow> (string \<times> json) list" where
  "monotonic_decision_to_dict c = monotonic_decision_claims c @ [(''decision_digest'', JStr (md_decision_digest c))]"

definition monotonic_decision_of :: "(string \<Rightarrow> json) \<Rightarrow> monotonic_decision" where
  "monotonic_decision_of d =
     \<lparr>md_parent_scope_digest = str_of (d ''parent_scope_digest''),
      md_child_constraint_digest = str_of (d ''child_constraint_digest''),
      md_relation = str_of (d ''relation''), md_decision_digest = str_of (d ''decision_digest'')\<rparr>"

definition monotonic_decision_init :: "(string \<Rightarrow> string) \<Rightarrow> (string \<Rightarrow> json) \<Rightarrow> monotonic_decision res" where
  "monotonic_decision_init H d =
     thenE (for_each (check_digest d)
       [''parent_scope_digest'', ''child_constraint_digest''])
    (thenE (guardE (d ''relation'' = JStr ''NARROW_OR_EQUAL'') (ValueError ''relation''))
    (thenE (guardE (is_str (d ''decision_digest'')) (ValueError ''decision_digest''))
      ((let c = monotonic_decision_of d in thenE (guardE (md_decision_digest c = claims_digest H (monotonic_decision_claims c))
        (ValueError ''decision_digest'')) (Inr c)))))"

definition monotonic_decision_ok :: "(string \<Rightarrow> string) \<Rightarrow> monotonic_decision \<Rightarrow> bool" where
  "monotonic_decision_ok H c \<longleftrightarrow>
     list_all digest_ok
        [md_parent_scope_digest c, md_child_constraint_digest c]
     \<and> md_relation c = ''NARROW_OR_EQUAL''
     \<and> md_decision_digest c = claims_digest H (monotonic_decision_claims c)"

definition monotonic_decision_from_dict :: "(string \<Rightarrow> string) \<Rightarrow> json \<Rightarrow> monotonic_decision res" where
  "monotonic_decision_from_dict H =
     contract_from_dict 1 monotonic_decision_fields ''decision_type'' ''monotonic-authority-decision/v1'' (monotonic_decision_init H)"

lemma monotonic_decision_of_sel [simp]:
  "md_parent_scope_digest (monotonic_decision_of d) = str_of (d ''parent_scope_digest'')"
  "md_child_constraint_digest (monotonic_decision_of d) = str_of (d ''child_constraint_digest'')"
  "md_relation (monotonic_decision_of d) = str_of (d ''relation'')"
  "md_decision_digest (monotonic_decision_of d) = str_of (d ''decision_digest'')"
  by (simp_all add: monotonic_decision_of_def)

lemma monotonic_decision_claims_determine:
  "map snd (monotonic_decision_claims c) = map snd (monotonic_decision_claims c') \<Longrightarrow> md_decision_digest c = md_decision_digest c' \<Longrightarrow> c = c'"
  by (simp add: monotonic_decision_claims_def)

lemma monotonic_decision_init_iff:
  "monotonic_decision_init H d = Inr c \<longleftrightarrow> monotonic_decision_ok H c
     \<and> list_all (\<lambda>(f, v). d f = v) (drop 2 (monotonic_decision_claims c) @ [(''decision_digest'', JStr (md_decision_digest c))])"
  (is "?L \<longleftrightarrow> _ \<and> ?D c")
proof
  assume L: ?L
  then have c: "c = monotonic_decision_of d"
    unfolding monotonic_decision_init_def Let_def init_res_simps by blast
  have "monotonic_decision_ok H c" using L unfolding c monotonic_decision_init_def monotonic_decision_ok_def Let_def init_res_simps
    by (clarsimp simp: instant_at_def)
  moreover have "?D c" unfolding c
    by (simp add: monotonic_decision_claims_def init_simps)
      (use L in \<open>clarsimp simp: monotonic_decision_init_def Let_def init_res_simps\<close>)
  ultimately show "monotonic_decision_ok H c \<and> ?D c" ..
next
  assume R: "monotonic_decision_ok H c \<and> ?D c"
  then have c: "monotonic_decision_of d = c" by (simp add: monotonic_decision_of_def monotonic_decision_claims_def)
  note d = R [THEN conjunct2, unfolded monotonic_decision_claims_def]
  show ?L using R [THEN conjunct1] d unfolding monotonic_decision_init_def c Let_def
    by (clarsimp simp: monotonic_decision_ok_def init_res_simps instant_at_def)
qed

interpretation decision: content_bound H monotonic_decision_claims md_decision_digest "monotonic_decision_ok H" 1 monotonic_decision_fields
  "''decision_type''" "''monotonic-authority-decision/v1''" "''decision_digest''" "monotonic_decision_init H" for H
proof
  show "flat (monotonic_decision_claims c)" for c by (simp add: flat_def monotonic_decision_claims_def)
  show "map fst (monotonic_decision_claims c) = map fst (monotonic_decision_claims c')" for c c' by (simp add: monotonic_decision_claims_def)
  show "monotonic_decision_fields = map fst (monotonic_decision_claims c) @ [''decision_digest'']" for c
    by (simp add: monotonic_decision_fields_def monotonic_decision_claims_def)
  show "''decision_digest'' \<notin> fst ` set (monotonic_decision_claims c)" for c by (simp add: monotonic_decision_claims_def)
  show "take 2 (monotonic_decision_claims c) = [(''schema_version'', JInt 1), (''decision_type'', JStr ''monotonic-authority-decision/v1'')]" for c
    by (simp add: monotonic_decision_claims_def)
  show "monotonic_decision_ok H c \<Longrightarrow> md_decision_digest c = claims_digest H (monotonic_decision_claims c)" for c
    by (simp add: monotonic_decision_ok_def)
qed (rule monotonic_decision_claims_determine monotonic_decision_init_iff; assumption?)+

lemma monotonic_decision_claims_seal [simp]: "monotonic_decision_claims (c\<lparr>md_decision_digest := x\<rparr>) = monotonic_decision_claims c"
  by (simp add: monotonic_decision_claims_def)

lemma monotonic_decision_dict_eq: "monotonic_decision_to_dict c = decision.dict c"
  by (simp add: monotonic_decision_to_dict_def decision.dict_def)

subsection \<open>Deriving and checking\<close>

text \<open>\<open>from_snapshot\<close>, \<open>create\<close> and \<open>from_scope\<close> seal the claims and run the constructor.\<close>

definition scope_from_snapshot :: "(string \<Rightarrow> string) \<Rightarrow> authorization_snapshot \<Rightarrow> authority_scope res" where
  "scope_from_snapshot H s =
     (let c = \<lparr>sp_authorization_snapshot_digest = sn_snapshot_digest s, sp_actor_id = sn_actor_id s,
        sp_workspace_id = sn_workspace_id s, sp_environment = sn_environment s,
        sp_capability = sn_capability s,
        sp_capability_definition_identity = sn_capability_definition_identity s,
        sp_target_kind = et_target_kind (sn_execution_target s),
        sp_target_digest = et_target_digest (sn_execution_target s),
        sp_payload_digest = sn_payload_digest s, sp_policy_version = sn_policy_version s,
        sp_policy_identity = sn_policy_identity s,
        sp_approval_set_digest = as_approval_set_digest (sn_approval_evidence s),
        sp_required_permission = required_execution_permission,
        sp_valid_from = sn_authorized_at s,
        sp_valid_until = as_approval_valid_until (sn_approval_evidence s), sp_scope_digest = []\<rparr>
      in authority_scope_init H (item (authority_scope_to_dict
           (c\<lparr>sp_scope_digest := claims_digest H (authority_scope_claims c)\<rparr>))))"

definition authority_constraint_create ::
  "(string \<Rightarrow> string) \<Rightarrow> authority_constraint \<Rightarrow> authority_constraint res" where
  "authority_constraint_create H c =
     authority_constraint_init H (item (authority_constraint_to_dict
       (c\<lparr>ac_constraint_digest := claims_digest H (authority_constraint_claims c)\<rparr>)))"

text \<open>\<open>valid_from or scope.valid_from\<close>: an empty text is replaced as well as \<open>None\<close>.\<close>

definition constraint_from_scope ::
  "(string \<Rightarrow> string) \<Rightarrow> authority_scope \<Rightarrow> string option \<Rightarrow> string option \<Rightarrow> authority_constraint res" where
  "constraint_from_scope H s valid_from valid_until =
     authority_constraint_create H
       \<lparr>ac_parent_scope_digest = sp_scope_digest s, ac_actor_id = sp_actor_id s,
        ac_workspace_id = sp_workspace_id s, ac_environment = sp_environment s,
        ac_capability = sp_capability s,
        ac_capability_definition_identity = sp_capability_definition_identity s,
        ac_target_kind = sp_target_kind s, ac_target_digest = sp_target_digest s,
        ac_payload_digest = sp_payload_digest s, ac_policy_version = sp_policy_version s,
        ac_policy_identity = sp_policy_identity s,
        ac_approval_set_digest = sp_approval_set_digest s,
        ac_required_permission = sp_required_permission s,
        ac_valid_from = (case valid_from of Some t \<Rightarrow> if t = [] then sp_valid_from s else t | None \<Rightarrow> sp_valid_from s),
        ac_valid_until = (case valid_until of Some t \<Rightarrow> if t = [] then sp_valid_until s else t | None \<Rightarrow> sp_valid_until s),
        ac_use_semantics = ''ONE_TIME'', ac_constraint_digest = []\<rparr>"

definition monotonic_decision_create ::
  "(string \<Rightarrow> string) \<Rightarrow> string \<Rightarrow> string \<Rightarrow> monotonic_decision res" where
  "monotonic_decision_create H parent_scope_digest child_constraint_digest =
     (let c = \<lparr>md_parent_scope_digest = parent_scope_digest, md_child_constraint_digest = child_constraint_digest,
        md_relation = ''NARROW_OR_EQUAL'', md_decision_digest = []\<rparr>
      in monotonic_decision_init H (item (monotonic_decision_to_dict
           (c\<lparr>md_decision_digest := claims_digest H (monotonic_decision_claims c)\<rparr>))))"

text \<open>\<open>_EXACT_BINDINGS\<close>: the field, its value in the child and in the parent.\<close>

definition exact_bindings :: "authority_scope \<Rightarrow> authority_constraint \<Rightarrow> (string \<times> string \<times> string) list" where
  "exact_bindings p c =
     [(''ACTOR_ID_WIDENING'', ac_actor_id c, sp_actor_id p),
      (''WORKSPACE_ID_WIDENING'', ac_workspace_id c, sp_workspace_id p),
      (''ENVIRONMENT_WIDENING'', ac_environment c, sp_environment p),
      (''CAPABILITY_WIDENING'', ac_capability c, sp_capability p),
      (''CAPABILITY_DEFINITION_IDENTITY_WIDENING'', ac_capability_definition_identity c, sp_capability_definition_identity p),
      (''TARGET_KIND_WIDENING'', ac_target_kind c, sp_target_kind p),
      (''TARGET_DIGEST_WIDENING'', ac_target_digest c, sp_target_digest p),
      (''PAYLOAD_DIGEST_WIDENING'', ac_payload_digest c, sp_payload_digest p),
      (''POLICY_VERSION_WIDENING'', ac_policy_version c, sp_policy_version p),
      (''POLICY_IDENTITY_WIDENING'', ac_policy_identity c, sp_policy_identity p),
      (''APPROVAL_SET_DIGEST_WIDENING'', ac_approval_set_digest c, sp_approval_set_digest p),
      (''REQUIRED_PERMISSION_WIDENING'', ac_required_permission c, sp_required_permission p)]"

definition reason :: "bool \<Rightarrow> string \<Rightarrow> string list" where
  "reason b r = (if b then [r] else [])"

definition authority_violations :: "authority_scope \<Rightarrow> authority_constraint \<Rightarrow> string list" where
  "authority_violations p c =
     reason (ac_parent_scope_digest c \<noteq> sp_scope_digest p) ''PARENT_SCOPE_BINDING_MISMATCH''
     @ map fst (filter (\<lambda>(name, child, parent). child \<noteq> parent) (exact_bindings p c))
     @ reason (instant_at (ac_valid_from c) < instant_at (sp_valid_from p)) ''VALID_FROM_WIDENING''
     @ reason (instant_at (ac_valid_until c) > instant_at (sp_valid_until p)) ''VALID_UNTIL_WIDENING''
     @ reason (instant_at (ac_valid_from c) \<ge> instant_at (sp_valid_until p)) ''CHILD_STARTS_AFTER_PARENT_EXPIRY''
     @ reason (ac_use_semantics c \<noteq> ''ONE_TIME'') ''USE_SEMANTICS_WIDENING''"

text \<open>The reason codes of a violation, sorted and joined by commas as in its message.\<close>

definition violation :: "string list \<Rightarrow> py_error" where
  "violation codes = PermissionError (join (sorted_unique codes))"

text \<open>\<open>MonotonicAuthorityChecker.check\<close>; the four timestamps are parsed between the comparisons.\<close>

definition check_monotonic :: "(string \<Rightarrow> string) \<Rightarrow> authority_scope \<Rightarrow> authority_constraint \<Rightarrow> monotonic_decision res" where
  "check_monotonic H p c =
     bindE (require_timestamp ''parent.valid_from'' (JStr (sp_valid_from p))) (\<lambda>_.
     bindE (require_timestamp ''parent.valid_until'' (JStr (sp_valid_until p))) (\<lambda>_.
     bindE (require_timestamp ''child.valid_from'' (JStr (ac_valid_from c))) (\<lambda>_.
     bindE (require_timestamp ''child.valid_until'' (JStr (ac_valid_until c))) (\<lambda>_.
     thenE (guardE (authority_violations p c = []) (violation (authority_violations p c)))
      (monotonic_decision_create H (sp_scope_digest p) (ac_constraint_digest c))))))"

subsection \<open>What the checker decides\<close>

text \<open>
  The authority of a scope or a constraint as the set of the acts it covers: the values of the bound
  fields and an instant of the half-open validity interval.
\<close>

definition scope_values :: "authority_scope \<Rightarrow> string list" where
  "scope_values p =
     [sp_actor_id p, sp_workspace_id p, sp_environment p, sp_capability p,
      sp_capability_definition_identity p, sp_target_kind p, sp_target_digest p,
      sp_payload_digest p, sp_policy_version p, sp_policy_identity p, sp_approval_set_digest p,
      sp_required_permission p]"

definition constraint_values :: "authority_constraint \<Rightarrow> string list" where
  "constraint_values c =
     [ac_actor_id c, ac_workspace_id c, ac_environment c, ac_capability c,
      ac_capability_definition_identity c, ac_target_kind c, ac_target_digest c,
      ac_payload_digest c, ac_policy_version c, ac_policy_identity c, ac_approval_set_digest c,
      ac_required_permission c]"

definition scope_authority :: "authority_scope \<Rightarrow> (string list \<times> int) set" where
  "scope_authority p = {scope_values p} \<times> {instant_at (sp_valid_from p)..<instant_at (sp_valid_until p)}"

definition constraint_authority :: "authority_constraint \<Rightarrow> (string list \<times> int) set" where
  "constraint_authority c = {constraint_values c} \<times> {instant_at (ac_valid_from c)..<instant_at (ac_valid_until c)}"

lemma exact_bindings_Nil:
  "filter (\<lambda>(name, child, parent). child \<noteq> parent) (exact_bindings p c) = [] \<longleftrightarrow>
     constraint_values c = scope_values p"
  by (simp add: filter_empty_conv exact_bindings_def scope_values_def constraint_values_def)

lemma reason_eq_Nil [simp]: "reason b r = [] \<longleftrightarrow> \<not> b"
  by (simp add: reason_def)

lemma authority_violations_Nil:
  assumes "authority_scope_ok H p" and "authority_constraint_ok H c"
  shows "authority_violations p c = [] \<longleftrightarrow>
    ac_parent_scope_digest c = sp_scope_digest p \<and> constraint_authority c \<subseteq> scope_authority p"
proof -
  have i: "instant_at (sp_valid_from p) < instant_at (sp_valid_until p)"
    "instant_at (ac_valid_from c) < instant_at (ac_valid_until c)" "ac_use_semantics c = ''ONE_TIME''"
    using assms by (auto simp: authority_scope_ok_def authority_constraint_ok_def interval_ok_def)
  have "constraint_authority c \<subseteq> scope_authority p \<longleftrightarrow> constraint_values c = scope_values p
      \<and> instant_at (sp_valid_from p) \<le> instant_at (ac_valid_from c)
      \<and> instant_at (ac_valid_until c) \<le> instant_at (sp_valid_until p)"
    using i(2) by (auto simp: constraint_authority_def scope_authority_def times_subset_iff)
  then show ?thesis
    using i by (auto simp: authority_violations_def exact_bindings_Nil)
qed

lemma check_monotonic_eq_Inr:
  assumes "authority_scope_ok H p" and "authority_constraint_ok H c"
  shows "check_monotonic H p c = Inr d \<longleftrightarrow>
    authority_violations p c = [] \<and> monotonic_decision_create H (sp_scope_digest p) (ac_constraint_digest c) = Inr d"
  using assms by (auto simp: check_monotonic_def res_simps authority_scope_ok_def authority_constraint_ok_def
      interval_ok_def time_ok_def)

lemma monotonic_decision_create_eq:
  "monotonic_decision_create H p c = Inr d \<longleftrightarrow>
     digest_ok p \<and> digest_ok c \<and> md_parent_scope_digest d = p \<and> md_child_constraint_digest d = c
     \<and> md_relation d = ''NARROW_OR_EQUAL'' \<and> md_decision_digest d = claims_digest H (monotonic_decision_claims d)"
  unfolding monotonic_decision_create_def Let_def monotonic_decision_dict_eq decision.init_dict_iff
  by (auto simp: monotonic_decision_ok_def monotonic_decision_claims_def intro: monotonic_decision.equality)

end
