(* ===== verification/Precondition_Witness.thy ===== *)
theory Precondition_Witness
  imports Monotonic_Authority Trusted_Clock
begin

text \<open>
  Precondition witnesses (\<open>precondition_witness.py\<close>): the requirement that a capability states, the
  expected and the observed state of the target as canonical JSON, the witness that they were equal at an
  instant inside the authority, and the guard that builds it.  Expectation binders and observers are
  protocols in the code; here they are records whose last component is the call.
\<close>

subsection \<open>Requirements\<close>

record precondition_requirement =
  pr_capability_definition_identity :: string
  pr_target_kind :: string
  pr_expectation_binder_id :: string
  pr_observer_id :: string
  pr_state_schema :: string
  pr_comparison_mode :: string
  pr_enforcement_class :: string
  pr_requirement_revision :: string
  pr_requirement_digest :: string

definition precondition_requirement_fields :: "string list" where
  "precondition_requirement_fields =
     [''schema_version'', ''requirement_type'', ''capability_definition_identity'',
      ''target_kind'', ''expectation_binder_id'', ''observer_id'', ''state_schema'',
      ''comparison_mode'', ''enforcement_class'', ''requirement_revision'', ''requirement_digest'']"

definition precondition_requirement_claims :: "precondition_requirement \<Rightarrow> (string \<times> json) list" where
  "precondition_requirement_claims c =
     [(''schema_version'', JInt 1), (''requirement_type'', JStr ''precondition-requirement/v1''),
      (''capability_definition_identity'', JStr (pr_capability_definition_identity c)),
      (''target_kind'', JStr (pr_target_kind c)),
      (''expectation_binder_id'', JStr (pr_expectation_binder_id c)),
      (''observer_id'', JStr (pr_observer_id c)), (''state_schema'', JStr (pr_state_schema c)),
      (''comparison_mode'', JStr (pr_comparison_mode c)),
      (''enforcement_class'', JStr (pr_enforcement_class c)),
      (''requirement_revision'', JStr (pr_requirement_revision c))]"

definition precondition_requirement_to_dict :: "precondition_requirement \<Rightarrow> (string \<times> json) list" where
  "precondition_requirement_to_dict c = precondition_requirement_claims c @ [(''requirement_digest'', JStr (pr_requirement_digest c))]"

definition precondition_requirement_of :: "(string \<Rightarrow> json) \<Rightarrow> precondition_requirement" where
  "precondition_requirement_of d =
     \<lparr>pr_capability_definition_identity = str_of (d ''capability_definition_identity''),
      pr_target_kind = str_of (d ''target_kind''),
      pr_expectation_binder_id = str_of (d ''expectation_binder_id''),
      pr_observer_id = str_of (d ''observer_id''), pr_state_schema = str_of (d ''state_schema''),
      pr_comparison_mode = str_of (d ''comparison_mode''),
      pr_enforcement_class = str_of (d ''enforcement_class''),
      pr_requirement_revision = str_of (d ''requirement_revision''),
      pr_requirement_digest = str_of (d ''requirement_digest'')\<rparr>"

definition precondition_requirement_init :: "(string \<Rightarrow> string) \<Rightarrow> (string \<Rightarrow> json) \<Rightarrow> precondition_requirement res" where
  "precondition_requirement_init H d =
     thenE (for_each (check_digest d)
       [''capability_definition_identity''])
    (thenE (for_each (check_text d)
       [''target_kind'', ''expectation_binder_id'', ''observer_id'', ''state_schema'',
        ''requirement_revision''])
    (thenE (guardE (d ''comparison_mode'' = JStr ''EXACT_STATE_DIGEST'') (ValueError ''comparison_mode''))
    (bindE (require_in ''enforcement_class'' [''READ_THEN_COMPARE'', ''ATOMIC_PROVIDER_CONDITION'']
              (d ''enforcement_class'')) (\<lambda>_.
     thenE (for_each (check_digest d)
       [''requirement_digest''])
      ((let c = precondition_requirement_of d in thenE (guardE (pr_requirement_digest c = claims_digest H (precondition_requirement_claims c))
        (ValueError ''requirement_digest'')) (Inr c)))))))"

definition precondition_requirement_ok :: "(string \<Rightarrow> string) \<Rightarrow> precondition_requirement \<Rightarrow> bool" where
  "precondition_requirement_ok H c \<longleftrightarrow>
     list_all text_ok
        [pr_target_kind c, pr_expectation_binder_id c, pr_observer_id c, pr_state_schema c,
         pr_requirement_revision c]
     \<and> list_all digest_ok
        [pr_capability_definition_identity c, pr_requirement_digest c]
     \<and> pr_comparison_mode c = ''EXACT_STATE_DIGEST''
     \<and> pr_enforcement_class c \<in> {''READ_THEN_COMPARE'', ''ATOMIC_PROVIDER_CONDITION''}
     \<and> pr_requirement_digest c = claims_digest H (precondition_requirement_claims c)"

definition precondition_requirement_from_dict :: "(string \<Rightarrow> string) \<Rightarrow> json \<Rightarrow> precondition_requirement res" where
  "precondition_requirement_from_dict H =
     contract_from_dict 1 precondition_requirement_fields ''requirement_type'' ''precondition-requirement/v1'' (precondition_requirement_init H)"

lemma precondition_requirement_of_sel [simp]:
  "pr_capability_definition_identity (precondition_requirement_of d) = str_of (d ''capability_definition_identity'')"
  "pr_target_kind (precondition_requirement_of d) = str_of (d ''target_kind'')"
  "pr_expectation_binder_id (precondition_requirement_of d) = str_of (d ''expectation_binder_id'')"
  "pr_observer_id (precondition_requirement_of d) = str_of (d ''observer_id'')"
  "pr_state_schema (precondition_requirement_of d) = str_of (d ''state_schema'')"
  "pr_comparison_mode (precondition_requirement_of d) = str_of (d ''comparison_mode'')"
  "pr_enforcement_class (precondition_requirement_of d) = str_of (d ''enforcement_class'')"
  "pr_requirement_revision (precondition_requirement_of d) = str_of (d ''requirement_revision'')"
  "pr_requirement_digest (precondition_requirement_of d) = str_of (d ''requirement_digest'')"
  by (simp_all add: precondition_requirement_of_def)

lemma precondition_requirement_claims_determine:
  "map snd (precondition_requirement_claims c) = map snd (precondition_requirement_claims c') \<Longrightarrow> pr_requirement_digest c = pr_requirement_digest c' \<Longrightarrow> c = c'"
  by (simp add: precondition_requirement_claims_def)

lemma precondition_requirement_init_iff:
  "precondition_requirement_init H d = Inr c \<longleftrightarrow> precondition_requirement_ok H c
     \<and> list_all (\<lambda>(f, v). d f = v) (drop 2 (precondition_requirement_claims c) @ [(''requirement_digest'', JStr (pr_requirement_digest c))])"
  (is "?L \<longleftrightarrow> _ \<and> ?D c")
proof
  assume L: ?L
  then have c: "c = precondition_requirement_of d"
    unfolding precondition_requirement_init_def Let_def init_res_simps by blast
  have "precondition_requirement_ok H c" using L unfolding c precondition_requirement_init_def precondition_requirement_ok_def Let_def init_res_simps
    by (clarsimp simp: instant_at_def)
  moreover have "?D c" unfolding c
    by (simp add: precondition_requirement_claims_def init_simps)
      (use L in \<open>clarsimp simp: precondition_requirement_init_def Let_def init_res_simps\<close>)
  ultimately show "precondition_requirement_ok H c \<and> ?D c" ..
next
  assume R: "precondition_requirement_ok H c \<and> ?D c"
  then have c: "precondition_requirement_of d = c" by (simp add: precondition_requirement_of_def precondition_requirement_claims_def)
  note d = R [THEN conjunct2, unfolded precondition_requirement_claims_def]
  show ?L using R [THEN conjunct1] d unfolding precondition_requirement_init_def c Let_def
    by (clarsimp simp: precondition_requirement_ok_def init_res_simps instant_at_def)
qed

interpretation requirement: content_bound H precondition_requirement_claims pr_requirement_digest "precondition_requirement_ok H" 1 precondition_requirement_fields
  "''requirement_type''" "''precondition-requirement/v1''" "''requirement_digest''" "precondition_requirement_init H" for H
proof
  show "flat (precondition_requirement_claims c)" for c by (simp add: flat_def precondition_requirement_claims_def)
  show "map fst (precondition_requirement_claims c) = map fst (precondition_requirement_claims c')" for c c' by (simp add: precondition_requirement_claims_def)
  show "precondition_requirement_fields = map fst (precondition_requirement_claims c) @ [''requirement_digest'']" for c
    by (simp add: precondition_requirement_fields_def precondition_requirement_claims_def)
  show "''requirement_digest'' \<notin> fst ` set (precondition_requirement_claims c)" for c by (simp add: precondition_requirement_claims_def)
  show "take 2 (precondition_requirement_claims c) = [(''schema_version'', JInt 1), (''requirement_type'', JStr ''precondition-requirement/v1'')]" for c
    by (simp add: precondition_requirement_claims_def)
  show "precondition_requirement_ok H c \<Longrightarrow> pr_requirement_digest c = claims_digest H (precondition_requirement_claims c)" for c
    by (simp add: precondition_requirement_ok_def)
qed (rule precondition_requirement_claims_determine precondition_requirement_init_iff; assumption?)+

lemma precondition_requirement_claims_seal [simp]: "precondition_requirement_claims (c\<lparr>pr_requirement_digest := x\<rparr>) = precondition_requirement_claims c"
  by (simp add: precondition_requirement_claims_def)

lemma precondition_requirement_dict_eq: "precondition_requirement_to_dict c = requirement.dict c"
  by (simp add: precondition_requirement_to_dict_def requirement.dict_def)

definition precondition_requirement_create ::
  "(string \<Rightarrow> string) \<Rightarrow> precondition_requirement \<Rightarrow> precondition_requirement res" where
  "precondition_requirement_create H c =
     precondition_requirement_init H (item (precondition_requirement_to_dict
       (c\<lparr>pr_requirement_digest := claims_digest H (precondition_requirement_claims c)\<rparr>)))"

text \<open>\<open>ImmutablePreconditionRequirementRegistry\<close>: one requirement per capability definition.\<close>

fun add_requirements ::
  "(string \<rightharpoonup> precondition_requirement) \<Rightarrow> precondition_requirement list \<Rightarrow> (string \<rightharpoonup> precondition_requirement) res" where
  "add_requirements m [] = Inr m"
| "add_requirements m (r # rs) =
     thenE (guardE (m (pr_capability_definition_identity r) = None) (ValueError ''duplicate precondition requirement''))
      (add_requirements (m(pr_capability_definition_identity r \<mapsto> r)) rs)"

definition requirement_registry_init ::
  "precondition_requirement list \<Rightarrow> (string \<rightharpoonup> precondition_requirement) res" where
  "requirement_registry_init rs =
     bindE (add_requirements Map.empty rs) (\<lambda>m.
     thenE (guardE (rs \<noteq> []) (ValueError ''precondition registry''))
      (Inr m))"

definition resolve_requirement ::
  "(string \<rightharpoonup> precondition_requirement) \<Rightarrow> string \<Rightarrow> precondition_requirement res" where
  "resolve_requirement m identity =
     bindE (require_digest ''capability_definition_identity'' (JStr identity)) (\<lambda>_.
     orRaise (m identity) (LookupError ''precondition requirement not found''))"

subsection \<open>Binders and observers\<close>

record expectation_binder =
  bi_binder_id :: string
  bi_target_kind :: string
  bi_state_schema :: string
  bi_bind_expected :: "execution_target \<Rightarrow> json res"

record state_observer =
  bo_observer_id :: string
  bo_target_kind :: string
  bo_state_schema :: string
  bo_source_identity :: string
  bo_observe :: "execution_target \<Rightarrow> json res"

text \<open>The registries normalize a dictionary from identifiers to binders or observers.\<close>

fun add_binders ::
  "(string \<rightharpoonup> expectation_binder) \<Rightarrow> (string \<times> expectation_binder) list \<Rightarrow> (string \<rightharpoonup> expectation_binder) res" where
  "add_binders m [] = Inr m"
| "add_binders m ((k, b) # bs) =
     bindE (require_text ''binder_id'' (JStr k)) (\<lambda>_.
     thenE (guardE (bi_binder_id b = k) (ValueError ''binder_id''))
      (add_binders (m(k \<mapsto> b)) bs))"

definition binder_registry_init :: "(string \<times> expectation_binder) list \<Rightarrow> (string \<rightharpoonup> expectation_binder) res" where
  "binder_registry_init bs =
     bindE (add_binders Map.empty bs) (\<lambda>m. thenE (guardE (bs \<noteq> []) (ValueError ''precondition binders'')) (Inr m))"

definition resolve_binder :: "(string \<rightharpoonup> expectation_binder) \<Rightarrow> string \<Rightarrow> expectation_binder res" where
  "resolve_binder m binder_id =
     bindE (require_text ''binder_id'' (JStr binder_id)) (\<lambda>_.
     orRaise (m binder_id) (LookupError ''precondition expectation_binder not found''))"

fun add_observers ::
  "(string \<rightharpoonup> state_observer) \<Rightarrow> (string \<times> state_observer) list \<Rightarrow> (string \<rightharpoonup> state_observer) res" where
  "add_observers m [] = Inr m"
| "add_observers m ((k, b) # bs) =
     bindE (require_text ''observer_id'' (JStr k)) (\<lambda>_.
     thenE (guardE (bo_observer_id b = k) (ValueError ''observer_id''))
      (bindE (require_text ''source_identity'' (JStr (bo_source_identity b))) (\<lambda>_.
       add_observers (m(k \<mapsto> b)) bs)))"

definition observer_registry_init :: "(string \<times> state_observer) list \<Rightarrow> (string \<rightharpoonup> state_observer) res" where
  "observer_registry_init bs =
     bindE (add_observers Map.empty bs) (\<lambda>m. thenE (guardE (bs \<noteq> []) (ValueError ''precondition observer registry'')) (Inr m))"

definition resolve_observer :: "(string \<rightharpoonup> state_observer) \<Rightarrow> string \<Rightarrow> state_observer res" where
  "resolve_observer m observer_id =
     bindE (require_text ''observer_id'' (JStr observer_id)) (\<lambda>_.
     orRaise (m observer_id) (LookupError ''precondition observer not found''))"

subsection \<open>Expected and observed states\<close>

text \<open>\<open>_canonical_state\<close>: the canonical text of a state and its digest.\<close>

definition canonical_state :: "(string \<Rightarrow> string) \<Rightarrow> string \<Rightarrow> json \<Rightarrow> (string \<times> string) res" where
  "canonical_state H field v =
     thenE (guardE (is_object v) (ValueError field))
    (thenE (require_json_value field v)
      (Inr (canonical_json v, H (canonical_json v))))"

text \<open>A stored state read back by a property; the constructor has parsed it already.\<close>

definition state_of :: "string \<Rightarrow> json" where
  "state_of s = (case json_loads s of Some v \<Rightarrow> v | None \<Rightarrow> JNull)"

record precondition_expectation =
  pe_parent_scope_digest :: string
  pe_authority_constraint_digest :: string
  pe_requirement_digest :: string
  pe_target_kind :: string
  pe_target_digest :: string
  pe_state_schema :: string
  pe_expected_state_json :: string
  pe_expected_state_digest :: string
  pe_expectation_digest :: string

definition precondition_expectation_fields :: "string list" where
  "precondition_expectation_fields =
     [''schema_version'', ''expectation_type'', ''parent_scope_digest'',
      ''authority_constraint_digest'', ''requirement_digest'', ''target_kind'',
      ''target_digest'', ''state_schema'', ''expected_state'', ''expected_state_digest'',
      ''expectation_digest'']"

definition precondition_expectation_claims :: "precondition_expectation \<Rightarrow> (string \<times> json) list" where
  "precondition_expectation_claims c =
     [(''schema_version'', JInt 1), (''expectation_type'', JStr ''precondition-expectation/v1''),
      (''parent_scope_digest'', JStr (pe_parent_scope_digest c)),
      (''authority_constraint_digest'', JStr (pe_authority_constraint_digest c)),
      (''requirement_digest'', JStr (pe_requirement_digest c)),
      (''target_kind'', JStr (pe_target_kind c)), (''target_digest'', JStr (pe_target_digest c)),
      (''state_schema'', JStr (pe_state_schema c)),
      (''expected_state'', state_of (pe_expected_state_json c)),
      (''expected_state_digest'', JStr (pe_expected_state_digest c))]"

definition precondition_expectation_to_dict :: "precondition_expectation \<Rightarrow> (string \<times> json) list" where
  "precondition_expectation_to_dict c = precondition_expectation_claims c @ [(''expectation_digest'', JStr (pe_expectation_digest c))]"

definition precondition_expectation_of :: "(string \<Rightarrow> json) \<Rightarrow> string \<Rightarrow> precondition_expectation" where
  "precondition_expectation_of d state_json =
     \<lparr>pe_parent_scope_digest = str_of (d ''parent_scope_digest''),
      pe_authority_constraint_digest = str_of (d ''authority_constraint_digest''),
      pe_requirement_digest = str_of (d ''requirement_digest''),
      pe_target_kind = str_of (d ''target_kind''),
      pe_target_digest = str_of (d ''target_digest''),
      pe_state_schema = str_of (d ''state_schema''), pe_expected_state_json = state_json,
      pe_expected_state_digest = str_of (d ''expected_state_digest''),
      pe_expectation_digest = str_of (d ''expectation_digest'')\<rparr>"

definition precondition_expectation_init ::
  "(string \<Rightarrow> string) \<Rightarrow> (string \<Rightarrow> json) \<Rightarrow> string \<Rightarrow> precondition_expectation res" where
  "precondition_expectation_init H d state_json =
     thenE (for_each (check_digest d)
       [''parent_scope_digest'', ''authority_constraint_digest'', ''requirement_digest'',
        ''target_digest'', ''expected_state_digest'', ''expectation_digest''])
    (thenE (for_each (check_text d)
       [''target_kind'', ''state_schema''])
    (bindE (stored_object ''expected_state'' state_json) (\<lambda>_.
      (let c = precondition_expectation_of d state_json in
       thenE (guardE (d ''expected_state_digest'' = JStr (H state_json)) (ValueError ''expected_state_digest''))
      (thenE (guardE (pe_expectation_digest c = claims_digest H (precondition_expectation_claims c)) (ValueError ''expectation_digest''))
        (Inr c))))))"

definition precondition_expectation_ok :: "(string \<Rightarrow> string) \<Rightarrow> precondition_expectation \<Rightarrow> bool" where
  "precondition_expectation_ok H c \<longleftrightarrow>
     list_all digest_ok
        [pe_parent_scope_digest c, pe_authority_constraint_digest c, pe_requirement_digest c,
         pe_target_digest c, pe_expected_state_digest c, pe_expectation_digest c]
     \<and> list_all text_ok [pe_target_kind c, pe_state_schema c]
     \<and> json_loads (pe_expected_state_json c) = Some (state_of (pe_expected_state_json c))
     \<and> is_object (state_of (pe_expected_state_json c)) \<and> json_depth (state_of (pe_expected_state_json c)) \<le> 32
     \<and> pe_expected_state_json c = canonical_json (state_of (pe_expected_state_json c))
     \<and> pe_expected_state_digest c = H (pe_expected_state_json c)
     \<and> pe_expectation_digest c = claims_digest H (precondition_expectation_claims c)"

definition precondition_expectation_from_dict :: "(string \<Rightarrow> string) \<Rightarrow> json \<Rightarrow> precondition_expectation res" where
  "precondition_expectation_from_dict H =
     contract_from_dict 1 precondition_expectation_fields ''expectation_type'' ''precondition-expectation/v1'' (\<lambda>d.
       bindE (canonical_state H ''expected_state'' (d ''expected_state'')) (\<lambda>(state_json, _).
       precondition_expectation_init H d state_json))"

definition precondition_expectation_create ::
  "(string \<Rightarrow> string) \<Rightarrow> string \<Rightarrow> string \<Rightarrow> string \<Rightarrow> string \<Rightarrow> string \<Rightarrow> string \<Rightarrow> json \<Rightarrow> precondition_expectation res" where
  "precondition_expectation_create H parent_scope_digest authority_constraint_digest requirement_digest target_kind target_digest
      state_schema expected_state =
     bindE (canonical_state H ''expected_state'' expected_state) (\<lambda>(state_json, state_digest).
     let c = \<lparr>pe_parent_scope_digest = parent_scope_digest,
        pe_authority_constraint_digest = authority_constraint_digest,
        pe_requirement_digest = requirement_digest, pe_target_kind = target_kind,
        pe_target_digest = target_digest, pe_state_schema = state_schema,
        pe_expected_state_json = state_json, pe_expected_state_digest = state_digest,
        pe_expectation_digest = []\<rparr>
     in precondition_expectation_init H
          (item (precondition_expectation_to_dict (c\<lparr>pe_expectation_digest := claims_digest H (precondition_expectation_claims c)\<rparr>))) state_json)"

lemma precondition_expectation_init_ok: "precondition_expectation_init H d s = Inr c \<Longrightarrow> precondition_expectation_ok H c \<and> c = precondition_expectation_of d s"
  unfolding precondition_expectation_init_def precondition_expectation_ok_def Let_def precondition_expectation_of_def stored_object_def state_of_def
  by (auto simp: init_res_simps orRaise_eq_Inr require_json_value_eq_Inr)

record precondition_observation =
  po_requirement_digest :: string
  po_target_kind :: string
  po_target_digest :: string
  po_state_schema :: string
  po_observer_id :: string
  po_source_identity :: string
  po_clock_source_identity :: string
  po_clock_witness_digest :: string
  po_observed_at :: string
  po_observed_state_json :: string
  po_observed_state_digest :: string
  po_observation_digest :: string

definition precondition_observation_fields :: "string list" where
  "precondition_observation_fields =
     [''schema_version'', ''observation_type'', ''requirement_digest'', ''target_kind'',
      ''target_digest'', ''state_schema'', ''observer_id'', ''source_identity'',
      ''clock_source_identity'', ''clock_witness_digest'', ''observed_at'', ''observed_state'',
      ''observed_state_digest'', ''observation_digest'']"

definition precondition_observation_claims :: "precondition_observation \<Rightarrow> (string \<times> json) list" where
  "precondition_observation_claims c =
     [(''schema_version'', JInt 1), (''observation_type'', JStr ''precondition-observation/v1''),
      (''requirement_digest'', JStr (po_requirement_digest c)),
      (''target_kind'', JStr (po_target_kind c)), (''target_digest'', JStr (po_target_digest c)),
      (''state_schema'', JStr (po_state_schema c)), (''observer_id'', JStr (po_observer_id c)),
      (''source_identity'', JStr (po_source_identity c)),
      (''clock_source_identity'', JStr (po_clock_source_identity c)),
      (''clock_witness_digest'', JStr (po_clock_witness_digest c)),
      (''observed_at'', JStr (po_observed_at c)),
      (''observed_state'', state_of (po_observed_state_json c)),
      (''observed_state_digest'', JStr (po_observed_state_digest c))]"

definition precondition_observation_to_dict :: "precondition_observation \<Rightarrow> (string \<times> json) list" where
  "precondition_observation_to_dict c = precondition_observation_claims c @ [(''observation_digest'', JStr (po_observation_digest c))]"

definition precondition_observation_of :: "(string \<Rightarrow> json) \<Rightarrow> string \<Rightarrow> precondition_observation" where
  "precondition_observation_of d state_json =
     \<lparr>po_requirement_digest = str_of (d ''requirement_digest''),
      po_target_kind = str_of (d ''target_kind''),
      po_target_digest = str_of (d ''target_digest''),
      po_state_schema = str_of (d ''state_schema''), po_observer_id = str_of (d ''observer_id''),
      po_source_identity = str_of (d ''source_identity''),
      po_clock_source_identity = str_of (d ''clock_source_identity''),
      po_clock_witness_digest = str_of (d ''clock_witness_digest''),
      po_observed_at = str_of (d ''observed_at''), po_observed_state_json = state_json,
      po_observed_state_digest = str_of (d ''observed_state_digest''),
      po_observation_digest = str_of (d ''observation_digest'')\<rparr>"

definition precondition_observation_init ::
  "(string \<Rightarrow> string) \<Rightarrow> (string \<Rightarrow> json) \<Rightarrow> string \<Rightarrow> precondition_observation res" where
  "precondition_observation_init H d state_json =
     thenE (for_each (check_digest d)
       [''requirement_digest'', ''target_digest'', ''clock_witness_digest'',
        ''observed_state_digest'', ''observation_digest''])
    (thenE (for_each (check_text d)
       [''target_kind'', ''state_schema'', ''observer_id'', ''source_identity'',
        ''clock_source_identity''])
    (bindE (require_timestamp ''observed_at'' (d ''observed_at'')) (\<lambda>_.
     bindE (stored_object ''observed_state'' state_json) (\<lambda>_.
      (let c = precondition_observation_of d state_json in
       thenE (guardE (d ''observed_state_digest'' = JStr (H state_json)) (ValueError ''observed_state_digest''))
      (thenE (guardE (po_observation_digest c = claims_digest H (precondition_observation_claims c)) (ValueError ''observation_digest''))
        (Inr c)))))))"

definition precondition_observation_ok :: "(string \<Rightarrow> string) \<Rightarrow> precondition_observation \<Rightarrow> bool" where
  "precondition_observation_ok H c \<longleftrightarrow>
     list_all digest_ok
        [po_requirement_digest c, po_target_digest c, po_clock_witness_digest c,
         po_observed_state_digest c, po_observation_digest c]
     \<and> list_all text_ok [po_target_kind c, po_state_schema c, po_observer_id c, po_source_identity c,
         po_clock_source_identity c]
     \<and> time_ok (po_observed_at c)
     \<and> json_loads (po_observed_state_json c) = Some (state_of (po_observed_state_json c))
     \<and> is_object (state_of (po_observed_state_json c)) \<and> json_depth (state_of (po_observed_state_json c)) \<le> 32
     \<and> po_observed_state_json c = canonical_json (state_of (po_observed_state_json c))
     \<and> po_observed_state_digest c = H (po_observed_state_json c)
     \<and> po_observation_digest c = claims_digest H (precondition_observation_claims c)"

definition precondition_observation_from_dict :: "(string \<Rightarrow> string) \<Rightarrow> json \<Rightarrow> precondition_observation res" where
  "precondition_observation_from_dict H =
     contract_from_dict 1 precondition_observation_fields ''observation_type'' ''precondition-observation/v1'' (\<lambda>d.
       bindE (canonical_state H ''observed_state'' (d ''observed_state'')) (\<lambda>(state_json, _).
       precondition_observation_init H d state_json))"

definition precondition_observation_create ::
  "(string \<Rightarrow> string) \<Rightarrow> string \<Rightarrow> string \<Rightarrow> string \<Rightarrow> string \<Rightarrow> string \<Rightarrow> string \<Rightarrow> clock_witness \<Rightarrow> json \<Rightarrow> precondition_observation res" where
  "precondition_observation_create H requirement_digest target_kind target_digest state_schema observer_id source_identity
      clock_witness observed_state =
     bindE (canonical_state H ''observed_state'' observed_state) (\<lambda>(state_json, state_digest).
     let c = \<lparr>po_requirement_digest = requirement_digest, po_target_kind = target_kind,
        po_target_digest = target_digest, po_state_schema = state_schema,
        po_observer_id = observer_id, po_source_identity = source_identity,
        po_clock_source_identity = ck_source_identity clock_witness,
        po_clock_witness_digest = ck_witness_digest clock_witness,
        po_observed_at = ck_observed_at clock_witness, po_observed_state_json = state_json,
        po_observed_state_digest = state_digest, po_observation_digest = []\<rparr>
     in precondition_observation_init H
          (item (precondition_observation_to_dict (c\<lparr>po_observation_digest := claims_digest H (precondition_observation_claims c)\<rparr>))) state_json)"

lemma precondition_observation_init_ok: "precondition_observation_init H d s = Inr c \<Longrightarrow> precondition_observation_ok H c \<and> c = precondition_observation_of d s"
  unfolding precondition_observation_init_def precondition_observation_ok_def Let_def precondition_observation_of_def stored_object_def state_of_def
  by (auto simp: init_res_simps orRaise_eq_Inr require_json_value_eq_Inr)

subsection \<open>Witnesses\<close>

record precondition_witness =
  pw_parent_scope_digest :: string
  pw_authority_constraint_digest :: string
  pw_monotonic_authority_decision_digest :: string
  pw_requirement_digest :: string
  pw_expectation_digest :: string
  pw_observation_digest :: string
  pw_target_digest :: string
  pw_expected_state_digest :: string
  pw_observed_state_digest :: string
  pw_observer_id :: string
  pw_source_identity :: string
  pw_clock_source_identity :: string
  pw_clock_witness_digest :: string
  pw_checked_at :: string
  pw_relation :: string
  pw_enforcement_class :: string
  pw_witness_digest :: string

definition precondition_witness_fields :: "string list" where
  "precondition_witness_fields =
     [''schema_version'', ''witness_type'', ''parent_scope_digest'',
      ''authority_constraint_digest'', ''monotonic_authority_decision_digest'',
      ''requirement_digest'', ''expectation_digest'', ''observation_digest'', ''target_digest'',
      ''expected_state_digest'', ''observed_state_digest'', ''observer_id'', ''source_identity'',
      ''clock_source_identity'', ''clock_witness_digest'', ''checked_at'', ''relation'',
      ''enforcement_class'', ''witness_digest'']"

definition precondition_witness_claims :: "precondition_witness \<Rightarrow> (string \<times> json) list" where
  "precondition_witness_claims c =
     [(''schema_version'', JInt 1), (''witness_type'', JStr ''precondition-witness/v1''),
      (''parent_scope_digest'', JStr (pw_parent_scope_digest c)),
      (''authority_constraint_digest'', JStr (pw_authority_constraint_digest c)),
      (''monotonic_authority_decision_digest'', JStr (pw_monotonic_authority_decision_digest c)),
      (''requirement_digest'', JStr (pw_requirement_digest c)),
      (''expectation_digest'', JStr (pw_expectation_digest c)),
      (''observation_digest'', JStr (pw_observation_digest c)),
      (''target_digest'', JStr (pw_target_digest c)),
      (''expected_state_digest'', JStr (pw_expected_state_digest c)),
      (''observed_state_digest'', JStr (pw_observed_state_digest c)),
      (''observer_id'', JStr (pw_observer_id c)),
      (''source_identity'', JStr (pw_source_identity c)),
      (''clock_source_identity'', JStr (pw_clock_source_identity c)),
      (''clock_witness_digest'', JStr (pw_clock_witness_digest c)),
      (''checked_at'', JStr (pw_checked_at c)), (''relation'', JStr (pw_relation c)),
      (''enforcement_class'', JStr (pw_enforcement_class c))]"

definition precondition_witness_to_dict :: "precondition_witness \<Rightarrow> (string \<times> json) list" where
  "precondition_witness_to_dict c = precondition_witness_claims c @ [(''witness_digest'', JStr (pw_witness_digest c))]"

definition precondition_witness_of :: "(string \<Rightarrow> json) \<Rightarrow> precondition_witness" where
  "precondition_witness_of d =
     \<lparr>pw_parent_scope_digest = str_of (d ''parent_scope_digest''),
      pw_authority_constraint_digest = str_of (d ''authority_constraint_digest''),
      pw_monotonic_authority_decision_digest = str_of (d ''monotonic_authority_decision_digest''),
      pw_requirement_digest = str_of (d ''requirement_digest''),
      pw_expectation_digest = str_of (d ''expectation_digest''),
      pw_observation_digest = str_of (d ''observation_digest''),
      pw_target_digest = str_of (d ''target_digest''),
      pw_expected_state_digest = str_of (d ''expected_state_digest''),
      pw_observed_state_digest = str_of (d ''observed_state_digest''),
      pw_observer_id = str_of (d ''observer_id''),
      pw_source_identity = str_of (d ''source_identity''),
      pw_clock_source_identity = str_of (d ''clock_source_identity''),
      pw_clock_witness_digest = str_of (d ''clock_witness_digest''),
      pw_checked_at = str_of (d ''checked_at''), pw_relation = str_of (d ''relation''),
      pw_enforcement_class = str_of (d ''enforcement_class''),
      pw_witness_digest = str_of (d ''witness_digest'')\<rparr>"

definition precondition_witness_init :: "(string \<Rightarrow> string) \<Rightarrow> (string \<Rightarrow> json) \<Rightarrow> precondition_witness res" where
  "precondition_witness_init H d =
     thenE (for_each (check_digest d)
       [''parent_scope_digest'', ''authority_constraint_digest'',
        ''monotonic_authority_decision_digest'', ''requirement_digest'', ''expectation_digest'',
        ''observation_digest'', ''target_digest'', ''expected_state_digest'',
        ''observed_state_digest'', ''clock_witness_digest'', ''witness_digest''])
    (thenE (for_each (check_text d)
       [''observer_id'', ''source_identity'', ''clock_source_identity''])
    (bindE (require_timestamp ''checked_at'' (d ''checked_at'')) (\<lambda>_.
     thenE (guardE (d ''relation'' = JStr ''MATCH'') (ValueError ''relation''))
    (thenE (guardE (d ''expected_state_digest'' = d ''observed_state_digest'') (ValueError ''MATCH witness''))
    (bindE (require_in ''enforcement_class'' [''READ_THEN_COMPARE'', ''ATOMIC_PROVIDER_CONDITION'']
              (d ''enforcement_class'')) (\<lambda>_.
      (let c = precondition_witness_of d in thenE (guardE (pw_witness_digest c = claims_digest H (precondition_witness_claims c))
        (ValueError ''witness_digest'')) (Inr c))))))))"

definition precondition_witness_ok :: "(string \<Rightarrow> string) \<Rightarrow> precondition_witness \<Rightarrow> bool" where
  "precondition_witness_ok H c \<longleftrightarrow>
     list_all text_ok
        [pw_observer_id c, pw_source_identity c, pw_clock_source_identity c]
     \<and> list_all digest_ok
        [pw_parent_scope_digest c, pw_authority_constraint_digest c,
         pw_monotonic_authority_decision_digest c, pw_requirement_digest c,
         pw_expectation_digest c, pw_observation_digest c, pw_target_digest c,
         pw_expected_state_digest c, pw_observed_state_digest c, pw_clock_witness_digest c,
         pw_witness_digest c]
     \<and> time_ok (pw_checked_at c)
     \<and> pw_relation c = ''MATCH''
     \<and> pw_expected_state_digest c = pw_observed_state_digest c
     \<and> pw_enforcement_class c \<in> {''READ_THEN_COMPARE'', ''ATOMIC_PROVIDER_CONDITION''}
     \<and> pw_witness_digest c = claims_digest H (precondition_witness_claims c)"

definition precondition_witness_from_dict :: "(string \<Rightarrow> string) \<Rightarrow> json \<Rightarrow> precondition_witness res" where
  "precondition_witness_from_dict H =
     contract_from_dict 1 precondition_witness_fields ''witness_type'' ''precondition-witness/v1'' (precondition_witness_init H)"

lemma precondition_witness_of_sel [simp]:
  "pw_parent_scope_digest (precondition_witness_of d) = str_of (d ''parent_scope_digest'')"
  "pw_authority_constraint_digest (precondition_witness_of d) = str_of (d ''authority_constraint_digest'')"
  "pw_monotonic_authority_decision_digest (precondition_witness_of d) = str_of (d ''monotonic_authority_decision_digest'')"
  "pw_requirement_digest (precondition_witness_of d) = str_of (d ''requirement_digest'')"
  "pw_expectation_digest (precondition_witness_of d) = str_of (d ''expectation_digest'')"
  "pw_observation_digest (precondition_witness_of d) = str_of (d ''observation_digest'')"
  "pw_target_digest (precondition_witness_of d) = str_of (d ''target_digest'')"
  "pw_expected_state_digest (precondition_witness_of d) = str_of (d ''expected_state_digest'')"
  "pw_observed_state_digest (precondition_witness_of d) = str_of (d ''observed_state_digest'')"
  "pw_observer_id (precondition_witness_of d) = str_of (d ''observer_id'')"
  "pw_source_identity (precondition_witness_of d) = str_of (d ''source_identity'')"
  "pw_clock_source_identity (precondition_witness_of d) = str_of (d ''clock_source_identity'')"
  "pw_clock_witness_digest (precondition_witness_of d) = str_of (d ''clock_witness_digest'')"
  "pw_checked_at (precondition_witness_of d) = str_of (d ''checked_at'')"
  "pw_relation (precondition_witness_of d) = str_of (d ''relation'')"
  "pw_enforcement_class (precondition_witness_of d) = str_of (d ''enforcement_class'')"
  "pw_witness_digest (precondition_witness_of d) = str_of (d ''witness_digest'')"
  by (simp_all add: precondition_witness_of_def)

lemma precondition_witness_claims_determine:
  "map snd (precondition_witness_claims c) = map snd (precondition_witness_claims c') \<Longrightarrow> pw_witness_digest c = pw_witness_digest c' \<Longrightarrow> c = c'"
  by (simp add: precondition_witness_claims_def)

lemma precondition_witness_init_iff:
  "precondition_witness_init H d = Inr c \<longleftrightarrow> precondition_witness_ok H c
     \<and> list_all (\<lambda>(f, v). d f = v) (drop 2 (precondition_witness_claims c) @ [(''witness_digest'', JStr (pw_witness_digest c))])"
  (is "?L \<longleftrightarrow> _ \<and> ?D c")
proof
  assume L: ?L
  then have c: "c = precondition_witness_of d"
    unfolding precondition_witness_init_def Let_def init_res_simps by blast
  have "precondition_witness_ok H c" using L unfolding c precondition_witness_init_def precondition_witness_ok_def Let_def init_res_simps
    by (clarsimp simp: instant_at_def)
  moreover have "?D c" unfolding c
    by (simp add: precondition_witness_claims_def init_simps)
      (use L in \<open>clarsimp simp: precondition_witness_init_def Let_def init_res_simps\<close>)
  ultimately show "precondition_witness_ok H c \<and> ?D c" ..
next
  assume R: "precondition_witness_ok H c \<and> ?D c"
  then have c: "precondition_witness_of d = c" by (simp add: precondition_witness_of_def precondition_witness_claims_def)
  note d = R [THEN conjunct2, unfolded precondition_witness_claims_def]
  show ?L using R [THEN conjunct1] d unfolding precondition_witness_init_def c Let_def
    by (clarsimp simp: precondition_witness_ok_def init_res_simps instant_at_def)
qed

interpretation precondition: content_bound H precondition_witness_claims pw_witness_digest "precondition_witness_ok H" 1 precondition_witness_fields
  "''witness_type''" "''precondition-witness/v1''" "''witness_digest''" "precondition_witness_init H" for H
proof
  show "flat (precondition_witness_claims c)" for c by (simp add: flat_def precondition_witness_claims_def)
  show "map fst (precondition_witness_claims c) = map fst (precondition_witness_claims c')" for c c' by (simp add: precondition_witness_claims_def)
  show "precondition_witness_fields = map fst (precondition_witness_claims c) @ [''witness_digest'']" for c
    by (simp add: precondition_witness_fields_def precondition_witness_claims_def)
  show "''witness_digest'' \<notin> fst ` set (precondition_witness_claims c)" for c by (simp add: precondition_witness_claims_def)
  show "take 2 (precondition_witness_claims c) = [(''schema_version'', JInt 1), (''witness_type'', JStr ''precondition-witness/v1'')]" for c
    by (simp add: precondition_witness_claims_def)
  show "precondition_witness_ok H c \<Longrightarrow> pw_witness_digest c = claims_digest H (precondition_witness_claims c)" for c
    by (simp add: precondition_witness_ok_def)
qed (rule precondition_witness_claims_determine precondition_witness_init_iff; assumption?)+

lemma precondition_witness_claims_seal [simp]: "precondition_witness_claims (c\<lparr>pw_witness_digest := x\<rparr>) = precondition_witness_claims c"
  by (simp add: precondition_witness_claims_def)

lemma precondition_witness_dict_eq: "precondition_witness_to_dict c = precondition.dict c"
  by (simp add: precondition_witness_to_dict_def precondition.dict_def)

end
