(* ===== verification/Precondition_Guard.thy ===== *)
theory Precondition_Guard
  imports Precondition_Witness
begin

text \<open>
  The bindings between the parts of a precondition witness and \<open>PreconditionGuard\<close>
  (\<open>precondition_witness.py\<close>): the guard resolves the requirement of the capability, its source of the expected state and its
  observer, asks for the expected state, reads the observed state and the clock, and builds a witness
  only when both states have the same digest inside the validity of the authority.
\<close>

subsection \<open>Violations\<close>

text \<open>\<open>try: m except p: h\<close>, where the handler has a value of its own.\<close>

definition handleE :: "(py_error \<Rightarrow> bool) \<Rightarrow> 'a res \<Rightarrow> 'a res \<Rightarrow> 'a res" where
  "handleE p m h = (case m of Inl e \<Rightarrow> (if p e then h else Inl e) | Inr x \<Rightarrow> Inr x)"

lemma handleE_eq_Inr: "handleE p m h = Inr x \<longleftrightarrow> m = Inr x \<or> (\<exists>e. m = Inl e \<and> p e \<and> h = Inr x)"
  by (cases m) (auto simp: handleE_def)

definition binding_violations ::
  "(string \<Rightarrow> string) \<Rightarrow> authority_scope \<Rightarrow> authority_constraint \<Rightarrow> monotonic_decision \<Rightarrow> precondition_requirement \<Rightarrow>
   precondition_expectation \<Rightarrow> precondition_observation \<Rightarrow> string list res" where
  "binding_violations H parent authority decision requirement expectation observation =
     bindE (handleE is_PermissionError
        (bindE (check_monotonic H parent authority) (\<lambda>computed.
          Inr (reason (md_decision_digest computed \<noteq> md_decision_digest decision) ''MONOTONIC_AUTHORITY_DECISION_MISMATCH'')))
        (Inr [''MONOTONIC_AUTHORITY_INVALID''])) (\<lambda>first.
     Inr (first
       @ reason (md_parent_scope_digest decision \<noteq> sp_scope_digest parent) ''MONOTONIC_PARENT_SCOPE_MISMATCH''
       @ reason (md_child_constraint_digest decision \<noteq> ac_constraint_digest authority) ''MONOTONIC_CHILD_CONSTRAINT_MISMATCH''
       @ reason (pr_capability_definition_identity requirement \<noteq> ac_capability_definition_identity authority)
           ''CAPABILITY_DEFINITION_BINDING_MISMATCH''
       @ reason (pr_target_kind requirement \<noteq> ac_target_kind authority) ''REQUIREMENT_TARGET_KIND_MISMATCH''
       @ reason (pe_parent_scope_digest expectation \<noteq> sp_scope_digest parent) ''EXPECTATION_PARENT_SCOPE_MISMATCH''
       @ reason (pe_authority_constraint_digest expectation \<noteq> ac_constraint_digest authority)
           ''EXPECTATION_AUTHORITY_CONSTRAINT_MISMATCH''
       @ reason (pe_requirement_digest expectation \<noteq> pr_requirement_digest requirement) ''EXPECTATION_REQUIREMENT_MISMATCH''
       @ reason (po_requirement_digest observation \<noteq> pr_requirement_digest requirement) ''OBSERVATION_REQUIREMENT_MISMATCH''
       @ reason (pe_target_kind expectation \<noteq> ac_target_kind authority) ''EXPECTATION_TARGET_KIND_MISMATCH''
       @ reason (po_target_kind observation \<noteq> ac_target_kind authority) ''OBSERVATION_TARGET_KIND_MISMATCH''
       @ reason (pe_target_digest expectation \<noteq> ac_target_digest authority) ''EXPECTATION_TARGET_DIGEST_MISMATCH''
       @ reason (po_target_digest observation \<noteq> ac_target_digest authority) ''OBSERVATION_TARGET_DIGEST_MISMATCH''
       @ reason (pe_state_schema expectation \<noteq> pr_state_schema requirement) ''EXPECTATION_STATE_SCHEMA_MISMATCH''
       @ reason (po_state_schema observation \<noteq> pr_state_schema requirement) ''OBSERVATION_STATE_SCHEMA_MISMATCH''
       @ reason (po_observer_id observation \<noteq> pr_observer_id requirement) ''OBSERVER_BINDING_MISMATCH''))"

text \<open>The last checks, shared by \<open>create\<close> and \<open>validate_bindings\<close>: equal states, inside the authority.\<close>

definition state_and_time_violations ::
  "authority_constraint \<Rightarrow> precondition_expectation \<Rightarrow> precondition_observation \<Rightarrow> string list res" where
  "state_and_time_violations authority expectation observation =
     bindE (require_timestamp ''authority.valid_from'' (JStr (ac_valid_from authority))) (\<lambda>start.
     bindE (require_timestamp ''authority.valid_until'' (JStr (ac_valid_until authority))) (\<lambda>end.
     bindE (require_timestamp ''observed_at'' (JStr (po_observed_at observation))) (\<lambda>checked.
     Inr (reason (pe_expected_state_digest expectation \<noteq> po_observed_state_digest observation) ''PRECONDITION_CHANGED''
       @ reason (instant checked < instant start) ''PRECONDITION_CHECK_BEFORE_AUTHORITY''
       @ reason (instant checked \<ge> instant end) ''PRECONDITION_CHECK_AFTER_AUTHORITY_EXPIRY''))))"

definition precondition_witness_create ::
  "(string \<Rightarrow> string) \<Rightarrow> authority_scope \<Rightarrow> authority_constraint \<Rightarrow> monotonic_decision \<Rightarrow> precondition_requirement \<Rightarrow>
   precondition_expectation \<Rightarrow> precondition_observation \<Rightarrow> precondition_witness res" where
  "precondition_witness_create H parent authority decision requirement expectation observation =
     bindE (binding_violations H parent authority decision requirement expectation observation) (\<lambda>v1.
     bindE (state_and_time_violations authority expectation observation) (\<lambda>v2.
     thenE (guardE (v1 @ v2 = []) (violation (v1 @ v2)))
      (let c = \<lparr>pw_parent_scope_digest = sp_scope_digest parent,
         pw_authority_constraint_digest = ac_constraint_digest authority,
         pw_monotonic_authority_decision_digest = md_decision_digest decision,
         pw_requirement_digest = pr_requirement_digest requirement,
         pw_expectation_digest = pe_expectation_digest expectation,
         pw_observation_digest = po_observation_digest observation, pw_target_digest = ac_target_digest authority,
         pw_expected_state_digest = pe_expected_state_digest expectation,
         pw_observed_state_digest = po_observed_state_digest observation, pw_observer_id = po_observer_id observation,
         pw_source_identity = po_source_identity observation,
         pw_clock_source_identity = po_clock_source_identity observation,
         pw_clock_witness_digest = po_clock_witness_digest observation, pw_checked_at = po_observed_at observation,
         pw_relation = ''MATCH'', pw_enforcement_class = pr_enforcement_class requirement, pw_witness_digest = []\<rparr>
       in precondition_witness_init H (item (precondition_witness_to_dict
            (c\<lparr>pw_witness_digest := claims_digest H (precondition_witness_claims c)\<rparr>))))))"

text \<open>\<open>validate_bindings\<close> on a witness that was decoded: the same bindings and the fields of the witness.\<close>

definition witness_fields ::
  "authority_scope \<Rightarrow> authority_constraint \<Rightarrow> monotonic_decision \<Rightarrow> precondition_requirement \<Rightarrow>
   precondition_expectation \<Rightarrow> precondition_observation \<Rightarrow> precondition_witness \<Rightarrow> (string \<times> string \<times> string) list" where
  "witness_fields parent authority decision requirement expectation observation w =
     [(''WITNESS_PARENT_SCOPE_DIGEST_MISMATCH'', pw_parent_scope_digest w, sp_scope_digest parent),
      (''WITNESS_AUTHORITY_CONSTRAINT_DIGEST_MISMATCH'', pw_authority_constraint_digest w, ac_constraint_digest authority),
      (''WITNESS_MONOTONIC_AUTHORITY_DECISION_DIGEST_MISMATCH'', pw_monotonic_authority_decision_digest w,
       md_decision_digest decision),
      (''WITNESS_REQUIREMENT_DIGEST_MISMATCH'', pw_requirement_digest w, pr_requirement_digest requirement),
      (''WITNESS_EXPECTATION_DIGEST_MISMATCH'', pw_expectation_digest w, pe_expectation_digest expectation),
      (''WITNESS_OBSERVATION_DIGEST_MISMATCH'', pw_observation_digest w, po_observation_digest observation),
      (''WITNESS_TARGET_DIGEST_MISMATCH'', pw_target_digest w, ac_target_digest authority),
      (''WITNESS_EXPECTED_STATE_DIGEST_MISMATCH'', pw_expected_state_digest w, pe_expected_state_digest expectation),
      (''WITNESS_OBSERVED_STATE_DIGEST_MISMATCH'', pw_observed_state_digest w, po_observed_state_digest observation),
      (''WITNESS_OBSERVER_ID_MISMATCH'', pw_observer_id w, po_observer_id observation),
      (''WITNESS_SOURCE_IDENTITY_MISMATCH'', pw_source_identity w, po_source_identity observation),
      (''WITNESS_CLOCK_SOURCE_IDENTITY_MISMATCH'', pw_clock_source_identity w, po_clock_source_identity observation),
      (''WITNESS_CLOCK_WITNESS_DIGEST_MISMATCH'', pw_clock_witness_digest w, po_clock_witness_digest observation),
      (''WITNESS_CHECKED_AT_MISMATCH'', pw_checked_at w, po_observed_at observation),
      (''WITNESS_ENFORCEMENT_CLASS_MISMATCH'', pw_enforcement_class w, pr_enforcement_class requirement)]"

definition validate_bindings ::
  "(string \<Rightarrow> string) \<Rightarrow> authority_scope \<Rightarrow> authority_constraint \<Rightarrow> monotonic_decision \<Rightarrow> precondition_requirement \<Rightarrow>
   precondition_expectation \<Rightarrow> precondition_observation \<Rightarrow> precondition_witness \<Rightarrow> unit res" where
  "validate_bindings H parent authority decision requirement expectation observation w =
     bindE (binding_violations H parent authority decision requirement expectation observation) (\<lambda>v1.
     bindE (state_and_time_violations authority expectation observation) (\<lambda>v2.
     let v = v1 @ map fst (filter (\<lambda>(name, actual, expected). actual \<noteq> expected)
       (witness_fields parent authority decision requirement expectation observation w)) @ v2
     in guardE (v = []) (violation v)))"

subsection \<open>The guard\<close>

record precondition_guard =
  pg_requirements :: "string \<rightharpoonup> precondition_requirement"
  pg_expectation_binders :: "string \<rightharpoonup> expectation_binder"
  pg_observers :: "string \<rightharpoonup> state_observer"
  pg_trusted_clock :: clock_authority

fun is_lookup_or_value :: "py_error \<Rightarrow> bool" where
  "is_lookup_or_value (LookupError _) = True"
| "is_lookup_or_value (ValueError _) = True"
| "is_lookup_or_value _ = False"

definition refuse :: "string list \<Rightarrow> unit res" where
  "refuse codes = guardE (codes = []) (violation codes)"

definition resolved_sources ::
  "precondition_guard \<Rightarrow> authority_constraint \<Rightarrow> (precondition_requirement \<times> expectation_binder \<times> state_observer) res" where
  "resolved_sources g authority =
     bindE (catchE is_lookup_or_value
        (resolve_requirement (pg_requirements g) (ac_capability_definition_identity authority))
        (violation [''PRECONDITION_REQUIREMENT_NOT_FOUND''])) (\<lambda>requirement.
     thenE (refuse (reason (pr_target_kind requirement \<noteq> ac_target_kind authority) ''REQUIREMENT_TARGET_KIND_MISMATCH''
        @ reason (pr_capability_definition_identity requirement \<noteq> ac_capability_definition_identity authority)
            ''CAPABILITY_DEFINITION_BINDING_MISMATCH''))
      (bindE (catchE is_lookup_or_value
          (resolve_binder (pg_expectation_binders g) (pr_expectation_binder_id requirement))
          (violation [''EXPECTATION_BINDER_NOT_FOUND''])) (\<lambda>bnd.
       bindE (catchE is_lookup_or_value (resolve_observer (pg_observers g) (pr_observer_id requirement))
          (violation [''PRECONDITION_OBSERVER_NOT_FOUND''])) (\<lambda>observer.
       thenE (refuse
          (reason (bi_target_kind bnd \<noteq> pr_target_kind requirement) ''EXPECTATION_BINDER_TARGET_KIND_MISMATCH''
           @ reason (bi_state_schema bnd \<noteq> pr_state_schema requirement) ''EXPECTATION_BINDER_STATE_SCHEMA_MISMATCH''
           @ reason (bo_target_kind observer \<noteq> pr_target_kind requirement) ''OBSERVER_TARGET_KIND_MISMATCH''
           @ reason (bo_state_schema observer \<noteq> pr_state_schema requirement) ''OBSERVER_STATE_SCHEMA_MISMATCH''))
        (Inr (requirement, bnd, observer))))))"

definition guard_witness ::
  "(string \<Rightarrow> string) \<Rightarrow> precondition_guard \<Rightarrow> clock_reading \<Rightarrow> authority_scope \<Rightarrow> authority_constraint \<Rightarrow>
   monotonic_decision \<Rightarrow> execution_target \<Rightarrow> precondition_witness res" where
  "guard_witness H g reading parent authority decision target =
     bindE (catchE is_PermissionError (check_monotonic H parent authority)
        (violation [''MONOTONIC_AUTHORITY_INVALID''])) (\<lambda>computed.
     thenE (refuse
        (reason (md_decision_digest computed \<noteq> md_decision_digest decision) ''MONOTONIC_AUTHORITY_DECISION_MISMATCH''
         @ reason (et_target_kind target \<noteq> ac_target_kind authority) ''TARGET_KIND_SCOPE_MISMATCH''
         @ reason (et_target_digest target \<noteq> ac_target_digest authority) ''TARGET_DIGEST_SCOPE_MISMATCH''))
      (bindE (resolved_sources g authority) (\<lambda>(requirement, bnd, observer).
       bindE (catchE is_authority_error
          (bindE (bi_bind_expected bnd target) (\<lambda>expected.
           precondition_expectation_create H (sp_scope_digest parent) (ac_constraint_digest authority)
             (pr_requirement_digest requirement) (et_target_kind target) (et_target_digest target)
             (pr_state_schema requirement) expected))
          (violation [''EXPECTATION_BINDER_DENIED''])) (\<lambda>expectation.
       bindE (catchE is_authority_error (bo_observe observer target)
          (violation [''PRECONDITION_OBSERVER_DENIED''])) (\<lambda>observed.
       bindE (catchE is_authority_error
          (clock_authority_witness H (pg_trusted_clock g) reading (ac_environment authority))
          (violation [''TRUSTED_CLOCK_DENIED''])) (\<lambda>clock.
       thenE (guardE (ck_source_identity clock = ca_source_identity (pg_trusted_clock g))
          (violation [''TRUSTED_CLOCK_BINDING_MISMATCH'']))
        (bindE (catchE is_decode_error
            (precondition_observation_create H (pr_requirement_digest requirement) (et_target_kind target)
              (et_target_digest target) (pr_state_schema requirement) (bo_observer_id observer)
              (bo_source_identity observer) clock observed)
            (violation [''PRECONDITION_OBSERVATION_INVALID''])) (\<lambda>observation.
         precondition_witness_create H parent authority decision requirement expectation observation))))))))"

end
