(* ===== verification/Grant_Issuer.thy ===== *)
theory Grant_Issuer
  imports Precondition_Guard Execution_Capsule Execution_Grant Operational_Safety
begin

text \<open>
  The issuer of execution grants (\<open>authoritative_grant.py\<close>): the authority evidence of a snapshot read
  back from the audit table, and \<open>AuthoritativeGrantIssuer.issue\<close>.  The revocation epoch authority and the
  execution binding authority are protocols in the code and functions here; the two database connections
  of \<open>issue\<close> see the states \<open>cdb1\<close> and \<open>cdb2\<close>, between which other transactions may run; the two readings
  of the shared clock and the two fresh identifiers are arguments.
\<close>

subsection \<open>Snapshot authority evidence\<close>

record authority_evidence =
  sa_snapshot_id :: string
  sa_snapshot_digest :: string
  sa_authority_witness_set_digest :: string
  sa_revocation_epoch :: int
  sa_event_hash :: string
  sa_evidence_digest :: string

definition authority_evidence_claims :: "authority_evidence \<Rightarrow> (string \<times> json) list" where
  "authority_evidence_claims c =
     [(''schema_version'', JInt 1), (''evidence_type'', JStr ''snapshot-authority-evidence/v1''),
      (''snapshot_id'', JStr (sa_snapshot_id c)),
      (''snapshot_digest'', JStr (sa_snapshot_digest c)),
      (''authority_witness_set_digest'', JStr (sa_authority_witness_set_digest c)),
      (''revocation_epoch'', JInt (sa_revocation_epoch c)),
      (''event_hash'', JStr (sa_event_hash c))]"

definition authority_evidence_init :: "(string \<Rightarrow> string) \<Rightarrow> authority_evidence \<Rightarrow> authority_evidence res" where
  "authority_evidence_init H c =
     thenE (check_texts
       [(''snapshot_id'', sa_snapshot_id c)])
    (thenE (check_digests
       [(''snapshot_digest'', sa_snapshot_digest c),
        (''authority_witness_set_digest'', sa_authority_witness_set_digest c),
        (''event_hash'', sa_event_hash c), (''evidence_digest'', sa_evidence_digest c)])
    (thenE (guardE (\<not> sa_revocation_epoch c < 0) (ValueError ''revocation_epoch''))
    (thenE (guardE (sa_evidence_digest c = claims_digest H (authority_evidence_claims c)) (ValueError ''evidence_digest''))
      (Inr c))))"

definition authority_evidence_ok :: "(string \<Rightarrow> string) \<Rightarrow> authority_evidence \<Rightarrow> bool" where
  "authority_evidence_ok H c \<longleftrightarrow>
     list_all text_ok
        [sa_snapshot_id c]
     \<and> list_all digest_ok
        [sa_snapshot_digest c, sa_authority_witness_set_digest c, sa_event_hash c,
         sa_evidence_digest c]
     \<and> 0 \<le> sa_revocation_epoch c
     \<and> sa_evidence_digest c = claims_digest H (authority_evidence_claims c)"

lemma authority_evidence_init_iff: "authority_evidence_init H c = Inr c' \<longleftrightarrow> c' = c \<and> authority_evidence_ok H c"
  by (auto simp: authority_evidence_init_def authority_evidence_ok_def res_simps)

interpretation evidence: content_digest H authority_evidence_claims sa_evidence_digest "authority_evidence_ok H" for H
  by unfold_locales (simp_all add: flat_def authority_evidence_claims_def authority_evidence_ok_def)

definition authority_evidence_create ::
  "(string \<Rightarrow> string) \<Rightarrow> string \<Rightarrow> string \<Rightarrow> string \<Rightarrow> int \<Rightarrow> string \<Rightarrow> authority_evidence res" where
  "authority_evidence_create H snapshot_id snapshot_digest witness_set_digest revocation_epoch event_hash =
     (let c = \<lparr>sa_snapshot_id = snapshot_id, sa_snapshot_digest = snapshot_digest,
        sa_authority_witness_set_digest = witness_set_digest, sa_revocation_epoch = revocation_epoch,
        sa_event_hash = event_hash, sa_evidence_digest = []\<rparr>
      in authority_evidence_init H (c\<lparr>sa_evidence_digest := claims_digest H (authority_evidence_claims c)\<rparr>))"

definition authority_payload_fields :: "string list" where
  "authority_payload_fields =
     [''correlation_id'', ''snapshot_digest'', ''authority_witness_set_digest'',
      ''permission_decision_digest'', ''capability_selection_digest'',
      ''capability_selection_authority_revision'', ''policy_identity'',
      ''capability_definition_identity'', ''capability_activation_digest'',
      ''target_binding_digest'', ''approval_certificate_digest'', ''clock_witness_digest'',
      ''revocation_epoch'', ''authorization_source_revision'']"

text \<open>\<open>SELECT_SNAPSHOT_AUTHORITY_WITNESS\<close>: newest first, at most two rows.\<close>

definition authority_witness_rows :: "core_db \<Rightarrow> string \<Rightarrow> audit_row list" where
  "authority_witness_rows cdb snapshot_id =
     take 2 (rev (sort_key a_sequence (filter (\<lambda>r.
       a_action r = ''authorization_snapshot.authority_witness'' \<and> a_target_type r = ''authorization_snapshot''
       \<and> a_target_id r = snapshot_id) (c_audit cdb))))"

abbreviation denied :: "string \<Rightarrow> py_error" where
  "denied reason_code \<equiv> PermissionError reason_code"

definition authority_payload :: "audit_row \<Rightarrow> (string \<times> json) list res" where
  "authority_payload row =
     (case json_loads (a_payload_json row) of
        Some (JObj kvs) \<Rightarrow>
          thenE (guardE (canonical_json (JObj kvs) = a_payload_json row)
            (denied ''SNAPSHOT_AUTHORITY_EVIDENCE_NON_CANONICAL''))
         (thenE (guardE (set (map fst kvs) = set authority_payload_fields)
            (denied ''SNAPSHOT_AUTHORITY_EVIDENCE_FIELDS_INVALID''))
           (Inr kvs))
      | _ \<Rightarrow> Inl (denied ''SNAPSHOT_AUTHORITY_EVIDENCE_INVALID''))"

definition load_snapshot_authority_evidence ::
  "(string \<Rightarrow> string) \<Rightarrow> core_db \<Rightarrow> authorization_snapshot \<Rightarrow> authority_evidence res" where
  "load_snapshot_authority_evidence H cdb s =
     (case authority_witness_rows cdb (sn_snapshot_id s) of
        [row] \<Rightarrow>
          bindE (authority_payload row) (\<lambda>kvs. let p = item kvs in
          thenE (catchE is_ValueError
             (thenE (check_texts [(''id'', a_id row), (''actor_id'', a_actor_id row), (''action'', a_action row),
                (''target_type'', a_target_type row), (''target_id'', a_target_id row)])
              (bindE (require_timestamp ''created_at'' (JStr (a_created_at row))) (\<lambda>_.
               for_each (check_text p)
                 [''correlation_id'', ''capability_selection_authority_revision'', ''authorization_source_revision''])))
             (denied ''SNAPSHOT_AUTHORITY_EVIDENCE_INVALID''))
         (thenE (guardE (a_action row = ''authorization_snapshot.authority_witness''
                \<and> a_target_type row = ''authorization_snapshot'') (denied ''SNAPSHOT_AUTHORITY_EVIDENCE_INVALID''))
         (thenE (catchE is_ValueError
             (thenE (if a_previous_hash row = genesis then Inr ()
                 else check_digests [(''previous_hash'', a_previous_hash row)])
               (check_digests [(''event_hash'', a_event_hash row)]))
             (denied ''SNAPSHOT_AUTHORITY_EVENT_HASH_INVALID''))
         (thenE (guardE (chained_hash H (a_previous_hash row)
                (audit_event (a_id row) (a_actor_id row) (a_action row) (a_target_type row) (a_target_id row)
                  (JObj kvs) (a_created_at row)) = a_event_hash row) (denied ''SNAPSHOT_AUTHORITY_EVENT_HASH_INVALID''))
         (thenE (guardE (a_actor_id row = sn_actor_id s \<and> a_target_id row = sn_snapshot_id s
                \<and> p ''snapshot_digest'' = JStr (sn_snapshot_digest s) \<and> p ''policy_identity'' = JStr (sn_policy_identity s)
                \<and> p ''capability_definition_identity'' = JStr (sn_capability_definition_identity s)
                \<and> p ''authorization_source_revision'' = JStr (sn_authorization_source_revision s))
              (denied ''SNAPSHOT_AUTHORITY_EVIDENCE_BINDING_MISMATCH''))
         (thenE (catchE is_ValueError (for_each (check_digest p)
             [''authority_witness_set_digest'', ''permission_decision_digest'',
              ''capability_selection_digest'', ''policy_identity'',
              ''capability_definition_identity'', ''capability_activation_digest'',
              ''target_binding_digest'', ''approval_certificate_digest'', ''clock_witness_digest''])
             (denied ''SNAPSHOT_AUTHORITY_EVIDENCE_INVALID''))
          (case p ''revocation_epoch'' of
             JInt epoch \<Rightarrow>
               thenE (guardE (\<not> epoch < 0) (denied ''SNAPSHOT_REVOCATION_EPOCH_INVALID''))
                (authority_evidence_create H (sn_snapshot_id s) (sn_snapshot_digest s)
                  (str_of (p ''authority_witness_set_digest'')) epoch (a_event_hash row))
           | _ \<Rightarrow> Inl (denied ''SNAPSHOT_REVOCATION_EPOCH_INVALID''))))))))
      | _ \<Rightarrow> Inl (denied ''SNAPSHOT_AUTHORITY_EVIDENCE_AMBIGUOUS''))"

subsection \<open>The issuer\<close>

type_synonym epoch_source = "string \<Rightarrow> string \<Rightarrow> string \<Rightarrow> json res"
type_synonym binding_source = "string \<Rightarrow> string \<Rightarrow> string \<Rightarrow> execution_binding res"

record grant_issuer =
  gi_guard :: precondition_guard
  gi_clock :: clock_authority
  gi_issuer_identity :: string
  gi_issuer_revision :: string
  gi_ttl_seconds :: int

definition grant_issuer_init :: "grant_issuer \<Rightarrow> grant_issuer res" where
  "grant_issuer_init i =
     thenE (guardE (pg_trusted_clock (gi_guard i) = gi_clock i) (ValueError ''trusted clock''))
    (thenE (guardE (1 \<le> gi_ttl_seconds i \<and> gi_ttl_seconds i \<le> max_grant_ttl_seconds) (ValueError ''grant_ttl_seconds''))
    (thenE (check_texts [(''issuer_identity'', gi_issuer_identity i), (''issuer_revision'', gi_issuer_revision i)])
      (Inr i)))"

definition live_revocation_epoch :: "epoch_source \<Rightarrow> authorization_snapshot \<Rightarrow> int res" where
  "live_revocation_epoch current_epoch s =
     bindE (catchE is_authority_error
        (current_epoch (sn_workspace_id s) (sn_environment s) (sn_capability_definition_identity s))
        (denied ''REVOCATION_AUTHORITY_DENIED'')) (\<lambda>v.
     case v of
       JInt epoch \<Rightarrow> if epoch < 0 then Inl (denied ''REVOCATION_EPOCH_INVALID'') else Inr epoch
     | _ \<Rightarrow> Inl (denied ''REVOCATION_EPOCH_INVALID''))"

definition issuance_live_authority ::
  "(string \<Rightarrow> string) \<Rightarrow> epoch_source \<Rightarrow> core_db \<Rightarrow> authorization_snapshot \<Rightarrow> authority_evidence option \<Rightarrow>
   (authority_evidence \<times> int) res" where
  "issuance_live_authority H current_epoch cdb s evidence =
     thenE (guardE (\<not> is_stop_active cdb) (denied ''EMERGENCY_STOP_ACTIVE''))
      (bindE (case evidence of Some e \<Rightarrow> Inr e | None \<Rightarrow> load_snapshot_authority_evidence H cdb s) (\<lambda>resolved.
       bindE (live_revocation_epoch current_epoch s) (\<lambda>live.
       thenE (guardE (live = sa_revocation_epoch resolved) (denied ''REVOCATION_EPOCH_CHANGED''))
        (Inr (resolved, live)))))"

definition issuance_binding :: "binding_source \<Rightarrow> authorization_snapshot \<Rightarrow> execution_binding res" where
  "issuance_binding resolve s =
     (let kind = et_target_kind (sn_execution_target s) in
      bindE (catchE is_authority_error (resolve (sn_capability_definition_identity s) (sn_environment s) kind)
        (denied ''EXECUTION_BINDING_DENIED'')) (\<lambda>b.
      thenE (guardE (eb_capability_definition_identity b = sn_capability_definition_identity s
          \<and> eb_environment b = sn_environment s \<and> eb_target_kind b = kind) (denied ''EXECUTION_BINDING_MISMATCH''))
       (Inr b)))"

text \<open>\<open>_resolve_validity\<close>: the issuing time and the expiry, capped by the end of the authority.\<close>

definition resolve_validity ::
  "(string \<Rightarrow> string) \<Rightarrow> grant_issuer \<Rightarrow> clock_reading \<Rightarrow> string \<Rightarrow> authority_constraint \<Rightarrow> precondition_witness \<Rightarrow>
   (string \<times> string) res" where
  "resolve_validity H i reading environment authority w =
     bindE (catchE is_authority_error (clock_authority_witness H (gi_clock i) reading environment)
        (denied ''TRUSTED_CLOCK_DENIED'')) (\<lambda>clock.
     thenE (guardE (ck_source_identity clock = ca_source_identity (gi_clock i)) (denied ''TRUSTED_CLOCK_BINDING_MISMATCH''))
      (bindE (require_timestamp ''issued_at'' (JStr (ck_observed_at clock))) (\<lambda>issued.
       bindE (require_timestamp ''precondition_checked_at'' (JStr (pw_checked_at w))) (\<lambda>checked.
       bindE (require_timestamp ''authority.valid_from'' (JStr (ac_valid_from authority))) (\<lambda>start.
       bindE (require_timestamp ''authority.valid_until'' (JStr (ac_valid_until authority))) (\<lambda>end.
       thenE (guardE (\<not> instant issued < instant checked) (denied ''ISSUANCE_PRECEDES_PRECONDITION''))
      (thenE (guardE (\<not> instant issued - instant checked > seconds max_precondition_to_grant_seconds)
          (denied ''PRECONDITION_WITNESS_STALE''))
      (thenE (guardE (\<not> (instant issued < instant start \<or> instant issued \<ge> instant end))
          (denied ''AUTHORITY_NOT_VALID_AT_ISSUANCE''))
        (bindE (add_seconds issued (nat (gi_ttl_seconds i))) (\<lambda>later.
         let expiry = (if instant end < instant later then end else later) in
         thenE (guardE (\<not> instant expiry \<le> instant issued) (denied ''AUTHORITY_EXPIRES_BEFORE_GRANT''))
          (Inr (ck_observed_at clock, iso_ms expiry))))))))))))"

text \<open>\<open>ExecutionGrantV2._issue\<close> on the claims that \<open>issue\<close> collects.\<close>

definition execution_grant_issue :: "(string \<Rightarrow> string) \<Rightarrow> execution_grant \<Rightarrow> execution_grant res" where
  "execution_grant_issue H c =
     execution_grant_init H (item (execution_grant_to_dict
       (c\<lparr>gr_grant_digest := claims_digest H (execution_grant_claims c)\<rparr>)))"

text \<open>The claims that \<open>issue\<close> passes to \<open>_issue\<close>.\<close>

definition issued_claims ::
  "grant_issuer \<Rightarrow> string \<Rightarrow> string \<Rightarrow> authorization_snapshot \<Rightarrow> authority_constraint \<Rightarrow> authority_scope \<Rightarrow> monotonic_decision \<Rightarrow>
   authority_evidence \<Rightarrow> execution_binding \<Rightarrow> precondition_witness \<Rightarrow> string \<Rightarrow> string \<Rightarrow> int \<Rightarrow> execution_grant" where
  "issued_claims i grant_id jti s authority parent decision evidence b w issued_at expires_at live_epoch =
       \<lparr>gr_grant_id = grant_id, gr_jti = jti, gr_execution_id = sn_execution_id s,
        gr_request_id = sn_request_id s, gr_authorization_snapshot_digest = sn_snapshot_digest s,
        gr_snapshot_authority_witness_set_digest = sa_authority_witness_set_digest evidence,
        gr_snapshot_authority_event_hash = sa_event_hash evidence,
        gr_parent_scope_digest = sp_scope_digest parent,
        gr_authority_constraint_digest = ac_constraint_digest authority,
        gr_monotonic_authority_decision_digest = md_decision_digest decision,
        gr_actor_id = ac_actor_id authority, gr_workspace_id = ac_workspace_id authority,
        gr_environment = ac_environment authority, gr_capability = ac_capability authority,
        gr_capability_definition_identity = ac_capability_definition_identity authority,
        gr_target_kind = ac_target_kind authority, gr_target_digest = ac_target_digest authority,
        gr_payload_digest = ac_payload_digest authority,
        gr_policy_version = ac_policy_version authority,
        gr_policy_identity = ac_policy_identity authority,
        gr_approval_set_digest = ac_approval_set_digest authority,
        gr_required_permission = ac_required_permission authority,
        gr_precondition_requirement_digest = pw_requirement_digest w,
        gr_precondition_expectation_digest = pw_expectation_digest w,
        gr_precondition_observation_digest = pw_observation_digest w,
        gr_precondition_witness_digest = pw_witness_digest w,
        gr_precondition_enforcement_class = pw_enforcement_class w,
        gr_precondition_checked_at = pw_checked_at w,
        gr_execution_binding_digest = eb_binding_digest b,
        gr_execution_capsule_digest = eb_execution_capsule_digest b,
        gr_runner_class = eb_runner_class b,
        gr_execution_binding_authority_revision = eb_authority_revision b,
        gr_issued_at = issued_at, gr_expires_at = expires_at, gr_revocation_epoch = live_epoch,
        gr_use_semantics = ''ONE_TIME'', gr_issuer_identity = gi_issuer_identity i,
        gr_issuer_revision = gi_issuer_revision i, gr_grant_digest = []\<rparr>"

definition issue ::
  "(string \<Rightarrow> string) \<Rightarrow> grant_issuer \<Rightarrow> epoch_source \<Rightarrow> binding_source \<Rightarrow> core_db \<Rightarrow> core_db \<Rightarrow>
   clock_reading \<Rightarrow> clock_reading \<Rightarrow> string \<Rightarrow> string \<Rightarrow> authorization_snapshot \<Rightarrow> authority_constraint \<Rightarrow> execution_grant res" where
  "issue H i current_epoch resolve cdb1 cdb2 reading1 reading2 grant_id jti s authority =
     bindE (scope_from_snapshot H s) (\<lambda>parent.
     bindE (catchE is_PermissionError (check_monotonic H parent authority) (denied ''MONOTONIC_AUTHORITY_DENIED'')) (\<lambda>decision.
     bindE (issuance_live_authority H current_epoch cdb1 s None) (\<lambda>(evidence, _).
     bindE (issuance_binding resolve s) (\<lambda>b.
     bindE (catchE is_authority_error
        (guard_witness H (gi_guard i) reading1 parent authority decision (sn_execution_target s))
        (denied ''PRECONDITION_DENIED'')) (\<lambda>w.
     bindE (resolve_validity H i reading2 (sn_environment s) authority w) (\<lambda>(issued_at, expires_at).
     bindE (issuance_live_authority H current_epoch cdb2 s (Some evidence)) (\<lambda>(_, live_epoch).
     execution_grant_issue H
       (issued_claims i grant_id jti s authority parent decision evidence b w issued_at expires_at live_epoch))))))))"

end
