(* ===== verification/Grant_Issuer_Properties.thy ===== *)
theory Grant_Issuer_Properties
  imports Grant_Issuer
begin

text \<open>
  What an issued grant guarantees: it repeats the approved snapshot, lies inside the approvals'
  validity, was issued with the emergency stop off and the revocation epoch unchanged, and rests on a
  reading of the target that equalled the expected state shortly before.
\<close>

subsection \<open>What the parts of the issuer return\<close>

lemma canonical_state_eq_Inr [res_simps]:
  "canonical_state H field v = Inr (s, d) \<longleftrightarrow>
     is_object v \<and> json_depth v \<le> 32 \<and> s = canonical_json v \<and> d = H (canonical_json v)"
  by (auto simp: canonical_state_def res_simps)

lemma expectation_create_state:
  assumes "precondition_expectation_create H a b c k t sch expected = Inr e"
  shows "pe_expected_state_digest e = H (canonical_json expected)"
proof -
  obtain d where "precondition_expectation_init H d (canonical_json expected) = Inr e"
    using assms by (auto simp: precondition_expectation_create_def Let_def bindE_eq_Inr canonical_state_eq_Inr)
  from precondition_expectation_init_ok [OF this]
  have "pe_expected_state_digest e = H (pe_expected_state_json e)"
    and "pe_expected_state_json e = canonical_json expected"
    by (auto simp: precondition_expectation_ok_def precondition_expectation_of_def)
  then show ?thesis by simp
qed

lemma observation_create_state:
  assumes "precondition_observation_create H r k t sch oid src clock observed = Inr p"
  shows "po_observed_state_digest p = H (canonical_json observed) \<and> po_observed_at p = ck_observed_at clock"
proof -
  obtain c where "precondition_observation_init H (item (precondition_observation_to_dict c)) (canonical_json observed) = Inr p"
    and "po_observed_at c = ck_observed_at clock"
    using assms by (auto simp: precondition_observation_create_def Let_def bindE_eq_Inr canonical_state_eq_Inr)
  note c = this precondition_observation_init_ok [OF this(1)]
  have "po_observed_state_digest p = H (po_observed_state_json p)"
    and "po_observed_state_json p = canonical_json observed"
    and "po_observed_at p = po_observed_at c"
    using c(3) by (auto simp: precondition_observation_ok_def precondition_observation_of_def
        precondition_observation_to_dict_def precondition_observation_claims_def)
  then show ?thesis using c(2) by simp
qed

lemma witness_create_eq_Inr:
  assumes "precondition_witness_create H parent authority decision requirement expectation observation = Inr w"
  shows "precondition_witness_ok H w \<and> pw_checked_at w = po_observed_at observation
    \<and> pe_expected_state_digest expectation = po_observed_state_digest observation
    \<and> instant_at (ac_valid_from authority) \<le> instant_at (pw_checked_at w)
    \<and> instant_at (pw_checked_at w) < instant_at (ac_valid_until authority)"
proof -
  obtain v1 c where v: "state_and_time_violations authority expectation observation = Inr []"
    and i: "precondition_witness_init H (item (precondition_witness_to_dict c)) = Inr w"
    and c: "pw_checked_at c = po_observed_at observation"
    using assms unfolding precondition_witness_create_def Let_def bindE_eq_Inr thenE_eq_Inr guardE_eq_Inr
    by force
  have "w = c \<and> precondition_witness_ok H c"
    using i unfolding precondition_witness_dict_eq precondition.init_dict_iff by simp
  then show ?thesis
    using v c by (auto simp: state_and_time_violations_def bindE_eq_Inr require_timestamp_eq_Inr instant_at_def)
qed

lemma guard_witness_eq_Inr:
  assumes "guard_witness H g reading parent authority decision target = Inr w"
  shows "\<exists>bnd observer expected observed t. reading = AwareTime t \<and> pw_checked_at w = iso_ms t
    \<and> precondition_witness_ok H w \<and> bi_bind_expected bnd target = Inr expected
    \<and> bo_observe observer target = Inr observed \<and> H (canonical_json expected) = H (canonical_json observed)
    \<and> bnd \<in> ran (pg_expectation_binders g) \<and> observer \<in> ran (pg_observers g)
    \<and> instant_at (ac_valid_from authority) \<le> instant_at (pw_checked_at w)
    \<and> instant_at (pw_checked_at w) < instant_at (ac_valid_until authority)"
proof -
  obtain requirement bnd observer expected observed clock expectation observation
    where r: "resolved_sources g authority = Inr (requirement, bnd, observer)"
      and e: "bi_bind_expected bnd target = Inr expected"
      and ex: "precondition_expectation_create H (sp_scope_digest parent) (ac_constraint_digest authority)
         (pr_requirement_digest requirement) (et_target_kind target) (et_target_digest target)
         (pr_state_schema requirement) expected = Inr expectation"
      and o: "bo_observe observer target = Inr observed"
      and c: "clock_authority_witness H (pg_trusted_clock g) reading (ac_environment authority) = Inr clock"
      and ob: "precondition_observation_create H (pr_requirement_digest requirement) (et_target_kind target)
         (et_target_digest target) (pr_state_schema requirement) (bo_observer_id observer)
         (bo_source_identity observer) clock observed = Inr observation"
      and w: "precondition_witness_create H parent authority decision requirement expectation observation = Inr w"
    using assms unfolding guard_witness_def
    by (auto simp: bindE_eq_Inr thenE_eq_Inr catchE_eq_Inr)
  obtain t where t: "reading = AwareTime t" "ck_observed_at clock = iso_ms t"
    using clock_authority_witness_eq_Inr [OF c] by blast
  have "bnd \<in> ran (pg_expectation_binders g) \<and> observer \<in> ran (pg_observers g)"
    using r by (auto simp: ran_def resolved_sources_def resolve_binder_def resolve_observer_def
        bindE_eq_Inr thenE_eq_Inr catchE_eq_Inr orRaise_eq_Inr)
  note facts = this t e o witness_create_eq_Inr [OF w] expectation_create_state [OF ex] observation_create_state [OF ob]
  show ?thesis
    by (rule exI [of _ bnd], rule exI [of _ observer], rule exI [of _ expected], rule exI [of _ observed],
        rule exI [of _ t]) (use facts in auto)
qed

lemma scope_from_snapshot_eq_Inr:
  assumes "scope_from_snapshot H s = Inr p"
  shows "authority_scope_ok H p \<and> sp_authorization_snapshot_digest p = sn_snapshot_digest s
    \<and> scope_values p = [sn_actor_id s, sn_workspace_id s, sn_environment s, sn_capability s,
         sn_capability_definition_identity s, et_target_kind (sn_execution_target s),
         et_target_digest (sn_execution_target s), sn_payload_digest s, sn_policy_version s, sn_policy_identity s,
         as_approval_set_digest (sn_approval_evidence s), required_execution_permission]
    \<and> sp_valid_from p = sn_authorized_at s \<and> sp_valid_until p = as_approval_valid_until (sn_approval_evidence s)"
  using assms unfolding scope_from_snapshot_def Let_def authority_scope_dict_eq scope.init_dict_iff
  by (auto simp: scope_values_def)

lemma authority_inside_parent:
  assumes "check_monotonic H p a = Inr d" and "authority_scope_ok H p" and "authority_constraint_ok H a"
  shows "constraint_values a = scope_values p
    \<and> instant_at (sp_valid_from p) \<le> instant_at (ac_valid_from a)
    \<and> instant_at (ac_valid_until a) \<le> instant_at (sp_valid_until p)"
  using assms(1) unfolding check_monotonic_eq_Inr [OF assms(2,3)]
  by (auto simp: authority_violations_def exact_bindings_Nil)

lemma resolve_validity_eq_Inr:
  assumes "resolve_validity H i reading env a w = Inr (issued_at, expires_at)" and "0 \<le> gi_ttl_seconds i"
  shows "\<exists>t. reading = AwareTime t \<and> issued_at = iso_ms t \<and> time_ok issued_at \<and> time_ok expires_at
    \<and> instant_at (ac_valid_from a) \<le> instant_at issued_at \<and> instant_at issued_at < instant_at expires_at
    \<and> instant_at expires_at \<le> instant_at (ac_valid_until a)
    \<and> instant_at expires_at - instant_at issued_at \<le> seconds (gi_ttl_seconds i)
    \<and> instant_at (pw_checked_at w) \<le> instant_at issued_at
    \<and> instant_at issued_at - instant_at (pw_checked_at w) \<le> seconds 30"
proof -
  obtain clock issued checked start stop later where
    c: "clock_authority_witness H (gi_clock i) reading env = Inr clock"
    and times: "canonical_time (ck_observed_at clock) = Some issued" "canonical_time (pw_checked_at w) = Some checked"
      "canonical_time (ac_valid_from a) = Some start" "canonical_time (ac_valid_until a) = Some stop"
    and g: "\<not> instant issued < instant checked"
      "\<not> instant issued - instant checked > seconds max_precondition_to_grant_seconds"
      "\<not> (instant issued < instant start \<or> instant issued \<ge> instant stop)"
    and later: "add_seconds issued (nat (gi_ttl_seconds i)) = Inr later"
    and e: "\<not> instant (if instant stop < instant later then stop else later) \<le> instant issued"
    and r: "issued_at = ck_observed_at clock" "expires_at = iso_ms (if instant stop < instant later then stop else later)"
    using assms(1) unfolding resolve_validity_def Let_def
    by (auto simp: bindE_eq_Inr thenE_eq_Inr guardE_eq_Inr catchE_eq_Inr require_timestamp_eq_Inr)
  obtain t where t: "reading = AwareTime t" "ck_observed_at clock = iso_ms t"
    using clock_authority_witness_eq_Inr [OF c] by blast
  note L = add_seconds_spec [OF canonical_time_Some(2) [OF times(1)] later]
  have "trunc_ms later = later"
    using L(3) canonical_time_Some(3) [OF times(1)] by (cases later; cases issued) (simp add: trunc_ms_def)
  then have "canonical_time (iso_ms (if instant stop < instant later then stop else later))
      = Some (if instant stop < instant later then stop else later)"
    using canonical_time_iso_ms [OF L(1)] canonical_time_Some [OF times(4)] times(4) by simp
  then show ?thesis
    using t times g e r L(2) assms(2)
    by (auto simp: time_ok_def instant_at_def seconds_def max_precondition_to_grant_seconds_def)
qed

lemma execution_grant_claims_seal [simp]:
  "execution_grant_claims (c\<lparr>gr_grant_digest := x\<rparr>) = execution_grant_claims c"
  by (simp add: execution_grant_claims_def)

lemma execution_grant_dict_eq: "execution_grant_to_dict c = grant.dict c"
  by (simp add: execution_grant_to_dict_def grant.dict_def)

lemma execution_grant_issue_eq_Inr:
  "execution_grant_issue H c = Inr g \<longleftrightarrow>
     g = c\<lparr>gr_grant_digest := claims_digest H (execution_grant_claims c)\<rparr> \<and> execution_grant_ok H g"
  by (auto simp: execution_grant_issue_def execution_grant_dict_eq grant.init_dict_iff)

lemma live_revocation_epoch_eq_Inr:
  "live_revocation_epoch ce s = Inr n \<longleftrightarrow> 0 \<le> n
     \<and> ce (sn_workspace_id s) (sn_environment s) (sn_capability_definition_identity s) = Inr (JInt n)"
proof -
  have "(case v of JInt epoch \<Rightarrow> if epoch < 0 then Inl e else Inr epoch | _ \<Rightarrow> Inl e) = Inr n
      \<longleftrightarrow> v = JInt n \<and> 0 \<le> n" for v and e :: py_error
    by (cases v) auto
  then show ?thesis by (auto simp: live_revocation_epoch_def bindE_eq_Inr catchE_eq_Inr)
qed

lemma issuance_live_authority_eq_Inr:
  assumes "issuance_live_authority H ce cdb s e = Inr (evidence, live)"
  shows "\<not> is_stop_active cdb \<and> live = sa_revocation_epoch evidence \<and> 0 \<le> live
    \<and> ce (sn_workspace_id s) (sn_environment s) (sn_capability_definition_identity s) = Inr (JInt live)
    \<and> (case e of None \<Rightarrow> load_snapshot_authority_evidence H cdb s = Inr evidence | Some x \<Rightarrow> evidence = x)"
  using assms
  by (auto simp: issuance_live_authority_def live_revocation_epoch_eq_Inr bindE_eq_Inr thenE_eq_Inr guardE_eq_Inr
      split: option.splits)

lemma issue_parts:
  assumes "issue H i ce resolve cdb1 cdb2 reading1 reading2 gid jti s a = Inr g"
  obtains p d evidence live1 b w issued_at expires_at live where
    "scope_from_snapshot H s = Inr p" "check_monotonic H p a = Inr d"
    "issuance_live_authority H ce cdb1 s None = Inr (evidence, live1)" "issuance_binding resolve s = Inr b"
    "guard_witness H (gi_guard i) reading1 p a d (sn_execution_target s) = Inr w"
    "resolve_validity H i reading2 (sn_environment s) a w = Inr (issued_at, expires_at)"
    "issuance_live_authority H ce cdb2 s (Some evidence) = Inr (evidence, live)"
    "execution_grant_issue H (issued_claims i gid jti s a p d evidence b w issued_at expires_at live) = Inr g"
proof -
  have "ev' = evidence" if "issuance_live_authority H ce cdb2 s (Some evidence) = Inr (ev', live)" for ev' evidence live
    using issuance_live_authority_eq_Inr [OF that] by simp
  then show ?thesis
    using assms that unfolding issue_def bindE_eq_Inr catchE_eq_Inr split_paired_Ex prod.case
    by (elim exE conjE) metis
qed

lemmas issued_claims_sel = issued_claims_def execution_grant.select_convs

text \<open>The values and times of an issued grant.\<close>

lemma issued_grant_bounds:
  assumes "issue H i ce resolve cdb1 cdb2 reading1 reading2 gid jti s a = Inr g"
    and "grant_issuer_init i = Inr i" and "authority_constraint_ok H a" and "authorization_snapshot_ok H s"
  shows "execution_grant_ok H g \<and> gr_authorization_snapshot_digest g = sn_snapshot_digest s
    \<and> [gr_actor_id g, gr_workspace_id g, gr_environment g, gr_capability g, gr_capability_definition_identity g,
        gr_target_kind g, gr_target_digest g, gr_payload_digest g, gr_policy_version g, gr_policy_identity g,
        gr_approval_set_digest g]
      = [sn_actor_id s, sn_workspace_id s, sn_environment s, sn_capability s, sn_capability_definition_identity s,
        et_target_kind (sn_execution_target s), et_target_digest (sn_execution_target s), sn_payload_digest s,
        sn_policy_version s, sn_policy_identity s, as_approval_set_digest (sn_approval_evidence s)]
    \<and> (\<forall>p \<in> set (as_approvals (sn_approval_evidence s)). instant_at (ar_approved_at p) \<le> instant_at (gr_issued_at g))
    \<and> instant_at (sn_authorized_at s) \<le> instant_at (gr_issued_at g)
    \<and> instant_at (gr_issued_at g) < instant_at (gr_expires_at g)
    \<and> instant_at (gr_expires_at g) \<le> instant_at (as_approval_valid_until (sn_approval_evidence s))
    \<and> instant_at (gr_expires_at g) - instant_at (gr_issued_at g) \<le> seconds (gi_ttl_seconds i)
    \<and> instant_at (gr_issued_at g) - instant_at (gr_precondition_checked_at g) \<le> seconds 30
    \<and> ce (sn_workspace_id s) (sn_environment s) (sn_capability_definition_identity s) = Inr (JInt (gr_revocation_epoch g))"
proof -
  obtain p d evidence live1 b w issued_at expires_at live where
    p: "scope_from_snapshot H s = Inr p" and d: "check_monotonic H p a = Inr d"
    and v: "resolve_validity H i reading2 (sn_environment s) a w = Inr (issued_at, expires_at)"
    and l2: "issuance_live_authority H ce cdb2 s (Some evidence) = Inr (evidence, live)"
    and g: "execution_grant_issue H (issued_claims i gid jti s a p d evidence b w issued_at expires_at live) = Inr g"
    using assms(1) by (rule issue_parts)
  note G = g [unfolded execution_grant_issue_eq_Inr]
  note P = scope_from_snapshot_eq_Inr [OF p]
  note A = authority_inside_parent [OF d _ assms(3)]
  have ttl: "0 \<le> gi_ttl_seconds i" using assms(2) by (auto simp: grant_issuer_init_def thenE_eq_Inr guardE_eq_Inr)
  note V = resolve_validity_eq_Inr [OF v ttl]
  have times: "instant_at (sn_authorized_at s) \<le> instant_at (gr_issued_at g)
    \<and> instant_at (gr_issued_at g) < instant_at (gr_expires_at g)
    \<and> instant_at (gr_expires_at g) \<le> instant_at (as_approval_valid_until (sn_approval_evidence s))
    \<and> instant_at (gr_expires_at g) - instant_at (gr_issued_at g) \<le> seconds (gi_ttl_seconds i)
    \<and> instant_at (gr_issued_at g) - instant_at (gr_precondition_checked_at g) \<le> seconds 30"
    using V A P G by (auto simp: issued_claims_def)
  moreover have "\<forall>p \<in> set (as_approvals (sn_approval_evidence s)). instant_at (ar_approved_at p) \<le> instant_at (sn_authorized_at s)"
    using assms(4) by (auto simp: authorization_snapshot_ok_def)
  ultimately have before: "\<forall>p \<in> set (as_approvals (sn_approval_evidence s)). instant_at (ar_approved_at p) \<le> instant_at (gr_issued_at g)"
    by (meson order_trans)
  have "constraint_values a = scope_values p" using A P by blast
  moreover have "[gr_actor_id g, gr_workspace_id g, gr_environment g, gr_capability g, gr_capability_definition_identity g,
      gr_target_kind g, gr_target_digest g, gr_payload_digest g, gr_policy_version g, gr_policy_identity g,
      gr_approval_set_digest g] = butlast (constraint_values a)"
    by (simp add: G issued_claims_def constraint_values_def)
  ultimately have bound: "[gr_actor_id g, gr_workspace_id g, gr_environment g, gr_capability g,
      gr_capability_definition_identity g, gr_target_kind g, gr_target_digest g, gr_payload_digest g,
      gr_policy_version g, gr_policy_identity g, gr_approval_set_digest g] = butlast (scope_values p)"
    by (simp only:)
  have bvals: "butlast (scope_values p)
      = [sn_actor_id s, sn_workspace_id s, sn_environment s, sn_capability s, sn_capability_definition_identity s,
        et_target_kind (sn_execution_target s), et_target_digest (sn_execution_target s), sn_payload_digest s,
        sn_policy_version s, sn_policy_identity s, as_approval_set_digest (sn_approval_evidence s)]"
    using P by simp
  have named: "gr_revocation_epoch g = live" "gr_authorization_snapshot_digest g = sn_snapshot_digest s"
    by (simp_all add: G issued_claims_def)
  have "ce (sn_workspace_id s) (sn_environment s) (sn_capability_definition_identity s) = Inr (JInt (gr_revocation_epoch g))"
    using issuance_live_authority_eq_Inr [OF l2] named by simp
  then show ?thesis
    using G [THEN conjunct2] named(2) bound [unfolded bvals] before times by (intro conjI) (assumption | blast)+
qed

text \<open>
  (C12) An issued grant stays inside what was approved: it names the snapshot's actor, workspace,
  environment, capability, target, payload, policy and approvals, its validity begins after the
  authorization and every approval and ends no later than the approvals do, it lasts at most the
  configured time, the emergency stop was off and the revocation epoch the live one, and a reading of
  the target at most thirty seconds older than the grant had the digest of the expected state.
\<close>

theorem issued_grant_within_approval:
  assumes "issue H i ce resolve cdb1 cdb2 reading1 reading2 gid jti s a = Inr g"
    and "grant_issuer_init i = Inr i" and "authority_constraint_ok H a" and "authorization_snapshot_ok H s"
  shows "execution_grant_ok H g \<and> gr_authorization_snapshot_digest g = sn_snapshot_digest s
    \<and> [gr_actor_id g, gr_workspace_id g, gr_environment g, gr_capability g, gr_capability_definition_identity g,
        gr_target_kind g, gr_target_digest g, gr_payload_digest g, gr_policy_version g, gr_policy_identity g,
        gr_approval_set_digest g]
      = [sn_actor_id s, sn_workspace_id s, sn_environment s, sn_capability s, sn_capability_definition_identity s,
        et_target_kind (sn_execution_target s), et_target_digest (sn_execution_target s), sn_payload_digest s,
        sn_policy_version s, sn_policy_identity s, as_approval_set_digest (sn_approval_evidence s)]
    \<and> (\<forall>p \<in> set (as_approvals (sn_approval_evidence s)). instant_at (ar_approved_at p) \<le> instant_at (gr_issued_at g))
    \<and> instant_at (sn_authorized_at s) \<le> instant_at (gr_issued_at g)
    \<and> instant_at (gr_issued_at g) < instant_at (gr_expires_at g)
    \<and> instant_at (gr_expires_at g) \<le> instant_at (as_approval_valid_until (sn_approval_evidence s))
    \<and> instant_at (gr_expires_at g) - instant_at (gr_issued_at g) \<le> seconds (gi_ttl_seconds i)
    \<and> \<not> is_stop_active cdb1 \<and> \<not> is_stop_active cdb2
    \<and> ce (sn_workspace_id s) (sn_environment s) (sn_capability_definition_identity s) = Inr (JInt (gr_revocation_epoch g))
    \<and> (\<exists>evidence. load_snapshot_authority_evidence H cdb1 s = Inr evidence
          \<and> gr_revocation_epoch g = sa_revocation_epoch evidence)
    \<and> (\<exists>bnd observer expected observed. bi_bind_expected bnd (sn_execution_target s) = Inr expected
          \<and> bo_observe observer (sn_execution_target s) = Inr observed
          \<and> H (canonical_json expected) = H (canonical_json observed)
          \<and> bnd \<in> ran (pg_expectation_binders (gi_guard i)) \<and> observer \<in> ran (pg_observers (gi_guard i)))
    \<and> instant_at (gr_issued_at g) - instant_at (gr_precondition_checked_at g) \<le> seconds 30"
proof -
  obtain p d evidence live1 b w issued_at expires_at live where
    l1: "issuance_live_authority H ce cdb1 s None = Inr (evidence, live1)"
    and w: "guard_witness H (gi_guard i) reading1 p a d (sn_execution_target s) = Inr w"
    and l2: "issuance_live_authority H ce cdb2 s (Some evidence) = Inr (evidence, live)"
    and g: "execution_grant_issue H (issued_claims i gid jti s a p d evidence b w issued_at expires_at live) = Inr g"
    using assms(1) by (rule issue_parts)
  note B = issued_grant_bounds [OF assms]
  have epoch: "gr_revocation_epoch g = live"
    using g by (simp add: execution_grant_issue_eq_Inr issued_claims_def)
  have L1: "\<not> is_stop_active cdb1" "load_snapshot_authority_evidence H cdb1 s = Inr evidence"
    using issuance_live_authority_eq_Inr [OF l1] by simp_all
  have L2: "\<not> is_stop_active cdb2" "live = sa_revocation_epoch evidence"
    using issuance_live_authority_eq_Inr [OF l2] by simp_all
  have "\<exists>evidence. load_snapshot_authority_evidence H cdb1 s = Inr evidence
      \<and> gr_revocation_epoch g = sa_revocation_epoch evidence"
    by (rule exI [of _ evidence]) (simp only: L1 L2(2) epoch simp_thms)
  moreover have "\<exists>bnd observer expected observed. bi_bind_expected bnd (sn_execution_target s) = Inr expected
      \<and> bo_observe observer (sn_execution_target s) = Inr observed
      \<and> H (canonical_json expected) = H (canonical_json observed)
      \<and> bnd \<in> ran (pg_expectation_binders (gi_guard i)) \<and> observer \<in> ran (pg_observers (gi_guard i))"
    using guard_witness_eq_Inr [OF w] by (elim exE conjE) (intro exI conjI, assumption+)
  ultimately show ?thesis
    using B L1(1) L2(1) by (elim conjE) (intro conjI, assumption+)
qed

subsection \<open>What the monotonicity check decides\<close>

definition sealed_decision :: "(string \<Rightarrow> string) \<Rightarrow> authority_scope \<Rightarrow> authority_constraint \<Rightarrow> monotonic_decision" where
  "sealed_decision H p c =
     (let d = \<lparr>md_parent_scope_digest = sp_scope_digest p, md_child_constraint_digest = ac_constraint_digest c,
        md_relation = ''NARROW_OR_EQUAL'', md_decision_digest = []\<rparr>
      in d\<lparr>md_decision_digest := claims_digest H (monotonic_decision_claims d)\<rparr>)"

lemma valid_times:
  assumes "authority_scope_ok H p" and "authority_constraint_ok H c"
  shows "canonical_time (sp_valid_from p) \<noteq> None" "canonical_time (sp_valid_until p) \<noteq> None"
    "canonical_time (ac_valid_from c) \<noteq> None" "canonical_time (ac_valid_until c) \<noteq> None"
  using assms by (auto simp: authority_scope_ok_def authority_constraint_ok_def interval_ok_def time_ok_def)

lemma check_monotonic_refuses:
  assumes "authority_scope_ok H p" and "authority_constraint_ok H c" and "authority_violations p c \<noteq> []"
  shows "check_monotonic H p c = Inl (violation (authority_violations p c))"
proof -
  have t: "\<exists>u. require_timestamp f (JStr t) = Inr u" if "canonical_time t \<noteq> None" for f t
    using that by (auto simp: require_timestamp_eq_Inr)
  obtain a b c' d where "require_timestamp ''parent.valid_from'' (JStr (sp_valid_from p)) = Inr a"
    "require_timestamp ''parent.valid_until'' (JStr (sp_valid_until p)) = Inr b"
    "require_timestamp ''child.valid_from'' (JStr (ac_valid_from c)) = Inr c'"
    "require_timestamp ''child.valid_until'' (JStr (ac_valid_until c)) = Inr d"
    using t valid_times [OF assms(1,2)] by meson
  then show ?thesis using assms(3) by (simp add: check_monotonic_def)
qed

text \<open>
  (C31) The monotonicity check decides inclusion of authority: for a valid scope and a valid constraint it
  returns the sealed decision when the constraint names the scope and the acts it covers (bound values
  and instants of the validity) are among those of the scope, and in every other case it raises the
  violation with the list of the widened fields.
\<close>

theorem narrowing_iff_subset:
  assumes "authority_scope_ok H p" and "authority_constraint_ok H c"
  shows "check_monotonic H p c =
    (if ac_parent_scope_digest c = sp_scope_digest p \<and> constraint_authority c \<subseteq> scope_authority p
     then Inr (sealed_decision H p c) else Inl (violation (authority_violations p c)))"
proof (cases "authority_violations p c = []")
  case True
  have "digest_ok (sp_scope_digest p)" "digest_ok (ac_constraint_digest c)"
    using assms by (auto simp: authority_scope_ok_def authority_constraint_ok_def)
  then have "monotonic_decision_create H (sp_scope_digest p) (ac_constraint_digest c) = Inr (sealed_decision H p c)"
    unfolding monotonic_decision_create_eq by (simp add: sealed_decision_def Let_def del: monotonic_decision.update_convs)
  then have "check_monotonic H p c = Inr (sealed_decision H p c)"
    using True by (simp add: check_monotonic_eq_Inr [OF assms(1,2)])
  then show ?thesis using True by (simp add: authority_violations_Nil [OF assms(1,2)])
next
  case False
  then show ?thesis
    using check_monotonic_refuses [OF assms(1,2)] by (simp add: authority_violations_Nil [OF assms(1,2)])
qed

end
