(* ===== verification/Grant_Composition.thy ===== *)
theory Grant_Composition
  imports Grant_Lifecycle Grant_Issuer_Properties
begin

text \<open>
  The issuer and the grant tables together: what is stored is read back as it was issued, at any later
  time, and the approvals that the issuer checked still bound the grant when it is consumed.
\<close>

text \<open>The row of a stored grant stays where it is.\<close>

lemma stored_row_found:
  assumes "issue_and_store H svc ce cdb db reading issued = Inr (g, db1)" and "(trust_step H)\<^sup>*\<^sup>* db1 db2"
  obtains conformance clock where
    "select gw_jti (gr_jti g) (t_grants db2)
       = Some (grant_row_of g conformance clock (gr_revocation_epoch g) (gs_authority_revision svc))"
proof -
  obtain conformance clock live
    where live: "assert_live_authority H ce cdb g clock = Inr live"
      and ins: "insert_stored_grant db (grant_row_of g conformance clock live (gs_authority_revision svc)) = Inr db1"
    using issue_and_store_eq_Inr [OF assms(1)] by blast
  let ?row = "grant_row_of g conformance clock live (gs_authority_revision svc)"
  have "gw_jti ?row = gr_jti g" by (simp add: grant_row_of_def)
  then have "select gw_jti (gr_jti g) (t_grants db1) = Some ?row"
    using insert_stored_grant_eq_Inr [OF ins] select_None_iff [of gw_jti "gr_jti g" "t_grants db"]
    by (simp add: select_append)
  then have "select gw_jti (gr_jti g) (t_grants db2) = Some ?row"
    by (rule grants.select_persists [OF assms(2)])
  moreover have "live = gr_revocation_epoch g"
    using assert_live_authority_eq_Inr [OF live] by blast
  ultimately show ?thesis using that by blast
qed

lemma consumed_row_live:
  assumes "consume H svc ce cdb db reading cid jti = Inr (w, db')
      \<or> consume_and_enqueue H svc orv ce cdb db reading cid oid jti = Inr (e, db')"
    and "select gw_jti jti (t_grants db) = Some row" and "decode_stored_grant H row = Inr g"
  shows "\<exists>t. reading = AwareTime t \<and> instant_at (gr_issued_at g) \<le> instant_at (iso_ms t)
     \<and> instant_at (iso_ms t) < instant_at (gr_expires_at g) \<and> \<not> is_stop_active cdb \<and> live_permission cdb (grant_query g)
     \<and> ce (gr_workspace_id g) (gr_environment g) (gr_capability_definition_identity g) = Inr (JInt (gr_revocation_epoch g))"
proof -
  obtain g' conformance clock w' where "prepare_consumption H svc ce cdb db reading cid jti = Inr (g', conformance, clock, w')"
    using assms(1) by (rule consumption_prepared)
  from prepared_live [OF this] assms(2,3) show ?thesis by auto
qed

text \<open>
  (C32) Storing and reading back: a valid grant that was stored is found under its token in every state
  that the grant and delivery services reach later, and the stored JSON decodes to that very grant.
\<close>

theorem stored_grant_roundtrip:
  assumes "issue_and_store H svc ce cdb db reading issued = Inr (g, db1)" and "execution_grant_ok H g"
    and "(trust_step H)\<^sup>*\<^sup>* db1 db2"
  shows "\<exists>row. select gw_jti (gr_jti g) (t_grants db2) = Some row \<and> decode_stored_grant H row = Inr g"
  using stored_row_found [OF assms(1,3)] decode_grant_row [OF assms(2) refl] by metis

text \<open>
  From approval to use: a grant that the issuer made from a valid snapshot, that was stored, and that
  is consumed after any steps of the services, is consumed at an instant not before the authorization and
  every approval and strictly before the approvals end, with the emergency stop off, while the approved
  actor still holds \<open>execution.run\<close> in the approved workspace and environment, and under the revocation
  epoch of the issuance.
\<close>

lemma use_within_approvals:
  assumes "issue_and_store H svc ce cdb db reading
      (issue H i ce0 resolve cdb1 cdb2 reading1 reading2 gid jti s a) = Inr (g, db1)"
    and "grant_issuer_init i = Inr i" and "authority_constraint_ok H a" and "authorization_snapshot_ok H s"
    and "(trust_step H)\<^sup>*\<^sup>* db1 db2"
    and "consume H svc' ce' cdb' db2 reading' cid (gr_jti g) = Inr (w, db3)
      \<or> consume_and_enqueue H svc' orv ce' cdb' db2 reading' cid oid (gr_jti g) = Inr (e, db3)"
  shows "\<exists>t. reading' = AwareTime t
    \<and> (\<forall>p \<in> set (as_approvals (sn_approval_evidence s)). instant_at (ar_approved_at p) \<le> instant_at (iso_ms t))
    \<and> instant_at (sn_authorized_at s) \<le> instant_at (iso_ms t)
    \<and> instant_at (iso_ms t) < instant_at (as_approval_valid_until (sn_approval_evidence s))
    \<and> \<not> is_stop_active cdb'
    \<and> live_permission cdb' \<lparr>pq_actor_id = sn_actor_id s, pq_workspace_id = sn_workspace_id s,
        pq_environment = sn_environment s, pq_permission = required_execution_permission\<rparr>
    \<and> ce' (sn_workspace_id s) (sn_environment s) (sn_capability_definition_identity s)
        = ce0 (sn_workspace_id s) (sn_environment s) (sn_capability_definition_identity s)"
proof -
  have issued: "issue H i ce0 resolve cdb1 cdb2 reading1 reading2 gid jti s a = Inr g"
    using issue_and_store_eq_Inr [OF assms(1)] by blast
  note G = issued_grant_bounds [OF issued assms(2-4)]
  obtain conformance clock where row: "select gw_jti (gr_jti g) (t_grants db2)
      = Some (grant_row_of g conformance clock (gr_revocation_epoch g) (gs_authority_revision svc))"
    by (rule stored_row_found [OF assms(1,5)])
  have "execution_grant_ok H g" using G by blast
  then have "decode_stored_grant H
      (grant_row_of g conformance clock (gr_revocation_epoch g) (gs_authority_revision svc)) = Inr g"
    by (rule decode_grant_row) simp
  from consumed_row_live [OF assms(6) row this] obtain t where t: "reading' = AwareTime t"
    "instant_at (gr_issued_at g) \<le> instant_at (iso_ms t)" "instant_at (iso_ms t) < instant_at (gr_expires_at g)"
    "\<not> is_stop_active cdb'" "live_permission cdb' (grant_query g)"
    "ce' (gr_workspace_id g) (gr_environment g) (gr_capability_definition_identity g) = Inr (JInt (gr_revocation_epoch g))"
    by blast
  have "gr_required_permission g = required_execution_permission"
    using G by (auto simp: execution_grant_ok_def required_execution_permission_def)
  then have q: "grant_query g = \<lparr>pq_actor_id = sn_actor_id s, pq_workspace_id = sn_workspace_id s,
      pq_environment = sn_environment s, pq_permission = required_execution_permission\<rparr>"
    using G by (simp add: grant_query_def)
  have "\<forall>p \<in> set (as_approvals (sn_approval_evidence s)). instant_at (ar_approved_at p) \<le> instant_at (iso_ms t)"
    using G t(2) by fastforce
  moreover have "instant_at (sn_authorized_at s) \<le> instant_at (iso_ms t)"
    "instant_at (iso_ms t) < instant_at (as_approval_valid_until (sn_approval_evidence s))"
    using G t(2,3) by linarith+
  moreover have "ce' (sn_workspace_id s) (sn_environment s) (sn_capability_definition_identity s)
      = ce0 (sn_workspace_id s) (sn_environment s) (sn_capability_definition_identity s)"
    using G t(6) by simp
  ultimately show ?thesis using t(1,4,5) q by (intro exI [of _ t]) simp
qed

subsection \<open>Every stored row decodes\<close>

text \<open>The services as deployed: only grants that the issuer made are stored.\<close>

inductive system_step :: "(string \<Rightarrow> string) \<Rightarrow> trust_db \<Rightarrow> trust_db \<Rightarrow> bool" for H where
  issue_step: "issue_and_store H svc ce cdb db reading
      (issue H i ce0 resolve cdb1 cdb2 reading1 reading2 gid jti s a) = Inr (g, db') \<Longrightarrow> system_step H db db'"
| use_step: "consume H svc ce cdb db reading cid jti = Inr (w, db') \<Longrightarrow> system_step H db db'"
| enqueue_step: "consume_and_enqueue H svc orv ce cdb db reading cid oid jti = Inr (e, db') \<Longrightarrow> system_step H db db'"
| deliver_step: "delivery_step H db db' \<Longrightarrow> system_step H db db'"

definition grant_row_typed :: "(string \<Rightarrow> string) \<Rightarrow> grant_row \<Rightarrow> bool" where
  "grant_row_typed H r \<longleftrightarrow> (case decode_stored_grant H r of Inr g \<Rightarrow> execution_grant_ok H g | Inl _ \<Rightarrow> False)"

definition consumption_row_typed :: "(string \<Rightarrow> string) \<Rightarrow> consumption_row \<Rightarrow> bool" where
  "consumption_row_typed H r \<longleftrightarrow>
     (case decode_column (consumption_witness_from_dict H) (cr_consumption_json r) (ValueError []) of
        Inr w \<Rightarrow> consumption_witness_ok H w
          \<and> (cr_consumption_id r, cr_jti r, cr_grant_digest r, cr_execution_id r, cr_authorization_snapshot_digest r,
             cr_execution_capsule_digest r, cr_runner_class r, cr_conformance_witness_digest r, cr_clock_witness_digest r,
             cr_live_revocation_epoch r, cr_consumed_at r, cr_serialization_contract r, cr_authority_revision r,
             cr_consumption_digest r)
          = (gc_consumption_id w, gc_jti w, gc_grant_digest w, gc_execution_id w, gc_authorization_snapshot_digest w,
             gc_execution_capsule_digest w, gc_runner_class w, gc_conformance_witness_digest w, gc_clock_witness_digest w,
             gc_live_revocation_epoch w, gc_consumed_at w, gc_serialization_contract w, gc_authority_revision w,
             gc_witness_digest w)
      | Inl _ \<Rightarrow> False)"

lemma consumption_witness_create_eq_Inr:
  assumes "consumption_witness_create H cid g cd clock live revision = Inr w"
  shows "consumption_witness_ok H w \<and> gc_consumption_id w = cid \<and> gc_jti w = gr_jti g
    \<and> gc_grant_digest w = gr_grant_digest g \<and> gc_execution_id w = gr_execution_id g
    \<and> gc_authorization_snapshot_digest w = gr_authorization_snapshot_digest g
    \<and> gc_execution_capsule_digest w = gr_execution_capsule_digest g \<and> gc_runner_class w = gr_runner_class g
    \<and> gc_conformance_witness_digest w = cd \<and> gc_clock_witness_digest w = ck_witness_digest clock"
  using assms unfolding consumption_witness_create_def Let_def consumption_witness_dict_eq consumption.init_dict_iff
  by auto

lemma consumption_row_decodes:
  assumes "consumption_witness_create H cid g (cw_witness_digest conformance) clock live revision = Inr w"
  shows "consumption_row_typed H (consumption_row_of g conformance clock w)"
proof -
  note W = consumption_witness_create_eq_Inr [OF assms]
  have "cr_consumption_json (consumption_row_of g conformance clock w) = consumption.stored w"
    by (simp add: consumption_row_of_def consumption.stored_def consumption_witness_dict_eq)
  then have "decode_column (consumption_witness_from_dict H) (cr_consumption_json (consumption_row_of g conformance clock w))
      (ValueError []) = Inr w"
    using consumption.decode_stored [of H w] W by (simp add: decode_column_eq_Inr consumption_witness_from_dict_def)
  then show ?thesis using W by (simp add: consumption_row_typed_def) (simp add: consumption_row_of_def)
qed

lemma prepared_row_typed:
  assumes "prepare_consumption H svc ce cdb db reading cid jti = Inr (g, conformance, clock, w)"
  shows "consumption_row_typed H (consumption_row_of g conformance clock w)"
  using assms unfolding prepare_consumption_eq_Inr by (blast intro: consumption_row_decodes)

definition typed_tables :: "(string \<Rightarrow> string) \<Rightarrow> trust_db \<Rightarrow> bool" where
  "typed_tables H db \<longleftrightarrow>
     list_all (grant_row_typed H) (t_grants db) \<and> list_all (consumption_row_typed H) (t_consumptions db)"

lemma system_step_typed: "system_step H db db' \<Longrightarrow> typed_tables H db \<Longrightarrow> typed_tables H db'"
proof (induction rule: system_step.induct)
  case (issue_step svc ce cdb db reading i ce0 resolve cdb1 cdb2 reading1 reading2 gid jti s a g db')
  obtain conformance clock live
    where made: "issue H i ce0 resolve cdb1 cdb2 reading1 reading2 gid jti s a = Inr g"
      and live: "assert_live_authority H ce cdb g clock = Inr live"
      and ins: "insert_stored_grant db (grant_row_of g conformance clock live (gs_authority_revision svc)) = Inr db'"
    using issue_and_store_eq_Inr [OF issue_step(1)] by blast
  have "execution_grant_ok H g"
    using made by (rule issue_parts) (erule execution_grant_issue_eq_Inr [THEN iffD1, THEN conjunct2])
  moreover have "live = gr_revocation_epoch g" using assert_live_authority_eq_Inr [OF live] by blast
  ultimately show ?case
    using issue_step(2) insert_stored_grant_eq_Inr(1) [OF ins] decode_grant_row [of H g live]
    by (simp add: typed_tables_def grant_row_typed_def)
next
  case (use_step svc ce cdb db reading cid jti w db')
  then obtain g conformance clock where "prepare_consumption H svc ce cdb db reading cid jti = Inr (g, conformance, clock, w)"
    and "insert_consumption db (consumption_row_of g conformance clock w) = Inr db'"
    unfolding consume_eq_Inr by blast
  then show ?case
    using use_step(2) prepared_row_typed insert_consumption_eq_Inr(1) by (fastforce simp: typed_tables_def)
next
  case (enqueue_step svc orv ce cdb db reading cid oid jti e db')
  then obtain g conformance clock w db1
    where "prepare_consumption H svc ce cdb db reading cid jti = Inr (g, conformance, clock, w)"
      and "insert_consumption db (consumption_row_of g conformance clock w) = Inr db1"
      and "insert_outbox db1 (outbox_row_of e) = Inr db'"
    unfolding consume_and_enqueue_eq_Inr by blast
  then show ?case
    using enqueue_step(2) prepared_row_typed insert_consumption_eq_Inr(1) insert_outbox_eq_Inr(1)
    by (fastforce simp: typed_tables_def)
next
  case (deliver_step db db')
  then show ?case using delivery_step_tables [OF deliver_step(1)] by (simp add: typed_tables_def)
qed

text \<open>
  (C33) The types of the tables: in every state that the deployed services reach from empty grant and
  consumption tables, every grant row decodes to a valid grant whose values are its columns, and every
  consumption row to a valid consumption witness whose values are its columns.
\<close>

theorem stored_contracts_typed:
  assumes "t_grants db0 = []" and "t_consumptions db0 = []" and "(system_step H)\<^sup>*\<^sup>* db0 db"
  shows "typed_tables H db"
  using assms(3)
proof (induction rule: rtranclp_induct)
  case base
  then show ?case using assms(1,2) by (simp add: typed_tables_def)
next
  case (step db1 db2)
  then show ?case by (blast intro: system_step_typed)
qed

end
