(* ===== verification/Change_Request.thy ===== *)
theory Change_Request
  imports Workspace Operational_Safety
begin

text \<open>
  Change requests and their approvals: the approval policy (\<open>approval_policy.py\<close>), the tables of
  migrations \<open>0001\<close>, \<open>0004\<close>, \<open>0005\<close> and \<open>0008\<close>, and \<open>ChangeRequestService\<close>
  (\<open>change_request.py\<close>).  A service method ends by reading the row it wrote on a new connection;
  here the operation returns the new database and \<open>get_change_request\<close> is the read.
\<close>

subsection \<open>The approval policy\<close>

text \<open>\<open>str.upper\<close> on code points below 256.  The capitals of \<open>y\<close> with diaeresis and of the micro sign
  are outside this range; the two characters are left as they are.\<close>

definition upper_char :: "char \<Rightarrow> string" where
  "upper_char c =
     (if 97 \<le> code c \<and> code c \<le> 122 \<or> 224 \<le> code c \<and> code c \<le> 254 \<and> code c \<noteq> 247
      then [char_of (code c - 32)]
      else if code c = 223 then ''SS'' else [c])"

definition upper :: "string \<Rightarrow> string" where
  "upper s = concat (map upper_char s)"

definition valid_risks :: "string list" where
  "valid_risks = [''R0'', ''R1'', ''R2'', ''R3'', ''R4'']"

record policy_input =
  pi_environment :: string
  pi_risk :: string

definition policy_input_init :: "policy_input \<Rightarrow> policy_input res" where
  "policy_input_init i =
     thenE (guardE (pi_environment i \<in> set valid_environments) (ValueError ''unknown environment''))
    (thenE (guardE (pi_risk i \<in> set valid_risks) (ValueError ''unknown risk''))
      (Inr i))"

record policy_decision =
  po_policy_version :: string
  po_profile :: string
  po_decision :: string
  po_authorization_mode :: string
  po_required_approvals :: int
  po_required_permissions :: "string list"
  po_distinct_approver_identities :: int
  po_requester_may_approve :: bool
  po_step_up_required :: bool
  po_reason_codes :: "string list"

definition policy_decision_to_dict :: "policy_decision \<Rightarrow> (string \<times> json) list" where
  "policy_decision_to_dict p =
     [(''policy_version'', JStr (po_policy_version p)), (''profile'', JStr (po_profile p)),
      (''decision'', JStr (po_decision p)), (''authorization_mode'', JStr (po_authorization_mode p)),
      (''required_approvals'', JInt (po_required_approvals p)),
      (''required_permissions'', JArr (map JStr (po_required_permissions p))),
      (''distinct_approver_identities'', JInt (po_distinct_approver_identities p)),
      (''requester_may_approve'', JBool (po_requester_may_approve p)),
      (''step_up_required'', JBool (po_step_up_required p)),
      (''reason_codes'', JArr (map JStr (po_reason_codes p)))]"

definition current_required_approvals :: "string \<Rightarrow> int res" where
  "current_required_approvals environment =
     thenE (guardE (environment \<in> set valid_environments) (ValueError ''unknown environment''))
      (Inr (if environment = ''production'' then 2 else 1))"

definition evaluate_current_approval_policy :: "policy_input \<Rightarrow> policy_decision res" where
  "evaluate_current_approval_policy i =
     (let production = (pi_environment i = ''production'') in
      bindE (current_required_approvals (pi_environment i)) (\<lambda>required.
      Inr \<lparr>po_policy_version = ''approval-policy/current-v1'', po_profile = ''CURRENT_COMPATIBILITY'',
        po_decision = ''ALLOW_AFTER_AUTHORIZATION'', po_authorization_mode = ''INDEPENDENT_APPROVAL'',
        po_required_approvals = required, po_required_permissions = [''approval.review''],
        po_distinct_approver_identities = required, po_requester_may_approve = False,
        po_step_up_required = False,
        po_reason_codes =
          [''CURRENT_BEHAVIOR_COMPATIBILITY'', ''ENVIRONMENT_'' @ upper (pi_environment i),
           pi_risk i @ ''_CURRENTLY_NON_ENFORCING'', ''REQUESTER_SELF_APPROVAL_DENIED'',
           if production then ''PRODUCTION_TWO_APPROVALS_REQUIRED'' else ''NON_PRODUCTION_ONE_APPROVAL_REQUIRED'']
          @ (if production then [''PRODUCTION_EFFECTS_USE_SEPARATE_FAIL_CLOSED_GATE''] else [])\<rparr>))"

type_synonym policy_evaluator = "policy_input \<Rightarrow> policy_decision res"

definition resolve_current_approval_policy :: "policy_evaluator \<Rightarrow> policy_input \<Rightarrow> policy_decision res" where
  "resolve_current_approval_policy evaluator i =
     bindE (evaluator i) (\<lambda>decision.
     bindE (evaluate_current_approval_policy i) (\<lambda>expected.
     thenE (guardE (decision = expected)
       (RuntimeError ''approval policy evaluator diverged from current runtime behavior''))
      (Inr decision)))"

subsection \<open>Tables\<close>

record change_row =
  q_id :: string
  q_workspace_id :: string
  q_title :: string
  q_description :: string
  q_risk :: string
  q_environment :: string
  q_adapter :: string
  q_payload_json :: string
  q_status :: string
  q_requested_by :: string
  q_created_at :: string
  q_updated_at :: string
  q_review_content_sha256 :: "string option"

text \<open>The trigger on insertion refuses a null digest, so the column of a stored approval is a text.\<close>

record approval_row =
  v_id :: string
  v_request_id :: string
  v_approver_id :: string
  v_decision :: string
  v_reason :: string
  v_review_content_sha256 :: string
  v_created_at :: string

record execution_row =
  e_id :: string
  e_request_id :: string
  e_status :: string
  e_adapter :: string
  e_output_json :: string
  e_error :: "string option"
  e_idempotency_key :: "string option"
  e_started_at :: string
  e_completed_at :: "string option"
  e_fence :: int
  e_lease_expires_at :: "string option"

record work_db =
  k_core :: core_db
  k_requests :: "change_row list"
  k_approvals :: "approval_row list"
  k_executions :: "execution_row list"
  k_receipts :: "receipt_row list"

definition with_audit ::
  "(string \<Rightarrow> string) \<Rightarrow> string \<times> string \<Rightarrow> work_db \<Rightarrow> string \<Rightarrow> string \<Rightarrow> string \<Rightarrow> string \<Rightarrow> json \<Rightarrow> work_db res" where
  "with_audit H idt db actor action ttype tid payload =
     bindE (audit H idt (k_core db) actor action ttype tid payload) (\<lambda>c. Inr (db\<lparr>k_core := c\<rparr>))"

text \<open>\<open>SELECT ... FROM change_requests cr JOIN workspaces w ON w.id = cr.workspace_id WHERE cr.id = ?\<close>:
  the row and the environment of its workspace.\<close>

definition select_request :: "work_db \<Rightarrow> string \<Rightarrow> (change_row \<times> string) option" where
  "select_request db request_id =
     (case select q_id request_id (k_requests db) of
        None \<Rightarrow> None
      | Some r \<Rightarrow> (case select w_id (q_workspace_id r) (c_workspaces (k_core db)) of
            None \<Rightarrow> None
          | Some w \<Rightarrow> Some (r, w_environment w)))"

definition review_digest_check :: "string option \<Rightarrow> bool" where
  "review_digest_check d \<longleftrightarrow> (case d of None \<Rightarrow> True | Some s \<Rightarrow> is_digest s)"

definition insert_change_request :: "work_db \<Rightarrow> change_row \<Rightarrow> work_db res" where
  "insert_change_request db r =
     thenE (guardE
       (key_free q_id (q_id r) (k_requests db)
        \<and> q_workspace_id r \<in> set (map w_id (c_workspaces (k_core db)))
        \<and> q_requested_by r \<in> set (map u_id (c_users (k_core db)))
        \<and> q_review_content_sha256 r = None
        \<and> q_environment r \<in> set valid_environments
        \<and> (\<exists>w \<in> set (c_workspaces (k_core db)). w_id w = q_workspace_id r \<and> w_environment w = q_environment r))
       IntegrityError)
      (Inr (db\<lparr>k_requests := k_requests db @ [r]\<rparr>))"

text \<open>
  What the triggers of migration \<open>0008\<close> require of an update of the columns \<open>status\<close>,
  \<open>review_content_sha256\<close> and \<open>updated_at\<close>; the statements of the services write no other column.
\<close>

definition request_update_ok :: "change_row \<Rightarrow> change_row \<Rightarrow> bool" where
  "request_update_ok old new \<longleftrightarrow>
     review_digest_check (q_review_content_sha256 new)
     \<and> (q_review_content_sha256 old = q_review_content_sha256 new
        \<or> q_status old = ''DRAFT'' \<and> q_status new = ''REVIEW_REQUIRED''
          \<and> q_review_content_sha256 old = None \<and> q_review_content_sha256 new \<noteq> None)
     \<and> \<not> (q_status new = ''REVIEW_REQUIRED'' \<and> q_review_content_sha256 new = None)"

definition update_request :: "work_db \<Rightarrow> string \<Rightarrow> (change_row \<Rightarrow> change_row) \<Rightarrow> work_db res" where
  "update_request db request_id f =
     thenE (guardE (list_all (\<lambda>r. q_id r = request_id \<longrightarrow> request_update_ok r (f r)) (k_requests db)) IntegrityError)
      (Inr (db\<lparr>k_requests := update_where (\<lambda>r. q_id r = request_id) f (k_requests db)\<rparr>))"

definition set_status :: "string \<Rightarrow> string \<Rightarrow> change_row \<Rightarrow> change_row" where
  "set_status status now r = r\<lparr>q_status := status, q_updated_at := now\<rparr>"

definition insert_approval :: "work_db \<Rightarrow> approval_row \<Rightarrow> work_db res" where
  "insert_approval db v =
     thenE (guardE
       (key_free v_id (v_id v) (k_approvals db)
        \<and> key_free (\<lambda>x. (v_request_id x, v_approver_id x)) (v_request_id v, v_approver_id v) (k_approvals db)
        \<and> v_request_id v \<in> set (map q_id (k_requests db))
        \<and> v_approver_id v \<in> set (map u_id (c_users (k_core db)))
        \<and> review_digest_check (Some (v_review_content_sha256 v))
        \<and> list_ex (\<lambda>r. q_id r = v_request_id v \<and> q_status r = ''REVIEW_REQUIRED''
             \<and> q_review_content_sha256 r = Some (v_review_content_sha256 v)) (k_requests db))
       IntegrityError)
      (Inr (db\<lparr>k_approvals := k_approvals db @ [v]\<rparr>))"

definition count_approved :: "work_db \<Rightarrow> string \<Rightarrow> nat" where
  "count_approved db request_id =
     length (filter (\<lambda>v. v_request_id v = request_id \<and> v_decision v = ''APPROVED'') (k_approvals db))"

subsection \<open>The service\<close>

definition valid_adapters :: "string list" where
  "valid_adapters = [''echo'', ''write_artifact'', ''run_validation'', ''github-create-ref'', ''github-read-ref'']"

definition max_change_payload_bytes :: int where
  "max_change_payload_bytes = 65536"

definition create_change_request ::
  "(string \<Rightarrow> string) \<Rightarrow> string \<Rightarrow> string \<Rightarrow> string \<times> string \<Rightarrow> work_db \<Rightarrow>
   string \<Rightarrow> string \<Rightarrow> string \<Rightarrow> string \<Rightarrow> string \<Rightarrow> string \<Rightarrow> string \<Rightarrow> json \<Rightarrow> work_db res" where
  "create_change_request H request_id now idt db actor_id workspace_id title description risk environment adapter payload =
     thenE (guardE (risk \<in> set valid_risks) (ValueError ''unknown risk''))
    (thenE (guardE (environment \<in> set valid_environments) (ValueError ''unknown environment''))
    (thenE (guardE (adapter \<in> set valid_adapters) (ValueError ''adapter is not registered''))
    (let encoded_payload = canonical_json payload in
     thenE (guardE (int (length (utf8 encoded_payload)) \<le> max_change_payload_bytes)
       (ValueError ''change request payload exceeds the governed limit''))
    (bindE (orRaise (select w_id workspace_id (c_workspaces (k_core db))) (LookupError ''workspace not found'')) (\<lambda>w.
     thenE (guardE (w_environment w = environment)
       (ValueError ''change request environment must match workspace environment''))
    (bindE (insert_change_request db
       \<lparr>q_id = request_id, q_workspace_id = workspace_id, q_title = strip title,
        q_description = strip description, q_risk = risk, q_environment = environment, q_adapter = adapter,
        q_payload_json = encoded_payload, q_status = ''DRAFT'', q_requested_by = actor_id,
        q_created_at = now, q_updated_at = now, q_review_content_sha256 = None\<rparr>) (\<lambda>db1.
     with_audit H idt db1 actor_id ''change_request.create'' ''change_request'' request_id
       (JObj [(''risk'', JStr risk), (''environment'', JStr environment), (''adapter'', JStr adapter)]))))))))"

fun is_dict :: "json \<Rightarrow> bool" where
  "is_dict (JObj _) = True"
| "is_dict _ = False"

definition review_subject :: "change_row \<Rightarrow> json \<Rightarrow> json" where
  "review_subject r payload =
     JObj [(''schema'', JStr ''change-request-review/v1''), (''workspace_id'', JStr (q_workspace_id r)),
       (''title'', JStr (q_title r)), (''description'', JStr (q_description r)), (''risk'', JStr (q_risk r)),
       (''environment'', JStr (q_environment r)), (''adapter'', JStr (q_adapter r)), (''payload'', payload),
       (''requested_by'', JStr (q_requested_by r))]"

definition review_content_sha256 :: "(string \<Rightarrow> string) \<Rightarrow> change_row \<Rightarrow> string res" where
  "review_content_sha256 H r =
     bindE (orRaise (json_loads (q_payload_json r))
       (RuntimeError ''change request payload is not valid canonical JSON'')) (\<lambda>payload.
     thenE (guardE (is_dict payload) (RuntimeError ''change request payload must be a JSON object''))
      (Inr (H (canonical_json (review_subject r payload)))))"

definition require_workspace_environment :: "string \<Rightarrow> string \<Rightarrow> unit res" where
  "require_workspace_environment request_environment workspace_environment =
     thenE (guardE (request_environment \<in> set valid_environments \<and> workspace_environment \<in> set valid_environments)
       (RuntimeError ''change request environment boundary is invalid''))
      (guardE (request_environment = workspace_environment)
        (RuntimeError ''change request environment does not match workspace''))"

definition submit_change_request ::
  "(string \<Rightarrow> string) \<Rightarrow> string \<Rightarrow> string \<times> string \<Rightarrow> work_db \<Rightarrow> string \<Rightarrow> string \<Rightarrow> work_db res" where
  "submit_change_request H now idt db actor_id request_id =
     bindE (orRaise (select_request db request_id) (LookupError ''change request not found'')) (\<lambda>(r, we).
     thenE (require_workspace_environment (q_environment r) we)
    (thenE (guardE (q_status r = ''DRAFT'') (RuntimeError ''only a draft can be submitted''))
    (thenE (guardE (q_review_content_sha256 r = None) (RuntimeError ''draft review content binding must be empty''))
    (bindE (review_content_sha256 H r) (\<lambda>digest.
     bindE (update_request db request_id (\<lambda>r. r\<lparr>q_review_content_sha256 := Some digest,
        q_status := ''REVIEW_REQUIRED'', q_updated_at := now\<rparr>)) (\<lambda>db1.
     with_audit H idt db1 actor_id ''change_request.submit'' ''change_request'' request_id
       (JObj [(''review_content_sha256'', JStr digest)])))))))"

text \<open>The configuration of the service: whether the compatibility check of the policy is on, and the
  injected evaluator it checks.\<close>

definition approval_policy_decision :: "bool \<times> policy_evaluator \<Rightarrow> change_row \<Rightarrow> policy_decision res" where
  "approval_policy_decision policy r =
     bindE (policy_input_init \<lparr>pi_environment = q_environment r, pi_risk = q_risk r\<rparr>) (\<lambda>i.
       if \<not> fst policy then evaluate_current_approval_policy i
       else resolve_current_approval_policy (snd policy) i)"

text \<open>The part of \<open>approve_change_request\<close> before the first write: the stored review digest and, for an
  approval, the policy decision.\<close>

definition review_context ::
  "(string \<Rightarrow> string) \<Rightarrow> bool \<times> policy_evaluator \<Rightarrow> work_db \<Rightarrow> string \<Rightarrow> string \<Rightarrow> string \<Rightarrow>
   (string \<times> policy_decision option) res" where
  "review_context H policy db actor_id request_id decision =
     bindE (orRaise (select_request db request_id) (LookupError ''change request not found'')) (\<lambda>(r, we).
     thenE (require_workspace_environment (q_environment r) we)
    (thenE (guardE (q_status r = ''REVIEW_REQUIRED'') (RuntimeError ''request is not awaiting review''))
    (thenE (guardE (q_requested_by r \<noteq> actor_id) (PermissionError ''requester cannot approve their own change''))
    (bindE (orRaise (q_review_content_sha256 r) (RuntimeError ''request review content binding is missing'')) (\<lambda>digest.
     bindE (review_content_sha256 H r) (\<lambda>computed.
     thenE (guardE (computed = digest)
       (RuntimeError ''request review content binding does not match persisted content''))
      (if decision = ''APPROVED''
       then bindE (approval_policy_decision policy r) (\<lambda>p. Inr (digest, Some p))
       else Inr (digest, None))))))))"

definition next_status :: "string \<Rightarrow> nat \<Rightarrow> policy_decision option \<Rightarrow> string" where
  "next_status decision approved_count policy =
     (if decision = ''DENIED'' then ''DENIED''
      else case policy of
          None \<Rightarrow> ''REVIEW_REQUIRED''
        | Some p \<Rightarrow> if po_required_approvals p \<le> int approved_count then ''APPROVED'' else ''REVIEW_REQUIRED'')"

definition approve_change_request ::
  "(string \<Rightarrow> string) \<Rightarrow> bool \<times> policy_evaluator \<Rightarrow> string \<Rightarrow> string \<Rightarrow> string \<times> string \<Rightarrow> work_db \<Rightarrow>
   string \<Rightarrow> string \<Rightarrow> string \<Rightarrow> string \<Rightarrow> work_db res" where
  "approve_change_request H policy approval_id now idt db actor_id request_id decision0 reason =
     (let decision = upper decision0 in
     thenE (guardE (decision \<in> {''APPROVED'', ''DENIED''}) (ValueError ''decision must be APPROVED or DENIED''))
    (bindE (review_context H policy db actor_id request_id decision) (\<lambda>(digest, p).
     bindE (catchE is_IntegrityError
       (insert_approval db \<lparr>v_id = approval_id, v_request_id = request_id, v_approver_id = actor_id,
          v_decision = decision, v_reason = strip reason, v_review_content_sha256 = digest, v_created_at = now\<rparr>)
       (RuntimeError ''approver already decided this request'')) (\<lambda>db1.
     let status = next_status decision (count_approved db1 request_id) p in
     bindE (update_request db1 request_id (set_status status now)) (\<lambda>db2.
     with_audit H idt db2 actor_id (''change_request.'' @ map lower_char decision) ''change_request'' request_id
       (JObj ([(''reason'', JStr reason), (''resulting_status'', JStr status),
               (''review_content_sha256'', JStr digest)]
          @ (case p of None \<Rightarrow> [] | Some d \<Rightarrow> [(''approval_policy'', JObj (policy_decision_to_dict d))]))))))))"

text \<open>\<open>GET_CHANGE_REQUEST\<close>: the row with the name of its requester, the number of approvals and the
  decoded payload.\<close>

definition get_change_request :: "work_db \<Rightarrow> string \<Rightarrow> (change_row \<times> string \<times> nat \<times> json) res" where
  "get_change_request db request_id =
     bindE (orRaise (select q_id request_id (k_requests db)) (LookupError ''change request not found'')) (\<lambda>r.
     bindE (orRaise (select u_id (q_requested_by r) (c_users (k_core db))) (LookupError ''change request not found'')) (\<lambda>u.
     bindE (orRaise (json_loads (q_payload_json r)) (ValueError ''payload_json'')) (\<lambda>payload.
     Inr (r, u_username u, count_approved db request_id, payload))))"

end
