(* ===== verification/Snapshot_Store.thy ===== *)
theory Snapshot_Store
  imports Authorization_Snapshot Change_Request
begin

text \<open>
  The table of authorization snapshots (migration \<open>0009\<close>) and \<open>AuthorizationSnapshotStore\<close>
  (\<open>authorization_snapshot_store.py\<close>): a snapshot is stored once per idempotency key, together with its
  audit event, for a request that is approved with the same content; it is read back only from canonical
  bytes that agree with the columns of the row.
\<close>

record snapshot_row =
  ss_id :: string
  ss_execution_id :: string
  ss_request_id :: string
  ss_actor_id :: string
  ss_workspace_id :: string
  ss_environment :: string
  ss_review_content_sha256 :: string
  ss_idempotency_key :: string
  ss_idempotency_binding_digest :: string
  ss_snapshot_digest :: string
  ss_snapshot_json :: string
  ss_execution_target_json :: string
  ss_approval_evidence_json :: string
  ss_created_at :: string

record snapshot_db =
  d_work :: work_db
  d_snapshots :: "snapshot_row list"

text \<open>The constraints of the table and the trigger on insertion.\<close>

definition insert_snapshot :: "snapshot_db \<Rightarrow> snapshot_row \<Rightarrow> snapshot_db res" where
  "insert_snapshot db r =
     thenE (guardE
       (key_free ss_id (ss_id r) (d_snapshots db)
        \<and> key_free ss_execution_id (ss_execution_id r) (d_snapshots db)
        \<and> key_free ss_idempotency_key (ss_idempotency_key r) (d_snapshots db)
        \<and> key_free ss_snapshot_digest (ss_snapshot_digest r) (d_snapshots db)
        \<and> ss_request_id r \<in> set (map q_id (k_requests (d_work db)))
        \<and> ss_actor_id r \<in> set (map u_id (c_users (k_core (d_work db))))
        \<and> ss_workspace_id r \<in> set (map w_id (c_workspaces (k_core (d_work db))))
        \<and> ss_environment r \<in> set valid_environments
        \<and> list_all is_digest [ss_review_content_sha256 r, ss_idempotency_binding_digest r, ss_snapshot_digest r]
        \<and> (case select_request (d_work db) (ss_request_id r) of
             None \<Rightarrow> False
           | Some (q, workspace_environment) \<Rightarrow>
               q_status q = ''APPROVED'' \<and> q_workspace_id q = ss_workspace_id r
               \<and> q_environment q = ss_environment r \<and> workspace_environment = ss_environment r
               \<and> q_review_content_sha256 q = Some (ss_review_content_sha256 r)))
       IntegrityError)
      (Inr (db\<lparr>d_snapshots := d_snapshots db @ [r]\<rparr>))"

definition snapshot_row_of ::
  "(string \<Rightarrow> string) \<Rightarrow> authorization_snapshot \<Rightarrow> string \<Rightarrow> string \<Rightarrow> snapshot_row" where
  "snapshot_row_of H s idempotency_key now =
     \<lparr>ss_id = sn_snapshot_id s, ss_execution_id = sn_execution_id s, ss_request_id = sn_request_id s,
      ss_actor_id = sn_actor_id s, ss_workspace_id = sn_workspace_id s, ss_environment = sn_environment s,
      ss_review_content_sha256 = sn_review_content_sha256 s, ss_idempotency_key = idempotency_key,
      ss_idempotency_binding_digest = idempotency_binding_digest H s,
      ss_snapshot_digest = sn_snapshot_digest s,
      ss_snapshot_json = canonical_json (JObj (authorization_snapshot_to_dict s)),
      ss_execution_target_json = canonical_json (JObj (execution_target_to_dict (sn_execution_target s))),
      ss_approval_evidence_json = canonical_json (JObj (approval_set_to_dict (sn_approval_evidence s))),
      ss_created_at = now\<rparr>"

definition decode_snapshot :: "(string \<Rightarrow> string) \<Rightarrow> snapshot_row \<Rightarrow> authorization_snapshot res" where
  "decode_snapshot H row =
     bindE (orRaise (json_loads (ss_snapshot_json row)) (RuntimeError ''storage is not valid JSON'')) (\<lambda>snapshot_value.
     bindE (orRaise (json_loads (ss_execution_target_json row)) (RuntimeError ''storage is not valid JSON'')) (\<lambda>target_value.
     bindE (orRaise (json_loads (ss_approval_evidence_json row)) (RuntimeError ''storage is not valid JSON'')) (\<lambda>approval_value.
     thenE (guardE (is_dict snapshot_value) (RuntimeError ''authorization snapshot storage is invalid''))
    (thenE (guardE (is_dict target_value \<and> is_dict approval_value)
       (RuntimeError ''authorization snapshot child storage is invalid''))
    (thenE (guardE (canonical_json target_value = ss_execution_target_json row)
       (RuntimeError ''execution target bytes are not canonical''))
    (thenE (guardE (canonical_json approval_value = ss_approval_evidence_json row)
       (RuntimeError ''approval evidence bytes are not canonical''))
    (thenE (guardE (canonical_json snapshot_value = ss_snapshot_json row)
       (RuntimeError ''authorization snapshot bytes are not canonical''))
      (bindE (execution_target_from_dict H target_value) (\<lambda>target.
       bindE (approval_set_from_dict H approval_value) (\<lambda>approvals.
       bindE (authorization_snapshot_from_dict H snapshot_value target approvals) (\<lambda>s.
       thenE (guardE
           (ss_id row = sn_snapshot_id s \<and> ss_execution_id row = sn_execution_id s
            \<and> ss_request_id row = sn_request_id s \<and> ss_actor_id row = sn_actor_id s
            \<and> ss_workspace_id row = sn_workspace_id s \<and> ss_environment row = sn_environment s
            \<and> ss_review_content_sha256 row = sn_review_content_sha256 s
            \<and> ss_idempotency_binding_digest row = idempotency_binding_digest H s
            \<and> ss_snapshot_digest row = sn_snapshot_digest s)
           (RuntimeError ''authorization snapshot storage bindings mismatch''))
        (Inr s))))))))))))"

text \<open>\<open>_require_request_binding\<close>; a null review digest reads as the text \<open>None\<close>, which is no digest.\<close>

definition require_request_binding :: "work_db \<Rightarrow> authorization_snapshot \<Rightarrow> unit res" where
  "require_request_binding db s =
     bindE (orRaise (select q_id (sn_request_id s) (k_requests db)) (RuntimeError ''change request not found'')) (\<lambda>q.
     thenE (guardE (q_status q = ''APPROVED'')
       (RuntimeError ''change request is not in an approved immutable-review state''))
      (guardE (q_workspace_id q = sn_workspace_id s \<and> q_environment q = sn_environment s
          \<and> (case q_review_content_sha256 q of None \<Rightarrow> ''None'' | Some d \<Rightarrow> d) = sn_review_content_sha256 s)
        (RuntimeError ''change request snapshot bindings mismatch'')))"

definition snapshot_created_payload :: "string \<Rightarrow> authorization_snapshot \<Rightarrow> (string \<times> json) list" where
  "snapshot_created_payload correlation_id s =
     [(''correlation_id'', JStr correlation_id), (''snapshot_digest'', JStr (sn_snapshot_digest s)),
      (''execution_id'', JStr (sn_execution_id s)), (''request_id'', JStr (sn_request_id s)),
      (''review_content_sha256'', JStr (sn_review_content_sha256 s)), (''workspace_id'', JStr (sn_workspace_id s)),
      (''environment'', JStr (sn_environment s)), (''payload_digest'', JStr (sn_payload_digest s)),
      (''payload_digest_scheme'', JStr (sn_payload_digest_scheme s)),
      (''target_kind'', JStr (et_target_kind (sn_execution_target s))),
      (''target_digest'', JStr (et_target_digest (sn_execution_target s))), (''capability'', JStr (sn_capability s)),
      (''capability_definition_identity'', JStr (sn_capability_definition_identity s)),
      (''policy_version'', JStr (sn_policy_version s)), (''policy_identity'', JStr (sn_policy_identity s)),
      (''approval_set_digest'', JStr (as_approval_set_digest (sn_approval_evidence s))),
      (''approval_valid_until'', JStr (as_approval_valid_until (sn_approval_evidence s))),
      (''issuance_timestamp_source_identity'', JStr (sn_issuance_timestamp_source_identity s)),
      (''authorized_at'', JStr (sn_authorized_at s)),
      (''authorization_source_revision'', JStr (sn_authorization_source_revision s))]"

definition persist_snapshot ::
  "(string \<Rightarrow> string) \<Rightarrow> string \<Rightarrow> string \<times> string \<Rightarrow> snapshot_db \<Rightarrow> authorization_snapshot \<Rightarrow> string \<Rightarrow> string \<Rightarrow>
   (authorization_snapshot \<times> snapshot_db) res" where
  "persist_snapshot H now idt db s idempotency_key correlation_id =
     thenE (check_texts [(''idempotency_key'', idempotency_key), (''correlation_id'', correlation_id)])
      (case select ss_idempotency_key idempotency_key (d_snapshots db) of
         Some existing \<Rightarrow>
           thenE (guardE (ss_idempotency_binding_digest existing = idempotency_binding_digest H s)
              (RuntimeError ''idempotency key is bound to different authorization inputs''))
            (bindE (decode_snapshot H existing) (\<lambda>stored. Inr (stored, db)))
       | None \<Rightarrow>
           thenE (require_request_binding (d_work db) s)
            (bindE (catchE is_IntegrityError (insert_snapshot db (snapshot_row_of H s idempotency_key now))
               (RuntimeError ''authorization snapshot immutable identity conflicts'')) (\<lambda>db1.
             bindE (with_audit H idt (d_work db1) (sn_actor_id s) ''authorization_snapshot.create''
               ''authorization_snapshot'' (sn_snapshot_id s)
               (JObj (snapshot_created_payload correlation_id s))) (\<lambda>w.
             Inr (s, db1\<lparr>d_work := w\<rparr>)))))"

definition get_snapshot :: "(string \<Rightarrow> string) \<Rightarrow> snapshot_db \<Rightarrow> string \<Rightarrow> authorization_snapshot res" where
  "get_snapshot H db snapshot_id =
     thenE (check_texts [(''snapshot_id'', snapshot_id)])
      (bindE (orRaise (select ss_id snapshot_id (d_snapshots db)) (LookupError ''authorization snapshot not found''))
        (decode_snapshot H))"

definition get_snapshot_by_idempotency_key ::
  "(string \<Rightarrow> string) \<Rightarrow> snapshot_db \<Rightarrow> string \<Rightarrow> authorization_snapshot option res" where
  "get_snapshot_by_idempotency_key H db idempotency_key =
     thenE (check_texts [(''idempotency_key'', idempotency_key)])
      (case select ss_idempotency_key idempotency_key (d_snapshots db) of
         None \<Rightarrow> Inr None
       | Some row \<Rightarrow> bindE (decode_snapshot H row) (\<lambda>s. Inr (Some s)))"

end
