(* ===== verification/Policy_Authority.thy ===== *)
theory Policy_Authority
  imports Trusted_Clock
begin

text \<open>
  Approval-policy revisions (\<open>policy_authority.py\<close>): a content-addressed table of the number of
  approvals each environment requires and of how long an approval stays valid, and the read-only
  registry of revisions.  A dictionary argument is its list of items, whose keys are distinct.
\<close>

subsection \<open>Revisions\<close>

record policy_revision =
  rv_policy_version :: string
  rv_policy_package :: string
  rv_approval_validity_seconds :: int
  rv_required_approvals :: "(string \<times> int) list"
  rv_policy_identity :: string

definition required_approval_json :: "string \<times> int \<Rightarrow> json" where
  "required_approval_json r = JObj [(''environment'', JStr (fst r)), (''count'', JInt (snd r))]"

definition policy_revision_claims :: "policy_revision \<Rightarrow> (string \<times> json) list" where
  "policy_revision_claims c =
     [(''revision_type'', JStr ''policy-revision/v1''), (''policy_version'', JStr (rv_policy_version c)),
      (''policy_package'', JStr (rv_policy_package c)),
      (''approval_validity_seconds'', JInt (rv_approval_validity_seconds c)),
      (''required_approvals'', JArr (map required_approval_json (rv_required_approvals c)))]"

definition policy_revision_to_dict :: "policy_revision \<Rightarrow> (string \<times> json) list" where
  "policy_revision_to_dict c =
     policy_revision_claims c @ [(''policy_identity'', JStr (rv_policy_identity c))]"

definition policy_revision_init :: "(string \<Rightarrow> string) \<Rightarrow> policy_revision \<Rightarrow> policy_revision res" where
  "policy_revision_init H c =
     (let environments = map fst (rv_required_approvals c) in
     thenE (check_texts [(''policy_version'', rv_policy_version c), (''policy_package'', rv_policy_package c)])
    (thenE (guardE (0 < rv_approval_validity_seconds c) (ValueError ''approval_validity_seconds''))
    (thenE (guardE (set environments = set valid_environments)
       (ValueError ''policy revision must define every supported environment''))
    (thenE (guardE (environments = sort environments) (ValueError ''required_approvals''))
    (thenE (for_each (\<lambda>(environment, count).
         thenE (guardE (environment \<in> set valid_environments) (ValueError ''policy environment is invalid''))
          (guardE (\<not> count < 1) (ValueError ''required approval count must be positive'')))
         (rv_required_approvals c))
    (thenE (check_digests [(''policy_identity'', rv_policy_identity c)])
    (thenE (guardE (rv_policy_identity c = claims_digest H (policy_revision_claims c)) (ValueError ''policy_identity''))
      (Inr c))))))))"

text \<open>\<open>sorted(d.items())\<close>: the keys are distinct, so the items are ordered by key.\<close>

definition policy_revision_create ::
  "(string \<Rightarrow> string) \<Rightarrow> string \<Rightarrow> string \<Rightarrow> int \<Rightarrow> (string \<times> int) list \<Rightarrow> policy_revision res" where
  "policy_revision_create H policy_version policy_package validity required =
     thenE (check_texts [(''policy_version'', policy_version), (''policy_package'', policy_package)])
    (thenE (guardE (set (map fst required) = set valid_environments)
       (ValueError ''policy revision must define every supported environment''))
      (let c = \<lparr>rv_policy_version = policy_version, rv_policy_package = policy_package,
                rv_approval_validity_seconds = validity, rv_required_approvals = sort_key fst required,
                rv_policy_identity = []\<rparr>
       in policy_revision_init H (c\<lparr>rv_policy_identity := claims_digest H (policy_revision_claims c)\<rparr>)))"

text \<open>\<open>dict(pairs)[key]\<close>: the last pair with the key counts.\<close>

definition required_approvals_for :: "policy_revision \<Rightarrow> string \<Rightarrow> int res" where
  "required_approvals_for c environment =
     thenE (guardE (environment \<in> set valid_environments) (ValueError ''unknown environment''))
      (orRaise (map_of (rev (rv_required_approvals c)) environment) (LookupError environment))"

definition policy_revision_ok :: "(string \<Rightarrow> string) \<Rightarrow> policy_revision \<Rightarrow> bool" where
  "policy_revision_ok H c \<longleftrightarrow>
     list_all text_ok [rv_policy_version c, rv_policy_package c]
     \<and> 0 < rv_approval_validity_seconds c
     \<and> fst ` set (rv_required_approvals c) = set valid_environments
     \<and> map fst (rv_required_approvals c) = sort (map fst (rv_required_approvals c))
     \<and> (\<forall>r \<in> set (rv_required_approvals c). 1 \<le> snd r)
     \<and> digest_ok (rv_policy_identity c)
     \<and> rv_policy_identity c = claims_digest H (policy_revision_claims c)"

lemma policy_revision_init_iff:
  "policy_revision_init H c = Inr c' \<longleftrightarrow> c' = c \<and> policy_revision_ok H c"
  unfolding policy_revision_init_def policy_revision_ok_def Let_def
  by (auto simp: res_simps split: prod.splits) (metis fst_conv image_eqI)

lemma policy_revision_seal [simp]:
  "policy_revision_claims (c\<lparr>rv_policy_identity := x\<rparr>) = policy_revision_claims c"
  by (simp add: policy_revision_claims_def)

lemma policy_revision_create_eq_Inr:
  assumes "policy_revision_create H version package validity required = Inr c"
  shows "policy_revision_ok H c \<and> rv_policy_version c = version
     \<and> rv_approval_validity_seconds c = validity \<and> rv_required_approvals c = sort_key fst required"
  using assms unfolding policy_revision_create_def Let_def
  by (auto simp: res_simps policy_revision_init_iff)

text \<open>In a valid revision the lookup answers for every environment, with at least one approval.\<close>

lemma required_approvals_for_ok:
  assumes "policy_revision_ok H c" and "environment \<in> set valid_environments"
  obtains n where "required_approvals_for c environment = Inr n" and "1 \<le> n"
    and "(environment, n) \<in> set (rv_required_approvals c)"
proof -
  have "environment \<in> fst ` set (rev (rv_required_approvals c))"
    using assms by (simp add: policy_revision_ok_def)
  then obtain n where n: "map_of (rev (rv_required_approvals c)) environment = Some n"
    by (metis map_of_eq_None_iff not_None_eq)
  then have m: "(environment, n) \<in> set (rv_required_approvals c)"
    using map_of_SomeD by fastforce
  then have "1 \<le> n" using assms(1) by (force simp: policy_revision_ok_def)
  then show thesis using that n m assms(2) by (simp add: required_approvals_for_def)
qed

subsection \<open>The registry of revisions\<close>

record policy_authority =
  py_by_version :: "string \<rightharpoonup> policy_revision"
  py_by_identity :: "string \<rightharpoonup> policy_revision"

fun add_revisions :: "policy_revision list \<Rightarrow> policy_authority \<Rightarrow> policy_authority res" where
  "add_revisions [] y = Inr y"
| "add_revisions (c # cs) y =
     thenE (guardE (py_by_version y (rv_policy_version c) = None) (ValueError ''duplicate policy_version''))
    (thenE (guardE (py_by_identity y (rv_policy_identity c) = None) (ValueError ''duplicate policy_identity''))
      (add_revisions cs
        (y\<lparr>py_by_version := (py_by_version y)(rv_policy_version c \<mapsto> c),
           py_by_identity := (py_by_identity y)(rv_policy_identity c \<mapsto> c)\<rparr>)))"

definition policy_authority_init :: "policy_revision list \<Rightarrow> policy_authority res" where
  "policy_authority_init revisions =
     bindE (add_revisions revisions \<lparr>py_by_version = Map.empty, py_by_identity = Map.empty\<rparr>) (\<lambda>y.
     thenE (guardE (revisions \<noteq> []) (ValueError ''policy authority requires at least one revision''))
      (Inr y))"

definition resolve_policy :: "policy_authority \<Rightarrow> string \<Rightarrow> policy_revision res" where
  "resolve_policy y policy_version =
     thenE (check_texts [(''policy_version'', policy_version)])
      (orRaise (py_by_version y policy_version) (LookupError ''policy revision not found''))"

definition resolve_policy_identity :: "policy_authority \<Rightarrow> string \<Rightarrow> policy_revision res" where
  "resolve_policy_identity y policy_identity =
     thenE (check_texts [(''policy_identity'', policy_identity)])
      (orRaise (py_by_identity y policy_identity) (LookupError ''policy identity not found''))"

text \<open>Both indices hold exactly the given revisions, each under its own key.\<close>

definition policy_authority_ok :: "policy_revision list \<Rightarrow> policy_authority \<Rightarrow> bool" where
  "policy_authority_ok cs y \<longleftrightarrow>
     (\<forall>k c. py_by_version y k = Some c \<longleftrightarrow> c \<in> set cs \<and> rv_policy_version c = k)
     \<and> (\<forall>k c. py_by_identity y k = Some c \<longleftrightarrow> c \<in> set cs \<and> rv_policy_identity c = k)"

lemma add_revisions_ok:
  "add_revisions cs y = Inr y' \<Longrightarrow> policy_authority_ok ds y \<Longrightarrow> policy_authority_ok (ds @ cs) y'"
proof (induction cs arbitrary: y ds)
  case (Cons c cs)
  let ?y = "y\<lparr>py_by_version := (py_by_version y)(rv_policy_version c \<mapsto> c),
              py_by_identity := (py_by_identity y)(rv_policy_identity c \<mapsto> c)\<rparr>"
  have free: "py_by_version y (rv_policy_version c) = None" "py_by_identity y (rv_policy_identity c) = None"
    and rest: "add_revisions cs ?y = Inr y'"
    using Cons.prems(1) by (simp_all add: res_simps)
  have "\<forall>d \<in> set ds. rv_policy_version d \<noteq> rv_policy_version c \<and> rv_policy_identity d \<noteq> rv_policy_identity c"
    using Cons.prems(2) free unfolding policy_authority_ok_def by (metis option.distinct(1))
  then have "policy_authority_ok (ds @ [c]) ?y"
    using Cons.prems(2) unfolding policy_authority_ok_def by auto
  from Cons.IH [OF rest this] show ?case by simp
qed simp

lemma policy_authority_init_ok:
  assumes "policy_authority_init cs = Inr y"
  shows "policy_authority_ok cs y"
proof -
  have "policy_authority_ok [] \<lparr>py_by_version = Map.empty, py_by_identity = Map.empty\<rparr>"
    by (simp add: policy_authority_ok_def)
  then show ?thesis
    using assms add_revisions_ok [of cs _ y "[]"] by (auto simp: policy_authority_init_def res_simps)
qed

lemma resolve_policy_eq_Inr:
  assumes "policy_authority_ok cs y"
  shows "resolve_policy y version = Inr c \<longleftrightarrow> text_ok version \<and> c \<in> set cs \<and> rv_policy_version c = version"
  using assms by (auto simp: resolve_policy_def policy_authority_ok_def res_simps)

end
