(* ===== verification/Approval_Evidence.thy ===== *)
theory Approval_Evidence
  imports Policy_Authority Execution_Contract Change_Request
begin

text \<open>
  From stored approvals to authorization evidence: \<open>load_approval_evidence_on_connection\<close>
  (\<open>approval_evidence_resolver.py\<close>) reads the approved request and its approvals in the transaction of
  the caller and rebuilds the approval set, and \<open>ApprovalCertificate\<close> (\<open>approval_certificate.py\<close>) binds
  that set to the policy revision and the reviewed content.
\<close>

subsection \<open>The request\<close>

text \<open>\<open>_decode_canonical_payload\<close>\<close>

definition canonical_payload :: "change_row \<Rightarrow> json res" where
  "canonical_payload r =
     bindE (orRaise (json_loads (q_payload_json r))
       (RuntimeError ''change request payload is not valid canonical JSON'')) (\<lambda>payload.
     thenE (guardE (is_dict payload) (RuntimeError ''change request payload must be a JSON object''))
    (thenE (guardE (q_payload_json r = canonical_json payload) (RuntimeError ''change request payload is not canonical''))
      (Inr payload)))"

definition review_digest :: "(string \<Rightarrow> string) \<Rightarrow> change_row \<Rightarrow> json \<Rightarrow> string" where
  "review_digest H r payload = H (canonical_json (review_subject r payload))"

definition request_payload_digest :: "(string \<Rightarrow> string) \<Rightarrow> json \<Rightarrow> string" where
  "request_payload_digest H payload =
     claims_digest H [(''schema_version'', JInt 1), (''binding_type'', JStr ''request-payload/v1''), (''payload'', payload)]"

definition canonical_datetime :: "string \<Rightarrow> string \<Rightarrow> utc_time res" where
  "canonical_datetime field s = orRaise (canonical_time s) (RuntimeError field)"

subsection \<open>The approvals\<close>

text \<open>\<open>SELECT_APPROVAL_EVIDENCE\<close>: \<open>ORDER BY id, approver_id, created_at\<close>.\<close>

definition approval_rows :: "work_db \<Rightarrow> string \<Rightarrow> approval_row list" where
  "approval_rows db request_id =
     sort_key (\<lambda>v. (v_id v, v_approver_id v, v_created_at v)) (filter (\<lambda>v. v_request_id v = request_id) (k_approvals db))"

text \<open>One pass of the loop over the rows: the approval record and the end of its validity.\<close>

definition approval_of_row ::
  "string \<Rightarrow> string \<Rightarrow> utc_time \<Rightarrow> policy_revision \<Rightarrow> approval_row \<Rightarrow> (approval_record \<times> utc_time) res" where
  "approval_of_row review requester authorization_time policy v =
     thenE (guardE (v_decision v = ''APPROVED'') (RuntimeError ''approval evidence contains a non-approved decision''))
    (thenE (guardE (v_review_content_sha256 v = review)
       (RuntimeError ''approval evidence review content binding mismatch''))
    (thenE (guardE (v_approver_id v \<noteq> requester)
       (PermissionError ''requester approval cannot satisfy authorization evidence''))
      (bindE (canonical_datetime ''approval.created_at'' (v_created_at v)) (\<lambda>approved_at.
       thenE (guardE (\<not> instant approved_at > instant authorization_time)
         (RuntimeError ''approval evidence occurs after authorization time''))
        (bindE (approval_record_init (item [(''approval_id'', JStr (v_id v)), (''approver_id'', JStr (v_approver_id v)),
            (''decision'', JStr ''APPROVED''), (''approved_at'', JStr (v_created_at v))])) (\<lambda>a.
         bindE (add_seconds approved_at (nat (rv_approval_validity_seconds policy))) (\<lambda>deadline.
         Inr (a, deadline))))))))"

text \<open>\<open>min\<close> of a nonempty list of instants.\<close>

definition earliest :: "utc_time list \<Rightarrow> utc_time" where
  "earliest ts = foldl (\<lambda>a b. if instant b < instant a then b else a) (hd ts) (tl ts)"

definition load_approval_evidence ::
  "(string \<Rightarrow> string) \<Rightarrow> work_db \<Rightarrow> string \<Rightarrow> string \<Rightarrow> execution_target \<Rightarrow> policy_revision \<Rightarrow> clock_witness \<Rightarrow>
   approval_set res" where
  "load_approval_evidence H db request_id capability target policy clock =
     bindE (orRaise (select_request db request_id) (LookupError ''change request not found'')) (\<lambda>(r, workspace_environment).
     thenE (guardE (q_environment r = workspace_environment)
       (RuntimeError ''change request environment does not match workspace''))
    (thenE (guardE (ck_environment clock = q_environment r)
       (RuntimeError ''clock witness environment does not match change request''))
    (thenE (guardE (q_status r = ''APPROVED'') (RuntimeError ''change request is not in approved state''))
      (bindE (canonical_payload r) (\<lambda>payload.
       bindE (orRaise (q_review_content_sha256 r)
         (RuntimeError ''change request review content binding is missing'')) (\<lambda>review.
       thenE (guardE (review_digest H r payload = review)
         (RuntimeError ''change request review content binding does not match persisted content''))
        (let rows = approval_rows db request_id in
         thenE (guardE (rows \<noteq> []) (RuntimeError ''approved change request has no approval evidence''))
        (bindE (canonical_datetime ''clock_witness.observed_at'' (ck_observed_at clock)) (\<lambda>authorization_time.
         bindE (map_res (approval_of_row review (q_requested_by r) authorization_time policy) rows) (\<lambda>found.
         bindE (required_approvals_for policy (q_environment r)) (\<lambda>required.
         thenE (guardE (\<not> int (length (remdups (map (ar_approver_id \<circ> fst) found))) < required)
           (PermissionError ''approval evidence does not satisfy policy quorum''))
          (let valid_until = earliest (map snd found) in
           thenE (guardE (\<not> instant valid_until \<le> instant authorization_time)
             (PermissionError ''approval evidence is expired''))
            (approval_set_create H (JStr request_id) (JStr (request_payload_digest H payload))
              (JStr (et_target_digest target)) (JStr capability) (JStr (rv_policy_version policy))
              (Inr (map fst found)) (JStr (iso_ms valid_until)))))))))))))))"

subsection \<open>The certificate\<close>

record approval_certificate =
  ax_request_id :: string
  ax_review_content_sha256 :: string
  ax_policy_version :: string
  ax_policy_identity :: string
  ax_approval_evidence :: approval_set
  ax_certificate_digest :: string

definition approval_certificate_claims :: "approval_certificate \<Rightarrow> (string \<times> json) list" where
  "approval_certificate_claims c =
     [(''certificate_type'', JStr ''approval-certificate/v1''), (''request_id'', JStr (ax_request_id c)),
      (''review_content_sha256'', JStr (ax_review_content_sha256 c)),
      (''policy_version'', JStr (ax_policy_version c)), (''policy_identity'', JStr (ax_policy_identity c)),
      (''approval_evidence'', JObj (approval_set_to_dict (ax_approval_evidence c)))]"

definition approval_certificate_to_dict :: "approval_certificate \<Rightarrow> (string \<times> json) list" where
  "approval_certificate_to_dict c =
     approval_certificate_claims c @ [(''certificate_digest'', JStr (ax_certificate_digest c))]"

definition approval_certificate_init ::
  "(string \<Rightarrow> string) \<Rightarrow> approval_certificate \<Rightarrow> approval_certificate res" where
  "approval_certificate_init H c =
     thenE (check_digests [(''review_content_sha256'', ax_review_content_sha256 c)])
    (thenE (guardE (ax_request_id c = as_request_id (ax_approval_evidence c)) (ValueError ''request binding''))
    (thenE (guardE (ax_policy_version c = as_policy_version (ax_approval_evidence c)) (ValueError ''policy version''))
    (thenE (check_digests [(''policy_identity'', ax_policy_identity c), (''certificate_digest'', ax_certificate_digest c)])
    (thenE (guardE (ax_certificate_digest c = claims_digest H (approval_certificate_claims c))
       (ValueError ''certificate_digest''))
      (Inr c)))))"

definition approval_certificate_create ::
  "(string \<Rightarrow> string) \<Rightarrow> string \<Rightarrow> policy_revision \<Rightarrow> approval_set \<Rightarrow> approval_certificate res" where
  "approval_certificate_create H review policy evidence =
     thenE (guardE (as_policy_version evidence = rv_policy_version policy) (ValueError ''policy revision''))
      (let c = \<lparr>ax_request_id = as_request_id evidence, ax_review_content_sha256 = review,
                ax_policy_version = rv_policy_version policy, ax_policy_identity = rv_policy_identity policy,
                ax_approval_evidence = evidence, ax_certificate_digest = []\<rparr>
       in approval_certificate_init H
            (c\<lparr>ax_certificate_digest := claims_digest H (approval_certificate_claims c)\<rparr>))"

definition approval_certificate_ok :: "(string \<Rightarrow> string) \<Rightarrow> approval_certificate \<Rightarrow> bool" where
  "approval_certificate_ok H c \<longleftrightarrow>
     list_all digest_ok [ax_review_content_sha256 c, ax_policy_identity c, ax_certificate_digest c]
     \<and> ax_request_id c = as_request_id (ax_approval_evidence c)
     \<and> ax_policy_version c = as_policy_version (ax_approval_evidence c)
     \<and> ax_certificate_digest c = claims_digest H (approval_certificate_claims c)"

lemma approval_certificate_init_iff:
  "approval_certificate_init H c = Inr c' \<longleftrightarrow> c' = c \<and> approval_certificate_ok H c"
  by (auto simp: approval_certificate_init_def approval_certificate_ok_def res_simps)

lemma approval_certificate_seal [simp]:
  "approval_certificate_claims (c\<lparr>ax_certificate_digest := x\<rparr>) = approval_certificate_claims c"
  by (simp add: approval_certificate_claims_def)

lemma approval_certificate_create_eq_Inr:
  assumes "approval_certificate_create H review policy evidence = Inr c"
  shows "approval_certificate_ok H c \<and> ax_approval_evidence c = evidence
     \<and> ax_review_content_sha256 c = review \<and> ax_policy_identity c = rv_policy_identity policy
     \<and> ax_policy_version c = rv_policy_version policy"
  using assms unfolding approval_certificate_create_def Let_def
  by (auto simp: res_simps approval_certificate_init_iff)

subsection \<open>What loaded evidence is\<close>

lemma map_res_eq_Inr: "map_res f xs = Inr ys \<longleftrightarrow> list_all2 (\<lambda>x y. f x = Inr y) xs ys"
  by (induction xs arbitrary: ys) (auto simp: res_simps list_all2_Cons1)

lemma approval_of_row_eq_Inr:
  assumes "approval_of_row review requester t policy v = Inr (a, deadline)"
  shows "v_decision v = ''APPROVED'' \<and> v_review_content_sha256 v = review \<and> v_approver_id v \<noteq> requester
     \<and> approval_record_ok a \<and> ar_approval_id a = v_id v \<and> ar_approver_id a = v_approver_id v
     \<and> ar_approved_at a = v_created_at v \<and> instant_at (v_created_at v) \<le> instant t
     \<and> add_seconds (the (canonical_time (v_created_at v))) (nat (rv_approval_validity_seconds policy)) = Inr deadline"
  using assms unfolding approval_of_row_def canonical_datetime_def approval_record_init_def
  by (auto simp: res_simps approval_record_ok_def instant_at_def time_ok_def)

lemma foldl_earliest:
  "instant (foldl (\<lambda>a b. if instant b < instant a then b else a) t ts) \<le> instant t
   \<and> (\<forall>u \<in> set ts. instant (foldl (\<lambda>a b. if instant b < instant a then b else a) t ts) \<le> instant u)
   \<and> foldl (\<lambda>a b. if instant b < instant a then b else a) t ts \<in> set (t # ts)"
proof (induction ts arbitrary: t)
  case (Cons u ts)
  let ?m = "if instant u < instant t then u else t"
  have "instant ?m \<le> instant t" "instant ?m \<le> instant u" "?m \<in> {t, u}" by auto
  then show ?case using Cons.IH [of ?m] by fastforce
qed simp

lemma earliest_le: "u \<in> set ts \<Longrightarrow> instant (earliest ts) \<le> instant u"
  using foldl_earliest [of "hd ts" "tl ts"] by (cases ts) (auto simp: earliest_def)

lemma earliest_mem: "ts \<noteq> [] \<Longrightarrow> earliest ts \<in> set ts"
  using foldl_earliest [of "hd ts" "tl ts"] by (cases ts) (auto simp: earliest_def)

end
