(* ===== verification/Target_Binding.thy ===== *)
theory Target_Binding
  imports Execution_Contract
begin

text \<open>
  Target binding (\<open>target_binding.py\<close>): the registry that maps the identifier in a capability definition
  to the procedure that computes the execution target from the approved payload, and the
  content-addressed record of one binding.  The procedure is a protocol in the code and a function of
  the record \<open>target_procedure\<close> here; a value is an \<open>ExecutionTarget\<close> when its constructor accepts it.
\<close>

record target_binding =
  tb_binder_id :: string
  tb_capability_definition_identity :: string
  tb_target :: execution_target
  tb_binding_digest :: string

definition target_binding_claims :: "target_binding \<Rightarrow> (string \<times> json) list" where
  "target_binding_claims c =
     [(''binding_type'', JStr ''target-binding/v1''), (''binder_id'', JStr (tb_binder_id c)),
      (''capability_definition_identity'', JStr (tb_capability_definition_identity c)),
      (''target'', JObj (execution_target_to_dict (tb_target c)))]"

definition target_binding_to_dict :: "target_binding \<Rightarrow> (string \<times> json) list" where
  "target_binding_to_dict c =
     target_binding_claims c @ [(''binding_digest'', JStr (tb_binding_digest c))]"

definition target_binding_init :: "(string \<Rightarrow> string) \<Rightarrow> target_binding \<Rightarrow> target_binding res" where
  "target_binding_init H c =
     thenE (check_texts [(''binder_id'', tb_binder_id c)])
    (thenE (check_digests [(''capability_definition_identity'', tb_capability_definition_identity c)])
    (thenE (guardE (execution_target_ok H (tb_target c)) (ValueError ''target''))
    (thenE (check_digests [(''binding_digest'', tb_binding_digest c)])
    (thenE (guardE (tb_binding_digest c = claims_digest H (target_binding_claims c)) (ValueError ''binding_digest''))
      (Inr c)))))"

definition target_binding_create ::
  "(string \<Rightarrow> string) \<Rightarrow> string \<Rightarrow> string \<Rightarrow> execution_target \<Rightarrow> target_binding res" where
  "target_binding_create H bnd_id definition_identity target =
     thenE (guardE (execution_target_ok H target) (ValueError ''target''))
      (let c = \<lparr>tb_binder_id = bnd_id, tb_capability_definition_identity = definition_identity,
                tb_target = target, tb_binding_digest = []\<rparr>
       in target_binding_init H (c\<lparr>tb_binding_digest := claims_digest H (target_binding_claims c)\<rparr>))"

definition target_binding_ok :: "(string \<Rightarrow> string) \<Rightarrow> target_binding \<Rightarrow> bool" where
  "target_binding_ok H c \<longleftrightarrow>
     text_ok (tb_binder_id c) \<and> digest_ok (tb_capability_definition_identity c)
     \<and> execution_target_ok H (tb_target c) \<and> digest_ok (tb_binding_digest c)
     \<and> tb_binding_digest c = claims_digest H (target_binding_claims c)"

lemma target_binding_init_iff:
  "target_binding_init H c = Inr c' \<longleftrightarrow> c' = c \<and> target_binding_ok H c"
  by (auto simp: target_binding_init_def target_binding_ok_def res_simps)

lemma target_binding_seal [simp]:
  "target_binding_claims (c\<lparr>tb_binding_digest := x\<rparr>) = target_binding_claims c"
  by (simp add: target_binding_claims_def)

subsection \<open>The registry\<close>

record target_procedure =
  tp_binder_id :: string
  tp_target_kind :: string
  tp_bind :: "json \<Rightarrow> execution_target res"

type_synonym target_procedures = "string \<rightharpoonup> target_procedure"

fun add_procedures :: "(string \<times> target_procedure) list \<Rightarrow> target_procedures \<Rightarrow> target_procedures res" where
  "add_procedures [] m = Inr m"
| "add_procedures ((bnd_id, p) # ps) m =
     thenE (check_texts [(''binder_id'', bnd_id)])
    (thenE (guardE (tp_binder_id p = bnd_id) (ValueError ''registry key does not match''))
    (thenE (guardE (m bnd_id = None) (ValueError ''duplicate identifier''))
      (add_procedures ps (m(bnd_id \<mapsto> p)))))"

definition target_procedures_init :: "(string \<times> target_procedure) list \<Rightarrow> target_procedures res" where
  "target_procedures_init ps =
     bindE (add_procedures ps Map.empty) (\<lambda>m.
     thenE (guardE (ps \<noteq> []) (ValueError ''registry requires at least one entry''))
      (Inr m))"

definition resolve_procedure :: "target_procedures \<Rightarrow> string \<Rightarrow> target_procedure res" where
  "resolve_procedure m bnd_id =
     thenE (check_texts [(''binder_id'', bnd_id)])
      (orRaise (m bnd_id) (LookupError ''not found''))"

definition bind_target ::
  "(string \<Rightarrow> string) \<Rightarrow> target_procedures \<Rightarrow> capability_definition \<Rightarrow> json \<Rightarrow> target_binding res" where
  "bind_target H m d payload =
     thenE (guardE (is_object payload) (ValueError ''approved_payload''))
    (bindE (resolve_procedure m (cd_binder_id d)) (\<lambda>p.
     thenE (guardE (tp_target_kind p = cd_target_kind d) (ValueError ''kind does not match capability definition''))
    (bindE (tp_bind p payload) (\<lambda>target.
     thenE (guardE (execution_target_ok H target) (ValueError ''invalid target''))
    (thenE (guardE (et_target_kind target = cd_target_kind d) (ValueError ''unexpected target kind''))
      (target_binding_create H (tp_binder_id p) (cd_definition_identity d) target))))))"

lemma bind_target_eq_Inr:
  assumes "bind_target H m d payload = Inr b"
  obtains p where "m (cd_binder_id d) = Some p" and "tp_bind p payload = Inr (tb_target b)"
    and "target_binding_ok H b" and "et_target_kind (tb_target b) = cd_target_kind d"
    and "tb_capability_definition_identity b = cd_definition_identity d" and "tb_binder_id b = tp_binder_id p"
  using assms unfolding bind_target_def resolve_procedure_def target_binding_create_def Let_def
  by (auto simp: res_simps target_binding_init_iff)

lemma procedures_keyed:
  "add_procedures ps m = Inr m' \<Longrightarrow> (\<forall>k p. m k = Some p \<longrightarrow> tp_binder_id p = k) \<Longrightarrow>
     m' k = Some p \<Longrightarrow> tp_binder_id p = k"
proof (induction ps arbitrary: m)
  case (Cons q ps)
  then show ?case by (cases q) (force simp: res_simps)
qed simp

end
