(* ===== verification/Authority_Witness.thy ===== *)
theory Authority_Witness
  imports Approval_Evidence Target_Binding Permission_Authority
begin

text \<open>
  The facts a snapshot rests on, as digests: \<open>AuthorityWitnessSet\<close> (\<open>authority_witness.py\<close>), created only
  from facts that fit together, and \<open>CapabilitySelection\<close> with its immutable authority, which maps the
  adapter of a request to a capability (\<open>authorization_snapshot_creator.py\<close>).
\<close>

subsection \<open>The witness set\<close>

record witness_set =
  aw_permission_decision_digest :: string
  aw_policy_identity :: string
  aw_capability_definition_identity :: string
  aw_capability_activation_digest :: string
  aw_target_binding_digest :: string
  aw_approval_certificate_digest :: string
  aw_clock_witness_digest :: string
  aw_revocation_epoch :: int
  aw_witness_set_digest :: string

definition witness_set_claims :: "witness_set \<Rightarrow> (string \<times> json) list" where
  "witness_set_claims c =
     [(''witness_set_type'', JStr ''authority-witness-set/v1''),
      (''permission_decision_digest'', JStr (aw_permission_decision_digest c)),
      (''policy_identity'', JStr (aw_policy_identity c)),
      (''capability_definition_identity'', JStr (aw_capability_definition_identity c)),
      (''capability_activation_digest'', JStr (aw_capability_activation_digest c)),
      (''target_binding_digest'', JStr (aw_target_binding_digest c)),
      (''approval_certificate_digest'', JStr (aw_approval_certificate_digest c)),
      (''clock_witness_digest'', JStr (aw_clock_witness_digest c)),
      (''revocation_epoch'', JInt (aw_revocation_epoch c))]"

definition witness_set_init :: "(string \<Rightarrow> string) \<Rightarrow> witness_set \<Rightarrow> witness_set res" where
  "witness_set_init H c =
     thenE (check_digests
       [(''permission_decision_digest'', aw_permission_decision_digest c),
        (''policy_identity'', aw_policy_identity c),
        (''capability_definition_identity'', aw_capability_definition_identity c),
        (''capability_activation_digest'', aw_capability_activation_digest c),
        (''target_binding_digest'', aw_target_binding_digest c),
        (''approval_certificate_digest'', aw_approval_certificate_digest c),
        (''clock_witness_digest'', aw_clock_witness_digest c),
        (''witness_set_digest'', aw_witness_set_digest c)])
    (thenE (guardE (\<not> aw_revocation_epoch c < 0) (ValueError ''revocation_epoch''))
    (thenE (guardE (aw_witness_set_digest c = claims_digest H (witness_set_claims c)) (ValueError ''witness_set_digest''))
      (Inr c)))"

definition witness_set_ok :: "(string \<Rightarrow> string) \<Rightarrow> witness_set \<Rightarrow> bool" where
  "witness_set_ok H c \<longleftrightarrow>
     list_all digest_ok
        [aw_permission_decision_digest c, aw_policy_identity c,
         aw_capability_definition_identity c, aw_capability_activation_digest c,
         aw_target_binding_digest c, aw_approval_certificate_digest c, aw_clock_witness_digest c,
         aw_witness_set_digest c]
     \<and> 0 \<le> aw_revocation_epoch c
     \<and> aw_witness_set_digest c = claims_digest H (witness_set_claims c)"

lemma witness_set_init_iff: "witness_set_init H c = Inr c' \<longleftrightarrow> c' = c \<and> witness_set_ok H c"
  by (auto simp: witness_set_init_def witness_set_ok_def res_simps)

interpretation witness_set: content_digest H witness_set_claims aw_witness_set_digest "witness_set_ok H" for H
  by unfold_locales (simp_all add: flat_def witness_set_claims_def witness_set_ok_def)

definition witness_set_to_dict :: "witness_set \<Rightarrow> (string \<times> json) list" where
  "witness_set_to_dict c = witness_set_claims c @ [(''witness_set_digest'', JStr (aw_witness_set_digest c))]"

lemma witness_set_seal [simp]: "witness_set_claims (c\<lparr>aw_witness_set_digest := x\<rparr>) = witness_set_claims c"
  by (simp add: witness_set_claims_def)

text \<open>The digests of the facts, not yet sealed.\<close>

definition witness_facts ::
  "permission_decision \<Rightarrow> policy_revision \<Rightarrow> capability_definition \<Rightarrow> capability_activation \<Rightarrow> target_binding \<Rightarrow>
   approval_certificate \<Rightarrow> clock_witness \<Rightarrow> int \<Rightarrow> witness_set" where
  "witness_facts p y d a b c w epoch =
     \<lparr>aw_permission_decision_digest = pd_decision_digest p, aw_policy_identity = rv_policy_identity y,
      aw_capability_definition_identity = cd_definition_identity d,
      aw_capability_activation_digest = cv_activation_digest a, aw_target_binding_digest = tb_binding_digest b,
      aw_approval_certificate_digest = ax_certificate_digest c, aw_clock_witness_digest = ck_witness_digest w,
      aw_revocation_epoch = epoch, aw_witness_set_digest = []\<rparr>"

definition witness_set_create ::
  "(string \<Rightarrow> string) \<Rightarrow> permission_decision \<Rightarrow> policy_revision \<Rightarrow> capability_definition \<Rightarrow> capability_activation \<Rightarrow>
   target_binding \<Rightarrow> approval_certificate \<Rightarrow> clock_witness \<Rightarrow> int \<Rightarrow> witness_set res" where
  "witness_set_create H p y d a b c w epoch =
     thenE (guardE (pd_granted p) (PermissionError ''permission decision is denied''))
    (thenE (guardE (pd_permission p = required_execution_permission)
       (PermissionError ''authority witness requires execution.run''))
    (thenE (guardE (required_execution_permission \<in> set (cd_required_permissions d))
       (ValueError ''capability definition does not require execution.run''))
    (thenE (guardE (\<not> cv_revoked a) (PermissionError ''capability activation is revoked''))
    (thenE (guardE (cv_capability_definition_identity a = cd_definition_identity d)
       (ValueError ''capability activation definition binding mismatch''))
    (thenE (guardE (tb_capability_definition_identity b = cd_definition_identity d)
       (ValueError ''target binding capability definition mismatch''))
    (thenE (guardE (ax_policy_identity c = rv_policy_identity y)
       (ValueError ''approval certificate policy identity mismatch''))
    (thenE (guardE (ax_policy_version c = rv_policy_version y)
       (ValueError ''approval certificate policy version mismatch''))
    (thenE (guardE (as_capability (ax_approval_evidence c) = cd_capability d)
       (ValueError ''approval certificate capability mismatch''))
    (thenE (guardE (as_target_digest (ax_approval_evidence c) = et_target_digest (tb_target b))
       (ValueError ''approval certificate target binding mismatch''))
    (thenE (guardE (pd_environment p = ck_environment w) (ValueError ''permission and clock environment mismatch''))
    (thenE (guardE (pd_environment p \<in> set (cv_enabled_environments a))
       (PermissionError ''capability is not active for permission environment''))
    (thenE (guardE (\<not> epoch < 0) (ValueError ''revocation_epoch''))
      (let f = witness_facts p y d a b c w epoch in
       witness_set_init H (f\<lparr>aw_witness_set_digest := claims_digest H (witness_set_claims f)\<rparr>))))))))))))))"

lemma witness_set_create_eq_Inr:
  assumes "witness_set_create H p y d a b c w epoch = Inr ws"
  shows "witness_set_ok H ws \<and> ws = (witness_facts p y d a b c w epoch)
       \<lparr>aw_witness_set_digest := claims_digest H (witness_set_claims (witness_facts p y d a b c w epoch))\<rparr>
     \<and> pd_granted p \<and> \<not> cv_revoked a \<and> pd_environment p \<in> set (cv_enabled_environments a)
     \<and> cv_capability_definition_identity a = cd_definition_identity d"
  using assms unfolding witness_set_create_def Let_def
  by (simp only: bindE_eq_Inr thenE_eq_Inr guardE_eq_Inr witness_set_init_iff witness_set_seal)
    (elim conjE, intro conjI, simp_all only: simp_thms)

subsection \<open>The selection of a capability\<close>

record capability_selection =
  sl_adapter :: string
  sl_capability :: string
  sl_authority_revision :: string
  sl_selection_digest :: string

definition capability_selection_claims :: "capability_selection \<Rightarrow> (string \<times> json) list" where
  "capability_selection_claims c =
     [(''selection_type'', JStr ''capability-selection/v1''), (''adapter'', JStr (sl_adapter c)),
      (''capability'', JStr (sl_capability c)), (''authority_revision'', JStr (sl_authority_revision c))]"

definition capability_selection_init ::
  "(string \<Rightarrow> string) \<Rightarrow> capability_selection \<Rightarrow> capability_selection res" where
  "capability_selection_init H c =
     thenE (check_texts [(''adapter'', sl_adapter c), (''capability'', sl_capability c),
       (''authority_revision'', sl_authority_revision c)])
    (thenE (guardE (sl_selection_digest c = claims_digest H (capability_selection_claims c))
       (ValueError ''selection_digest''))
      (Inr c))"

definition capability_selection_create ::
  "(string \<Rightarrow> string) \<Rightarrow> string \<Rightarrow> string \<Rightarrow> string \<Rightarrow> capability_selection res" where
  "capability_selection_create H adapter capability revision =
     thenE (check_texts [(''adapter'', adapter), (''capability'', capability), (''authority_revision'', revision)])
      (let c = \<lparr>sl_adapter = adapter, sl_capability = capability, sl_authority_revision = revision,
                sl_selection_digest = []\<rparr>
       in capability_selection_init H
            (c\<lparr>sl_selection_digest := claims_digest H (capability_selection_claims c)\<rparr>))"

definition capability_selection_ok :: "(string \<Rightarrow> string) \<Rightarrow> capability_selection \<Rightarrow> bool" where
  "capability_selection_ok H c \<longleftrightarrow>
     list_all text_ok [sl_adapter c, sl_capability c, sl_authority_revision c]
     \<and> sl_selection_digest c = claims_digest H (capability_selection_claims c)"

lemma capability_selection_init_iff:
  "capability_selection_init H c = Inr c' \<longleftrightarrow> c' = c \<and> capability_selection_ok H c"
  by (auto simp: capability_selection_init_def capability_selection_ok_def res_simps)

interpretation selection: content_digest H capability_selection_claims sl_selection_digest
  "capability_selection_ok H" for H
  by unfold_locales (simp_all add: flat_def capability_selection_claims_def capability_selection_ok_def)

record selection_authority =
  sg_bindings :: "string \<rightharpoonup> string"
  sg_authority_revision :: string

fun add_bindings :: "(string \<times> string) list \<Rightarrow> (string \<rightharpoonup> string) \<Rightarrow> (string \<rightharpoonup> string) res" where
  "add_bindings [] m = Inr m"
| "add_bindings ((adapter, capability) # bs) m =
     thenE (check_texts [(''adapter'', adapter), (''capability'', capability)])
    (thenE (guardE (m adapter = None) (ValueError ''duplicate adapter capability selection''))
      (add_bindings bs (m(adapter \<mapsto> capability))))"

definition selection_authority_init :: "(string \<times> string) list \<Rightarrow> string \<Rightarrow> selection_authority res" where
  "selection_authority_init bindings revision =
     thenE (check_texts [(''authority_revision'', revision)])
      (bindE (add_bindings bindings Map.empty) (\<lambda>m.
       thenE (guardE (bindings \<noteq> []) (ValueError ''capability selection authority requires at least one binding''))
        (Inr \<lparr>sg_bindings = m, sg_authority_revision = revision\<rparr>)))"

definition select_capability :: "(string \<Rightarrow> string) \<Rightarrow> selection_authority \<Rightarrow> string \<Rightarrow> capability_selection res" where
  "select_capability H g adapter =
     thenE (check_texts [(''adapter'', adapter)])
      (bindE (orRaise (sg_bindings g adapter) (LookupError ''capability selection not found'')) (\<lambda>capability.
       capability_selection_create H adapter capability (sg_authority_revision g)))"

lemma select_capability_eq_Inr:
  assumes "select_capability H g adapter = Inr c"
  shows "capability_selection_ok H c \<and> sl_adapter c = adapter \<and> sg_bindings g adapter = Some (sl_capability c)"
  using assms unfolding select_capability_def capability_selection_create_def Let_def
  by (auto simp: res_simps capability_selection_init_iff)

end
