(* ===== verification/Snapshot_Creator.thy ===== *)
theory Snapshot_Creator
  imports Snapshot_Store Authority_Witness
begin

text \<open>
  \<open>AuthoritativeSnapshotCreator\<close> (\<open>authorization_snapshot_creator.py\<close>): in one transaction it checks the
  approved request, collects the facts of every authority, builds the snapshot, and stores it together
  with the audit event that names the facts.  The capability selection, permission and revocation
  authorities are protocols in the code and functions of the configuration here; the clock reading, the
  fresh identifiers and the times of the rows are arguments.
\<close>

record snapshot_creator =
  so_decide :: "permission_query \<Rightarrow> permission_decision res"
  so_policy_authority :: policy_authority
  so_policy_version :: string
  so_registry :: capability_registry
  so_select :: "string \<Rightarrow> capability_selection res"
  so_procedures :: target_procedures
  so_clock :: clock_authority
  so_current_epoch :: "string \<Rightarrow> string \<Rightarrow> string \<Rightarrow> json res"
  so_production_effects_enabled :: bool
  so_authorization_source_revision :: string

definition snapshot_creator_init :: "snapshot_creator \<Rightarrow> snapshot_creator res" where
  "snapshot_creator_init cr =
     thenE (check_texts [(''policy_version'', so_policy_version cr),
       (''authorization_source_revision'', so_authorization_source_revision cr)])
      (Inr cr)"

text \<open>\<open>except (LookupError, PermissionError, RuntimeError, ValueError)\<close>\<close>

fun is_fact_error :: "py_error \<Rightarrow> bool" where
  "is_fact_error (TypeError _) = False"
| "is_fact_error e = is_authority_error e"

text \<open>\<open>_deny\<close> raises \<open>SnapshotAuthorizationDenied\<close>, a \<open>PermissionError\<close> that carries a reason code.\<close>

abbreviation refusal :: "string \<Rightarrow> py_error" where
  "refusal reason_code \<equiv> PermissionError reason_code"

subsection \<open>The guards of the transaction\<close>

text \<open>\<open>_validated_request\<close>: the row, its review digest and its payload.\<close>

definition validated_request ::
  "(string \<Rightarrow> string) \<Rightarrow> (change_row \<times> string) option \<Rightarrow> (change_row \<times> string \<times> json) res" where
  "validated_request H found =
     bindE (orRaise found (refusal ''CHANGE_REQUEST_NOT_FOUND'')) (\<lambda>(r, workspace_environment).
     thenE (guardE (q_status r = ''APPROVED'') (refusal ''CHANGE_REQUEST_NOT_APPROVED''))
    (thenE (guardE (q_environment r = workspace_environment) (refusal ''WORKSPACE_ENVIRONMENT_MISMATCH''))
      (bindE (orRaise (q_review_content_sha256 r) (refusal ''REVIEW_CONTENT_BINDING_MISSING'')) (\<lambda>review.
       thenE (guardE (review \<noteq> []) (refusal ''REVIEW_CONTENT_BINDING_MISSING''))
      (bindE (orRaise (json_loads (q_payload_json r)) (refusal ''REQUEST_PAYLOAD_INVALID'')) (\<lambda>payload.
       thenE (guardE (is_dict payload) (refusal ''REQUEST_PAYLOAD_INVALID''))
      (thenE (guardE (canonical_json payload = q_payload_json r) (refusal ''REQUEST_PAYLOAD_NON_CANONICAL''))
      (thenE (guardE (review = review_digest H r payload) (refusal ''REVIEW_CONTENT_DRIFT''))
        (Inr (r, review, payload))))))))))"

definition select_for_adapter :: "snapshot_creator \<Rightarrow> string \<Rightarrow> capability_selection res" where
  "select_for_adapter cr adapter =
     bindE (catchE is_fact_error (so_select cr adapter) (refusal ''CAPABILITY_SELECTION_NOT_FOUND'')) (\<lambda>selection.
     thenE (guardE (sl_adapter selection = adapter) (refusal ''CAPABILITY_SELECTION_MISMATCH''))
      (Inr selection))"

definition resolve_creation_clock ::
  "(string \<Rightarrow> string) \<Rightarrow> snapshot_creator \<Rightarrow> clock_reading \<Rightarrow> string \<Rightarrow> clock_witness res" where
  "resolve_creation_clock H cr reading environment =
     bindE (catchE is_fact_error (clock_authority_witness H (so_clock cr) reading environment)
       (refusal ''TRUSTED_CLOCK_DENIED'')) (\<lambda>w.
     thenE (guardE (ck_source_identity w = ca_source_identity (so_clock cr))
       (refusal ''TRUSTED_CLOCK_BINDING_MISMATCH''))
      (Inr w))"

text \<open>The query is built before the \<open>try\<close>, so a query it refuses is a \<open>ValueError\<close>.\<close>

definition resolve_permission ::
  "snapshot_creator \<Rightarrow> string \<Rightarrow> string \<Rightarrow> string \<Rightarrow> permission_decision res" where
  "resolve_permission cr actor_id workspace_id environment =
     bindE (permission_query_init \<lparr>pq_actor_id = actor_id, pq_workspace_id = workspace_id,
       pq_environment = environment, pq_permission = required_execution_permission\<rparr>) (\<lambda>query.
     bindE (catchE is_fact_error (so_decide cr query) (refusal ''EXECUTION_PERMISSION_DENIED'')) (\<lambda>decision.
     thenE (guardE (pd_actor_id decision = actor_id \<and> pd_workspace_id decision = workspace_id
         \<and> pd_environment decision = environment \<and> pd_permission decision = required_execution_permission)
       (refusal ''PERMISSION_DECISION_BINDING_MISMATCH''))
    (thenE (guardE (pd_granted decision) (refusal ''EXECUTION_PERMISSION_DENIED''))
      (Inr decision))))"

definition resolve_revocation_epoch ::
  "snapshot_creator \<Rightarrow> string \<Rightarrow> string \<Rightarrow> string \<Rightarrow> int res" where
  "resolve_revocation_epoch cr workspace_id environment definition_identity =
     bindE (catchE is_fact_error (so_current_epoch cr workspace_id environment definition_identity)
       (refusal ''REVOCATION_DENIED'')) (\<lambda>v.
     case v of
       JInt epoch \<Rightarrow> if epoch < 0 then Inl (refusal ''REVOCATION_EPOCH_INVALID'') else Inr epoch
     | _ \<Rightarrow> Inl (refusal ''REVOCATION_EPOCH_INVALID''))"

fun is_witness_error :: "py_error \<Rightarrow> bool" where
  "is_witness_error (PermissionError _) = True"
| "is_witness_error (ContentConflict _) = True"
| "is_witness_error (ValueError _) = True"
| "is_witness_error _ = False"

subsection \<open>The facts and the snapshot\<close>

record authority_facts =
  fx_selection :: capability_selection
  fx_definition :: capability_definition
  fx_binding :: target_binding
  fx_policy :: policy_revision
  fx_clock :: clock_witness
  fx_evidence :: approval_set
  fx_decision :: permission_decision
  fx_witness_set :: witness_set

text \<open>From the validated request to the witness set, in the order of the code.\<close>

definition collect_facts ::
  "(string \<Rightarrow> string) \<Rightarrow> snapshot_creator \<Rightarrow> clock_reading \<Rightarrow> work_db \<Rightarrow> string \<Rightarrow> string \<Rightarrow>
   change_row \<Rightarrow> string \<Rightarrow> json \<Rightarrow> authority_facts res" where
  "collect_facts H cr reading db actor_id request_id r review payload =
     thenE (guardE (\<not> (q_environment r = ''production'' \<and> \<not> so_production_effects_enabled cr))
       (refusal ''PRODUCTION_EFFECTS_DISABLED''))
    (thenE (guardE (\<not> is_stop_active (k_core db)) (refusal ''EMERGENCY_STOP_ACTIVE''))
      (bindE (select_for_adapter cr (q_adapter r)) (\<lambda>selection.
       bindE (catchE is_fact_error (resolve_for_execution (so_registry cr) (sl_capability selection) (q_environment r))
         (refusal ''CAPABILITY_INELIGIBLE'')) (\<lambda>(d, a).
       bindE (catchE is_fact_error (bind_target H (so_procedures cr) d payload)
         (refusal ''TARGET_BINDING_DENIED'')) (\<lambda>b.
       bindE (catchE is_fact_error (resolve_policy (so_policy_authority cr) (so_policy_version cr))
         (refusal ''POLICY_REVISION_NOT_FOUND'')) (\<lambda>policy.
       bindE (resolve_creation_clock H cr reading (q_environment r)) (\<lambda>w.
       bindE (catchE is_fact_error (load_approval_evidence H db request_id (cd_capability d) (tb_target b) policy w)
         (refusal ''APPROVAL_EVIDENCE_DENIED'')) (\<lambda>evidence.
       bindE (approval_certificate_create H review policy evidence) (\<lambda>certificate.
       bindE (resolve_permission cr actor_id (q_workspace_id r) (q_environment r)) (\<lambda>decision.
       bindE (resolve_revocation_epoch cr (q_workspace_id r) (q_environment r) (cd_definition_identity d)) (\<lambda>epoch.
       bindE (catchE is_witness_error (witness_set_create H decision policy d a b certificate w epoch)
         (refusal ''AUTHORITY_WITNESS_INVALID'')) (\<lambda>witness_set.
       Inr \<lparr>fx_selection = selection, fx_definition = d, fx_binding = b, fx_policy = policy, fx_clock = w,
            fx_evidence = evidence, fx_decision = decision, fx_witness_set = witness_set\<rparr>))))))))))))"

text \<open>The arguments of \<open>AuthorizationSnapshot.create\<close>.\<close>

definition snapshot_of_facts ::
  "snapshot_creator \<Rightarrow> string \<Rightarrow> string \<Rightarrow> string \<Rightarrow> string \<Rightarrow> change_row \<Rightarrow> string \<Rightarrow> authority_facts \<Rightarrow>
   authorization_snapshot" where
  "snapshot_of_facts cr snapshot_id execution_id actor_id request_id r review f =
     \<lparr>sn_snapshot_id = snapshot_id, sn_execution_id = execution_id, sn_request_id = request_id,
      sn_review_content_sha256 = review, sn_actor_id = actor_id, sn_workspace_id = q_workspace_id r,
      sn_environment = q_environment r, sn_capability = cd_capability (fx_definition f),
      sn_capability_definition_identity = cd_definition_identity (fx_definition f),
      sn_payload_digest = as_payload_digest (fx_evidence f), sn_payload_digest_scheme = ''request-payload/v1'',
      sn_execution_target_identity = et_target_digest (tb_target (fx_binding f)),
      sn_policy_version = rv_policy_version (fx_policy f), sn_policy_identity = rv_policy_identity (fx_policy f),
      sn_approval_evidence_identity = as_approval_set_digest (fx_evidence f),
      sn_issuance_timestamp_source_identity = ck_source_identity (fx_clock f),
      sn_authorized_at = ck_observed_at (fx_clock f),
      sn_authorization_source_revision = so_authorization_source_revision cr,
      sn_execution_target = tb_target (fx_binding f), sn_approval_evidence = fx_evidence f,
      sn_snapshot_digest = []\<rparr>"

definition authority_witness_payload ::
  "string \<Rightarrow> authorization_snapshot \<Rightarrow> capability_selection \<Rightarrow> witness_set \<Rightarrow> (string \<times> json) list" where
  "authority_witness_payload correlation_id s selection w =
     [(''correlation_id'', JStr correlation_id), (''snapshot_digest'', JStr (sn_snapshot_digest s)),
      (''authority_witness_set_digest'', JStr (aw_witness_set_digest w)),
      (''permission_decision_digest'', JStr (aw_permission_decision_digest w)),
      (''capability_selection_digest'', JStr (sl_selection_digest selection)),
      (''capability_selection_authority_revision'', JStr (sl_authority_revision selection)),
      (''policy_identity'', JStr (aw_policy_identity w)),
      (''capability_definition_identity'', JStr (aw_capability_definition_identity w)),
      (''capability_activation_digest'', JStr (aw_capability_activation_digest w)),
      (''target_binding_digest'', JStr (aw_target_binding_digest w)),
      (''approval_certificate_digest'', JStr (aw_approval_certificate_digest w)),
      (''clock_witness_digest'', JStr (aw_clock_witness_digest w)),
      (''revocation_epoch'', JInt (aw_revocation_epoch w)),
      (''authorization_source_revision'', JStr (sn_authorization_source_revision s))]"

definition append_witness_audit ::
  "(string \<Rightarrow> string) \<Rightarrow> string \<times> string \<Rightarrow> snapshot_db \<Rightarrow> authorization_snapshot \<Rightarrow> string \<Rightarrow> capability_selection \<Rightarrow>
   witness_set \<Rightarrow> snapshot_db res" where
  "append_witness_audit H idt db s correlation_id selection w =
     bindE (with_audit H idt (d_work db) (sn_actor_id s) ''authorization_snapshot.authority_witness''
       ''authorization_snapshot'' (sn_snapshot_id s)
       (JObj (authority_witness_payload correlation_id s selection w))) (\<lambda>k. Inr (db\<lparr>d_work := k\<rparr>))"

definition create_in_transaction ::
  "(string \<Rightarrow> string) \<Rightarrow> snapshot_creator \<Rightarrow> clock_reading \<Rightarrow> string \<Rightarrow> string \<Rightarrow> string \<Rightarrow> string \<times> string \<Rightarrow> string \<times> string \<Rightarrow>
   snapshot_db \<Rightarrow> string \<Rightarrow> string \<Rightarrow> string \<Rightarrow> string \<Rightarrow> (authorization_snapshot \<times> snapshot_db) res" where
  "create_in_transaction H cr reading snapshot_id execution_id now idt1 idt2 db actor_id request_id idempotency_key
       correlation_id =
     bindE (validated_request H (select_request (d_work db) request_id)) (\<lambda>(r, review, payload).
     bindE (collect_facts H cr reading (d_work db) actor_id request_id r review payload) (\<lambda>f.
     bindE (authorization_snapshot_create H
       (snapshot_of_facts cr snapshot_id execution_id actor_id request_id r review f)) (\<lambda>s.
     let existing = select ss_idempotency_key idempotency_key (d_snapshots db) in
     bindE (persist_snapshot H now idt1 db s idempotency_key correlation_id) (\<lambda>(persisted, db1).
     if existing = None
     then bindE (append_witness_audit H idt2 db1 persisted correlation_id (fx_selection f) (fx_witness_set f)) (\<lambda>db2.
       Inr (persisted, db2))
     else Inr (persisted, db1)))))"

definition create_snapshot ::
  "(string \<Rightarrow> string) \<Rightarrow> snapshot_creator \<Rightarrow> clock_reading \<Rightarrow> string \<Rightarrow> string \<Rightarrow> string \<Rightarrow> string \<times> string \<Rightarrow> string \<times> string \<Rightarrow>
   snapshot_db \<Rightarrow> string \<Rightarrow> string \<Rightarrow> string \<Rightarrow> string \<Rightarrow> (authorization_snapshot \<times> snapshot_db) res" where
  "create_snapshot H cr reading snapshot_id execution_id now idt1 idt2 db actor_id request_id idempotency_key
       correlation_id =
     thenE (check_texts [(''actor_id'', actor_id), (''request_id'', request_id),
       (''idempotency_key'', idempotency_key), (''correlation_id'', correlation_id)])
      (create_in_transaction H cr reading snapshot_id execution_id now idt1 idt2 db actor_id request_id idempotency_key
        correlation_id)"

end
