(* ===== verification/Witness_Values.thy ===== *)
theory Witness_Values
  imports Contracts
begin

text \<open>
  The values of which the concrete runs are made: two digests, short texts and the times of one hour,
  with what the checks of the contract classes say of them, so that a run evaluates by rewriting.
\<close>

definition zeros :: string where
  "zeros = replicate 64 CHR ''0''"

definition ones :: string where
  "ones = replicate 64 CHR ''1''"

text \<open>Times of one day, by minute and second, and their canonical texts.\<close>

definition wit_time :: "nat \<Rightarrow> nat \<Rightarrow> utc_time" where
  "wit_time m s = \<lparr>year = 2025, month = 1, day = 1, hour = 0, minute = m, second = s, microsecond = 0\<rparr>"

definition wit_at :: "nat \<Rightarrow> nat \<Rightarrow> string" where
  "wit_at m s = iso_ms (wit_time m s)"

subsection \<open>Values of the checks\<close>

lemma wit_digests [simp]: "digest_ok zeros" "digest_ok ones" "zeros \<noteq> ones" "ones \<noteq> zeros"
  by (simp_all add: zeros_def ones_def digest_ok_def is_digest_def list_all_iff is_hex_def is_digit_def)

lemma wit_texts [simp]:
  "text_ok ''o1''" "text_ok ''c1''" "text_ok ''j1''" "text_ok ''g1''" "text_ok ''x1''" "text_ok ''r1''"
  "text_ok ''alice''" "text_ok ''w1''" "text_ok ''local''" "text_ok ''cap/v1''" "text_ok ''repo''"
  "text_ok ''execution.run''" "text_ok ''runner''" "text_ok ''READ_THEN_COMPARE''" "text_ok ''ONE_TIME''"
  "text_ok ''v1''" "text_ok ''clock''"
  by code_simp+

definition wit_midnight :: int where
  "wit_midnight = 1000000 * (86400 * ordinal (2025, 1, 1))"

lemma wit_time_valid [simp]: "m < 60 \<Longrightarrow> s < 60 \<Longrightarrow> valid_time (wit_time m s)"
  by (simp add: wit_time_def valid_time_def valid_date_def days_in_month_def)

lemma wit_canonical [simp]:
  "m < 60 \<Longrightarrow> s < 60 \<Longrightarrow> canonical_time (wit_at m s) = Some (wit_time m s)"
  using canonical_time_iso_ms [of "wit_time m s"] by (simp add: wit_at_def) (simp add: wit_time_def trunc_ms_def)

lemma wit_instant [simp]: "instant (wit_time m s) = wit_midnight + 1000000 * int (60 * m + s)"
  by (simp add: instant_def wit_time_def wit_midnight_def)

lemma wit_time_ok [simp]: "m < 60 \<Longrightarrow> s < 60 \<Longrightarrow> time_ok (wit_at m s)"
  by (simp add: time_ok_def)

lemma wit_instant_at [simp]:
  "m < 60 \<Longrightarrow> s < 60 \<Longrightarrow> instant_at (wit_at m s) = wit_midnight + 1000000 * int (60 * m + s)"
  by (simp add: instant_at_def)

lemma wit_text_le [simp]:
  "m < 60 \<Longrightarrow> s < 60 \<Longrightarrow> m' < 60 \<Longrightarrow> s' < 60 \<Longrightarrow>
     wit_at m s \<le> wit_at m' s' \<longleftrightarrow> 60 * m + s \<le> 60 * m' + s'"
  "m < 60 \<Longrightarrow> s < 60 \<Longrightarrow> m' < 60 \<Longrightarrow> s' < 60 \<Longrightarrow>
     wit_at m s < wit_at m' s' \<longleftrightarrow> 60 * m + s < 60 * m' + s'"
  by (simp_all add: time_text_le time_text_less del: of_nat_add of_nat_mult)

lemma wit_later [simp]: "m < 59 \<Longrightarrow> s < 60 \<Longrightarrow> add_seconds (wit_time m s) 60 = Inr (wit_time (Suc m) s)"
proof -
  assume "m < 59" "s < 60"
  then have "(m * 60 + s + 60) div 86400 = 0" "(m * 60 + s + 60) mod 86400 = m * 60 + s + 60"
    "(m * 60 + s + 60) div 3600 = 0" "(m * 60 + s + 60) mod 3600 div 60 = Suc m" "(m * 60 + s + 60) mod 60 = s"
    by auto
  then show ?thesis by (simp add: add_seconds_def wit_time_def Let_def del: div_mult_self1 mod_mult_self1)
qed

lemma wit_at_nonempty [simp]: "wit_at m s \<noteq> []"
  by (simp add: wit_at_def iso_ms_def)

lemma claims_text_set:
  assumes "flat xs" and "flat ys" and "claims_text xs = claims_text ys"
  shows "set xs = set ys"
proof -
  have "JObj (sort_key fst xs) = JObj (sort_key fst ys)"
    using assms canonical_json_inj [OF flat_wf flat_wf, OF assms(1,2)]
    by (simp add: claims_text_def flat_sort del: json_sort.simps)
  then show ?thesis by (metis json.inject(5) set_sort)
qed

text \<open>Digest functions that give 64 zeros to all claims but those of a second execution epoch.\<close>

definition first_epoch_digest :: "(string \<Rightarrow> string) \<Rightarrow> bool" where
  "first_epoch_digest H \<longleftrightarrow>
     (\<forall>xs. flat xs \<and> (''execution_epoch'', JInt 2) \<notin> set xs \<longrightarrow> claims_digest H xs = zeros)"

lemma first_epoch_zeros:
  "first_epoch_digest H \<Longrightarrow> flat xs \<Longrightarrow> (''execution_epoch'', JInt 2) \<notin> set xs \<Longrightarrow> claims_digest H xs = zeros"
  by (simp add: first_epoch_digest_def)

end
