(* ===== verification/Grant_Issuer_Witness.thy ===== *)
theory Grant_Issuer_Witness
  imports Grant_Issuer_Properties Snapshot_Creator Witness_Values
begin

text \<open>
  A concrete run of the issuer: a snapshot with one approval, a constraint inside its validity, the audit
  row of its authority, a guard with one requirement whose observed state is the expected one, and the
  grant that \<open>issue\<close> returns.  The digest function gives 64 ones to the first event of a hash chain and
  64 zeros to every other text.
\<close>

definition flat_digest :: "string \<Rightarrow> string" where
  "flat_digest s = (if take 7 s = genesis then ones else zeros)"

lemma flat_digest_simps [simp]:
  "flat_digest (canonical_json (JObj kvs)) = zeros" "claims_digest flat_digest kvs = zeros"
  "chained_hash flat_digest genesis v = ones" "chained_hash flat_digest ones v = zeros"
proof -
  show j: "flat_digest (canonical_json (JObj kvs)) = zeros" for kvs
    by (simp add: flat_digest_def canonical_json_def genesis_def)
  then show "claims_digest flat_digest kvs = zeros" by (simp add: claims_digest_def claims_text_def)
  show "chained_hash flat_digest genesis v = ones"
    by (simp add: chained_hash_def flat_digest_def genesis_def)
  show "chained_hash flat_digest ones v = zeros"
    by (simp add: chained_hash_def flat_digest_def genesis_def ones_def) (simp add: numeral_eq_Suc)
qed

lemma ones_not_genesis [simp]: "ones \<noteq> genesis"
proof -
  have "length ones = 64" "length genesis = 7" by (simp_all add: ones_def genesis_def)
  then show ?thesis by auto
qed

lemma flat_digest_ok: "digest_ok (flat_digest s)"
  by (simp add: flat_digest_def)

lemma more_texts [simp]:
  "text_ok ''s1''" "text_ok ''head''" "text_ok ''probe''" "text_ok ''head/v1''" "text_ok ''p1''" "text_ok ''issuer''"
  "text_ok zeros"
  by (code_simp, code_simp, code_simp, code_simp, code_simp, code_simp, simp add: digest_ok_text)

subsection \<open>The approved snapshot and the constraint\<close>

definition run_snapshot :: authorization_snapshot where
  "run_snapshot =
     \<lparr>sn_snapshot_id = ''s1'', sn_execution_id = ''x1'', sn_request_id = ''r1'',
      sn_review_content_sha256 = zeros, sn_actor_id = ''alice'', sn_workspace_id = ''w1'',
      sn_environment = ''local'', sn_capability = ''cap/v1'', sn_capability_definition_identity = zeros,
      sn_payload_digest = zeros, sn_payload_digest_scheme = ''request-payload/v1'',
      sn_execution_target_identity = zeros, sn_policy_version = ''v1'', sn_policy_identity = zeros,
      sn_approval_evidence_identity = zeros, sn_issuance_timestamp_source_identity = ''clock'',
      sn_authorized_at = wit_at 0 0, sn_authorization_source_revision = ''v1'',
      sn_execution_target = \<lparr>et_target_kind = ''repo'',
        et_target_claims_json = canonical_json (JObj [(''path'', JStr ''a'')]), et_target_digest = zeros\<rparr>,
      sn_approval_evidence = \<lparr>as_request_id = ''r1'', as_payload_digest = zeros, as_target_digest = zeros,
        as_capability = ''cap/v1'', as_policy_version = ''v1'',
        as_approvals = [\<lparr>ar_approval_id = ''p1'', ar_approver_id = ''bob'', ar_decision = ''APPROVED'',
          ar_approved_at = wit_at 0 0\<rparr>],
        as_approval_valid_until = wit_at 59 0, as_approval_set_digest = zeros\<rparr>,
      sn_snapshot_digest = zeros\<rparr>"

definition run_scope :: authority_scope where
  "run_scope =
     \<lparr>sp_authorization_snapshot_digest = zeros, sp_actor_id = ''alice'', sp_workspace_id = ''w1'',
      sp_environment = ''local'', sp_capability = ''cap/v1'', sp_capability_definition_identity = zeros,
      sp_target_kind = ''repo'', sp_target_digest = zeros, sp_payload_digest = zeros, sp_policy_version = ''v1'',
      sp_policy_identity = zeros, sp_approval_set_digest = zeros, sp_required_permission = ''execution.run'',
      sp_valid_from = wit_at 0 0, sp_valid_until = wit_at 59 0, sp_scope_digest = zeros\<rparr>"

definition run_constraint :: authority_constraint where
  "run_constraint =
     \<lparr>ac_parent_scope_digest = zeros, ac_actor_id = ''alice'', ac_workspace_id = ''w1'',
      ac_environment = ''local'', ac_capability = ''cap/v1'', ac_capability_definition_identity = zeros,
      ac_target_kind = ''repo'', ac_target_digest = zeros, ac_payload_digest = zeros, ac_policy_version = ''v1'',
      ac_policy_identity = zeros, ac_approval_set_digest = zeros, ac_required_permission = ''execution.run'',
      ac_valid_from = wit_at 0 0, ac_valid_until = wit_at 50 0, ac_use_semantics = ''ONE_TIME'',
      ac_constraint_digest = zeros\<rparr>"

definition run_decision :: monotonic_decision where
  "run_decision = \<lparr>md_parent_scope_digest = zeros, md_child_constraint_digest = zeros,
     md_relation = ''NARROW_OR_EQUAL'', md_decision_digest = zeros\<rparr>"

lemma run_snapshot_ok: "authorization_snapshot_ok flat_digest run_snapshot"
  by (simp add: authorization_snapshot_ok_def run_snapshot_def valid_environments_def)

lemma run_scope_ok: "authority_scope_ok flat_digest run_scope"
  by (simp add: authority_scope_ok_def run_scope_def interval_ok_def required_execution_permission_def)

lemma run_constraint_ok: "authority_constraint_ok flat_digest run_constraint"
  by (simp add: authority_constraint_ok_def run_constraint_def interval_ok_def required_execution_permission_def)

lemma run_scope_derived: "scope_from_snapshot flat_digest run_snapshot = Inr run_scope"
  unfolding scope_from_snapshot_def Let_def authority_scope_dict_eq scope.init_dict_iff
  using run_scope_ok by (simp add: run_snapshot_def run_scope_def required_execution_permission_def)

lemma run_checked: "check_monotonic flat_digest run_scope run_constraint = Inr run_decision"
proof -
  have "authority_violations run_scope run_constraint = []"
    unfolding authority_violations_Nil [OF run_scope_ok run_constraint_ok]
    by (auto simp: constraint_authority_def scope_authority_def constraint_values_def scope_values_def run_scope_def run_constraint_def)
  then show ?thesis
    unfolding check_monotonic_eq_Inr [OF run_scope_ok run_constraint_ok] monotonic_decision_create_eq
    by (simp add: run_scope_def run_constraint_def run_decision_def)
qed

subsection \<open>The authority of the snapshot\<close>

definition run_payload :: "(string \<times> json) list" where
  "run_payload =
     [(''correlation_id'', JStr ''c1''), (''snapshot_digest'', JStr zeros), (''authority_witness_set_digest'', JStr zeros),
      (''permission_decision_digest'', JStr zeros), (''capability_selection_digest'', JStr zeros),
      (''capability_selection_authority_revision'', JStr ''v1''), (''policy_identity'', JStr zeros),
      (''capability_definition_identity'', JStr zeros), (''capability_activation_digest'', JStr zeros),
      (''target_binding_digest'', JStr zeros), (''approval_certificate_digest'', JStr zeros),
      (''clock_witness_digest'', JStr zeros), (''revocation_epoch'', JInt 0),
      (''authorization_source_revision'', JStr ''v1'')]"

text \<open>The users, the workspace and the two events that the creation of the snapshot leaves behind.\<close>

definition run_core :: core_db where
  "run_core =
     \<lparr>c_users = [\<lparr>u_id = ''alice'', u_username = ''alice'', u_password_hash = ''x'', u_role = ''operator'',
        u_active = 1, u_created_at = ''t0''\<rparr>],
      c_workspaces = [\<lparr>w_id = ''w1'', w_name = ''w'', w_environment = ''local'', w_created_at = ''t0''\<rparr>],
      c_memberships = [\<lparr>m_workspace_id = ''w1'', m_user_id = ''alice'', m_membership_role = ''member'',
        m_created_by = ''alice'', m_created_at = ''t0''\<rparr>],
      c_sessions = [], c_emergency_stop = None, c_audit = []\<rparr>"

definition run_created :: audit_row where
  "run_created =
     \<lparr>a_sequence = 1, a_id = ''a1'', a_actor_id = ''alice'', a_action = ''authorization_snapshot.create'',
      a_target_type = ''authorization_snapshot'', a_target_id = ''s1'',
      a_payload_json = canonical_json (JObj (snapshot_created_payload ''c1'' run_snapshot)),
      a_previous_hash = genesis, a_event_hash = ones, a_created_at = wit_at 0 0\<rparr>"

definition run_audit :: audit_row where
  "run_audit =
     \<lparr>a_sequence = 2, a_id = ''o1'', a_actor_id = ''alice'', a_action = ''authorization_snapshot.authority_witness'',
      a_target_type = ''authorization_snapshot'', a_target_id = ''s1'',
      a_payload_json = canonical_json (JObj run_payload), a_previous_hash = ones,
      a_event_hash = zeros, a_created_at = wit_at 0 0\<rparr>"

definition run_db :: core_db where
  "run_db = run_core\<lparr>c_audit := [run_created, run_audit]\<rparr>"

definition run_evidence :: authority_evidence where
  "run_evidence = \<lparr>sa_snapshot_id = ''s1'', sa_snapshot_digest = zeros, sa_authority_witness_set_digest = zeros,
     sa_revocation_epoch = 0, sa_event_hash = zeros, sa_evidence_digest = zeros\<rparr>"

definition run_epoch :: epoch_source where
  "run_epoch = (\<lambda>_ _ _. Inr (JInt 0))"

lemma run_payload_flat: "flat run_payload"
  by (simp add: flat_def run_payload_def)

lemma run_payload_item: "item (sort_key fst run_payload) = item run_payload"
  using run_payload_flat by (intro item_sort) (simp add: flat_def)

lemma run_payload_read: "authority_payload run_audit = Inr (sort_key fst run_payload)"
proof -
  have "set (map fst (sort_key fst run_payload)) = set authority_payload_fields"
    by (simp only: set_map set_sort) (simp add: run_payload_def authority_payload_fields_def)
  then show ?thesis
    using json_loads_flat [OF run_payload_flat] canonical_json_flat_sorted [OF run_payload_flat]
    by (simp add: authority_payload_def run_audit_def)
qed

lemma run_audit_texts [simp]:
  "text_ok (a_action run_audit)" "text_ok (a_target_type run_audit)"
  by (simp_all add: run_audit_def) (code_simp+)

lemma run_evidence_loaded: "load_snapshot_authority_evidence flat_digest run_db run_snapshot = Inr run_evidence"
proof -
  have rows: "authority_witness_rows run_db (sn_snapshot_id run_snapshot) = [run_audit]"
    by (simp add: authority_witness_rows_def run_db_def run_created_def run_audit_def run_snapshot_def)
  have t: "require_timestamp f (JStr (wit_at 0 0)) = Inr (wit_time 0 0)" for f
    by (simp add: require_timestamp_eq_Inr)
  have texts: "check_texts [(''id'', a_id run_audit), (''actor_id'', a_actor_id run_audit), (''action'', a_action run_audit),
      (''target_type'', a_target_type run_audit), (''target_id'', a_target_id run_audit)] = Inr ()"
    by (simp add: check_texts_eq_Inr) (simp add: run_audit_def)
  have payload_texts: "for_each (check_text (item run_payload))
      [''correlation_id'', ''capability_selection_authority_revision'', ''authorization_source_revision''] = Inr ()"
    by (simp add: for_each_eq_Inr check_text_eq_Inr thenE_eq_Inr run_payload_def)
  have payload_digests: "for_each (check_digest (item run_payload))
      [''authority_witness_set_digest'', ''permission_decision_digest'', ''capability_selection_digest'', ''policy_identity'',
       ''capability_definition_identity'', ''capability_activation_digest'', ''target_binding_digest'',
       ''approval_certificate_digest'', ''clock_witness_digest''] = Inr ()"
    by (simp add: for_each_eq_Inr check_digest_eq_Inr thenE_eq_Inr run_payload_def)
  have created: "authority_evidence_create flat_digest ''s1'' zeros zeros 0 zeros = Inr run_evidence"
    by (simp add: authority_evidence_create_def authority_evidence_init_iff authority_evidence_ok_def run_evidence_def)
  have e: "check_digests [(''event_hash'', zeros)] = Inr ()" "check_digests [(''previous_hash'', ones)] = Inr ()"
    by (simp_all add: check_digests_eq_Inr)
  have sel: "item run_payload ''snapshot_digest'' = JStr zeros" "item run_payload ''policy_identity'' = JStr zeros"
    "item run_payload ''capability_definition_identity'' = JStr zeros"
    "item run_payload ''authorization_source_revision'' = JStr ''v1''"
    "item run_payload ''revocation_epoch'' = JInt 0" "item run_payload ''authority_witness_set_digest'' = JStr zeros"
    by (simp_all add: run_payload_def)
  have sels: "a_created_at run_audit = wit_at 0 0" "a_previous_hash run_audit = ones" "a_event_hash run_audit = zeros"
    "a_action run_audit = ''authorization_snapshot.authority_witness''" "a_target_type run_audit = ''authorization_snapshot''"
    "a_actor_id run_audit = ''alice''" "a_target_id run_audit = ''s1''" by (simp_all add: run_audit_def)
  have snaps: "sn_snapshot_id run_snapshot = ''s1''" "sn_actor_id run_snapshot = ''alice''"
    "sn_snapshot_digest run_snapshot = zeros" "sn_policy_identity run_snapshot = zeros"
    "sn_capability_definition_identity run_snapshot = zeros" "sn_authorization_source_revision run_snapshot = ''v1''"
    by (simp_all add: run_snapshot_def)
  show ?thesis
    unfolding load_snapshot_authority_evidence_def rows list.case run_payload_read bindE_Inr Let_def run_payload_item texts
    unfolding sels t payload_texts payload_digests bindE_Inr
    unfolding sel snaps
    by (simp add: e created)
qed

lemma run_live:
  "issuance_live_authority flat_digest run_epoch run_db run_snapshot None = Inr (run_evidence, 0)"
  "issuance_live_authority flat_digest run_epoch run_db run_snapshot (Some run_evidence) = Inr (run_evidence, 0)"
proof -
  have "\<not> is_stop_active run_db" by (simp add: is_stop_active_def run_db_def run_core_def)
  moreover have "live_revocation_epoch run_epoch run_snapshot = Inr 0"
    by (simp add: live_revocation_epoch_eq_Inr run_epoch_def)
  moreover have "sa_revocation_epoch run_evidence = 0" by (simp add: run_evidence_def)
  ultimately show "issuance_live_authority flat_digest run_epoch run_db run_snapshot None = Inr (run_evidence, 0)"
    "issuance_live_authority flat_digest run_epoch run_db run_snapshot (Some run_evidence) = Inr (run_evidence, 0)"
    by (simp_all add: issuance_live_authority_def run_evidence_loaded)
qed

definition run_binding :: execution_binding where
  "run_binding = \<lparr>eb_capability_definition_identity = zeros, eb_environment = ''local'', eb_target_kind = ''repo'',
     eb_execution_capsule_digest = zeros, eb_runner_class = ''runner'', eb_authority_revision = ''v1'',
     eb_binding_digest = zeros\<rparr>"

lemma run_bound: "issuance_binding (\<lambda>_ _ _. Inr run_binding) run_snapshot = Inr run_binding"
  by (simp add: issuance_binding_def run_binding_def run_snapshot_def)

subsection \<open>The guard\<close>

definition run_state :: json where
  "run_state = JObj [(''head'', JStr ''h1'')]"

lemma run_state_digest [simp]: "flat_digest (canonical_json run_state) = zeros"
  by (simp add: run_state_def)

definition run_requirement :: precondition_requirement where
  "run_requirement = \<lparr>pr_capability_definition_identity = zeros, pr_target_kind = ''repo'',
     pr_expectation_binder_id = ''head'', pr_observer_id = ''probe'', pr_state_schema = ''head/v1'',
     pr_comparison_mode = ''EXACT_STATE_DIGEST'', pr_enforcement_class = ''READ_THEN_COMPARE'',
     pr_requirement_revision = ''v1'', pr_requirement_digest = zeros\<rparr>"

definition run_source :: expectation_binder where
  "run_source = \<lparr>bi_binder_id = ''head'', bi_target_kind = ''repo'', bi_state_schema = ''head/v1'',
     bi_bind_expected = (\<lambda>_. Inr run_state)\<rparr>"

definition run_observer :: state_observer where
  "run_observer = \<lparr>bo_observer_id = ''probe'', bo_target_kind = ''repo'', bo_state_schema = ''head/v1'',
     bo_source_identity = ''repo'', bo_observe = (\<lambda>_. Inr run_state)\<rparr>"

definition run_clock :: clock_authority where
  "run_clock = \<lparr>ca_source_identity = ''clock'', ca_authority_revision = ''v1'', ca_allowed_environments = [''local'']\<rparr>"

definition run_reading :: "nat \<Rightarrow> nat \<Rightarrow> clock_witness" where
  "run_reading m s = \<lparr>ck_source_identity = ''clock'', ck_authority_revision = ''v1'', ck_environment = ''local'',
     ck_observed_at = wit_at m s, ck_witness_digest = zeros\<rparr>"

definition run_guard :: precondition_guard where
  "run_guard = \<lparr>pg_requirements = [zeros \<mapsto> run_requirement], pg_expectation_binders = [''head'' \<mapsto> run_source],
     pg_observers = [''probe'' \<mapsto> run_observer], pg_trusted_clock = run_clock\<rparr>"

definition run_issuer :: grant_issuer where
  "run_issuer = \<lparr>gi_guard = run_guard, gi_clock = run_clock, gi_issuer_identity = ''issuer'', gi_issuer_revision = ''v1'',
     gi_ttl_seconds = 60\<rparr>"

definition run_expectation :: precondition_expectation where
  "run_expectation = \<lparr>pe_parent_scope_digest = zeros, pe_authority_constraint_digest = zeros, pe_requirement_digest = zeros,
     pe_target_kind = ''repo'', pe_target_digest = zeros, pe_state_schema = ''head/v1'',
     pe_expected_state_json = canonical_json run_state, pe_expected_state_digest = zeros, pe_expectation_digest = zeros\<rparr>"

definition run_observation :: precondition_observation where
  "run_observation = \<lparr>po_requirement_digest = zeros, po_target_kind = ''repo'', po_target_digest = zeros,
     po_state_schema = ''head/v1'', po_observer_id = ''probe'', po_source_identity = ''repo'',
     po_clock_source_identity = ''clock'', po_clock_witness_digest = zeros, po_observed_at = wit_at 0 0,
     po_observed_state_json = canonical_json run_state, po_observed_state_digest = zeros, po_observation_digest = zeros\<rparr>"

definition run_precondition :: precondition_witness where
  "run_precondition = \<lparr>pw_parent_scope_digest = zeros, pw_authority_constraint_digest = zeros,
     pw_monotonic_authority_decision_digest = zeros, pw_requirement_digest = zeros, pw_expectation_digest = zeros,
     pw_observation_digest = zeros, pw_target_digest = zeros, pw_expected_state_digest = zeros,
     pw_observed_state_digest = zeros, pw_observer_id = ''probe'', pw_source_identity = ''repo'',
     pw_clock_source_identity = ''clock'', pw_clock_witness_digest = zeros, pw_checked_at = wit_at 0 0,
     pw_relation = ''MATCH'', pw_enforcement_class = ''READ_THEN_COMPARE'', pw_witness_digest = zeros\<rparr>"

lemma run_state_text:
  "json_loads (canonical_json run_state) = Some run_state" "is_object run_state" "json_depth run_state \<le> 32"
  by code_simp+

lemma run_state_stored: "stored_object f (canonical_json run_state) = Inr run_state"
  by (simp add: stored_object_def run_state_text require_json_value_eq_Inr thenE_eq_Inr)

lemma run_clock_reading:
  assumes "m < 60" and "s < 60"
  shows "clock_authority_witness flat_digest run_clock (AwareTime (wit_time m s)) ''local'' = Inr (run_reading m s)"
proof -
  have "clock_witness_ok flat_digest (run_reading m s)"
    using assms by (simp add: clock_witness_ok_def run_reading_def valid_environments_def)
  then have "clock_witness_init flat_digest (run_reading m s) = Inr (run_reading m s)"
    by (simp add: clock_witness_init_iff)
  then show ?thesis
    by (simp add: clock_authority_witness_def clock_witness_create_def run_clock_def valid_environments_def
        Let_def wit_at_def [symmetric]) (simp add: run_reading_def)
qed

lemma run_sources: "resolved_sources run_guard run_constraint = Inr (run_requirement, run_source, run_observer)"
proof -
  have "resolve_requirement (pg_requirements run_guard) zeros = Inr run_requirement"
    "resolve_binder (pg_expectation_binders run_guard) ''head'' = Inr run_source"
    "resolve_observer (pg_observers run_guard) ''probe'' = Inr run_observer"
    by (simp_all add: resolve_requirement_def resolve_binder_def resolve_observer_def bindE_eq_Inr run_guard_def
        require_digest_eq_Inr require_text_eq_Inr)
      (code_simp+)?
  moreover have "ac_capability_definition_identity run_constraint = zeros" "pr_expectation_binder_id run_requirement = ''head''"
    "pr_observer_id run_requirement = ''probe''" by (simp_all add: run_constraint_def run_requirement_def)
  ultimately show ?thesis
    by (simp add: resolved_sources_def refuse_def)
      (simp add: run_constraint_def run_requirement_def run_source_def run_observer_def)
qed

lemma run_expected:
  "precondition_expectation_create flat_digest zeros zeros zeros ''repo'' zeros ''head/v1'' run_state = Inr run_expectation"
proof -
  have c: "canonical_state flat_digest f run_state = Inr (canonical_json run_state, zeros)" for f
    by (simp add: canonical_state_eq_Inr run_state_text)
  show ?thesis
    unfolding precondition_expectation_create_def c
    by (simp add: precondition_expectation_init_def run_state_stored for_each_eq_Inr check_digest_eq_Inr check_text_eq_Inr thenE_eq_Inr
        precondition_expectation_to_dict_def precondition_expectation_claims_def precondition_expectation_of_def
        run_expectation_def)
qed

lemma run_observed:
  "precondition_observation_create flat_digest zeros ''repo'' zeros ''head/v1'' ''probe'' ''repo'' (run_reading 0 0) run_state
   = Inr run_observation"
proof -
  have c: "canonical_state flat_digest f run_state = Inr (canonical_json run_state, zeros)" for f
    by (simp add: canonical_state_eq_Inr run_state_text)
  have t: "require_timestamp f (JStr (wit_at 0 0)) = Inr (wit_time 0 0)" for f
    by (simp add: require_timestamp_eq_Inr)
  show ?thesis
    unfolding precondition_observation_create_def c
    by (simp add: precondition_observation_init_def run_state_stored t for_each_eq_Inr check_digest_eq_Inr check_text_eq_Inr thenE_eq_Inr
        precondition_observation_to_dict_def precondition_observation_claims_def precondition_observation_of_def
        run_observation_def run_reading_def)
qed

lemma run_witnessed:
  "guard_witness flat_digest run_guard (AwareTime (wit_time 0 0)) run_scope run_constraint run_decision
     (sn_execution_target run_snapshot) = Inr run_precondition"
proof -
  have sels: "sp_scope_digest run_scope = zeros" "ac_constraint_digest run_constraint = zeros"
    "md_decision_digest run_decision = zeros" "ac_environment run_constraint = ''local''"
    "ac_target_kind run_constraint = ''repo''" "ac_target_digest run_constraint = zeros"
    "et_target_kind (sn_execution_target run_snapshot) = ''repo''" "et_target_digest (sn_execution_target run_snapshot) = zeros"
    "pr_requirement_digest run_requirement = zeros" "pr_state_schema run_requirement = ''head/v1''"
    "bi_bind_expected run_source t = Inr run_state" "bo_observe run_observer t = Inr run_state"
    "bo_observer_id run_observer = ''probe''" "bo_source_identity run_observer = ''repo''"
    "pg_trusted_clock run_guard = run_clock" "ck_source_identity (run_reading 0 0) = ca_source_identity run_clock" for t
    by (simp_all add: run_scope_def run_constraint_def run_decision_def run_snapshot_def run_requirement_def run_source_def
        run_observer_def run_guard_def run_reading_def run_clock_def)
  have b: "binding_violations flat_digest run_scope run_constraint run_decision run_requirement run_expectation run_observation
      = Inr []"
    unfolding binding_violations_def run_checked
    by (simp add: handleE_def reason_def)
      (simp add: run_decision_def run_scope_def run_constraint_def run_requirement_def run_expectation_def run_observation_def)
  have t: "require_timestamp f (JStr (wit_at m 0)) = Inr (wit_time m 0)" if "m < 60" for f m
    using that by (simp add: require_timestamp_eq_Inr)
  have v: "state_and_time_violations run_constraint run_expectation run_observation = Inr []"
    by (simp add: state_and_time_violations_def run_constraint_def run_expectation_def run_observation_def t reason_def)
  have "precondition_witness_ok flat_digest run_precondition"
    by (simp add: precondition_witness_ok_def run_precondition_def)
  then have "precondition_witness_create flat_digest run_scope run_constraint run_decision run_requirement run_expectation
      run_observation = Inr run_precondition"
    unfolding precondition_witness_create_def b v bindE_Inr Let_def precondition_witness_dict_eq
    by (simp add: thenE_eq_Inr precondition.init_dict_iff)
      (simp add: run_precondition_def run_scope_def run_constraint_def run_decision_def run_requirement_def
        run_expectation_def run_observation_def)
  then show ?thesis
    unfolding guard_witness_def run_checked run_sources sels
    by (simp add: refuse_def reason_def run_expected run_observed run_clock_reading sels)
qed

subsection \<open>The grant\<close>

lemma run_validity:
  "resolve_validity flat_digest run_issuer (AwareTime (wit_time 0 0)) ''local'' run_constraint run_precondition
   = Inr (wit_at 0 0, wit_at 1 0)"
proof -
  have t: "require_timestamp f (JStr (wit_at m s)) = Inr (wit_time m s)" if "m < 60" "s < 60" for f m s
    using that by (simp add: require_timestamp_eq_Inr)
  have sels: "gi_clock run_issuer = run_clock" "gi_ttl_seconds run_issuer = 60" "pw_checked_at run_precondition = wit_at 0 0"
    "ac_valid_from run_constraint = wit_at 0 0" "ac_valid_until run_constraint = wit_at 50 0"
    "ck_source_identity (run_reading 0 0) = ca_source_identity run_clock" "ck_observed_at (run_reading 0 0) = wit_at 0 0"
    by (simp_all add: run_issuer_def run_precondition_def run_constraint_def run_reading_def run_clock_def)
  show ?thesis
    by (simp add: resolve_validity_def run_clock_reading sels t seconds_def max_precondition_to_grant_seconds_def
        wit_at_def [symmetric])
qed

definition run_grant :: execution_grant where
  "run_grant = (issued_claims run_issuer ''g1'' ''j1'' run_snapshot run_constraint run_scope run_decision run_evidence
     run_binding run_precondition (wit_at 0 0) (wit_at 1 0) 0)\<lparr>gr_grant_digest := zeros\<rparr>"

lemma run_grant_ok: "execution_grant_ok flat_digest run_grant"
  by (simp add: execution_grant_ok_def)
    (simp add: run_grant_def issued_claims_def run_issuer_def run_snapshot_def run_constraint_def run_scope_def run_decision_def
      run_evidence_def run_binding_def run_precondition_def required_execution_permission_def seconds_def
      max_grant_ttl_seconds_def max_precondition_to_grant_seconds_def)

lemma run_issued:
  "issue flat_digest run_issuer run_epoch (\<lambda>_ _ _. Inr run_binding) run_db run_db (AwareTime (wit_time 0 0))
     (AwareTime (wit_time 0 0)) ''g1'' ''j1'' run_snapshot run_constraint = Inr run_grant"
proof -
  have sels: "gi_guard run_issuer = run_guard" "sn_environment run_snapshot = ''local''"
    by (simp_all add: run_issuer_def run_snapshot_def)
  have "execution_grant_issue flat_digest (issued_claims run_issuer ''g1'' ''j1'' run_snapshot run_constraint run_scope
      run_decision run_evidence run_binding run_precondition (wit_at 0 0) (wit_at 1 0) 0) = Inr run_grant"
    using run_grant_ok by (simp add: execution_grant_issue_eq_Inr run_grant_def)
  then show ?thesis
    by (simp add: issue_def run_scope_derived run_checked run_live run_bound run_witnessed run_validity sels)
qed

lemma run_issuer_ok: "grant_issuer_init run_issuer = Inr run_issuer"
  by (simp add: grant_issuer_init_def check_texts_eq_Inr thenE_eq_Inr)
    (simp add: run_issuer_def run_guard_def max_grant_ttl_seconds_def)

theorem issued_grant_within_approval_witness:
  "instant_at (gr_expires_at run_grant) \<le> instant_at (as_approval_valid_until (sn_approval_evidence run_snapshot))
   \<and> instant_at (sn_authorized_at run_snapshot) \<le> instant_at (gr_issued_at run_grant)"
  using issued_grant_within_approval [OF run_issued run_issuer_ok run_constraint_ok run_snapshot_ok] by blast

theorem narrowing_iff_subset_witness:
  "check_monotonic flat_digest run_scope run_constraint = Inr (sealed_decision flat_digest run_scope run_constraint)"
proof -
  have "ac_parent_scope_digest run_constraint = sp_scope_digest run_scope
      \<and> constraint_authority run_constraint \<subseteq> scope_authority run_scope"
    by (auto simp: constraint_authority_def scope_authority_def constraint_values_def scope_values_def run_scope_def run_constraint_def)
  then show ?thesis using narrowing_iff_subset [OF run_scope_ok run_constraint_ok] by simp
qed

end
