(* ===== verification/Delivery_Progress.thy ===== *)
theory Delivery_Progress
  imports Delivery
begin

text \<open>
  Progress of the delivery: an admitted dispatch can always be leased, for the first time or again once
  its lease has expired, until it is completed.
\<close>

subsection \<open>Progress\<close>

lemma text_ok_nonempty: "text_ok s \<Longrightarrow> nonempty_check s"
  by (auto simp: text_ok_def nonempty_check_def)

lemma time_ok_nonempty: "time_ok s \<Longrightarrow> nonempty_check s"
  using time_ok_text text_ok_nonempty by (auto simp: time_ok_def)

lemma digest_check_iff: "digest_check s = digest_ok s"
  by (simp add: digest_check_def digest_ok_def)

lemma environment_check_iff: "environment_check s \<longleftrightarrow> s \<in> set valid_environments"
  by (auto simp: environment_check_def valid_environments_def)

lemma canonical_object_check: "kvs \<noteq> [] \<Longrightarrow> json_check (canonical_json (JObj kvs))"
proof -
  assume "kvs \<noteq> []"
  then obtain k v rest where "sort_key fst (map (map_prod id json_sort) kvs) = (k, v) # rest"
    by (metis list.exhaust list.map_disc_iff prod.exhaust set_empty set_sort)
  then show ?thesis
    by (cases rest) (simp_all add: json_check_def canonical_json_def print_member_def json_quote_def)
qed

lemma lease_row_json_check:
  "json_check (lr_clock_witness_json (lease_row_of l clock)) \<and> json_check (lr_lease_json (lease_row_of l clock))"
  by (simp add: lease_row_of_def canonical_object_check clock_witness_to_dict_def clock_witness_claims_def
      lease_to_dict_def lease_claims_def)

lemma lease_ok_checks:
  assumes "lease_ok H l"
  shows "list_all digest_check [le_lease_id l, le_dispatch_id l, le_admission_digest l,
             le_execution_capsule_digest l, le_clock_witness_digest l, le_lease_digest l]"
    and "list_all nonempty_check [le_execution_id l, le_runner_class l, le_acquired_at l,
             le_expires_at l, le_lease_revision l]" and "1 \<le> le_execution_epoch l"
proof -
  have "list_all digest_ok [le_lease_id l, le_dispatch_id l, le_admission_id l, le_admission_digest l,
         le_execution_capsule_digest l, le_clock_witness_digest l, le_lease_digest l]"
    "list_all text_ok [le_execution_id l, le_workspace_id l, le_environment l, le_runner_class l, le_lease_revision l]"
    "time_ok (le_acquired_at l)" "time_ok (le_expires_at l)" "1 \<le> le_execution_epoch l"
    using assms unfolding lease_ok_def by blast+
  then show "list_all digest_check [le_lease_id l, le_dispatch_id l, le_admission_digest l,
             le_execution_capsule_digest l, le_clock_witness_digest l, le_lease_digest l]"
    "list_all nonempty_check [le_execution_id l, le_runner_class l, le_acquired_at l, le_expires_at l,
       le_lease_revision l]" "1 \<le> le_execution_epoch l"
    by (simp_all add: digest_check_iff text_ok_nonempty time_ok_nonempty)
qed

lemma admission_ok_checks:
  assumes "admission_ok H a"
  shows "digest_check (ad_admission_digest a)" "digest_check (ad_execution_capsule_digest a)"
    "nonempty_check (ad_execution_id a)" "nonempty_check (ad_runner_class a)"
proof -
  have "list_all digest_ok [ad_admission_id a, ad_dispatch_id a, ad_envelope_digest a, ad_outbox_entry_digest a,
         ad_execution_capsule_digest a, ad_admission_digest a]"
    "list_all text_ok [ad_outbox_id a, ad_execution_id a, ad_workspace_id a, ad_environment a, ad_runner_class a,
         ad_admission_revision a]"
    using assms unfolding admission_ok_def by blast+
  then show "digest_check (ad_admission_digest a)" "digest_check (ad_execution_capsule_digest a)"
    "nonempty_check (ad_execution_id a)" "nonempty_check (ad_runner_class a)"
    by (simp_all add: digest_check_iff text_ok_nonempty)
qed

lemma insert_lease_returns:
  assumes "lease_ok H l" and "lease_bound_to l (ib_cols row) = Inr ()" and "row \<in> set (t_inbox db)"
    and "le_workspace_id l \<in> set (t_workspaces db)" and "le_environment l \<in> set valid_environments"
    and "key_free lr_lease_id (le_lease_id l) (t_leases db)"
    and "key_free (le_lease_digest \<circ> lr_cols) (le_lease_digest l) (t_leases db)"
    and "key_free lr_slot (le_admission_id l, le_execution_epoch l) (t_leases db)"
  shows "insert_lease db (lease_row_of l clock) = Inr (db\<lparr>t_leases := t_leases db @ [lease_row_of l clock]\<rparr>)"
proof -
  have "lease_binding db l"
    using assms(2,3) by (auto simp: lease_binding_def list_ex_iff Let_def lease_bound_to_iff intro!: bexI [of _ row])
  moreover have "le_admission_id l \<in> set (map ib_admission_id (t_inbox db))"
    using assms(2,3) by (auto simp: lease_bound_to_iff)
  moreover have "lr_cols (lease_row_of l clock) = l" by (simp add: lease_row_of_def)
  ultimately show ?thesis
    using assms lease_ok_checks [OF assms(1)] lease_row_json_check [of l clock]
    by (simp add: insert_lease_def guardE_def environment_check_iff)
qed

lemma insert_first_state_returns:
  assumes l: "lease_ok H l" "lease_bound_to l adm = Inr ()" "le_execution_epoch l = 1"
    and row: "row \<in> set (t_inbox db)" "ib_cols row = adm" and ok: "admission_ok H adm"
    and lrow: "r \<in> set (t_leases db)" "lr_cols r = l"
    and free: "key_free es_admission_id (ad_admission_id adm) (t_epochs db)"
      "key_free es_current_lease_id (le_lease_id l) (t_epochs db)"
      "key_free es_current_lease_digest (le_lease_digest l) (t_epochs db)"
    and ws: "ad_workspace_id adm \<in> set (t_workspaces db)" "ad_environment adm \<in> set valid_environments"
    and rv: "text_ok arev" "time_ok obs"
  shows "insert_epoch_state db (first_epoch_state adm l arev obs)
     = Inr (db\<lparr>t_epochs := t_epochs db @ [first_epoch_state adm l arev obs]\<rparr>)"
proof -
  let ?s = "first_epoch_state adm l arev obs"
  have "state_refs db ?s"
    using row lrow ws by (auto simp: state_refs_def first_epoch_state_def)
  moreover have "state_check ?s"
    using admission_ok_checks [OF ok] lease_ok_checks [OF l(1)] l(3) rv ws
    by (simp add: state_check_def first_epoch_state_def text_ok_nonempty time_ok_nonempty environment_check_iff)
  moreover have "state_admission_binding db ?s"
    using row by (auto simp: state_admission_binding_def list_ex_iff Let_def first_epoch_state_def)
  moreover have "current_lease_exists db ?s"
    using lrow l(2) by (auto simp: current_lease_exists_def list_ex_iff Let_def first_epoch_state_def lease_bound_to_iff)
  ultimately show ?thesis
    using free l(3) by (simp add: insert_epoch_state_def guardE_def) (simp add: first_epoch_state_def)
qed

subsection \<open>Rows stay bound\<close>

text \<open>What the triggers check at insertion holds later too: admissions, leases and epoch states name rows
  that exist, and a state passes its column checks.\<close>

definition rows_bound :: "trust_db \<Rightarrow> bool" where
  "rows_bound db \<longleftrightarrow>
     (\<forall>r \<in> set (t_inbox db). ad_workspace_id (ib_cols r) \<in> set (t_workspaces db))
     \<and> (\<forall>r \<in> set (t_leases db). lease_binding db (lr_cols r))
     \<and> (\<forall>s \<in> set (t_epochs db). state_admission_binding db s \<and> state_check s)"

lemma bindings_mono:
  assumes "set (t_inbox db) \<subseteq> set (t_inbox db')"
  shows "lease_binding db l \<Longrightarrow> lease_binding db' l"
    and "state_admission_binding db s \<Longrightarrow> state_admission_binding db' s"
  using assms unfolding lease_binding_def state_admission_binding_def list_ex_iff by (meson subsetD)+

lemma rows_bound_admit:
  assumes "rows_bound db" and "admit H rv db env = Inr (r, db')"
  shows "rows_bound db'"
proof -
  obtain outcome adm where r: "r = (outcome, adm)" by (cases r)
  from assms(2) [unfolded r] show ?thesis
  proof (cases rule: admit_cases)
    case (first row)
    have db': "db' = db\<lparr>t_inbox := t_inbox db @ [inbox_row_of adm]\<rparr>"
      using first(6) by (rule insert_inbox_eq_Inr)
    have "ad_workspace_id (ib_cols (inbox_row_of adm)) \<in> set (t_workspaces db)"
      using first(6) by (simp add: insert_inbox_def Let_def thenE_eq_Inr guardE_eq_Inr)
    then show ?thesis
      using assms(1) bindings_mono [of db db'] by (simp add: rows_bound_def db' subset_insertI)
  next
    case (again row erow)
    then show ?thesis using assms(1) by simp
  qed
qed

lemma insert_lease_bound:
  assumes "insert_lease db r = Inr db'"
  shows "lease_binding db (lr_cols r)"
  using assms by (simp add: insert_lease_def Let_def thenE_eq_Inr guardE_eq_Inr)

lemma bindings_cong:
  assumes "t_inbox db' = t_inbox db"
  shows "lease_binding db' l = lease_binding db l" and "state_admission_binding db' s = state_admission_binding db s"
  using assms by (simp_all add: lease_binding_def state_admission_binding_def)

lemma rows_bound_lease:
  assumes "rows_bound db" and "insert_lease db r = Inr db'"
  shows "rows_bound db'"
proof -
  have db': "db' = db\<lparr>t_leases := t_leases db @ [r]\<rparr>" by (rule insert_lease_eq_Inr(1) [OF assms(2)])
  then show ?thesis
    using assms(1) insert_lease_bound [OF assms(2)] bindings_cong [of db' db] by (auto simp: rows_bound_def)
qed

lemma rows_bound_first:
  assumes "rows_bound db" and "insert_epoch_state db s = Inr db'"
  shows "rows_bound db'"
proof -
  have db': "db' = db\<lparr>t_epochs := t_epochs db @ [s]\<rparr>" by (rule insert_epoch_state_eq_Inr(1) [OF assms(2)])
  moreover have "state_admission_binding db s \<and> state_check s"
    using assms(2) by (simp add: insert_epoch_state_def thenE_eq_Inr guardE_eq_Inr)
  ultimately show ?thesis
    using assms(1) bindings_cong [of db' db] by (auto simp: rows_bound_def)
qed

lemma rows_bound_update:
  assumes "rows_bound db" and uniq: "unique_on es_admission_id (t_epochs db)"
    and upd: "update_epoch_state db (state_selected aid e lid ld) f = Inr (True, db')"
  shows "rows_bound db'"
proof -
  let ?sel = "state_selected aid e lid ld"
  obtain old where old: "List.find ?sel (t_epochs db) = Some old" "update_guard db old (f old)" "state_check (f old)"
    and db': "db' = db\<lparr>t_epochs := update_where ?sel f (t_epochs db)\<rparr>"
    using upd by (auto simp: update_epoch_state_def Let_def thenE_eq_Inr guardE_eq_Inr split: option.splits)
  have sel: "?sel old" "old \<in> set (t_epochs db)" using old(1) by (auto simp: find_Some_iff)
  have "set (t_epochs db') = insert (f old) (set (t_epochs db) - {old})"
    using sel(1) by (simp add: db', intro set_update_unique [OF uniq old(1)]) (simp add: state_selected_def)
  moreover note sel(2)
  moreover have "state_admission_binding db (f old) = state_admission_binding db old"
    using old(2) by (simp add: state_admission_binding_def update_guard_def)
  ultimately show ?thesis
    using assms(1) old(3) bindings_cong [of db' db] by (auto simp: rows_bound_def db')
qed

lemma rows_bound_step:
  assumes "delivery_step H db db'" and "delivery_inv H db" and "rows_bound db"
  shows "rows_bound db'"
  using assms
proof (induction rule: delivery_step.induct)
  case (enqueue_step db row db')
  have "db' = db\<lparr>t_outbox := t_outbox db @ [row]\<rparr>"
    using enqueue_step(1) by (auto simp: insert_outbox_def Let_def thenE_eq_Inr)
  then show ?case using enqueue_step(3) bindings_cong [of db' db] by (simp add: rows_bound_def)
next
  case (admit_step rv db env r db')
  then show ?case using rows_bound_admit by blast
next
  case (acquire_step svc db reading aid r db')
  obtain outcome l where "r = (outcome, l)" by fastforce
  with acquire_step(1) have "acquire H svc db reading aid = Inr ((outcome, l), db')" by simp
  then show ?case
  proof (cases rule: acquire_cases)
    case (first row clock db1)
    then show ?thesis using acquire_step(3) rows_bound_lease rows_bound_first by blast
  next
    case (again row clock db1 s p)
    have "unique_on es_admission_id (t_epochs db1)"
      using acquire_step(2) insert_lease_eq_Inr(1) [OF again(8)] by (simp add: delivery_inv_def epochs_inv_def)
    then show ?thesis using again(8,9) acquire_step(3) rows_bound_lease rows_bound_update by blast
  qed
next
  case (complete_step svc db reading lid digest r db')
  obtain outcome l c where "r = (outcome, l, c)" by (metis prod_cases3)
  with complete_step(1) have "complete H svc db reading lid digest = Inr ((outcome, l, c), db')" by simp
  then show ?case
  proof (cases rule: complete_cases)
    case (duplicate s)
    then show ?thesis using complete_step(3) by simp
  next
    case (recorded s clock)
    then show ?thesis
      using complete_step(2,3) rows_bound_update by (auto simp: delivery_inv_def epochs_inv_def)
  qed
qed

lemma reachable_bound: "delivery_reachable H db \<Longrightarrow> rows_bound db"
proof (induction rule: delivery_reachable.induct)
  case (reach_start db)
  then show ?case by (simp add: delivery_start_def rows_bound_def)
next
  case (reach_step db db')
  then show ?case using rows_bound_step reachable_inv by blast
qed

subsection \<open>The lease of the next epoch\<close>

text \<open>The epoch that \<open>acquire\<close> gives out next, and when two leases can be told apart by their digests.\<close>

definition next_epoch :: "trust_db \<Rightarrow> string \<Rightarrow> int" where
  "next_epoch db aid = (case select es_admission_id aid (t_epochs db) of None \<Rightarrow> 1 | Some s \<Rightarrow> es_current_epoch s + 1)"

definition lease_id_text :: "lease \<Rightarrow> string" where
  "lease_id_text l = claims_text [(''identity_type'', JStr ''execution-lease-id/v1''),
     (''admission_id'', JStr (le_admission_id l)), (''execution_epoch'', JInt (le_execution_epoch l))]"

definition no_collision :: "(string \<Rightarrow> string) \<Rightarrow> lease \<Rightarrow> lease \<Rightarrow> bool" where
  "no_collision H l l' \<longleftrightarrow> inj_on H {lease_id_text l, lease_id_text l'}
     \<and> inj_on H {claims_text (lease_claims l), claims_text (lease_claims l')}"

lemma leases_differ:
  assumes "lease_ok H l" and "lease_ok H l'" and "no_collision H l l'"
    and "(le_admission_id l, le_execution_epoch l) \<noteq> (le_admission_id l', le_execution_epoch l')"
  shows "le_lease_id l \<noteq> le_lease_id l' \<and> le_lease_digest l \<noteq> le_lease_digest l'"
proof (intro conjI notI)
  assume "le_lease_id l = le_lease_id l'"
  then have "lease_id_of H (le_admission_id l) (le_execution_epoch l)
      = lease_id_of H (le_admission_id l') (le_execution_epoch l')"
    using assms(1,2) by (simp add: lease_ok_def)
  from lease_id_of_inj [OF _ this] show False
    using assms(3,4) by (simp add: no_collision_def lease_id_text_def)
next
  assume "le_lease_digest l = le_lease_digest l'"
  then have "claims_digest H (lease_claims l) = claims_digest H (lease_claims l')"
    using assms(1,2) by (simp add: lease_ok_def)
  from claims_digest_inj [OF lease.flat_claims lease.flat_claims _ _ this]
  have "lease_claims l = lease_claims l'"
    using assms(3) by (simp add: no_collision_def) (simp add: lease_claims_def)
  then show False using assms(4) by (simp add: lease_claims_def)
qed

text \<open>Stored leases of the admission belong to earlier epochs.\<close>

lemma next_slot_free:
  assumes inv: "delivery_inv H db" and r: "r \<in> set (t_leases db)"
  shows "lr_slot r \<noteq> (aid, next_epoch db aid)"
proof
  assume eq: "lr_slot r = (aid, next_epoch db aid)"
  obtain s where s: "s \<in> set (t_epochs db)" "es_admission_id s = aid" "le_execution_epoch (lr_cols r) \<le> es_current_epoch s"
    using inv r eq by (fastforce simp: delivery_inv_def epochs_inv_def epoch_ok_def)
  then have "select es_admission_id aid (t_epochs db) = Some s"
    using inv select_unique [of es_admission_id "t_epochs db" s] by (simp add: delivery_inv_def epochs_inv_def)
  then show False using eq s(3) by (simp add: next_epoch_def)
qed

lemma admission_unique:
  assumes "delivery_inv H db" and "select ib_admission_id aid (t_inbox db) = Some row"
    and "a \<in> set (t_inbox db)" and "ib_admission_id a = aid"
  shows "a = row"
  using assms select_Some_D [OF assms(2)] unique_on_eqI [of ib_admission_id "t_inbox db" a row]
  by (simp add: delivery_inv_def inbox_inv_def)

text \<open>An expired lease is found, decoded and accepted as the previous one.\<close>

lemma previous_lease_returns:
  assumes inv: "delivery_inv H db" and bound: "rows_bound db"
    and row: "select ib_admission_id aid (t_inbox db) = Some row"
    and s: "select es_admission_id aid (t_epochs db) = Some s"
    and open_state: "es_status s \<noteq> ''COMPLETED''" "es_authority_revision s = ls_authority_revision svc"
    and ck: "time_ok (ck_observed_at clock)"
    and expired: "instant_at (es_current_lease_expires_at s) \<le> instant_at (ck_observed_at clock)"
  obtains prow where "prow \<in> set (t_leases db)" "assert_state_matches_lease s (lr_cols prow) = Inr ()"
    "previous_lease H svc db (ib_cols row) clock = Inr (Some (es_current_epoch s, lr_cols prow))"
    "es_current_lease_expires_at s \<le> ck_observed_at clock"
proof -
  have aid: "ad_admission_id (ib_cols row) = aid" using select_Some_D [OF row] by simp
  have sin: "s \<in> set (t_epochs db)" "es_admission_id s = aid" using select_Some_D [OF s] by auto
  have ok: "epoch_ok db s" using inv sin by (simp add: delivery_inv_def epochs_inv_def)
  obtain a where "a \<in> set (t_inbox db)" "ib_admission_id a = aid" and sa: "es_admission_digest s = ad_admission_digest (ib_cols a)"
      "es_execution_id s = ad_execution_id (ib_cols a)" "es_workspace_id s = ad_workspace_id (ib_cols a)"
      "es_environment s = ad_environment (ib_cols a)"
      "es_execution_capsule_digest s = ad_execution_capsule_digest (ib_cols a)"
      "es_runner_class s = ad_runner_class (ib_cols a)"
    using bound sin by (auto simp: rows_bound_def state_admission_binding_def list_ex_iff Let_def)
  then have "a = row" using admission_unique [OF inv row] by blast
  then have b: "assert_state_bound svc s (ib_cols row) = Inr ()"
    using sa sin aid open_state ok by (auto simp: assert_state_bound_def epoch_ok_def thenE_eq_Inr guardE_eq_Inr)
  obtain prow where p: "prow \<in> set (t_leases db)" "assert_state_matches_lease s (lr_cols prow) = Inr ()"
      "le_admission_id (lr_cols prow) = aid"
    using ok sin by (auto simp: epoch_ok_def)
  have pid: "lr_lease_id prow = es_current_lease_id s" using p(2) by (simp add: matches_lease_iff)
  have prow: "select lr_lease_id (es_current_lease_id s) (t_leases db) = Some prow" "lease_row_ok H prow"
    using inv p(1) select_unique [of lr_lease_id "t_leases db" prow] pid
    by (simp_all add: delivery_inv_def lease_inv_def list_all_iff)
  obtain a' where "a' \<in> set (t_inbox db)" "ib_admission_id a' = aid" and "lease_bound_to (lr_cols prow) (ib_cols a') = Inr ()"
    using bound p(1,3) by (fastforce simp: rows_bound_def lease_binding_def list_ex_iff Let_def lease_bound_to_iff)
  then have pb: "lease_bound_to (lr_cols prow) (ib_cols row) = Inr ()" using admission_unique [OF inv row] by blast
  have e: "es_current_lease_expires_at s = le_expires_at (lr_cols prow)" using p(2) by (simp add: matches_lease_iff)
  have "time_ok (le_expires_at (lr_cols prow))" using prow(2) by (simp add: lease_row_ok_def lease_ok_def)
  then have late: "le_expires_at (lr_cols prow) \<le> ck_observed_at clock"
    using expired ck by (simp add: e time_text_le)
  have "decode_lease H prow = Inr (lr_cols prow)" using prow(2) by (simp add: decode_lease_iff)
  then have "load_lease H db (es_current_lease_id s) (ib_cols row) = Inr (lr_cols prow)"
    using prow(1) pb by (simp add: load_lease_def)
  then have "previous_lease H svc db (ib_cols row) clock = Inr (Some (es_current_epoch s, lr_cols prow))"
    using s b p(2) open_state(1) late by (simp add: previous_lease_def aid guardE_def not_less)
  then show thesis using that p late e by simp
qed

lemma update_reacquired_returns:
  assumes s: "s \<in> set (t_epochs db)" and uniq: "unique_on es_admission_id (t_epochs db)"
    and bound: "state_check s" "es_status s \<noteq> ''COMPLETED''"
    and refs: "es_admission_id s \<in> set (map ib_admission_id (t_inbox db))" "es_workspace_id s \<in> set (t_workspaces db)"
    and m: "assert_state_matches_lease s p = Inr ()" and l: "lease_ok H l" "le_admission_id l = es_admission_id s"
    and lrow: "r \<in> set (t_leases db)" "lr_cols r = l" and e: "le_execution_epoch l = es_current_epoch s + 1"
    and late: "es_current_lease_expires_at s \<le> now" and now: "nonempty_check now"
    and new: "\<forall>s' \<in> set (t_epochs db). es_current_lease_id s' \<noteq> le_lease_id l \<and> es_current_lease_digest s' \<noteq> le_lease_digest l"
  shows "\<exists>db'. update_epoch_state db
      (state_selected (es_admission_id s) (le_execution_epoch p) (le_lease_id p) (le_lease_digest p)) (reacquired l now)
      = Inr (True, db')"
proof -
  let ?sel = "state_selected (es_admission_id s) (le_execution_epoch p) (le_lease_id p) (le_lease_digest p)"
  let ?n = "reacquired l now s"
  have act: "es_status s = ''ACTIVE''" "es_completion_digest s = None" "es_completed_at s = None"
      "es_completion_clock_witness_digest s = None" "es_completion_clock_witness_json s = None" "1 \<le> es_current_epoch s"
    using bound by (auto simp: state_check_def)
  have "?sel s" using m act(1) by (simp add: state_selected_def matches_lease_iff)
  then have "List.find ?sel (t_epochs db) \<noteq> None" using s by (auto simp: find_None_iff)
  then obtain s1 where s1: "List.find ?sel (t_epochs db) = Some s1" by blast
  then have "s1 = s"
    using s by (intro unique_on_eqI [OF uniq]) (auto simp: find_Some_iff state_selected_def)
  with s1 have found: "List.find ?sel (t_epochs db) = Some s" by simp
  have "current_lease_exists db ?n"
    using lrow l(2) e by (auto simp: current_lease_exists_def list_ex_iff Let_def reacquired_def)
  then have "update_guard db s ?n"
    using act e late new s by (simp add: update_guard_def reacquire_allowed_def reacquired_def) metis
  moreover have "state_check ?n"
    using bound(1) act lease_ok_checks [OF l(1)] now by (simp add: state_check_def reacquired_def)
  moreover have "state_refs db ?n"
    using refs lrow by (auto simp: state_refs_def reacquired_def)
  moreover have "key_free es_current_lease_id (es_current_lease_id ?n) (filter q (t_epochs db))"
    "key_free es_current_lease_digest (es_current_lease_digest ?n) (filter q (t_epochs db))" for q
    using new by (auto simp: key_free_iff reacquired_def)
  ultimately show ?thesis by (simp add: update_epoch_state_def found Let_def guardE_def)
qed

text \<open>
  (C27) Progress: in a reachable database an admitted dispatch that is not completed and has no unexpired
  lease gets the lease of its next epoch, epoch 1 if it has none yet, for every clock reading that the clock
  authority accepts.  The service is within its configured bounds and has the authority revision of the
  epoch state, the expiry is representable, and the digest function yields digests and does not
  collide on the texts of the new lease and of a stored one.
\<close>

theorem acquire_returns:
  assumes reach: "delivery_reachable H db" and dg: "digest_ok aid"
    and row: "select ib_admission_id aid (t_inbox db) = Some row"
    and clock: "clock_authority_witness H (ls_clock svc) reading (ad_environment (ib_cols row)) = Inr clock"
    and svc: "lease_service_init (ls_clock svc) (ls_lease_seconds svc) (ls_lease_revision svc)
        (ls_authority_revision svc) = Inr svc"
    and exp: "add_seconds (the (canonical_time (ck_observed_at clock))) (nat (ls_lease_seconds svc)) = Inr expires"
    and free: "\<And>s. select es_admission_id aid (t_epochs db) = Some s \<Longrightarrow> es_status s \<noteq> ''COMPLETED''
        \<and> es_authority_revision s = ls_authority_revision svc
        \<and> instant_at (es_current_lease_expires_at s) \<le> instant_at (ck_observed_at clock)"
    and H: "\<And>s. digest_ok (H s)"
    and distinct: "\<And>l r. lease_create_candidate H (ib_cols row) (next_epoch db aid) clock (ls_lease_seconds svc)
        (ls_lease_revision svc) = Inr l \<Longrightarrow> r \<in> set (t_leases db) \<Longrightarrow> no_collision H l (lr_cols r)"
  shows "\<exists>l db'. acquire H svc db reading aid =
        Inr ((if next_epoch db aid = 1 then ''LEASE_ACQUIRED'' else ''LEASE_REACQUIRED'', l), db')
      \<and> le_admission_id l = aid \<and> le_execution_epoch l = next_epoch db aid"
proof -
  note inv = reachable_inv [OF reach] and bound = reachable_bound [OF reach]
  have rowin: "row \<in> set (t_inbox db)" "ad_admission_id (ib_cols row) = aid" using select_Some_D [OF row] by auto
  then have rok: "inbox_row_ok H row" and aok: "admission_ok H (ib_cols row)"
    and ws: "ad_workspace_id (ib_cols row) \<in> set (t_workspaces db)"
    using inv bound by (auto simp: delivery_inv_def inbox_inv_def list_all_iff inbox_row_ok_def rows_bound_def)
  have ck: "clock_witness_ok H clock" "ck_environment clock = ad_environment (ib_cols row)"
    using clock_authority_witness_eq_Inr [OF clock] by auto
  then have env: "ad_environment (ib_cols row) \<in> set valid_environments" "time_ok (ck_observed_at clock)"
    by (auto simp: clock_witness_ok_def)
  have cfg: "1 \<le> ls_lease_seconds svc" "ls_lease_seconds svc \<le> max_lease_seconds"
      "text_ok (ls_lease_revision svc)" "text_ok (ls_authority_revision svc)"
    using svc by (auto simp: lease_service_init_def res_simps max_lease_seconds_def)
  have state: "s \<in> set (t_epochs db) \<and> es_admission_id s = aid \<and> 1 \<le> es_current_epoch s"
    if "select es_admission_id aid (t_epochs db) = Some s" for s
    using select_Some_D [OF that] bound by (auto simp: rows_bound_def state_check_def)
  have pos: "1 \<le> next_epoch db aid" using state by (fastforce simp: next_epoch_def split: option.split)
  obtain l where l: "lease_create_candidate H (ib_cols row) (next_epoch db aid) clock (ls_lease_seconds svc)
      (ls_lease_revision svc) = Inr l"
    using lease_create_candidate_returns [OF aok ck cfg(1,2) pos cfg(3) exp H] by auto
  note c = lease_create_candidate_eq_Inr [OF l]
  then have lad: "le_admission_id l = aid" "le_workspace_id l = ad_workspace_id (ib_cols row)"
    "le_environment l = ad_environment (ib_cols row)" "le_execution_epoch l = next_epoch db aid" "lease_ok H l"
    using rowin by (auto simp: lease_bound_to_iff)
  have ne: "lr_lease_id r \<noteq> le_lease_id l \<and> le_lease_digest (lr_cols r) \<noteq> le_lease_digest l \<and> lr_slot r \<noteq> (aid, next_epoch db aid)"
    if r: "r \<in> set (t_leases db)" for r
  proof -
    have "lease_ok H (lr_cols r)" using inv r by (auto simp: delivery_inv_def lease_inv_def list_all_iff lease_row_ok_def)
    moreover have slot: "lr_slot r \<noteq> (aid, next_epoch db aid)" by (rule next_slot_free [OF inv r])
    then have "(le_admission_id l, le_execution_epoch l) \<noteq> lr_slot r" using lad(1,4) by metis
    ultimately have "le_lease_id l \<noteq> lr_lease_id r \<and> le_lease_digest l \<noteq> le_lease_digest (lr_cols r)"
      by (intro leases_differ [OF lad(5) _ distinct [OF l r]])
    then show ?thesis using slot by fastforce
  qed
  let ?db1 = "db\<lparr>t_leases := t_leases db @ [lease_row_of l clock]\<rparr>"
  have ins: "insert_lease db (lease_row_of l clock) = Inr ?db1"
    by (rule insert_lease_returns [where row = row and H = H])
      (use c lad ws env rowin ne in \<open>auto simp: key_free_iff\<close>)
  have pre: "require_digest ''admission_id'' (JStr aid) = Inr aid"
      "decode_admission H ''ADMISSION_ROW_INVALID'' row = Inr (ib_cols row)"
    using dg rok by (simp_all add: require_digest_eq_Inr decode_admission_iff)
  have leased: "es_current_lease_id s \<noteq> le_lease_id l \<and> es_current_lease_digest s \<noteq> le_lease_digest l"
    if "s \<in> set (t_epochs db)" for s
    using ne inv that by (fastforce simp: delivery_inv_def epochs_inv_def epoch_ok_def matches_lease_iff)
  show ?thesis
  proof (cases "select es_admission_id aid (t_epochs db)")
    case None
    then have one: "next_epoch db aid = 1" by (simp add: next_epoch_def)
    have "\<exists>db'. insert_epoch_state ?db1 (first_epoch_state (ib_cols row) l (ls_authority_revision svc)
        (ck_observed_at clock)) = Inr db'"
      using insert_first_state_returns [of H l "ib_cols row" row ?db1 "lease_row_of l clock" "ls_authority_revision svc"
          "ck_observed_at clock"] c aok rowin leased ws env cfg None lad(4) one
      by (simp add: lease_row_of_def select_None_iff) (simp add: key_free_iff)
    moreover have "previous_lease H svc db (ib_cols row) clock = Inr None" "assert_next_execution_epoch None 1 = Inr ()"
      using None rowin by (simp_all add: previous_lease_None assert_next_execution_epoch_iff)
    ultimately show ?thesis
      unfolding acquire_def using row pre clock l ins one lad by auto
  next
    case (Some s)
    note st = state [OF Some] and op = free [OF Some]
    have epoch: "next_epoch db aid = es_current_epoch s + 1" using Some by (simp add: next_epoch_def)
    obtain prow where prow: "prow \<in> set (t_leases db)" "assert_state_matches_lease s (lr_cols prow) = Inr ()"
      and prev: "previous_lease H svc db (ib_cols row) clock = Inr (Some (es_current_epoch s, lr_cols prow))"
      and late: "es_current_lease_expires_at s \<le> ck_observed_at clock"
      using previous_lease_returns [OF inv bound row Some, of svc clock] op env(2) by blast
    have check: "state_check s" "state_admission_binding db s" using bound st by (auto simp: rows_bound_def)
    then obtain a where "a \<in> set (t_inbox db)" "ib_admission_id a = aid" "es_workspace_id s = ad_workspace_id (ib_cols a)"
      using st by (auto simp: state_admission_binding_def list_ex_iff Let_def)
    then have sws: "es_workspace_id s \<in> set (t_workspaces db)" using bound by (auto simp: rows_bound_def)
    have "\<exists>db'. update_epoch_state ?db1 (state_selected (es_admission_id s) (le_execution_epoch (lr_cols prow))
        (le_lease_id (lr_cols prow)) (le_lease_digest (lr_cols prow))) (reacquired l (ck_observed_at clock)) = Inr (True, db')"
      by (rule update_reacquired_returns [where r = "lease_row_of l clock" and H = H])
        (use st op check sws rowin prow(2) lad epoch late env(2) leased inv in
          \<open>auto simp: time_ok_nonempty lease_row_of_def delivery_inv_def epochs_inv_def\<close>)
    moreover have "assert_next_execution_epoch (Some (es_current_epoch s)) (es_current_epoch s + 1) = Inr ()"
      using st by (simp add: assert_next_execution_epoch_iff)
    ultimately show ?thesis
      unfolding acquire_def using row pre clock l ins epoch prev st lad rowin by (auto simp: guardE_def)
  qed
qed

end
