(* ===== verification/Delivery_Witness.thy ===== *)
theory Delivery_Witness
  imports Grant_Lifecycle Delivery_Progress Witness_Values
begin

text \<open>
  A concrete run of the delivery chain, used to show that the hypotheses of the delivery theorems
  can hold: the intent of a consumed grant is admitted, its epoch 1 is leased for a minute and either completed or,
  after expiry, superseded by epoch 2.  The digest function is a small total one: it gives one value
  to the texts of the second lease and another to every other text.
\<close>

definition wit_lease :: "string \<Rightarrow> int \<Rightarrow> string \<Rightarrow> string \<Rightarrow> lease" where
  "wit_lease d epoch acquired expires =
     \<lparr>le_lease_id = d, le_dispatch_id = zeros, le_admission_id = zeros, le_admission_digest = zeros,
      le_execution_id = ''x1'', le_workspace_id = ''w1'', le_environment = ''local'',
      le_execution_capsule_digest = zeros, le_runner_class = ''runner'', le_execution_epoch = epoch,
      le_acquired_at = acquired, le_expires_at = expires, le_clock_witness_digest = zeros,
      le_lease_revision = ''v1'', le_lease_digest = d\<rparr>"

definition wit_lease1 :: lease where
  "wit_lease1 = wit_lease zeros 1 (wit_at 0 0) (wit_at 1 0)"

definition wit_lease2 :: lease where
  "wit_lease2 = wit_lease ones 2 (wit_at 2 0) (wit_at 3 0)"

definition wit_id2 :: "(string \<times> json) list" where
  "wit_id2 = [(''identity_type'', JStr ''execution-lease-id/v1''), (''admission_id'', JStr zeros),
     (''execution_epoch'', JInt 2)]"

definition wit_hash :: "string \<Rightarrow> string" where
  "wit_hash s = (if s = claims_text wit_id2 \<or> s = claims_text (lease_claims wit_lease2) then ones else zeros)"

definition wit_entry :: outbox_entry where
  "wit_entry =
     \<lparr>ox_outbox_id = ''o1'', ox_consumption_id = ''c1'', ox_consumption_witness_digest = zeros,
      ox_jti = ''j1'', ox_grant_id = ''g1'', ox_grant_digest = zeros, ox_execution_id = ''x1'',
      ox_request_id = ''r1'', ox_actor_id = ''alice'', ox_workspace_id = ''w1'', ox_environment = ''local'',
      ox_capability = ''cap/v1'', ox_capability_definition_identity = zeros,
      ox_authorization_snapshot_digest = zeros, ox_target_kind = ''repo'', ox_target_digest = zeros,
      ox_payload_digest = zeros, ox_required_permission = ''execution.run'',
      ox_execution_binding_digest = zeros, ox_execution_capsule_digest = zeros,
      ox_runner_class = ''runner'', ox_precondition_enforcement_class = ''READ_THEN_COMPARE'',
      ox_use_semantics = ''ONE_TIME'', ox_created_at = wit_at 0 0,
      ox_outbox_revision = ''v1'', ox_entry_digest = zeros\<rparr>"

definition wit_env :: "string \<Rightarrow> string \<Rightarrow> envelope" where
  "wit_env d rv =
     \<lparr>ev_dispatch_id = zeros, ev_outbox_id = ''o1'', ev_outbox_entry_digest = zeros,
      ev_consumption_id = ''c1'', ev_consumption_witness_digest = zeros, ev_jti = ''j1'',
      ev_grant_id = ''g1'', ev_grant_digest = zeros, ev_execution_id = ''x1'', ev_request_id = ''r1'',
      ev_actor_id = ''alice'', ev_workspace_id = ''w1'', ev_environment = ''local'',
      ev_capability = ''cap/v1'', ev_capability_definition_identity = zeros,
      ev_authorization_snapshot_digest = zeros, ev_target_kind = ''repo'', ev_target_digest = zeros,
      ev_payload_digest = zeros, ev_required_permission = ''execution.run'',
      ev_execution_binding_digest = zeros, ev_execution_capsule_digest = zeros,
      ev_runner_class = ''runner'', ev_precondition_enforcement_class = ''READ_THEN_COMPARE'',
      ev_use_semantics = ''ONE_TIME'', ev_outbox_created_at = wit_at 0 0,
      ev_outbox_revision = ''v1'', ev_delivery_semantics = delivery_semantics,
      ev_envelope_revision = rv, ev_envelope_digest = d\<rparr>"

definition wit_adm :: admission where
  "wit_adm =
     \<lparr>ad_admission_id = zeros, ad_dispatch_id = zeros, ad_envelope_digest = zeros, ad_outbox_id = ''o1'',
      ad_outbox_entry_digest = zeros, ad_execution_id = ''x1'', ad_workspace_id = ''w1'',
      ad_environment = ''local'', ad_execution_capsule_digest = zeros, ad_runner_class = ''runner'',
      ad_admission_revision = ''v1'', ad_admission_digest = zeros\<rparr>"

definition wit_svc :: lease_service where
  "wit_svc = \<lparr>ls_clock = \<lparr>ca_source_identity = ''clock'', ca_authority_revision = ''v1'',
       ca_allowed_environments = [''local'']\<rparr>,
     ls_lease_seconds = 60, ls_lease_revision = ''v1'', ls_authority_revision = ''v1''\<rparr>"

definition wit_clock :: "string \<Rightarrow> clock_witness" where
  "wit_clock now = \<lparr>ck_source_identity = ''clock'', ck_authority_revision = ''v1'', ck_environment = ''local'',
     ck_observed_at = now, ck_witness_digest = zeros\<rparr>"

definition wit_outbox_row :: outbox_row where
  "wit_outbox_row = \<lparr>ob_cols = wit_entry, ob_entry_json = canonical_json (JObj (outbox_entry_to_dict wit_entry))\<rparr>"

definition wit_grant :: execution_grant where
  "wit_grant =
     \<lparr>gr_grant_id = ''g1'', gr_jti = ''j1'', gr_execution_id = ''x1'', gr_request_id = ''r1'',
      gr_authorization_snapshot_digest = zeros, gr_snapshot_authority_witness_set_digest = zeros,
      gr_snapshot_authority_event_hash = zeros, gr_parent_scope_digest = zeros,
      gr_authority_constraint_digest = zeros, gr_monotonic_authority_decision_digest = zeros,
      gr_actor_id = ''alice'', gr_workspace_id = ''w1'', gr_environment = ''local'',
      gr_capability = ''cap/v1'', gr_capability_definition_identity = zeros,
      gr_target_kind = ''repo'', gr_target_digest = zeros, gr_payload_digest = zeros,
      gr_policy_version = ''v1'', gr_policy_identity = zeros, gr_approval_set_digest = zeros,
      gr_required_permission = ''execution.run'', gr_precondition_requirement_digest = zeros,
      gr_precondition_expectation_digest = zeros, gr_precondition_observation_digest = zeros,
      gr_precondition_witness_digest = zeros,
      gr_precondition_enforcement_class = ''READ_THEN_COMPARE'',
      gr_precondition_checked_at = wit_at 0 0, gr_execution_binding_digest = zeros,
      gr_execution_capsule_digest = zeros, gr_runner_class = ''runner'',
      gr_execution_binding_authority_revision = ''v1'', gr_issued_at = wit_at 0 0,
      gr_expires_at = wit_at 1 0, gr_revocation_epoch = 0, gr_use_semantics = ''ONE_TIME'',
      gr_issuer_identity = ''issuer'', gr_issuer_revision = ''v1'', gr_grant_digest = zeros\<rparr>"

definition wit_conformance :: conformance_witness where
  "wit_conformance =
     \<lparr>cw_grant_digest = zeros, cw_execution_binding_digest = zeros, cw_execution_capsule_digest = zeros,
      cw_capability_definition_identity = zeros, cw_capability_activation_digest = zeros,
      cw_capsule_activation_digest = zeros, cw_handler_conformance_evidence_digest = zeros,
      cw_target_kind = ''repo'', cw_runner_class = ''runner'', cw_handler_id = ''handler'',
      cw_handler_digest = zeros, cw_credential_class = ''none'',
      cw_precondition_enforcement_class = ''READ_THEN_COMPARE'', cw_verification_contract_identity = zeros,
      cw_atomic_provider_condition_contract_identity = None, cw_conformance_authority_revision = ''v1'',
      cw_witness_digest = zeros\<rparr>"

definition wit_consumption :: consumption_witness where
  "wit_consumption =
     \<lparr>gc_consumption_id = ''c1'', gc_jti = ''j1'', gc_grant_id = ''g1'', gc_grant_digest = zeros,
      gc_execution_id = ''x1'', gc_authorization_snapshot_digest = zeros,
      gc_execution_capsule_digest = zeros, gc_runner_class = ''runner'',
      gc_conformance_witness_digest = zeros, gc_clock_witness_digest = zeros,
      gc_live_revocation_epoch = 0, gc_consumed_at = wit_at 0 0,
      gc_serialization_contract = ''sqlite-begin-immediate/v1'', gc_authority_revision = ''v1'',
      gc_witness_digest = zeros\<rparr>"

definition wit_grant_row :: grant_row where
  "wit_grant_row = grant_row_of wit_grant wit_conformance (wit_clock (wit_at 0 0)) 0 ''v1''"

definition wit_consumption_row :: consumption_row where
  "wit_consumption_row = consumption_row_of wit_grant wit_conformance (wit_clock (wit_at 0 0)) wit_consumption"

definition wit_snapshot :: snapshot_ref where
  "wit_snapshot = \<lparr>sr_snapshot_digest = zeros, sr_execution_id = ''x1'', sr_request_id = ''r1'',
     sr_workspace_id = ''w1'', sr_environment = ''local''\<rparr>"

text \<open>The database right after the hand-off of the grant to the outbox.\<close>

definition wit_db0 :: trust_db where
  "wit_db0 = \<lparr>t_workspaces = [''w1''], t_users = [''alice''], t_requests = [''r1''], t_snapshots = [wit_snapshot],
     t_grants = [wit_grant_row], t_consumptions = [wit_consumption_row], t_outbox = [wit_outbox_row], t_inbox = [], t_leases = [], t_epochs = []\<rparr>"

definition wit_db1 :: trust_db where
  "wit_db1 = wit_db0\<lparr>t_inbox := [inbox_row_of wit_adm]\<rparr>"

definition wit_state1 :: epoch_state where
  "wit_state1 = first_epoch_state wit_adm wit_lease1 ''v1'' (wit_at 0 0)"

definition wit_row1 :: lease_row where
  "wit_row1 = lease_row_of wit_lease1 (wit_clock (wit_at 0 0))"

definition wit_row2 :: lease_row where
  "wit_row2 = lease_row_of wit_lease2 (wit_clock (wit_at 2 0))"

definition wit_db2 :: trust_db where
  "wit_db2 = wit_db1\<lparr>t_leases := [wit_row1], t_epochs := [wit_state1]\<rparr>"

definition wit_db3 :: trust_db where
  "wit_db3 = wit_db2\<lparr>t_epochs := [completed_with ones (wit_clock (wit_at 0 30)) wit_state1]\<rparr>"

definition wit_db4 :: trust_db where
  "wit_db4 = wit_db2\<lparr>t_leases := [wit_row1, wit_row2],
     t_epochs := [reacquired wit_lease2 (wit_at 2 0) wit_state1]\<rparr>"

subsection \<open>Values of the checks\<close>

lemma wit_digest_checks [simp]: "digest_check zeros" "digest_check ones"
  using wit_digests(1,2) by (simp_all add: digest_check_def digest_ok_def)

lemma wit_semantics [simp]: "text_ok delivery_semantics"
  by code_simp

lemma wit_hash_zeros:
  assumes "flat xs" and "(''execution_epoch'', JInt 2) \<notin> set xs"
  shows "claims_digest wit_hash xs = zeros"
proof -
  have f: "flat wit_id2" by (simp add: flat_def wit_id2_def)
  have "(''execution_epoch'', JInt 2) \<in> set wit_id2" by (simp add: wit_id2_def)
  then have "claims_text xs \<noteq> claims_text wit_id2" using claims_text_set [OF assms(1) f] assms(2) by blast
  moreover have "(''execution_epoch'', JInt 2) \<in> set (lease_claims wit_lease2)"
    by (simp add: lease_claims_def wit_lease2_def wit_lease_def)
  then have "claims_text xs \<noteq> claims_text (lease_claims wit_lease2)"
    using claims_text_set [OF assms(1) lease.flat_claims] assms(2) by blast
  ultimately show ?thesis by (simp add: claims_digest_def wit_hash_def)
qed

lemma wit_hash_digests [simp]: "digest_ok (wit_hash s)" "digest_ok (claims_digest wit_hash xs)"
  by (simp_all add: claims_digest_def wit_hash_def)

lemma wit_dispatch_id [simp]: "dispatch_id_of wit_hash a b = zeros"
  unfolding dispatch_id_of_def by (rule wit_hash_zeros) (simp_all add: flat_def)

lemma wit_admission_id [simp]: "admission_id_of wit_hash a b c = zeros"
  unfolding admission_id_of_def by (rule wit_hash_zeros) (simp_all add: flat_def)

lemma wit_lease_id [simp]: "lease_id_of wit_hash a 1 = zeros" "lease_id_of wit_hash zeros 2 = ones"
proof -
  show "lease_id_of wit_hash a 1 = zeros"
    unfolding lease_id_of_def by (rule wit_hash_zeros) (simp_all add: flat_def)
  show "lease_id_of wit_hash zeros 2 = ones"
    by (simp add: lease_id_of_def claims_digest_def wit_hash_def wit_id2_def)
qed

lemma wit_clock_digest [simp]: "claims_digest wit_hash (clock_witness_claims w) = zeros"
  by (rule wit_hash_zeros [OF clock.flat_claims]) (simp add: clock_witness_claims_def)

lemma wit_entry_ok: "outbox_entry_ok wit_hash wit_entry"
proof -
  have "claims_digest wit_hash (outbox_entry_claims wit_entry) = zeros"
    by (rule wit_hash_zeros [OF outbox.flat_claims]) (simp add: outbox_entry_claims_def)
  then show ?thesis by (simp add: outbox_entry_ok_def wit_entry_def)
qed

lemma wit_adm_digest [simp]: "claims_digest wit_hash (admission_claims a) = zeros"
  by (rule wit_hash_zeros [OF admission.flat_claims]) (simp add: admission_claims_def)

lemma wit_adm_ok: "admission_ok wit_hash wit_adm"
  by (simp add: admission_ok_def wit_adm_digest) (simp add: wit_adm_def)

lemma wit_lease1_ok: "lease_ok wit_hash wit_lease1"
proof -
  have "claims_digest wit_hash (lease_claims wit_lease1) = zeros"
    by (rule wit_hash_zeros [OF lease.flat_claims]) (simp add: lease_claims_def wit_lease1_def wit_lease_def)
  then show ?thesis by (simp add: lease_ok_def) (simp add: wit_lease1_def wit_lease_def seconds_def max_lease_seconds_def)
qed

lemma wit_lease2_ok: "lease_ok wit_hash wit_lease2"
proof -
  have "claims_digest wit_hash (lease_claims wit_lease2) = ones" by (simp add: claims_digest_def wit_hash_def)
  then show ?thesis by (simp add: lease_ok_def) (simp add: wit_lease2_def wit_lease_def seconds_def max_lease_seconds_def)
qed

lemma wit_env_bound [simp]: "envelope_bound_to wit_hash (wit_env d rv) wit_entry = Inr ()"
  by (simp add: envelope_bound_to_def outbox_projection_def wit_env_def wit_entry_def guardE_def)

subsection \<open>The run\<close>

lemma wit_admission_created: "admission_create wit_hash (wit_env zeros ''v1'') wit_entry ''v1'' = Inr wit_adm"
proof -
  have "admission_init wit_hash (item (admission.dict wit_adm)) = Inr wit_adm"
    using wit_adm_ok by (simp add: admission.init_dict_iff)
  moreover have "wit_adm = \<lparr>ad_admission_id = zeros, ad_dispatch_id = ev_dispatch_id (wit_env zeros ''v1''),
      ad_envelope_digest = ev_envelope_digest (wit_env zeros ''v1''), ad_outbox_id = ox_outbox_id wit_entry,
      ad_outbox_entry_digest = ox_entry_digest wit_entry, ad_execution_id = ox_execution_id wit_entry,
      ad_workspace_id = ox_workspace_id wit_entry, ad_environment = ox_environment wit_entry,
      ad_execution_capsule_digest = ox_execution_capsule_digest wit_entry,
      ad_runner_class = ox_runner_class wit_entry, ad_admission_revision = ''v1'', ad_admission_digest = zeros\<rparr>"
    by (simp add: wit_adm_def wit_env_def wit_entry_def)
  ultimately show ?thesis
    by (simp add: admission_create_def Let_def admission_dict_eq require_text_def)
qed

lemma wit_outbox_decodes: "inbox_decode_outbox wit_hash wit_outbox_row = Inr wit_entry"
  using wit_entry_ok by (simp add: inbox_decode_outbox_iff outbox_row_ok_def wit_outbox_row_def)

lemma wit_insert_inbox: "insert_inbox wit_db0 (inbox_row_of wit_adm) = Inr wit_db1"
  by (simp add: insert_inbox_def Let_def inbox_row_of_def guardE_def wit_db1_def wit_db0_def wit_outbox_row_def
      key_free_def environment_check_def nonempty_check_def admission_to_dict_def canonical_object_check)
    (simp add: wit_adm_def wit_entry_def)

lemma wit_admit: "admit wit_hash ''v1'' wit_db0 (wit_env zeros ''v1'') = Inr ((''ADMITTED'', wit_adm), wit_db1)"
proof -
  have "select ob_outbox_id (ev_outbox_id (wit_env zeros ''v1'')) (t_outbox wit_db0) = Some wit_outbox_row"
    by (simp add: wit_db0_def wit_outbox_row_def wit_entry_def wit_env_def)
  moreover have "select ib_dispatch_id (ev_dispatch_id (wit_env zeros ''v1'')) (t_inbox wit_db0) = None"
    by (simp add: wit_db0_def select_def)
  ultimately show ?thesis
    by (simp add: admit_def wit_outbox_decodes wit_admission_created wit_insert_inbox)
qed

lemma wit_first_epoch: "first_epoch_digest wit_hash"
  using wit_hash_zeros by (simp add: first_epoch_digest_def)

lemma wit_clock_reading:
  assumes R: "first_epoch_digest H" and "m < 60" and "s < 60"
  shows "clock_authority_witness H (ls_clock wit_svc) (AwareTime (wit_time m s)) ''local''
     = Inr (wit_clock (wit_at m s))"
proof -
  have d: "claims_digest H (clock_witness_claims w) = zeros" for w
    by (rule first_epoch_zeros [OF R clock.flat_claims]) (simp add: clock_witness_claims_def)
  have "clock_witness_ok H (wit_clock (wit_at m s))"
    using assms by (simp add: clock_witness_ok_def d) (simp add: wit_clock_def valid_environments_def)
  then have "clock_witness_init H (wit_clock (wit_at m s)) = Inr (wit_clock (wit_at m s))"
    by (simp add: clock_witness_init_iff)
  then show ?thesis
    by (simp add: clock_authority_witness_def clock_witness_create_def wit_svc_def valid_environments_def
        guardE_def Let_def d wit_at_def [symmetric]) (simp add: wit_clock_def)
qed

lemmas wit_clock_witness = wit_clock_reading [OF wit_first_epoch]

lemma wit_row_decodes: "decode_admission wit_hash reason (inbox_row_of wit_adm) = Inr wit_adm"
  using wit_adm_ok by (simp add: decode_admission_iff inbox_row_ok_def inbox_row_of_def)

lemma wit_candidate:
  assumes ok: "lease_ok wit_hash (wit_lease d e (wit_at m 0) (wit_at (Suc m) 0))" and m: "m < 59" and e: "1 \<le> e"
    and id: "lease_id_of wit_hash zeros e = d"
  shows "lease_create_candidate wit_hash wit_adm e (wit_clock (wit_at m 0)) 60 ''v1''
     = Inr (wit_lease d e (wit_at m 0) (wit_at (Suc m) 0))"
proof -
  let ?l = "wit_lease d e (wit_at m 0) (wit_at (Suc m) 0)"
  let ?c = "candidate_lease wit_hash wit_adm e (wit_time m 0) (wit_time (Suc m) 0)
      (ck_witness_digest (wit_clock (wit_at m 0))) ''v1''"
  have c: "?c = ?l\<lparr>le_lease_digest := []\<rparr>"
    using id by (simp add: candidate_lease_def wit_lease_def wit_adm_def wit_clock_def wit_at_def)
  have "claims_digest wit_hash (lease_claims ?l) = le_lease_digest ?l"
    using ok by (simp add: lease_ok_def)
  then have seal: "?c\<lparr>le_lease_digest := claims_digest wit_hash (lease_claims ?c)\<rparr> = ?l"
    unfolding c lease_claims_seal by (simp add: wit_lease_def)
  have "lease_create_candidate wit_hash wit_adm e (wit_clock (wit_at m 0)) 60 ''v1''
      = Inr (?c\<lparr>le_lease_digest := claims_digest wit_hash (lease_claims ?c)\<rparr>)"
  proof (rule lease_create_candidate_eqI)
    show "lease_ok wit_hash (?c\<lparr>le_lease_digest := claims_digest wit_hash (lease_claims ?c)\<rparr>)"
      unfolding seal by (rule ok)
  qed (use m e in \<open>simp_all add: wit_clock_def wit_adm_def max_lease_seconds_def\<close>)
  then show ?thesis unfolding seal .
qed

lemma wit_candidate1:
  "lease_create_candidate wit_hash wit_adm 1 (wit_clock (wit_at 0 0)) 60 ''v1'' = Inr wit_lease1"
  using wit_candidate [of zeros 1 0] wit_lease1_ok by (simp add: wit_lease1_def)

lemma wit_candidate2:
  "lease_create_candidate wit_hash wit_adm 2 (wit_clock (wit_at 2 0)) 60 ''v1'' = Inr wit_lease2"
  using wit_candidate [of ones 2 2] wit_lease2_ok by (simp add: wit_lease2_def eval_nat_numeral)

lemma wit_bounds: "lease_bound_to wit_lease1 wit_adm = Inr ()" "lease_bound_to wit_lease2 wit_adm = Inr ()"
  by (simp_all add: lease_bound_to_iff wit_lease1_def wit_lease2_def wit_lease_def wit_adm_def)

lemma wit_rows_ok: "lease_row_ok wit_hash wit_row1" "lease_row_ok wit_hash wit_row2"
  unfolding wit_row1_def wit_row2_def using wit_lease1_ok wit_lease2_ok
  by (auto intro!: lease_row_of_ok simp: wit_clock_def wit_lease1_def wit_lease2_def wit_lease_def)

lemma wit_acquire1:
  "acquire wit_hash wit_svc wit_db1 (AwareTime (wit_time 0 0)) zeros = Inr ((''LEASE_ACQUIRED'', wit_lease1), wit_db2)"
proof -
  let ?db = "wit_db1\<lparr>t_leases := [wit_row1]\<rparr>"
  have ins: "insert_lease wit_db1 wit_row1 = Inr ?db"
    unfolding wit_row1_def
    by (subst insert_lease_returns [where row = "inbox_row_of wit_adm" and H = wit_hash])
      (use wit_lease1_ok wit_bounds in \<open>simp_all add: wit_db1_def wit_db0_def inbox_row_of_def key_free_def
        wit_lease1_def wit_lease_def valid_environments_def\<close>)
  have st: "insert_epoch_state ?db wit_state1 = Inr wit_db2"
    unfolding wit_state1_def
    by (subst insert_first_state_returns [where row = "inbox_row_of wit_adm" and r = wit_row1 and H = wit_hash])
      (use wit_lease1_ok wit_bounds wit_adm_ok in \<open>simp_all add: wit_db1_def wit_db0_def wit_db2_def inbox_row_of_def
        key_free_def wit_row1_def lease_row_of_def wit_state1_def\<close>,
       simp_all add: wit_lease1_def wit_lease_def wit_adm_def valid_environments_def)
  have "previous_lease wit_hash wit_svc wit_db1 wit_adm (wit_clock (wit_at 0 0)) = Inr None"
    by (simp add: previous_lease_None wit_db1_def wit_db0_def select_def)
  moreover have "select ib_admission_id zeros (t_inbox wit_db1) = Some (inbox_row_of wit_adm)"
    by (simp add: wit_db1_def inbox_row_of_def wit_adm_def)
  moreover have "assert_next_execution_epoch None 1 = Inr ()" by (simp add: assert_next_execution_epoch_iff)
  moreover have "ad_environment wit_adm = ''local''" by (simp add: wit_adm_def)
  moreover have "ls_lease_seconds wit_svc = 60" "ls_lease_revision wit_svc = ''v1''" "ls_authority_revision wit_svc = ''v1''"
    "ck_observed_at (wit_clock (wit_at 0 0)) = wit_at 0 0" by (simp_all add: wit_svc_def wit_clock_def)
  moreover have "require_digest ''admission_id'' (JStr zeros) = Inr zeros" by (simp add: require_digest_eq_Inr)
  ultimately show ?thesis
    using ins st unfolding acquire_def wit_row1_def wit_state1_def
    by (simp add: wit_row_decodes wit_clock_witness wit_candidate1)
qed

lemma wit_state1_simps [simp]:
  "es_admission_id wit_state1 = zeros" "es_status wit_state1 = ''ACTIVE''" "es_current_epoch wit_state1 = 1"
  "es_current_lease_id wit_state1 = zeros" "es_current_lease_digest wit_state1 = zeros"
  "es_current_lease_acquired_at wit_state1 = wit_at 0 0" "es_current_lease_expires_at wit_state1 = wit_at 1 0"
  by (simp_all add: wit_state1_def first_epoch_state_def wit_adm_def wit_lease1_def wit_lease_def)

lemma wit_db2_simps [simp]:
  "t_workspaces wit_db2 = [''w1'']" "t_inbox wit_db2 = [inbox_row_of wit_adm]" "t_leases wit_db2 = [wit_row1]"
  "t_epochs wit_db2 = [wit_state1]"
  by (simp_all add: wit_db2_def wit_db1_def wit_db0_def)

lemma wit_row_cols [simp]: "lr_cols wit_row1 = wit_lease1" "lr_cols wit_row2 = wit_lease2"
  by (simp_all add: wit_row1_def wit_row2_def lease_row_of_def)

lemma wit_lease_simps [simp]:
  "le_lease_id wit_lease1 = zeros" "le_lease_digest wit_lease1 = zeros" "le_execution_epoch wit_lease1 = 1"
  "le_acquired_at wit_lease1 = wit_at 0 0" "le_expires_at wit_lease1 = wit_at 1 0"
  "le_admission_id wit_lease1 = zeros" "le_environment wit_lease1 = ''local''"
  "le_lease_id wit_lease2 = ones" "le_lease_digest wit_lease2 = ones" "le_execution_epoch wit_lease2 = 2"
  "le_acquired_at wit_lease2 = wit_at 2 0" "le_expires_at wit_lease2 = wit_at 3 0"
  "le_admission_id wit_lease2 = zeros" "le_environment wit_lease2 = ''local''"
  by (simp_all add: wit_lease1_def wit_lease2_def wit_lease_def)

lemma wit_state_bound [simp]: "assert_state_bound wit_svc wit_state1 wit_adm = Inr ()"
  by (simp add: assert_state_bound_def guardE_def)
    (simp add: wit_state1_def first_epoch_state_def wit_adm_def wit_svc_def wit_lease1_def wit_lease_def)

lemma wit_adm_simps [simp]:
  "ad_admission_id wit_adm = zeros" "ad_environment wit_adm = ''local''" "ad_workspace_id wit_adm = ''w1''"
  "ib_cols (inbox_row_of wit_adm) = wit_adm"
  by (simp_all add: wit_adm_def inbox_row_of_def)

lemma wit_previous:
  "previous_lease wit_hash wit_svc wit_db2 wit_adm (wit_clock (wit_at 2 0)) = Inr (Some (1, wit_lease1))"
proof -
  have "decode_lease wit_hash wit_row1 = Inr wit_lease1"
    using wit_rows_ok by (simp add: decode_lease_iff)
  then have "load_lease wit_hash wit_db2 zeros wit_adm = Inr wit_lease1"
    using wit_bounds by (simp add: load_lease_def)
  then show ?thesis
    by (simp add: previous_lease_def assert_state_matches_lease_def guardE_def wit_clock_def)
qed

lemma wit_acquire2:
  "acquire wit_hash wit_svc wit_db2 (AwareTime (wit_time 2 0)) zeros = Inr ((''LEASE_REACQUIRED'', wit_lease2), wit_db4)"
proof -
  let ?db = "wit_db2\<lparr>t_leases := [wit_row1, wit_row2]\<rparr>" and ?f = "reacquired wit_lease2 (wit_at 2 0)"
  have ins: "insert_lease wit_db2 (lease_row_of wit_lease2 (wit_clock (wit_at 2 0))) = Inr ?db"
    by (subst insert_lease_returns [where row = "inbox_row_of wit_adm" and H = wit_hash])
      (use wit_lease2_ok wit_bounds in \<open>simp_all add: key_free_def wit_row2_def valid_environments_def\<close>,
       simp add: wit_lease2_def wit_lease_def)
  have new: "es_admission_id (?f wit_state1) = zeros" "es_status (?f wit_state1) = ''ACTIVE''"
      "es_current_epoch (?f wit_state1) = 2" "es_current_lease_id (?f wit_state1) = ones"
      "es_current_lease_digest (?f wit_state1) = ones" "es_current_lease_acquired_at (?f wit_state1) = wit_at 2 0"
      "es_current_lease_expires_at (?f wit_state1) = wit_at 3 0" "es_updated_at (?f wit_state1) = wit_at 2 0"
    by (simp_all add: reacquired_def)
  have keep: "es_admission_digest (?f s) = es_admission_digest s" "es_execution_id (?f s) = es_execution_id s"
      "es_workspace_id (?f s) = es_workspace_id s" "es_environment (?f s) = es_environment s"
      "es_execution_capsule_digest (?f s) = es_execution_capsule_digest s" "es_runner_class (?f s) = es_runner_class s"
      "es_authority_revision (?f s) = es_authority_revision s" "es_completion_digest (?f s) = es_completion_digest s"
      "es_completed_at (?f s) = es_completed_at s"
      "es_completion_clock_witness_digest (?f s) = es_completion_clock_witness_digest s"
      "es_completion_clock_witness_json (?f s) = es_completion_clock_witness_json s" for s
    by (simp_all add: reacquired_def)
  have old: "es_completion_digest wit_state1 = None" "es_completed_at wit_state1 = None"
      "es_completion_clock_witness_digest wit_state1 = None" "es_completion_clock_witness_json wit_state1 = None"
      "es_workspace_id wit_state1 = ''w1''" "es_environment wit_state1 = ''local''" "es_admission_digest wit_state1 = zeros"
      "es_execution_id wit_state1 = ''x1''" "es_execution_capsule_digest wit_state1 = zeros"
      "es_runner_class wit_state1 = ''runner''" "es_authority_revision wit_state1 = ''v1''"
    by (simp_all add: wit_state1_def first_epoch_state_def wit_adm_def)
  have "current_lease_exists ?db (?f wit_state1)" by (simp add: current_lease_exists_def Let_def new)
  then have upd: "update_epoch_state ?db (state_selected zeros 1 zeros zeros) ?f = Inr (True, wit_db4)"
    by (simp add: update_epoch_state_def state_selected_def update_guard_def reacquire_allowed_def new keep old
        state_check_def state_refs_def guardE_def Let_def environment_check_def nonempty_check_def update_where_def
        wit_db4_def key_free_def)
  have "select ib_admission_id zeros (t_inbox wit_db2) = Some (inbox_row_of wit_adm)" by simp
  moreover have "assert_next_execution_epoch (Some 1) 2 = Inr ()" by (simp add: assert_next_execution_epoch_iff)
  moreover have "ls_lease_seconds wit_svc = 60" "ls_lease_revision wit_svc = ''v1''"
    "ck_observed_at (wit_clock (wit_at 2 0)) = wit_at 2 0" by (simp_all add: wit_svc_def wit_clock_def)
  moreover have "require_digest ''admission_id'' (JStr zeros) = Inr zeros" by (simp add: require_digest_eq_Inr)
  ultimately show ?thesis
    using ins upd unfolding acquire_def
    by (simp add: wit_row_decodes wit_clock_witness wit_previous wit_candidate2 guardE_def)
qed

lemma wit_complete:
  "complete wit_hash wit_svc wit_db2 (AwareTime (wit_time 0 30)) zeros ones
     = Inr ((''COMPLETED'', wit_lease1, ones), wit_db3)"
proof -
  let ?ck = "wit_clock (wit_at 0 30)" and ?f = "completed_with ones (wit_clock (wit_at 0 30))"
  have ck: "ck_observed_at ?ck = wit_at 0 30" "ck_environment ?ck = ''local''" "ck_witness_digest ?ck = zeros"
    by (simp_all add: wit_clock_def)
  have "decode_lease wit_hash wit_row1 = Inr wit_lease1" using wit_rows_ok by (simp add: decode_lease_iff)
  then have tgt: "completion_target wit_hash wit_svc wit_db2 zeros = Inr (wit_lease1, wit_state1)"
    using wit_bounds by (simp add: completion_target_def wit_row_decodes)
  have fence: "lease_completion_fence wit_lease1 1 ?ck = Inr ''FENCE_CURRENT''"
    by (simp add: lease_completion_fence_iff [OF wit_lease1_ok] ck)
  have new: "es_admission_id (?f s) = es_admission_id s" "es_status (?f s) = ''COMPLETED''"
      "es_current_epoch (?f s) = es_current_epoch s" "es_current_lease_id (?f s) = es_current_lease_id s"
      "es_current_lease_digest (?f s) = es_current_lease_digest s"
      "es_current_lease_acquired_at (?f s) = es_current_lease_acquired_at s"
      "es_current_lease_expires_at (?f s) = es_current_lease_expires_at s" "es_updated_at (?f s) = wit_at 0 30"
      "es_admission_digest (?f s) = es_admission_digest s" "es_execution_id (?f s) = es_execution_id s"
      "es_workspace_id (?f s) = es_workspace_id s" "es_environment (?f s) = es_environment s"
      "es_execution_capsule_digest (?f s) = es_execution_capsule_digest s" "es_runner_class (?f s) = es_runner_class s"
      "es_authority_revision (?f s) = es_authority_revision s" "es_completion_digest (?f s) = Some ones"
      "es_completed_at (?f s) = Some (wit_at 0 30)" "es_completion_clock_witness_digest (?f s) = Some zeros"
      "es_completion_clock_witness_json (?f s) \<noteq> None" for s
    by (simp_all add: completed_with_def ck)
  have old: "es_workspace_id wit_state1 = ''w1''" "es_environment wit_state1 = ''local''" "es_admission_digest wit_state1 = zeros"
      "es_execution_id wit_state1 = ''x1''" "es_execution_capsule_digest wit_state1 = zeros"
      "es_runner_class wit_state1 = ''runner''" "es_authority_revision wit_state1 = ''v1''"
    by (simp_all add: wit_state1_def first_epoch_state_def wit_adm_def)
  have "completion_allowed wit_state1 (?f wit_state1)" using new by (simp add: completion_allowed_def)
  then have upd: "update_epoch_state wit_db2 (state_selected zeros 1 zeros zeros) ?f = Inr (True, wit_db3)"
    using new(19) [of wit_state1]
    by (simp add: update_epoch_state_def state_selected_def update_guard_def new old state_check_def state_refs_def
        guardE_def Let_def environment_check_def nonempty_check_def update_where_def wit_db3_def key_free_def)
  have "assert_state_matches_lease wit_state1 wit_lease1 = Inr ()" by (simp add: matches_lease_iff)
  moreover have "require_digest ''lease_id'' (JStr zeros) = Inr zeros"
    "require_digest ''completion_digest'' (JStr ones) = Inr ones" by (simp_all add: require_digest_eq_Inr)
  ultimately show ?thesis
    using tgt fence upd unfolding complete_def by (simp add: wit_clock_witness guardE_def)
qed

lemma wit_reachable:
  "delivery_reachable wit_hash wit_db1" "delivery_reachable wit_hash wit_db2"
  "delivery_reachable wit_hash wit_db3" "delivery_reachable wit_hash wit_db4"
proof -
  have "delivery_reachable wit_hash wit_db0"
    by (rule reach_start) (simp add: delivery_start_def wit_db0_def)
  then show 1: "delivery_reachable wit_hash wit_db1" using admit_step [OF wit_admit] reach_step by blast
  then show 2: "delivery_reachable wit_hash wit_db2" using acquire_step [OF wit_acquire1] reach_step by blast
  show "delivery_reachable wit_hash wit_db3" using 2 complete_step [OF wit_complete] reach_step by blast
  show "delivery_reachable wit_hash wit_db4" using 2 acquire_step [OF wit_acquire2] reach_step by blast
qed

subsection \<open>Witnesses\<close>

definition wit_done :: epoch_state where
  "wit_done = completed_with ones (wit_clock (wit_at 0 30)) wit_state1"

definition wit_next :: epoch_state where
  "wit_next = reacquired wit_lease2 (wit_at 2 0) wit_state1"

lemma wit_tables [simp]:
  "t_leases wit_db3 = [wit_row1]" "t_epochs wit_db3 = [wit_done]" "t_leases wit_db4 = [wit_row1, wit_row2]"
  "t_epochs wit_db4 = [wit_next]"
  by (simp_all add: wit_db3_def wit_db4_def wit_done_def wit_next_def)

lemma wit_states [simp]:
  "es_status wit_done = ''COMPLETED''" "es_completion_digest wit_done = Some ones" "es_admission_id wit_done = zeros"
  "es_admission_id wit_next = zeros" "es_current_epoch wit_next = 2"
  by (simp_all add: wit_done_def wit_next_def completed_with_def reacquired_def)

lemma wit_rows_differ [simp]: "wit_row1 \<noteq> wit_row2"
  by (metis wit_digests(3) wit_lease_simps(1,8) wit_row_cols)

theorem leases_never_overlap_witness:
  "delivery_reachable wit_hash wit_db4 \<and> {wit_row1, wit_row2} = set (t_leases wit_db4) \<and> wit_row1 \<noteq> wit_row2
     \<and> {instant_at (le_acquired_at (lr_cols wit_row1)) ..< instant_at (le_expires_at (lr_cols wit_row1))}
       \<inter> {instant_at (le_acquired_at (lr_cols wit_row2)) ..< instant_at (le_expires_at (lr_cols wit_row2))} = {}"
  using leases_never_overlap [OF wit_reachable(4), of wit_row1 wit_row2] wit_reachable(4) by simp

theorem epochs_consecutive_witness:
  "wit_next \<in> set (t_epochs wit_db4)
     \<and> le_execution_epoch ` lr_cols ` {r \<in> set (t_leases wit_db4). le_admission_id (lr_cols r) = es_admission_id wit_next}
       = {1..es_current_epoch wit_next}"
  using epochs_consecutive [OF wit_reachable(4), of wit_next] by simp

theorem stale_lease_cannot_complete_witness:
  "le_execution_epoch (lr_cols wit_row1) \<noteq> es_current_epoch wit_next
     \<and> (\<exists>e. complete wit_hash wit_svc wit_db4 (AwareTime (wit_time 0 30)) (le_lease_id (lr_cols wit_row1)) ones = Inl e)"
  using stale_lease_cannot_complete [OF wit_reachable(4), of wit_row1 wit_next wit_svc "AwareTime (wit_time 0 30)" ones]
  by simp

theorem completion_final_witness:
  "(delivery_step wit_hash)\<^sup>*\<^sup>* wit_db3 wit_db3 \<and> wit_done \<in> set (t_epochs wit_db3)
     \<and> {s' \<in> set (t_epochs wit_db3). es_admission_id s' = es_admission_id wit_done} = {wit_done}"
  using completion_final [OF wit_reachable(3), of wit_done wit_db3] by auto

theorem completion_idempotent_witness:
  "complete wit_hash wit_svc wit_db2 (AwareTime (wit_time 0 30)) zeros ones = Inr ((''COMPLETED'', wit_lease1, ones), wit_db3)
     \<and> complete wit_hash wit_svc wit_db3 (AwareTime (wit_time 2 0)) zeros ones
       = Inr ((''DUPLICATE_COMPLETION'', wit_lease1, ones), wit_db3)
     \<and> complete wit_hash wit_svc wit_db3 NaiveTime zeros zeros = Inl (CompletionConflict ''COMPLETION_DIGEST_CONFLICT'')"
  using wit_complete completion_idempotent [OF wit_reachable(2) wit_complete, of ones "AwareTime (wit_time 2 0)"]
    completion_idempotent [OF wit_reachable(2) wit_complete, of zeros NaiveTime] by simp

theorem acquire_refines_abstract_witness:
  "acquire wit_hash wit_svc wit_db2 (AwareTime (wit_time 2 0)) zeros = Inr ((''LEASE_REACQUIRED'', wit_lease2), wit_db4)
     \<and> abs_acquire zeros (instant (trunc_ms (wit_time 2 0))) (seconds (ls_lease_seconds wit_svc)) (abs_epochs wit_db2)
       = Some (abs_epochs wit_db4)"
  using wit_acquire2 acquire_refines_abstract [OF wit_reachable(2) _ wit_acquire2] by simp

theorem admit_conflict_refused_witness:
  "envelope_bound_to wit_hash (wit_env ones ''v2'') wit_entry = Inr ()
     \<and> admit wit_hash ''v1'' wit_db1 (wit_env ones ''v2'') = Inl (ContentConflict ''DISPATCH_CONTENT_CONFLICT'')"
proof -
  have "select ob_outbox_id (ev_outbox_id (wit_env zeros ''v1'')) (t_outbox wit_db0) = Some wit_outbox_row"
    "ob_cols wit_outbox_row = wit_entry" "ev_outbox_id (wit_env ones ''v2'') = ev_outbox_id (wit_env zeros ''v1'')"
    "ev_envelope_digest (wit_env ones ''v2'') \<noteq> ev_envelope_digest (wit_env zeros ''v1'')"
    by (simp_all add: wit_db0_def wit_outbox_row_def wit_entry_def wit_env_def)
  then show ?thesis
    using admit_conflict_refused [OF wit_admit, of "wit_env ones ''v2''" wit_entry wit_outbox_row "''v1''"] by simp
qed

lemma wit_digests_differ: "no_collision wit_hash wit_lease2 wit_lease1"
proof -
  have id2: "lease_id_text wit_lease2 = claims_text wit_id2"
    by (simp add: lease_id_text_def wit_id2_def wit_lease2_def wit_lease_def)
  have "claims_digest wit_hash (lease_claims wit_lease1) = zeros"
    by (rule wit_hash_zeros [OF lease.flat_claims]) (simp add: lease_claims_def wit_lease1_def wit_lease_def)
  moreover have "wit_hash (lease_id_text wit_lease1) = zeros"
    using wit_lease_id(1) [of zeros] by (simp add: lease_id_text_def lease_id_of_def claims_digest_def wit_lease1_def wit_lease_def)
  ultimately show ?thesis
    by (simp add: no_collision_def id2 claims_digest_def inj_on_def) (simp add: wit_hash_def)
qed

text \<open>The table holds the expired lease of epoch 1, and epoch 2 is given out.\<close>

theorem acquire_returns_witness:
  "t_leases wit_db2 = [wit_row1]
   \<and> (\<exists>l db'. acquire wit_hash wit_svc wit_db2 (AwareTime (wit_time 2 0)) zeros = Inr ((''LEASE_REACQUIRED'', l), db')
        \<and> le_admission_id l = zeros \<and> le_execution_epoch l = 2)"
proof -
  have two: "next_epoch wit_db2 zeros = 2" by (simp add: next_epoch_def)
  have cfg: "ls_lease_seconds wit_svc = 60" "ls_lease_revision wit_svc = ''v1''" "ls_authority_revision wit_svc = ''v1''"
    by (simp_all add: wit_svc_def)
  have "\<exists>l db'. acquire wit_hash wit_svc wit_db2 (AwareTime (wit_time 2 0)) zeros =
        Inr ((if next_epoch wit_db2 zeros = 1 then ''LEASE_ACQUIRED'' else ''LEASE_REACQUIRED'', l), db')
      \<and> le_admission_id l = zeros \<and> le_execution_epoch l = next_epoch wit_db2 zeros"
  proof (rule acquire_returns [OF wit_reachable(2), where row = "inbox_row_of wit_adm"
        and clock = "wit_clock (wit_at 2 0)" and expires = "wit_time 3 0"])
    show "add_seconds (the (canonical_time (ck_observed_at (wit_clock (wit_at 2 0))))) (nat (ls_lease_seconds wit_svc))
        = Inr (wit_time 3 0)"
      by (simp add: wit_clock_def cfg)
    show "lease_service_init (ls_clock wit_svc) (ls_lease_seconds wit_svc) (ls_lease_revision wit_svc)
        (ls_authority_revision wit_svc) = Inr wit_svc"
      by (simp add: lease_service_init_def guardE_def require_text_def wit_svc_def)
    fix l r
    assume "lease_create_candidate wit_hash (ib_cols (inbox_row_of wit_adm)) (next_epoch wit_db2 zeros)
        (wit_clock (wit_at 2 0)) (ls_lease_seconds wit_svc) (ls_lease_revision wit_svc) = Inr l"
      and "r \<in> set (t_leases wit_db2)"
    then show "no_collision wit_hash l (lr_cols r)"
      using wit_digests_differ by (simp add: two cfg wit_candidate2)
  next
    fix s
    assume "select es_admission_id zeros (t_epochs wit_db2) = Some s"
    then show "es_status s \<noteq> ''COMPLETED'' \<and> es_authority_revision s = ls_authority_revision wit_svc
        \<and> instant_at (es_current_lease_expires_at s) \<le> instant_at (ck_observed_at (wit_clock (wit_at 2 0)))"
      by (auto simp: cfg wit_clock_def) (simp add: wit_state1_def first_epoch_state_def)
  qed (simp_all add: wit_clock_witness)
  then show ?thesis using two by simp
qed

end
