(* ===== verification/Grant_Witness.thy ===== *)
theory Grant_Witness
  imports Delivery_Witness
begin

text \<open>
  The first half of the concrete run: a registry with one capability, one capsule and one handler, a
  workspace with one operator, and a grant that is stored, consumed and handed to the outbox.  It
  shows that the hypotheses of the grant theorems can hold.
\<close>

definition wit_capability :: capability_definition where
  "wit_capability =
     \<lparr>cd_capability = ''cap/v1'', cd_target_kind = ''repo'', cd_binder_id = ''binder'', cd_handler_id = ''handler'',
      cd_effect_class = ''read'', cd_verification_class = ''check'', cd_supported_environments = [''local''],
      cd_required_permissions = [''execution.run''], cd_production_eligible = False,
      cd_definition_identity = zeros\<rparr>"

definition wit_activation :: capability_activation where
  "wit_activation =
     \<lparr>cv_capability_definition_identity = zeros, cv_activation_generation = 1,
      cv_enabled_environments = [''local''], cv_revoked = False, cv_activation_digest = zeros\<rparr>"

definition wit_capsule :: execution_capsule where
  "wit_capsule =
     \<lparr>cp_capability_definition_identity = zeros, cp_target_kind = ''repo'', cp_handler_id = ''handler'',
      cp_handler_digest = zeros, cp_module_manifest_digest = zeros, cp_artifact_kind = ''image'',
      cp_artifact_digest = zeros, cp_rootfs_digest = zeros, cp_dependency_lock_digest = zeros,
      cp_sbom_digest = zeros, cp_network_policy_digest = zeros, cp_resource_limit_profile_digest = zeros,
      cp_credential_class = ''none'', cp_runner_class = ''runner'',
      cp_precondition_enforcement_class = ''READ_THEN_COMPARE'', cp_verification_class = ''check'',
      cp_verification_contract_identity = zeros, cp_capsule_revision = ''v1'', cp_capsule_digest = zeros\<rparr>"

definition wit_capsule_activation :: capsule_activation where
  "wit_capsule_activation =
     \<lparr>cx_execution_capsule_digest = zeros, cx_activation_generation = 1, cx_enabled_environments = [''local''],
      cx_revoked = False, cx_production_eligible = False, cx_activation_digest = zeros\<rparr>"

definition wit_evidence :: handler_evidence where
  "wit_evidence =
     \<lparr>he_capability_definition_identity = zeros, he_execution_capsule_digest = zeros, he_handler_id = ''handler'',
      he_handler_digest = zeros, he_runner_class = ''runner'', he_credential_class = ''none'',
      he_precondition_enforcement_class = ''READ_THEN_COMPARE'', he_verification_contract_identity = zeros,
      he_atomic_provider_condition_contract_identity = None, he_evidence_revision = ''v1'',
      he_evidence_digest = zeros\<rparr>"

definition wit_caps :: capability_registry where
  "wit_caps = \<lparr>cy_by_capability = [''cap/v1'' \<mapsto> wit_capability], cy_by_identity = [zeros \<mapsto> wit_capability],
     cy_activations = [zeros \<mapsto> wit_activation]\<rparr>"

definition wit_capsules :: capsule_registry where
  "wit_capsules = \<lparr>cg_capabilities = wit_caps, cg_by_definition = [zeros \<mapsto> wit_capsule],
     cg_by_digest = [zeros \<mapsto> wit_capsule], cg_activations = [zeros \<mapsto> wit_capsule_activation]\<rparr>"

definition wit_handlers :: handler_registry where
  "wit_handlers = \<lparr>hg_capsules = wit_capsules, hg_by_capsule = [zeros \<mapsto> wit_evidence]\<rparr>"

definition wit_authority :: conformance_authority where
  "wit_authority = \<lparr>cf_handlers = wit_handlers, cf_authority_revision = ''v1''\<rparr>"

definition wit_gsvc :: grant_service where
  "wit_gsvc = \<lparr>gs_clock = ls_clock wit_svc, gs_conformance = wit_authority, gs_authority_revision = ''v1''\<rparr>"

definition wit_epochs :: epoch_authority where
  "wit_epochs _ _ _ = Inr (JInt 0)"

definition wit_people :: core_db where
  "wit_people = \<lparr>c_users = [\<lparr>u_id = ''alice'', u_username = ''alice'', u_password_hash = ''x'',
       u_role = ''operator'', u_active = 1, u_created_at = ''t0''\<rparr>],
     c_workspaces = [\<lparr>w_id = ''w1'', w_name = ''alpha'', w_environment = ''local'', w_created_at = ''t0''\<rparr>],
     c_memberships = [\<lparr>m_workspace_id = ''w1'', m_user_id = ''alice'', m_membership_role = ''owner'',
       m_created_by = ''alice'', m_created_at = ''t0''\<rparr>],
     c_sessions = [], c_emergency_stop = None, c_audit = []\<rparr>"

text \<open>The empty tables, and the tables after the grant was stored.\<close>

definition wit_start :: trust_db where
  "wit_start = \<lparr>t_workspaces = [''w1''], t_users = [''alice''], t_requests = [''r1''], t_snapshots = [wit_snapshot],
     t_grants = [], t_consumptions = [], t_outbox = [], t_inbox = [], t_leases = [], t_epochs = []\<rparr>"

definition wit_stored :: trust_db where
  "wit_stored = wit_start\<lparr>t_grants := [wit_grant_row]\<rparr>"

definition wit_consumed :: trust_db where
  "wit_consumed = wit_stored\<lparr>t_consumptions := [wit_consumption_row]\<rparr>"

subsection \<open>Registries and conformance\<close>

lemma wit_more_texts [simp]:
  "text_ok ''handler''" "text_ok ''none''" "text_ok ''binder''" "text_ok ''read''" "text_ok ''check''"
  "text_ok ''image''" "text_ok ''issuer''" "text_ok ''sqlite-begin-immediate/v1''"
  "text_ok ''database-permission/durable-grant-live-r1''" "text_ok ''DATABASE_ROLE_PERMISSION_GRANTED''"
  "text_ok ''database-active-user-workspace-membership/v2''"
  by code_simp+

lemma wit_capability_registry:
  "capability_registry_init [wit_capability] [wit_activation] = Inr wit_caps"
  by (simp add: capability_registry_init_def wit_caps_def wit_capability_def wit_activation_def)

lemma wit_capsule_registry:
  "capsule_registry_init wit_caps [wit_capsule] [wit_capsule_activation] = Inr wit_capsules"
proof -
  have "definition_by_identity wit_caps zeros = Inr wit_capability"
    using digest_ok_text [of zeros] by (simp add: definition_by_identity_eq_Inr) (simp add: wit_caps_def)
  then show ?thesis
    by (simp add: capsule_registry_init_def wit_capsules_def wit_capsule_def wit_capsule_activation_def
        wit_capability_def)
qed

lemma wit_handler_registry: "handler_registry_init wit_capsules [wit_evidence] = Inr wit_handlers"
proof -
  have "capsule_for_definition wit_capsules zeros = Inr wit_capsule"
    by (simp add: capsule_for_definition_eq_Inr) (simp add: wit_capsules_def)
  then show ?thesis
    by (simp add: handler_registry_init_def wit_handlers_def exact_capsule_binding_def wit_evidence_def
        wit_capsule_def)
qed

lemma wit_conformance_ok:
  assumes R: "first_epoch_digest H"
  shows "conformance_witness_ok H wit_conformance"
proof -
  have "claims_digest H (conformance_witness_claims wit_conformance) = zeros"
    by (rule first_epoch_zeros [OF R conformance.flat_claims]) (simp add: conformance_witness_claims_def)
  then show ?thesis
    by (simp add: conformance_witness_ok_def wit_conformance_def atomic_contract_ok_def)
qed

lemma wit_evaluate:
  assumes R: "first_epoch_digest H"
  shows "evaluate H wit_authority wit_grant = Inr wit_conformance"
proof -
  have res: "resolve_for_binding wit_capsules zeros ''local'' ''repo'' = Inr (wit_capsule, wit_capsule_activation)"
    by (simp add: resolve_for_binding_eq_Inr valid_environments_def)
      (simp add: wit_capsules_def wit_caps_def wit_capability_def wit_activation_def wit_capsule_def
        wit_capsule_activation_def)
  have act: "registry_activation wit_caps zeros = Inr wit_activation"
    using digest_ok_text [of zeros] by (simp add: registry_activation_eq_Inr) (simp add: wit_caps_def)
  have "check_digests [(''capsule_digest'', zeros)] = Inr ()" by (simp add: check_digests_eq_Inr)
  then have ev: "resolve_evidence wit_handlers zeros = Inr wit_evidence"
    by (simp add: resolve_evidence_def wit_handlers_def)
  let ?w = "wit_conformance\<lparr>cw_witness_digest := []\<rparr>"
  have d: "claims_digest H (conformance_witness_claims wit_conformance) = zeros"
    using wit_conformance_ok [OF R] by (simp add: conformance_witness_ok_def) (simp add: wit_conformance_def)
  have "conformance_witness_init H (item (conformance_witness_to_dict
      (?w\<lparr>cw_witness_digest := claims_digest H (conformance_witness_claims ?w)\<rparr>))) = Inr wit_conformance"
    unfolding conformance_witness_claims_seal conformance_witness_dict_eq d
    using wit_conformance_ok [OF R] by (simp add: conformance.init_dict_iff) (simp add: wit_conformance_def)
  then have "conformance_witness_create H wit_grant zeros zeros wit_capsule wit_evidence ''v1'' = Inr wit_conformance"
    by (simp add: conformance_witness_create_def Let_def wit_grant_def wit_capsule_def wit_evidence_def
        wit_conformance_def)
  moreover have "gr_capability_definition_identity wit_grant = zeros" "gr_environment wit_grant = ''local''"
    "gr_target_kind wit_grant = ''repo''" "gr_execution_capsule_digest wit_grant = zeros"
    "gr_runner_class wit_grant = ''runner''" "gr_precondition_enforcement_class wit_grant = ''READ_THEN_COMPARE''"
    by (simp_all add: wit_grant_def)
  moreover have "cp_capsule_digest wit_capsule = zeros" "cp_capability_definition_identity wit_capsule = zeros"
    "cp_target_kind wit_capsule = ''repo''" "cp_runner_class wit_capsule = ''runner''"
    "cp_precondition_enforcement_class wit_capsule = ''READ_THEN_COMPARE''"
    "cv_activation_digest wit_activation = zeros" "cx_activation_digest wit_capsule_activation = zeros"
    by (simp_all add: wit_capsule_def wit_activation_def wit_capsule_activation_def)
  moreover have "hg_capsules wit_handlers = wit_capsules" "cg_capabilities wit_capsules = wit_caps"
    by (simp_all add: wit_handlers_def wit_capsules_def)
  ultimately show ?thesis
    using res act ev by (simp add: evaluate_def Let_def wit_authority_def)
qed

subsection \<open>Live authority\<close>

lemma wit_grant_simps [simp]:
  "gr_jti wit_grant = ''j1''" "gr_grant_digest wit_grant = zeros" "gr_environment wit_grant = ''local''"
  "gr_issued_at wit_grant = wit_at 0 0" "gr_expires_at wit_grant = wit_at 1 0" "gr_revocation_epoch wit_grant = 0"
  "gr_required_permission wit_grant = ''execution.run''" "gr_actor_id wit_grant = ''alice''"
  "gr_workspace_id wit_grant = ''w1''"
  by (simp_all add: wit_grant_def)

lemma wit_grant_ok:
  assumes R: "first_epoch_digest H"
  shows "execution_grant_ok H wit_grant"
proof -
  have "claims_digest H (execution_grant_claims wit_grant) = zeros"
    by (rule first_epoch_zeros [OF R grant.flat_claims]) (simp add: execution_grant_claims_def)
  then show ?thesis
    by (simp add: execution_grant_ok_def)
      (simp add: wit_grant_def seconds_def max_grant_ttl_seconds_def max_precondition_to_grant_seconds_def)
qed

lemma wit_live_permission:
  assumes R: "first_epoch_digest H"
  shows "assert_live_permission H wit_people wit_grant = Inr ()"
proof -
  let ?q = "grant_query wit_grant"
  let ?p = "\<lparr>pd_actor_id = ''alice'', pd_workspace_id = ''w1'', pd_environment = ''local'',
     pd_permission = ''execution.run'', pd_granted = True, pd_reason = ''DATABASE_ROLE_PERMISSION_GRANTED'',
     pd_authority_revision = ''database-permission/durable-grant-live-r1'',
     pd_scope_model = ''database-active-user-workspace-membership/v2'', pd_decision_digest = zeros\<rparr>"
  have q: "?q = \<lparr>pq_actor_id = ''alice'', pq_workspace_id = ''w1'', pq_environment = ''local'',
      pq_permission = ''execution.run''\<rparr>" by (simp add: grant_query_def)
  have digest: "claims_digest H (permission_decision_claims c) = zeros" for c
    by (rule first_epoch_zeros [OF R permission.flat_claims]) (simp add: permission_decision_claims_def)
  have "permission_decision_ok H ?p"
    by (simp add: permission_decision_ok_def digest valid_environments_def)
  then have "permission_decision_init H ?p = Inr ?p" by (simp add: permission_decision_init_iff)
  then have create: "permission_decision_create H ?q True ''DATABASE_ROLE_PERMISSION_GRANTED''
      ''database-permission/durable-grant-live-r1'' ''database-active-user-workspace-membership/v2'' = Inr ?p"
    by (simp add: permission_decision_create_def digest q Let_def)
  have verdict: "database_verdict wit_people ?q = (True, ''DATABASE_ROLE_PERMISSION_GRANTED'')"
    by (simp add: database_verdict_def wit_people_def q role_permissions_def permits_def select_membership_def)
  have "permission_query_init ?q = Inr ?q"
    unfolding permission_query_init_def by (simp add: q res_simps valid_environments_def)
  moreover have "check_texts [(''authority_revision'', ''database-permission/durable-grant-live-r1'')] = Inr ()"
    by (simp add: check_texts_eq_Inr)
  then have "decide_database_permission H wit_people ?q ''database-permission/durable-grant-live-r1'' = Inr ?p"
    by (simp add: decide_database_permission_def verdict create)
  ultimately show ?thesis
    by (simp add: assert_live_permission_def required_execution_permission_def)
qed

lemma wit_live_authority:
  assumes R: "first_epoch_digest H"
  shows "assert_live_authority H wit_epochs wit_people wit_grant (wit_clock (wit_at 0 0)) = Inr 0"
proof -
  have t: "require_timestamp f (JStr (wit_at m s)) = Inr (wit_time m s)" if "m < 60" "s < 60" for f m s
    using that by (simp add: require_timestamp_eq_Inr)
  have "\<not> is_stop_active wit_people" by (simp add: is_stop_active_def wit_people_def)
  moreover have "ck_observed_at (wit_clock (wit_at 0 0)) = wit_at 0 0" by (simp add: wit_clock_def)
  ultimately show ?thesis
    by (simp add: assert_live_authority_def t wit_live_permission [OF R] wit_epochs_def natural_epoch_def)
qed

lemma wit_trusted_clock:
  assumes R: "first_epoch_digest H"
  shows "trusted_clock_witness H wit_gsvc (AwareTime (wit_time 0 0)) wit_grant = Inr (wit_clock (wit_at 0 0))"
  by (simp add: trusted_clock_witness_def wit_gsvc_def wit_clock_reading [OF R]) (simp add: wit_clock_def wit_svc_def)

lemma wit_fresh_conformance:
  assumes R: "first_epoch_digest H"
  shows "fresh_conformance H wit_gsvc wit_grant = Inr wit_conformance"
  by (simp add: fresh_conformance_def wit_gsvc_def wit_evaluate [OF R]) (simp add: wit_conformance_def)

subsection \<open>Storing and consuming the grant\<close>

lemma wit_row_json:
  "json_check (gw_grant_json wit_grant_row)" "json_check (gw_issuance_conformance_witness_json wit_grant_row)"
  "json_check (gw_store_clock_witness_json wit_grant_row)"
  "json_check (cr_conformance_witness_json wit_consumption_row)" "json_check (cr_clock_witness_json wit_consumption_row)"
  "json_check (cr_consumption_json wit_consumption_row)" "json_check (ob_entry_json (outbox_row_of wit_entry))"
  by (simp_all add: wit_grant_row_def grant_row_of_def wit_consumption_row_def consumption_row_of_def outbox_row_of_def
      canonical_object_check execution_grant_to_dict_def conformance_witness_to_dict_def clock_witness_to_dict_def
      consumption_witness_to_dict_def outbox_entry_to_dict_def)

lemma wit_row_sels [simp]:
  "gw_jti wit_grant_row = ''j1''" "gw_grant_id wit_grant_row = ''g1''" "gw_execution_id wit_grant_row = ''x1''"
  "gw_request_id wit_grant_row = ''r1''" "gw_workspace_id wit_grant_row = ''w1''"
  "gw_environment wit_grant_row = ''local''" "gw_authorization_snapshot_digest wit_grant_row = zeros"
  "gw_execution_capsule_digest wit_grant_row = zeros" "gw_grant_digest wit_grant_row = zeros"
  "gw_issuance_conformance_witness_digest wit_grant_row = zeros" "gw_store_clock_witness_digest wit_grant_row = zeros"
  "gw_revocation_epoch wit_grant_row = 0" "gw_store_revision wit_grant_row = ''v1''"
  "gw_issued_at wit_grant_row = wit_at 0 0" "gw_expires_at wit_grant_row = wit_at 1 0"
  "gw_grant_json wit_grant_row = canonical_json (JObj (execution_grant_to_dict wit_grant))"
  by (simp_all add: wit_grant_row_def grant_row_of_def) (simp_all add: wit_grant_def wit_conformance_def wit_clock_def)

lemma wit_consumption_sels [simp]:
  "cr_consumption_id wit_consumption_row = ''c1''" "cr_jti wit_consumption_row = ''j1''"
  "cr_grant_digest wit_consumption_row = zeros" "cr_execution_id wit_consumption_row = ''x1''"
  "cr_authorization_snapshot_digest wit_consumption_row = zeros"
  "cr_execution_capsule_digest wit_consumption_row = zeros" "cr_runner_class wit_consumption_row = ''runner''"
  "cr_conformance_witness_digest wit_consumption_row = zeros" "cr_clock_witness_digest wit_consumption_row = zeros"
  "cr_live_revocation_epoch wit_consumption_row = 0" "cr_consumed_at wit_consumption_row = wit_at 0 0"
  "cr_serialization_contract wit_consumption_row = ''sqlite-begin-immediate/v1''"
  "cr_authority_revision wit_consumption_row = ''v1''" "cr_consumption_digest wit_consumption_row = zeros"
  by (simp_all add: wit_consumption_row_def consumption_row_of_def)
    (simp_all add: wit_grant_def wit_conformance_def wit_clock_def wit_consumption_def)

lemma wit_insert_grant: "insert_stored_grant wit_start wit_grant_row = Inr wit_stored"
  using wit_row_json
  by (simp add: insert_stored_grant_def wit_start_def wit_stored_def key_free_def environment_check_def
      nonempty_check_def wit_snapshot_def)

lemma wit_issue:
  assumes R: "first_epoch_digest H"
  shows "issue_and_store H wit_gsvc wit_epochs wit_people wit_start (AwareTime (wit_time 0 0)) (Inr wit_grant)
     = Inr (wit_grant, wit_stored)"
proof -
  have "gs_authority_revision wit_gsvc = ''v1''" by (simp add: wit_gsvc_def)
  then show ?thesis
    using wit_insert_grant
    by (simp add: issue_and_store_def wit_trusted_clock [OF R] wit_live_authority [OF R] wit_fresh_conformance [OF R] wit_grant_row_def)
qed

lemma wit_decode:
  assumes R: "first_epoch_digest H"
  shows "decode_stored_grant H wit_grant_row = Inr wit_grant"
  using decode_grant_row [OF wit_grant_ok [OF R]] by (simp add: wit_grant_row_def)

lemma wit_consumption_ok:
  assumes R: "first_epoch_digest H"
  shows "consumption_witness_ok H wit_consumption"
proof -
  have "claims_digest H (consumption_witness_claims wit_consumption) = zeros"
    by (rule first_epoch_zeros [OF R consumption.flat_claims]) (simp add: consumption_witness_claims_def)
  then show ?thesis by (simp add: consumption_witness_ok_def wit_consumption_def)
qed

lemma wit_consumption_created:
  assumes R: "first_epoch_digest H"
  shows "consumption_witness_create H ''c1'' wit_grant zeros (wit_clock (wit_at 0 0)) 0 ''v1'' = Inr wit_consumption"
proof -
  let ?w = "wit_consumption\<lparr>gc_witness_digest := []\<rparr>"
  have d: "claims_digest H (consumption_witness_claims wit_consumption) = zeros"
    using wit_consumption_ok [OF R] by (simp add: consumption_witness_ok_def) (simp add: wit_consumption_def)
  have "consumption_witness_init H (item (consumption_witness_to_dict
      (?w\<lparr>gc_witness_digest := claims_digest H (consumption_witness_claims ?w)\<rparr>))) = Inr wit_consumption"
    unfolding consumption_witness_claims_seal consumption_witness_dict_eq d
    using wit_consumption_ok [OF R] by (simp add: consumption.init_dict_iff) (simp add: wit_consumption_def)
  moreover have "\<lparr>gc_consumption_id = ''c1'', gc_jti = gr_jti wit_grant, gc_grant_id = gr_grant_id wit_grant,
      gc_grant_digest = gr_grant_digest wit_grant, gc_execution_id = gr_execution_id wit_grant,
      gc_authorization_snapshot_digest = gr_authorization_snapshot_digest wit_grant,
      gc_execution_capsule_digest = gr_execution_capsule_digest wit_grant,
      gc_runner_class = gr_runner_class wit_grant, gc_conformance_witness_digest = zeros,
      gc_clock_witness_digest = ck_witness_digest (wit_clock (wit_at 0 0)), gc_live_revocation_epoch = 0,
      gc_consumed_at = ck_observed_at (wit_clock (wit_at 0 0)),
      gc_serialization_contract = ''sqlite-begin-immediate/v1'', gc_authority_revision = ''v1'',
      gc_witness_digest = []\<rparr> = ?w"
    by (simp add: wit_grant_def wit_consumption_def wit_clock_def)
  ultimately show ?thesis unfolding consumption_witness_create_def Let_def by metis
qed

lemma wit_prepare:
  assumes R: "first_epoch_digest H"
  shows "prepare_consumption H wit_gsvc wit_epochs wit_people wit_stored (AwareTime (wit_time 0 0)) ''c1'' ''j1''
     = Inr (wit_grant, wit_conformance, wit_clock (wit_at 0 0), wit_consumption)"
proof -
  have "select cr_jti ''j1'' (t_consumptions wit_stored) = None"
    "select gw_jti ''j1'' (t_grants wit_stored) = Some wit_grant_row"
    by (simp_all add: wit_stored_def wit_start_def) (simp add: select_def)
  moreover have "cw_witness_digest wit_conformance = zeros" "gs_authority_revision wit_gsvc = ''v1''"
    by (simp_all add: wit_conformance_def wit_gsvc_def)
  ultimately show ?thesis
    unfolding prepare_consumption_eq_Inr
    using wit_decode [OF R] wit_trusted_clock [OF R] wit_live_authority [OF R] wit_fresh_conformance [OF R] wit_consumption_created [OF R] by simp
qed

lemma wit_insert_consumption: "insert_consumption wit_stored wit_consumption_row = Inr wit_consumed"
  using wit_row_json
  by (simp add: insert_consumption_def wit_consumed_def wit_stored_def wit_start_def key_free_def nonempty_check_def)

lemma wit_consume:
  assumes R: "first_epoch_digest H"
  shows "consume H wit_gsvc wit_epochs wit_people wit_stored (AwareTime (wit_time 0 0)) ''c1'' ''j1''
     = Inr (wit_consumption, wit_consumed)"
  unfolding consume_eq_Inr using wit_prepare [OF R] wit_insert_consumption by (auto simp: wit_consumption_row_def)

subsection \<open>The hand-off and the whole pipeline\<close>

lemma wit_entry_created:
  assumes ok: "outbox_entry_ok H wit_entry"
  shows "outbox_entry_create H ''o1'' wit_grant wit_consumption ''v1'' = Inr wit_entry"
proof -
  let ?e = "wit_entry\<lparr>ox_entry_digest := []\<rparr>"
  have d: "claims_digest H (outbox_entry_claims wit_entry) = zeros"
    using ok by (simp add: outbox_entry_ok_def) (simp add: wit_entry_def)
  have "outbox_entry_init H (item (outbox_entry_to_dict
      (?e\<lparr>ox_entry_digest := claims_digest H (outbox_entry_claims ?e)\<rparr>))) = Inr wit_entry"
    unfolding outbox_entry_claims_seal outbox_entry_dict_eq d
    using ok by (simp add: outbox.init_dict_iff) (simp add: wit_entry_def)
  moreover have "\<lparr>ox_outbox_id = ''o1'', ox_consumption_id = gc_consumption_id wit_consumption,
      ox_consumption_witness_digest = gc_witness_digest wit_consumption, ox_jti = gr_jti wit_grant,
      ox_grant_id = gr_grant_id wit_grant, ox_grant_digest = gr_grant_digest wit_grant,
      ox_execution_id = gr_execution_id wit_grant, ox_request_id = gr_request_id wit_grant,
      ox_actor_id = gr_actor_id wit_grant, ox_workspace_id = gr_workspace_id wit_grant,
      ox_environment = gr_environment wit_grant, ox_capability = gr_capability wit_grant,
      ox_capability_definition_identity = gr_capability_definition_identity wit_grant,
      ox_authorization_snapshot_digest = gr_authorization_snapshot_digest wit_grant,
      ox_target_kind = gr_target_kind wit_grant, ox_target_digest = gr_target_digest wit_grant,
      ox_payload_digest = gr_payload_digest wit_grant,
      ox_required_permission = gr_required_permission wit_grant,
      ox_execution_binding_digest = gr_execution_binding_digest wit_grant,
      ox_execution_capsule_digest = gr_execution_capsule_digest wit_grant,
      ox_runner_class = gr_runner_class wit_grant,
      ox_precondition_enforcement_class = gr_precondition_enforcement_class wit_grant,
      ox_use_semantics = gr_use_semantics wit_grant, ox_created_at = gc_consumed_at wit_consumption,
      ox_outbox_revision = ''v1'', ox_entry_digest = []\<rparr> = ?e"
    by (simp add: wit_grant_def wit_consumption_def wit_entry_def)
  moreover have "guardE
       ((gc_jti wit_consumption, gc_grant_id wit_consumption, gc_grant_digest wit_consumption,
         gc_execution_id wit_consumption, gc_authorization_snapshot_digest wit_consumption,
         gc_execution_capsule_digest wit_consumption, gc_runner_class wit_consumption) =
        (gr_jti wit_grant, gr_grant_id wit_grant, gr_grant_digest wit_grant, gr_execution_id wit_grant,
         gr_authorization_snapshot_digest wit_grant, gr_execution_capsule_digest wit_grant,
         gr_runner_class wit_grant)) e = Inr ()" for e
    by (simp add: guardE_eq_Inr) (simp add: wit_grant_def wit_consumption_def)
  ultimately show ?thesis unfolding outbox_entry_create_def Let_def by (metis thenE_Inr)
qed

lemma wit_insert_outbox: "insert_outbox wit_consumed (outbox_row_of wit_entry) = Inr wit_db0"
proof -
  have "outbox_binding wit_consumed wit_entry"
    by (simp add: outbox_binding_def wit_consumed_def wit_stored_def wit_start_def) (simp add: wit_entry_def)
  then show ?thesis
    using wit_row_json
    by (simp add: insert_outbox_def Let_def outbox_row_of_def)
      (simp add: wit_consumed_def wit_stored_def wit_start_def wit_db0_def wit_outbox_row_def key_free_def
        environment_check_def nonempty_check_def wit_entry_def wit_snapshot_def)
qed

lemma wit_handoff:
  assumes R: "first_epoch_digest H" and ok: "outbox_entry_ok H wit_entry"
  shows "consume_and_enqueue H wit_gsvc ''v1'' wit_epochs wit_people wit_stored (AwareTime (wit_time 0 0)) ''c1'' ''o1'' ''j1''
     = Inr (wit_entry, wit_db0)"
  unfolding consume_and_enqueue_eq_Inr
  using wit_prepare [OF R] wit_entry_created [OF ok] wit_insert_consumption wit_insert_outbox by (auto simp: wit_consumption_row_def)

lemma wit_pipeline: "(pipeline_step wit_hash)\<^sup>*\<^sup>* wit_start wit_db0" "(pipeline_step wit_hash)\<^sup>*\<^sup>* wit_start wit_db2"
proof -
  have "pipeline_step wit_hash wit_start wit_stored" "pipeline_step wit_hash wit_stored wit_db0"
    using store_step [OF wit_issue [OF wit_first_epoch]] handoff_step [OF wit_handoff [OF wit_first_epoch wit_entry_ok]] by blast+
  then show *: "(pipeline_step wit_hash)\<^sup>*\<^sup>* wit_start wit_db0" by (meson converse_rtranclp_into_rtranclp r_into_rtranclp)
  have "pipeline_step wit_hash wit_db0 wit_db1" "pipeline_step wit_hash wit_db1 wit_db2"
    using deliver_step [OF admit_step [OF wit_admit]] deliver_step [OF acquire_step [OF wit_acquire1]] by blast+
  then show "(pipeline_step wit_hash)\<^sup>*\<^sup>* wit_start wit_db2" using * by (meson rtranclp.rtrancl_into_rtrancl)
qed

lemma wit_start_empty: "pipeline_start wit_start"
  by (simp add: pipeline_start_def delivery_start_def wit_start_def)

subsection \<open>The grant theorems at the concrete run\<close>

theorem grant_consumed_at_most_once_witness:
  "consume wit_hash wit_gsvc wit_epochs wit_people wit_stored (AwareTime (wit_time 0 0)) ''c1'' ''j1''
     = Inr (wit_consumption, wit_consumed)
   \<and> consume wit_hash wit_gsvc wit_epochs wit_people wit_consumed (AwareTime (wit_time 0 1)) ''c2'' ''j1''
     = Inl (PermissionError ''GRANT_ALREADY_CONSUMED'')"
  using wit_consume [OF wit_first_epoch] grant_consumed_at_most_once [OF disjI1 [OF wit_consume [OF wit_first_epoch]] rtranclp.rtrancl_refl] by blast

theorem consumption_requires_live_grant_witness:
  "\<exists>row g. select gw_jti ''j1'' (t_grants wit_stored) = Some row \<and> decode_stored_grant wit_hash row = Inr g
     \<and> live_permission wit_people (grant_query g)"
  using consumption_requires_live_grant [OF disjI2 [OF wit_handoff [OF wit_first_epoch wit_entry_ok]]] by metis

theorem no_orphan_consumptions_witness:
  "length (t_consumptions wit_db0) = 1 \<and> assert_no_orphan_consumptions wit_db0 = Inr ()"
  using no_orphan_consumptions [OF wit_start_empty wit_pipeline(1)] by (simp add: wit_db0_def)

theorem one_execution_per_grant_witness:
  "wit_state1 \<in> set (t_epochs wit_db2) \<and> ''j1'' \<in> set (map cr_jti (t_consumptions wit_db2))"
proof -
  have s: "wit_state1 \<in> set (t_epochs wit_db2)" and a: "inbox_row_of wit_adm \<in> set (t_inbox wit_db2)" by simp_all
  have r: "wit_outbox_row \<in> set (t_outbox wit_db2)" and j: "ob_jti wit_outbox_row = ''j1''"
    and ad: "ib_admission_id (inbox_row_of wit_adm) = es_admission_id wit_state1"
    and ob: "ob_outbox_id wit_outbox_row = ad_outbox_id (ib_cols (inbox_row_of wit_adm))"
    by (simp_all add: wit_db2_def wit_db1_def wit_db0_def)
      (simp_all add: wit_outbox_row_def wit_entry_def wit_adm_def)
  note once = one_execution_per_grant [OF wit_start_empty wit_pipeline(2) s a ad r ob s a ad r ob refl]
  show ?thesis using s once unfolding j by blast
qed

theorem emergency_stop_blocks_witness:
  "is_stop_active (wit_people\<lparr>c_emergency_stop := Some \<lparr>f_value = ''TRUE'', f_updated_by = ''alice'', f_updated_at = ''t1''\<rparr>\<rparr>)
   \<and> (\<exists>e. consume wit_hash wit_gsvc wit_epochs
        (wit_people\<lparr>c_emergency_stop := Some \<lparr>f_value = ''TRUE'', f_updated_by = ''alice'', f_updated_at = ''t1''\<rparr>\<rparr>)
        wit_stored (AwareTime (wit_time 0 0)) ''c1'' ''j1'' = Inl e)"
proof -
  let ?db = "wit_people\<lparr>c_emergency_stop := Some \<lparr>f_value = ''TRUE'', f_updated_by = ''alice'', f_updated_at = ''t1''\<rparr>\<rparr>"
  have "map lower_char ''TRUE'' = ''true''" by code_simp
  then have stop: "is_stop_active ?db" by (simp add: is_stop_active_def)
  then show ?thesis using emergency_stop_blocks [OF stop] by blast
qed

end
