(* ===== verification/Composition_Witness.thy ===== *)
theory Composition_Witness
  imports Grant_Composition Grant_Issuer_Witness Grant_Witness
begin

text \<open>
  The run of the issuer continued by the run of the grant tables: the grant that \<open>issue\<close> returns is the
  one that is stored and consumed.
\<close>

lemma flat_digest_first_epoch: "first_epoch_digest flat_digest"
  by (simp add: first_epoch_digest_def)

lemma run_grant_stored_one: "run_grant = wit_grant"
  by (simp add: run_grant_def issued_claims_def run_issuer_def run_snapshot_def run_constraint_def run_scope_def
      run_decision_def run_evidence_def run_binding_def run_precondition_def wit_grant_def required_execution_permission_def)

lemma run_stored:
  "issue_and_store flat_digest wit_gsvc wit_epochs wit_people wit_start (AwareTime (wit_time 0 0))
     (issue flat_digest run_issuer run_epoch (\<lambda>_ _ _. Inr run_binding) run_db run_db (AwareTime (wit_time 0 0))
        (AwareTime (wit_time 0 0)) ''g1'' ''j1'' run_snapshot run_constraint) = Inr (wit_grant, wit_stored)"
  using wit_issue [OF flat_digest_first_epoch] by (simp add: run_issued run_grant_stored_one)

lemma run_consumed:
  "consume flat_digest wit_gsvc wit_epochs wit_people wit_stored (AwareTime (wit_time 0 0)) ''c1'' (gr_jti wit_grant)
     = Inr (wit_consumption, wit_consumed)"
  using wit_consume [OF flat_digest_first_epoch] by simp

lemma run_entry_ok: "outbox_entry_ok flat_digest wit_entry"
  using wit_entry_ok by (simp add: outbox_entry_ok_def) (simp add: wit_entry_def)

lemmas run_handoff = wit_handoff [OF flat_digest_first_epoch run_entry_ok]

theorem stored_grant_roundtrip_witness:
  "\<exists>row. select gw_jti ''j1'' (t_grants wit_consumed) = Some row \<and> decode_stored_grant flat_digest row = Inr wit_grant"
proof -
  have "(trust_step flat_digest)\<^sup>*\<^sup>* wit_stored wit_consumed"
    using trust_step.consume_step [OF run_consumed] by blast
  from stored_grant_roundtrip [OF run_stored wit_grant_ok [OF flat_digest_first_epoch] this]
  show ?thesis by simp
qed

theorem stored_contracts_typed_witness:
  "t_grants wit_consumed = [wit_grant_row] \<and> typed_tables flat_digest wit_consumed"
proof -
  have start: "t_grants wit_start = []" "t_consumptions wit_start = []" by (simp_all add: wit_start_def)
  have "(system_step flat_digest)\<^sup>*\<^sup>* wit_start wit_consumed"
    using system_step.issue_step [OF run_stored] system_step.use_step [OF run_consumed] by (meson converse_rtranclp_into_rtranclp r_into_rtranclp)
  from stored_contracts_typed [OF start this] show ?thesis by (simp add: wit_consumed_def wit_stored_def)
qed

end
