(* ===== verification/Snapshot_Roundtrip.thy ===== *)
theory Snapshot_Roundtrip
  imports Snapshot_Creator
begin

text \<open>
  A stored authorization snapshot is read back as it was: the targets, the approvals and the snapshot
  decode from the canonical bytes that \<open>AuthorizationSnapshotStore\<close> writes.
\<close>

subsection \<open>Canonical text of nested claims\<close>

text \<open>\<open>settled\<close> values are those that \<open>json.loads\<close> returns for canonical text.\<close>

definition settled :: "json \<Rightarrow> bool" where
  "settled v \<longleftrightarrow> json_wf v \<and> json_sort v = v"

lemma settled_atoms [simp]: "settled (JStr s)" "settled (JInt i)" "settled (JBool b)" "settled JNull"
  by (simp_all add: settled_def)

lemma settled_loaded:
  assumes "json_loads t = Some v" and "t = canonical_json v"
  shows "settled v"
proof -
  have wf: "json_wf v" using assms(1) by (rule json_loads_wf)
  then show ?thesis using assms json_loads_canonical [OF wf] by (simp add: settled_def)
qed

lemma settled_members:
  assumes "distinct (map fst kvs)" and "\<forall>(k, v) \<in> set kvs. settled v"
  shows "json_wf (JObj kvs)" and "json_sort (JObj kvs) = JObj (sort_key fst kvs)"
proof -
  show "json_wf (JObj kvs)" using assms by (auto simp: settled_def list_all_iff)
  have "map (map_prod id json_sort) kvs = kvs"
    using assms(2) by (auto simp: settled_def intro!: map_idI)
  then show "json_sort (JObj kvs) = JObj (sort_key fst kvs)" by simp
qed

lemma settled_loads:
  assumes "distinct (map fst kvs)" and "\<forall>(k, v) \<in> set kvs. settled v"
  shows "json_loads (canonical_json (JObj kvs)) = Some (JObj (sort_key fst kvs))"
  using json_loads_canonical settled_members [OF assms] by metis

lemma settled_canonical:
  assumes "distinct (map fst kvs)" and "\<forall>(k, v) \<in> set kvs. settled v"
  shows "canonical_json (JObj (sort_key fst kvs)) = canonical_json (JObj kvs)"
  using canonical_json_sort [of "JObj kvs"] settled_members(2) [OF assms] by simp

subsection \<open>Targets\<close>

lemma target_claims_settled: "execution_target_ok H t \<Longrightarrow> settled (target_claims t)"
  unfolding execution_target_ok_iff by (blast intro: settled_loaded)

lemma target_dict_settled:
  assumes "execution_target_ok H t"
  shows "distinct (map fst (execution_target_to_dict t))"
    and "\<forall>(k, v) \<in> set (execution_target_to_dict t). settled v"
  using target_claims_settled [OF assms]
  by (simp_all add: execution_target_to_dict_def execution_target_claims_def)

lemma execution_target_create_claims:
  assumes "execution_target_ok H t"
  shows "execution_target_create H (et_target_kind t) (target_claims t) = Inr t"
proof -
  let ?c = "target_claims t"
  have ok: "text_ok (et_target_kind t)" "identifier_pattern (et_target_kind t)" "is_object ?c"
      "json_depth ?c \<le> 32" "et_target_claims_json t = canonical_json ?c"
      "et_target_digest t = claims_digest H (execution_target_claims (et_target_kind t) ?c)"
    and loads: "json_loads (canonical_json ?c) = Some ?c"
    using assms unfolding execution_target_ok_iff by auto
  have same: "\<lparr>et_target_kind = et_target_kind t, et_target_claims_json = canonical_json ?c,
      et_target_digest = claims_digest H (execution_target_claims (et_target_kind t) ?c)\<rparr> = t"
    using ok by simp
  have "require_identifier ''target_kind'' (JStr (et_target_kind t)) = Inr (et_target_kind t)"
    using ok by (simp add: require_identifier_eq_Inr)
  then show ?thesis
    using ok(3,4) assms unfolding execution_target_create_def execution_target_ok_def
    by (simp add: require_json_value_def Let_def loads same del: bindE_eq_Inr)
qed

lemma target_roundtrip:
  assumes "execution_target_ok H t"
  shows "execution_target_from_dict H (JObj (sort_key fst (execution_target_to_dict t))) = Inr t"
proof -
  have ok: "text_ok (et_target_kind t)" "identifier_pattern (et_target_kind t)" "digest_ok (et_target_digest t)"
    using assms unfolding execution_target_ok_iff by auto
  show ?thesis
    unfolding execution_target_from_dict_def require_exact_fields_sort [OF target_dict_settled(1) [OF assms]]
    using ok execution_target_create_claims [OF assms]
    by (simp add: require_exact_fields_def execution_target_to_dict_def execution_target_claims_def
        require_schema_and_type_def require_identifier_eq_Inr res_simps py_eq_int_def)
qed

subsection \<open>Approvals\<close>

lemma approval_roundtrip:
  assumes "approval_record_ok a"
  shows "approval_record_from_dict (json_sort (JObj (approval_record_to_dict a))) = Inr a"
proof -
  have d: "distinct (map fst (approval_record_to_dict a))" "\<forall>(k, v) \<in> set (approval_record_to_dict a). settled v"
    by (simp_all add: approval_record_to_dict_def)
  show ?thesis
    unfolding approval_record_from_dict_def settled_members(2) [OF d] require_exact_fields_sort [OF d(1)]
    using assms
    by (auto simp: require_exact_fields_def approval_record_to_dict_def approval_record_ok_def approval_record_init_def
        res_simps time_ok_def)
qed

definition stored_approvals :: "approval_record list \<Rightarrow> json list" where
  "stored_approvals as = map (\<lambda>a. json_sort (JObj (approval_record_to_dict a))) as"

lemma stored_approvals_decode:
  "\<forall>a \<in> set as. approval_record_ok a \<Longrightarrow> map_res approval_record_from_dict (stored_approvals as) = Inr as"
  by (induction as) (simp_all add: stored_approvals_def approval_roundtrip del: json_sort.simps)

text \<open>The dictionary of an approval set with its approvals as \<open>json.loads\<close> returns them.\<close>

definition stored_set :: "approval_set \<Rightarrow> (string \<times> json) list" where
  "stored_set s = map (map_prod id json_sort) (approval_set_to_dict s)"

lemma stored_set_eq:
  "stored_set s =
     [(''schema_version'', JInt 1), (''approval_set_type'', JStr ''approval-evidence-set/v1''),
      (''request_id'', JStr (as_request_id s)), (''payload_digest'', JStr (as_payload_digest s)),
      (''target_digest'', JStr (as_target_digest s)), (''capability'', JStr (as_capability s)),
      (''policy_version'', JStr (as_policy_version s)),
      (''approvals'', JArr (stored_approvals (as_approvals s))),
      (''approval_valid_until'', JStr (as_approval_valid_until s)),
      (''approval_set_digest'', JStr (as_approval_set_digest s))]"
  by (simp add: stored_set_def approval_set_to_dict_def approval_set_claims_def stored_approvals_def comp_def
      del: json_sort.simps(6))

lemma approval_set_wf: "json_wf (JObj (approval_set_to_dict s))"
  by (simp add: approval_set_to_dict_def approval_set_claims_def approval_record_to_dict_def list_all_iff)

lemma approval_set_sort: "json_sort (JObj (approval_set_to_dict s)) = JObj (sort_key fst (stored_set s))"
  by (simp only: json_sort.simps stored_set_def)

lemma approval_set_create_self:
  assumes "approval_set_ok H s"
  shows "approval_set_create H (JStr (as_request_id s)) (JStr (as_payload_digest s)) (JStr (as_target_digest s))
     (JStr (as_capability s)) (JStr (as_policy_version s)) (Inr (as_approvals s)) (JStr (as_approval_valid_until s)) = Inr s"
proof -
  have ok: "approval_set_ok H s" by (rule assms)
  obtain t where t: "canonical_time (as_approval_valid_until s) = Some t"
    using ok unfolding approval_set_ok_iff time_ok_def by blast
  let ?s = "\<lparr>as_request_id = as_request_id s, as_payload_digest = as_payload_digest s,
      as_target_digest = as_target_digest s, as_capability = as_capability s, as_policy_version = as_policy_version s,
      as_approvals = as_approvals s, as_approval_valid_until = as_approval_valid_until s, as_approval_set_digest = []\<rparr>"
  have "approval_set_claims ?s = approval_set_claims s" by (simp add: approval_set_claims_def)
  then have same: "\<lparr>as_request_id = as_request_id s, as_payload_digest = as_payload_digest s,
      as_target_digest = as_target_digest s, as_capability = as_capability s, as_policy_version = as_policy_version s,
      as_approvals = as_approvals s, as_approval_valid_until = as_approval_valid_until s,
      as_approval_set_digest = claims_digest H (approval_set_claims ?s)\<rparr> = s"
    using ok unfolding approval_set_ok_iff by simp
  have sorted: "sort_key approval_order (as_approvals s) = as_approvals s"
    using ok unfolding approval_set_ok_iff by metis
  have "instant_at (as_approval_valid_until s) = instant t" using t by (simp add: instant_at_def)
  then have checked: "approvals_checked (as_approvals s) t = Inr ()"
    using ok unfolding approval_set_ok_iff approvals_checked_eq_Inr by simp
  have heads: "require_identifier ''request_id'' (JStr (as_request_id s)) = Inr (as_request_id s)"
      "require_digest ''payload_digest'' (JStr (as_payload_digest s)) = Inr (as_payload_digest s)"
      "require_digest ''target_digest'' (JStr (as_target_digest s)) = Inr (as_target_digest s)"
      "require_capability (JStr (as_capability s)) = Inr (as_capability s)"
      "require_policy_version (JStr (as_policy_version s)) = Inr (as_policy_version s)"
      "require_timestamp ''approval_valid_until'' (JStr (as_approval_valid_until s)) = Inr t"
      "as_approvals s \<noteq> []"
    using ok t unfolding approval_set_ok_iff by (simp_all add: res_simps)
  have "approval_set_init H s = Inr s" using ok by (simp add: approval_set_ok_def)
  then show ?thesis
    unfolding approval_set_create_def by (simp add: heads sorted checked same Let_def)
qed

lemma approval_set_roundtrip:
  assumes "approval_set_ok H s" and "\<forall>a \<in> set (as_approvals s). approval_record_ok a"
  shows "approval_set_from_dict H (JObj (sort_key fst (stored_set s))) = Inr s"
proof -
  have d: "distinct (map fst (stored_set s))" by (simp add: stored_set_eq)
  have "digest_ok (as_approval_set_digest s)" using assms(1) unfolding approval_set_ok_iff by blast
  then show ?thesis
    unfolding approval_set_from_dict_def require_exact_fields_sort [OF d]
    using approval_set_create_self [OF assms(1)] stored_approvals_decode [OF assms(2)]
    by (simp add: require_exact_fields_def stored_set_eq require_schema_and_type_def res_simps py_eq_int_def)
qed

subsection \<open>Snapshots\<close>

lemma snapshot_dict_flat: "flat (authorization_snapshot_to_dict s)"
  by (simp add: flat_def authorization_snapshot_to_dict_def authorization_snapshot_claims_def)

lemma snapshot_create_self:
  assumes "authorization_snapshot_ok H s"
  shows "authorization_snapshot_create H (s\<lparr>sn_snapshot_digest := x\<rparr>) = Inr s"
proof -
  have "sn_snapshot_digest s = claims_digest H (authorization_snapshot_claims s)"
    using assms by (simp add: authorization_snapshot_ok_def)
  then have "s\<lparr>sn_snapshot_digest := claims_digest H (authorization_snapshot_claims s)\<rparr> = s" by simp
  then show ?thesis
    using assms by (simp add: authorization_snapshot_create_def authorization_snapshot_init_iff)
qed

lemma snapshot_roundtrip:
  assumes "authorization_snapshot_ok H s"
  shows "authorization_snapshot_from_dict H (JObj (sort_key fst (authorization_snapshot_to_dict s)))
     (sn_execution_target s) (sn_approval_evidence s) = Inr s"
proof -
  let ?d = "authorization_snapshot_to_dict s"
  have d: "distinct (map fst ?d)" using snapshot_dict_flat [of s] by (simp add: flat_def)
  have "fst ` set ?d = set authorization_snapshot_fields"
    by (simp add: authorization_snapshot_to_dict_def authorization_snapshot_claims_def authorization_snapshot_fields_def)
  then have keys: "require_exact_fields authorization_snapshot_fields ''authorization-snapshot/v1'' (JObj ?d) = Inr (item ?d)"
    by (simp add: require_exact_fields_def)
  have same: "for_each (\<lambda>(field, expected). guardE (item ?d field = expected \<or> field = ''schema_version'')
      (ValueError field)) ?d = Inr ()"
    using item_in [OF d] by (auto simp: for_each_eq_Inr guardE_eq_Inr)
  have header: "item ?d ''schema_version'' = JInt 1" "item ?d ''snapshot_type'' = JStr ''authorization-snapshot/v1''"
      "item ?d ''required_permission'' = JStr required_execution_permission"
    by (simp_all add: authorization_snapshot_to_dict_def authorization_snapshot_claims_def)
  have "\<lparr>sn_snapshot_id = str_of (item ?d ''snapshot_id''),
      sn_execution_id = str_of (item ?d ''execution_id''), sn_request_id = str_of (item ?d ''request_id''),
      sn_review_content_sha256 = str_of (item ?d ''review_content_sha256''),
      sn_actor_id = str_of (item ?d ''actor_id''), sn_workspace_id = str_of (item ?d ''workspace_id''),
      sn_environment = str_of (item ?d ''environment''), sn_capability = str_of (item ?d ''capability''),
      sn_capability_definition_identity = str_of (item ?d ''capability_definition_identity''),
      sn_payload_digest = str_of (item ?d ''payload_digest''),
      sn_payload_digest_scheme = str_of (item ?d ''payload_digest_scheme''),
      sn_execution_target_identity = str_of (item ?d ''execution_target_identity''),
      sn_policy_version = str_of (item ?d ''policy_version''),
      sn_policy_identity = str_of (item ?d ''policy_identity''),
      sn_approval_evidence_identity = str_of (item ?d ''approval_evidence_identity''),
      sn_issuance_timestamp_source_identity = str_of (item ?d ''issuance_timestamp_source_identity''),
      sn_authorized_at = str_of (item ?d ''authorized_at''),
      sn_authorization_source_revision = str_of (item ?d ''authorization_source_revision''),
      sn_execution_target = sn_execution_target s, sn_approval_evidence = sn_approval_evidence s,
      sn_snapshot_digest = []\<rparr> = s\<lparr>sn_snapshot_digest := []\<rparr>"
    by (simp add: authorization_snapshot_to_dict_def authorization_snapshot_claims_def)
  then show ?thesis
    unfolding authorization_snapshot_from_dict_def require_exact_fields_sort [OF d] keys
    using snapshot_create_self [OF assms] header same by (simp add: py_eq_int_def)
qed

text \<open>A snapshot whose parts their constructors have accepted.\<close>

definition snapshot_valid :: "(string \<Rightarrow> string) \<Rightarrow> authorization_snapshot \<Rightarrow> bool" where
  "snapshot_valid H s \<longleftrightarrow> authorization_snapshot_ok H s \<and> execution_target_ok H (sn_execution_target s)
     \<and> approval_set_ok H (sn_approval_evidence s)
     \<and> (\<forall>a \<in> set (as_approvals (sn_approval_evidence s)). approval_record_ok a)"

lemma decode_snapshot_row:
  assumes "snapshot_valid H s"
  shows "decode_snapshot H (snapshot_row_of H s key now) = Inr s"
proof -
  let ?t = "sn_execution_target s" and ?e = "sn_approval_evidence s"
  have ok: "authorization_snapshot_ok H s" "execution_target_ok H ?t" "approval_set_ok H ?e"
      "\<forall>a \<in> set (as_approvals ?e). approval_record_ok a"
    using assms by (auto simp: snapshot_valid_def)
  note T = target_dict_settled [OF ok(2)]
  have loads: "json_loads (canonical_json (JObj (authorization_snapshot_to_dict s)))
        = Some (JObj (sort_key fst (authorization_snapshot_to_dict s)))"
      "json_loads (canonical_json (JObj (execution_target_to_dict ?t)))
        = Some (JObj (sort_key fst (execution_target_to_dict ?t)))"
      "json_loads (canonical_json (JObj (approval_set_to_dict ?e))) = Some (JObj (sort_key fst (stored_set ?e)))"
    using json_loads_flat [OF snapshot_dict_flat] settled_loads [OF T]
      json_loads_canonical [OF approval_set_wf, of ?e] by (simp_all only: approval_set_sort)
  have canon: "canonical_json (JObj (sort_key fst (authorization_snapshot_to_dict s)))
        = canonical_json (JObj (authorization_snapshot_to_dict s))"
      "canonical_json (JObj (sort_key fst (execution_target_to_dict ?t)))
        = canonical_json (JObj (execution_target_to_dict ?t))"
      "canonical_json (JObj (sort_key fst (stored_set ?e))) = canonical_json (JObj (approval_set_to_dict ?e))"
    using canonical_json_flat_sorted [OF snapshot_dict_flat] settled_canonical [OF T]
      canonical_json_sort [of "JObj (approval_set_to_dict ?e)"] by (simp_all only: approval_set_sort)
  show ?thesis
    unfolding decode_snapshot_def snapshot_row_of_def
    by (simp add: loads canon target_roundtrip [OF ok(2)] approval_set_roundtrip [OF ok(3,4)]
        snapshot_roundtrip [OF ok(1)])
qed

end
