(* ===== verification/Snapshot_Creator_Properties.thy ===== *)
theory Snapshot_Creator_Properties
  imports Snapshot_Roundtrip Grant_Issuer
begin

text \<open>
  What a created authorization snapshot stands for: the approvals it embeds are the stored approvals of
  the request it names, it is read back as it was stored, creating it again changes nothing, and the
  authority event written with it is the one the issuer of grants accepts.
\<close>

subsection \<open>Loaded approval evidence\<close>

text \<open>An approval rests on a stored row of the request, by another user than its author, for the
  reviewed content, and the instant \<open>t\<close> lies inside its validity.\<close>

definition backed_approval ::
  "work_db \<Rightarrow> change_row \<Rightarrow> string \<Rightarrow> int \<Rightarrow> int \<Rightarrow> approval_record \<Rightarrow> bool" where
  "backed_approval db r review validity t a \<longleftrightarrow>
     (\<exists>v \<in> set (k_approvals db). v_request_id v = q_id r \<and> v_id v = ar_approval_id a
        \<and> v_approver_id v = ar_approver_id a \<and> v_created_at v = ar_approved_at a \<and> v_decision v = ''APPROVED''
        \<and> v_review_content_sha256 v = review \<and> v_approver_id v \<noteq> q_requested_by r
        \<and> instant_at (v_created_at v) \<le> t \<and> t < instant_at (v_created_at v) + seconds validity)"

lemma approval_set_create_eq_Inr:
  assumes "approval_set_create H (JStr rid) (JStr payload) (JStr target) (JStr cap) (JStr version) (Inr approvals)
     (JStr valid_until) = Inr s"
  shows "approval_set_ok H s \<and> as_request_id s = rid \<and> as_payload_digest s = payload \<and> as_target_digest s = target
     \<and> as_capability s = cap \<and> as_policy_version s = version \<and> as_approvals s = sort_key approval_order approvals
     \<and> as_approval_valid_until s = valid_until"
  using assms unfolding approval_set_create_def Let_def
  by (auto simp: bindE_eq_Inr thenE_eq_Inr require_identifier_eq_Inr require_capability_eq_Inr require_policy_version_eq_Inr
      require_digest_eq_Inr require_timestamp_eq_Inr dest!: approval_set_init_ok)

lemma approval_deadline:
  assumes "canonical_time s = Some t" and "add_seconds t n = Inr u"
  shows "instant u = instant_at s + seconds (int n)" and "instant_at (iso_ms u) = instant u"
proof -
  note A = add_seconds_spec [OF canonical_time_Some(2) [OF assms(1)] assms(2)]
  show "instant u = instant_at s + seconds (int n)" using A(2) assms(1) by (simp add: instant_at_def seconds_def)
  have "trunc_ms u = u"
    using A(3) canonical_time_Some(3) [OF assms(1)] by (cases u; cases t) (simp add: trunc_ms_def)
  then show "instant_at (iso_ms u) = instant u"
    using canonical_time_iso_ms [OF A(1)] by (simp add: instant_at_def)
qed

lemma canonical_payload_eq_Inr:
  "canonical_payload r = Inr payload \<longleftrightarrow>
     json_loads (q_payload_json r) = Some payload \<and> is_dict payload \<and> q_payload_json r = canonical_json payload"
  by (auto simp: canonical_payload_def res_simps)

lemma map_res_member: "map_res f xs = Inr ys \<Longrightarrow> y \<in> set ys \<Longrightarrow> \<exists>x \<in> set xs. f x = Inr y"
  by (induction xs arbitrary: ys) (auto simp: res_simps)

lemma backed_row:
  assumes "map_res (approval_of_row review (q_requested_by r) now policy) (approval_rows db rid) = Inr found"
    and "(a, u) \<in> set found" and "q_id r = rid" and "0 < rv_approval_validity_seconds policy"
    and "instant now < instant (earliest (map snd found))"
  shows "approval_record_ok a \<and> instant u = instant_at (ar_approved_at a) + seconds (rv_approval_validity_seconds policy)
      \<and> instant_at (iso_ms u) = instant u
      \<and> backed_approval db r review (rv_approval_validity_seconds policy) (instant now) a"
proof -
  obtain v where v: "v \<in> set (approval_rows db rid)"
    and "approval_of_row review (q_requested_by r) now policy v = Inr (a, u)"
    using map_res_member [OF assms(1,2)] by blast
  note V = approval_of_row_eq_Inr [OF this(2)]
  have "time_ok (v_created_at v)" using V by (auto simp: approval_record_ok_def)
  then have t: "canonical_time (v_created_at v) = Some (the (canonical_time (v_created_at v)))"
    by (auto simp: time_ok_def)
  note D = approval_deadline [OF t, of "nat (rv_approval_validity_seconds policy)" u]
  have len: "instant u = instant_at (v_created_at v) + seconds (rv_approval_validity_seconds policy)"
    using D(1) V assms(4) by simp
  have "instant (earliest (map snd found)) \<le> instant u" using assms(2) by (intro earliest_le) force
  then have "instant now < instant u" using assms(5) by linarith
  moreover have "v \<in> set (k_approvals db)" "v_request_id v = q_id r"
    using v assms(3) by (simp_all add: approval_rows_def)
  ultimately show ?thesis using V len D(2) unfolding backed_approval_def by fastforce
qed

lemma earliest_in: "(a, u) \<in> set found \<Longrightarrow> instant (earliest (map snd found)) \<le> instant u"
  by (intro earliest_le) force

lemma backed_approval_later:
  "backed_approval db r review validity t0 a \<Longrightarrow> t0 \<le> t \<Longrightarrow>
     t < instant_at (ar_approved_at a) + seconds validity \<Longrightarrow> backed_approval db r review validity t a"
  by (auto simp: backed_approval_def)

lemma load_approval_evidence_eq_Inr:
  assumes "load_approval_evidence H db rid capability target policy clock = Inr s"
    and "policy_revision_ok H policy"
  obtains r payload review n where
    "select_request db rid = Some (r, q_environment r)" "q_status r = ''APPROVED''"
    "canonical_payload r = Inr payload" "q_review_content_sha256 r = Some review" "review_digest H r payload = review"
    "required_approvals_for policy (q_environment r) = Inr n" "n \<le> int (card (ar_approver_id ` set (as_approvals s)))"
    "\<forall>a \<in> set (as_approvals s). approval_record_ok a
       \<and> backed_approval db r review (rv_approval_validity_seconds policy) (instant_at (ck_observed_at clock)) a"
    "instant_at (ck_observed_at clock) < instant_at (as_approval_valid_until s)"
    "\<forall>a \<in> set (as_approvals s). instant_at (as_approval_valid_until s)
       \<le> instant_at (ar_approved_at a) + seconds (rv_approval_validity_seconds policy)"
    "approval_set_ok H s" "as_request_id s = rid" "as_payload_digest s = request_payload_digest H payload"
    "as_target_digest s = et_target_digest target" "as_capability s = capability"
    "as_policy_version s = rv_policy_version policy" "ck_environment clock = q_environment r"
proof -
  note E = assms(1) [unfolded load_approval_evidence_def canonical_datetime_def Let_def bindE_eq_Inr thenE_eq_Inr
      guardE_eq_Inr orRaise_eq_Inr split_paired_Ex prod.case]
  from E obtain r we payload review now found n where
    sel0: "select_request db rid = Some (r, we)" "q_environment r = we"
    and guards: "ck_environment clock = q_environment r" "q_status r = ''APPROVED''"
      "canonical_payload r = Inr payload" "q_review_content_sha256 r = Some review" "review_digest H r payload = review"
      "approval_rows db rid \<noteq> []"
    and now: "canonical_time (ck_observed_at clock) = Some now"
    and found: "map_res (approval_of_row review (q_requested_by r) now policy) (approval_rows db rid) = Inr found"
    and n: "required_approvals_for policy (q_environment r) = Inr n"
    and quorum0: "\<not> int (length (remdups (map (ar_approver_id \<circ> fst) found))) < n"
    and valid0: "\<not> instant (earliest (map snd found)) \<le> instant now"
    and created: "approval_set_create H (JStr rid) (JStr (request_payload_digest H payload))
        (JStr (et_target_digest target)) (JStr capability) (JStr (rv_policy_version policy))
        (Inr (map fst found)) (JStr (iso_ms (earliest (map snd found)))) = Inr s"
    by (elim exE conjE) (rule that)
  have sel: "select_request db rid = Some (r, q_environment r)" using sel0 by simp
  have quorum: "n \<le> int (length (remdups (map (ar_approver_id \<circ> fst) found)))" using quorum0 by simp
  have valid: "instant now < instant (earliest (map snd found))" using valid0 by simp
  note S = approval_set_create_eq_Inr [OF created]
  have rid: "q_id r = rid" using sel by (auto simp: select_request_def dest: select_Some_D split: option.splits)
  have time: "instant_at (ck_observed_at clock) = instant now" using now by (simp add: instant_at_def)
  have pos: "0 < rv_approval_validity_seconds policy" using assms(2) by (simp add: policy_revision_ok_def)
  note row = backed_row [OF found _ rid pos valid]
  have set_s: "set (as_approvals s) = fst ` set found" using S by simp
  have ne: "found \<noteq> []" using found guards(6) by (auto simp: map_res_eq_Inr)
  have "earliest (map snd found) \<in> set (map snd found)" using ne by (intro earliest_mem) simp
  then obtain a where a: "(a, earliest (map snd found)) \<in> set found" by auto
  have vu: "instant_at (as_approval_valid_until s) = instant (earliest (map snd found))"
    using S row [OF a] by simp
  have "card (ar_approver_id ` set (as_approvals s)) = length (remdups (map (ar_approver_id \<circ> fst) found))"
    by (simp add: set_s length_remdups_card_conv image_image)
  then have q: "n \<le> int (card (ar_approver_id ` set (as_approvals s)))" using quorum by simp
  have all: "\<forall>a \<in> set (as_approvals s). approval_record_ok a
       \<and> backed_approval db r review (rv_approval_validity_seconds policy) (instant_at (ck_observed_at clock)) a"
    using row by (auto simp: set_s time)
  have lt: "instant_at (ck_observed_at clock) < instant_at (as_approval_valid_until s)"
    using valid by (simp add: vu time)
  have ex: "\<forall>a \<in> set (as_approvals s). instant_at (as_approval_valid_until s)
       \<le> instant_at (ar_approved_at a) + seconds (rv_approval_validity_seconds policy)"
    using row by (fastforce simp: vu set_s dest: earliest_in)
  show thesis
    by (rule that [OF sel guards(2-5) n q all lt ex]) (use S guards(1) in simp_all)
qed

subsection \<open>The steps of a creation\<close>

lemma validated_request_eq_Inr:
  assumes "validated_request H (select_request db rid) = Inr (r, review, payload)"
  shows "select_request db rid = Some (r, q_environment r) \<and> q_status r = ''APPROVED''
     \<and> q_review_content_sha256 r = Some review \<and> canonical_payload r = Inr payload
     \<and> review = review_digest H r payload"
  using assms unfolding validated_request_def
  by (auto simp: bindE_eq_Inr thenE_eq_Inr guardE_eq_Inr orRaise_eq_Inr canonical_payload_eq_Inr)

lemma select_for_adapter_eq_Inr:
  "select_for_adapter cr adapter = Inr selection \<longleftrightarrow> so_select cr adapter = Inr selection \<and> sl_adapter selection = adapter"
  by (auto simp: select_for_adapter_def res_simps)

lemma resolve_creation_clock_eq_Inr:
  "resolve_creation_clock H cr reading environment = Inr w \<longleftrightarrow>
     clock_authority_witness H (so_clock cr) reading environment = Inr w
     \<and> ck_source_identity w = ca_source_identity (so_clock cr)"
  by (auto simp: resolve_creation_clock_def res_simps)

lemma resolve_permission_eq_Inr:
  assumes "resolve_permission cr actor workspace environment = Inr p"
  shows "so_decide cr \<lparr>pq_actor_id = actor, pq_workspace_id = workspace, pq_environment = environment,
        pq_permission = required_execution_permission\<rparr> = Inr p
     \<and> pd_granted p \<and> environment \<in> set valid_environments"
  using assms by (auto simp: resolve_permission_def permission_query_init_def res_simps)

lemma resolve_revocation_epoch_eq_Inr:
  assumes "resolve_revocation_epoch cr workspace environment identity = Inr epoch"
  shows "so_current_epoch cr workspace environment identity = Inr (JInt epoch)"
proof -
  obtain v where v: "so_current_epoch cr workspace environment identity = Inr v"
    and c: "(case v of JInt epoch \<Rightarrow> if epoch < 0 then Inl (refusal ''REVOCATION_EPOCH_INVALID'') else Inr epoch
       | _ \<Rightarrow> Inl (refusal ''REVOCATION_EPOCH_INVALID'')) = Inr epoch"
    using assms unfolding resolve_revocation_epoch_def by (auto simp: bindE_eq_Inr catchE_eq_Inr)
  from c have "v = JInt epoch" by (cases v) (auto split: if_splits)
  with v show ?thesis by simp
qed

lemma collect_facts_eq_Inr:
  assumes "collect_facts H cr reading db actor rid r review payload = Inr f"
  obtains a certificate epoch where
    "q_environment r = ''production'' \<longrightarrow> so_production_effects_enabled cr" "\<not> is_stop_active (k_core db)"
    "so_select cr (q_adapter r) = Inr (fx_selection f)" "sl_adapter (fx_selection f) = q_adapter r"
    "resolve_for_execution (so_registry cr) (sl_capability (fx_selection f)) (q_environment r) = Inr (fx_definition f, a)"
    "bind_target H (so_procedures cr) (fx_definition f) payload = Inr (fx_binding f)"
    "resolve_policy (so_policy_authority cr) (so_policy_version cr) = Inr (fx_policy f)"
    "clock_authority_witness H (so_clock cr) reading (q_environment r) = Inr (fx_clock f)"
    "load_approval_evidence H db rid (cd_capability (fx_definition f)) (tb_target (fx_binding f)) (fx_policy f) (fx_clock f)
       = Inr (fx_evidence f)"
    "approval_certificate_create H review (fx_policy f) (fx_evidence f) = Inr certificate"
    "resolve_permission cr actor (q_workspace_id r) (q_environment r) = Inr (fx_decision f)"
    "so_current_epoch cr (q_workspace_id r) (q_environment r) (cd_definition_identity (fx_definition f)) = Inr (JInt epoch)"
    "witness_set_create H (fx_decision f) (fx_policy f) (fx_definition f) a (fx_binding f) certificate (fx_clock f) epoch
       = Inr (fx_witness_set f)"
proof -
  note E = assms [unfolded collect_facts_def bindE_eq_Inr thenE_eq_Inr guardE_eq_Inr catchE_eq_Inr
      split_paired_Ex prod.case select_for_adapter_eq_Inr resolve_creation_clock_eq_Inr sum.inject]
  from E obtain selection d a b policy w evidence certificate decision epoch ws where
    e: "\<not> (q_environment r = ''production'' \<and> \<not> so_production_effects_enabled cr)" "\<not> is_stop_active (k_core db)"
    "so_select cr (q_adapter r) = Inr selection \<and> sl_adapter selection = q_adapter r"
    "resolve_for_execution (so_registry cr) (sl_capability selection) (q_environment r) = Inr (d, a)"
    "bind_target H (so_procedures cr) d payload = Inr b"
    "resolve_policy (so_policy_authority cr) (so_policy_version cr) = Inr policy"
    "clock_authority_witness H (so_clock cr) reading (q_environment r) = Inr w
       \<and> ck_source_identity w = ca_source_identity (so_clock cr)"
    "load_approval_evidence H db rid (cd_capability d) (tb_target b) policy w = Inr evidence"
    "approval_certificate_create H review policy evidence = Inr certificate"
    "resolve_permission cr actor (q_workspace_id r) (q_environment r) = Inr decision"
    "resolve_revocation_epoch cr (q_workspace_id r) (q_environment r) (cd_definition_identity d) = Inr epoch"
    "witness_set_create H decision policy d a b certificate w epoch = Inr ws"
    "\<lparr>fx_selection = selection, fx_definition = d, fx_binding = b, fx_policy = policy, fx_clock = w,
      fx_evidence = evidence, fx_decision = decision, fx_witness_set = ws\<rparr> = f"
    by blast
  have f: "fx_selection f = selection" "fx_definition f = d" "fx_binding f = b" "fx_policy f = policy"
    "fx_clock f = w" "fx_evidence f = evidence" "fx_decision f = decision" "fx_witness_set f = ws"
    using e(13) by auto
  show thesis
    by (rule that [unfolded f]) (use e resolve_revocation_epoch_eq_Inr [OF e(11)] in simp_all)
qed

subsection \<open>The whole transaction\<close>

lemma authorization_snapshot_create_eq_Inr:
  "authorization_snapshot_create H c = Inr s \<longleftrightarrow>
     s = c\<lparr>sn_snapshot_digest := claims_digest H (authorization_snapshot_claims c)\<rparr> \<and> authorization_snapshot_ok H s"
  by (auto simp: authorization_snapshot_create_def authorization_snapshot_init_iff)

lemma insert_snapshot_eq_Inr:
  "insert_snapshot db r = Inr db' \<Longrightarrow> db' = db\<lparr>d_snapshots := d_snapshots db @ [r]\<rparr>
     \<and> key_free ss_id (ss_id r) (d_snapshots db)"
  by (auto simp: insert_snapshot_def res_simps)

lemma persist_new:
  assumes "persist_snapshot H now idt db s key corr = Inr (s', db')"
    and "select ss_idempotency_key key (d_snapshots db) = None"
  obtains w where "s' = s" "db' = \<lparr>d_work = w, d_snapshots = d_snapshots db @ [snapshot_row_of H s key now]\<rparr>"
    "with_audit H idt (d_work db) (sn_actor_id s) ''authorization_snapshot.create'' ''authorization_snapshot''
       (sn_snapshot_id s) (JObj (snapshot_created_payload corr s)) = Inr w"
    "key_free ss_id (sn_snapshot_id s) (d_snapshots db)"
proof -
  obtain db1 w where 1: "insert_snapshot db (snapshot_row_of H s key now) = Inr db1"
    and 2: "with_audit H idt (d_work db1) (sn_actor_id s) ''authorization_snapshot.create'' ''authorization_snapshot''
       (sn_snapshot_id s) (JObj (snapshot_created_payload corr s)) = Inr w"
    and 3: "(s, db1\<lparr>d_work := w\<rparr>) = (s', db')"
    using assms unfolding persist_snapshot_def
    by (simp only: option.case bindE_eq_Inr thenE_eq_Inr catchE_eq_Inr sum.inject) blast
  note I = insert_snapshot_eq_Inr [OF 1]
  show thesis
    by (rule that [of w]) (use 2 3 I in \<open>auto simp: snapshot_row_of_def\<close>)
qed

lemma creation_eq_Inr:
  assumes "create_snapshot H cr reading sid eid now idt1 idt2 db actor rid key corr = Inr (s, db')"
  obtains r review payload f s0 db1 where
    "text_ok corr" "validated_request H (select_request (d_work db) rid) = Inr (r, review, payload)"
    "collect_facts H cr reading (d_work db) actor rid r review payload = Inr f"
    "authorization_snapshot_create H (snapshot_of_facts cr sid eid actor rid r review f) = Inr s0"
    "persist_snapshot H now idt1 db s0 key corr = Inr (s, db1)"
    "if select ss_idempotency_key key (d_snapshots db) = None
     then append_witness_audit H idt2 db1 s corr (fx_selection f) (fx_witness_set f) = Inr db' else db' = db1"
proof -
  have "text_ok corr" using assms by (simp add: create_snapshot_def thenE_eq_Inr check_texts_eq_Inr)
  have "create_in_transaction H cr reading sid eid now idt1 idt2 db actor rid key corr = Inr (s, db')"
    using assms by (simp add: create_snapshot_def thenE_eq_Inr)
  note E = this [unfolded create_in_transaction_def Let_def bindE_eq_Inr split_paired_Ex prod.case]
  then obtain r review payload f s0 s1 db1 where
    e: "validated_request H (select_request (d_work db) rid) = Inr (r, review, payload)"
    "collect_facts H cr reading (d_work db) actor rid r review payload = Inr f"
    "authorization_snapshot_create H (snapshot_of_facts cr sid eid actor rid r review f) = Inr s0"
    "persist_snapshot H now idt1 db s0 key corr = Inr (s1, db1)"
    and last: "(if select ss_idempotency_key key (d_snapshots db) = None
     then bindE (append_witness_audit H idt2 db1 s1 corr (fx_selection f) (fx_witness_set f)) (\<lambda>db2. Inr (s1, db2))
     else Inr (s1, db1)) = Inr (s, db')"
    by blast
  have s1: "s1 = s" using last by (auto simp: bindE_eq_Inr split: if_splits)
  have "if select ss_idempotency_key key (d_snapshots db) = None
     then append_witness_audit H idt2 db1 s corr (fx_selection f) (fx_witness_set f) = Inr db' else db' = db1"
    using last by (auto simp: bindE_eq_Inr s1 split: if_splits)
  then show thesis using that [OF \<open>text_ok corr\<close> e(1-3)] e(4) s1 by blast
qed

text \<open>A policy authority whose revisions were all made by the constructor.\<close>

definition policies_valid :: "(string \<Rightarrow> string) \<Rightarrow> policy_authority \<Rightarrow> bool" where
  "policies_valid H y \<longleftrightarrow> (\<forall>version c. py_by_version y version = Some c \<longrightarrow> policy_revision_ok H c)"

lemma resolve_policy_ok: "policies_valid H y \<Longrightarrow> resolve_policy y version = Inr c \<Longrightarrow> policy_revision_ok H c"
  by (auto simp: policies_valid_def resolve_policy_def res_simps)

lemma facts_snapshot_valid:
  assumes "policies_valid H (so_policy_authority cr)"
    and "collect_facts H cr reading db actor rid r review payload = Inr f"
    and "authorization_snapshot_create H (snapshot_of_facts cr sid eid actor rid r review f) = Inr s"
  shows "snapshot_valid H s"
proof -
  obtain a certificate epoch where
    b: "bind_target H (so_procedures cr) (fx_definition f) payload = Inr (fx_binding f)"
    and p: "resolve_policy (so_policy_authority cr) (so_policy_version cr) = Inr (fx_policy f)"
    and l: "load_approval_evidence H db rid (cd_capability (fx_definition f)) (tb_target (fx_binding f)) (fx_policy f)
       (fx_clock f) = Inr (fx_evidence f)"
    using assms(2) by (rule collect_facts_eq_Inr)
  obtain r' payload' review' n where l2: "approval_set_ok H (fx_evidence f)"
      "\<forall>a \<in> set (as_approvals (fx_evidence f)). approval_record_ok a
       \<and> backed_approval db r' review' (rv_approval_validity_seconds (fx_policy f)) (instant_at (ck_observed_at (fx_clock f))) a"
    by (rule load_approval_evidence_eq_Inr [OF l resolve_policy_ok [OF assms(1) p]]) blast
  obtain q where "target_binding_ok H (fx_binding f)" using b by (rule bind_target_eq_Inr)
  moreover have "sn_execution_target s = tb_target (fx_binding f)" "sn_approval_evidence s = fx_evidence f"
      "authorization_snapshot_ok H s"
    using assms(3) by (auto simp: authorization_snapshot_create_eq_Inr snapshot_of_facts_def)
  ultimately show ?thesis using l2 by (simp add: snapshot_valid_def target_binding_ok_def)
qed

subsection \<open>The events of a creation\<close>

lemma with_audit_row:
  assumes "with_audit H idt db actor action ttype tid payload = Inr db'"
  obtains row where "k_core db' = (k_core db)\<lparr>c_audit := c_audit (k_core db) @ [row]\<rparr>"
    "k_requests db' = k_requests db" "k_approvals db' = k_approvals db"
    "a_id row = fst idt" "a_actor_id row = actor" "a_action row = action" "a_target_type row = ttype" "a_target_id row = tid"
    "a_payload_json row = canonical_json payload" "a_created_at row = snd idt"
    "a_sequence row = next_sequence a_sequence (c_audit (k_core db))"
    "a_previous_hash row = last_hash a_sequence a_event_hash (c_audit (k_core db))"
    "a_event_hash row = chained_hash H (a_previous_hash row) (audit_event (fst idt) actor action ttype tid payload (snd idt))"
proof -
  let ?prev = "last_hash a_sequence a_event_hash (c_audit (k_core db))"
  let ?row = "\<lparr>a_sequence = next_sequence a_sequence (c_audit (k_core db)), a_id = fst idt, a_actor_id = actor,
      a_action = action, a_target_type = ttype, a_target_id = tid, a_payload_json = canonical_json payload,
      a_previous_hash = ?prev,
      a_event_hash = chained_hash H ?prev (audit_event (fst idt) actor action ttype tid payload (snd idt)),
      a_created_at = snd idt\<rparr>"
  have "db' = db\<lparr>k_core := (k_core db)\<lparr>c_audit := c_audit (k_core db) @ [?row]\<rparr>\<rparr>"
    using assms unfolding with_audit_def audit_def audit_append_def Let_def
    by (simp add: bindE_eq_Inr split: if_splits)
  then show thesis by (intro that [of ?row]) simp_all
qed

lemma last_hash_snoc:
  assumes "a_sequence row = next_sequence a_sequence rows"
  shows "last_hash a_sequence a_event_hash (rows @ [row]) = a_event_hash row"
proof -
  have "sort_key a_sequence (rows @ [row]) = sort_key a_sequence rows @ [row]"
    by (rule sort_key_snoc_max) (simp add: assms next_sequence_greater)
  then show ?thesis by (simp add: last_hash_def)
qed

lemma audit_event_sorted:
  "chained_hash H p (audit_event i actor action ttype tid (json_sort v) t)
     = chained_hash H p (audit_event i actor action ttype tid v t)"
  by (simp add: chained_hash_def canonical_json_def audit_event_def)

lemma witness_payload_flat: "flat (authority_witness_payload corr s selection w)"
  by (simp add: flat_def authority_witness_payload_def)

lemma witness_payload_read:
  assumes "a_payload_json row = canonical_json (JObj (authority_witness_payload corr s selection w))"
  shows "authority_payload row = Inr (sort_key fst (authority_witness_payload corr s selection w))"
proof -
  let ?p = "authority_witness_payload corr s selection w"
  have "fst ` set ?p = set authority_payload_fields"
    by (simp add: authority_witness_payload_def authority_payload_fields_def)
  then show ?thesis
    using assms json_loads_flat [OF witness_payload_flat] canonical_json_flat_sorted [OF witness_payload_flat]
    by (simp add: authority_payload_def)
qed

text \<open>The event of a creation, read back by the issuer.\<close>

lemma witness_event_loads:
  assumes rows: "authority_witness_rows cdb (sn_snapshot_id s) = [row]"
    and row: "a_id row = i" "a_actor_id row = sn_actor_id s" "a_action row = ''authorization_snapshot.authority_witness''"
      "a_target_type row = ''authorization_snapshot''" "a_target_id row = sn_snapshot_id s" "a_created_at row = t"
      "a_payload_json row = canonical_json (JObj (authority_witness_payload corr s selection w))"
      "a_event_hash row = chained_hash H (a_previous_hash row) (audit_event i (sn_actor_id s)
         ''authorization_snapshot.authority_witness'' ''authorization_snapshot'' (sn_snapshot_id s)
         (JObj (authority_witness_payload corr s selection w)) t)"
    and prev: "digest_ok (a_previous_hash row)" and H: "\<And>x. digest_ok (H x)"
    and texts: "text_ok i" "time_ok t" "text_ok corr" "authorization_snapshot_ok H s"
      "capability_selection_ok H selection" "witness_set_ok H w"
    and same: "aw_policy_identity w = sn_policy_identity s"
      "aw_capability_definition_identity w = sn_capability_definition_identity s"
  shows "load_snapshot_authority_evidence H cdb s
     = authority_evidence_create H (sn_snapshot_id s) (sn_snapshot_digest s) (aw_witness_set_digest w)
         (aw_revocation_epoch w) (a_event_hash row)"
proof -
  let ?p = "authority_witness_payload corr s selection w"
  have it: "item (sort_key fst ?p) = item ?p"
    using witness_payload_flat [of corr s selection w] by (simp add: item_sort flat_def)
  have snap: "text_ok (sn_snapshot_id s)" "text_ok (sn_actor_id s)" "text_ok (sn_authorization_source_revision s)"
    using texts(4) by (simp_all add: authorization_snapshot_ok_def)
  have fixed: "text_ok ''authorization_snapshot.authority_witness''" "text_ok ''authorization_snapshot''"
    by code_simp+
  have sel: "text_ok (sl_authority_revision selection)" "digest_ok (sl_selection_digest selection)"
    using texts(5) H by (simp_all add: capability_selection_ok_def claims_digest_def)
  have ws: "list_all digest_ok [aw_permission_decision_digest w, aw_policy_identity w, aw_capability_definition_identity w,
      aw_capability_activation_digest w, aw_target_binding_digest w, aw_approval_certificate_digest w,
      aw_clock_witness_digest w, aw_witness_set_digest w]" "0 \<le> aw_revocation_epoch w"
    using texts(6) unfolding witness_set_ok_def by blast+
  obtain u where u: "canonical_time t = Some u" using texts(2) by (auto simp: time_ok_def)
  have 1: "check_texts [(''id'', i), (''actor_id'', sn_actor_id s),
      (''action'', ''authorization_snapshot.authority_witness''), (''target_type'', ''authorization_snapshot''),
      (''target_id'', sn_snapshot_id s)] = Inr ()"
    by (simp only: check_texts_eq_Inr list.map snd_conv list.pred_inject texts(1) snap fixed simp_thms)
  have 2: "require_timestamp ''created_at'' (JStr t) = Inr u"
    using u by (simp add: require_timestamp_eq_Inr)
  have 3: "for_each (check_text (item ?p))
      [''correlation_id'', ''capability_selection_authority_revision'', ''authorization_source_revision''] = Inr ()"
    using texts(3) sel(1) snap(3) by (simp add: thenE_eq_Inr check_text_eq_Inr authority_witness_payload_def)
  have 4: "for_each (check_digest (item ?p))
      [''authority_witness_set_digest'', ''permission_decision_digest'', ''capability_selection_digest'', ''policy_identity'',
       ''capability_definition_identity'', ''capability_activation_digest'', ''target_binding_digest'',
       ''approval_certificate_digest'', ''clock_witness_digest''] = Inr ()"
    using ws(1) sel(2) by (simp add: thenE_eq_Inr check_digest_eq_Inr authority_witness_payload_def)
  have 5: "(if a_previous_hash row = genesis then Inr () else check_digests [(''previous_hash'', a_previous_hash row)]) = Inr ()"
      "check_digests [(''event_hash'', a_event_hash row)] = Inr ()"
    using prev H by (simp_all add: check_digests_eq_Inr row(8) chained_hash_def)
  have 6: "chained_hash H (a_previous_hash row) (audit_event i (sn_actor_id s)
         ''authorization_snapshot.authority_witness'' ''authorization_snapshot'' (sn_snapshot_id s)
         (JObj (sort_key fst ?p)) t) = a_event_hash row"
    using audit_event_sorted [of H _ _ _ _ _ _ "JObj ?p"]
    by (simp only: flat_sort [OF witness_payload_flat] row(8))
  have 7: "item ?p ''snapshot_digest'' = JStr (sn_snapshot_digest s)" "item ?p ''policy_identity'' = JStr (sn_policy_identity s)"
      "item ?p ''capability_definition_identity'' = JStr (sn_capability_definition_identity s)"
      "item ?p ''authorization_source_revision'' = JStr (sn_authorization_source_revision s)"
      "item ?p ''authority_witness_set_digest'' = JStr (aw_witness_set_digest w)"
      "item ?p ''revocation_epoch'' = JInt (aw_revocation_epoch w)"
    using same by (simp_all add: authority_witness_payload_def)
  show ?thesis
    unfolding load_snapshot_authority_evidence_def rows
    by (simp only: list.case bindE_Inr it Let_def 1 2 3 4 5 6 7 thenE_Inr catchE_Inr row(1-6) simp_thms
        witness_payload_read [OF row(7)] guardE_True json.case not_less ws(2) str_of.simps)
qed

subsection \<open>What a new snapshot stands for\<close>

lemma new_creation:
  assumes "create_snapshot H cr reading sid eid now idt1 idt2 db actor rid key corr = Inr (s, db')"
    and "select ss_idempotency_key key (d_snapshots db) = None"
  obtains r review payload f w1 w2 where
    "text_ok corr" "validated_request H (select_request (d_work db) rid) = Inr (r, review, payload)"
    "collect_facts H cr reading (d_work db) actor rid r review payload = Inr f"
    "authorization_snapshot_create H (snapshot_of_facts cr sid eid actor rid r review f) = Inr s"
    "with_audit H idt1 (d_work db) (sn_actor_id s) ''authorization_snapshot.create'' ''authorization_snapshot''
       (sn_snapshot_id s) (JObj (snapshot_created_payload corr s)) = Inr w1"
    "with_audit H idt2 w1 (sn_actor_id s) ''authorization_snapshot.authority_witness'' ''authorization_snapshot''
       (sn_snapshot_id s) (JObj (authority_witness_payload corr s (fx_selection f) (fx_witness_set f))) = Inr w2"
    "db' = \<lparr>d_work = w2, d_snapshots = d_snapshots db @ [snapshot_row_of H s key now]\<rparr>"
    "key_free ss_id (sn_snapshot_id s) (d_snapshots db)"
proof -
  obtain r review payload f s0 db1 where
    c: "text_ok corr" "validated_request H (select_request (d_work db) rid) = Inr (r, review, payload)"
    "collect_facts H cr reading (d_work db) actor rid r review payload = Inr f"
    "authorization_snapshot_create H (snapshot_of_facts cr sid eid actor rid r review f) = Inr s0"
    and p: "persist_snapshot H now idt1 db s0 key corr = Inr (s, db1)"
    and e: "if select ss_idempotency_key key (d_snapshots db) = None
     then append_witness_audit H idt2 db1 s corr (fx_selection f) (fx_witness_set f) = Inr db' else db' = db1"
    by (rule creation_eq_Inr [OF assms(1)])
  obtain w1 where w: "s = s0" "db1 = \<lparr>d_work = w1, d_snapshots = d_snapshots db @ [snapshot_row_of H s0 key now]\<rparr>"
    "with_audit H idt1 (d_work db) (sn_actor_id s0) ''authorization_snapshot.create'' ''authorization_snapshot''
       (sn_snapshot_id s0) (JObj (snapshot_created_payload corr s0)) = Inr w1"
    "key_free ss_id (sn_snapshot_id s0) (d_snapshots db)"
    by (rule persist_new [OF p assms(2)])
  have "append_witness_audit H idt2 db1 s corr (fx_selection f) (fx_witness_set f) = Inr db'"
    using e assms(2) by simp
  then obtain w2 where
    "with_audit H idt2 (d_work db1) (sn_actor_id s) ''authorization_snapshot.authority_witness'' ''authorization_snapshot''
       (sn_snapshot_id s) (JObj (authority_witness_payload corr s (fx_selection f) (fx_witness_set f))) = Inr w2"
    "db' = db1\<lparr>d_work := w2\<rparr>"
    unfolding append_witness_audit_def by (auto simp: bindE_eq_Inr)
  then show thesis using c w by (intro that) simp_all
qed

lemma new_snapshot_valid:
  assumes "policies_valid H (so_policy_authority cr)"
    and "create_snapshot H cr reading sid eid now idt1 idt2 db actor rid key corr = Inr (s, db')"
    and "select ss_idempotency_key key (d_snapshots db) = None"
  shows "snapshot_valid H s"
  by (rule new_creation [OF assms(2,3)]) (rule facts_snapshot_valid [OF assms(1)])

lemma snapshot_of_facts_fields:
  assumes "authorization_snapshot_create H (snapshot_of_facts cr sid eid actor rid r review f) = Inr s"
  shows "sn_snapshot_id s = sid" "sn_execution_id s = eid" "sn_request_id s = rid" "sn_actor_id s = actor"
    "sn_review_content_sha256 s = review" "sn_workspace_id s = q_workspace_id r" "sn_environment s = q_environment r"
    "sn_capability_definition_identity s = cd_definition_identity (fx_definition f)"
    "sn_payload_digest s = as_payload_digest (fx_evidence f)" "sn_policy_identity s = rv_policy_identity (fx_policy f)"
    "sn_authorized_at s = ck_observed_at (fx_clock f)" "sn_approval_evidence s = fx_evidence f"
  using assms by (simp_all add: authorization_snapshot_create_eq_Inr snapshot_of_facts_def)

lemma new_snapshot_actor:
  assumes "create_snapshot H cr reading sid eid now idt1 idt2 db actor rid key corr = Inr (s, db')"
    and "select ss_idempotency_key key (d_snapshots db) = None"
  shows "sn_actor_id s = actor"
  by (rule new_creation [OF assms]) (rule snapshot_of_facts_fields)

text \<open>The approvals of a snapshot fulfil a policy revision, for a request in a database and at an instant.\<close>

definition rests_on_approvals ::
  "(string \<Rightarrow> string) \<Rightarrow> work_db \<Rightarrow> policy_revision \<Rightarrow> int \<Rightarrow> authorization_snapshot \<Rightarrow> bool" where
  "rests_on_approvals H db policy t s \<longleftrightarrow>
     (\<exists>r payload n. select_request db (sn_request_id s) = Some (r, q_environment r) \<and> q_status r = ''APPROVED''
        \<and> q_workspace_id r = sn_workspace_id s \<and> q_environment r = sn_environment s
        \<and> canonical_payload r = Inr payload \<and> sn_payload_digest s = request_payload_digest H payload
        \<and> sn_review_content_sha256 s = review_digest H r payload
        \<and> q_review_content_sha256 r = Some (sn_review_content_sha256 s)
        \<and> required_approvals_for policy (sn_environment s) = Inr n \<and> 1 \<le> n
        \<and> n \<le> int (card (ar_approver_id ` set (as_approvals (sn_approval_evidence s))))
        \<and> (\<forall>a \<in> set (as_approvals (sn_approval_evidence s)). backed_approval db r (sn_review_content_sha256 s)
             (rv_approval_validity_seconds policy) t a))"

lemma created_rests:
  assumes "policies_valid H (so_policy_authority cr)"
    and "create_snapshot H cr reading sid eid now idt1 idt2 db actor rid key corr = Inr (s, db')"
    and "select ss_idempotency_key key (d_snapshots db) = None"
    and "instant_at (sn_authorized_at s) \<le> t" and "t < instant_at (as_approval_valid_until (sn_approval_evidence s))"
  shows "\<exists>policy. resolve_policy (so_policy_authority cr) (so_policy_version cr) = Inr policy
     \<and> rv_policy_identity policy = sn_policy_identity s \<and> rests_on_approvals H (d_work db) policy t s"
proof -
  obtain r review payload f where
    v: "validated_request H (select_request (d_work db) rid) = Inr (r, review, payload)"
    and c: "collect_facts H cr reading (d_work db) actor rid r review payload = Inr f"
    and s: "authorization_snapshot_create H (snapshot_of_facts cr sid eid actor rid r review f) = Inr s"
    by (rule new_creation [OF assms(2,3)])
  note R = validated_request_eq_Inr [OF v] and F = snapshot_of_facts_fields [OF s]
  obtain a certificate epoch where
    p: "resolve_policy (so_policy_authority cr) (so_policy_version cr) = Inr (fx_policy f)"
    and l: "load_approval_evidence H (d_work db) rid (cd_capability (fx_definition f)) (tb_target (fx_binding f))
       (fx_policy f) (fx_clock f) = Inr (fx_evidence f)"
    and d: "resolve_permission cr actor (q_workspace_id r) (q_environment r) = Inr (fx_decision f)"
    by (rule collect_facts_eq_Inr [OF c])
  note P = resolve_policy_ok [OF assms(1) p] and D = resolve_permission_eq_Inr [OF d]
  obtain r' payload' review' n where
    L: "select_request (d_work db) rid = Some (r', q_environment r')" "q_review_content_sha256 r' = Some review'"
      "canonical_payload r' = Inr payload'" "required_approvals_for (fx_policy f) (q_environment r') = Inr n"
      "n \<le> int (card (ar_approver_id ` set (as_approvals (fx_evidence f))))"
      "\<forall>a \<in> set (as_approvals (fx_evidence f)). approval_record_ok a \<and> backed_approval (d_work db) r' review'
         (rv_approval_validity_seconds (fx_policy f)) (instant_at (ck_observed_at (fx_clock f))) a"
      "\<forall>a \<in> set (as_approvals (fx_evidence f)). instant_at (as_approval_valid_until (fx_evidence f))
         \<le> instant_at (ar_approved_at a) + seconds (rv_approval_validity_seconds (fx_policy f))"
      "as_payload_digest (fx_evidence f) = request_payload_digest H payload'"
    by (rule load_approval_evidence_eq_Inr [OF l P])
  have same: "r' = r" "review' = review" "payload' = payload" using L(1-3) R by auto
  have "1 \<le> n" using required_approvals_for_ok [OF P conjunct2 [OF conjunct2 [OF D]]] L(4) same by auto
  moreover have "\<forall>a \<in> set (as_approvals (fx_evidence f)). backed_approval (d_work db) r review
      (rv_approval_validity_seconds (fx_policy f)) t a"
    using L(6,7) assms(4,5) unfolding same F by (fastforce intro: backed_approval_later)
  ultimately have "rests_on_approvals H (d_work db) (fx_policy f) t s"
    unfolding rests_on_approvals_def F using L R by (auto simp: same)
  then show ?thesis using p by (auto simp: F)
qed

lemma created_before_expiry:
  assumes "policies_valid H (so_policy_authority cr)"
    and "create_snapshot H cr reading sid eid now idt1 idt2 db actor rid key corr = Inr (s, db')"
    and "select ss_idempotency_key key (d_snapshots db) = None"
  shows "instant_at (sn_authorized_at s) < instant_at (as_approval_valid_until (sn_approval_evidence s))"
proof -
  obtain r review payload f where
    c: "collect_facts H cr reading (d_work db) actor rid r review payload = Inr f"
    and s: "authorization_snapshot_create H (snapshot_of_facts cr sid eid actor rid r review f) = Inr s"
    by (rule new_creation [OF assms(2,3)])
  obtain a certificate epoch where
    p: "resolve_policy (so_policy_authority cr) (so_policy_version cr) = Inr (fx_policy f)"
    and l: "load_approval_evidence H (d_work db) rid (cd_capability (fx_definition f)) (tb_target (fx_binding f))
       (fx_policy f) (fx_clock f) = Inr (fx_evidence f)"
    by (rule collect_facts_eq_Inr [OF c])
  show ?thesis unfolding snapshot_of_facts_fields [OF s]
    by (rule load_approval_evidence_eq_Inr [OF l resolve_policy_ok [OF assms(1) p]])
qed

text \<open>
  (C9) A new authorization snapshot rests on an approved request whose present content is the reviewed
  content: the policy revision in force requires at least one approval, at least as many distinct users
  as it requires, none of them the author, approved that content, each not after the authorization and
  each still valid at it; the stop was off and the permission authority granted the execution.
\<close>

theorem created_snapshot_rests_on_approvals:
  assumes "policies_valid H (so_policy_authority cr)"
    and "create_snapshot H cr reading sid eid now idt1 idt2 db actor rid key corr = Inr (s, db')"
    and "select ss_idempotency_key key (d_snapshots db) = None"
  shows "sn_request_id s = rid \<and> sn_actor_id s = actor \<and> authorization_snapshot_ok H s
    \<and> \<not> is_stop_active (k_core (d_work db))
    \<and> (sn_environment s = ''production'' \<longrightarrow> so_production_effects_enabled cr)
    \<and> (\<exists>policy. resolve_policy (so_policy_authority cr) (so_policy_version cr) = Inr policy
         \<and> rv_policy_identity policy = sn_policy_identity s
         \<and> rests_on_approvals H (d_work db) policy (instant_at (sn_authorized_at s)) s)
    \<and> (\<exists>p. so_decide cr \<lparr>pq_actor_id = actor, pq_workspace_id = sn_workspace_id s, pq_environment = sn_environment s,
           pq_permission = required_execution_permission\<rparr> = Inr p \<and> pd_granted p)"
proof -
  obtain r review payload f where
    c: "collect_facts H cr reading (d_work db) actor rid r review payload = Inr f"
    and s: "authorization_snapshot_create H (snapshot_of_facts cr sid eid actor rid r review f) = Inr s"
    by (rule new_creation [OF assms(2,3)])
  note F = snapshot_of_facts_fields [OF s]
  obtain a certificate epoch where
    g: "q_environment r = ''production'' \<longrightarrow> so_production_effects_enabled cr" "\<not> is_stop_active (k_core (d_work db))"
    and d: "resolve_permission cr actor (q_workspace_id r) (q_environment r) = Inr (fx_decision f)"
    by (rule collect_facts_eq_Inr [OF c])
  have "authorization_snapshot_ok H s" using s unfolding authorization_snapshot_create_eq_Inr by blast
  then show ?thesis
    using g resolve_permission_eq_Inr [OF d] created_rests [OF assms order_refl created_before_expiry [OF assms]]
    by (auto simp: F)
qed

subsection \<open>Retries\<close>

text \<open>What a call would authorize now: the steps of \<open>create\<close> before anything is stored.\<close>

definition authorized_snapshot ::
  "(string \<Rightarrow> string) \<Rightarrow> snapshot_creator \<Rightarrow> clock_reading \<Rightarrow> work_db \<Rightarrow> string \<Rightarrow> string \<Rightarrow> string \<Rightarrow> string \<Rightarrow>
   authorization_snapshot res" where
  "authorized_snapshot H cr reading w sid eid actor rid =
     bindE (validated_request H (select_request w rid)) (\<lambda>(r, review, payload).
     bindE (collect_facts H cr reading w actor rid r review payload) (\<lambda>f.
     authorization_snapshot_create H (snapshot_of_facts cr sid eid actor rid r review f)))"

text \<open>A retry finds the stored row and only compares.\<close>

lemma bindE_assoc: "bindE (bindE m f) g = bindE m (\<lambda>x. bindE (f x) g)"
  by (cases m) simp_all

lemma retry_compares:
  assumes "select ss_idempotency_key key (d_snapshots db) = Some (snapshot_row_of H s key0 now0)" and "snapshot_valid H s"
  shows "create_snapshot H cr reading sid eid now idt1 idt2 db actor rid key corr =
     thenE (check_texts [(''actor_id'', actor), (''request_id'', rid), (''idempotency_key'', key), (''correlation_id'', corr)])
      (bindE (authorized_snapshot H cr reading (d_work db) sid eid actor rid) (\<lambda>s'.
       if idempotency_binding_digest H s' = idempotency_binding_digest H s then Inr (s, db)
       else Inl (RuntimeError ''idempotency key is bound to different authorization inputs'')))"
proof -
  have texts: "check_texts [(''idempotency_key'', key), (''correlation_id'', corr)] = Inr ()"
    if "check_texts [(''actor_id'', actor), (''request_id'', rid), (''idempotency_key'', key), (''correlation_id'', corr)] = Inr ()"
    using that by (simp add: check_texts_eq_Inr)
  have p: "persist_snapshot H now idt1 db s0 key corr =
      (if idempotency_binding_digest H s0 = idempotency_binding_digest H s then Inr (s, db)
       else Inl (RuntimeError ''idempotency key is bound to different authorization inputs''))"
    if "check_texts [(''idempotency_key'', key), (''correlation_id'', corr)] = Inr ()" for s0
    unfolding persist_snapshot_def that thenE_Inr assms(1) option.case decode_snapshot_row [OF assms(2)] bindE_Inr
    by (auto simp: guardE_def snapshot_row_of_def)
  show ?thesis
  proof (cases "check_texts [(''actor_id'', actor), (''request_id'', rid), (''idempotency_key'', key), (''correlation_id'', corr)]")
    case (Inl e)
    then show ?thesis by (simp add: create_snapshot_def)
  next
    case (Inr u)
    then have "check_texts [(''actor_id'', actor), (''request_id'', rid), (''idempotency_key'', key), (''correlation_id'', corr)] = Inr ()"
      by simp
    note T = this texts [OF this]
    show ?thesis
      unfolding create_snapshot_def create_in_transaction_def authorized_snapshot_def T(1) thenE_Inr Let_def p [OF T(2)] assms(1)
      by (simp add: bindE_assoc split_def if_distrib [of "\<lambda>r. bindE r _"] cong: if_cong)
  qed
qed

text \<open>Authorization does not read the audit table.\<close>

lemma select_request_audit: "select_request (w\<lparr>k_core := (k_core w)\<lparr>c_audit := rows\<rparr>\<rparr>) rid = select_request w rid"
  by (simp add: select_request_def split: option.split)

lemma approval_evidence_audit:
  "load_approval_evidence H (w\<lparr>k_core := (k_core w)\<lparr>c_audit := rows\<rparr>\<rparr>) rid capability target policy clock
     = load_approval_evidence H w rid capability target policy clock"
  unfolding load_approval_evidence_def select_request_audit approval_rows_def by simp

lemma authorized_snapshot_audit:
  "authorized_snapshot H cr reading (w\<lparr>k_core := (k_core w)\<lparr>c_audit := rows\<rparr>\<rparr>) sid eid actor rid
     = authorized_snapshot H cr reading w sid eid actor rid"
  unfolding authorized_snapshot_def collect_facts_def select_request_audit approval_evidence_audit is_stop_active_def by simp

lemma with_audit_shape:
  assumes "with_audit H idt w actor action ttype tid payload = Inr w'"
  shows "\<exists>rows. w' = w\<lparr>k_core := (k_core w)\<lparr>c_audit := rows\<rparr>\<rparr>"
  using assms by (auto simp: with_audit_def bindE_eq_Inr audit_eq_Inr)

lemma binding_digest_fields:
  "idempotency_binding_digest H (c\<lparr>sn_snapshot_id := a, sn_execution_id := b, sn_snapshot_digest := d\<rparr>)
     = idempotency_binding_digest H c"
  by (simp add: idempotency_binding_digest_def authorization_snapshot_claims_def)

lemma resealed_ok:
  assumes "authorization_snapshot_ok H c" and "c' = c\<lparr>sn_snapshot_id := a, sn_execution_id := b, sn_snapshot_digest := d\<rparr>"
    and "text_ok a" and "text_ok b" and "digest_ok (sn_snapshot_digest c')"
    and "sn_snapshot_digest c' = claims_digest H (authorization_snapshot_claims c')"
  shows "authorization_snapshot_ok H c'"
  using assms(1,3-6) unfolding authorization_snapshot_ok_def by (simp add: assms(2))

text \<open>
  (C11) A new snapshot is found under its identifier exactly as it was created, in every later table that
  still has its row.  Every later call under the same idempotency key authorizes again, with whatever
  configuration, reading and fresh identifiers, and then returns that very snapshot and writes nothing,
  not even an audit event, if the authorization has the same idempotency binding, and raises the conflict
  error otherwise.  In particular the same call, repeated at once with other fresh identifiers, returns
  the snapshot of the first call.
\<close>

theorem snapshot_creation_idempotent:
  assumes "policies_valid H (so_policy_authority cr)"
    and "create_snapshot H cr reading sid eid now idt1 idt2 db actor rid key corr = Inr (s, db1)"
    and "select ss_idempotency_key key (d_snapshots db) = None"
    and "d_snapshots db2 = d_snapshots db1 @ later"
  shows "get_snapshot H db2 (sn_snapshot_id s) = Inr s
    \<and> create_snapshot H cr' reading' sid' eid' now' idt1' idt2' db2 actor' rid' key corr' =
       thenE (check_texts [(''actor_id'', actor'), (''request_id'', rid'), (''idempotency_key'', key), (''correlation_id'', corr')])
        (bindE (authorized_snapshot H cr' reading' (d_work db2) sid' eid' actor' rid') (\<lambda>s'.
         if idempotency_binding_digest H s' = idempotency_binding_digest H s then Inr (s, db2)
         else Inl (RuntimeError ''idempotency key is bound to different authorization inputs'')))
    \<and> ((\<forall>x. digest_ok (H x)) \<and> text_ok sid' \<and> text_ok eid' \<longrightarrow>
         create_snapshot H cr reading sid' eid' now' idt1' idt2' db1 actor rid key corr = Inr (s, db1))"
proof -
  obtain r review payload f w1 w2 where
    c: "validated_request H (select_request (d_work db) rid) = Inr (r, review, payload)"
      "collect_facts H cr reading (d_work db) actor rid r review payload = Inr f"
      "authorization_snapshot_create H (snapshot_of_facts cr sid eid actor rid r review f) = Inr s"
    and w: "with_audit H idt1 (d_work db) (sn_actor_id s) ''authorization_snapshot.create'' ''authorization_snapshot''
       (sn_snapshot_id s) (JObj (snapshot_created_payload corr s)) = Inr w1"
      "with_audit H idt2 w1 (sn_actor_id s) ''authorization_snapshot.authority_witness'' ''authorization_snapshot''
       (sn_snapshot_id s) (JObj (authority_witness_payload corr s (fx_selection f) (fx_witness_set f))) = Inr w2"
    and tab: "db1 = \<lparr>d_work = w2, d_snapshots = d_snapshots db @ [snapshot_row_of H s key now]\<rparr>"
    and free: "key_free ss_id (sn_snapshot_id s) (d_snapshots db)"
    by (rule new_creation [OF assms(2,3)])
  have valid: "snapshot_valid H s" by (rule new_snapshot_valid [OF assms(1-3)])
  have rows: "d_snapshots db2 = d_snapshots db @ snapshot_row_of H s key now # later"
    using assms(4) tab by simp
  have by_id: "select ss_id (sn_snapshot_id s) (d_snapshots db2) = Some (snapshot_row_of H s key now)"
    using free by (simp add: rows select_append select_None_iff [symmetric])
      (simp add: select_def snapshot_row_of_def)
  have by_key: "select ss_idempotency_key key (d_snapshots db @ snapshot_row_of H s key now # ls)
      = Some (snapshot_row_of H s key now)" for ls
    using assms(3) by (simp add: select_append) (simp add: select_def snapshot_row_of_def)
  have "text_ok (sn_snapshot_id s)" using valid by (simp add: snapshot_valid_def authorization_snapshot_ok_def)
  then have "check_texts [(''snapshot_id'', sn_snapshot_id s)] = Inr ()" by (simp add: check_texts_eq_Inr)
  then have "get_snapshot H db2 (sn_snapshot_id s) = Inr s"
    by (simp add: get_snapshot_def by_id decode_snapshot_row [OF valid])
  moreover note retry_compares [OF by_key [of later, folded rows] valid]
  moreover have "create_snapshot H cr reading sid' eid' now' idt1' idt2' db1 actor rid key corr = Inr (s, db1)"
    if H: "\<forall>x. digest_ok (H x)" and ids: "text_ok sid'" "text_ok eid'"
  proof -
    obtain rows1 rows2 where "w1 = (d_work db)\<lparr>k_core := (k_core (d_work db))\<lparr>c_audit := rows1\<rparr>\<rparr>"
        "w2 = w1\<lparr>k_core := (k_core w1)\<lparr>c_audit := rows2\<rparr>\<rparr>"
      using with_audit_shape [OF w(1)] with_audit_shape [OF w(2)] by blast
    then have w2: "w2 = (d_work db)\<lparr>k_core := (k_core (d_work db))\<lparr>c_audit := rows2\<rparr>\<rparr>" by simp
    let ?c = "snapshot_of_facts cr sid' eid' actor rid r review f"
    let ?s = "?c\<lparr>sn_snapshot_digest := claims_digest H (authorization_snapshot_claims ?c)\<rparr>"
    have sealed: "s = snapshot_of_facts cr sid eid actor rid r review f
          \<lparr>sn_snapshot_digest := claims_digest H (authorization_snapshot_claims (snapshot_of_facts cr sid eid actor rid r review f))\<rparr>"
      and ok: "authorization_snapshot_ok H s"
      using c(3) unfolding authorization_snapshot_create_eq_Inr by blast+
    have s: "?s = s\<lparr>sn_snapshot_id := sid', sn_execution_id := eid', sn_snapshot_digest := sn_snapshot_digest ?s\<rparr>"
      by (subst sealed) (simp add: snapshot_of_facts_def)
    have "digest_ok (sn_snapshot_digest ?s)" "sn_snapshot_digest ?s = claims_digest H (authorization_snapshot_claims ?s)"
      using H by (simp_all add: claims_digest_def)
    then have "authorization_snapshot_ok H ?s" by (rule resealed_ok [OF ok s ids])
    then have "authorized_snapshot H cr reading (d_work db1) sid' eid' actor rid = Inr ?s"
      unfolding tab by (simp add: w2 authorized_snapshot_audit) (simp add: authorized_snapshot_def c authorization_snapshot_create_eq_Inr)
    moreover have "idempotency_binding_digest H ?s = idempotency_binding_digest H s"
      by (subst s) (rule binding_digest_fields)
    moreover have "check_texts [(''actor_id'', actor), (''request_id'', rid), (''idempotency_key'', key),
        (''correlation_id'', corr)] = Inr ()"
      using assms(2) by (simp add: create_snapshot_def thenE_eq_Inr)
    ultimately show ?thesis
      using retry_compares [OF _ valid, of key db1 key now] by_key [of "[]"] by (simp add: tab)
  qed
  ultimately show ?thesis by blast
qed

text \<open>
  (C10) From the snapshot to the grant: right after a snapshot was created, the issuer finds its authority
  evidence in the audit table, and the revocation epoch in that evidence is the one the revocation
  authority answered when the snapshot was created.
\<close>

theorem created_snapshot_has_authority_evidence:
  assumes "policies_valid H (so_policy_authority cr)" and "so_select cr = select_capability H selection"
    and "\<And>x. digest_ok (H x)" and "text_ok (fst idt2)" and "time_ok (snd idt2)"
    and "create_snapshot H cr reading sid eid now idt1 idt2 db actor rid key corr = Inr (s, db')"
    and "select ss_idempotency_key key (d_snapshots db) = None"
    and "authority_witness_rows (k_core (d_work db)) sid = []"
  shows "\<exists>e. load_snapshot_authority_evidence H (k_core (d_work db')) s = Inr e
    \<and> sa_snapshot_digest e = sn_snapshot_digest s
    \<and> so_current_epoch cr (sn_workspace_id s) (sn_environment s) (sn_capability_definition_identity s)
        = Inr (JInt (sa_revocation_epoch e))"
proof -
  obtain r review payload f w1 w2 where
    corr: "text_ok corr"
    and c: "collect_facts H cr reading (d_work db) actor rid r review payload = Inr f"
    and s: "authorization_snapshot_create H (snapshot_of_facts cr sid eid actor rid r review f) = Inr s"
    and a1: "with_audit H idt1 (d_work db) (sn_actor_id s) ''authorization_snapshot.create'' ''authorization_snapshot''
       (sn_snapshot_id s) (JObj (snapshot_created_payload corr s)) = Inr w1"
    and a2: "with_audit H idt2 w1 (sn_actor_id s) ''authorization_snapshot.authority_witness'' ''authorization_snapshot''
       (sn_snapshot_id s) (JObj (authority_witness_payload corr s (fx_selection f) (fx_witness_set f))) = Inr w2"
    and db': "db' = \<lparr>d_work = w2, d_snapshots = d_snapshots db @ [snapshot_row_of H s key now]\<rparr>"
    by (rule new_creation [OF assms(6,7)])
  note F = snapshot_of_facts_fields [OF s]
  obtain a certificate epoch where
    sel: "so_select cr (q_adapter r) = Inr (fx_selection f)"
    and ep: "so_current_epoch cr (q_workspace_id r) (q_environment r) (cd_definition_identity (fx_definition f)) = Inr (JInt epoch)"
    and ws: "witness_set_create H (fx_decision f) (fx_policy f) (fx_definition f) a (fx_binding f) certificate (fx_clock f)
       epoch = Inr (fx_witness_set f)"
    by (rule collect_facts_eq_Inr [OF c])
  have W: "aw_policy_identity (fx_witness_set f) = sn_policy_identity s"
      "aw_capability_definition_identity (fx_witness_set f) = sn_capability_definition_identity s"
      "aw_revocation_epoch (fx_witness_set f) = epoch"
    using witness_set_create_eq_Inr [OF ws] by (simp_all add: F witness_facts_def)
  have ok: "witness_set_ok H (fx_witness_set f)" "capability_selection_ok H (fx_selection f)" "authorization_snapshot_ok H s"
    using witness_set_create_eq_Inr [OF ws] sel select_capability_eq_Inr s
    unfolding authorization_snapshot_create_eq_Inr assms(2) by blast+
  obtain row1 where r1: "k_core w1 = (k_core (d_work db))\<lparr>c_audit := c_audit (k_core (d_work db)) @ [row1]\<rparr>"
      "a_action row1 = ''authorization_snapshot.create''"
      "a_sequence row1 = next_sequence a_sequence (c_audit (k_core (d_work db)))"
      "digest_ok (a_event_hash row1)"
    by (rule with_audit_row [OF a1]) (use assms(3) in \<open>auto simp: chained_hash_def\<close>)
  obtain row2 where r2: "k_core w2 = (k_core w1)\<lparr>c_audit := c_audit (k_core w1) @ [row2]\<rparr>"
    and e2: "a_id row2 = fst idt2" "a_actor_id row2 = sn_actor_id s"
      "a_action row2 = ''authorization_snapshot.authority_witness''" "a_target_type row2 = ''authorization_snapshot''"
      "a_target_id row2 = sn_snapshot_id s" "a_created_at row2 = snd idt2"
      "a_payload_json row2 = canonical_json (JObj (authority_witness_payload corr s (fx_selection f) (fx_witness_set f)))"
      "a_event_hash row2 = chained_hash H (a_previous_hash row2) (audit_event (fst idt2) (sn_actor_id s)
         ''authorization_snapshot.authority_witness'' ''authorization_snapshot'' (sn_snapshot_id s)
         (JObj (authority_witness_payload corr s (fx_selection f) (fx_witness_set f))) (snd idt2))"
    and p2: "a_previous_hash row2 = last_hash a_sequence a_event_hash (c_audit (k_core w1))"
    by (rule with_audit_row [OF a2])
  have prev: "digest_ok (a_previous_hash row2)"
    using r1 last_hash_snoc [OF r1(3)] p2 by simp
  have "authority_witness_rows (k_core (d_work db')) (sn_snapshot_id s) = [row2]"
  proof -
    have old: "filter (\<lambda>r. a_action r = ''authorization_snapshot.authority_witness'' \<and> a_target_type r = ''authorization_snapshot''
        \<and> a_target_id r = sid) (c_audit (k_core (d_work db))) = []"
      using assms(8) by (simp add: authority_witness_rows_def sort_key_Nil_iff)
    have "c_audit (k_core (d_work db')) = c_audit (k_core (d_work db)) @ [row1, row2]"
      using r1(1) r2 by (simp add: db')
    then show ?thesis using old r1(2) e2 by (simp add: authority_witness_rows_def F)
  qed
  from witness_event_loads [OF this e2 prev assms(3-5) corr ok(3,2,1) W(1,2)]
  have loaded: "load_snapshot_authority_evidence H (k_core (d_work db')) s
     = authority_evidence_create H (sn_snapshot_id s) (sn_snapshot_digest s) (aw_witness_set_digest (fx_witness_set f))
         (aw_revocation_epoch (fx_witness_set f)) (a_event_hash row2)" by simp
  have "0 \<le> aw_revocation_epoch (fx_witness_set f)" "digest_ok (aw_witness_set_digest (fx_witness_set f))"
    using ok(1) assms(3) by (simp_all add: witness_set_ok_def claims_digest_def)
  moreover have "text_ok (sn_snapshot_id s)" "digest_ok (sn_snapshot_digest s)" "digest_ok (a_event_hash row2)"
    using ok(3) assms(3) by (simp_all add: authorization_snapshot_ok_def claims_digest_def e2(8) chained_hash_def)
  ultimately have "\<exists>e. authority_evidence_create H (sn_snapshot_id s) (sn_snapshot_digest s) (aw_witness_set_digest (fx_witness_set f))
         (aw_revocation_epoch (fx_witness_set f)) (a_event_hash row2) = Inr e \<and> sa_snapshot_digest e = sn_snapshot_digest s
         \<and> sa_revocation_epoch e = epoch"
    by (simp add: authority_evidence_create_def authority_evidence_init_iff authority_evidence_ok_def Let_def
        authority_evidence_claims_def claims_digest_def assms(3) W)
  then show ?thesis using loaded ep by (auto simp: F)
qed

end
