(* ===== verification/Authority_Chain.thy ===== *)
theory Authority_Chain
  imports Snapshot_Creator_Properties Grant_Composition
begin

text \<open>
  The whole chain of authority, from the reviewed change request to the use of the grant: the snapshot
  creator, the issuer of grants and the durable grant store composed.
\<close>

text \<open>
  (C8) A grant that was issued for a new snapshot, stored, and consumed after any steps of the services, by
  \<open>consume\<close> or into the outbox by \<open>consume_and_enqueue\<close>, is consumed at an instant at which every approval of the snapshot is still valid: at least as many
  distinct users as the policy revision requires, none of them the author, approved the content that the
  request in the database had when the snapshot was created; the stop is off, the actor still holds the
  permission, and the revocation epoch is the one of the issuance.
\<close>

theorem consumed_grant_was_approved:
  assumes "policies_valid H (so_policy_authority cr)"
    and "create_snapshot H cr reading0 sid eid now idt1 idt2 db actor rid key corr = Inr (s, db')"
    and "select ss_idempotency_key key (d_snapshots db) = None"
    and "issue_and_store H svc ce cdb tdb reading
      (issue H i ce0 resolve cdb1 cdb2 reading1 reading2 gid jti s a) = Inr (g, tdb1)"
    and "grant_issuer_init i = Inr i" and "authority_constraint_ok H a"
    and "(trust_step H)\<^sup>*\<^sup>* tdb1 tdb2"
    and "consume H svc' ce' cdb' tdb2 reading' cid (gr_jti g) = Inr (w, tdb3)
      \<or> consume_and_enqueue H svc' orv ce' cdb' tdb2 reading' cid oid (gr_jti g) = Inr (e, tdb3)"
  shows "\<exists>t policy. reading' = AwareTime t
    \<and> resolve_policy (so_policy_authority cr) (so_policy_version cr) = Inr policy
    \<and> rests_on_approvals H (d_work db) policy (instant_at (iso_ms t)) s
    \<and> \<not> is_stop_active cdb'
    \<and> live_permission cdb' \<lparr>pq_actor_id = actor, pq_workspace_id = sn_workspace_id s,
        pq_environment = sn_environment s, pq_permission = required_execution_permission\<rparr>
    \<and> ce' (sn_workspace_id s) (sn_environment s) (sn_capability_definition_identity s)
        = ce0 (sn_workspace_id s) (sn_environment s) (sn_capability_definition_identity s)"
proof -
  have s: "authorization_snapshot_ok H s" "sn_actor_id s = actor"
    using new_snapshot_valid [OF assms(1-3)] new_snapshot_actor [OF assms(2,3)] by (simp_all add: snapshot_valid_def)
  obtain t where t: "reading' = AwareTime t" "instant_at (sn_authorized_at s) \<le> instant_at (iso_ms t)"
      "instant_at (iso_ms t) < instant_at (as_approval_valid_until (sn_approval_evidence s))"
      "\<not> is_stop_active cdb'"
      "live_permission cdb' \<lparr>pq_actor_id = sn_actor_id s, pq_workspace_id = sn_workspace_id s,
        pq_environment = sn_environment s, pq_permission = required_execution_permission\<rparr>"
      "ce' (sn_workspace_id s) (sn_environment s) (sn_capability_definition_identity s)
        = ce0 (sn_workspace_id s) (sn_environment s) (sn_capability_definition_identity s)"
    using use_within_approvals [OF assms(4-6) s(1) assms(7,8)] by blast
  then show ?thesis using created_rests [OF assms(1-3) t(2,3)] by (auto simp: s(2))
qed

end
