(* ===== verification/Snapshot_Creator_Witness.thy ===== *)
theory Snapshot_Creator_Witness
  imports Grant_Issuer_Witness Snapshot_Creator_Properties
begin

text \<open>
  A concrete creation: an approved request with one approval, a policy revision, a capability, a target
  procedure and a role that permits execution yield the snapshot of which the run of the issuer starts,
  and leave the audit table from which the issuer reads its evidence.
\<close>

subsection \<open>The database and the configuration\<close>

definition run_request :: change_row where
  "run_request =
     \<lparr>q_id = ''r1'', q_workspace_id = ''w1'', q_title = ''t'', q_description = ''d'', q_risk = ''R1'',
      q_environment = ''local'', q_adapter = ''echo'', q_payload_json = canonical_json (JObj [(''path'', JStr ''a'')]),
      q_status = ''APPROVED'', q_requested_by = ''carol'', q_created_at = ''t0'', q_updated_at = ''t0'',
      q_review_content_sha256 = Some zeros\<rparr>"

definition run_work :: work_db where
  "run_work =
     \<lparr>k_core = run_core, k_requests = [run_request],
      k_approvals = [\<lparr>v_id = ''p1'', v_request_id = ''r1'', v_approver_id = ''bob'', v_decision = ''APPROVED'',
        v_reason = ''ok'', v_review_content_sha256 = zeros, v_created_at = wit_at 0 0\<rparr>],
      k_executions = [], k_receipts = []\<rparr>"

definition run_start :: snapshot_db where
  "run_start = \<lparr>d_work = run_work, d_snapshots = []\<rparr>"

definition run_policy :: policy_revision where
  "run_policy =
     \<lparr>rv_policy_version = ''v1'', rv_policy_package = ''p1'', rv_approval_validity_seconds = 3540,
      rv_required_approvals = [(''development'', 1), (''local'', 1), (''production'', 2), (''staging'', 1)],
      rv_policy_identity = zeros\<rparr>"

definition run_definition :: capability_definition where
  "run_definition =
     \<lparr>cd_capability = ''cap/v1'', cd_target_kind = ''repo'', cd_binder_id = ''repo'', cd_handler_id = ''runner'',
      cd_effect_class = ''probe'', cd_verification_class = ''probe'', cd_supported_environments = [''local''],
      cd_required_permissions = [''execution.run''], cd_production_eligible = False, cd_definition_identity = zeros\<rparr>"

definition run_activation :: capability_activation where
  "run_activation =
     \<lparr>cv_capability_definition_identity = zeros, cv_activation_generation = 1, cv_enabled_environments = [''local''],
      cv_revoked = False, cv_activation_digest = zeros\<rparr>"

definition run_selection_authority :: selection_authority where
  "run_selection_authority = \<lparr>sg_bindings = [''echo'' \<mapsto> ''cap/v1''], sg_authority_revision = ''v1''\<rparr>"

definition run_creator :: snapshot_creator where
  "run_creator =
     \<lparr>so_decide = (\<lambda>q. decide_database_permission flat_digest run_core q ''v1''),
      so_policy_authority = \<lparr>py_by_version = [''v1'' \<mapsto> run_policy], py_by_identity = [zeros \<mapsto> run_policy]\<rparr>,
      so_policy_version = ''v1'',
      so_registry = \<lparr>cy_by_capability = [''cap/v1'' \<mapsto> run_definition], cy_by_identity = [zeros \<mapsto> run_definition],
        cy_activations = [zeros \<mapsto> run_activation]\<rparr>,
      so_select = select_capability flat_digest run_selection_authority,
      so_procedures = [''repo'' \<mapsto> \<lparr>tp_binder_id = ''repo'', tp_target_kind = ''repo'',
        tp_bind = execution_target_create flat_digest ''repo''\<rparr>],
      so_clock = run_clock, so_current_epoch = run_epoch, so_production_effects_enabled = False,
      so_authorization_source_revision = ''v1''\<rparr>"

subsection \<open>The facts\<close>

abbreviation run_payload_value :: json where
  "run_payload_value \<equiv> JObj [(''path'', JStr ''a'')]"

lemma run_payload_canonical:
  "json_loads (canonical_json run_payload_value) = Some run_payload_value"
  using json_loads_flat [of "[(''path'', JStr ''a'')]"] by (simp add: flat_def)

lemma creation_texts [simp]:
  "text_ok ''a1''" "text_ok ''bob''" "text_ok ''echo''" "identifier_pattern ''r1''" "identifier_pattern ''p1''"
  "identifier_pattern ''bob''" "identifier_pattern ''repo''" "capability_pattern ''cap/v1''"
  "policy_version_pattern ''v1''"
  by code_simp+

lemma run_policy_ok: "policy_revision_ok flat_digest run_policy"
proof -
  have "set [''development'', ''local'', ''production'', ''staging''] = set valid_environments"
    by (auto simp: valid_environments_def)
  moreover have "sort [''development'', ''local'', ''production'', ''staging''] = [''development'', ''local'', ''production'', ''staging'']"
    by code_simp
  ultimately show ?thesis by (simp add: policy_revision_ok_def run_policy_def del: sort_key_simps)
qed

lemma run_policies_valid: "policies_valid flat_digest (so_policy_authority run_creator)"
  by (simp add: policies_valid_def run_creator_def run_policy_ok)

lemma run_validated:
  "validated_request flat_digest (select_request run_work ''r1'') = Inr (run_request, zeros, run_payload_value)"
proof -
  have "select_request run_work ''r1'' = Some (run_request, ''local'')"
    by (simp add: select_request_def run_work_def run_core_def run_request_def)
  moreover have "zeros \<noteq> []" by (simp add: zeros_def)
  ultimately show ?thesis
    by (simp add: validated_request_def run_request_def run_payload_canonical review_digest_def review_subject_def)
qed

definition run_target :: execution_target where
  "run_target = \<lparr>et_target_kind = ''repo'', et_target_claims_json = canonical_json run_payload_value, et_target_digest = zeros\<rparr>"

lemma run_target_created: "execution_target_create flat_digest ''repo'' run_payload_value = Inr run_target"
  by (simp add: execution_target_create_def execution_target_init_def stored_object_def require_identifier_eq_Inr
      require_json_value_def require_digest_eq_Inr thenE_eq_Inr bindE_eq_Inr run_payload_canonical run_target_def)

lemma run_target_ok: "execution_target_ok flat_digest run_target"
  using execution_target_create_ok [OF run_target_created] by simp

definition run_target_binding :: target_binding where
  "run_target_binding = \<lparr>tb_binder_id = ''repo'', tb_capability_definition_identity = zeros, tb_target = run_target,
     tb_binding_digest = zeros\<rparr>"

lemma run_target_bound:
  "bind_target flat_digest (so_procedures run_creator) run_definition run_payload_value = Inr run_target_binding"
proof -
  have "target_binding_ok flat_digest run_target_binding"
    by (simp add: target_binding_ok_def run_target_binding_def run_target_ok)
  then have "target_binding_init flat_digest run_target_binding = Inr run_target_binding"
    by (simp add: target_binding_init_iff)
  moreover have "check_texts [(''binder_id'', ''repo'')] = Inr ()" by (simp add: check_texts_eq_Inr)
  moreover have "et_target_kind run_target = ''repo''" by (simp add: run_target_def)
  ultimately show ?thesis
    by (simp add: bind_target_def resolve_procedure_def run_creator_def run_definition_def run_target_created run_target_ok
        target_binding_create_def run_target_binding_def)
qed

subsection \<open>The approval evidence\<close>

definition run_approvals :: approval_set where
  "run_approvals = sn_approval_evidence run_snapshot"

lemma run_deadline: "add_seconds (wit_time 0 0) 3540 = Inr (wit_time 59 0)"
  by (simp add: add_seconds_def wit_time_def Let_def)

lemma run_approval_set_ok: "approval_set_ok flat_digest run_approvals"
  unfolding approval_set_ok_iff by (simp add: run_approvals_def run_snapshot_def)

lemma run_approval_set:
  "approval_set_create flat_digest (JStr ''r1'') (JStr zeros) (JStr zeros) (JStr ''cap/v1'') (JStr ''v1'')
     (Inr [\<lparr>ar_approval_id = ''p1'', ar_approver_id = ''bob'', ar_decision = ''APPROVED'', ar_approved_at = wit_at 0 0\<rparr>])
     (JStr (wit_at 59 0)) = Inr run_approvals"
  using approval_set_create_self [OF run_approval_set_ok] by (simp add: run_approvals_def run_snapshot_def)

lemma run_evidence_found:
  "load_approval_evidence flat_digest run_work ''r1'' ''cap/v1'' run_target run_policy (run_reading 0 0) = Inr run_approvals"
proof -
  have sel: "select_request run_work ''r1'' = Some (run_request, ''local'')"
    by (simp add: select_request_def run_work_def run_core_def run_request_def)
  have payload: "canonical_payload run_request = Inr run_payload_value"
    by (simp add: canonical_payload_eq_Inr run_request_def run_payload_canonical)
  have clk: "ck_environment (run_reading 0 0) = ''local''" "ck_observed_at (run_reading 0 0) = wit_at 0 0"
    by (simp_all add: run_reading_def)
  let ?v = "\<lparr>v_id = ''p1'', v_request_id = ''r1'', v_approver_id = ''bob'', v_decision = ''APPROVED'',
        v_reason = ''ok'', v_review_content_sha256 = zeros, v_created_at = wit_at 0 0\<rparr>"
  let ?a = "\<lparr>ar_approval_id = ''p1'', ar_approver_id = ''bob'', ar_decision = ''APPROVED'', ar_approved_at = wit_at 0 0\<rparr>"
  have rows: "approval_rows run_work ''r1'' = [?v]" by (simp add: approval_rows_def run_work_def)
  have "approval_record_init (item [(''approval_id'', JStr ''p1''), (''approver_id'', JStr ''bob''),
      (''decision'', JStr ''APPROVED''), (''approved_at'', JStr (wit_at 0 0))]) = Inr ?a"
    by (simp add: approval_record_init_def require_identifier_eq_Inr bindE_eq_Inr thenE_eq_Inr require_timestamp_eq_Inr)
  then have row: "approval_of_row zeros ''carol'' (wit_time 0 0) run_policy ?v = Inr (?a, wit_time 59 0)"
    by (simp add: approval_of_row_def canonical_datetime_def run_deadline run_policy_def)
  have req: "required_approvals_for run_policy ''local'' = Inr 1"
    by (simp add: required_approvals_for_def run_policy_def valid_environments_def)
  have early: "earliest [wit_time 59 0] = wit_time 59 0" by (simp add: earliest_def)
  have r: "q_environment run_request = ''local''" "q_status run_request = ''APPROVED''" "q_requested_by run_request = ''carol''"
      "q_review_content_sha256 run_request = Some zeros" by (simp_all add: run_request_def)
  have v: "review_digest flat_digest run_request run_payload_value = zeros"
      "request_payload_digest flat_digest run_payload_value = zeros" "et_target_digest run_target = zeros"
      "rv_policy_version run_policy = ''v1''"
    by (simp_all add: review_digest_def review_subject_def request_payload_digest_def run_target_def run_policy_def)
  have now: "canonical_datetime f (wit_at 0 0) = Inr (wit_time 0 0)" for f by (simp add: canonical_datetime_def)
  show ?thesis
    unfolding load_approval_evidence_def sel orRaise_Some bindE_Inr prod.case r clk payload v rows now Let_def
    by (simp add: row req early run_approval_set wit_at_def [symmetric])
qed

subsection \<open>The creation\<close>

definition run_certificate :: approval_certificate where
  "run_certificate =
     \<lparr>ax_request_id = ''r1'', ax_review_content_sha256 = zeros, ax_policy_version = ''v1'', ax_policy_identity = zeros,
      ax_approval_evidence = run_approvals, ax_certificate_digest = zeros\<rparr>"

definition run_granted :: permission_decision where
  "run_granted =
     \<lparr>pd_actor_id = ''alice'', pd_workspace_id = ''w1'', pd_environment = ''local'', pd_permission = ''execution.run'',
      pd_granted = True, pd_reason = ''DATABASE_ROLE_PERMISSION_GRANTED'', pd_authority_revision = ''v1'',
      pd_scope_model = ''database-active-user-workspace-membership/v2'', pd_decision_digest = zeros\<rparr>"

definition run_selection :: capability_selection where
  "run_selection = \<lparr>sl_adapter = ''echo'', sl_capability = ''cap/v1'', sl_authority_revision = ''v1'', sl_selection_digest = zeros\<rparr>"

definition run_witness_set :: witness_set where
  "run_witness_set =
     \<lparr>aw_permission_decision_digest = zeros, aw_policy_identity = zeros, aw_capability_definition_identity = zeros,
      aw_capability_activation_digest = zeros, aw_target_binding_digest = zeros, aw_approval_certificate_digest = zeros,
      aw_clock_witness_digest = zeros, aw_revocation_epoch = 0, aw_witness_set_digest = zeros\<rparr>"

definition run_facts :: authority_facts where
  "run_facts =
     \<lparr>fx_selection = run_selection, fx_definition = run_definition, fx_binding = run_target_binding,
      fx_policy = run_policy, fx_clock = run_reading 0 0, fx_evidence = run_approvals, fx_decision = run_granted,
      fx_witness_set = run_witness_set\<rparr>"

lemma run_selected: "select_for_adapter run_creator ''echo'' = Inr run_selection"
proof -
  have "capability_selection_init flat_digest run_selection = Inr run_selection"
    by (simp add: capability_selection_init_iff capability_selection_ok_def run_selection_def)
  moreover have "check_texts [(''adapter'', ''echo'')] = Inr ()"
      "check_texts [(''adapter'', ''echo''), (''capability'', ''cap/v1''), (''authority_revision'', ''v1'')] = Inr ()"
    by (simp_all add: check_texts_eq_Inr)
  ultimately show ?thesis
    by (simp add: select_for_adapter_def run_creator_def select_capability_def run_selection_authority_def
        capability_selection_create_def run_selection_def)
qed

lemma run_resolved:
  "resolve_for_execution (so_registry run_creator) ''cap/v1'' ''local'' = Inr (run_definition, run_activation)"
proof -
  have "check_texts [(''capability'', ''cap/v1'')] = Inr ()" "check_texts [(''definition_identity'', zeros)] = Inr ()"
    by (simp_all add: check_texts_eq_Inr)
  then show ?thesis
    by (simp add: resolve_for_execution_def registry_definition_def registry_activation_def run_creator_def
        run_definition_def run_activation_def valid_environments_def)
qed

lemma run_policy_resolved: "resolve_policy (so_policy_authority run_creator) (so_policy_version run_creator) = Inr run_policy"
proof -
  have "check_texts [(''policy_version'', ''v1'')] = Inr ()" by (simp add: check_texts_eq_Inr)
  then show ?thesis by (simp add: resolve_policy_def run_creator_def)
qed

lemma run_creation_clock: "resolve_creation_clock flat_digest run_creator (AwareTime (wit_time 0 0)) ''local'' = Inr (run_reading 0 0)"
  using run_clock_reading [of 0 0] by (simp add: resolve_creation_clock_def run_creator_def run_reading_def run_clock_def)

lemma run_certified: "approval_certificate_create flat_digest zeros run_policy run_approvals = Inr run_certificate"
proof -
  have "approval_certificate_init flat_digest run_certificate = Inr run_certificate"
    by (simp add: approval_certificate_init_iff approval_certificate_ok_def run_certificate_def run_approvals_def run_snapshot_def)
  then show ?thesis
    by (simp add: approval_certificate_create_def run_policy_def run_certificate_def run_approvals_def run_snapshot_def)
qed

lemma run_permitted: "resolve_permission run_creator ''alice'' ''w1'' ''local'' = Inr run_granted"
proof -
  let ?q = "\<lparr>pq_actor_id = ''alice'', pq_workspace_id = ''w1'', pq_environment = ''local'', pq_permission = ''execution.run''\<rparr>"
  have t: "text_ok ''DATABASE_ROLE_PERMISSION_GRANTED''" "text_ok ''database-active-user-workspace-membership/v2''"
    by code_simp+
  have verdict: "database_verdict run_core ?q = (True, ''DATABASE_ROLE_PERMISSION_GRANTED'')"
    by (simp add: database_verdict_def run_core_def role_permissions_def permits_def select_membership_def)
  have "permission_decision_init flat_digest run_granted = Inr run_granted"
    by (simp add: permission_decision_init_iff permission_decision_ok_def run_granted_def t valid_environments_def)
  then have "permission_decision_create flat_digest ?q True ''DATABASE_ROLE_PERMISSION_GRANTED'' ''v1''
      ''database-active-user-workspace-membership/v2'' = Inr run_granted"
    by (simp add: permission_decision_create_def run_granted_def)
  moreover have "check_texts [(''authority_revision'', ''v1'')] = Inr ()" by (simp add: check_texts_eq_Inr)
  ultimately have "decide_database_permission flat_digest run_core ?q ''v1'' = Inr run_granted"
    by (simp add: decide_database_permission_def verdict)
  moreover have "permission_query_init ?q = Inr ?q"
    by (simp add: permission_query_init_def thenE_eq_Inr check_texts_eq_Inr valid_environments_def)
  ultimately show ?thesis
    by (simp add: resolve_permission_def run_creator_def required_execution_permission_def) (simp add: run_granted_def)
qed

lemma run_epoch_resolved: "resolve_revocation_epoch run_creator ''w1'' ''local'' zeros = Inr 0"
  by (simp add: resolve_revocation_epoch_def run_creator_def run_epoch_def)

lemma run_witness_set_created:
  "witness_set_create flat_digest run_granted run_policy run_definition run_activation run_target_binding run_certificate
     (run_reading 0 0) 0 = Inr run_witness_set"
proof -
  have "witness_set_init flat_digest run_witness_set = Inr run_witness_set"
    by (simp add: witness_set_init_iff witness_set_ok_def run_witness_set_def)
  then show ?thesis
    by (simp add: witness_set_create_def witness_facts_def run_granted_def run_policy_def run_definition_def run_activation_def
        run_target_binding_def run_certificate_def run_reading_def run_approvals_def run_snapshot_def run_target_def
        required_execution_permission_def run_witness_set_def)
qed

lemma run_collected:
  "collect_facts flat_digest run_creator (AwareTime (wit_time 0 0)) run_work ''alice'' ''r1'' run_request zeros run_payload_value
     = Inr run_facts"
proof -
  have r: "q_environment run_request = ''local''" "q_adapter run_request = ''echo''" "q_workspace_id run_request = ''w1''"
    by (simp_all add: run_request_def)
  have off: "\<not> is_stop_active (k_core run_work)" by (simp add: is_stop_active_def run_work_def run_core_def)
  have v: "sl_capability run_selection = ''cap/v1''" "cd_capability run_definition = ''cap/v1''"
      "cd_definition_identity run_definition = zeros" "tb_target run_target_binding = run_target"
    by (simp_all add: run_selection_def run_definition_def run_target_binding_def)
  show ?thesis
    unfolding collect_facts_def r run_selected bindE_Inr v run_resolved catchE_Inr prod.case run_target_bound
      run_policy_resolved run_creation_clock run_evidence_found run_certified run_permitted run_epoch_resolved run_witness_set_created
    by (simp add: off run_facts_def)
qed

lemma run_sealed:
  "authorization_snapshot_create flat_digest (snapshot_of_facts run_creator ''s1'' ''x1'' ''alice'' ''r1'' run_request zeros run_facts)
     = Inr run_snapshot"
  unfolding authorization_snapshot_create_eq_Inr
  using run_snapshot_ok
  by (simp add: snapshot_of_facts_def run_facts_def run_request_def run_definition_def run_target_binding_def run_policy_def
      run_reading_def run_approvals_def run_target_def run_creator_def run_snapshot_def)

definition run_born :: snapshot_db where
  "run_born = \<lparr>d_work = run_work\<lparr>k_core := run_db\<rparr>,
     d_snapshots = [snapshot_row_of flat_digest run_snapshot ''j1'' (wit_at 0 0)]\<rparr>"

lemma run_born_creation:
  "create_snapshot flat_digest run_creator (AwareTime (wit_time 0 0)) ''s1'' ''x1'' (wit_at 0 0) (''a1'', wit_at 0 0)
     (''o1'', wit_at 0 0) run_start ''alice'' ''r1'' ''j1'' ''c1'' = Inr (run_snapshot, run_born)"
proof -
  have start: "d_work run_start = run_work" "d_snapshots run_start = []" by (simp_all add: run_start_def)
  have texts: "check_texts [(''actor_id'', ''alice''), (''request_id'', ''r1''), (''idempotency_key'', ''j1''),
      (''correlation_id'', ''c1'')] = Inr ()" "check_texts [(''idempotency_key'', ''j1''), (''correlation_id'', ''c1'')] = Inr ()"
    by (simp_all add: check_texts_eq_Inr)
  have snap: "sn_snapshot_id run_snapshot = ''s1''" "sn_actor_id run_snapshot = ''alice''" "sn_request_id run_snapshot = ''r1''"
      "sn_workspace_id run_snapshot = ''w1''" "sn_environment run_snapshot = ''local''"
      "sn_review_content_sha256 run_snapshot = zeros" by (simp_all add: run_snapshot_def)
  have bound: "require_request_binding run_work run_snapshot = Inr ()"
    by (simp add: require_request_binding_def snap) (simp add: run_work_def run_request_def)
  have sel: "select_request run_work ''r1'' = Some (run_request, ''local'')"
    by (simp add: select_request_def run_work_def run_core_def run_request_def)
  have "is_digest zeros" using wit_digests(1) by (simp add: digest_ok_def)
  then have ins: "insert_snapshot run_start (snapshot_row_of flat_digest run_snapshot ''j1'' (wit_at 0 0))
      = Inr (run_start\<lparr>d_snapshots := [snapshot_row_of flat_digest run_snapshot ''j1'' (wit_at 0 0)]\<rparr>)"
    using sel by (simp add: insert_snapshot_def start snapshot_row_of_def snap key_free_def idempotency_binding_digest_def)
      (simp add: run_work_def run_core_def run_request_def run_snapshot_def valid_environments_def)
  let ?w1 = "run_work\<lparr>k_core := run_core\<lparr>c_audit := [run_created]\<rparr>\<rparr>"
  have a1: "with_audit flat_digest (''a1'', wit_at 0 0) run_work ''alice'' ''authorization_snapshot.create''
      ''authorization_snapshot'' ''s1'' (JObj (snapshot_created_payload ''c1'' run_snapshot)) = Inr ?w1"
    by (simp add: with_audit_def audit_def audit_append_def run_work_def run_core_def last_hash_def next_sequence_def
        key_free_def run_created_def Let_def)
  have pay: "authority_witness_payload ''c1'' run_snapshot run_selection run_witness_set = run_payload"
    by (simp add: authority_witness_payload_def run_payload_def run_snapshot_def run_selection_def run_witness_set_def)
  have a2: "with_audit flat_digest (''o1'', wit_at 0 0) ?w1 ''alice'' ''authorization_snapshot.authority_witness''
      ''authorization_snapshot'' ''s1'' (JObj run_payload) = Inr (run_work\<lparr>k_core := run_db\<rparr>)"
    by (simp add: with_audit_def audit_def audit_append_def run_db_def last_hash_def next_sequence_def
        key_free_def run_created_def run_audit_def Let_def)
  have facts: "fx_selection run_facts = run_selection" "fx_witness_set run_facts = run_witness_set"
    by (simp_all add: run_facts_def)
  have persisted: "persist_snapshot flat_digest (wit_at 0 0) (''a1'', wit_at 0 0) run_start run_snapshot ''j1'' ''c1''
      = Inr (run_snapshot, \<lparr>d_work = ?w1, d_snapshots = [snapshot_row_of flat_digest run_snapshot ''j1'' (wit_at 0 0)]\<rparr>)"
    by (simp add: persist_snapshot_def texts start select_def bound ins snap a1)
  show ?thesis
    unfolding create_snapshot_def create_in_transaction_def texts thenE_Inr start run_validated bindE_Inr prod.case
      run_collected run_sealed Let_def persisted
    by (simp add: select_def append_witness_audit_def snap facts pay a2 run_born_def)
qed

theorem created_snapshot_rests_on_approvals_witness:
  "rests_on_approvals flat_digest run_work run_policy (instant_at (wit_at 0 0)) run_snapshot \<and> \<not> is_stop_active run_core"
proof -
  have "resolve_policy (so_policy_authority run_creator) (so_policy_version run_creator) = Inr policy \<longleftrightarrow> policy = run_policy" for policy
    using run_policy_resolved by auto
  moreover have "select ss_idempotency_key ''j1'' (d_snapshots run_start) = None" by (simp add: run_start_def select_def)
  ultimately have "rests_on_approvals flat_digest (d_work run_start) run_policy (instant_at (sn_authorized_at run_snapshot)) run_snapshot
      \<and> \<not> is_stop_active (k_core (d_work run_start))"
    using created_snapshot_rests_on_approvals [OF run_policies_valid run_born_creation] by simp
  moreover have "d_work run_start = run_work" "k_core run_work = run_core" "sn_authorized_at run_snapshot = wit_at 0 0"
    by (simp_all add: run_start_def run_work_def run_snapshot_def)
  ultimately show ?thesis by metis
qed

text \<open>The call is repeated with other fresh identifiers.\<close>

theorem snapshot_creation_idempotent_witness:
  "get_snapshot flat_digest run_born ''s1'' = Inr run_snapshot
   \<and> create_snapshot flat_digest run_creator (AwareTime (wit_time 0 0)) ''v1'' ''r1'' (wit_at 0 1) (''a1'', wit_at 0 1)
       (''o1'', wit_at 0 1) run_born ''alice'' ''r1'' ''j1'' ''c1'' = Inr (run_snapshot, run_born)"
proof -
  have "select ss_idempotency_key ''j1'' (d_snapshots run_start) = None" by (simp add: run_start_def select_def)
  note retry = snapshot_creation_idempotent [OF run_policies_valid run_born_creation this, of run_born "[]"]
  have "d_snapshots run_born = d_snapshots run_born @ []" by simp
  from retry [OF this] have "get_snapshot flat_digest run_born (sn_snapshot_id run_snapshot) = Inr run_snapshot"
    "\<And>sid eid. text_ok sid \<Longrightarrow> text_ok eid \<Longrightarrow> create_snapshot flat_digest run_creator (AwareTime (wit_time 0 0)) sid eid
       (wit_at 0 1) (''a1'', wit_at 0 1) (''o1'', wit_at 0 1) run_born ''alice'' ''r1'' ''j1'' ''c1'' = Inr (run_snapshot, run_born)"
    using flat_digest_ok by blast+
  moreover have "text_ok ''v1''" "text_ok ''r1''" "sn_snapshot_id run_snapshot = ''s1''" by (simp_all add: run_snapshot_def)
  ultimately show ?thesis by metis
qed

theorem created_snapshot_has_authority_evidence_witness:
  "\<exists>e. load_snapshot_authority_evidence flat_digest run_db run_snapshot = Inr e \<and> sa_revocation_epoch e = 0"
proof -
  have sel: "so_select run_creator = select_capability flat_digest run_selection_authority" by (simp add: run_creator_def)
  have new: "select ss_idempotency_key ''j1'' (d_snapshots run_start) = None" by (simp add: run_start_def select_def)
  have rows: "authority_witness_rows (k_core (d_work run_start)) ''s1'' = []"
    by (simp add: authority_witness_rows_def run_start_def run_work_def run_core_def)
  have "k_core (d_work run_born) = run_db" by (simp add: run_born_def)
  moreover have "so_current_epoch run_creator ws env cap = Inr (JInt 0)" for ws env cap
    by (simp add: run_creator_def run_epoch_def)
  ultimately show ?thesis
    using created_snapshot_has_authority_evidence [OF run_policies_valid sel flat_digest_ok _ _ run_born_creation new rows]
    by auto
qed

end
