(* ===== verification/Authority_Chain_Witness.thy ===== *)
theory Authority_Chain_Witness
  imports Authority_Chain Snapshot_Creator_Witness Composition_Witness
begin

text \<open>
  The runs composed: the snapshot of the creation run is the one the grant is issued for, and the grant
  is stored and handed to the outbox.
\<close>

lemma run_handed_over:
  "consume_and_enqueue flat_digest wit_gsvc ''v1'' wit_epochs wit_people wit_stored (AwareTime (wit_time 0 0)) ''c1'' ''o1''
     (gr_jti wit_grant) = Inr (wit_entry, wit_db0)"
  using run_handoff by simp

theorem consumed_grant_was_approved_witness:
  "rests_on_approvals flat_digest run_work run_policy (instant_at (iso_ms (wit_time 0 0))) run_snapshot"
proof -
  have new: "select ss_idempotency_key ''j1'' (d_snapshots run_start) = None" by (simp add: run_start_def select_def)
  have "d_work run_start = run_work" by (simp add: run_start_def)
  then show ?thesis
    using consumed_grant_was_approved [OF run_policies_valid run_born_creation new run_stored run_issuer_ok run_constraint_ok
        rtranclp.rtrancl_refl disjI2 [OF run_handed_over]] run_policy_resolved by auto
qed

end
