(* ===== verification/Provider_Contracts.thy ===== *)
theory Provider_Contracts
  imports Execution_Capsule Execution_Lease Execution_Contract
begin

text \<open>
  Checks that the contracts of runners, credentials and verifiers share: boolean fields, and the names
  of Git repositories, refs and objects (\<open>github_read_provider.py\<close>, \<open>verifier_observation.py\<close>).
\<close>

type_synonym digest = string

subsection \<open>Booleans\<close>

fun boolval :: "json \<Rightarrow> bool" where
  "boolval (JBool b) = b"
| "boolval _ = False"

fun is_bool :: "json \<Rightarrow> bool" where
  "is_bool (JBool b) = True"
| "is_bool _ = False"

lemma is_bool_iff [init_simps, simp]: "v = JBool (boolval v) \<longleftrightarrow> is_bool v"
  by (cases v) auto

subsection \<open>Git names\<close>

text \<open>\<open>re.compile("[A-Za-z0-9_.-]+/[A-Za-z0-9_.-]+").fullmatch\<close>: the class has no \<open>/\<close>, so the first one
  separates owner and name.\<close>

definition is_repository_char :: "char \<Rightarrow> bool" where
  "is_repository_char c \<longleftrightarrow> is_letter c \<or> is_digit c \<or> c \<in> {CHR ''_'', CHR ''.'', CHR ''-''}"

definition repository_pattern :: "string \<Rightarrow> bool" where
  "repository_pattern s =
     (let owner = takeWhile (\<lambda>c. c \<noteq> CHR ''/'') s in
      owner \<noteq> [] \<and> list_all is_repository_char owner
      \<and> (case drop (length owner) s of
           [] \<Rightarrow> False
         | _ # name \<Rightarrow> name \<noteq> [] \<and> list_all is_repository_char name))"

definition require_repository :: "json \<Rightarrow> string res" where
  "require_repository v =
     bindE (require_text ''repository'' v) (\<lambda>s.
       if repository_pattern s then Inr s else Inl (ValueError ''repository''))"

fun contains_text :: "string \<Rightarrow> string \<Rightarrow> bool" where
  "contains_text p [] \<longleftrightarrow> p = []"
| "contains_text p (c # cs) \<longleftrightarrow> take (length p) (c # cs) = p \<or> contains_text p cs"

text \<open>\<open>ref.split("/", 2)[2]\<close> of a ref with one of the two prefixes is what follows the prefix.\<close>

definition ref_suffix :: "string \<Rightarrow> string option" where
  "ref_suffix s =
     (if take 11 s = ''refs/heads/'' then Some (drop 11 s)
      else if take 10 s = ''refs/tags/'' then Some (drop 10 s) else None)"

definition ref_suffix_ok :: "string \<Rightarrow> bool" where
  "ref_suffix_ok s \<longleftrightarrow>
     s \<noteq> [] \<and> hd s \<noteq> CHR ''/'' \<and> last s \<noteq> CHR ''/''
     \<and> \<not> contains_text ''//'' s \<and> \<not> contains_text ''..'' s \<and> \<not> contains_text [CHR ''@'', CHR 0x7B] s
     \<and> CHR 0x5C \<notin> set s \<and> list_all (\<lambda>c. \<not> is_space c \<and> \<not> code c < 32) s
     \<and> list_all (\<lambda>c. c \<notin> set ''~^:?*['') s"

definition require_ref :: "json \<Rightarrow> string res" where
  "require_ref v =
     bindE (require_text ''ref'' v) (\<lambda>s.
     bindE (orRaise (ref_suffix s) (ValueError ''ref'')) (\<lambda>suffix.
     if ref_suffix_ok suffix then Inr s else Inl (ValueError ''ref'')))"

definition git_object_id :: "string \<Rightarrow> bool" where
  "git_object_id s \<longleftrightarrow> (length s = 40 \<or> length s = 64) \<and> list_all is_hex s"

definition require_git_object_id :: "string \<Rightarrow> json \<Rightarrow> string res" where
  "require_git_object_id field v =
     bindE (require_text field v) (\<lambda>s. if git_object_id s then Inr s else Inl (ValueError field))"

definition repository_ok :: "string \<Rightarrow> bool" where
  "repository_ok s \<longleftrightarrow> text_ok s \<and> repository_pattern s"

definition ref_ok :: "string \<Rightarrow> bool" where
  "ref_ok s \<longleftrightarrow> text_ok s \<and> (case ref_suffix s of None \<Rightarrow> False | Some suffix \<Rightarrow> ref_suffix_ok suffix)"

definition object_id_ok :: "string \<Rightarrow> bool" where
  "object_id_ok s \<longleftrightarrow> text_ok s \<and> git_object_id s"

lemma require_repository_iff [init_simps, simp]:
  "require_repository v = Inr s \<longleftrightarrow> is_str v \<and> s = str_of v \<and> repository_ok (str_of v)"
  by (cases v) (auto simp: require_repository_def repository_ok_def res_simps split: if_splits)

lemma require_ref_iff [init_simps, simp]:
  "require_ref v = Inr s \<longleftrightarrow> is_str v \<and> s = str_of v \<and> ref_ok (str_of v)"
  by (cases v) (auto simp: require_ref_def ref_ok_def res_simps split: if_splits option.splits)

lemma require_git_object_id_iff [init_simps, simp]:
  "require_git_object_id f v = Inr s \<longleftrightarrow> is_str v \<and> s = str_of v \<and> object_id_ok (str_of v)"
  by (cases v) (auto simp: require_git_object_id_def object_id_ok_def res_simps split: if_splits)

end
