(* ===== verification/Runner_Identity.thy ===== *)
theory Runner_Identity
  imports Provider_Contracts
begin

text \<open>
  Runners (\<open>runner_identity.py\<close>): \<open>RunnerIdentity\<close> names a concrete runtime by its profile digests, and
  \<open>RunnerBoundary\<close> binds one lease, one capsule and one read-only capability to one identity.
\<close>

subsection \<open>The identity\<close>

definition runner_logical_identity ::
  "(string \<Rightarrow> string) \<Rightarrow> string \<Rightarrow> string \<Rightarrow> string \<Rightarrow> string \<Rightarrow> string" where
  "runner_logical_identity H runner_class provider provider_instance_id environment = claims_digest H
     [(''identity_type'', JStr ''runner-logical-identity/v1''), (''runner_class'', JStr runner_class),
      (''provider'', JStr provider), (''provider_instance_id'', JStr provider_instance_id),
      (''environment'', JStr environment)]"

record runner_identity =
  ri_runner_id :: string
  ri_runner_class :: string
  ri_provider :: string
  ri_provider_instance_id :: string
  ri_environment :: string
  ri_rootfs_digest :: string
  ri_resource_limit_profile_digest :: string
  ri_network_policy_digest :: string
  ri_identity_revision :: string
  ri_identity_digest :: string

definition runner_identity_fields :: "string list" where
  "runner_identity_fields =
     [''schema_version'', ''identity_type'', ''runner_id'', ''runner_class'', ''provider'',
      ''provider_instance_id'', ''environment'', ''rootfs_digest'',
      ''resource_limit_profile_digest'', ''network_policy_digest'', ''identity_revision'',
      ''identity_digest'']"

definition runner_identity_claims :: "runner_identity \<Rightarrow> (string \<times> json) list" where
  "runner_identity_claims c =
     [(''schema_version'', JInt 1), (''identity_type'', JStr ''runner-identity/v1''),
      (''runner_id'', JStr (ri_runner_id c)), (''runner_class'', JStr (ri_runner_class c)),
      (''provider'', JStr (ri_provider c)),
      (''provider_instance_id'', JStr (ri_provider_instance_id c)),
      (''environment'', JStr (ri_environment c)), (''rootfs_digest'', JStr (ri_rootfs_digest c)),
      (''resource_limit_profile_digest'', JStr (ri_resource_limit_profile_digest c)),
      (''network_policy_digest'', JStr (ri_network_policy_digest c)),
      (''identity_revision'', JStr (ri_identity_revision c))]"

definition runner_identity_to_dict :: "runner_identity \<Rightarrow> (string \<times> json) list" where
  "runner_identity_to_dict c = runner_identity_claims c @ [(''identity_digest'', JStr (ri_identity_digest c))]"

definition runner_identity_of :: "(string \<Rightarrow> json) \<Rightarrow> runner_identity" where
  "runner_identity_of d =
     \<lparr>ri_runner_id = str_of (d ''runner_id''), ri_runner_class = str_of (d ''runner_class''),
      ri_provider = str_of (d ''provider''),
      ri_provider_instance_id = str_of (d ''provider_instance_id''),
      ri_environment = str_of (d ''environment''),
      ri_rootfs_digest = str_of (d ''rootfs_digest''),
      ri_resource_limit_profile_digest = str_of (d ''resource_limit_profile_digest''),
      ri_network_policy_digest = str_of (d ''network_policy_digest''),
      ri_identity_revision = str_of (d ''identity_revision''),
      ri_identity_digest = str_of (d ''identity_digest'')\<rparr>"

definition runner_identity_init :: "(string \<Rightarrow> string) \<Rightarrow> (string \<Rightarrow> json) \<Rightarrow> runner_identity res" where
  "runner_identity_init H d =
     thenE (for_each (check_digest d)
       [''runner_id'', ''rootfs_digest'', ''resource_limit_profile_digest'',
        ''network_policy_digest'', ''identity_digest''])
    (thenE (for_each (check_text d)
       [''runner_class'', ''provider'', ''provider_instance_id'', ''identity_revision''])
    (bindE (require_in ''environment'' valid_environments (d ''environment'')) (\<lambda>_.
     thenE (guardE (d ''runner_id'' = JStr (runner_logical_identity H (str_of (d ''runner_class'')) (str_of (d ''provider'')) (str_of (d ''provider_instance_id'')) (str_of (d ''environment'')))) (ValueError ''runner_id''))
      ((let c = runner_identity_of d in thenE (guardE (ri_identity_digest c = claims_digest H (runner_identity_claims c))
        (ValueError ''identity_digest'')) (Inr c))))))"

definition runner_identity_ok :: "(string \<Rightarrow> string) \<Rightarrow> runner_identity \<Rightarrow> bool" where
  "runner_identity_ok H c \<longleftrightarrow>
     list_all text_ok
        [ri_runner_class c, ri_provider c, ri_provider_instance_id c, ri_identity_revision c]
     \<and> list_all digest_ok
        [ri_runner_id c, ri_rootfs_digest c, ri_resource_limit_profile_digest c,
         ri_network_policy_digest c, ri_identity_digest c]
     \<and> ri_environment c \<in> set valid_environments
     \<and> ri_runner_id c = runner_logical_identity H (ri_runner_class c) (ri_provider c) (ri_provider_instance_id c) (ri_environment c)
     \<and> ri_identity_digest c = claims_digest H (runner_identity_claims c)"

definition runner_identity_from_dict :: "(string \<Rightarrow> string) \<Rightarrow> json \<Rightarrow> runner_identity res" where
  "runner_identity_from_dict H =
     contract_from_dict 1 runner_identity_fields ''identity_type'' ''runner-identity/v1'' (runner_identity_init H)"

lemma runner_identity_of_sel [simp]:
  "ri_runner_id (runner_identity_of d) = str_of (d ''runner_id'')"
  "ri_runner_class (runner_identity_of d) = str_of (d ''runner_class'')"
  "ri_provider (runner_identity_of d) = str_of (d ''provider'')"
  "ri_provider_instance_id (runner_identity_of d) = str_of (d ''provider_instance_id'')"
  "ri_environment (runner_identity_of d) = str_of (d ''environment'')"
  "ri_rootfs_digest (runner_identity_of d) = str_of (d ''rootfs_digest'')"
  "ri_resource_limit_profile_digest (runner_identity_of d) = str_of (d ''resource_limit_profile_digest'')"
  "ri_network_policy_digest (runner_identity_of d) = str_of (d ''network_policy_digest'')"
  "ri_identity_revision (runner_identity_of d) = str_of (d ''identity_revision'')"
  "ri_identity_digest (runner_identity_of d) = str_of (d ''identity_digest'')"
  by (simp_all add: runner_identity_of_def)

lemma runner_identity_claims_determine:
  "map snd (runner_identity_claims c) = map snd (runner_identity_claims c') \<Longrightarrow> ri_identity_digest c = ri_identity_digest c' \<Longrightarrow> c = c'"
  by (simp add: runner_identity_claims_def)

lemma runner_identity_init_iff:
  "runner_identity_init H d = Inr c \<longleftrightarrow> runner_identity_ok H c
     \<and> list_all (\<lambda>(f, v). d f = v) (drop 2 (runner_identity_claims c) @ [(''identity_digest'', JStr (ri_identity_digest c))])"
  (is "?L \<longleftrightarrow> _ \<and> ?D c")
proof
  assume L: ?L
  then have c: "c = runner_identity_of d"
    unfolding runner_identity_init_def Let_def init_res_simps by blast
  have "runner_identity_ok H c" using L unfolding c runner_identity_init_def runner_identity_ok_def Let_def init_res_simps
    by (clarsimp simp: instant_at_def)
  moreover have "?D c" unfolding c
    by (simp add: runner_identity_claims_def init_simps)
      (use L in \<open>clarsimp simp: runner_identity_init_def Let_def init_res_simps\<close>)
  ultimately show "runner_identity_ok H c \<and> ?D c" ..
next
  assume R: "runner_identity_ok H c \<and> ?D c"
  then have c: "runner_identity_of d = c" by (simp add: runner_identity_of_def runner_identity_claims_def)
  note d = R [THEN conjunct2, unfolded runner_identity_claims_def]
  show ?L using R [THEN conjunct1] d unfolding runner_identity_init_def c Let_def
    by (clarsimp simp: runner_identity_ok_def init_res_simps instant_at_def)
qed

interpretation runner: content_bound H runner_identity_claims ri_identity_digest "runner_identity_ok H" 1 runner_identity_fields
  "''identity_type''" "''runner-identity/v1''" "''identity_digest''" "runner_identity_init H" for H
proof
  show "flat (runner_identity_claims c)" for c by (simp add: flat_def runner_identity_claims_def)
  show "map fst (runner_identity_claims c) = map fst (runner_identity_claims c')" for c c' by (simp add: runner_identity_claims_def)
  show "runner_identity_fields = map fst (runner_identity_claims c) @ [''identity_digest'']" for c
    by (simp add: runner_identity_fields_def runner_identity_claims_def)
  show "''identity_digest'' \<notin> fst ` set (runner_identity_claims c)" for c by (simp add: runner_identity_claims_def)
  show "take 2 (runner_identity_claims c) = [(''schema_version'', JInt 1), (''identity_type'', JStr ''runner-identity/v1'')]" for c
    by (simp add: runner_identity_claims_def)
  show "runner_identity_ok H c \<Longrightarrow> ri_identity_digest c = claims_digest H (runner_identity_claims c)" for c
    by (simp add: runner_identity_ok_def)
qed (rule runner_identity_claims_determine runner_identity_init_iff; assumption?)+

lemma runner_identity_claims_seal [simp]: "runner_identity_claims (c\<lparr>ri_identity_digest := x\<rparr>) = runner_identity_claims c"
  by (simp add: runner_identity_claims_def)

lemma runner_identity_dict_eq: "runner_identity_to_dict c = runner.dict c"
  by (simp add: runner_identity_to_dict_def runner.dict_def)

lemma runner_identity_sealed: "runner_identity_init H (item (runner_identity_to_dict c)) = Inr c' \<longleftrightarrow> c' = c \<and> runner_identity_ok H c"
  by (simp add: runner_identity_dict_eq runner.init_dict_iff)

definition runner_identity_create ::
  "(string \<Rightarrow> string) \<Rightarrow> string \<Rightarrow> string \<Rightarrow> string \<Rightarrow> string \<Rightarrow> digest \<Rightarrow> digest \<Rightarrow> digest \<Rightarrow> string \<Rightarrow> 
   runner_identity res" where
  "runner_identity_create H runner_class provider provider_instance_id environment rootfs_digest
       resource_limit_profile_digest network_policy_digest identity_revision =
     (let c = \<lparr>ri_runner_id = runner_logical_identity H runner_class provider provider_instance_id environment,
              ri_runner_class = runner_class, ri_provider = provider,
              ri_provider_instance_id = provider_instance_id, ri_environment = environment,
              ri_rootfs_digest = rootfs_digest,
              ri_resource_limit_profile_digest = resource_limit_profile_digest,
              ri_network_policy_digest = network_policy_digest,
              ri_identity_revision = identity_revision, ri_identity_digest = []\<rparr>
       in runner_identity_init H (item (runner_identity_to_dict (c\<lparr>ri_identity_digest := claims_digest H (runner_identity_claims c)\<rparr>))))"

text \<open>\<open>assert_bound_to_lease\<close>\<close>

definition runner_bound_to_lease :: "runner_identity \<Rightarrow> lease \<Rightarrow> unit res" where
  "runner_bound_to_lease c l =
     thenE (guardE (le_runner_class l = ri_runner_class c) (PermissionError ''RUNNER_CLASS_MISMATCH''))
      (guardE (le_environment l = ri_environment c) (PermissionError ''RUNNER_ENVIRONMENT_MISMATCH''))"

subsection \<open>The boundary\<close>

record runner_boundary =
  rb_runner_id :: string
  rb_runner_identity_digest :: string
  rb_lease_id :: string
  rb_lease_digest :: string
  rb_admission_id :: string
  rb_execution_id :: string
  rb_execution_epoch :: int
  rb_execution_capsule_digest :: string
  rb_capability_definition_identity :: string
  rb_environment :: string
  rb_runner_class :: string
  rb_credential_class :: string
  rb_effect_ceiling :: string
  rb_network_egress_default :: string
  rb_provider_mutation_allowed :: bool
  rb_boundary_revision :: string
  rb_boundary_digest :: string

definition runner_boundary_fields :: "string list" where
  "runner_boundary_fields =
     [''schema_version'', ''boundary_type'', ''runner_id'', ''runner_identity_digest'',
      ''lease_id'', ''lease_digest'', ''admission_id'', ''execution_id'', ''execution_epoch'',
      ''execution_capsule_digest'', ''capability_definition_identity'', ''environment'',
      ''runner_class'', ''credential_class'', ''effect_ceiling'', ''network_egress_default'',
      ''provider_mutation_allowed'', ''boundary_revision'', ''boundary_digest'']"

definition runner_boundary_claims :: "runner_boundary \<Rightarrow> (string \<times> json) list" where
  "runner_boundary_claims c =
     [(''schema_version'', JInt 1), (''boundary_type'', JStr ''runner-boundary/v1''),
      (''runner_id'', JStr (rb_runner_id c)),
      (''runner_identity_digest'', JStr (rb_runner_identity_digest c)),
      (''lease_id'', JStr (rb_lease_id c)), (''lease_digest'', JStr (rb_lease_digest c)),
      (''admission_id'', JStr (rb_admission_id c)), (''execution_id'', JStr (rb_execution_id c)),
      (''execution_epoch'', JInt (rb_execution_epoch c)),
      (''execution_capsule_digest'', JStr (rb_execution_capsule_digest c)),
      (''capability_definition_identity'', JStr (rb_capability_definition_identity c)),
      (''environment'', JStr (rb_environment c)), (''runner_class'', JStr (rb_runner_class c)),
      (''credential_class'', JStr (rb_credential_class c)),
      (''effect_ceiling'', JStr (rb_effect_ceiling c)),
      (''network_egress_default'', JStr (rb_network_egress_default c)),
      (''provider_mutation_allowed'', JBool (rb_provider_mutation_allowed c)),
      (''boundary_revision'', JStr (rb_boundary_revision c))]"

definition runner_boundary_to_dict :: "runner_boundary \<Rightarrow> (string \<times> json) list" where
  "runner_boundary_to_dict c = runner_boundary_claims c @ [(''boundary_digest'', JStr (rb_boundary_digest c))]"

definition runner_boundary_of :: "(string \<Rightarrow> json) \<Rightarrow> runner_boundary" where
  "runner_boundary_of d =
     \<lparr>rb_runner_id = str_of (d ''runner_id''),
      rb_runner_identity_digest = str_of (d ''runner_identity_digest''),
      rb_lease_id = str_of (d ''lease_id''), rb_lease_digest = str_of (d ''lease_digest''),
      rb_admission_id = str_of (d ''admission_id''),
      rb_execution_id = str_of (d ''execution_id''),
      rb_execution_epoch = intval (d ''execution_epoch''),
      rb_execution_capsule_digest = str_of (d ''execution_capsule_digest''),
      rb_capability_definition_identity = str_of (d ''capability_definition_identity''),
      rb_environment = str_of (d ''environment''), rb_runner_class = str_of (d ''runner_class''),
      rb_credential_class = str_of (d ''credential_class''),
      rb_effect_ceiling = str_of (d ''effect_ceiling''),
      rb_network_egress_default = str_of (d ''network_egress_default''),
      rb_provider_mutation_allowed = boolval (d ''provider_mutation_allowed''),
      rb_boundary_revision = str_of (d ''boundary_revision''),
      rb_boundary_digest = str_of (d ''boundary_digest'')\<rparr>"

definition runner_boundary_init :: "(string \<Rightarrow> string) \<Rightarrow> (string \<Rightarrow> json) \<Rightarrow> runner_boundary res" where
  "runner_boundary_init H d =
     thenE (for_each (check_digest d)
       [''runner_id'', ''runner_identity_digest'', ''lease_id'', ''lease_digest'',
        ''admission_id'', ''execution_capsule_digest'', ''capability_definition_identity'',
        ''boundary_digest''])
    (thenE (for_each (check_text d)
       [''execution_id'', ''environment'', ''runner_class'', ''credential_class'',
        ''boundary_revision''])
    (bindE (require_in ''environment'' valid_environments (d ''environment'')) (\<lambda>_.
     bindE (require_epoch ''execution_epoch'' (d ''execution_epoch'')) (\<lambda>_.
     thenE (guardE (d ''effect_ceiling'' = JStr ''READ_ONLY'') (ValueError ''effect_ceiling''))
    (thenE (guardE (d ''network_egress_default'' = JStr ''DENY_ALL'') (ValueError ''network_egress_default''))
    (thenE (guardE (d ''provider_mutation_allowed'' = JBool False) (ValueError ''provider_mutation_allowed''))
      ((let c = runner_boundary_of d in thenE (guardE (rb_boundary_digest c = claims_digest H (runner_boundary_claims c))
        (ValueError ''boundary_digest'')) (Inr c)))))))))"

definition runner_boundary_ok :: "(string \<Rightarrow> string) \<Rightarrow> runner_boundary \<Rightarrow> bool" where
  "runner_boundary_ok H c \<longleftrightarrow>
     list_all text_ok
        [rb_execution_id c, rb_environment c, rb_runner_class c, rb_credential_class c,
         rb_boundary_revision c]
     \<and> list_all digest_ok
        [rb_runner_id c, rb_runner_identity_digest c, rb_lease_id c, rb_lease_digest c,
         rb_admission_id c, rb_execution_capsule_digest c, rb_capability_definition_identity c,
         rb_boundary_digest c]
     \<and> rb_environment c \<in> set valid_environments
     \<and> 1 \<le> rb_execution_epoch c
     \<and> rb_effect_ceiling c = ''READ_ONLY''
     \<and> rb_network_egress_default c = ''DENY_ALL''
     \<and> \<not> rb_provider_mutation_allowed c
     \<and> rb_boundary_digest c = claims_digest H (runner_boundary_claims c)"

definition runner_boundary_from_dict :: "(string \<Rightarrow> string) \<Rightarrow> json \<Rightarrow> runner_boundary res" where
  "runner_boundary_from_dict H =
     contract_from_dict 1 runner_boundary_fields ''boundary_type'' ''runner-boundary/v1'' (runner_boundary_init H)"

lemma runner_boundary_of_sel [simp]:
  "rb_runner_id (runner_boundary_of d) = str_of (d ''runner_id'')"
  "rb_runner_identity_digest (runner_boundary_of d) = str_of (d ''runner_identity_digest'')"
  "rb_lease_id (runner_boundary_of d) = str_of (d ''lease_id'')"
  "rb_lease_digest (runner_boundary_of d) = str_of (d ''lease_digest'')"
  "rb_admission_id (runner_boundary_of d) = str_of (d ''admission_id'')"
  "rb_execution_id (runner_boundary_of d) = str_of (d ''execution_id'')"
  "rb_execution_epoch (runner_boundary_of d) = intval (d ''execution_epoch'')"
  "rb_execution_capsule_digest (runner_boundary_of d) = str_of (d ''execution_capsule_digest'')"
  "rb_capability_definition_identity (runner_boundary_of d) = str_of (d ''capability_definition_identity'')"
  "rb_environment (runner_boundary_of d) = str_of (d ''environment'')"
  "rb_runner_class (runner_boundary_of d) = str_of (d ''runner_class'')"
  "rb_credential_class (runner_boundary_of d) = str_of (d ''credential_class'')"
  "rb_effect_ceiling (runner_boundary_of d) = str_of (d ''effect_ceiling'')"
  "rb_network_egress_default (runner_boundary_of d) = str_of (d ''network_egress_default'')"
  "rb_provider_mutation_allowed (runner_boundary_of d) = boolval (d ''provider_mutation_allowed'')"
  "rb_boundary_revision (runner_boundary_of d) = str_of (d ''boundary_revision'')"
  "rb_boundary_digest (runner_boundary_of d) = str_of (d ''boundary_digest'')"
  by (simp_all add: runner_boundary_of_def)

lemma runner_boundary_claims_determine:
  "map snd (runner_boundary_claims c) = map snd (runner_boundary_claims c') \<Longrightarrow> rb_boundary_digest c = rb_boundary_digest c' \<Longrightarrow> c = c'"
  by (simp add: runner_boundary_claims_def)

lemma runner_boundary_init_iff:
  "runner_boundary_init H d = Inr c \<longleftrightarrow> runner_boundary_ok H c
     \<and> list_all (\<lambda>(f, v). d f = v) (drop 2 (runner_boundary_claims c) @ [(''boundary_digest'', JStr (rb_boundary_digest c))])"
  (is "?L \<longleftrightarrow> _ \<and> ?D c")
proof
  assume L: ?L
  then have c: "c = runner_boundary_of d"
    unfolding runner_boundary_init_def Let_def init_res_simps by blast
  have "runner_boundary_ok H c" using L unfolding c runner_boundary_init_def runner_boundary_ok_def Let_def init_res_simps
    by (clarsimp simp: instant_at_def)
  moreover have "?D c" unfolding c
    by (simp add: runner_boundary_claims_def init_simps)
      (use L in \<open>clarsimp simp: runner_boundary_init_def Let_def init_res_simps\<close>)
  ultimately show "runner_boundary_ok H c \<and> ?D c" ..
next
  assume R: "runner_boundary_ok H c \<and> ?D c"
  then have c: "runner_boundary_of d = c" by (simp add: runner_boundary_of_def runner_boundary_claims_def)
  note d = R [THEN conjunct2, unfolded runner_boundary_claims_def]
  show ?L using R [THEN conjunct1] d unfolding runner_boundary_init_def c Let_def
    by (clarsimp simp: runner_boundary_ok_def init_res_simps instant_at_def)
qed

interpretation runner_bound: content_bound H runner_boundary_claims rb_boundary_digest "runner_boundary_ok H" 1 runner_boundary_fields
  "''boundary_type''" "''runner-boundary/v1''" "''boundary_digest''" "runner_boundary_init H" for H
proof
  show "flat (runner_boundary_claims c)" for c by (simp add: flat_def runner_boundary_claims_def)
  show "map fst (runner_boundary_claims c) = map fst (runner_boundary_claims c')" for c c' by (simp add: runner_boundary_claims_def)
  show "runner_boundary_fields = map fst (runner_boundary_claims c) @ [''boundary_digest'']" for c
    by (simp add: runner_boundary_fields_def runner_boundary_claims_def)
  show "''boundary_digest'' \<notin> fst ` set (runner_boundary_claims c)" for c by (simp add: runner_boundary_claims_def)
  show "take 2 (runner_boundary_claims c) = [(''schema_version'', JInt 1), (''boundary_type'', JStr ''runner-boundary/v1'')]" for c
    by (simp add: runner_boundary_claims_def)
  show "runner_boundary_ok H c \<Longrightarrow> rb_boundary_digest c = claims_digest H (runner_boundary_claims c)" for c
    by (simp add: runner_boundary_ok_def)
qed (rule runner_boundary_claims_determine runner_boundary_init_iff; assumption?)+

lemma runner_boundary_claims_seal [simp]: "runner_boundary_claims (c\<lparr>rb_boundary_digest := x\<rparr>) = runner_boundary_claims c"
  by (simp add: runner_boundary_claims_def)

lemma runner_boundary_dict_eq: "runner_boundary_to_dict c = runner_bound.dict c"
  by (simp add: runner_boundary_to_dict_def runner_bound.dict_def)

lemma runner_boundary_sealed: "runner_boundary_init H (item (runner_boundary_to_dict c)) = Inr c' \<longleftrightarrow> c' = c \<and> runner_boundary_ok H c"
  by (simp add: runner_boundary_dict_eq runner_bound.init_dict_iff)

definition runner_boundary_create ::
  "(string \<Rightarrow> string) \<Rightarrow> runner_identity \<Rightarrow> lease \<Rightarrow> execution_capsule \<Rightarrow> capability_definition \<Rightarrow> string \<Rightarrow>
   runner_boundary res" where
  "runner_boundary_create H i l p d boundary_revision =
     thenE (check_texts [(''boundary_revision'', boundary_revision)])
    (thenE (runner_bound_to_lease i l)
    (thenE (guardE (cp_capsule_digest p = le_execution_capsule_digest l) (PermissionError ''EXECUTION_CAPSULE_MISMATCH''))
    (thenE (guardE (cp_runner_class p = le_runner_class l) (PermissionError ''CAPSULE_RUNNER_CLASS_MISMATCH''))
    (thenE (guardE (ri_rootfs_digest i = cp_rootfs_digest p) (PermissionError ''RUNNER_ROOTFS_MISMATCH''))
    (thenE (guardE (ri_resource_limit_profile_digest i = cp_resource_limit_profile_digest p) (PermissionError ''RUNNER_RESOURCE_PROFILE_MISMATCH''))
    (thenE (guardE (ri_network_policy_digest i = cp_network_policy_digest p) (PermissionError ''RUNNER_NETWORK_POLICY_MISMATCH''))
    (thenE (guardE (cd_definition_identity d = cp_capability_definition_identity p) (PermissionError ''CAPABILITY_DEFINITION_MISMATCH''))
    (thenE (guardE (cd_target_kind d = cp_target_kind p) (PermissionError ''CAPABILITY_TARGET_KIND_MISMATCH''))
    (thenE (guardE (cd_handler_id d = cp_handler_id p) (PermissionError ''CAPABILITY_HANDLER_MISMATCH''))
    (thenE (guardE (cd_effect_class d = ''READ_ONLY'') (PermissionError ''PHASE_D_EFFECT_NOT_READ_ONLY''))
    (thenE (guardE (le_environment l \<in> set (cd_supported_environments d)) (PermissionError ''CAPABILITY_ENVIRONMENT_MISMATCH''))
      ((let c = \<lparr>rb_runner_id = ri_runner_id i, rb_runner_identity_digest = ri_identity_digest i,
              rb_lease_id = le_lease_id l, rb_lease_digest = le_lease_digest l,
              rb_admission_id = le_admission_id l, rb_execution_id = le_execution_id l,
              rb_execution_epoch = le_execution_epoch l,
              rb_execution_capsule_digest = cp_capsule_digest p,
              rb_capability_definition_identity = cd_definition_identity d,
              rb_environment = le_environment l, rb_runner_class = le_runner_class l,
              rb_credential_class = cp_credential_class p, rb_effect_ceiling = ''READ_ONLY'',
              rb_network_egress_default = ''DENY_ALL'', rb_provider_mutation_allowed = False,
              rb_boundary_revision = boundary_revision, rb_boundary_digest = []\<rparr>
       in runner_boundary_init H (item (runner_boundary_to_dict (c\<lparr>rb_boundary_digest := claims_digest H (runner_boundary_claims c)\<rparr>))))))))))))))))"

lemma runner_identity_create_eq_Inr:
  assumes "runner_identity_create H rc pv inst env root lim net rv = Inr c"
  shows "runner_identity_ok H c \<and> ri_runner_class c = rc \<and> ri_provider c = pv \<and> ri_provider_instance_id c = inst
     \<and> ri_environment c = env \<and> ri_rootfs_digest c = root \<and> ri_resource_limit_profile_digest c = lim
     \<and> ri_network_policy_digest c = net"
  using assms by (auto simp: runner_identity_create_def Let_def runner_identity_sealed)

lemma runner_boundary_create_eq_Inr:
  assumes "runner_boundary_create H i l p d rv = Inr c"
  shows "runner_boundary_ok H c \<and> rb_runner_id c = ri_runner_id i \<and> rb_runner_identity_digest c = ri_identity_digest i
     \<and> rb_lease_id c = le_lease_id l \<and> rb_lease_digest c = le_lease_digest l \<and> rb_execution_id c = le_execution_id l
     \<and> rb_execution_epoch c = le_execution_epoch l \<and> rb_environment c = le_environment l
     \<and> rb_execution_capsule_digest c = cp_capsule_digest p \<and> rb_capability_definition_identity c = cd_definition_identity d
     \<and> rb_credential_class c = cp_credential_class p \<and> cp_capsule_digest p = le_execution_capsule_digest l
     \<and> cd_definition_identity d = cp_capability_definition_identity p \<and> cd_effect_class d = ''READ_ONLY''
     \<and> le_environment l \<in> set (cd_supported_environments d) \<and> ri_environment i = le_environment l
     \<and> ri_runner_class i = le_runner_class l"
  using assms unfolding runner_boundary_create_def Let_def
  by (simp only: thenE_eq_Inr guardE_eq_Inr runner_boundary_sealed runner_bound_to_lease_def) (elim conjE, simp)

end
