(* ===== verification/Credential_Broker.thy ===== *)
theory Credential_Broker
  imports Runner_Identity
begin

text \<open>
  The credential broker (\<open>credential_broker.py\<close>): a policy says which read-only capability in which
  environment may obtain a credential of a class, and a decision records that one runner boundary may;
  it holds while the lease does.  Neither carries a secret.
\<close>

subsection \<open>Policies\<close>

definition identities_ok :: "string list \<Rightarrow> bool" where
  "identities_ok xs \<longleftrightarrow> xs \<noteq> [] \<and> xs = sorted_unique xs"

record broker_policy =
  bp_credential_class :: string
  bp_provider :: string
  bp_audience :: string
  bp_allowed_capability_definition_identities :: "string list"
  bp_enabled_environments :: "string list"
  bp_access_mode :: string
  bp_provider_mutation_allowed :: bool
  bp_policy_revision :: string
  bp_policy_digest :: string

definition broker_policy_claims :: "broker_policy \<Rightarrow> (string \<times> json) list" where
  "broker_policy_claims c =
     [(''schema_version'', JInt 1), (''policy_type'', JStr ''credential-broker-policy/v1''),
      (''credential_class'', JStr (bp_credential_class c)), (''provider'', JStr (bp_provider c)),
      (''audience'', JStr (bp_audience c)),
      (''allowed_capability_definition_identities'', JArr (map JStr (bp_allowed_capability_definition_identities c))),
      (''enabled_environments'', JArr (map JStr (bp_enabled_environments c))),
      (''access_mode'', JStr (bp_access_mode c)),
      (''provider_mutation_allowed'', JBool (bp_provider_mutation_allowed c)),
      (''policy_revision'', JStr (bp_policy_revision c))]"

definition broker_policy_init :: "(string \<Rightarrow> string) \<Rightarrow> broker_policy \<Rightarrow> broker_policy res" where
  "broker_policy_init H c =
     thenE (check_texts
       [(''credential_class'', bp_credential_class c), (''provider'', bp_provider c),
        (''audience'', bp_audience c), (''policy_revision'', bp_policy_revision c)])
    (thenE (guardE (identities_ok (bp_allowed_capability_definition_identities c)) (ValueError ''allowed_capability_definition_identities''))
    (thenE (for_each (\<lambda>i. bindE (require_digest ''capability_definition_identity'' (JStr i)) (\<lambda>_. Inr ()))
       (bp_allowed_capability_definition_identities c))
    (thenE (guardE (environments_ok (bp_enabled_environments c)) (ValueError ''enabled_environments''))
    (thenE (guardE (bp_access_mode c = ''READ_ONLY'') (ValueError ''access_mode''))
    (thenE (guardE (\<not> bp_provider_mutation_allowed c) (ValueError ''provider_mutation_allowed''))
    (thenE (check_digests
       [(''policy_digest'', bp_policy_digest c)])
    (thenE (guardE (bp_policy_digest c = claims_digest H (broker_policy_claims c)) (ValueError ''policy_digest''))
      (Inr c))))))))"

definition broker_policy_ok :: "(string \<Rightarrow> string) \<Rightarrow> broker_policy \<Rightarrow> bool" where
  "broker_policy_ok H c \<longleftrightarrow>
     list_all text_ok
        [bp_credential_class c, bp_provider c, bp_audience c, bp_policy_revision c]
     \<and> list_all digest_ok
        [bp_policy_digest c]
     \<and> identities_ok (bp_allowed_capability_definition_identities c)
     \<and> (\<forall>i \<in> set (bp_allowed_capability_definition_identities c). digest_ok i)
     \<and> environments_ok (bp_enabled_environments c)
     \<and> bp_access_mode c = ''READ_ONLY''
     \<and> \<not> bp_provider_mutation_allowed c
     \<and> bp_policy_digest c = claims_digest H (broker_policy_claims c)"

lemma broker_policy_init_iff: "broker_policy_init H c = Inr c' \<longleftrightarrow> c' = c \<and> broker_policy_ok H c"
  by (auto simp: broker_policy_init_def broker_policy_ok_def res_simps)

interpretation broker_policy: content_digest H broker_policy_claims bp_policy_digest "broker_policy_ok H" for H
  by unfold_locales (simp_all add: flat_def broker_policy_claims_def broker_policy_ok_def)

definition broker_policy_create ::
  "(string \<Rightarrow> string) \<Rightarrow> string \<Rightarrow> string \<Rightarrow> string \<Rightarrow> string list \<Rightarrow> string list \<Rightarrow> string \<Rightarrow> broker_policy res" where
  "broker_policy_create H credential_class provider audience identities environments policy_revision =
     (let c = \<lparr>bp_credential_class = credential_class, bp_provider = provider, bp_audience = audience,
               bp_allowed_capability_definition_identities = sorted_unique identities,
               bp_enabled_environments = sorted_unique environments, bp_access_mode = ''READ_ONLY'',
               bp_provider_mutation_allowed = False, bp_policy_revision = policy_revision, bp_policy_digest = []\<rparr>
      in broker_policy_init H (c\<lparr>bp_policy_digest := claims_digest H (broker_policy_claims c)\<rparr>))"

subsection \<open>Decisions\<close>

definition access_decision_identity :: "(string \<Rightarrow> string) \<Rightarrow> string \<Rightarrow> string \<Rightarrow> string \<Rightarrow> string" where
  "access_decision_identity H runner_boundary_digest lease_digest policy_digest = claims_digest H
     [(''identity_type'', JStr ''credential-access-decision-id/v1''),
      (''runner_boundary_digest'', JStr runner_boundary_digest), (''lease_digest'', JStr lease_digest),
      (''policy_digest'', JStr policy_digest)]"

record access_decision =
  xd_decision_id :: string
  xd_runner_boundary_digest :: string
  xd_runner_id :: string
  xd_runner_identity_digest :: string
  xd_lease_id :: string
  xd_lease_digest :: string
  xd_execution_id :: string
  xd_execution_epoch :: int
  xd_execution_capsule_digest :: string
  xd_capability_definition_identity :: string
  xd_credential_class :: string
  xd_provider :: string
  xd_audience :: string
  xd_environment :: string
  xd_access_mode :: string
  xd_provider_mutation_allowed :: bool
  xd_valid_from :: string
  xd_expires_at :: string
  xd_policy_digest :: string
  xd_policy_revision :: string
  xd_decision_revision :: string
  xd_decision_digest :: string

definition access_decision_fields :: "string list" where
  "access_decision_fields =
     [''schema_version'', ''decision_type'', ''decision_id'', ''runner_boundary_digest'',
      ''runner_id'', ''runner_identity_digest'', ''lease_id'', ''lease_digest'',
      ''execution_id'', ''execution_epoch'', ''execution_capsule_digest'',
      ''capability_definition_identity'', ''credential_class'', ''provider'', ''audience'',
      ''environment'', ''access_mode'', ''provider_mutation_allowed'', ''valid_from'',
      ''expires_at'', ''policy_digest'', ''policy_revision'', ''decision_revision'',
      ''decision_digest'']"

definition access_decision_claims :: "access_decision \<Rightarrow> (string \<times> json) list" where
  "access_decision_claims c =
     [(''schema_version'', JInt 1), (''decision_type'', JStr ''credential-access-decision/v1''),
      (''decision_id'', JStr (xd_decision_id c)),
      (''runner_boundary_digest'', JStr (xd_runner_boundary_digest c)),
      (''runner_id'', JStr (xd_runner_id c)),
      (''runner_identity_digest'', JStr (xd_runner_identity_digest c)),
      (''lease_id'', JStr (xd_lease_id c)), (''lease_digest'', JStr (xd_lease_digest c)),
      (''execution_id'', JStr (xd_execution_id c)),
      (''execution_epoch'', JInt (xd_execution_epoch c)),
      (''execution_capsule_digest'', JStr (xd_execution_capsule_digest c)),
      (''capability_definition_identity'', JStr (xd_capability_definition_identity c)),
      (''credential_class'', JStr (xd_credential_class c)), (''provider'', JStr (xd_provider c)),
      (''audience'', JStr (xd_audience c)), (''environment'', JStr (xd_environment c)),
      (''access_mode'', JStr (xd_access_mode c)),
      (''provider_mutation_allowed'', JBool (xd_provider_mutation_allowed c)),
      (''valid_from'', JStr (xd_valid_from c)), (''expires_at'', JStr (xd_expires_at c)),
      (''policy_digest'', JStr (xd_policy_digest c)),
      (''policy_revision'', JStr (xd_policy_revision c)),
      (''decision_revision'', JStr (xd_decision_revision c))]"

definition access_decision_to_dict :: "access_decision \<Rightarrow> (string \<times> json) list" where
  "access_decision_to_dict c = access_decision_claims c @ [(''decision_digest'', JStr (xd_decision_digest c))]"

definition access_decision_of :: "(string \<Rightarrow> json) \<Rightarrow> access_decision" where
  "access_decision_of d =
     \<lparr>xd_decision_id = str_of (d ''decision_id''),
      xd_runner_boundary_digest = str_of (d ''runner_boundary_digest''),
      xd_runner_id = str_of (d ''runner_id''),
      xd_runner_identity_digest = str_of (d ''runner_identity_digest''),
      xd_lease_id = str_of (d ''lease_id''), xd_lease_digest = str_of (d ''lease_digest''),
      xd_execution_id = str_of (d ''execution_id''),
      xd_execution_epoch = intval (d ''execution_epoch''),
      xd_execution_capsule_digest = str_of (d ''execution_capsule_digest''),
      xd_capability_definition_identity = str_of (d ''capability_definition_identity''),
      xd_credential_class = str_of (d ''credential_class''),
      xd_provider = str_of (d ''provider''), xd_audience = str_of (d ''audience''),
      xd_environment = str_of (d ''environment''), xd_access_mode = str_of (d ''access_mode''),
      xd_provider_mutation_allowed = boolval (d ''provider_mutation_allowed''),
      xd_valid_from = str_of (d ''valid_from''), xd_expires_at = str_of (d ''expires_at''),
      xd_policy_digest = str_of (d ''policy_digest''),
      xd_policy_revision = str_of (d ''policy_revision''),
      xd_decision_revision = str_of (d ''decision_revision''),
      xd_decision_digest = str_of (d ''decision_digest'')\<rparr>"

definition access_decision_init :: "(string \<Rightarrow> string) \<Rightarrow> (string \<Rightarrow> json) \<Rightarrow> access_decision res" where
  "access_decision_init H d =
     thenE (for_each (check_digest d)
       [''decision_id'', ''runner_boundary_digest'', ''runner_id'', ''runner_identity_digest'',
        ''lease_id'', ''lease_digest'', ''execution_capsule_digest'',
        ''capability_definition_identity'', ''policy_digest'', ''decision_digest''])
    (thenE (for_each (check_text d)
       [''execution_id'', ''credential_class'', ''provider'', ''audience'', ''policy_revision'',
        ''decision_revision''])
    (bindE (require_in ''environment'' valid_environments (d ''environment'')) (\<lambda>_.
     bindE (require_epoch ''execution_epoch'' (d ''execution_epoch'')) (\<lambda>_.
     bindE (require_timestamp ''valid_from'' (d ''valid_from'')) (\<lambda>start.
     bindE (require_timestamp ''expires_at'' (d ''expires_at'')) (\<lambda>end.
     thenE (guardE (\<not> instant end \<le> instant start) (ValueError ''expires_at''))
    (thenE (guardE (d ''access_mode'' = JStr ''READ_ONLY'') (ValueError ''access_mode''))
    (thenE (guardE (d ''provider_mutation_allowed'' = JBool False) (ValueError ''provider_mutation_allowed''))
    (thenE (guardE (d ''decision_id'' = JStr (access_decision_identity H (str_of (d ''runner_boundary_digest'')) (str_of (d ''lease_digest'')) (str_of (d ''policy_digest'')))) (ValueError ''decision_id''))
      ((let c = access_decision_of d in thenE (guardE (xd_decision_digest c = claims_digest H (access_decision_claims c))
        (ValueError ''decision_digest'')) (Inr c))))))))))))"

definition access_decision_ok :: "(string \<Rightarrow> string) \<Rightarrow> access_decision \<Rightarrow> bool" where
  "access_decision_ok H c \<longleftrightarrow>
     list_all text_ok
        [xd_execution_id c, xd_credential_class c, xd_provider c, xd_audience c,
         xd_policy_revision c, xd_decision_revision c]
     \<and> list_all digest_ok
        [xd_decision_id c, xd_runner_boundary_digest c, xd_runner_id c,
         xd_runner_identity_digest c, xd_lease_id c, xd_lease_digest c,
         xd_execution_capsule_digest c, xd_capability_definition_identity c, xd_policy_digest c,
         xd_decision_digest c]
     \<and> xd_environment c \<in> set valid_environments
     \<and> 1 \<le> xd_execution_epoch c
     \<and> time_ok (xd_valid_from c)
     \<and> time_ok (xd_expires_at c)
     \<and> instant_at (xd_valid_from c) < instant_at (xd_expires_at c)
     \<and> xd_access_mode c = ''READ_ONLY''
     \<and> \<not> xd_provider_mutation_allowed c
     \<and> xd_decision_id c = access_decision_identity H (xd_runner_boundary_digest c) (xd_lease_digest c) (xd_policy_digest c)
     \<and> xd_decision_digest c = claims_digest H (access_decision_claims c)"

definition access_decision_from_dict :: "(string \<Rightarrow> string) \<Rightarrow> json \<Rightarrow> access_decision res" where
  "access_decision_from_dict H =
     contract_from_dict 1 access_decision_fields ''decision_type'' ''credential-access-decision/v1'' (access_decision_init H)"

lemma access_decision_of_sel [simp]:
  "xd_decision_id (access_decision_of d) = str_of (d ''decision_id'')"
  "xd_runner_boundary_digest (access_decision_of d) = str_of (d ''runner_boundary_digest'')"
  "xd_runner_id (access_decision_of d) = str_of (d ''runner_id'')"
  "xd_runner_identity_digest (access_decision_of d) = str_of (d ''runner_identity_digest'')"
  "xd_lease_id (access_decision_of d) = str_of (d ''lease_id'')"
  "xd_lease_digest (access_decision_of d) = str_of (d ''lease_digest'')"
  "xd_execution_id (access_decision_of d) = str_of (d ''execution_id'')"
  "xd_execution_epoch (access_decision_of d) = intval (d ''execution_epoch'')"
  "xd_execution_capsule_digest (access_decision_of d) = str_of (d ''execution_capsule_digest'')"
  "xd_capability_definition_identity (access_decision_of d) = str_of (d ''capability_definition_identity'')"
  "xd_credential_class (access_decision_of d) = str_of (d ''credential_class'')"
  "xd_provider (access_decision_of d) = str_of (d ''provider'')"
  "xd_audience (access_decision_of d) = str_of (d ''audience'')"
  "xd_environment (access_decision_of d) = str_of (d ''environment'')"
  "xd_access_mode (access_decision_of d) = str_of (d ''access_mode'')"
  "xd_provider_mutation_allowed (access_decision_of d) = boolval (d ''provider_mutation_allowed'')"
  "xd_valid_from (access_decision_of d) = str_of (d ''valid_from'')"
  "xd_expires_at (access_decision_of d) = str_of (d ''expires_at'')"
  "xd_policy_digest (access_decision_of d) = str_of (d ''policy_digest'')"
  "xd_policy_revision (access_decision_of d) = str_of (d ''policy_revision'')"
  "xd_decision_revision (access_decision_of d) = str_of (d ''decision_revision'')"
  "xd_decision_digest (access_decision_of d) = str_of (d ''decision_digest'')"
  by (simp_all add: access_decision_of_def)

lemma access_decision_claims_determine:
  "map snd (access_decision_claims c) = map snd (access_decision_claims c') \<Longrightarrow> xd_decision_digest c = xd_decision_digest c' \<Longrightarrow> c = c'"
  by (simp add: access_decision_claims_def)

lemma access_decision_init_iff:
  "access_decision_init H d = Inr c \<longleftrightarrow> access_decision_ok H c
     \<and> list_all (\<lambda>(f, v). d f = v) (drop 2 (access_decision_claims c) @ [(''decision_digest'', JStr (xd_decision_digest c))])"
  (is "?L \<longleftrightarrow> _ \<and> ?D c")
proof
  assume L: ?L
  then have c: "c = access_decision_of d"
    unfolding access_decision_init_def Let_def init_res_simps by blast
  have "access_decision_ok H c" using L unfolding c access_decision_init_def access_decision_ok_def Let_def init_res_simps
    by (clarsimp simp: instant_at_def)
  moreover have "?D c" unfolding c
    by (simp add: access_decision_claims_def init_simps)
      (use L in \<open>clarsimp simp: access_decision_init_def Let_def init_res_simps\<close>)
  ultimately show "access_decision_ok H c \<and> ?D c" ..
next
  assume R: "access_decision_ok H c \<and> ?D c"
  then have c: "access_decision_of d = c" by (simp add: access_decision_of_def access_decision_claims_def)
  note d = R [THEN conjunct2, unfolded access_decision_claims_def]
  show ?L using R [THEN conjunct1] d unfolding access_decision_init_def c Let_def
    by (clarsimp simp: access_decision_ok_def init_res_simps instant_at_def)
qed

interpretation access_decision: content_bound H access_decision_claims xd_decision_digest "access_decision_ok H" 1 access_decision_fields
  "''decision_type''" "''credential-access-decision/v1''" "''decision_digest''" "access_decision_init H" for H
proof
  show "flat (access_decision_claims c)" for c by (simp add: flat_def access_decision_claims_def)
  show "map fst (access_decision_claims c) = map fst (access_decision_claims c')" for c c' by (simp add: access_decision_claims_def)
  show "access_decision_fields = map fst (access_decision_claims c) @ [''decision_digest'']" for c
    by (simp add: access_decision_fields_def access_decision_claims_def)
  show "''decision_digest'' \<notin> fst ` set (access_decision_claims c)" for c by (simp add: access_decision_claims_def)
  show "take 2 (access_decision_claims c) = [(''schema_version'', JInt 1), (''decision_type'', JStr ''credential-access-decision/v1'')]" for c
    by (simp add: access_decision_claims_def)
  show "access_decision_ok H c \<Longrightarrow> xd_decision_digest c = claims_digest H (access_decision_claims c)" for c
    by (simp add: access_decision_ok_def)
qed (rule access_decision_claims_determine access_decision_init_iff; assumption?)+

lemma access_decision_claims_seal [simp]: "access_decision_claims (c\<lparr>xd_decision_digest := x\<rparr>) = access_decision_claims c"
  by (simp add: access_decision_claims_def)

lemma access_decision_dict_eq: "access_decision_to_dict c = access_decision.dict c"
  by (simp add: access_decision_to_dict_def access_decision.dict_def)

lemma access_decision_sealed: "access_decision_init H (item (access_decision_to_dict c)) = Inr c' \<longleftrightarrow> c' = c \<and> access_decision_ok H c"
  by (simp add: access_decision_dict_eq access_decision.init_dict_iff)

definition access_decision_create ::
  "(string \<Rightarrow> string) \<Rightarrow> runner_boundary \<Rightarrow> lease \<Rightarrow> broker_policy \<Rightarrow> string \<Rightarrow> access_decision res" where
  "access_decision_create H b l p decision_revision =
     thenE (check_texts [(''decision_revision'', decision_revision)])
    (thenE (guardE (rb_effect_ceiling b = ''READ_ONLY'') (PermissionError ''RUNNER_BOUNDARY_NOT_READ_ONLY''))
    (thenE (guardE (\<not> rb_provider_mutation_allowed b) (PermissionError ''RUNNER_BOUNDARY_MUTATION_ALLOWED''))
    (thenE (guardE (rb_lease_id b = le_lease_id l \<and> rb_lease_digest b = le_lease_digest l) (PermissionError ''CREDENTIAL_LEASE_BINDING_MISMATCH''))
    (thenE (guardE (rb_execution_id b = le_execution_id l) (PermissionError ''CREDENTIAL_EXECUTION_BINDING_MISMATCH''))
    (thenE (guardE (rb_execution_epoch b = le_execution_epoch l) (PermissionError ''CREDENTIAL_EPOCH_BINDING_MISMATCH''))
    (thenE (guardE (rb_environment b = le_environment l) (PermissionError ''CREDENTIAL_ENVIRONMENT_BINDING_MISMATCH''))
    (thenE (guardE (rb_credential_class b = bp_credential_class p) (PermissionError ''CREDENTIAL_CLASS_NOT_ALLOWED''))
    (thenE (guardE (rb_capability_definition_identity b \<in> set (bp_allowed_capability_definition_identities p)) (PermissionError ''CREDENTIAL_CAPABILITY_NOT_ALLOWED''))
    (thenE (guardE (rb_environment b \<in> set (bp_enabled_environments p)) (PermissionError ''CREDENTIAL_ENVIRONMENT_NOT_ALLOWED''))
      ((let c = \<lparr>xd_decision_id = access_decision_identity H (rb_boundary_digest b) (le_lease_digest l) (bp_policy_digest p),
              xd_runner_boundary_digest = rb_boundary_digest b, xd_runner_id = rb_runner_id b,
              xd_runner_identity_digest = rb_runner_identity_digest b,
              xd_lease_id = le_lease_id l, xd_lease_digest = le_lease_digest l,
              xd_execution_id = le_execution_id l, xd_execution_epoch = le_execution_epoch l,
              xd_execution_capsule_digest = rb_execution_capsule_digest b,
              xd_capability_definition_identity = rb_capability_definition_identity b,
              xd_credential_class = rb_credential_class b, xd_provider = bp_provider p,
              xd_audience = bp_audience p, xd_environment = rb_environment b,
              xd_access_mode = ''READ_ONLY'', xd_provider_mutation_allowed = False,
              xd_valid_from = le_acquired_at l, xd_expires_at = le_expires_at l,
              xd_policy_digest = bp_policy_digest p, xd_policy_revision = bp_policy_revision p,
              xd_decision_revision = decision_revision, xd_decision_digest = []\<rparr>
       in access_decision_init H (item (access_decision_to_dict (c\<lparr>xd_decision_digest := claims_digest H (access_decision_claims c)\<rparr>))))))))))))))"

text \<open>\<open>assert_bound_to\<close>\<close>

definition access_decision_bound_to ::
  "(string \<Rightarrow> string) \<Rightarrow> access_decision \<Rightarrow> runner_boundary \<Rightarrow> lease \<Rightarrow> broker_policy \<Rightarrow> unit res" where
  "access_decision_bound_to H c b l p =
     bindE (access_decision_create H b l p (xd_decision_revision c)) (\<lambda>expected.
     guardE (c = expected) (PermissionError ''CREDENTIAL_DECISION_BINDING_MISMATCH''))"

subsection \<open>The broker\<close>

record credential_broker =
  br_policies :: "string \<rightharpoonup> broker_policy"
  br_decision_revision :: string

fun add_broker_policies ::
  "broker_policy list \<Rightarrow> (string \<rightharpoonup> broker_policy) \<Rightarrow> (string \<rightharpoonup> broker_policy) res" where
  "add_broker_policies [] m = Inr m"
| "add_broker_policies (p # ps) m =
     thenE (guardE (m (bp_credential_class p) = None) (ValueError ''duplicate credential class policy''))
      (add_broker_policies ps (m(bp_credential_class p \<mapsto> p)))"

definition credential_broker_init :: "broker_policy list \<Rightarrow> string \<Rightarrow> credential_broker res" where
  "credential_broker_init policies decision_revision =
     thenE (check_texts [(''decision_revision'', decision_revision)])
      (bindE (add_broker_policies policies Map.empty) (\<lambda>m.
       thenE (guardE (policies \<noteq> []) (ValueError ''credential broker requires at least one policy''))
        (Inr \<lparr>br_policies = m, br_decision_revision = decision_revision\<rparr>)))"

definition authorize_credential ::
  "(string \<Rightarrow> string) \<Rightarrow> credential_broker \<Rightarrow> runner_boundary \<Rightarrow> lease \<Rightarrow> access_decision res" where
  "authorize_credential H br b l =
     bindE (orRaise (br_policies br (rb_credential_class b)) (PermissionError ''CREDENTIAL_CLASS_NOT_REGISTERED''))
      (\<lambda>p. access_decision_create H b l p (br_decision_revision br))"

lemma access_decision_create_eq_Inr:
  assumes "access_decision_create H b l p rv = Inr c"
  shows "access_decision_ok H c \<and> xd_runner_boundary_digest c = rb_boundary_digest b \<and> xd_lease_id c = le_lease_id l
     \<and> xd_lease_digest c = le_lease_digest l \<and> xd_valid_from c = le_acquired_at l \<and> xd_expires_at c = le_expires_at l
     \<and> xd_policy_digest c = bp_policy_digest p \<and> xd_provider c = bp_provider p \<and> xd_credential_class c = bp_credential_class p
     \<and> rb_capability_definition_identity b \<in> set (bp_allowed_capability_definition_identities p)
     \<and> rb_environment b \<in> set (bp_enabled_environments p) \<and> rb_lease_digest b = le_lease_digest l"
  using assms unfolding access_decision_create_def Let_def
  by (simp only: thenE_eq_Inr guardE_eq_Inr access_decision_sealed) (elim conjE, simp)

lemma authorize_credential_eq_Inr:
  assumes "authorize_credential H br b l = Inr c"
  obtains p where "br_policies br (rb_credential_class b) = Some p"
    and "access_decision_create H b l p (br_decision_revision br) = Inr c"
  using assms by (auto simp: authorize_credential_def res_simps)

end
