(* ===== verification/Isolated_Runner.thy ===== *)
theory Isolated_Runner
  imports Credential_Broker
begin

text \<open>
  The isolated runner (\<open>isolated_runner.py\<close>): a runtime is bootstrapped without credentials, its identity and
  boundary are created from what the bootstrap reports, the broker decides, and only after the fence has
  found the lease current is the runtime activated, read-only.
\<close>

subsection \<open>Bootstrap evidence\<close>

definition bootstrap_identity ::
  "(string \<Rightarrow> string) \<Rightarrow> string \<Rightarrow> string \<Rightarrow> string \<Rightarrow> string \<Rightarrow> string" where
  "bootstrap_identity H provider provider_instance_id runner_class environment = claims_digest H
     [(''identity_type'', JStr ''isolated-runtime-bootstrap-id/v1''), (''provider'', JStr provider),
      (''provider_instance_id'', JStr provider_instance_id), (''runner_class'', JStr runner_class),
      (''environment'', JStr environment)]"

record bootstrap =
  bt_bootstrap_id :: string
  bt_provider :: string
  bt_provider_instance_id :: string
  bt_runner_class :: string
  bt_environment :: string
  bt_rootfs_digest :: string
  bt_resource_limit_profile_digest :: string
  bt_network_policy_digest :: string
  bt_workspace_mount_mode :: string
  bt_network_egress_default :: string
  bt_inherited_credentials :: bool
  bt_provider_mutation_allowed :: bool
  bt_bootstrap_revision :: string
  bt_bootstrap_digest :: string

definition bootstrap_fields :: "string list" where
  "bootstrap_fields =
     [''schema_version'', ''bootstrap_type'', ''bootstrap_id'', ''provider'',
      ''provider_instance_id'', ''runner_class'', ''environment'', ''rootfs_digest'',
      ''resource_limit_profile_digest'', ''network_policy_digest'', ''workspace_mount_mode'',
      ''network_egress_default'', ''inherited_credentials'', ''provider_mutation_allowed'',
      ''bootstrap_revision'', ''bootstrap_digest'']"

definition bootstrap_claims :: "bootstrap \<Rightarrow> (string \<times> json) list" where
  "bootstrap_claims c =
     [(''schema_version'', JInt 1), (''bootstrap_type'', JStr ''isolated-runtime-bootstrap/v1''),
      (''bootstrap_id'', JStr (bt_bootstrap_id c)), (''provider'', JStr (bt_provider c)),
      (''provider_instance_id'', JStr (bt_provider_instance_id c)),
      (''runner_class'', JStr (bt_runner_class c)), (''environment'', JStr (bt_environment c)),
      (''rootfs_digest'', JStr (bt_rootfs_digest c)),
      (''resource_limit_profile_digest'', JStr (bt_resource_limit_profile_digest c)),
      (''network_policy_digest'', JStr (bt_network_policy_digest c)),
      (''workspace_mount_mode'', JStr (bt_workspace_mount_mode c)),
      (''network_egress_default'', JStr (bt_network_egress_default c)),
      (''inherited_credentials'', JBool (bt_inherited_credentials c)),
      (''provider_mutation_allowed'', JBool (bt_provider_mutation_allowed c)),
      (''bootstrap_revision'', JStr (bt_bootstrap_revision c))]"

definition bootstrap_to_dict :: "bootstrap \<Rightarrow> (string \<times> json) list" where
  "bootstrap_to_dict c = bootstrap_claims c @ [(''bootstrap_digest'', JStr (bt_bootstrap_digest c))]"

definition bootstrap_of :: "(string \<Rightarrow> json) \<Rightarrow> bootstrap" where
  "bootstrap_of d =
     \<lparr>bt_bootstrap_id = str_of (d ''bootstrap_id''), bt_provider = str_of (d ''provider''),
      bt_provider_instance_id = str_of (d ''provider_instance_id''),
      bt_runner_class = str_of (d ''runner_class''), bt_environment = str_of (d ''environment''),
      bt_rootfs_digest = str_of (d ''rootfs_digest''),
      bt_resource_limit_profile_digest = str_of (d ''resource_limit_profile_digest''),
      bt_network_policy_digest = str_of (d ''network_policy_digest''),
      bt_workspace_mount_mode = str_of (d ''workspace_mount_mode''),
      bt_network_egress_default = str_of (d ''network_egress_default''),
      bt_inherited_credentials = boolval (d ''inherited_credentials''),
      bt_provider_mutation_allowed = boolval (d ''provider_mutation_allowed''),
      bt_bootstrap_revision = str_of (d ''bootstrap_revision''),
      bt_bootstrap_digest = str_of (d ''bootstrap_digest'')\<rparr>"

definition bootstrap_init :: "(string \<Rightarrow> string) \<Rightarrow> (string \<Rightarrow> json) \<Rightarrow> bootstrap res" where
  "bootstrap_init H d =
     thenE (for_each (check_digest d)
       [''bootstrap_id'', ''rootfs_digest'', ''resource_limit_profile_digest'',
        ''network_policy_digest'', ''bootstrap_digest''])
    (thenE (for_each (check_text d)
       [''provider'', ''provider_instance_id'', ''runner_class'', ''environment'',
        ''bootstrap_revision''])
    (thenE (guardE (d ''workspace_mount_mode'' = JStr ''READ_ONLY'') (ValueError ''workspace_mount_mode''))
    (thenE (guardE (d ''network_egress_default'' = JStr ''DENY_ALL'') (ValueError ''network_egress_default''))
    (thenE (guardE (d ''inherited_credentials'' = JBool False) (ValueError ''inherited_credentials''))
    (thenE (guardE (d ''provider_mutation_allowed'' = JBool False) (ValueError ''provider_mutation_allowed''))
    (thenE (guardE (d ''bootstrap_id'' = JStr (bootstrap_identity H (str_of (d ''provider'')) (str_of (d ''provider_instance_id'')) (str_of (d ''runner_class'')) (str_of (d ''environment'')))) (ValueError ''bootstrap_id''))
      ((let c = bootstrap_of d in thenE (guardE (bt_bootstrap_digest c = claims_digest H (bootstrap_claims c))
        (ValueError ''bootstrap_digest'')) (Inr c)))))))))"

definition bootstrap_ok :: "(string \<Rightarrow> string) \<Rightarrow> bootstrap \<Rightarrow> bool" where
  "bootstrap_ok H c \<longleftrightarrow>
     list_all text_ok
        [bt_provider c, bt_provider_instance_id c, bt_runner_class c, bt_environment c,
         bt_bootstrap_revision c]
     \<and> list_all digest_ok
        [bt_bootstrap_id c, bt_rootfs_digest c, bt_resource_limit_profile_digest c,
         bt_network_policy_digest c, bt_bootstrap_digest c]
     \<and> bt_workspace_mount_mode c = ''READ_ONLY''
     \<and> bt_network_egress_default c = ''DENY_ALL''
     \<and> \<not> bt_inherited_credentials c
     \<and> \<not> bt_provider_mutation_allowed c
     \<and> bt_bootstrap_id c = bootstrap_identity H (bt_provider c) (bt_provider_instance_id c) (bt_runner_class c) (bt_environment c)
     \<and> bt_bootstrap_digest c = claims_digest H (bootstrap_claims c)"

definition bootstrap_from_dict :: "(string \<Rightarrow> string) \<Rightarrow> json \<Rightarrow> bootstrap res" where
  "bootstrap_from_dict H =
     contract_from_dict 1 bootstrap_fields ''bootstrap_type'' ''isolated-runtime-bootstrap/v1'' (bootstrap_init H)"

lemma bootstrap_of_sel [simp]:
  "bt_bootstrap_id (bootstrap_of d) = str_of (d ''bootstrap_id'')"
  "bt_provider (bootstrap_of d) = str_of (d ''provider'')"
  "bt_provider_instance_id (bootstrap_of d) = str_of (d ''provider_instance_id'')"
  "bt_runner_class (bootstrap_of d) = str_of (d ''runner_class'')"
  "bt_environment (bootstrap_of d) = str_of (d ''environment'')"
  "bt_rootfs_digest (bootstrap_of d) = str_of (d ''rootfs_digest'')"
  "bt_resource_limit_profile_digest (bootstrap_of d) = str_of (d ''resource_limit_profile_digest'')"
  "bt_network_policy_digest (bootstrap_of d) = str_of (d ''network_policy_digest'')"
  "bt_workspace_mount_mode (bootstrap_of d) = str_of (d ''workspace_mount_mode'')"
  "bt_network_egress_default (bootstrap_of d) = str_of (d ''network_egress_default'')"
  "bt_inherited_credentials (bootstrap_of d) = boolval (d ''inherited_credentials'')"
  "bt_provider_mutation_allowed (bootstrap_of d) = boolval (d ''provider_mutation_allowed'')"
  "bt_bootstrap_revision (bootstrap_of d) = str_of (d ''bootstrap_revision'')"
  "bt_bootstrap_digest (bootstrap_of d) = str_of (d ''bootstrap_digest'')"
  by (simp_all add: bootstrap_of_def)

lemma bootstrap_claims_determine:
  "map snd (bootstrap_claims c) = map snd (bootstrap_claims c') \<Longrightarrow> bt_bootstrap_digest c = bt_bootstrap_digest c' \<Longrightarrow> c = c'"
  by (simp add: bootstrap_claims_def)

lemma bootstrap_init_iff:
  "bootstrap_init H d = Inr c \<longleftrightarrow> bootstrap_ok H c
     \<and> list_all (\<lambda>(f, v). d f = v) (drop 2 (bootstrap_claims c) @ [(''bootstrap_digest'', JStr (bt_bootstrap_digest c))])"
  (is "?L \<longleftrightarrow> _ \<and> ?D c")
proof
  assume L: ?L
  then have c: "c = bootstrap_of d"
    unfolding bootstrap_init_def Let_def init_res_simps by blast
  have "bootstrap_ok H c" using L unfolding c bootstrap_init_def bootstrap_ok_def Let_def init_res_simps
    by (clarsimp simp: instant_at_def)
  moreover have "?D c" unfolding c
    by (simp add: bootstrap_claims_def init_simps)
      (use L in \<open>clarsimp simp: bootstrap_init_def Let_def init_res_simps\<close>)
  ultimately show "bootstrap_ok H c \<and> ?D c" ..
next
  assume R: "bootstrap_ok H c \<and> ?D c"
  then have c: "bootstrap_of d = c" by (simp add: bootstrap_of_def bootstrap_claims_def)
  note d = R [THEN conjunct2, unfolded bootstrap_claims_def]
  show ?L using R [THEN conjunct1] d unfolding bootstrap_init_def c Let_def
    by (clarsimp simp: bootstrap_ok_def init_res_simps instant_at_def)
qed

interpretation bootstrap: content_bound H bootstrap_claims bt_bootstrap_digest "bootstrap_ok H" 1 bootstrap_fields
  "''bootstrap_type''" "''isolated-runtime-bootstrap/v1''" "''bootstrap_digest''" "bootstrap_init H" for H
proof
  show "flat (bootstrap_claims c)" for c by (simp add: flat_def bootstrap_claims_def)
  show "map fst (bootstrap_claims c) = map fst (bootstrap_claims c')" for c c' by (simp add: bootstrap_claims_def)
  show "bootstrap_fields = map fst (bootstrap_claims c) @ [''bootstrap_digest'']" for c
    by (simp add: bootstrap_fields_def bootstrap_claims_def)
  show "''bootstrap_digest'' \<notin> fst ` set (bootstrap_claims c)" for c by (simp add: bootstrap_claims_def)
  show "take 2 (bootstrap_claims c) = [(''schema_version'', JInt 1), (''bootstrap_type'', JStr ''isolated-runtime-bootstrap/v1'')]" for c
    by (simp add: bootstrap_claims_def)
  show "bootstrap_ok H c \<Longrightarrow> bt_bootstrap_digest c = claims_digest H (bootstrap_claims c)" for c
    by (simp add: bootstrap_ok_def)
qed (rule bootstrap_claims_determine bootstrap_init_iff; assumption?)+

lemma bootstrap_claims_seal [simp]: "bootstrap_claims (c\<lparr>bt_bootstrap_digest := x\<rparr>) = bootstrap_claims c"
  by (simp add: bootstrap_claims_def)

lemma bootstrap_dict_eq: "bootstrap_to_dict c = bootstrap.dict c"
  by (simp add: bootstrap_to_dict_def bootstrap.dict_def)

lemma bootstrap_sealed: "bootstrap_init H (item (bootstrap_to_dict c)) = Inr c' \<longleftrightarrow> c' = c \<and> bootstrap_ok H c"
  by (simp add: bootstrap_dict_eq bootstrap.init_dict_iff)

definition bootstrap_create ::
  "(string \<Rightarrow> string) \<Rightarrow> string \<Rightarrow> string \<Rightarrow> string \<Rightarrow> string \<Rightarrow> digest \<Rightarrow> digest \<Rightarrow> digest \<Rightarrow> string \<Rightarrow> bootstrap res" where
  "bootstrap_create H provider provider_instance_id runner_class environment rootfs_digest
       resource_limit_profile_digest network_policy_digest bootstrap_revision =
     (let c = \<lparr>bt_bootstrap_id = bootstrap_identity H provider provider_instance_id runner_class environment,
              bt_provider = provider, bt_provider_instance_id = provider_instance_id,
              bt_runner_class = runner_class, bt_environment = environment,
              bt_rootfs_digest = rootfs_digest,
              bt_resource_limit_profile_digest = resource_limit_profile_digest,
              bt_network_policy_digest = network_policy_digest,
              bt_workspace_mount_mode = ''READ_ONLY'', bt_network_egress_default = ''DENY_ALL'',
              bt_inherited_credentials = False, bt_provider_mutation_allowed = False,
              bt_bootstrap_revision = bootstrap_revision, bt_bootstrap_digest = []\<rparr>
       in bootstrap_init H (item (bootstrap_to_dict (c\<lparr>bt_bootstrap_digest := claims_digest H (bootstrap_claims c)\<rparr>))))"

subsection \<open>The binding of the parts\<close>

definition assert_runtime_binding ::
  "bootstrap \<Rightarrow> runner_identity \<Rightarrow> runner_boundary \<Rightarrow> access_decision \<Rightarrow> lease \<Rightarrow> unit res" where
  "assert_runtime_binding b i y x l =
     thenE (guardE (ri_provider i = bt_provider b) (PermissionError ''RUNTIME_PROVIDER_IDENTITY_MISMATCH''))
    (thenE (guardE (ri_provider_instance_id i = bt_provider_instance_id b) (PermissionError ''RUNTIME_PROVIDER_INSTANCE_MISMATCH''))
    (thenE (guardE (ri_runner_class i = bt_runner_class b) (PermissionError ''RUNTIME_RUNNER_CLASS_MISMATCH''))
    (thenE (guardE (ri_environment i = bt_environment b) (PermissionError ''RUNTIME_ENVIRONMENT_MISMATCH''))
    (thenE (guardE (ri_rootfs_digest i = bt_rootfs_digest b) (PermissionError ''RUNTIME_ROOTFS_MISMATCH''))
    (thenE (guardE (ri_resource_limit_profile_digest i = bt_resource_limit_profile_digest b) (PermissionError ''RUNTIME_RESOURCE_PROFILE_MISMATCH''))
    (thenE (guardE (ri_network_policy_digest i = bt_network_policy_digest b) (PermissionError ''RUNTIME_NETWORK_POLICY_MISMATCH''))
    (thenE (guardE (rb_runner_id y = ri_runner_id i) (PermissionError ''RUNTIME_BOUNDARY_RUNNER_MISMATCH''))
    (thenE (guardE (rb_runner_identity_digest y = ri_identity_digest i) (PermissionError ''RUNTIME_BOUNDARY_IDENTITY_MISMATCH''))
    (thenE (guardE (rb_lease_id y = le_lease_id l \<and> rb_lease_digest y = le_lease_digest l) (PermissionError ''RUNTIME_BOUNDARY_LEASE_MISMATCH''))
    (thenE (guardE (rb_execution_epoch y = le_execution_epoch l) (PermissionError ''RUNTIME_BOUNDARY_EPOCH_MISMATCH''))
    (thenE (guardE (xd_runner_boundary_digest x = rb_boundary_digest y) (PermissionError ''RUNTIME_CREDENTIAL_BOUNDARY_MISMATCH''))
    (thenE (guardE (xd_runner_id x = ri_runner_id i) (PermissionError ''RUNTIME_CREDENTIAL_RUNNER_MISMATCH''))
    (thenE (guardE (xd_lease_id x = le_lease_id l \<and> xd_lease_digest x = le_lease_digest l) (PermissionError ''RUNTIME_CREDENTIAL_LEASE_MISMATCH''))
    (thenE (guardE (xd_execution_epoch x = le_execution_epoch l) (PermissionError ''RUNTIME_CREDENTIAL_EPOCH_MISMATCH''))
    (thenE (guardE (xd_execution_capsule_digest x = rb_execution_capsule_digest y) (PermissionError ''RUNTIME_CREDENTIAL_CAPSULE_MISMATCH''))
    (thenE (guardE (xd_capability_definition_identity x = rb_capability_definition_identity y) (PermissionError ''RUNTIME_CREDENTIAL_CAPABILITY_MISMATCH''))
    (thenE (guardE (xd_access_mode x = ''READ_ONLY'') (PermissionError ''RUNTIME_CREDENTIAL_NOT_READ_ONLY''))
      (guardE (\<not> xd_provider_mutation_allowed x) (PermissionError ''RUNTIME_CREDENTIAL_MUTATION_ALLOWED'')))))))))))))))))))"

definition runtime_bound ::
  "bootstrap \<Rightarrow> runner_identity \<Rightarrow> runner_boundary \<Rightarrow> access_decision \<Rightarrow> lease \<Rightarrow> bool" where
  "runtime_bound b i y x l \<longleftrightarrow>
     ri_provider i = bt_provider b
     \<and> ri_provider_instance_id i = bt_provider_instance_id b
     \<and> ri_runner_class i = bt_runner_class b
     \<and> ri_environment i = bt_environment b
     \<and> ri_rootfs_digest i = bt_rootfs_digest b
     \<and> ri_resource_limit_profile_digest i = bt_resource_limit_profile_digest b
     \<and> ri_network_policy_digest i = bt_network_policy_digest b
     \<and> rb_runner_id y = ri_runner_id i
     \<and> rb_runner_identity_digest y = ri_identity_digest i
     \<and> rb_lease_id y = le_lease_id l \<and> rb_lease_digest y = le_lease_digest l
     \<and> rb_execution_epoch y = le_execution_epoch l
     \<and> xd_runner_boundary_digest x = rb_boundary_digest y
     \<and> xd_runner_id x = ri_runner_id i
     \<and> xd_lease_id x = le_lease_id l \<and> xd_lease_digest x = le_lease_digest l
     \<and> xd_execution_epoch x = le_execution_epoch l
     \<and> xd_execution_capsule_digest x = rb_execution_capsule_digest y
     \<and> xd_capability_definition_identity x = rb_capability_definition_identity y
     \<and> xd_access_mode x = ''READ_ONLY''
     \<and> \<not> xd_provider_mutation_allowed x"

lemma assert_runtime_binding_iff [res_simps]: "assert_runtime_binding b i y x l = Inr u \<longleftrightarrow> runtime_bound b i y x l"
  by (simp only: assert_runtime_binding_def runtime_bound_def thenE_eq_Inr guardE_eq_Inr conj_assoc)

subsection \<open>Activation evidence\<close>

record runtime_activation =
  ra_provider :: string
  ra_provider_instance_id :: string
  ra_runner_id :: string
  ra_runner_identity_digest :: string
  ra_runner_boundary_digest :: string
  ra_credential_decision_id :: string
  ra_credential_decision_digest :: string
  ra_lease_id :: string
  ra_lease_digest :: string
  ra_execution_id :: string
  ra_execution_epoch :: int
  ra_execution_capsule_digest :: string
  ra_capability_definition_identity :: string
  ra_access_mode :: string
  ra_workspace_mount_mode :: string
  ra_network_egress_default :: string
  ra_provider_mutation_allowed :: bool
  ra_activation_revision :: string
  ra_activation_digest :: string

definition runtime_activation_fields :: "string list" where
  "runtime_activation_fields =
     [''schema_version'', ''activation_type'', ''provider'', ''provider_instance_id'',
      ''runner_id'', ''runner_identity_digest'', ''runner_boundary_digest'',
      ''credential_decision_id'', ''credential_decision_digest'', ''lease_id'', ''lease_digest'',
      ''execution_id'', ''execution_epoch'', ''execution_capsule_digest'',
      ''capability_definition_identity'', ''access_mode'', ''workspace_mount_mode'',
      ''network_egress_default'', ''provider_mutation_allowed'', ''activation_revision'',
      ''activation_digest'']"

definition runtime_activation_claims :: "runtime_activation \<Rightarrow> (string \<times> json) list" where
  "runtime_activation_claims c =
     [(''schema_version'', JInt 1),
      (''activation_type'', JStr ''read-only-runtime-activation/v1''),
      (''provider'', JStr (ra_provider c)),
      (''provider_instance_id'', JStr (ra_provider_instance_id c)),
      (''runner_id'', JStr (ra_runner_id c)),
      (''runner_identity_digest'', JStr (ra_runner_identity_digest c)),
      (''runner_boundary_digest'', JStr (ra_runner_boundary_digest c)),
      (''credential_decision_id'', JStr (ra_credential_decision_id c)),
      (''credential_decision_digest'', JStr (ra_credential_decision_digest c)),
      (''lease_id'', JStr (ra_lease_id c)), (''lease_digest'', JStr (ra_lease_digest c)),
      (''execution_id'', JStr (ra_execution_id c)),
      (''execution_epoch'', JInt (ra_execution_epoch c)),
      (''execution_capsule_digest'', JStr (ra_execution_capsule_digest c)),
      (''capability_definition_identity'', JStr (ra_capability_definition_identity c)),
      (''access_mode'', JStr (ra_access_mode c)),
      (''workspace_mount_mode'', JStr (ra_workspace_mount_mode c)),
      (''network_egress_default'', JStr (ra_network_egress_default c)),
      (''provider_mutation_allowed'', JBool (ra_provider_mutation_allowed c)),
      (''activation_revision'', JStr (ra_activation_revision c))]"

definition runtime_activation_to_dict :: "runtime_activation \<Rightarrow> (string \<times> json) list" where
  "runtime_activation_to_dict c = runtime_activation_claims c @ [(''activation_digest'', JStr (ra_activation_digest c))]"

definition runtime_activation_of :: "(string \<Rightarrow> json) \<Rightarrow> runtime_activation" where
  "runtime_activation_of d =
     \<lparr>ra_provider = str_of (d ''provider''),
      ra_provider_instance_id = str_of (d ''provider_instance_id''),
      ra_runner_id = str_of (d ''runner_id''),
      ra_runner_identity_digest = str_of (d ''runner_identity_digest''),
      ra_runner_boundary_digest = str_of (d ''runner_boundary_digest''),
      ra_credential_decision_id = str_of (d ''credential_decision_id''),
      ra_credential_decision_digest = str_of (d ''credential_decision_digest''),
      ra_lease_id = str_of (d ''lease_id''), ra_lease_digest = str_of (d ''lease_digest''),
      ra_execution_id = str_of (d ''execution_id''),
      ra_execution_epoch = intval (d ''execution_epoch''),
      ra_execution_capsule_digest = str_of (d ''execution_capsule_digest''),
      ra_capability_definition_identity = str_of (d ''capability_definition_identity''),
      ra_access_mode = str_of (d ''access_mode''),
      ra_workspace_mount_mode = str_of (d ''workspace_mount_mode''),
      ra_network_egress_default = str_of (d ''network_egress_default''),
      ra_provider_mutation_allowed = boolval (d ''provider_mutation_allowed''),
      ra_activation_revision = str_of (d ''activation_revision''),
      ra_activation_digest = str_of (d ''activation_digest'')\<rparr>"

definition runtime_activation_init :: "(string \<Rightarrow> string) \<Rightarrow> (string \<Rightarrow> json) \<Rightarrow> runtime_activation res" where
  "runtime_activation_init H d =
     thenE (for_each (check_digest d)
       [''runner_id'', ''runner_identity_digest'', ''runner_boundary_digest'',
        ''credential_decision_id'', ''credential_decision_digest'', ''lease_id'',
        ''lease_digest'', ''execution_capsule_digest'', ''capability_definition_identity'',
        ''activation_digest''])
    (thenE (for_each (check_text d)
       [''provider'', ''provider_instance_id'', ''execution_id'', ''activation_revision''])
    (bindE (require_epoch ''execution_epoch'' (d ''execution_epoch'')) (\<lambda>_.
     thenE (guardE (d ''access_mode'' = JStr ''READ_ONLY'') (ValueError ''access_mode''))
    (thenE (guardE (d ''workspace_mount_mode'' = JStr ''READ_ONLY'') (ValueError ''workspace_mount_mode''))
    (thenE (guardE (d ''network_egress_default'' = JStr ''DENY_ALL'') (ValueError ''network_egress_default''))
    (thenE (guardE (d ''provider_mutation_allowed'' = JBool False) (ValueError ''provider_mutation_allowed''))
      ((let c = runtime_activation_of d in thenE (guardE (ra_activation_digest c = claims_digest H (runtime_activation_claims c))
        (ValueError ''activation_digest'')) (Inr c)))))))))"

definition runtime_activation_ok :: "(string \<Rightarrow> string) \<Rightarrow> runtime_activation \<Rightarrow> bool" where
  "runtime_activation_ok H c \<longleftrightarrow>
     list_all text_ok
        [ra_provider c, ra_provider_instance_id c, ra_execution_id c, ra_activation_revision c]
     \<and> list_all digest_ok
        [ra_runner_id c, ra_runner_identity_digest c, ra_runner_boundary_digest c,
         ra_credential_decision_id c, ra_credential_decision_digest c, ra_lease_id c,
         ra_lease_digest c, ra_execution_capsule_digest c, ra_capability_definition_identity c,
         ra_activation_digest c]
     \<and> 1 \<le> ra_execution_epoch c
     \<and> ra_access_mode c = ''READ_ONLY''
     \<and> ra_workspace_mount_mode c = ''READ_ONLY''
     \<and> ra_network_egress_default c = ''DENY_ALL''
     \<and> \<not> ra_provider_mutation_allowed c
     \<and> ra_activation_digest c = claims_digest H (runtime_activation_claims c)"

definition runtime_activation_from_dict :: "(string \<Rightarrow> string) \<Rightarrow> json \<Rightarrow> runtime_activation res" where
  "runtime_activation_from_dict H =
     contract_from_dict 1 runtime_activation_fields ''activation_type'' ''read-only-runtime-activation/v1'' (runtime_activation_init H)"

lemma runtime_activation_of_sel [simp]:
  "ra_provider (runtime_activation_of d) = str_of (d ''provider'')"
  "ra_provider_instance_id (runtime_activation_of d) = str_of (d ''provider_instance_id'')"
  "ra_runner_id (runtime_activation_of d) = str_of (d ''runner_id'')"
  "ra_runner_identity_digest (runtime_activation_of d) = str_of (d ''runner_identity_digest'')"
  "ra_runner_boundary_digest (runtime_activation_of d) = str_of (d ''runner_boundary_digest'')"
  "ra_credential_decision_id (runtime_activation_of d) = str_of (d ''credential_decision_id'')"
  "ra_credential_decision_digest (runtime_activation_of d) = str_of (d ''credential_decision_digest'')"
  "ra_lease_id (runtime_activation_of d) = str_of (d ''lease_id'')"
  "ra_lease_digest (runtime_activation_of d) = str_of (d ''lease_digest'')"
  "ra_execution_id (runtime_activation_of d) = str_of (d ''execution_id'')"
  "ra_execution_epoch (runtime_activation_of d) = intval (d ''execution_epoch'')"
  "ra_execution_capsule_digest (runtime_activation_of d) = str_of (d ''execution_capsule_digest'')"
  "ra_capability_definition_identity (runtime_activation_of d) = str_of (d ''capability_definition_identity'')"
  "ra_access_mode (runtime_activation_of d) = str_of (d ''access_mode'')"
  "ra_workspace_mount_mode (runtime_activation_of d) = str_of (d ''workspace_mount_mode'')"
  "ra_network_egress_default (runtime_activation_of d) = str_of (d ''network_egress_default'')"
  "ra_provider_mutation_allowed (runtime_activation_of d) = boolval (d ''provider_mutation_allowed'')"
  "ra_activation_revision (runtime_activation_of d) = str_of (d ''activation_revision'')"
  "ra_activation_digest (runtime_activation_of d) = str_of (d ''activation_digest'')"
  by (simp_all add: runtime_activation_of_def)

lemma runtime_activation_claims_determine:
  "map snd (runtime_activation_claims c) = map snd (runtime_activation_claims c') \<Longrightarrow> ra_activation_digest c = ra_activation_digest c' \<Longrightarrow> c = c'"
  by (simp add: runtime_activation_claims_def)

lemma runtime_activation_init_iff:
  "runtime_activation_init H d = Inr c \<longleftrightarrow> runtime_activation_ok H c
     \<and> list_all (\<lambda>(f, v). d f = v) (drop 2 (runtime_activation_claims c) @ [(''activation_digest'', JStr (ra_activation_digest c))])"
  (is "?L \<longleftrightarrow> _ \<and> ?D c")
proof
  assume L: ?L
  then have c: "c = runtime_activation_of d"
    unfolding runtime_activation_init_def Let_def init_res_simps by blast
  have "runtime_activation_ok H c" using L unfolding c runtime_activation_init_def runtime_activation_ok_def Let_def init_res_simps
    by (clarsimp simp: instant_at_def)
  moreover have "?D c" unfolding c
    by (simp add: runtime_activation_claims_def init_simps)
      (use L in \<open>clarsimp simp: runtime_activation_init_def Let_def init_res_simps\<close>)
  ultimately show "runtime_activation_ok H c \<and> ?D c" ..
next
  assume R: "runtime_activation_ok H c \<and> ?D c"
  then have c: "runtime_activation_of d = c" by (simp add: runtime_activation_of_def runtime_activation_claims_def)
  note d = R [THEN conjunct2, unfolded runtime_activation_claims_def]
  show ?L using R [THEN conjunct1] d unfolding runtime_activation_init_def c Let_def
    by (clarsimp simp: runtime_activation_ok_def init_res_simps instant_at_def)
qed

interpretation runtime_activation: content_bound H runtime_activation_claims ra_activation_digest "runtime_activation_ok H" 1 runtime_activation_fields
  "''activation_type''" "''read-only-runtime-activation/v1''" "''activation_digest''" "runtime_activation_init H" for H
proof
  show "flat (runtime_activation_claims c)" for c by (simp add: flat_def runtime_activation_claims_def)
  show "map fst (runtime_activation_claims c) = map fst (runtime_activation_claims c')" for c c' by (simp add: runtime_activation_claims_def)
  show "runtime_activation_fields = map fst (runtime_activation_claims c) @ [''activation_digest'']" for c
    by (simp add: runtime_activation_fields_def runtime_activation_claims_def)
  show "''activation_digest'' \<notin> fst ` set (runtime_activation_claims c)" for c by (simp add: runtime_activation_claims_def)
  show "take 2 (runtime_activation_claims c) = [(''schema_version'', JInt 1), (''activation_type'', JStr ''read-only-runtime-activation/v1'')]" for c
    by (simp add: runtime_activation_claims_def)
  show "runtime_activation_ok H c \<Longrightarrow> ra_activation_digest c = claims_digest H (runtime_activation_claims c)" for c
    by (simp add: runtime_activation_ok_def)
qed (rule runtime_activation_claims_determine runtime_activation_init_iff; assumption?)+

lemma runtime_activation_claims_seal [simp]: "runtime_activation_claims (c\<lparr>ra_activation_digest := x\<rparr>) = runtime_activation_claims c"
  by (simp add: runtime_activation_claims_def)

lemma runtime_activation_dict_eq: "runtime_activation_to_dict c = runtime_activation.dict c"
  by (simp add: runtime_activation_to_dict_def runtime_activation.dict_def)

lemma runtime_activation_sealed: "runtime_activation_init H (item (runtime_activation_to_dict c)) = Inr c' \<longleftrightarrow> c' = c \<and> runtime_activation_ok H c"
  by (simp add: runtime_activation_dict_eq runtime_activation.init_dict_iff)

definition runtime_activation_create ::
  "(string \<Rightarrow> string) \<Rightarrow> bootstrap \<Rightarrow> runner_identity \<Rightarrow> runner_boundary \<Rightarrow> access_decision \<Rightarrow> lease \<Rightarrow> string \<Rightarrow>
   runtime_activation res" where
  "runtime_activation_create H b i y x l activation_revision =
     thenE (assert_runtime_binding b i y x l)
      ((let c = \<lparr>ra_provider = bt_provider b, ra_provider_instance_id = bt_provider_instance_id b,
              ra_runner_id = ri_runner_id i, ra_runner_identity_digest = ri_identity_digest i,
              ra_runner_boundary_digest = rb_boundary_digest y,
              ra_credential_decision_id = xd_decision_id x,
              ra_credential_decision_digest = xd_decision_digest x, ra_lease_id = le_lease_id l,
              ra_lease_digest = le_lease_digest l, ra_execution_id = le_execution_id l,
              ra_execution_epoch = le_execution_epoch l,
              ra_execution_capsule_digest = rb_execution_capsule_digest y,
              ra_capability_definition_identity = rb_capability_definition_identity y,
              ra_access_mode = ''READ_ONLY'', ra_workspace_mount_mode = ''READ_ONLY'',
              ra_network_egress_default = ''DENY_ALL'', ra_provider_mutation_allowed = False,
              ra_activation_revision = activation_revision, ra_activation_digest = []\<rparr>
       in runtime_activation_init H (item (runtime_activation_to_dict (c\<lparr>ra_activation_digest := claims_digest H (runtime_activation_claims c)\<rparr>)))))"

definition assert_bootstrap_bound ::
  "(string \<Rightarrow> string) \<Rightarrow> bootstrap \<Rightarrow> lease \<Rightarrow> execution_capsule \<Rightarrow> unit res" where
  "assert_bootstrap_bound H b l p =
     thenE (guardE (bootstrap_ok H b) (PermissionError ''RUNTIME_BOOTSTRAP_INVALID''))
    (thenE (guardE (bt_runner_class b = le_runner_class l) (PermissionError ''RUNTIME_RUNNER_CLASS_MISMATCH''))
    (thenE (guardE (bt_environment b = le_environment l) (PermissionError ''RUNTIME_ENVIRONMENT_MISMATCH''))
    (thenE (guardE (bt_rootfs_digest b = cp_rootfs_digest p) (PermissionError ''RUNTIME_ROOTFS_MISMATCH''))
    (thenE (guardE (bt_resource_limit_profile_digest b = cp_resource_limit_profile_digest p) (PermissionError ''RUNTIME_RESOURCE_PROFILE_MISMATCH''))
    (thenE (guardE (bt_network_policy_digest b = cp_network_policy_digest p) (PermissionError ''RUNTIME_NETWORK_POLICY_MISMATCH''))
    (thenE (guardE (bt_workspace_mount_mode b = ''READ_ONLY'') (PermissionError ''RUNTIME_WORKSPACE_NOT_READ_ONLY''))
    (thenE (guardE (bt_network_egress_default b = ''DENY_ALL'') (PermissionError ''RUNTIME_NETWORK_NOT_DENY_ALL''))
    (thenE (guardE (\<not> bt_inherited_credentials b) (PermissionError ''RUNTIME_INHERITED_CREDENTIALS''))
      (guardE (\<not> bt_provider_mutation_allowed b) (PermissionError ''RUNTIME_PROVIDER_MUTATION_ALLOWED''))))))))))"

subsection \<open>Prepared runtimes\<close>

record prepared_runtime =
  pp_bootstrap :: bootstrap
  pp_identity :: runner_identity
  pp_boundary :: runner_boundary
  pp_decision :: access_decision
  pp_lease :: lease

definition prepared_runtime_init :: "prepared_runtime \<Rightarrow> prepared_runtime res" where
  "prepared_runtime_init c =
     thenE (assert_runtime_binding (pp_bootstrap c) (pp_identity c) (pp_boundary c) (pp_decision c) (pp_lease c))
      (Inr c)"

text \<open>
  \<open>IsolatedRunnerAdapter\<close>.  The provider of the runtime, the credential broker and the fence are protocols:
  functions that may raise.
\<close>

record isolated_adapter =
  ia_bootstrap :: "lease \<Rightarrow> execution_capsule \<Rightarrow> bootstrap res"
  ia_activate_read_only :: "prepared_runtime \<Rightarrow> runtime_activation res"
  ia_authorize :: "runner_boundary \<Rightarrow> lease \<Rightarrow> access_decision res"
  ia_identity_revision :: string
  ia_boundary_revision :: string
  ia_activation_revision :: string

definition isolated_adapter_init :: "isolated_adapter \<Rightarrow> isolated_adapter res" where
  "isolated_adapter_init c =
     thenE (check_texts [(''identity_revision'', ia_identity_revision c),
       (''boundary_revision'', ia_boundary_revision c), (''activation_revision'', ia_activation_revision c)])
      (Inr c)"

definition prepare_runtime ::
  "(string \<Rightarrow> string) \<Rightarrow> isolated_adapter \<Rightarrow> lease \<Rightarrow> execution_capsule \<Rightarrow> capability_definition \<Rightarrow>
   prepared_runtime res" where
  "prepare_runtime H ad l p d =
     thenE (guardE (cd_effect_class d = ''READ_ONLY'') (PermissionError ''PHASE_D_EFFECT_NOT_READ_ONLY''))
    (thenE (guardE (le_execution_capsule_digest l = cp_capsule_digest p)
       (PermissionError ''RUNTIME_CAPSULE_BINDING_MISMATCH''))
    (thenE (guardE (le_runner_class l = cp_runner_class p) (PermissionError ''RUNTIME_RUNNER_CLASS_MISMATCH''))
      (bindE (ia_bootstrap ad l p) (\<lambda>b.
       thenE (assert_bootstrap_bound H b l p)
      (bindE (runner_identity_create H (bt_runner_class b) (bt_provider b) (bt_provider_instance_id b)
         (bt_environment b) (bt_rootfs_digest b) (bt_resource_limit_profile_digest b) (bt_network_policy_digest b)
         (ia_identity_revision ad)) (\<lambda>i.
       bindE (runner_boundary_create H i l p d (ia_boundary_revision ad)) (\<lambda>y.
       bindE (ia_authorize ad y l) (\<lambda>x.
       prepared_runtime_init \<lparr>pp_bootstrap = b, pp_identity = i, pp_boundary = y, pp_decision = x, pp_lease = l\<rparr>))))))))"

text \<open>The fence is asked last, right before the provider activates the runtime.\<close>

definition activate_runtime ::
  "(string \<Rightarrow> string) \<Rightarrow> isolated_adapter \<Rightarrow> (lease \<Rightarrow> unit res) \<Rightarrow> prepared_runtime \<Rightarrow> runtime_activation res" where
  "activate_runtime H ad fence c =
     thenE (assert_runtime_binding (pp_bootstrap c) (pp_identity c) (pp_boundary c) (pp_decision c) (pp_lease c))
    (thenE (fence (pp_lease c))
      (bindE (ia_activate_read_only ad c) (\<lambda>activation.
       bindE (runtime_activation_create H (pp_bootstrap c) (pp_identity c) (pp_boundary c) (pp_decision c) (pp_lease c)
         (ia_activation_revision ad)) (\<lambda>expected.
       thenE (guardE (activation = expected) (PermissionError ''RUNTIME_ACTIVATION_BINDING_MISMATCH''))
        (Inr activation)))))"

subsection \<open>What a prepared and an activated runtime are\<close>

definition prepared_ok :: "prepared_runtime \<Rightarrow> bool" where
  "prepared_ok c \<longleftrightarrow>
     runtime_bound (pp_bootstrap c) (pp_identity c) (pp_boundary c) (pp_decision c) (pp_lease c)"

lemma prepared_runtime_init_iff: "prepared_runtime_init c = Inr c' \<longleftrightarrow> c' = c \<and> prepared_ok c"
  by (auto simp: prepared_runtime_init_def prepared_ok_def res_simps)

lemma runtime_activation_create_eq_Inr:
  assumes "runtime_activation_create H b i y x l rv = Inr c"
  shows "runtime_activation_ok H c \<and> runtime_bound b i y x l \<and> ra_lease_id c = le_lease_id l
     \<and> ra_lease_digest c = le_lease_digest l \<and> ra_execution_id c = le_execution_id l
     \<and> ra_execution_epoch c = le_execution_epoch l \<and> ra_runner_id c = ri_runner_id i
     \<and> ra_runner_boundary_digest c = rb_boundary_digest y \<and> ra_credential_decision_digest c = xd_decision_digest x
     \<and> ra_provider_instance_id c = bt_provider_instance_id b"
  using assms unfolding runtime_activation_create_def Let_def
  by (simp only: thenE_eq_Inr assert_runtime_binding_iff runtime_activation_sealed) (elim conjE, simp)

lemma prepare_runtime_eq_Inr:
  assumes "prepare_runtime H ad l p d = Inr c"
  shows "prepared_ok c \<and> pp_lease c = l \<and> bootstrap_ok H (pp_bootstrap c) \<and> runner_identity_ok H (pp_identity c)
     \<and> runner_boundary_create H (pp_identity c) l p d (ia_boundary_revision ad) = Inr (pp_boundary c)
     \<and> ia_authorize ad (pp_boundary c) l = Inr (pp_decision c)"
proof -
  note E = assms [unfolded prepare_runtime_def assert_bootstrap_bound_def bindE_eq_Inr thenE_eq_Inr guardE_eq_Inr
      prepared_runtime_init_iff]
  from E obtain b i y x where "bootstrap_ok H b"
    and i: "runner_identity_create H (bt_runner_class b) (bt_provider b) (bt_provider_instance_id b)
         (bt_environment b) (bt_rootfs_digest b) (bt_resource_limit_profile_digest b) (bt_network_policy_digest b)
         (ia_identity_revision ad) = Inr i"
    and "runner_boundary_create H i l p d (ia_boundary_revision ad) = Inr y" "ia_authorize ad y l = Inr x"
      "c = \<lparr>pp_bootstrap = b, pp_identity = i, pp_boundary = y, pp_decision = x, pp_lease = l\<rparr>" "prepared_ok c"
    by blast
  then show ?thesis using runner_identity_create_eq_Inr [OF i] by simp
qed

lemma activate_runtime_eq_Inr:
  assumes "activate_runtime H ad fence c = Inr a"
  shows "fence (pp_lease c) = Inr () \<and> prepared_ok c \<and> ia_activate_read_only ad c = Inr a
     \<and> runtime_activation_create H (pp_bootstrap c) (pp_identity c) (pp_boundary c) (pp_decision c) (pp_lease c)
         (ia_activation_revision ad) = Inr a"
  using assms by (auto simp: activate_runtime_def prepared_ok_def res_simps)

end
