(* ===== verification/Current_Fence.thy ===== *)
theory Current_Fence
  imports Delivery
begin

text \<open>
  The fence in front of a provider read (\<open>durable_current_fence.py\<close>) and the coordinator that hands the
  durable transitions to an engine (\<open>durable_coordinator.py\<close>).  The fence reads the epoch state and the
  lease row, compares both with the lease of the runner, and takes a fresh clock reading; it writes
  nothing.
\<close>

subsection \<open>The durable fence\<close>

definition fence_state_matches :: "epoch_state \<Rightarrow> lease \<Rightarrow> bool" where
  "fence_state_matches s l \<longleftrightarrow>
     es_admission_id s = le_admission_id l \<and> es_admission_digest s = le_admission_digest l
     \<and> es_execution_id s = le_execution_id l \<and> es_workspace_id s = le_workspace_id l
     \<and> es_environment s = le_environment l \<and> es_execution_capsule_digest s = le_execution_capsule_digest l
     \<and> es_runner_class s = le_runner_class l \<and> es_current_epoch s = le_execution_epoch l
     \<and> es_current_lease_id s = le_lease_id l \<and> es_current_lease_digest s = le_lease_digest l
     \<and> es_current_lease_acquired_at s = le_acquired_at l \<and> es_current_lease_expires_at s = le_expires_at l"

definition assert_current ::
  "(string \<Rightarrow> string) \<Rightarrow> clock_authority \<Rightarrow> trust_db \<Rightarrow> clock_reading \<Rightarrow> lease \<Rightarrow> unit res" where
  "assert_current H clk db reading l =
     bindE (orRaise (select es_admission_id (le_admission_id l) (t_epochs db)) (PermissionError ''EPOCH_STATE_NOT_FOUND''))
      (\<lambda>s.
     thenE (guardE (es_status s = ''ACTIVE'') (PermissionError ''EXECUTION_NOT_ACTIVE''))
    (thenE (guardE (fence_state_matches s l) (PermissionError ''CURRENT_EXECUTION_LEASE_MISMATCH''))
    (bindE (orRaise (select lr_lease_id (le_lease_id l) (t_leases db)) (PermissionError ''CURRENT_LEASE_NOT_FOUND''))
      (\<lambda>row.
     bindE (decode_column (lease_from_dict H) (lr_lease_json row) (PermissionError ''CURRENT_LEASE_ROW_INVALID''))
      (\<lambda>persisted.
     thenE (guardE (persisted = l) (PermissionError ''CURRENT_LEASE_ROW_INVALID''))
    (thenE (guardE (lr_cols row = l \<and> lr_lease_json row = canonical_json (JObj (lease_to_dict l)))
       (PermissionError ''CURRENT_LEASE_ROW_INVALID''))
      (bindE (clock_authority_witness H clk reading (le_environment l)) (\<lambda>clock.
       bindE (lease_completion_fence l (le_execution_epoch l) clock) (\<lambda>_.
       Inr ())))))))))"

subsection \<open>The coordinator\<close>

text \<open>\<open>NativeDurableCoordinator\<close>: both services share one database, which the operations thread through.\<close>

record native_coordinator =
  nc_inbox_revision :: string
  nc_lease_service :: lease_service

definition coordinator_admit ::
  "(string \<Rightarrow> string) \<Rightarrow> native_coordinator \<Rightarrow> trust_db \<Rightarrow> envelope \<Rightarrow> ((string \<times> admission) \<times> trust_db) res" where
  "coordinator_admit H nc db env = admit H (nc_inbox_revision nc) db env"

definition coordinator_acquire ::
  "(string \<Rightarrow> string) \<Rightarrow> native_coordinator \<Rightarrow> trust_db \<Rightarrow> clock_reading \<Rightarrow> string \<Rightarrow> ((string \<times> lease) \<times> trust_db) res" where
  "coordinator_acquire H nc db reading admission_id = acquire H (nc_lease_service nc) db reading admission_id"

definition coordinator_complete ::
  "(string \<Rightarrow> string) \<Rightarrow> native_coordinator \<Rightarrow> trust_db \<Rightarrow> clock_reading \<Rightarrow> string \<Rightarrow> string \<Rightarrow>
   ((string \<times> lease \<times> string) \<times> trust_db) res" where
  "coordinator_complete H nc db reading lease_id completion_digest =
     complete H (nc_lease_service nc) db reading lease_id completion_digest"

subsection \<open>What passing the fence means\<close>

lemma assert_current_eq_Inr:
  assumes "assert_current H clk db reading l = Inr ()"
  obtains s row t where "select es_admission_id (le_admission_id l) (t_epochs db) = Some s" "es_status s = ''ACTIVE''"
    "fence_state_matches s l" "select lr_lease_id (le_lease_id l) (t_leases db) = Some row" "lr_cols row = l"
    "lease_ok H l" "reading = AwareTime t" "le_environment l \<in> set (ca_allowed_environments clk)"
    "instant_at (le_acquired_at l) \<le> instant_at (iso_ms t)" "instant_at (iso_ms t) < instant_at (le_expires_at l)"
proof -
  note E = assms [unfolded assert_current_def bindE_eq_Inr thenE_eq_Inr guardE_eq_Inr orRaise_eq_Inr decode_column_eq_Inr]
  from E obtain s row v clock r where
    sel: "select es_admission_id (le_admission_id l) (t_epochs db) = Some s" "es_status s = ''ACTIVE''"
      "fence_state_matches s l" "select lr_lease_id (le_lease_id l) (t_leases db) = Some row" "lr_cols row = l"
    and v: "lease_from_dict H v = Inr l"
    and c: "clock_authority_witness H clk reading (le_environment l) = Inr clock"
    and f: "lease_completion_fence l (le_execution_epoch l) clock = Inr r"
    by blast
  have ok: "lease_ok H l" using v by (auto simp: lease_from_dict_def dest: lease.from_dict_ok)
  obtain t where "reading = AwareTime t" "ck_observed_at clock = iso_ms t"
      "le_environment l \<in> set (ca_allowed_environments clk)"
    using clock_authority_witness_eq_Inr [OF c] by blast
  moreover have "instant_at (le_acquired_at l) \<le> instant_at (ck_observed_at clock)"
      "instant_at (ck_observed_at clock) < instant_at (le_expires_at l)"
    using f unfolding lease_completion_fence_iff [OF ok] by simp_all
  ultimately show thesis using that sel ok by simp
qed

text \<open>A lease that passes is a row of its admission, of the newest epoch, and every other lease of the
  admission has expired.\<close>

lemma fenced_lease_is_newest:
  assumes "delivery_inv H db" and "assert_current H clk db reading l = Inr ()"
  obtains row s t where "row \<in> set (t_leases db)" "lr_cols row = l" "s \<in> set (t_epochs db)"
    "es_admission_id s = le_admission_id l" "es_current_epoch s = le_execution_epoch l"
    "es_status s = ''ACTIVE''" "reading = AwareTime t"
    "instant_at (le_acquired_at l) \<le> instant_at (iso_ms t)" "instant_at (iso_ms t) < instant_at (le_expires_at l)"
    "\<forall>r \<in> set (t_leases db). le_admission_id (lr_cols r) = le_admission_id l \<and> r \<noteq> row \<longrightarrow>
       le_execution_epoch (lr_cols r) < le_execution_epoch l
       \<and> instant_at (le_expires_at (lr_cols r)) \<le> instant_at (iso_ms t)"
proof -
  obtain s row t where
    s: "select es_admission_id (le_admission_id l) (t_epochs db) = Some s" "es_status s = ''ACTIVE''" "fence_state_matches s l"
    and row: "select lr_lease_id (le_lease_id l) (t_leases db) = Some row" "lr_cols row = l"
    and t: "reading = AwareTime t" "instant_at (le_acquired_at l) \<le> instant_at (iso_ms t)"
      "instant_at (iso_ms t) < instant_at (le_expires_at l)"
    by (rule assert_current_eq_Inr [OF assms(2)])
  note S = select_Some_D [OF s(1)] and R = select_Some_D [OF row(1)]
  have epoch: "es_current_epoch s = le_execution_epoch l" using s(3) by (simp add: fence_state_matches_def)
  have L: "lease_inv H db" and top: "\<forall>r \<in> set (t_leases db). le_admission_id (lr_cols r) = es_admission_id s \<longrightarrow>
          le_execution_epoch (lr_cols r) \<le> es_current_epoch s"
    using assms(1) S by (auto simp: delivery_inv_def epochs_inv_def epoch_ok_def)
  have "le_execution_epoch (lr_cols r) < le_execution_epoch l
       \<and> instant_at (le_expires_at (lr_cols r)) \<le> instant_at (iso_ms t)"
    if r: "r \<in> set (t_leases db)" "le_admission_id (lr_cols r) = le_admission_id l" "r \<noteq> row" for r
  proof -
    have "lr_slot r \<noteq> lr_slot row" using L r R by (auto simp: lease_inv_def dest: unique_on_eqI)
    then have less: "le_execution_epoch (lr_cols r) < le_execution_epoch l"
      using top r S epoch row(2) by fastforce
    then have "instant_at (le_expires_at (lr_cols r)) \<le> instant_at (le_acquired_at l)"
      using L r R row(2) unfolding lease_inv_def by blast
    then show ?thesis using less t(2) by simp
  qed
  then show thesis using that S R s(2) row(2) epoch t by blast
qed

text \<open>A superseded lease never passes, whatever the clock says.\<close>

lemma superseded_lease_refused:
  assumes "delivery_inv H db" and "r \<in> set (t_leases db)" and "le_admission_id (lr_cols r) = le_admission_id l"
    and "le_execution_epoch l < le_execution_epoch (lr_cols r)"
  shows "\<exists>e. assert_current H clk db reading l = Inl e"
proof (rule ccontr)
  assume "\<nexists>e. assert_current H clk db reading l = Inl e"
  then have "assert_current H clk db reading l = Inr ()"
    using unit_res_cases [of "assert_current H clk db reading l"] by auto
  then show False
    by (rule fenced_lease_is_newest [OF assms(1)]) (use assms(2-4) in fastforce)
qed

end
