(* ===== verification/Github_Read.thy ===== *)
theory Github_Read
  imports Isolated_Runner Current_Fence Target_Binding
begin

text \<open>
  Reading a Git ref as a runner (\<open>github_read_provider.py\<close>): the reviewed request is bound to one exact
  target, the handler passes the fence and then asks the provider once, and the observation it returns
  carries the digests of everything it rests on.  Transport and fence are protocols.
\<close>

subsection \<open>Binding a reviewed request to its target\<close>

text \<open>\<open>GitHubReadRefTargetBinder\<close>, an entry of the registry of \<open>target_binding.py\<close>.\<close>

definition bind_read_target :: "(string \<Rightarrow> string) \<Rightarrow> json \<Rightarrow> execution_target res" where
  "bind_read_target H payload =
     bindE (require_exact_fields [''repository'', ''ref''] ''github-read-ref-request/v1'' payload) (\<lambda>d.
     bindE (require_repository (d ''repository'')) (\<lambda>repository.
     bindE (require_ref (d ''ref'')) (\<lambda>ref.
     execution_target_create H ''git_ref'' (JObj [(''repository'', JStr repository), (''ref'', JStr ref)]))))"

definition read_target_procedure :: "(string \<Rightarrow> string) \<Rightarrow> target_procedure" where
  "read_target_procedure H =
     \<lparr>tp_binder_id = ''github-read-ref-target-binder/v1'', tp_target_kind = ''git_ref'', tp_bind = bind_read_target H\<rparr>"

subsection \<open>Observations\<close>

definition assert_activation_bound ::
  "prepared_runtime \<Rightarrow> runtime_activation \<Rightarrow> unit res" where
  "assert_activation_bound p a =
     thenE (guardE (ra_provider a = bt_provider (pp_bootstrap p)) (PermissionError ''GITHUB_READ_PROVIDER_MISMATCH''))
    (thenE (guardE (ra_provider_instance_id a = bt_provider_instance_id (pp_bootstrap p)) (PermissionError ''GITHUB_READ_PROVIDER_INSTANCE_MISMATCH''))
    (thenE (guardE (ra_runner_id a = ri_runner_id (pp_identity p)) (PermissionError ''GITHUB_READ_RUNNER_MISMATCH''))
    (thenE (guardE (ra_runner_identity_digest a = ri_identity_digest (pp_identity p)) (PermissionError ''GITHUB_READ_RUNNER_IDENTITY_MISMATCH''))
    (thenE (guardE (ra_runner_boundary_digest a = rb_boundary_digest (pp_boundary p)) (PermissionError ''GITHUB_READ_BOUNDARY_MISMATCH''))
    (thenE (guardE (ra_credential_decision_id a = xd_decision_id (pp_decision p)) (PermissionError ''GITHUB_READ_CREDENTIAL_DECISION_MISMATCH''))
    (thenE (guardE (ra_credential_decision_digest a = xd_decision_digest (pp_decision p)) (PermissionError ''GITHUB_READ_CREDENTIAL_DECISION_MISMATCH''))
    (thenE (guardE (ra_lease_id a = le_lease_id (pp_lease p)) (PermissionError ''GITHUB_READ_LEASE_MISMATCH''))
    (thenE (guardE (ra_lease_digest a = le_lease_digest (pp_lease p)) (PermissionError ''GITHUB_READ_LEASE_MISMATCH''))
    (thenE (guardE (ra_execution_epoch a = le_execution_epoch (pp_lease p)) (PermissionError ''GITHUB_READ_EPOCH_MISMATCH''))
    (thenE (guardE (ra_execution_capsule_digest a = rb_execution_capsule_digest (pp_boundary p)) (PermissionError ''GITHUB_READ_CAPSULE_MISMATCH''))
    (thenE (guardE (ra_capability_definition_identity a = rb_capability_definition_identity (pp_boundary p)) (PermissionError ''GITHUB_READ_CAPABILITY_MISMATCH''))
    (thenE (guardE (xd_provider (pp_decision p) = ''github'') (PermissionError ''GITHUB_READ_CREDENTIAL_PROVIDER_MISMATCH''))
    (thenE (guardE (xd_access_mode (pp_decision p) = ''READ_ONLY'') (PermissionError ''GITHUB_READ_CREDENTIAL_NOT_READ_ONLY''))
      (guardE (\<not> xd_provider_mutation_allowed (pp_decision p)) (PermissionError ''GITHUB_READ_MUTATION_ALLOWED'')))))))))))))))"

definition activation_bound :: "prepared_runtime \<Rightarrow> runtime_activation \<Rightarrow> bool" where
  "activation_bound p a \<longleftrightarrow>
     ra_provider a = bt_provider (pp_bootstrap p)
     \<and> ra_provider_instance_id a = bt_provider_instance_id (pp_bootstrap p)
     \<and> ra_runner_id a = ri_runner_id (pp_identity p)
     \<and> ra_runner_identity_digest a = ri_identity_digest (pp_identity p)
     \<and> ra_runner_boundary_digest a = rb_boundary_digest (pp_boundary p)
     \<and> ra_credential_decision_id a = xd_decision_id (pp_decision p)
     \<and> ra_credential_decision_digest a = xd_decision_digest (pp_decision p)
     \<and> ra_lease_id a = le_lease_id (pp_lease p)
     \<and> ra_lease_digest a = le_lease_digest (pp_lease p)
     \<and> ra_execution_epoch a = le_execution_epoch (pp_lease p)
     \<and> ra_execution_capsule_digest a = rb_execution_capsule_digest (pp_boundary p)
     \<and> ra_capability_definition_identity a = rb_capability_definition_identity (pp_boundary p)
     \<and> xd_provider (pp_decision p) = ''github''
     \<and> xd_access_mode (pp_decision p) = ''READ_ONLY''
     \<and> \<not> xd_provider_mutation_allowed (pp_decision p)"

lemma assert_activation_bound_iff [res_simps]: "assert_activation_bound p a = Inr u \<longleftrightarrow> activation_bound p a"
  by (simp only: assert_activation_bound_def activation_bound_def thenE_eq_Inr guardE_eq_Inr conj_assoc)

record ref_observation =
  go_repository :: string
  go_ref :: string
  go_commit_sha :: string
  go_target_digest :: string
  go_provider :: string
  go_provider_instance_id :: string
  go_runner_id :: string
  go_runner_boundary_digest :: string
  go_credential_decision_digest :: string
  go_runtime_activation_digest :: string
  go_lease_id :: string
  go_lease_digest :: string
  go_execution_id :: string
  go_execution_epoch :: int
  go_execution_capsule_digest :: string
  go_capability_definition_identity :: string
  go_source_identity :: string
  go_clock_source_identity :: string
  go_clock_witness_digest :: string
  go_observed_at :: string
  go_observation_revision :: string
  go_observation_digest :: string

definition ref_observation_fields :: "string list" where
  "ref_observation_fields =
     [''schema_version'', ''observation_type'', ''repository'', ''ref'', ''commit_sha'',
      ''target_digest'', ''provider'', ''provider_instance_id'', ''runner_id'',
      ''runner_boundary_digest'', ''credential_decision_digest'', ''runtime_activation_digest'',
      ''lease_id'', ''lease_digest'', ''execution_id'', ''execution_epoch'',
      ''execution_capsule_digest'', ''capability_definition_identity'', ''source_identity'',
      ''clock_source_identity'', ''clock_witness_digest'', ''observed_at'',
      ''observation_revision'', ''observation_digest'']"

definition ref_observation_claims :: "ref_observation \<Rightarrow> (string \<times> json) list" where
  "ref_observation_claims c =
     [(''schema_version'', JInt 1), (''observation_type'', JStr ''github-ref-observation/v1''),
      (''repository'', JStr (go_repository c)), (''ref'', JStr (go_ref c)),
      (''commit_sha'', JStr (go_commit_sha c)), (''target_digest'', JStr (go_target_digest c)),
      (''provider'', JStr (go_provider c)),
      (''provider_instance_id'', JStr (go_provider_instance_id c)),
      (''runner_id'', JStr (go_runner_id c)),
      (''runner_boundary_digest'', JStr (go_runner_boundary_digest c)),
      (''credential_decision_digest'', JStr (go_credential_decision_digest c)),
      (''runtime_activation_digest'', JStr (go_runtime_activation_digest c)),
      (''lease_id'', JStr (go_lease_id c)), (''lease_digest'', JStr (go_lease_digest c)),
      (''execution_id'', JStr (go_execution_id c)),
      (''execution_epoch'', JInt (go_execution_epoch c)),
      (''execution_capsule_digest'', JStr (go_execution_capsule_digest c)),
      (''capability_definition_identity'', JStr (go_capability_definition_identity c)),
      (''source_identity'', JStr (go_source_identity c)),
      (''clock_source_identity'', JStr (go_clock_source_identity c)),
      (''clock_witness_digest'', JStr (go_clock_witness_digest c)),
      (''observed_at'', JStr (go_observed_at c)),
      (''observation_revision'', JStr (go_observation_revision c))]"

definition ref_observation_to_dict :: "ref_observation \<Rightarrow> (string \<times> json) list" where
  "ref_observation_to_dict c = ref_observation_claims c @ [(''observation_digest'', JStr (go_observation_digest c))]"

definition ref_observation_of :: "(string \<Rightarrow> json) \<Rightarrow> ref_observation" where
  "ref_observation_of d =
     \<lparr>go_repository = str_of (d ''repository''), go_ref = str_of (d ''ref''),
      go_commit_sha = str_of (d ''commit_sha''), go_target_digest = str_of (d ''target_digest''),
      go_provider = str_of (d ''provider''),
      go_provider_instance_id = str_of (d ''provider_instance_id''),
      go_runner_id = str_of (d ''runner_id''),
      go_runner_boundary_digest = str_of (d ''runner_boundary_digest''),
      go_credential_decision_digest = str_of (d ''credential_decision_digest''),
      go_runtime_activation_digest = str_of (d ''runtime_activation_digest''),
      go_lease_id = str_of (d ''lease_id''), go_lease_digest = str_of (d ''lease_digest''),
      go_execution_id = str_of (d ''execution_id''),
      go_execution_epoch = intval (d ''execution_epoch''),
      go_execution_capsule_digest = str_of (d ''execution_capsule_digest''),
      go_capability_definition_identity = str_of (d ''capability_definition_identity''),
      go_source_identity = str_of (d ''source_identity''),
      go_clock_source_identity = str_of (d ''clock_source_identity''),
      go_clock_witness_digest = str_of (d ''clock_witness_digest''),
      go_observed_at = str_of (d ''observed_at''),
      go_observation_revision = str_of (d ''observation_revision''),
      go_observation_digest = str_of (d ''observation_digest'')\<rparr>"

definition ref_observation_init :: "(string \<Rightarrow> string) \<Rightarrow> (string \<Rightarrow> json) \<Rightarrow> ref_observation res" where
  "ref_observation_init H d =
     bindE (require_repository (d ''repository'')) (\<lambda>_.
     bindE (require_ref (d ''ref'')) (\<lambda>_.
     bindE (require_git_object_id ''commit_sha'' (d ''commit_sha'')) (\<lambda>_.
     thenE (for_each (check_digest d)
       [''target_digest'', ''runner_id'', ''runner_boundary_digest'',
        ''credential_decision_digest'', ''runtime_activation_digest'', ''lease_id'',
        ''lease_digest'', ''execution_capsule_digest'', ''capability_definition_identity'',
        ''clock_witness_digest'', ''observation_digest''])
    (thenE (for_each (check_text d)
       [''provider'', ''provider_instance_id'', ''execution_id'', ''source_identity'',
        ''clock_source_identity'', ''observation_revision''])
    (bindE (require_timestamp ''observed_at'' (d ''observed_at'')) (\<lambda>_.
     bindE (require_epoch ''execution_epoch'' (d ''execution_epoch'')) (\<lambda>_.
      (let c = ref_observation_of d in thenE (guardE (go_observation_digest c = claims_digest H (ref_observation_claims c))
        (ValueError ''observation_digest'')) (Inr c)))))))))"

definition ref_observation_ok :: "(string \<Rightarrow> string) \<Rightarrow> ref_observation \<Rightarrow> bool" where
  "ref_observation_ok H c \<longleftrightarrow>
     list_all text_ok
        [go_provider c, go_provider_instance_id c, go_execution_id c, go_source_identity c,
         go_clock_source_identity c, go_observation_revision c]
     \<and> list_all digest_ok
        [go_target_digest c, go_runner_id c, go_runner_boundary_digest c,
         go_credential_decision_digest c, go_runtime_activation_digest c, go_lease_id c,
         go_lease_digest c, go_execution_capsule_digest c, go_capability_definition_identity c,
         go_clock_witness_digest c, go_observation_digest c]
     \<and> repository_ok (go_repository c)
     \<and> ref_ok (go_ref c)
     \<and> object_id_ok (go_commit_sha c)
     \<and> time_ok (go_observed_at c)
     \<and> 1 \<le> go_execution_epoch c
     \<and> go_observation_digest c = claims_digest H (ref_observation_claims c)"

definition ref_observation_from_dict :: "(string \<Rightarrow> string) \<Rightarrow> json \<Rightarrow> ref_observation res" where
  "ref_observation_from_dict H =
     contract_from_dict 1 ref_observation_fields ''observation_type'' ''github-ref-observation/v1'' (ref_observation_init H)"

lemma ref_observation_of_sel [simp]:
  "go_repository (ref_observation_of d) = str_of (d ''repository'')"
  "go_ref (ref_observation_of d) = str_of (d ''ref'')"
  "go_commit_sha (ref_observation_of d) = str_of (d ''commit_sha'')"
  "go_target_digest (ref_observation_of d) = str_of (d ''target_digest'')"
  "go_provider (ref_observation_of d) = str_of (d ''provider'')"
  "go_provider_instance_id (ref_observation_of d) = str_of (d ''provider_instance_id'')"
  "go_runner_id (ref_observation_of d) = str_of (d ''runner_id'')"
  "go_runner_boundary_digest (ref_observation_of d) = str_of (d ''runner_boundary_digest'')"
  "go_credential_decision_digest (ref_observation_of d) = str_of (d ''credential_decision_digest'')"
  "go_runtime_activation_digest (ref_observation_of d) = str_of (d ''runtime_activation_digest'')"
  "go_lease_id (ref_observation_of d) = str_of (d ''lease_id'')"
  "go_lease_digest (ref_observation_of d) = str_of (d ''lease_digest'')"
  "go_execution_id (ref_observation_of d) = str_of (d ''execution_id'')"
  "go_execution_epoch (ref_observation_of d) = intval (d ''execution_epoch'')"
  "go_execution_capsule_digest (ref_observation_of d) = str_of (d ''execution_capsule_digest'')"
  "go_capability_definition_identity (ref_observation_of d) = str_of (d ''capability_definition_identity'')"
  "go_source_identity (ref_observation_of d) = str_of (d ''source_identity'')"
  "go_clock_source_identity (ref_observation_of d) = str_of (d ''clock_source_identity'')"
  "go_clock_witness_digest (ref_observation_of d) = str_of (d ''clock_witness_digest'')"
  "go_observed_at (ref_observation_of d) = str_of (d ''observed_at'')"
  "go_observation_revision (ref_observation_of d) = str_of (d ''observation_revision'')"
  "go_observation_digest (ref_observation_of d) = str_of (d ''observation_digest'')"
  by (simp_all add: ref_observation_of_def)

lemma ref_observation_claims_determine:
  "map snd (ref_observation_claims c) = map snd (ref_observation_claims c') \<Longrightarrow> go_observation_digest c = go_observation_digest c' \<Longrightarrow> c = c'"
  by (simp add: ref_observation_claims_def)

lemma ref_observation_init_iff:
  "ref_observation_init H d = Inr c \<longleftrightarrow> ref_observation_ok H c
     \<and> list_all (\<lambda>(f, v). d f = v) (drop 2 (ref_observation_claims c) @ [(''observation_digest'', JStr (go_observation_digest c))])"
  (is "?L \<longleftrightarrow> _ \<and> ?D c")
proof
  assume L: ?L
  then have c: "c = ref_observation_of d"
    unfolding ref_observation_init_def Let_def init_res_simps by blast
  have "ref_observation_ok H c" using L unfolding c ref_observation_init_def ref_observation_ok_def Let_def init_res_simps
    by (clarsimp simp: instant_at_def)
  moreover have "?D c" unfolding c
    by (simp add: ref_observation_claims_def init_simps)
      (use L in \<open>clarsimp simp: ref_observation_init_def Let_def init_res_simps\<close>)
  ultimately show "ref_observation_ok H c \<and> ?D c" ..
next
  assume R: "ref_observation_ok H c \<and> ?D c"
  then have c: "ref_observation_of d = c" by (simp add: ref_observation_of_def ref_observation_claims_def)
  note d = R [THEN conjunct2, unfolded ref_observation_claims_def]
  show ?L using R [THEN conjunct1] d unfolding ref_observation_init_def c Let_def
    by (clarsimp simp: ref_observation_ok_def init_res_simps instant_at_def)
qed

interpretation ref_observation: content_bound H ref_observation_claims go_observation_digest "ref_observation_ok H" 1 ref_observation_fields
  "''observation_type''" "''github-ref-observation/v1''" "''observation_digest''" "ref_observation_init H" for H
proof
  show "flat (ref_observation_claims c)" for c by (simp add: flat_def ref_observation_claims_def)
  show "map fst (ref_observation_claims c) = map fst (ref_observation_claims c')" for c c' by (simp add: ref_observation_claims_def)
  show "ref_observation_fields = map fst (ref_observation_claims c) @ [''observation_digest'']" for c
    by (simp add: ref_observation_fields_def ref_observation_claims_def)
  show "''observation_digest'' \<notin> fst ` set (ref_observation_claims c)" for c by (simp add: ref_observation_claims_def)
  show "take 2 (ref_observation_claims c) = [(''schema_version'', JInt 1), (''observation_type'', JStr ''github-ref-observation/v1'')]" for c
    by (simp add: ref_observation_claims_def)
  show "ref_observation_ok H c \<Longrightarrow> go_observation_digest c = claims_digest H (ref_observation_claims c)" for c
    by (simp add: ref_observation_ok_def)
qed (rule ref_observation_claims_determine ref_observation_init_iff; assumption?)+

lemma ref_observation_claims_seal [simp]: "ref_observation_claims (c\<lparr>go_observation_digest := x\<rparr>) = ref_observation_claims c"
  by (simp add: ref_observation_claims_def)

lemma ref_observation_dict_eq: "ref_observation_to_dict c = ref_observation.dict c"
  by (simp add: ref_observation_to_dict_def ref_observation.dict_def)

lemma ref_observation_sealed: "ref_observation_init H (item (ref_observation_to_dict c)) = Inr c' \<longleftrightarrow> c' = c \<and> ref_observation_ok H c"
  by (simp add: ref_observation_dict_eq ref_observation.init_dict_iff)

definition ref_observation_create ::
  "(string \<Rightarrow> string) \<Rightarrow> string \<Rightarrow> string \<Rightarrow> string \<Rightarrow> execution_target \<Rightarrow> prepared_runtime \<Rightarrow> runtime_activation \<Rightarrow>
   string \<Rightarrow> clock_witness \<Rightarrow> string \<Rightarrow> ref_observation res" where
  "ref_observation_create H repository0 ref0 commit_sha0 t p a source_identity clock observation_revision =
     thenE (assert_activation_bound p a)
    (bindE (require_repository (JStr repository0)) (\<lambda>repository.
     bindE (require_ref (JStr ref0)) (\<lambda>ref.
     bindE (require_git_object_id ''commit_sha'' (JStr commit_sha0)) (\<lambda>commit_sha.
     thenE (check_texts [(''source_identity'', source_identity), (''observation_revision'', observation_revision)])
    (thenE (guardE (ck_environment clock = le_environment (pp_lease p)) (PermissionError ''GITHUB_READ_CLOCK_ENVIRONMENT_MISMATCH''))
      ((let c = \<lparr>go_repository = repository, go_ref = ref, go_commit_sha = commit_sha,
              go_target_digest = et_target_digest t, go_provider = ra_provider a,
              go_provider_instance_id = ra_provider_instance_id a, go_runner_id = ra_runner_id a,
              go_runner_boundary_digest = ra_runner_boundary_digest a,
              go_credential_decision_digest = ra_credential_decision_digest a,
              go_runtime_activation_digest = ra_activation_digest a, go_lease_id = ra_lease_id a,
              go_lease_digest = ra_lease_digest a, go_execution_id = ra_execution_id a,
              go_execution_epoch = ra_execution_epoch a,
              go_execution_capsule_digest = ra_execution_capsule_digest a,
              go_capability_definition_identity = ra_capability_definition_identity a,
              go_source_identity = source_identity,
              go_clock_source_identity = ck_source_identity clock,
              go_clock_witness_digest = ck_witness_digest clock,
              go_observed_at = ck_observed_at clock,
              go_observation_revision = observation_revision, go_observation_digest = []\<rparr>
       in ref_observation_init H (item (ref_observation_to_dict (c\<lparr>go_observation_digest := claims_digest H (ref_observation_claims c)\<rparr>))))))))))"

lemma ref_observation_create_eq_Inr:
  assumes "ref_observation_create H repository ref sha t p a src clock rv = Inr c"
  shows "ref_observation_ok H c \<and> activation_bound p a \<and> go_repository c = repository \<and> go_ref c = ref \<and> go_commit_sha c = sha
     \<and> go_target_digest c = et_target_digest t \<and> go_lease_id c = ra_lease_id a \<and> go_lease_digest c = ra_lease_digest a
     \<and> go_execution_id c = ra_execution_id a \<and> go_execution_epoch c = ra_execution_epoch a
     \<and> go_observed_at c = ck_observed_at clock \<and> go_runner_id c = ra_runner_id a
     \<and> go_runner_boundary_digest c = ra_runner_boundary_digest a
     \<and> go_provider_instance_id c = ra_provider_instance_id a"
  using assms unfolding ref_observation_create_def Let_def
  by (simp only: bindE_eq_Inr thenE_eq_Inr guardE_eq_Inr ref_observation_sealed assert_activation_bound_iff
      require_repository_iff require_ref_iff require_git_object_id_iff str_of.simps) (elim exE conjE, simp)

subsection \<open>The handler\<close>

text \<open>The transport returns whatever the provider answers; the fence is a protocol too.\<close>

record read_handler =
  gh_read_ref :: "string \<Rightarrow> string \<Rightarrow> json res"
  gh_source_identity :: string
  gh_clock :: clock_authority
  gh_observation_revision :: string

definition read_handler_init :: "read_handler \<Rightarrow> read_handler res" where
  "read_handler_init c =
     thenE (check_texts [(''observation_revision'', gh_observation_revision c), (''source_identity'', gh_source_identity c)])
      (Inr c)"

text \<open>\<open>_parse_git_ref_target\<close>; the claims of a target are always an object.\<close>

definition parse_git_ref_target :: "execution_target \<Rightarrow> (string \<times> string) res" where
  "parse_git_ref_target t =
     thenE (guardE (et_target_kind t = ''git_ref'') (PermissionError ''GITHUB_READ_TARGET_KIND_MISMATCH''))
      (case target_claims t of
         JObj kvs \<Rightarrow>
           thenE (guardE (set (map fst kvs) = {''repository'', ''ref''})
              (PermissionError ''GITHUB_READ_TARGET_FIELDS_INVALID''))
            (catchE is_ValueError
               (bindE (require_repository (item kvs ''repository'')) (\<lambda>repository.
                bindE (require_ref (item kvs ''ref'')) (\<lambda>ref. Inr (repository, ref))))
               (PermissionError ''GITHUB_READ_TARGET_INVALID''))
       | _ \<Rightarrow> Inl (PermissionError ''GITHUB_READ_TARGET_FIELDS_INVALID''))"

definition observe_ref ::
  "(string \<Rightarrow> string) \<Rightarrow> read_handler \<Rightarrow> (lease \<Rightarrow> unit res) \<Rightarrow> clock_reading \<Rightarrow> prepared_runtime \<Rightarrow>
   runtime_activation \<Rightarrow> execution_target \<Rightarrow> ref_observation res" where
  "observe_ref H gh fence reading p a t =
     thenE (assert_activation_bound p a)
      (bindE (parse_git_ref_target t) (\<lambda>(repository, ref).
       thenE (fence (pp_lease p))
      (bindE (gh_read_ref gh repository ref) (\<lambda>answer.
       bindE (require_git_object_id ''commit_sha'' answer) (\<lambda>commit_sha.
       bindE (clock_authority_witness H (gh_clock gh) reading (le_environment (pp_lease p))) (\<lambda>clock.
       ref_observation_create H repository ref commit_sha t p a (gh_source_identity gh) clock
         (gh_observation_revision gh)))))))"

lemma observe_ref_eq_Inr:
  assumes "observe_ref H gh fence reading p a t = Inr c"
  shows "fence (pp_lease p) = Inr () \<and> ref_observation_ok H c \<and> activation_bound p a
     \<and> parse_git_ref_target t = Inr (go_repository c, go_ref c)
     \<and> gh_read_ref gh (go_repository c) (go_ref c) = Inr (JStr (go_commit_sha c))
     \<and> go_target_digest c = et_target_digest t \<and> go_lease_id c = le_lease_id (pp_lease p)
     \<and> go_lease_digest c = le_lease_digest (pp_lease p) \<and> go_execution_epoch c = le_execution_epoch (pp_lease p)
     \<and> go_execution_id c = ra_execution_id a \<and> (\<exists>u. reading = AwareTime u \<and> go_observed_at c = iso_ms u)
     \<and> go_runner_id c = ri_runner_id (pp_identity p)
     \<and> go_runner_boundary_digest c = rb_boundary_digest (pp_boundary p)"
proof -
  note E = assms [unfolded observe_ref_def bindE_eq_Inr thenE_eq_Inr assert_activation_bound_iff split_paired_Ex prod.case
      require_git_object_id_iff]
  from E obtain repository ref answer clock where
    b: "activation_bound p a" and f: "parse_git_ref_target t = Inr (repository, ref)" "fence (pp_lease p) = Inr ()"
      "gh_read_ref gh repository ref = Inr answer" "is_str answer"
    and c: "clock_authority_witness H (gh_clock gh) reading (le_environment (pp_lease p)) = Inr clock"
    and o: "ref_observation_create H repository ref (str_of answer) t p a (gh_source_identity gh) clock
         (gh_observation_revision gh) = Inr c"
    by blast
  have "answer = JStr (str_of answer)" using f(4) by (cases answer) auto
  moreover obtain u where "reading = AwareTime u" "ck_observed_at clock = iso_ms u"
    using clock_authority_witness_eq_Inr [OF c] by blast
  ultimately show ?thesis using ref_observation_create_eq_Inr [OF o] b f by (auto simp: activation_bound_def)
qed

end
