(* ===== verification/Verifier_Identity.thy ===== *)
theory Verifier_Identity
  imports Github_Read
begin

text \<open>
  Independent verifiers (\<open>verifier_identity.py\<close>): the identity of a verifier runtime, and the boundary between
  it and the runner whose observation it is to verify, which exists only if identity, provider instance
  and credential class are all different.
\<close>

subsection \<open>The identity\<close>

definition verifier_logical_identity ::
  "(string \<Rightarrow> string) \<Rightarrow> string \<Rightarrow> string \<Rightarrow> string \<Rightarrow> string \<Rightarrow> string \<Rightarrow> string" where
  "verifier_logical_identity H verifier_class provider provider_instance_id environment credential_class = claims_digest H
     [(''identity_type'', JStr ''verifier-logical-identity/v1''), (''verifier_class'', JStr verifier_class),
      (''provider'', JStr provider), (''provider_instance_id'', JStr provider_instance_id),
      (''environment'', JStr environment), (''credential_class'', JStr credential_class)]"

record verifier_identity =
  vi_verifier_id :: string
  vi_verifier_class :: string
  vi_provider :: string
  vi_provider_instance_id :: string
  vi_environment :: string
  vi_credential_class :: string
  vi_rootfs_digest :: string
  vi_resource_limit_profile_digest :: string
  vi_network_policy_digest :: string
  vi_identity_revision :: string
  vi_identity_digest :: string

definition verifier_identity_fields :: "string list" where
  "verifier_identity_fields =
     [''schema_version'', ''identity_type'', ''verifier_id'', ''verifier_class'', ''provider'',
      ''provider_instance_id'', ''environment'', ''credential_class'', ''rootfs_digest'',
      ''resource_limit_profile_digest'', ''network_policy_digest'', ''identity_revision'',
      ''identity_digest'']"

definition verifier_identity_claims :: "verifier_identity \<Rightarrow> (string \<times> json) list" where
  "verifier_identity_claims c =
     [(''schema_version'', JInt 1), (''identity_type'', JStr ''verifier-identity/v1''),
      (''verifier_id'', JStr (vi_verifier_id c)),
      (''verifier_class'', JStr (vi_verifier_class c)), (''provider'', JStr (vi_provider c)),
      (''provider_instance_id'', JStr (vi_provider_instance_id c)),
      (''environment'', JStr (vi_environment c)),
      (''credential_class'', JStr (vi_credential_class c)),
      (''rootfs_digest'', JStr (vi_rootfs_digest c)),
      (''resource_limit_profile_digest'', JStr (vi_resource_limit_profile_digest c)),
      (''network_policy_digest'', JStr (vi_network_policy_digest c)),
      (''identity_revision'', JStr (vi_identity_revision c))]"

definition verifier_identity_to_dict :: "verifier_identity \<Rightarrow> (string \<times> json) list" where
  "verifier_identity_to_dict c = verifier_identity_claims c @ [(''identity_digest'', JStr (vi_identity_digest c))]"

definition verifier_identity_of :: "(string \<Rightarrow> json) \<Rightarrow> verifier_identity" where
  "verifier_identity_of d =
     \<lparr>vi_verifier_id = str_of (d ''verifier_id''),
      vi_verifier_class = str_of (d ''verifier_class''), vi_provider = str_of (d ''provider''),
      vi_provider_instance_id = str_of (d ''provider_instance_id''),
      vi_environment = str_of (d ''environment''),
      vi_credential_class = str_of (d ''credential_class''),
      vi_rootfs_digest = str_of (d ''rootfs_digest''),
      vi_resource_limit_profile_digest = str_of (d ''resource_limit_profile_digest''),
      vi_network_policy_digest = str_of (d ''network_policy_digest''),
      vi_identity_revision = str_of (d ''identity_revision''),
      vi_identity_digest = str_of (d ''identity_digest'')\<rparr>"

definition verifier_identity_init :: "(string \<Rightarrow> string) \<Rightarrow> (string \<Rightarrow> json) \<Rightarrow> verifier_identity res" where
  "verifier_identity_init H d =
     thenE (for_each (check_digest d)
       [''verifier_id'', ''rootfs_digest'', ''resource_limit_profile_digest'',
        ''network_policy_digest'', ''identity_digest''])
    (thenE (for_each (check_text d)
       [''verifier_class'', ''provider'', ''provider_instance_id'', ''credential_class'',
        ''identity_revision''])
    (bindE (require_in ''environment'' valid_environments (d ''environment'')) (\<lambda>_.
     thenE (guardE (d ''verifier_id'' = JStr (verifier_logical_identity H (str_of (d ''verifier_class'')) (str_of (d ''provider'')) (str_of (d ''provider_instance_id'')) (str_of (d ''environment'')) (str_of (d ''credential_class'')))) (ValueError ''verifier_id''))
      ((let c = verifier_identity_of d in thenE (guardE (vi_identity_digest c = claims_digest H (verifier_identity_claims c))
        (ValueError ''identity_digest'')) (Inr c))))))"

definition verifier_identity_ok :: "(string \<Rightarrow> string) \<Rightarrow> verifier_identity \<Rightarrow> bool" where
  "verifier_identity_ok H c \<longleftrightarrow>
     list_all text_ok
        [vi_verifier_class c, vi_provider c, vi_provider_instance_id c, vi_credential_class c,
         vi_identity_revision c]
     \<and> list_all digest_ok
        [vi_verifier_id c, vi_rootfs_digest c, vi_resource_limit_profile_digest c,
         vi_network_policy_digest c, vi_identity_digest c]
     \<and> vi_environment c \<in> set valid_environments
     \<and> vi_verifier_id c = verifier_logical_identity H (vi_verifier_class c) (vi_provider c) (vi_provider_instance_id c) (vi_environment c) (vi_credential_class c)
     \<and> vi_identity_digest c = claims_digest H (verifier_identity_claims c)"

definition verifier_identity_from_dict :: "(string \<Rightarrow> string) \<Rightarrow> json \<Rightarrow> verifier_identity res" where
  "verifier_identity_from_dict H =
     contract_from_dict 1 verifier_identity_fields ''identity_type'' ''verifier-identity/v1'' (verifier_identity_init H)"

lemma verifier_identity_of_sel [simp]:
  "vi_verifier_id (verifier_identity_of d) = str_of (d ''verifier_id'')"
  "vi_verifier_class (verifier_identity_of d) = str_of (d ''verifier_class'')"
  "vi_provider (verifier_identity_of d) = str_of (d ''provider'')"
  "vi_provider_instance_id (verifier_identity_of d) = str_of (d ''provider_instance_id'')"
  "vi_environment (verifier_identity_of d) = str_of (d ''environment'')"
  "vi_credential_class (verifier_identity_of d) = str_of (d ''credential_class'')"
  "vi_rootfs_digest (verifier_identity_of d) = str_of (d ''rootfs_digest'')"
  "vi_resource_limit_profile_digest (verifier_identity_of d) = str_of (d ''resource_limit_profile_digest'')"
  "vi_network_policy_digest (verifier_identity_of d) = str_of (d ''network_policy_digest'')"
  "vi_identity_revision (verifier_identity_of d) = str_of (d ''identity_revision'')"
  "vi_identity_digest (verifier_identity_of d) = str_of (d ''identity_digest'')"
  by (simp_all add: verifier_identity_of_def)

lemma verifier_identity_claims_determine:
  "map snd (verifier_identity_claims c) = map snd (verifier_identity_claims c') \<Longrightarrow> vi_identity_digest c = vi_identity_digest c' \<Longrightarrow> c = c'"
  by (simp add: verifier_identity_claims_def)

lemma verifier_identity_init_iff:
  "verifier_identity_init H d = Inr c \<longleftrightarrow> verifier_identity_ok H c
     \<and> list_all (\<lambda>(f, v). d f = v) (drop 2 (verifier_identity_claims c) @ [(''identity_digest'', JStr (vi_identity_digest c))])"
  (is "?L \<longleftrightarrow> _ \<and> ?D c")
proof
  assume L: ?L
  then have c: "c = verifier_identity_of d"
    unfolding verifier_identity_init_def Let_def init_res_simps by blast
  have "verifier_identity_ok H c" using L unfolding c verifier_identity_init_def verifier_identity_ok_def Let_def init_res_simps
    by (clarsimp simp: instant_at_def)
  moreover have "?D c" unfolding c
    by (simp add: verifier_identity_claims_def init_simps)
      (use L in \<open>clarsimp simp: verifier_identity_init_def Let_def init_res_simps\<close>)
  ultimately show "verifier_identity_ok H c \<and> ?D c" ..
next
  assume R: "verifier_identity_ok H c \<and> ?D c"
  then have c: "verifier_identity_of d = c" by (simp add: verifier_identity_of_def verifier_identity_claims_def)
  note d = R [THEN conjunct2, unfolded verifier_identity_claims_def]
  show ?L using R [THEN conjunct1] d unfolding verifier_identity_init_def c Let_def
    by (clarsimp simp: verifier_identity_ok_def init_res_simps instant_at_def)
qed

interpretation verifier: content_bound H verifier_identity_claims vi_identity_digest "verifier_identity_ok H" 1 verifier_identity_fields
  "''identity_type''" "''verifier-identity/v1''" "''identity_digest''" "verifier_identity_init H" for H
proof
  show "flat (verifier_identity_claims c)" for c by (simp add: flat_def verifier_identity_claims_def)
  show "map fst (verifier_identity_claims c) = map fst (verifier_identity_claims c')" for c c' by (simp add: verifier_identity_claims_def)
  show "verifier_identity_fields = map fst (verifier_identity_claims c) @ [''identity_digest'']" for c
    by (simp add: verifier_identity_fields_def verifier_identity_claims_def)
  show "''identity_digest'' \<notin> fst ` set (verifier_identity_claims c)" for c by (simp add: verifier_identity_claims_def)
  show "take 2 (verifier_identity_claims c) = [(''schema_version'', JInt 1), (''identity_type'', JStr ''verifier-identity/v1'')]" for c
    by (simp add: verifier_identity_claims_def)
  show "verifier_identity_ok H c \<Longrightarrow> vi_identity_digest c = claims_digest H (verifier_identity_claims c)" for c
    by (simp add: verifier_identity_ok_def)
qed (rule verifier_identity_claims_determine verifier_identity_init_iff; assumption?)+

lemma verifier_identity_claims_seal [simp]: "verifier_identity_claims (c\<lparr>vi_identity_digest := x\<rparr>) = verifier_identity_claims c"
  by (simp add: verifier_identity_claims_def)

lemma verifier_identity_dict_eq: "verifier_identity_to_dict c = verifier.dict c"
  by (simp add: verifier_identity_to_dict_def verifier.dict_def)

lemma verifier_identity_sealed: "verifier_identity_init H (item (verifier_identity_to_dict c)) = Inr c' \<longleftrightarrow> c' = c \<and> verifier_identity_ok H c"
  by (simp add: verifier_identity_dict_eq verifier.init_dict_iff)

definition verifier_identity_create ::
  "(string \<Rightarrow> string) \<Rightarrow> string \<Rightarrow> string \<Rightarrow> string \<Rightarrow> string \<Rightarrow> string \<Rightarrow> digest \<Rightarrow> digest \<Rightarrow> digest \<Rightarrow> string \<Rightarrow> 
   verifier_identity res" where
  "verifier_identity_create H verifier_class provider provider_instance_id environment credential_class rootfs_digest
       resource_limit_profile_digest network_policy_digest identity_revision =
     (let c = \<lparr>vi_verifier_id = verifier_logical_identity H verifier_class provider provider_instance_id environment credential_class,
              vi_verifier_class = verifier_class, vi_provider = provider,
              vi_provider_instance_id = provider_instance_id, vi_environment = environment,
              vi_credential_class = credential_class, vi_rootfs_digest = rootfs_digest,
              vi_resource_limit_profile_digest = resource_limit_profile_digest,
              vi_network_policy_digest = network_policy_digest,
              vi_identity_revision = identity_revision, vi_identity_digest = []\<rparr>
       in verifier_identity_init H (item (verifier_identity_to_dict (c\<lparr>vi_identity_digest := claims_digest H (verifier_identity_claims c)\<rparr>))))"

subsection \<open>The boundary between runner and verifier\<close>

definition independence_class :: string where
  "independence_class = ''SEPARATE_IDENTITY_INSTANCE_CREDENTIAL''"

record verification_boundary =
  vb_verifier_id :: string
  vb_verifier_identity_digest :: string
  vb_verifier_class :: string
  vb_verifier_provider :: string
  vb_verifier_provider_instance_id :: string
  vb_verifier_credential_class :: string
  vb_runner_id :: string
  vb_runner_identity_digest :: string
  vb_runner_boundary_digest :: string
  vb_runner_provider_instance_id :: string
  vb_runner_credential_class :: string
  vb_execution_id :: string
  vb_execution_epoch :: int
  vb_target_digest :: string
  vb_runner_observation_digest :: string
  vb_environment :: string
  vb_effect_ceiling :: string
  vb_network_egress_default :: string
  vb_provider_mutation_allowed :: bool
  vb_independence_class :: string
  vb_boundary_revision :: string
  vb_boundary_digest :: string

definition verification_boundary_fields :: "string list" where
  "verification_boundary_fields =
     [''schema_version'', ''boundary_type'', ''verifier_id'', ''verifier_identity_digest'',
      ''verifier_class'', ''verifier_provider'', ''verifier_provider_instance_id'',
      ''verifier_credential_class'', ''runner_id'', ''runner_identity_digest'',
      ''runner_boundary_digest'', ''runner_provider_instance_id'', ''runner_credential_class'',
      ''execution_id'', ''execution_epoch'', ''target_digest'', ''runner_observation_digest'',
      ''environment'', ''effect_ceiling'', ''network_egress_default'',
      ''provider_mutation_allowed'', ''independence_class'', ''boundary_revision'',
      ''boundary_digest'']"

definition verification_boundary_claims :: "verification_boundary \<Rightarrow> (string \<times> json) list" where
  "verification_boundary_claims c =
     [(''schema_version'', JInt 1),
      (''boundary_type'', JStr ''independent-verification-boundary/v1''),
      (''verifier_id'', JStr (vb_verifier_id c)),
      (''verifier_identity_digest'', JStr (vb_verifier_identity_digest c)),
      (''verifier_class'', JStr (vb_verifier_class c)),
      (''verifier_provider'', JStr (vb_verifier_provider c)),
      (''verifier_provider_instance_id'', JStr (vb_verifier_provider_instance_id c)),
      (''verifier_credential_class'', JStr (vb_verifier_credential_class c)),
      (''runner_id'', JStr (vb_runner_id c)),
      (''runner_identity_digest'', JStr (vb_runner_identity_digest c)),
      (''runner_boundary_digest'', JStr (vb_runner_boundary_digest c)),
      (''runner_provider_instance_id'', JStr (vb_runner_provider_instance_id c)),
      (''runner_credential_class'', JStr (vb_runner_credential_class c)),
      (''execution_id'', JStr (vb_execution_id c)),
      (''execution_epoch'', JInt (vb_execution_epoch c)),
      (''target_digest'', JStr (vb_target_digest c)),
      (''runner_observation_digest'', JStr (vb_runner_observation_digest c)),
      (''environment'', JStr (vb_environment c)),
      (''effect_ceiling'', JStr (vb_effect_ceiling c)),
      (''network_egress_default'', JStr (vb_network_egress_default c)),
      (''provider_mutation_allowed'', JBool (vb_provider_mutation_allowed c)),
      (''independence_class'', JStr (vb_independence_class c)),
      (''boundary_revision'', JStr (vb_boundary_revision c))]"

definition verification_boundary_to_dict :: "verification_boundary \<Rightarrow> (string \<times> json) list" where
  "verification_boundary_to_dict c = verification_boundary_claims c @ [(''boundary_digest'', JStr (vb_boundary_digest c))]"

definition verification_boundary_of :: "(string \<Rightarrow> json) \<Rightarrow> verification_boundary" where
  "verification_boundary_of d =
     \<lparr>vb_verifier_id = str_of (d ''verifier_id''),
      vb_verifier_identity_digest = str_of (d ''verifier_identity_digest''),
      vb_verifier_class = str_of (d ''verifier_class''),
      vb_verifier_provider = str_of (d ''verifier_provider''),
      vb_verifier_provider_instance_id = str_of (d ''verifier_provider_instance_id''),
      vb_verifier_credential_class = str_of (d ''verifier_credential_class''),
      vb_runner_id = str_of (d ''runner_id''),
      vb_runner_identity_digest = str_of (d ''runner_identity_digest''),
      vb_runner_boundary_digest = str_of (d ''runner_boundary_digest''),
      vb_runner_provider_instance_id = str_of (d ''runner_provider_instance_id''),
      vb_runner_credential_class = str_of (d ''runner_credential_class''),
      vb_execution_id = str_of (d ''execution_id''),
      vb_execution_epoch = intval (d ''execution_epoch''),
      vb_target_digest = str_of (d ''target_digest''),
      vb_runner_observation_digest = str_of (d ''runner_observation_digest''),
      vb_environment = str_of (d ''environment''),
      vb_effect_ceiling = str_of (d ''effect_ceiling''),
      vb_network_egress_default = str_of (d ''network_egress_default''),
      vb_provider_mutation_allowed = boolval (d ''provider_mutation_allowed''),
      vb_independence_class = str_of (d ''independence_class''),
      vb_boundary_revision = str_of (d ''boundary_revision''),
      vb_boundary_digest = str_of (d ''boundary_digest'')\<rparr>"

definition verification_boundary_init :: "(string \<Rightarrow> string) \<Rightarrow> (string \<Rightarrow> json) \<Rightarrow> verification_boundary res" where
  "verification_boundary_init H d =
     thenE (for_each (check_digest d)
       [''verifier_id'', ''verifier_identity_digest'', ''runner_id'', ''runner_identity_digest'',
        ''runner_boundary_digest'', ''target_digest'', ''runner_observation_digest'',
        ''boundary_digest''])
    (thenE (for_each (check_text d)
       [''verifier_class'', ''verifier_provider'', ''verifier_provider_instance_id'',
        ''verifier_credential_class'', ''runner_provider_instance_id'',
        ''runner_credential_class'', ''execution_id'', ''boundary_revision''])
    (bindE (require_in ''environment'' valid_environments (d ''environment'')) (\<lambda>_.
     bindE (require_epoch ''execution_epoch'' (d ''execution_epoch'')) (\<lambda>_.
     thenE (guardE (d ''effect_ceiling'' = JStr ''READ_ONLY'') (ValueError ''effect_ceiling''))
    (thenE (guardE (d ''network_egress_default'' = JStr ''DENY_ALL'') (ValueError ''network_egress_default''))
    (thenE (guardE (d ''provider_mutation_allowed'' = JBool False) (ValueError ''provider_mutation_allowed''))
    (thenE (guardE (d ''independence_class'' = JStr independence_class) (ValueError ''independence_class''))
    (thenE (guardE (str_of (d ''verifier_id'') \<noteq> str_of (d ''runner_id'')) (ValueError ''verifier_id''))
    (thenE (guardE (str_of (d ''verifier_provider_instance_id'') \<noteq> str_of (d ''runner_provider_instance_id'')) (ValueError ''verifier_provider_instance_id''))
    (thenE (guardE (str_of (d ''verifier_credential_class'') \<noteq> str_of (d ''runner_credential_class'')) (ValueError ''verifier_credential_class''))
      ((let c = verification_boundary_of d in thenE (guardE (vb_boundary_digest c = claims_digest H (verification_boundary_claims c))
        (ValueError ''boundary_digest'')) (Inr c)))))))))))))"

definition verification_boundary_ok :: "(string \<Rightarrow> string) \<Rightarrow> verification_boundary \<Rightarrow> bool" where
  "verification_boundary_ok H c \<longleftrightarrow>
     list_all text_ok
        [vb_verifier_class c, vb_verifier_provider c, vb_verifier_provider_instance_id c,
         vb_verifier_credential_class c, vb_runner_provider_instance_id c,
         vb_runner_credential_class c, vb_execution_id c, vb_boundary_revision c]
     \<and> list_all digest_ok
        [vb_verifier_id c, vb_verifier_identity_digest c, vb_runner_id c,
         vb_runner_identity_digest c, vb_runner_boundary_digest c, vb_target_digest c,
         vb_runner_observation_digest c, vb_boundary_digest c]
     \<and> vb_environment c \<in> set valid_environments
     \<and> 1 \<le> vb_execution_epoch c
     \<and> vb_effect_ceiling c = ''READ_ONLY''
     \<and> vb_network_egress_default c = ''DENY_ALL''
     \<and> \<not> vb_provider_mutation_allowed c
     \<and> vb_independence_class c = independence_class
     \<and> vb_verifier_id c \<noteq> vb_runner_id c
     \<and> vb_verifier_provider_instance_id c \<noteq> vb_runner_provider_instance_id c
     \<and> vb_verifier_credential_class c \<noteq> vb_runner_credential_class c
     \<and> vb_boundary_digest c = claims_digest H (verification_boundary_claims c)"

definition verification_boundary_from_dict :: "(string \<Rightarrow> string) \<Rightarrow> json \<Rightarrow> verification_boundary res" where
  "verification_boundary_from_dict H =
     contract_from_dict 1 verification_boundary_fields ''boundary_type'' ''independent-verification-boundary/v1'' (verification_boundary_init H)"

lemma verification_boundary_of_sel [simp]:
  "vb_verifier_id (verification_boundary_of d) = str_of (d ''verifier_id'')"
  "vb_verifier_identity_digest (verification_boundary_of d) = str_of (d ''verifier_identity_digest'')"
  "vb_verifier_class (verification_boundary_of d) = str_of (d ''verifier_class'')"
  "vb_verifier_provider (verification_boundary_of d) = str_of (d ''verifier_provider'')"
  "vb_verifier_provider_instance_id (verification_boundary_of d) = str_of (d ''verifier_provider_instance_id'')"
  "vb_verifier_credential_class (verification_boundary_of d) = str_of (d ''verifier_credential_class'')"
  "vb_runner_id (verification_boundary_of d) = str_of (d ''runner_id'')"
  "vb_runner_identity_digest (verification_boundary_of d) = str_of (d ''runner_identity_digest'')"
  "vb_runner_boundary_digest (verification_boundary_of d) = str_of (d ''runner_boundary_digest'')"
  "vb_runner_provider_instance_id (verification_boundary_of d) = str_of (d ''runner_provider_instance_id'')"
  "vb_runner_credential_class (verification_boundary_of d) = str_of (d ''runner_credential_class'')"
  "vb_execution_id (verification_boundary_of d) = str_of (d ''execution_id'')"
  "vb_execution_epoch (verification_boundary_of d) = intval (d ''execution_epoch'')"
  "vb_target_digest (verification_boundary_of d) = str_of (d ''target_digest'')"
  "vb_runner_observation_digest (verification_boundary_of d) = str_of (d ''runner_observation_digest'')"
  "vb_environment (verification_boundary_of d) = str_of (d ''environment'')"
  "vb_effect_ceiling (verification_boundary_of d) = str_of (d ''effect_ceiling'')"
  "vb_network_egress_default (verification_boundary_of d) = str_of (d ''network_egress_default'')"
  "vb_provider_mutation_allowed (verification_boundary_of d) = boolval (d ''provider_mutation_allowed'')"
  "vb_independence_class (verification_boundary_of d) = str_of (d ''independence_class'')"
  "vb_boundary_revision (verification_boundary_of d) = str_of (d ''boundary_revision'')"
  "vb_boundary_digest (verification_boundary_of d) = str_of (d ''boundary_digest'')"
  by (simp_all add: verification_boundary_of_def)

lemma verification_boundary_claims_determine:
  "map snd (verification_boundary_claims c) = map snd (verification_boundary_claims c') \<Longrightarrow> vb_boundary_digest c = vb_boundary_digest c' \<Longrightarrow> c = c'"
  by (simp add: verification_boundary_claims_def)

lemma verification_boundary_init_iff:
  "verification_boundary_init H d = Inr c \<longleftrightarrow> verification_boundary_ok H c
     \<and> list_all (\<lambda>(f, v). d f = v) (drop 2 (verification_boundary_claims c) @ [(''boundary_digest'', JStr (vb_boundary_digest c))])"
  (is "?L \<longleftrightarrow> _ \<and> ?D c")
proof
  assume L: ?L
  then have c: "c = verification_boundary_of d"
    unfolding verification_boundary_init_def Let_def init_res_simps by blast
  have "verification_boundary_ok H c" using L unfolding c verification_boundary_init_def verification_boundary_ok_def Let_def init_res_simps
    by (clarsimp simp: instant_at_def)
  moreover have "?D c" unfolding c
    by (simp add: verification_boundary_claims_def init_simps)
      (use L in \<open>clarsimp simp: verification_boundary_init_def Let_def init_res_simps\<close>)
  ultimately show "verification_boundary_ok H c \<and> ?D c" ..
next
  assume R: "verification_boundary_ok H c \<and> ?D c"
  then have c: "verification_boundary_of d = c" by (simp add: verification_boundary_of_def verification_boundary_claims_def)
  note d = R [THEN conjunct2, unfolded verification_boundary_claims_def]
  show ?L using R [THEN conjunct1] d unfolding verification_boundary_init_def c Let_def
    by (clarsimp simp: verification_boundary_ok_def init_res_simps instant_at_def)
qed

interpretation verification_bound: content_bound H verification_boundary_claims vb_boundary_digest "verification_boundary_ok H" 1 verification_boundary_fields
  "''boundary_type''" "''independent-verification-boundary/v1''" "''boundary_digest''" "verification_boundary_init H" for H
proof
  show "flat (verification_boundary_claims c)" for c by (simp add: flat_def verification_boundary_claims_def)
  show "map fst (verification_boundary_claims c) = map fst (verification_boundary_claims c')" for c c' by (simp add: verification_boundary_claims_def)
  show "verification_boundary_fields = map fst (verification_boundary_claims c) @ [''boundary_digest'']" for c
    by (simp add: verification_boundary_fields_def verification_boundary_claims_def)
  show "''boundary_digest'' \<notin> fst ` set (verification_boundary_claims c)" for c by (simp add: verification_boundary_claims_def)
  show "take 2 (verification_boundary_claims c) = [(''schema_version'', JInt 1), (''boundary_type'', JStr ''independent-verification-boundary/v1'')]" for c
    by (simp add: verification_boundary_claims_def)
  show "verification_boundary_ok H c \<Longrightarrow> vb_boundary_digest c = claims_digest H (verification_boundary_claims c)" for c
    by (simp add: verification_boundary_ok_def)
qed (rule verification_boundary_claims_determine verification_boundary_init_iff; assumption?)+

lemma verification_boundary_claims_seal [simp]: "verification_boundary_claims (c\<lparr>vb_boundary_digest := x\<rparr>) = verification_boundary_claims c"
  by (simp add: verification_boundary_claims_def)

lemma verification_boundary_dict_eq: "verification_boundary_to_dict c = verification_bound.dict c"
  by (simp add: verification_boundary_to_dict_def verification_bound.dict_def)

lemma verification_boundary_sealed: "verification_boundary_init H (item (verification_boundary_to_dict c)) = Inr c' \<longleftrightarrow> c' = c \<and> verification_boundary_ok H c"
  by (simp add: verification_boundary_dict_eq verification_bound.init_dict_iff)

definition assert_runner_evidence_bound ::
  "runner_identity \<Rightarrow> runner_boundary \<Rightarrow> ref_observation \<Rightarrow> unit res" where
  "assert_runner_evidence_bound i y ob =
     thenE (guardE (rb_runner_id y = ri_runner_id i) (PermissionError ''RUNNER_IDENTITY_BINDING_MISMATCH''))
    (thenE (guardE (rb_runner_identity_digest y = ri_identity_digest i) (PermissionError ''RUNNER_IDENTITY_BINDING_MISMATCH''))
    (thenE (guardE (rb_environment y = ri_environment i) (PermissionError ''RUNNER_ENVIRONMENT_BINDING_MISMATCH''))
    (thenE (guardE (go_runner_id ob = ri_runner_id i) (PermissionError ''RUNNER_OBSERVATION_IDENTITY_MISMATCH''))
    (thenE (guardE (go_runner_boundary_digest ob = rb_boundary_digest y) (PermissionError ''RUNNER_OBSERVATION_BOUNDARY_MISMATCH''))
    (thenE (guardE (go_provider_instance_id ob = ri_provider_instance_id i) (PermissionError ''RUNNER_OBSERVATION_INSTANCE_MISMATCH''))
    (thenE (guardE (go_execution_id ob = rb_execution_id y) (PermissionError ''RUNNER_OBSERVATION_EXECUTION_MISMATCH''))
    (thenE (guardE (go_execution_epoch ob = rb_execution_epoch y) (PermissionError ''RUNNER_OBSERVATION_EPOCH_MISMATCH''))
    (thenE (guardE (go_execution_capsule_digest ob = rb_execution_capsule_digest y) (PermissionError ''RUNNER_OBSERVATION_CAPSULE_MISMATCH''))
      (guardE (go_capability_definition_identity ob = rb_capability_definition_identity y)
          (PermissionError ''RUNNER_OBSERVATION_CAPABILITY_MISMATCH''))))))))))"

definition verification_boundary_create ::
  "(string \<Rightarrow> string) \<Rightarrow> verifier_identity \<Rightarrow> runner_identity \<Rightarrow> runner_boundary \<Rightarrow> ref_observation \<Rightarrow> string \<Rightarrow>
   verification_boundary res" where
  "verification_boundary_create H v i y ob boundary_revision =
     thenE (check_texts [(''boundary_revision'', boundary_revision)])
    (thenE (assert_runner_evidence_bound i y ob)
    (thenE (guardE (vi_environment v = rb_environment y) (PermissionError ''VERIFIER_ENVIRONMENT_MISMATCH''))
    (thenE (guardE (vi_verifier_id v \<noteq> ri_runner_id i) (PermissionError ''VERIFIER_IDENTITY_NOT_INDEPENDENT''))
    (thenE (guardE (vi_identity_digest v \<noteq> ri_identity_digest i) (PermissionError ''VERIFIER_IDENTITY_NOT_INDEPENDENT''))
    (thenE (guardE (vi_provider_instance_id v \<noteq> ri_provider_instance_id i) (PermissionError ''VERIFIER_PROVIDER_INSTANCE_NOT_INDEPENDENT''))
    (thenE (guardE (vi_credential_class v \<noteq> rb_credential_class y) (PermissionError ''VERIFIER_CREDENTIAL_CLASS_NOT_INDEPENDENT''))
      ((let c = \<lparr>vb_verifier_id = vi_verifier_id v,
              vb_verifier_identity_digest = vi_identity_digest v,
              vb_verifier_class = vi_verifier_class v, vb_verifier_provider = vi_provider v,
              vb_verifier_provider_instance_id = vi_provider_instance_id v,
              vb_verifier_credential_class = vi_credential_class v,
              vb_runner_id = ri_runner_id i, vb_runner_identity_digest = ri_identity_digest i,
              vb_runner_boundary_digest = rb_boundary_digest y,
              vb_runner_provider_instance_id = ri_provider_instance_id i,
              vb_runner_credential_class = rb_credential_class y,
              vb_execution_id = go_execution_id ob, vb_execution_epoch = go_execution_epoch ob,
              vb_target_digest = go_target_digest ob,
              vb_runner_observation_digest = go_observation_digest ob,
              vb_environment = rb_environment y, vb_effect_ceiling = ''READ_ONLY'',
              vb_network_egress_default = ''DENY_ALL'', vb_provider_mutation_allowed = False,
              vb_independence_class = independence_class,
              vb_boundary_revision = boundary_revision, vb_boundary_digest = []\<rparr>
       in verification_boundary_init H (item (verification_boundary_to_dict (c\<lparr>vb_boundary_digest := claims_digest H (verification_boundary_claims c)\<rparr>)))))))))))"

lemma verification_boundary_create_eq_Inr:
  assumes "verification_boundary_create H v i y ob rv = Inr c"
  shows "verification_boundary_ok H c \<and> vb_verifier_id c = vi_verifier_id v \<and> vb_verifier_identity_digest c = vi_identity_digest v
     \<and> vb_runner_id c = ri_runner_id i \<and> vb_runner_boundary_digest c = rb_boundary_digest y
     \<and> vb_runner_observation_digest c = go_observation_digest ob \<and> vb_target_digest c = go_target_digest ob
     \<and> vb_execution_id c = go_execution_id ob \<and> vb_execution_epoch c = go_execution_epoch ob
     \<and> vb_environment c = rb_environment y \<and> vb_verifier_credential_class c = vi_credential_class v
     \<and> vb_runner_credential_class c = rb_credential_class y \<and> go_runner_boundary_digest ob = rb_boundary_digest y
     \<and> go_execution_id ob = rb_execution_id y \<and> go_execution_epoch ob = rb_execution_epoch y"
  using assms unfolding verification_boundary_create_def assert_runner_evidence_bound_def Let_def
  by (simp only: thenE_eq_Inr guardE_eq_Inr verification_boundary_sealed) (elim conjE, simp)

end
