(* ===== verification/Verifier_Credential.thy ===== *)
theory Verifier_Credential
  imports Verifier_Identity
begin

text \<open>
  Credentials of verifiers (\<open>verifier_credential.py\<close>): a policy for a read-only credential class with a bound
  on its lifetime, and the decision to deliver one to the verifier of a boundary.
\<close>

subsection \<open>Policies\<close>

record verifier_policy =
  vp_credential_class :: string
  vp_provider :: string
  vp_audience :: string
  vp_enabled_environments :: "string list"
  vp_access_mode :: string
  vp_provider_mutation_allowed :: bool
  vp_max_ttl_seconds :: int
  vp_policy_revision :: string
  vp_policy_digest :: string

definition verifier_policy_claims :: "verifier_policy \<Rightarrow> (string \<times> json) list" where
  "verifier_policy_claims c =
     [(''schema_version'', JInt 1), (''policy_type'', JStr ''verifier-credential-policy/v1''),
      (''credential_class'', JStr (vp_credential_class c)), (''provider'', JStr (vp_provider c)),
      (''audience'', JStr (vp_audience c)),
      (''enabled_environments'', JArr (map JStr (vp_enabled_environments c))),
      (''access_mode'', JStr (vp_access_mode c)),
      (''provider_mutation_allowed'', JBool (vp_provider_mutation_allowed c)),
      (''max_ttl_seconds'', JInt (vp_max_ttl_seconds c)),
      (''policy_revision'', JStr (vp_policy_revision c))]"

definition verifier_policy_init :: "(string \<Rightarrow> string) \<Rightarrow> verifier_policy \<Rightarrow> verifier_policy res" where
  "verifier_policy_init H c =
     thenE (check_texts
       [(''credential_class'', vp_credential_class c), (''provider'', vp_provider c),
        (''audience'', vp_audience c), (''policy_revision'', vp_policy_revision c)])
    (thenE (guardE (environments_ok (vp_enabled_environments c)) (ValueError ''enabled_environments''))
    (thenE (guardE (vp_access_mode c = ''READ_ONLY'') (ValueError ''access_mode''))
    (thenE (guardE (\<not> vp_provider_mutation_allowed c) (ValueError ''provider_mutation_allowed''))
    (thenE (guardE (1 \<le> vp_max_ttl_seconds c \<and> vp_max_ttl_seconds c \<le> 3600) (ValueError ''max_ttl_seconds''))
    (thenE (check_digests
       [(''policy_digest'', vp_policy_digest c)])
    (thenE (guardE (vp_policy_digest c = claims_digest H (verifier_policy_claims c)) (ValueError ''policy_digest''))
      (Inr c)))))))"

definition verifier_policy_ok :: "(string \<Rightarrow> string) \<Rightarrow> verifier_policy \<Rightarrow> bool" where
  "verifier_policy_ok H c \<longleftrightarrow>
     list_all text_ok
        [vp_credential_class c, vp_provider c, vp_audience c, vp_policy_revision c]
     \<and> list_all digest_ok
        [vp_policy_digest c]
     \<and> environments_ok (vp_enabled_environments c)
     \<and> vp_access_mode c = ''READ_ONLY''
     \<and> \<not> vp_provider_mutation_allowed c
     \<and> 1 \<le> vp_max_ttl_seconds c
     \<and> vp_max_ttl_seconds c \<le> 3600
     \<and> vp_policy_digest c = claims_digest H (verifier_policy_claims c)"

lemma verifier_policy_init_iff: "verifier_policy_init H c = Inr c' \<longleftrightarrow> c' = c \<and> verifier_policy_ok H c"
  by (auto simp: verifier_policy_init_def verifier_policy_ok_def res_simps)

interpretation verifier_policy: content_digest H verifier_policy_claims vp_policy_digest "verifier_policy_ok H" for H
  by unfold_locales (simp_all add: flat_def verifier_policy_claims_def verifier_policy_ok_def)

definition verifier_policy_create ::
  "(string \<Rightarrow> string) \<Rightarrow> string \<Rightarrow> string \<Rightarrow> string \<Rightarrow> string list \<Rightarrow> int \<Rightarrow> string \<Rightarrow> verifier_policy res" where
  "verifier_policy_create H credential_class provider audience environments max_ttl_seconds policy_revision =
     (let c = \<lparr>vp_credential_class = credential_class, vp_provider = provider, vp_audience = audience,
               vp_enabled_environments = sorted_unique environments, vp_access_mode = ''READ_ONLY'',
               vp_provider_mutation_allowed = False, vp_max_ttl_seconds = max_ttl_seconds,
               vp_policy_revision = policy_revision, vp_policy_digest = []\<rparr>
      in verifier_policy_init H (c\<lparr>vp_policy_digest := claims_digest H (verifier_policy_claims c)\<rparr>))"

subsection \<open>Decisions\<close>

definition verifier_decision_identity ::
  "(string \<Rightarrow> string) \<Rightarrow> string \<Rightarrow> string \<Rightarrow> string \<Rightarrow> string \<Rightarrow> string \<Rightarrow> string" where
  "verifier_decision_identity H verifier_id verification_boundary_digest policy_digest valid_from expires_at = claims_digest H
     [(''decision_type'', JStr ''verifier-credential-decision-id/v1''), (''verifier_id'', JStr verifier_id),
      (''verification_boundary_digest'', JStr verification_boundary_digest), (''policy_digest'', JStr policy_digest),
      (''valid_from'', JStr valid_from), (''expires_at'', JStr expires_at)]"

record verifier_decision =
  vd_decision_id :: string
  vd_verifier_id :: string
  vd_verifier_identity_digest :: string
  vd_verification_boundary_digest :: string
  vd_runner_observation_digest :: string
  vd_target_digest :: string
  vd_execution_id :: string
  vd_execution_epoch :: int
  vd_credential_class :: string
  vd_provider :: string
  vd_audience :: string
  vd_environment :: string
  vd_access_mode :: string
  vd_provider_mutation_allowed :: bool
  vd_valid_from :: string
  vd_expires_at :: string
  vd_policy_digest :: string
  vd_policy_revision :: string
  vd_decision_revision :: string
  vd_decision_digest :: string

definition verifier_decision_fields :: "string list" where
  "verifier_decision_fields =
     [''schema_version'', ''decision_type'', ''decision_id'', ''verifier_id'',
      ''verifier_identity_digest'', ''verification_boundary_digest'',
      ''runner_observation_digest'', ''target_digest'', ''execution_id'', ''execution_epoch'',
      ''credential_class'', ''provider'', ''audience'', ''environment'', ''access_mode'',
      ''provider_mutation_allowed'', ''valid_from'', ''expires_at'', ''policy_digest'',
      ''policy_revision'', ''decision_revision'', ''decision_digest'']"

definition verifier_decision_claims :: "verifier_decision \<Rightarrow> (string \<times> json) list" where
  "verifier_decision_claims c =
     [(''schema_version'', JInt 1),
      (''decision_type'', JStr ''verifier-credential-decision/v1''),
      (''decision_id'', JStr (vd_decision_id c)), (''verifier_id'', JStr (vd_verifier_id c)),
      (''verifier_identity_digest'', JStr (vd_verifier_identity_digest c)),
      (''verification_boundary_digest'', JStr (vd_verification_boundary_digest c)),
      (''runner_observation_digest'', JStr (vd_runner_observation_digest c)),
      (''target_digest'', JStr (vd_target_digest c)),
      (''execution_id'', JStr (vd_execution_id c)),
      (''execution_epoch'', JInt (vd_execution_epoch c)),
      (''credential_class'', JStr (vd_credential_class c)), (''provider'', JStr (vd_provider c)),
      (''audience'', JStr (vd_audience c)), (''environment'', JStr (vd_environment c)),
      (''access_mode'', JStr (vd_access_mode c)),
      (''provider_mutation_allowed'', JBool (vd_provider_mutation_allowed c)),
      (''valid_from'', JStr (vd_valid_from c)), (''expires_at'', JStr (vd_expires_at c)),
      (''policy_digest'', JStr (vd_policy_digest c)),
      (''policy_revision'', JStr (vd_policy_revision c)),
      (''decision_revision'', JStr (vd_decision_revision c))]"

definition verifier_decision_to_dict :: "verifier_decision \<Rightarrow> (string \<times> json) list" where
  "verifier_decision_to_dict c = verifier_decision_claims c @ [(''decision_digest'', JStr (vd_decision_digest c))]"

definition verifier_decision_of :: "(string \<Rightarrow> json) \<Rightarrow> verifier_decision" where
  "verifier_decision_of d =
     \<lparr>vd_decision_id = str_of (d ''decision_id''), vd_verifier_id = str_of (d ''verifier_id''),
      vd_verifier_identity_digest = str_of (d ''verifier_identity_digest''),
      vd_verification_boundary_digest = str_of (d ''verification_boundary_digest''),
      vd_runner_observation_digest = str_of (d ''runner_observation_digest''),
      vd_target_digest = str_of (d ''target_digest''),
      vd_execution_id = str_of (d ''execution_id''),
      vd_execution_epoch = intval (d ''execution_epoch''),
      vd_credential_class = str_of (d ''credential_class''),
      vd_provider = str_of (d ''provider''), vd_audience = str_of (d ''audience''),
      vd_environment = str_of (d ''environment''), vd_access_mode = str_of (d ''access_mode''),
      vd_provider_mutation_allowed = boolval (d ''provider_mutation_allowed''),
      vd_valid_from = str_of (d ''valid_from''), vd_expires_at = str_of (d ''expires_at''),
      vd_policy_digest = str_of (d ''policy_digest''),
      vd_policy_revision = str_of (d ''policy_revision''),
      vd_decision_revision = str_of (d ''decision_revision''),
      vd_decision_digest = str_of (d ''decision_digest'')\<rparr>"

definition verifier_decision_init :: "(string \<Rightarrow> string) \<Rightarrow> (string \<Rightarrow> json) \<Rightarrow> verifier_decision res" where
  "verifier_decision_init H d =
     thenE (for_each (check_digest d)
       [''decision_id'', ''verifier_id'', ''verifier_identity_digest'',
        ''verification_boundary_digest'', ''runner_observation_digest'', ''target_digest'',
        ''policy_digest'', ''decision_digest''])
    (thenE (for_each (check_text d)
       [''execution_id'', ''credential_class'', ''provider'', ''audience'', ''policy_revision'',
        ''decision_revision''])
    (bindE (require_in ''environment'' valid_environments (d ''environment'')) (\<lambda>_.
     bindE (require_epoch ''execution_epoch'' (d ''execution_epoch'')) (\<lambda>_.
     bindE (require_timestamp ''valid_from'' (d ''valid_from'')) (\<lambda>start.
     bindE (require_timestamp ''expires_at'' (d ''expires_at'')) (\<lambda>end.
     thenE (guardE (\<not> instant end \<le> instant start) (ValueError ''expires_at''))
    (thenE (guardE (d ''access_mode'' = JStr ''READ_ONLY'') (ValueError ''access_mode''))
    (thenE (guardE (d ''provider_mutation_allowed'' = JBool False) (ValueError ''provider_mutation_allowed''))
    (thenE (guardE (d ''decision_id'' = JStr (verifier_decision_identity H (str_of (d ''verifier_id'')) (str_of (d ''verification_boundary_digest'')) (str_of (d ''policy_digest'')) (str_of (d ''valid_from'')) (str_of (d ''expires_at'')))) (ValueError ''decision_id''))
      ((let c = verifier_decision_of d in thenE (guardE (vd_decision_digest c = claims_digest H (verifier_decision_claims c))
        (ValueError ''decision_digest'')) (Inr c))))))))))))"

definition verifier_decision_ok :: "(string \<Rightarrow> string) \<Rightarrow> verifier_decision \<Rightarrow> bool" where
  "verifier_decision_ok H c \<longleftrightarrow>
     list_all text_ok
        [vd_execution_id c, vd_credential_class c, vd_provider c, vd_audience c,
         vd_policy_revision c, vd_decision_revision c]
     \<and> list_all digest_ok
        [vd_decision_id c, vd_verifier_id c, vd_verifier_identity_digest c,
         vd_verification_boundary_digest c, vd_runner_observation_digest c, vd_target_digest c,
         vd_policy_digest c, vd_decision_digest c]
     \<and> vd_environment c \<in> set valid_environments
     \<and> 1 \<le> vd_execution_epoch c
     \<and> time_ok (vd_valid_from c)
     \<and> time_ok (vd_expires_at c)
     \<and> instant_at (vd_valid_from c) < instant_at (vd_expires_at c)
     \<and> vd_access_mode c = ''READ_ONLY''
     \<and> \<not> vd_provider_mutation_allowed c
     \<and> vd_decision_id c = verifier_decision_identity H (vd_verifier_id c) (vd_verification_boundary_digest c) (vd_policy_digest c) (vd_valid_from c) (vd_expires_at c)
     \<and> vd_decision_digest c = claims_digest H (verifier_decision_claims c)"

definition verifier_decision_from_dict :: "(string \<Rightarrow> string) \<Rightarrow> json \<Rightarrow> verifier_decision res" where
  "verifier_decision_from_dict H =
     contract_from_dict 1 verifier_decision_fields ''decision_type'' ''verifier-credential-decision/v1'' (verifier_decision_init H)"

lemma verifier_decision_of_sel [simp]:
  "vd_decision_id (verifier_decision_of d) = str_of (d ''decision_id'')"
  "vd_verifier_id (verifier_decision_of d) = str_of (d ''verifier_id'')"
  "vd_verifier_identity_digest (verifier_decision_of d) = str_of (d ''verifier_identity_digest'')"
  "vd_verification_boundary_digest (verifier_decision_of d) = str_of (d ''verification_boundary_digest'')"
  "vd_runner_observation_digest (verifier_decision_of d) = str_of (d ''runner_observation_digest'')"
  "vd_target_digest (verifier_decision_of d) = str_of (d ''target_digest'')"
  "vd_execution_id (verifier_decision_of d) = str_of (d ''execution_id'')"
  "vd_execution_epoch (verifier_decision_of d) = intval (d ''execution_epoch'')"
  "vd_credential_class (verifier_decision_of d) = str_of (d ''credential_class'')"
  "vd_provider (verifier_decision_of d) = str_of (d ''provider'')"
  "vd_audience (verifier_decision_of d) = str_of (d ''audience'')"
  "vd_environment (verifier_decision_of d) = str_of (d ''environment'')"
  "vd_access_mode (verifier_decision_of d) = str_of (d ''access_mode'')"
  "vd_provider_mutation_allowed (verifier_decision_of d) = boolval (d ''provider_mutation_allowed'')"
  "vd_valid_from (verifier_decision_of d) = str_of (d ''valid_from'')"
  "vd_expires_at (verifier_decision_of d) = str_of (d ''expires_at'')"
  "vd_policy_digest (verifier_decision_of d) = str_of (d ''policy_digest'')"
  "vd_policy_revision (verifier_decision_of d) = str_of (d ''policy_revision'')"
  "vd_decision_revision (verifier_decision_of d) = str_of (d ''decision_revision'')"
  "vd_decision_digest (verifier_decision_of d) = str_of (d ''decision_digest'')"
  by (simp_all add: verifier_decision_of_def)

lemma verifier_decision_claims_determine:
  "map snd (verifier_decision_claims c) = map snd (verifier_decision_claims c') \<Longrightarrow> vd_decision_digest c = vd_decision_digest c' \<Longrightarrow> c = c'"
  by (simp add: verifier_decision_claims_def)

lemma verifier_decision_init_iff:
  "verifier_decision_init H d = Inr c \<longleftrightarrow> verifier_decision_ok H c
     \<and> list_all (\<lambda>(f, v). d f = v) (drop 2 (verifier_decision_claims c) @ [(''decision_digest'', JStr (vd_decision_digest c))])"
  (is "?L \<longleftrightarrow> _ \<and> ?D c")
proof
  assume L: ?L
  then have c: "c = verifier_decision_of d"
    unfolding verifier_decision_init_def Let_def init_res_simps by blast
  have "verifier_decision_ok H c" using L unfolding c verifier_decision_init_def verifier_decision_ok_def Let_def init_res_simps
    by (clarsimp simp: instant_at_def)
  moreover have "?D c" unfolding c
    by (simp add: verifier_decision_claims_def init_simps)
      (use L in \<open>clarsimp simp: verifier_decision_init_def Let_def init_res_simps\<close>)
  ultimately show "verifier_decision_ok H c \<and> ?D c" ..
next
  assume R: "verifier_decision_ok H c \<and> ?D c"
  then have c: "verifier_decision_of d = c" by (simp add: verifier_decision_of_def verifier_decision_claims_def)
  note d = R [THEN conjunct2, unfolded verifier_decision_claims_def]
  show ?L using R [THEN conjunct1] d unfolding verifier_decision_init_def c Let_def
    by (clarsimp simp: verifier_decision_ok_def init_res_simps instant_at_def)
qed

interpretation verifier_decision: content_bound H verifier_decision_claims vd_decision_digest "verifier_decision_ok H" 1 verifier_decision_fields
  "''decision_type''" "''verifier-credential-decision/v1''" "''decision_digest''" "verifier_decision_init H" for H
proof
  show "flat (verifier_decision_claims c)" for c by (simp add: flat_def verifier_decision_claims_def)
  show "map fst (verifier_decision_claims c) = map fst (verifier_decision_claims c')" for c c' by (simp add: verifier_decision_claims_def)
  show "verifier_decision_fields = map fst (verifier_decision_claims c) @ [''decision_digest'']" for c
    by (simp add: verifier_decision_fields_def verifier_decision_claims_def)
  show "''decision_digest'' \<notin> fst ` set (verifier_decision_claims c)" for c by (simp add: verifier_decision_claims_def)
  show "take 2 (verifier_decision_claims c) = [(''schema_version'', JInt 1), (''decision_type'', JStr ''verifier-credential-decision/v1'')]" for c
    by (simp add: verifier_decision_claims_def)
  show "verifier_decision_ok H c \<Longrightarrow> vd_decision_digest c = claims_digest H (verifier_decision_claims c)" for c
    by (simp add: verifier_decision_ok_def)
qed (rule verifier_decision_claims_determine verifier_decision_init_iff; assumption?)+

lemma verifier_decision_claims_seal [simp]: "verifier_decision_claims (c\<lparr>vd_decision_digest := x\<rparr>) = verifier_decision_claims c"
  by (simp add: verifier_decision_claims_def)

lemma verifier_decision_dict_eq: "verifier_decision_to_dict c = verifier_decision.dict c"
  by (simp add: verifier_decision_to_dict_def verifier_decision.dict_def)

lemma verifier_decision_sealed: "verifier_decision_init H (item (verifier_decision_to_dict c)) = Inr c' \<longleftrightarrow> c' = c \<and> verifier_decision_ok H c"
  by (simp add: verifier_decision_dict_eq verifier_decision.init_dict_iff)

definition verifier_decision_create ::
  "(string \<Rightarrow> string) \<Rightarrow> verifier_identity \<Rightarrow> verification_boundary \<Rightarrow> verifier_policy \<Rightarrow> string \<Rightarrow> string \<Rightarrow> string \<Rightarrow>
   verifier_decision res" where
  "verifier_decision_create H v b p valid_from expires_at decision_revision =
     thenE (check_texts [(''decision_revision'', decision_revision)])
    (bindE (require_timestamp ''valid_from'' (JStr valid_from)) (\<lambda>start.
     bindE (require_timestamp ''expires_at'' (JStr expires_at)) (\<lambda>end.
     thenE (guardE (\<not> instant end \<le> instant start) (PermissionError ''VERIFIER_CREDENTIAL_INVALID_TTL''))
    (thenE (guardE (\<not> instant end - instant start > seconds (vp_max_ttl_seconds p)) (PermissionError ''VERIFIER_CREDENTIAL_TTL_EXCEEDS_POLICY''))
    (thenE (guardE (vi_verifier_id v = vb_verifier_id b) (PermissionError ''VERIFIER_IDENTITY_BINDING_MISMATCH''))
    (thenE (guardE (vi_identity_digest v = vb_verifier_identity_digest b) (PermissionError ''VERIFIER_IDENTITY_DIGEST_MISMATCH''))
    (thenE (guardE (vi_credential_class v = vb_verifier_credential_class b) (PermissionError ''VERIFIER_BOUNDARY_CREDENTIAL_CLASS_MISMATCH''))
    (thenE (guardE (vi_credential_class v = vp_credential_class p) (PermissionError ''VERIFIER_CREDENTIAL_CLASS_NOT_ALLOWED''))
    (thenE (guardE (vi_environment v = vb_environment b \<and> vi_environment v \<in> set (vp_enabled_environments p)) (PermissionError ''VERIFIER_ENVIRONMENT_NOT_ALLOWED''))
    (thenE (guardE (vi_provider v = vp_provider p) (PermissionError ''VERIFIER_PROVIDER_NOT_ALLOWED''))
    (thenE (guardE (\<not> vb_provider_mutation_allowed b) (PermissionError ''VERIFIER_BOUNDARY_MUTATION_ALLOWED''))
    (thenE (guardE (vb_verifier_credential_class b \<noteq> vb_runner_credential_class b) (PermissionError ''VERIFIER_CREDENTIAL_NOT_INDEPENDENT''))
      ((let c = \<lparr>vd_decision_id = verifier_decision_identity H (vi_verifier_id v) (vb_boundary_digest b) (vp_policy_digest p) valid_from expires_at,
              vd_verifier_id = vi_verifier_id v,
              vd_verifier_identity_digest = vi_identity_digest v,
              vd_verification_boundary_digest = vb_boundary_digest b,
              vd_runner_observation_digest = vb_runner_observation_digest b,
              vd_target_digest = vb_target_digest b, vd_execution_id = vb_execution_id b,
              vd_execution_epoch = vb_execution_epoch b,
              vd_credential_class = vp_credential_class p, vd_provider = vp_provider p,
              vd_audience = vp_audience p, vd_environment = vb_environment b,
              vd_access_mode = ''READ_ONLY'', vd_provider_mutation_allowed = False,
              vd_valid_from = valid_from, vd_expires_at = expires_at,
              vd_policy_digest = vp_policy_digest p, vd_policy_revision = vp_policy_revision p,
              vd_decision_revision = decision_revision, vd_decision_digest = []\<rparr>
       in verifier_decision_init H (item (verifier_decision_to_dict (c\<lparr>vd_decision_digest := claims_digest H (verifier_decision_claims c)\<rparr>)))))))))))))))))"

lemma verifier_decision_create_eq_Inr:
  assumes "verifier_decision_create H v b p valid_from expires_at rv = Inr c"
  shows "verifier_decision_ok H c \<and> vd_verifier_id c = vi_verifier_id v \<and> vd_verification_boundary_digest c = vb_boundary_digest b
     \<and> vd_valid_from c = valid_from \<and> vd_expires_at c = expires_at \<and> vd_target_digest c = vb_target_digest b
     \<and> instant_at expires_at - instant_at valid_from \<le> seconds (vp_max_ttl_seconds p)
     \<and> vi_verifier_id v = vb_verifier_id b \<and> vi_identity_digest v = vb_verifier_identity_digest b"
  using assms unfolding verifier_decision_create_def Let_def
  by (simp only: bindE_eq_Inr thenE_eq_Inr guardE_eq_Inr verifier_decision_sealed require_timestamp_iff str_of.simps)
    (elim exE conjE, simp add: instant_at_def)

end
