(* ===== verification/Verifier_Observation.thy ===== *)
theory Verifier_Observation
  imports Verifier_Credential
begin

text \<open>
  Reading the same ref as an independent verifier (\<open>verifier_observation.py\<close>), with a credential of its own
  that must be valid at the instant of the read.
\<close>

subsection \<open>The binding of verifier, boundary, decision and target\<close>

definition assert_exact_binding ::
  "verifier_identity \<Rightarrow> verification_boundary \<Rightarrow> verifier_decision \<Rightarrow> execution_target \<Rightarrow> unit res" where
  "assert_exact_binding v b x t =
     thenE (guardE (vi_verifier_id v = vb_verifier_id b) (PermissionError ''VERIFIER_IDENTITY_BINDING_MISMATCH''))
    (thenE (guardE (vi_identity_digest v = vb_verifier_identity_digest b) (PermissionError ''VERIFIER_IDENTITY_DIGEST_MISMATCH''))
    (thenE (guardE (vi_verifier_class v = vb_verifier_class b) (PermissionError ''VERIFIER_CLASS_MISMATCH''))
    (thenE (guardE (vi_provider v = vb_verifier_provider b) (PermissionError ''VERIFIER_PROVIDER_MISMATCH''))
    (thenE (guardE (vi_provider_instance_id v = vb_verifier_provider_instance_id b) (PermissionError ''VERIFIER_PROVIDER_INSTANCE_MISMATCH''))
    (thenE (guardE (vi_credential_class v = vb_verifier_credential_class b) (PermissionError ''VERIFIER_CREDENTIAL_CLASS_MISMATCH''))
    (thenE (guardE (vi_environment v = vb_environment b) (PermissionError ''VERIFIER_ENVIRONMENT_MISMATCH''))
    (thenE (guardE (vd_verifier_id x = vi_verifier_id v) (PermissionError ''VERIFIER_DECISION_IDENTITY_MISMATCH''))
    (thenE (guardE (vd_verifier_identity_digest x = vi_identity_digest v) (PermissionError ''VERIFIER_DECISION_IDENTITY_DIGEST_MISMATCH''))
    (thenE (guardE (vd_verification_boundary_digest x = vb_boundary_digest b) (PermissionError ''VERIFIER_DECISION_BOUNDARY_MISMATCH''))
    (thenE (guardE (vd_runner_observation_digest x = vb_runner_observation_digest b) (PermissionError ''VERIFIER_DECISION_RUNNER_OBSERVATION_MISMATCH''))
    (thenE (guardE (vd_target_digest x = vb_target_digest b \<and> vd_target_digest x = et_target_digest t) (PermissionError ''VERIFIER_TARGET_BINDING_MISMATCH''))
    (thenE (guardE (vd_execution_id x = vb_execution_id b) (PermissionError ''VERIFIER_EXECUTION_BINDING_MISMATCH''))
    (thenE (guardE (vd_execution_epoch x = vb_execution_epoch b) (PermissionError ''VERIFIER_EXECUTION_EPOCH_MISMATCH''))
    (thenE (guardE (vd_credential_class x = vi_credential_class v) (PermissionError ''VERIFIER_DECISION_CREDENTIAL_CLASS_MISMATCH''))
    (thenE (guardE (vd_provider x = vi_provider v) (PermissionError ''VERIFIER_DECISION_PROVIDER_MISMATCH''))
    (thenE (guardE (vd_environment x = vi_environment v) (PermissionError ''VERIFIER_DECISION_ENVIRONMENT_MISMATCH''))
    (thenE (guardE (vd_access_mode x = ''READ_ONLY'') (PermissionError ''VERIFIER_DECISION_NOT_READ_ONLY''))
    (thenE (guardE (\<not> vd_provider_mutation_allowed x) (PermissionError ''VERIFIER_DECISION_MUTATION_ALLOWED''))
      (guardE (\<not> vb_provider_mutation_allowed b) (PermissionError ''VERIFIER_BOUNDARY_MUTATION_ALLOWED''))))))))))))))))))))"

definition exactly_bound ::
  "verifier_identity \<Rightarrow> verification_boundary \<Rightarrow> verifier_decision \<Rightarrow> execution_target \<Rightarrow> bool" where
  "exactly_bound v b x t \<longleftrightarrow>
     vi_verifier_id v = vb_verifier_id b
     \<and> vi_identity_digest v = vb_verifier_identity_digest b
     \<and> vi_verifier_class v = vb_verifier_class b
     \<and> vi_provider v = vb_verifier_provider b
     \<and> vi_provider_instance_id v = vb_verifier_provider_instance_id b
     \<and> vi_credential_class v = vb_verifier_credential_class b
     \<and> vi_environment v = vb_environment b
     \<and> vd_verifier_id x = vi_verifier_id v
     \<and> vd_verifier_identity_digest x = vi_identity_digest v
     \<and> vd_verification_boundary_digest x = vb_boundary_digest b
     \<and> vd_runner_observation_digest x = vb_runner_observation_digest b
     \<and> vd_target_digest x = vb_target_digest b \<and> vd_target_digest x = et_target_digest t
     \<and> vd_execution_id x = vb_execution_id b
     \<and> vd_execution_epoch x = vb_execution_epoch b
     \<and> vd_credential_class x = vi_credential_class v
     \<and> vd_provider x = vi_provider v
     \<and> vd_environment x = vi_environment v
     \<and> vd_access_mode x = ''READ_ONLY''
     \<and> \<not> vd_provider_mutation_allowed x
     \<and> \<not> vb_provider_mutation_allowed b"

lemma assert_exact_binding_iff [res_simps]: "assert_exact_binding v b x t = Inr u \<longleftrightarrow> exactly_bound v b x t"
  by (simp only: assert_exact_binding_def exactly_bound_def thenE_eq_Inr guardE_eq_Inr conj_assoc)

definition assert_credential_current :: "verifier_decision \<Rightarrow> clock_witness \<Rightarrow> unit res" where
  "assert_credential_current x clock =
     thenE (guardE (ck_environment clock = vd_environment x) (PermissionError ''VERIFIER_CLOCK_ENVIRONMENT_MISMATCH''))
      (bindE (require_timestamp ''clock_witness.observed_at'' (JStr (ck_observed_at clock))) (\<lambda>observed.
       bindE (require_timestamp ''decision.valid_from'' (JStr (vd_valid_from x))) (\<lambda>start.
       bindE (require_timestamp ''decision.expires_at'' (JStr (vd_expires_at x))) (\<lambda>end.
       thenE (guardE (\<not> instant observed < instant start) (PermissionError ''VERIFIER_CREDENTIAL_NOT_YET_VALID''))
        (guardE (\<not> instant observed \<ge> instant end) (PermissionError ''VERIFIER_CREDENTIAL_EXPIRED''))))))"

lemma assert_credential_current_eq_Inr:
  assumes "assert_credential_current x clock = Inr u"
  shows "ck_environment clock = vd_environment x \<and> instant_at (vd_valid_from x) \<le> instant_at (ck_observed_at clock)
     \<and> instant_at (ck_observed_at clock) < instant_at (vd_expires_at x)"
  using assms unfolding assert_credential_current_def
  by (auto simp: bindE_eq_Inr thenE_eq_Inr guardE_eq_Inr init_simps instant_at_def)

subsection \<open>Observations\<close>

record verifier_observation =
  vo_repository :: string
  vo_ref :: string
  vo_commit_sha :: string
  vo_target_digest :: string
  vo_provider :: string
  vo_provider_instance_id :: string
  vo_verifier_id :: string
  vo_verifier_identity_digest :: string
  vo_verification_boundary_digest :: string
  vo_verifier_credential_decision_id :: string
  vo_verifier_credential_decision_digest :: string
  vo_runner_observation_digest :: string
  vo_execution_id :: string
  vo_execution_epoch :: int
  vo_source_identity :: string
  vo_access_clock_source_identity :: string
  vo_access_clock_witness_digest :: string
  vo_credential_checked_at :: string
  vo_clock_source_identity :: string
  vo_clock_witness_digest :: string
  vo_observed_at :: string
  vo_observation_revision :: string
  vo_observation_digest :: string

definition verifier_observation_fields :: "string list" where
  "verifier_observation_fields =
     [''schema_version'', ''observation_type'', ''repository'', ''ref'', ''commit_sha'',
      ''target_digest'', ''provider'', ''provider_instance_id'', ''verifier_id'',
      ''verifier_identity_digest'', ''verification_boundary_digest'',
      ''verifier_credential_decision_id'', ''verifier_credential_decision_digest'',
      ''runner_observation_digest'', ''execution_id'', ''execution_epoch'', ''source_identity'',
      ''access_clock_source_identity'', ''access_clock_witness_digest'',
      ''credential_checked_at'', ''clock_source_identity'', ''clock_witness_digest'',
      ''observed_at'', ''observation_revision'', ''observation_digest'']"

definition verifier_observation_claims :: "verifier_observation \<Rightarrow> (string \<times> json) list" where
  "verifier_observation_claims c =
     [(''schema_version'', JInt 1),
      (''observation_type'', JStr ''verifier-github-ref-observation/v1''),
      (''repository'', JStr (vo_repository c)), (''ref'', JStr (vo_ref c)),
      (''commit_sha'', JStr (vo_commit_sha c)), (''target_digest'', JStr (vo_target_digest c)),
      (''provider'', JStr (vo_provider c)),
      (''provider_instance_id'', JStr (vo_provider_instance_id c)),
      (''verifier_id'', JStr (vo_verifier_id c)),
      (''verifier_identity_digest'', JStr (vo_verifier_identity_digest c)),
      (''verification_boundary_digest'', JStr (vo_verification_boundary_digest c)),
      (''verifier_credential_decision_id'', JStr (vo_verifier_credential_decision_id c)),
      (''verifier_credential_decision_digest'', JStr (vo_verifier_credential_decision_digest c)),
      (''runner_observation_digest'', JStr (vo_runner_observation_digest c)),
      (''execution_id'', JStr (vo_execution_id c)),
      (''execution_epoch'', JInt (vo_execution_epoch c)),
      (''source_identity'', JStr (vo_source_identity c)),
      (''access_clock_source_identity'', JStr (vo_access_clock_source_identity c)),
      (''access_clock_witness_digest'', JStr (vo_access_clock_witness_digest c)),
      (''credential_checked_at'', JStr (vo_credential_checked_at c)),
      (''clock_source_identity'', JStr (vo_clock_source_identity c)),
      (''clock_witness_digest'', JStr (vo_clock_witness_digest c)),
      (''observed_at'', JStr (vo_observed_at c)),
      (''observation_revision'', JStr (vo_observation_revision c))]"

definition verifier_observation_to_dict :: "verifier_observation \<Rightarrow> (string \<times> json) list" where
  "verifier_observation_to_dict c = verifier_observation_claims c @ [(''observation_digest'', JStr (vo_observation_digest c))]"

definition verifier_observation_of :: "(string \<Rightarrow> json) \<Rightarrow> verifier_observation" where
  "verifier_observation_of d =
     \<lparr>vo_repository = str_of (d ''repository''), vo_ref = str_of (d ''ref''),
      vo_commit_sha = str_of (d ''commit_sha''), vo_target_digest = str_of (d ''target_digest''),
      vo_provider = str_of (d ''provider''),
      vo_provider_instance_id = str_of (d ''provider_instance_id''),
      vo_verifier_id = str_of (d ''verifier_id''),
      vo_verifier_identity_digest = str_of (d ''verifier_identity_digest''),
      vo_verification_boundary_digest = str_of (d ''verification_boundary_digest''),
      vo_verifier_credential_decision_id = str_of (d ''verifier_credential_decision_id''),
      vo_verifier_credential_decision_digest = str_of (d ''verifier_credential_decision_digest''),
      vo_runner_observation_digest = str_of (d ''runner_observation_digest''),
      vo_execution_id = str_of (d ''execution_id''),
      vo_execution_epoch = intval (d ''execution_epoch''),
      vo_source_identity = str_of (d ''source_identity''),
      vo_access_clock_source_identity = str_of (d ''access_clock_source_identity''),
      vo_access_clock_witness_digest = str_of (d ''access_clock_witness_digest''),
      vo_credential_checked_at = str_of (d ''credential_checked_at''),
      vo_clock_source_identity = str_of (d ''clock_source_identity''),
      vo_clock_witness_digest = str_of (d ''clock_witness_digest''),
      vo_observed_at = str_of (d ''observed_at''),
      vo_observation_revision = str_of (d ''observation_revision''),
      vo_observation_digest = str_of (d ''observation_digest'')\<rparr>"

definition verifier_observation_init :: "(string \<Rightarrow> string) \<Rightarrow> (string \<Rightarrow> json) \<Rightarrow> verifier_observation res" where
  "verifier_observation_init H d =
     thenE (for_each (check_text d)
       [''repository'', ''ref''])
    (bindE (require_git_object_id ''commit_sha'' (d ''commit_sha'')) (\<lambda>_.
     thenE (for_each (check_digest d)
       [''target_digest'', ''verifier_id'', ''verifier_identity_digest'',
        ''verification_boundary_digest'', ''verifier_credential_decision_id'',
        ''verifier_credential_decision_digest'', ''runner_observation_digest'',
        ''access_clock_witness_digest'', ''clock_witness_digest'', ''observation_digest''])
    (thenE (for_each (check_text d)
       [''provider'', ''provider_instance_id'', ''execution_id'', ''source_identity'',
        ''access_clock_source_identity'', ''clock_source_identity'', ''observation_revision''])
    (bindE (require_timestamp ''credential_checked_at'' (d ''credential_checked_at'')) (\<lambda>_.
     bindE (require_timestamp ''observed_at'' (d ''observed_at'')) (\<lambda>_.
     bindE (require_epoch ''execution_epoch'' (d ''execution_epoch'')) (\<lambda>_.
      (let c = verifier_observation_of d in thenE (guardE (vo_observation_digest c = claims_digest H (verifier_observation_claims c))
        (ValueError ''observation_digest'')) (Inr c)))))))))"

definition verifier_observation_ok :: "(string \<Rightarrow> string) \<Rightarrow> verifier_observation \<Rightarrow> bool" where
  "verifier_observation_ok H c \<longleftrightarrow>
     list_all text_ok
        [vo_repository c, vo_ref c, vo_provider c, vo_provider_instance_id c, vo_execution_id c,
         vo_source_identity c, vo_access_clock_source_identity c, vo_clock_source_identity c,
         vo_observation_revision c]
     \<and> list_all digest_ok
        [vo_target_digest c, vo_verifier_id c, vo_verifier_identity_digest c,
         vo_verification_boundary_digest c, vo_verifier_credential_decision_id c,
         vo_verifier_credential_decision_digest c, vo_runner_observation_digest c,
         vo_access_clock_witness_digest c, vo_clock_witness_digest c, vo_observation_digest c]
     \<and> object_id_ok (vo_commit_sha c)
     \<and> time_ok (vo_credential_checked_at c)
     \<and> time_ok (vo_observed_at c)
     \<and> 1 \<le> vo_execution_epoch c
     \<and> vo_observation_digest c = claims_digest H (verifier_observation_claims c)"

definition verifier_observation_from_dict :: "(string \<Rightarrow> string) \<Rightarrow> json \<Rightarrow> verifier_observation res" where
  "verifier_observation_from_dict H =
     contract_from_dict 1 verifier_observation_fields ''observation_type'' ''verifier-github-ref-observation/v1'' (verifier_observation_init H)"

lemma verifier_observation_of_sel [simp]:
  "vo_repository (verifier_observation_of d) = str_of (d ''repository'')"
  "vo_ref (verifier_observation_of d) = str_of (d ''ref'')"
  "vo_commit_sha (verifier_observation_of d) = str_of (d ''commit_sha'')"
  "vo_target_digest (verifier_observation_of d) = str_of (d ''target_digest'')"
  "vo_provider (verifier_observation_of d) = str_of (d ''provider'')"
  "vo_provider_instance_id (verifier_observation_of d) = str_of (d ''provider_instance_id'')"
  "vo_verifier_id (verifier_observation_of d) = str_of (d ''verifier_id'')"
  "vo_verifier_identity_digest (verifier_observation_of d) = str_of (d ''verifier_identity_digest'')"
  "vo_verification_boundary_digest (verifier_observation_of d) = str_of (d ''verification_boundary_digest'')"
  "vo_verifier_credential_decision_id (verifier_observation_of d) = str_of (d ''verifier_credential_decision_id'')"
  "vo_verifier_credential_decision_digest (verifier_observation_of d) = str_of (d ''verifier_credential_decision_digest'')"
  "vo_runner_observation_digest (verifier_observation_of d) = str_of (d ''runner_observation_digest'')"
  "vo_execution_id (verifier_observation_of d) = str_of (d ''execution_id'')"
  "vo_execution_epoch (verifier_observation_of d) = intval (d ''execution_epoch'')"
  "vo_source_identity (verifier_observation_of d) = str_of (d ''source_identity'')"
  "vo_access_clock_source_identity (verifier_observation_of d) = str_of (d ''access_clock_source_identity'')"
  "vo_access_clock_witness_digest (verifier_observation_of d) = str_of (d ''access_clock_witness_digest'')"
  "vo_credential_checked_at (verifier_observation_of d) = str_of (d ''credential_checked_at'')"
  "vo_clock_source_identity (verifier_observation_of d) = str_of (d ''clock_source_identity'')"
  "vo_clock_witness_digest (verifier_observation_of d) = str_of (d ''clock_witness_digest'')"
  "vo_observed_at (verifier_observation_of d) = str_of (d ''observed_at'')"
  "vo_observation_revision (verifier_observation_of d) = str_of (d ''observation_revision'')"
  "vo_observation_digest (verifier_observation_of d) = str_of (d ''observation_digest'')"
  by (simp_all add: verifier_observation_of_def)

lemma verifier_observation_claims_determine:
  "map snd (verifier_observation_claims c) = map snd (verifier_observation_claims c') \<Longrightarrow> vo_observation_digest c = vo_observation_digest c' \<Longrightarrow> c = c'"
  by (simp add: verifier_observation_claims_def)

lemma verifier_observation_init_iff:
  "verifier_observation_init H d = Inr c \<longleftrightarrow> verifier_observation_ok H c
     \<and> list_all (\<lambda>(f, v). d f = v) (drop 2 (verifier_observation_claims c) @ [(''observation_digest'', JStr (vo_observation_digest c))])"
  (is "?L \<longleftrightarrow> _ \<and> ?D c")
proof
  assume L: ?L
  then have c: "c = verifier_observation_of d"
    unfolding verifier_observation_init_def Let_def init_res_simps by blast
  have "verifier_observation_ok H c" using L unfolding c verifier_observation_init_def verifier_observation_ok_def Let_def init_res_simps
    by (clarsimp simp: instant_at_def)
  moreover have "?D c" unfolding c
    by (simp add: verifier_observation_claims_def init_simps)
      (use L in \<open>clarsimp simp: verifier_observation_init_def Let_def init_res_simps\<close>)
  ultimately show "verifier_observation_ok H c \<and> ?D c" ..
next
  assume R: "verifier_observation_ok H c \<and> ?D c"
  then have c: "verifier_observation_of d = c" by (simp add: verifier_observation_of_def verifier_observation_claims_def)
  note d = R [THEN conjunct2, unfolded verifier_observation_claims_def]
  show ?L using R [THEN conjunct1] d unfolding verifier_observation_init_def c Let_def
    by (clarsimp simp: verifier_observation_ok_def init_res_simps instant_at_def)
qed

interpretation verifier_observed: content_bound H verifier_observation_claims vo_observation_digest "verifier_observation_ok H" 1 verifier_observation_fields
  "''observation_type''" "''verifier-github-ref-observation/v1''" "''observation_digest''" "verifier_observation_init H" for H
proof
  show "flat (verifier_observation_claims c)" for c by (simp add: flat_def verifier_observation_claims_def)
  show "map fst (verifier_observation_claims c) = map fst (verifier_observation_claims c')" for c c' by (simp add: verifier_observation_claims_def)
  show "verifier_observation_fields = map fst (verifier_observation_claims c) @ [''observation_digest'']" for c
    by (simp add: verifier_observation_fields_def verifier_observation_claims_def)
  show "''observation_digest'' \<notin> fst ` set (verifier_observation_claims c)" for c by (simp add: verifier_observation_claims_def)
  show "take 2 (verifier_observation_claims c) = [(''schema_version'', JInt 1), (''observation_type'', JStr ''verifier-github-ref-observation/v1'')]" for c
    by (simp add: verifier_observation_claims_def)
  show "verifier_observation_ok H c \<Longrightarrow> vo_observation_digest c = claims_digest H (verifier_observation_claims c)" for c
    by (simp add: verifier_observation_ok_def)
qed (rule verifier_observation_claims_determine verifier_observation_init_iff; assumption?)+

lemma verifier_observation_claims_seal [simp]: "verifier_observation_claims (c\<lparr>vo_observation_digest := x\<rparr>) = verifier_observation_claims c"
  by (simp add: verifier_observation_claims_def)

lemma verifier_observation_dict_eq: "verifier_observation_to_dict c = verifier_observed.dict c"
  by (simp add: verifier_observation_to_dict_def verifier_observed.dict_def)

lemma verifier_observation_sealed: "verifier_observation_init H (item (verifier_observation_to_dict c)) = Inr c' \<longleftrightarrow> c' = c \<and> verifier_observation_ok H c"
  by (simp add: verifier_observation_dict_eq verifier_observed.init_dict_iff)

definition verifier_observation_create ::
  "(string \<Rightarrow> string) \<Rightarrow> string \<Rightarrow> string \<Rightarrow> string \<Rightarrow> execution_target \<Rightarrow> verifier_identity \<Rightarrow>
   verification_boundary \<Rightarrow> verifier_decision \<Rightarrow> clock_witness \<Rightarrow> clock_witness \<Rightarrow> string \<Rightarrow> string \<Rightarrow> verifier_observation res" where
  "verifier_observation_create H repository ref commit_sha t v b x access clock source_identity observation_revision =
     thenE (assert_exact_binding v b x t)
    (thenE (assert_credential_current x access)
    (thenE (guardE (ck_environment clock = vi_environment v) (PermissionError ''VERIFIER_OBSERVATION_CLOCK_ENVIRONMENT_MISMATCH''))
    (thenE (check_texts [(''repository'', repository), (''ref'', ref)])
    (bindE (require_git_object_id ''commit_sha'' (JStr commit_sha)) (\<lambda>_.
     thenE (check_texts [(''source_identity'', source_identity), (''observation_revision'', observation_revision)])
      ((let c = \<lparr>vo_repository = repository, vo_ref = ref, vo_commit_sha = commit_sha,
              vo_target_digest = et_target_digest t, vo_provider = vi_provider v,
              vo_provider_instance_id = vi_provider_instance_id v,
              vo_verifier_id = vi_verifier_id v,
              vo_verifier_identity_digest = vi_identity_digest v,
              vo_verification_boundary_digest = vb_boundary_digest b,
              vo_verifier_credential_decision_id = vd_decision_id x,
              vo_verifier_credential_decision_digest = vd_decision_digest x,
              vo_runner_observation_digest = vb_runner_observation_digest b,
              vo_execution_id = vb_execution_id b, vo_execution_epoch = vb_execution_epoch b,
              vo_source_identity = source_identity,
              vo_access_clock_source_identity = ck_source_identity access,
              vo_access_clock_witness_digest = ck_witness_digest access,
              vo_credential_checked_at = ck_observed_at access,
              vo_clock_source_identity = ck_source_identity clock,
              vo_clock_witness_digest = ck_witness_digest clock,
              vo_observed_at = ck_observed_at clock,
              vo_observation_revision = observation_revision, vo_observation_digest = []\<rparr>
       in verifier_observation_init H (item (verifier_observation_to_dict (c\<lparr>vo_observation_digest := claims_digest H (verifier_observation_claims c)\<rparr>))))))))))"

lemma verifier_observation_create_eq_Inr:
  assumes "verifier_observation_create H repository ref sha t v b x access clock src rv = Inr c"
  shows "verifier_observation_ok H c \<and> exactly_bound v b x t \<and> assert_credential_current x access = Inr ()
     \<and> vo_repository c = repository \<and> vo_ref c = ref \<and> vo_commit_sha c = sha
     \<and> vo_target_digest c = et_target_digest t \<and> vo_verification_boundary_digest c = vb_boundary_digest b
     \<and> vo_runner_observation_digest c = vb_runner_observation_digest b \<and> vo_verifier_id c = vi_verifier_id v
     \<and> vo_execution_id c = vb_execution_id b \<and> vo_execution_epoch c = vb_execution_epoch b
     \<and> vo_credential_checked_at c = ck_observed_at access \<and> vo_observed_at c = ck_observed_at clock"
  using assms unfolding verifier_observation_create_def Let_def
  by (simp only: bindE_eq_Inr thenE_eq_Inr guardE_eq_Inr verifier_observation_sealed assert_exact_binding_iff)
    (elim exE conjE, simp)

subsection \<open>The handler\<close>

record verifier_handler =
  vh_read_ref :: "string \<Rightarrow> string \<Rightarrow> json res"
  vh_source_identity :: string
  vh_clock :: clock_authority
  vh_observation_revision :: string

definition verifier_handler_init :: "verifier_handler \<Rightarrow> verifier_handler res" where
  "verifier_handler_init c =
     thenE (check_texts [(''observation_revision'', vh_observation_revision c), (''source_identity'', vh_source_identity c)])
      (Inr c)"

text \<open>The credential is checked against a reading taken right before the provider is asked; a second
  reading dates the observation.\<close>

definition verifier_observe_ref ::
  "(string \<Rightarrow> string) \<Rightarrow> verifier_handler \<Rightarrow> clock_reading \<Rightarrow> clock_reading \<Rightarrow> verifier_identity \<Rightarrow>
   verification_boundary \<Rightarrow> verifier_decision \<Rightarrow> execution_target \<Rightarrow> verifier_observation res" where
  "verifier_observe_ref H vh reading1 reading2 v b x t =
     thenE (assert_exact_binding v b x t)
      (bindE (catchE is_PermissionError (parse_git_ref_target t) (PermissionError ''VERIFIER_TARGET_INVALID''))
        (\<lambda>(repository, ref).
       bindE (clock_authority_witness H (vh_clock vh) reading1 (vi_environment v)) (\<lambda>access.
       thenE (assert_credential_current x access)
      (bindE (bindE (vh_read_ref vh repository ref) (require_git_object_id ''commit_sha'')) (\<lambda>commit_sha.
       bindE (clock_authority_witness H (vh_clock vh) reading2 (vi_environment v)) (\<lambda>clock.
       verifier_observation_create H repository ref commit_sha t v b x access clock (vh_source_identity vh)
         (vh_observation_revision vh)))))))"

lemma verifier_observe_ref_eq_Inr:
  assumes "verifier_observe_ref H vh reading1 reading2 v b x t = Inr c"
  shows "verifier_observation_ok H c \<and> exactly_bound v b x t
     \<and> parse_git_ref_target t = Inr (vo_repository c, vo_ref c)
     \<and> vh_read_ref vh (vo_repository c) (vo_ref c) = Inr (JStr (vo_commit_sha c))
     \<and> instant_at (vd_valid_from x) \<le> instant_at (vo_credential_checked_at c)
     \<and> instant_at (vo_credential_checked_at c) < instant_at (vd_expires_at x)
     \<and> vo_target_digest c = et_target_digest t \<and> vo_verification_boundary_digest c = vb_boundary_digest b
     \<and> vo_runner_observation_digest c = vb_runner_observation_digest b"
proof -
  note E = assms [unfolded verifier_observe_ref_def bindE_eq_Inr thenE_eq_Inr assert_exact_binding_iff split_paired_Ex
      prod.case require_git_object_id_iff catchE_eq_Inr]
  from E obtain repository ref answer access clock where
    b: "exactly_bound v b x t" "parse_git_ref_target t = Inr (repository, ref)"
      "vh_read_ref vh repository ref = Inr answer" "is_str answer"
    and o: "verifier_observation_create H repository ref (str_of answer) t v b x access clock (vh_source_identity vh)
         (vh_observation_revision vh) = Inr c"
    by blast
  have "answer = JStr (str_of answer)" using b(4) by (cases answer) auto
  then show ?thesis
    using verifier_observation_create_eq_Inr [OF o] b assert_credential_current_eq_Inr [of x access] by auto
qed

end
