(* ===== verification/Verification_Result.thy ===== *)
theory Verification_Result
  imports Verifier_Observation "HOL-Library.List_Lexorder"
begin

text \<open>
  The verdict on an effect (\<open>verification_result.py\<close>): the state an independent verifier observed, the strength
  of that evidence, and the result, which is \<open>VERIFIED\<close> exactly when verifier and runner saw the same
  commit.  No provider is called here.
\<close>

subsection \<open>The observed state\<close>

record post_state =
  ps_execution_id :: string
  ps_execution_epoch :: int
  ps_target_digest :: string
  ps_state_kind :: string
  ps_state_claims :: "(string \<times> string) list"
  ps_provider :: string
  ps_provider_instance_id :: string
  ps_source_identity :: string
  ps_verifier_id :: string
  ps_verifier_identity_digest :: string
  ps_verification_boundary_digest :: string
  ps_verifier_observation_digest :: string
  ps_observed_at :: string
  ps_state_revision :: string
  ps_state_digest :: string

definition post_state_fields :: "string list" where
  "post_state_fields =
     [''schema_version'', ''observed_post_state_type'', ''execution_id'', ''execution_epoch'',
      ''target_digest'', ''state_kind'', ''state_claims'', ''provider'',
      ''provider_instance_id'', ''source_identity'', ''verifier_id'',
      ''verifier_identity_digest'', ''verification_boundary_digest'',
      ''verifier_observation_digest'', ''observed_at'', ''state_revision'', ''state_digest'']"

definition post_state_claims :: "post_state \<Rightarrow> (string \<times> json) list" where
  "post_state_claims c =
     [(''schema_version'', JInt 1),
      (''observed_post_state_type'', JStr ''observed-post-state/v1''),
      (''execution_id'', JStr (ps_execution_id c)),
      (''execution_epoch'', JInt (ps_execution_epoch c)),
      (''target_digest'', JStr (ps_target_digest c)), (''state_kind'', JStr (ps_state_kind c)),
      (''state_claims'', JObj (map (\<lambda>(k, v). (k, JStr v)) (ps_state_claims c))),
      (''provider'', JStr (ps_provider c)),
      (''provider_instance_id'', JStr (ps_provider_instance_id c)),
      (''source_identity'', JStr (ps_source_identity c)),
      (''verifier_id'', JStr (ps_verifier_id c)),
      (''verifier_identity_digest'', JStr (ps_verifier_identity_digest c)),
      (''verification_boundary_digest'', JStr (ps_verification_boundary_digest c)),
      (''verifier_observation_digest'', JStr (ps_verifier_observation_digest c)),
      (''observed_at'', JStr (ps_observed_at c)), (''state_revision'', JStr (ps_state_revision c))]"

definition post_state_to_dict :: "post_state \<Rightarrow> (string \<times> json) list" where
  "post_state_to_dict c = post_state_claims c @ [(''state_digest'', JStr (ps_state_digest c))]"

definition post_state_of :: "(string \<Rightarrow> json) \<Rightarrow> (string \<times> string) list \<Rightarrow> post_state" where
  "post_state_of d claims =
     \<lparr>ps_execution_id = str_of (d ''execution_id''),
      ps_execution_epoch = intval (d ''execution_epoch''),
      ps_target_digest = str_of (d ''target_digest''), ps_state_kind = str_of (d ''state_kind''),
      ps_state_claims = claims, ps_provider = str_of (d ''provider''),
      ps_provider_instance_id = str_of (d ''provider_instance_id''),
      ps_source_identity = str_of (d ''source_identity''),
      ps_verifier_id = str_of (d ''verifier_id''),
      ps_verifier_identity_digest = str_of (d ''verifier_identity_digest''),
      ps_verification_boundary_digest = str_of (d ''verification_boundary_digest''),
      ps_verifier_observation_digest = str_of (d ''verifier_observation_digest''),
      ps_observed_at = str_of (d ''observed_at''),
      ps_state_revision = str_of (d ''state_revision''),
      ps_state_digest = str_of (d ''state_digest'')\<rparr>"

definition post_state_init ::
  "(string \<Rightarrow> string) \<Rightarrow> (string \<Rightarrow> json) \<Rightarrow> (string \<times> string) list \<Rightarrow> post_state res" where
  "post_state_init H d claims =
     thenE (for_each (check_text d)
       [''execution_id'', ''state_kind'', ''provider'', ''provider_instance_id'',
        ''source_identity'', ''state_revision''])
    (thenE (for_each (check_digest d)
       [''target_digest'', ''verifier_id'', ''verifier_identity_digest'',
        ''verification_boundary_digest'', ''verifier_observation_digest'', ''state_digest''])
    (bindE (require_epoch ''execution_epoch'' (d ''execution_epoch'')) (\<lambda>_.
     thenE (guardE (claims \<noteq> []) (ValueError ''state_claims''))
    (thenE (guardE (sort claims = claims) (ValueError ''state_claims''))
    (thenE (check_texts (concat (map (\<lambda>(k, v). [(''state_claims key'', k), (''state_claims'', v)]) claims)))
    (thenE (guardE (distinct (map fst claims)) (ValueError ''state_claims''))
    (bindE (require_timestamp ''observed_at'' (d ''observed_at'')) (\<lambda>_.
      (let c = post_state_of d claims in thenE (guardE (ps_state_digest c = claims_digest H (post_state_claims c))
        (ValueError ''state_digest'')) (Inr c))))))))))"

text \<open>\<open>_state_claims_from_mapping\<close>: a nonempty object of texts, as sorted pairs.\<close>

definition state_claims_from_mapping :: "json \<Rightarrow> (string \<times> string) list res" where
  "state_claims_from_mapping v =
     (case v of
        JObj kvs \<Rightarrow>
          thenE (guardE (kvs \<noteq> []) (ValueError ''state_claims''))
         (bindE (map_res (\<lambda>(k, x). bindE (require_text ''state_claims key'' (JStr k)) (\<lambda>key.
             bindE (require_text ''state_claims'' x) (\<lambda>t. Inr (key, t)))) kvs) (\<lambda>pairs.
          thenE (guardE (distinct (map fst (sort pairs))) (ValueError ''state_claims''))
           (Inr (sort pairs))))
      | _ \<Rightarrow> Inl (ValueError ''state_claims''))"

definition post_state_from_dict :: "(string \<Rightarrow> string) \<Rightarrow> json \<Rightarrow> post_state res" where
  "post_state_from_dict H v =
     bindE (require_exact_fields post_state_fields ''observed-post-state/v1'' v) (\<lambda>d.
     thenE (guardE (py_eq_int (d ''schema_version'') 1
         \<and> d ''observed_post_state_type'' = JStr ''observed-post-state/v1'') (ValueError ''observed-post-state/v1''))
      (bindE (state_claims_from_mapping (d ''state_claims'')) (\<lambda>claims.
       post_state_init H d claims)))"

text \<open>\<open>create\<close>: the argument \<open>c\<close> holds the keyword arguments, its claims in the order given and its digest empty.\<close>

definition post_state_create :: "(string \<Rightarrow> string) \<Rightarrow> post_state \<Rightarrow> post_state res" where
  "post_state_create H c =
     (let c1 = c\<lparr>ps_state_claims := sort (ps_state_claims c)\<rparr>;
          digest = claims_digest H (post_state_claims c1)
      in bindE (state_claims_from_mapping (JObj (map (\<lambda>(k, v). (k, JStr v)) (ps_state_claims c)))) (\<lambda>claims.
         post_state_init H (item (post_state_to_dict (c1\<lparr>ps_state_digest := digest\<rparr>))) claims))"

definition post_state_ok :: "(string \<Rightarrow> string) \<Rightarrow> post_state \<Rightarrow> bool" where
  "post_state_ok H c \<longleftrightarrow>
     list_all text_ok
        [ps_execution_id c, ps_state_kind c, ps_provider c, ps_provider_instance_id c,
         ps_source_identity c, ps_state_revision c]
     \<and> list_all digest_ok
        [ps_target_digest c, ps_verifier_id c, ps_verifier_identity_digest c,
         ps_verification_boundary_digest c, ps_verifier_observation_digest c, ps_state_digest c]
     \<and> 1 \<le> ps_execution_epoch c \<and> ps_state_claims c \<noteq> [] \<and> sort (ps_state_claims c) = ps_state_claims c
     \<and> (\<forall>(k, v) \<in> set (ps_state_claims c). text_ok k \<and> text_ok v) \<and> distinct (map fst (ps_state_claims c))
     \<and> time_ok (ps_observed_at c) \<and> ps_state_digest c = claims_digest H (post_state_claims c)"

lemma post_state_of_dict [simp]: "post_state_of (item (post_state_to_dict c)) (ps_state_claims c) = c"
  by (simp add: post_state_of_def post_state_to_dict_def post_state_claims_def)

lemma pairs_from_texts:
  "map_res (\<lambda>(k, x). bindE (require_text ''state_claims key'' (JStr k)) (\<lambda>key.
      bindE (require_text ''state_claims'' x) (\<lambda>t. Inr (key, t)))) (map (\<lambda>(k, v). (k, JStr v)) cs) = Inr ps \<longleftrightarrow>
     ps = cs \<and> (\<forall>(k, v) \<in> set cs. text_ok k \<and> text_ok v)"
  by (induction cs arbitrary: ps) (auto simp: res_simps)

lemma post_state_create_eq_Inr:
  assumes "post_state_create H c = Inr s"
  shows "post_state_ok H s \<and> s = (c\<lparr>ps_state_claims := sort (ps_state_claims c)\<rparr>)
     \<lparr>ps_state_digest := claims_digest H (post_state_claims (c\<lparr>ps_state_claims := sort (ps_state_claims c)\<rparr>))\<rparr>"
proof -
  define c1 where "c1 = c\<lparr>ps_state_claims := sort (ps_state_claims c)\<rparr>"
  define c2 where "c2 = c1\<lparr>ps_state_digest := claims_digest H (post_state_claims c1)\<rparr>"
  have claims: "ps_state_claims c2 = sort (ps_state_claims c)" by (simp add: c1_def c2_def)
  have init: "post_state_init H (item (post_state_to_dict c2)) (ps_state_claims c2) = Inr s"
    and texts: "\<forall>(k, v) \<in> set (ps_state_claims c). text_ok k \<and> text_ok v" "ps_state_claims c \<noteq> []"
    using assms unfolding post_state_create_def Let_def state_claims_from_mapping_def c1_def [symmetric] c2_def [symmetric]
    by (auto simp: bindE_eq_Inr thenE_eq_Inr guardE_eq_Inr pairs_from_texts claims)
  have s: "s = c2" using init unfolding post_state_init_def Let_def
    by (auto simp: bindE_eq_Inr thenE_eq_Inr guardE_eq_Inr)
  have "post_state_ok H c2" using init unfolding post_state_init_def Let_def s
    by (auto simp: post_state_ok_def post_state_to_dict_def post_state_claims_def bindE_eq_Inr thenE_eq_Inr guardE_eq_Inr
        for_each_eq_Inr init_simps check_texts_eq_Inr claims texts)
  then show ?thesis using s by (simp add: c2_def c1_def)
qed

subsection \<open>The strength of the evidence\<close>

definition independent_provider_readback :: string where
  "independent_provider_readback = ''INDEPENDENT_PROVIDER_READBACK''"

definition sequential_readback :: string where
  "sequential_readback = ''SEQUENTIAL_READBACK_NON_ATOMIC''"

record verification_strength =
  vs_strength_class :: string
  vs_independence_class :: string
  vs_temporal_model :: string
  vs_target_binding_exact :: bool
  vs_identity_separation :: bool
  vs_provider_instance_separation :: bool
  vs_credential_separation :: bool
  vs_provider_readback :: bool
  vs_atomic_readback :: bool
  vs_effect_ceiling :: string
  vs_provider_mutation_allowed :: bool
  vs_verification_boundary_digest :: string
  vs_verifier_observation_digest :: string
  vs_strength_revision :: string
  vs_strength_digest :: string

definition verification_strength_fields :: "string list" where
  "verification_strength_fields =
     [''schema_version'', ''strength_type'', ''strength_class'', ''independence_class'',
      ''temporal_model'', ''target_binding_exact'', ''identity_separation'',
      ''provider_instance_separation'', ''credential_separation'', ''provider_readback'',
      ''atomic_readback'', ''effect_ceiling'', ''provider_mutation_allowed'',
      ''verification_boundary_digest'', ''verifier_observation_digest'', ''strength_revision'',
      ''strength_digest'']"

definition verification_strength_claims :: "verification_strength \<Rightarrow> (string \<times> json) list" where
  "verification_strength_claims c =
     [(''schema_version'', JInt 1), (''strength_type'', JStr ''verification-strength/v1''),
      (''strength_class'', JStr (vs_strength_class c)),
      (''independence_class'', JStr (vs_independence_class c)),
      (''temporal_model'', JStr (vs_temporal_model c)),
      (''target_binding_exact'', JBool (vs_target_binding_exact c)),
      (''identity_separation'', JBool (vs_identity_separation c)),
      (''provider_instance_separation'', JBool (vs_provider_instance_separation c)),
      (''credential_separation'', JBool (vs_credential_separation c)),
      (''provider_readback'', JBool (vs_provider_readback c)),
      (''atomic_readback'', JBool (vs_atomic_readback c)),
      (''effect_ceiling'', JStr (vs_effect_ceiling c)),
      (''provider_mutation_allowed'', JBool (vs_provider_mutation_allowed c)),
      (''verification_boundary_digest'', JStr (vs_verification_boundary_digest c)),
      (''verifier_observation_digest'', JStr (vs_verifier_observation_digest c)),
      (''strength_revision'', JStr (vs_strength_revision c))]"

definition verification_strength_to_dict :: "verification_strength \<Rightarrow> (string \<times> json) list" where
  "verification_strength_to_dict c = verification_strength_claims c @ [(''strength_digest'', JStr (vs_strength_digest c))]"

definition verification_strength_of :: "(string \<Rightarrow> json) \<Rightarrow> verification_strength" where
  "verification_strength_of d =
     \<lparr>vs_strength_class = str_of (d ''strength_class''),
      vs_independence_class = str_of (d ''independence_class''),
      vs_temporal_model = str_of (d ''temporal_model''),
      vs_target_binding_exact = boolval (d ''target_binding_exact''),
      vs_identity_separation = boolval (d ''identity_separation''),
      vs_provider_instance_separation = boolval (d ''provider_instance_separation''),
      vs_credential_separation = boolval (d ''credential_separation''),
      vs_provider_readback = boolval (d ''provider_readback''),
      vs_atomic_readback = boolval (d ''atomic_readback''),
      vs_effect_ceiling = str_of (d ''effect_ceiling''),
      vs_provider_mutation_allowed = boolval (d ''provider_mutation_allowed''),
      vs_verification_boundary_digest = str_of (d ''verification_boundary_digest''),
      vs_verifier_observation_digest = str_of (d ''verifier_observation_digest''),
      vs_strength_revision = str_of (d ''strength_revision''),
      vs_strength_digest = str_of (d ''strength_digest'')\<rparr>"

definition verification_strength_init :: "(string \<Rightarrow> string) \<Rightarrow> (string \<Rightarrow> json) \<Rightarrow> verification_strength res" where
  "verification_strength_init H d =
     thenE (for_each (check_text d)
       [''strength_class'', ''independence_class'', ''temporal_model'', ''effect_ceiling'',
        ''strength_revision''])
    (thenE (for_each (check_digest d)
       [''verification_boundary_digest'', ''verifier_observation_digest'', ''strength_digest''])
    (thenE (guardE (d ''strength_class'' = JStr independent_provider_readback) (ValueError ''strength_class''))
    (thenE (guardE (d ''independence_class'' = JStr independence_class) (ValueError ''independence_class''))
    (thenE (guardE (d ''temporal_model'' = JStr sequential_readback) (ValueError ''temporal_model''))
    (thenE (guardE (d ''target_binding_exact'' = JBool True) (ValueError ''target_binding_exact''))
    (thenE (guardE (d ''identity_separation'' = JBool True) (ValueError ''identity_separation''))
    (thenE (guardE (d ''provider_instance_separation'' = JBool True) (ValueError ''provider_instance_separation''))
    (thenE (guardE (d ''credential_separation'' = JBool True) (ValueError ''credential_separation''))
    (thenE (guardE (d ''provider_readback'' = JBool True) (ValueError ''provider_readback''))
    (thenE (guardE (d ''atomic_readback'' = JBool False) (ValueError ''atomic_readback''))
    (thenE (guardE (d ''effect_ceiling'' = JStr ''READ_ONLY'') (ValueError ''effect_ceiling''))
    (thenE (guardE (d ''provider_mutation_allowed'' = JBool False) (ValueError ''provider_mutation_allowed''))
      ((let c = verification_strength_of d in thenE (guardE (vs_strength_digest c = claims_digest H (verification_strength_claims c))
        (ValueError ''strength_digest'')) (Inr c)))))))))))))))"

definition verification_strength_ok :: "(string \<Rightarrow> string) \<Rightarrow> verification_strength \<Rightarrow> bool" where
  "verification_strength_ok H c \<longleftrightarrow>
     list_all text_ok
        [vs_strength_class c, vs_independence_class c, vs_temporal_model c, vs_effect_ceiling c,
         vs_strength_revision c]
     \<and> list_all digest_ok
        [vs_verification_boundary_digest c, vs_verifier_observation_digest c, vs_strength_digest c]
     \<and> vs_strength_class c = independent_provider_readback
     \<and> vs_independence_class c = independence_class
     \<and> vs_temporal_model c = sequential_readback
     \<and> vs_target_binding_exact c
     \<and> vs_identity_separation c
     \<and> vs_provider_instance_separation c
     \<and> vs_credential_separation c
     \<and> vs_provider_readback c
     \<and> \<not> vs_atomic_readback c
     \<and> vs_effect_ceiling c = ''READ_ONLY''
     \<and> \<not> vs_provider_mutation_allowed c
     \<and> vs_strength_digest c = claims_digest H (verification_strength_claims c)"

definition verification_strength_from_dict :: "(string \<Rightarrow> string) \<Rightarrow> json \<Rightarrow> verification_strength res" where
  "verification_strength_from_dict H =
     contract_from_dict 1 verification_strength_fields ''strength_type'' ''verification-strength/v1'' (verification_strength_init H)"

lemma verification_strength_of_sel [simp]:
  "vs_strength_class (verification_strength_of d) = str_of (d ''strength_class'')"
  "vs_independence_class (verification_strength_of d) = str_of (d ''independence_class'')"
  "vs_temporal_model (verification_strength_of d) = str_of (d ''temporal_model'')"
  "vs_target_binding_exact (verification_strength_of d) = boolval (d ''target_binding_exact'')"
  "vs_identity_separation (verification_strength_of d) = boolval (d ''identity_separation'')"
  "vs_provider_instance_separation (verification_strength_of d) = boolval (d ''provider_instance_separation'')"
  "vs_credential_separation (verification_strength_of d) = boolval (d ''credential_separation'')"
  "vs_provider_readback (verification_strength_of d) = boolval (d ''provider_readback'')"
  "vs_atomic_readback (verification_strength_of d) = boolval (d ''atomic_readback'')"
  "vs_effect_ceiling (verification_strength_of d) = str_of (d ''effect_ceiling'')"
  "vs_provider_mutation_allowed (verification_strength_of d) = boolval (d ''provider_mutation_allowed'')"
  "vs_verification_boundary_digest (verification_strength_of d) = str_of (d ''verification_boundary_digest'')"
  "vs_verifier_observation_digest (verification_strength_of d) = str_of (d ''verifier_observation_digest'')"
  "vs_strength_revision (verification_strength_of d) = str_of (d ''strength_revision'')"
  "vs_strength_digest (verification_strength_of d) = str_of (d ''strength_digest'')"
  by (simp_all add: verification_strength_of_def)

lemma verification_strength_claims_determine:
  "map snd (verification_strength_claims c) = map snd (verification_strength_claims c') \<Longrightarrow> vs_strength_digest c = vs_strength_digest c' \<Longrightarrow> c = c'"
  by (simp add: verification_strength_claims_def)

lemma verification_strength_init_iff:
  "verification_strength_init H d = Inr c \<longleftrightarrow> verification_strength_ok H c
     \<and> list_all (\<lambda>(f, v). d f = v) (drop 2 (verification_strength_claims c) @ [(''strength_digest'', JStr (vs_strength_digest c))])"
  (is "?L \<longleftrightarrow> _ \<and> ?D c")
proof
  assume L: ?L
  then have c: "c = verification_strength_of d"
    unfolding verification_strength_init_def Let_def init_res_simps by blast
  have "verification_strength_ok H c" using L unfolding c verification_strength_init_def verification_strength_ok_def Let_def init_res_simps
    by (clarsimp simp: instant_at_def)
  moreover have "?D c" unfolding c
    by (simp add: verification_strength_claims_def init_simps)
      (use L in \<open>clarsimp simp: verification_strength_init_def Let_def init_res_simps\<close>)
  ultimately show "verification_strength_ok H c \<and> ?D c" ..
next
  assume R: "verification_strength_ok H c \<and> ?D c"
  then have c: "verification_strength_of d = c" by (simp add: verification_strength_of_def verification_strength_claims_def)
  note d = R [THEN conjunct2, unfolded verification_strength_claims_def]
  show ?L using R [THEN conjunct1] d unfolding verification_strength_init_def c Let_def
    by (clarsimp simp: verification_strength_ok_def init_res_simps instant_at_def)
qed

interpretation strength: content_bound H verification_strength_claims vs_strength_digest "verification_strength_ok H" 1 verification_strength_fields
  "''strength_type''" "''verification-strength/v1''" "''strength_digest''" "verification_strength_init H" for H
proof
  show "flat (verification_strength_claims c)" for c by (simp add: flat_def verification_strength_claims_def)
  show "map fst (verification_strength_claims c) = map fst (verification_strength_claims c')" for c c' by (simp add: verification_strength_claims_def)
  show "verification_strength_fields = map fst (verification_strength_claims c) @ [''strength_digest'']" for c
    by (simp add: verification_strength_fields_def verification_strength_claims_def)
  show "''strength_digest'' \<notin> fst ` set (verification_strength_claims c)" for c by (simp add: verification_strength_claims_def)
  show "take 2 (verification_strength_claims c) = [(''schema_version'', JInt 1), (''strength_type'', JStr ''verification-strength/v1'')]" for c
    by (simp add: verification_strength_claims_def)
  show "verification_strength_ok H c \<Longrightarrow> vs_strength_digest c = claims_digest H (verification_strength_claims c)" for c
    by (simp add: verification_strength_ok_def)
qed (rule verification_strength_claims_determine verification_strength_init_iff; assumption?)+

lemma verification_strength_claims_seal [simp]: "verification_strength_claims (c\<lparr>vs_strength_digest := x\<rparr>) = verification_strength_claims c"
  by (simp add: verification_strength_claims_def)

lemma verification_strength_dict_eq: "verification_strength_to_dict c = strength.dict c"
  by (simp add: verification_strength_to_dict_def strength.dict_def)

lemma verification_strength_sealed: "verification_strength_init H (item (verification_strength_to_dict c)) = Inr c' \<longleftrightarrow> c' = c \<and> verification_strength_ok H c"
  by (simp add: verification_strength_dict_eq strength.init_dict_iff)

definition verification_strength_create ::
  "(string \<Rightarrow> string) \<Rightarrow> string \<Rightarrow> string \<Rightarrow> string \<Rightarrow> verification_strength res" where
  "verification_strength_create H boundary_digest observation_digest strength_revision =
     (let c = \<lparr>vs_strength_class = independent_provider_readback,
              vs_independence_class = independence_class,
              vs_temporal_model = sequential_readback, vs_target_binding_exact = True,
              vs_identity_separation = True, vs_provider_instance_separation = True,
              vs_credential_separation = True, vs_provider_readback = True,
              vs_atomic_readback = False, vs_effect_ceiling = ''READ_ONLY'',
              vs_provider_mutation_allowed = False,
              vs_verification_boundary_digest = boundary_digest,
              vs_verifier_observation_digest = observation_digest,
              vs_strength_revision = strength_revision, vs_strength_digest = []\<rparr>
       in verification_strength_init H (item (verification_strength_to_dict (c\<lparr>vs_strength_digest := claims_digest H (verification_strength_claims c)\<rparr>))))"

subsection \<open>The result\<close>

record verification_result =
  vr_execution_id :: string
  vr_execution_epoch :: int
  vr_target_digest :: string
  vr_runner_observation_digest :: string
  vr_verifier_observation_digest :: string
  vr_observed_post_state_digest :: string
  vr_verification_boundary_digest :: string
  vr_verifier_id :: string
  vr_verifier_identity_digest :: string
  vr_verification_strength_digest :: string
  vr_verification_strength_class :: string
  vr_verdict :: string
  vr_reason :: string
  vr_checked_at :: string
  vr_result_revision :: string
  vr_result_digest :: string

definition verification_result_fields :: "string list" where
  "verification_result_fields =
     [''schema_version'', ''result_type'', ''execution_id'', ''execution_epoch'',
      ''target_digest'', ''runner_observation_digest'', ''verifier_observation_digest'',
      ''observed_post_state_digest'', ''verification_boundary_digest'', ''verifier_id'',
      ''verifier_identity_digest'', ''verification_strength_digest'',
      ''verification_strength_class'', ''verdict'', ''reason'', ''checked_at'',
      ''result_revision'', ''result_digest'']"

definition verification_result_claims :: "verification_result \<Rightarrow> (string \<times> json) list" where
  "verification_result_claims c =
     [(''schema_version'', JInt 1), (''result_type'', JStr ''verification-result/v1''),
      (''execution_id'', JStr (vr_execution_id c)),
      (''execution_epoch'', JInt (vr_execution_epoch c)),
      (''target_digest'', JStr (vr_target_digest c)),
      (''runner_observation_digest'', JStr (vr_runner_observation_digest c)),
      (''verifier_observation_digest'', JStr (vr_verifier_observation_digest c)),
      (''observed_post_state_digest'', JStr (vr_observed_post_state_digest c)),
      (''verification_boundary_digest'', JStr (vr_verification_boundary_digest c)),
      (''verifier_id'', JStr (vr_verifier_id c)),
      (''verifier_identity_digest'', JStr (vr_verifier_identity_digest c)),
      (''verification_strength_digest'', JStr (vr_verification_strength_digest c)),
      (''verification_strength_class'', JStr (vr_verification_strength_class c)),
      (''verdict'', JStr (vr_verdict c)), (''reason'', JStr (vr_reason c)),
      (''checked_at'', JStr (vr_checked_at c)), (''result_revision'', JStr (vr_result_revision c))]"

definition verification_result_to_dict :: "verification_result \<Rightarrow> (string \<times> json) list" where
  "verification_result_to_dict c = verification_result_claims c @ [(''result_digest'', JStr (vr_result_digest c))]"

definition verification_result_of :: "(string \<Rightarrow> json) \<Rightarrow> verification_result" where
  "verification_result_of d =
     \<lparr>vr_execution_id = str_of (d ''execution_id''),
      vr_execution_epoch = intval (d ''execution_epoch''),
      vr_target_digest = str_of (d ''target_digest''),
      vr_runner_observation_digest = str_of (d ''runner_observation_digest''),
      vr_verifier_observation_digest = str_of (d ''verifier_observation_digest''),
      vr_observed_post_state_digest = str_of (d ''observed_post_state_digest''),
      vr_verification_boundary_digest = str_of (d ''verification_boundary_digest''),
      vr_verifier_id = str_of (d ''verifier_id''),
      vr_verifier_identity_digest = str_of (d ''verifier_identity_digest''),
      vr_verification_strength_digest = str_of (d ''verification_strength_digest''),
      vr_verification_strength_class = str_of (d ''verification_strength_class''),
      vr_verdict = str_of (d ''verdict''), vr_reason = str_of (d ''reason''),
      vr_checked_at = str_of (d ''checked_at''),
      vr_result_revision = str_of (d ''result_revision''),
      vr_result_digest = str_of (d ''result_digest'')\<rparr>"

definition verification_result_init :: "(string \<Rightarrow> string) \<Rightarrow> (string \<Rightarrow> json) \<Rightarrow> verification_result res" where
  "verification_result_init H d =
     thenE (for_each (check_text d)
       [''execution_id'', ''verification_strength_class'', ''verdict'', ''reason'',
        ''result_revision''])
    (thenE (for_each (check_digest d)
       [''target_digest'', ''runner_observation_digest'', ''verifier_observation_digest'',
        ''observed_post_state_digest'', ''verification_boundary_digest'', ''verifier_id'',
        ''verifier_identity_digest'', ''verification_strength_digest'', ''result_digest''])
    (bindE (require_epoch ''execution_epoch'' (d ''execution_epoch'')) (\<lambda>_.
     bindE (require_timestamp ''checked_at'' (d ''checked_at'')) (\<lambda>_.
     thenE (guardE (d ''verification_strength_class'' = JStr independent_provider_readback) (ValueError ''verification_strength_class''))
    (thenE (guardE (str_of (d ''verdict'') \<in> {''VERIFIED'', ''NOT_VERIFIED''}) (ValueError ''verdict''))
    (thenE (guardE (str_of (d ''reason'') \<in> {''OBSERVED_STATE_MATCH'', ''OBSERVED_STATE_MISMATCH''}) (ValueError ''reason''))
    (thenE (guardE (\<not> (str_of (d ''verdict'') = ''VERIFIED'' \<and> str_of (d ''reason'') \<noteq> ''OBSERVED_STATE_MATCH'')) (ValueError ''verdict''))
    (thenE (guardE (\<not> (str_of (d ''verdict'') = ''NOT_VERIFIED'' \<and> str_of (d ''reason'') \<noteq> ''OBSERVED_STATE_MISMATCH'')) (ValueError ''verdict''))
      ((let c = verification_result_of d in thenE (guardE (vr_result_digest c = claims_digest H (verification_result_claims c))
        (ValueError ''result_digest'')) (Inr c)))))))))))"

definition verification_result_ok :: "(string \<Rightarrow> string) \<Rightarrow> verification_result \<Rightarrow> bool" where
  "verification_result_ok H c \<longleftrightarrow>
     list_all text_ok
        [vr_execution_id c, vr_verification_strength_class c, vr_verdict c, vr_reason c,
         vr_result_revision c]
     \<and> list_all digest_ok
        [vr_target_digest c, vr_runner_observation_digest c, vr_verifier_observation_digest c,
         vr_observed_post_state_digest c, vr_verification_boundary_digest c, vr_verifier_id c,
         vr_verifier_identity_digest c, vr_verification_strength_digest c, vr_result_digest c]
     \<and> 1 \<le> vr_execution_epoch c
     \<and> time_ok (vr_checked_at c)
     \<and> vr_verification_strength_class c = independent_provider_readback
     \<and> vr_verdict c \<in> {''VERIFIED'', ''NOT_VERIFIED''}
     \<and> vr_reason c \<in> {''OBSERVED_STATE_MATCH'', ''OBSERVED_STATE_MISMATCH''}
     \<and> \<not> (vr_verdict c = ''VERIFIED'' \<and> vr_reason c \<noteq> ''OBSERVED_STATE_MATCH'')
     \<and> \<not> (vr_verdict c = ''NOT_VERIFIED'' \<and> vr_reason c \<noteq> ''OBSERVED_STATE_MISMATCH'')
     \<and> vr_result_digest c = claims_digest H (verification_result_claims c)"

definition verification_result_from_dict :: "(string \<Rightarrow> string) \<Rightarrow> json \<Rightarrow> verification_result res" where
  "verification_result_from_dict H =
     contract_from_dict 1 verification_result_fields ''result_type'' ''verification-result/v1'' (verification_result_init H)"

lemma verification_result_of_sel [simp]:
  "vr_execution_id (verification_result_of d) = str_of (d ''execution_id'')"
  "vr_execution_epoch (verification_result_of d) = intval (d ''execution_epoch'')"
  "vr_target_digest (verification_result_of d) = str_of (d ''target_digest'')"
  "vr_runner_observation_digest (verification_result_of d) = str_of (d ''runner_observation_digest'')"
  "vr_verifier_observation_digest (verification_result_of d) = str_of (d ''verifier_observation_digest'')"
  "vr_observed_post_state_digest (verification_result_of d) = str_of (d ''observed_post_state_digest'')"
  "vr_verification_boundary_digest (verification_result_of d) = str_of (d ''verification_boundary_digest'')"
  "vr_verifier_id (verification_result_of d) = str_of (d ''verifier_id'')"
  "vr_verifier_identity_digest (verification_result_of d) = str_of (d ''verifier_identity_digest'')"
  "vr_verification_strength_digest (verification_result_of d) = str_of (d ''verification_strength_digest'')"
  "vr_verification_strength_class (verification_result_of d) = str_of (d ''verification_strength_class'')"
  "vr_verdict (verification_result_of d) = str_of (d ''verdict'')"
  "vr_reason (verification_result_of d) = str_of (d ''reason'')"
  "vr_checked_at (verification_result_of d) = str_of (d ''checked_at'')"
  "vr_result_revision (verification_result_of d) = str_of (d ''result_revision'')"
  "vr_result_digest (verification_result_of d) = str_of (d ''result_digest'')"
  by (simp_all add: verification_result_of_def)

lemma verification_result_claims_determine:
  "map snd (verification_result_claims c) = map snd (verification_result_claims c') \<Longrightarrow> vr_result_digest c = vr_result_digest c' \<Longrightarrow> c = c'"
  by (simp add: verification_result_claims_def)

lemma verification_result_init_iff:
  "verification_result_init H d = Inr c \<longleftrightarrow> verification_result_ok H c
     \<and> list_all (\<lambda>(f, v). d f = v) (drop 2 (verification_result_claims c) @ [(''result_digest'', JStr (vr_result_digest c))])"
  (is "?L \<longleftrightarrow> _ \<and> ?D c")
proof
  assume L: ?L
  then have c: "c = verification_result_of d"
    unfolding verification_result_init_def Let_def init_res_simps by blast
  have "verification_result_ok H c" using L unfolding c verification_result_init_def verification_result_ok_def Let_def init_res_simps
    by (clarsimp simp: instant_at_def)
  moreover have "?D c" unfolding c
    by (simp add: verification_result_claims_def init_simps)
      (use L in \<open>clarsimp simp: verification_result_init_def Let_def init_res_simps\<close>)
  ultimately show "verification_result_ok H c \<and> ?D c" ..
next
  assume R: "verification_result_ok H c \<and> ?D c"
  then have c: "verification_result_of d = c" by (simp add: verification_result_of_def verification_result_claims_def)
  note d = R [THEN conjunct2, unfolded verification_result_claims_def]
  show ?L using R [THEN conjunct1] d unfolding verification_result_init_def c Let_def
    by (clarsimp simp: verification_result_ok_def init_res_simps instant_at_def)
qed

interpretation verdict: content_bound H verification_result_claims vr_result_digest "verification_result_ok H" 1 verification_result_fields
  "''result_type''" "''verification-result/v1''" "''result_digest''" "verification_result_init H" for H
proof
  show "flat (verification_result_claims c)" for c by (simp add: flat_def verification_result_claims_def)
  show "map fst (verification_result_claims c) = map fst (verification_result_claims c')" for c c' by (simp add: verification_result_claims_def)
  show "verification_result_fields = map fst (verification_result_claims c) @ [''result_digest'']" for c
    by (simp add: verification_result_fields_def verification_result_claims_def)
  show "''result_digest'' \<notin> fst ` set (verification_result_claims c)" for c by (simp add: verification_result_claims_def)
  show "take 2 (verification_result_claims c) = [(''schema_version'', JInt 1), (''result_type'', JStr ''verification-result/v1'')]" for c
    by (simp add: verification_result_claims_def)
  show "verification_result_ok H c \<Longrightarrow> vr_result_digest c = claims_digest H (verification_result_claims c)" for c
    by (simp add: verification_result_ok_def)
qed (rule verification_result_claims_determine verification_result_init_iff; assumption?)+

lemma verification_result_claims_seal [simp]: "verification_result_claims (c\<lparr>vr_result_digest := x\<rparr>) = verification_result_claims c"
  by (simp add: verification_result_claims_def)

lemma verification_result_dict_eq: "verification_result_to_dict c = verdict.dict c"
  by (simp add: verification_result_to_dict_def verdict.dict_def)

lemma verification_result_sealed: "verification_result_init H (item (verification_result_to_dict c)) = Inr c' \<longleftrightarrow> c' = c \<and> verification_result_ok H c"
  by (simp add: verification_result_dict_eq verdict.init_dict_iff)

subsection \<open>The evidence and the verdict\<close>

definition evidence_bindings ::
  "ref_observation \<Rightarrow> verifier_observation \<Rightarrow> verification_boundary \<Rightarrow> (string \<times> bool) list" where
  "evidence_bindings r v b =
     [(''boundary_runner_observation'', vb_runner_observation_digest b = go_observation_digest r),
      (''boundary_runner_id'', vb_runner_id b = go_runner_id r),
      (''boundary_runner_instance'', vb_runner_provider_instance_id b = go_provider_instance_id r),
      (''boundary_runner_boundary'', vb_runner_boundary_digest b = go_runner_boundary_digest r),
      (''boundary_target'', vb_target_digest b = go_target_digest r),
      (''boundary_execution'', vb_execution_id b = go_execution_id r),
      (''boundary_epoch'', vb_execution_epoch b = go_execution_epoch r),
      (''verifier_boundary'', vo_verification_boundary_digest v = vb_boundary_digest b),
      (''verifier_runner_observation'', vo_runner_observation_digest v = go_observation_digest r),
      (''verifier_target'', vo_target_digest v = go_target_digest r),
      (''verifier_execution'', vo_execution_id v = go_execution_id r),
      (''verifier_epoch'', vo_execution_epoch v = go_execution_epoch r),
      (''verifier_id'', vo_verifier_id v = vb_verifier_id b),
      (''verifier_identity'', vo_verifier_identity_digest v = vb_verifier_identity_digest b),
      (''verifier_provider'', vo_provider v = vb_verifier_provider b),
      (''verifier_instance'', vo_provider_instance_id v = vb_verifier_provider_instance_id b)]"

definition binding_mismatches ::
  "ref_observation \<Rightarrow> verifier_observation \<Rightarrow> verification_boundary \<Rightarrow> string list" where
  "binding_mismatches r v b = sort (map fst (filter (\<lambda>(name, holds). \<not> holds) (evidence_bindings r v b)))"

definition assert_evidence_bound ::
  "ref_observation \<Rightarrow> verifier_observation \<Rightarrow> verification_boundary \<Rightarrow> unit res" where
  "assert_evidence_bound r v b =
     thenE (guardE (binding_mismatches r v b = [])
       (PermissionError (''VERIFICATION_EVIDENCE_BINDING_MISMATCH:'' @ join (binding_mismatches r v b))))
    (thenE (guardE (vo_repository v = go_repository r \<and> vo_ref v = go_ref r)
       (PermissionError ''VERIFICATION_TARGET_CLAIMS_MISMATCH''))
      (bindE (require_timestamp ''runner_observation.observed_at'' (JStr (go_observed_at r))) (\<lambda>runner_observed.
       bindE (require_timestamp ''verifier_observation.observed_at'' (JStr (vo_observed_at v))) (\<lambda>verifier_observed.
       guardE (\<not> instant verifier_observed < instant runner_observed)
         (PermissionError ''VERIFIER_OBSERVATION_PRECEDES_RUNNER_OBSERVATION'')))))"

definition evidence_bound :: "ref_observation \<Rightarrow> verifier_observation \<Rightarrow> verification_boundary \<Rightarrow> bool" where
  "evidence_bound r v b \<longleftrightarrow>
     vb_runner_observation_digest b = go_observation_digest r
     \<and> vb_runner_id b = go_runner_id r
     \<and> vb_runner_provider_instance_id b = go_provider_instance_id r
     \<and> vb_runner_boundary_digest b = go_runner_boundary_digest r
     \<and> vb_target_digest b = go_target_digest r
     \<and> vb_execution_id b = go_execution_id r
     \<and> vb_execution_epoch b = go_execution_epoch r
     \<and> vo_verification_boundary_digest v = vb_boundary_digest b
     \<and> vo_runner_observation_digest v = go_observation_digest r
     \<and> vo_target_digest v = go_target_digest r
     \<and> vo_execution_id v = go_execution_id r
     \<and> vo_execution_epoch v = go_execution_epoch r
     \<and> vo_verifier_id v = vb_verifier_id b
     \<and> vo_verifier_identity_digest v = vb_verifier_identity_digest b
     \<and> vo_provider v = vb_verifier_provider b
     \<and> vo_provider_instance_id v = vb_verifier_provider_instance_id b
     \<and> vo_repository v = go_repository r \<and> vo_ref v = go_ref r
     \<and> time_ok (go_observed_at r) \<and> time_ok (vo_observed_at v)
     \<and> instant_at (go_observed_at r) \<le> instant_at (vo_observed_at v)"

lemma sort_eq_Nil: "sort xs = [] \<longleftrightarrow> xs = []"
  by (metis set_empty set_sort)

lemma assert_evidence_bound_iff: "assert_evidence_bound r v b = Inr () \<longleftrightarrow> evidence_bound r v b"
proof -
  have "binding_mismatches r v b = [] \<longleftrightarrow> (\<forall>(name, holds) \<in> set (evidence_bindings r v b). holds)"
    by (auto simp: binding_mismatches_def sort_eq_Nil filter_empty_conv)
  then show ?thesis
    unfolding assert_evidence_bound_def evidence_bound_def
    by (simp add: thenE_eq_Inr bindE_eq_Inr guardE_eq_Inr init_simps instant_at_def evidence_bindings_def)
      (auto simp: not_less)
qed

definition readback_state :: "verifier_observation \<Rightarrow> verification_boundary \<Rightarrow> string \<Rightarrow> post_state" where
  "readback_state v b state_revision =
     \<lparr>ps_execution_id = vo_execution_id v, ps_execution_epoch = vo_execution_epoch v,
      ps_target_digest = vo_target_digest v, ps_state_kind = ''git_ref'',
      ps_state_claims = [(''repository'', vo_repository v), (''ref'', vo_ref v), (''commit_sha'', vo_commit_sha v)],
      ps_provider = vo_provider v, ps_provider_instance_id = vo_provider_instance_id v,
      ps_source_identity = vo_source_identity v, ps_verifier_id = vo_verifier_id v,
      ps_verifier_identity_digest = vo_verifier_identity_digest v,
      ps_verification_boundary_digest = vb_boundary_digest b,
      ps_verifier_observation_digest = vo_observation_digest v, ps_observed_at = vo_observed_at v,
      ps_state_revision = state_revision, ps_state_digest = []\<rparr>"

definition readback_result ::
  "ref_observation \<Rightarrow> verifier_observation \<Rightarrow> verification_boundary \<Rightarrow> post_state \<Rightarrow> verification_strength \<Rightarrow> string \<Rightarrow>
   verification_result" where
  "readback_result r v b state strength result_revision =
     \<lparr>vr_execution_id = vo_execution_id v, vr_execution_epoch = vo_execution_epoch v,
      vr_target_digest = vo_target_digest v, vr_runner_observation_digest = go_observation_digest r,
      vr_verifier_observation_digest = vo_observation_digest v,
      vr_observed_post_state_digest = ps_state_digest state,
      vr_verification_boundary_digest = vb_boundary_digest b, vr_verifier_id = vo_verifier_id v,
      vr_verifier_identity_digest = vo_verifier_identity_digest v,
      vr_verification_strength_digest = vs_strength_digest strength,
      vr_verification_strength_class = vs_strength_class strength,
      vr_verdict = (if vo_commit_sha v = go_commit_sha r then ''VERIFIED'' else ''NOT_VERIFIED''),
      vr_reason = (if vo_commit_sha v = go_commit_sha r then ''OBSERVED_STATE_MATCH'' else ''OBSERVED_STATE_MISMATCH''),
      vr_checked_at = vo_observed_at v, vr_result_revision = result_revision, vr_result_digest = []\<rparr>"

text \<open>\<open>VerificationResult.create\<close>: the keyword arguments are the fields of \<open>c\<close>, its digest empty.\<close>

definition verification_result_create :: "(string \<Rightarrow> string) \<Rightarrow> verification_result \<Rightarrow> verification_result res" where
  "verification_result_create H c = verification_result_init H
     (item (verification_result_to_dict (c\<lparr>vr_result_digest := claims_digest H (verification_result_claims c)\<rparr>)))"

definition verify_readback ::
  "(string \<Rightarrow> string) \<Rightarrow> ref_observation \<Rightarrow> verifier_observation \<Rightarrow> verification_boundary \<Rightarrow> string \<Rightarrow> string \<Rightarrow> string \<Rightarrow>
   (post_state \<times> verification_strength \<times> verification_result) res" where
  "verify_readback H r v b state_revision strength_revision result_revision =
     thenE (assert_evidence_bound r v b)
    (thenE (check_texts [(''observed_post_state_revision'', state_revision), (''strength_revision'', strength_revision),
       (''result_revision'', result_revision)])
      (bindE (post_state_create H (readback_state v b state_revision)) (\<lambda>state.
       bindE (verification_strength_create H (vb_boundary_digest b) (vo_observation_digest v) strength_revision) (\<lambda>strength.
       bindE (verification_result_create H (readback_result r v b state strength result_revision)) (\<lambda>result.
       Inr (state, strength, result))))))"

lemma verification_strength_create_eq_Inr:
  assumes "verification_strength_create H boundary observation rv = Inr c"
  shows "verification_strength_ok H c \<and> vs_verification_boundary_digest c = boundary
     \<and> vs_verifier_observation_digest c = observation"
  using assms by (auto simp: verification_strength_create_def Let_def verification_strength_sealed)

lemma verification_result_create_eq_Inr:
  assumes "verification_result_create H c = Inr c'"
  shows "verification_result_ok H c' \<and> c' = c\<lparr>vr_result_digest := claims_digest H (verification_result_claims c)\<rparr>"
  using assms by (auto simp: verification_result_create_def verification_result_sealed)

lemma verify_readback_eq_Inr:
  assumes "verify_readback H r v b rv1 rv2 rv3 = Inr (state, strength, result)"
  shows "evidence_bound r v b \<and> post_state_create H (readback_state v b rv1) = Inr state
     \<and> verification_strength_ok H strength \<and> vs_verification_boundary_digest strength = vb_boundary_digest b
     \<and> vs_verifier_observation_digest strength = vo_observation_digest v
     \<and> verification_result_ok H result
     \<and> result = (readback_result r v b state strength rv3)\<lparr>vr_result_digest :=
          claims_digest H (verification_result_claims (readback_result r v b state strength rv3))\<rparr>"
  using assms unfolding verify_readback_def bindE_eq_Inr thenE_eq_Inr assert_evidence_bound_iff
  by (blast dest: verification_strength_create_eq_Inr verification_result_create_eq_Inr)

end
