(* ===== verification/Verification_Store.thy ===== *)
theory Verification_Store
  imports Verification_Result Grant_Lifecycle
begin

text \<open>
  The store of final verification results (\<open>verification_result_persistence.py\<close>, migration \<open>0015\<close>): one
  immutable row per execution, accepted by the database only for an execution that was completed in that
  epoch with the digest of the runner's observation, and for the target of its dispatch intent.
\<close>

subsection \<open>The table\<close>

record result_row =
  vc_cols :: verification_result
  vc_result_json :: string

record result_db =
  rd_trust :: trust_db
  rd_results :: "result_row list"

abbreviation vc_execution_id :: "result_row \<Rightarrow> string" where
  "vc_execution_id r \<equiv> vr_execution_id (vc_cols r)"

text \<open>\<open>trg_verification_results_v1_binding_insert\<close>\<close>

definition result_binding :: "trust_db \<Rightarrow> verification_result \<Rightarrow> bool" where
  "result_binding db c \<longleftrightarrow>
     list_ex (\<lambda>o1. list_ex (\<lambda>s.
        es_execution_id s = ox_execution_id (ob_cols o1)
        \<and> ox_execution_id (ob_cols o1) = vr_execution_id c \<and> ox_target_digest (ob_cols o1) = vr_target_digest c
        \<and> es_execution_id s = vr_execution_id c \<and> es_current_epoch s = vr_execution_epoch c
        \<and> es_status s = ''COMPLETED'' \<and> es_completion_digest s = Some (vr_runner_observation_digest c))
       (t_epochs db)) (t_outbox db)"

definition insert_result :: "result_db \<Rightarrow> result_row \<Rightarrow> result_db res" where
  "insert_result db r =
     (let c = vc_cols r in
     thenE (guardE
       (result_binding (rd_trust db) c
        \<and> key_free vc_execution_id (vr_execution_id c) (rd_results db)
        \<and> key_free (vr_result_digest \<circ> vc_cols) (vr_result_digest c) (rd_results db)
        \<and> vr_execution_id c \<in> set (map sr_execution_id (t_snapshots (rd_trust db)))
        \<and> 1 \<le> vr_execution_epoch c
        \<and> list_all digest_check [vr_target_digest c, vr_runner_observation_digest c, vr_verifier_observation_digest c,
             vr_observed_post_state_digest c, vr_verification_boundary_digest c, vr_verifier_id c,
             vr_verifier_identity_digest c, vr_verification_strength_digest c, vr_result_digest c]
        \<and> vr_verification_strength_class c = ''INDEPENDENT_PROVIDER_READBACK''
        \<and> list_all nonempty_check [vr_checked_at c, vr_result_revision c] \<and> json_check (vc_result_json r)
        \<and> (vr_verdict c = ''VERIFIED'' \<and> vr_reason c = ''OBSERVED_STATE_MATCH''
           \<or> vr_verdict c = ''NOT_VERIFIED'' \<and> vr_reason c = ''OBSERVED_STATE_MISMATCH''))
       IntegrityError)
      (Inr (db\<lparr>rd_results := rd_results db @ [r]\<rparr>)))"

subsection \<open>The operations\<close>

definition result_row_of :: "verification_result \<Rightarrow> result_row" where
  "result_row_of c = \<lparr>vc_cols = c, vc_result_json = canonical_json (JObj (verification_result_to_dict c))\<rparr>"

definition decode_result :: "(string \<Rightarrow> string) \<Rightarrow> result_row \<Rightarrow> verification_result res" where
  "decode_result H row =
     bindE (catchE is_decode_error
       (bindE (orRaise (json_loads (vc_result_json row)) (ValueError ''json'')) (\<lambda>raw.
        thenE (guardE (is_object raw \<and> canonical_json raw = vc_result_json row) (ValueError ''result_json''))
         (verification_result_from_dict H raw)))
       (PermissionError ''VERIFICATION_RESULT_ROW_INVALID'')) (\<lambda>c.
     thenE (guardE (vc_cols row = c) (PermissionError ''VERIFICATION_RESULT_ROW_BINDING_INVALID''))
      (Inr c))"

definition get_result :: "(string \<Rightarrow> string) \<Rightarrow> result_db \<Rightarrow> string \<Rightarrow> verification_result option res" where
  "get_result H db execution_id =
     thenE (guardE (execution_id \<noteq> [] \<and> CHR 0x00 \<notin> set execution_id) (ValueError ''execution_id''))
      (case select vc_execution_id execution_id (rd_results db) of
         None \<Rightarrow> Inr None
       | Some row \<Rightarrow> bindE (decode_result H row) (\<lambda>c. Inr (Some c)))"

definition store_result ::
  "(string \<Rightarrow> string) \<Rightarrow> result_db \<Rightarrow> verification_result \<Rightarrow> (verification_result \<times> result_db) res" where
  "store_result H db c =
     (case select vc_execution_id (vr_execution_id c) (rd_results db) of
        Some row \<Rightarrow>
          bindE (decode_result H row) (\<lambda>existing.
          thenE (guardE (existing = c) (RuntimeError ''VERIFICATION_RESULT_CONFLICT''))
           (Inr (existing, db)))
      | None \<Rightarrow>
          bindE (catchE is_IntegrityError (insert_result db (result_row_of c))
            (PermissionError ''VERIFICATION_RESULT_PERSISTENCE_DENIED'')) (\<lambda>db'.
          Inr (c, db')))"

subsection \<open>The steps of the system\<close>

text \<open>The grant and delivery services, and the store of results over the same database.\<close>

inductive verification_step :: "(string \<Rightarrow> string) \<Rightarrow> result_db \<Rightarrow> result_db \<Rightarrow> bool" for H where
  trust_service: "trust_step H (rd_trust db) t \<Longrightarrow> verification_step H db (db\<lparr>rd_trust := t\<rparr>)"
| result_service: "verification_result_ok H c \<Longrightarrow> store_result H db c = Inr (c', db') \<Longrightarrow> verification_step H db db'"

inductive_cases verification_step_elims: "verification_step H db db'"

inductive verification_reachable :: "(string \<Rightarrow> string) \<Rightarrow> result_db \<Rightarrow> bool" for H where
  verification_start: "pipeline_start (rd_trust db) \<Longrightarrow> rd_results db = [] \<Longrightarrow> verification_reachable H db"
| verification_reach: "verification_reachable H db \<Longrightarrow> verification_step H db db' \<Longrightarrow> verification_reachable H db'"

subsection \<open>Rows that decode\<close>

definition result_row_ok :: "(string \<Rightarrow> string) \<Rightarrow> result_row \<Rightarrow> bool" where
  "result_row_ok H r \<longleftrightarrow> verification_result_ok H (vc_cols r) \<and> r = result_row_of (vc_cols r)"

lemma result_stored: "vc_result_json (result_row_of c) = verdict.stored c"
  by (simp add: result_row_of_def verdict.stored_def verification_result_dict_eq)

lemma decode_result_row:
  assumes "result_row_ok H r"
  shows "decode_result H r = Inr (vc_cols r)"
proof -
  have json: "vc_result_json r = verdict.stored (vc_cols r)"
    using assms result_stored unfolding result_row_ok_def by metis
  have loads: "json_loads (verdict.stored (vc_cols r)) = Some (JObj (sort_key fst (verdict.dict (vc_cols r))))"
    unfolding verdict.stored_def by (rule json_loads_flat [OF verdict.flat_dict])
  then have "verification_result_from_dict H (JObj (sort_key fst (verdict.dict (vc_cols r)))) = Inr (vc_cols r)"
    using verdict.decode_stored [of H "vc_cols r"] assms
    by (auto simp: verification_result_from_dict_def result_row_ok_def)
  moreover have "canonical_json (JObj (sort_key fst (verdict.dict (vc_cols r)))) = verdict.stored (vc_cols r)"
    unfolding verdict.stored_def by (rule canonical_json_flat_sorted [OF verdict.flat_dict])
  ultimately show ?thesis by (simp add: decode_result_def json loads)
qed

lemma insert_result_eq_Inr:
  assumes "insert_result db r = Inr db'"
  shows "db' = db\<lparr>rd_results := rd_results db @ [r]\<rparr>" and "result_binding (rd_trust db) (vc_cols r)"
    and "key_free vc_execution_id (vc_execution_id r) (rd_results db)"
  using assms by (auto simp: insert_result_def Let_def thenE_eq_Inr guardE_eq_Inr)

text \<open>Storing either finds the same result or appends a row.\<close>

lemma store_result_cases:
  assumes "store_result H db c = Inr (c', db')"
  obtains (existing) row where "select vc_execution_id (vr_execution_id c) (rd_results db) = Some row"
      "decode_result H row = Inr c" "c' = c" "db' = db"
  | (inserted) "select vc_execution_id (vr_execution_id c) (rd_results db) = None" "c' = c"
      "insert_result db (result_row_of c) = Inr db'"
proof (cases "select vc_execution_id (vr_execution_id c) (rd_results db)")
  case None
  then have "c' = c \<and> insert_result db (result_row_of c) = Inr db'"
    using assms by (auto simp: store_result_def bindE_eq_Inr catchE_eq_Inr)
  then show thesis using inserted [OF None] by blast
next
  case (Some row)
  then have "decode_result H row = Inr c \<and> c' = c \<and> db' = db"
    using assms by (auto simp: store_result_def bindE_eq_Inr thenE_eq_Inr guardE_eq_Inr)
  then show thesis using existing [OF Some] by blast
qed

subsection \<open>Completed epochs stay\<close>

lemma trust_step_epochs:
  assumes "trust_step H db db'"
  shows "t_epochs db' = t_epochs db \<or> delivery_step H db db'"
  using assms
  by (elim trust_step.cases pipeline_step.cases) (auto dest!: store_tables handoff_tables consume_tables)

lemma trust_keeps_completed:
  assumes "trust_step H db db'" and "s \<in> set (t_epochs db)" and "es_status s = ''COMPLETED''"
  shows "s \<in> set (t_epochs db')"
  using trust_step_epochs [OF assms(1)] step_keeps_completed assms(2,3) by metis

lemma trust_step_binding:
  assumes "trust_step H db db'" and "result_binding db c"
  shows "result_binding db' c"
proof -
  have steps: "(trust_step H)\<^sup>*\<^sup>* db db'" using assms(1) by (rule r_into_rtranclp)
  obtain o1 s where "o1 \<in> set (t_outbox db)" "s \<in> set (t_epochs db)" and b:
      "es_execution_id s = ox_execution_id (ob_cols o1)" "ox_execution_id (ob_cols o1) = vr_execution_id c"
      "ox_target_digest (ob_cols o1) = vr_target_digest c" "es_execution_id s = vr_execution_id c"
      "es_current_epoch s = vr_execution_epoch c" "es_status s = ''COMPLETED''"
      "es_completion_digest s = Some (vr_runner_observation_digest c)"
    using assms(2) unfolding result_binding_def list_ex_iff by blast
  then have "o1 \<in> set (t_outbox db')" "s \<in> set (t_epochs db')"
    using intents.member_persists [OF steps] trust_keeps_completed [OF assms(1)] by blast+
  then show ?thesis using b unfolding result_binding_def list_ex_iff by blast
qed

subsection \<open>The invariant of the table\<close>

definition results_inv :: "(string \<Rightarrow> string) \<Rightarrow> result_db \<Rightarrow> bool" where
  "results_inv H db \<longleftrightarrow>
     unique_on vc_execution_id (rd_results db)
     \<and> (\<forall>r \<in> set (rd_results db). result_row_ok H r \<and> result_binding (rd_trust db) (vc_cols r))"

lemma verification_step_inv: "verification_step H db db' \<Longrightarrow> results_inv H db \<Longrightarrow> results_inv H db'"
proof (induction rule: verification_step.induct)
  case (trust_service db t)
  then show ?case using trust_step_binding [OF trust_service(1)] by (auto simp: results_inv_def)
next
  case (result_service c db c' db')
  from result_service(2) show ?case
  proof (cases rule: store_result_cases)
    case (existing row)
    then show ?thesis using result_service(3) by simp
  next
    case inserted
    note I = insert_result_eq_Inr [OF inserted(3)]
    have "vc_cols (result_row_of c) = c" by (simp add: result_row_of_def)
    then have "result_row_ok H (result_row_of c)" using result_service(1) by (simp add: result_row_ok_def)
    then show ?thesis using result_service(3) I by (auto simp: results_inv_def unique_on_snoc)
  qed
qed

lemma verification_reachable_inv: "verification_reachable H db \<Longrightarrow> results_inv H db"
proof (induction rule: verification_reachable.induct)
  case (verification_start db)
  then show ?case by (simp add: results_inv_def unique_on_def)
qed (blast intro: verification_step_inv)

lemma verification_results_grow: "verification_step H db db' \<Longrightarrow> \<exists>new. rd_results db' = rd_results db @ new"
  by (erule verification_step.cases) (auto elim!: store_result_cases dest: insert_result_eq_Inr(1))

interpretation results: growing_table "verification_step H" rd_results for H
  by unfold_locales (rule verification_results_grow)

lemma verification_steps_inv:
  "(verification_step H)\<^sup>*\<^sup>* db db' \<Longrightarrow> results_inv H db \<Longrightarrow> results_inv H db'"
  by (induction rule: rtranclp_induct) (auto intro: verification_step_inv)

end
