(* ===== verification/Verification_Properties.thy ===== *)
theory Verification_Properties
  imports Verification_Store Snapshot_Roundtrip
begin

text \<open>
  From the lease of a runner to the stored verdict: what a successful provider read guarantees, what the
  verdict of the independent readback means, and what a stored result stands for.
\<close>

subsection \<open>The delivery invariant in the larger system\<close>

lemma trust_step_delivery:
  assumes "trust_step H db db'" and "delivery_inv H db"
  shows "delivery_inv H db'"
  using assms(1)
proof cases
  case service_step
  then show ?thesis using pipeline_step_delivery assms(2) by blast
next
  case (consume_step svc ce cdb reading cid jti w)
  then show ?thesis
    using consume_tables [OF consume_step] assms(2) inbox_inv_cong [of db' db] lease_inv_cong [of db' db]
      epochs_inv_cong [of db' db] by (auto simp: delivery_inv_def)
qed

lemma verification_step_delivery:
  assumes "verification_step H db db'" and "delivery_inv H (rd_trust db)"
  shows "delivery_inv H (rd_trust db')"
  using assms(1)
proof cases
  case (trust_service t)
  then show ?thesis using trust_step_delivery assms(2) by simp
next
  case (result_service c c')
  from result_service(2) show ?thesis
    by (cases rule: store_result_cases) (use assms(2) in \<open>auto dest!: insert_result_eq_Inr(1)\<close>)
qed

lemma verification_reachable_delivery: "verification_reachable H db \<Longrightarrow> delivery_inv H (rd_trust db)"
proof (induction rule: verification_reachable.induct)
  case (verification_start db)
  then show ?case using reachable_inv [OF reach_start] by (simp add: pipeline_start_def)
qed (blast intro: verification_step_delivery)

subsection \<open>Reading as a runner\<close>

text \<open>
  (C15) A runner reads only inside its own, newest lease: when a prepared and activated runtime gets an
  observation from the provider, the capability is read-only and admitted by the broker's policy for its
  credential class and environment, the credential is valid exactly as long as the lease, and at the instant
  of the fence in front of the read the lease is valid while every other lease of its admission has
  expired.  The observation names that lease and the commit the provider answered for the bound target.
\<close>

theorem runner_reads_inside_newest_lease:
  assumes "prepare_runtime H ad l cp d = Inr p" and "ia_authorize ad = authorize_credential H br"
    and "activate_runtime H ad (assert_current H clk (rd_trust db1) reading1) p = Inr a"
    and "verification_reachable H db2"
    and "observe_ref H gh (assert_current H clk (rd_trust db2) reading2) reading3 p a t = Inr r"
  shows "cd_effect_class d = ''READ_ONLY''
    \<and> (\<exists>policy. br_policies br (cp_credential_class cp) = Some policy
         \<and> cd_definition_identity d \<in> set (bp_allowed_capability_definition_identities policy)
         \<and> le_environment l \<in> set (bp_enabled_environments policy))
    \<and> xd_valid_from (pp_decision p) = le_acquired_at l \<and> xd_expires_at (pp_decision p) = le_expires_at l
    \<and> (\<exists>row t2. row \<in> set (t_leases (rd_trust db2)) \<and> lr_cols row = l \<and> reading2 = AwareTime t2
         \<and> instant_at (le_acquired_at l) \<le> instant_at (iso_ms t2) \<and> instant_at (iso_ms t2) < instant_at (le_expires_at l)
         \<and> (\<forall>q \<in> set (t_leases (rd_trust db2)). le_admission_id (lr_cols q) = le_admission_id l \<and> q \<noteq> row \<longrightarrow>
              instant_at (le_expires_at (lr_cols q)) \<le> instant_at (iso_ms t2)))
    \<and> go_lease_digest r = le_lease_digest l \<and> go_execution_id r = le_execution_id l
    \<and> go_execution_epoch r = le_execution_epoch l \<and> go_target_digest r = et_target_digest t
    \<and> (\<exists>repository ref. parse_git_ref_target t = Inr (repository, ref)
         \<and> gh_read_ref gh repository ref = Inr (JStr (go_commit_sha r)))"
proof -
  note P = prepare_runtime_eq_Inr [OF assms(1)] and A = activate_runtime_eq_Inr [OF assms(3)]
    and O = observe_ref_eq_Inr [OF assms(5)]
  have l: "pp_lease p = l" using P by simp
  note B = runner_boundary_create_eq_Inr [of H "pp_identity p" l cp d _ "pp_boundary p"]
  have b: "rb_environment (pp_boundary p) = le_environment l" "rb_credential_class (pp_boundary p) = cp_credential_class cp"
      "rb_capability_definition_identity (pp_boundary p) = cd_definition_identity d" "cd_effect_class d = ''READ_ONLY''"
    using B P by blast+
  have "authorize_credential H br (pp_boundary p) l = Inr (pp_decision p)" using P assms(2) by simp
  then obtain policy where policy: "br_policies br (rb_credential_class (pp_boundary p)) = Some policy"
      "access_decision_create H (pp_boundary p) l policy (br_decision_revision br) = Inr (pp_decision p)"
    by (rule authorize_credential_eq_Inr)
  note X = access_decision_create_eq_Inr [OF policy(2)]
  have "runtime_activation_create H (pp_bootstrap p) (pp_identity p) (pp_boundary p) (pp_decision p) (pp_lease p)
      (ia_activation_revision ad) = Inr a" using A by blast
  from runtime_activation_create_eq_Inr [OF this] have "ra_execution_id a = le_execution_id l" using l by simp
  moreover obtain row s t2 where "row \<in> set (t_leases (rd_trust db2))" "lr_cols row = l" "reading2 = AwareTime t2"
      "instant_at (le_acquired_at l) \<le> instant_at (iso_ms t2)" "instant_at (iso_ms t2) < instant_at (le_expires_at l)"
      "\<forall>q \<in> set (t_leases (rd_trust db2)). le_admission_id (lr_cols q) = le_admission_id l \<and> q \<noteq> row \<longrightarrow>
       le_execution_epoch (lr_cols q) < le_execution_epoch l
       \<and> instant_at (le_expires_at (lr_cols q)) \<le> instant_at (iso_ms t2)"
    by (rule fenced_lease_is_newest [OF verification_reachable_delivery [OF assms(4)], of clk reading2 l]) (use O l in auto)
  ultimately show ?thesis using O l b X policy by auto
qed

text \<open>
  (C16) A superseded runner can neither activate its runtime nor read: once a lease of a later epoch exists
  for its admission, both operations raise, whatever the clock says and whatever the provider would answer.
\<close>

theorem superseded_runner_cannot_read:
  assumes "verification_reachable H db" and "q \<in> set (t_leases (rd_trust db))"
    and "le_admission_id (lr_cols q) = le_admission_id (pp_lease p)"
    and "le_execution_epoch (pp_lease p) < le_execution_epoch (lr_cols q)"
  shows "(\<exists>e. activate_runtime H ad (assert_current H clk (rd_trust db) reading) p = Inl e)
    \<and> (\<exists>e. observe_ref H gh (assert_current H clk (rd_trust db) reading) reading' p a t = Inl e)"
proof -
  have "\<exists>e. assert_current H clk (rd_trust db) reading (pp_lease p) = Inl e"
    by (rule superseded_lease_refused [OF verification_reachable_delivery [OF assms(1)] assms(2-4)])
  then have refused: "assert_current H clk (rd_trust db) reading (pp_lease p) \<noteq> Inr ()" by auto
  have "activate_runtime H ad (assert_current H clk (rd_trust db) reading) p \<noteq> Inr x" for x
    using activate_runtime_eq_Inr [of H ad _ p x] refused by blast
  moreover have "observe_ref H gh (assert_current H clk (rd_trust db) reading) reading' p a t \<noteq> Inr x" for x
    using observe_ref_eq_Inr [of H gh _ reading' p a t x] refused by blast
  ultimately show ?thesis by (metis sum.exhaust)
qed

subsection \<open>The verdict\<close>

text \<open>
  (C17) The verdict is the agreement of two independent reads: for a runner's observation and a verifier's
  observation of the same target across one boundary, the result is \<open>VERIFIED\<close> exactly when the verifier's
  provider answered the commit the runner's provider had answered.  The verifier has another identity,
  another provider instance and another credential class than the runner; its credential was valid when it
  read, and its observation is not older than the runner's.
\<close>

theorem verified_iff_independent_agreement:
  assumes "observe_ref H gh fence reading p a t = Inr r"
    and "verification_boundary_create H v i y r rv = Inr b"
    and "verifier_observe_ref H vh reading1 reading2 v b x t = Inr ob"
    and "verify_readback H r ob b rv1 rv2 rv3 = Inr (state, strength, result)"
  shows "\<exists>repository ref. parse_git_ref_target t = Inr (repository, ref)
    \<and> (vr_verdict result = ''VERIFIED'' \<longleftrightarrow> vh_read_ref vh repository ref = gh_read_ref gh repository ref)
    \<and> (vr_verdict result = ''NOT_VERIFIED'' \<longleftrightarrow> vh_read_ref vh repository ref \<noteq> gh_read_ref gh repository ref)
    \<and> vh_read_ref vh repository ref = Inr (JStr (vo_commit_sha ob))
    \<and> set (ps_state_claims state) = {(''repository'', repository), (''ref'', ref), (''commit_sha'', vo_commit_sha ob)}
    \<and> vi_verifier_id v \<noteq> ri_runner_id i \<and> vi_provider_instance_id v \<noteq> ri_provider_instance_id i
    \<and> vi_credential_class v \<noteq> rb_credential_class y
    \<and> instant_at (vd_valid_from x) \<le> instant_at (vo_credential_checked_at ob)
    \<and> instant_at (vo_credential_checked_at ob) < instant_at (vd_expires_at x)
    \<and> instant_at (go_observed_at r) \<le> instant_at (vo_observed_at ob)
    \<and> vr_runner_observation_digest result = go_observation_digest r
    \<and> vr_execution_id result = go_execution_id r \<and> vr_execution_epoch result = go_execution_epoch r"
proof -
  note R = observe_ref_eq_Inr [OF assms(1)] and V = verifier_observe_ref_eq_Inr [OF assms(3)]
    and Q = verify_readback_eq_Inr [OF assms(4)] and B = verification_boundary_create_eq_Inr [OF assms(2)]
  have state: "ps_state_claims state = sort [(''repository'', vo_repository ob), (''ref'', vo_ref ob), (''commit_sha'', vo_commit_sha ob)]"
    using post_state_create_eq_Inr [of H "readback_state ob b rv1" state] Q by (simp add: readback_state_def)
  have same: "vo_repository ob = go_repository r" "vo_ref ob = go_ref r" "vo_execution_id ob = go_execution_id r"
      "vo_execution_epoch ob = go_execution_epoch r" "instant_at (go_observed_at r) \<le> instant_at (vo_observed_at ob)"
    using Q by (simp_all add: evidence_bound_def)
  have result: "vr_verdict result = (if vo_commit_sha ob = go_commit_sha r then ''VERIFIED'' else ''NOT_VERIFIED'')"
      "vr_runner_observation_digest result = go_observation_digest r" "vr_execution_id result = vo_execution_id ob"
      "vr_execution_epoch result = vo_execution_epoch ob"
    using Q by (simp_all add: readback_result_def)
  have distinct: "vi_verifier_id v \<noteq> ri_runner_id i" "vi_provider_instance_id v \<noteq> ri_provider_instance_id i"
      "vi_credential_class v \<noteq> rb_credential_class y"
    using assms(2) unfolding verification_boundary_create_def thenE_eq_Inr guardE_eq_Inr by blast+
  have parsed: "parse_git_ref_target t = Inr (go_repository r, go_ref r)"
      and runner: "gh_read_ref gh (go_repository r) (go_ref r) = Inr (JStr (go_commit_sha r))"
    using R by blast+
  have read: "vh_read_ref vh (go_repository r) (go_ref r) = Inr (JStr (vo_commit_sha ob))"
    using V same(1,2) by metis
  have agree: "vh_read_ref vh (go_repository r) (go_ref r) = gh_read_ref gh (go_repository r) (go_ref r)
      \<longleftrightarrow> vo_commit_sha ob = go_commit_sha r"
    by (simp add: read runner)
  have verdict: "vr_verdict result = ''VERIFIED'' \<longleftrightarrow> vo_commit_sha ob = go_commit_sha r"
      "vr_verdict result = ''NOT_VERIFIED'' \<longleftrightarrow> vo_commit_sha ob \<noteq> go_commit_sha r"
    by (simp_all add: result(1))
  have claims: "set (ps_state_claims state)
      = {(''repository'', go_repository r), (''ref'', go_ref r), (''commit_sha'', vo_commit_sha ob)}"
    unfolding state same(1,2) set_sort by auto
  have valid: "instant_at (vd_valid_from x) \<le> instant_at (vo_credential_checked_at ob)"
      "instant_at (vo_credential_checked_at ob) < instant_at (vd_expires_at x)"
    using V by blast+
  show ?thesis
    by (rule exI [of _ "go_repository r"], rule exI [of _ "go_ref r"])
      (simp only: parsed agree verdict read [symmetric] claims valid result(2-4) same(3-5) distinct HOL.simp_thms)
qed

text \<open>
  (C18) A stored result speaks of a completed execution: in every reachable database each row decodes to the
  result in its columns, there is at most one per execution, its target is that of a dispatch intent of the
  execution, and the epoch state of the execution is completed in the epoch of the result with the digest of
  the runner's observation that was verified.
\<close>

theorem stored_results_of_completed_executions:
  assumes "verification_reachable H db"
  shows "unique_on vc_execution_id (rd_results db)
    \<and> (\<forall>row \<in> set (rd_results db). decode_result H row = Inr (vc_cols row) \<and> verification_result_ok H (vc_cols row)
         \<and> (\<exists>o1 \<in> set (t_outbox (rd_trust db)). ox_execution_id (ob_cols o1) = vc_execution_id row
              \<and> ox_target_digest (ob_cols o1) = vr_target_digest (vc_cols row))
         \<and> (\<exists>s \<in> set (t_epochs (rd_trust db)). es_execution_id s = vc_execution_id row
              \<and> es_current_epoch s = vr_execution_epoch (vc_cols row) \<and> es_status s = ''COMPLETED''
              \<and> es_completion_digest s = Some (vr_runner_observation_digest (vc_cols row))))"
proof -
  note inv = verification_reachable_inv [OF assms, unfolded results_inv_def]
  have "decode_result H row = Inr (vc_cols row) \<and> verification_result_ok H (vc_cols row)
      \<and> result_binding (rd_trust db) (vc_cols row)" if "row \<in> set (rd_results db)" for row
    using inv that decode_result_row [of H row] by (auto simp: result_row_ok_def)
  then show ?thesis using inv unfolding result_binding_def list_ex_iff by metis
qed

text \<open>
  (C19) The first stored verdict is final: after a result was stored, in every later database it is what
  \<open>get\<close> returns for its execution, storing it again changes nothing, and storing any other result for that
  execution raises \<open>VerificationResultPersistenceConflict\<close>.
\<close>

theorem stored_verdict_is_final:
  assumes "verification_reachable H db" and "verification_result_ok H c"
    and "store_result H db c = Inr (c', db1)" and "(verification_step H)\<^sup>*\<^sup>* db1 db2"
    and "vr_execution_id c2 = vr_execution_id c"
  shows "get_result H db2 (vr_execution_id c) = Inr (Some c)
    \<and> store_result H db2 c2 = (if c2 = c then Inr (c, db2) else Inl (RuntimeError ''VERIFICATION_RESULT_CONFLICT''))"
proof -
  have inv: "results_inv H db1"
    using verification_step_inv [OF verification_step.result_service [OF assms(2,3)] verification_reachable_inv [OF assms(1)]] .
  obtain row where row: "select vc_execution_id (vr_execution_id c) (rd_results db1) = Some row" "decode_result H row = Inr c"
    using assms(3)
  proof (cases rule: store_result_cases)
    case (existing row)
    then show thesis using that by simp
  next
    case inserted
    have "result_row_ok H (result_row_of c)" using assms(2) by (simp add: result_row_ok_def result_row_of_def)
    then have "decode_result H (result_row_of c) = Inr c"
      using decode_result_row by (fastforce simp: result_row_of_def)
    moreover have "select vc_execution_id (vr_execution_id c) (rd_results db1) = Some (result_row_of c)"
      using inserted(1) insert_result_eq_Inr(1) [OF inserted(3)] by (simp add: select_append) (simp add: result_row_of_def)
    ultimately show thesis using that by blast
  qed
  have found: "select vc_execution_id (vr_execution_id c) (rd_results db2) = Some row"
    by (rule results.select_persists [OF assms(4) row(1)])
  have "text_ok (vr_execution_id c)" using assms(2) by (simp add: verification_result_ok_def)
  then have "vr_execution_id c \<noteq> []" "CHR 0x00 \<notin> set (vr_execution_id c)" by (simp_all add: text_ok_def)
  then show ?thesis using found row(2) assms(5) by (auto simp: get_result_def store_result_def)
qed

subsection \<open>The target of a read\<close>

text \<open>
  (C20) What is read is what was reviewed: when the registry binds the payload of a reviewed request with the
  read-target binder, the payload names exactly a repository and a ref, both valid, and the handlers of
  runner and verifier parse exactly these from the bound target.
\<close>

theorem read_target_is_reviewed_target:
  assumes "resolve_procedure procedures (cd_binder_id d) = Inr (read_target_procedure H)"
    and "bind_target H procedures d payload = Inr b"
  shows "\<exists>kvs repository ref. payload = JObj kvs \<and> fst ` set kvs = {''repository'', ''ref''}
    \<and> item kvs ''repository'' = JStr repository \<and> item kvs ''ref'' = JStr ref \<and> repository_ok repository \<and> ref_ok ref
    \<and> parse_git_ref_target (tb_target b) = Inr (repository, ref)"
proof -
  obtain pr where pr: "procedures (cd_binder_id d) = Some pr" "tp_bind pr payload = Inr (tb_target b)"
    and ok: "target_binding_ok H b"
    by (rule bind_target_eq_Inr [OF assms(2)])
  have "pr = read_target_procedure H" using pr(1) assms(1) by (auto simp: resolve_procedure_def res_simps)
  then have bound: "bind_read_target H payload = Inr (tb_target b)" using pr(2) by (simp add: read_target_procedure_def)
  then obtain kvs where kvs: "payload = JObj kvs" "fst ` set kvs = {''repository'', ''ref''}"
      "is_str (item kvs ''repository'')" "repository_ok (str_of (item kvs ''repository''))"
      "is_str (item kvs ''ref'')" "ref_ok (str_of (item kvs ''ref''))"
    and create: "execution_target_create H ''git_ref''
       (JObj [(''repository'', JStr (str_of (item kvs ''repository''))), (''ref'', JStr (str_of (item kvs ''ref'')))])
       = Inr (tb_target b)"
    unfolding bind_read_target_def bindE_eq_Inr require_exact_fields_eq_Inr require_repository_iff require_ref_iff
    by (elim exE conjE) simp
  define repository ref where "repository = str_of (item kvs ''repository'')" and "ref = str_of (item kvs ''ref'')"
  note names = repository_def [symmetric] ref_def [symmetric]
  have atoms: "item kvs ''repository'' = JStr repository" "item kvs ''ref'' = JStr ref"
    using kvs(3,5) unfolding repository_def ref_def
    by (cases "item kvs ''repository''"; cases "item kvs ''ref''"; simp)+
  let ?claims = "[(''repository'', JStr repository), (''ref'', JStr ref)]"
  have t: "et_target_kind (tb_target b) = ''git_ref''" "et_target_claims_json (tb_target b) = canonical_json (JObj ?claims)"
    using create unfolding names
    by (auto simp: execution_target_create_def execution_target_init_def Let_def bindE_eq_Inr thenE_eq_Inr
        dest: arg_cong [where f = et_target_kind and y = "tb_target b"]
          arg_cong [where f = et_target_claims_json and y = "tb_target b"])
  have loads: "json_loads (canonical_json (JObj ?claims)) = Some (JObj (sort_key fst ?claims))"
    by (rule settled_loads) simp_all
  have "target_claims (tb_target b) = JObj (sort_key fst ?claims)" by (simp only: target_claims_def t loads option.case)
  moreover have "item (sort_key fst ?claims) = item ?claims" by (rule item_sort) simp
  moreover have "set (map fst (sort_key fst ?claims)) = {''repository'', ''ref''}" by auto
  moreover have "repository_ok repository" "ref_ok ref" using kvs(4,6) by (simp_all add: names)
  moreover have "require_repository (JStr repository) = Inr repository" "require_ref (JStr ref) = Inr ref"
    using \<open>repository_ok repository\<close> \<open>ref_ok ref\<close> by simp_all
  ultimately have "parse_git_ref_target (tb_target b) = Inr (repository, ref)"
    by (simp add: catchE_def parse_git_ref_target_def t guardE_def item_def del: require_repository_iff require_ref_iff)
  then show ?thesis using kvs(1,2) atoms \<open>repository_ok repository\<close> \<open>ref_ok ref\<close> by blast
qed

end
