(* ===== verification/Runner_Witness.thy ===== *)
theory Runner_Witness
  imports Verification_Properties Grant_Witness
begin

text \<open>
  A concrete runner: the capsule and the read-only capability of the run of \<open>Delivery_Witness\<close>, the isolated
  runtime that holds its first lease, the credential decision, the activation and the observation of one Git
  ref.  The lemmas hold for every digest function that gives 64 zeros to the claims of runner contracts.
\<close>

subsection \<open>Digest functions\<close>

lemma claims_text_member:
  assumes "json_wf (JObj xs)" and "flat ys" and "claims_text xs = claims_text ys"
    and "(k, v) \<in> set ys" and "is_atom v"
  shows "(k, v) \<in> set xs"
proof -
  have "json_sort (JObj xs) = json_sort (JObj ys)"
    using canonical_json_inj [OF assms(1) flat_wf [OF assms(2)]] assms(3) by (simp add: claims_text_def)
  then have "JObj (sort_key fst (map (map_prod id json_sort) xs)) = JObj (sort_key fst ys)"
    using flat_sort [OF assms(2)] by simp
  then have "set (map (map_prod id json_sort) xs) = set ys" by (metis json.inject(5) set_sort)
  then have "(k, v) \<in> map_prod id json_sort ` set xs" using assms(4) by simp
  then obtain w where w: "(k, w) \<in> set xs" "json_sort w = v" by auto
  then have "w = v" using assms(5) by (cases w) auto
  then show ?thesis using w by simp
qed

definition runner_claims :: "(string \<times> json) list \<Rightarrow> bool" where
  "runner_claims xs \<longleftrightarrow> json_wf (JObj xs) \<and> (''execution_epoch'', JInt 2) \<notin> set xs
     \<and> (''identity_type'', JStr ''verifier-identity/v1'') \<notin> set xs
     \<and> (''identity_type'', JStr ''verifier-logical-identity/v1'') \<notin> set xs"

definition runner_digest :: "(string \<Rightarrow> string) \<Rightarrow> bool" where
  "runner_digest H \<longleftrightarrow> (\<forall>xs. runner_claims xs \<longrightarrow> claims_digest H xs = zeros)"

lemma runner_zeros: "runner_digest H \<Longrightarrow> runner_claims xs \<Longrightarrow> claims_digest H xs = zeros"
  by (simp add: runner_digest_def)

lemma wit_runner_digest: "runner_digest wit_hash"
proof -
  have "claims_digest wit_hash xs = zeros" if "runner_claims xs" for xs
  proof -
    have f: "flat wit_id2" by (simp add: flat_def wit_id2_def)
    have "(''execution_epoch'', JInt 2) \<in> set wit_id2"
      "(''execution_epoch'', JInt 2) \<in> set (lease_claims wit_lease2)"
      by (simp_all add: wit_id2_def lease_claims_def wit_lease2_def wit_lease_def)
    then have "claims_text xs \<noteq> claims_text wit_id2" "claims_text xs \<noteq> claims_text (lease_claims wit_lease2)"
      using that claims_text_member [OF _ f] claims_text_member [OF _ lease.flat_claims]
      unfolding runner_claims_def by force+
    then show ?thesis by (simp add: claims_digest_def wit_hash_def)
  qed
  then show ?thesis by (simp add: runner_digest_def)
qed

lemma runner_claims_flat:
  "flat xs \<Longrightarrow> (''execution_epoch'', JInt 2) \<notin> set xs \<Longrightarrow> (''identity_type'', JStr ''verifier-identity/v1'') \<notin> set xs \<Longrightarrow>
   (''identity_type'', JStr ''verifier-logical-identity/v1'') \<notin> set xs \<Longrightarrow> runner_claims xs"
  using flat_wf unfolding runner_claims_def by blast

subsection \<open>Values\<close>

definition git_sha :: string where
  "git_sha = replicate 40 CHR ''0''"

definition read_target :: execution_target where
  "read_target = \<lparr>et_target_kind = ''git_ref'',
     et_target_claims_json = canonical_json (JObj [(''repository'', JStr ''o/r''), (''ref'', JStr ''refs/heads/m'')]),
     et_target_digest = zeros\<rparr>"

definition read_capability :: capability_definition where
  "read_capability =
     \<lparr>cd_capability = ''cap/v1'', cd_target_kind = ''git_ref'', cd_binder_id = ''github-read-ref-target-binder/v1'',
      cd_handler_id = ''handler'', cd_effect_class = ''READ_ONLY'', cd_verification_class = ''check'',
      cd_supported_environments = [''local''], cd_required_permissions = [''execution.run''],
      cd_production_eligible = False, cd_definition_identity = zeros\<rparr>"

definition read_capsule :: execution_capsule where
  "read_capsule =
     \<lparr>cp_capability_definition_identity = zeros, cp_target_kind = ''git_ref'', cp_handler_id = ''handler'',
      cp_handler_digest = zeros, cp_module_manifest_digest = zeros, cp_artifact_kind = ''image'',
      cp_artifact_digest = zeros, cp_rootfs_digest = zeros, cp_dependency_lock_digest = zeros,
      cp_sbom_digest = zeros, cp_network_policy_digest = zeros, cp_resource_limit_profile_digest = zeros,
      cp_credential_class = ''runner'', cp_runner_class = ''runner'',
      cp_precondition_enforcement_class = ''READ_THEN_COMPARE'', cp_verification_class = ''check'',
      cp_verification_contract_identity = zeros, cp_capsule_revision = ''v1'', cp_capsule_digest = zeros\<rparr>"

definition read_bootstrap :: bootstrap where
  "read_bootstrap =
     \<lparr>bt_bootstrap_id = zeros, bt_provider = ''github'', bt_provider_instance_id = ''r1'', bt_runner_class = ''runner'',
      bt_environment = ''local'', bt_rootfs_digest = zeros, bt_resource_limit_profile_digest = zeros,
      bt_network_policy_digest = zeros, bt_workspace_mount_mode = ''READ_ONLY'',
      bt_network_egress_default = ''DENY_ALL'', bt_inherited_credentials = False,
      bt_provider_mutation_allowed = False, bt_bootstrap_revision = ''v1'', bt_bootstrap_digest = zeros\<rparr>"

definition read_runner :: runner_identity where
  "read_runner =
     \<lparr>ri_runner_id = zeros, ri_runner_class = ''runner'', ri_provider = ''github'', ri_provider_instance_id = ''r1'',
      ri_environment = ''local'', ri_rootfs_digest = zeros, ri_resource_limit_profile_digest = zeros,
      ri_network_policy_digest = zeros, ri_identity_revision = ''v1'', ri_identity_digest = zeros\<rparr>"

definition read_boundary :: runner_boundary where
  "read_boundary =
     \<lparr>rb_runner_id = zeros, rb_runner_identity_digest = zeros, rb_lease_id = zeros, rb_lease_digest = zeros,
      rb_admission_id = zeros, rb_execution_id = ''x1'', rb_execution_epoch = 1, rb_execution_capsule_digest = zeros,
      rb_capability_definition_identity = zeros, rb_environment = ''local'', rb_runner_class = ''runner'',
      rb_credential_class = ''runner'', rb_effect_ceiling = ''READ_ONLY'', rb_network_egress_default = ''DENY_ALL'',
      rb_provider_mutation_allowed = False, rb_boundary_revision = ''v1'', rb_boundary_digest = zeros\<rparr>"

definition read_policy :: broker_policy where
  "read_policy =
     \<lparr>bp_credential_class = ''runner'', bp_provider = ''github'', bp_audience = ''repo'',
      bp_allowed_capability_definition_identities = [zeros], bp_enabled_environments = [''local''],
      bp_access_mode = ''READ_ONLY'', bp_provider_mutation_allowed = False, bp_policy_revision = ''v1'',
      bp_policy_digest = zeros\<rparr>"

definition read_broker :: credential_broker where
  "read_broker = \<lparr>br_policies = [''runner'' \<mapsto> read_policy], br_decision_revision = ''v1''\<rparr>"

definition read_decision :: access_decision where
  "read_decision =
     \<lparr>xd_decision_id = zeros, xd_runner_boundary_digest = zeros, xd_runner_id = zeros, xd_runner_identity_digest = zeros,
      xd_lease_id = zeros, xd_lease_digest = zeros, xd_execution_id = ''x1'', xd_execution_epoch = 1,
      xd_execution_capsule_digest = zeros, xd_capability_definition_identity = zeros, xd_credential_class = ''runner'',
      xd_provider = ''github'', xd_audience = ''repo'', xd_environment = ''local'', xd_access_mode = ''READ_ONLY'',
      xd_provider_mutation_allowed = False, xd_valid_from = wit_at 0 0, xd_expires_at = wit_at 1 0,
      xd_policy_digest = zeros, xd_policy_revision = ''v1'', xd_decision_revision = ''v1'', xd_decision_digest = zeros\<rparr>"

definition read_runtime :: prepared_runtime where
  "read_runtime = \<lparr>pp_bootstrap = read_bootstrap, pp_identity = read_runner, pp_boundary = read_boundary,
     pp_decision = read_decision, pp_lease = wit_lease1\<rparr>"

definition read_activation :: runtime_activation where
  "read_activation =
     \<lparr>ra_provider = ''github'', ra_provider_instance_id = ''r1'', ra_runner_id = zeros, ra_runner_identity_digest = zeros,
      ra_runner_boundary_digest = zeros, ra_credential_decision_id = zeros, ra_credential_decision_digest = zeros,
      ra_lease_id = zeros, ra_lease_digest = zeros, ra_execution_id = ''x1'', ra_execution_epoch = 1,
      ra_execution_capsule_digest = zeros, ra_capability_definition_identity = zeros, ra_access_mode = ''READ_ONLY'',
      ra_workspace_mount_mode = ''READ_ONLY'', ra_network_egress_default = ''DENY_ALL'',
      ra_provider_mutation_allowed = False, ra_activation_revision = ''v1'', ra_activation_digest = zeros\<rparr>"

definition read_adapter :: "(string \<Rightarrow> string) \<Rightarrow> isolated_adapter" where
  "read_adapter H =
     \<lparr>ia_bootstrap = (\<lambda>_ _. Inr read_bootstrap), ia_activate_read_only = (\<lambda>_. Inr read_activation),
      ia_authorize = authorize_credential H read_broker, ia_identity_revision = ''v1'', ia_boundary_revision = ''v1'',
      ia_activation_revision = ''v1''\<rparr>"

definition read_clock :: clock_authority where
  "read_clock = ls_clock wit_svc"

definition the_read_handler :: read_handler where
  "the_read_handler = \<lparr>gh_read_ref = (\<lambda>_ _. Inr (JStr git_sha)), gh_source_identity = ''repo'',
     gh_clock = read_clock, gh_observation_revision = ''v1''\<rparr>"

definition read_observation :: "string \<Rightarrow> ref_observation" where
  "read_observation now =
     \<lparr>go_repository = ''o/r'', go_ref = ''refs/heads/m'', go_commit_sha = git_sha, go_target_digest = zeros,
      go_provider = ''github'', go_provider_instance_id = ''r1'', go_runner_id = zeros,
      go_runner_boundary_digest = zeros, go_credential_decision_digest = zeros, go_runtime_activation_digest = zeros,
      go_lease_id = zeros, go_lease_digest = zeros, go_execution_id = ''x1'', go_execution_epoch = 1,
      go_execution_capsule_digest = zeros, go_capability_definition_identity = zeros, go_source_identity = ''repo'',
      go_clock_source_identity = ''clock'', go_clock_witness_digest = zeros, go_observed_at = now,
      go_observation_revision = ''v1'', go_observation_digest = zeros\<rparr>"

lemma git_texts [simp]:
  "text_ok ''github''" "text_ok ''handler''" "text_ok ''git_ref''" "identifier_pattern ''git_ref''"
  "repository_ok ''o/r''" "ref_ok ''refs/heads/m''" "text_ok ''o/r''" "text_ok ''refs/heads/m''"
  "text_ok ''github-read-ref-target-binder/v1''"
  by code_simp+

lemma git_sha_ok [simp]: "object_id_ok git_sha" "text_ok git_sha"
proof -
  show "text_ok git_sha" unfolding git_sha_def by code_simp
  then show "object_id_ok git_sha"
    by (simp add: object_id_ok_def git_object_id_def git_sha_def list_all_iff is_hex_def is_digit_def)
qed

subsection \<open>The run\<close>

lemma read_seal:
  assumes "runner_digest H"
  shows "claims_digest H (runner_identity_claims i) = zeros"
    and "rb_execution_epoch y \<noteq> 2 \<Longrightarrow> claims_digest H (runner_boundary_claims y) = zeros"
    and "xd_execution_epoch x \<noteq> 2 \<Longrightarrow> claims_digest H (access_decision_claims x) = zeros"
    and "claims_digest H (bootstrap_claims b) = zeros"
    and "ra_execution_epoch a \<noteq> 2 \<Longrightarrow> claims_digest H (runtime_activation_claims a) = zeros"
    and "go_execution_epoch r \<noteq> 2 \<Longrightarrow> claims_digest H (ref_observation_claims r) = zeros"
    and "claims_digest H (clock_witness_claims w) = zeros"
  using runner_zeros [OF assms runner_claims_flat [OF runner.flat_claims]]
    runner_zeros [OF assms runner_claims_flat [OF runner_bound.flat_claims]]
    runner_zeros [OF assms runner_claims_flat [OF access_decision.flat_claims]]
    runner_zeros [OF assms runner_claims_flat [OF bootstrap.flat_claims]]
    runner_zeros [OF assms runner_claims_flat [OF runtime_activation.flat_claims]]
    runner_zeros [OF assms runner_claims_flat [OF ref_observation.flat_claims]]
    runner_zeros [OF assms runner_claims_flat [OF clock.flat_claims]]
  by (simp_all add: runner_identity_claims_def runner_boundary_claims_def access_decision_claims_def bootstrap_claims_def
      runtime_activation_claims_def ref_observation_claims_def clock_witness_claims_def)

lemma read_ids:
  assumes "runner_digest H"
  shows "runner_logical_identity H a b c d = zeros" and "bootstrap_identity H a b c d = zeros"
    and "access_decision_identity H a b c = zeros"
  unfolding runner_logical_identity_def bootstrap_identity_def access_decision_identity_def
  by (rule runner_zeros [OF assms runner_claims_flat]; simp add: flat_def)+

lemma read_clock_witness:
  assumes R: "runner_digest H" and "m < 60" and "s < 60"
  shows "clock_authority_witness H read_clock (AwareTime (wit_time m s)) ''local'' = Inr (wit_clock (wit_at m s))"
proof -
  have "clock_witness_ok H (wit_clock (wit_at m s))"
    using assms by (simp add: clock_witness_ok_def read_seal [OF R]) (simp add: wit_clock_def valid_environments_def)
  then have "clock_witness_init H (wit_clock (wit_at m s)) = Inr (wit_clock (wit_at m s))"
    by (simp add: clock_witness_init_iff)
  then show ?thesis
    by (simp add: clock_authority_witness_def clock_witness_create_def read_clock_def wit_svc_def valid_environments_def
        guardE_def Let_def read_seal [OF R] wit_at_def [symmetric]) (simp add: wit_clock_def)
qed

lemma read_bootstrap_ok: "runner_digest H \<Longrightarrow> bootstrap_ok H read_bootstrap"
  by (simp add: bootstrap_ok_def read_seal read_ids) (simp add: read_bootstrap_def)

lemma read_runner_created:
  "runner_digest H \<Longrightarrow>
   runner_identity_create H ''runner'' ''github'' ''r1'' ''local'' zeros zeros zeros ''v1'' = Inr read_runner"
  by (simp add: runner_identity_create_def Let_def runner_identity_sealed runner_identity_ok_def read_seal read_ids)
    (simp add: read_runner_def valid_environments_def)

lemma read_boundary_created:
  "runner_digest H \<Longrightarrow>
   runner_boundary_create H read_runner wit_lease1 read_capsule read_capability ''v1'' = Inr read_boundary"
  by (simp add: runner_boundary_create_def Let_def thenE_eq_Inr guardE_eq_Inr runner_boundary_sealed
      runner_boundary_ok_def read_seal check_texts_eq_Inr runner_bound_to_lease_def)
    (simp add: read_runner_def read_capsule_def read_capability_def read_boundary_def wit_lease1_def wit_lease_def
      read_seal valid_environments_def)

lemma read_decision_created:
  "runner_digest H \<Longrightarrow> authorize_credential H read_broker read_boundary wit_lease1 = Inr read_decision"
  by (simp add: authorize_credential_def access_decision_create_def Let_def bindE_eq_Inr thenE_eq_Inr guardE_eq_Inr
      access_decision_sealed access_decision_ok_def check_texts_eq_Inr orRaise_eq_Inr)
    (simp add: read_boundary_def read_broker_def read_policy_def read_decision_def wit_lease1_def wit_lease_def
      read_seal read_ids valid_environments_def)

lemma read_runtime_bound: "runtime_bound read_bootstrap read_runner read_boundary read_decision wit_lease1"
  by (simp add: runtime_bound_def read_bootstrap_def read_runner_def read_boundary_def read_decision_def)

lemma read_prepared:
  assumes R: "runner_digest H"
  shows "prepare_runtime H (read_adapter H) wit_lease1 read_capsule read_capability = Inr read_runtime"
proof -
  have sel: "cd_effect_class read_capability = ''READ_ONLY''"
      "le_execution_capsule_digest wit_lease1 = zeros" "cp_capsule_digest read_capsule = zeros"
      "le_runner_class wit_lease1 = ''runner''" "cp_runner_class read_capsule = ''runner''"
      "bt_runner_class read_bootstrap = ''runner''" "bt_provider read_bootstrap = ''github''"
      "bt_provider_instance_id read_bootstrap = ''r1''" "bt_environment read_bootstrap = ''local''"
      "bt_rootfs_digest read_bootstrap = zeros" "bt_resource_limit_profile_digest read_bootstrap = zeros"
      "bt_network_policy_digest read_bootstrap = zeros"
    by (simp_all add: read_capability_def wit_lease1_def wit_lease_def read_capsule_def read_bootstrap_def)
  have "assert_bootstrap_bound H read_bootstrap wit_lease1 read_capsule = Inr ()"
    using read_bootstrap_ok [OF R]
    by (simp add: assert_bootstrap_bound_def thenE_eq_Inr guardE_eq_Inr)
      (simp add: read_bootstrap_def wit_lease1_def wit_lease_def read_capsule_def)
  moreover have "prepared_runtime_init \<lparr>pp_bootstrap = read_bootstrap, pp_identity = read_runner,
      pp_boundary = read_boundary, pp_decision = read_decision, pp_lease = wit_lease1\<rparr> = Inr read_runtime"
    using read_runtime_bound by (simp add: prepared_runtime_init_iff prepared_ok_def read_runtime_def)
  ultimately show ?thesis
    using read_runner_created [OF R] read_boundary_created [OF R] read_decision_created [OF R]
    by (simp add: prepare_runtime_def read_adapter_def guardE_def sel read_runtime_def [symmetric])
qed

lemma read_activated:
  assumes R: "runner_digest H" and "fence wit_lease1 = Inr ()"
  shows "activate_runtime H (read_adapter H) fence read_runtime = Inr read_activation"
proof -
  have "runtime_activation_create H read_bootstrap read_runner read_boundary read_decision wit_lease1 ''v1''
      = Inr read_activation"
    using read_runtime_bound
    by (simp add: runtime_activation_create_def Let_def thenE_eq_Inr runtime_activation_sealed
        runtime_activation_ok_def assert_runtime_binding_iff)
      (simp add: read_bootstrap_def read_runner_def read_boundary_def read_decision_def wit_lease1_def wit_lease_def
        read_activation_def read_seal [OF R])
  moreover have "assert_runtime_binding read_bootstrap read_runner read_boundary read_decision wit_lease1 = Inr ()"
    using read_runtime_bound by (simp add: assert_runtime_binding_iff)
  ultimately show ?thesis
    using assms(2) by (simp add: activate_runtime_def read_runtime_def read_adapter_def guardE_def)
qed

lemma read_target_claims:
  "target_claims read_target = JObj [(''ref'', JStr ''refs/heads/m''), (''repository'', JStr ''o/r'')]"
proof -
  have "json_loads (canonical_json (JObj [(''repository'', JStr ''o/r''), (''ref'', JStr ''refs/heads/m'')]))
      = Some (JObj (sort_key fst [(''repository'', JStr ''o/r''), (''ref'', JStr ''refs/heads/m'')]))"
    by (rule settled_loads) simp_all
  then show ?thesis by (simp add: target_claims_def read_target_def)
qed

lemma read_target_parsed: "parse_git_ref_target read_target = Inr (''o/r'', ''refs/heads/m'')"
proof -
  have "require_repository (JStr ''o/r'') = Inr ''o/r''" "require_ref (JStr ''refs/heads/m'') = Inr ''refs/heads/m''"
    by simp_all
  moreover have "et_target_kind read_target = ''git_ref''" by (simp add: read_target_def)
  ultimately show ?thesis
    by (simp add: parse_git_ref_target_def read_target_claims guardE_def catchE_def item_def insert_commute
        del: require_repository_iff require_ref_iff)
qed

lemma read_activation_bound: "activation_bound read_runtime read_activation"
  by (simp add: activation_bound_def read_runtime_def read_activation_def read_bootstrap_def read_runner_def
      read_boundary_def read_decision_def)

lemma read_observed:
  assumes R: "runner_digest H" and "fence wit_lease1 = Inr ()" and "m < 60" and "s < 60"
  shows "observe_ref H the_read_handler fence (AwareTime (wit_time m s)) read_runtime read_activation read_target
     = Inr (read_observation (wit_at m s))"
proof -
  have sel: "pp_lease read_runtime = wit_lease1" "gh_read_ref the_read_handler x y = Inr (JStr git_sha)"
      "gh_source_identity the_read_handler = ''repo''" "gh_clock the_read_handler = read_clock"
      "gh_observation_revision the_read_handler = ''v1''" "et_target_digest read_target = zeros"
      "ck_environment (wit_clock n) = ''local''" "ck_source_identity (wit_clock n) = ''clock''"
      "ck_witness_digest (wit_clock n) = zeros" "ck_observed_at (wit_clock n) = n" for x y n
    by (simp_all add: read_runtime_def the_read_handler_def read_target_def wit_clock_def)
  have "ref_observation_create H ''o/r'' ''refs/heads/m'' git_sha read_target read_runtime read_activation ''repo''
      (wit_clock (wit_at m s)) ''v1'' = Inr (read_observation (wit_at m s))"
    using read_activation_bound assms
    by (simp add: ref_observation_create_def Let_def bindE_eq_Inr thenE_eq_Inr guardE_eq_Inr ref_observation_sealed
        ref_observation_ok_def check_texts_eq_Inr assert_activation_bound_iff sel)
      (simp add: read_activation_def read_observation_def read_seal [OF R])
  moreover have "assert_activation_bound read_runtime read_activation = Inr ()"
    using read_activation_bound by (simp add: assert_activation_bound_iff)
  moreover have "require_git_object_id ''commit_sha'' (JStr git_sha) = Inr git_sha" by simp
  ultimately show ?thesis
    using assms by (simp add: observe_ref_def sel read_target_parsed read_clock_witness
        del: require_git_object_id_iff)
qed

subsection \<open>The fence\<close>

lemma wit_fence:
  assumes "m < 1" and "s < 60"
  shows "assert_current wit_hash read_clock wit_db2 (AwareTime (wit_time m s)) wit_lease1 = Inr ()"
proof -
  have stored: "lr_lease_json wit_row1 = canonical_json (JObj (lease_to_dict wit_lease1))"
    by (simp add: wit_row1_def lease_row_of_def)
  have row: "decode_column (lease_from_dict wit_hash) (canonical_json (JObj (lease_to_dict wit_lease1))) e
      = Inr wit_lease1" for e
    unfolding decode_column_eq_Inr lease_from_dict_def lease_stored by (rule lease.decode_stored [OF wit_lease1_ok])
  have found: "select es_admission_id zeros (t_epochs wit_db2) = Some wit_state1"
      "select lr_lease_id zeros (t_leases wit_db2) = Some wit_row1"
    by simp_all
  have "fence_state_matches wit_state1 wit_lease1"
    by (simp add: fence_state_matches_def) (simp add: wit_state1_def first_epoch_state_def wit_adm_def wit_lease1_def wit_lease_def)
  moreover have "lease_completion_fence wit_lease1 1 (wit_clock (wit_at m s)) = Inr ''FENCE_CURRENT''"
    using assms by (simp add: lease_completion_fence_iff [OF wit_lease1_ok]) (simp add: wit_clock_def)
  ultimately show ?thesis
    using assms by (simp add: assert_current_def found row stored guardE_def read_clock_witness [OF wit_runner_digest]
        del: wit_db2_simps)
qed

lemma pipeline_reachable:
  assumes "(pipeline_step H)\<^sup>*\<^sup>* t t'" and "verification_reachable H \<lparr>rd_trust = t, rd_results = rs\<rparr>"
  shows "verification_reachable H \<lparr>rd_trust = t', rd_results = rs\<rparr>"
  using assms
proof (induction rule: rtranclp_induct)
  case (step t1 t2)
  have "verification_step H \<lparr>rd_trust = t1, rd_results = rs\<rparr> (\<lparr>rd_trust = t1, rd_results = rs\<rparr>\<lparr>rd_trust := t2\<rparr>)"
    by (rule trust_service, rule service_step) (simp add: step(2))
  then have "verification_step H \<lparr>rd_trust = t1, rd_results = rs\<rparr> \<lparr>rd_trust = t2, rd_results = rs\<rparr>" by simp
  then show ?case using step verification_reach by blast
qed

definition read_db :: "trust_db \<Rightarrow> result_db" where
  "read_db t = \<lparr>rd_trust = t, rd_results = []\<rparr>"

lemma read_db_reachable: "(pipeline_step wit_hash)\<^sup>*\<^sup>* wit_start t \<Longrightarrow> verification_reachable wit_hash (read_db t)"
  unfolding read_db_def using pipeline_reachable verification_start [of "\<lparr>rd_trust = wit_start, rd_results = []\<rparr>" wit_hash]
    wit_start_empty by fastforce

lemma wit_late_pipeline: "(pipeline_step wit_hash)\<^sup>*\<^sup>* wit_start wit_db3" "(pipeline_step wit_hash)\<^sup>*\<^sup>* wit_start wit_db4"
proof -
  have "pipeline_step wit_hash wit_db2 wit_db3" "pipeline_step wit_hash wit_db2 wit_db4"
    using deliver_step [OF complete_step [OF wit_complete]] deliver_step [OF acquire_step [OF wit_acquire2]] by blast+
  then show "(pipeline_step wit_hash)\<^sup>*\<^sup>* wit_start wit_db3" "(pipeline_step wit_hash)\<^sup>*\<^sup>* wit_start wit_db4"
    using wit_pipeline(2) by (meson rtranclp.rtrancl_into_rtrancl)+
qed

lemma read_db_sel [simp]: "rd_trust (read_db t) = t" "rd_results (read_db t) = []"
  by (simp_all add: read_db_def)

subsection \<open>The runner theorems at the concrete run\<close>

theorem runner_reads_inside_newest_lease_witness:
  "\<exists>p a r. observe_ref wit_hash the_read_handler
        (assert_current wit_hash read_clock wit_db2 (AwareTime (wit_time 0 2))) (AwareTime (wit_time 0 3)) p a read_target = Inr r
     \<and> go_lease_digest r = le_lease_digest wit_lease1 \<and> go_execution_epoch r = 1"
proof -
  let ?fence = "\<lambda>s. assert_current wit_hash read_clock (rd_trust (read_db wit_db2)) (AwareTime (wit_time 0 s))"
  note R = wit_runner_digest
  have f: "?fence s wit_lease1 = Inr ()" if "s < 60" for s using wit_fence [of 0 s] that by simp
  have a: "activate_runtime wit_hash (read_adapter wit_hash) (?fence 1) read_runtime = Inr read_activation"
    by (rule read_activated [OF R], rule f) simp
  have o: "observe_ref wit_hash the_read_handler (?fence 2) (AwareTime (wit_time 0 3)) read_runtime read_activation read_target
      = Inr (read_observation (wit_at 0 3))"
    by (rule read_observed [OF R], rule f) simp_all
  have "ia_authorize (read_adapter wit_hash) = authorize_credential wit_hash read_broker" by (simp add: read_adapter_def)
  note runner_reads_inside_newest_lease [OF read_prepared [OF R] this a read_db_reachable [OF wit_pipeline(2)] o]
  then show ?thesis using o by auto
qed

theorem superseded_runner_cannot_read_witness:
  "wit_row2 \<in> set (t_leases wit_db4)
     \<and> (\<exists>e. observe_ref wit_hash the_read_handler
          (assert_current wit_hash read_clock wit_db4 (AwareTime (wit_time 0 2))) (AwareTime (wit_time 0 3))
          read_runtime read_activation read_target = Inl e)"
proof -
  have "pp_lease read_runtime = wit_lease1" by (simp add: read_runtime_def)
  then have "\<exists>e. observe_ref wit_hash the_read_handler
      (assert_current wit_hash read_clock (rd_trust (read_db wit_db4)) (AwareTime (wit_time 0 2))) (AwareTime (wit_time 0 3))
      read_runtime read_activation read_target = Inl e"
    using superseded_runner_cannot_read [OF read_db_reachable [OF wit_late_pipeline(2)], of wit_row2 read_runtime
      "read_adapter wit_hash"] by simp
  then show ?thesis by simp
qed

theorem read_target_is_reviewed_target_witness:
  "\<exists>b. bind_target wit_hash [''github-read-ref-target-binder/v1'' \<mapsto> read_target_procedure wit_hash] read_capability
        (JObj [(''ref'', JStr ''refs/heads/m''), (''repository'', JStr ''o/r'')]) = Inr b
     \<and> parse_git_ref_target (tb_target b) = Inr (''o/r'', ''refs/heads/m'')"
proof -
  let ?payload = "JObj [(''ref'', JStr ''refs/heads/m''), (''repository'', JStr ''o/r'')]"
    and ?m = "[''github-read-ref-target-binder/v1'' \<mapsto> read_target_procedure wit_hash]"
  have claims: "runner_claims (execution_target_claims ''git_ref'' v)" if "json_wf v" for v
    using that by (simp add: runner_claims_def execution_target_claims_def)
  have sealed: "claims_digest wit_hash (execution_target_claims ''git_ref'' v) = zeros" if "json_wf v" for v
    by (rule runner_zeros [OF wit_runner_digest claims [OF that]])
  have loads: "json_loads (canonical_json (JObj [(''repository'', JStr ''o/r''), (''ref'', JStr ''refs/heads/m'')]))
      = Some (JObj [(''ref'', JStr ''refs/heads/m''), (''repository'', JStr ''o/r'')])"
    using settled_loads [of "[(''repository'', JStr ''o/r''), (''ref'', JStr ''refs/heads/m'')]"] by simp
  have same: "canonical_json (JObj [(''repository'', JStr ''o/r''), (''ref'', JStr ''refs/heads/m'')])
      = canonical_json (JObj [(''ref'', JStr ''refs/heads/m''), (''repository'', JStr ''o/r'')])"
    using settled_canonical [of "[(''repository'', JStr ''o/r''), (''ref'', JStr ''refs/heads/m'')]"] by simp
  have ok: "execution_target_ok wit_hash read_target"
    unfolding execution_target_ok_iff read_target_claims
    by (simp add: read_target_def loads sealed, simp add: same)
  have "bind_read_target wit_hash ?payload = Inr read_target"
    unfolding bind_read_target_def bindE_eq_Inr require_exact_fields_eq_Inr require_repository_iff require_ref_iff
    using ok
    by (auto simp: execution_target_create_def Let_def require_identifier_def require_text_def loads guardE_def
        require_json_value_eq_Inr thenE_eq_Inr sealed read_target_def [symmetric] execution_target_ok_def)
  moreover have cd: "cd_binder_id read_capability = ''github-read-ref-target-binder/v1''"
      "cd_target_kind read_capability = ''git_ref''" "cd_definition_identity read_capability = zeros"
    by (simp_all add: read_capability_def)
  moreover have resolved: "resolve_procedure ?m (cd_binder_id read_capability) = Inr (read_target_procedure wit_hash)"
    by (simp add: resolve_procedure_def cd thenE_eq_Inr check_texts_eq_Inr)
  moreover have "et_target_kind read_target = ''git_ref''" by (simp add: read_target_def)
  ultimately have "\<exists>b. bind_target wit_hash ?m read_capability ?payload = Inr b"
    using ok by (simp add: bind_target_def guardE_def read_target_procedure_def target_binding_create_def
      target_binding_init_iff target_binding_ok_def target_binding_claims_def)
  then obtain b where b: "bind_target wit_hash ?m read_capability ?payload = Inr b" by blast
  show ?thesis using read_target_is_reviewed_target [OF resolved b] b by auto
qed

end
