(* ===== verification/Verification_Witness.thy ===== *)
theory Verification_Witness
  imports Runner_Witness
begin

text \<open>
  A concrete verifier, its readback of the observation of \<open>Runner_Witness\<close>, and a stored result, used to
  show that the hypotheses of the verification theorems can hold.  The digest function of the readback gives another
  value to the two identity texts of the verifier, as its identity must differ from the runner's.
\<close>

subsection \<open>The verifier\<close>

definition the_verifier :: verifier_identity where
  "the_verifier =
     \<lparr>vi_verifier_id = ones, vi_verifier_class = ''v1'', vi_provider = ''github'', vi_provider_instance_id = ''c1'',
      vi_environment = ''local'', vi_credential_class = ''alice'', vi_rootfs_digest = zeros,
      vi_resource_limit_profile_digest = zeros, vi_network_policy_digest = zeros, vi_identity_revision = ''v1'',
      vi_identity_digest = ones\<rparr>"

definition verifier_names :: "(string \<times> json) list" where
  "verifier_names =
     [(''identity_type'', JStr ''verifier-logical-identity/v1''), (''verifier_class'', JStr ''v1''),
      (''provider'', JStr ''github''), (''provider_instance_id'', JStr ''c1''), (''environment'', JStr ''local''),
      (''credential_class'', JStr ''alice'')]"

definition read_hash :: "string \<Rightarrow> string" where
  "read_hash s =
     (if s = claims_text verifier_names \<or> s = claims_text (verifier_identity_claims the_verifier) then ones else zeros)"

lemma read_hash_runner: "runner_digest read_hash"
proof -
  have "claims_digest read_hash xs = zeros" if "runner_claims xs" for xs
  proof -
    have f: "flat verifier_names" by (simp add: flat_def verifier_names_def)
    have "(''identity_type'', JStr ''verifier-logical-identity/v1'') \<in> set verifier_names"
      "(''identity_type'', JStr ''verifier-identity/v1'') \<in> set (verifier_identity_claims the_verifier)"
      by (simp_all add: verifier_names_def verifier_identity_claims_def)
    then have "claims_text xs \<noteq> claims_text verifier_names"
        "claims_text xs \<noteq> claims_text (verifier_identity_claims the_verifier)"
      using that claims_text_member [OF _ f] claims_text_member [OF _ verifier.flat_claims]
      unfolding runner_claims_def by force+
    then show ?thesis by (simp add: claims_digest_def read_hash_def)
  qed
  then show ?thesis by (simp add: runner_digest_def)
qed

lemma the_verifier_created:
  "verifier_identity_create read_hash ''v1'' ''github'' ''c1'' ''local'' ''alice'' zeros zeros zeros ''v1''
     = Inr the_verifier"
proof -
  have id: "verifier_logical_identity read_hash ''v1'' ''github'' ''c1'' ''local'' ''alice'' = ones"
    by (simp add: verifier_logical_identity_def claims_digest_def read_hash_def verifier_names_def)
  let ?c = "the_verifier\<lparr>vi_identity_digest := []\<rparr>"
  have e: "claims_digest read_hash (verifier_identity_claims the_verifier) = ones"
    by (simp add: claims_digest_def read_hash_def)
  have c: "\<lparr>vi_verifier_id = ones, vi_verifier_class = ''v1'', vi_provider = ''github'', vi_provider_instance_id = ''c1'',
      vi_environment = ''local'', vi_credential_class = ''alice'', vi_rootfs_digest = zeros,
      vi_resource_limit_profile_digest = zeros, vi_network_policy_digest = zeros, vi_identity_revision = ''v1'',
      vi_identity_digest = []\<rparr> = ?c" "the_verifier\<lparr>vi_identity_digest := ones\<rparr> = the_verifier"
    by (simp_all add: the_verifier_def)
  have "verifier_identity_ok read_hash the_verifier"
    by (simp add: verifier_identity_ok_def e) (simp add: the_verifier_def id valid_environments_def)
  then show ?thesis
    by (simp add: verifier_identity_create_def Let_def id c e verifier_identity_sealed)
qed

subsection \<open>The readback\<close>

definition the_boundary :: verification_boundary where
  "the_boundary =
     \<lparr>vb_verifier_id = ones, vb_verifier_identity_digest = ones, vb_verifier_class = ''v1'',
      vb_verifier_provider = ''github'', vb_verifier_provider_instance_id = ''c1'', vb_verifier_credential_class = ''alice'',
      vb_runner_id = zeros, vb_runner_identity_digest = zeros, vb_runner_boundary_digest = zeros,
      vb_runner_provider_instance_id = ''r1'', vb_runner_credential_class = ''runner'', vb_execution_id = ''x1'',
      vb_execution_epoch = 1, vb_target_digest = zeros, vb_runner_observation_digest = zeros, vb_environment = ''local'',
      vb_effect_ceiling = ''READ_ONLY'', vb_network_egress_default = ''DENY_ALL'', vb_provider_mutation_allowed = False,
      vb_independence_class = independence_class, vb_boundary_revision = ''v1'', vb_boundary_digest = zeros\<rparr>"

definition the_credential :: verifier_decision where
  "the_credential =
     \<lparr>vd_decision_id = zeros, vd_verifier_id = ones, vd_verifier_identity_digest = ones,
      vd_verification_boundary_digest = zeros, vd_runner_observation_digest = zeros, vd_target_digest = zeros,
      vd_execution_id = ''x1'', vd_execution_epoch = 1, vd_credential_class = ''alice'', vd_provider = ''github'',
      vd_audience = ''repo'', vd_environment = ''local'', vd_access_mode = ''READ_ONLY'',
      vd_provider_mutation_allowed = False, vd_valid_from = wit_at 0 4, vd_expires_at = wit_at 1 0,
      vd_policy_digest = zeros, vd_policy_revision = ''v1'', vd_decision_revision = ''v1'', vd_decision_digest = zeros\<rparr>"

definition the_verifier_handler :: verifier_handler where
  "the_verifier_handler = \<lparr>vh_read_ref = (\<lambda>_ _. Inr (JStr git_sha)), vh_source_identity = ''repo'',
     vh_clock = read_clock, vh_observation_revision = ''v1''\<rparr>"

definition the_readback :: verifier_observation where
  "the_readback =
     \<lparr>vo_repository = ''o/r'', vo_ref = ''refs/heads/m'', vo_commit_sha = git_sha, vo_target_digest = zeros,
      vo_provider = ''github'', vo_provider_instance_id = ''c1'', vo_verifier_id = ones,
      vo_verifier_identity_digest = ones, vo_verification_boundary_digest = zeros,
      vo_verifier_credential_decision_id = zeros, vo_verifier_credential_decision_digest = zeros,
      vo_runner_observation_digest = zeros, vo_execution_id = ''x1'', vo_execution_epoch = 1,
      vo_source_identity = ''repo'', vo_access_clock_source_identity = ''clock'',
      vo_access_clock_witness_digest = zeros, vo_credential_checked_at = wit_at 0 5,
      vo_clock_source_identity = ''clock'', vo_clock_witness_digest = zeros, vo_observed_at = wit_at 0 6,
      vo_observation_revision = ''v1'', vo_observation_digest = zeros\<rparr>"

lemma readback_seal:
  assumes "runner_digest H"
  shows "vb_execution_epoch b \<noteq> 2 \<Longrightarrow> claims_digest H (verification_boundary_claims b) = zeros"
    and "vo_execution_epoch ob \<noteq> 2 \<Longrightarrow> claims_digest H (verifier_observation_claims ob) = zeros"
    and "claims_digest H (verification_strength_claims st) = zeros"
    and "vr_execution_epoch c \<noteq> 2 \<Longrightarrow> claims_digest H (verification_result_claims c) = zeros"
  using runner_zeros [OF assms runner_claims_flat [OF verification_bound.flat_claims]]
    runner_zeros [OF assms runner_claims_flat [OF verifier_observed.flat_claims]]
    runner_zeros [OF assms runner_claims_flat [OF strength.flat_claims]]
    runner_zeros [OF assms runner_claims_flat [OF verdict.flat_claims]]
  by (simp_all add: verification_boundary_claims_def verifier_observation_claims_def verification_strength_claims_def
      verification_result_claims_def)

lemma the_boundary_created:
  "verification_boundary_create read_hash the_verifier read_runner read_boundary (read_observation (wit_at 0 3)) ''v1''
     = Inr the_boundary"
  by (simp add: verification_boundary_create_def Let_def thenE_eq_Inr guardE_eq_Inr verification_boundary_sealed
      verification_boundary_ok_def check_texts_eq_Inr assert_runner_evidence_bound_def)
    (simp add: the_verifier_def read_runner_def read_boundary_def read_observation_def the_boundary_def
      readback_seal [OF read_hash_runner] valid_environments_def)

lemma the_verifier_bound: "exactly_bound the_verifier the_boundary the_credential read_target"
  by (simp add: exactly_bound_def the_verifier_def the_boundary_def the_credential_def read_target_def)

lemma the_readback_observed:
  "verifier_observe_ref read_hash the_verifier_handler (AwareTime (wit_time 0 5)) (AwareTime (wit_time 0 6)) the_verifier
     the_boundary the_credential read_target = Inr the_readback"
proof -
  have sel: "vh_read_ref the_verifier_handler x y = Inr (JStr git_sha)" "vh_source_identity the_verifier_handler = ''repo''"
      "vh_clock the_verifier_handler = read_clock" "vh_observation_revision the_verifier_handler = ''v1''"
      "et_target_digest read_target = zeros" "vi_environment the_verifier = ''local''"
      "ck_environment (wit_clock n) = ''local''" "ck_source_identity (wit_clock n) = ''clock''"
      "ck_witness_digest (wit_clock n) = zeros" "ck_observed_at (wit_clock n) = n" for x y n
    by (simp_all add: the_verifier_handler_def read_target_def wit_clock_def the_verifier_def)
  have bound: "assert_exact_binding the_verifier the_boundary the_credential read_target = Inr ()"
    using the_verifier_bound by (simp add: assert_exact_binding_iff)
  have current: "assert_credential_current the_credential (wit_clock (wit_at 0 5)) = Inr ()"
    by (simp add: assert_credential_current_def thenE_eq_Inr bindE_eq_Inr guardE_eq_Inr require_timestamp_iff sel)
      (simp add: the_credential_def)
  have "verifier_observation_create read_hash ''o/r'' ''refs/heads/m'' git_sha read_target the_verifier the_boundary
      the_credential (wit_clock (wit_at 0 5)) (wit_clock (wit_at 0 6)) ''repo'' ''v1'' = Inr the_readback"
    by (simp add: verifier_observation_create_def Let_def bindE_eq_Inr thenE_eq_Inr guardE_eq_Inr
        verifier_observation_sealed verifier_observation_ok_def check_texts_eq_Inr bound current sel)
      (simp add: the_verifier_def the_boundary_def the_credential_def the_readback_def
        readback_seal [OF read_hash_runner])
  moreover have "require_git_object_id ''commit_sha'' (JStr git_sha) = Inr git_sha" by simp
  ultimately show ?thesis
    by (simp add: verifier_observe_ref_def sel bound current read_target_parsed catchE_def
        read_clock_witness [OF read_hash_runner] del: require_git_object_id_iff)
qed

definition the_state :: post_state where
  "the_state =
     \<lparr>ps_execution_id = ''x1'', ps_execution_epoch = 1, ps_target_digest = zeros, ps_state_kind = ''git_ref'',
      ps_state_claims = [(''commit_sha'', git_sha), (''ref'', ''refs/heads/m''), (''repository'', ''o/r'')],
      ps_provider = ''github'', ps_provider_instance_id = ''c1'', ps_source_identity = ''repo'', ps_verifier_id = ones,
      ps_verifier_identity_digest = ones, ps_verification_boundary_digest = zeros,
      ps_verifier_observation_digest = zeros, ps_observed_at = wit_at 0 6, ps_state_revision = ''v1'',
      ps_state_digest = zeros\<rparr>"

definition the_strength :: verification_strength where
  "the_strength =
     \<lparr>vs_strength_class = independent_provider_readback, vs_independence_class = independence_class,
      vs_temporal_model = sequential_readback, vs_target_binding_exact = True, vs_identity_separation = True,
      vs_provider_instance_separation = True, vs_credential_separation = True, vs_provider_readback = True,
      vs_atomic_readback = False, vs_effect_ceiling = ''READ_ONLY'', vs_provider_mutation_allowed = False,
      vs_verification_boundary_digest = zeros, vs_verifier_observation_digest = zeros, vs_strength_revision = ''v1'',
      vs_strength_digest = zeros\<rparr>"

definition the_result :: "string \<Rightarrow> string \<Rightarrow> verification_result" where
  "the_result observed verifier_digest =
     \<lparr>vr_execution_id = ''x1'', vr_execution_epoch = 1, vr_target_digest = zeros, vr_runner_observation_digest = observed,
      vr_verifier_observation_digest = zeros, vr_observed_post_state_digest = zeros,
      vr_verification_boundary_digest = zeros, vr_verifier_id = verifier_digest,
      vr_verifier_identity_digest = verifier_digest, vr_verification_strength_digest = zeros,
      vr_verification_strength_class = independent_provider_readback, vr_verdict = ''VERIFIED'',
      vr_reason = ''OBSERVED_STATE_MATCH'', vr_checked_at = wit_at 0 6, vr_result_revision = ''v1'',
      vr_result_digest = zeros\<rparr>"

lemma readback_texts [simp]:
  "text_ok independent_provider_readback" "text_ok independence_class" "text_ok sequential_readback"
  "text_ok ''READ_ONLY''" "text_ok ''VERIFIED''" "text_ok ''OBSERVED_STATE_MATCH''" "text_ok ''commit_sha''"
  "text_ok ''ref''" "text_ok ''repository''"
  by code_simp+

lemma the_state_created: "post_state_create read_hash (readback_state the_readback the_boundary ''v1'') = Inr the_state"
proof -
  let ?c = "readback_state the_readback the_boundary ''v1''"
  let ?cs = "[(''repository'', ''o/r''), (''ref'', ''refs/heads/m''), (''commit_sha'', git_sha)]"
  have sorted: "sort ?cs = ps_state_claims the_state" by (simp add: the_state_def)
  have c: "ps_state_claims ?c = ?cs" by (simp add: readback_state_def the_readback_def)
  have "json_wf (JObj (post_state_claims the_state))" by (simp add: post_state_claims_def the_state_def)
  then have d: "claims_digest read_hash (post_state_claims the_state) = zeros"
    by (intro runner_zeros [OF read_hash_runner])
      (simp add: runner_claims_def, simp add: post_state_claims_def the_state_def)
  have c1: "post_state_claims (?c\<lparr>ps_state_claims := ps_state_claims the_state\<rparr>) = post_state_claims the_state"
    "?c\<lparr>ps_state_claims := ps_state_claims the_state, ps_state_digest := zeros\<rparr> = the_state"
    by (simp_all add: post_state_claims_def readback_state_def the_readback_def the_boundary_def the_state_def)
  have "state_claims_from_mapping (JObj (map (\<lambda>(k, v). (k, JStr v)) ?cs)) = Inr (ps_state_claims the_state)"
    unfolding state_claims_from_mapping_def json.case
    by (simp only: thenE_eq_Inr guardE_eq_Inr bindE_eq_Inr pairs_from_texts sorted ex_simps)
      (simp add: sorted, simp add: the_state_def)
  moreover have "post_state_init read_hash (item (post_state_to_dict the_state)) (ps_state_claims the_state) = Inr the_state"
    by (simp add: post_state_init_def Let_def thenE_eq_Inr bindE_eq_Inr guardE_eq_Inr for_each_eq_Inr check_texts_eq_Inr
        init_simps d)
      (simp add: post_state_to_dict_def post_state_claims_def the_state_def)
  ultimately show ?thesis by (simp only: post_state_create_def Let_def c sorted c1 d bindE_Inr)
qed

lemma the_readback_bound: "evidence_bound (read_observation (wit_at 0 3)) the_readback the_boundary"
  by (simp add: evidence_bound_def read_observation_def the_readback_def the_boundary_def)

lemma the_result_ok:
  assumes "runner_digest H" and "digest_ok observed" and "digest_ok d"
  shows "verification_result_ok H (the_result observed d)"
proof -
  have "vr_execution_epoch (the_result observed d) = 1" by (simp add: the_result_def)
  then show ?thesis
    using assms by (simp add: verification_result_ok_def readback_seal) (simp add: the_result_def)
qed

lemma the_readback_verified:
  "verify_readback read_hash (read_observation (wit_at 0 3)) the_readback the_boundary ''v1'' ''v1'' ''v1''
     = Inr (the_state, the_strength, the_result zeros ones)"
proof -
  let ?r = "read_observation (wit_at 0 3)"
  have strength: "verification_strength_create read_hash zeros zeros ''v1'' = Inr the_strength"
    by (simp add: verification_strength_create_def Let_def verification_strength_sealed verification_strength_ok_def
        the_strength_def readback_seal [OF read_hash_runner])
  have sel: "vb_boundary_digest the_boundary = zeros" "vo_observation_digest the_readback = zeros"
    by (simp_all add: the_boundary_def the_readback_def)
  have r: "readback_result ?r the_readback the_boundary the_state the_strength ''v1''
      = (the_result zeros ones)\<lparr>vr_result_digest := []\<rparr>"
    by (simp add: readback_result_def the_readback_def the_boundary_def the_state_def the_strength_def the_result_def
        read_observation_def)
  have "(the_result zeros ones)\<lparr>vr_result_digest := [], vr_result_digest := zeros\<rparr> = the_result zeros ones"
    by (simp add: the_result_def)
  then have result: "verification_result_create read_hash (readback_result ?r the_readback the_boundary the_state the_strength ''v1'')
      = Inr (the_result zeros ones)"
    using the_result_ok [OF read_hash_runner] unfolding verification_result_create_def verification_result_sealed r
    by (simp add: readback_seal [OF read_hash_runner] the_result_def)
  have "assert_evidence_bound ?r the_readback the_boundary = Inr ()"
    using the_readback_bound by (simp add: assert_evidence_bound_iff)
  moreover have "check_texts [(''observed_post_state_revision'', ''v1''), (''strength_revision'', ''v1''),
      (''result_revision'', ''v1'')] = Inr ()"
    by (simp add: check_texts_eq_Inr)
  ultimately show ?thesis using the_state_created strength result by (simp add: verify_readback_def sel)
qed

theorem verified_iff_independent_agreement_witness:
  "verify_readback read_hash (read_observation (wit_at 0 3)) the_readback the_boundary ''v1'' ''v1'' ''v1''
     = Inr (the_state, the_strength, the_result zeros ones)
   \<and> (\<exists>repository ref. vh_read_ref the_verifier_handler repository ref = gh_read_ref the_read_handler repository ref)"
proof -
  have o: "observe_ref read_hash the_read_handler (\<lambda>_. Inr ()) (AwareTime (wit_time 0 3)) read_runtime read_activation
      read_target = Inr (read_observation (wit_at 0 3))"
    by (rule read_observed [OF read_hash_runner]) simp_all
  have "vr_verdict (the_result zeros ones) = ''VERIFIED''" by (simp add: the_result_def)
  then show ?thesis
    using the_readback_verified
      verified_iff_independent_agreement [OF o the_boundary_created the_readback_observed the_readback_verified] by metis
qed

subsection \<open>A stored result\<close>

definition stored_db :: result_db where
  "stored_db = (read_db wit_db3)\<lparr>rd_results := [result_row_of (the_result ones zeros)]\<rparr>"

lemma the_result_stored:
  "store_result wit_hash (read_db wit_db3) (the_result ones zeros) = Inr (the_result ones zeros, stored_db)"
proof -
  let ?c = "the_result ones zeros" and ?db = "read_db wit_db3"
  have tables: "t_outbox wit_db3 = [wit_outbox_row]" "t_snapshots wit_db3 = [wit_snapshot]"
    by (simp_all add: wit_db3_def wit_db2_def wit_db1_def wit_db0_def)
  have state: "es_execution_id wit_done = ''x1''" "es_current_epoch wit_done = 1"
    by (simp_all add: wit_done_def completed_with_def) (simp add: wit_state1_def first_epoch_state_def wit_adm_def)
  have "ox_execution_id (ob_cols wit_outbox_row) = ''x1''" "ox_target_digest (ob_cols wit_outbox_row) = zeros"
    by (simp_all add: wit_outbox_row_def wit_entry_def)
  then have "result_binding (rd_trust ?db) ?c"
    by (simp add: result_binding_def tables state) (simp add: the_result_def)
  moreover have "vc_cols (result_row_of ?c) = ?c" by (simp add: result_row_of_def)
  moreover have "json_check (vc_result_json (result_row_of ?c))"
    by (simp add: result_row_of_def verification_result_to_dict_def canonical_object_check)
  moreover have "sr_execution_id wit_snapshot = ''x1''" by (simp add: wit_snapshot_def)
  ultimately have "insert_result ?db (result_row_of ?c) = Inr stored_db"
    by (simp add: insert_result_def Let_def guardE_def key_free_def tables stored_db_def)
      (simp add: the_result_def nonempty_check_def independent_provider_readback_def)
  then show ?thesis by (simp add: store_result_def catchE_def select_def)
qed

lemma stored_db_reachable: "verification_reachable wit_hash stored_db"
  by (rule verification_reach [OF read_db_reachable [OF wit_late_pipeline(1)]],
      rule result_service [OF the_result_ok [OF wit_runner_digest] the_result_stored]) simp_all

theorem stored_results_of_completed_executions_witness:
  "\<exists>row \<in> set (rd_results stored_db). \<exists>s \<in> set (t_epochs (rd_trust stored_db)).
     es_execution_id s = ''x1'' \<and> es_completion_digest s = Some ones \<and> vc_execution_id row = ''x1''"
proof -
  have row: "result_row_of (the_result ones zeros) \<in> set (rd_results stored_db)" by (simp add: stored_db_def)
  moreover have "vc_cols (result_row_of (the_result ones zeros)) = the_result ones zeros"
    by (simp add: result_row_of_def)
  moreover have "vr_execution_id (the_result ones zeros) = ''x1''"
      "vr_runner_observation_digest (the_result ones zeros) = ones"
    by (simp_all add: the_result_def)
  ultimately show ?thesis
    using stored_results_of_completed_executions [OF stored_db_reachable, THEN conjunct2, THEN bspec, OF row] by metis
qed

theorem stored_verdict_is_final_witness:
  "get_result wit_hash stored_db ''x1'' = Inr (Some (the_result ones zeros))
   \<and> store_result wit_hash stored_db (the_result ones ones) = Inl (RuntimeError ''VERIFICATION_RESULT_CONFLICT'')"
proof -
  have sel: "vr_execution_id (the_result ones d) = ''x1''" for d by (simp add: the_result_def)
  have "the_result ones ones \<noteq> the_result ones zeros" by (simp add: the_result_def)
  moreover have "verification_result_ok wit_hash (the_result ones zeros)"
    by (rule the_result_ok [OF wit_runner_digest]) simp_all
  note stored_verdict_is_final [OF read_db_reachable [OF wit_late_pipeline(1)] this the_result_stored
      rtranclp.rtrancl_refl, of "the_result ones ones"]
  ultimately show ?thesis by (simp add: sel)
qed

end
