(* ===== verification/Session_Lifecycle.thy ===== *)
theory Session_Lifecycle
  imports Core_Db
begin

text \<open>
  The allowlist of bearer sessions (\<open>session_lifecycle.py\<close>).  The session reference factory (an
  HMAC keyed with the signing secret, see \<open>session_reference\<close> in \<open>security.py\<close>) is a parameter
  of every operation; clock readings are arguments.
\<close>

definition session_reference_of :: "(string \<Rightarrow> string) \<Rightarrow> string \<Rightarrow> string res" where
  "session_reference_of ref session_id =
     thenE (guardE (is_digest (ref session_id)) (ValueError ''session reference''))
      (Inr (ref session_id))"

definition insert_session :: "core_db \<Rightarrow> session_row \<Rightarrow> core_db res" where
  "insert_session db r =
     thenE (guardE (key_free s_session_reference (s_session_reference r) (c_sessions db)
        \<and> length (s_session_reference r) = 64 \<and> s_user_id r \<in> set (map u_id (c_users db))
        \<and> s_issued_at r < s_expires_at r)
       IntegrityError)
      (Inr (db\<lparr>c_sessions := c_sessions db @ [r]\<rparr>))"

definition delete_expired_sessions :: "int \<Rightarrow> core_db \<Rightarrow> core_db" where
  "delete_expired_sessions now db = db\<lparr>c_sessions := filter (\<lambda>s. \<not> s_expires_at s \<le> now) (c_sessions db)\<rparr>"

definition register_session ::
  "(string \<Rightarrow> string) \<Rightarrow> (string \<Rightarrow> string) \<Rightarrow> int \<Rightarrow> string \<times> string \<Rightarrow> core_db \<Rightarrow>
   string \<Rightarrow> string \<Rightarrow> int \<Rightarrow> int \<Rightarrow> core_db res" where
  "register_session H ref now idt db session_id user_id issued_at expires_at =
     thenE (guardE (issued_at < expires_at) (ValueError ''session lifetime''))
    (bindE (session_reference_of ref session_id) (\<lambda>reference.
     let db0 = delete_expired_sessions now db in
     bindE (catchE is_IntegrityError
       (insert_session db0 \<lparr>s_session_reference = reference, s_user_id = user_id, s_issued_at = issued_at,
          s_expires_at = expires_at\<rparr>)
       (RuntimeError ''session registration failed'')) (\<lambda>db1.
     audit H idt db1 user_id ''session.issue'' ''session'' reference
       (JObj [(''expires_at'', JInt expires_at), (''provider'', JStr ''local'')]))))"

definition require_active_session ::
  "(string \<Rightarrow> string) \<Rightarrow> int \<Rightarrow> core_db \<Rightarrow> string \<Rightarrow> string \<Rightarrow> int \<Rightarrow> int \<Rightarrow> unit res" where
  "require_active_session ref now db session_id user_id issued_at expires_at =
     bindE (session_reference_of ref session_id) (\<lambda>reference.
     case List.find (\<lambda>s. s_session_reference s = reference \<and> now < s_expires_at s) (c_sessions db) of
       None \<Rightarrow> Inl (PermissionError ''authentication session is inactive'')
     | Some row \<Rightarrow> guardE (s_user_id row = user_id \<and> s_issued_at row = issued_at \<and> s_expires_at row = expires_at)
         (PermissionError ''authentication session is inactive''))"

definition revoke_session ::
  "(string \<Rightarrow> string) \<Rightarrow> (string \<Rightarrow> string) \<Rightarrow> string \<times> string \<Rightarrow> core_db \<Rightarrow>
   string \<Rightarrow> string \<Rightarrow> string \<Rightarrow> string \<Rightarrow> core_db res" where
  "revoke_session H ref idt db session_id user_id actor_id reason =
     thenE (guardE (actor_id = user_id) (PermissionError ''session owner mismatch''))
    (let normalized = strip reason in
     thenE (guardE (3 \<le> length normalized \<and> length normalized \<le> 200) (ValueError ''session revocation reason''))
    (bindE (session_reference_of ref session_id) (\<lambda>reference.
     let doomed = (\<lambda>s. s_session_reference s = reference \<and> s_user_id s = user_id) in
     thenE (guardE (list_ex doomed (c_sessions db)) (PermissionError ''authentication session is inactive''))
      (audit H idt (db\<lparr>c_sessions := filter (Not \<circ> doomed) (c_sessions db)\<rparr>) actor_id ''session.revoke''
        ''session'' reference (JObj [(''reason'', JStr normalized)])))))"

definition revoke_all_sessions ::
  "(string \<Rightarrow> string) \<Rightarrow> string \<times> string \<Rightarrow> core_db \<Rightarrow> string \<Rightarrow> string \<Rightarrow> string \<Rightarrow> (nat \<times> core_db) res" where
  "revoke_all_sessions H idt db user_id actor_id reason =
     thenE (guardE (1 \<le> length user_id \<and> length user_id \<le> 128 \<and> 1 \<le> length actor_id \<and> length actor_id \<le> 128)
       (ValueError ''session revocation identity''))
    (let normalized = strip reason in
     thenE (guardE (3 \<le> length normalized \<and> length normalized \<le> 200) (ValueError ''session revocation reason''))
    (thenE (guardE (user_id \<in> set (map u_id (c_users db))) (LookupError ''user not found''))
    (let removed = length (filter (\<lambda>s. s_user_id s = user_id) (c_sessions db)) in
     bindE (audit H idt (db\<lparr>c_sessions := filter (\<lambda>s. s_user_id s \<noteq> user_id) (c_sessions db)\<rparr>) actor_id
       ''session.revoke_all'' ''user'' user_id
       (JObj [(''reason'', JStr normalized), (''revoked_count'', JInt (int removed))])) (\<lambda>db'.
     Inr (removed, db')))))"

subsection \<open>Sessions in the allowlist\<close>

definition sessions_inv :: "core_db \<Rightarrow> bool" where
  "sessions_inv db \<longleftrightarrow> unique_on s_session_reference (c_sessions db)"

lemma unique_on_filter: "unique_on key rows \<Longrightarrow> unique_on key (filter P rows)"
  by (simp add: unique_on_def distinct_map_filter)

lemma register_session_eq_Inr:
  "register_session H ref now idt db sid uid iat exp = Inr db' \<longleftrightarrow>
     iat < exp \<and> is_digest (ref sid) \<and> uid \<in> set (map u_id (c_users db))
     \<and> key_free s_session_reference (ref sid) (c_sessions (delete_expired_sessions now db))
     \<and> (let row = \<lparr>s_session_reference = ref sid, s_user_id = uid, s_issued_at = iat, s_expires_at = exp\<rparr>;
            db1 = db\<lparr>c_sessions := c_sessions (delete_expired_sessions now db) @ [row]\<rparr>
        in audit H idt db1 uid ''session.issue'' ''session'' (ref sid)
             (JObj [(''expires_at'', JInt exp), (''provider'', JStr ''local'')]) = Inr db')"
  by (auto simp: register_session_def session_reference_of_def insert_session_def
      delete_expired_sessions_def res_simps Let_def is_digest_def)

lemma sessions_of_audit: "audit H idt db a b c d p = Inr db' \<Longrightarrow> c_sessions db' = c_sessions db"
  using audit_keeps by blast

lemma register_session_sessions:
  assumes "register_session H ref now idt db sid uid iat exp = Inr db'"
  shows "c_sessions db' = filter (\<lambda>s. \<not> s_expires_at s \<le> now) (c_sessions db)
     @ [\<lparr>s_session_reference = ref sid, s_user_id = uid, s_issued_at = iat, s_expires_at = exp\<rparr>]"
  using assms sessions_of_audit unfolding register_session_eq_Inr Let_def delete_expired_sessions_def
  by fastforce

lemma register_session_inv:
  assumes "register_session H ref now idt db sid uid iat exp = Inr db'" and "sessions_inv db"
  shows "sessions_inv db'"
  using assms(2) register_session_sessions [OF assms(1)] assms(1)
  unfolding sessions_inv_def register_session_eq_Inr delete_expired_sessions_def
  by (simp add: unique_on_snoc unique_on_filter)

lemma revoke_session_sessions:
  assumes "revoke_session H ref idt db sid uid actor reason = Inr db'"
  shows "c_sessions db' = filter (\<lambda>s. \<not> (s_session_reference s = ref sid \<and> s_user_id s = uid)) (c_sessions db)
     \<and> actor = uid \<and> is_digest (ref sid)"
proof -
  obtain db1 where "audit H idt db1 actor ''session.revoke'' ''session'' (ref sid)
      (JObj [(''reason'', JStr (strip reason))]) = Inr db'"
    and "db1 = db\<lparr>c_sessions := filter (\<lambda>s. \<not> (s_session_reference s = ref sid \<and> s_user_id s = uid)) (c_sessions db)\<rparr>"
    and "actor = uid" and "is_digest (ref sid)"
    using assms by (auto simp: revoke_session_def session_reference_of_def res_simps Let_def comp_def)
  then show ?thesis using sessions_of_audit by fastforce
qed

lemma revoke_all_sessions_sessions:
  assumes "revoke_all_sessions H idt db uid actor reason = Inr (n, db')"
  shows "c_sessions db' = filter (\<lambda>s. s_user_id s \<noteq> uid) (c_sessions db)
     \<and> n = length (filter (\<lambda>s. s_user_id s = uid) (c_sessions db))"
proof -
  obtain db1 p where "audit H idt db1 actor ''session.revoke_all'' ''user'' uid p = Inr db'"
    and "db1 = db\<lparr>c_sessions := filter (\<lambda>s. s_user_id s \<noteq> uid) (c_sessions db)\<rparr>"
    and "n = length (filter (\<lambda>s. s_user_id s = uid) (c_sessions db))"
    using assms by (auto simp: revoke_all_sessions_def res_simps Let_def)
  then show ?thesis using sessions_of_audit by fastforce
qed

text \<open>A session passes exactly while its own row is in the allowlist and not expired.\<close>

lemma require_active_session_iff:
  assumes "sessions_inv db"
  shows "require_active_session ref now db sid uid iat exp = Inr () \<longleftrightarrow>
     is_digest (ref sid) \<and> now < exp
     \<and> \<lparr>s_session_reference = ref sid, s_user_id = uid, s_issued_at = iat, s_expires_at = exp\<rparr> \<in> set (c_sessions db)"
  (is "?L \<longleftrightarrow> ?d \<and> ?t \<and> ?row \<in> _")
proof
  assume ?L
  then obtain row where "?d" and "List.find (\<lambda>s. s_session_reference s = ref sid \<and> now < s_expires_at s) (c_sessions db) = Some row"
    and "s_user_id row = uid" "s_issued_at row = iat" "s_expires_at row = exp"
    by (auto simp: require_active_session_def session_reference_of_def res_simps split: option.splits)
  moreover from this have "row \<in> set (c_sessions db)" "s_session_reference row = ref sid" "now < s_expires_at row"
    by (auto simp: find_Some_iff)
  ultimately show "?d \<and> ?t \<and> ?row \<in> set (c_sessions db)" by (cases row) auto
next
  assume R: "?d \<and> ?t \<and> ?row \<in> set (c_sessions db)"
  let ?P = "\<lambda>s. s_session_reference s = ref sid \<and> now < s_expires_at s"
  have "?P ?row" using R by simp
  then have "List.find ?P (c_sessions db) \<noteq> None" using R unfolding find_None_iff by blast
  then obtain row where f: "List.find ?P (c_sessions db) = Some row" by blast
  then have "row \<in> set (c_sessions db)" "s_session_reference row = ref sid" by (auto simp: find_Some_iff)
  then have "row = ?row"
    using R assms unique_on_eqI [of s_session_reference "c_sessions db" row ?row] by (simp add: sessions_inv_def)
  then show ?L using R f by (simp add: require_active_session_def session_reference_of_def)
qed

subsection \<open>Sessions under all operations\<close>

inductive session_step :: "(string \<Rightarrow> string) \<Rightarrow> (string \<Rightarrow> string) \<Rightarrow> core_db \<Rightarrow> core_db \<Rightarrow> bool"
  for H ref where
  step_register: "register_session H ref now idt db sid uid iat exp = Inr db' \<Longrightarrow> session_step H ref db db'"
| step_revoke: "revoke_session H ref idt db sid uid actor reason = Inr db' \<Longrightarrow> session_step H ref db db'"
| step_revoke_all: "revoke_all_sessions H idt db uid actor reason = Inr (n, db') \<Longrightarrow> session_step H ref db db'"

lemma session_step_inv: "session_step H ref db db' \<Longrightarrow> sessions_inv db \<Longrightarrow> sessions_inv db'"
proof (induction rule: session_step.induct)
  case (step_register now idt db sid uid iat exp db')
  then show ?case by (blast intro: register_session_inv)
next
  case (step_revoke idt db sid uid actor reason db')
  then show ?case
    using revoke_session_sessions [OF step_revoke(1)] by (simp add: sessions_inv_def unique_on_filter)
next
  case (step_revoke_all idt db uid actor reason n db')
  then show ?case
    using revoke_all_sessions_sessions [OF step_revoke_all(1)] by (simp add: sessions_inv_def unique_on_filter)
qed

lemma session_steps_inv: "(session_step H ref)\<^sup>*\<^sup>* db db' \<Longrightarrow> sessions_inv db \<Longrightarrow> sessions_inv db'"
  by (induction rule: rtranclp_induct) (auto dest: session_step_inv)

text \<open>A registered session is accepted, and only with the user and the times it was issued with,
  until it expires: right after \<open>register_session\<close>, \<open>require_active_session\<close> passes for
  exactly the registered user, issue and expiry time and for every clock reading before the expiry.\<close>

lemma registered_session_accepted:
  assumes "(session_step H ref)\<^sup>*\<^sup>* db0 db" and "c_sessions db0 = []"
    and "register_session H ref now idt db sid uid iat exp = Inr db'"
  shows "require_active_session ref now' db' sid uid' iat' exp' = Inr () \<longleftrightarrow>
     now' < exp \<and> uid' = uid \<and> iat' = iat \<and> exp' = exp"
proof -
  have "sessions_inv db"
    using session_steps_inv [OF assms(1)] assms(2) by (simp add: sessions_inv_def unique_on_def)
  then have inv: "sessions_inv db'" using register_session_inv [OF assms(3)] by blast
  let ?row = "\<lparr>s_session_reference = ref sid, s_user_id = uid, s_issued_at = iat, s_expires_at = exp\<rparr>"
  have mem: "?row \<in> set (c_sessions db')" and d: "is_digest (ref sid)"
    using register_session_sessions [OF assms(3)] assms(3) by (simp_all add: register_session_eq_Inr)
  have only: "s = ?row" if "s \<in> set (c_sessions db')" "s_session_reference s = ref sid" for s
    using unique_on_eqI [of s_session_reference "c_sessions db'" s ?row] inv that mem
    by (simp add: sessions_inv_def)
  show ?thesis
    using require_active_session_iff [OF inv] d mem only
      [of "\<lparr>s_session_reference = ref sid, s_user_id = uid', s_issued_at = iat', s_expires_at = exp'\<rparr>"]
    by auto
qed

lemma revoke_all_step:
  assumes "revoke_all_sessions H idt db uid actor reason = Inr (n, db')"
  shows "\<forall>s \<in> set (c_sessions db'). s_user_id s \<noteq> uid"
  using revoke_all_sessions_sessions [OF assms] by auto

text \<open>(C40) Revocation is immediate: after \<open>revoke_all_sessions\<close> for a user, no session of that
  user is accepted, for any session identifier, claimed times and clock reading.\<close>

theorem revoked_user_has_no_session:
  assumes "(session_step H ref)\<^sup>*\<^sup>* db0 db" and "c_sessions db0 = []"
    and "revoke_all_sessions H idt db uid actor reason = Inr (n, db')"
  shows "require_active_session ref now db' sid uid iat exp \<noteq> Inr ()"
proof -
  have "sessions_inv db"
    using session_steps_inv [OF assms(1)] assms(2) by (simp add: sessions_inv_def unique_on_def)
  then have "sessions_inv db'"
    using revoke_all_sessions_sessions [OF assms(3)] by (simp add: sessions_inv_def unique_on_filter)
  then show ?thesis
    using require_active_session_iff revoke_all_step [OF assms(3)] by fastforce
qed

subsection \<open>A concrete run\<close>

definition wit_ref :: "string \<Rightarrow> string" where
  "wit_ref _ = replicate 64 (CHR ''0'')"

definition wit_registered :: "core_db res" where
  "wit_registered =
     register_session (\<lambda>s. s) wit_ref 10 (''aud_1'', ''t1'') wit_core ''session-identifier'' ''usr_1'' 10 20"

definition wit_revoked :: "(nat \<times> core_db) res" where
  "wit_revoked = bindE wit_registered (\<lambda>db.
     revoke_all_sessions (\<lambda>s. s) (''aud_2'', ''t2'') db ''usr_1'' ''usr_1'' ''left the team'')"

lemma wit_registered_ok: "case wit_registered of Inl _ \<Rightarrow> False | Inr db' \<Rightarrow> length (c_sessions db') = 1"
  by code_simp

lemma wit_revoked_ok: "case wit_revoked of Inl _ \<Rightarrow> False | Inr (n, _) \<Rightarrow> n = 1"
  by code_simp

lemma wit_core_sessions: "c_sessions wit_core = []"
  by (simp add: wit_core_def)

theorem revoked_user_has_no_session_witness:
  "\<exists>db' db''. wit_registered = Inr db' \<and> wit_revoked = Inr (1, db'')
     \<and> require_active_session wit_ref 15 db'' ''session-identifier'' ''usr_1'' 10 20 \<noteq> Inr ()"
proof -
  obtain db' where run: "wit_registered = Inr db'"
    using wit_registered_ok by (auto split: sum.splits)
  obtain db'' where revoked: "wit_revoked = Inr (1, db'')"
    using wit_revoked_ok by (auto split: sum.splits)
  have step: "(session_step (\<lambda>s. s) wit_ref)\<^sup>*\<^sup>* wit_core db'"
    by (rule r_into_rtranclp, rule step_register [OF run [unfolded wit_registered_def]])
  have "revoke_all_sessions (\<lambda>s. s) (''aud_2'', ''t2'') db' ''usr_1'' ''usr_1'' ''left the team'' = Inr (1, db'')"
    using revoked unfolding wit_revoked_def run by simp
  note none = revoked_user_has_no_session [OF step wit_core_sessions this]
  show ?thesis
    by (intro exI [of _ db'] exI [of _ db''] conjI) (rule run, rule revoked, rule none)
qed

end
