(* ===== verification/Execution.thy ===== *)
theory Execution
  imports Change_Request
begin

text \<open>
  The execution service (\<open>execution.py\<close>, class \<open>ExecutionService\<close>).  \<open>execute_change_request\<close> runs two
  transactions with the adapter between them: \<open>start_execution\<close> is the first, \<open>finish_execution\<close> the
  second, and what the adapter did in between is the value \<open>adapter_result\<close>.  The service holds the
  lease arithmetic as injected functions; they are fields of the configuration.
\<close>

record execution_config =
  xc_production_effects_enabled :: bool
  xc_execution_lease_seconds :: int
  xc_lease_deadline :: "string \<Rightarrow> int \<Rightarrow> string res"
  xc_lease_expired :: "string \<Rightarrow> string \<Rightarrow> bool res"

datatype start_result =
    Existing string
  | Started string change_row

definition insert_execution :: "work_db \<Rightarrow> execution_row \<Rightarrow> work_db res" where
  "insert_execution db e =
     thenE (guardE
       (key_free e_id (e_id e) (k_executions db)
        \<and> e_request_id e \<in> set (map q_id (k_requests db))
        \<and> (e_idempotency_key e = None \<or> key_free e_idempotency_key (e_idempotency_key e) (k_executions db))
        \<and> 1 \<le> e_fence e
        \<and> \<not> (\<exists>r \<in> set (k_requests db). \<exists>w \<in> set (c_workspaces (k_core db)).
              q_id r = e_request_id e \<and> w_id w = q_workspace_id r
              \<and> (q_environment r \<notin> set valid_environments \<or> q_environment r \<noteq> w_environment w)))
       IntegrityError)
      (Inr (db\<lparr>k_executions := k_executions db @ [e]\<rparr>))"

text \<open>\<open>if idempotency_key:\<close> is false for no key and for the empty text.\<close>

definition existing_execution :: "work_db \<Rightarrow> string option \<Rightarrow> execution_row option" where
  "existing_execution db key =
     (case key of
        None \<Rightarrow> None
      | Some k \<Rightarrow> if k = [] then None else select e_idempotency_key (Some k) (k_executions db))"

definition start_execution ::
  "(string \<Rightarrow> string) \<Rightarrow> execution_config \<Rightarrow> string \<Rightarrow> string \<Rightarrow> string \<times> string \<Rightarrow> work_db \<Rightarrow>
   string \<Rightarrow> string \<Rightarrow> string option \<Rightarrow> (start_result \<times> work_db) res" where
  "start_execution H cfg execution_id now idt db actor_id request_id key =
     (case existing_execution db key of
        Some e \<Rightarrow>
          thenE (guardE (e_request_id e = request_id) (RuntimeError ''idempotency key is bound to another request''))
           (Inr (Existing (e_id e), db))
      | None \<Rightarrow>
          thenE (guardE (\<not> is_stop_active (k_core db)) (PermissionError ''emergency stop is active''))
         (bindE (orRaise (select_request db request_id) (LookupError ''change request not found'')) (\<lambda>(r, we).
          thenE (require_workspace_environment (q_environment r) we)
         (thenE (guardE (q_status r = ''APPROVED'') (PermissionError ''change request is not approved''))
         (thenE (guardE (\<not> (q_environment r = ''production'' \<and> \<not> xc_production_effects_enabled cfg))
            (PermissionError ''production effects remain disabled''))
         (thenE (guardE (q_adapter r \<noteq> ''github-read-ref'')
            (PermissionError ''github-read-ref requires the canonical operation runtime''))
         (bindE (xc_lease_deadline cfg now (xc_execution_lease_seconds cfg)) (\<lambda>lease_expires_at.
          bindE (insert_execution db
            \<lparr>e_id = execution_id, e_request_id = request_id, e_status = ''RUNNING'', e_adapter = q_adapter r,
             e_output_json = ''{}'', e_error = None, e_idempotency_key = key, e_started_at = now,
             e_completed_at = None, e_fence = 1, e_lease_expires_at = Some lease_expires_at\<rparr>) (\<lambda>db1.
          bindE (update_request db1 request_id (set_status ''RUNNING'' now)) (\<lambda>db2.
          bindE (with_audit H idt db2 actor_id ''execution.start'' ''execution'' execution_id
            (JObj [(''request_id'', JStr request_id), (''adapter'', JStr (q_adapter r))])) (\<lambda>db3.
          Inr (Started execution_id r, db3))))))))))))"

subsection \<open>The adapter in between\<close>

text \<open>The \<open>try\<close> block around the adapter: it returned a dictionary, or an exception of the given class
  and message was raised (by the adapter or by decoding the payload).\<close>

datatype adapter_result =
    Output "(string \<times> json) list"
  | Raised string string

definition execution_outcome :: "adapter_result \<Rightarrow> json \<times> string \<times> string option" where
  "execution_outcome result =
     (case result of
        Output kvs \<Rightarrow>
          if map_of kvs ''success'' = Some (JBool False)
          then (JObj [(''error_type'', JStr ''AdapterError'')], ''FAILED'',
                Some ''validation adapter returned non-zero status'')
          else (JObj kvs, ''SUCCEEDED'', None)
      | Raised error_type message \<Rightarrow>
          (JObj [(''error_type'', JStr error_type)], ''FAILED'', Some (take 2000 message)))"

subsection \<open>Completion\<close>

definition update_executions :: "work_db \<Rightarrow> (execution_row \<Rightarrow> bool) \<Rightarrow> (execution_row \<Rightarrow> execution_row) \<Rightarrow> bool \<times> work_db" where
  "update_executions db p f =
     (list_ex p (k_executions db), db\<lparr>k_executions := update_where p f (k_executions db)\<rparr>)"

text \<open>\<open>ReceiptLedger.append\<close> on the receipt table; a receipt refers to an execution.\<close>

definition with_receipt ::
  "(string \<Rightarrow> string) \<Rightarrow> string \<times> string \<Rightarrow> work_db \<Rightarrow> string \<Rightarrow> json \<Rightarrow> work_db res" where
  "with_receipt H idt db execution_id payload =
     thenE (guardE (execution_id \<in> set (map e_id (k_executions db))) IntegrityError)
    (bindE (receipt_append H (fst idt) (snd idt) (k_receipts db) execution_id payload) (\<lambda>rows.
      Inr (db\<lparr>k_receipts := rows\<rparr>)))"

definition output_digest :: "(string \<Rightarrow> string) \<Rightarrow> json \<Rightarrow> string" where
  "output_digest H output = H (canonical_json output)"

definition finish_execution ::
  "(string \<Rightarrow> string) \<Rightarrow> string \<Rightarrow> string \<times> string \<Rightarrow> string \<times> string \<Rightarrow> work_db \<Rightarrow>
   string \<Rightarrow> string \<Rightarrow> change_row \<Rightarrow> adapter_result \<Rightarrow> work_db res" where
  "finish_execution H completed_at receipt_idt idt db actor_id execution_id r result =
     (case execution_outcome result of (output, status, err) \<Rightarrow>
      case update_executions db (\<lambda>e. e_id e = execution_id \<and> e_status e = ''RUNNING'' \<and> e_fence e = 1)
             (\<lambda>e. e\<lparr>e_status := status, e_output_json := canonical_json output, e_error := err,
                e_completed_at := Some completed_at, e_lease_expires_at := None\<rparr>) of (completed, db1) \<Rightarrow>
      if \<not> completed then Inr db
      else
        bindE (update_request db1 (q_id r)
          (set_status (if status = ''SUCCEEDED'' then ''COMPLETED'' else ''FAILED'') completed_at)) (\<lambda>db2.
        bindE (with_receipt H receipt_idt db2 execution_id
          (JObj [(''execution_id'', JStr execution_id), (''request_id'', JStr (q_id r)),
             (''workspace_id'', JStr (q_workspace_id r)), (''actor_id'', JStr actor_id),
             (''adapter'', JStr (q_adapter r)), (''risk'', JStr (q_risk r)),
             (''environment'', JStr (q_environment r)), (''status'', JStr status),
             (''output_digest'', JStr (output_digest H output)), (''completed_at'', JStr completed_at)])) (\<lambda>db3.
        with_audit H idt db3 actor_id (''execution.'' @ map lower_char status) ''execution'' execution_id
          (JObj [(''request_id'', JStr (q_id r)), (''receipt_id'', JStr (fst receipt_idt)),
             (''error'', opt_json err)]))))"

subsection \<open>Recovery\<close>

definition interrupted_output :: json where
  "interrupted_output = JObj [(''error_type'', JStr ''ExecutionInterrupted''), (''outcome'', JStr ''INDETERMINATE'')]"

definition recover_execution ::
  "(string \<Rightarrow> string) \<Rightarrow> execution_config \<Rightarrow> string \<Rightarrow> string \<times> string \<Rightarrow> string \<times> string \<Rightarrow> work_db \<Rightarrow>
   string \<Rightarrow> string \<Rightarrow> string \<Rightarrow> work_db res" where
  "recover_execution H cfg now receipt_idt idt db actor_id execution_id reason =
     (let normalized = strip reason in
      thenE (guardE (3 \<le> length normalized \<and> length normalized \<le> 2000)
        (ValueError ''recovery reason must contain 3 to 2000 characters''))
     (thenE (guardE (is_stop_active (k_core db))
        (PermissionError ''emergency stop must be active for execution recovery''))
     (bindE (orRaise (select e_id execution_id (k_executions db)) (LookupError ''execution not found'')) (\<lambda>e.
      bindE (orRaise (select q_id (e_request_id e) (k_requests db)) (LookupError ''execution not found'')) (\<lambda>r.
      thenE (guardE (e_status e = ''RUNNING'') (RuntimeError ''execution is not running''))
     (bindE (case e_lease_expires_at e of None \<Rightarrow> Inr True | Some t \<Rightarrow> xc_lease_expired cfg t now) (\<lambda>expired.
      thenE (guardE expired (RuntimeError ''execution lease has not expired''))
     (case update_executions db
        (\<lambda>x. e_id x = execution_id \<and> e_status x = ''RUNNING'' \<and> e_fence x = e_fence e
           \<and> e_lease_expires_at x = e_lease_expires_at e)
        (\<lambda>x. x\<lparr>e_status := ''INTERRUPTED'', e_output_json := canonical_json interrupted_output,
           e_error := Some ''execution outcome is indeterminate after lease expiry'',
           e_completed_at := Some now, e_lease_expires_at := None, e_fence := e_fence x + 1\<rparr>) of (interrupted, db1) \<Rightarrow>
      thenE (guardE interrupted (RuntimeError ''execution changed during recovery''))
     (bindE (update_request db1 (e_request_id e) (set_status ''FAILED'' now)) (\<lambda>db2.
      bindE (with_receipt H receipt_idt db2 execution_id
        (JObj [(''execution_id'', JStr execution_id), (''request_id'', JStr (e_request_id e)),
           (''workspace_id'', JStr (q_workspace_id r)), (''actor_id'', JStr actor_id),
           (''adapter'', JStr (e_adapter e)), (''risk'', JStr (q_risk r)),
           (''environment'', JStr (q_environment r)), (''status'', JStr ''INTERRUPTED''),
           (''outcome'', JStr ''INDETERMINATE''),
           (''output_digest'', JStr (output_digest H interrupted_output)), (''completed_at'', JStr now)])) (\<lambda>db3.
      with_audit H idt db3 actor_id ''execution.interrupted'' ''execution'' execution_id
        (JObj [(''request_id'', JStr (e_request_id e)), (''receipt_id'', JStr (fst receipt_idt)),
           (''outcome'', JStr ''INDETERMINATE''), (''reason'', JStr normalized)]))))))))))))"

text \<open>\<open>GET_EXECUTION\<close>: the execution with its request and, if there is one, its receipt.\<close>

definition get_execution :: "work_db \<Rightarrow> string \<Rightarrow> (execution_row \<times> change_row \<times> receipt_row option \<times> json) res" where
  "get_execution db execution_id =
     bindE (orRaise (select e_id execution_id (k_executions db)) (LookupError ''execution not found'')) (\<lambda>e.
     bindE (orRaise (select q_id (e_request_id e) (k_requests db)) (LookupError ''execution not found'')) (\<lambda>r.
     bindE (orRaise (json_loads (e_output_json e)) (ValueError ''output_json'')) (\<lambda>v.
     Inr (e, r, select r_execution_id execution_id (k_receipts db), v))))"

end
