(* ===== verification/Change_Lifecycle.thy ===== *)
theory Change_Lifecycle
  imports Execution
begin

text \<open>
  The change-request workflow as a transition system: every operation of \<open>ChangeRequestService\<close> and
  \<open>ExecutionService\<close> is a step, executions that have started may finish at any later time, any number
  of times and in any order, and the identity tables change in between by the operations of
  \<open>Workspace\<close> and \<open>Operational_Safety\<close>.  The invariants give four-eyes approval of the exact content,
  at most one execution per request, and one receipt per finished execution.
\<close>

subsection \<open>What each statement does\<close>

lemma update_request_eq_Inr:
  "update_request db rid f = Inr db' \<longleftrightarrow>
     list_all (\<lambda>r. q_id r = rid \<longrightarrow> request_update_ok r (f r)) (k_requests db)
     \<and> db' = db\<lparr>k_requests := update_where (\<lambda>r. q_id r = rid) f (k_requests db)\<rparr>"
  by (auto simp: update_request_def res_simps)

lemma with_audit_eq_Inr:
  "with_audit H idt db actor action ttype tid payload = Inr db' \<longleftrightarrow>
     (\<exists>rows. audit_append H (fst idt) (snd idt) (c_audit (k_core db)) actor action ttype tid payload = Inr rows
        \<and> db' = db\<lparr>k_core := k_core db\<lparr>c_audit := rows\<rparr>\<rparr>)"
  by (auto simp: with_audit_def res_simps audit_eq_Inr)

lemma insert_change_request_eq_Inr:
  "insert_change_request db r = Inr db' \<Longrightarrow> key_free q_id (q_id r) (k_requests db)
     \<and> db' = db\<lparr>k_requests := k_requests db @ [r]\<rparr>"
  by (simp add: insert_change_request_def res_simps)

lemma insert_approval_eq_Inr:
  "insert_approval db v = Inr db' \<Longrightarrow>
     key_free (\<lambda>x. (v_request_id x, v_approver_id x)) (v_request_id v, v_approver_id v) (k_approvals db)
     \<and> list_ex (\<lambda>r. q_id r = v_request_id v \<and> q_status r = ''REVIEW_REQUIRED''
             \<and> q_review_content_sha256 r = Some (v_review_content_sha256 v)) (k_requests db)
     \<and> db' = db\<lparr>k_approvals := k_approvals db @ [v]\<rparr>"
  by (simp add: insert_approval_def res_simps)

lemma insert_execution_eq_Inr:
  "insert_execution db e = Inr db' \<Longrightarrow> key_free e_id (e_id e) (k_executions db)
     \<and> db' = db\<lparr>k_executions := k_executions db @ [e]\<rparr>"
  by (simp add: insert_execution_def res_simps)

lemma with_receipt_eq_Inr:
  "with_receipt H idt db x payload = Inr db' \<Longrightarrow> x \<in> set (map e_id (k_executions db)) \<and>
     (\<exists>rows. receipt_append H (fst idt) (snd idt) (k_receipts db) x payload = Inr rows
        \<and> db' = db\<lparr>k_receipts := rows\<rparr>)"
  by (auto simp: with_receipt_def res_simps)

lemma select_request_Some:
  "select_request db rid = Some (r, we) \<Longrightarrow> select q_id rid (k_requests db) = Some r"
  by (auto simp: select_request_def split: option.splits)

subsection \<open>What each operation does to the tables\<close>

definition submitted :: "string \<Rightarrow> string \<Rightarrow> change_row \<Rightarrow> change_row" where
  "submitted digest now r =
     r\<lparr>q_review_content_sha256 := Some digest, q_status := ''REVIEW_REQUIRED'', q_updated_at := now\<rparr>"

lemma create_effect:
  assumes "create_change_request H rid now idt db actor ws title descr risk env adapter payload = Inr db'"
  shows "\<exists>r rows. key_free q_id (q_id r) (k_requests db) \<and> q_status r = ''DRAFT''
     \<and> q_review_content_sha256 r = None \<and> q_environment r \<in> set valid_environments
     \<and> audit_append H (fst idt) (snd idt) (c_audit (k_core db)) actor ''change_request.create'' ''change_request'' rid
          (JObj [(''risk'', JStr risk), (''environment'', JStr env), (''adapter'', JStr adapter)]) = Inr rows
     \<and> db' = db\<lparr>k_requests := k_requests db @ [r], k_core := k_core db\<lparr>c_audit := rows\<rparr>\<rparr>"
proof -
  obtain db1 r where ins: "insert_change_request db r = Inr db1"
    and r: "q_status r = ''DRAFT''" "q_review_content_sha256 r = None" "q_environment r \<in> set valid_environments"
    and aud: "with_audit H idt db1 actor ''change_request.create'' ''change_request'' rid
          (JObj [(''risk'', JStr risk), (''environment'', JStr env), (''adapter'', JStr adapter)]) = Inr db'"
    using assms unfolding create_change_request_def Let_def thenE_eq_Inr bindE_eq_Inr guardE_eq_Inr by force
  show ?thesis
    using insert_change_request_eq_Inr [OF ins] r aud unfolding with_audit_eq_Inr by auto
qed

lemma submit_effect:
  assumes "submit_change_request H now idt db actor rid = Inr db'"
  shows "\<exists>r d rows. select q_id rid (k_requests db) = Some r \<and> q_status r = ''DRAFT''
     \<and> review_content_sha256 H r = Inr d
     \<and> audit_append H (fst idt) (snd idt) (c_audit (k_core db)) actor ''change_request.submit'' ''change_request'' rid
          (JObj [(''review_content_sha256'', JStr d)]) = Inr rows
     \<and> db' = db\<lparr>k_requests := update_where (\<lambda>r. q_id r = rid) (submitted d now) (k_requests db),
                k_core := k_core db\<lparr>c_audit := rows\<rparr>\<rparr>"
proof -
  obtain r we d db1 where sel: "select_request db rid = Some (r, we)" and st: "q_status r = ''DRAFT''"
    and d: "review_content_sha256 H r = Inr d"
    and up: "update_request db rid (submitted d now) = Inr db1"
    and aud: "with_audit H idt db1 actor ''change_request.submit'' ''change_request'' rid
          (JObj [(''review_content_sha256'', JStr d)]) = Inr db'"
    using assms unfolding submit_change_request_def submitted_def [abs_def] thenE_eq_Inr bindE_eq_Inr guardE_eq_Inr
      orRaise_eq_Inr by (auto simp: res_simps)
  show ?thesis
    using select_request_Some [OF sel] st d up aud unfolding update_request_eq_Inr with_audit_eq_Inr by auto
qed

definition required_approvals :: "string \<Rightarrow> int" where
  "required_approvals environment = (if environment = ''production'' then 2 else 1)"

definition approvals_of :: "approval_row list \<Rightarrow> string \<Rightarrow> approval_row list" where
  "approvals_of A rid = filter (\<lambda>v. v_request_id v = rid \<and> v_decision v = ''APPROVED'') A"

lemma count_approved_of: "count_approved db rid = length (approvals_of (k_approvals db) rid)"
  by (simp add: count_approved_def approvals_of_def)

lemma evaluated_requires:
  "evaluate_current_approval_policy i = Inr p \<Longrightarrow> po_required_approvals p = required_approvals (pi_environment i)"
  by (auto simp: evaluate_current_approval_policy_def current_required_approvals_def required_approvals_def res_simps Let_def)

lemma policy_requires:
  "approval_policy_decision policy r = Inr p \<Longrightarrow> po_required_approvals p = required_approvals (q_environment r)"
  by (auto simp: approval_policy_decision_def resolve_current_approval_policy_def policy_input_init_def res_simps
      dest!: evaluated_requires split: if_splits)

lemma review_context_eq_Inr:
  assumes "review_context H policy db actor rid decision = Inr (digest, p)"
  shows "\<exists>r. select q_id rid (k_requests db) = Some r \<and> q_status r = ''REVIEW_REQUIRED''
     \<and> q_requested_by r \<noteq> actor \<and> q_review_content_sha256 r = Some digest
     \<and> (\<forall>d. p = Some d \<longrightarrow> po_required_approvals d = required_approvals (q_environment r))"
proof -
  obtain r we where "select_request db rid = Some (r, we)"
    and *: "q_status r = ''REVIEW_REQUIRED''" "q_requested_by r \<noteq> actor" "q_review_content_sha256 r = Some digest"
    and p: "(if decision = ''APPROVED'' then bindE (approval_policy_decision policy r) (\<lambda>p. Inr (digest, Some p))
        else Inr (digest, None)) = Inr (digest, p)"
    using assms unfolding review_context_def thenE_eq_Inr bindE_eq_Inr guardE_eq_Inr orRaise_eq_Inr
    by (auto simp: res_simps split: if_splits)
  moreover have "po_required_approvals d = required_approvals (q_environment r)" if "p = Some d" for d
    using p that by (auto simp: res_simps dest: policy_requires split: if_splits)
  ultimately show ?thesis using select_request_Some by blast
qed

text \<open>The status an approval leads to: enough approvals make it \<open>APPROVED\<close>.\<close>

lemma next_status_approved:
  "next_status decision n p = ''APPROVED'' \<Longrightarrow> \<exists>d. p = Some d \<and> po_required_approvals d \<le> int n"
  by (auto simp: next_status_def split: if_splits option.splits)

lemma next_status_range: "next_status decision n p \<in> {''DENIED'', ''REVIEW_REQUIRED'', ''APPROVED''}"
  by (auto simp: next_status_def split: option.splits)

definition approval_payload :: "string \<Rightarrow> string \<Rightarrow> string \<Rightarrow> policy_decision option \<Rightarrow> json" where
  "approval_payload reason status digest p =
     JObj ([(''reason'', JStr reason), (''resulting_status'', JStr status), (''review_content_sha256'', JStr digest)]
          @ (case p of None \<Rightarrow> [] | Some d \<Rightarrow> [(''approval_policy'', JObj (policy_decision_to_dict d))]))"

lemma approval_payload_wf: "json_wf (approval_payload reason status digest p)"
  by (simp add: approval_payload_def policy_decision_to_dict_def list_all_iff split: option.split)

lemma approve_effect:
  assumes "approve_change_request H policy vid now idt db actor rid dec reason = Inr db'"
  shows "\<exists>r v st p rows. select q_id rid (k_requests db) = Some r \<and> q_status r = ''REVIEW_REQUIRED''
     \<and> q_requested_by r \<noteq> v_approver_id v \<and> q_review_content_sha256 r = Some (v_review_content_sha256 v)
     \<and> v_request_id v = rid \<and> v_decision v = upper dec
     \<and> key_free (\<lambda>x. (v_request_id x, v_approver_id x)) (v_request_id v, v_approver_id v) (k_approvals db)
     \<and> st \<in> {''DENIED'', ''REVIEW_REQUIRED'', ''APPROVED''}
     \<and> (st = ''APPROVED'' \<longrightarrow> required_approvals (q_environment r) \<le> int (length (approvals_of (k_approvals db @ [v]) rid)))
     \<and> audit_append H (fst idt) (snd idt) (c_audit (k_core db)) actor
          (''change_request.'' @ map lower_char (upper dec)) ''change_request'' rid
          (approval_payload reason st (v_review_content_sha256 v) p) = Inr rows
     \<and> db' = db\<lparr>k_approvals := k_approvals db @ [v],
          k_requests := update_where (\<lambda>r. q_id r = rid) (set_status st now) (k_requests db),
          k_core := k_core db\<lparr>c_audit := rows\<rparr>\<rparr>"
proof -
  let ?v = "\<lambda>digest. \<lparr>v_id = vid, v_request_id = rid, v_approver_id = actor, v_decision = upper dec,
      v_reason = strip reason, v_review_content_sha256 = digest, v_created_at = now\<rparr>"
  obtain digest p db1 db2
    where ctx: "review_context H policy db actor rid (upper dec) = Inr (digest, p)"
      and ins: "insert_approval db (?v digest) = Inr db1"
      and up: "update_request db1 rid (set_status (next_status (upper dec) (count_approved db1 rid) p) now) = Inr db2"
      and aud: "with_audit H idt db2 actor (''change_request.'' @ map lower_char (upper dec)) ''change_request'' rid
          (approval_payload reason (next_status (upper dec) (count_approved db1 rid) p) digest p) = Inr db'"
    using assms unfolding approve_change_request_def approval_payload_def Let_def thenE_eq_Inr
    by (auto simp only: split_paired_Ex prod.case bindE_eq_Inr catchE_eq_Inr)
  obtain r where r: "select q_id rid (k_requests db) = Some r" "q_status r = ''REVIEW_REQUIRED''"
      "q_requested_by r \<noteq> actor" "q_review_content_sha256 r = Some digest"
    and req: "\<And>d. p = Some d \<Longrightarrow> po_required_approvals d = required_approvals (q_environment r)"
    using review_context_eq_Inr [OF ctx] by blast
  have ins': "key_free (\<lambda>x. (v_request_id x, v_approver_id x)) (rid, actor) (k_approvals db)"
      "db1 = db\<lparr>k_approvals := k_approvals db @ [?v digest]\<rparr>"
    using insert_approval_eq_Inr [OF ins] by simp_all
  let ?st = "next_status (upper dec) (count_approved db1 rid) p"
  have "required_approvals (q_environment r) \<le> int (length (approvals_of (k_approvals db @ [?v digest]) rid))"
    if "?st = ''APPROVED''"
    using next_status_approved [OF that] req by (auto simp: count_approved_of ins'(2))
  then show ?thesis
    using r ins' up aud next_status_range [of "upper dec" "count_approved db1 rid" p]
    unfolding update_request_eq_Inr with_audit_eq_Inr
    by (intro exI [of _ r] exI [of _ "?v digest"] exI [of _ ?st] exI [of _ p]) auto
qed

lemma start_existing: "start_execution H cfg eid now idt db actor rid key = Inr (Existing x, db') \<Longrightarrow> db' = db"
  by (auto simp: start_execution_def res_simps split: option.splits)

lemma start_effect:
  assumes "start_execution H cfg eid now idt db actor rid key = Inr (Started x r, db')"
  shows "select q_id rid (k_requests db) = Some r \<and> q_status r = ''APPROVED'' \<and> \<not> is_stop_active (k_core db)
     \<and> (\<exists>e rows. e_id e = x \<and> e_request_id e = rid \<and> e_status e = ''RUNNING'' \<and> e_fence e = 1
        \<and> e_idempotency_key e = key \<and> key_free e_id x (k_executions db)
        \<and> audit_append H (fst idt) (snd idt) (c_audit (k_core db)) actor ''execution.start'' ''execution'' x
            (JObj [(''request_id'', JStr rid), (''adapter'', JStr (q_adapter r))]) = Inr rows
        \<and> db' = db\<lparr>k_executions := k_executions db @ [e],
             k_requests := update_where (\<lambda>r. q_id r = rid) (set_status ''RUNNING'' now) (k_requests db),
             k_core := k_core db\<lparr>c_audit := rows\<rparr>\<rparr>)"
proof -
  obtain we lease db1 db2
    where live: "\<not> is_stop_active (k_core db)" and sel: "select_request db rid = Some (r, we)"
      and st: "q_status r = ''APPROVED''" and x: "x = eid"
      and ins: "insert_execution db \<lparr>e_id = eid, e_request_id = rid, e_status = ''RUNNING'', e_adapter = q_adapter r,
             e_output_json = ''{}'', e_error = None, e_idempotency_key = key, e_started_at = now,
             e_completed_at = None, e_fence = 1, e_lease_expires_at = Some lease\<rparr> = Inr db1"
      and up: "update_request db1 rid (set_status ''RUNNING'' now) = Inr db2"
      and aud: "with_audit H idt db2 actor ''execution.start'' ''execution'' eid
            (JObj [(''request_id'', JStr rid), (''adapter'', JStr (q_adapter r))]) = Inr db'"
    using assms unfolding start_execution_def
    by (auto simp: split_paired_Ex thenE_eq_Inr bindE_eq_Inr guardE_eq_Inr orRaise_eq_Inr split: option.splits)
  let ?e = "\<lparr>e_id = eid, e_request_id = rid, e_status = ''RUNNING'', e_adapter = q_adapter r,
             e_output_json = ''{}'', e_error = None, e_idempotency_key = key, e_started_at = now,
             e_completed_at = None, e_fence = 1, e_lease_expires_at = Some lease\<rparr>"
  have "key_free e_id eid (k_executions db)" "db1 = db\<lparr>k_executions := k_executions db @ [?e]\<rparr>"
    using insert_execution_eq_Inr [OF ins] by simp_all
  then show ?thesis
    using live select_request_Some [OF sel] st up aud unfolding update_request_eq_Inr with_audit_eq_Inr x
    by (intro conjI exI [of _ ?e]) auto
qed

text \<open>Ending an execution: the row that is matched gets a final status.\<close>

definition ends :: "string \<Rightarrow> int \<Rightarrow> execution_row \<Rightarrow> bool" where
  "ends x fence e \<longleftrightarrow> e_id e = x \<and> e_status e = ''RUNNING'' \<and> e_fence e = fence"

lemma execution_outcome_status:
  "execution_outcome result = (res, status, err) \<Longrightarrow> status = ''SUCCEEDED'' \<or> status = ''FAILED''"
  by (auto simp: execution_outcome_def split: adapter_result.splits if_splits)

lemma finish_effect:
  assumes "finish_execution H now ridt idt db actor x r result = Inr db'"
  shows "(db' = db \<and> \<not> list_ex (ends x 1) (k_executions db)) \<or>
    (\<exists>f payload rows status err rcpts.
       list_ex (ends x 1) (k_executions db)
     \<and> (\<forall>e. e_id (f e) = e_id e \<and> e_request_id (f e) = e_request_id e \<and> e_status (f e) = status
          \<and> e_idempotency_key (f e) = e_idempotency_key e)
     \<and> (status = ''SUCCEEDED'' \<or> status = ''FAILED'')
     \<and> json_wf payload \<and> receipt_append H (fst ridt) (snd ridt) (k_receipts db) x payload = Inr rcpts
     \<and> audit_append H (fst idt) (snd idt) (c_audit (k_core db)) actor (''execution.'' @ map lower_char status)
          ''execution'' x (JObj [(''request_id'', JStr (q_id r)), (''receipt_id'', JStr (fst ridt)),
             (''error'', opt_json err)]) = Inr rows
     \<and> db' = db\<lparr>k_executions := update_where (ends x 1) f (k_executions db),
          k_requests := update_where (\<lambda>q. q_id q = q_id r)
            (set_status (if status = ''SUCCEEDED'' then ''COMPLETED'' else ''FAILED'') now) (k_requests db),
          k_receipts := rcpts, k_core := k_core db\<lparr>c_audit := rows\<rparr>\<rparr>)"
proof -
  obtain res status err where out: "execution_outcome result = (res, status, err)" by (metis prod_cases3)
  let ?f = "\<lambda>e. e\<lparr>e_status := status, e_output_json := canonical_json res, e_error := err,
                e_completed_at := Some now, e_lease_expires_at := None\<rparr>"
  let ?p = "\<lambda>e. e_id e = x \<and> e_status e = ''RUNNING'' \<and> e_fence e = 1"
  have ends: "?p = ends x 1" by (simp add: ends_def fun_eq_iff)
  let ?db1 = "db\<lparr>k_executions := update_where (ends x 1) ?f (k_executions db)\<rparr>"
  let ?payload = "JObj [(''execution_id'', JStr x), (''request_id'', JStr (q_id r)),
             (''workspace_id'', JStr (q_workspace_id r)), (''actor_id'', JStr actor),
             (''adapter'', JStr (q_adapter r)), (''risk'', JStr (q_risk r)),
             (''environment'', JStr (q_environment r)), (''status'', JStr status),
             (''output_digest'', JStr (output_digest H res)), (''completed_at'', JStr now)]"
  show ?thesis
  proof (cases "list_ex (ends x 1) (k_executions db)")
    case False
    then show ?thesis
      using assms by (simp add: finish_execution_def out update_executions_def ends)
  next
    case True
    obtain db2 db3
      where up: "update_request ?db1 (q_id r)
          (set_status (if status = ''SUCCEEDED'' then ''COMPLETED'' else ''FAILED'') now) = Inr db2"
        and rc: "with_receipt H ridt db2 x ?payload = Inr db3"
        and aud: "with_audit H idt db3 actor (''execution.'' @ map lower_char status) ''execution'' x
          (JObj [(''request_id'', JStr (q_id r)), (''receipt_id'', JStr (fst ridt)), (''error'', opt_json err)]) = Inr db'"
      using assms True unfolding finish_execution_def out
      by (auto simp only: prod.case update_executions_def ends bindE_eq_Inr if_False not_True_eq_False)
    have db2: "db2 = ?db1\<lparr>k_requests := update_where (\<lambda>q. q_id q = q_id r)
        (set_status (if status = ''SUCCEEDED'' then ''COMPLETED'' else ''FAILED'') now) (k_requests db)\<rparr>"
      using up by (simp add: update_request_eq_Inr)
    obtain rcpts where rcpts: "receipt_append H (fst ridt) (snd ridt) (k_receipts db) x ?payload = Inr rcpts"
      and db3: "db3 = db2\<lparr>k_receipts := rcpts\<rparr>"
      using with_receipt_eq_Inr [OF rc] db2 by auto
    obtain rows where rows: "audit_append H (fst idt) (snd idt) (c_audit (k_core db)) actor
          (''execution.'' @ map lower_char status) ''execution'' x
          (JObj [(''request_id'', JStr (q_id r)), (''receipt_id'', JStr (fst ridt)), (''error'', opt_json err)]) = Inr rows"
      and db': "db' = db3\<lparr>k_core := k_core db\<lparr>c_audit := rows\<rparr>\<rparr>"
      using aud unfolding with_audit_eq_Inr db3 db2 by auto
    have "json_wf ?payload" by simp
    with True execution_outcome_status [OF out] rcpts rows show ?thesis
      by - (rule disjI2, intro exI [of _ ?f] exI [of _ ?payload] exI [of _ rows] exI [of _ status] exI [of _ err]
          exI [of _ rcpts] conjI, simp_all add: db' db3 db2 del: json_wf.simps)
  qed
qed

lemma recover_effect:
  assumes "recover_execution H cfg now ridt idt db actor x reason = Inr db'"
  shows "\<exists>e f payload rows rcpts.
       select e_id x (k_executions db) = Some e \<and> e_status e = ''RUNNING''
     \<and> (\<forall>e. e_id (f e) = e_id e \<and> e_request_id (f e) = e_request_id e \<and> e_status (f e) = ''INTERRUPTED''
          \<and> e_idempotency_key (f e) = e_idempotency_key e)
     \<and> json_wf payload \<and> receipt_append H (fst ridt) (snd ridt) (k_receipts db) x payload = Inr rcpts
     \<and> audit_append H (fst idt) (snd idt) (c_audit (k_core db)) actor ''execution.interrupted'' ''execution'' x
          (JObj [(''request_id'', JStr (e_request_id e)), (''receipt_id'', JStr (fst ridt)),
           (''outcome'', JStr ''INDETERMINATE''), (''reason'', JStr (strip reason))]) = Inr rows
     \<and> db' = db\<lparr>k_executions := update_where
            (\<lambda>y. ends x (e_fence e) y \<and> e_lease_expires_at y = e_lease_expires_at e) f (k_executions db),
          k_requests := update_where (\<lambda>q. q_id q = e_request_id e) (set_status ''FAILED'' now) (k_requests db),
          k_receipts := rcpts, k_core := k_core db\<lparr>c_audit := rows\<rparr>\<rparr>"
proof -
  let ?f = "\<lambda>x. x\<lparr>e_status := ''INTERRUPTED'', e_output_json := canonical_json interrupted_output,
           e_error := Some ''execution outcome is indeterminate after lease expiry'',
           e_completed_at := Some now, e_lease_expires_at := None, e_fence := e_fence x + 1\<rparr>"
  let ?p = "\<lambda>e y. ends x (e_fence e) y \<and> e_lease_expires_at y = e_lease_expires_at e"
  let ?db1 = "\<lambda>e. db\<lparr>k_executions := update_where (?p e) ?f (k_executions db)\<rparr>"
  let ?payload = "\<lambda>e r. JObj [(''execution_id'', JStr x), (''request_id'', JStr (e_request_id e)),
           (''workspace_id'', JStr (q_workspace_id r)), (''actor_id'', JStr actor),
           (''adapter'', JStr (e_adapter e)), (''risk'', JStr (q_risk r)),
           (''environment'', JStr (q_environment r)), (''status'', JStr ''INTERRUPTED''),
           (''outcome'', JStr ''INDETERMINATE''),
           (''output_digest'', JStr (output_digest H interrupted_output)), (''completed_at'', JStr now)]"
  have p: "(\<lambda>y. e_id y = x \<and> e_status y = ''RUNNING'' \<and> e_fence y = e_fence e
      \<and> e_lease_expires_at y = e_lease_expires_at e) = ?p e" for e by (auto simp: ends_def)
  obtain e r db2 db3
    where e: "select e_id x (k_executions db) = Some e" "e_status e = ''RUNNING''"
      and r: "select q_id (e_request_id e) (k_requests db) = Some r"
      and up: "update_request (?db1 e) (e_request_id e) (set_status ''FAILED'' now) = Inr db2"
      and rc: "with_receipt H ridt db2 x (?payload e r) = Inr db3"
      and aud: "with_audit H idt db3 actor ''execution.interrupted'' ''execution'' x
          (JObj [(''request_id'', JStr (e_request_id e)), (''receipt_id'', JStr (fst ridt)),
           (''outcome'', JStr ''INDETERMINATE''), (''reason'', JStr (strip reason))]) = Inr db'"
    using assms unfolding recover_execution_def Let_def
    by (simp only: prod.case update_executions_def bindE_eq_Inr thenE_eq_Inr guardE_eq_Inr orRaise_eq_Inr p,
        elim exE conjE) (rule that)
  have "json_wf (?payload e r)" by simp
  then show ?thesis
    using e up with_receipt_eq_Inr [OF rc] aud unfolding update_request_eq_Inr with_audit_eq_Inr
    by (intro exI [of _ e] exI [of _ ?f] exI [of _ "?payload e r"]) auto
qed

subsection \<open>The invariant of the workflow\<close>

definition later_statuses :: "string set" where
  "later_statuses = {''REVIEW_REQUIRED'', ''DENIED'', ''APPROVED'', ''RUNNING'', ''COMPLETED'', ''FAILED''}"

definition authorized_statuses :: "string set" where
  "authorized_statuses = {''APPROVED'', ''RUNNING'', ''COMPLETED'', ''FAILED''}"

definition request_ok :: "(string \<Rightarrow> string) \<Rightarrow> approval_row list \<Rightarrow> change_row \<Rightarrow> bool" where
  "request_ok H A r \<longleftrightarrow> q_environment r \<in> set valid_environments
     \<and> (if q_status r = ''DRAFT'' then q_review_content_sha256 r = None
        else q_status r \<in> later_statuses
          \<and> (\<exists>d. q_review_content_sha256 r = Some d \<and> review_content_sha256 H r = Inr d))
     \<and> (q_status r \<in> authorized_statuses \<longrightarrow>
          required_approvals (q_environment r) \<le> int (length (approvals_of A (q_id r))))"

definition approval_ok :: "change_row list \<Rightarrow> approval_row \<Rightarrow> bool" where
  "approval_ok R v \<longleftrightarrow> (\<exists>r \<in> set R. q_id r = v_request_id v
     \<and> q_review_content_sha256 r = Some (v_review_content_sha256 v) \<and> q_requested_by r \<noteq> v_approver_id v)"

text \<open>The status of a request while or after it is executed with the given execution status.\<close>

definition request_status_of :: "string \<Rightarrow> string" where
  "request_status_of status =
     (if status = ''RUNNING'' then ''RUNNING'' else if status = ''SUCCEEDED'' then ''COMPLETED'' else ''FAILED'')"

definition execution_ok :: "change_row list \<Rightarrow> execution_row \<Rightarrow> bool" where
  "execution_ok R e \<longleftrightarrow> (\<exists>r \<in> set R. q_id r = e_request_id e \<and> q_status r = request_status_of (e_status e))"

definition workflow_inv ::
  "(string \<Rightarrow> string) \<Rightarrow> change_row list \<Rightarrow> approval_row list \<Rightarrow> execution_row list \<Rightarrow> bool" where
  "workflow_inv H R A E \<longleftrightarrow>
     unique_on q_id R \<and> unique_on e_id E \<and> unique_on e_request_id E
     \<and> unique_on (\<lambda>v. (v_request_id v, v_approver_id v)) A
     \<and> (\<forall>r \<in> set R. request_ok H A r) \<and> (\<forall>v \<in> set A. approval_ok R v) \<and> (\<forall>e \<in> set E. execution_ok R e)"

lemma review_content_set_status [simp]:
  "review_content_sha256 H (set_status st now r) = review_content_sha256 H r"
  "review_content_sha256 H (submitted d now r) = review_content_sha256 H r"
  by (simp_all add: review_content_sha256_def review_subject_def set_status_def submitted_def)

lemma set_status_fields [simp]:
  "q_id (set_status st now r) = q_id r" "q_status (set_status st now r) = st"
  "q_requested_by (set_status st now r) = q_requested_by r" "q_environment (set_status st now r) = q_environment r"
  "q_review_content_sha256 (set_status st now r) = q_review_content_sha256 r"
  "q_id (submitted d now r) = q_id r" "q_status (submitted d now r) = ''REVIEW_REQUIRED''"
  "q_requested_by (submitted d now r) = q_requested_by r" "q_environment (submitted d now r) = q_environment r"
  "q_review_content_sha256 (submitted d now r) = Some d"
  by (simp_all add: set_status_def submitted_def)

lemma request_status_of_simps [simp]:
  "request_status_of ''RUNNING'' = ''RUNNING''" "request_status_of ''INTERRUPTED'' = ''FAILED''"
  "request_status_of ''FAILED'' = ''FAILED''" "request_status_of ''SUCCEEDED'' = ''COMPLETED''"
  by (simp_all add: request_status_of_def)

lemma request_status_of_range: "request_status_of st \<in> {''RUNNING'', ''COMPLETED'', ''FAILED''}"
  by (simp add: request_status_of_def)

lemma approvals_of_snoc: "length (approvals_of A x) \<le> length (approvals_of (A @ [v]) x)"
  by (simp add: approvals_of_def)

lemma request_ok_more: "request_ok H A r \<Longrightarrow> request_ok H (A @ [v]) r"
  using approvals_of_snoc [of A "q_id r" v] by (auto simp: request_ok_def)

text \<open>At most the request that is the subject of an operation is rewritten.\<close>

lemma update_where_mem:
  assumes "unique_on q_id R" and "select q_id rid R = Some r" and "\<And>x. q_id (f x) = q_id x"
  shows "x \<in> set (update_where (\<lambda>x. q_id x = rid) f R) \<longleftrightarrow> x = f r \<or> x \<in> set R \<and> q_id x \<noteq> rid"
proof -
  have r: "r \<in> set R" "q_id r = rid" using select_Some_D [OF assms(2)] by auto
  have "y = r" if "y \<in> set R" "q_id y = rid" for y
    using unique_on_eqI [OF assms(1), of y r] r that by simp
  then have "{x \<in> set R. q_id x = rid} = {r}" using r by blast
  then have "set (update_where (\<lambda>x. q_id x = rid) f R) = insert (f r) {x \<in> set R. q_id x \<noteq> rid}"
    by (simp only: set_update_where) simp
  then show ?thesis by simp
qed

lemma approval_ok_update:
  assumes "unique_on q_id R" and "select q_id rid R = Some r" and "approval_ok R v"
    and "\<And>x. q_id (f x) = q_id x" and "q_requested_by (f r) = q_requested_by r"
    and "\<And>d. q_review_content_sha256 r = Some d \<Longrightarrow> q_review_content_sha256 (f r) = Some d"
  shows "approval_ok (update_where (\<lambda>x. q_id x = rid) f R) v"
proof -
  obtain q where q: "q \<in> set R" "q_id q = v_request_id v"
      "q_review_content_sha256 q = Some (v_review_content_sha256 v)" "q_requested_by q \<noteq> v_approver_id v"
    using assms(3) by (auto simp: approval_ok_def)
  have r: "r \<in> set R" "q_id r = rid" using select_Some_D [OF assms(2)] by auto
  show ?thesis
  proof (cases "q_id q = rid")
    case True
    then have "q = r" using unique_on_eqI [OF assms(1), of q r] q r by simp
    then show ?thesis
      unfolding approval_ok_def bex_simps update_where_mem [OF assms(1,2,4)]
      using q assms(4-6) update_where_mem [OF assms(1,2,4)] by (intro bexI [of _ "f r"]) auto
  next
    case False
    then show ?thesis
      using q update_where_mem [OF assms(1,2,4)] unfolding approval_ok_def by (intro bexI [of _ q]) auto
  qed
qed

lemma no_execution:
  assumes "workflow_inv H R A E" and "select q_id rid R = Some r"
    and "q_status r \<notin> {''RUNNING'', ''COMPLETED'', ''FAILED''}" and "e \<in> set E"
  shows "e_request_id e \<noteq> rid"
proof
  assume "e_request_id e = rid"
  then obtain q where "q \<in> set R" "q_id q = rid" "q_status q = request_status_of (e_status e)"
    using assms(1,4) by (auto simp: workflow_inv_def execution_ok_def)
  moreover have "q = r"
    using unique_on_eqI [of q_id R q r] assms(1) select_Some_D [OF assms(2)] calculation
    by (simp add: workflow_inv_def)
  ultimately show False using assms(3) request_status_of_range by metis
qed

lemma execution_ok_other:
  assumes "unique_on q_id R" and "select q_id rid R = Some r" and "\<And>x. q_id (f x) = q_id x"
    and "execution_ok R e" and "e_request_id e \<noteq> rid"
  shows "execution_ok (update_where (\<lambda>x. q_id x = rid) f R) e"
proof -
  obtain q where "q \<in> set R" "q_id q = e_request_id e" "q_status q = request_status_of (e_status e)"
    using assms(4) by (auto simp: execution_ok_def)
  then show ?thesis
    using assms(5) update_where_mem [OF assms(1-3)] unfolding execution_ok_def by (intro bexI [of _ q]) auto
qed

text \<open>The general step: one request gets a new status; approvals and executions may change with it.\<close>

lemma workflow_status:
  assumes inv: "workflow_inv H R A E" and sel: "select q_id rid R = Some r"
    and later: "q_status r \<noteq> ''DRAFT''" "st \<in> later_statuses"
    and enough: "st \<in> authorized_statuses \<Longrightarrow>
        required_approvals (q_environment r) \<le> int (length (approvals_of A' (q_id r)))"
    and A': "A' = A \<or> (\<exists>v. A' = A @ [v] \<and> approval_ok R v
        \<and> key_free (\<lambda>v. (v_request_id v, v_approver_id v)) (v_request_id v, v_approver_id v) A)"
    and E': "unique_on e_id E'" "unique_on e_request_id E'"
      "\<And>e. e \<in> set E' \<Longrightarrow> e_request_id e \<noteq> rid \<Longrightarrow> execution_ok R e"
      "\<And>e. e \<in> set E' \<Longrightarrow> e_request_id e = rid \<Longrightarrow> request_status_of (e_status e) = st"
  shows "workflow_inv H (update_where (\<lambda>x. q_id x = rid) (set_status st now) R) A' E'"
proof -
  let ?R = "update_where (\<lambda>x. q_id x = rid) (set_status st now) R"
  have u: "unique_on q_id R" using inv by (simp add: workflow_inv_def)
  note mem = update_where_mem [OF u sel, of "set_status st now", OF set_status_fields(1)]
  have r: "r \<in> set R" "q_id r = rid" using select_Some_D [OF sel] by auto
  have rok: "request_ok H A x" if "x \<in> set R" for x using inv that by (simp add: workflow_inv_def)
  have more: "request_ok H A' x" if "x \<in> set R" for x using rok [OF that] A' request_ok_more by blast
  have "request_ok H A' (set_status st now r)"
    using more [OF r(1)] later enough unfolding request_ok_def by (auto simp: later_statuses_def)
  then have "\<forall>x \<in> set ?R. request_ok H A' x" using mem more by auto
  moreover have "\<forall>v \<in> set A'. approval_ok ?R v"
    using A' inv approval_ok_update [OF u sel _ set_status_fields(1,3)] by (auto simp: workflow_inv_def)
  moreover have "\<forall>e \<in> set E'. execution_ok ?R e"
  proof
    fix e assume e: "e \<in> set E'"
    show "execution_ok ?R e"
    proof (cases "e_request_id e = rid")
      case True
      then show ?thesis using E'(4) [OF e True] r mem unfolding execution_ok_def
        by (intro bexI [of _ "set_status st now r"]) auto
    next
      case False
      show ?thesis by (rule execution_ok_other [OF u sel set_status_fields(1) E'(3) [OF e False] False])
    qed
  qed
  moreover have "unique_on q_id ?R" using u by (simp add: unique_on_update_where)
  moreover have "unique_on (\<lambda>v. (v_request_id v, v_approver_id v)) A'"
    using A' inv by (auto simp: workflow_inv_def unique_on_snoc)
  ultimately show ?thesis using E' by (simp add: workflow_inv_def)
qed

abbreviation workflow_ok :: "(string \<Rightarrow> string) \<Rightarrow> work_db \<Rightarrow> bool" where
  "workflow_ok H db \<equiv> workflow_inv H (k_requests db) (k_approvals db) (k_executions db)"

lemma create_workflow:
  assumes "create_change_request H rid now idt db actor ws title descr risk env adapter payload = Inr db'"
    and "workflow_ok H db"
  shows "workflow_ok H db'"
proof -
  obtain r rows where free: "key_free q_id (q_id r) (k_requests db)"
    and r: "q_status r = ''DRAFT''" "q_review_content_sha256 r = None" "q_environment r \<in> set valid_environments"
    and db': "db' = db\<lparr>k_requests := k_requests db @ [r], k_core := k_core db\<lparr>c_audit := rows\<rparr>\<rparr>"
    using create_effect [OF assms(1)] by blast
  have "request_ok H (k_approvals db) r" using r by (simp add: request_ok_def authorized_statuses_def)
  then show ?thesis
    using assms(2) free
    by (simp add: db' workflow_inv_def unique_on_snoc approval_ok_def execution_ok_def)
qed

lemma submit_workflow:
  assumes "submit_change_request H now idt db actor rid = Inr db'" and inv: "workflow_ok H db"
  shows "workflow_ok H db'"
proof -
  obtain r d rows where sel: "select q_id rid (k_requests db) = Some r" and draft: "q_status r = ''DRAFT''"
    and d: "review_content_sha256 H r = Inr d"
    and db': "db' = db\<lparr>k_requests := update_where (\<lambda>r. q_id r = rid) (submitted d now) (k_requests db),
                k_core := k_core db\<lparr>c_audit := rows\<rparr>\<rparr>"
    using submit_effect [OF assms(1)] by blast
  let ?R = "update_where (\<lambda>r. q_id r = rid) (submitted d now) (k_requests db)"
  have u: "unique_on q_id (k_requests db)" using inv by (simp add: workflow_inv_def)
  note mem = update_where_mem [OF u sel, of "submitted d now", OF set_status_fields(6)]
  have rok: "request_ok H (k_approvals db) r" and none: "q_review_content_sha256 r = None"
    using inv select_Some_D [OF sel] draft by (auto simp: workflow_inv_def request_ok_def)
  have "request_ok H (k_approvals db) (submitted d now r)"
    using rok d unfolding request_ok_def by (simp add: later_statuses_def authorized_statuses_def)
  then have "\<forall>x \<in> set ?R. request_ok H (k_approvals db) x" using mem inv by (auto simp: workflow_inv_def)
  moreover have "\<forall>v \<in> set (k_approvals db). approval_ok ?R v"
    using approval_ok_update [OF u sel _ set_status_fields(6,8)] none inv by (auto simp: workflow_inv_def)
  moreover have "\<forall>e \<in> set (k_executions db). execution_ok ?R e"
  proof
    fix e assume e: "e \<in> set (k_executions db)"
    have "e_request_id e \<noteq> rid" using no_execution [OF inv sel _ e] draft by simp
    then show "execution_ok ?R e"
      using execution_ok_other [OF u sel set_status_fields(6)] e inv by (simp add: workflow_inv_def)
  qed
  moreover have "unique_on q_id ?R" using u by (simp add: unique_on_update_where)
  ultimately show ?thesis using inv by (simp add: db' workflow_inv_def)
qed

lemma approve_workflow:
  assumes "approve_change_request H policy vid now idt db actor rid dec reason = Inr db'" and inv: "workflow_ok H db"
  shows "workflow_ok H db'"
proof -
  obtain r v st rows where sel: "select q_id rid (k_requests db) = Some r" and open': "q_status r = ''REVIEW_REQUIRED''"
    and v: "q_requested_by r \<noteq> v_approver_id v" "q_review_content_sha256 r = Some (v_review_content_sha256 v)"
      "v_request_id v = rid"
    and free: "key_free (\<lambda>x. (v_request_id x, v_approver_id x)) (v_request_id v, v_approver_id v) (k_approvals db)"
    and st: "st \<in> {''DENIED'', ''REVIEW_REQUIRED'', ''APPROVED''}"
    and enough: "st = ''APPROVED'' \<Longrightarrow>
        required_approvals (q_environment r) \<le> int (length (approvals_of (k_approvals db @ [v]) rid))"
    and db': "db' = db\<lparr>k_approvals := k_approvals db @ [v],
          k_requests := update_where (\<lambda>r. q_id r = rid) (set_status st now) (k_requests db),
          k_core := k_core db\<lparr>c_audit := rows\<rparr>\<rparr>"
    using approve_effect [OF assms(1)] by blast
  have r: "r \<in> set (k_requests db)" "q_id r = rid" using select_Some_D [OF sel] by auto
  have "workflow_inv H (update_where (\<lambda>x. q_id x = rid) (set_status st now) (k_requests db))
      (k_approvals db @ [v]) (k_executions db)"
  proof (rule workflow_status [OF inv sel])
    show "q_status r \<noteq> ''DRAFT''" using open' by simp
    show "st \<in> later_statuses" using st by (auto simp: later_statuses_def)
    show "required_approvals (q_environment r) \<le> int (length (approvals_of (k_approvals db @ [v]) (q_id r)))"
      if "st \<in> authorized_statuses"
      using st that enough r(2) by (auto simp: authorized_statuses_def)
    have "approval_ok (k_requests db) v" using r v unfolding approval_ok_def by (intro bexI [of _ r]) auto
    then show "k_approvals db @ [v] = k_approvals db \<or> (\<exists>w. k_approvals db @ [v] = k_approvals db @ [w]
        \<and> approval_ok (k_requests db) w
        \<and> key_free (\<lambda>v. (v_request_id v, v_approver_id v)) (v_request_id w, v_approver_id w) (k_approvals db))"
      using free by blast
    show "e_request_id e = rid \<Longrightarrow> request_status_of (e_status e) = st" if "e \<in> set (k_executions db)" for e
      using no_execution [OF inv sel _ that] open' by simp
  qed (use inv in \<open>simp_all add: workflow_inv_def\<close>)
  then show ?thesis by (simp add: db')
qed

lemma start_workflow:
  assumes "start_execution H cfg eid now idt db actor rid key = Inr (Started x r, db')" and inv: "workflow_ok H db"
  shows "workflow_ok H db' \<and> (\<exists>e \<in> set (k_executions db'). e_id e = x \<and> e_request_id e = q_id r)"
proof -
  obtain e rows where sel: "select q_id rid (k_requests db) = Some r" and st: "q_status r = ''APPROVED''"
    and e: "e_id e = x" "e_request_id e = rid" "e_status e = ''RUNNING''" "key_free e_id x (k_executions db)"
    and db': "db' = db\<lparr>k_executions := k_executions db @ [e],
             k_requests := update_where (\<lambda>r. q_id r = rid) (set_status ''RUNNING'' now) (k_requests db),
             k_core := k_core db\<lparr>c_audit := rows\<rparr>\<rparr>"
    using start_effect [OF assms(1)] by blast
  have r: "r \<in> set (k_requests db)" "q_id r = rid" using select_Some_D [OF sel] by auto
  have none: "e_request_id y \<noteq> rid" if "y \<in> set (k_executions db)" for y
    using no_execution [OF inv sel _ that] st by simp
  have "workflow_inv H (update_where (\<lambda>x. q_id x = rid) (set_status ''RUNNING'' now) (k_requests db))
      (k_approvals db) (k_executions db @ [e])"
  proof (rule workflow_status [OF inv sel])
    show "required_approvals (q_environment r) \<le> int (length (approvals_of (k_approvals db) (q_id r)))"
      using inv r st by (auto simp: workflow_inv_def request_ok_def authorized_statuses_def)
    show "unique_on e_id (k_executions db @ [e])" "unique_on e_request_id (k_executions db @ [e])"
      using inv e none by (auto simp: workflow_inv_def unique_on_snoc key_free_iff)
  qed (use inv e st none in \<open>auto simp: workflow_inv_def later_statuses_def\<close>)
  then show ?thesis using e r by (simp add: db')
qed

text \<open>An execution that ends: \<open>p\<close> selects its row, \<open>f\<close> gives it the final status.\<close>

lemma end_workflow:
  assumes inv: "workflow_ok H db" and e: "e \<in> set (k_executions db)" "e_status e = ''RUNNING''" "p e"
    and p: "\<And>y. y \<in> set (k_executions db) \<Longrightarrow> p y \<Longrightarrow> e_id y = e_id e"
    and f: "\<forall>y. e_id (f y) = e_id y \<and> e_request_id (f y) = e_request_id y \<and> e_status (f y) = status
          \<and> e_idempotency_key (f y) = e_idempotency_key y"
    and rid: "e_request_id e = rid" and st: "request_status_of status = st"
  shows "workflow_inv H (update_where (\<lambda>x. q_id x = rid) (set_status st now) (k_requests db))
      (k_approvals db) (update_where p f (k_executions db))"
proof -
  obtain r where r: "r \<in> set (k_requests db)" "q_id r = rid" "q_status r = ''RUNNING''"
    using inv e rid by (auto simp: workflow_inv_def execution_ok_def)
  have sel: "select q_id rid (k_requests db) = Some r"
    using select_unique [of q_id "k_requests db" r] inv r by (simp add: workflow_inv_def)
  have only: "y = e" if "y \<in> set (k_executions db)" "e_request_id y = rid" for y
    using unique_on_eqI [of e_request_id "k_executions db" y e] inv that e rid by (simp add: workflow_inv_def)
  have same: "y = e" if "y \<in> set (k_executions db)" "p y" for y
    using unique_on_eqI [of e_id "k_executions db" y e] inv p [OF that] that e by (simp add: workflow_inv_def)
  have mem: "y \<in> set (update_where p f (k_executions db)) \<Longrightarrow> y = f e \<or> y \<in> set (k_executions db) \<and> \<not> p y" for y
    using same by (auto simp: set_update_where)
  show ?thesis
  proof (rule workflow_status [OF inv sel])
    show "q_status r \<noteq> ''DRAFT''" using r by simp
    show "st \<in> later_statuses" using st request_status_of_range [of status] by (auto simp: later_statuses_def)
    show "required_approvals (q_environment r) \<le> int (length (approvals_of (k_approvals db) (q_id r)))"
      using inv r by (auto simp: workflow_inv_def request_ok_def authorized_statuses_def)
    show "unique_on e_id (update_where p f (k_executions db))"
      "unique_on e_request_id (update_where p f (k_executions db))"
      using inv f by (simp_all add: workflow_inv_def unique_on_update_where)
    show "execution_ok (k_requests db) y"
      if "y \<in> set (update_where p f (k_executions db))" "e_request_id y \<noteq> rid" for y
      using mem [OF that(1)] that(2) inv f rid by (auto simp: workflow_inv_def)
    show "request_status_of (e_status y) = st"
      if "y \<in> set (update_where p f (k_executions db))" "e_request_id y = rid" for y
      using mem [OF that(1)] that(2) f st only e(3) by auto
  qed simp
qed

subsection \<open>The ledgers of the workflow\<close>

definition ledgers_inv :: "(string \<Rightarrow> string) \<Rightarrow> core_db \<Rightarrow> execution_row list \<Rightarrow> receipt_row list \<Rightarrow> bool" where
  "ledgers_inv H core E P \<longleftrightarrow> audit_built H (c_audit core) \<and> receipt_built H P \<and> unique_on r_execution_id P
     \<and> (\<forall>e \<in> set E. e_status e = ''RUNNING'' \<longleftrightarrow> e_id e \<notin> set (map r_execution_id P))
     \<and> set (map r_execution_id P) \<subseteq> set (map e_id E)"

lemma receipt_append_eq_Inr:
  "receipt_append H rid now rows x payload = Inr rows' \<Longrightarrow>
     key_free r_execution_id x rows \<and> (\<exists>row. rows' = rows @ [row] \<and> r_execution_id row = x)"
  by (auto simp: receipt_append_def Let_def split: if_splits)

lemma ledgers_audit:
  assumes "ledgers_inv H core E P" and "json_wf payload"
    and "audit_append H i t (c_audit core) actor action ttype tid payload = Inr rows"
  shows "ledgers_inv H (core\<lparr>c_audit := rows\<rparr>) E P"
  using assms by (auto simp: ledgers_inv_def intro: audit_more)

lemma ledgers_start:
  assumes "ledgers_inv H core E P" and "e_status e = ''RUNNING''" and "key_free e_id (e_id e) E"
  shows "ledgers_inv H core (E @ [e]) P"
  using assms by (auto simp: ledgers_inv_def key_free_def)

lemma ledgers_end:
  assumes inv: "ledgers_inv H core E P" and u: "unique_on e_id E"
    and e: "e \<in> set E" "e_id e = x" "p e" and p: "\<And>y. y \<in> set E \<Longrightarrow> p y \<Longrightarrow> e_id y = x"
    and f: "\<forall>y. e_id (f y) = e_id y \<and> e_request_id (f y) = e_request_id y \<and> e_status (f y) = status
          \<and> e_idempotency_key (f y) = e_idempotency_key y"
    and status: "status \<noteq> ''RUNNING''" and wf: "json_wf payload"
    and app: "receipt_append H i t P x payload = Inr P'"
  shows "ledgers_inv H core (update_where p f E) P'"
proof -
  obtain row where P': "P' = P @ [row]" "r_execution_id row = x" and free: "key_free r_execution_id x P"
    using receipt_append_eq_Inr [OF app] by blast
  have same: "p y \<longleftrightarrow> y = e" if "y \<in> set E" for y
    using unique_on_eqI [OF u that e(1)] p [OF that] e by auto
  have other: "e_id y \<noteq> x" if "y \<in> set E" "y \<noteq> e" for y
    using unique_on_eqI [OF u that(1) e(1)] that(2) e(2) by auto
  have mem: "y \<in> set (update_where p f E) \<longleftrightarrow> y = f e \<or> y \<in> set E \<and> y \<noteq> e" for y
    using same e(1) by (auto simp: set_update_where)
  have "receipt_built H P'" using inv receipt_more [OF _ wf app] by (simp add: ledgers_inv_def)
  moreover have "unique_on r_execution_id P'" using inv free by (simp add: ledgers_inv_def P' unique_on_snoc)
  moreover have "e_status y = ''RUNNING'' \<longleftrightarrow> e_id y \<notin> set (map r_execution_id P')"
    if "y \<in> set (update_where p f E)" for y
  proof (cases "y = f e")
    case True
    then show ?thesis using f status e by (simp add: P')
  next
    case False
    then have "y \<in> set E" "e_id y \<noteq> x" using that mem other by auto
    then show ?thesis using inv by (auto simp: ledgers_inv_def P')
  qed
  moreover have "set (map r_execution_id P') \<subseteq> set (map e_id (update_where p f E))"
    using map_update_where [of E p e_id f] f inv e by (auto simp: ledgers_inv_def P')
  ultimately show ?thesis using inv by (simp add: ledgers_inv_def)
qed

lemma create_user_audit:
  "create_user H hp uid now idt c actor name role = Inr (res, c') \<Longrightarrow> audit_built H (c_audit c) \<Longrightarrow> audit_built H (c_audit c')"
  by (clarsimp simp: create_user_def insert_user_def bindE_eq_Inr thenE_eq_Inr guardE_eq_Inr catchE_eq_Inr)
    (erule audit_built_audit; simp)

lemma create_workspace_audit:
  "create_workspace H wid now i1 i2 c actor name env = Inr (res, c') \<Longrightarrow> audit_built H (c_audit c) \<Longrightarrow> audit_built H (c_audit c')"
  by (clarsimp simp: create_workspace_def insert_workspace_def insert_membership_eq_Inr bindE_eq_Inr thenE_eq_Inr guardE_eq_Inr)
    (erule audit_built_audit, erule audit_built_audit; simp)

lemma add_member_audit:
  "add_member H now idt c actor wid uid role = Inr (res, c') \<Longrightarrow> audit_built H (c_audit c) \<Longrightarrow> audit_built H (c_audit c')"
  by (clarsimp simp: add_member_def insert_membership_eq_Inr bindE_eq_Inr thenE_eq_Inr guardE_eq_Inr Let_def)
    (erule audit_built_audit; simp)

lemma remove_member_audit:
  "remove_member H idt c actor wid uid = Inr c' \<Longrightarrow> audit_built H (c_audit c) \<Longrightarrow> audit_built H (c_audit c')"
  by (clarsimp simp: remove_member_def delete_membership_def bindE_eq_Inr thenE_eq_Inr guardE_eq_Inr)
    (erule audit_built_audit; simp)

lemma workspace_step_audit: "workspace_step H c c' \<Longrightarrow> audit_built H (c_audit c) \<Longrightarrow> audit_built H (c_audit c')"
  by (erule workspace_step.cases)
    (blast dest: create_user_audit create_workspace_audit add_member_audit remove_member_audit)+

lemma stop_step_audit:
  "set_emergency_stop H now idt c actor active reason = Inr (r, c') \<Longrightarrow> audit_built H (c_audit c) \<Longrightarrow> audit_built H (c_audit c')"
  by (clarsimp simp: set_emergency_stop_def bindE_eq_Inr) (erule audit_built_audit; simp)

subsection \<open>The system\<close>

text \<open>
  The state: the database, and the executions whose first transaction is over, with the request row
  that their second transaction will use.
\<close>

record work_system =
  y_db :: work_db
  y_started :: "(string \<times> change_row) list"

inductive work_step :: "(string \<Rightarrow> string) \<Rightarrow> work_system \<Rightarrow> work_system \<Rightarrow> bool" for H where
  create_step: "create_change_request H rid now idt (y_db s) actor ws title descr risk env adapter payload = Inr db'
     \<Longrightarrow> work_step H s (s\<lparr>y_db := db'\<rparr>)"
| submit_step: "submit_change_request H now idt (y_db s) actor rid = Inr db' \<Longrightarrow> work_step H s (s\<lparr>y_db := db'\<rparr>)"
| approve_step: "approve_change_request H policy vid now idt (y_db s) actor rid dec reason = Inr db'
     \<Longrightarrow> work_step H s (s\<lparr>y_db := db'\<rparr>)"
| start_step: "start_execution H cfg eid now idt (y_db s) actor rid key = Inr (Started x r, db')
     \<Longrightarrow> work_step H s (s\<lparr>y_db := db', y_started := (x, r) # y_started s\<rparr>)"
| finish_step: "(x, r) \<in> set (y_started s)
     \<Longrightarrow> finish_execution H now ridt idt (y_db s) actor x r result = Inr db' \<Longrightarrow> work_step H s (s\<lparr>y_db := db'\<rparr>)"
| recover_step: "recover_execution H cfg now ridt idt (y_db s) actor x reason = Inr db'
     \<Longrightarrow> work_step H s (s\<lparr>y_db := db'\<rparr>)"
| people_step: "workspace_step H (k_core (y_db s)) c \<Longrightarrow> work_step H s (s\<lparr>y_db := (y_db s)\<lparr>k_core := c\<rparr>\<rparr>)"
| stop_step: "set_emergency_stop H now idt (k_core (y_db s)) actor active reason = Inr (flag, c)
     \<Longrightarrow> work_step H s (s\<lparr>y_db := (y_db s)\<lparr>k_core := c\<rparr>\<rparr>)"

definition work_start :: "(string \<Rightarrow> string) \<Rightarrow> work_system \<Rightarrow> bool" where
  "work_start H s \<longleftrightarrow> k_requests (y_db s) = [] \<and> k_approvals (y_db s) = [] \<and> k_executions (y_db s) = []
     \<and> k_receipts (y_db s) = [] \<and> y_started s = [] \<and> audit_built H (c_audit (k_core (y_db s)))"

definition started_ok :: "execution_row list \<Rightarrow> string \<times> change_row \<Rightarrow> bool" where
  "started_ok E xr \<longleftrightarrow> (\<exists>e \<in> set E. e_id e = fst xr \<and> e_request_id e = q_id (snd xr))"

definition work_inv :: "(string \<Rightarrow> string) \<Rightarrow> work_system \<Rightarrow> bool" where
  "work_inv H s \<longleftrightarrow> workflow_ok H (y_db s)
     \<and> ledgers_inv H (k_core (y_db s)) (k_executions (y_db s)) (k_receipts (y_db s))
     \<and> (\<forall>xr \<in> set (y_started s). started_ok (k_executions (y_db s)) xr)"

lemma started_ok_update:
  assumes "started_ok E xr" and "\<forall>y. e_id (f y) = e_id y \<and> e_request_id (f y) = e_request_id y \<and> e_status (f y) = status
          \<and> e_idempotency_key (f y) = e_idempotency_key y"
  shows "started_ok (update_where p f E) xr"
proof -
  obtain e where e: "e \<in> set E" "e_id e = fst xr" "e_request_id e = q_id (snd xr)"
    using assms(1) by (auto simp: started_ok_def)
  let ?e = "if p e then f e else e"
  have "?e \<in> set (update_where p f E)" using e(1) by (auto simp: set_update_where)
  then show ?thesis using e assms(2) unfolding started_ok_def by (intro bexI [of _ ?e]) auto
qed

lemma started_ok_more: "started_ok E xr \<Longrightarrow> started_ok (E @ [e]) xr"
  by (auto simp: started_ok_def)

text \<open>Both ways an execution ends keep the invariant.\<close>

lemma end_work:
  assumes inv: "work_inv H s" and e: "e \<in> set (k_executions (y_db s))" "e_id e = x" "e_status e = ''RUNNING''" "p e"
    and p: "\<And>y. y \<in> set (k_executions (y_db s)) \<Longrightarrow> p y \<Longrightarrow> e_id y = x"
    and f: "\<forall>y. e_id (f y) = e_id y \<and> e_request_id (f y) = e_request_id y \<and> e_status (f y) = status
          \<and> e_idempotency_key (f y) = e_idempotency_key y"
    and status: "status \<noteq> ''RUNNING''" and st: "request_status_of status = st"
    and wf: "json_wf payload" and rcpts: "receipt_append H ri rt (k_receipts (y_db s)) x payload = Inr rcpts"
    and awf: "json_wf apayload"
    and rows: "audit_append H i t (c_audit (k_core (y_db s))) actor action ttype tid apayload = Inr rows"
  shows "work_inv H (s\<lparr>y_db := (y_db s)\<lparr>k_executions := update_where p f (k_executions (y_db s)),
          k_requests := update_where (\<lambda>q. q_id q = e_request_id e) (set_status st now) (k_requests (y_db s)),
          k_receipts := rcpts, k_core := k_core (y_db s)\<lparr>c_audit := rows\<rparr>\<rparr>\<rparr>)"
proof -
  have w: "workflow_ok H (y_db s)"
    and l: "ledgers_inv H (k_core (y_db s)) (k_executions (y_db s)) (k_receipts (y_db s))"
    using inv by (auto simp: work_inv_def)
  have u: "unique_on e_id (k_executions (y_db s))" using w by (simp add: workflow_inv_def)
  have "workflow_inv H (update_where (\<lambda>q. q_id q = e_request_id e) (set_status st now) (k_requests (y_db s)))
      (k_approvals (y_db s)) (update_where p f (k_executions (y_db s)))"
    using p e(2) by (intro end_workflow [where p = p and f = f and status = status and e = e] w e(1,3,4) f refl st) simp
  moreover have "ledgers_inv H (k_core (y_db s)\<lparr>c_audit := rows\<rparr>) (update_where p f (k_executions (y_db s))) rcpts"
    using ledgers_audit [OF ledgers_end [where p = p and f = f and status = status, OF l u e(1,2,4) p f status wf rcpts] awf rows]
    by blast
  moreover have "\<forall>xr \<in> set (y_started s). started_ok (update_where p f (k_executions (y_db s))) xr"
    using inv started_ok_update [OF _ f] by (simp add: work_inv_def)
  ultimately show ?thesis by (simp add: work_inv_def)
qed

lemma finish_work:
  assumes inv: "work_inv H s" and x: "(x, r) \<in> set (y_started s)"
    and "finish_execution H now ridt idt (y_db s) actor x r result = Inr db'"
  shows "work_inv H (s\<lparr>y_db := db'\<rparr>)"
proof -
  consider "db' = y_db s" | f payload rows status err rcpts where
       "list_ex (ends x 1) (k_executions (y_db s))"
       "\<forall>e. e_id (f e) = e_id e \<and> e_request_id (f e) = e_request_id e \<and> e_status (f e) = status
          \<and> e_idempotency_key (f e) = e_idempotency_key e"
       "status = ''SUCCEEDED'' \<or> status = ''FAILED''" "json_wf payload"
       "receipt_append H (fst ridt) (snd ridt) (k_receipts (y_db s)) x payload = Inr rcpts"
       "audit_append H (fst idt) (snd idt) (c_audit (k_core (y_db s))) actor (''execution.'' @ map lower_char status)
          ''execution'' x (JObj [(''request_id'', JStr (q_id r)), (''receipt_id'', JStr (fst ridt)),
             (''error'', opt_json err)]) = Inr rows"
       "db' = (y_db s)\<lparr>k_executions := update_where (ends x 1) f (k_executions (y_db s)),
          k_requests := update_where (\<lambda>q. q_id q = q_id r)
            (set_status (if status = ''SUCCEEDED'' then ''COMPLETED'' else ''FAILED'') now) (k_requests (y_db s)),
          k_receipts := rcpts, k_core := k_core (y_db s)\<lparr>c_audit := rows\<rparr>\<rparr>"
    using finish_effect [OF assms(3)] by blast
  then show ?thesis
  proof cases
    case 1
    then show ?thesis using inv by simp
  next
    case 2
    obtain e where e: "e \<in> set (k_executions (y_db s))" "e_id e = x" "e_status e = ''RUNNING''" "ends x 1 e"
      using 2(1) by (auto simp: list_ex_iff ends_def)
    obtain e' where "e' \<in> set (k_executions (y_db s))" "e_id e' = x" "e_request_id e' = q_id r"
      using inv x by (fastforce simp: work_inv_def started_ok_def)
    then have rid: "e_request_id e = q_id r"
      using unique_on_eqI [of e_id "k_executions (y_db s)" e e'] inv e(1,2) by (simp add: work_inv_def workflow_inv_def)
    have st: "status \<noteq> ''RUNNING''"
        "request_status_of status = (if status = ''SUCCEEDED'' then ''COMPLETED'' else ''FAILED'')"
      using 2(3) by auto
    have awf: "json_wf (JObj [(''request_id'', JStr (q_id r)), (''receipt_id'', JStr (fst ridt)), (''error'', opt_json err)])"
      by (cases err) simp_all
    show ?thesis
      using end_work [where p = "ends x 1" and f = f and status = status, OF inv e _ 2(2) st 2(4,5) awf 2(6), of now]
      unfolding rid 2(7) by (simp add: ends_def)
  qed
qed

lemma recover_work:
  assumes inv: "work_inv H s" and "recover_execution H cfg now ridt idt (y_db s) actor x reason = Inr db'"
  shows "work_inv H (s\<lparr>y_db := db'\<rparr>)"
proof -
  obtain e f payload rows rcpts where sel: "select e_id x (k_executions (y_db s)) = Some e" "e_status e = ''RUNNING''"
    and f: "\<forall>e. e_id (f e) = e_id e \<and> e_request_id (f e) = e_request_id e \<and> e_status (f e) = ''INTERRUPTED''
          \<and> e_idempotency_key (f e) = e_idempotency_key e"
    and wf: "json_wf payload" and rcpts: "receipt_append H (fst ridt) (snd ridt) (k_receipts (y_db s)) x payload = Inr rcpts"
    and rows: "audit_append H (fst idt) (snd idt) (c_audit (k_core (y_db s))) actor ''execution.interrupted'' ''execution'' x
          (JObj [(''request_id'', JStr (e_request_id e)), (''receipt_id'', JStr (fst ridt)),
           (''outcome'', JStr ''INDETERMINATE''), (''reason'', JStr (strip reason))]) = Inr rows"
    and db': "db' = (y_db s)\<lparr>k_executions := update_where
            (\<lambda>y. ends x (e_fence e) y \<and> e_lease_expires_at y = e_lease_expires_at e) f (k_executions (y_db s)),
          k_requests := update_where (\<lambda>q. q_id q = e_request_id e) (set_status ''FAILED'' now) (k_requests (y_db s)),
          k_receipts := rcpts, k_core := k_core (y_db s)\<lparr>c_audit := rows\<rparr>\<rparr>"
    using recover_effect [OF assms(2)] by blast
  have e: "e \<in> set (k_executions (y_db s))" "e_id e = x" using select_Some_D [OF sel(1)] by auto
  let ?p = "\<lambda>y. ends x (e_fence e) y \<and> e_lease_expires_at y = e_lease_expires_at e"
  have p: "?p e" "\<And>y. ?p y \<Longrightarrow> e_id y = x" using e sel by (simp_all add: ends_def)
  have "''INTERRUPTED'' \<noteq> ''RUNNING''" "request_status_of ''INTERRUPTED'' = ''FAILED''" by simp_all
  note fin = end_work [where p = ?p and f = f and status = "''INTERRUPTED''", OF inv e sel(2) p(1) p(2) f this wf rcpts _ rows, of now]
  show ?thesis unfolding db' by (rule fin) simp_all
qed

lemma work_step_inv:
  assumes "work_step H s s'" and inv: "work_inv H s"
  shows "work_inv H s'"
  using assms
proof (induction rule: work_step.induct)
  case (create_step rid now idt s actor ws title descr risk env adapter payload db')
  obtain r rows where db': "db' = (y_db s)\<lparr>k_requests := k_requests (y_db s) @ [r], k_core := k_core (y_db s)\<lparr>c_audit := rows\<rparr>\<rparr>"
    and rows: "audit_append H (fst idt) (snd idt) (c_audit (k_core (y_db s))) actor ''change_request.create'' ''change_request'' rid
          (JObj [(''risk'', JStr risk), (''environment'', JStr env), (''adapter'', JStr adapter)]) = Inr rows"
    using create_effect [OF create_step.hyps] by blast
  show ?case
    using create_workflow [OF create_step.hyps] create_step.prems ledgers_audit [OF _ _ rows]
    by (simp add: work_inv_def db')
next
  case (submit_step now idt s actor rid db')
  obtain d rows where db': "db' = (y_db s)\<lparr>k_requests := update_where (\<lambda>r. q_id r = rid) (submitted d now) (k_requests (y_db s)),
                k_core := k_core (y_db s)\<lparr>c_audit := rows\<rparr>\<rparr>"
    and rows: "audit_append H (fst idt) (snd idt) (c_audit (k_core (y_db s))) actor ''change_request.submit'' ''change_request'' rid
          (JObj [(''review_content_sha256'', JStr d)]) = Inr rows"
    using submit_effect [OF submit_step.hyps] by blast
  show ?case
    using submit_workflow [OF submit_step.hyps] submit_step.prems ledgers_audit [OF _ _ rows]
    by (simp add: work_inv_def db')
next
  case (approve_step policy vid now idt s actor rid dec reason db')
  obtain v st p rows where db': "db' = (y_db s)\<lparr>k_approvals := k_approvals (y_db s) @ [v],
          k_requests := update_where (\<lambda>r. q_id r = rid) (set_status st now) (k_requests (y_db s)),
          k_core := k_core (y_db s)\<lparr>c_audit := rows\<rparr>\<rparr>"
    and rows: "audit_append H (fst idt) (snd idt) (c_audit (k_core (y_db s))) actor
          (''change_request.'' @ map lower_char (upper dec)) ''change_request'' rid
          (approval_payload reason st (v_review_content_sha256 v) p) = Inr rows"
    using approve_effect [OF approve_step.hyps] by blast
  show ?case
    using approve_workflow [OF approve_step.hyps] approve_step.prems ledgers_audit [OF _ approval_payload_wf rows]
    by (simp add: work_inv_def db')
next
  case (start_step cfg eid now idt s actor rid key x r db')
  obtain e rows where e: "e_id e = x" "e_status e = ''RUNNING''" "key_free e_id x (k_executions (y_db s))"
    and rows: "audit_append H (fst idt) (snd idt) (c_audit (k_core (y_db s))) actor ''execution.start'' ''execution'' x
            (JObj [(''request_id'', JStr rid), (''adapter'', JStr (q_adapter r))]) = Inr rows"
    and db': "db' = (y_db s)\<lparr>k_executions := k_executions (y_db s) @ [e],
             k_requests := update_where (\<lambda>r. q_id r = rid) (set_status ''RUNNING'' now) (k_requests (y_db s)),
             k_core := k_core (y_db s)\<lparr>c_audit := rows\<rparr>\<rparr>"
    using start_effect [OF start_step.hyps] by blast
  have l: "ledgers_inv H (k_core (y_db s)) (k_executions (y_db s)) (k_receipts (y_db s))"
    using start_step.prems by (simp add: work_inv_def)
  have "ledgers_inv H (k_core (y_db s)\<lparr>c_audit := rows\<rparr>) (k_executions (y_db s) @ [e]) (k_receipts (y_db s))"
    using ledgers_audit [OF ledgers_start [OF l e(2)] _ rows] e(1,3) by simp
  then show ?case
    using start_workflow [OF start_step.hyps] start_step.prems started_ok_more
    by (auto simp: work_inv_def db' started_ok_def)
next
  case (finish_step x r s now ridt idt actor result db')
  then show ?case using finish_work by blast
next
  case (recover_step cfg now ridt idt s actor x reason db')
  then show ?case using recover_work by blast
next
  case (people_step s c)
  then show ?case using workspace_step_audit by (auto simp: work_inv_def ledgers_inv_def)
next
  case (stop_step now idt s actor active reason flag c)
  then show ?case using stop_step_audit by (auto simp: work_inv_def ledgers_inv_def)
qed

lemma work_reachable_inv:
  assumes "(work_step H)\<^sup>*\<^sup>* s0 s" and "work_start H s0"
  shows "work_inv H s"
  using assms(1)
proof (induction rule: rtranclp_induct)
  case base
  show ?case using assms(2)
    by (simp add: work_start_def work_inv_def workflow_inv_def ledgers_inv_def unique_on_def receipt_empty)
next
  case (step s1 s2)
  then show ?case using work_step_inv by blast
qed

end
