(* ===== verification/Change_Properties.thy ===== *)
theory Change_Properties
  imports Change_Lifecycle
begin

text \<open>
  The properties of the change-request workflow over \<open>Change_Lifecycle\<close>: independent approval of the
  exact content, one execution per request, one receipt per finished execution, idempotent starts,
  fenced completions, the status life cycle, and ledgers that verify.
\<close>

subsection \<open>Approval\<close>

text \<open>The users who approved a request, and the review digests they approved.\<close>

definition reviewers :: "work_db \<Rightarrow> string \<Rightarrow> string set" where
  "reviewers db rid = v_approver_id ` set (approvals_of (k_approvals db) rid)"

lemma card_reviewers:
  assumes "unique_on (\<lambda>v. (v_request_id v, v_approver_id v)) (k_approvals db)"
  shows "card (reviewers db rid) = length (approvals_of (k_approvals db) rid)"
proof -
  let ?A = "approvals_of (k_approvals db) rid"
  have "distinct (map (\<lambda>v. (v_request_id v, v_approver_id v)) ?A)"
    using assms by (simp add: unique_on_def approvals_of_def distinct_map_filter)
  moreover have "map (\<lambda>v. (v_request_id v, v_approver_id v)) ?A = map (Pair rid) (map v_approver_id ?A)"
    by (auto simp: approvals_of_def)
  ultimately have "distinct (map v_approver_id ?A)" by (metis distinct_map)
  then show ?thesis using distinct_card unfolding reviewers_def by fastforce
qed

text \<open>(C2) Four-eyes approval: in every state the workflow reaches, a request that is approved, running,
  completed or failed was approved by at least one reviewer, by at least two when its environment is
  production, all different from the requester, and each of them approved the digest of exactly the
  content the request has now.\<close>

theorem approved_by_independent_reviewers:
  assumes "work_start H s0" and "(work_step H)\<^sup>*\<^sup>* s0 s"
    and "r \<in> set (k_requests (y_db s))" and "q_status r \<in> {''APPROVED'', ''RUNNING'', ''COMPLETED'', ''FAILED''}"
  shows "required_approvals (q_environment r) \<le> int (card (reviewers (y_db s) (q_id r)))
     \<and> q_requested_by r \<notin> reviewers (y_db s) (q_id r)
     \<and> (\<forall>v \<in> set (approvals_of (k_approvals (y_db s)) (q_id r)).
          review_content_sha256 H r = Inr (v_review_content_sha256 v))"
proof -
  have inv: "workflow_ok H (y_db s)" using work_reachable_inv [OF assms(2,1)] by (simp add: work_inv_def)
  have r: "request_ok H (k_approvals (y_db s)) r" using inv assms(3) by (simp add: workflow_inv_def)
  have ap: "q_requested_by r \<noteq> v_approver_id v \<and> q_review_content_sha256 r = Some (v_review_content_sha256 v)"
    if v: "v \<in> set (approvals_of (k_approvals (y_db s)) (q_id r))" for v
  proof -
    have "v \<in> set (k_approvals (y_db s))" "v_request_id v = q_id r" using v by (auto simp: approvals_of_def)
    then obtain q where "q \<in> set (k_requests (y_db s))" "q_id q = q_id r"
        "q_review_content_sha256 q = Some (v_review_content_sha256 v)" "q_requested_by q \<noteq> v_approver_id v"
      using inv by (fastforce simp: workflow_inv_def approval_ok_def)
    moreover then have "q = r"
      using unique_on_eqI [of q_id "k_requests (y_db s)" q r] inv assms(3) by (simp add: workflow_inv_def)
    ultimately show ?thesis by simp
  qed
  have "q_status r \<in> authorized_statuses" using assms(4) by (simp add: authorized_statuses_def)
  then have "required_approvals (q_environment r) \<le> int (length (approvals_of (k_approvals (y_db s)) (q_id r)))"
    using r by (simp add: request_ok_def)
  then have "required_approvals (q_environment r) \<le> int (card (reviewers (y_db s) (q_id r)))"
    using card_reviewers [of "y_db s"] inv by (simp add: workflow_inv_def)
  moreover have "review_content_sha256 H r = Inr d" if "q_review_content_sha256 r = Some d" for d
    using r that by (auto simp: request_ok_def split: if_splits)
  ultimately show ?thesis using ap by (auto simp: reviewers_def)
qed

subsection \<open>Execution\<close>

text \<open>(C7) A request is executed at most once: in every state the workflow reaches, two executions of the
  same request are the same row, and a request with an execution is running, completed or failed, so
  that no further execution of it can start.\<close>

theorem request_executed_at_most_once:
  assumes "work_start H s0" and "(work_step H)\<^sup>*\<^sup>* s0 s"
    and "e \<in> set (k_executions (y_db s))" and "e' \<in> set (k_executions (y_db s))" and "e_request_id e = e_request_id e'"
  shows "e = e' \<and> (\<exists>r \<in> set (k_requests (y_db s)). q_id r = e_request_id e
     \<and> q_status r = request_status_of (e_status e) \<and> q_status r \<in> {''RUNNING'', ''COMPLETED'', ''FAILED''})"
proof -
  have inv: "workflow_ok H (y_db s)" using work_reachable_inv [OF assms(2,1)] by (simp add: work_inv_def)
  have "e = e'"
    using unique_on_eqI [of e_request_id "k_executions (y_db s)" e e'] inv assms(3-5) by (simp add: workflow_inv_def)
  moreover have "execution_ok (k_requests (y_db s)) e" using inv assms(3) by (simp add: workflow_inv_def)
  then obtain r where "r \<in> set (k_requests (y_db s))" "q_id r = e_request_id e"
      "q_status r = request_status_of (e_status e)"
    unfolding execution_ok_def by blast
  ultimately show ?thesis using request_status_of_range [of "e_status e"] by (intro conjI bexI [of _ r]) simp_all
qed

text \<open>(C14) Every ended execution left exactly one receipt and a running one none: in every state the
  workflow reaches, an execution has a receipt if and only if it is not running, no two receipts
  name the same execution, and every receipt names an execution of the table.\<close>

theorem one_receipt_per_ended_execution:
  assumes "work_start H s0" and "(work_step H)\<^sup>*\<^sup>* s0 s"
  shows "list_all (\<lambda>e. (e_id e \<in> set (map r_execution_id (k_receipts (y_db s)))) = (e_status e \<noteq> ''RUNNING''))
       (k_executions (y_db s))
     \<and> distinct (map r_execution_id (k_receipts (y_db s)))
     \<and> set (map r_execution_id (k_receipts (y_db s))) \<subseteq> set (map e_id (k_executions (y_db s)))"
  using work_reachable_inv [OF assms(2,1)]
  by (auto simp: work_inv_def ledgers_inv_def unique_on_def list_all_iff)

text \<open>(C30) The audit and the receipt table of the workflow always verify: in every state reached, both
  \<open>verify\<close> operations accept the tables with their full row counts.\<close>

theorem workflow_ledgers_verify:
  assumes "work_start H s0" and "(work_step H)\<^sup>*\<^sup>* s0 s"
  shows "(\<exists>h. audit_verify H (c_audit (k_core (y_db s))) = Inr (Valid (length (c_audit (k_core (y_db s)))) h))
     \<and> (\<exists>h. receipt_verify H (k_receipts (y_db s)) = Inr (Valid (length (k_receipts (y_db s))) h))"
  using work_reachable_inv [OF assms(2,1)] audit_built_verifies receipt_built_verifies
  by (simp add: work_inv_def ledgers_inv_def)

text \<open>Idempotent start: after an execution was started with a non-empty idempotency key, starting the
  same request with the same key again, by anyone, at any time and under any configuration, answers
  with the existing execution and writes nothing, even while the emergency stop is active; the key
  with another request is refused.\<close>

lemma start_is_idempotent:
  assumes "start_execution H cfg eid now idt db actor rid (Some key) = Inr (Started x r, db')" and "key \<noteq> []"
  shows "start_execution H cfg' eid' now' idt' db' actor' rid (Some key) = Inr (Existing x, db')
     \<and> (rid' \<noteq> rid \<longrightarrow> start_execution H cfg' eid' now' idt' db' actor' rid' (Some key)
          = Inl (RuntimeError ''idempotency key is bound to another request''))"
proof -
  obtain e where e: "e_id e = x" "e_request_id e = rid" "e_idempotency_key e = Some key"
    and E: "k_executions db' = k_executions db @ [e]"
    using start_effect [OF assms(1)] by auto
  have "existing_execution db (Some key) = None"
  proof (rule ccontr)
    assume "existing_execution db (Some key) \<noteq> None"
    then obtain e0 where "existing_execution db (Some key) = Some e0" by blast
    then show False using assms(1) by (simp add: start_execution_def res_simps)
  qed
  then have "select e_idempotency_key (Some key) (k_executions db) = None"
    using assms(2) by (simp add: existing_execution_def)
  then have "existing_execution db' (Some key) = Some e"
    using assms(2) e E by (simp add: existing_execution_def select_append)
  then show ?thesis using e by (simp add: start_execution_def)
qed

lemma ended_stays:
  assumes "work_step H s s'" and "work_inv H s" and "e \<in> set (k_executions (y_db s))" and "e_status e \<noteq> ''RUNNING''"
  shows "e \<in> set (k_executions (y_db s'))"
  using assms
proof (induction rule: work_step.induct)
  case (create_step rid now idt s actor ws title descr risk env adapter payload db')
  then show ?case using create_effect by fastforce
next
  case (submit_step now idt s actor rid db')
  then show ?case using submit_effect by fastforce
next
  case (approve_step policy vid now idt s actor rid dec reason db')
  then show ?case using approve_effect [OF approve_step.hyps] by auto
next
  case (start_step cfg eid now idt s actor rid key x r db')
  then show ?case using start_effect [OF start_step.hyps] by auto
next
  case (finish_step x r s now ridt idt actor result db')
  then show ?case using finish_effect [OF finish_step.hyps(2)] by (auto simp: set_update_where ends_def)
next
  case (recover_step cfg now ridt idt s actor x reason db')
  then show ?case using recover_effect [OF recover_step.hyps] by (fastforce simp: set_update_where ends_def)
qed simp_all

lemma ended_stays_star:
  assumes "(work_step H)\<^sup>*\<^sup>* s s'" and "work_inv H s" and "e \<in> set (k_executions (y_db s))" and "e_status e \<noteq> ''RUNNING''"
  shows "work_inv H s' \<and> e \<in> set (k_executions (y_db s'))"
  using assms(1)
proof (induction rule: rtranclp_induct)
  case base
  show ?case using assms(2,3) by simp
next
  case (step s1 s2)
  then show ?case using ended_stays [OF step.hyps(2) _ _ assms(4)] work_step_inv [OF step.hyps(2)] by blast
qed

lemma recovered_row:
  assumes "recover_execution H cfg now ridt idt db actor x reason = Inr db'"
  shows "\<exists>e \<in> set (k_executions db'). e_id e = x \<and> e_status e = ''INTERRUPTED''"
proof -
  obtain e f where e: "select e_id x (k_executions db) = Some e" "e_status e = ''RUNNING''"
    and f: "\<forall>e. e_id (f e) = e_id e \<and> e_request_id (f e) = e_request_id e \<and> e_status (f e) = ''INTERRUPTED''
          \<and> e_idempotency_key (f e) = e_idempotency_key e"
    and E: "k_executions db' = update_where
        (\<lambda>y. ends x (e_fence e) y \<and> e_lease_expires_at y = e_lease_expires_at e) f (k_executions db)"
    using recover_effect [OF assms] by (elim exE conjE) (rule that, assumption+, simp)
  have "f e \<in> set (k_executions db')"
    using select_Some_D [OF e(1)] e(2) by (auto simp: E set_update_where ends_def)
  then show ?thesis using f select_Some_D [OF e(1)] by (intro bexI [of _ "f e"]) auto
qed

lemma finish_noop:
  assumes "\<not> list_ex (ends x 1) (k_executions db)"
  shows "finish_execution H now ridt idt db actor x r result = Inr db"
proof -
  have "(\<lambda>e. e_id e = x \<and> e_status e = ''RUNNING'' \<and> e_fence e = 1) = ends x 1" by (simp add: ends_def fun_eq_iff)
  then show ?thesis using assms
    by (simp add: finish_execution_def update_executions_def split: prod.splits)
qed

text \<open>A late completion is fenced off: once an execution has been recovered as interrupted, the
  completion of the original run, whatever the adapter returned, changes nothing, in every later state
  of the workflow.\<close>

lemma late_completion_ignored:
  assumes "work_start H s0" and "(work_step H)\<^sup>*\<^sup>* s0 s"
    and "recover_execution H cfg now ridt idt (y_db s) actor x reason = Inr db'"
    and "(work_step H)\<^sup>*\<^sup>* (s\<lparr>y_db := db'\<rparr>) s2"
  shows "finish_execution H now' ridt' idt' (y_db s2) actor' x r result = Inr (y_db s2)"
proof (rule finish_noop)
  have inv: "work_inv H (s\<lparr>y_db := db'\<rparr>)"
    using work_step_inv [OF recover_step [OF assms(3)]] work_reachable_inv [OF assms(2,1)] by blast
  obtain e where e: "e \<in> set (k_executions db')" "e_id e = x" "e_status e = ''INTERRUPTED''"
    using recovered_row [OF assms(3)] by blast
  have late: "work_inv H s2" "e \<in> set (k_executions (y_db s2))"
    using ended_stays_star [OF assms(4) inv, of e] e by simp_all
  show "\<not> list_ex (ends x 1) (k_executions (y_db s2))"
  proof
    assume "list_ex (ends x 1) (k_executions (y_db s2))"
    then obtain y where "y \<in> set (k_executions (y_db s2))" "e_id y = x" "e_status y = ''RUNNING''"
      by (auto simp: list_ex_iff ends_def)
    then show False
      using unique_on_eqI [of e_id "k_executions (y_db s2)" y e] late e by (simp add: work_inv_def workflow_inv_def)
  qed
qed

subsection \<open>The life cycle\<close>

text \<open>The abstract workflow: a request moves along these edges only.\<close>

definition lifecycle :: "(string \<times> string) set" where
  "lifecycle =
     {(''DRAFT'', ''REVIEW_REQUIRED''), (''REVIEW_REQUIRED'', ''DENIED''), (''REVIEW_REQUIRED'', ''APPROVED''),
      (''APPROVED'', ''RUNNING''), (''RUNNING'', ''COMPLETED''), (''RUNNING'', ''FAILED'')}"

definition content :: "change_row \<Rightarrow> string list" where
  "content r = [q_id r, q_workspace_id r, q_title r, q_description r, q_risk r, q_environment r, q_adapter r,
     q_payload_json r, q_requested_by r]"

definition evolves :: "change_row list \<Rightarrow> change_row list \<Rightarrow> bool" where
  "evolves R R' \<longleftrightarrow> (\<forall>r \<in> set R. \<exists>r' \<in> set R'. content r' = content r
     \<and> (q_status r' = q_status r \<or> (q_status r, q_status r') \<in> lifecycle))"

lemma content_update [simp]: "content (set_status st now r) = content r" "content (submitted d now r) = content r"
  by (simp_all add: content_def set_status_def submitted_def)

lemma evolves_refl: "evolves R R"
  by (auto simp: evolves_def)

lemma evolves_update:
  assumes "\<And>r. r \<in> set R \<Longrightarrow> q_id r = rid \<Longrightarrow> content (f r) = content r
     \<and> (q_status (f r) = q_status r \<or> (q_status r, q_status (f r)) \<in> lifecycle)"
  shows "evolves R (update_where (\<lambda>r. q_id r = rid) f R)"
proof -
  have "\<exists>r' \<in> set (update_where (\<lambda>r. q_id r = rid) f R). content r' = content r
     \<and> (q_status r' = q_status r \<or> (q_status r, q_status r') \<in> lifecycle)" if "r \<in> set R" for r
    using assms [OF that] that
    by (intro bexI [of _ "if q_id r = rid then f r else r"]) (auto simp: set_update_where)
  then show ?thesis by (simp add: evolves_def)
qed

lemma evolves_select:
  assumes "unique_on q_id R" and "select q_id rid R = Some r"
    and "content (f r) = content r" and "q_status (f r) = q_status r \<or> (q_status r, q_status (f r)) \<in> lifecycle"
  shows "evolves R (update_where (\<lambda>r. q_id r = rid) f R)"
proof (rule evolves_update)
  fix x assume "x \<in> set R" "q_id x = rid"
  then have "x = r" using unique_on_eqI [OF assms(1), of x r] select_Some_D [OF assms(2)] by simp
  then show "content (f x) = content x \<and> (q_status (f x) = q_status x \<or> (q_status x, q_status (f x)) \<in> lifecycle)"
    using assms(3,4) by simp
qed

lemma finish_requests:
  assumes "finish_execution H now ridt idt db actor x r result = Inr db'"
  shows "db' = db \<or> (\<exists>st. list_ex (ends x 1) (k_executions db) \<and> (st = ''COMPLETED'' \<or> st = ''FAILED'')
     \<and> k_requests db' = update_where (\<lambda>q. q_id q = q_id r) (set_status st now) (k_requests db))"
proof (cases "db' = db")
  case False
  have requests: "db' = db\<lparr>k_executions := E, k_requests := R, k_receipts := P, k_core := c\<rparr> \<Longrightarrow> k_requests db' = R"
    for E R P c by simp
  obtain status where ends: "list_ex (ends x 1) (k_executions db)"
    and R: "k_requests db' = update_where (\<lambda>q. q_id q = q_id r)
            (set_status (if status = ''SUCCEEDED'' then ''COMPLETED'' else ''FAILED'') now) (k_requests db)"
    using finish_effect [OF assms] False requests by blast
  have "(if status = ''SUCCEEDED'' then ''COMPLETED'' else ''FAILED'') = ''COMPLETED''
      \<or> (if status = ''SUCCEEDED'' then ''COMPLETED'' else ''FAILED'') = ''FAILED''" by simp
  with ends R show ?thesis by blast
qed simp

lemma running_request:
  assumes "workflow_ok H db" and "e \<in> set (k_executions db)" and "e_status e = ''RUNNING''"
    and "e_request_id e = rid" and "r \<in> set (k_requests db)" and "q_id r = rid"
  shows "q_status r = ''RUNNING''"
proof -
  obtain q where "q \<in> set (k_requests db)" "q_id q = rid" "q_status q = ''RUNNING''"
    using assms(1-4) by (auto simp: workflow_inv_def execution_ok_def)
  moreover then have "q = r"
    using unique_on_eqI [of q_id "k_requests db" q r] assms(1,5,6) by (simp add: workflow_inv_def)
  ultimately show ?thesis by simp
qed

lemma evolves_end:
  assumes "workflow_ok H db" and "e \<in> set (k_executions db)" and "e_status e = ''RUNNING''"
    and "e_request_id e = rid" and "st = ''COMPLETED'' \<or> st = ''FAILED''"
  shows "evolves (k_requests db) (update_where (\<lambda>r. q_id r = rid) (set_status st now) (k_requests db))"
proof (rule evolves_update)
  fix r assume r: "r \<in> set (k_requests db)" "q_id r = rid"
  have "q_status r = ''RUNNING''" by (rule running_request [OF assms(1-4) r])
  then have "(q_status r, st) \<in> lifecycle" using assms(5) by (auto simp: lifecycle_def)
  then show "content (set_status st now r) = content r \<and> (q_status (set_status st now r) = q_status r
      \<or> (q_status r, q_status (set_status st now r)) \<in> lifecycle)" by simp
qed

lemma work_step_evolves:
  assumes "work_step H s s'" and "work_inv H s"
  shows "evolves (k_requests (y_db s)) (k_requests (y_db s'))"
  using assms
proof (induction rule: work_step.induct)
  case (create_step rid now idt s actor ws title descr risk env adapter payload db')
  obtain r where "k_requests db' = k_requests (y_db s) @ [r]" using create_effect [OF create_step.hyps] by auto
  then show ?case by (auto simp: evolves_def)
next
  case (submit_step now idt s actor rid db')
  then have u: "unique_on q_id (k_requests (y_db s))" by (simp add: work_inv_def workflow_inv_def)
  obtain r d where sel: "select q_id rid (k_requests (y_db s)) = Some r" and st: "q_status r = ''DRAFT''"
    and R: "k_requests db' = update_where (\<lambda>r. q_id r = rid) (submitted d now) (k_requests (y_db s))"
    using submit_effect [OF submit_step.hyps] by auto
  have "(q_status r, ''REVIEW_REQUIRED'') \<in> lifecycle" unfolding st by (simp add: lifecycle_def)
  then show ?case using evolves_select [OF u sel, of "submitted d now"] by (simp add: R)
next
  case (approve_step policy vid now idt s actor rid dec reason db')
  then have u: "unique_on q_id (k_requests (y_db s))" by (simp add: work_inv_def workflow_inv_def)
  obtain r st where sel: "select q_id rid (k_requests (y_db s)) = Some r" and r: "q_status r = ''REVIEW_REQUIRED''"
    and st: "st \<in> {''DENIED'', ''REVIEW_REQUIRED'', ''APPROVED''}"
    and R: "k_requests db' = update_where (\<lambda>r. q_id r = rid) (set_status st now) (k_requests (y_db s))"
    using approve_effect [OF approve_step.hyps] by (elim exE conjE) (rule that, assumption+, simp)
  have "st = q_status r \<or> (q_status r, st) \<in> lifecycle" using st unfolding r by (auto simp: lifecycle_def)
  then show ?case using evolves_select [OF u sel, of "set_status st now"] by (simp add: R)
next
  case (start_step cfg eid now idt s actor rid key x r db')
  then have u: "unique_on q_id (k_requests (y_db s))" by (simp add: work_inv_def workflow_inv_def)
  have sel: "select q_id rid (k_requests (y_db s)) = Some r" and st: "q_status r = ''APPROVED''"
    and R: "k_requests db' = update_where (\<lambda>r. q_id r = rid) (set_status ''RUNNING'' now) (k_requests (y_db s))"
    using start_effect [OF start_step.hyps] by auto
  have "(q_status r, ''RUNNING'') \<in> lifecycle" unfolding st by (simp add: lifecycle_def)
  then show ?case using evolves_select [OF u sel, of "set_status ''RUNNING'' now"] by (simp add: R)
next
  case (finish_step x r s now ridt idt actor result db')
  then have w: "workflow_ok H (y_db s)" by (simp add: work_inv_def)
  show ?case
  proof (cases "db' = y_db s")
    case True
    then show ?thesis by (simp add: evolves_refl)
  next
    case False
    obtain st where ends: "list_ex (ends x 1) (k_executions (y_db s))" and st: "st = ''COMPLETED'' \<or> st = ''FAILED''"
      and R: "k_requests db' = update_where (\<lambda>q. q_id q = q_id r) (set_status st now) (k_requests (y_db s))"
      using finish_requests [OF finish_step.hyps(2)] False by blast
    obtain e where e: "e \<in> set (k_executions (y_db s))" "e_id e = x" "e_status e = ''RUNNING''"
      using ends by (auto simp: list_ex_iff ends_def)
    obtain e' where "e' \<in> set (k_executions (y_db s))" "e_id e' = x" "e_request_id e' = q_id r"
      using finish_step.prems finish_step.hyps(1) by (fastforce simp: work_inv_def started_ok_def)
    then have "e_request_id e = q_id r"
      using unique_on_eqI [of e_id "k_executions (y_db s)" e e'] w e(1,2) by (simp add: workflow_inv_def)
    then show ?thesis using evolves_end [OF w e(1,3) _ st] by (simp add: R)
  qed
next
  case (recover_step cfg now ridt idt s actor x reason db')
  then have w: "workflow_ok H (y_db s)" by (simp add: work_inv_def)
  obtain e where e: "select e_id x (k_executions (y_db s)) = Some e" "e_status e = ''RUNNING''"
    and R: "k_requests db' = update_where (\<lambda>q. q_id q = e_request_id e) (set_status ''FAILED'' now) (k_requests (y_db s))"
    using recover_effect [OF recover_step.hyps] by (elim exE conjE) (rule that, assumption+, simp)
  show ?case using evolves_end [OF w _ e(2) refl, of "''FAILED''"] select_Some_D [OF e(1)] by (simp add: R)
qed (simp_all add: evolves_refl)

text \<open>(C13) The services implement the abstract life cycle: in every reachable state and for every step,
  each request keeps its identity and its reviewed content and either keeps its status or moves along
  one edge of \<open>lifecycle\<close>; no request is ever deleted.\<close>

theorem workflow_refines_lifecycle:
  assumes "work_start H s0" and "(work_step H)\<^sup>*\<^sup>* s0 s" and "work_step H s s'" and "r \<in> set (k_requests (y_db s))"
  shows "\<exists>r' \<in> set (k_requests (y_db s')). content r' = content r
     \<and> (q_status r' = q_status r \<or> (q_status r, q_status r') \<in> lifecycle)"
  using work_step_evolves [OF assms(3) work_reachable_inv [OF assms(2,1)]] assms(4)
  by (simp add: evolves_def)

end
