(* ===== verification/Change_Witness.thy ===== *)
theory Change_Witness
  imports Change_Properties
begin

text \<open>
  A concrete run of the change-request workflow: a request is created, submitted, approved by a second
  user and executed; the execution is completed on one branch and recovered under the emergency stop
  on another.  The properties are instantiated on it.
\<close>

subsection \<open>A digest function that needs no evaluation\<close>

text \<open>
  The input of a ledger hash contains a newline and is kept as it is, so ledger hashes grow and never
  repeat; every other text gets the digest of 64 zeros.
\<close>

definition wit_digest :: "string \<Rightarrow> string" where
  "wit_digest s = (if CHR 0x0A \<in> set s then s else replicate 64 (CHR ''0''))"

lemma wit_digest_json [simp]: "wit_digest (canonical_json v) = replicate 64 (CHR ''0'')"
  using no_newline_print by (simp add: wit_digest_def canonical_json_def)

lemma wit_chained [simp]: "chained_hash wit_digest p v = p @ CHR 0x0A # canonical_json v"
  by (simp add: chained_hash_def wit_digest_def)

definition growing :: "audit_row list \<Rightarrow> bool" where
  "growing rows \<longleftrightarrow> (\<forall>r \<in> set rows. length (a_event_hash r) \<le> length (last_hash a_sequence a_event_hash rows))"

lemma growing_append:
  assumes "growing rows" and "key_free a_id i rows"
  shows "\<exists>rows'. audit_append wit_digest i t rows actor action ttype tid payload = Inr rows'
     \<and> map a_id rows' = map a_id rows @ [i] \<and> growing rows'"
proof -
  let ?p = "last_hash a_sequence a_event_hash rows"
  let ?e = "audit_event i actor action ttype tid payload t"
  let ?r = "\<lparr>a_sequence = next_sequence a_sequence rows, a_id = i, a_actor_id = actor,
                 a_action = action, a_target_type = ttype, a_target_id = tid,
                 a_payload_json = canonical_json payload, a_previous_hash = ?p,
                 a_event_hash = ?p @ CHR 0x0A # canonical_json ?e, a_created_at = t\<rparr>"
  have "key_free a_event_hash (?p @ CHR 0x0A # canonical_json ?e) rows"
    using assms(1) by (fastforce simp: key_free_iff growing_def)
  then have "audit_append wit_digest i t rows actor action ttype tid payload = Inr (rows @ [?r])"
    using assms(2) by (simp add: audit_append_def Let_def)
  moreover have "last_hash a_sequence a_event_hash (rows @ [?r]) = a_event_hash ?r"
    using next_sequence_greater [of _ rows a_sequence] by (simp add: last_hash_def sort_key_snoc_max)
  then have "growing (rows @ [?r])" using assms(1) by (fastforce simp: growing_def)
  ultimately show ?thesis by (intro exI [of _ "rows @ [?r]"]) simp
qed

text \<open>An operation that ends with an audit event of a fresh identifier succeeds.\<close>

lemma with_audit_succeeds:
  assumes "growing (c_audit (k_core db))" and "fst idt \<notin> set (map a_id (c_audit (k_core db)))"
  shows "\<exists>rows. with_audit wit_digest idt db actor action ttype tid payload = Inr (db\<lparr>k_core := k_core db\<lparr>c_audit := rows\<rparr>\<rparr>)
     \<and> map a_id rows = map a_id (c_audit (k_core db)) @ [fst idt] \<and> growing rows"
  using growing_append [OF assms(1), of "fst idt" "snd idt" actor action ttype tid payload] assms(2)
  by (auto simp: with_audit_eq_Inr key_free_def)

subsection \<open>The run\<close>

definition wit_team :: core_db where
  "wit_team = \<lparr>c_users = [
       \<lparr>u_id = ''usr_1'', u_username = ''ann'', u_password_hash = ''x'', u_role = ''developer'', u_active = 1, u_created_at = ''t0''\<rparr>,
       \<lparr>u_id = ''usr_2'', u_username = ''bob'', u_password_hash = ''x'', u_role = ''operator'', u_active = 1, u_created_at = ''t0''\<rparr>],
     c_workspaces = [\<lparr>w_id = ''wrk_1'', w_name = ''alpha'', w_environment = ''local'', w_created_at = ''t0''\<rparr>],
     c_memberships = [], c_sessions = [], c_emergency_stop = None, c_audit = []\<rparr>"

definition wit_work :: work_db where
  "wit_work = \<lparr>k_core = wit_team, k_requests = [], k_approvals = [], k_executions = [], k_receipts = []\<rparr>"

definition wit_config :: execution_config where
  "wit_config = \<lparr>xc_production_effects_enabled = False, xc_execution_lease_seconds = 60,
     xc_lease_deadline = (\<lambda>t _. Inr (t @ ''+'')), xc_lease_expired = (\<lambda>_ _. Inr True)\<rparr>"

definition wit_policy :: "bool \<times> policy_evaluator" where
  "wit_policy = (True, evaluate_current_approval_policy)"

definition wit_payload :: json where
  "wit_payload = JObj [(''message'', JStr ''hi'')]"

lemma wit_payload_text:
  "json_loads (canonical_json wit_payload) = Some wit_payload"
  "int (length (utf8 (canonical_json wit_payload))) \<le> max_change_payload_bytes"
  by code_simp+

definition wit_request :: "string \<Rightarrow> string option \<Rightarrow> string \<Rightarrow> change_row" where
  "wit_request status digest now =
     \<lparr>q_id = ''cr_1'', q_workspace_id = ''wrk_1'', q_title = ''Deploy'', q_description = '''', q_risk = ''R1'',
      q_environment = ''local'', q_adapter = ''echo'', q_payload_json = canonical_json wit_payload,
      q_status = status, q_requested_by = ''usr_1'', q_created_at = ''t1'', q_updated_at = now,
      q_review_content_sha256 = digest\<rparr>"

definition wit_tables ::
  "audit_row list \<Rightarrow> change_row \<Rightarrow> approval_row list \<Rightarrow> execution_row list \<Rightarrow> receipt_row list \<Rightarrow> work_db" where
  "wit_tables rows r A E P =
     \<lparr>k_core = wit_team\<lparr>c_audit := rows\<rparr>, k_requests = [r], k_approvals = A, k_executions = E, k_receipts = P\<rparr>"

definition trail :: "string list \<Rightarrow> audit_row list \<Rightarrow> bool" where
  "trail ids rows \<longleftrightarrow> map a_id rows = ids \<and> growing rows"

lemma trail_append:
  assumes "trail ids rows" and "i \<notin> set ids"
  shows "\<exists>rows'. trail (ids @ [i]) rows'
     \<and> audit_append wit_digest i t rows actor action ttype tid payload = Inr rows'"
proof -
  have "growing rows" "key_free a_id i rows" using assms by (auto simp: trail_def key_free_def)
  from growing_append [OF this] obtain rows' where "audit_append wit_digest i t rows actor action ttype tid payload = Inr rows'"
    "map a_id rows' = map a_id rows @ [i]" "growing rows'" by blast
  then show ?thesis using assms(1) by (intro exI [of _ rows']) (simp add: trail_def)
qed

lemma with_audit_tables:
  assumes "trail ids rows" and "fst idt \<notin> set ids"
  shows "\<exists>rows'. trail (ids @ [fst idt]) rows'
     \<and> with_audit wit_digest idt (wit_tables rows r A E P) actor action ttype tid payload = Inr (wit_tables rows' r A E P)"
  using with_audit_succeeds [of "wit_tables rows r A E P" idt actor action ttype tid payload] assms
  by (auto simp: trail_def wit_tables_def)

lemma wit_create:
  "\<exists>rows. trail [''a1''] rows
     \<and> create_change_request wit_digest ''cr_1'' ''t1'' (''a1'', ''t1'') wit_work ''usr_1'' ''wrk_1''
         ''Deploy'' '''' ''R1'' ''local'' ''echo'' wit_payload
       = Inr (wit_tables rows (wit_request ''DRAFT'' None ''t1'') [] [] [])"
proof -
  have strip: "strip ''Deploy'' = ''Deploy''" "strip '''' = ''''" by code_simp+
  have "trail [] []" by (simp add: trail_def growing_def)
  from with_audit_tables [OF this, of "(''a1'', ''t1'')" "wit_request ''DRAFT'' None ''t1''" "[]" "[]" "[]" "''usr_1''"
      "''change_request.create''" "''change_request''" "''cr_1''"
      "JObj [(''risk'', JStr ''R1''), (''environment'', JStr ''local''), (''adapter'', JStr ''echo'')]"]
  obtain rows where rows: "trail [''a1''] rows"
    and aud: "with_audit wit_digest (''a1'', ''t1'') (wit_tables [] (wit_request ''DRAFT'' None ''t1'') [] [] []) ''usr_1''
      ''change_request.create'' ''change_request'' ''cr_1''
      (JObj [(''risk'', JStr ''R1''), (''environment'', JStr ''local''), (''adapter'', JStr ''echo'')])
      = Inr (wit_tables rows (wit_request ''DRAFT'' None ''t1'') [] [] [])" by auto
  have ins: "insert_change_request wit_work (wit_request ''DRAFT'' None ''t1'')
      = Inr (wit_tables [] (wit_request ''DRAFT'' None ''t1'') [] [] [])"
    by (simp add: insert_change_request_def wit_request_def wit_work_def wit_team_def wit_tables_def key_free_def
        valid_environments_def)
  have "create_change_request wit_digest ''cr_1'' ''t1'' (''a1'', ''t1'') wit_work ''usr_1'' ''wrk_1''
         ''Deploy'' '''' ''R1'' ''local'' ''echo'' wit_payload
       = Inr (wit_tables rows (wit_request ''DRAFT'' None ''t1'') [] [] [])"
    using wit_payload_text(2) ins aud
    by (simp add: create_change_request_def strip valid_risks_def valid_environments_def valid_adapters_def Let_def
        wit_work_def wit_team_def select_def flip: wit_request_def)
  then show ?thesis using rows by blast
qed

definition wit_zeros :: string where
  "wit_zeros = replicate 64 (CHR ''0'')"

lemma wit_zeros_digest: "is_digest wit_zeros"
  by code_simp

lemma wit_review: "review_content_sha256 wit_digest (wit_request status digest now) = Inr wit_zeros"
  by (simp add: review_content_sha256_def wit_request_def wit_payload_text(1) wit_zeros_def)
    (simp add: wit_payload_def)

lemma wit_select: "select_request (wit_tables rows (wit_request status digest now) A E P) ''cr_1''
    = Some (wit_request status digest now, ''local'')"
  by (simp add: select_request_def wit_tables_def wit_request_def wit_team_def select_def)

lemma wit_environment: "require_workspace_environment ''local'' ''local'' = Inr ()"
  by (simp add: require_workspace_environment_def valid_environments_def)

lemma wit_request_fields [simp]:
  "q_status (wit_request status digest now) = status" "q_id (wit_request status digest now) = ''cr_1''"
  "q_review_content_sha256 (wit_request status digest now) = digest"
  "q_requested_by (wit_request status digest now) = ''usr_1''" "q_adapter (wit_request status digest now) = ''echo''"
  "q_environment (wit_request status digest now) = ''local''" "q_risk (wit_request status digest now) = ''R1''"
  "set_status status' now' (wit_request status digest now) = wit_request status' digest now'"
  by (simp_all add: wit_request_def set_status_def)

lemma wit_update:
  assumes "request_update_ok (wit_request status digest now) r"
    and "r = f (wit_request status digest now)"
  shows "update_request (wit_tables rows (wit_request status digest now) A E P) ''cr_1'' f = Inr (wit_tables rows r A E P)"
  using assms by (simp add: update_request_def wit_tables_def update_where_def)

lemma wit_submit:
  assumes "trail [''a1''] rows"
  shows "\<exists>rows'. trail [''a1'', ''a2''] rows'
     \<and> submit_change_request wit_digest ''t2'' (''a2'', ''t2'') (wit_tables rows (wit_request ''DRAFT'' None ''t1'') [] [] [])
         ''usr_1'' ''cr_1'' = Inr (wit_tables rows' (wit_request ''REVIEW_REQUIRED'' (Some wit_zeros) ''t2'') [] [] [])"
proof -
  let ?r = "wit_request ''REVIEW_REQUIRED'' (Some wit_zeros) ''t2''"
  obtain rows' where rows': "trail [''a1'', ''a2''] rows'"
    and aud: "with_audit wit_digest (''a2'', ''t2'') (wit_tables rows ?r [] [] []) ''usr_1'' ''change_request.submit''
      ''change_request'' ''cr_1'' (JObj [(''review_content_sha256'', JStr wit_zeros)]) = Inr (wit_tables rows' ?r [] [] [])"
    using with_audit_tables [OF assms, of "(''a2'', ''t2'')", simplified] by blast
  have up: "update_request (wit_tables rows (wit_request ''DRAFT'' None ''t1'') [] [] []) ''cr_1''
      (\<lambda>r. r\<lparr>q_review_content_sha256 := Some wit_zeros, q_status := ''REVIEW_REQUIRED'', q_updated_at := ''t2''\<rparr>)
      = Inr (wit_tables rows ?r [] [] [])"
    by (rule wit_update) (simp_all add: request_update_ok_def review_digest_check_def wit_zeros_digest, simp add: wit_request_def)
  show ?thesis
    using rows' up aud by (auto simp: submit_change_request_def wit_select wit_environment wit_review)
qed

definition wit_approval :: approval_row where
  "wit_approval = \<lparr>v_id = ''ap_1'', v_request_id = ''cr_1'', v_approver_id = ''usr_2'', v_decision = ''APPROVED'',
     v_reason = ''fine'', v_review_content_sha256 = wit_zeros, v_created_at = ''t3''\<rparr>"

lemma wit_approve:
  assumes "trail [''a1'', ''a2''] rows"
  shows "\<exists>rows'. trail [''a1'', ''a2'', ''a3''] rows'
     \<and> approve_change_request wit_digest wit_policy ''ap_1'' ''t3'' (''a3'', ''t3'')
         (wit_tables rows (wit_request ''REVIEW_REQUIRED'' (Some wit_zeros) ''t2'') [] [] []) ''usr_2'' ''cr_1'' ''approved'' ''fine''
       = Inr (wit_tables rows' (wit_request ''APPROVED'' (Some wit_zeros) ''t3'') [wit_approval] [] [])"
proof -
  let ?r2 = "wit_request ''REVIEW_REQUIRED'' (Some wit_zeros) ''t2''" and ?r3 = "wit_request ''APPROVED'' (Some wit_zeros) ''t3''"
  have txts: "upper ''approved'' = ''APPROVED''" "strip ''fine'' = ''fine''" by code_simp+
  obtain p where p: "approval_policy_decision wit_policy ?r2 = Inr p"
    by (simp add: approval_policy_decision_def policy_input_init_def wit_policy_def resolve_current_approval_policy_def
        evaluate_current_approval_policy_def current_required_approvals_def valid_environments_def valid_risks_def Let_def)
  then have n: "po_required_approvals p = 1" using policy_requires [OF p] by (simp add: required_approvals_def)
  have ctx: "review_context wit_digest wit_policy (wit_tables rows ?r2 [] [] []) ''usr_2'' ''cr_1'' ''APPROVED''
      = Inr (wit_zeros, Some p)"
    by (simp add: review_context_def wit_select wit_environment wit_review p)
  have ins: "insert_approval (wit_tables rows ?r2 [] [] []) wit_approval = Inr (wit_tables rows ?r2 [wit_approval] [] [])"
    by (simp add: insert_approval_def wit_tables_def wit_approval_def key_free_def wit_team_def review_digest_check_def
        wit_zeros_digest)
  have st: "next_status ''APPROVED'' (count_approved (wit_tables rows ?r2 [wit_approval] [] []) ''cr_1'') (Some p) = ''APPROVED''"
    by (simp add: next_status_def count_approved_def wit_tables_def wit_approval_def n)
  have up: "update_request (wit_tables rows ?r2 [wit_approval] [] []) ''cr_1'' (set_status ''APPROVED'' ''t3'')
      = Inr (wit_tables rows ?r3 [wit_approval] [] [])"
    by (rule wit_update) (simp_all add: request_update_ok_def review_digest_check_def wit_zeros_digest)
  obtain rows' where rows': "trail [''a1'', ''a2'', ''a3''] rows'"
    and aud: "with_audit wit_digest (''a3'', ''t3'') (wit_tables rows ?r3 [wit_approval] [] []) ''usr_2''
      (''change_request.'' @ map lower_char ''APPROVED'') ''change_request'' ''cr_1''
      (approval_payload ''fine'' ''APPROVED'' wit_zeros (Some p)) = Inr (wit_tables rows' ?r3 [wit_approval] [] [])"
    using with_audit_tables [OF assms, of "(''a3'', ''t3'')", simplified] by blast
  show ?thesis
    using rows' ins st up aud
    by (auto simp: approve_change_request_def txts ctx Let_def approval_payload_def simp flip: wit_approval_def)
qed

definition wit_execution :: execution_row where
  "wit_execution = \<lparr>e_id = ''ex_1'', e_request_id = ''cr_1'', e_status = ''RUNNING'', e_adapter = ''echo'',
     e_output_json = ''{}'', e_error = None, e_idempotency_key = Some ''key'', e_started_at = ''t4'',
     e_completed_at = None, e_fence = 1, e_lease_expires_at = Some ''t4+''\<rparr>"

lemma wit_stop_off: "\<not> is_stop_active (k_core (wit_tables rows r A E P))"
  by (simp add: is_stop_active_def wit_tables_def wit_team_def)

lemma wit_start_execution:
  assumes "trail [''a1'', ''a2'', ''a3''] rows"
  shows "\<exists>rows'. trail [''a1'', ''a2'', ''a3'', ''a4''] rows'
     \<and> start_execution wit_digest wit_config ''ex_1'' ''t4'' (''a4'', ''t4'')
         (wit_tables rows (wit_request ''APPROVED'' (Some wit_zeros) ''t3'') [wit_approval] [] []) ''usr_1'' ''cr_1'' (Some ''key'')
       = Inr (Started ''ex_1'' (wit_request ''APPROVED'' (Some wit_zeros) ''t3''),
              wit_tables rows' (wit_request ''RUNNING'' (Some wit_zeros) ''t4'') [wit_approval] [wit_execution] [])"
proof -
  let ?r3 = "wit_request ''APPROVED'' (Some wit_zeros) ''t3''" and ?r4 = "wit_request ''RUNNING'' (Some wit_zeros) ''t4''"
  have new: "existing_execution (wit_tables rows ?r3 [wit_approval] [] []) (Some ''key'') = None"
    by (simp add: existing_execution_def wit_tables_def select_def)
  have ins: "insert_execution (wit_tables rows ?r3 [wit_approval] [] []) wit_execution
      = Inr (wit_tables rows ?r3 [wit_approval] [wit_execution] [])"
    by (simp add: insert_execution_def wit_tables_def wit_execution_def key_free_def wit_team_def valid_environments_def)
  have up: "update_request (wit_tables rows ?r3 [wit_approval] [wit_execution] []) ''cr_1'' (set_status ''RUNNING'' ''t4'')
      = Inr (wit_tables rows ?r4 [wit_approval] [wit_execution] [])"
    by (rule wit_update) (simp_all add: request_update_ok_def review_digest_check_def wit_zeros_digest)
  obtain rows' where rows': "trail [''a1'', ''a2'', ''a3'', ''a4''] rows'"
    and aud: "with_audit wit_digest (''a4'', ''t4'') (wit_tables rows ?r4 [wit_approval] [wit_execution] []) ''usr_1''
      ''execution.start'' ''execution'' ''ex_1'' (JObj [(''request_id'', JStr ''cr_1''), (''adapter'', JStr ''echo'')])
      = Inr (wit_tables rows' ?r4 [wit_approval] [wit_execution] [])"
    using with_audit_tables [OF assms, of "(''a4'', ''t4'')", simplified] by blast
  show ?thesis
    using rows' ins up aud
    by (simp add: start_execution_def new wit_stop_off wit_select wit_environment wit_config_def flip: wit_execution_def) blast
qed

definition wit_reason :: string where
  "wit_reason = ''host lost''"

definition wit_interrupted :: execution_row where
  "wit_interrupted = wit_execution\<lparr>e_status := ''INTERRUPTED'', e_output_json := canonical_json interrupted_output,
     e_error := Some ''execution outcome is indeterminate after lease expiry'', e_completed_at := Some ''t6'',
     e_lease_expires_at := None, e_fence := 2\<rparr>"

text \<open>The database after the emergency stop was set, with the audit rows \<open>rows\<close>.\<close>

definition wit_stopped :: "audit_row list \<Rightarrow> change_row \<Rightarrow> execution_row \<Rightarrow> receipt_row list \<Rightarrow> work_db" where
  "wit_stopped rows r e P =
     \<lparr>k_core = wit_team\<lparr>c_emergency_stop := Some \<lparr>f_value = ''true'', f_updated_by = ''usr_1'', f_updated_at = ''t5''\<rparr>,
        c_audit := rows\<rparr>, k_requests = [r], k_approvals = [wit_approval], k_executions = [e], k_receipts = P\<rparr>"

lemma wit_stop:
  assumes "trail [''a1'', ''a2'', ''a3'', ''a4''] rows"
  shows "\<exists>rows' flag. trail [''a1'', ''a2'', ''a3'', ''a4'', ''a5''] rows'
     \<and> set_emergency_stop wit_digest ''t5'' (''a5'', ''t5'') (k_core (wit_tables rows r A E P)) ''usr_1'' True ''drill''
       = Inr (flag, k_core (wit_stopped rows' r e P))"
proof -
  obtain rows' where "trail [''a1'', ''a2'', ''a3'', ''a4'', ''a5''] rows'"
    "audit_append wit_digest ''a5'' ''t5'' rows ''usr_1'' ''system.emergency_stop.activate'' ''system'' ''runtime''
       (JObj [(''reason'', JStr ''drill'')]) = Inr rows'"
    using trail_append [OF assms, of "''a5''", simplified] by blast
  then show ?thesis
    by (auto simp: set_emergency_stop_def audit_def wit_tables_def wit_stopped_def)
qed

lemma wit_recover:
  assumes "trail [''a1'', ''a2'', ''a3'', ''a4'', ''a5''] rows"
  shows "\<exists>rows' P. recover_execution wit_digest wit_config ''t6'' (''rc_1'', ''t6'') (''a6'', ''t6'')
         (wit_stopped rows (wit_request ''RUNNING'' (Some wit_zeros) ''t4'') wit_execution []) ''usr_1'' ''ex_1'' wit_reason
       = Inr (wit_stopped rows' (wit_request ''FAILED'' (Some wit_zeros) ''t6'') wit_interrupted P)"
proof -
  let ?r4 = "wit_request ''RUNNING'' (Some wit_zeros) ''t4''" and ?r6 = "wit_request ''FAILED'' (Some wit_zeros) ''t6''"
  have stop: "is_stop_active (k_core (wit_stopped rows ?r4 wit_execution []))"
  proof -
    have "map lower_char ''true'' = ''true''" by code_simp
    then show ?thesis by (simp add: is_stop_active_def wit_stopped_def)
  qed
  have reason: "3 \<le> length (strip wit_reason) \<and> length (strip wit_reason) \<le> 2000"
  proof -
    have "strip wit_reason = wit_reason" unfolding wit_reason_def by code_simp
    then show ?thesis by (simp add: wit_reason_def)
  qed
  have e: "select e_id ''ex_1'' (k_executions (wit_stopped rows ?r4 wit_execution [])) = Some wit_execution"
    "e_status wit_execution = ''RUNNING''" "e_fence wit_execution = 1" "e_lease_expires_at wit_execution = Some ''t4+''"
    "e_request_id wit_execution = ''cr_1''" "e_id wit_execution = ''ex_1''" "e_adapter wit_execution = ''echo''"
    by (simp_all add: wit_stopped_def wit_execution_def)
  have r: "select q_id ''cr_1'' (k_requests (wit_stopped rows ?r4 wit_execution [])) = Some ?r4"
    by (simp add: wit_stopped_def)
  let ?f = "\<lambda>x. x\<lparr>e_status := ''INTERRUPTED'', e_output_json := canonical_json interrupted_output,
           e_error := Some ''execution outcome is indeterminate after lease expiry'',
           e_completed_at := Some ''t6'', e_lease_expires_at := None, e_fence := e_fence x + 1\<rparr>"
  have f: "?f wit_execution = wit_interrupted" by (simp add: wit_interrupted_def wit_execution_def)
  have ex: "update_executions (wit_stopped rows ?r4 wit_execution [])
        (\<lambda>x. e_id x = ''ex_1'' \<and> e_status x = ''RUNNING'' \<and> e_fence x = 1 \<and> e_lease_expires_at x = Some ''t4+'') ?f
      = (True, wit_stopped rows ?r4 wit_interrupted [])"
    by (simp add: update_executions_def wit_stopped_def update_where_def e f [symmetric])
  have up: "update_request (wit_stopped rows ?r4 wit_interrupted []) ''cr_1'' (set_status ''FAILED'' ''t6'')
      = Inr (wit_stopped rows ?r6 wit_interrupted [])"
    by (simp add: update_request_def wit_stopped_def update_where_def request_update_ok_def review_digest_check_def
        wit_zeros_digest)
  have rc: "\<exists>P. with_receipt wit_digest (''rc_1'', ''t6'') (wit_stopped rows ?r6 wit_interrupted []) ''ex_1'' payload
      = Inr (wit_stopped rows ?r6 wit_interrupted P)" for payload
    by (simp add: with_receipt_def wit_stopped_def receipt_append_def key_free_def Let_def wit_interrupted_def e)
  have aud: "\<exists>rows'. with_audit wit_digest (''a6'', ''t6'') (wit_stopped rows ?r6 wit_interrupted P) actor action ttype tid payload
      = Inr (wit_stopped rows' ?r6 wit_interrupted P)" for P actor action ttype tid payload
    using with_audit_succeeds [of "wit_stopped rows ?r6 wit_interrupted P" "(''a6'', ''t6'')" actor action ttype tid payload] assms
    by (auto simp: trail_def wit_stopped_def)
  let ?payload = "JObj [(''execution_id'', JStr ''ex_1''), (''request_id'', JStr ''cr_1''),
           (''workspace_id'', JStr (q_workspace_id ?r4)), (''actor_id'', JStr ''usr_1''),
           (''adapter'', JStr ''echo''), (''risk'', JStr ''R1''), (''environment'', JStr ''local''),
           (''status'', JStr ''INTERRUPTED''), (''outcome'', JStr ''INDETERMINATE''),
           (''output_digest'', JStr (output_digest wit_digest interrupted_output)), (''completed_at'', JStr ''t6'')]"
  obtain P where P: "with_receipt wit_digest (''rc_1'', ''t6'') (wit_stopped rows ?r6 wit_interrupted []) ''ex_1'' ?payload
      = Inr (wit_stopped rows ?r6 wit_interrupted P)" using rc by blast
  obtain rows' where "with_audit wit_digest (''a6'', ''t6'') (wit_stopped rows ?r6 wit_interrupted P) ''usr_1''
      ''execution.interrupted'' ''execution'' ''ex_1'' (JObj [(''request_id'', JStr ''cr_1''), (''receipt_id'', JStr ''rc_1''),
           (''outcome'', JStr ''INDETERMINATE''), (''reason'', JStr (strip wit_reason))])
      = Inr (wit_stopped rows' ?r6 wit_interrupted P)" using aud by blast
  then show ?thesis
    using stop reason r ex up P
    by (simp add: recover_execution_def Let_def e wit_config_def) blast
qed

subsection \<open>The reached states\<close>

definition wit_system :: work_system where
  "wit_system = \<lparr>y_db = wit_work, y_started = []\<rparr>"

definition wit_running :: "audit_row list \<Rightarrow> work_system" where
  "wit_running rows = \<lparr>y_db = wit_tables rows (wit_request ''RUNNING'' (Some wit_zeros) ''t4'') [wit_approval] [wit_execution] [],
     y_started = [(''ex_1'', wit_request ''APPROVED'' (Some wit_zeros) ''t3'')]\<rparr>"

definition wit_recovered :: "audit_row list \<Rightarrow> receipt_row list \<Rightarrow> work_system" where
  "wit_recovered rows P = \<lparr>y_db = wit_stopped rows (wit_request ''FAILED'' (Some wit_zeros) ''t6'') wit_interrupted P,
     y_started = [(''ex_1'', wit_request ''APPROVED'' (Some wit_zeros) ''t3'')]\<rparr>"

definition wit_paused :: "audit_row list \<Rightarrow> work_system" where
  "wit_paused rows = \<lparr>y_db = wit_stopped rows (wit_request ''RUNNING'' (Some wit_zeros) ''t4'') wit_execution [],
     y_started = [(''ex_1'', wit_request ''APPROVED'' (Some wit_zeros) ''t3'')]\<rparr>"

lemma wit_system_start: "work_start wit_digest wit_system"
  by (simp add: work_start_def wit_system_def wit_work_def wit_team_def audit_empty)

lemma wit_reach_running:
  "\<exists>rows. (work_step wit_digest)\<^sup>*\<^sup>* wit_system (wit_running rows) \<and> trail [''a1'', ''a2'', ''a3'', ''a4''] rows"
proof -
  obtain r1 where r1: "trail [''a1''] r1" and c: "create_change_request wit_digest ''cr_1'' ''t1'' (''a1'', ''t1'') wit_work
      ''usr_1'' ''wrk_1'' ''Deploy'' '''' ''R1'' ''local'' ''echo'' wit_payload
       = Inr (wit_tables r1 (wit_request ''DRAFT'' None ''t1'') [] [] [])" using wit_create by blast
  obtain r2 where r2: "trail [''a1'', ''a2''] r2"
    and s: "submit_change_request wit_digest ''t2'' (''a2'', ''t2'') (wit_tables r1 (wit_request ''DRAFT'' None ''t1'') [] [] [])
         ''usr_1'' ''cr_1'' = Inr (wit_tables r2 (wit_request ''REVIEW_REQUIRED'' (Some wit_zeros) ''t2'') [] [] [])"
    using wit_submit [OF r1] by blast
  obtain r3 where r3: "trail [''a1'', ''a2'', ''a3''] r3"
    and a: "approve_change_request wit_digest wit_policy ''ap_1'' ''t3'' (''a3'', ''t3'')
         (wit_tables r2 (wit_request ''REVIEW_REQUIRED'' (Some wit_zeros) ''t2'') [] [] []) ''usr_2'' ''cr_1'' ''approved'' ''fine''
       = Inr (wit_tables r3 (wit_request ''APPROVED'' (Some wit_zeros) ''t3'') [wit_approval] [] [])"
    using wit_approve [OF r2] by blast
  obtain r4 where r4: "trail [''a1'', ''a2'', ''a3'', ''a4''] r4"
    and x: "start_execution wit_digest wit_config ''ex_1'' ''t4'' (''a4'', ''t4'')
         (wit_tables r3 (wit_request ''APPROVED'' (Some wit_zeros) ''t3'') [wit_approval] [] []) ''usr_1'' ''cr_1'' (Some ''key'')
       = Inr (Started ''ex_1'' (wit_request ''APPROVED'' (Some wit_zeros) ''t3''),
              wit_tables r4 (wit_request ''RUNNING'' (Some wit_zeros) ''t4'') [wit_approval] [wit_execution] [])"
    using wit_start_execution [OF r3] by blast
  let ?s = "\<lambda>db. \<lparr>y_db = db, y_started = []\<rparr>"
  have "work_step wit_digest wit_system (?s (wit_tables r1 (wit_request ''DRAFT'' None ''t1'') [] [] []))"
    using create_step [of wit_digest _ _ _ wit_system] c by (fastforce simp: wit_system_def)
  moreover have "work_step wit_digest (?s (wit_tables r1 (wit_request ''DRAFT'' None ''t1'') [] [] []))
      (?s (wit_tables r2 (wit_request ''REVIEW_REQUIRED'' (Some wit_zeros) ''t2'') [] [] []))"
    using submit_step [where s = "?s (wit_tables r1 (wit_request ''DRAFT'' None ''t1'') [] [] [])", simplified, OF s] by simp
  moreover have "work_step wit_digest (?s (wit_tables r2 (wit_request ''REVIEW_REQUIRED'' (Some wit_zeros) ''t2'') [] [] []))
      (?s (wit_tables r3 (wit_request ''APPROVED'' (Some wit_zeros) ''t3'') [wit_approval] [] []))"
    using approve_step [where s = "?s (wit_tables r2 (wit_request ''REVIEW_REQUIRED'' (Some wit_zeros) ''t2'') [] [] [])",
        simplified, OF a] by simp
  moreover have "work_step wit_digest (?s (wit_tables r3 (wit_request ''APPROVED'' (Some wit_zeros) ''t3'') [wit_approval] [] []))
      (wit_running r4)"
    using start_step [where s = "?s (wit_tables r3 (wit_request ''APPROVED'' (Some wit_zeros) ''t3'') [wit_approval] [] [])",
        simplified, OF x] by (simp add: wit_running_def)
  ultimately show ?thesis using r4 by (meson rtranclp.rtrancl_into_rtrancl rtranclp.rtrancl_refl)
qed

lemma wit_reach_paused:
  "\<exists>rows. (work_step wit_digest)\<^sup>*\<^sup>* wit_system (wit_paused rows) \<and> trail [''a1'', ''a2'', ''a3'', ''a4'', ''a5''] rows"
proof -
  obtain r4 where run: "(work_step wit_digest)\<^sup>*\<^sup>* wit_system (wit_running r4)" and r4: "trail [''a1'', ''a2'', ''a3'', ''a4''] r4"
    using wit_reach_running by blast
  obtain r5 flag where r5: "trail [''a1'', ''a2'', ''a3'', ''a4'', ''a5''] r5"
    and st: "set_emergency_stop wit_digest ''t5'' (''a5'', ''t5'') (k_core (y_db (wit_running r4))) ''usr_1'' True ''drill''
       = Inr (flag, k_core (wit_stopped r5 (wit_request ''RUNNING'' (Some wit_zeros) ''t4'') wit_execution []))"
    using wit_stop [OF r4] unfolding wit_running_def work_system.simps by blast
  have "work_step wit_digest (wit_running r4) (wit_paused r5)"
    using stop_step [OF st] by (simp add: wit_paused_def wit_running_def wit_stopped_def wit_tables_def)
  then show ?thesis using run r5 by (meson rtranclp.rtrancl_into_rtrancl)
qed

theorem approved_by_independent_reviewers_witness:
  "\<exists>s. (work_step wit_digest)\<^sup>*\<^sup>* wit_system s \<and> 1 \<le> card (reviewers (y_db s) ''cr_1'')
     \<and> ''usr_1'' \<notin> reviewers (y_db s) ''cr_1''"
proof -
  obtain r4 where run: "(work_step wit_digest)\<^sup>*\<^sup>* wit_system (wit_running r4)" using wit_reach_running by blast
  have mem: "wit_request ''RUNNING'' (Some wit_zeros) ''t4'' \<in> set (k_requests (y_db (wit_running r4)))"
    by (simp add: wit_running_def wit_tables_def)
  show ?thesis
    using approved_by_independent_reviewers [OF wit_system_start run mem] run
    by (intro exI [of _ "wit_running r4"]) (simp add: required_approvals_def)
qed

theorem request_executed_at_most_once_witness:
  "\<exists>s. (work_step wit_digest)\<^sup>*\<^sup>* wit_system s \<and> wit_execution \<in> set (k_executions (y_db s))
     \<and> (\<exists>r \<in> set (k_requests (y_db s)). q_status r = ''RUNNING'')"
proof -
  obtain r4 where run: "(work_step wit_digest)\<^sup>*\<^sup>* wit_system (wit_running r4)" using wit_reach_running by blast
  have mem: "wit_execution \<in> set (k_executions (y_db (wit_running r4)))" by (simp add: wit_running_def wit_tables_def)
  have "e_status wit_execution = ''RUNNING''" by (simp add: wit_execution_def)
  then show ?thesis
    using request_executed_at_most_once [OF wit_system_start run mem mem refl] run mem
    by (intro exI [of _ "wit_running r4"]) auto
qed

theorem one_receipt_per_ended_execution_witness:
  "\<exists>s. (work_step wit_digest)\<^sup>*\<^sup>* wit_system s \<and> k_executions (y_db s) = [wit_execution] \<and> k_receipts (y_db s) = []
     \<and> set (map r_execution_id (k_receipts (y_db s))) \<subseteq> set (map e_id (k_executions (y_db s)))"
proof -
  obtain r4 where run: "(work_step wit_digest)\<^sup>*\<^sup>* wit_system (wit_running r4)" using wit_reach_running by blast
  show ?thesis
    using one_receipt_per_ended_execution [OF wit_system_start run] run
    by (intro exI [of _ "wit_running r4"]) (simp add: wit_running_def wit_tables_def)
qed

theorem workflow_ledgers_verify_witness:
  "\<exists>s. (work_step wit_digest)\<^sup>*\<^sup>* wit_system s \<and> map a_id (c_audit (k_core (y_db s))) = [''a1'', ''a2'', ''a3'', ''a4'']
     \<and> (\<exists>h. audit_verify wit_digest (c_audit (k_core (y_db s))) = Inr (Valid 4 h))"
proof -
  obtain r4 where run: "(work_step wit_digest)\<^sup>*\<^sup>* wit_system (wit_running r4)" and "trail [''a1'', ''a2'', ''a3'', ''a4''] r4"
    using wit_reach_running by blast
  then have ids: "map a_id (c_audit (k_core (y_db (wit_running r4)))) = [''a1'', ''a2'', ''a3'', ''a4'']"
    by (simp add: trail_def wit_running_def wit_tables_def)
  have len: "length (c_audit (k_core (y_db (wit_running r4)))) = 4" using arg_cong [OF ids, of length] by simp
  show ?thesis
    using workflow_ledgers_verify [OF wit_system_start run, unfolded len] run ids
    by (intro exI [of _ "wit_running r4"]) simp
qed

theorem workflow_refines_lifecycle_witness:
  "\<exists>s s'. work_step wit_digest s s' \<and> (\<exists>r \<in> set (k_requests (y_db s)). q_status r = ''RUNNING''
     \<and> (\<exists>r' \<in> set (k_requests (y_db s')). content r' = content r \<and> q_status r' = ''FAILED''
        \<and> (q_status r, q_status r') \<in> lifecycle))"
proof -
  obtain r5 where run: "(work_step wit_digest)\<^sup>*\<^sup>* wit_system (wit_paused r5)"
    and r5: "trail [''a1'', ''a2'', ''a3'', ''a4'', ''a5''] r5" using wit_reach_paused by blast
  obtain r6 P where rec: "recover_execution wit_digest wit_config ''t6'' (''rc_1'', ''t6'') (''a6'', ''t6'') (y_db (wit_paused r5))
       ''usr_1'' ''ex_1'' wit_reason = Inr (y_db (wit_recovered r6 P))"
    using wit_recover [OF r5] unfolding wit_paused_def wit_recovered_def work_system.simps by blast
  have same: "(wit_paused r5)\<lparr>y_db := y_db (wit_recovered r6 P)\<rparr> = wit_recovered r6 P"
    by (simp add: wit_paused_def wit_recovered_def)
  have step: "work_step wit_digest (wit_paused r5) (wit_recovered r6 P)" using recover_step [OF rec] unfolding same .
  have mem: "wit_request ''RUNNING'' (Some wit_zeros) ''t4'' \<in> set (k_requests (y_db (wit_paused r5)))"
    and all: "set (k_requests (y_db (wit_recovered r6 P))) = {wit_request ''FAILED'' (Some wit_zeros) ''t6''}"
    by (simp_all add: wit_paused_def wit_recovered_def wit_stopped_def)
  have "content (wit_request ''FAILED'' (Some wit_zeros) ''t6'') = content (wit_request ''RUNNING'' (Some wit_zeros) ''t4'')
      \<and> (''RUNNING'', ''FAILED'') \<in> lifecycle"
    using workflow_refines_lifecycle [OF wit_system_start run step mem] unfolding all by simp
  then show ?thesis
    using step mem all by (intro exI [of _ "wit_paused r5"] exI [of _ "wit_recovered r6 P"] conjI
        bexI [of _ "wit_request ''RUNNING'' (Some wit_zeros) ''t4''"] bexI [of _ "wit_request ''FAILED'' (Some wit_zeros) ''t6''"]) simp_all
qed

end
