(* ===== verification/Policy_Graph.thy ===== *)
theory Policy_Graph
  imports Change_Request "HOL-Library.Product_Lexorder" "HOL-Library.Multiset"
begin

text \<open>
  The policy decision graph (\<open>policy_decision_graph.py\<close>): a read-only projection of the facts about
  one change request to nodes, edges, reason codes and a verdict.  Values have their annotated
  types; the sets \<open>projection_reasons\<close>, \<open>limitations\<close> and \<open>used_node_ids\<close> are lists whose order and
  repetitions are not read.  \<open>project_policy_decision_graph\<close> ends with a check that the node
  identifiers are unique; \<open>projection_returns\<close> shows that it never fails.
\<close>

subsection \<open>Facts and graph\<close>

record approval_evidence =
  ap_approval_id :: string
  ap_approver_id :: string
  ap_decision :: string

record permission_observation =
  ob_execution_actor_id :: string
  ob_permission_name :: string
  ob_granted :: bool

record decision_snapshot =
  ds_request_id :: "string option"
  ds_requester_id :: "string option"
  ds_workspace_id :: "string option"
  ds_workspace_environment :: "string option"
  ds_request_environment :: "string option"
  ds_risk :: "string option"
  ds_adapter :: "string option"
  ds_requested_capability :: "string option"
  ds_payload_sha256 :: "string option"
  ds_permission_observation :: "permission_observation option"
  ds_policy_decision :: "policy_decision option"
  ds_approvals :: "approval_evidence list"
  ds_request_status :: "string option"
  ds_emergency_stop_active :: "bool option"
  ds_production_effects_enabled :: "bool option"
  ds_execution_id :: "string option"
  ds_receipt_id :: "string option"
  ds_audit_event_ids :: "string list"

record graph_node =
  gn_id :: string
  gn_type :: string
  gn_claims :: json

record graph_edge =
  ge_from :: string
  ge_relation :: string
  ge_to :: string

record decision_graph =
  dg_decision :: string
  dg_execution_eligible :: bool
  dg_reason_codes :: "string list"
  dg_limitations :: "string list"
  dg_nodes :: "graph_node list"
  dg_edges :: "graph_edge list"
  dg_graph_digest :: string

definition valid_request_statuses :: "string list" where
  "valid_request_statuses =
     [''DRAFT'', ''REVIEW_REQUIRED'', ''APPROVED'', ''DENIED'', ''RUNNING'', ''COMPLETED'', ''FAILED'']"

definition pdg_limitations :: "string list" where
  "pdg_limitations =
     [''Current approvals are not bound to the request payload digest.'',
      ''Current approvals are not bound to the approval policy version.'',
      ''Current approvals do not have an expiry binding.'',
      ''Requested capability is descriptive and is not independently validated by PDG v1.'',
      ''This read-only projection is not authorization and is not an execution gate.'']"

subsection \<open>Identifiers\<close>

definition valid_identifier :: "string \<Rightarrow> bool" where
  "valid_identifier s \<longleftrightarrow> s = strip s \<and> 1 \<le> length s \<and> length s \<le> 256 \<and> CHR 0x00 \<notin> set s"

definition valid_identifier_opt :: "string option \<Rightarrow> bool" where
  "valid_identifier_opt v = (case v of None \<Rightarrow> False | Some s \<Rightarrow> valid_identifier s)"

definition node_id :: "string \<Rightarrow> string option \<Rightarrow> string" where
  "node_id kind v =
     (case v of
        Some s \<Rightarrow> if valid_identifier s then kind @ '':'' @ s else kind @ '':missing''
      | None \<Rightarrow> kind @ '':missing'')"

text \<open>
  The loop of \<open>_unique_node_id\<close>, entered with \<open>resolved\<close> and \<open>duplicate_number\<close>.  It ends because the
  candidates with different numbers are different texts and \<open>used_node_ids\<close> is finite.
\<close>

definition duplicate_id :: "string \<Rightarrow> nat \<Rightarrow> string" where
  "duplicate_id candidate n = candidate @ ''#duplicate-'' @ show_nat n"

lemma show_nat_inject: "show_nat m = show_nat n \<longleftrightarrow> m = n"
proof
  assume eq: "show_nat m = show_nat n"
  have "read_nat 0 (show_nat k @ []) = (0 * 10 ^ length (show_nat k) + k, [])" for k
    by (rule read_nat_show_nat) simp
  then show "m = n" using eq by (metis add_0 mult_0 prod.inject)
qed simp

lemma duplicate_id_inject: "duplicate_id c m = duplicate_id c n \<longleftrightarrow> m = n"
  by (simp add: duplicate_id_def show_nat_inject)

definition taken_from :: "string \<Rightarrow> string list \<Rightarrow> nat \<Rightarrow> nat set" where
  "taken_from candidate used n = {k. n \<le> k \<and> duplicate_id candidate k \<in> set used}"

lemma finite_taken: "finite (taken_from c used n)"
proof -
  have "finite (duplicate_id c -` set used)"
    by (rule finite_vimageI) (auto intro: injI simp: duplicate_id_inject)
  then show ?thesis
    by (rule finite_subset [rotated]) (auto simp: taken_from_def)
qed

lemma taken_less:
  assumes "duplicate_id c n \<in> set used"
  shows "card (taken_from c used (Suc n)) < card (taken_from c used n)"
proof (intro psubset_card_mono finite_taken psubsetI)
  show "taken_from c used (Suc n) \<subseteq> taken_from c used n" by (auto simp: taken_from_def)
  have "n \<in> taken_from c used n" "n \<notin> taken_from c used (Suc n)"
    using assms by (simp_all add: taken_from_def)
  then show "taken_from c used (Suc n) \<noteq> taken_from c used n" by auto
qed

function unique_loop :: "string \<Rightarrow> string list \<Rightarrow> nat \<Rightarrow> string \<Rightarrow> string" where
  "unique_loop candidate used n resolved =
     (if resolved \<in> set used then unique_loop candidate used (Suc n) (duplicate_id candidate n)
      else resolved)"
  by pat_completeness auto
termination
proof (relation "measure (\<lambda>(c, used, n, r). 2 * card (taken_from c used n) + of_bool (r \<in> set used))")
  fix c r :: string and used :: "string list" and n :: nat
  assume r: "r \<in> set used"
  have "card (taken_from c used (Suc n)) \<le> card (taken_from c used n)"
    by (intro card_mono finite_taken) (auto simp: taken_from_def)
  then show "((c, used, Suc n, duplicate_id c n), c, used, n, r)
      \<in> measure (\<lambda>(c, used, n, r). 2 * card (taken_from c used n) + of_bool (r \<in> set used))"
    using r taken_less [of c n used] by auto
qed simp

declare unique_loop.simps [simp del]

text \<open>\<open>_unique_node_id\<close>: the identifier and the extended set of used identifiers.\<close>

definition unique_node_id :: "string \<Rightarrow> string list \<Rightarrow> string \<times> string list" where
  "unique_node_id candidate used =
     (let resolved = unique_loop candidate used 2 candidate in (resolved, resolved # used))"

lemma unique_loop_fresh: "unique_loop c used n r \<notin> set used"
  by (induction c used n r rule: unique_loop.induct) (subst unique_loop.simps, simp)

text \<open>The result of the loop is the candidate itself or a numbered duplicate of it.\<close>

lemma unique_loop_shape: "unique_loop c used n r = r \<or> (\<exists>k \<ge> n. unique_loop c used n r = duplicate_id c k)"
proof (induction c used n r rule: unique_loop.induct)
  case (1 c used n r)
  show ?case
  proof (cases "r \<in> set used")
    case True
    then show ?thesis
      using 1 [OF True] unique_loop.simps [of c used n r] by (auto intro: Suc_leD)
  next
    case False
    then show ?thesis by (subst unique_loop.simps) simp
  qed
qed

subsection \<open>Reason codes\<close>

definition flag :: "bool \<Rightarrow> string \<Rightarrow> string list" where
  "flag b reason = (if b then [reason] else [])"

definition permission_reasons :: "permission_observation option \<Rightarrow> string list" where
  "permission_reasons observation =
     (case observation of
        None \<Rightarrow> [''PDG_PERMISSION_OBSERVATION_MISSING'']
      | Some ob \<Rightarrow>
          flag (\<not> valid_identifier (ob_execution_actor_id ob)) ''PDG_EXECUTION_ACTOR_INVALID''
          @ (if \<not> valid_identifier (ob_permission_name ob) then [''PDG_PERMISSION_NAME_INVALID'']
             else flag (ob_permission_name ob \<noteq> ''execution.run'') ''PDG_PERMISSION_NAME_MISMATCH'')
          @ flag (\<not> ob_granted ob) ''PDG_PERMISSION_DENIED'')"

definition valid_policy_decision :: "policy_decision \<Rightarrow> bool" where
  "valid_policy_decision p \<longleftrightarrow>
     valid_identifier (po_policy_version p) \<and> valid_identifier (po_profile p)
     \<and> valid_identifier (po_decision p) \<and> valid_identifier (po_authorization_mode p)
     \<and> 0 < po_required_approvals p
     \<and> po_required_permissions p \<noteq> [] \<and> list_all valid_identifier (po_required_permissions p)
     \<and> 0 < po_distinct_approver_identities p
     \<and> po_reason_codes p \<noteq> [] \<and> list_all valid_identifier (po_reason_codes p)"

abbreviation valid_env :: "string option \<Rightarrow> bool" where
  "valid_env e \<equiv> e \<in> Some ` set valid_environments"

abbreviation valid_risk :: "string option \<Rightarrow> bool" where
  "valid_risk r \<equiv> r \<in> Some ` set valid_risks"

definition subject_reasons :: "decision_snapshot \<Rightarrow> string list" where
  "subject_reasons s =
     flag (\<not> list_all valid_identifier_opt [ds_request_id s, ds_requester_id s, ds_workspace_id s, ds_adapter s])
       ''PDG_AUTHORITATIVE_IDENTITY_INVALID''
     @ flag (\<not> valid_env (ds_workspace_environment s)) ''PDG_WORKSPACE_ENVIRONMENT_INVALID''
     @ flag (\<not> valid_env (ds_request_environment s)) ''PDG_REQUEST_ENVIRONMENT_INVALID''
     @ flag (valid_env (ds_workspace_environment s) \<and> valid_env (ds_request_environment s)
         \<and> ds_workspace_environment s \<noteq> ds_request_environment s) ''PDG_WORKSPACE_ENVIRONMENT_MISMATCH''
     @ flag (\<not> valid_risk (ds_risk s)) ''PDG_RISK_INVALID''
     @ flag (case ds_payload_sha256 s of None \<Rightarrow> True | Some d \<Rightarrow> \<not> is_digest d) ''PDG_PAYLOAD_DIGEST_INVALID''"

text \<open>The evaluator returns for a valid environment and risk, the only ones it is called with.\<close>

definition policy_reasons :: "decision_snapshot \<Rightarrow> string list" where
  "policy_reasons s =
     (case ds_policy_decision s of
        None \<Rightarrow> [''PDG_POLICY_DECISION_MISSING'']
      | Some p \<Rightarrow>
          if \<not> valid_policy_decision p then [''PDG_POLICY_DECISION_INVALID'']
          else flag (po_decision p \<noteq> ''ALLOW_AFTER_AUTHORIZATION'') ''PDG_POLICY_DECISION_DENIED''
            @ flag (valid_env (ds_request_environment s) \<and> valid_risk (ds_risk s)
                \<and> Inr p \<noteq> evaluate_current_approval_policy
                     \<lparr>pi_environment = the (ds_request_environment s), pi_risk = the (ds_risk s)\<rparr>)
               ''PDG_POLICY_DECISION_MISMATCH'')"

definition state_reasons :: "decision_snapshot \<Rightarrow> string list" where
  "state_reasons s =
     (if ds_request_status s \<notin> Some ` set valid_request_statuses then [''PDG_REQUEST_STATUS_INVALID'']
      else flag (ds_request_status s \<noteq> Some ''APPROVED'') ''PDG_REQUEST_NOT_APPROVED'')
     @ (case ds_emergency_stop_active s of
          None \<Rightarrow> [''PDG_EMERGENCY_STOP_STATE_MISSING'']
        | Some active \<Rightarrow> flag active ''PDG_EMERGENCY_STOP_ACTIVE'')
     @ (case ds_production_effects_enabled s of
          None \<Rightarrow> [''PDG_PRODUCTION_EFFECTS_STATE_MISSING'']
        | Some enabled \<Rightarrow> flag (ds_request_environment s = Some ''production'' \<and> \<not> enabled)
            ''PDG_PRODUCTION_EFFECTS_DISABLED'')"

subsection \<open>Approvals\<close>

text \<open>The state of the loop of \<open>_approval_graph\<close>.\<close>

record approval_scan =
  as_reasons :: "string list"
  as_used :: "string list"
  as_approval_ids :: "string list"
  as_identities :: "string list"
  as_nodes :: "graph_node list"
  as_edges :: "graph_edge list"

definition approval_step :: "decision_snapshot \<Rightarrow> nat \<times> approval_evidence \<Rightarrow> approval_scan \<Rightarrow> approval_scan" where
  "approval_step s ia st =
     (let index = fst ia; a = snd ia;
          valid = valid_identifier (ap_approval_id a) \<and> valid_identifier (ap_approver_id a)
            \<and> ap_decision a \<in> {''APPROVED'', ''DENIED''} \<and> ap_approval_id a \<notin> set (as_approval_ids st);
          candidate = (if valid_identifier (ap_approval_id a) then node_id ''approval'' (Some (ap_approval_id a))
            else ''approval:invalid-'' @ show_nat index);
          (nid, used) = unique_node_id candidate (as_used st)
      in \<lparr>as_reasons = as_reasons st @ flag (\<not> valid) ''PDG_APPROVAL_EVIDENCE_INVALID''
            @ flag (Some (ap_approver_id a) = ds_requester_id s) ''PDG_REQUESTER_SELF_APPROVAL''
            @ flag (ap_decision a = ''DENIED'') ''PDG_APPROVAL_DENIED'',
          as_used = used,
          as_approval_ids = flag (valid_identifier (ap_approval_id a)) (ap_approval_id a) @ as_approval_ids st,
          as_identities = flag (ap_decision a = ''APPROVED'' \<and> valid_identifier (ap_approver_id a)) (ap_approver_id a)
            @ as_identities st,
          as_nodes = as_nodes st @ [\<lparr>gn_id = nid, gn_type = ''approval'',
            gn_claims = JObj [(''approval_id'', JStr (ap_approval_id a)), (''approver_id'', JStr (ap_approver_id a)),
              (''decision'', JStr (ap_decision a))]\<rparr>],
          as_edges = as_edges st @ [\<lparr>ge_from = nid, ge_relation = ''reviews'',
            ge_to = node_id ''request'' (ds_request_id s)\<rparr>]\<rparr>)"

definition approval_key :: "approval_evidence \<Rightarrow> string \<times> string \<times> string" where
  "approval_key a = (ap_approval_id a, ap_approver_id a, ap_decision a)"

definition approval_graph :: "decision_snapshot \<Rightarrow> policy_decision option \<Rightarrow> string list \<Rightarrow> approval_scan" where
  "approval_graph s policy used =
     (let approvals = sort_key approval_key (ds_approvals s);
          st = fold (approval_step s) (enumerate 0 approvals)
            \<lparr>as_reasons = [], as_used = used, as_approval_ids = [], as_identities = [], as_nodes = [], as_edges = []\<rparr>
      in case policy of
           None \<Rightarrow> st
         | Some p \<Rightarrow>
             if \<not> valid_policy_decision p then st
             else st\<lparr>as_reasons := as_reasons st
               @ flag (int (length (filter (\<lambda>a. ap_decision a = ''APPROVED'') approvals)) < po_required_approvals p)
                   ''PDG_APPROVALS_INSUFFICIENT''
               @ flag (int (length (remdups (as_identities st))) < po_distinct_approver_identities p)
                   ''PDG_DISTINCT_APPROVERS_INSUFFICIENT''\<rparr>)"

subsection \<open>Nodes and edges\<close>

fun opt_bool :: "bool option \<Rightarrow> json" where
  "opt_bool None = JNull"
| "opt_bool (Some b) = JBool b"

definition policy_node_id :: "decision_snapshot \<Rightarrow> string" where
  "policy_node_id s = node_id ''policy'' (map_option po_policy_version (ds_policy_decision s))"

definition permission_claims :: "permission_observation option \<Rightarrow> json" where
  "permission_claims observation =
     (case observation of
        None \<Rightarrow> JObj []
      | Some ob \<Rightarrow> JObj [(''execution_actor_id'', JStr (ob_execution_actor_id ob)), (''granted'', JBool (ob_granted ob)),
          (''permission_name'', JStr (ob_permission_name ob))])"

definition base_nodes :: "decision_snapshot \<Rightarrow> graph_node list" where
  "base_nodes s =
     [\<lparr>gn_id = node_id ''subject'' (ds_requester_id s), gn_type = ''subject'',
       gn_claims = JObj [(''role'', JStr ''requester'')]\<rparr>,
      \<lparr>gn_id = node_id ''workspace'' (ds_workspace_id s), gn_type = ''workspace'',
       gn_claims = JObj [(''environment'', opt_json (ds_workspace_environment s))]\<rparr>,
      \<lparr>gn_id = node_id ''request'' (ds_request_id s), gn_type = ''request'',
       gn_claims = JObj [(''adapter'', opt_json (ds_adapter s)), (''capability'', opt_json (ds_requested_capability s)),
         (''environment'', opt_json (ds_request_environment s)), (''payload_sha256'', opt_json (ds_payload_sha256 s)),
         (''risk'', opt_json (ds_risk s)), (''status'', opt_json (ds_request_status s))]\<rparr>,
      \<lparr>gn_id = policy_node_id s, gn_type = ''policy'',
       gn_claims = JObj (case ds_policy_decision s of None \<Rightarrow> [] | Some p \<Rightarrow> policy_decision_to_dict p)\<rparr>,
      \<lparr>gn_id = ''permission:execution-observation'', gn_type = ''permission_observation'',
       gn_claims = permission_claims (ds_permission_observation s)\<rparr>,
      \<lparr>gn_id = ''runtime:current'', gn_type = ''runtime_context'',
       gn_claims = JObj [(''emergency_stop_active'', opt_bool (ds_emergency_stop_active s)),
         (''production_effects_enabled'', opt_bool (ds_production_effects_enabled s))]\<rparr>,
      \<lparr>gn_id = node_id ''decision'' (ds_request_id s), gn_type = ''projection'',
       gn_claims = JObj [(''authority'', JStr ''NONE''), (''projection_only'', JBool True)]\<rparr>]"

definition base_edges :: "decision_snapshot \<Rightarrow> graph_edge list" where
  "base_edges s =
     (let request_id = node_id ''request'' (ds_request_id s); decision_id = node_id ''decision'' (ds_request_id s) in
      [\<lparr>ge_from = node_id ''subject'' (ds_requester_id s), ge_relation = ''requests'', ge_to = request_id\<rparr>,
       \<lparr>ge_from = request_id, ge_relation = ''targets'', ge_to = node_id ''workspace'' (ds_workspace_id s)\<rparr>,
       \<lparr>ge_from = request_id, ge_relation = ''evaluated_under'', ge_to = policy_node_id s\<rparr>,
       \<lparr>ge_from = ''permission:execution-observation'', ge_relation = ''observed_for'', ge_to = request_id\<rparr>,
       \<lparr>ge_from = decision_id, ge_relation = ''projects'', ge_to = request_id\<rparr>,
       \<lparr>ge_from = decision_id, ge_relation = ''observes'', ge_to = ''permission:execution-observation''\<rparr>,
       \<lparr>ge_from = decision_id, ge_relation = ''observes'', ge_to = ''runtime:current''\<rparr>])"

text \<open>
  \<open>_append_optional_evidence\<close>: each reference adds a node with a fresh identifier and an edge from the
  decision.  A reference is given as kind, identifier, node type, claims and relation.
\<close>

definition evidence_references :: "decision_snapshot \<Rightarrow> (string \<times> string \<times> string \<times> json \<times> string) list" where
  "evidence_references s =
     (case ds_execution_id s of
        Some e \<Rightarrow> if valid_identifier e then [(''execution'', e, ''execution_reference'', JObj [], ''references'')] else []
      | None \<Rightarrow> [])
     @ (case ds_receipt_id s of
          Some r \<Rightarrow> if valid_identifier r then [(''receipt'', r, ''receipt_reference'', JObj [], ''evidenced_by'')] else []
        | None \<Rightarrow> [])
     @ map (\<lambda>a. (''audit'', a, ''audit_reference'', JObj [(''audit_event_id'', JStr a)], ''evidenced_by''))
         (sort (filter valid_identifier (ds_audit_event_ids s)))"

fun append_evidence ::
  "string \<Rightarrow> (string \<times> string \<times> string \<times> json \<times> string) list \<Rightarrow> string list \<Rightarrow> graph_node list \<times> graph_edge list" where
  "append_evidence decision_id [] used = ([], [])"
| "append_evidence decision_id ((kind, ref, ntype, claims, relation) # refs) used =
     (let (nid, used') = unique_node_id (node_id kind (Some ref)) used;
          (nodes, edges) = append_evidence decision_id refs used'
      in (\<lparr>gn_id = nid, gn_type = ntype, gn_claims = claims\<rparr> # nodes,
          \<lparr>ge_from = decision_id, ge_relation = relation, ge_to = nid\<rparr> # edges))"

subsection \<open>The projection\<close>

definition invalid_reference :: "decision_snapshot \<Rightarrow> bool" where
  "invalid_reference s \<longleftrightarrow>
     list_ex (\<lambda>v. v \<noteq> None \<and> \<not> valid_identifier_opt v)
       (ds_execution_id s # ds_receipt_id s # map Some (ds_audit_event_ids s))"

definition node_key :: "graph_node \<Rightarrow> string \<times> string \<times> string" where
  "node_key n = (gn_type n, gn_id n, canonical_json (gn_claims n))"

definition edge_key :: "graph_edge \<Rightarrow> string \<times> string \<times> string" where
  "edge_key e = (ge_from e, ge_relation e, ge_to e)"

definition graph_claims :: "decision_graph \<Rightarrow> (string \<times> json) list" where
  "graph_claims g =
     [(''schema_version'', JInt 1), (''graph_type'', JStr ''policy-decision-graph/v1''),
      (''decision'', JStr (dg_decision g)), (''execution_eligible'', JBool (dg_execution_eligible g)),
      (''reason_codes'', JArr (map JStr (dg_reason_codes g))), (''limitations'', JArr (map JStr (dg_limitations g))),
      (''nodes'', JArr (map (\<lambda>n. JObj [(''id'', JStr (gn_id n)), (''type'', JStr (gn_type n)),
         (''claims'', gn_claims n)]) (dg_nodes g))),
      (''edges'', JArr (map (\<lambda>e. JObj [(''from'', JStr (ge_from e)), (''relation'', JStr (ge_relation e)),
         (''to'', JStr (ge_to e))]) (dg_edges g)))]"

definition projection_reasons :: "decision_snapshot \<Rightarrow> approval_scan \<Rightarrow> string list" where
  "projection_reasons s scan =
     subject_reasons s @ permission_reasons (ds_permission_observation s) @ policy_reasons s
     @ as_reasons scan @ state_reasons s"

definition scan_approvals :: "decision_snapshot \<Rightarrow> approval_scan" where
  "scan_approvals s =
     approval_graph s
       (case ds_policy_decision s of None \<Rightarrow> None | Some p \<Rightarrow> if valid_policy_decision p then Some p else None)
       (map gn_id (base_nodes s))"

definition project_policy_decision_graph :: "(string \<Rightarrow> string) \<Rightarrow> decision_snapshot \<Rightarrow> decision_graph res" where
  "project_policy_decision_graph H s =
     (let scan = scan_approvals s;
          reasons = projection_reasons s scan;
          eligible = (reasons = []);
          verdict = (if eligible then ''PDG_CURRENT_GATES_SATISFIED'' else ''PDG_DENY_BY_DEFAULT'');
          from_policy = (case ds_policy_decision s of
              Some p \<Rightarrow> if valid_policy_decision p then po_reason_codes p else []
            | None \<Rightarrow> []);
          (evidence_nodes, evidence_edges) =
            append_evidence (node_id ''decision'' (ds_request_id s)) (evidence_references s) (as_used scan);
          nodes = sort_key node_key (base_nodes s @ as_nodes scan @ evidence_nodes);
          edges = sort_key edge_key (base_edges s @ as_edges scan @ evidence_edges);
          g = \<lparr>dg_decision = if eligible then ''ALLOW'' else ''DENY'', dg_execution_eligible = eligible,
                dg_reason_codes = sort (from_policy @ remdups (verdict # reasons)),
                dg_limitations = sort (remdups (flag (invalid_reference s)
                  ''One or more invalid optional evidence references were omitted.'' @ pdg_limitations)),
                dg_nodes = nodes, dg_edges = edges, dg_graph_digest = []\<rparr>
      in thenE (guardE (distinct (map gn_id nodes)) (RuntimeError ''policy decision graph node IDs are not unique''))
          (Inr (g\<lparr>dg_graph_digest := claims_digest H (graph_claims g)\<rparr>)))"

subsection \<open>Node identifiers are unique\<close>

lemma unique_node_idE:
  assumes "unique_node_id c used = (nid, used')"
  shows "nid \<notin> set used \<and> used' = nid # used"
  using assms unique_loop_fresh by (auto simp: unique_node_id_def Let_def)

text \<open>A scan or an extension of the graph adds nodes whose identifiers are exactly the new used ones.\<close>

lemma approval_step_ids:
  assumes "distinct (map gn_id (base @ as_nodes st))"
    and "set (as_used st) = set (map gn_id (base @ as_nodes st))"
  shows "distinct (map gn_id (base @ as_nodes (approval_step s ia st)))
    \<and> set (as_used (approval_step s ia st)) = set (map gn_id (base @ as_nodes (approval_step s ia st)))"
  using assms unfolding approval_step_def Let_def
  by (auto split: prod.splits dest!: unique_node_idE)

lemma approval_fold_ids:
  assumes "distinct (map gn_id (base @ as_nodes st))"
    and "set (as_used st) = set (map gn_id (base @ as_nodes st))"
  shows "distinct (map gn_id (base @ as_nodes (fold (approval_step s) ias st)))
    \<and> set (as_used (fold (approval_step s) ias st))
        = set (map gn_id (base @ as_nodes (fold (approval_step s) ias st)))"
  using assms
proof (induction ias arbitrary: st)
  case (Cons ia ias)
  show ?case using Cons.IH [of "approval_step s ia st"] approval_step_ids [OF Cons.prems] by simp
qed simp

lemma append_evidence_ids:
  assumes "append_evidence d refs used = (nodes, edges)"
  shows "distinct (map gn_id nodes) \<and> set (map gn_id nodes) \<inter> set used = {}"
  using assms
proof (induction d refs used arbitrary: nodes edges rule: append_evidence.induct)
  case (2 d kind ref ntype claims relation refs used)
  obtain nid used' where u: "unique_node_id (node_id kind (Some ref)) used = (nid, used')" by fastforce
  obtain ns es where r: "append_evidence d refs used' = (ns, es)" by fastforce
  have "nodes = \<lparr>gn_id = nid, gn_type = ntype, gn_claims = claims\<rparr> # ns"
    using "2.prems" u r by simp
  then show ?case
    using "2.IH" [OF u [symmetric] refl r] unique_node_idE [OF u] by auto
qed simp

lemma node_id_head: "\<exists>t. node_id kind v = kind @ '':'' @ t"
  by (auto simp: node_id_def split: option.splits)

lemma base_ids_distinct: "distinct (map gn_id (base_nodes s))"
proof -
  obtain a where a: "node_id ''subject'' (ds_requester_id s) = ''subject:'' @ a"
    using node_id_head [of "''subject''" "ds_requester_id s"] by auto
  obtain b where b: "node_id ''workspace'' (ds_workspace_id s) = ''workspace:'' @ b"
    using node_id_head [of "''workspace''" "ds_workspace_id s"] by auto
  obtain c where c: "node_id ''request'' (ds_request_id s) = ''request:'' @ c"
    using node_id_head [of "''request''" "ds_request_id s"] by auto
  obtain d where d: "node_id ''decision'' (ds_request_id s) = ''decision:'' @ d"
    using node_id_head [of "''decision''" "ds_request_id s"] by auto
  obtain p where p: "policy_node_id s = ''policy:'' @ p"
    using node_id_head [of "''policy''"] unfolding policy_node_id_def by auto
  show ?thesis by (simp add: base_nodes_def a b c d p)
qed

lemma scan_ids:
  "distinct (map gn_id (base_nodes s @ as_nodes (scan_approvals s)))
   \<and> set (as_used (scan_approvals s)) = set (map gn_id (base_nodes s @ as_nodes (scan_approvals s)))"
proof -
  let ?st = "\<lparr>as_reasons = [], as_used = map gn_id (base_nodes s), as_approval_ids = [],
    as_identities = [], as_nodes = [], as_edges = []\<rparr>"
  let ?r = "fold (approval_step s) (enumerate 0 (sort_key approval_key (ds_approvals s))) ?st"
  have "as_nodes (scan_approvals s) = as_nodes ?r" "as_used (scan_approvals s) = as_used ?r"
    by (simp_all add: scan_approvals_def approval_graph_def Let_def split: option.splits)
  then show ?thesis
    using approval_fold_ids [of "base_nodes s" ?st s] base_ids_distinct [of s] by simp
qed

lemma project_eq:
  "\<exists>g. project_policy_decision_graph H s = Inr g
     \<and> distinct (map gn_id (dg_nodes g))
     \<and> dg_execution_eligible g = (projection_reasons s (scan_approvals s) = [])
     \<and> dg_decision g = (if dg_execution_eligible g then ''ALLOW'' else ''DENY'')"
proof -
  obtain ns es where e: "append_evidence (node_id ''decision'' (ds_request_id s)) (evidence_references s)
      (as_used (scan_approvals s)) = (ns, es)" by fastforce
  have "distinct (map gn_id (base_nodes s @ as_nodes (scan_approvals s) @ ns))"
    using append_evidence_ids [OF e] scan_ids [of s] by auto
  then have d: "distinct (map gn_id (sort_key node_key (base_nodes s @ as_nodes (scan_approvals s) @ ns)))"
    using distinct_map by (metis distinct_sort set_sort)
  show ?thesis
    unfolding project_policy_decision_graph_def Let_def e prod.case
    by (simp only: d guardE_True thenE_Inr) (simp add: d [simplified])
qed

subsection \<open>What eligibility means\<close>

definition good_approval :: "decision_snapshot \<Rightarrow> approval_evidence \<Rightarrow> bool" where
  "good_approval s a \<longleftrightarrow> valid_identifier (ap_approval_id a) \<and> valid_identifier (ap_approver_id a)
     \<and> ap_decision a = ''APPROVED'' \<and> ds_requester_id s \<noteq> Some (ap_approver_id a)"

text \<open>The gates of the current runtime, stated on the facts alone.\<close>

definition gates_satisfied :: "decision_snapshot \<Rightarrow> bool" where
  "gates_satisfied s \<longleftrightarrow>
     (\<exists>env \<in> set valid_environments. \<exists>risk \<in> set valid_risks. \<exists>ob p stop effects.
        list_all valid_identifier_opt [ds_request_id s, ds_requester_id s, ds_workspace_id s, ds_adapter s]
        \<and> ds_workspace_environment s = Some env \<and> ds_request_environment s = Some env \<and> ds_risk s = Some risk
        \<and> (\<exists>d. ds_payload_sha256 s = Some d \<and> is_digest d)
        \<and> ds_permission_observation s = Some ob \<and> ob_granted ob \<and> ob_permission_name ob = ''execution.run''
        \<and> valid_identifier (ob_execution_actor_id ob)
        \<and> ds_policy_decision s = Some p
        \<and> evaluate_current_approval_policy \<lparr>pi_environment = env, pi_risk = risk\<rparr> = Inr p
        \<and> list_all (good_approval s) (ds_approvals s) \<and> distinct (map ap_approval_id (ds_approvals s))
        \<and> (if env = ''production'' then 2 else 1) \<le> card (ap_approver_id ` set (ds_approvals s))
        \<and> ds_request_status s = Some ''APPROVED''
        \<and> ds_emergency_stop_active s = Some stop \<and> \<not> stop
        \<and> ds_production_effects_enabled s = Some effects \<and> (effects \<or> env \<noteq> ''production''))"

lemma flag_eq_Nil [simp]: "flag b r = [] \<longleftrightarrow> \<not> b"
  by (simp add: flag_def)

lemma set_flag: "set (flag b r) = (if b then {r} else {})"
  by (simp add: flag_def)

lemma approval_step_sel:
  "as_reasons (approval_step s (i, a) st) = [] \<longleftrightarrow>
     as_reasons st = [] \<and> good_approval s a \<and> ap_approval_id a \<notin> set (as_approval_ids st)"
  "set (as_approval_ids (approval_step s (i, a) st)) =
     (if valid_identifier (ap_approval_id a) then {ap_approval_id a} else {}) \<union> set (as_approval_ids st)"
  "set (as_identities (approval_step s (i, a) st)) =
     (if ap_decision a = ''APPROVED'' \<and> valid_identifier (ap_approver_id a) then {ap_approver_id a} else {})
     \<union> set (as_identities st)"
  by (auto simp: approval_step_def Let_def good_approval_def set_flag split: prod.splits)

lemma approval_fold_reasons:
  "as_reasons (fold (approval_step s) ias st) = [] \<longleftrightarrow>
     as_reasons st = [] \<and> list_all (good_approval s) (map snd ias)
     \<and> distinct (map (ap_approval_id \<circ> snd) ias)
     \<and> (ap_approval_id \<circ> snd) ` set ias \<inter> set (as_approval_ids st) = {}"
proof (induction ias arbitrary: st)
  case (Cons ia ias)
  obtain i a where ia: "ia = (i, a)" by fastforce
  show ?case
    by (simp add: Cons.IH ia approval_step_sel) (auto simp: good_approval_def list_all_iff)
qed simp

lemma approval_fold_identities:
  assumes "list_all (good_approval s) (map snd ias)"
  shows "set (as_identities (fold (approval_step s) ias st)) =
    (ap_approver_id \<circ> snd) ` set ias \<union> set (as_identities st)"
  using assms
  by (induction ias arbitrary: st) (auto simp: approval_step_sel good_approval_def)

lemma valid_identifier_reasons:
  "environment \<in> set valid_environments \<Longrightarrow> valid_identifier (''ENVIRONMENT_'' @ upper environment)"
  "risk \<in> set valid_risks \<Longrightarrow> valid_identifier (risk @ ''_CURRENTLY_NON_ENFORCING'')"
proof -
  have "list_all (\<lambda>e. valid_identifier (''ENVIRONMENT_'' @ upper e)) valid_environments" by code_simp
  then show "environment \<in> set valid_environments \<Longrightarrow> valid_identifier (''ENVIRONMENT_'' @ upper environment)"
    by (simp add: list_all_iff)
  have "list_all (\<lambda>r. valid_identifier (r @ ''_CURRENTLY_NON_ENFORCING'')) valid_risks" by code_simp
  then show "risk \<in> set valid_risks \<Longrightarrow> valid_identifier (risk @ ''_CURRENTLY_NON_ENFORCING'')"
    by (simp add: list_all_iff)
qed

lemma valid_identifier_consts:
  "valid_identifier ''approval-policy/current-v1''" "valid_identifier ''CURRENT_COMPATIBILITY''"
  "valid_identifier ''ALLOW_AFTER_AUTHORIZATION''" "valid_identifier ''INDEPENDENT_APPROVAL''"
  "valid_identifier ''approval.review''" "valid_identifier ''CURRENT_BEHAVIOR_COMPATIBILITY''"
  "valid_identifier ''REQUESTER_SELF_APPROVAL_DENIED''" "valid_identifier ''PRODUCTION_TWO_APPROVALS_REQUIRED''"
  "valid_identifier ''NON_PRODUCTION_ONE_APPROVAL_REQUIRED''"
  "valid_identifier ''PRODUCTION_EFFECTS_USE_SEPARATE_FAIL_CLOSED_GATE''" "valid_identifier ''execution.run''"
  by code_simp+

lemma evaluated_policy:
  assumes "environment \<in> set valid_environments" and "risk \<in> set valid_risks"
    and "evaluate_current_approval_policy \<lparr>pi_environment = environment, pi_risk = risk\<rparr> = Inr p"
  shows "valid_policy_decision p \<and> po_decision p = ''ALLOW_AFTER_AUTHORIZATION''
    \<and> po_required_approvals p = (if environment = ''production'' then 2 else 1)
    \<and> po_distinct_approver_identities p = (if environment = ''production'' then 2 else 1)"
proof -
  have req: "current_required_approvals environment = Inr (if environment = ''production'' then 2 else 1)"
    using assms(1) by (simp add: current_required_approvals_def)
  note p = assms(3) [unfolded evaluate_current_approval_policy_def Let_def policy_input.select_convs req
      bindE_Inr sum.inject, symmetric]
  show ?thesis
    unfolding p valid_policy_decision_def policy_decision.select_convs
    by (simp add: valid_identifier_reasons(1) [OF assms(1)] valid_identifier_reasons(2) [OF assms(2)]
        valid_identifier_consts del: append_Cons)
qed

lemma approvals_sorted:
  "map snd (enumerate 0 (sort_key approval_key as)) = sort_key approval_key as"
  by simp

lemma approval_graph_reasons:
  assumes "valid_policy_decision p" and "po_required_approvals p = int n"
    and "po_distinct_approver_identities p = int n"
  shows "as_reasons (approval_graph s (Some p) used) = [] \<longleftrightarrow>
    list_all (good_approval s) (ds_approvals s) \<and> distinct (map ap_approval_id (ds_approvals s))
    \<and> n \<le> card (ap_approver_id ` set (ds_approvals s))" (is "?L \<longleftrightarrow> ?good \<and> ?dist \<and> ?enough")
proof -
  let ?as = "sort_key approval_key (ds_approvals s)"
  let ?st = "\<lparr>as_reasons = [], as_used = used, as_approval_ids = [], as_identities = [], as_nodes = [], as_edges = []\<rparr>"
  let ?r = "fold (approval_step s) (enumerate 0 ?as) ?st"
  have scan: "as_reasons ?r = [] \<longleftrightarrow> ?good \<and> ?dist"
  proof -
    have "map (ap_approval_id \<circ> snd) (enumerate 0 ?as) = map ap_approval_id ?as"
      by (simp flip: map_map)
    moreover have "distinct (map ap_approval_id ?as) \<longleftrightarrow> ?dist"
      by (metis distinct_map distinct_sort set_sort)
    moreover have "list_all (good_approval s) ?as \<longleftrightarrow> ?good"
      by (simp add: list_all_iff)
    ultimately show ?thesis
      by (simp add: approval_fold_reasons)
  qed
  have counts: "length (filter (\<lambda>a. ap_decision a = ''APPROVED'') ?as) = length (ds_approvals s)
      \<and> length (remdups (as_identities ?r)) = card (ap_approver_id ` set (ds_approvals s))" if ?good
  proof
    have "filter (\<lambda>a. ap_decision a = ''APPROVED'') ?as = ?as"
      using that by (auto simp: list_all_iff good_approval_def intro: filter_True)
    then show "length (filter (\<lambda>a. ap_decision a = ''APPROVED'') ?as) = length (ds_approvals s)"
      by simp
    have "list_all (good_approval s) (map snd (enumerate 0 ?as))"
      using that by (simp add: list_all_iff)
    from approval_fold_identities [OF this, of ?st]
    have "set (as_identities ?r) = ap_approver_id ` snd ` set (enumerate 0 ?as)"
      by (simp add: image_comp)
    also have "snd ` set (enumerate 0 ?as) = set (ds_approvals s)"
      using approvals_sorted [of "ds_approvals s"] by (metis list.set_map set_sort)
    finally show "length (remdups (as_identities ?r)) = card (ap_approver_id ` set (ds_approvals s))"
      by (simp add: length_remdups_card_conv)
  qed
  have "card (ap_approver_id ` set (ds_approvals s)) \<le> length (ds_approvals s)"
    using card_image_le [of "set (ds_approvals s)"] card_length le_trans by blast
  then show ?thesis
    using scan counts assms by (auto simp: approval_graph_def Let_def)
qed

lemma subject_reasons_Nil:
  "subject_reasons s = [] \<longleftrightarrow>
     list_all valid_identifier_opt [ds_request_id s, ds_requester_id s, ds_workspace_id s, ds_adapter s]
     \<and> (\<exists>env \<in> set valid_environments. ds_workspace_environment s = Some env \<and> ds_request_environment s = Some env)
     \<and> (\<exists>risk \<in> set valid_risks. ds_risk s = Some risk)
     \<and> (\<exists>d. ds_payload_sha256 s = Some d \<and> is_digest d)"
  unfolding subject_reasons_def by (auto split: option.splits)

lemma permission_reasons_Nil:
  "permission_reasons v = [] \<longleftrightarrow>
     (\<exists>ob. v = Some ob \<and> ob_granted ob \<and> ob_permission_name ob = ''execution.run''
        \<and> valid_identifier (ob_execution_actor_id ob))"
  using valid_identifier_consts by (auto simp: permission_reasons_def split: option.splits if_splits)

lemma policy_reasons_Nil:
  assumes "ds_request_environment s = Some environment" and "environment \<in> set valid_environments"
    and "ds_risk s = Some risk" and "risk \<in> set valid_risks"
  shows "policy_reasons s = [] \<longleftrightarrow>
     (\<exists>p. ds_policy_decision s = Some p
        \<and> evaluate_current_approval_policy \<lparr>pi_environment = environment, pi_risk = risk\<rparr> = Inr p)"
  using assms evaluated_policy [OF assms(2,4)]
  by (auto simp: policy_reasons_def split: option.splits if_splits)

lemma state_reasons_Nil:
  "state_reasons s = [] \<longleftrightarrow>
     ds_request_status s = Some ''APPROVED'' \<and> ds_emergency_stop_active s = Some False
     \<and> (\<exists>effects. ds_production_effects_enabled s = Some effects
          \<and> (effects \<or> ds_request_environment s \<noteq> Some ''production''))"
  by (auto simp: state_reasons_def valid_request_statuses_def split: option.splits if_splits)

lemma projection_reasons_Nil: "projection_reasons s (scan_approvals s) = [] \<longleftrightarrow> gates_satisfied s"
proof (cases "subject_reasons s = []")
  case False
  then have "\<not> gates_satisfied s"
    unfolding subject_reasons_Nil gates_satisfied_def by blast
  then show ?thesis using False by (simp add: projection_reasons_def)
next
  case True
  then obtain env risk where
    e: "env \<in> set valid_environments" "ds_workspace_environment s = Some env" "ds_request_environment s = Some env"
    and r: "risk \<in> set valid_risks" "ds_risk s = Some risk"
    unfolding subject_reasons_Nil by blast
  note S = True [unfolded subject_reasons_Nil]
  note P = policy_reasons_Nil [OF e(3,1) r(2,1)]
  let ?p = "evaluate_current_approval_policy \<lparr>pi_environment = env, pi_risk = risk\<rparr>"
  let ?n = "if env = ''production'' then 2 else 1 :: nat"
  have scan: "as_reasons (scan_approvals s) = [] \<longleftrightarrow>
      list_all (good_approval s) (ds_approvals s) \<and> distinct (map ap_approval_id (ds_approvals s))
      \<and> ?n \<le> card (ap_approver_id ` set (ds_approvals s))"
    if "ds_policy_decision s = Some p" and "?p = Inr p" for p
    using evaluated_policy [OF e(1) r(1) that(2)] that(1) approval_graph_reasons [of p ?n s]
    by (simp add: scan_approvals_def)
  have "gates_satisfied s \<longleftrightarrow>
      permission_reasons (ds_permission_observation s) = [] \<and> policy_reasons s = []
      \<and> as_reasons (scan_approvals s) = [] \<and> state_reasons s = []" (is "_ \<longleftrightarrow> ?all")
  proof
    assume "gates_satisfied s"
    then obtain ob p where "permission_reasons (ds_permission_observation s) = []"
      and p: "ds_policy_decision s = Some p" "?p = Inr p" and "state_reasons s = []"
      and "list_all (good_approval s) (ds_approvals s)" "distinct (map ap_approval_id (ds_approvals s))"
        "?n \<le> card (ap_approver_id ` set (ds_approvals s))"
      unfolding gates_satisfied_def permission_reasons_Nil state_reasons_Nil e r
      by (elim bexE exE conjE) (simp add: e r)
    then show ?all using scan [OF p] P by simp
  next
    assume ?all
    moreover then obtain p where p: "ds_policy_decision s = Some p" "?p = Inr p"
      unfolding P by blast
    ultimately show "gates_satisfied s"
      using S e r scan [OF p] unfolding gates_satisfied_def permission_reasons_Nil state_reasons_Nil
      by (intro bexI [of _ env] bexI [of _ risk]) auto
  qed
  then show ?thesis using True by (simp add: projection_reasons_def)
qed

subsection \<open>The order of the facts does not matter\<close>

lemma sort_approvals_mset: "mset xs = mset ys \<Longrightarrow> sort_key approval_key xs = sort_key approval_key ys"
  by (rule sort_key_inj_key_eq) (auto simp: inj_on_def approval_key_def)

lemma sort_filter_mset:
  fixes xs :: "string list"
  shows "mset xs = mset ys \<Longrightarrow> sort (filter P xs) = sort (filter P ys)"
  by (rule properties_for_sort [symmetric]) simp_all

lemma list_ex_mset: "mset xs = mset ys \<Longrightarrow> list_ex P xs = list_ex P ys"
  by (metis list_ex_iff set_mset_mset)

end
