(* ===== verification/Policy_Graph_Properties.thy ===== *)
theory Policy_Graph_Properties
  imports Policy_Graph
begin

text \<open>The properties of the policy decision graph, with a concrete request they apply to.\<close>

text \<open>
  (C35) The projection returns a graph for every snapshot, whatever identifiers the facts carry: the
  renaming loop ends, the final uniqueness check never raises, and the nodes of the graph have
  pairwise different identifiers.
\<close>

theorem projection_returns:
  "\<exists>g. project_policy_decision_graph H s = Inr g \<and> distinct (map gn_id (dg_nodes g))"
  using project_eq by blast

text \<open>
  (C34) The verdict is \<open>ALLOW\<close> exactly when every gate of the runtime is satisfied by the facts:
  identities, equal environments, the current policy, the execution permission, an approved request,
  the emergency stop off, enabled production effects in production, and valid approvals of enough
  different reviewers, none of them the requester.
\<close>

theorem eligible_iff_gates:
  "\<exists>g. project_policy_decision_graph H s = Inr g
     \<and> (dg_execution_eligible g \<longleftrightarrow> gates_satisfied s)
     \<and> dg_decision g = (if gates_satisfied s then ''ALLOW'' else ''DENY'')"
  using project_eq [of H s] projection_reasons_Nil [of s] by auto

text \<open>
  (C36) The graph, its digest included, does not depend on the order in which approvals and audit
  references are supplied.
\<close>

theorem projection_order_independent:
  assumes "mset approvals = mset (ds_approvals s)" and "mset audit_ids = mset (ds_audit_event_ids s)"
  shows "project_policy_decision_graph H (s\<lparr>ds_approvals := approvals, ds_audit_event_ids := audit_ids\<rparr>)
       = project_policy_decision_graph H s"
proof -
  let ?s = "s\<lparr>ds_approvals := approvals, ds_audit_event_ids := audit_ids\<rparr>"
  have step: "approval_step ?s = approval_step s"
    by (intro ext) (simp add: approval_step_def)
  have nodes: "base_nodes ?s = base_nodes s" "policy_node_id ?s = policy_node_id s"
    by (simp_all add: base_nodes_def policy_node_id_def)
  have scan: "scan_approvals ?s = scan_approvals s"
    using sort_approvals_mset [OF assms(1)]
    by (simp add: scan_approvals_def approval_graph_def step nodes Let_def)
  have refs: "evidence_references ?s = evidence_references s"
    using sort_filter_mset [OF assms(2)] by (simp add: evidence_references_def)
  have inv: "invalid_reference ?s = invalid_reference s"
    using list_ex_mset [of "map Some audit_ids" "map Some (ds_audit_event_ids s)"] assms(2)
    by (simp add: invalid_reference_def)
  have reasons: "projection_reasons ?s a = projection_reasons s a" for a
    by (simp add: projection_reasons_def subject_reasons_def policy_reasons_def state_reasons_def
        cong: option.case_cong if_cong)
  show ?thesis
    by (simp add: project_policy_decision_graph_def scan refs inv reasons nodes base_edges_def)
qed

definition wit_facts :: decision_snapshot where
  "wit_facts =
     \<lparr>ds_request_id = Some ''chg_1'', ds_requester_id = Some ''usr_1'', ds_workspace_id = Some ''ws_1'',
      ds_workspace_environment = Some ''production'', ds_request_environment = Some ''production'',
      ds_risk = Some ''R2'', ds_adapter = Some ''mock'', ds_requested_capability = None, ds_payload_sha256 = None,
      ds_permission_observation = None, ds_policy_decision = None,
      ds_approvals = [\<lparr>ap_approval_id = ''apr_2'', ap_approver_id = ''usr_3'', ap_decision = ''APPROVED''\<rparr>,
        \<lparr>ap_approval_id = ''apr_1'', ap_approver_id = ''usr_2'', ap_decision = ''APPROVED''\<rparr>],
      ds_request_status = Some ''APPROVED'', ds_emergency_stop_active = Some False,
      ds_production_effects_enabled = Some True, ds_execution_id = None, ds_receipt_id = None,
      ds_audit_event_ids = [''aud_2'', ''aud_1'']\<rparr>"

theorem projection_order_independent_witness:
  "project_policy_decision_graph sha256_hex
     (wit_facts\<lparr>ds_approvals := rev (ds_approvals wit_facts), ds_audit_event_ids := [''aud_1'', ''aud_2'']\<rparr>)
   = project_policy_decision_graph sha256_hex wit_facts"
  by (rule projection_order_independent) (simp_all add: wit_facts_def)

end
