(* ===== verification/Auth_Rate_Limit.thy ===== *)
theory Auth_Rate_Limit
  imports Contracts
begin

text \<open>
  The authentication rate limit (\<open>auth_rate_limit.py\<close>, table \<open>auth_rate_limits\<close> of migration \<open>0002\<close>).
  A service method is one transaction; the limit error is raised after the commit, so a method
  returns its outcome and the new table in either case.  The clock reading in whole seconds and the
  keyed digest \<open>mac secret message\<close> (HMAC-SHA256) are arguments.

  Each key of the table follows the automaton \<open>limit_phase\<close>: fresh, counting failures since the start
  of a window, or blocked until an instant.  \<open>record_state\<close> and \<open>enforce_state\<close> show that the table
  implements it, lazy deletion and purging included.
\<close>

subsection \<open>Configuration, keys and the table\<close>

record rate_config =
  rc_session_signing_secret :: string
  rc_auth_max_failures :: int
  rc_auth_source_max_failures :: int
  rc_auth_window_seconds :: int
  rc_auth_lockout_seconds :: int

text \<open>The checks of \<open>ProductConfig.__post_init__\<close> on these settings.\<close>

definition rate_config_init :: "rate_config \<Rightarrow> rate_config res" where
  "rate_config_init c =
     thenE (guardE (\<not> length (utf8 (rc_session_signing_secret c)) < 32) (ValueError ''session signing secret''))
    (thenE (guardE (2 \<le> rc_auth_max_failures c \<and> rc_auth_max_failures c \<le> 20) (ValueError ''auth max failures''))
    (thenE (guardE (rc_auth_max_failures c \<le> rc_auth_source_max_failures c \<and> rc_auth_source_max_failures c \<le> 200)
       (ValueError ''auth source max failures''))
    (thenE (guardE (10 \<le> rc_auth_window_seconds c \<and> rc_auth_window_seconds c \<le> 3600) (ValueError ''auth window''))
    (thenE (guardE (10 \<le> rc_auth_lockout_seconds c \<and> rc_auth_lockout_seconds c \<le> 86400) (ValueError ''auth lockout''))
      (Inr c)))))"

text \<open>\<open>str.casefold\<close> below 256; the micro sign folds to a letter outside this range and is kept.\<close>

definition casefold_char :: "char \<Rightarrow> string" where
  "casefold_char c =
     (if 65 \<le> code c \<and> code c \<le> 90 \<or> 192 \<le> code c \<and> code c \<le> 222 \<and> code c \<noteq> 215
      then [char_of (code c + 32)]
      else if code c = 223 then ''ss'' else [c])"

definition casefold :: "string \<Rightarrow> string" where
  "casefold s = concat (map casefold_char s)"

type_synonym mac = "string \<Rightarrow> string \<Rightarrow> string"

definition key_hash :: "mac \<Rightarrow> rate_config \<Rightarrow> string \<Rightarrow> string \<Rightarrow> string" where
  "key_hash mac cfg scope v = mac (rc_session_signing_secret cfg) (scope @ [CHR 0x00] @ casefold (strip v))"

text \<open>\<open>RateLimitEntries\<close>: scope, value and the number of failures that blocks.\<close>

type_synonym limit_entry = "string \<times> string \<times> int"

definition login_keys :: "rate_config \<Rightarrow> string \<Rightarrow> string \<Rightarrow> limit_entry list" where
  "login_keys cfg username source =
     [(''login.account'', username, rc_auth_max_failures cfg),
      (''login.source'', source, rc_auth_source_max_failures cfg)]"

definition bootstrap_keys :: "rate_config \<Rightarrow> string \<Rightarrow> limit_entry list" where
  "bootstrap_keys cfg source = [(''bootstrap.source'', source, rc_auth_max_failures cfg)]"

record limit_row =
  l_scope :: string
  l_key_hash :: string
  l_failure_count :: int
  l_window_started_at :: int
  l_blocked_until :: int
  l_updated_at :: int

abbreviation l_key :: "limit_row \<Rightarrow> string \<times> string" where
  "l_key r \<equiv> (l_scope r, l_key_hash r)"

definition entry_key :: "mac \<Rightarrow> rate_config \<Rightarrow> limit_entry \<Rightarrow> string \<times> string" where
  "entry_key mac cfg e = (case e of (scope, v, m) \<Rightarrow> (scope, key_hash mac cfg scope v))"

definition delete_limit :: "string \<times> string \<Rightarrow> limit_row list \<Rightarrow> limit_row list" where
  "delete_limit k rows = filter (\<lambda>r. l_key r \<noteq> k) rows"

definition delete_expired_limits :: "int \<Rightarrow> limit_row list \<Rightarrow> limit_row list" where
  "delete_expired_limits before rows = filter (\<lambda>r. \<not> l_updated_at r < before) rows"

definition upsert_limit :: "limit_row \<Rightarrow> limit_row list \<Rightarrow> limit_row list" where
  "upsert_limit r rows =
     (if key_free l_key (l_key r) rows then rows @ [r]
      else update_where (\<lambda>x. l_key x = l_key r) (\<lambda>_. r) rows)"

subsection \<open>The service\<close>

definition enforce_entry ::
  "mac \<Rightarrow> rate_config \<Rightarrow> int \<Rightarrow> limit_entry \<Rightarrow> int \<times> limit_row list \<Rightarrow> int \<times> limit_row list" where
  "enforce_entry mac cfg now e st =
     (let (retry_after, rows) = st; k = entry_key mac cfg e in
      case select l_key k rows of
        None \<Rightarrow> (retry_after, rows)
      | Some row \<Rightarrow>
          if l_blocked_until row > now then (max retry_after (l_blocked_until row - now), rows)
          else if l_blocked_until row > 0 \<or> now - l_window_started_at row \<ge> rc_auth_window_seconds cfg
          then (retry_after, delete_limit k rows)
          else (retry_after, rows))"

text \<open>\<open>if retry_after: raise AuthRateLimitExceeded(retry_after)\<close>, after the transaction.\<close>

definition limit_outcome :: "int \<Rightarrow> unit res" where
  "limit_outcome retry_after = (if retry_after \<noteq> 0 then Inl (RateLimitExceeded (max 1 retry_after)) else Inr ())"

definition enforce ::
  "mac \<Rightarrow> rate_config \<Rightarrow> int \<Rightarrow> limit_entry list \<Rightarrow> limit_row list \<Rightarrow> unit res \<times> limit_row list" where
  "enforce mac cfg now entries rows =
     (let (retry_after, rows') = fold (enforce_entry mac cfg now) entries (0, rows)
      in (limit_outcome retry_after, rows'))"

text \<open>The new failure count and window start: both begin anew unless the row counts in a live window.\<close>

definition next_count :: "rate_config \<Rightarrow> int \<Rightarrow> limit_row option \<Rightarrow> int \<times> int" where
  "next_count cfg now row =
     (case row of
        None \<Rightarrow> (1, now)
      | Some r \<Rightarrow>
          if l_blocked_until r > 0 \<or> now - l_window_started_at r \<ge> rc_auth_window_seconds cfg then (1, now)
          else (l_failure_count r + 1, l_window_started_at r))"

definition record_entry ::
  "mac \<Rightarrow> rate_config \<Rightarrow> int \<Rightarrow> limit_entry \<Rightarrow> int \<times> limit_row list \<Rightarrow> int \<times> limit_row list" where
  "record_entry mac cfg now e st =
     (let (retry_after, rows) = st; (scope, v, maximum) = e; kh = key_hash mac cfg scope v;
          row = select l_key (scope, kh) rows in
      if row \<noteq> None \<and> l_blocked_until (the row) > now
      then (max retry_after (l_blocked_until (the row) - now), rows)
      else
        (let (failure_count, window_started_at) = next_count cfg now row;
             blocked_until = (if failure_count \<ge> maximum then now + rc_auth_lockout_seconds cfg else 0)
         in (if blocked_until > now then max retry_after (blocked_until - now) else retry_after,
             upsert_limit \<lparr>l_scope = scope, l_key_hash = kh, l_failure_count = failure_count,
               l_window_started_at = window_started_at, l_blocked_until = blocked_until, l_updated_at = now\<rparr> rows)))"

definition record_failure ::
  "mac \<Rightarrow> rate_config \<Rightarrow> int \<Rightarrow> limit_entry list \<Rightarrow> limit_row list \<Rightarrow> unit res \<times> limit_row list" where
  "record_failure mac cfg now entries rows =
     (let retention = max (rc_auth_window_seconds cfg) (rc_auth_lockout_seconds cfg) * 2;
          (retry_after, rows') =
            fold (record_entry mac cfg now) entries (0, delete_expired_limits (now - retention) rows)
      in (limit_outcome retry_after, rows'))"

definition clear :: "mac \<Rightarrow> rate_config \<Rightarrow> limit_entry list \<Rightarrow> limit_row list \<Rightarrow> limit_row list" where
  "clear mac cfg entries rows = fold (\<lambda>e. delete_limit (entry_key mac cfg e)) entries rows"

subsection \<open>Statements on one key\<close>

lemma select_delete: "select l_key k (delete_limit k' rows) = (if k = k' then None else select l_key k rows)"
  by (induction rows) (auto simp: select_def delete_limit_def)

lemma select_upsert:
  "select l_key k (upsert_limit r rows) = (if k = l_key r then Some r else select l_key k rows)"
proof (cases "key_free l_key (l_key r) rows")
  case True
  then have "select l_key (l_key r) rows = None" by (simp add: select_None_iff)
  then show ?thesis
    using True by (auto simp: upsert_limit_def select_append split: option.splits)
next
  case False
  have "select l_key k (update_where (\<lambda>x. l_key x = l_key r) (\<lambda>_. r) rows) =
      (if k = l_key r then map_option (\<lambda>_. r) (select l_key k rows) else select l_key k rows)"
    by (induction rows) (auto simp: select_def update_where_def)
  moreover have "select l_key (l_key r) rows \<noteq> None" using False by (simp add: select_None_iff)
  ultimately show ?thesis using False by (auto simp: upsert_limit_def)
qed


lemma unique_upsert:
  assumes "unique_on l_key rows"
  shows "unique_on l_key (upsert_limit r rows)"
proof (cases "key_free l_key (l_key r) rows")
  case True
  then show ?thesis using assms by (simp add: upsert_limit_def unique_on_snoc)
next
  case False
  then show ?thesis
    using assms unique_on_update_where [of rows "\<lambda>x. l_key x = l_key r" l_key "\<lambda>_. r"]
    by (simp add: upsert_limit_def)
qed

lemma set_upsert: "set (upsert_limit r rows) \<subseteq> insert r (set rows)"
  by (auto simp: upsert_limit_def set_update_where)

lemma select_filter_unique:
  assumes "unique_on key rows"
  shows "select key k (filter p rows) =
    (case select key k rows of None \<Rightarrow> None | Some r \<Rightarrow> if p r then Some r else None)"
proof (cases "select key k rows")
  case None
  then have "select key k (filter p rows) = None" by (auto simp: select_None_iff key_free_iff)
  then show ?thesis using None by simp
next
  case (Some r)
  then have r: "r \<in> set rows" "key r = k" using select_Some_D [OF Some] by auto
  show ?thesis
  proof (cases "p r")
    case True
    then show ?thesis
      using r select_unique [OF unique_filter [OF assms, of p], of r] Some by simp
  next
    case False
    have "key_free key k (filter p rows)"
      using unique_on_eqI [OF assms] r False by (auto simp: key_free_iff)
    then show ?thesis using Some False by (simp add: select_None_iff)
  qed
qed

subsection \<open>The automaton of a key\<close>

datatype limit_phase = Fresh | Counting int int | Blocked int

definition limit_state :: "rate_config \<Rightarrow> int \<Rightarrow> limit_row list \<Rightarrow> string \<times> string \<Rightarrow> limit_phase" where
  "limit_state cfg now rows k =
     (case select l_key k rows of
        None \<Rightarrow> Fresh
      | Some r \<Rightarrow>
          if l_blocked_until r > now then Blocked (l_blocked_until r)
          else if l_blocked_until r > 0 \<or> now - l_window_started_at r \<ge> rc_auth_window_seconds cfg then Fresh
          else Counting (l_failure_count r) (l_window_started_at r))"

text \<open>The passage of time and a failure, on the automaton.\<close>

fun age :: "rate_config \<Rightarrow> int \<Rightarrow> limit_phase \<Rightarrow> limit_phase" where
  "age cfg now Fresh = Fresh"
| "age cfg now (Counting n w) = (if now - w \<ge> rc_auth_window_seconds cfg then Fresh else Counting n w)"
| "age cfg now (Blocked b) = (if b > now then Blocked b else Fresh)"

definition counted :: "rate_config \<Rightarrow> int \<Rightarrow> int \<Rightarrow> int \<Rightarrow> int \<Rightarrow> limit_phase" where
  "counted cfg now maximum n w =
     (if n \<ge> maximum then Blocked (now + rc_auth_lockout_seconds cfg) else Counting n w)"

fun fail :: "rate_config \<Rightarrow> int \<Rightarrow> int \<Rightarrow> limit_phase \<Rightarrow> limit_phase" where
  "fail cfg now maximum Fresh = counted cfg now maximum 1 now"
| "fail cfg now maximum (Counting n w) = counted cfg now maximum (n + 1) w"
| "fail cfg now maximum (Blocked b) = Blocked b"

definition limit_of :: "rate_config \<Rightarrow> string \<Rightarrow> int" where
  "limit_of cfg scope =
     (if scope = ''login.source'' then rc_auth_source_max_failures cfg else rc_auth_max_failures cfg)"

definition entry_ok :: "rate_config \<Rightarrow> limit_entry \<Rightarrow> bool" where
  "entry_ok cfg e \<longleftrightarrow> snd (snd e) = limit_of cfg (fst e)"

text \<open>What the table keeps for every row: counts below the limit, or exactly the limit and a lockout.\<close>

definition limit_row_ok :: "rate_config \<Rightarrow> int \<Rightarrow> limit_row \<Rightarrow> bool" where
  "limit_row_ok cfg now r \<longleftrightarrow>
     1 \<le> l_failure_count r \<and> 0 \<le> l_window_started_at r
     \<and> l_window_started_at r \<le> l_updated_at r \<and> l_updated_at r \<le> now
     \<and> (l_blocked_until r = 0 \<and> l_failure_count r < limit_of cfg (l_scope r)
        \<or> l_blocked_until r = l_updated_at r + rc_auth_lockout_seconds cfg
          \<and> l_failure_count r = limit_of cfg (l_scope r))"

definition limits_ok :: "rate_config \<Rightarrow> int \<Rightarrow> limit_row list \<Rightarrow> bool" where
  "limits_ok cfg now rows \<longleftrightarrow> unique_on l_key rows \<and> (\<forall>r \<in> set rows. limit_row_ok cfg now r)"

abbreviation config_ok :: "rate_config \<Rightarrow> bool" where
  "config_ok cfg \<equiv> rate_config_init cfg = Inr cfg"

lemma config_bounds:
  assumes "config_ok cfg"
  shows "2 \<le> limit_of cfg scope" "limit_of cfg scope \<le> 200" "10 \<le> rc_auth_window_seconds cfg"
    "10 \<le> rc_auth_lockout_seconds cfg"
  using assms by (auto simp: rate_config_init_def res_simps limit_of_def)

lemma limits_ok_later: "limits_ok cfg now rows \<Longrightarrow> now \<le> t \<Longrightarrow> limits_ok cfg t rows"
  by (fastforce simp: limits_ok_def limit_row_ok_def)

lemma limits_ok_filter: "limits_ok cfg now rows \<Longrightarrow> limits_ok cfg now (filter p rows)"
  by (auto simp: limits_ok_def unique_filter)

lemma limit_state_age:
  "0 \<le> now \<Longrightarrow> now \<le> t \<Longrightarrow> limit_state cfg t rows k = age cfg t (limit_state cfg now rows k)"
  by (auto simp: limit_state_def split: option.splits)

lemma limits_ok_delete: "limits_ok cfg now rows \<Longrightarrow> limits_ok cfg now (delete_limit k rows)"
  by (simp add: delete_limit_def limits_ok_filter)

text \<open>Purging old rows and deleting ended ones is invisible.\<close>

lemma purge_state:
  assumes "config_ok cfg" and "limits_ok cfg now rows" and "0 \<le> now"
  shows "limit_state cfg now (delete_expired_limits
      (now - max (rc_auth_window_seconds cfg) (rc_auth_lockout_seconds cfg) * 2) rows) k
    = limit_state cfg now rows k"
proof (cases "select l_key k rows")
  case None
  then show ?thesis
    using assms(2) by (simp add: limit_state_def delete_expired_limits_def select_filter_unique limits_ok_def)
next
  case (Some r)
  have "limit_row_ok cfg now r" using Some assms(2) select_Some_D by (fastforce simp: limits_ok_def)
  then show ?thesis
    using Some assms(2) config_bounds(3,4) [OF assms(1)]
    by (auto simp: limit_state_def delete_expired_limits_def select_filter_unique limits_ok_def limit_row_ok_def)
qed

subsection \<open>The service implements the automaton\<close>

definition wait :: "int \<Rightarrow> limit_phase \<Rightarrow> int" where
  "wait now st = (case st of Blocked b \<Rightarrow> b - now | _ \<Rightarrow> 0)"

lemma entry_key_eq [simp]: "entry_key mac cfg (scope, v, m) = (scope, key_hash mac cfg scope v)"
  by (simp add: entry_key_def)

lemma enforce_entry_state:
  assumes "enforce_entry mac cfg now e (retry, rows) = (retry', rows')" and "limits_ok cfg now rows" and "0 \<le> retry"
  shows "limit_state cfg now rows' k = limit_state cfg now rows k" "limits_ok cfg now rows'"
    "retry' = max retry (wait now (limit_state cfg now rows (entry_key mac cfg e)))"
  using assms
  by (auto simp: enforce_entry_def Let_def limit_state_def select_delete wait_def limits_ok_delete
      split: option.splits if_splits)

text \<open>The row that a failure writes: in the state the automaton moves to, and well formed.\<close>

lemma next_count_cases:
  assumes "\<not> (row \<noteq> None \<and> l_blocked_until (the row) > now)"
    and "case row of None \<Rightarrow> True | Some r \<Rightarrow> limit_row_ok cfg now r \<and> l_scope r = scope"
    and "config_ok cfg" and "0 \<le> now" and "next_count cfg now row = (n, w)"
  shows "1 \<le> n \<and> n \<le> limit_of cfg scope \<and> 0 \<le> w \<and> w \<le> now \<and> now - w < rc_auth_window_seconds cfg"
  using assms config_bounds(1,2) [OF assms(3), of scope] config_bounds(3,4) [OF assms(3)]
  by (auto simp: next_count_def limit_row_ok_def split: option.splits if_splits)

lemma fail_state:
  assumes "\<not> (select l_key k rows \<noteq> None \<and> l_blocked_until (the (select l_key k rows)) > now)"
    and "next_count cfg now (select l_key k rows) = (n, w)"
  shows "fail cfg now m (limit_state cfg now rows k) = counted cfg now m n w"
  using assms by (auto simp: next_count_def limit_state_def split: option.splits if_splits)

lemma record_entry_state:
  assumes rec: "record_entry mac cfg now e (retry, rows) = (retry', rows')" and ok: "limits_ok cfg now rows"
    and cfg: "config_ok cfg" and e: "entry_ok cfg e" and "0 \<le> retry" and now: "0 \<le> now"
  shows "limit_state cfg now rows' k =
      (if k = entry_key mac cfg e then fail cfg now (snd (snd e)) (limit_state cfg now rows k)
       else limit_state cfg now rows k)
    \<and> limits_ok cfg now rows'
    \<and> retry' = max retry (wait now (limit_state cfg now rows' (entry_key mac cfg e)))"
proof -
  obtain scope v m where es: "e = (scope, v, m)" by (cases e)
  have m: "m = limit_of cfg scope" using e by (simp add: entry_ok_def es)
  note bounds = config_bounds [OF cfg]
  let ?k = "(scope, key_hash mac cfg scope v)"
  let ?row = "select l_key ?k rows"
  have row: "case ?row of None \<Rightarrow> True | Some r \<Rightarrow> limit_row_ok cfg now r \<and> l_scope r = scope"
    using ok select_Some_D by (fastforce simp: limits_ok_def split: option.splits)
  show ?thesis
  proof (cases "?row \<noteq> None \<and> l_blocked_until (the ?row) > now")
    case True
    then have "rows' = rows" "retry' = max retry (l_blocked_until (the ?row) - now)"
      using rec by (auto simp: record_entry_def es Let_def)
    moreover have "limit_state cfg now rows ?k = Blocked (l_blocked_until (the ?row))"
      using True by (auto simp: limit_state_def)
    ultimately show ?thesis using ok by (simp add: es wait_def)
  next
    case False
    obtain n w where nw: "next_count cfg now ?row = (n, w)" by fastforce
    define b where "b = (if n \<ge> m then now + rc_auth_lockout_seconds cfg else 0)"
    define r where "r = \<lparr>l_scope = scope, l_key_hash = key_hash mac cfg scope v, l_failure_count = n,
      l_window_started_at = w, l_blocked_until = b, l_updated_at = now\<rparr>"
    have rows': "rows' = upsert_limit r rows"
      and retry': "retry' = (if b > now then max retry (b - now) else retry)"
      using rec False nw by (auto simp: record_entry_def es Let_def r_def b_def)
    note n = next_count_cases [OF False row cfg now nw]
    have state: "limit_state cfg now rows' k = (if k = ?k then counted cfg now m n w else limit_state cfg now rows k)"
      using n bounds(4) now by (auto simp: limit_state_def rows' select_upsert r_def b_def counted_def)
    have "limit_row_ok cfg now r" using n bounds(4) by (auto simp: limit_row_ok_def r_def b_def m)
    then have "limits_ok cfg now rows'"
      using ok set_upsert [of r rows] unique_upsert [of rows r] by (auto simp: limits_ok_def rows')
    moreover have "retry' = max retry (wait now (counted cfg now m n w))"
      using bounds(4) now \<open>0 \<le> retry\<close> by (auto simp: retry' b_def counted_def wait_def)
    moreover have "limit_state cfg now rows' ?k = counted cfg now m n w"
      using n bounds(4) now by (auto simp: limit_state_def rows' select_upsert r_def b_def counted_def)
    ultimately show ?thesis using state fail_state [OF False nw, of m] by (simp add: es)
  qed
qed

text \<open>A whole call: \<open>enforce\<close> reads the automaton of each entry and changes none.\<close>

lemma enforce_fold:
  assumes "fold (enforce_entry mac cfg now) entries (retry, rows) = (retry', rows')"
    and "limits_ok cfg now rows" and "0 \<le> retry"
  shows "limits_ok cfg now rows' \<and> (\<forall>k. limit_state cfg now rows' k = limit_state cfg now rows k)
    \<and> retry' = fold (\<lambda>e r. max r (wait now (limit_state cfg now rows (entry_key mac cfg e)))) entries retry"
  using assms
proof (induction entries arbitrary: retry rows)
  case (Cons e entries)
  obtain r1 rows1 where s: "enforce_entry mac cfg now e (retry, rows) = (r1, rows1)" by fastforce
  note S = enforce_entry_state [OF s Cons.prems(2,3)]
  have "fold (enforce_entry mac cfg now) entries (r1, rows1) = (retry', rows')"
    using Cons.prems(1) by (simp add: s)
  from Cons.IH [OF this S(2)] S Cons.prems(3) show ?case by simp
qed simp

lemma fold_max:
  fixes f :: "'a \<Rightarrow> int"
  shows "fold (\<lambda>e r. max r (f e)) xs r = Max (insert r (f ` set xs))"
proof (induction xs arbitrary: r)
  case (Cons x xs)
  have "Max (insert (max r (f x)) (f ` set xs)) = Max (insert r (insert (f x) (f ` set xs)))"
    by (cases "xs = []") (auto simp: Max_insert max.assoc)
  then show ?case by (simp add: Cons.IH)
qed simp

definition refusal :: "mac \<Rightarrow> rate_config \<Rightarrow> int \<Rightarrow> limit_entry list \<Rightarrow> limit_row list \<Rightarrow> int" where
  "refusal mac cfg now entries rows =
     Max (insert 0 ((\<lambda>e. wait now (limit_state cfg now rows (entry_key mac cfg e))) ` set entries))"

lemma enforce_state:
  assumes "limits_ok cfg now rows"
  shows "fst (enforce mac cfg now entries rows) = limit_outcome (refusal mac cfg now entries rows)
    \<and> limits_ok cfg now (snd (enforce mac cfg now entries rows))
    \<and> limit_state cfg now (snd (enforce mac cfg now entries rows)) k = limit_state cfg now rows k"
proof -
  obtain r rows' where f: "fold (enforce_entry mac cfg now) entries (0, rows) = (r, rows')" by fastforce
  show ?thesis
    using enforce_fold [OF f assms] by (simp add: enforce_def f refusal_def fold_max del: split_paired_All)
qed

lemma record_fold:
  assumes "fold (record_entry mac cfg now) entries (retry, rows) = (retry', rows')"
    and "limits_ok cfg now rows" and "0 \<le> retry" and "config_ok cfg" and "0 \<le> now"
    and "list_all (entry_ok cfg) entries" and "distinct (map (entry_key mac cfg) entries)"
  shows "limits_ok cfg now rows'
    \<and> (\<forall>k. k \<notin> entry_key mac cfg ` set entries \<longrightarrow> limit_state cfg now rows' k = limit_state cfg now rows k)
    \<and> (\<forall>e \<in> set entries. limit_state cfg now rows' (entry_key mac cfg e) =
          fail cfg now (snd (snd e)) (limit_state cfg now rows (entry_key mac cfg e)))
    \<and> retry' = fold (\<lambda>e r. max r (wait now (limit_state cfg now rows' (entry_key mac cfg e)))) entries retry"
  using assms
proof (induction entries arbitrary: retry rows)
  case (Cons e entries)
  obtain r1 rows1 where s: "record_entry mac cfg now e (retry, rows) = (r1, rows1)" by fastforce
  have S: "limit_state cfg now rows1 k =
      (if k = entry_key mac cfg e then fail cfg now (snd (snd e)) (limit_state cfg now rows k)
       else limit_state cfg now rows k)"
    and ok: "limits_ok cfg now rows1"
    and r1: "r1 = max retry (wait now (limit_state cfg now rows1 (entry_key mac cfg e)))" for k
    using record_entry_state [OF s Cons.prems(2,4) _ Cons.prems(3,5)] Cons.prems(6) by simp_all
  have "fold (record_entry mac cfg now) entries (r1, rows1) = (retry', rows')"
    using Cons.prems(1) by (simp add: s)
  note I = Cons.IH [OF this ok _ Cons.prems(4,5)]
  have "0 \<le> r1" using r1 Cons.prems(3) by simp
  then have I: "limits_ok cfg now rows'
    \<and> (\<forall>k. k \<notin> entry_key mac cfg ` set entries \<longrightarrow> limit_state cfg now rows' k = limit_state cfg now rows1 k)
    \<and> (\<forall>e \<in> set entries. limit_state cfg now rows' (entry_key mac cfg e) =
          fail cfg now (snd (snd e)) (limit_state cfg now rows1 (entry_key mac cfg e)))
    \<and> retry' = fold (\<lambda>e r. max r (wait now (limit_state cfg now rows' (entry_key mac cfg e)))) entries r1"
    using I Cons.prems(6,7) by simp
  have fresh: "entry_key mac cfg e \<notin> entry_key mac cfg ` set entries" using Cons.prems(7) by simp
  then have "limit_state cfg now rows' (entry_key mac cfg e) = limit_state cfg now rows1 (entry_key mac cfg e)"
    using I by blast
  moreover have "entry_key mac cfg x \<noteq> entry_key mac cfg e" if "x \<in> set entries" for x
    using fresh that by (metis image_eqI)
  ultimately show ?case using I S r1 by simp
qed simp

lemma record_state:
  assumes "limits_ok cfg now rows" and "config_ok cfg" and "0 \<le> now"
    and "list_all (entry_ok cfg) entries" and "distinct (map (entry_key mac cfg) entries)"
  shows "fst (record_failure mac cfg now entries rows)
      = limit_outcome (refusal mac cfg now entries (snd (record_failure mac cfg now entries rows)))"
    and "limits_ok cfg now (snd (record_failure mac cfg now entries rows))"
    and "k \<notin> entry_key mac cfg ` set entries \<Longrightarrow>
      limit_state cfg now (snd (record_failure mac cfg now entries rows)) k = limit_state cfg now rows k"
    and "e \<in> set entries \<Longrightarrow>
      limit_state cfg now (snd (record_failure mac cfg now entries rows)) (entry_key mac cfg e)
        = fail cfg now (snd (snd e)) (limit_state cfg now rows (entry_key mac cfg e))"
proof -
  let ?b = "now - max (rc_auth_window_seconds cfg) (rc_auth_lockout_seconds cfg) * 2"
  let ?rows = "delete_expired_limits ?b rows"
  obtain r rows' where f: "fold (record_entry mac cfg now) entries (0, ?rows) = (r, rows')" by fastforce
  have ok: "limits_ok cfg now ?rows" using assms(1) by (simp add: delete_expired_limits_def limits_ok_filter)
  note R = record_fold [OF f ok order_refl assms(2,3,4,5), unfolded purge_state [OF assms(2,1,3)]]
  have res: "record_failure mac cfg now entries rows = (limit_outcome r, rows')"
    by (simp add: record_failure_def Let_def f)
  show "fst (record_failure mac cfg now entries rows)
      = limit_outcome (refusal mac cfg now entries (snd (record_failure mac cfg now entries rows)))"
    using R by (simp add: res refusal_def fold_max del: split_paired_All)
  show "limits_ok cfg now (snd (record_failure mac cfg now entries rows))"
    using R by (simp add: res del: split_paired_All)
  show "limit_state cfg now (snd (record_failure mac cfg now entries rows)) k = limit_state cfg now rows k"
    if "k \<notin> entry_key mac cfg ` set entries"
    using R that by (simp add: res del: split_paired_All)
  show "limit_state cfg now (snd (record_failure mac cfg now entries rows)) (entry_key mac cfg e)
        = fail cfg now (snd (snd e)) (limit_state cfg now rows (entry_key mac cfg e))" if "e \<in> set entries"
    using R that by (simp add: res del: split_paired_All)
qed

lemma login_entries: "list_all (entry_ok cfg) (login_keys cfg username source)"
  "distinct (map (entry_key mac cfg) (login_keys cfg username source))"
  by (simp_all add: login_keys_def entry_ok_def limit_of_def)

lemma bootstrap_entries: "list_all (entry_ok cfg) (bootstrap_keys cfg source)"
  "distinct (map (entry_key mac cfg) (bootstrap_keys cfg source))"
  by (simp_all add: bootstrap_keys_def entry_ok_def limit_of_def)

lemma clear_state:
  assumes "limits_ok cfg now rows"
  shows "limits_ok cfg now (clear mac cfg entries rows)"
    and "limit_state cfg t (clear mac cfg entries rows) k =
      (if k \<in> entry_key mac cfg ` set entries then Fresh else limit_state cfg t rows k)"
proof -
  show "limits_ok cfg now (clear mac cfg entries rows)"
    using assms unfolding clear_def by (induction entries arbitrary: rows) (auto simp: limits_ok_delete)
  show "limit_state cfg t (clear mac cfg entries rows) k =
      (if k \<in> entry_key mac cfg ` set entries then Fresh else limit_state cfg t rows k)"
    unfolding clear_def
    by (induction entries arbitrary: rows) (auto simp: limit_state_def select_delete)
qed

end
