(* ===== verification/Auth_Rate_Properties.thy ===== *)
theory Auth_Rate_Properties
  imports Auth_Rate_Limit
begin

text \<open>
  Reachable rate-limit tables and what the limit promises for them: the automaton of each key, and bounded
  waiting times.
\<close>

definition service_entries :: "rate_config \<Rightarrow> limit_entry list \<Rightarrow> bool" where
  "service_entries cfg entries \<longleftrightarrow>
     (\<exists>username source. entries = login_keys cfg username source) \<or> (\<exists>source. entries = bootstrap_keys cfg source)"

text \<open>The calls of the service on a clock that does not go back.\<close>

inductive limits_reachable :: "mac \<Rightarrow> rate_config \<Rightarrow> int \<Rightarrow> limit_row list \<Rightarrow> bool" for mac cfg where
  empty: "limits_reachable mac cfg 0 []"
| tick: "limits_reachable mac cfg now rows \<Longrightarrow> now \<le> t \<Longrightarrow> limits_reachable mac cfg t rows"
| enforced: "limits_reachable mac cfg now rows \<Longrightarrow> service_entries cfg entries \<Longrightarrow>
    limits_reachable mac cfg now (snd (enforce mac cfg now entries rows))"
| failed: "limits_reachable mac cfg now rows \<Longrightarrow> service_entries cfg entries \<Longrightarrow>
    limits_reachable mac cfg now (snd (record_failure mac cfg now entries rows))"
| cleared: "limits_reachable mac cfg now rows \<Longrightarrow> service_entries cfg entries \<Longrightarrow>
    limits_reachable mac cfg now (clear mac cfg entries rows)"

lemma service_entries_ok:
  assumes "service_entries cfg entries"
  shows "list_all (entry_ok cfg) entries" "distinct (map (entry_key mac cfg) entries)"
  using assms login_entries bootstrap_entries by (auto simp: service_entries_def)

lemma reachable_ok:
  assumes "limits_reachable mac cfg now rows" and "config_ok cfg"
  shows "limits_ok cfg now rows \<and> 0 \<le> now"
  using assms
proof (induction rule: limits_reachable.induct)
  case empty
  then show ?case by (simp add: limits_ok_def unique_on_def)
next
  case (tick now rows t)
  then show ?case by (auto intro: limits_ok_later)
next
  case (enforced now rows entries)
  then show ?case using enforce_state by blast
next
  case (failed now rows entries)
  then show ?case using record_state(2) service_entries_ok by blast
next
  case (cleared now rows entries)
  then show ?case using clear_state(1) by blast
qed

text \<open>The states a table can be in.\<close>

lemma limit_state_live:
  assumes "limits_ok cfg now rows" and "config_ok cfg" and "0 \<le> now"
  shows "case limit_state cfg now rows (scope, kh) of
      Fresh \<Rightarrow> True
    | Counting n w \<Rightarrow> 1 \<le> n \<and> n < limit_of cfg scope \<and> w \<le> now \<and> now < w + rc_auth_window_seconds cfg
    | Blocked b \<Rightarrow> now < b \<and> b \<le> now + rc_auth_lockout_seconds cfg"
proof (cases "select l_key (scope, kh) rows")
  case (Some r)
  then have "limit_row_ok cfg now r" "l_scope r = scope"
    using assms(1) select_Some_D by (fastforce simp: limits_ok_def)+
  then show ?thesis
    using Some config_bounds(3,4) [OF assms(2)] by (auto simp: limit_state_def limit_row_ok_def)
qed (simp add: limit_state_def)

lemma wait_bounds:
  assumes "limits_ok cfg now rows" and "config_ok cfg" and "0 \<le> now"
  shows "0 \<le> wait now (limit_state cfg now rows k) \<and> wait now (limit_state cfg now rows k) \<le> rc_auth_lockout_seconds cfg"
  using limit_state_live [OF assms, of "fst k" "snd k"] config_bounds(4) [OF assms(2)]
  by (auto simp: wait_def split: limit_phase.splits)

lemma refusal_bounds:
  assumes "limits_ok cfg now rows" and "config_ok cfg" and "0 \<le> now"
  shows "0 \<le> refusal mac cfg now entries rows \<and> refusal mac cfg now entries rows \<le> rc_auth_lockout_seconds cfg"
  using wait_bounds [OF assms] config_bounds(4) [OF assms(2)] by (auto simp: refusal_def)

lemma not_refused:
  assumes "limits_ok cfg now rows" and "config_ok cfg" and "0 \<le> now"
    and "refusal mac cfg now entries rows = 0" and "(scope, v, m) \<in> set entries"
  shows "limit_state cfg now rows (scope, key_hash mac cfg scope v) \<noteq> Blocked b"
proof
  assume b: "limit_state cfg now rows (scope, key_hash mac cfg scope v) = Blocked b"
  have "wait now (limit_state cfg now rows (entry_key mac cfg (scope, v, m))) \<le> refusal mac cfg now entries rows"
    unfolding refusal_def using assms(5) by (intro Max_ge insertI2 imageI) simp_all
  moreover have "now < b" using limit_state_live [OF assms(1-3), of scope "key_hash mac cfg scope v"] b by simp
  ultimately show False using assms(4) b by (simp add: wait_def)
qed

subsection \<open>Properties\<close>

text \<open>
  (C38) Between calls each key of the table follows its automaton: \<open>enforce\<close> changes no state,
  \<open>record_failure\<close> moves exactly the keys of its entries by one failure, \<open>clear\<close> resets them, and time
  only ends windows and lockouts; lazy deletion and purging of rows are never visible.
\<close>

theorem rate_limit_refines:
  assumes "limits_reachable mac cfg now rows" and "config_ok cfg" and "service_entries cfg entries" and "now \<le> t"
  shows "limit_state cfg now (snd (enforce mac cfg now entries rows)) k = limit_state cfg now rows k
    \<and> (k \<notin> entry_key mac cfg ` set entries \<longrightarrow>
         limit_state cfg now (snd (record_failure mac cfg now entries rows)) k = limit_state cfg now rows k)
    \<and> (\<forall>e \<in> set entries. entry_key mac cfg e = k \<longrightarrow>
         limit_state cfg now (snd (record_failure mac cfg now entries rows)) k
           = fail cfg now (limit_of cfg (fst k)) (limit_state cfg now rows k))
    \<and> limit_state cfg now (clear mac cfg entries rows) k =
        (if k \<in> entry_key mac cfg ` set entries then Fresh else limit_state cfg now rows k)
    \<and> limit_state cfg t rows k = age cfg t (limit_state cfg now rows k)"
proof -
  have ok: "limits_ok cfg now rows" and now: "0 \<le> now" using reachable_ok assms(1,2) by blast+
  note R = record_state [where mac = mac and entries = entries, OF ok assms(2) now service_entries_ok [OF assms(3)]]
  have moved: "limit_state cfg now (snd (record_failure mac cfg now entries rows)) (entry_key mac cfg e)
      = fail cfg now (limit_of cfg (fst (entry_key mac cfg e))) (limit_state cfg now rows (entry_key mac cfg e))"
    if "e \<in> set entries" for e
    using R(4) [OF that] service_entries_ok(1) [OF assms(3)] that
    by (cases e) (auto simp: list_all_iff entry_ok_def)
  show ?thesis
  proof (intro conjI impI ballI)
    show "limit_state cfg now (snd (enforce mac cfg now entries rows)) k = limit_state cfg now rows k"
      using enforce_state [OF ok] by simp
  qed (use R(3) moved clear_state(2) [OF ok] limit_state_age [OF now assms(4)] in auto)
qed

text \<open>
  Whoever is refused is told to wait at least one second and at most the configured lockout,
  by \<open>enforce\<close> and by the failure that reaches the limit alike.
\<close>

lemma retry_after_bounds:
  assumes "limits_reachable mac cfg now rows" and "config_ok cfg" and "service_entries cfg entries"
    and "fst (enforce mac cfg now entries rows) = Inl (RateLimitExceeded n)
      \<or> fst (record_failure mac cfg now entries rows) = Inl (RateLimitExceeded n)"
  shows "1 \<le> n \<and> n \<le> rc_auth_lockout_seconds cfg"
proof -
  have ok: "limits_ok cfg now rows" and now: "0 \<le> now" using reachable_ok assms(1,2) by blast+
  note R = record_state [where mac = mac and entries = entries, OF ok assms(2) now service_entries_ok [OF assms(3)]]
  from assms(4) have "\<exists>r. limit_outcome r = Inl (RateLimitExceeded n) \<and> 0 \<le> r \<and> r \<le> rc_auth_lockout_seconds cfg"
  proof
    assume "fst (enforce mac cfg now entries rows) = Inl (RateLimitExceeded n)"
    then show ?thesis
      using enforce_state [OF ok, of mac entries] refusal_bounds [OF ok assms(2) now, of mac entries] by metis
  next
    assume "fst (record_failure mac cfg now entries rows) = Inl (RateLimitExceeded n)"
    then show ?thesis
      using R(1) refusal_bounds [OF R(2) assms(2) now, of mac entries] by metis
  qed
  then show ?thesis by (auto simp: limit_outcome_def split: if_splits)
qed

subsection \<open>A concrete run\<close>

text \<open>
  One failure at instant 0.
\<close>

definition wit_rate_config :: rate_config where
  "wit_rate_config =
     \<lparr>rc_session_signing_secret = ''0123456789abcdef0123456789abcdef'', rc_auth_max_failures = 3,
      rc_auth_source_max_failures = 20, rc_auth_window_seconds = 300, rc_auth_lockout_seconds = 900\<rparr>"

definition wit_mac :: mac where
  "wit_mac secret message = message"

definition wit_limits :: "limit_row list" where
  "wit_limits = snd (record_failure wit_mac wit_rate_config 0 (login_keys wit_rate_config ''ann'' ''10.0.0.1'') [])"

lemma wit_config_ok: "config_ok wit_rate_config"
  by code_simp

lemma wit_limits_reachable: "limits_reachable wit_mac wit_rate_config 0 wit_limits"
  unfolding wit_limits_def
  by (rule limits_reachable.failed [OF limits_reachable.empty]) (auto simp: service_entries_def)

theorem rate_limit_refines_witness:
  "limit_state wit_rate_config 7 (snd (record_failure wit_mac wit_rate_config 7
     (login_keys wit_rate_config ''ann'' ''10.0.0.2'') wit_limits)) (''login.account'', ''login.account'' @ [CHR 0x00] @ ''ann'')
   = Counting 2 0"
proof -
  let ?E = "login_keys wit_rate_config ''ann'' ''10.0.0.2''" and ?k = "(''login.account'', ''login.account'' @ [CHR 0x00] @ ''ann'')"
  have reach: "limits_reachable wit_mac wit_rate_config 7 wit_limits"
    by (rule limits_reachable.tick [OF wit_limits_reachable]) simp
  have E: "service_entries wit_rate_config ?E" by (auto simp: service_entries_def)
  have e: "(''login.account'', ''ann'', 3) \<in> set ?E" by (simp add: login_keys_def wit_rate_config_def)
  have k: "entry_key wit_mac wit_rate_config (''login.account'', ''ann'', 3) = ?k" by code_simp
  have "limit_state wit_rate_config 7 (snd (record_failure wit_mac wit_rate_config 7 ?E wit_limits)) ?k
      = fail wit_rate_config 7 (limit_of wit_rate_config (fst ?k)) (limit_state wit_rate_config 7 wit_limits ?k)"
    using rate_limit_refines [OF reach wit_config_ok E order_refl, of ?k] e k by blast
  also have "\<dots> = Counting 2 0" by code_simp
  finally show ?thesis .
qed

end
