(* ===== verification/Auth_Login.thy ===== *)
theory Auth_Login
  imports Auth_Rate_Properties
begin

text \<open>
  The login handler (\<open>login\<close> in \<open>api.py\<close>) on top of the rate limit, and the bound on the wrong passwords that
  anybody is told in a span of time.

  A request first passes \<open>enforce\<close>; then the password is checked, outside any transaction; then the failure is
  recorded or the counters are cleared, in a transaction of its own.  Requests run concurrently, so the
  state of the server has the requests that passed \<open>enforce\<close> and whose password check has not answered yet,
  and each of the two transactions of a request is an event.  The verdict of the identity provider is part of
  the event.  A check that ends in another exception than \<open>PermissionError\<close> records and clears nothing.
  The handler \<open>bootstrap\<close> writes the same table; its calls are events of their own, in any order.
\<close>

subsection \<open>The handler\<close>

datatype bootstrap_event =
    Bootstrap_Request string
  | Bootstrap_Denied string
  | Bootstrap_Accepted string

fun bootstrap_step :: "mac \<Rightarrow> rate_config \<Rightarrow> int \<Rightarrow> bootstrap_event \<Rightarrow> limit_row list \<Rightarrow> limit_row list" where
  "bootstrap_step mac cfg now (Bootstrap_Request source) rows = snd (enforce mac cfg now (bootstrap_keys cfg source) rows)"
| "bootstrap_step mac cfg now (Bootstrap_Denied source) rows = snd (record_failure mac cfg now (bootstrap_keys cfg source) rows)"
| "bootstrap_step mac cfg now (Bootstrap_Accepted source) rows = clear mac cfg (bootstrap_keys cfg source) rows"

datatype login_event =
    Login_Request string string
  | Password_Denied nat
  | Password_Accepted nat
  | Check_Aborted nat
  | Bootstrap bootstrap_event

type_synonym pending_login = "string \<times> string"

definition without :: "nat \<Rightarrow> 'a list \<Rightarrow> 'a list" where
  "without i xs = take i xs @ drop (Suc i) xs"

text \<open>User name and source address of the requests between their transactions; a number names one of them.\<close>

fun login_step ::
  "mac \<Rightarrow> rate_config \<Rightarrow> int \<Rightarrow> login_event \<Rightarrow> limit_row list \<times> pending_login list \<Rightarrow> limit_row list \<times> pending_login list" where
  "login_step mac cfg now (Login_Request username source) (rows, pending) =
     (let (admitted, rows') = enforce mac cfg now (login_keys cfg username source) rows in
      (rows', if admitted = Inr () then pending @ [(username, source)] else pending))"
| "login_step mac cfg now (Password_Denied i) (rows, pending) =
     (if i < length pending
      then (case pending ! i of (username, source) \<Rightarrow>
        (snd (record_failure mac cfg now (login_keys cfg username source) rows), without i pending))
      else (rows, pending))"
| "login_step mac cfg now (Password_Accepted i) (rows, pending) =
     (if i < length pending
      then (case pending ! i of (username, source) \<Rightarrow>
        (clear mac cfg (login_keys cfg username source) rows, without i pending))
      else (rows, pending))"
| "login_step mac cfg now (Check_Aborted i) (rows, pending) = (rows, without i pending)"
| "login_step mac cfg now (Bootstrap b) (rows, pending) = (bootstrap_step mac cfg now b rows, pending)"

subsection \<open>What happens to one account\<close>

text \<open>An account is given by the keyed digest of its name, so that all spellings of the name count.\<close>

definition on_account :: "mac \<Rightarrow> rate_config \<Rightarrow> string \<Rightarrow> pending_login \<Rightarrow> bool" where
  "on_account mac cfg kh p \<longleftrightarrow> key_hash mac cfg ''login.account'' (fst p) = kh"

definition in_flight :: "mac \<Rightarrow> rate_config \<Rightarrow> string \<Rightarrow> pending_login list \<Rightarrow> nat" where
  "in_flight mac cfg kh pending = length (filter (on_account mac cfg kh) pending)"

text \<open>The answer that a requester gets about a password for the account, if the event gives one.\<close>

fun answer :: "mac \<Rightarrow> rate_config \<Rightarrow> string \<Rightarrow> login_event \<Rightarrow> pending_login list \<Rightarrow> bool option" where
  "answer mac cfg kh (Password_Denied i) pending =
     (if i < length pending \<and> on_account mac cfg kh (pending ! i) then Some False else None)"
| "answer mac cfg kh (Password_Accepted i) pending =
     (if i < length pending \<and> on_account mac cfg kh (pending ! i) then Some True else None)"
| "answer mac cfg kh _ pending = None"

text \<open>Over a sequence of events: the answers of one kind, and the most requests that were in flight at once.\<close>

fun answers ::
  "mac \<Rightarrow> rate_config \<Rightarrow> string \<Rightarrow> bool \<Rightarrow> (int \<times> login_event) list \<Rightarrow> limit_row list \<times> pending_login list \<Rightarrow> nat" where
  "answers mac cfg kh verdict [] st = 0"
| "answers mac cfg kh verdict ((now, ev) # events) st =
     of_bool (answer mac cfg kh ev (snd st) = Some verdict) + answers mac cfg kh verdict events (login_step mac cfg now ev st)"

fun peak ::
  "mac \<Rightarrow> rate_config \<Rightarrow> string \<Rightarrow> (int \<times> login_event) list \<Rightarrow> limit_row list \<times> pending_login list \<Rightarrow> nat" where
  "peak mac cfg kh [] st = in_flight mac cfg kh (snd st)"
| "peak mac cfg kh ((now, ev) # events) st =
     max (in_flight mac cfg kh (snd st)) (peak mac cfg kh events (login_step mac cfg now ev st))"

lemma in_flight_without:
  assumes "i < length pending"
  shows "in_flight mac cfg kh pending = in_flight mac cfg kh (without i pending) + of_bool (on_account mac cfg kh (pending ! i))"
  by (subst id_take_nth_drop [OF assms]) (simp add: in_flight_def without_def)

lemma in_flight_shrinks: "in_flight mac cfg kh (without i pending) \<le> in_flight mac cfg kh pending"
  using in_flight_without [of i pending mac cfg kh] by (cases "i < length pending") (simp_all add: without_def)

text \<open>One event, seen from the account: nothing, a request comes in, or an answer.\<close>

abbreviation account_state :: "rate_config \<Rightarrow> int \<Rightarrow> limit_row list \<Rightarrow> string \<Rightarrow> limit_phase" where
  "account_state cfg now rows kh \<equiv> limit_state cfg now rows (''login.account'', kh)"

lemma account_keys:
  "(''login.account'', kh) \<in> entry_key mac cfg ` set (login_keys cfg u src) \<longleftrightarrow> on_account mac cfg kh (u, src)"
  "(''login.account'', kh) \<notin> entry_key mac cfg ` set (bootstrap_keys cfg src)"
  by (auto simp: login_keys_def bootstrap_keys_def on_account_def)

lemma account_entry: "(''login.account'', u, rc_auth_max_failures cfg) \<in> set (login_keys cfg u src)"
  by (simp add: login_keys_def)

lemma login_recorded:
  assumes "limits_ok cfg now rows" and "config_ok cfg" and "0 \<le> now"
  shows "limits_ok cfg now (snd (record_failure mac cfg now (login_keys cfg u src) rows))"
    and "account_state cfg now (snd (record_failure mac cfg now (login_keys cfg u src) rows)) kh =
      (if on_account mac cfg kh (u, src) then fail cfg now (rc_auth_max_failures cfg) (account_state cfg now rows kh)
       else account_state cfg now rows kh)"
proof -
  note R = record_state [where mac = mac and entries = "login_keys cfg u src", OF assms login_entries]
  show "limits_ok cfg now (snd (record_failure mac cfg now (login_keys cfg u src) rows))" by (rule R(2))
  show "account_state cfg now (snd (record_failure mac cfg now (login_keys cfg u src) rows)) kh =
      (if on_account mac cfg kh (u, src) then fail cfg now (rc_auth_max_failures cfg) (account_state cfg now rows kh)
       else account_state cfg now rows kh)"
    using R(3) [of "(''login.account'', kh)"] R(4) [OF account_entry] account_keys(1)
    by (auto simp: on_account_def)
qed

lemma bootstrap_step_effect:
  assumes ok: "limits_ok cfg now rows" and "config_ok cfg" and "0 \<le> now"
  shows "limits_ok cfg now (bootstrap_step mac cfg now b rows)
    \<and> account_state cfg now (bootstrap_step mac cfg now b rows) kh = account_state cfg now rows kh"
proof (cases b)
  case (Bootstrap_Request src)
  then show ?thesis using enforce_state [OF ok, of mac "bootstrap_keys cfg src"] by simp
next
  case (Bootstrap_Denied src)
  then show ?thesis
    using record_state(2,3) [where mac = mac and entries = "bootstrap_keys cfg src", OF assms bootstrap_entries] account_keys(2)
    by simp
next
  case (Bootstrap_Accepted src)
  then show ?thesis
    using clear_state [OF ok, where mac = mac and entries = "bootstrap_keys cfg src"] account_keys(2) [of kh mac cfg src] by simp
qed

text \<open>A request that is let in finds the account unblocked.\<close>

lemma admitted_unblocked:
  assumes "limits_ok cfg now rows" and "config_ok cfg" and "0 \<le> now"
    and "enforce mac cfg now (login_keys cfg u src) rows = (Inr (), rows')" and "on_account mac cfg kh (u, src)"
  shows "account_state cfg now rows kh \<noteq> Blocked b"
proof -
  have "refusal mac cfg now (login_keys cfg u src) rows = 0"
    using conjunct1 [OF enforce_state [OF assms(1), of mac "login_keys cfg u src"]] assms(4)
    by (simp add: limit_outcome_def split: if_splits)
  from not_refused [OF assms(1-3) this account_entry] show ?thesis using assms(5) by (simp add: on_account_def)
qed

lemma login_step_effect:
  assumes step: "login_step mac cfg now ev (rows, pending) = (rows', pending')"
    and ok: "limits_ok cfg now rows" and cfg: "config_ok cfg" and now: "0 \<le> now"
  shows "limits_ok cfg now rows' \<and> (case answer mac cfg kh ev pending of
       None \<Rightarrow> account_state cfg now rows' kh = account_state cfg now rows kh
         \<and> (in_flight mac cfg kh pending' \<le> in_flight mac cfg kh pending
            \<or> (\<forall>b. account_state cfg now rows kh \<noteq> Blocked b))
     | Some verdict \<Rightarrow> in_flight mac cfg kh pending = in_flight mac cfg kh pending' + 1
         \<and> account_state cfg now rows' kh =
             (if verdict then Fresh else fail cfg now (rc_auth_max_failures cfg) (account_state cfg now rows kh)))"
proof (cases ev)
  case (Login_Request u src)
  obtain res rows1 where e: "enforce mac cfg now (login_keys cfg u src) rows = (res, rows1)" by fastforce
  note E = enforce_state [OF ok, of mac "login_keys cfg u src", unfolded e]
  have grows: "in_flight mac cfg kh (pending @ [(u, src)]) \<le> in_flight mac cfg kh pending"
    if "\<not> on_account mac cfg kh (u, src)" using that by (simp add: in_flight_def)
  show ?thesis
    using step E admitted_unblocked [OF ok cfg now, of mac u src rows1 kh] grows e
    by (cases "on_account mac cfg kh (u, src)") (auto simp: Login_Request split: if_splits)
next
  case (Password_Denied i)
  obtain u src where p: "pending ! i = (u, src)" by fastforce
  show ?thesis
    using step ok login_recorded [OF ok cfg now, of mac u src] in_flight_without [of i pending mac cfg kh]
    by (cases "i < length pending") (auto simp: Password_Denied p)
next
  case (Password_Accepted i)
  obtain u src where p: "pending ! i = (u, src)" by fastforce
  show ?thesis
    using step ok clear_state [OF ok, where mac = mac and entries = "login_keys cfg u src"] in_flight_without [of i pending mac cfg kh]
      account_keys(1) [of kh mac cfg u src]
    by (cases "i < length pending") (auto simp: Password_Accepted p)
next
  case (Check_Aborted i)
  then show ?thesis using step ok in_flight_shrinks by auto
next
  case (Bootstrap b)
  then show ?thesis using step bootstrap_step_effect [OF ok cfg now, of mac b kh] by auto
qed

subsection \<open>How much the limit allows\<close>

text \<open>How many more failures the automaton of a key takes before a lockout that lasts beyond the instant \<open>until\<close>.\<close>

definition budget :: "rate_config \<Rightarrow> int \<Rightarrow> limit_phase \<Rightarrow> int" where
  "budget cfg until st =
     (let m = rc_auth_max_failures cfg in
      case st of
        Fresh \<Rightarrow> m
      | Counting n w \<Rightarrow> if until < w + rc_auth_window_seconds cfg then m - n else 2 * m - 1 - n
      | Blocked b \<Rightarrow> if until < b then 0 else m)"

lemma budget_bounds:
  assumes "limits_ok cfg now rows" and "config_ok cfg" and "0 \<le> now"
  shows "0 \<le> budget cfg until (limit_state cfg now rows (''login.account'', kh))
    \<and> budget cfg until (limit_state cfg now rows (''login.account'', kh)) \<le> 2 * rc_auth_max_failures cfg - 2"
  using limit_state_live [OF assms, of "''login.account''" kh] config_bounds(1) [OF assms(2), of "''login.account''"]
  by (auto simp: budget_def Let_def limit_of_def split: limit_phase.splits)

lemma budget_age:
  assumes "limits_ok cfg now rows" and "config_ok cfg" and "0 \<le> now" and "now \<le> t" and "t \<le> until"
  shows "budget cfg until (limit_state cfg t rows (''login.account'', kh))
    \<le> budget cfg until (limit_state cfg now rows (''login.account'', kh))"
  using limit_state_live [OF assms(1-3), of "''login.account''" kh] config_bounds(1) [OF assms(2), of "''login.account''"]
    limit_state_age [OF assms(3,4), of cfg rows "(''login.account'', kh)"] assms(5)
  by (auto simp: budget_def Let_def limit_of_def split: limit_phase.splits)

lemma budget_fail:
  assumes "limits_ok cfg now rows" and "config_ok cfg" and "0 \<le> now" and "now \<le> until"
    and "until < now + rc_auth_window_seconds cfg" and "until < now + rc_auth_lockout_seconds cfg"
    and "\<And>b. limit_state cfg now rows (''login.account'', kh) \<noteq> Blocked b"
  shows "1 + budget cfg until (fail cfg now (rc_auth_max_failures cfg) (limit_state cfg now rows (''login.account'', kh)))
    \<le> budget cfg until (limit_state cfg now rows (''login.account'', kh))"
  using limit_state_live [OF assms(1-3), of "''login.account''" kh] config_bounds(1) [OF assms(2), of "''login.account''"]
    assms(3-7)
  by (cases "limit_state cfg now rows (''login.account'', kh)") (auto simp: budget_def Let_def limit_of_def counted_def)

lemma budget_positive:
  assumes "limits_ok cfg now rows" and "config_ok cfg" and "0 \<le> now" and "\<And>b. account_state cfg now rows kh \<noteq> Blocked b"
  shows "1 \<le> budget cfg until (account_state cfg now rows kh)"
  using limit_state_live [OF assms(1-3), of "''login.account''" kh] config_bounds(1) [OF assms(2), of "''login.account''"] assms(4)
  by (auto simp: budget_def Let_def limit_of_def split: limit_phase.splits)

text \<open>How many more wrong passwords can be answered, with at most \<open>c\<close> requests at once, of which \<open>p\<close> are in flight.\<close>

definition allowance :: "rate_config \<Rightarrow> int \<Rightarrow> nat \<Rightarrow> limit_phase \<Rightarrow> nat \<Rightarrow> int" where
  "allowance cfg until c st p =
     (case st of
        Blocked b \<Rightarrow> if until < b then int p else rc_auth_max_failures cfg + int c - 1 + int p
      | _ \<Rightarrow> budget cfg until st + int c - 1)"

lemma allowance_unblocked:
  "\<forall>b. st \<noteq> Blocked b \<Longrightarrow> allowance cfg until c st p = budget cfg until st + int c - 1"
  by (cases st) (simp_all add: allowance_def)

lemma allowance_bound:
  assumes "limits_ok cfg now rows" and "config_ok cfg" and "0 \<le> now" and "p \<le> c"
  shows "allowance cfg until c (account_state cfg now rows kh) p \<le> 2 * rc_auth_max_failures cfg + int c - 3 + int p"
  using budget_bounds [OF assms(1-3), of until kh] config_bounds(1) [OF assms(2), of "''login.account''"] assms(4)
  by (cases "account_state cfg now rows kh") (auto simp: allowance_def limit_of_def)

lemma allowance_positive:
  assumes "limits_ok cfg now rows" and "config_ok cfg" and "0 \<le> now" and "1 \<le> p" and "p \<le> c"
  shows "1 \<le> allowance cfg until c (account_state cfg now rows kh) p"
  using budget_positive [OF assms(1-3), of kh until] config_bounds(1) [OF assms(2), of "''login.account''"] assms(4,5)
  by (cases "account_state cfg now rows kh") (auto simp: allowance_def limit_of_def)

lemma allowance_mono:
  assumes "p \<le> q \<or> (\<forall>b. st \<noteq> Blocked b)"
  shows "allowance cfg until c st p \<le> allowance cfg until c st q"
  using assms by (cases st) (auto simp: allowance_def)

lemma allowance_age:
  assumes "limits_ok cfg now rows" and "config_ok cfg" and "0 \<le> now" and "now \<le> t" and "t \<le> until"
  shows "allowance cfg until c (account_state cfg t rows kh) p \<le> allowance cfg until c (account_state cfg now rows kh) p"
proof -
  have aged: "account_state cfg t rows kh = age cfg t (account_state cfg now rows kh)"
    by (rule limit_state_age [OF assms(3,4)])
  show ?thesis
  proof (cases "account_state cfg now rows kh")
    case (Blocked b)
    then show ?thesis using aged assms(5) by (auto simp: allowance_def budget_def)
  next
    case Fresh
    then show ?thesis using aged by simp
  next
    case (Counting n w)
    then have "\<forall>b. account_state cfg t rows kh \<noteq> Blocked b" "\<forall>b. account_state cfg now rows kh \<noteq> Blocked b"
      using aged by auto
    then show ?thesis using budget_age [OF assms, of kh] by (simp add: allowance_unblocked)
  qed
qed

lemma allowance_fail:
  assumes "limits_ok cfg now rows" and "config_ok cfg" and "0 \<le> now" and "now \<le> until"
    and "until < now + rc_auth_window_seconds cfg" and "until < now + rc_auth_lockout_seconds cfg" and "p + 1 \<le> c"
  shows "1 + allowance cfg until c (fail cfg now (rc_auth_max_failures cfg) (account_state cfg now rows kh)) p
    \<le> allowance cfg until c (account_state cfg now rows kh) (p + 1)"
proof (cases "\<exists>b. account_state cfg now rows kh = Blocked b")
  case True
  then show ?thesis by (auto simp: allowance_def)
next
  case False
  let ?st = "account_state cfg now rows kh"
  have b: "1 + budget cfg until (fail cfg now (rc_auth_max_failures cfg) ?st) \<le> budget cfg until ?st"
    using budget_fail [OF assms(1-6)] False by blast
  have pos: "1 \<le> budget cfg until ?st" using budget_positive [OF assms(1-3)] False by blast
  have old: "allowance cfg until c ?st (p + 1) = budget cfg until ?st + int c - 1"
    using False by (intro allowance_unblocked) blast
  show ?thesis
  proof (cases "\<exists>b. fail cfg now (rc_auth_max_failures cfg) ?st = Blocked b")
    case True
    then have "fail cfg now (rc_auth_max_failures cfg) ?st = Blocked (now + rc_auth_lockout_seconds cfg)"
      using False by (cases ?st) (auto simp: counted_def split: if_splits)
    then show ?thesis using old pos assms(6,7) by (simp add: allowance_def)
  next
    case unblocked: False
    have "allowance cfg until c (fail cfg now (rc_auth_max_failures cfg) ?st) p
        = budget cfg until (fail cfg now (rc_auth_max_failures cfg) ?st) + int c - 1"
      using unblocked by (intro allowance_unblocked) blast
    then show ?thesis using old b by simp
  qed
qed

lemma denied_allowance:
  assumes "limits_ok cfg now rows" and cfg: "config_ok cfg" and "0 \<le> now" and "sorted (now # map fst events)"
    and "\<forall>a \<in> set events. fst a \<le> until \<and> until < fst a + rc_auth_window_seconds cfg
           \<and> until < fst a + rc_auth_lockout_seconds cfg"
    and "peak mac cfg kh events (rows, pending) \<le> c"
  shows "int (answers mac cfg kh False events (rows, pending))
    \<le> allowance cfg until c (account_state cfg now rows kh) (in_flight mac cfg kh pending)
      + int (answers mac cfg kh True events (rows, pending)) * (rc_auth_max_failures cfg + int c - 2)"
  using assms(1,3-6)
proof (induction events arbitrary: now rows pending)
  case Nil
  have "0 \<le> allowance cfg until c (account_state cfg now rows kh) (in_flight mac cfg kh pending)"
    using budget_positive [OF Nil(1) cfg Nil(2), of kh until] config_bounds(1) [OF cfg, of "''login.account''"]
    by (cases "account_state cfg now rows kh") (auto simp: allowance_def limit_of_def)
  then show ?case by simp
next
  case (Cons a events)
  obtain t ev where a: "a = (t, ev)" by (cases a)
  obtain rows' pending' where st: "login_step mac cfg t ev (rows, pending) = (rows', pending')" by fastforce
  let ?m = "rc_auth_max_failures cfg" and ?p = "in_flight mac cfg kh pending" and ?p' = "in_flight mac cfg kh pending'"
  let ?T = "int (answers mac cfg kh True events (rows', pending'))"
  have t: "now \<le> t" "0 \<le> t" "t \<le> until" "until < t + rc_auth_window_seconds cfg" "until < t + rc_auth_lockout_seconds cfg"
    using Cons.prems(2-4) by (auto simp: a)
  note ok = limits_ok_later [OF Cons.prems(1) t(1)]
  note S = login_step_effect [OF st ok cfg t(2), of kh]
  have pk: "?p \<le> c" "peak mac cfg kh events (rows', pending') \<le> c" using Cons.prems(5) by (simp_all add: a st)
  have "limits_ok cfg t rows'" using S by blast
  from Cons.IH [OF this t(2) _ _ pk(2)]
  have IH: "int (answers mac cfg kh False events (rows', pending')) \<le> allowance cfg until c (account_state cfg t rows' kh) ?p'
      + ?T * (?m + int c - 2)"
    using Cons.prems(3,4) by (simp add: a)
  note aged = allowance_age [OF Cons.prems(1) cfg Cons.prems(2) t(1,3), of c kh ?p]
  show ?case
  proof (cases "answer mac cfg kh ev pending")
    case None
    then have "account_state cfg t rows' kh = account_state cfg t rows kh"
      and "?p' \<le> ?p \<or> (\<forall>b. account_state cfg t rows kh \<noteq> Blocked b)" using S by auto
    then have "allowance cfg until c (account_state cfg t rows' kh) ?p' \<le> allowance cfg until c (account_state cfg now rows kh) ?p"
      using allowance_mono [of ?p' ?p "account_state cfg t rows kh" cfg until c] aged by simp
    then show ?thesis using IH None by (simp add: a st)
  next
    case (Some verdict)
    then have p: "?p = ?p' + 1" and new: "account_state cfg t rows' kh =
        (if verdict then Fresh else fail cfg t ?m (account_state cfg t rows kh))" using S by auto
    show ?thesis
    proof (cases verdict)
      case True
      have "1 \<le> allowance cfg until c (account_state cfg t rows kh) ?p"
        using allowance_positive [OF ok cfg t(2) _ pk(1)] p by simp
      moreover have "allowance cfg until c (account_state cfg t rows' kh) ?p' = ?m + int c - 1"
        using new True by (simp add: allowance_def budget_def Let_def)
      ultimately show ?thesis using IH aged Some True by (simp add: a st algebra_simps)
    next
      case False
      have "1 + allowance cfg until c (account_state cfg t rows' kh) ?p' \<le> allowance cfg until c (account_state cfg t rows kh) ?p"
        using allowance_fail [OF ok cfg t(2,3,4,5), of ?p' c kh] new False p pk(1) by simp
      then show ?thesis using IH aged Some False by (simp add: a st)
    qed
  qed
qed

text \<open>
  (C37) In a span of time shorter than the window and the lockout, the number of wrong passwords that are
  answered for an account is bounded by the configured maximum \<open>m\<close>, the most requests \<open>c\<close> for it that are in
  flight at once, those \<open>p\<close> in flight at the start and the successful logins \<open>n\<close> on it:
  \<open>2 m + c - 3 + p + n (m + c - 2)\<close>, whatever the state of the table at the start, from any number of addresses
  and spellings of the name, and with any interleaving of the transactions of these and other requests.
\<close>

theorem guesses_bounded:
  assumes "limits_reachable mac cfg now rows" and "config_ok cfg"
    and "sorted (now # map fst events)"
    and "\<forall>a \<in> set events. since \<le> fst a \<and> fst a \<le> until"
    and "until < since + min (rc_auth_window_seconds cfg) (rc_auth_lockout_seconds cfg)"
  shows "int (answers mac cfg (key_hash mac cfg ''login.account'' username) False events (rows, pending))
    \<le> 2 * rc_auth_max_failures cfg + int (peak mac cfg (key_hash mac cfg ''login.account'' username) events (rows, pending)) - 3
      + int (in_flight mac cfg (key_hash mac cfg ''login.account'' username) pending)
      + int (answers mac cfg (key_hash mac cfg ''login.account'' username) True events (rows, pending))
        * (rc_auth_max_failures cfg + int (peak mac cfg (key_hash mac cfg ''login.account'' username) events (rows, pending)) - 2)"
proof -
  let ?kh = "key_hash mac cfg ''login.account'' username"
  have ok: "limits_ok cfg now rows" and now: "0 \<le> now" using reachable_ok assms(1,2) by blast+
  have span: "\<forall>a \<in> set events. fst a \<le> until \<and> until < fst a + rc_auth_window_seconds cfg
      \<and> until < fst a + rc_auth_lockout_seconds cfg" using assms(4,5) by auto
  have "in_flight mac cfg ?kh pending \<le> peak mac cfg ?kh events (rows, pending)" by (cases events) auto
  from allowance_bound [OF ok assms(2) now this] denied_allowance [OF ok assms(2) now assms(3) span order_refl, of mac ?kh pending]
  show ?thesis by (smt (verit))
qed

subsection \<open>A concrete run\<close>

text \<open>
  One failure at instant 0, then attempts at the end of its window and at the start of the next, the last two
  of them at the same time: five wrong passwords are answered and the bound is reached.
\<close>

definition wit_events :: "(int \<times> login_event) list" where
  "wit_events =
     [(299, Login_Request ''Ann'' ''10.0.0.2''), (299, Password_Denied 0),
      (300, Login_Request ''ann '' ''10.0.0.2''), (300, Password_Denied 0),
      (301, Login_Request ''ANN'' ''10.0.0.3''), (301, Login_Request ''bob'' ''10.0.0.5''), (301, Password_Denied 0),
      (302, Login_Request ''ann'' ''10.0.0.3''), (302, Login_Request ''ann'' ''10.0.0.4''), (302, Password_Accepted 0),
      (303, Password_Denied (Suc 0)), (303, Password_Denied 0), (303, Login_Request ''ann'' ''10.0.0.6'')]"

abbreviation wit_account :: string where
  "wit_account \<equiv> key_hash wit_mac wit_rate_config ''login.account'' ''ann''"

lemma wit_denied: "answers wit_mac wit_rate_config wit_account False wit_events (wit_limits, []) = 5"
  by code_simp

lemma wit_accepted: "answers wit_mac wit_rate_config wit_account True wit_events (wit_limits, []) = 0"
  by code_simp

lemma wit_peak: "peak wit_mac wit_rate_config wit_account wit_events (wit_limits, []) = 2"
  by code_simp

theorem guesses_bounded_witness:
  "int (answers wit_mac wit_rate_config wit_account False wit_events (wit_limits, []))
     = 2 * rc_auth_max_failures wit_rate_config + int (peak wit_mac wit_rate_config wit_account wit_events (wit_limits, [])) - 3
   \<and> int (answers wit_mac wit_rate_config wit_account False wit_events (wit_limits, [])) \<le> 2 * 3 + 2 - 3"
proof -
  have span: "sorted (0 # map fst wit_events)" "\<forall>a \<in> set wit_events. 299 \<le> fst a \<and> fst a \<le> 303"
    "303 < 299 + min (rc_auth_window_seconds wit_rate_config) (rc_auth_lockout_seconds wit_rate_config)"
    by (simp_all add: wit_events_def wit_rate_config_def)
  have m: "rc_auth_max_failures wit_rate_config = 3" by (simp add: wit_rate_config_def)
  show ?thesis
    using guesses_bounded [OF wit_limits_reachable wit_config_ok span, of "''ann''" "[]", unfolded wit_accepted wit_peak m]
    unfolding wit_denied wit_peak m by (simp add: in_flight_def)
qed

end
