(* ===== verification/Spec2Isabelle.thy ===== *)
theory Spec2Isabelle
  imports Composition_Witness Authority_Chain_Witness Verification_Witness Session_Lifecycle Change_Witness Policy_Graph_Properties Auth_Login
begin

text \<open>
  A verification library of V-One (VOODOO One), the control plane under \<open>src/voodoo_product\<close> that
  authorizes, grants, dispatches, fences and records executions.

  \<^bold>\<open>The program.\<close>  A user of a workspace asks for an execution.  The control plane evaluates policy and
  permission, issues a signed-by-digest \<^emph>\<open>execution grant\<close>, stores it, consumes it exactly once,
  writes an \<^emph>\<open>outbox\<close> intent in the same transaction, delivers an \<^emph>\<open>envelope\<close> that a runner \<^emph>\<open>admits\<close>
  to its inbox at least once, and hands out \<^emph>\<open>leases\<close> with growing epochs so that only the newest
  runner can complete.  The holder of a lease reads its target with a brokered credential, and an
  independent verifier reads it again before a verdict is stored.  Every document that crosses a boundary is a frozen dataclass with the SHA-256
  digest of its canonical JSON; every transaction appends to a hash-chained audit table.

  \<^bold>\<open>Conventions.\<close>  Strings are lists of code points below 256; JSON has no floats.  An operation of a
  service is one SQLite transaction: a function from the tables to \<open>Inr (result, tables)\<close> or \<open>Inl\<close> an
  exception, after which the tables are unchanged.  Tables are lists of rows in insertion order;
  CHECK, UNIQUE and FOREIGN KEY constraints and triggers are guards that raise \<open>IntegrityError\<close>.
  Exceptions are the values of \<open>py_error\<close>, with the field or reason code as argument.  The digest
  function \<open>H\<close> is the first argument of everything that hashes; theories that need its concrete value
  use \<open>sha256_hex\<close>.  Collision-freeness is a hypothesis about the finitely many texts compared.
  Clock readings, fresh identifiers and the time of audit events are arguments.  The revocation epoch
  authority is a protocol in the code and a function parameter here.

  \<^bold>\<open>Theories, bottom up.\<close>
  \<^item> \<open>Voo_Prelude\<close>: the exception type, the error monad (\<open>bindE\<close>, \<open>thenE\<close>, \<open>guardE\<close>, \<open>catchE\<close>), tables
    (\<open>select\<close>, \<open>key_free\<close>, \<open>unique_on\<close>), and the collection \<open>res_simps\<close>.
  \<^item> \<open>Py_Text\<close>, \<open>Py_Json\<close>, \<open>Iso_Time\<close>, \<open>Sha256\<close>: the parts of the standard library that the sources use:
    \<open>str.strip\<close>, \<open>str\<close> of integers, \<open>json.dumps\<close> with sorted keys and compact separators
    (\<open>evidence_primitives.canonical_json\<close>), \<open>json.loads\<close>, millisecond UTC text and its order, SHA-256 on
    32-bit words.  The JSON parser terminates by the length of its input.
  \<^item> \<open>Contracts\<close>: the validators all contract classes share, and the locales \<open>content_digest\<close> and
    \<open>content_bound\<close> that state what a digest-carrying contract promises; each contract class is an
    interpretation of one of them.
  \<^item> \<open>Trusted_Clock\<close> (\<open>trusted_clock.py\<close>), \<open>Execution_Grant\<close> (\<open>authoritative_grant.py\<close>),
    \<open>Consumption_Witness\<close> (\<open>grant_consumption.py\<close>), \<open>Dispatch_Outbox\<close>, \<open>Dispatch_Envelope\<close>, \<open>Dispatch_Inbox\<close>,
    \<open>Execution_Lease\<close> (the files of these names): the contract classes with field lists, validation,
    digest and decoding.
  \<^item> \<open>Capability_Registry\<close>, \<open>Execution_Capsule\<close>, \<open>Execution_Conformance\<close>: the immutable registries, their
    consistency invariants, resolution, and the conformance authority.
  \<^item> \<open>Execution_Contract\<close> (\<open>execution_contract.py\<close>), \<open>Authorization_Snapshot\<close>, \<open>Monotonic_Authority\<close>,
    \<open>Precondition_Witness\<close> and \<open>Precondition_Guard\<close> (the files of these names), \<open>Grant_Issuer\<close>
    (\<open>AuthoritativeGrantIssuer\<close> of \<open>authoritative_grant.py\<close>): from the approved snapshot to the issued grant.
    \<open>Grant_Issuer_Properties\<close> shows what an issued grant guarantees and that the monotonicity check decides
    inclusion of authority.
  \<^item> \<open>Policy_Authority\<close> (\<open>policy_authority.py\<close>), \<open>Target_Binding\<close> (\<open>target_binding.py\<close>), \<open>Approval_Evidence\<close>
    (\<open>approval_evidence_resolver.py\<close>, \<open>approval_certificate.py\<close>), \<open>Authority_Witness\<close>
    (\<open>authority_witness.py\<close>): the facts an authorization rests on.  \<open>Snapshot_Store\<close>
    (\<open>authorization_snapshot_store.py\<close>) keeps snapshots, \<open>Snapshot_Creator\<close>
    (\<open>authorization_snapshot_creator.py\<close>) collects the facts and creates one.  \<open>Snapshot_Roundtrip\<close> decodes
    stored snapshots; \<open>Snapshot_Creator_Properties\<close> shows that a snapshot rests on the stored approvals,
    that retries of a creation only compare, and that the issuer finds the authority evidence it wrote.
  \<^item> \<open>Evidence_Chain\<close> (\<open>audit.py\<close>, \<open>receipt.py\<close>): the two hash-chained tables as interpretations of
    \<open>hash_chain\<close>.
  \<^item> \<open>Core_Db\<close>, \<open>Workspace\<close>, \<open>Session_Lifecycle\<close>, \<open>Operational_Safety\<close>, \<open>Permission_Authority\<close>: the identity
    tables, workspaces and members, the session allowlist, the emergency stop, permission decisions.
  \<^item> \<open>Change_Request\<close> (\<open>approval_policy.py\<close>, \<open>change_request.py\<close>), \<open>Execution\<close> (\<open>execution.py\<close>): the request
    workflow with the triggers of migration 0008.  \<open>Change_Lifecycle\<close> has its step relation and
    invariants, \<open>Change_Properties\<close> the properties, \<open>Change_Witness\<close> a run with digests kept symbolic.
  \<^item> \<open>Policy_Graph\<close> (\<open>policy_decision_graph.py\<close>) with \<open>Policy_Graph_Properties\<close>: the read-only projection, its
    verdict against the gates stated on the facts, and its independence of the order of the facts.
  \<^item> \<open>Auth_Rate_Limit\<close> (\<open>auth_rate_limit.py\<close>) with \<open>Auth_Rate_Properties\<close>: the lockout of logins, refined to an
    automaton per key.  \<open>Auth_Login\<close> has the login and bootstrap handlers of \<open>api.py\<close> as concurrent requests of
    two transactions each, with the password check between them, and a tight bound on the wrong passwords
    answered for one account.  Clock readings are taken to come in the order of the transactions.
  \<^item> \<open>Trust_Db\<close>: the tables of migrations 0010 to 0013 with their constraints and triggers.
  \<^item> \<open>Grant_Store\<close> (\<open>DurableGrantService\<close>, \<open>DurableDispatchOutboxService\<close>), \<open>Inbox_Store\<close>
    (\<open>DurableDispatchInboxService\<close>), \<open>Lease_Store\<close> (\<open>DurableExecutionLeaseService\<close>): the transactions.
  \<^item> \<open>Lease_Invariant\<close>, \<open>Delivery\<close>, \<open>Delivery_Progress\<close>, \<open>Grant_Lifecycle\<close>: step relations of the delivery services and of the
    whole grant pipeline, their invariants, and the properties.  A grant is consumed by \<open>consume\<close> or, as the
    pipelines do, by \<open>consume_and_enqueue\<close>; the code writes the checks of both out, and so does the model.
  \<^item> \<open>Grant_Composition\<close>: the issuer, the grant tables and the delivery together: stored rows decode, and the
    approvals still bound the grant when it is consumed.  \<open>Authority_Chain\<close>: the snapshot creator in front of
    them, from the reviewed change request to the use of the grant.
  \<^item> \<open>Provider_Contracts\<close> (Git names, boolean fields), \<open>Runner_Identity\<close> (\<open>runner_identity.py\<close>),
    \<open>Credential_Broker\<close> (\<open>credential_broker.py\<close>), \<open>Isolated_Runner\<close> (\<open>isolated_runner.py\<close>), \<open>Current_Fence\<close>
    (\<open>durable_current_fence.py\<close>, \<open>durable_coordinator.py\<close>), \<open>Github_Read\<close> (\<open>github_read_provider.py\<close>): the holder of
    a lease gets a read-only runtime, a credential and an activation, passes the fence and asks the provider.
  \<^item> \<open>Verifier_Identity\<close>, \<open>Verifier_Credential\<close>, \<open>Verifier_Observation\<close>, \<open>Verification_Result\<close> (the files of
    these names) and \<open>Verification_Store\<close> (\<open>verification_result_persistence.py\<close>, migration 0015): an independent
    verifier reads the same target, the readback compares both observations, the store keeps one result per
    execution.  \<open>Verification_Store\<close> has the step relation of the whole system.  \<open>Verification_Properties\<close>: a
    runner reads only inside the newest lease, the verdict is the agreement of two independent reads, and
    stored verdicts belong to completed executions and are final.
  \<^item> \<open>Witness_Values\<close>, \<open>Delivery_Witness\<close>, \<open>Grant_Witness\<close>, \<open>Grant_Issuer_Witness\<close>, \<open>Composition_Witness\<close>,
    \<open>Snapshot_Creator_Witness\<close>, \<open>Authority_Chain_Witness\<close>, \<open>Runner_Witness\<close>,
    \<open>Verification_Witness\<close>: a concrete run from the snapshot to a completed lease, a read and its verification,
    on which the properties are instantiated.

  \<^bold>\<open>Interfaces.\<close>  \<open>hex_digest\<close> (a digest is 64 hex digits; SHA-256), \<open>content_digest\<close>/\<open>content_bound\<close> (each
  contract class), \<open>hash_chain\<close> (audit and receipts), \<open>growing_table\<close> (tables no step deletes from).

  \<^bold>\<open>Termination.\<close>  No definition uses fuel: loops over tables and dictionaries are structural; the JSON
  reader, the SHA-256 block loop and the search for an unused node identifier (\<open>unique_loop\<close>) are total
  functions with measures.

  \<^bold>\<open>Not modelled.\<close>  The PRAGMA-based schema checks at start-up, the SQLite driver, configuration outside
  the rate limits, HTTP routes other than the two handlers that use the rate limits, and the listing queries that only feed the user interface.  The transports
  to GitHub and the runtime providers are parameters of the handlers; the runtimes that wire them to
  subprocesses, and the pilots built on them, are I/O around contracts of the kind modelled here.  The
  JSON decoders of the two credential policies, which only tests call, are left out.  Version 1 of grants and receipts in \<open>execution_contract.py\<close> is superseded by the
  modelled version 2.  Values of a wrong Python type that a constructor refuses by \<open>isinstance\<close> do not
  occur where the model has typed records; decoders take arbitrary JSON.  Key digests, password hashes and
  tokens rest on \<open>hmac\<close> and \<open>hashlib\<close>, which are parameters.
\<close>

end
